(* ===== verification/Rust_Prelude.thy ===== *)
theory Rust_Prelude
  imports Main "HOL-Library.Multiset" "HOL-Library.Word" "HOL-Library.List_Lexorder" "HOL-Library.Char_ord"
begin

text \<open>
  The part of Rust's control flow that the modelled crates use, for all theories of the development:
  \<^item> \<open>Result\<close> with the question-mark operator (\<open>rbind\<close>), \<open>for\<close> loops that may return early
    (\<open>each_res\<close>, \<open>each_fresh\<close>, \<open>each_unique\<close>, \<open>fold_res\<close>) and \<open>collect::<Result<Vec<_>>>\<close>
    (\<open>map_res\<close>), with the collection \<open>res_simps\<close> of lemmas that say when they succeed;
  \<^item> the stable sort: \<open>sort_key\<close> on permutations, and lists that are the unique stable sort of
    another list.
  Ordered maps and sets are in \<open>Rust_Collections\<close>, strings in \<open>Rust_Text\<close>, integers, floats and
  JSON values in \<open>Rust_Values\<close>.
\<close>

named_theorems res_simps
  \<open>simplification of results: when an early return, a loop or a collect succeeds\<close>

section \<open>Results and early return\<close>

definition rbind :: "'e + 'a \<Rightarrow> ('a \<Rightarrow> 'e + 'b) \<Rightarrow> 'e + 'b" where
  "rbind r f = (case r of Inl e \<Rightarrow> Inl e | Inr x \<Rightarrow> f x)"

abbreviation rseq :: "'e + 'a \<Rightarrow> 'e + 'b \<Rightarrow> 'e + 'b" where
  "rseq r s \<equiv> rbind r (\<lambda>_. s)"

definition is_ok :: "'e + 'a \<Rightarrow> bool" where
  "is_ok r = (case r of Inl _ \<Rightarrow> False | Inr _ \<Rightarrow> True)"

definition ok_or :: "'a option \<Rightarrow> 'e \<Rightarrow> 'e + 'a" where
  "ok_or x e = (case x of None \<Rightarrow> Inl e | Some y \<Rightarrow> Inr y)"

lemma rbind_simps [simp]:
  "rbind (Inl e) f = Inl e"
  "rbind (Inr x) f = f x"
  by (simp_all add: rbind_def)

lemma rbind_eq_Inr [res_simps]: "rbind r f = Inr y \<longleftrightarrow> (\<exists>x. r = Inr x \<and> f x = Inr y)"
  by (cases r) auto

lemma rbind_eq_Inl: "rbind r f = Inl e \<longleftrightarrow> r = Inl e \<or> (\<exists>x. r = Inr x \<and> f x = Inl e)"
  by (cases r) auto

lemma rbind_cong [fundef_cong]:
  "r = s \<Longrightarrow> (\<And>x. s = Inr x \<Longrightarrow> f x = g x) \<Longrightarrow> rbind r f = rbind s g"
  by (cases s) auto

lemma rbind_assoc: "rbind (rbind r f) g = rbind r (\<lambda>x. rbind (f x) g)"
  by (cases r) auto

lemma rbind_Inr_right [simp]: "rbind r Inr = r"
  by (cases r) auto

lemma rbind_unit_right [simp]: "rbind r (\<lambda>_. Inr ()) = r" for r :: "'e + unit"
  by (cases r) auto

lemma is_ok_simps [simp]: "is_ok (Inl e) = False" "is_ok (Inr x) = True"
  by (simp_all add: is_ok_def)

lemma is_ok_iff: "is_ok r \<longleftrightarrow> (\<exists>x. r = Inr x)"
  by (cases r) auto

lemma is_ok_unit: "is_ok r \<longleftrightarrow> r = Inr ()"
  by (cases r) auto

lemma is_ok_rbind [simp]: "is_ok (rbind r f) \<longleftrightarrow> (\<exists>x. r = Inr x \<and> is_ok (f x))"
  by (cases r) auto

lemma if_Inl_eq_Inr [res_simps]:
  "((if b then Inl e else r) = Inr y) \<longleftrightarrow> \<not> b \<and> r = Inr y"
  "((if b then r else Inl e) = Inr y) \<longleftrightarrow> b \<and> r = Inr y"
  by auto

lemma ok_or_eq_Inr [res_simps]: "ok_or x e = Inr y \<longleftrightarrow> x = Some y"
  by (cases x) (auto simp: ok_or_def)

lemma ok_or_simps [simp]: "ok_or None e = Inl e" "ok_or (Some y) e = Inr y"
  by (simp_all add: ok_or_def)

section \<open>Loops that may return early\<close>

fun each_res :: "('a \<Rightarrow> 'e + unit) \<Rightarrow> 'a list \<Rightarrow> 'e + unit" where
  "each_res f [] = Inr ()"
| "each_res f (x # xs) = rseq (f x) (each_res f xs)"

fun map_res :: "('a \<Rightarrow> 'e + 'b) \<Rightarrow> 'a list \<Rightarrow> 'e + 'b list" where
  "map_res f [] = Inr []"
| "map_res f (x # xs) = rbind (f x) (\<lambda>y. rbind (map_res f xs) (\<lambda>ys. Inr (y # ys)))"

fun fold_res :: "('s \<Rightarrow> 'a \<Rightarrow> 'e + 's) \<Rightarrow> 's \<Rightarrow> 'a list \<Rightarrow> 'e + 's" where
  "fold_res f s [] = Inr s"
| "fold_res f s (x # xs) = rbind (f s x) (\<lambda>t. fold_res f t xs)"

text \<open>
  The loop of most validators: \<open>for x in xs \<open>{ pre(x)?; if !seen.insert(key(x)) { return
  Err(dup(x)) } post(x)?; }\<close>\<close>. The argument \<open>seen\<close> is the \<open>BTreeSet\<close> of the keys met so far.
\<close>

fun each_fresh ::
  "('a \<Rightarrow> 'e + unit) \<Rightarrow> ('a \<Rightarrow> 'k) \<Rightarrow> ('a \<Rightarrow> 'e) \<Rightarrow> ('a \<Rightarrow> 'e + unit) \<Rightarrow> 'k list \<Rightarrow> 'a list \<Rightarrow> 'e + unit"
where
  "each_fresh pre key dup post seen [] = Inr ()"
| "each_fresh pre key dup post seen (x # xs) =
     rseq (pre x)
       (if key x \<in> set seen then Inl (dup x)
        else rseq (post x) (each_fresh pre key dup post (key x # seen) xs))"

lemma each_res_ok [res_simps]: "each_res f xs = Inr () \<longleftrightarrow> (\<forall>x\<in>set xs. f x = Inr ())"
  by (induction xs) (auto simp: rbind_eq_Inr)

text \<open>A validator that only looks for a repeated key.\<close>

definition each_unique :: "('a \<Rightarrow> 'k) \<Rightarrow> ('a \<Rightarrow> 'e) \<Rightarrow> 'a list \<Rightarrow> 'e + unit" where
  "each_unique key dup xs = each_fresh (\<lambda>_. Inr ()) key dup (\<lambda>_. Inr ()) [] xs"

lemma each_res_cong [fundef_cong]:
  "xs = ys \<Longrightarrow> (\<And>x. x \<in> set ys \<Longrightarrow> f x = g x) \<Longrightarrow> each_res f xs = each_res g ys"
proof -
  have "(\<And>x. x \<in> set ys \<Longrightarrow> f x = g x) \<Longrightarrow> each_res f ys = each_res g ys"
    by (induction ys) auto
  then show "xs = ys \<Longrightarrow> (\<And>x. x \<in> set ys \<Longrightarrow> f x = g x) \<Longrightarrow> each_res f xs = each_res g ys"
    by simp
qed

lemma map_res_cong [fundef_cong]:
  "xs = ys \<Longrightarrow> (\<And>x. x \<in> set ys \<Longrightarrow> f x = g x) \<Longrightarrow> map_res f xs = map_res g ys"
proof -
  have "(\<And>x. x \<in> set ys \<Longrightarrow> f x = g x) \<Longrightarrow> map_res f ys = map_res g ys"
    by (induction ys) auto
  then show "xs = ys \<Longrightarrow> (\<And>x. x \<in> set ys \<Longrightarrow> f x = g x) \<Longrightarrow> map_res f xs = map_res g ys"
    by simp
qed

lemma each_fresh_ok [res_simps]:
  "each_fresh pre key dup post seen xs = Inr () \<longleftrightarrow>
     distinct (map key xs) \<and> (\<forall>x\<in>set xs. key x \<notin> set seen) \<and>
     (\<forall>x\<in>set xs. pre x = Inr () \<and> post x = Inr ())"
  by (induction xs arbitrary: seen) (auto simp: rbind_eq_Inr image_iff)

lemma each_unique_ok [res_simps]: "each_unique key dup xs = Inr () \<longleftrightarrow> distinct (map key xs)"
  by (simp add: each_unique_def each_fresh_ok)

lemma map_res_eq_Inr [res_simps]:
  "map_res f xs = Inr ys \<longleftrightarrow> list_all2 (\<lambda>x y. f x = Inr y) xs ys"
  by (induction xs arbitrary: ys) (auto simp: rbind_eq_Inr list_all2_Cons1)

lemma map_res_pure: "(\<And>x. x \<in> set xs \<Longrightarrow> f x = Inr (g x)) \<Longrightarrow> map_res f xs = Inr (map g xs)"
  by (induction xs) auto

lemma map_res_is_ok: "is_ok (map_res f xs) \<longleftrightarrow> (\<forall>x\<in>set xs. is_ok (f x))"
  by (induction xs) (auto simp: is_ok_iff rbind_eq_Inr)

lemma map_res_length: "map_res f xs = Inr ys \<Longrightarrow> length ys = length xs"
  by (auto simp: map_res_eq_Inr dest: list_all2_lengthD)

lemma map_res_nth: "map_res f xs = Inr ys \<Longrightarrow> i < length xs \<Longrightarrow> f (xs ! i) = Inr (ys ! i)"
  by (auto simp: map_res_eq_Inr dest: list_all2_nthD)

lemma map_res_map:
  assumes "\<And>x y. f x = Inr y \<longleftrightarrow> P x \<and> y = g x"
  shows "map_res f xs = Inr ys \<longleftrightarrow> (\<forall>x\<in>set xs. P x) \<and> ys = map g xs"
  by (induction xs arbitrary: ys) (auto simp: rbind_eq_Inr assms)

lemma fold_res_append: "fold_res f s (xs @ ys) = rbind (fold_res f s xs) (\<lambda>t. fold_res f t ys)"
  by (induction xs arbitrary: s) (auto simp: rbind_def split: sum.splits)

lemma fold_res_invariant:
  assumes "fold_res f s xs = Inr t" and "P s"
    and "\<And>u x v. x \<in> set xs \<Longrightarrow> P u \<Longrightarrow> f u x = Inr v \<Longrightarrow> P v"
  shows "P t"
  using assms
proof (induction xs arbitrary: s)
  case Nil
  then show ?case by simp
next
  case (Cons x xs)
  then obtain u where u: "f s x = Inr u" "fold_res f u xs = Inr t"
    by (auto simp: rbind_eq_Inr)
  have "P u" using Cons.prems(2,3) u(1) by (meson list.set_intros(1))
  with Cons.IH u(2) Cons.prems(3) show ?case by (meson list.set_intros(2))
qed

section \<open>Indexed reads\<close>

text \<open>\<open>xs[i]\<close> in Rust panics out of range; \<open>nth_opt\<close> makes the failure a value.\<close>

definition nth_opt :: "'a list \<Rightarrow> nat \<Rightarrow> 'a option" where
  "nth_opt xs i = (if i < length xs then Some (xs ! i) else None)"

lemma nth_opt_in [simp]: "i < length xs \<Longrightarrow> nth_opt xs i = Some (xs ! i)"
  by (simp add: nth_opt_def)

lemma nth_opt_eq_Some: "nth_opt xs i = Some x \<longleftrightarrow> i < length xs \<and> xs ! i = x"
  by (auto simp: nth_opt_def)

text \<open>\<open>xs.iter().enumerate()\<close>: every index with its element.\<close>

lemma ball_enumerate [res_simps]:
  "(\<forall>x\<in>set (List.enumerate 0 xs). P x) \<longleftrightarrow> (\<forall>i<length xs. P (i, xs ! i))"
  by (auto simp: in_set_enumerate_eq)

text \<open>Two lists of the same length, read in step.\<close>

lemma ball_zip_nth:
  "length xs = length ys \<Longrightarrow> (\<forall>x\<in>set (zip xs ys). P x) \<longleftrightarrow> (\<forall>i<length ys. P (xs ! i, ys ! i))"
  by (auto simp: set_zip)

lemma ball_zip_snd:
  assumes "length xs = length ys"
  shows "(\<forall>x\<in>set (zip xs ys). P (snd x)) \<longleftrightarrow> (\<forall>y\<in>set ys. P y)"
proof -
  have "set ys = snd ` set (zip xs ys)" using assms by (metis map_snd_zip set_map)
  then show ?thesis by simp
qed

lemma each_fresh_zip:
  assumes "length xs = length ys"
  shows "each_fresh (\<lambda>_. Inr ()) fst dup (\<lambda>x. f (snd x)) [] (zip xs ys) = Inr () \<longleftrightarrow>
    distinct xs \<and> (\<forall>y\<in>set ys. f y = Inr ())"
  using assms ball_zip_snd [OF assms, of "\<lambda>y. f y = Inr ()"] by (simp add: each_fresh_ok)

text \<open>\<open>xs.iter().find(p)\<close> is \<open>List.find\<close>; \<open>filter_map\<close> is \<open>List.map_filter\<close>.\<close>

lemma find_some_iff: "(\<exists>x. List.find P xs = Some x) \<longleftrightarrow> (\<exists>x\<in>set xs. P x)"
  by (auto simp: find_None_iff simp flip: not_None_eq)

lemma find_some_mem: "List.find P xs = Some x \<Longrightarrow> x \<in> set xs \<and> P x"
  by (auto simp: find_Some_iff)

text \<open>The first success of a search loop that returns from its body.\<close>

fun first_some :: "('a \<Rightarrow> 'b option) \<Rightarrow> 'a list \<Rightarrow> 'b option" where
  "first_some f [] = None"
| "first_some f (x # xs) = (case f x of Some y \<Rightarrow> Some y | None \<Rightarrow> first_some f xs)"

lemma first_some_mem: "first_some f xs = Some y \<Longrightarrow> \<exists>x\<in>set xs. f x = Some y"
  by (induction xs) (auto split: option.splits)

lemma first_some_None: "first_some f xs = None \<longleftrightarrow> (\<forall>x\<in>set xs. f x = None)"
  by (induction xs) (auto split: option.splits)

lemma those_eq_Some: "those xs = Some ys \<longleftrightarrow> xs = map Some ys"
  by (induction xs arbitrary: ys) (auto split: option.splits)

lemma set_map_filter: "set (List.map_filter f xs) = {y. \<exists>x\<in>set xs. f x = Some y}"
  by (induction xs) (auto simp: map_filter_simps split: option.splits)

text \<open>
  The order-preserving deduplication through a \<open>BTreeSet\<close> of seen keys.
\<close>

fun dedup_first :: "'a list \<Rightarrow> 'a list \<Rightarrow> 'a list" where
  "dedup_first seen [] = []"
| "dedup_first seen (x # xs) =
     (if x \<in> set seen then dedup_first seen xs else x # dedup_first (x # seen) xs)"

lemma set_dedup_first: "set (dedup_first seen xs) = set xs - set seen"
  by (induction xs arbitrary: seen) auto

lemma distinct_dedup_first: "distinct (dedup_first seen xs)"
  by (induction xs arbitrary: seen) (auto simp: set_dedup_first)

lemma dedup_first_id: "distinct xs \<Longrightarrow> set xs \<inter> set seen = {} \<Longrightarrow> dedup_first seen xs = xs"
  by (induction xs arbitrary: seen) auto

lemma dedup_first_seen_cong: "set s = set t \<Longrightarrow> dedup_first s xs = dedup_first t xs"
proof (induction xs arbitrary: s t)
  case Nil
  then show ?case by simp
next
  case (Cons x xs)
  have "dedup_first s xs = dedup_first t xs" by (rule Cons.IH) (rule Cons.prems)
  moreover have "dedup_first (x # s) xs = dedup_first (x # t) xs"
    by (rule Cons.IH) (use Cons.prems in simp)
  ultimately show ?case using Cons.prems by (simp only: dedup_first.simps)
qed

lemma dedup_first_append:
  "dedup_first seen (xs @ ys) = dedup_first seen xs @ dedup_first (xs @ seen) ys"
proof (induction xs arbitrary: seen)
  case Nil
  then show ?case by simp
next
  case (Cons x xs)
  have 1: "dedup_first (xs @ x # seen) ys = dedup_first (x # xs @ seen) ys"
    by (rule dedup_first_seen_cong) auto
  have 2: "dedup_first (xs @ seen) ys = dedup_first (x # xs @ seen) ys" if "x \<in> set seen"
    by (rule dedup_first_seen_cong) (use that in auto)
  show ?case
  proof (cases "x \<in> set seen")
    case True
    then show ?thesis using Cons.IH [of seen] 2 by simp
  next
    case False
    then show ?thesis using Cons.IH [of "x # seen"] 1 by simp
  qed
qed

lemma length_dedup_first: "length (dedup_first [] xs) = card (set xs)"
  by (metis distinct_card distinct_dedup_first set_dedup_first Diff_empty list.set(1))

section \<open>Stable sorting\<close>

text \<open>\<open>sort_by\<close> and \<open>sort_by_key\<close> are stable: \<open>sort_key\<close>. Without ties the input order is lost.\<close>

lemma distinct_map_perm: "mset xs = mset ys \<Longrightarrow> distinct (map f xs) \<longleftrightarrow> distinct (map f ys)"
  by (metis mset_eq_imp_distinct_iff mset_map)

lemma sort_key_perm:
  assumes "mset xs = mset ys" and "distinct (map f xs)"
  shows "sort_key f xs = sort_key f ys"
proof -
  have sets: "set xs = set ys" using assms(1) by (rule mset_eq_setD)
  have "distinct (map f ys)" using assms distinct_map_perm by blast
  then have "map f (sort_key f xs) = map f (sort_key f ys)"
    using assms(2) sets
    by (intro sorted_distinct_set_unique) (auto simp: distinct_map distinct_sort)
  moreover have "inj_on f (set (sort_key f xs) \<union> set (sort_key f ys))"
    using assms(2) sets by (simp add: distinct_map)
  ultimately show ?thesis by (simp add: map_inj_on)
qed

lemma sort_key_unique:
  "mset xs = mset ys \<Longrightarrow> distinct (map f xs) \<Longrightarrow> sorted (map f ys) \<Longrightarrow> sort_key f xs = ys"
  using sort_key_perm sort_key_id_if_sorted by metis

lemma sorted_wrt_concat_map:
  assumes "\<And>x. x \<in> set xs \<Longrightarrow> sorted_wrt R (B x)"
    and "sorted_wrt (\<lambda>x y. \<forall>a\<in>set (B x). \<forall>b\<in>set (B y). R a b) xs"
  shows "sorted_wrt R (concat (map B xs))"
  using assms by (induction xs) (auto simp: sorted_wrt_append)

text \<open>Grouping a list by a key, in the order of the keys.\<close>

lemma mset_group_by:
  "distinct ks \<Longrightarrow>
   mset (concat (map (\<lambda>k. filter (\<lambda>x. g x = k) xs) ks)) = filter_mset (\<lambda>x. g x \<in> set ks) (mset xs)"
proof (induction ks)
  case (Cons k ks)
  have "filter_mset (\<lambda>x. g x = k) (mset xs) + filter_mset (\<lambda>x. g x \<in> set ks) (mset xs) =
      filter_mset (\<lambda>x. g x \<in> set (k # ks)) (mset xs)"
    using Cons.prems by (intro multiset_eqI) auto
  with Cons show ?case by simp
qed simp

lemma mset_group_all:
  assumes "distinct ks" and "\<forall>x\<in>set xs. g x \<in> set ks"
  shows "mset (concat (map (\<lambda>k. filter (\<lambda>x. g x = k) xs) ks)) = mset xs"
proof -
  have "filter (\<lambda>x. g x \<in> set ks) xs = xs" using assms(2) by simp
  then show ?thesis using mset_group_by [OF assms(1), of g xs] by (metis mset_filter)
qed

end
