(* ===== verification/Rust_Text.thy ===== *)
theory Rust_Text
  imports Rust_Prelude
begin

text \<open>
  Rust strings. A \<open>String\<close> is its UTF-8 bytes, so \<open>len()\<close> is \<open>length\<close> and \<open>Ord\<close> is the library's
  lexicographic order on \<open>string\<close>. \<open>chars\<close> decodes the scalar values, on which \<open>trim\<close> (White_Space)
  and \<open>char::is_control\<close> (category Cc) are defined as in the Unicode tables Rust uses.
\<close>

section \<open>Scalar values\<close>

fun utf8_scalars :: "nat list \<Rightarrow> nat list" where
  "utf8_scalars [] = []"
| "utf8_scalars (a # bs) =
     (if a < 128 then a # utf8_scalars bs
      else if a < 224 then
        (case bs of b # cs \<Rightarrow> ((a - 192) * 64 + (b - 128)) # utf8_scalars cs | _ \<Rightarrow> [65533])
      else if a < 240 then
        (case bs of
           b # c # cs \<Rightarrow> ((a - 224) * 4096 + (b - 128) * 64 + (c - 128)) # utf8_scalars cs
         | _ \<Rightarrow> [65533])
      else
        (case bs of
           b # c # d # cs \<Rightarrow>
             ((a - 240) * 262144 + (b - 128) * 4096 + (c - 128) * 64 + (d - 128)) # utf8_scalars cs
         | _ \<Rightarrow> [65533]))"

definition chars :: "string \<Rightarrow> nat list" where
  "chars s = utf8_scalars (map of_char s)"

definition is_whitespace :: "nat \<Rightarrow> bool" where
  "is_whitespace c \<longleftrightarrow>
     9 \<le> c \<and> c \<le> 13 \<or> c = 32 \<or> c = 133 \<or> c = 160 \<or> c = 5760 \<or>
     8192 \<le> c \<and> c \<le> 8202 \<or> c = 8232 \<or> c = 8233 \<or> c = 8239 \<or> c = 8287 \<or> c = 12288"

definition is_control :: "nat \<Rightarrow> bool" where
  "is_control c \<longleftrightarrow> c < 32 \<or> 127 \<le> c \<and> c < 160"

text \<open>\<open>s.trim().is_empty()\<close>\<close>

definition is_blank :: "string \<Rightarrow> bool" where
  "is_blank s = list_all is_whitespace (chars s)"

text \<open>\<open>s.chars().any(char::is_control)\<close>\<close>

definition has_control :: "string \<Rightarrow> bool" where
  "has_control s = list_ex is_control (chars s)"

text \<open>\<open>s == s.trim()\<close>\<close>

definition is_trimmed :: "string \<Rightarrow> bool" where
  "is_trimmed s =
     (case chars s of [] \<Rightarrow> True
      | c # cs \<Rightarrow> \<not> is_whitespace c \<and> \<not> is_whitespace (last (c # cs)))"

section \<open>ASCII bytes\<close>

definition byte_of :: "char \<Rightarrow> nat" where
  "byte_of c = of_char c"

definition is_ascii_digit :: "char \<Rightarrow> bool" where
  "is_ascii_digit c \<longleftrightarrow> 48 \<le> byte_of c \<and> byte_of c \<le> 57"

definition is_ascii_alphabetic :: "char \<Rightarrow> bool" where
  "is_ascii_alphabetic c \<longleftrightarrow>
     65 \<le> byte_of c \<and> byte_of c \<le> 90 \<or> 97 \<le> byte_of c \<and> byte_of c \<le> 122"

definition is_ascii_alphanumeric :: "char \<Rightarrow> bool" where
  "is_ascii_alphanumeric c \<longleftrightarrow> is_ascii_digit c \<or> is_ascii_alphabetic c"

definition is_ascii_hexdigit :: "char \<Rightarrow> bool" where
  "is_ascii_hexdigit c \<longleftrightarrow>
     is_ascii_digit c \<or> 65 \<le> byte_of c \<and> byte_of c \<le> 70 \<or> 97 \<le> byte_of c \<and> byte_of c \<le> 102"

definition to_ascii_lower :: "char \<Rightarrow> char" where
  "to_ascii_lower c =
     (if 65 \<le> byte_of c \<and> byte_of c \<le> 90 then char_of (byte_of c + 32) else c)"

definition eq_ignore_ascii_case :: "string \<Rightarrow> string \<Rightarrow> bool" where
  "eq_ignore_ascii_case s t \<longleftrightarrow> map to_ascii_lower s = map to_ascii_lower t"

text \<open>Bytes 33 to 126: neither white space nor control, and each one a scalar of its own.\<close>

definition is_ascii_graphic :: "char \<Rightarrow> bool" where
  "is_ascii_graphic c \<longleftrightarrow> 33 \<le> byte_of c \<and> byte_of c \<le> 126"

lemmas ascii_class_defs =
  is_ascii_digit_def is_ascii_alphabetic_def is_ascii_alphanumeric_def is_ascii_hexdigit_def
  is_ascii_graphic_def byte_of_def

lemma utf8_scalars_ascii: "\<forall>b\<in>set bs. b < 128 \<Longrightarrow> utf8_scalars bs = bs"
  by (induction bs) auto

lemma chars_graphic: "list_all is_ascii_graphic s \<Longrightarrow> chars s = map byte_of s"
  unfolding chars_def
  by (subst utf8_scalars_ascii) (auto simp: list_all_iff is_ascii_graphic_def byte_of_def)

lemma not_whitespace_graphic: "33 \<le> c \<Longrightarrow> c \<le> 126 \<Longrightarrow> \<not> is_whitespace c"
  by (auto simp: is_whitespace_def)

lemma is_blank_graphic: "list_all is_ascii_graphic s \<Longrightarrow> is_blank s \<longleftrightarrow> s = []"
  by (cases s)
    (auto simp: is_blank_def chars_graphic, auto simp: is_ascii_graphic_def not_whitespace_graphic)

lemma has_control_graphic: "list_all is_ascii_graphic s \<Longrightarrow> \<not> has_control s"
  by (auto simp: has_control_def chars_graphic list_ex_iff list_all_iff is_control_def
      is_ascii_graphic_def)

lemma is_trimmed_graphic: "list_all is_ascii_graphic s \<Longrightarrow> is_trimmed s"
proof (cases s)
  case (Cons c cs)
  assume g: "list_all is_ascii_graphic s"
  then have "\<forall>b\<in>set (map byte_of s). \<not> is_whitespace b"
    by (auto simp: list_all_iff is_ascii_graphic_def not_whitespace_graphic)
  moreover have "last (map byte_of s) \<in> set (map byte_of s)" "map byte_of s \<noteq> []"
    using Cons by (auto intro!: last_in_set simp del: set_map)
  ultimately show ?thesis
    using g Cons by (auto simp: is_trimmed_def chars_graphic simp del: last.simps)
qed (simp add: is_trimmed_def chars_def)

lemma is_blank_Nil [simp]: "is_blank []"
  by (simp add: is_blank_def chars_def)

text \<open>The lower-case hexadecimal rendering of a digest: \<open>write!(out, "{byte:02x}")\<close>.\<close>

definition hex_digit :: "nat \<Rightarrow> char" where
  "hex_digit n = (if n < 10 then char_of (n + 48) else char_of (n + 87))"

definition hex_byte :: "8 word \<Rightarrow> string" where
  "hex_byte b = [hex_digit (unat b div 16), hex_digit (unat b mod 16)]"

lemma hex_digit_hexdigit: "n < 16 \<Longrightarrow> is_ascii_hexdigit (hex_digit n)"
  by (auto simp: hex_digit_def ascii_class_defs)

lemma hex_digit_inj: "m < 16 \<Longrightarrow> n < 16 \<Longrightarrow> hex_digit m = hex_digit n \<Longrightarrow> m = n"
proof -
  assume "m < 16" "n < 16" "hex_digit m = hex_digit n"
  moreover from this have "(of_char (hex_digit m) :: nat) = of_char (hex_digit n)" by simp
  ultimately show "m = n" by (auto simp: hex_digit_def split: if_splits)
qed

lemma hex_byte_inj: "hex_byte a = hex_byte b \<Longrightarrow> a = b"
proof -
  assume eq: "hex_byte a = hex_byte b"
  have bound: "unat c div 16 < 16" for c :: "8 word"
    using unsigned_less [of c, where ?'a = nat] by simp
  have "unat a div 16 = unat b div 16" "unat a mod 16 = unat b mod 16"
    using eq bound by (auto simp: hex_byte_def intro: hex_digit_inj)
  then have "unat a = unat b" by (metis div_mult_mod_eq)
  then show "a = b" by (simp add: word_unat_eq_iff)
qed

section \<open>Decimal numbers\<close>

text \<open>\<open>format!("{n}")\<close> for an unsigned integer.\<close>

fun decimal :: "nat \<Rightarrow> string" where
  "decimal n = (if n < 10 then [] else decimal (n div 10)) @ [char_of (48 + n mod 10)]"

declare decimal.simps [simp del]

definition decimal_value :: "string \<Rightarrow> nat" where
  "decimal_value s = foldl (\<lambda>v c. 10 * v + (of_char c - 48)) 0 s"

lemma decimal_value_decimal [simp]: "decimal_value (decimal n) = n"
proof (induction n rule: decimal.induct)
  case (1 n)
  have digit: "of_char (char_of (48 + n mod 10) :: char) - 48 = n mod 10" by simp
  show ?case
    using 1 by (subst decimal.simps) (auto simp: decimal_value_def digit)
qed

lemma decimal_inject [simp]: "decimal m = decimal n \<longleftrightarrow> m = n"
  by (metis decimal_value_decimal)

lemma not_blank_graphic_head: "is_ascii_graphic c \<Longrightarrow> \<not> is_blank (c # s)"
  by (auto simp: is_blank_def chars_def is_ascii_graphic_def byte_of_def not_whitespace_graphic)

end
