(* ===== verification/Rust_Collections.thy ===== *)
theory Rust_Collections
  imports Rust_Prelude
begin

text \<open>
  \<open>std::collections::BTreeMap\<close> as an association list whose keys are strictly increasing, the
  order in which the code iterates. The interface \<open>ordered_map\<close> states the laws the components
  rely on, with the derived facts about bulk insertion; the interpretation \<open>bt\<close> discharges them
  for the list operations. A \<open>BTreeSet\<close> that is iterated is the sorted list \<open>bset_of\<close>; one that
  is only asked for membership is a list.
\<close>

section \<open>The interface of an ordered map\<close>

locale ordered_map =
  fixes empty :: "'m"
    and get :: "'m \<Rightarrow> 'k::linorder \<Rightarrow> 'v option"
    and insert :: "'k \<Rightarrow> 'v \<Rightarrow> 'm \<Rightarrow> 'm"
    and remove :: "'k \<Rightarrow> 'm \<Rightarrow> 'm"
    and keys :: "'m \<Rightarrow> 'k list"
    and wf :: "'m \<Rightarrow> bool"
  assumes wf_empty: "wf empty"
    and wf_insert: "wf m \<Longrightarrow> wf (insert k v m)"
    and wf_remove: "wf m \<Longrightarrow> wf (remove k m)"
    and get_empty: "get empty k = None"
    and get_insert: "wf m \<Longrightarrow> get (insert k v m) = (get m)(k \<mapsto> v)"
    and get_remove: "wf m \<Longrightarrow> get (remove k m) = (get m)(k := None)"
    and keys_dom: "wf m \<Longrightarrow> set (keys m) = dom (get m)"
    and keys_sorted: "wf m \<Longrightarrow> sorted_wrt (<) (keys m)"
    and map_ext: "wf m \<Longrightarrow> wf n \<Longrightarrow> get m = get n \<Longrightarrow> m = n"
begin

definition collect :: "('k \<times> 'v) list \<Rightarrow> 'm" where
  "collect kvs = fold (\<lambda>(k, v) m. insert k v m) kvs empty"

lemma collect_from:
  "wf m \<Longrightarrow> wf (fold (\<lambda>(k, v) m. insert k v m) kvs m) \<and>
     get (fold (\<lambda>(k, v) m. insert k v m) kvs m) = get m ++ map_of (rev kvs)"
proof (induction kvs arbitrary: m)
  case Nil
  then show ?case by simp
next
  case (Cons kv kvs)
  obtain k v where [simp]: "kv = (k, v)" by (cases kv)
  have "get m ++ map_of (rev (kv # kvs)) = get (insert k v m) ++ map_of (rev kvs)"
    by (auto simp: fun_eq_iff map_add_def get_insert [OF Cons.prems] split: option.splits)
  then show ?case
    using Cons.IH [OF wf_insert [OF Cons.prems, of k v]] by (simp del: rev.simps)
qed

lemma wf_collect: "wf (collect kvs)"
  using collect_from [OF wf_empty] by (simp add: collect_def)

lemma get_collect: "get (collect kvs) = map_of (rev kvs)"
  using collect_from [OF wf_empty, of kvs]
  by (simp add: collect_def get_empty fun_eq_iff map_add_def split: option.split)

lemma get_collect_distinct: "distinct (map fst kvs) \<Longrightarrow> get (collect kvs) = map_of kvs"
  by (simp add: get_collect map_of_inject_set rev_map [symmetric])

text \<open>Inserting the same bindings in another order gives the same map.\<close>

lemma collect_order_irrelevant:
  assumes "distinct (map fst kvs)" and "set kvs = set kvs'" and "distinct (map fst kvs')"
  shows "collect kvs = collect kvs'"
proof (rule map_ext)
  show "get (collect kvs) = get (collect kvs')"
    using assms by (simp add: get_collect_distinct map_of_inject_set)
qed (rule wf_collect)+

lemma insert_commute: "wf m \<Longrightarrow> k \<noteq> l \<Longrightarrow> insert k v (insert l w m) = insert l w (insert k v m)"
  by (rule map_ext) (auto simp: wf_insert get_insert fun_upd_twist)

lemma remove_absent: "wf m \<Longrightarrow> get m k = None \<Longrightarrow> remove k m = m"
  by (rule map_ext) (auto simp: wf_remove get_remove)

lemma remove_insert: "wf m \<Longrightarrow> get m k = None \<Longrightarrow> remove k (insert k v m) = m"
  by (rule map_ext) (auto simp: wf_remove wf_insert get_remove get_insert)

lemma keys_insert: "wf m \<Longrightarrow> set (keys (insert k v m)) = {k} \<union> set (keys m)"
  by (auto simp: keys_dom wf_insert get_insert)

lemma keys_remove: "wf m \<Longrightarrow> set (keys (remove k m)) = set (keys m) - {k}"
  by (auto simp: keys_dom wf_remove get_remove)

end

section \<open>The sorted association list\<close>

type_synonym ('k, 'v) btree_map = "('k \<times> 'v) list"

definition bt_wf :: "('k::linorder, 'v) btree_map \<Rightarrow> bool" where
  "bt_wf m = sorted_wrt (<) (map fst m)"

fun bt_insert :: "'k::linorder \<Rightarrow> 'v \<Rightarrow> ('k, 'v) btree_map \<Rightarrow> ('k, 'v) btree_map" where
  "bt_insert k v [] = [(k, v)]"
| "bt_insert k v ((l, w) # m) =
     (if k < l then (k, v) # (l, w) # m
      else if k = l then (k, v) # m
      else (l, w) # bt_insert k v m)"

definition bt_remove :: "'k \<Rightarrow> ('k, 'v) btree_map \<Rightarrow> ('k, 'v) btree_map" where
  "bt_remove k m = filter (\<lambda>(l, _). l \<noteq> k) m"

abbreviation bt_keys :: "('k, 'v) btree_map \<Rightarrow> 'k list" where
  "bt_keys m \<equiv> map fst m"

abbreviation bt_values :: "('k, 'v) btree_map \<Rightarrow> 'v list" where
  "bt_values m \<equiv> map snd m"

definition bt_collect :: "('k::linorder \<times> 'v) list \<Rightarrow> ('k, 'v) btree_map" where
  "bt_collect kvs = fold (\<lambda>(k, v) m. bt_insert k v m) kvs []"

lemma keys_bt_insert: "set (bt_keys (bt_insert k v m)) = {k} \<union> set (bt_keys m)"
  by (induction k v m rule: bt_insert.induct) auto

lemma bt_wf_insert: "bt_wf m \<Longrightarrow> bt_wf (bt_insert k v m)"
proof (induction k v m rule: bt_insert.induct)
  case (2 k v l w m)
  have "\<forall>x\<in>set (bt_keys (bt_insert k v m)). l < x" if "l < k"
    using "2.prems" that by (auto simp: keys_bt_insert bt_wf_def simp del: set_map)
  with 2 show ?case by (auto simp: bt_wf_def)
qed (simp add: bt_wf_def)

lemma map_of_bt_insert: "map_of (bt_insert k v m) = (map_of m)(k \<mapsto> v)"
  by (induction k v m rule: bt_insert.induct) (auto simp: fun_eq_iff)

lemma map_of_bt_remove: "map_of (bt_remove k m) = (map_of m)(k := None)"
  by (induction m) (auto simp: bt_remove_def fun_eq_iff)

lemma bt_wf_remove: "bt_wf m \<Longrightarrow> bt_wf (bt_remove k m)"
  by (induction m) (auto simp: bt_wf_def bt_remove_def)

lemma bt_wf_distinct: "bt_wf m \<Longrightarrow> distinct (map fst m)"
  by (simp add: bt_wf_def strict_sorted_iff)

lemma bt_wf_ext:
  assumes "bt_wf m" "bt_wf n" "map_of m = map_of n"
  shows "m = n"
proof -
  have "set m = set n"
    using assms by (simp add: map_of_inject_set [symmetric] bt_wf_distinct)
  then have "map fst m = map fst n"
    using assms(1,2) by (intro strict_sorted_equal) (auto simp: bt_wf_def)
  with \<open>set m = set n\<close> show ?thesis
    using assms(1) by (metis bt_wf_distinct distinct_map length_map map_inj_on Un_absorb)
qed

interpretation bt: ordered_map "[]" map_of bt_insert bt_remove "map fst" bt_wf
  rewrites "ordered_map.collect [] bt_insert = bt_collect"
proof -
  show *: "ordered_map [] map_of bt_insert bt_remove (map fst) bt_wf"
    by unfold_locales
      (auto simp: bt_wf_insert bt_wf_remove map_of_bt_insert map_of_bt_remove
        dom_map_of_conv_image_fst bt_wf_ext, auto simp: bt_wf_def)
  show "ordered_map.collect [] bt_insert = bt_collect"
    by (simp add: ordered_map.collect_def [OF *] bt_collect_def fun_eq_iff)
qed

lemmas bt_map_simps = bt.get_insert bt.get_remove bt.wf_insert bt.wf_remove bt.wf_collect

text \<open>\<open>*m.get_mut(k) = f(old)\<close> for a key that is present.\<close>

definition bt_update :: "'k \<Rightarrow> ('v \<Rightarrow> 'v) \<Rightarrow> ('k, 'v) btree_map \<Rightarrow> ('k, 'v) btree_map" where
  "bt_update k f m = map (\<lambda>(l, w). (l, if l = k then f w else w)) m"

lemma bt_keys_update [simp]: "map fst (bt_update k f m) = map fst m"
  by (simp add: bt_update_def case_prod_unfold comp_def)

lemma map_of_bt_update:
  "map_of (bt_update k f m) l = (if l = k then map_option f (map_of m l) else map_of m l)"
  by (induction m) (auto simp: bt_update_def)

lemma bt_wf_update: "bt_wf m \<Longrightarrow> bt_wf (bt_update k f m)"
  by (simp add: bt_wf_def)

section \<open>Iterated sets\<close>

definition bset_of :: "'a::linorder list \<Rightarrow> 'a list" where
  "bset_of xs = sort (remdups xs)"

lemma set_bset_of [simp]: "set (bset_of xs) = set xs"
  by (simp add: bset_of_def)

lemma sorted_bset_of: "sorted_wrt (<) (bset_of xs)"
  by (simp add: bset_of_def strict_sorted_iff)

lemma bset_of_eq_Nil [simp]: "bset_of xs = [] \<longleftrightarrow> xs = []"
  by (metis set_bset_of set_empty)

lemma bset_of_cong: "set xs = set ys \<Longrightarrow> bset_of xs = bset_of ys"
  by (rule strict_sorted_equal) (auto simp: sorted_bset_of)

lemma length_bset_of: "length (bset_of xs) = card (set xs)"
  by (simp add: bset_of_def length_remdups_card_conv)

lemma length_bset_of_eq [res_simps]: "length (bset_of xs) = length xs \<longleftrightarrow> distinct xs"
  using card_distinct distinct_card by (auto simp: length_bset_of)

lemma bset_of_id: "sorted_wrt (<) xs \<Longrightarrow> bset_of xs = xs"
  by (rule strict_sorted_equal) (auto simp: sorted_bset_of)

end
