(* ===== verification/Rust_Values.thy ===== *)
theory Rust_Values
  imports Rust_Prelude Rust_Collections
begin

unbundle bit_operations_syntax

text \<open>
  Scalar values and JSON. An \<open>f64\<close> is its 64 IEEE bits, so copying, hashing and the comparisons
  are exact; the program never computes with them. \<open>usize\<close> is a natural number bounded by
  \<open>usize_max\<close> (64-bit targets) wherever the code uses checked arithmetic. \<open>json\<close> is
  \<open>serde_json::Value\<close>; a number is kept as an opaque token because \<open>serde_json::Number\<close> is a
  third-party type: its reading as an \<open>f64\<close> and the equality of values are parameters of the
  definitions that use them.
\<close>

section \<open>Machine integers\<close>

type_synonym u8 = "8 word"
type_synonym u16 = "16 word"
type_synonym u32 = "32 word"
type_synonym u64 = "64 word"
type_synonym usize = nat

definition usize_max :: nat where
  "usize_max = 2 ^ 64 - 1"

definition checked_mul :: "usize \<Rightarrow> usize \<Rightarrow> usize option" where
  "checked_mul a b = (if a * b \<le> usize_max then Some (a * b) else None)"

definition checked_add :: "usize \<Rightarrow> usize \<Rightarrow> usize option" where
  "checked_add a b = (if a + b \<le> usize_max then Some (a + b) else None)"

definition u64_checked_add :: "u64 \<Rightarrow> u64 \<Rightarrow> u64 option" where
  "u64_checked_add a b = (if unat a + unat b < 2 ^ 64 then Some (a + b) else None)"

lemma checked_mul_Some: "checked_mul a b = Some c \<longleftrightarrow> c = a * b \<and> a * b \<le> usize_max"
  by (auto simp: checked_mul_def)

lemma checked_add_Some: "checked_add a b = Some c \<longleftrightarrow> c = a + b \<and> a + b \<le> usize_max"
  by (auto simp: checked_add_def)

lemma u64_checked_add_unat: "u64_checked_add a b = Some c \<Longrightarrow> unat c = unat a + unat b"
  by (auto simp: u64_checked_add_def unat_word_ariths split: if_splits)

lemma u64_checked_add_Some:
  "u64_checked_add a b = Some c \<longleftrightarrow> unat c = unat a + unat b"
proof
  assume "unat c = unat a + unat b"
  moreover have "unat c < 2 ^ 64" using unsigned_less [of c, where ?'a = nat] by simp
  ultimately have "unat a + unat b < 2 ^ 64" "unat (a + b) = unat c"
    by (simp_all add: unat_word_ariths)
  then show "u64_checked_add a b = Some c" by (simp add: u64_checked_add_def word_unat_eq_iff)
qed (rule u64_checked_add_unat)

section \<open>Floating point\<close>

type_synonym f64 = "64 word"

definition f64_exponent :: "f64 \<Rightarrow> nat" where
  "f64_exponent x = unat (drop_bit 52 x AND 2047)"

definition f64_magnitude :: "f64 \<Rightarrow> nat" where
  "f64_magnitude x = unat (x AND 9223372036854775807)"

definition f64_negative :: "f64 \<Rightarrow> bool" where
  "f64_negative x = bit x 63"

definition f64_is_finite :: "f64 \<Rightarrow> bool" where
  "f64_is_finite x \<longleftrightarrow> f64_exponent x \<noteq> 2047"

text \<open>Infinity is the magnitude \<open>0x7FF0000000000000\<close>; anything above it is a NaN.\<close>

definition f64_is_nan :: "f64 \<Rightarrow> bool" where
  "f64_is_nan x \<longleftrightarrow> 9218868437227405312 < f64_magnitude x"

text \<open>The order of the real values: sign and magnitude, with both zeros equal.\<close>

definition f64_key :: "f64 \<Rightarrow> int" where
  "f64_key x = (if f64_negative x then - int (f64_magnitude x) else int (f64_magnitude x))"

definition f64_less :: "f64 \<Rightarrow> f64 \<Rightarrow> bool" where
  "f64_less x y \<longleftrightarrow> \<not> f64_is_nan x \<and> \<not> f64_is_nan y \<and> f64_key x < f64_key y"

definition f64_le :: "f64 \<Rightarrow> f64 \<Rightarrow> bool" where
  "f64_le x y \<longleftrightarrow> \<not> f64_is_nan x \<and> \<not> f64_is_nan y \<and> f64_key x \<le> f64_key y"

definition f64_eq :: "f64 \<Rightarrow> f64 \<Rightarrow> bool" where
  "f64_eq x y \<longleftrightarrow> \<not> f64_is_nan x \<and> \<not> f64_is_nan y \<and> f64_key x = f64_key y"

text \<open>The bit patterns of \<open>0.0\<close>, \<open>0.5\<close>, \<open>1.0\<close>.\<close>

definition f64_zero :: f64 where "f64_zero = 0"
definition f64_half :: f64 where "f64_half = 4602678819172646912"
definition f64_one :: f64 where "f64_one = 4607182418800017408"

section \<open>JSON values\<close>

datatype json =
    JNull
  | JBool bool
  | JNumber string
  | JString string
  | JArray "json list"
  | JObject "(string \<times> json) list"

fun json_as_str :: "json \<Rightarrow> string option" where
  "json_as_str (JString s) = Some s"
| "json_as_str _ = None"

fun json_as_array :: "json \<Rightarrow> json list option" where
  "json_as_array (JArray vs) = Some vs"
| "json_as_array _ = None"

definition json_is_null :: "json \<Rightarrow> bool" where
  "json_is_null v = (v = JNull)"

text \<open>\<open>Value::get(key)\<close>: the member of an object, nothing for any other value.\<close>

fun json_get :: "json \<Rightarrow> string \<Rightarrow> json option" where
  "json_get (JObject m) k = map_of m k"
| "json_get _ k = None"

lemma json_as_str_Some: "json_as_str v = Some s \<longleftrightarrow> v = JString s"
  by (cases v) auto

lemma json_as_array_Some: "json_as_array v = Some vs \<longleftrightarrow> v = JArray vs"
  by (cases v) auto

text \<open>A metadata map: \<open>BTreeMap<String, serde_json::Value>\<close>.\<close>

type_synonym metadata = "(string, json) btree_map"

end
