(* ===== verification/Data_Error.thy ===== *)
theory Data_Error
  imports Rust_Text Rust_Values
begin

text \<open>
  The error type of the core crate (\<open>error.rs\<close>) with its ADR-11 taxonomy, and the identifier
  newtypes (\<open>ids.rs\<close>). Every fallible operation of the model returns \<open>data_error + 'a\<close>. A
  \<open>Validation\<close> message is abbreviated to a label that names the check which failed; the values
  that \<open>format!\<close> would interpolate are left out, since only the variant and its code are routed.
\<close>

section \<open>DataError\<close>

datatype data_error =
    InvalidIdentifier string string
  | Validation string
  | FingerprintMismatch string string string
  | UnknownHandle string u64
  | RelationBoundaryViolation string "string list"
  | IncompatibleReducer string string
  | SignalTypeMismatch string string
  | Serialization string

type_synonym 'a res = "data_error + 'a"

abbreviation invalid :: "string \<Rightarrow> 'a res" where
  "invalid msg \<equiv> Inl (Validation msg)"

fun taxonomy_parts :: "data_error \<Rightarrow> string \<times> string \<times> string" where
  "taxonomy_parts (InvalidIdentifier _ _) = (''validation'', ''invalid_identifier'', ''error'')"
| "taxonomy_parts (Validation _) = (''data'', ''data_contract_validation'', ''error'')"
| "taxonomy_parts (FingerprintMismatch _ _ _) =
     (''compatibility'', ''fingerprint_mismatch'', ''error'')"
| "taxonomy_parts (UnknownHandle _ _) = (''runtime'', ''unknown_handle'', ''error'')"
| "taxonomy_parts (RelationBoundaryViolation _ _) =
     (''data'', ''relation_boundary_violation'', ''error'')"
| "taxonomy_parts (IncompatibleReducer _ _) = (''data'', ''incompatible_reducer'', ''error'')"
| "taxonomy_parts (SignalTypeMismatch _ _) =
     (''compatibility'', ''signal_type_mismatch'', ''error'')"
| "taxonomy_parts (Serialization _) = (''compatibility'', ''serialization_error'', ''error'')"

definition category :: "data_error \<Rightarrow> string" where
  "category e = fst (taxonomy_parts e)"

definition code :: "data_error \<Rightarrow> string" where
  "code e = fst (snd (taxonomy_parts e))"

definition severity :: "data_error \<Rightarrow> string" where
  "severity e = snd (snd (taxonomy_parts e))"

fun numeric_taxonomy :: "data_error \<Rightarrow> u16 \<times> u16" where
  "numeric_taxonomy (InvalidIdentifier _ _) = (0, 1)"
| "numeric_taxonomy (Validation _) = (2, 1)"
| "numeric_taxonomy (RelationBoundaryViolation _ _) = (2, 2)"
| "numeric_taxonomy (IncompatibleReducer _ _) = (2, 3)"
| "numeric_taxonomy (UnknownHandle _ _) = (1, 1)"
| "numeric_taxonomy (FingerprintMismatch _ _ _) = (8, 2)"
| "numeric_taxonomy (SignalTypeMismatch _ _) = (8, 3)"
| "numeric_taxonomy (Serialization _) = (8, 1)"

definition error_code :: "data_error \<Rightarrow> u32" where
  "error_code e =
     (case numeric_taxonomy e of (category_id, code_id) \<Rightarrow>
        push_bit 16 (ucast category_id) OR ucast code_id)"

text \<open>The category ids that ADR-11 fixes for both libraries.\<close>

definition adr11_category_id :: "string \<Rightarrow> nat option" where
  "adr11_category_id = map_of
     [(''validation'', 0), (''runtime'', 1), (''data'', 2), (''controller'', 3), (''bundle'', 4),
      (''lineage'', 5), (''replay'', 6), (''security'', 7), (''compatibility'', 8),
      (''internal'', 9)]"

lemma error_code_values:
  "error_code (InvalidIdentifier v r) = 0x1"
  "error_code (Validation m) = 0x20001"
  "error_code (RelationBoundaryViolation k ds) = 0x20002"
  "error_code (IncompatibleReducer n t) = 0x20003"
  "error_code (UnknownHandle k h) = 0x10001"
  "error_code (FingerprintMismatch k x y) = 0x80002"
  "error_code (SignalTypeMismatch x y) = 0x80003"
  "error_code (Serialization m) = 0x80001"
  by (simp_all add: error_code_def)

lemma error_code_nonzero: "error_code e \<noteq> 0"
  by (cases e) (simp_all add: error_code_values)

lemma error_code_category: "adr11_category_id (category e) = Some (unat (drop_bit 16 (error_code e)))"
  by (cases e) (simp_all add: error_code_values category_def adr11_category_id_def)

text \<open>
  The packed error code of ADR-11: it is never the ``no error'' sentinel 0, its high half is the
  id that ADR-11 gives the error's category, and two errors have the same number exactly when they
  have the same category and code.
\<close>

lemma error_code_taxonomy:
  "error_code e \<noteq> 0 \<and>
   adr11_category_id (category e) = Some (unat (drop_bit 16 (error_code e))) \<and>
   (error_code e = error_code f \<longleftrightarrow> category e = category f \<and> code e = code f)"
proof -
  have "error_code e = error_code f \<longleftrightarrow> category e = category f \<and> code e = code f"
    by (cases e; cases f) (simp_all add: error_code_values category_def code_def)
  then show ?thesis by (simp add: error_code_nonzero error_code_category)
qed

section \<open>Identifiers\<close>

text \<open>
  \<open>define_id!\<close> generates one newtype per kind of identifier from the same code; here one type
  with a phantom parameter for the kind, so that identifiers of different kinds do not mix.
\<close>

datatype 'k ident = Ident (as_str: string)

datatype sample_kind = SampleKind
datatype source_kind = SourceKind
datatype representation_kind = RepresentationKind
datatype type_kind = TypeKind
datatype observation_kind = ObservationKind
datatype target_kind = TargetKind
datatype group_kind_tag = GroupKindTag
datatype origin_kind = OriginKind
datatype repetition_kind = RepetitionKind

type_synonym sample_id = "sample_kind ident"
type_synonym source_id = "source_kind ident"
type_synonym representation_id = "representation_kind ident"
type_synonym type_id = "type_kind ident"
type_synonym observation_id = "observation_kind ident"
type_synonym target_id = "target_kind ident"
type_synonym group_id = "group_kind_tag ident"
type_synonym origin_id = "origin_kind ident"
type_synonym repetition_id = "repetition_kind ident"

instantiation ident :: (type) linorder
begin

definition less_eq_ident :: "'a ident \<Rightarrow> 'a ident \<Rightarrow> bool" where
  "less_eq_ident i j \<longleftrightarrow> as_str i \<le> as_str j"

definition less_ident :: "'a ident \<Rightarrow> 'a ident \<Rightarrow> bool" where
  "less_ident i j \<longleftrightarrow> as_str i < as_str j"

instance
  by standard (auto simp: less_eq_ident_def less_ident_def ident.expand)

end

definition identifier_char :: "char \<Rightarrow> bool" where
  "identifier_char b \<longleftrightarrow> is_ascii_alphanumeric b \<or> b = CHR ''_'' \<or> b = CHR ''-'' \<or> b = CHR ''.''"

definition validate_identifier :: "string \<Rightarrow> unit res" where
  "validate_identifier v =
     (if v = [] then Inl (InvalidIdentifier v ''identifier is empty'')
      else if length v > 128 then Inl (InvalidIdentifier v ''identifier is longer than 128 bytes'')
      else if \<not> list_all identifier_char v
        then Inl (InvalidIdentifier v ''identifier contains unsupported characters'')
      else Inr ())"

definition ident_new :: "string \<Rightarrow> 'k ident res" where
  "ident_new v = rseq (validate_identifier v) (Inr (Ident v))"

text \<open>What the newtype guarantees of every value the program can hold.\<close>

definition valid_ident :: "'k ident \<Rightarrow> bool" where
  "valid_ident i \<longleftrightarrow> validate_identifier (as_str i) = Inr ()"

lemma identifier_char_graphic: "identifier_char b \<Longrightarrow> is_ascii_graphic b"
  by (auto simp: identifier_char_def ascii_class_defs)

lemma valid_ident_iff:
  "valid_ident i \<longleftrightarrow>
     as_str i \<noteq> [] \<and> length (as_str i) \<le> 128 \<and> list_all identifier_char (as_str i)"
  by (auto simp: valid_ident_def validate_identifier_def split: if_splits)

lemma valid_ident_graphic: "valid_ident i \<Longrightarrow> list_all is_ascii_graphic (as_str i)"
  by (auto simp: valid_ident_iff list_all_iff identifier_char_graphic)

lemma valid_ident_text:
  "valid_ident i \<Longrightarrow> \<not> is_blank (as_str i) \<and> \<not> has_control (as_str i) \<and> is_trimmed (as_str i)"
  using valid_ident_graphic [of i] is_blank_graphic has_control_graphic is_trimmed_graphic
  by (auto simp: valid_ident_iff)

lemma ident_new_eq_Inr: "ident_new v = Inr i \<longleftrightarrow> i = Ident v \<and> valid_ident i"
  by (auto simp: ident_new_def rbind_eq_Inr valid_ident_def)

text \<open>
  Constructing an identifier returns the given text unchanged or fails: it succeeds exactly for 1
  to 128 bytes of the identifier alphabet, and such a text is never blank, never has a control
  character and never has surrounding white space.
\<close>

lemma ident_new_spec:
  "ident_new v = Inr i \<longleftrightarrow>
     i = Ident v \<and> 1 \<le> length v \<and> length v \<le> 128 \<and> list_all identifier_char v \<and>
     \<not> is_blank v \<and> \<not> has_control v \<and> is_trimmed v"
  using valid_ident_text [of i]
  by (cases i) (auto simp: ident_new_eq_Inr valid_ident_iff Suc_le_eq)

end
