(* ===== verification/Alignment.thy ===== *)
theory Alignment
  imports Data_Error
begin

text \<open>
  Sample alignment of several sources (\<open>alignment.rs\<close>) and the presence masks it produces
  (\<open>PresenceMask\<close> of \<open>model.rs\<close>): the plan's data, its validator, and the construction of a plan
  in the inner, left and outer modes.
\<close>

section \<open>Data\<close>

datatype alignment_mode = AlignInner | AlignLeft | AlignOuter

record presence_mask =
  pm_sample_ids :: "sample_id list"
  pm_source_id :: source_id
  pm_present :: "bool list"

record source_sample_set =
  ss_source_id :: source_id
  ss_sample_ids :: "sample_id list"

record sample_alignment_plan =
  ap_mode :: alignment_mode
  ap_sample_ids :: "sample_id list"
  ap_masks :: "presence_mask list"

section \<open>The mode named by a fusion policy\<close>

text \<open>The wire names of the modes, \<open>rename_all = "snake_case"\<close> of the derived serialization.\<close>

definition mode_name :: "alignment_mode \<Rightarrow> string" where
  "mode_name m = (case m of AlignInner \<Rightarrow> ''inner'' | AlignLeft \<Rightarrow> ''left'' | AlignOuter \<Rightarrow> ''outer'')"

definition mode_of_name :: "string \<Rightarrow> alignment_mode option" where
  "mode_of_name s =
     (if s = ''inner'' then Some AlignInner else if s = ''left'' then Some AlignLeft
      else if s = ''outer'' then Some AlignOuter else None)"

text \<open>A unit variant reads from its name, or from an object that maps its name to null.\<close>

fun mode_from_value :: "json \<Rightarrow> alignment_mode option" where
  "mode_from_value (JString s) = mode_of_name s"
| "mode_from_value (JObject [(s, JNull)]) = mode_of_name s"
| "mode_from_value _ = None"

definition alignment_mode_from_fusion :: "json option \<Rightarrow> alignment_mode res" where
  "alignment_mode_from_fusion v =
     (case v of
        None \<Rightarrow> Inr AlignInner
      | Some v \<Rightarrow>
          (case json_get v ''alignment'' of
             None \<Rightarrow> Inr AlignInner
           | Some mode \<Rightarrow>
               ok_or (mode_from_value mode) (Validation ''invalid fusion alignment policy'')))"

definition alignment_metadata :: "string list \<Rightarrow> string \<Rightarrow> alignment_mode \<Rightarrow> metadata" where
  "alignment_metadata inputs output mode =
     bt_collect
       [(''inputs'', JArray (map JString inputs)), (''output'', JString output),
        (''alignment'', JString (mode_name mode))]"

section \<open>Validation\<close>

definition presence_mask_validate :: "presence_mask \<Rightarrow> unit res" where
  "presence_mask_validate m =
     (if length (pm_sample_ids m) \<noteq> length (pm_present m)
      then invalid ''presence mask length'' else Inr ())"

text \<open>
  The reads \<open>mask.present[idx]\<close> are in range here: every mask was checked to have the plan's
  samples and one flag for each.
\<close>

definition mode_accepts :: "alignment_mode \<Rightarrow> presence_mask list \<Rightarrow> nat \<Rightarrow> bool" where
  "mode_accepts mode masks idx =
     (case mode of
        AlignInner \<Rightarrow> list_all (\<lambda>m. pm_present m ! idx) masks
      | AlignLeft \<Rightarrow> pm_present (hd masks) ! idx
      | AlignOuter \<Rightarrow> list_ex (\<lambda>m. pm_present m ! idx) masks)"

definition alignment_plan_validate :: "sample_alignment_plan \<Rightarrow> unit res" where
  "alignment_plan_validate p =
     (if ap_sample_ids p = [] then invalid ''alignment plan contains no samples''
      else rseq (each_unique id (\<lambda>_. Validation ''duplicate alignment sample'') (ap_sample_ids p))
       (if ap_masks p = [] then invalid ''alignment plan contains no presence masks''
        else rseq
         (each_fresh
            (\<lambda>m. rseq (presence_mask_validate m)
                   (if pm_sample_ids m \<noteq> ap_sample_ids p
                    then invalid ''presence mask sample order'' else Inr ()))
            pm_source_id (\<lambda>_. Validation ''duplicate source mask'') (\<lambda>_. Inr ()) []
            (ap_masks p))
         (each_res
            (\<lambda>(idx, _).
               if \<not> list_ex (\<lambda>m. pm_present m ! idx) (ap_masks p)
               then invalid ''alignment sample absent from every source''
               else if \<not> mode_accepts (ap_mode p) (ap_masks p) idx
               then invalid ''alignment presence violates mode''
               else Inr ())
            (List.enumerate 0 (ap_sample_ids p)))))"

section \<open>Construction\<close>

definition aligned_samples :: "alignment_mode \<Rightarrow> source_sample_set list \<Rightarrow> sample_id list" where
  "aligned_samples mode srcs =
     (case mode of
        AlignInner \<Rightarrow>
          filter (\<lambda>s. list_all (\<lambda>src. s \<in> set (ss_sample_ids src)) srcs) (ss_sample_ids (hd srcs))
      | AlignLeft \<Rightarrow> ss_sample_ids (hd srcs)
      | AlignOuter \<Rightarrow> dedup_first [] (concat (map ss_sample_ids srcs)))"

definition source_mask :: "sample_id list \<Rightarrow> source_sample_set \<Rightarrow> presence_mask" where
  "source_mask samples src =
     \<lparr>pm_sample_ids = samples, pm_source_id = ss_source_id src,
      pm_present = map (\<lambda>s. s \<in> set (ss_sample_ids src)) samples\<rparr>"

definition source_sample_sets_validate :: "source_sample_set list \<Rightarrow> unit res" where
  "source_sample_sets_validate srcs =
     each_fresh (\<lambda>_. Inr ()) ss_source_id (\<lambda>_. Validation ''duplicate alignment source'')
       (\<lambda>src.
          if ss_sample_ids src = [] then invalid ''alignment source contains no samples''
          else each_unique id (\<lambda>_. Validation ''duplicate source sample'') (ss_sample_ids src))
       [] srcs"

definition build_sample_alignment_plan ::
  "source_sample_set list \<Rightarrow> alignment_mode \<Rightarrow> sample_alignment_plan res"
where
  "build_sample_alignment_plan srcs mode =
     (if srcs = [] then invalid ''alignment requires at least one source''
      else rseq (source_sample_sets_validate srcs)
       (let samples = aligned_samples mode srcs in
        if samples = [] then invalid ''alignment produced no shared samples''
        else
          (let plan = \<lparr>ap_mode = mode, ap_sample_ids = samples,
                       ap_masks = map (source_mask samples) srcs\<rparr>
           in rseq (alignment_plan_validate plan) (Inr plan))))"

section \<open>What a valid plan is\<close>

lemma presence_mask_validate_ok [res_simps]:
  "presence_mask_validate m = Inr () \<longleftrightarrow> length (pm_sample_ids m) = length (pm_present m)"
  by (auto simp: presence_mask_validate_def)

definition plan_masks_match :: "sample_alignment_plan \<Rightarrow> bool" where
  "plan_masks_match p \<longleftrightarrow>
     (\<forall>m\<in>set (ap_masks p). pm_sample_ids m = ap_sample_ids p \<and>
        length (pm_present m) = length (ap_sample_ids p))"

lemma alignment_plan_validate_ok:
  "alignment_plan_validate p = Inr () \<longleftrightarrow>
     ap_sample_ids p \<noteq> [] \<and> distinct (ap_sample_ids p) \<and>
     ap_masks p \<noteq> [] \<and> distinct (map pm_source_id (ap_masks p)) \<and> plan_masks_match p \<and>
     (\<forall>i < length (ap_sample_ids p).
        (\<exists>m\<in>set (ap_masks p). pm_present m ! i) \<and> mode_accepts (ap_mode p) (ap_masks p) i)"
  unfolding alignment_plan_validate_def plan_masks_match_def
  by (auto simp: res_simps list_ex_iff)

lemma aligned_samples_distinct:
  assumes "srcs \<noteq> []" and "\<forall>src\<in>set srcs. distinct (ss_sample_ids src)"
  shows "distinct (aligned_samples mode srcs)"
  using assms
  by (cases mode) (auto simp: aligned_samples_def distinct_dedup_first)

lemma aligned_samples_mem:
  assumes "srcs \<noteq> []"
  shows "s \<in> set (aligned_samples mode srcs) \<longleftrightarrow>
    (case mode of
       AlignInner \<Rightarrow> \<forall>src\<in>set srcs. s \<in> set (ss_sample_ids src)
     | AlignLeft \<Rightarrow> s \<in> set (ss_sample_ids (hd srcs))
     | AlignOuter \<Rightarrow> \<exists>src\<in>set srcs. s \<in> set (ss_sample_ids src))"
  using assms
  by (cases mode; cases srcs) (auto simp: aligned_samples_def set_dedup_first list_all_iff)

lemma built_plan_valid:
  assumes "srcs \<noteq> []" and "source_sample_sets_validate srcs = Inr ()"
    and "aligned_samples mode srcs \<noteq> []"
  shows "alignment_plan_validate
    \<lparr>ap_mode = mode, ap_sample_ids = aligned_samples mode srcs,
     ap_masks = map (source_mask (aligned_samples mode srcs)) srcs\<rparr> = Inr ()"
proof -
  let ?ss = "aligned_samples mode srcs"
  have present: "\<exists>src\<in>set srcs. ?ss ! i \<in> set (ss_sample_ids src)"
      "mode_accepts mode (map (source_mask ?ss) srcs) i" if "i < length ?ss" for i
    using assms(1) aligned_samples_mem [OF assms(1), of "?ss ! i" mode] nth_mem [OF that] that
    by (cases mode; cases srcs;
        auto simp: mode_accepts_def source_mask_def list_all_iff list_ex_iff)+
  have "distinct ?ss"
    using assms(1,2) by (intro aligned_samples_distinct)
      (auto simp: source_sample_sets_validate_def res_simps)
  moreover have "distinct (map pm_source_id (map (source_mask ?ss) srcs))"
    using assms(2) by (simp add: source_sample_sets_validate_def res_simps source_mask_def comp_def)
  ultimately show ?thesis
    using assms(1,3) present
    by (auto simp: alignment_plan_validate_ok plan_masks_match_def source_mask_def)
qed

text \<open>
  Building an alignment plan fails only on its input: it succeeds exactly when there is a source,
  source ids are distinct, every source has samples without repetition, and the mode keeps at least
  one sample. The plan is then the mode's samples with one mask per source in source order, and the
  validation that the code runs on its own result never rejects it.
\<close>

lemma build_sample_alignment_plan_spec:
  "build_sample_alignment_plan srcs mode = Inr p \<longleftrightarrow>
     srcs \<noteq> [] \<and> distinct (map ss_source_id srcs) \<and>
     list_all (\<lambda>src. ss_sample_ids src \<noteq> [] \<and> distinct (ss_sample_ids src)) srcs \<and>
     aligned_samples mode srcs \<noteq> [] \<and> alignment_plan_validate p = Inr () \<and>
     p = \<lparr>ap_mode = mode, ap_sample_ids = aligned_samples mode srcs,
          ap_masks = map (source_mask (aligned_samples mode srcs)) srcs\<rparr>"
proof -
  have sets: "source_sample_sets_validate srcs = Inr () \<longleftrightarrow>
      distinct (map ss_source_id srcs) \<and>
      list_all (\<lambda>src. ss_sample_ids src \<noteq> [] \<and> distinct (ss_sample_ids src)) srcs"
    by (auto simp: source_sample_sets_validate_def res_simps list_all_iff)
  have valid: "alignment_plan_validate \<lparr>ap_mode = mode, ap_sample_ids = aligned_samples mode srcs,
      ap_masks = map (source_mask (aligned_samples mode srcs)) srcs\<rparr> = Inr ()"
    if "srcs \<noteq> []" "source_sample_sets_validate srcs = Inr ()" "aligned_samples mode srcs \<noteq> []"
    using that by (rule built_plan_valid)
  show ?thesis
    unfolding build_sample_alignment_plan_def Let_def sets [symmetric]
    by (simp only: rbind_eq_Inr if_Inl_eq_Inr) (use valid sets in auto)
qed

text \<open>
  What the aligned rows mean: in a built plan no sample repeats, a sample is a row exactly when
  every source has it (inner), the first source has it (left) or some source has it (outer), and the
  mask of the \<open>k\<close>-th source has at row \<open>i\<close> whether that source has the \<open>i\<close>-th sample.
\<close>

lemma alignment_rows_and_masks:
  assumes "build_sample_alignment_plan srcs mode = Inr p"
  shows "distinct (ap_sample_ids p) \<and>
    (\<forall>s. s \<in> set (ap_sample_ids p) \<longleftrightarrow>
      (case mode of
         AlignInner \<Rightarrow> \<forall>src\<in>set srcs. s \<in> set (ss_sample_ids src)
       | AlignLeft \<Rightarrow> s \<in> set (ss_sample_ids (hd srcs))
       | AlignOuter \<Rightarrow> \<exists>src\<in>set srcs. s \<in> set (ss_sample_ids src))) \<and>
    (\<forall>k i. k < length srcs \<longrightarrow> i < length (ap_sample_ids p) \<longrightarrow>
      (pm_present (ap_masks p ! k) ! i \<longleftrightarrow>
       ap_sample_ids p ! i \<in> set (ss_sample_ids (srcs ! k))))"
proof -
  have p: "srcs \<noteq> []" "alignment_plan_validate p = Inr ()"
      "p = \<lparr>ap_mode = mode, ap_sample_ids = aligned_samples mode srcs,
            ap_masks = map (source_mask (aligned_samples mode srcs)) srcs\<rparr>"
    using assms unfolding build_sample_alignment_plan_spec by blast+
  have "distinct (ap_sample_ids p)"
    using p(2) by (simp add: alignment_plan_validate_ok)
  then show ?thesis
    using p(1) by (simp add: p(3) aligned_samples_mem source_mask_def)
qed

lemma alignment_rows_and_masks_witness:
  "\<exists>p. build_sample_alignment_plan
      [\<lparr>ss_source_id = Ident ''x'', ss_sample_ids = [Ident ''b'', Ident ''a'']\<rparr>,
       \<lparr>ss_source_id = Ident ''y'', ss_sample_ids = [Ident ''a'', Ident ''c'']\<rparr>] AlignLeft = Inr p \<and>
    distinct (ap_sample_ids p) \<and> \<not> pm_present (ap_masks p ! 1) ! 0"
proof -
  let ?srcs = "[\<lparr>ss_source_id = Ident ''x'', ss_sample_ids = [Ident ''b'', Ident ''a'']\<rparr>,
       \<lparr>ss_source_id = Ident ''y'', ss_sample_ids = [Ident ''a'', Ident ''c'']\<rparr>]"
  let ?p = "\<lparr>ap_mode = AlignLeft, ap_sample_ids = [Ident ''b'', Ident ''a''],
            ap_masks = map (source_mask [Ident ''b'', Ident ''a'']) ?srcs\<rparr>"
  have built: "build_sample_alignment_plan ?srcs AlignLeft = Inr ?p"
    by (simp add: build_sample_alignment_plan_def source_sample_sets_validate_def each_unique_def
        aligned_samples_def source_mask_def alignment_plan_validate_def presence_mask_validate_def
        mode_accepts_def Let_def)
  with alignment_rows_and_masks [OF built] show ?thesis
    by (intro exI [of _ ?p]) (simp add: source_mask_def)
qed

end
