(* ===== verification/Relations.thy ===== *)
theory Relations
  imports Data_Error
begin

text \<open>
  Sample relations and cross-validation fold sets (\<open>relation.rs\<close>): the relation table with its
  augmentation lineage, the fold set, their validators, and the audit of a fold set against the
  relations, which is the leakage barrier of ADR-05.
\<close>

section \<open>Data\<close>

record augmentation_metadata =
  am_transform_id :: string
  am_params_fingerprint :: "string option"
  am_metadata :: metadata

record sample_relation =
  sr_observation_id :: observation_id
  sr_sample_id :: sample_id
  sr_source_id :: "source_id option"
  sr_target_id :: "target_id option"
  sr_group_id :: "group_id option"
  sr_origin_id :: "origin_id option"
  sr_repetition_id :: "repetition_id option"
  sr_augmented :: bool
  sr_excluded :: bool
  sr_metadata :: metadata
  sr_tags :: "string list"
  sr_augmentation :: "augmentation_metadata option"

record sample_relation_table =
  rt_rows :: "sample_relation list"

record fold_assignment =
  fa_fold_id :: string
  fa_train_sample_ids :: "sample_id list"
  fa_validation_sample_ids :: "sample_id list"
  fa_metadata :: metadata

datatype fold_partition_mode = Partition | Resampled

datatype fold_train_exclusion = ExcludeRelations | FoldLocal

record fold_set =
  fs_id :: string
  fs_sample_ids :: "sample_id list"
  fs_folds :: "fold_assignment list"
  fs_sample_groups :: "(sample_id, group_id) btree_map"
  fs_partition_mode :: fold_partition_mode
  fs_train_exclusion :: fold_train_exclusion
  fs_target_missing_sample_ids :: "sample_id list"

section \<open>Validation of the parts\<close>

definition augmentation_validate :: "augmentation_metadata \<Rightarrow> unit res" where
  "augmentation_validate a =
     (if is_blank (am_transform_id a) then invalid ''augmentation transform_id is empty''
      else rseq
        (case am_params_fingerprint a of
           None \<Rightarrow> Inr ()
         | Some fp \<Rightarrow>
             if length fp \<noteq> 64 \<or> \<not> list_all is_ascii_hexdigit fp
             then invalid ''augmentation params_fingerprint'' else Inr ())
        (each_res (\<lambda>key. if is_blank key then invalid ''augmentation metadata key'' else Inr ())
           (bt_keys (am_metadata a))))"

definition unique_samples :: "sample_id list \<Rightarrow> sample_id list res" where
  "unique_samples samples =
     rseq (each_unique id (\<lambda>_. Validation ''duplicate sample'') samples) (Inr samples)"

definition validate_group_boundary ::
  "string \<Rightarrow> sample_id list \<Rightarrow> sample_id list \<Rightarrow> (sample_id, group_id) btree_map \<Rightarrow> unit res"
where
  "validate_group_boundary fold_id train validation groups =
     (if groups = [] then Inr ()
      else
        (let train_groups = List.map_filter (map_of groups) train in
         each_res
           (\<lambda>s. case map_of groups s of
                None \<Rightarrow> Inr ()
              | Some g \<Rightarrow>
                  if g \<in> set train_groups
                  then Inl (RelationBoundaryViolation ''group'' [fold_id, as_str g])
                  else Inr ())
           (bset_of validation)))"

definition validate_origin_boundary ::
  "string \<Rightarrow> sample_id list \<Rightarrow> sample_id list \<Rightarrow> sample_relation_table \<Rightarrow> unit res"
where
  "validate_origin_boundary fold_id train validation t =
     (let origin_sample_ids =
            bt_collect (map (\<lambda>r. (as_str (sr_observation_id r), sr_sample_id r)) (rt_rows t)) in
      each_res
        (\<lambda>r. case sr_origin_id r of
             None \<Rightarrow> Inr ()
           | Some origin \<Rightarrow>
               (case map_of origin_sample_ids (as_str origin) of
                  None \<Rightarrow> Inr ()
                | Some origin_sample \<Rightarrow>
                    if sr_sample_id r \<in> set train \<and> origin_sample \<in> set validation
                    then Inl (RelationBoundaryViolation ''origin'' [fold_id, as_str origin])
                    else if sr_sample_id r \<in> set validation \<and> origin_sample \<in> set train
                    then Inl (RelationBoundaryViolation ''origin'' [fold_id, as_str origin])
                    else Inr ()))
        (rt_rows t))"

section \<open>Fold sets\<close>

type_synonym fold_progress = "string list \<times> (sample_id, nat) btree_map"

definition fold_set_step ::
  "fold_set \<Rightarrow> fold_progress \<Rightarrow> fold_assignment \<Rightarrow> fold_progress res"
where
  "fold_set_step fs st f =
     (let (fold_ids, counts) = st; universe = fs_sample_ids fs in
      if is_blank (fa_fold_id f) then invalid ''fold assignment id is empty''
      else if fa_fold_id f \<in> set fold_ids then invalid ''duplicate fold id''
      else
        rbind (unique_samples (fa_train_sample_ids f)) (\<lambda>train.
        rbind (unique_samples (fa_validation_sample_ids f)) (\<lambda>validation.
          if validation = [] then invalid ''fold has no validation samples''
          else if list_ex (\<lambda>s. s \<notin> set universe) (train @ validation)
          then invalid ''fold references unknown sample''
          else if list_ex (\<lambda>s. s \<in> set validation) train
          then invalid ''train/validation overlap''
          else
            rseq (validate_group_boundary (fa_fold_id f) train validation (fs_sample_groups fs))
              (Inr (fa_fold_id f # fold_ids,
                    fold (\<lambda>s. bt_update s Suc) validation counts)))))"

definition fold_set_validate :: "fold_set \<Rightarrow> unit res" where
  "fold_set_validate fs =
     (if is_blank (fs_id fs) then invalid ''fold set id is empty''
      else if fs_sample_ids fs = [] then invalid ''fold set contains no samples''
      else if fs_folds fs = [] then invalid ''fold set contains no folds''
      else
        rbind (unique_samples (fs_sample_ids fs)) (\<lambda>universe.
        rbind (unique_samples (fs_target_missing_sample_ids fs)) (\<lambda>missing.
          if list_ex (\<lambda>s. s \<in> set universe) missing
          then invalid ''target-missing sample in universe''
          else
            rseq
              (if fs_sample_groups fs = [] then Inr ()
               else if list_ex (\<lambda>s. s \<notin> set universe) (bt_keys (fs_sample_groups fs))
               then invalid ''sample group map references unknown sample''
               else if list_ex (\<lambda>s. map_of (fs_sample_groups fs) s = None) (fs_sample_ids fs)
               then invalid ''sample missing from group map''
               else Inr ())
            (rbind
              (fold_res (fold_set_step fs)
                 ([], bt_collect (map (\<lambda>s. (s, 0)) (fs_sample_ids fs))) (fs_folds fs))
              (\<lambda>(_, counts).
                 if fs_partition_mode fs = Partition \<and> list_ex (\<lambda>(_, c). c \<noteq> 1) counts
                 then invalid ''sample not validated exactly once''
                 else Inr ())))))"

section \<open>Relation tables\<close>

type_synonym table_progress =
  "observation_id list \<times> origin_id list \<times> (sample_id, group_id) btree_map"

definition table_step :: "table_progress \<Rightarrow> sample_relation \<Rightarrow> table_progress res" where
  "table_step st r =
     (let (observations, origins, groups) = st in
      if sr_observation_id r \<in> set observations then invalid ''duplicate observation id''
      else
        rbind
          (case sr_group_id r of
             None \<Rightarrow> Inr groups
           | Some g \<Rightarrow>
               (case map_of groups (sr_sample_id r) of
                  Some previous \<Rightarrow>
                    if previous \<noteq> g then invalid ''conflicting groups''
                    else Inr (bt_insert (sr_sample_id r) g groups)
                | None \<Rightarrow> Inr (bt_insert (sr_sample_id r) g groups)))
          (\<lambda>groups'.
           if sr_augmented r \<and> sr_origin_id r = None
           then invalid ''augmented observation has no origin_id''
           else if \<not> sr_augmented r \<and> sr_origin_id r \<noteq> None
           then invalid ''non-augmented observation declares origin_id''
           else
             rseq
               (case sr_augmentation r of
                  None \<Rightarrow> Inr ()
                | Some a \<Rightarrow>
                    rseq (augmentation_validate a)
                      (if \<not> sr_augmented r
                       then invalid ''non-augmented observation declares augmentation''
                       else Inr ()))
               (case sr_origin_id r of
                  None \<Rightarrow> Inr (sr_observation_id r # observations, origins, groups')
                | Some origin \<Rightarrow>
                    if as_str origin = as_str (sr_observation_id r)
                    then invalid ''observation cannot be its own origin''
                    else Inr (sr_observation_id r # observations, origin # origins, groups'))))"

definition table_validate :: "sample_relation_table \<Rightarrow> unit res" where
  "table_validate t =
     (if rt_rows t = [] then invalid ''sample relation table contains no rows''
      else
        rbind (fold_res table_step ([], [], []) (rt_rows t))
          (\<lambda>(observations, origins, _).
             each_res
               (\<lambda>origin.
                  if \<not> list_ex (\<lambda>obs. as_str obs = as_str origin) observations
                  then invalid ''origin is not present as an observation'' else Inr ())
               (bset_of origins)))"

definition sample_groups :: "sample_relation_table \<Rightarrow> (sample_id, group_id) btree_map" where
  "sample_groups t =
     bt_collect
       (List.map_filter (\<lambda>r. map_option (\<lambda>g. (sr_sample_id r, g)) (sr_group_id r)) (rt_rows t))"

definition validate_fold_set :: "sample_relation_table \<Rightarrow> fold_set \<Rightarrow> unit res" where
  "validate_fold_set t fs =
     rseq (table_validate t)
       (rseq (fold_set_validate fs)
         (let relation_samples = bset_of (map sr_sample_id (rt_rows t));
              fold_samples = bset_of (fs_sample_ids fs);
              known = fold_samples @ fs_target_missing_sample_ids fs in
          if list_ex (\<lambda>s. s \<notin> set known) relation_samples
          then invalid ''fold set is missing relation sample''
          else if list_ex (\<lambda>s. s \<notin> set relation_samples) fold_samples
          then invalid ''fold set references sample absent from relations''
          else
            (let relation_groups = sample_groups t in
             rseq
               (each_res
                  (\<lambda>(s, fold_group). case map_of relation_groups s of
                       None \<Rightarrow> Inr ()
                     | Some relation_group \<Rightarrow>
                         if relation_group \<noteq> fold_group
                         then invalid ''fold group conflicts with relation group'' else Inr ())
                  (fs_sample_groups fs))
               (each_res
                  (\<lambda>f. rseq
                     (validate_group_boundary (fa_fold_id f) (fa_train_sample_ids f)
                        (fa_validation_sample_ids f) relation_groups)
                     (validate_origin_boundary (fa_fold_id f) (fa_train_sample_ids f)
                        (fa_validation_sample_ids f) t))
                  (fs_folds fs)))))"

section \<open>What a valid relation table is\<close>

definition row_ok :: "sample_relation \<Rightarrow> bool" where
  "row_ok r \<longleftrightarrow>
     (sr_augmented r \<longleftrightarrow> sr_origin_id r \<noteq> None) \<and>
     (\<forall>a. sr_augmentation r = Some a \<longrightarrow> augmentation_validate a = Inr () \<and> sr_augmented r) \<and>
     (\<forall>origin. sr_origin_id r = Some origin \<longrightarrow> as_str origin \<noteq> as_str (sr_observation_id r))"

definition same_group :: "sample_relation \<Rightarrow> sample_relation \<Rightarrow> bool" where
  "same_group r r' \<longleftrightarrow>
     (\<forall>g g'. sr_sample_id r = sr_sample_id r' \<longrightarrow> sr_group_id r = Some g \<longrightarrow>
        sr_group_id r' = Some g' \<longrightarrow> g = g')"

definition groups_agree :: "sample_relation list \<Rightarrow> bool" where
  "groups_agree rows \<longleftrightarrow> (\<forall>r\<in>set rows. \<forall>r'\<in>set rows. same_group r r')"

definition origins_present :: "sample_relation list \<Rightarrow> bool" where
  "origins_present rows \<longleftrightarrow>
     (\<forall>r\<in>set rows. \<forall>origin. sr_origin_id r = Some origin \<longrightarrow>
        (\<exists>r'\<in>set rows. as_str (sr_observation_id r') = as_str origin))"

definition table_ok :: "sample_relation_table \<Rightarrow> bool" where
  "table_ok t \<longleftrightarrow>
     rt_rows t \<noteq> [] \<and> distinct (map sr_observation_id (rt_rows t)) \<and>
     (\<forall>r\<in>set (rt_rows t). row_ok r) \<and> groups_agree (rt_rows t) \<and> origins_present (rt_rows t)"

definition record_group ::
  "sample_relation \<Rightarrow> (sample_id, group_id) btree_map \<Rightarrow> (sample_id, group_id) btree_map"
where
  "record_group r groups =
     (case sr_group_id r of None \<Rightarrow> groups | Some g \<Rightarrow> bt_insert (sr_sample_id r) g groups)"

definition record_origin :: "sample_relation \<Rightarrow> origin_id list \<Rightarrow> origin_id list" where
  "record_origin r origins =
     (case sr_origin_id r of None \<Rightarrow> origins | Some origin \<Rightarrow> origin # origins)"

definition row_agrees :: "(sample_id, group_id) btree_map \<Rightarrow> sample_relation \<Rightarrow> bool" where
  "row_agrees groups r \<longleftrightarrow>
     (\<forall>g g'. sr_group_id r = Some g \<longrightarrow> map_of groups (sr_sample_id r) = Some g' \<longrightarrow> g = g')"

lemma table_step_ok:
  "table_step (obs, origins, groups) r = Inr st \<longleftrightarrow>
     sr_observation_id r \<notin> set obs \<and> row_agrees groups r \<and> row_ok r \<and>
     st = (sr_observation_id r # obs, record_origin r origins, record_group r groups)"
  unfolding table_step_def row_agrees_def row_ok_def record_group_def record_origin_def
  by (cases "sr_group_id r"; cases "map_of groups (sr_sample_id r)"; cases "sr_origin_id r";
      cases "sr_augmentation r"; auto simp: rbind_eq_Inr if_Inl_eq_Inr)

lemma row_agrees_record:
  "row_agrees groups r \<Longrightarrow>
     row_agrees (record_group r groups) r' \<longleftrightarrow> row_agrees groups r' \<and> same_group r r'"
  unfolding row_agrees_def record_group_def same_group_def
  by (cases "sr_group_id r"; cases "sr_group_id r'") (auto simp: map_of_bt_insert)

lemma same_group_refl [simp]: "same_group r r"
  by (simp add: same_group_def)

lemma same_group_sym: "same_group r r' \<longleftrightarrow> same_group r' r"
  by (auto simp: same_group_def)

lemma groups_agree_Cons:
  "groups_agree (r # rows) \<longleftrightarrow> groups_agree rows \<and> (\<forall>r'\<in>set rows. same_group r r')"
  unfolding groups_agree_def using same_group_sym by auto

lemma table_fold_ok:
  "fold_res table_step (obs, origins, groups) rows = Inr st \<longleftrightarrow>
     distinct (map sr_observation_id rows) \<and>
     (\<forall>r\<in>set rows. sr_observation_id r \<notin> set obs \<and> row_ok r \<and> row_agrees groups r) \<and>
     groups_agree rows \<and>
     st = (rev (map sr_observation_id rows) @ obs, fold record_origin rows origins,
           fold record_group rows groups)"
proof (induction rows arbitrary: obs origins groups)
  case Nil
  then show ?case by (auto simp: groups_agree_def)
next
  case (Cons r rows)
  show ?case
  proof (cases "row_agrees groups r")
    case True
    show ?thesis
      by (auto simp: rbind_eq_Inr table_step_ok Cons.IH row_agrees_record [OF True]
          groups_agree_Cons True image_iff)
  next
    case False
    then show ?thesis by (auto simp: rbind_eq_Inr table_step_ok)
  qed
qed

lemma set_fold_record_origin:
  "set (fold record_origin rows origins) =
     set origins \<union> {origin. \<exists>r\<in>set rows. sr_origin_id r = Some origin}"
  by (induction rows arbitrary: origins) (auto simp: record_origin_def split: option.splits)

lemma table_validate_ok: "table_validate t = Inr () \<longleftrightarrow> table_ok t"
proof -
  let ?rows = "rt_rows t"
  have start: "row_agrees [] r" for r
    by (simp add: row_agrees_def)
  show ?thesis
    unfolding table_validate_def table_ok_def origins_present_def
    by (auto simp: rbind_eq_Inr if_Inl_eq_Inr each_res_ok table_fold_ok start
        set_fold_record_origin list_ex_iff)
qed

section \<open>What a valid fold set is\<close>

definition split_free ::
  "(sample_id, group_id) btree_map \<Rightarrow> sample_id list \<Rightarrow> sample_id list \<Rightarrow> bool"
where
  "split_free groups train validation \<longleftrightarrow>
     (\<forall>s\<in>set train. \<forall>s'\<in>set validation. \<forall>g.
        map_of groups s = Some g \<longrightarrow> map_of groups s' \<noteq> Some g)"

definition fold_ok :: "fold_set \<Rightarrow> fold_assignment \<Rightarrow> bool" where
  "fold_ok fs f \<longleftrightarrow>
     \<not> is_blank (fa_fold_id f) \<and>
     distinct (fa_train_sample_ids f) \<and> distinct (fa_validation_sample_ids f) \<and>
     fa_validation_sample_ids f \<noteq> [] \<and>
     set (fa_train_sample_ids f) \<union> set (fa_validation_sample_ids f) \<subseteq> set (fs_sample_ids fs) \<and>
     set (fa_train_sample_ids f) \<inter> set (fa_validation_sample_ids f) = {} \<and>
     split_free (fs_sample_groups fs) (fa_train_sample_ids f) (fa_validation_sample_ids f)"

definition validated_times :: "fold_set \<Rightarrow> sample_id \<Rightarrow> nat" where
  "validated_times fs s = length (filter (\<lambda>f. s \<in> set (fa_validation_sample_ids f)) (fs_folds fs))"

definition fold_set_ok :: "fold_set \<Rightarrow> bool" where
  "fold_set_ok fs \<longleftrightarrow>
     \<not> is_blank (fs_id fs) \<and> fs_sample_ids fs \<noteq> [] \<and> fs_folds fs \<noteq> [] \<and>
     distinct (fs_sample_ids fs) \<and> distinct (fs_target_missing_sample_ids fs) \<and>
     set (fs_target_missing_sample_ids fs) \<inter> set (fs_sample_ids fs) = {} \<and>
     (fs_sample_groups fs = [] \<or> set (bt_keys (fs_sample_groups fs)) = set (fs_sample_ids fs)) \<and>
     distinct (map fa_fold_id (fs_folds fs)) \<and> (\<forall>f\<in>set (fs_folds fs). fold_ok fs f) \<and>
     (fs_partition_mode fs = Partition \<longrightarrow> (\<forall>s\<in>set (fs_sample_ids fs). validated_times fs s = 1))"

lemma unique_samples_ok: "unique_samples xs = Inr ys \<longleftrightarrow> distinct xs \<and> ys = xs"
  by (auto simp: unique_samples_def rbind_eq_Inr each_unique_ok)

lemma validate_group_boundary_ok:
  "validate_group_boundary fold_id train validation groups = Inr () \<longleftrightarrow>
     split_free groups train validation"
  unfolding validate_group_boundary_def split_free_def
  by (auto simp: each_res_ok set_map_filter split: option.splits if_splits)

lemma fold_set_step_ok:
  "fold_set_step fs (fold_ids, counts) f = Inr st \<longleftrightarrow>
     fa_fold_id f \<notin> set fold_ids \<and> fold_ok fs f \<and>
     st = (fa_fold_id f # fold_ids, fold (\<lambda>s. bt_update s Suc) (fa_validation_sample_ids f) counts)"
  unfolding fold_set_step_def fold_ok_def
  by (auto simp: rbind_eq_Inr if_Inl_eq_Inr unique_samples_ok validate_group_boundary_ok
      list_ex_iff)

definition count_validation ::
  "fold_assignment \<Rightarrow> (sample_id, nat) btree_map \<Rightarrow> (sample_id, nat) btree_map"
where
  "count_validation f counts = fold (\<lambda>s. bt_update s Suc) (fa_validation_sample_ids f) counts"

lemma fold_set_fold_ok:
  "fold_res (fold_set_step fs) (fold_ids, counts) folds = Inr st \<longleftrightarrow>
     distinct (map fa_fold_id folds) \<and>
     (\<forall>f\<in>set folds. fa_fold_id f \<notin> set fold_ids \<and> fold_ok fs f) \<and>
     st = (rev (map fa_fold_id folds) @ fold_ids, fold count_validation folds counts)"
  by (induction folds arbitrary: fold_ids counts)
    (auto simp: rbind_eq_Inr fold_set_step_ok count_validation_def image_iff)

lemma keys_count_validation [simp]: "map fst (count_validation f counts) = map fst counts"
proof -
  have "map fst (fold (\<lambda>s. bt_update s Suc) ss counts) = map fst counts" for ss
    by (induction ss arbitrary: counts) auto
  then show ?thesis by (simp add: count_validation_def)
qed

lemma keys_fold_count [simp]: "map fst (fold count_validation folds counts) = map fst counts"
  by (induction folds arbitrary: counts) auto

lemma count_list_distinct: "distinct xs \<Longrightarrow> count_list xs x = (if x \<in> set xs then 1 else 0)"
  by (induction xs) auto

lemma map_of_count_validation:
  "map_of (count_validation f counts) s =
     map_option (\<lambda>c. c + count_list (fa_validation_sample_ids f) s) (map_of counts s)"
proof -
  have "map_of (fold (\<lambda>s. bt_update s Suc) ss counts) s =
      map_option (\<lambda>c. c + count_list ss s) (map_of counts s)" for ss
    by (induction ss arbitrary: counts)
      (auto simp: map_of_bt_update option.map_comp comp_def option.map_ident)
  then show ?thesis by (simp add: count_validation_def)
qed

lemma map_of_fold_count:
  assumes "\<forall>f\<in>set folds. distinct (fa_validation_sample_ids f)"
  shows "map_of (fold count_validation folds counts) s =
    map_option (\<lambda>c. c + length (filter (\<lambda>f. s \<in> set (fa_validation_sample_ids f)) folds))
      (map_of counts s)"
  using assms
proof (induction folds arbitrary: counts)
  case Nil
  then show ?case by (simp add: option.map_ident)
next
  case (Cons f folds)
  have "count_list (fa_validation_sample_ids f) s =
      (if s \<in> set (fa_validation_sample_ids f) then 1 else 0)"
    using Cons.prems by (simp add: count_list_distinct)
  then show ?case
    using Cons by (simp add: map_of_count_validation option.map_comp comp_def)
qed

lemma all_counts_one:
  assumes "\<forall>f\<in>set (fs_folds fs). distinct (fa_validation_sample_ids f)"
  shows "list_ex (\<lambda>(_, c). c \<noteq> 1)
      (fold count_validation (fs_folds fs) (bt_collect (map (\<lambda>s. (s, 0)) (fs_sample_ids fs)))) \<longleftrightarrow>
    (\<exists>s\<in>set (fs_sample_ids fs). validated_times fs s \<noteq> 1)"
proof -
  let ?start = "bt_collect (map (\<lambda>s. (s, 0::nat)) (fs_sample_ids fs))"
  let ?counts = "fold count_validation (fs_folds fs) ?start"
  have "distinct (map fst ?counts)"
    using bt_wf_distinct [OF bt.wf_collect] by simp
  then have "(s, c) \<in> set ?counts \<longleftrightarrow> map_of ?counts s = Some c" for s c
    by (simp add: map_of_eq_Some_iff)
  moreover have "map_of ?counts s =
      (if s \<in> set (fs_sample_ids fs) then Some (validated_times fs s) else None)" for s
    by (simp add: map_of_fold_count [OF assms] validated_times_def bt.get_collect rev_map
        map_of_map_restrict restrict_map_def)
  ultimately show ?thesis by (auto simp: list_ex_iff split: if_splits)
qed

lemma fold_set_validate_ok: "fold_set_validate fs = Inr () \<longleftrightarrow> fold_set_ok fs"
proof -
  define groups_bad where "groups_bad \<longleftrightarrow>
    fs_sample_groups fs \<noteq> [] \<and>
    (list_ex (\<lambda>s. s \<notin> set (fs_sample_ids fs)) (bt_keys (fs_sample_groups fs)) \<or>
     list_ex (\<lambda>s. map_of (fs_sample_groups fs) s = None) (fs_sample_ids fs))"
  define counts_bad where "counts_bad \<longleftrightarrow>
    list_ex (\<lambda>(_, c). c \<noteq> 1)
      (fold count_validation (fs_folds fs) (bt_collect (map (\<lambda>s. (s, 0)) (fs_sample_ids fs))))"
  have groups: "\<not> groups_bad \<longleftrightarrow>
      fs_sample_groups fs = [] \<or> set (bt_keys (fs_sample_groups fs)) = set (fs_sample_ids fs)"
    by (auto simp: groups_bad_def list_ex_iff map_of_eq_None_iff)
  have counts: "counts_bad \<longleftrightarrow> (\<exists>s\<in>set (fs_sample_ids fs). validated_times fs s \<noteq> 1)"
    if "\<forall>f\<in>set (fs_folds fs). fold_ok fs f"
    unfolding counts_bad_def by (rule all_counts_one) (use that in \<open>simp add: fold_ok_def\<close>)
  have "fold_set_validate fs = Inr () \<longleftrightarrow>
      \<not> is_blank (fs_id fs) \<and> fs_sample_ids fs \<noteq> [] \<and> fs_folds fs \<noteq> [] \<and>
      distinct (fs_sample_ids fs) \<and> distinct (fs_target_missing_sample_ids fs) \<and>
      \<not> list_ex (\<lambda>s. s \<in> set (fs_sample_ids fs)) (fs_target_missing_sample_ids fs) \<and>
      \<not> groups_bad \<and> distinct (map fa_fold_id (fs_folds fs)) \<and>
      (\<forall>f\<in>set (fs_folds fs). fold_ok fs f) \<and> \<not> (fs_partition_mode fs = Partition \<and> counts_bad)"
    unfolding fold_set_validate_def groups_bad_def counts_bad_def
    by (auto simp: rbind_eq_Inr if_Inl_eq_Inr unique_samples_ok fold_set_fold_ok)
  also have "\<dots> \<longleftrightarrow> fold_set_ok fs"
    unfolding fold_set_ok_def groups using counts by (auto simp: list_ex_iff)
  finally show ?thesis .
qed

text \<open>
  The fold set validator accepts exactly the well-formed fold sets: non-blank distinct fold ids,
  non-empty validation sets, no repeated sample, train and validation disjoint and inside the
  universe, a group map that is absent or covers the universe exactly and is split by no fold, and,
  in partition mode only, every sample validated exactly once (target-missing samples stay outside).
\<close>

lemma fold_set_validate_iff: "fold_set_validate fs = Inr () \<longleftrightarrow> fold_set_ok fs"
  by (rule fold_set_validate_ok)

text \<open>
  Out-of-fold completeness: an accepted partition fold set validates every sample of its universe
  in exactly one fold, and no fold trains on a sample that it validates.
\<close>

lemma partition_validates_once:
  assumes "fold_set_validate fs = Inr ()" and "fs_partition_mode fs = Partition"
    and "s \<in> set (fs_sample_ids fs)"
  shows "\<exists>!i. i < length (fs_folds fs) \<and> s \<in> set (fa_validation_sample_ids (fs_folds fs ! i)) \<and>
      s \<notin> set (fa_train_sample_ids (fs_folds fs ! i))"
proof -
  have ok: "fold_set_ok fs" using assms(1) by (simp add: fold_set_validate_ok)
  let ?valid = "\<lambda>i. i < length (fs_folds fs) \<and> s \<in> set (fa_validation_sample_ids (fs_folds fs ! i))"
  have "card {i. ?valid i} = 1"
    using ok assms(2,3)
    by (simp add: fold_set_ok_def validated_times_def length_filter_conv_card)
  then have "\<exists>!i. ?valid i"
    by (auto simp: card_1_singleton_iff Ex1_def set_eq_iff)
  moreover have "s \<notin> set (fa_train_sample_ids (fs_folds fs ! i))" if "?valid i" for i
    using ok that nth_mem [of i "fs_folds fs"] by (fastforce simp: fold_set_ok_def fold_ok_def)
  ultimately show ?thesis by blast
qed

section \<open>The audit of a fold set against the relations\<close>

definition derived_from :: "sample_relation \<Rightarrow> sample_relation \<Rightarrow> bool" where
  "derived_from r r' \<longleftrightarrow>
     (\<exists>origin. sr_origin_id r = Some origin \<and> as_str (sr_observation_id r') = as_str origin)"

definition shares_group :: "sample_relation \<Rightarrow> sample_relation \<Rightarrow> bool" where
  "shares_group r r' \<longleftrightarrow> (\<exists>g. sr_group_id r = Some g \<and> sr_group_id r' = Some g)"

definition leak_free :: "sample_relation_table \<Rightarrow> fold_assignment \<Rightarrow> bool" where
  "leak_free t f \<longleftrightarrow>
     (\<forall>r\<in>set (rt_rows t). \<forall>r'\<in>set (rt_rows t).
        sr_sample_id r \<in> set (fa_train_sample_ids f) \<longrightarrow>
        sr_sample_id r' \<in> set (fa_validation_sample_ids f) \<longrightarrow>
        \<not> shares_group r r' \<and> \<not> derived_from r r' \<and> \<not> derived_from r' r)"

definition covers_relations :: "sample_relation_table \<Rightarrow> fold_set \<Rightarrow> bool" where
  "covers_relations t fs \<longleftrightarrow>
     set (fs_sample_ids fs) \<subseteq> sr_sample_id ` set (rt_rows t) \<and>
     sr_sample_id ` set (rt_rows t) \<subseteq>
       set (fs_sample_ids fs) \<union> set (fs_target_missing_sample_ids fs)"

definition fold_groups_agree :: "sample_relation_table \<Rightarrow> fold_set \<Rightarrow> bool" where
  "fold_groups_agree t fs \<longleftrightarrow>
     (\<forall>(s, g)\<in>set (fs_sample_groups fs). \<forall>r\<in>set (rt_rows t).
        sr_sample_id r = s \<longrightarrow> sr_group_id r \<in> {None, Some g})"

lemma sample_groups_lookup:
  assumes "groups_agree (rt_rows t)"
  shows "map_of (sample_groups t) s = Some g \<longleftrightarrow>
    (\<exists>r\<in>set (rt_rows t). sr_sample_id r = s \<and> sr_group_id r = Some g)"
proof -
  let ?kvs = "List.map_filter (\<lambda>r. map_option (\<lambda>g. (sr_sample_id r, g)) (sr_group_id r)) (rt_rows t)"
  have mem: "(s, g) \<in> set ?kvs \<longleftrightarrow>
      (\<exists>r\<in>set (rt_rows t). sr_sample_id r = s \<and> sr_group_id r = Some g)" for s g
    by (auto simp: set_map_filter)
  have "map_of (rev ?kvs) s = Some g \<longleftrightarrow> (s, g) \<in> set ?kvs"
  proof
    assume "map_of (rev ?kvs) s = Some g"
    then show "(s, g) \<in> set ?kvs" using map_of_SomeD by fastforce
  next
    assume sg: "(s, g) \<in> set ?kvs"
    then have "(s, g) \<in> set (rev ?kvs)" by (simp only: set_rev)
    from weak_map_of_SomeI [OF this] obtain g' where g': "map_of (rev ?kvs) s = Some g'" by blast
    then have "(s, g') \<in> set ?kvs" using map_of_SomeD by fastforce
    with sg have "g = g'"
      using assms by (auto simp: mem groups_agree_def same_group_def)
    with g' show "map_of (rev ?kvs) s = Some g" by simp
  qed
  then show ?thesis by (simp add: sample_groups_def bt.get_collect mem)
qed

lemma origin_sample_lookup:
  assumes "distinct (map sr_observation_id (rt_rows t))"
  shows "map_of (bt_collect (map (\<lambda>r. (as_str (sr_observation_id r), sr_sample_id r)) (rt_rows t))) o' = Some s
    \<longleftrightarrow> (\<exists>r\<in>set (rt_rows t). as_str (sr_observation_id r) = o' \<and> sr_sample_id r = s)"
proof -
  have "distinct (map (\<lambda>r. as_str (sr_observation_id r)) (rt_rows t))"
    using assms by (auto simp: distinct_map inj_on_def ident.expand)
  then have "distinct (map fst (map (\<lambda>r. (as_str (sr_observation_id r), sr_sample_id r)) (rt_rows t)))"
    by (simp add: comp_def)
  then show ?thesis by (auto simp: bt.get_collect_distinct map_of_eq_Some_iff)
qed

lemma validate_origin_boundary_ok:
  assumes "distinct (map sr_observation_id (rt_rows t))"
  shows "validate_origin_boundary fold_id train validation t = Inr () \<longleftrightarrow>
    (\<forall>r\<in>set (rt_rows t). \<forall>r'\<in>set (rt_rows t). derived_from r r' \<longrightarrow>
       \<not> (sr_sample_id r \<in> set train \<and> sr_sample_id r' \<in> set validation) \<and>
       \<not> (sr_sample_id r \<in> set validation \<and> sr_sample_id r' \<in> set train))"
proof -
  let ?m = "bt_collect (map (\<lambda>r. (as_str (sr_observation_id r), sr_sample_id r)) (rt_rows t))"
  have row: "(case sr_origin_id r of None \<Rightarrow> Inr ()
     | Some origin \<Rightarrow>
         (case map_of ?m (as_str origin) of None \<Rightarrow> Inr ()
          | Some origin_sample \<Rightarrow>
              if sr_sample_id r \<in> set train \<and> origin_sample \<in> set validation
              then Inl (RelationBoundaryViolation ''origin'' [fold_id, as_str origin])
              else if sr_sample_id r \<in> set validation \<and> origin_sample \<in> set train
              then Inl (RelationBoundaryViolation ''origin'' [fold_id, as_str origin])
              else Inr ())) = Inr () \<longleftrightarrow>
     (\<forall>origin s. sr_origin_id r = Some origin \<longrightarrow> map_of ?m (as_str origin) = Some s \<longrightarrow>
       \<not> (sr_sample_id r \<in> set train \<and> s \<in> set validation) \<and>
       \<not> (sr_sample_id r \<in> set validation \<and> s \<in> set train))" for r
    by (auto split: option.splits)
  show ?thesis
    unfolding validate_origin_boundary_def Let_def each_res_ok row derived_from_def
      origin_sample_lookup [OF assms]
    by blast
qed

lemma validate_fold_set_ok:
  "validate_fold_set t fs = Inr () \<longleftrightarrow>
     table_ok t \<and> fold_set_ok fs \<and> covers_relations t fs \<and> fold_groups_agree t fs \<and>
     (\<forall>f\<in>set (fs_folds fs). leak_free t f)"
proof (cases "table_ok t")
  case False
  then show ?thesis by (simp add: validate_fold_set_def rbind_eq_Inr table_validate_ok)
next
  case True
  then have agree: "groups_agree (rt_rows t)" and dist: "distinct (map sr_observation_id (rt_rows t))"
    by (simp_all add: table_ok_def)
  have split: "split_free (sample_groups t) train validation \<longleftrightarrow>
      (\<forall>r\<in>set (rt_rows t). \<forall>r'\<in>set (rt_rows t). sr_sample_id r \<in> set train \<longrightarrow>
         sr_sample_id r' \<in> set validation \<longrightarrow> \<not> shares_group r r')" for train validation
    unfolding split_free_def shares_group_def sample_groups_lookup [OF agree] by blast
  have fold: "split_free (sample_groups t) (fa_train_sample_ids f) (fa_validation_sample_ids f) \<and>
      validate_origin_boundary (fa_fold_id f) (fa_train_sample_ids f) (fa_validation_sample_ids f) t
        = Inr () \<longleftrightarrow> leak_free t f" for f
    unfolding leak_free_def split validate_origin_boundary_ok [OF dist] by blast
  have group: "(case map_of (sample_groups t) s of None \<Rightarrow> Inr ()
      | Some relation_group \<Rightarrow> if relation_group \<noteq> g
          then invalid ''fold group conflicts with relation group'' else Inr ()) = Inr () \<longleftrightarrow>
      (\<forall>r\<in>set (rt_rows t). sr_sample_id r = s \<longrightarrow> sr_group_id r \<in> {None, Some g})"
    (is "?l \<longleftrightarrow> ?r") for s g
  proof -
    have "?l \<longleftrightarrow> (\<forall>g'. map_of (sample_groups t) s = Some g' \<longrightarrow> g' = g)"
      by (auto split: option.splits)
    also have "\<dots> \<longleftrightarrow> ?r"
      unfolding sample_groups_lookup [OF agree] by (auto, metis not_None_eq)
    finally show ?thesis .
  qed
  have cover: "\<not> list_ex (\<lambda>s. s \<notin> set (bset_of (fs_sample_ids fs) @ fs_target_missing_sample_ids fs))
        (bset_of (map sr_sample_id (rt_rows t))) \<and>
      \<not> list_ex (\<lambda>s. s \<notin> set (bset_of (map sr_sample_id (rt_rows t)))) (bset_of (fs_sample_ids fs))
      \<longleftrightarrow> covers_relations t fs"
    by (auto simp: list_ex_iff covers_relations_def)
  show ?thesis
    using True unfolding validate_fold_set_def Let_def cover [symmetric]
    by (simp add: rbind_eq_Inr if_Inl_eq_Inr each_res_ok table_validate_ok fold_set_validate_ok
        validate_group_boundary_ok fold group case_prod_unfold fold_groups_agree_def)
qed

text \<open>
  C7. The leakage barrier of ADR-05: once a fold set has passed the audit, no fold puts into training a
  row that shares a repetition group with a validated row, or that is the augmentation origin of one,
  or that was augmented from one. (The group of a row is the one the relation table declares; the
  accepted table has one group per sample.)
\<close>

theorem validate_fold_set_no_leak:
  assumes "validate_fold_set t fs = Inr ()" and "f \<in> set (fs_folds fs)"
    and "r \<in> set (rt_rows t)" and "sr_sample_id r \<in> set (fa_train_sample_ids f)"
    and "r' \<in> set (rt_rows t)" and "sr_sample_id r' \<in> set (fa_validation_sample_ids f)"
  shows "sr_sample_id r \<noteq> sr_sample_id r' \<and> \<not> shares_group r r' \<and>
    \<not> derived_from r r' \<and> \<not> derived_from r' r"
proof -
  have "fold_set_ok fs" "leak_free t f"
    using assms(1,2) by (simp_all add: validate_fold_set_ok)
  then show ?thesis
    using assms(2-6) by (fastforce simp: leak_free_def fold_set_ok_def fold_ok_def)
qed

text \<open>
  C22. The audit is exact: it accepts a fold set exactly when the relation table and the fold set are
  well-formed, the fold universe is made of relation samples and covers them up to the declared
  target-missing ones, the fold groups agree with the relation groups, and no fold puts two rows that
  share a group, or of which one was augmented directly from the other, on different sides. So it misses
  nothing that these conditions forbid, and refuses nothing else: an origin two augmentations away is not
  looked at (\<open>origin_chain_accepted\<close>).
\<close>

theorem validate_fold_set_iff:
  "validate_fold_set t fs = Inr () \<longleftrightarrow>
     table_ok t \<and> fold_set_ok fs \<and> covers_relations t fs \<and> fold_groups_agree t fs \<and>
     list_all (leak_free t) (fs_folds fs)"
  by (simp add: validate_fold_set_ok list_all_iff)

section \<open>A small campaign\<close>

text \<open>
  Three observations of three samples: \<open>a\<close> is measured, \<open>b\<close> is augmented from \<open>a\<close> and \<open>c\<close> from \<open>b\<close>.
\<close>

definition plain_row :: "string \<Rightarrow> string \<Rightarrow> sample_relation" where
  "plain_row obs s =
     \<lparr>sr_observation_id = Ident obs, sr_sample_id = Ident s, sr_source_id = None,
      sr_target_id = None, sr_group_id = None, sr_origin_id = None, sr_repetition_id = None,
      sr_augmented = False, sr_excluded = False, sr_metadata = [], sr_tags = [],
      sr_augmentation = None\<rparr>"

definition augmented_row :: "string \<Rightarrow> string \<Rightarrow> string \<Rightarrow> sample_relation" where
  "augmented_row obs s origin =
     (plain_row obs s)\<lparr>sr_augmented := True, sr_origin_id := Some (Ident origin)\<rparr>"

definition chain_table :: sample_relation_table where
  "chain_table = \<lparr>rt_rows = [plain_row ''a'' ''s'', augmented_row ''b'' ''t'' ''a'',
     augmented_row ''c'' ''u'' ''b'']\<rparr>"

definition small_fold :: "string \<Rightarrow> sample_id list \<Rightarrow> sample_id list \<Rightarrow> fold_assignment" where
  "small_fold i train validation =
     \<lparr>fa_fold_id = i, fa_train_sample_ids = train, fa_validation_sample_ids = validation,
      fa_metadata = []\<rparr>"

definition chain_folds :: fold_set where
  "chain_folds =
     \<lparr>fs_id = ''f'', fs_sample_ids = [Ident ''s'', Ident ''t'', Ident ''u''],
      fs_folds = [small_fold ''1'' [Ident ''u''] [Ident ''s''], small_fold ''2'' [] [Ident ''t''],
        small_fold ''3'' [Ident ''s''] [Ident ''u'']],
      fs_sample_groups = [], fs_partition_mode = Partition,
      fs_train_exclusion = ExcludeRelations, fs_target_missing_sample_ids = []\<rparr>"

lemmas small_campaign_defs =
  chain_table_def chain_folds_def plain_row_def augmented_row_def small_fold_def

lemma chain_accepted: "validate_fold_set chain_table chain_folds = Inr ()"
proof -
  have nonblank: "\<not> is_blank ''f''" "\<not> is_blank ''1''" "\<not> is_blank ''2''" "\<not> is_blank ''3''"
    by (simp_all add: is_blank_graphic is_ascii_graphic_def byte_of_def)
  have "table_ok chain_table"
    by (simp add: table_ok_def row_ok_def groups_agree_def same_group_def origins_present_def
        small_campaign_defs)
  moreover have "fold_set_ok chain_folds"
    using nonblank
    by (simp add: fold_set_ok_def fold_ok_def split_free_def validated_times_def small_campaign_defs)
  moreover have "covers_relations chain_table chain_folds" "fold_groups_agree chain_table chain_folds"
    by (simp_all add: covers_relations_def fold_groups_agree_def small_campaign_defs)
  moreover have "\<forall>f\<in>set (fs_folds chain_folds). leak_free chain_table f"
    by (simp add: leak_free_def shares_group_def derived_from_def small_campaign_defs)
  ultimately show ?thesis by (simp add: validate_fold_set_ok)
qed

text \<open>
  An instance of what the audit does not see: there is an accepted table and fold set in which a training row was augmented, through one intermediate augmentation
  whose sample the fold does not use, from a row that the same fold validates.
\<close>

lemma origin_chain_accepted:
  "\<exists>t fs f r r' r''. validate_fold_set t fs = Inr () \<and> f \<in> set (fs_folds fs) \<and>
     {r, r', r''} \<subseteq> set (rt_rows t) \<and> derived_from r r' \<and> derived_from r' r'' \<and>
     sr_sample_id r \<in> set (fa_train_sample_ids f) \<and>
     sr_sample_id r'' \<in> set (fa_validation_sample_ids f)"
  by (rule exI [of _ chain_table], rule exI [of _ chain_folds],
      rule exI [of _ "small_fold ''1'' [Ident ''u''] [Ident ''s'']"],
      rule exI [of _ "augmented_row ''c'' ''u'' ''b''"],
      rule exI [of _ "augmented_row ''b'' ''t'' ''a''"], rule exI [of _ "plain_row ''a'' ''s''"])
    (simp add: chain_accepted, simp add: derived_from_def small_campaign_defs)

lemma partition_validates_once_witness:
  "\<exists>!i. i < length (fs_folds chain_folds) \<and>
     Ident ''s'' \<in> set (fa_validation_sample_ids (fs_folds chain_folds ! i)) \<and>
     Ident ''s'' \<notin> set (fa_train_sample_ids (fs_folds chain_folds ! i))"
proof (rule partition_validates_once)
  show "fold_set_validate chain_folds = Inr ()"
    using chain_accepted by (simp add: validate_fold_set_ok fold_set_validate_ok)
qed (simp_all add: chain_folds_def)

lemma validate_fold_set_no_leak_witness:
  "\<not> shares_group (augmented_row ''c'' ''u'' ''b'') (plain_row ''a'' ''s'') \<and>
   \<not> derived_from (augmented_row ''c'' ''u'' ''b'') (plain_row ''a'' ''s'')"
  using validate_fold_set_no_leak [OF chain_accepted,
      of "small_fold ''1'' [Ident ''u''] [Ident ''s'']" "augmented_row ''c'' ''u'' ''b''"
         "plain_row ''a'' ''s''"]
  by (simp add: chain_table_def chain_folds_def, simp add: small_campaign_defs)

end
