(* ===== verification/Fingerprints.thy ===== *)
theory Fingerprints
  imports Relations "HOL-Library.Product_Lexorder" "HOL-Library.Option_ord"
begin

text \<open>
  Fingerprints (\<open>fingerprint.rs\<close>): the lower-case hexadecimal SHA-256 digest of a canonical
  serialization. The serialization is serde's and the digest the hash library's, so both are
  parameters: \<open>encode\<close> for \<open>canonical_typed_json\<close>, \<open>to_value\<close>, \<open>sort_objects\<close> and \<open>to_vec\<close> for
  the JSON steps of the fold set, \<open>sha256\<close> for the digest. What is modelled is what the crate itself
  decides: the order in which members are put before hashing, the removal of empty maps, and the text
  of the digest.
\<close>

definition to_hex :: "u8 list \<Rightarrow> string" where
  "to_hex bytes = concat (map hex_byte bytes)"

definition typed_fingerprint ::
  "('a \<Rightarrow> u8 list res) \<Rightarrow> (u8 list \<Rightarrow> u8 list) \<Rightarrow> 'a \<Rightarrow> string res"
where
  "typed_fingerprint encode sha256 v = rbind (encode v) (\<lambda>bytes. Inr (to_hex (sha256 bytes)))"

definition validate_fingerprint :: "string \<Rightarrow> string \<Rightarrow> unit res" where
  "validate_fingerprint label v =
     (if length v \<noteq> 64 \<or> \<not> list_all is_ascii_hexdigit v then invalid label else Inr ())"

definition sample_relation_fingerprint ::
  "(sample_relation_table \<Rightarrow> u8 list res) \<Rightarrow> (u8 list \<Rightarrow> u8 list) \<Rightarrow> sample_relation_table \<Rightarrow> string res"
where
  "sample_relation_fingerprint encode sha256 t =
     rseq (table_validate t)
       (typed_fingerprint encode sha256
         (t\<lparr>rt_rows :=
             sort_key (\<lambda>r. (sr_observation_id r, sr_sample_id r, sr_source_id r)) (rt_rows t)\<rparr>))"

definition canonical_fold :: "fold_assignment \<Rightarrow> fold_assignment" where
  "canonical_fold f =
     f\<lparr>fa_train_sample_ids := sort (fa_train_sample_ids f),
       fa_validation_sample_ids := sort (fa_validation_sample_ids f)\<rparr>"

definition canonical_fold_set :: "fold_set \<Rightarrow> fold_set" where
  "canonical_fold_set fs =
     fs\<lparr>fs_sample_ids := sort (fs_sample_ids fs),
        fs_target_missing_sample_ids := sort (fs_target_missing_sample_ids fs),
        fs_folds := map canonical_fold (sort_key fa_fold_id (fs_folds fs))\<rparr>"

definition is_empty_object :: "json option \<Rightarrow> bool" where
  "is_empty_object v = (v = Some (JObject []))"

definition drop_empty_member :: "string \<Rightarrow> (string \<times> json) list \<Rightarrow> (string \<times> json) list" where
  "drop_empty_member key m = (if is_empty_object (map_of m key) then bt_remove key m else m)"

definition remove_empty_fold_set_maps :: "json \<Rightarrow> json" where
  "remove_empty_fold_set_maps v =
     (case v of
        JObject m \<Rightarrow>
          (let m' = drop_empty_member ''sample_groups'' m in
           case map_of m' ''folds'' of
             Some (JArray folds) \<Rightarrow>
               JObject
                 (bt_update ''folds''
                   (\<lambda>_. JArray
                      (map (\<lambda>fold. case fold of
                              JObject fm \<Rightarrow> JObject (drop_empty_member ''metadata'' fm)
                            | _ \<Rightarrow> fold) folds)) m')
           | _ \<Rightarrow> JObject m')
      | _ \<Rightarrow> v)"

definition fold_set_fingerprint ::
  "(fold_set \<Rightarrow> json res) \<Rightarrow> (json \<Rightarrow> json) \<Rightarrow> (json \<Rightarrow> u8 list res) \<Rightarrow> (u8 list \<Rightarrow> u8 list) \<Rightarrow>
   fold_set \<Rightarrow> string res"
where
  "fold_set_fingerprint to_value sort_objects to_vec sha256 fs =
     rseq (fold_set_validate fs)
       (rbind (to_value (canonical_fold_set fs)) (\<lambda>v.
          typed_fingerprint to_vec sha256 (sort_objects (remove_empty_fold_set_maps v))))"

section \<open>The text of a fingerprint\<close>

lemma to_hex_simps [simp]: "to_hex [] = []" "to_hex (b # bs) = hex_byte b @ to_hex bs"
  by (simp_all add: to_hex_def)

lemma hex_byte_hexdigits: "list_all is_ascii_hexdigit (hex_byte b)"
  using unsigned_less [of b, where ?'a = nat]
  by (simp add: hex_byte_def hex_digit_hexdigit)

lemma length_to_hex: "length (to_hex bs) = 2 * length bs"
  by (induction bs) (simp_all add: hex_byte_def)

lemma to_hex_hexdigits: "list_all is_ascii_hexdigit (to_hex bs)"
  by (induction bs) (simp_all add: hex_byte_hexdigits)

lemma to_hex_inj: "to_hex as = to_hex bs \<Longrightarrow> as = bs"
proof (induction as arbitrary: bs)
  case Nil
  then show ?case by (cases bs) (simp_all add: hex_byte_def)
next
  case (Cons a as)
  then obtain b bs' where bs: "bs = b # bs'" by (cases bs) (auto simp: hex_byte_def)
  have "hex_byte a = hex_byte b \<and> to_hex as = to_hex bs'"
    using Cons.prems unfolding bs by (simp add: hex_byte_def)
  with Cons.IH bs show ?case by (auto dest: hex_byte_inj)
qed

lemma validate_fingerprint_ok:
  "validate_fingerprint label v = Inr () \<longleftrightarrow> length v = 64 \<and> list_all is_ascii_hexdigit v"
  by (auto simp: validate_fingerprint_def)

lemma typed_fingerprint_format:
  assumes "\<And>bytes. length (sha256 bytes) = 32" and "typed_fingerprint encode sha256 v = Inr fp"
  shows "validate_fingerprint label fp = Inr ()"
  using assms by (auto simp: typed_fingerprint_def rbind_eq_Inr validate_fingerprint_ok length_to_hex
      to_hex_hexdigits)

text \<open>Two values with the same fingerprint have the same digest.\<close>

lemma typed_fingerprint_inj:
  "typed_fingerprint encode sha256 v = Inr fp \<Longrightarrow> typed_fingerprint encode sha256 w = Inr fp \<Longrightarrow>
   \<exists>bv bw. encode v = Inr bv \<and> encode w = Inr bw \<and> sha256 bv = sha256 bw"
  by (auto simp: typed_fingerprint_def rbind_eq_Inr dest: to_hex_inj)

section \<open>Order independence\<close>

lemma table_ok_perm:
  assumes "mset (rt_rows t) = mset (rt_rows t')"
  shows "table_ok t \<longleftrightarrow> table_ok t'"
proof -
  have "set (rt_rows t) = set (rt_rows t')" using assms by (rule mset_eq_setD)
  moreover from this have "rt_rows t = [] \<longleftrightarrow> rt_rows t' = []" by auto
  ultimately show ?thesis
    unfolding table_ok_def groups_agree_def origins_present_def distinct_map_perm [OF assms]
    by (simp only:)
qed

text \<open>
  The fingerprint of a valid relation table does not depend on the order of its rows.
\<close>

lemma sample_relation_fingerprint_order_independent:
  assumes "mset (rt_rows t) = mset (rt_rows t')" and "table_validate t = Inr ()"
  shows "sample_relation_fingerprint encode sha256 t = sample_relation_fingerprint encode sha256 t'"
proof -
  have "table_ok t" using assms(2) by (simp add: table_validate_ok)
  then have "table_validate t' = Inr ()" using table_ok_perm [OF assms(1)] by (simp add: table_validate_ok)
  let ?key = "\<lambda>r. (sr_observation_id r, sr_sample_id r, sr_source_id r)"
  have "distinct (map ?key (rt_rows t))"
    using \<open>table_ok t\<close> by (auto simp: table_ok_def distinct_map inj_on_def)
  then have "sort_key ?key (rt_rows t) = sort_key ?key (rt_rows t')"
    by (rule sort_key_perm [OF assms(1)])
  with \<open>table_validate t' = Inr ()\<close> assms(2) show ?thesis
    by (cases t; cases t') (simp add: sample_relation_fingerprint_def)
qed

text \<open>Two fold sets that list the same members, in any order.\<close>

definition same_fold_content :: "fold_set \<Rightarrow> fold_set \<Rightarrow> bool" where
  "same_fold_content fs fs' \<longleftrightarrow>
     mset (fs_sample_ids fs) = mset (fs_sample_ids fs') \<and>
     mset (fs_target_missing_sample_ids fs) = mset (fs_target_missing_sample_ids fs') \<and>
     mset (map canonical_fold (fs_folds fs)) = mset (map canonical_fold (fs_folds fs')) \<and>
     fs_id fs = fs_id fs' \<and> fs_sample_groups fs = fs_sample_groups fs' \<and>
     fs_partition_mode fs = fs_partition_mode fs' \<and> fs_train_exclusion fs = fs_train_exclusion fs'"

lemma sort_mset_cong: "mset xs = mset ys \<Longrightarrow> sort xs = sort ys" for xs :: "'a::linorder list"
  by (metis mset_sort properties_for_sort sorted_sort)

lemma insort_key_map: "insort_key f (g x) (map g xs) = map g (insort_key (\<lambda>y. f (g y)) x xs)"
  by (induction xs) simp_all

lemma sort_key_map: "sort_key f (map g xs) = map g (sort_key (\<lambda>y. f (g y)) xs)"
  by (induction xs) (simp_all add: insort_key_map)

lemma canonical_fold_set_cong:
  assumes "same_fold_content fs fs'" and "distinct (map fa_fold_id (fs_folds fs))"
  shows "canonical_fold_set fs = canonical_fold_set fs'"
proof -
  have fold_id: "fa_fold_id (canonical_fold f) = fa_fold_id f" for f
    by (simp add: canonical_fold_def)
  have "distinct (map fa_fold_id (map canonical_fold (fs_folds fs)))"
    using assms(2) by (simp add: comp_def fold_id)
  then have "sort_key fa_fold_id (map canonical_fold (fs_folds fs)) =
      sort_key fa_fold_id (map canonical_fold (fs_folds fs'))"
    using assms(1) by (intro sort_key_perm) (auto simp: same_fold_content_def)
  then have "map canonical_fold (sort_key fa_fold_id (fs_folds fs)) =
      map canonical_fold (sort_key fa_fold_id (fs_folds fs'))"
    by (simp add: sort_key_map fold_id)
  moreover have "sort (fs_sample_ids fs) = sort (fs_sample_ids fs')"
      "sort (fs_target_missing_sample_ids fs) = sort (fs_target_missing_sample_ids fs')"
    using assms(1) by (auto simp: same_fold_content_def intro: sort_mset_cong)
  ultimately show ?thesis
    using assms(1) by (cases fs; cases fs') (simp add: same_fold_content_def canonical_fold_set_def)
qed

text \<open>
  The fingerprint of a fold set identifies its content: two valid fold sets with the same samples,
  the same folds and the same members in each fold have the same fingerprint, in whatever order
  they list them.
\<close>

lemma fold_set_fingerprint_order_independent:
  assumes "same_fold_content fs fs'" and "fold_set_validate fs = Inr ()"
    and "fold_set_validate fs' = Inr ()"
  shows "fold_set_fingerprint to_value sort_objects to_vec sha256 fs =
    fold_set_fingerprint to_value sort_objects to_vec sha256 fs'"
proof -
  have "distinct (map fa_fold_id (fs_folds fs))"
    using assms(2) by (simp add: fold_set_validate_ok fold_set_ok_def)
  then show ?thesis
    using canonical_fold_set_cong [OF assms(1)] assms(2,3) by (simp add: fold_set_fingerprint_def)
qed

section \<open>Concrete fingerprints\<close>

text \<open>An encoder that keeps the observation ids in their order, and a digest of 32 bytes.\<close>

definition sample_encoder :: "sample_relation_table \<Rightarrow> u8 list res" where
  "sample_encoder t = Inr (concat (map (\<lambda>r. map of_char (as_str (sr_observation_id r))) (rt_rows t)))"

definition sample_digest :: "u8 list \<Rightarrow> u8 list" where
  "sample_digest bytes = take 32 (bytes @ replicate 32 0)"

lemma length_sample_digest [simp]: "length (sample_digest bytes) = 32"
  by (simp add: sample_digest_def)

lemma chain_parts: "table_validate chain_table = Inr ()" "fold_set_validate chain_folds = Inr ()"
  using chain_accepted by (simp_all add: validate_fold_set_ok table_validate_ok fold_set_validate_ok)

lemma sample_relation_fingerprint_order_independent_witness:
  "sample_relation_fingerprint sample_encoder sample_digest chain_table =
   sample_relation_fingerprint sample_encoder sample_digest \<lparr>rt_rows = rev (rt_rows chain_table)\<rparr>"
  by (rule sample_relation_fingerprint_order_independent) (simp_all add: chain_parts)

lemma fold_set_fingerprint_order_independent_witness:
  "fold_set_fingerprint (\<lambda>fs. Inr (JArray (map (JString \<circ> fa_fold_id) (fs_folds fs)))) id
     (\<lambda>_. Inr [7]) sample_digest chain_folds =
   fold_set_fingerprint (\<lambda>fs. Inr (JArray (map (JString \<circ> fa_fold_id) (fs_folds fs)))) id
     (\<lambda>_. Inr [7]) sample_digest
     (chain_folds\<lparr>fs_folds := rev (fs_folds chain_folds),
        fs_sample_ids := rev (fs_sample_ids chain_folds)\<rparr>)"
proof (rule fold_set_fingerprint_order_independent)
  have "fold_set_ok chain_folds" using chain_parts(2) by (simp add: fold_set_validate_ok)
  then show "fold_set_validate (chain_folds\<lparr>fs_folds := rev (fs_folds chain_folds),
      fs_sample_ids := rev (fs_sample_ids chain_folds)\<rparr>) = Inr ()"
    unfolding fold_set_validate_ok
    by (simp add: fold_set_ok_def fold_ok_def split_free_def validated_times_def rev_map [symmetric] rev_filter [symmetric] ac_simps)
qed (simp_all add: chain_parts same_fold_content_def rev_map)

end
