(* ===== verification/Coordinator.thy ===== *)
theory Coordinator
  imports Fingerprints
begin

text \<open>
  Coordinator relations (\<open>coordinator.rs\<close>): the relation records a plan envelope carries, their
  unit identity, the validation of a set of them, their conversion from a sample relation table and
  the branch views that select from them. Decoding a \<open>by_filter\<close> predicate from JSON is derived by
  serde, so it is the parameter \<open>decode\<close>; the serialization and the digest of a fingerprint are the
  parameters \<open>encode\<close> and \<open>sha256\<close>.
\<close>

section \<open>Relation records\<close>

datatype unit_level = UnitPhysicalSample | UnitSourceSample | UnitObservation | UnitCombo

record coordinator_relation =
  cr_unit_level :: unit_level
  cr_unit_id :: "string option"
  cr_observation_id :: observation_id
  cr_sample_id :: sample_id
  cr_source_id :: "source_id option"
  cr_rep_id :: "string option"
  cr_target_id :: "target_id option"
  cr_group_id :: "group_id option"
  cr_origin_sample_id :: "sample_id option"
  cr_derived_unit_id :: "string option"
  cr_component_observation_ids :: "observation_id list"
  cr_sample_influence_weight :: "f64 option"
  cr_quality_flag :: "string option"
  cr_is_augmented :: bool
  cr_excluded :: bool
  cr_metadata :: metadata
  cr_tags :: "string list"

record relation_set =
  rs_records :: "coordinator_relation list"

definition relation_new :: "observation_id \<Rightarrow> sample_id \<Rightarrow> coordinator_relation" where
  "relation_new obs s =
     \<lparr>cr_unit_level = UnitObservation, cr_unit_id = None, cr_observation_id = obs,
      cr_sample_id = s, cr_source_id = None, cr_rep_id = None, cr_target_id = None,
      cr_group_id = None, cr_origin_sample_id = None, cr_derived_unit_id = None,
      cr_component_observation_ids = [], cr_sample_influence_weight = None,
      cr_quality_flag = None, cr_is_augmented = False, cr_excluded = False, cr_metadata = [],
      cr_tags = []\<rparr>"

definition invalid_label :: "string option \<Rightarrow> bool" where
  "invalid_label v = (case v of None \<Rightarrow> False | Some s \<Rightarrow> is_blank s \<or> has_control s)"

definition effective_unit_id :: "coordinator_relation \<Rightarrow> string res" where
  "effective_unit_id r =
     rseq
       (each_res (\<lambda>(label, v). if invalid_label v then invalid label else Inr ())
          [(''unit_id'', cr_unit_id r), (''rep_id'', cr_rep_id r),
           (''derived_unit_id'', cr_derived_unit_id r), (''quality_flag'', cr_quality_flag r)])
       (case cr_unit_id r of
          Some unit_id \<Rightarrow> Inr unit_id
        | None \<Rightarrow>
            (case cr_unit_level r of
               UnitPhysicalSample \<Rightarrow> Inr (as_str (cr_sample_id r))
             | UnitObservation \<Rightarrow> Inr (as_str (cr_observation_id r))
             | UnitSourceSample \<Rightarrow>
                 ok_or
                   (map_option (\<lambda>s. as_str (cr_sample_id r) @ ''::'' @ as_str s) (cr_source_id r))
                   (Validation ''source_sample relation requires source_id'')
             | UnitCombo \<Rightarrow>
                 ok_or (cr_derived_unit_id r)
                   (Validation ''combo relation requires derived_unit_id'')))"

section \<open>Relation sets\<close>

definition combo_validate :: "coordinator_relation list \<Rightarrow> coordinator_relation \<Rightarrow> unit res" where
  "combo_validate records r =
     (if cr_derived_unit_id r = None \<or> cr_component_observation_ids r = [] \<or>
         (case cr_origin_sample_id r of None \<Rightarrow> False | Some origin \<Rightarrow> origin \<noteq> cr_sample_id r)
      then invalid ''combo relation has invalid identity or components''
      else
        each_fresh
          (\<lambda>c. if c = cr_observation_id r then invalid ''combo component'' else Inr ())
          id (\<lambda>_. Validation ''combo component'')
          (\<lambda>c. if \<not> list_ex (\<lambda>row. cr_observation_id row = c \<and> cr_sample_id row = cr_sample_id r)
                   records
               then invalid ''combo component'' else Inr ())
          [] (cr_component_observation_ids r))"

type_synonym set_progress = "observation_id list \<times> string list"

definition relation_set_step ::
  "coordinator_relation list \<Rightarrow> set_progress \<Rightarrow> coordinator_relation \<Rightarrow> set_progress res"
where
  "relation_set_step records st r =
     (let (seen, units) = st in
      if cr_observation_id r \<in> set seen then invalid ''duplicate coordinator observation''
      else
        rbind (effective_unit_id r) (\<lambda>unit_id.
          if unit_id \<in> set units then invalid ''duplicate unit IDs''
          else if (case cr_sample_influence_weight r of
                     None \<Rightarrow> False
                   | Some weight \<Rightarrow> \<not> f64_is_finite weight \<or> f64_le weight f64_zero)
          then invalid ''sample_influence_weight must be finite and positive''
          else if cr_unit_level r \<noteq> UnitCombo \<and> cr_component_observation_ids r \<noteq> []
          then invalid ''component observations require a combo relation''
          else
            rseq (if cr_unit_level r = UnitCombo then combo_validate records r else Inr ())
              (Inr (cr_observation_id r # seen, unit_id # units))))"

definition relation_set_validate :: "relation_set \<Rightarrow> unit res" where
  "relation_set_validate rs =
     (if rs_records rs = [] then invalid ''coordinator relation set contains no records''
      else rseq (fold_res (relation_set_step (rs_records rs)) ([], []) (rs_records rs)) (Inr ()))"

definition relation_set_fingerprint ::
  "((string \<times> coordinator_relation) list \<Rightarrow> u8 list res) \<Rightarrow> (u8 list \<Rightarrow> u8 list) \<Rightarrow>
   relation_set \<Rightarrow> string res"
where
  "relation_set_fingerprint encode sha256 rs =
     rseq (relation_set_validate rs)
       (rbind
         (map_res (\<lambda>r. rbind (effective_unit_id r) (\<lambda>unit_id. Inr (unit_id, r))) (rs_records rs))
         (\<lambda>records.
            typed_fingerprint encode sha256
              (sort_key (\<lambda>(unit_id, r). (unit_id, cr_observation_id r, cr_sample_id r)) records)))"

section \<open>From a sample relation table\<close>

definition origin_sample ::
  "(observation_id, sample_id) btree_map \<Rightarrow> origin_id \<Rightarrow> sample_id res"
where
  "origin_sample observation_to_sample origin =
     ok_or
       (map_option snd
          (List.find (\<lambda>(obs, _). as_str obs = as_str origin) observation_to_sample))
       (Validation ''origin is not present as an observation'')"

definition coordinator_relation_of ::
  "(observation_id, sample_id) btree_map \<Rightarrow> sample_relation \<Rightarrow> coordinator_relation res"
where
  "coordinator_relation_of observation_to_sample row =
     rbind
       (case sr_origin_id row of
          None \<Rightarrow> Inr None
        | Some origin \<Rightarrow> rbind (origin_sample observation_to_sample origin) (\<lambda>s. Inr (Some s)))
       (\<lambda>origin_sample_id.
          Inr \<lparr>cr_unit_level = UnitObservation, cr_unit_id = None,
               cr_observation_id = sr_observation_id row, cr_sample_id = sr_sample_id row,
               cr_source_id = sr_source_id row,
               cr_rep_id = map_option as_str (sr_repetition_id row),
               cr_target_id = sr_target_id row, cr_group_id = sr_group_id row,
               cr_origin_sample_id = origin_sample_id, cr_derived_unit_id = None,
               cr_component_observation_ids = [], cr_sample_influence_weight = None,
               cr_quality_flag = None, cr_is_augmented = sr_augmented row,
               cr_excluded = sr_excluded row, cr_metadata = sr_metadata row,
               cr_tags = sr_tags row\<rparr>)"

definition coordinator_relations_from_sample_table ::
  "sample_relation_table \<Rightarrow> relation_set res"
where
  "coordinator_relations_from_sample_table t =
     rseq (table_validate t)
       (let observation_to_sample =
              bt_collect (map (\<lambda>row. (sr_observation_id row, sr_sample_id row)) (rt_rows t)) in
        rbind (map_res (coordinator_relation_of observation_to_sample) (rt_rows t)) (\<lambda>records.
          (let converted = \<lparr>rs_records = sort_key cr_observation_id records\<rparr> in
           rseq (relation_set_validate converted) (Inr converted))))"

section \<open>Branch views\<close>

datatype branch_view_mode = Separation | BySource | ByMetadata | ByTag | ByFilter

record branch_view_selector =
  bs_source_ids :: "source_id list"
  bs_metadata :: metadata
  bs_tags :: "string list"
  bs_filter :: "json option"

record native_filter =
  nf_metadata_equals :: metadata
  nf_tags_all :: "string list"

record branch_view =
  bv_view_id :: string
  bv_branch_id :: string
  bv_mode :: branch_view_mode
  bv_selector :: branch_view_selector
  bv_allow_overlap :: bool
  bv_metadata :: metadata

definition parse_native_branch_view_filter ::
  "(json \<Rightarrow> native_filter option) \<Rightarrow> json \<Rightarrow> native_filter res"
where
  "parse_native_branch_view_filter decode v =
     rbind (ok_or (decode v) (Validation ''by_filter requires the native predicate'')) (\<lambda>f.
       if nf_metadata_equals f = [] \<and> nf_tags_all f = []
       then invalid ''by_filter predicate must constrain metadata_equals or tags_all''
       else
         rseq
           (each_res
              (\<lambda>(key, val).
                 if is_blank key then invalid ''metadata_equals contains an empty key''
                 else if json_is_null val then invalid ''metadata_equals must not be null''
                 else Inr ())
              (nf_metadata_equals f))
           (rseq
             (each_fresh
                (\<lambda>tag. if is_blank tag then invalid ''tags_all contains an empty entry'' else Inr ())
                id (\<lambda>_. Validation ''tags_all contains duplicate'') (\<lambda>_. Inr ()) [] (nf_tags_all f))
             (Inr f)))"

definition selector_validate :: "branch_view_selector \<Rightarrow> unit res" where
  "selector_validate s =
     (if bs_source_ids s = [] \<and> bs_metadata s = [] \<and> bs_tags s = [] \<and> bs_filter s = None
      then invalid ''selector must constrain source_ids, metadata, tags or filter''
      else
        rseq (each_unique id (\<lambda>_. Validation ''duplicate selector source'') (bs_source_ids s))
       (rseq
         (each_fresh
            (\<lambda>tag. if is_blank tag then invalid ''selector tags contains an empty entry'' else Inr ())
            id (\<lambda>_. Validation ''duplicate selector tag'') (\<lambda>_. Inr ()) [] (bs_tags s))
       (rseq
         (each_res (\<lambda>key. if is_blank key then invalid ''empty selector metadata key'' else Inr ())
            (bt_keys (bs_metadata s)))
         (if bs_filter s = Some JNull then invalid ''selector filter must not be null''
          else Inr ()))))"

definition branch_view_validate ::
  "(json \<Rightarrow> native_filter option) \<Rightarrow> branch_view \<Rightarrow> unit res"
where
  "branch_view_validate decode v =
     (let s = bv_selector v in
      if is_blank (bv_view_id v) then invalid ''branch view view_id is empty''
      else if is_blank (bv_branch_id v) then invalid ''branch view branch_id is empty''
      else
        rseq (selector_validate s)
       (rseq
         (each_res (\<lambda>key. if is_blank key then invalid ''branch view metadata key'' else Inr ())
            (bt_keys (bv_metadata v)))
         (case bv_mode v of
            BySource \<Rightarrow>
              if bs_source_ids s = [] then invalid ''by_source requires source_ids'' else Inr ()
          | ByMetadata \<Rightarrow>
              if bs_metadata s = [] then invalid ''by_metadata requires metadata'' else Inr ()
          | ByTag \<Rightarrow> if bs_tags s = [] then invalid ''by_tag requires tags'' else Inr ()
          | ByFilter \<Rightarrow>
              if bs_source_ids s \<noteq> [] \<or> bs_metadata s \<noteq> [] \<or> bs_tags s \<noteq> []
              then invalid ''by_filter accepts constraints only inside filter''
              else
                rbind (ok_or (bs_filter s) (Validation ''by_filter requires filter'')) (\<lambda>f.
                  rseq (parse_native_branch_view_filter decode f) (Inr ()))
          | Separation \<Rightarrow> Inr ())))"

section \<open>What a valid relation set is\<close>

definition weight_ok :: "coordinator_relation \<Rightarrow> bool" where
  "weight_ok r \<longleftrightarrow>
     (\<forall>w. cr_sample_influence_weight r = Some w \<longrightarrow> f64_is_finite w \<and> \<not> f64_le w f64_zero)"

text \<open>A combo names itself, keeps its sample and is built from other observations of the sample.\<close>

definition combo_ok :: "coordinator_relation list \<Rightarrow> coordinator_relation \<Rightarrow> bool" where
  "combo_ok records r \<longleftrightarrow>
     cr_derived_unit_id r \<noteq> None \<and> cr_component_observation_ids r \<noteq> [] \<and>
     cr_origin_sample_id r \<in> {None, Some (cr_sample_id r)} \<and>
     distinct (cr_component_observation_ids r) \<and>
     (\<forall>c\<in>set (cr_component_observation_ids r). c \<noteq> cr_observation_id r \<and>
        (\<exists>row\<in>set records. cr_observation_id row = c \<and> cr_sample_id row = cr_sample_id r))"

definition relation_ok :: "coordinator_relation list \<Rightarrow> coordinator_relation \<Rightarrow> bool" where
  "relation_ok records r \<longleftrightarrow>
     is_ok (effective_unit_id r) \<and> weight_ok r \<and>
     (cr_unit_level r \<noteq> UnitCombo \<longrightarrow> cr_component_observation_ids r = []) \<and>
     (cr_unit_level r = UnitCombo \<longrightarrow> combo_ok records r)"

definition relation_set_ok :: "relation_set \<Rightarrow> bool" where
  "relation_set_ok rs \<longleftrightarrow>
     rs_records rs \<noteq> [] \<and> distinct (map cr_observation_id (rs_records rs)) \<and>
     distinct (map effective_unit_id (rs_records rs)) \<and>
     (\<forall>r\<in>set (rs_records rs). relation_ok (rs_records rs) r)"

lemma combo_validate_ok: "combo_validate records r = Inr () \<longleftrightarrow> combo_ok records r"
  unfolding combo_validate_def combo_ok_def
  by (cases "cr_origin_sample_id r") (auto simp: res_simps list_ex_iff)

lemma relation_set_step_ok:
  "relation_set_step records (seen, units) r = Inr st \<longleftrightarrow>
     cr_observation_id r \<notin> set seen \<and> relation_ok records r \<and>
     (\<exists>u. effective_unit_id r = Inr u \<and> u \<notin> set units \<and>
        st = (cr_observation_id r # seen, u # units))"
  unfolding relation_set_step_def relation_ok_def weight_ok_def
  by (cases "cr_sample_influence_weight r")
    (auto simp: rbind_eq_Inr if_Inl_eq_Inr combo_validate_ok is_ok_iff)

lemma relation_set_fold_ok:
  "is_ok (fold_res (relation_set_step records) (seen, units) rs) \<longleftrightarrow>
     distinct (map cr_observation_id rs) \<and> distinct (map effective_unit_id rs) \<and>
     (\<forall>r\<in>set rs. cr_observation_id r \<notin> set seen \<and> relation_ok records r \<and>
        effective_unit_id r \<notin> Inr ` set units)"
proof (induction rs arbitrary: seen units)
  case Nil
  then show ?case by simp
next
  case (Cons r rs)
  show ?case
  proof (cases "\<exists>u. effective_unit_id r = Inr u")
    case True
    then obtain u where u: "effective_unit_id r = Inr u" by blast
    have "is_ok (fold_res (relation_set_step records) (seen, units) (r # rs)) \<longleftrightarrow>
        cr_observation_id r \<notin> set seen \<and> relation_ok records r \<and> u \<notin> set units \<and>
        is_ok (fold_res (relation_set_step records) (cr_observation_id r # seen, u # units) rs)"
      by (auto simp: relation_set_step_ok u)
    then show ?thesis
      unfolding Cons.IH by (auto simp: u image_iff)
  next
    case False
    then show ?thesis by (auto simp: rbind_eq_Inr relation_set_step_ok relation_ok_def is_ok_iff)
  qed
qed

lemma relation_set_validate_ok: "relation_set_validate rs = Inr () \<longleftrightarrow> relation_set_ok rs"
proof -
  have "relation_set_validate rs = Inr () \<longleftrightarrow>
      rs_records rs \<noteq> [] \<and> is_ok (fold_res (relation_set_step (rs_records rs)) ([], []) (rs_records rs))"
    by (auto simp: relation_set_validate_def rbind_eq_Inr is_ok_iff)
  then show ?thesis by (auto simp: relation_set_fold_ok relation_set_ok_def)
qed

text \<open>
  The relation set validator accepts exactly the sets with distinct observations and distinct unit
  ids, a unit id for every record, finite positive weights, components on combos only, and combos
  whose components are distinct other observations of their own sample in the same set.
\<close>

lemma relation_set_validate_iff: "relation_set_validate rs = Inr () \<longleftrightarrow> relation_set_ok rs"
  by (rule relation_set_validate_ok)

lemma relation_ok_set_cong: "set xs = set ys \<Longrightarrow> relation_ok xs r \<longleftrightarrow> relation_ok ys r"
  by (simp add: relation_ok_def combo_ok_def)

lemma relation_set_ok_perm:
  assumes "mset (rs_records rs) = mset (rs_records rs')"
  shows "relation_set_ok rs \<longleftrightarrow> relation_set_ok rs'"
proof -
  have eq: "set (rs_records rs) = set (rs_records rs')" "length (rs_records rs) = length (rs_records rs')"
    using assms by (auto dest: mset_eq_setD mset_eq_length)
  have "relation_ok (rs_records rs) r \<longleftrightarrow> relation_ok (rs_records rs') r" for r
    using eq(1) by (rule relation_ok_set_cong)
  with eq show ?thesis
    by (auto simp: relation_set_ok_def distinct_map_perm [OF assms])
qed

section \<open>The conversion from a relation table\<close>

text \<open>The record of a row, its origin resolved to the sample of the observation it names.\<close>

definition origin_sample_of :: "sample_relation list \<Rightarrow> sample_relation \<Rightarrow> sample_id option" where
  "origin_sample_of rows row =
     Option.bind (sr_origin_id row)
       (\<lambda>origin. map_of (map (\<lambda>r. (sr_observation_id r, sr_sample_id r)) rows) (Ident (as_str origin)))"

definition coordinator_row :: "sample_relation list \<Rightarrow> sample_relation \<Rightarrow> coordinator_relation" where
  "coordinator_row rows row =
     (relation_new (sr_observation_id row) (sr_sample_id row))
       \<lparr>cr_source_id := sr_source_id row, cr_rep_id := map_option as_str (sr_repetition_id row),
        cr_target_id := sr_target_id row, cr_group_id := sr_group_id row,
        cr_origin_sample_id := origin_sample_of rows row, cr_is_augmented := sr_augmented row,
        cr_excluded := sr_excluded row, cr_metadata := sr_metadata row, cr_tags := sr_tags row\<rparr>"

definition repetitions_valid :: "sample_relation_table \<Rightarrow> bool" where
  "repetitions_valid t \<longleftrightarrow>
     (\<forall>r\<in>set (rt_rows t). \<forall>p. sr_repetition_id r = Some p \<longrightarrow> valid_ident p)"

lemma origin_sample_lookup_table:
  assumes "bt_wf m"
  shows "origin_sample m origin =
    ok_or (map_of m (Ident (as_str origin))) (Validation ''origin is not present as an observation'')"
proof -
  have "map_option snd (List.find (\<lambda>(obs, _). as_str obs = as_str origin) m) =
      map_of m (Ident (as_str origin))"
    by (induction m) (auto, (metis ident.exhaust_sel)+)
  then show ?thesis by (simp add: origin_sample_def)
qed

lemma coordinator_relation_of_row:
  fixes rows :: "sample_relation list"
  defines "m \<equiv> bt_collect (map (\<lambda>row. (sr_observation_id row, sr_sample_id row)) rows)"
  assumes "distinct (map sr_observation_id rows)" and "origins_present rows" and "row \<in> set rows"
  shows "coordinator_relation_of m row = Inr (coordinator_row rows row)"
proof -
  let ?kvs = "map (\<lambda>row. (sr_observation_id row, sr_sample_id row)) rows"
  have m: "bt_wf m" "map_of m = map_of ?kvs"
    using assms(2) by (auto simp: m_def bt_map_simps comp_def bt.get_collect_distinct)
  show ?thesis
  proof (cases "sr_origin_id row")
    case None
    then show ?thesis
      by (simp add: coordinator_relation_of_def coordinator_row_def relation_new_def origin_sample_of_def)
  next
    case (Some origin)
    then obtain r where r: "r \<in> set rows" "as_str (sr_observation_id r) = as_str origin"
      using assms(3,4) by (auto simp: origins_present_def)
    then have "sr_observation_id r = Ident (as_str origin)" by (metis ident.exhaust_sel)
    then have "map_of ?kvs (Ident (as_str origin)) = Some (sr_sample_id r)"
      using r(1) assms(2) by (intro map_of_is_SomeI) (force simp: comp_def)+
    then show ?thesis
      using Some m
      by (simp add: coordinator_relation_of_def coordinator_row_def relation_new_def
          origin_sample_of_def origin_sample_lookup_table)
  qed
qed

lemma effective_unit_id_row:
  assumes "\<And>p. sr_repetition_id row = Some p \<Longrightarrow> valid_ident p"
  shows "effective_unit_id (coordinator_row rows row) = Inr (as_str (sr_observation_id row))"
  using assms
  by (cases "sr_repetition_id row")
    (auto simp: effective_unit_id_def coordinator_row_def relation_new_def invalid_label_def
      dest: valid_ident_text)

lemma coordinator_row_fields [simp]:
  "cr_observation_id (coordinator_row rows row) = sr_observation_id row"
  "cr_sample_id (coordinator_row rows row) = sr_sample_id row"
  "cr_source_id (coordinator_row rows row) = sr_source_id row"
  "cr_unit_level (coordinator_row rows row) = UnitObservation"
  "cr_component_observation_ids (coordinator_row rows row) = []"
  "cr_sample_influence_weight (coordinator_row rows row) = None"
  "cr_origin_sample_id (coordinator_row rows row) = origin_sample_of rows row"
  by (simp_all add: coordinator_row_def relation_new_def)

lemma coordinator_rows_ok:
  assumes "table_ok t" and "repetitions_valid t"
  shows "relation_set_ok \<lparr>rs_records = map (coordinator_row rows) (rt_rows t)\<rparr>"
proof -
  have unit: "effective_unit_id (coordinator_row rows r) = Inr (as_str (sr_observation_id r))"
    if "r \<in> set (rt_rows t)" for r
    using assms(2) that by (intro effective_unit_id_row) (auto simp: repetitions_valid_def)
  have "distinct (map sr_observation_id (rt_rows t))" using assms(1) by (simp add: table_ok_def)
  then have "distinct (map (\<lambda>r. effective_unit_id (coordinator_row rows r)) (rt_rows t))"
    using unit by (auto simp: distinct_map inj_on_def ident.expand)
  then show ?thesis
    using assms(1) unit
    by (auto simp: relation_set_ok_def table_ok_def relation_ok_def weight_ok_def comp_def)
qed

lemma conversion_lemma:
  assumes "table_ok t"
  shows "coordinator_relations_from_sample_table t =
    (let converted =
       \<lparr>rs_records = sort_key cr_observation_id (map (coordinator_row (rt_rows t)) (rt_rows t))\<rparr>
     in rseq (relation_set_validate converted) (Inr converted))"
proof -
  have "distinct (map sr_observation_id (rt_rows t))" "origins_present (rt_rows t)"
    using assms by (simp_all add: table_ok_def)
  from coordinator_relation_of_row [OF this]
  have "map_res (coordinator_relation_of
          (bt_collect (map (\<lambda>row. (sr_observation_id row, sr_sample_id row)) (rt_rows t)))) (rt_rows t)
      = Inr (map (coordinator_row (rt_rows t)) (rt_rows t))"
    by (rule map_res_pure)
  moreover have "table_validate t = Inr ()" using assms by (simp add: table_validate_ok)
  ultimately show ?thesis by (simp add: coordinator_relations_from_sample_table_def Let_def)
qed

text \<open>
  Converting a relation table whose repetition ids are identifiers fails only with the error of the
  table's own validation; otherwise it returns one record per row, in increasing order of
  observation id, with the origin resolved to the sample of the origin observation, and every
  other field carried over. In particular the final validation of the converted set never fails.
\<close>

lemma coordinator_relations_from_sample_table_spec:
  assumes "repetitions_valid t"
  shows "coordinator_relations_from_sample_table t =
    rseq (table_validate t)
      (Inr \<lparr>rs_records = sort_key cr_observation_id (map (coordinator_row (rt_rows t)) (rt_rows t))\<rparr>)"
proof (cases "table_validate t")
  case (Inr u)
  then have ok: "table_ok t" by (simp add: table_validate_ok)
  have "relation_set_ok \<lparr>rs_records =
      sort_key cr_observation_id (map (coordinator_row (rt_rows t)) (rt_rows t))\<rparr>"
    using coordinator_rows_ok [OF ok assms, of "rt_rows t"]
    by (subst relation_set_ok_perm [where rs' = "\<lparr>rs_records = map (coordinator_row (rt_rows t)) (rt_rows t)\<rparr>"])
      simp_all
  then show ?thesis
    using Inr by (simp add: conversion_lemma [OF ok] Let_def relation_set_validate_ok [symmetric])
qed (simp add: coordinator_relations_from_sample_table_def)

lemma coordinator_row_perm:
  assumes "mset rows = mset rows'" and "distinct (map sr_observation_id rows)"
  shows "coordinator_row rows = coordinator_row rows'"
proof -
  let ?kv = "\<lambda>r. (sr_observation_id r, sr_sample_id r)"
  have "distinct (map sr_observation_id rows')" using distinct_map_perm assms by blast
  then have "map_of (map ?kv rows) = map_of (map ?kv rows')"
    using assms(2) mset_eq_setD [OF assms(1)] by (subst map_of_inject_set) (simp_all add: comp_def)
  then show ?thesis by (simp add: fun_eq_iff coordinator_row_def origin_sample_of_def)
qed

text \<open>
  The converted relation set of a valid table does not depend on the order of the table's rows.
\<close>

lemma conversion_order_independent:
  assumes "mset (rt_rows t) = mset (rt_rows t')" and "table_validate t = Inr ()"
  shows "coordinator_relations_from_sample_table t = coordinator_relations_from_sample_table t'"
proof -
  have ok: "table_ok t" "table_ok t'"
    using assms(2) table_ok_perm [OF assms(1)] by (simp_all add: table_validate_ok)
  have row: "coordinator_row (rt_rows t) = coordinator_row (rt_rows t')"
    using ok(1) by (intro coordinator_row_perm [OF assms(1)]) (simp add: table_ok_def)
  have "sort_key cr_observation_id (map (coordinator_row (rt_rows t)) (rt_rows t)) =
      sort_key cr_observation_id (map (coordinator_row (rt_rows t)) (rt_rows t'))"
    using ok(1) assms(1) by (intro sort_key_perm) (simp_all add: table_ok_def comp_def)
  then show ?thesis by (simp add: conversion_lemma ok row)
qed

section \<open>The fingerprint of a relation set\<close>

definition unit_of :: "coordinator_relation \<Rightarrow> string" where
  "unit_of r = (case effective_unit_id r of Inl _ \<Rightarrow> [] | Inr u \<Rightarrow> u)"

definition canonical_records :: "relation_set \<Rightarrow> (string \<times> coordinator_relation) list" where
  "canonical_records rs =
     sort_key (\<lambda>(u, r). (u, cr_observation_id r, cr_sample_id r))
       (map (\<lambda>r. (unit_of r, r)) (rs_records rs))"

lemma relation_set_fingerprint_ok:
  assumes "relation_set_ok rs"
  shows "relation_set_fingerprint encode sha256 rs =
    typed_fingerprint encode sha256 (canonical_records rs)"
proof -
  have "map_res (\<lambda>r. rbind (effective_unit_id r) (\<lambda>u. Inr (u, r))) (rs_records rs) =
      Inr (map (\<lambda>r. (unit_of r, r)) (rs_records rs))"
    using assms
    by (intro map_res_pure) (auto simp: relation_set_ok_def relation_ok_def is_ok_iff unit_of_def)
  then show ?thesis
    using assms by (simp add: relation_set_fingerprint_def canonical_records_def relation_set_validate_ok [symmetric])
qed

lemma canonical_records_perm:
  assumes "mset (rs_records rs) = mset (rs_records rs')" and "relation_set_ok rs"
  shows "canonical_records rs = canonical_records rs'"
proof -
  have "distinct (map cr_observation_id (rs_records rs))" using assms(2) by (simp add: relation_set_ok_def)
  then show ?thesis
    unfolding canonical_records_def
    using assms(1) by (intro sort_key_perm) (auto simp: distinct_map inj_on_def)
qed

text \<open>
  The fingerprint of a relation set does not depend on the order of its records; for a valid set it
  is that of the records sorted by their unit ids, and it has the form every validator asks of a
  fingerprint as long as the digest has 32 bytes.
\<close>

lemma relation_set_fingerprint_canonical:
  assumes "mset (rs_records rs) = mset (rs_records rs')" and "relation_set_validate rs = Inr ()"
    and "\<And>bytes. length (sha256 bytes) = 32"
  shows "relation_set_fingerprint encode sha256 rs = relation_set_fingerprint encode sha256 rs' \<and>
    (\<forall>fp. relation_set_fingerprint encode sha256 rs = Inr fp \<longrightarrow> validate_fingerprint label fp = Inr ())"
proof -
  have "relation_set_ok rs" using assms(2) by (simp add: relation_set_validate_ok)
  moreover from this have "relation_set_ok rs'" using relation_set_ok_perm [OF assms(1)] by simp
  ultimately show ?thesis
    using canonical_records_perm [OF assms(1)] typed_fingerprint_format [OF assms(3)]
    by (auto simp: relation_set_fingerprint_ok)
qed

section \<open>Witnesses\<close>

lemma coordinator_relations_from_sample_table_spec_witness:
  "coordinator_relations_from_sample_table chain_table =
    Inr \<lparr>rs_records = [relation_new (Ident ''a'') (Ident ''s''),
      (relation_new (Ident ''b'') (Ident ''t''))
        \<lparr>cr_is_augmented := True, cr_origin_sample_id := Some (Ident ''s'')\<rparr>,
      (relation_new (Ident ''c'') (Ident ''u''))
        \<lparr>cr_is_augmented := True, cr_origin_sample_id := Some (Ident ''t'')\<rparr>]\<rparr>"
proof -
  have "repetitions_valid chain_table"
    by (simp add: repetitions_valid_def small_campaign_defs)
  from coordinator_relations_from_sample_table_spec [OF this] show ?thesis
    unfolding chain_parts(1)
    by (simp add: coordinator_row_def origin_sample_of_def relation_new_def small_campaign_defs
        less_eq_ident_def)
qed

lemma conversion_order_independent_witness:
  "coordinator_relations_from_sample_table chain_table =
   coordinator_relations_from_sample_table \<lparr>rt_rows = rev (rt_rows chain_table)\<rparr>"
  by (rule conversion_order_independent) (simp_all add: chain_parts)

text \<open>Two measured rows and their encoding.\<close>

definition two_relations :: relation_set where
  "two_relations =
     \<lparr>rs_records = [relation_new (Ident ''a'') (Ident ''s''), relation_new (Ident ''b'') (Ident ''t'')]\<rparr>"

definition unit_encoder :: "(string \<times> coordinator_relation) list \<Rightarrow> u8 list res" where
  "unit_encoder records = Inr (concat (map (\<lambda>(unit_id, r). map of_char unit_id) records))"

lemma plain_relation_ok:
  "relation_ok records (relation_new obs s)"
  "effective_unit_id (relation_new obs s) = Inr (as_str obs)"
  by (simp_all add: relation_ok_def weight_ok_def effective_unit_id_def relation_new_def
      invalid_label_def)

lemma two_relations_ok: "relation_set_ok two_relations"
  by (simp add: relation_set_ok_def two_relations_def plain_relation_ok, simp add: relation_new_def)

lemma relation_set_fingerprint_canonical_witness:
  "relation_set_fingerprint unit_encoder sample_digest two_relations =
     relation_set_fingerprint unit_encoder sample_digest \<lparr>rs_records = rev (rs_records two_relations)\<rparr> \<and>
   (\<exists>fp. relation_set_fingerprint unit_encoder sample_digest two_relations = Inr fp \<and>
     validate_fingerprint ''relation'' fp = Inr ())"
proof -
  have ok: "relation_set_validate two_relations = Inr ()"
    by (simp add: relation_set_validate_ok two_relations_ok)
  have "is_ok (relation_set_fingerprint unit_encoder sample_digest two_relations)"
    by (simp add: relation_set_fingerprint_ok two_relations_ok typed_fingerprint_def unit_encoder_def
        is_ok_iff)
  then show ?thesis
    using relation_set_fingerprint_canonical [of two_relations
        "\<lparr>rs_records = rev (rs_records two_relations)\<rparr>" sample_digest unit_encoder "''relation''"]
    by (auto simp: is_ok_iff ok)
qed

end
