(* ===== verification/Data_Plan.thy ===== *)
theory Data_Plan
  imports Data_Error
begin

text \<open>
  Data plans (\<open>plan.rs\<close>): the steps from the sources to the model input and the validator that
  checks their data flow, edge name by edge name.
\<close>

section \<open>Data\<close>

datatype fit_scope = Stateless | FoldTrain | FullTrain | InferenceOnly

datatype plan_step_kind = Materialize | Adapt | AlignStep | Join | Collate

record data_plan_step =
  ps_kind :: plan_step_kind
  ps_source_id :: "source_id option"
  ps_adapter_id :: "string option"
  ps_input_representation :: "representation_id option"
  ps_output_representation :: "representation_id option"
  ps_fit_scope :: fit_scope
  ps_requires_user_choice :: bool
  ps_metadata :: metadata

record plan_issue =
  pi_code :: string
  pi_message :: string
  pi_choices :: "string list"

record data_plan =
  dp_id :: string
  dp_steps :: "data_plan_step list"
  dp_output_representation :: representation_id
  dp_issues :: "plan_issue list"

section \<open>Validation\<close>

definition plan_step_inputs :: "data_plan_step \<Rightarrow> string list res" where
  "plan_step_inputs s =
     rbind
       (case map_of (ps_metadata s) ''input'' of
          None \<Rightarrow> Inr []
        | Some v \<Rightarrow>
            rbind (ok_or (json_as_str v) (Validation ''input must be a string'')) (\<lambda>i. Inr [i]))
       (\<lambda>inputs.
          case map_of (ps_metadata s) ''inputs'' of
            None \<Rightarrow> Inr inputs
          | Some v \<Rightarrow>
              rbind (ok_or (json_as_array v) (Validation ''inputs must be an array'')) (\<lambda>values.
                if values = [] then invalid ''inputs must not be empty''
                else
                  rbind
                    (map_res
                       (\<lambda>v. ok_or (json_as_str v) (Validation ''inputs must contain strings''))
                       values)
                    (\<lambda>more. Inr (inputs @ more))))"

definition plan_step_output :: "data_plan_step \<Rightarrow> string option res" where
  "plan_step_output s =
     (case map_of (ps_metadata s) ''output'' of
        Some v \<Rightarrow>
          (case json_as_str v of
             Some i \<Rightarrow>
               if is_blank i then invalid ''output must be a nonempty string'' else Inr (Some i)
           | None \<Rightarrow> invalid ''output must be a nonempty string'')
      | None \<Rightarrow>
          if ps_kind s = Materialize
          then Inr (map_option (\<lambda>i. ''src:'' @ as_str i) (ps_source_id s))
          else Inr None)"

type_synonym plan_progress =
  "(string, representation_id option) btree_map \<times> (string, source_id option) btree_map"

definition check_input ::
  "(string, representation_id option) btree_map \<Rightarrow> data_plan_step \<Rightarrow> string \<Rightarrow> unit res"
where
  "check_input outputs s input =
     rbind (ok_or (map_of outputs input) (Validation ''input references no earlier output''))
       (\<lambda>representation.
          case (representation, ps_input_representation s) of
            (Some actual, Some expected) \<Rightarrow>
              if actual \<noteq> expected then invalid ''input representation'' else Inr ()
          | _ \<Rightarrow> Inr ())"

definition register_output ::
  "plan_progress \<Rightarrow> data_plan_step \<Rightarrow> string \<Rightarrow> plan_progress res"
where
  "register_output st s name =
     (let (outputs, source_outputs) = st in
      rseq
        (case map_of outputs name of
           None \<Rightarrow> Inr ()
         | Some previous \<Rightarrow>
             if ps_kind s \<noteq> Materialize \<or> previous \<noteq> ps_output_representation s \<or>
                map_of source_outputs name \<noteq> Some (ps_source_id s)
             then invalid ''duplicate output'' else Inr ())
        (Inr (bt_insert name (ps_output_representation s) outputs,
              if ps_kind s = Materialize then bt_insert name (ps_source_id s) source_outputs
              else source_outputs)))"

definition plan_step_validate ::
  "plan_progress \<Rightarrow> nat \<times> data_plan_step \<Rightarrow> plan_progress res"
where
  "plan_step_validate st idx_step =
     (let (idx, s) = idx_step in
      if ps_kind s = Materialize \<and> ps_source_id s = None
      then invalid ''materializes without source_id''
      else if ps_kind s = Adapt \<and> ps_adapter_id s = None
      then invalid ''adapts without adapter_id''
      else if (case ps_adapter_id s of None \<Rightarrow> False | Some i \<Rightarrow> is_blank i)
      then invalid ''adapter_id must not be empty''
      else
        rbind (plan_step_inputs s) (\<lambda>inputs.
          if idx = 0 \<and> ps_kind s \<noteq> Materialize
          then invalid ''must materialize a source before consuming data''
          else
            rseq (each_res (check_input (fst st) s) inputs)
              (rbind (plan_step_output s) (\<lambda>out.
                 case out of None \<Rightarrow> Inr st | Some name \<Rightarrow> register_output st s name))))"

definition data_plan_validate :: "data_plan \<Rightarrow> unit res" where
  "data_plan_validate p =
     (if is_blank (dp_id p) then invalid ''data plan id is empty''
      else if dp_steps p = [] then invalid ''data plan contains no steps''
      else
        rseq (fold_res plan_step_validate ([], []) (List.enumerate 0 (dp_steps p)))
          (case ps_output_representation (last (dp_steps p)) of
             Some out \<Rightarrow>
               if out \<noteq> dp_output_representation p
               then invalid ''output representation does not match final step'' else Inr ()
           | None \<Rightarrow> Inr ()))"

definition requires_user_choice :: "data_plan \<Rightarrow> bool" where
  "requires_user_choice p \<longleftrightarrow> list_ex ps_requires_user_choice (dp_steps p) \<or> dp_issues p \<noteq> []"

section \<open>What a valid plan is\<close>

text \<open>The edge names a step reads and writes, when they are well-formed.\<close>

definition step_reads :: "data_plan_step \<Rightarrow> string list" where
  "step_reads s = (case plan_step_inputs s of Inl _ \<Rightarrow> [] | Inr inputs \<Rightarrow> inputs)"

definition step_writes :: "data_plan_step \<Rightarrow> string option" where
  "step_writes s = (case plan_step_output s of Inl _ \<Rightarrow> None | Inr out \<Rightarrow> out)"

definition compatible :: "'a option \<Rightarrow> 'a option \<Rightarrow> bool" where
  "compatible x y \<longleftrightarrow> (\<forall>a b. x = Some a \<longrightarrow> y = Some b \<longrightarrow> a = b)"

definition step_wf :: "data_plan_step \<Rightarrow> bool" where
  "step_wf s \<longleftrightarrow>
     (ps_kind s = Materialize \<longrightarrow> ps_source_id s \<noteq> None) \<and>
     (ps_kind s = Adapt \<longrightarrow> ps_adapter_id s \<noteq> None) \<and>
     (\<forall>i. ps_adapter_id s = Some i \<longrightarrow> \<not> is_blank i) \<and>
     is_ok (plan_step_inputs s) \<and> is_ok (plan_step_output s)"

text \<open>
  A step fits after the earlier ones: it reads names that some earlier step has written, from writers
  whose representation is not known to differ from the one it expects, and it may write a name again
  only to materialize the same source in the same representation.
\<close>

definition step_fits :: "data_plan_step list \<Rightarrow> data_plan_step \<Rightarrow> bool" where
  "step_fits earlier s \<longleftrightarrow>
     step_wf s \<and> (earlier = [] \<longrightarrow> ps_kind s = Materialize) \<and>
     (\<forall>input\<in>set (step_reads s).
        (\<exists>w\<in>set earlier. step_writes w = Some input) \<and>
        (\<forall>w\<in>set earlier. step_writes w = Some input \<longrightarrow>
           compatible (ps_output_representation w) (ps_input_representation s))) \<and>
     (\<forall>w\<in>set earlier. \<forall>out. step_writes w = Some out \<longrightarrow> step_writes s = Some out \<longrightarrow>
        ps_kind s = Materialize \<and> ps_kind w = Materialize \<and>
        ps_output_representation w = ps_output_representation s \<and> ps_source_id w = ps_source_id s)"

definition steps_fit :: "data_plan_step list \<Rightarrow> bool" where
  "steps_fit steps \<longleftrightarrow> (\<forall>i<length steps. step_fits (take i steps) (steps ! i))"

definition data_plan_ok :: "data_plan \<Rightarrow> bool" where
  "data_plan_ok p \<longleftrightarrow>
     \<not> is_blank (dp_id p) \<and> dp_steps p \<noteq> [] \<and> steps_fit (dp_steps p) \<and>
     compatible (ps_output_representation (last (dp_steps p))) (Some (dp_output_representation p))"

lemma steps_fit_Nil [simp]: "steps_fit []"
  by (simp add: steps_fit_def)

lemma steps_fit_snoc: "steps_fit (steps @ [s]) \<longleftrightarrow> steps_fit steps \<and> step_fits steps s"
  by (auto simp: steps_fit_def nth_append less_Suc_eq)

definition record_output ::
  "data_plan_step \<Rightarrow> (string, representation_id option) btree_map \<Rightarrow>
   (string, representation_id option) btree_map"
where
  "record_output s m =
     (case step_writes s of None \<Rightarrow> m | Some out \<Rightarrow> bt_insert out (ps_output_representation s) m)"

definition record_source ::
  "data_plan_step \<Rightarrow> (string, source_id option) btree_map \<Rightarrow> (string, source_id option) btree_map"
where
  "record_source s m =
     (case step_writes s of
        None \<Rightarrow> m
      | Some out \<Rightarrow> if ps_kind s = Materialize then bt_insert out (ps_source_id s) m else m)"

lemma map_of_record_output:
  "map_of (record_output s m) name =
     (if step_writes s = Some name then Some (ps_output_representation s) else map_of m name)"
  by (auto simp: record_output_def map_of_bt_insert split: option.split)

lemma map_of_record_source:
  "map_of (record_source s m) name =
     (if step_writes s = Some name \<and> ps_kind s = Materialize then Some (ps_source_id s)
      else map_of m name)"
  by (auto simp: record_source_def map_of_bt_insert split: option.split)

lemma lookup_outputs:
  assumes "steps_fit steps"
  shows "map_of (fold record_output steps []) name = Some r \<longleftrightarrow>
     (\<exists>s\<in>set steps. step_writes s = Some name \<and> ps_output_representation s = r)"
  using assms
proof (induction steps rule: rev_induct)
  case Nil
  then show ?case by simp
next
  case (snoc s steps)
  then show ?case
    by (auto simp: steps_fit_snoc map_of_record_output step_fits_def)
qed

lemma lookup_sources:
  assumes "steps_fit steps"
  shows "map_of (fold record_source steps []) name = Some src \<longleftrightarrow>
     (\<exists>s\<in>set steps. step_writes s = Some name \<and> ps_kind s = Materialize \<and> ps_source_id s = src)"
  using assms
proof (induction steps rule: rev_induct)
  case Nil
  then show ?case by simp
next
  case (snoc s steps)
  then show ?case
    by (auto simp: steps_fit_snoc map_of_record_source step_fits_def)
qed

lemma check_input_ok:
  "check_input outputs s input = Inr () \<longleftrightarrow>
     (\<exists>r. map_of outputs input = Some r \<and> compatible r (ps_input_representation s))"
  unfolding check_input_def compatible_def
  by (cases "map_of outputs input") (auto split: option.split)

lemma register_output_ok:
  "register_output (outs, srcs) s name = Inr st \<longleftrightarrow>
     (\<forall>r. map_of outs name = Some r \<longrightarrow>
        ps_kind s = Materialize \<and> r = ps_output_representation s \<and>
        map_of srcs name = Some (ps_source_id s)) \<and>
     st = (bt_insert name (ps_output_representation s) outs,
           if ps_kind s = Materialize then bt_insert name (ps_source_id s) srcs else srcs)"
  unfolding register_output_def by (cases "map_of outs name") auto

lemma step_io_ok:
  "plan_step_inputs s = Inr inputs \<longleftrightarrow> is_ok (plan_step_inputs s) \<and> inputs = step_reads s"
  "plan_step_output s = Inr out \<longleftrightarrow> is_ok (plan_step_output s) \<and> out = step_writes s"
  by (auto simp: step_reads_def step_writes_def split: sum.split)

definition step_accepted :: "plan_progress \<Rightarrow> data_plan_step \<Rightarrow> bool" where
  "step_accepted st s \<longleftrightarrow>
     (\<forall>input\<in>set (step_reads s). \<exists>r. map_of (fst st) input = Some r \<and>
        compatible r (ps_input_representation s)) \<and>
     (\<forall>out r. step_writes s = Some out \<longrightarrow> map_of (fst st) out = Some r \<longrightarrow>
        ps_kind s = Materialize \<and> r = ps_output_representation s \<and>
        map_of (snd st) out = Some (ps_source_id s))"

lemma plan_step_validate_ok:
  "plan_step_validate (outs, srcs) (idx, s) = Inr st \<longleftrightarrow>
     step_wf s \<and> (idx = 0 \<longrightarrow> ps_kind s = Materialize) \<and> step_accepted (outs, srcs) s \<and>
     st = (record_output s outs, record_source s srcs)"
proof (cases "step_writes s")
  case None
  show ?thesis
    unfolding plan_step_validate_def step_wf_def step_accepted_def record_output_def
      record_source_def None
    by (cases "ps_adapter_id s")
      (auto simp: rbind_eq_Inr if_Inl_eq_Inr each_res_ok check_input_ok step_io_ok None)
next
  case (Some name)
  show ?thesis
    unfolding plan_step_validate_def step_wf_def step_accepted_def record_output_def
      record_source_def Some
    by (cases "ps_adapter_id s")
      (auto simp: rbind_eq_Inr if_Inl_eq_Inr each_res_ok check_input_ok register_output_ok
        step_io_ok Some)
qed

lemma writers_agree:
  assumes "steps_fit steps" and "w \<in> set steps" and "w' \<in> set steps"
    and "step_writes w = Some name" and "step_writes w' = Some name"
  shows "ps_output_representation w = ps_output_representation w' \<and> ps_kind w = ps_kind w' \<and>
    ps_source_id w = ps_source_id w'"
  using assms
proof (induction steps rule: rev_induct)
  case Nil
  then show ?case by simp
next
  case (snoc s steps)
  then show ?case by (auto simp: steps_fit_snoc step_fits_def)
qed

lemma step_accepted_fits:
  assumes "steps_fit steps"
  shows "step_accepted (fold record_output steps [], fold record_source steps []) s \<and> step_wf s \<and>
      (steps = [] \<longrightarrow> ps_kind s = Materialize) \<longleftrightarrow> step_fits steps s"
proof -
  have reads: "(\<exists>r. map_of (fold record_output steps []) input = Some r \<and> compatible r e) \<longleftrightarrow>
      (\<exists>w\<in>set steps. step_writes w = Some input) \<and>
      (\<forall>w\<in>set steps. step_writes w = Some input \<longrightarrow> compatible (ps_output_representation w) e)"
    (is "?A \<longleftrightarrow> ?B") for input e
  proof
    assume ?A
    then obtain w where w: "w \<in> set steps" "step_writes w = Some input"
        "compatible (ps_output_representation w) e"
      by (auto simp: lookup_outputs [OF assms])
    moreover have "ps_output_representation v = ps_output_representation w"
      if "v \<in> set steps" "step_writes v = Some input" for v
      using writers_agree [OF assms that(1) w(1) that(2) w(2)] by simp
    ultimately show ?B by metis
  next
    assume ?B
    then obtain w where "w \<in> set steps" "step_writes w = Some input"
        "compatible (ps_output_representation w) e"
      by blast
    then have "map_of (fold record_output steps []) input = Some (ps_output_representation w)"
      unfolding lookup_outputs [OF assms] by blast
    with \<open>compatible (ps_output_representation w) e\<close> show ?A by blast
  qed
  have writes: "(\<forall>r. step_writes s = Some name \<longrightarrow>
        map_of (fold record_output steps []) name = Some r \<longrightarrow>
        ps_kind s = Materialize \<and> r = ps_output_representation s \<and>
        map_of (fold record_source steps []) name = Some (ps_source_id s)) \<longleftrightarrow>
      (\<forall>w\<in>set steps. step_writes w = Some name \<longrightarrow> step_writes s = Some name \<longrightarrow>
        ps_kind s = Materialize \<and> ps_kind w = Materialize \<and>
        ps_output_representation w = ps_output_representation s \<and>
        ps_source_id w = ps_source_id s)" (is "?A \<longleftrightarrow> ?B") for name
  proof
    assume ?A
    show ?B
    proof (intro ballI impI)
      fix w assume w: "w \<in> set steps" "step_writes w = Some name" "step_writes s = Some name"
      with \<open>?A\<close> obtain v where v: "v \<in> set steps" "step_writes v = Some name"
          "ps_kind v = Materialize" "ps_source_id v = ps_source_id s" "ps_kind s = Materialize"
          "ps_output_representation w = ps_output_representation s"
        by (auto simp: lookup_outputs [OF assms] lookup_sources [OF assms])
      with writers_agree [OF assms w(1) v(1) w(2) v(2)]
      show "ps_kind s = Materialize \<and> ps_kind w = Materialize \<and>
          ps_output_representation w = ps_output_representation s \<and>
          ps_source_id w = ps_source_id s"
        by simp
    qed
  next
    assume ?B
    then show ?A
      by (auto simp: lookup_outputs [OF assms] lookup_sources [OF assms])
  qed
  have "(\<forall>out r. step_writes s = Some out \<longrightarrow>
        map_of (fold record_output steps []) out = Some r \<longrightarrow>
        ps_kind s = Materialize \<and> r = ps_output_representation s \<and>
        map_of (fold record_source steps []) out = Some (ps_source_id s)) \<longleftrightarrow>
      (\<forall>w\<in>set steps. \<forall>out. step_writes w = Some out \<longrightarrow> step_writes s = Some out \<longrightarrow>
        ps_kind s = Materialize \<and> ps_kind w = Materialize \<and>
        ps_output_representation w = ps_output_representation s \<and>
        ps_source_id w = ps_source_id s)"
    unfolding writes by blast
  then show ?thesis
    unfolding step_accepted_def step_fits_def fst_conv snd_conv reads by argo
qed

lemma plan_fold_ok:
  "fold_res plan_step_validate ([], []) (List.enumerate 0 steps) = Inr st \<longleftrightarrow>
     steps_fit steps \<and> st = (fold record_output steps [], fold record_source steps [])"
proof (induction steps arbitrary: st rule: rev_induct)
  case Nil
  then show ?case by auto
next
  case (snoc s steps)
  show ?case
    using step_accepted_fits [of steps s]
    by (auto simp: enumerate_append_eq fold_res_append rbind_eq_Inr snoc.IH plan_step_validate_ok
        steps_fit_snoc)
qed

lemma data_plan_validate_ok: "data_plan_validate p = Inr () \<longleftrightarrow> data_plan_ok p"
  unfolding data_plan_validate_def data_plan_ok_def
  by (cases "ps_output_representation (last (dp_steps p))")
    (auto simp: rbind_eq_Inr plan_fold_ok compatible_def)

text \<open>
  The data plan validator accepts exactly the plans whose data flow is sound: the first step
  materializes a source, each step reads only names written by earlier steps and in the
  representation it expects, no name has two meanings (only the same source may be materialized
  again), and the last step produces the declared output representation.
\<close>

lemma data_plan_validate_iff: "data_plan_validate p = Inr () \<longleftrightarrow> data_plan_ok p"
  by (rule data_plan_validate_ok)

end
