(* ===== verification/Predict_Cohort.thy ===== *)
theory Predict_Cohort
  imports Coordinator Data_Plan
begin

text \<open>
  Prediction cohorts (\<open>predict_cohort.rs\<close>): the identity of the samples a prediction phase may read,
  its self-certifying fingerprint, and the check that an external test cohort is disjoint from the
  training relations. The record \<open>external\<close> collects the third-party functions that the core relies
  on: the canonical serialization of each fingerprinted value, the digest, the decoding of a native
  filter predicate and the equality of JSON values.
\<close>

section \<open>Data\<close>

datatype cohort_role = ExternalTest | Inference

record predict_cohort =
  pc_role :: cohort_role
  pc_physical_sample_ids :: "sample_id list"
  pc_origin_sample_ids :: "sample_id list"
  pc_target_names :: "string list"
  pc_relation_fingerprint :: string
  pc_relations :: relation_set
  pc_data_content_fingerprint :: string
  pc_target_content_fingerprint :: "string option"
  pc_cohort_fingerprint :: string

record fingerprint_input =
  fi_role :: cohort_role
  fi_physical_sample_ids :: "sample_id list"
  fi_origin_sample_ids :: "sample_id list"
  fi_target_names :: "string list"
  fi_relation_fingerprint :: string
  fi_relations :: relation_set
  fi_data_content_fingerprint :: string
  fi_target_content_fingerprint :: "string option"

record external =
  ex_encode_relations :: "(string \<times> coordinator_relation) list \<Rightarrow> u8 list res"
  ex_encode_cohort :: "fingerprint_input \<Rightarrow> u8 list res"
  ex_encode_plan :: "data_plan \<Rightarrow> u8 list res"
  ex_sha256 :: "u8 list \<Rightarrow> u8 list"
  ex_decode_filter :: "json \<Rightarrow> native_filter option"
  ex_value_eq :: "json \<Rightarrow> json \<Rightarrow> bool"

section \<open>Operations\<close>

definition relations_fingerprint :: "external \<Rightarrow> relation_set \<Rightarrow> string res" where
  "relations_fingerprint ex = relation_set_fingerprint (ex_encode_relations ex) (ex_sha256 ex)"

definition row_samples :: "relation_set \<Rightarrow> sample_id list" where
  "row_samples rs = map cr_sample_id (rs_records rs)"

definition row_origins :: "relation_set \<Rightarrow> sample_id list" where
  "row_origins rs =
     map (\<lambda>r. case cr_origin_sample_id r of Some origin \<Rightarrow> origin | None \<Rightarrow> cr_sample_id r)
       (rs_records rs)"

text \<open>\<open>ids.windows(2).any(|pair| pair[0] >= pair[1])\<close>\<close>

definition not_increasing :: "'a::linorder list \<Rightarrow> bool" where
  "not_increasing ids = list_ex (\<lambda>(a, b). b \<le> a) (zip ids (tl ids))"

definition validate_members :: "external \<Rightarrow> predict_cohort \<Rightarrow> unit res" where
  "validate_members ex c =
     rseq
       (each_res
          (\<lambda>ids. if ids = [] \<or> not_increasing ids
                 then invalid ''predict cohort IDs must be nonempty, sorted and unique'' else Inr ())
          [pc_physical_sample_ids c, pc_origin_sample_ids c])
       (let targets = bset_of (pc_target_names c) in
        if targets = [] \<or> length targets \<noteq> length (pc_target_names c) \<or>
           list_ex is_blank (pc_target_names c)
        then invalid ''predict cohort target names must be nonempty and unique''
        else
          rseq (validate_fingerprint ''predict cohort data content'' (pc_data_content_fingerprint c))
         (rseq
           (case pc_target_content_fingerprint c of
              None \<Rightarrow> Inr ()
            | Some target \<Rightarrow> validate_fingerprint ''predict cohort target content'' target)
         (if (pc_role c = ExternalTest) \<noteq> (pc_target_content_fingerprint c \<noteq> None)
          then invalid ''external_test requires target content; inference forbids it''
          else
            rseq (relation_set_validate (pc_relations c))
           (rbind (relations_fingerprint ex (pc_relations c)) (\<lambda>actual.
              if pc_relation_fingerprint c \<noteq> actual
              then invalid ''predict cohort relation fingerprint does not match relations''
              else if bset_of (row_samples (pc_relations c)) \<noteq> bset_of (pc_physical_sample_ids c) \<or>
                      bset_of (row_origins (pc_relations c)) \<noteq> bset_of (pc_origin_sample_ids c)
              then invalid ''predict cohort IDs do not cover exactly its relations''
              else Inr ())))))"

definition cohort_input :: "predict_cohort \<Rightarrow> fingerprint_input" where
  "cohort_input c =
     \<lparr>fi_role = pc_role c, fi_physical_sample_ids = pc_physical_sample_ids c,
      fi_origin_sample_ids = pc_origin_sample_ids c, fi_target_names = pc_target_names c,
      fi_relation_fingerprint = pc_relation_fingerprint c, fi_relations = pc_relations c,
      fi_data_content_fingerprint = pc_data_content_fingerprint c,
      fi_target_content_fingerprint = pc_target_content_fingerprint c\<rparr>"

definition cohort_fingerprint :: "external \<Rightarrow> predict_cohort \<Rightarrow> string res" where
  "cohort_fingerprint ex c =
     rseq (validate_members ex c)
       (typed_fingerprint (ex_encode_cohort ex) (ex_sha256 ex) (cohort_input c))"

definition cohort_validate :: "external \<Rightarrow> predict_cohort \<Rightarrow> unit res" where
  "cohort_validate ex c =
     rseq (validate_fingerprint ''predict cohort'' (pc_cohort_fingerprint c))
       (rbind (cohort_fingerprint ex c) (\<lambda>actual.
          if pc_cohort_fingerprint c \<noteq> actual
          then invalid ''predict cohort fingerprint does not match content'' else Inr ()))"

definition cohort_from_relations ::
  "external \<Rightarrow> cohort_role \<Rightarrow> relation_set \<Rightarrow> string list \<Rightarrow> string \<Rightarrow> string option \<Rightarrow> predict_cohort res"
where
  "cohort_from_relations ex role relations target_names data_content target_content =
     rbind (relations_fingerprint ex relations) (\<lambda>fp.
       (let cohort =
          \<lparr>pc_role = role, pc_physical_sample_ids = bset_of (row_samples relations),
           pc_origin_sample_ids = bset_of (row_origins relations), pc_target_names = target_names,
           pc_relation_fingerprint = fp, pc_relations = relations,
           pc_data_content_fingerprint = data_content,
           pc_target_content_fingerprint = target_content, pc_cohort_fingerprint = []\<rparr> in
        rbind (cohort_fingerprint ex cohort) (\<lambda>cfp.
          Inr (cohort\<lparr>pc_cohort_fingerprint := cfp\<rparr>))))"

definition training_identities :: "relation_set \<Rightarrow> sample_id list" where
  "training_identities rs =
     concat
       (map (\<lambda>r. cr_sample_id r #
               (case cr_origin_sample_id r of None \<Rightarrow> [] | Some origin \<Rightarrow> [origin]))
         (rs_records rs))"

definition validate_disjoint :: "external \<Rightarrow> predict_cohort \<Rightarrow> relation_set \<Rightarrow> unit res" where
  "validate_disjoint ex c training =
     rseq (cohort_validate ex c)
       (rseq (relation_set_validate training)
         (if pc_role c = Inference then Inr ()
          else if list_ex (\<lambda>i. i \<in> set (training_identities training))
                    (pc_physical_sample_ids c @ pc_origin_sample_ids c)
          then invalid ''external_test cohort overlaps training identities''
          else Inr ()))"

section \<open>What a valid cohort is\<close>

lemma not_increasing_iff: "\<not> not_increasing xs \<longleftrightarrow> sorted_wrt (<) xs"
proof (induction xs rule: induct_list012)
  case (3 x y zs)
  then show ?case by (auto simp: not_increasing_def) (meson less_trans not_le)
qed (simp_all add: not_increasing_def)

definition cohort_members_ok :: "external \<Rightarrow> predict_cohort \<Rightarrow> bool" where
  "cohort_members_ok ex c \<longleftrightarrow>
     pc_target_names c \<noteq> [] \<and> distinct (pc_target_names c) \<and>
     (\<forall>n\<in>set (pc_target_names c). \<not> is_blank n) \<and>
     (\<forall>fp\<in>{pc_data_content_fingerprint c} \<union> set_option (pc_target_content_fingerprint c).
        length fp = 64 \<and> list_all is_ascii_hexdigit fp) \<and>
     (pc_role c = ExternalTest \<longleftrightarrow> pc_target_content_fingerprint c \<noteq> None) \<and>
     relation_set_ok (pc_relations c) \<and>
     relations_fingerprint ex (pc_relations c) = Inr (pc_relation_fingerprint c) \<and>
     pc_physical_sample_ids c = bset_of (row_samples (pc_relations c)) \<and>
     pc_origin_sample_ids c = bset_of (row_origins (pc_relations c))"

lemma sorted_cover_iff:
  assumes "xs \<noteq> []"
  shows "ys \<noteq> [] \<and> sorted_wrt (<) ys \<and> bset_of xs = bset_of ys \<longleftrightarrow> ys = bset_of xs"
  using assms bset_of_id [of ys] sorted_bset_of [of xs] bset_of_id [of "bset_of xs"] by auto

lemma row_lists_nonempty:
  "relation_set_ok rs \<Longrightarrow> row_samples rs \<noteq> [] \<and> row_origins rs \<noteq> []"
  by (auto simp: relation_set_ok_def row_samples_def row_origins_def)

lemma distinct_by_bset: "length (bset_of xs) = length xs \<longleftrightarrow> distinct xs"
  by (simp add: length_bset_of card_distinct distinct_card) (metis card_distinct distinct_card)

lemma validate_members_ok: "validate_members ex c = Inr () \<longleftrightarrow> cohort_members_ok ex c"
proof -
  have target: "(case pc_target_content_fingerprint c of
        None \<Rightarrow> Inr () | Some t \<Rightarrow> validate_fingerprint l t) = Inr () \<longleftrightarrow>
      (\<forall>t\<in>set_option (pc_target_content_fingerprint c). length t = 64 \<and> list_all is_ascii_hexdigit t)"
    for l by (cases "pc_target_content_fingerprint c") (auto simp: validate_fingerprint_ok)
  have bset: "bset_of (pc_target_names c) = [] \<longleftrightarrow> pc_target_names c = []"
    by simp
  let ?P = "pc_physical_sample_ids c" and ?O = "pc_origin_sample_ids c"
  have "validate_members ex c = Inr () \<longleftrightarrow>
      ?P \<noteq> [] \<and> sorted_wrt (<) ?P \<and> ?O \<noteq> [] \<and> sorted_wrt (<) ?O \<and>
      pc_target_names c \<noteq> [] \<and> distinct (pc_target_names c) \<and>
      \<not> list_ex is_blank (pc_target_names c) \<and>
      validate_fingerprint ''predict cohort data content'' (pc_data_content_fingerprint c) = Inr () \<and>
      (\<forall>t\<in>set_option (pc_target_content_fingerprint c). length t = 64 \<and> list_all is_ascii_hexdigit t) \<and>
      (pc_role c = ExternalTest \<longleftrightarrow> pc_target_content_fingerprint c \<noteq> None) \<and>
      relation_set_ok (pc_relations c) \<and>
      relations_fingerprint ex (pc_relations c) = Inr (pc_relation_fingerprint c) \<and>
      bset_of (row_samples (pc_relations c)) = bset_of ?P \<and>
      bset_of (row_origins (pc_relations c)) = bset_of ?O"
    unfolding validate_members_def Let_def
    by (simp add: rbind_eq_Inr if_Inl_eq_Inr target bset distinct_by_bset relation_set_validate_ok
        not_increasing_iff conj_ac del: not_None_eq)
  also have "\<dots> \<longleftrightarrow> cohort_members_ok ex c"
  proof (cases "relation_set_ok (pc_relations c)")
    case True
    then have rows: "row_samples (pc_relations c) \<noteq> []" "row_origins (pc_relations c) \<noteq> []"
      by (simp_all add: row_lists_nonempty)
    show ?thesis
      unfolding cohort_members_ok_def list_ex_iff
      using sorted_cover_iff [OF rows(1), of ?P] sorted_cover_iff [OF rows(2), of ?O]
      by (simp add: validate_fingerprint_ok) argo
  qed (simp add: cohort_members_ok_def)
  finally show ?thesis .
qed

lemma cohort_fingerprint_ok:
  "cohort_fingerprint ex c = Inr fp \<longleftrightarrow> cohort_members_ok ex c \<and>
     typed_fingerprint (ex_encode_cohort ex) (ex_sha256 ex) (cohort_input c) = Inr fp"
  by (auto simp: cohort_fingerprint_def rbind_eq_Inr validate_members_ok)

lemma cohort_validate_ok:
  "cohort_validate ex c = Inr () \<longleftrightarrow>
     cohort_fingerprint ex c = Inr (pc_cohort_fingerprint c) \<and>
     length (pc_cohort_fingerprint c) = 64 \<and> list_all is_ascii_hexdigit (pc_cohort_fingerprint c)"
  by (auto simp: cohort_validate_def rbind_eq_Inr if_Inl_eq_Inr validate_fingerprint_ok)

lemma cohort_validate_members: "cohort_validate ex c = Inr () \<Longrightarrow> cohort_members_ok ex c"
  by (simp add: cohort_validate_ok cohort_fingerprint_ok)

lemma cohort_members_ok_stamp [simp]:
  "cohort_members_ok ex (c\<lparr>pc_cohort_fingerprint := fp\<rparr>) \<longleftrightarrow> cohort_members_ok ex c"
  by (simp add: cohort_members_ok_def)

lemma cohort_from_relations_ok:
  assumes "cohort_from_relations ex role relations targets content target_content = Inr c"
    and "\<And>bytes. length (ex_sha256 ex bytes) = 32"
  shows "cohort_validate ex c = Inr () \<and> pc_relations c = relations \<and> pc_role c = role \<and>
    pc_target_names c = targets \<and> sorted_wrt (<) (pc_physical_sample_ids c) \<and>
    set (pc_physical_sample_ids c) = cr_sample_id ` set (rs_records relations) \<and>
    set (pc_origin_sample_ids c) = set (row_origins relations)"
proof -
  obtain fp cfp where fp: "relations_fingerprint ex relations = Inr fp"
    and cfp: "cohort_fingerprint ex (c\<lparr>pc_cohort_fingerprint := []\<rparr>) = Inr cfp"
    and c: "c = \<lparr>pc_role = role, pc_physical_sample_ids = bset_of (row_samples relations),
           pc_origin_sample_ids = bset_of (row_origins relations), pc_target_names = targets,
           pc_relation_fingerprint = fp, pc_relations = relations,
           pc_data_content_fingerprint = content,
           pc_target_content_fingerprint = target_content, pc_cohort_fingerprint = cfp\<rparr>"
    using assms(1) by (auto simp: cohort_from_relations_def rbind_eq_Inr Let_def)
  have "typed_fingerprint (ex_encode_cohort ex) (ex_sha256 ex) (cohort_input c) = Inr cfp"
    using cfp by (simp add: cohort_fingerprint_ok cohort_input_def)
  moreover from typed_fingerprint_format [OF assms(2) this]
  have "length cfp = 64" "list_all is_ascii_hexdigit cfp" by (simp_all add: validate_fingerprint_ok)
  moreover have "cohort_members_ok ex c" using cfp by (simp add: cohort_fingerprint_ok)
  ultimately have "cohort_validate ex c = Inr ()"
    by (simp add: cohort_validate_ok cohort_fingerprint_ok c)
  then show ?thesis by (simp add: c sorted_bset_of row_samples_def)
qed

text \<open>
  A cohort built from relations certifies itself: construction succeeds only on a well-formed
  cohort, keeps the given relations, targets and role, lists exactly the samples and origins of the
  relations in increasing order, and the result always passes validation.
\<close>

lemma cohort_from_relations_valid:
  assumes "cohort_from_relations ex role relations targets content target_content = Inr c"
    and "\<And>bytes. length (ex_sha256 ex bytes) = 32"
  shows "cohort_validate ex c = Inr () \<and> pc_relations c = relations \<and> pc_role c = role \<and>
    pc_target_names c = targets \<and> sorted_wrt (<) (pc_physical_sample_ids c) \<and>
    set (pc_physical_sample_ids c) = cr_sample_id ` set (rs_records relations) \<and>
    set (pc_origin_sample_ids c) = set (row_origins relations)"
  using assms by (rule cohort_from_relations_ok)

lemma validate_disjoint_apart:
  assumes "validate_disjoint ex c training = Inr ()" and "pc_role c = ExternalTest"
    and "r \<in> set (rs_records (pc_relations c))" and "r' \<in> set (rs_records training)"
  shows "({cr_sample_id r} \<union> set_option (cr_origin_sample_id r)) \<inter>
    ({cr_sample_id r'} \<union> set_option (cr_origin_sample_id r')) = {}"
proof -
  have members: "cohort_members_ok ex c"
    and apart: "\<forall>i\<in>set (pc_physical_sample_ids c) \<union> set (pc_origin_sample_ids c).
      i \<notin> set (training_identities training)"
    using assms(1,2)
    by (auto simp: validate_disjoint_def rbind_eq_Inr if_Inl_eq_Inr list_ex_iff
        dest: cohort_validate_members)
  have "{cr_sample_id r'} \<union> set_option (cr_origin_sample_id r') \<subseteq> set (training_identities training)"
    using assms(4) by (force simp: training_identities_def split: option.split)
  moreover have "cr_sample_id r \<in> set (pc_physical_sample_ids c)"
    using members assms(3) by (simp add: cohort_members_ok_def row_samples_def)
  moreover have "set_option (cr_origin_sample_id r) \<subseteq> set (pc_origin_sample_ids c)"
    using members assms(3)
    by (force simp: cohort_members_ok_def row_origins_def split: option.split)
  ultimately show ?thesis using apart by blast
qed

text \<open>
  C20. The test set barrier: when an external test cohort has been accepted against the training
  relations, no row of the cohort has a sample or an origin that is a sample or an origin of a
  training row.
\<close>

theorem validate_disjoint_barrier:
  assumes "validate_disjoint ex c training = Inr ()" and "pc_role c = ExternalTest"
    and "r \<in> set (rs_records (pc_relations c))" and "r' \<in> set (rs_records training)"
  shows "({cr_sample_id r} \<union> set_option (cr_origin_sample_id r)) \<inter>
    ({cr_sample_id r'} \<union> set_option (cr_origin_sample_id r')) = {}"
  using assms by (rule validate_disjoint_apart)

end
