(* ===== verification/Envelope.thy ===== *)
theory Envelope
  imports Predict_Cohort
begin

text \<open>
  The coordinator data-plan envelope (\<open>CoordinatorDataPlanEnvelope\<close> of \<open>coordinator.rs\<close>): the plan
  with the fingerprints of what it was made from, the coordinator relations and, in version 2, the
  prediction cohort. Its assembly and decoding are in \<open>Envelope_Assembly\<close>.
\<close>

record envelope =
  en_schema_version :: u32
  en_schema_fingerprint :: string
  en_plan_fingerprint :: string
  en_relation_fingerprint :: "string option"
  en_data_content_fingerprint :: "string option"
  en_target_content_fingerprint :: "string option"
  en_plan :: data_plan
  en_coordinator_relations :: "relation_set option"
  en_predict_cohort :: "predict_cohort option"
  en_metadata :: metadata

definition data_plan_fingerprint :: "external \<Rightarrow> data_plan \<Rightarrow> string res" where
  "data_plan_fingerprint ex p =
     rseq (data_plan_validate p) (typed_fingerprint (ex_encode_plan ex) (ex_sha256 ex) p)"

definition validate_optional_fingerprint :: "string \<Rightarrow> string option \<Rightarrow> unit res" where
  "validate_optional_fingerprint label v =
     (case v of None \<Rightarrow> Inr () | Some fp \<Rightarrow> validate_fingerprint label fp)"

definition envelope_cohort_validate :: "external \<Rightarrow> envelope \<Rightarrow> unit res" where
  "envelope_cohort_validate ex e =
     (case en_predict_cohort e of
        Some cohort \<Rightarrow>
          if en_schema_version e = 1 then invalid ''envelope V1 cannot carry predict_cohort''
          else
            rseq (cohort_validate ex cohort)
              (if pc_role cohort = ExternalTest
               then
                 rbind
                   (ok_or (en_coordinator_relations e)
                      (Validation ''external_test requires coordinator_relations''))
                   (validate_disjoint ex cohort)
               else Inr ())
      | None \<Rightarrow>
          if en_schema_version e = 2 then invalid ''envelope V2 requires predict_cohort''
          else Inr ())"

definition envelope_validate :: "external \<Rightarrow> envelope \<Rightarrow> unit res" where
  "envelope_validate ex e =
     (if en_schema_version e \<noteq> 1 \<and> en_schema_version e \<noteq> 2 then invalid ''unsupported schema_version''
      else
        rseq (envelope_cohort_validate ex e)
       (rseq (validate_fingerprint ''schema'' (en_schema_fingerprint e))
       (rseq (validate_fingerprint ''plan'' (en_plan_fingerprint e))
       (rseq (data_plan_validate (en_plan e))
       (rbind (data_plan_fingerprint ex (en_plan e)) (\<lambda>actual_plan.
          if actual_plan \<noteq> en_plan_fingerprint e
          then Inl (FingerprintMismatch ''plan'' (en_plan_fingerprint e) actual_plan)
          else
            rseq
              (case en_coordinator_relations e of
                 None \<Rightarrow> Inr () | Some relations \<Rightarrow> relation_set_validate relations)
           (rseq
              (case en_relation_fingerprint e of
                 None \<Rightarrow> Inr ()
               | Some fp \<Rightarrow>
                   rseq (validate_fingerprint ''relation'' fp)
                     (if en_coordinator_relations e = None
                      then invalid ''relation_fingerprint requires coordinator_relations''
                      else Inr ()))
           (rseq (validate_optional_fingerprint ''data content'' (en_data_content_fingerprint e))
              (validate_optional_fingerprint ''target content''
                (en_target_content_fingerprint e))))))))))"

section \<open>What a valid envelope is\<close>

definition hex64 :: "string \<Rightarrow> bool" where
  "hex64 v \<longleftrightarrow> length v = 64 \<and> list_all is_ascii_hexdigit v"

definition cohort_admitted :: "external \<Rightarrow> envelope \<Rightarrow> bool" where
  "cohort_admitted ex e \<longleftrightarrow>
     (case en_predict_cohort e of
        None \<Rightarrow> en_schema_version e = 1
      | Some cohort \<Rightarrow>
          en_schema_version e = 2 \<and> cohort_validate ex cohort = Inr () \<and>
          (pc_role cohort = ExternalTest \<longrightarrow>
             (\<exists>relations. en_coordinator_relations e = Some relations \<and>
                validate_disjoint ex cohort relations = Inr ())))"

definition envelope_ok :: "external \<Rightarrow> envelope \<Rightarrow> bool" where
  "envelope_ok ex e \<longleftrightarrow>
     cohort_admitted ex e \<and> hex64 (en_schema_fingerprint e) \<and> hex64 (en_plan_fingerprint e) \<and>
     data_plan_ok (en_plan e) \<and>
     data_plan_fingerprint ex (en_plan e) = Inr (en_plan_fingerprint e) \<and>
     (\<forall>relations. en_coordinator_relations e = Some relations \<longrightarrow> relation_set_ok relations) \<and>
     (\<forall>fp. en_relation_fingerprint e = Some fp \<longrightarrow> hex64 fp \<and> en_coordinator_relations e \<noteq> None) \<and>
     (\<forall>fp. en_data_content_fingerprint e = Some fp \<longrightarrow> hex64 fp) \<and>
     (\<forall>fp. en_target_content_fingerprint e = Some fp \<longrightarrow> hex64 fp)"

lemma cohort_admitted_plan [simp]:
  "cohort_admitted ex (e\<lparr>en_plan := p\<rparr>) \<longleftrightarrow> cohort_admitted ex e"
  by (cases "en_predict_cohort e") (simp_all add: cohort_admitted_def)

lemma envelope_cohort_validate_ok:
  assumes "en_schema_version e = 1 \<or> en_schema_version e = 2"
  shows "envelope_cohort_validate ex e = Inr () \<longleftrightarrow> cohort_admitted ex e"
  using assms unfolding envelope_cohort_validate_def cohort_admitted_def
  by (cases "en_predict_cohort e"; cases "en_coordinator_relations e")
    (auto simp: rbind_eq_Inr if_Inl_eq_Inr)

lemma validate_optional_fingerprint_ok:
  "validate_optional_fingerprint label v = Inr () \<longleftrightarrow> (\<forall>fp. v = Some fp \<longrightarrow> hex64 fp)"
  unfolding validate_optional_fingerprint_def hex64_def
  by (cases v) (auto simp: validate_fingerprint_ok)

lemma envelope_validate_ok: "envelope_validate ex e = Inr () \<longleftrightarrow> envelope_ok ex e"
proof (cases "en_schema_version e = 1 \<or> en_schema_version e = 2")
  case True
  have relations: "(case en_coordinator_relations e of
      None \<Rightarrow> Inr () | Some relations \<Rightarrow> relation_set_validate relations) = Inr () \<longleftrightarrow>
      (\<forall>relations. en_coordinator_relations e = Some relations \<longrightarrow> relation_set_ok relations)"
    by (auto simp: relation_set_validate_ok split: option.split)
  have fingerprint: "(case en_relation_fingerprint e of
        None \<Rightarrow> Inr ()
      | Some fp \<Rightarrow> rseq (validate_fingerprint l fp)
          (if en_coordinator_relations e = None then Inl err else Inr ())) = Inr () \<longleftrightarrow>
      (\<forall>fp. en_relation_fingerprint e = Some fp \<longrightarrow> hex64 fp \<and> en_coordinator_relations e \<noteq> None)"
    for l err
    by (auto simp: rbind_eq_Inr validate_fingerprint_ok hex64_def split: option.split)
  show ?thesis
    using True unfolding envelope_validate_def envelope_ok_def
    by (auto simp: rbind_eq_Inr if_Inl_eq_Inr relations fingerprint validate_optional_fingerprint_ok
        envelope_cohort_validate_ok data_plan_validate_ok validate_fingerprint_ok hex64_def)
next
  case False
  then have "\<not> cohort_admitted ex e"
    by (auto simp: cohort_admitted_def split: option.splits)
  with False show ?thesis by (simp add: envelope_validate_def envelope_ok_def)
qed

text \<open>
  The envelope validator accepts exactly the well-formed envelopes: version 1 without a cohort or
  version 2 with a certified one (disjoint from the relations when it is an external test), a sound
  plan whose recomputed fingerprint is the declared one, valid relations, and fingerprints that are
  hexadecimal digests.
\<close>

lemma envelope_validate_iff: "envelope_validate ex e = Inr () \<longleftrightarrow> envelope_ok ex e"
  by (rule envelope_validate_ok)

text \<open>
  A tampered plan is rejected. If the plan of a valid envelope is replaced by another valid plan
  that serializes to bytes with another digest, validation reports a fingerprint mismatch on the
  plan with the declared and the recomputed fingerprints.
\<close>

lemma tampered_plan_rejected:
  assumes "envelope_validate ex e = Inr ()" and "data_plan_validate p = Inr ()"
    and "ex_encode_plan ex p = Inr bytes" and "ex_encode_plan ex (en_plan e) = Inr original"
    and "ex_sha256 ex bytes \<noteq> ex_sha256 ex original"
  shows "envelope_validate ex (e\<lparr>en_plan := p\<rparr>) =
    Inl (FingerprintMismatch ''plan'' (en_plan_fingerprint e) (to_hex (ex_sha256 ex bytes)))"
proof -
  have ok: "envelope_ok ex e" using assms(1) by (simp add: envelope_validate_ok)
  then have declared: "en_plan_fingerprint e = to_hex (ex_sha256 ex original)"
    using assms(4) by (simp add: envelope_ok_def data_plan_fingerprint_def rbind_eq_Inr typed_fingerprint_def)
  have version: "en_schema_version e = 1 \<or> en_schema_version e = 2"
    using ok by (auto simp: envelope_ok_def cohort_admitted_def split: option.splits)
  moreover have "envelope_cohort_validate ex (e\<lparr>en_plan := p\<rparr>) = Inr ()"
    using ok version
    by (subst envelope_cohort_validate_ok) (simp_all add: envelope_ok_def)
  moreover have "data_plan_fingerprint ex p = Inr (to_hex (ex_sha256 ex bytes))"
    using assms(2,3) by (simp add: data_plan_fingerprint_def typed_fingerprint_def)
  moreover have "to_hex (ex_sha256 ex bytes) \<noteq> en_plan_fingerprint e"
    using assms(5) declared by (auto dest: to_hex_inj)
  moreover have "validate_fingerprint l (en_schema_fingerprint e) = Inr ()"
      "validate_fingerprint l (en_plan_fingerprint e) = Inr ()" for l
    using ok by (simp_all add: envelope_ok_def hex64_def validate_fingerprint_ok)
  ultimately show ?thesis
    using assms(2) by (simp add: envelope_validate_def)
qed

end
