(* ===== verification/Data_View.thy ===== *)
theory Data_View
  imports Predict_Cohort
begin

text \<open>
  Data views (\<open>DataView\<close> of \<open>model.rs\<close>) and the selection of coordinator relations by a view
  (\<open>validate_view\<close>, \<open>resolved_view_labels\<close> and \<open>filter_relations\<close> of \<open>handle.rs\<close>).
\<close>

record data_view =
  dv_sample_ids :: "sample_id list option"
  dv_partition :: "string option"
  dv_fold_id :: "string option"
  dv_source_ids :: "source_id list option"
  dv_columns :: "string list option"
  dv_include_augmented :: bool
  dv_include_excluded :: bool
  dv_branch_view :: "branch_view option"
  dv_extra :: metadata

definition default_view :: data_view where
  "default_view =
     \<lparr>dv_sample_ids = None, dv_partition = None, dv_fold_id = None, dv_source_ids = None,
      dv_columns = None, dv_include_augmented = True, dv_include_excluded = False,
      dv_branch_view = None, dv_extra = []\<rparr>"

definition validate_non_empty :: "string \<Rightarrow> string \<Rightarrow> unit res" where
  "validate_non_empty label v = (if is_blank v then invalid label else Inr ())"

text \<open>A list checked against the size of the set of its members: no duplicates.\<close>

definition has_duplicates :: "'a list \<Rightarrow> bool" where
  "has_duplicates xs \<longleftrightarrow> length (remdups xs) \<noteq> length xs"

definition validate_view :: "external \<Rightarrow> data_view \<Rightarrow> unit res" where
  "validate_view ex v =
     rseq
       (each_res
          (\<lambda>(key, val). case val of None \<Rightarrow> Inr () | Some s \<Rightarrow> validate_non_empty key s)
          [(''partition'', dv_partition v), (''fold_id'', dv_fold_id v)])
    (rseq
       (case dv_sample_ids v of
          None \<Rightarrow> Inr ()
        | Some samples \<Rightarrow>
            if has_duplicates samples then invalid ''data view contains duplicate sample ids''
            else Inr ())
    (rseq
       (case dv_source_ids v of
          None \<Rightarrow> Inr ()
        | Some sources \<Rightarrow>
            if has_duplicates sources then invalid ''data view contains duplicate source ids''
            else Inr ())
    (rseq
       (case dv_columns v of
          None \<Rightarrow> Inr ()
        | Some columns \<Rightarrow>
            if has_duplicates columns then invalid ''data view contains duplicate columns''
            else if list_ex is_blank columns then invalid ''data view contains an empty column''
            else Inr ())
       (case dv_branch_view v of
          None \<Rightarrow> Inr ()
        | Some branch \<Rightarrow> branch_view_validate (ex_decode_filter ex) branch))))"

text \<open>The parent handle contributes its phase and its fold.\<close>

definition resolved_view_labels ::
  "data_view \<Rightarrow> string \<Rightarrow> string option \<Rightarrow> (string \<times> string) list res"
where
  "resolved_view_labels v parent_phase parent_fold =
     (if dv_sample_ids v \<noteq> None then Inr []
      else
        rbind
          (if dv_partition v = Some ''full_train'' then Inr True
           else if dv_partition v = Some ''predict''
           then (if \<not> eq_ignore_ascii_case parent_phase ''predict''
                 then invalid ''partition=predict requires a PREDICT materialized handle''
                 else Inr True)
           else Inr False)
          (\<lambda>whole_handle.
             Inr
               ((case dv_partition v of
                   Some part \<Rightarrow> if \<not> whole_handle then [(''partition'', part)] else []
                 | None \<Rightarrow> []) @
                (case dv_fold_id v of
                   Some fold_label \<Rightarrow>
                     if \<not> whole_handle \<or> parent_fold \<noteq> Some fold_label then [(''fold_id'', fold_label)] else []
                 | None \<Rightarrow> []))))"

definition label_matches :: "(string \<times> string) list \<Rightarrow> coordinator_relation \<Rightarrow> bool" where
  "label_matches selectors r =
     list_all
       (\<lambda>(key, label). Option.bind (map_of (cr_metadata r) key) json_as_str = Some label) selectors"

section \<open>Filtering\<close>

definition source_in :: "source_id list \<Rightarrow> coordinator_relation \<Rightarrow> bool" where
  "source_in sources r = (case cr_source_id r of Some s \<Rightarrow> s \<in> set sources | None \<Rightarrow> False)"

definition metadata_contains ::
  "(json \<Rightarrow> json \<Rightarrow> bool) \<Rightarrow> metadata \<Rightarrow> coordinator_relation \<Rightarrow> bool"
where
  "metadata_contains value_eq selector r =
     list_all
       (\<lambda>(key, val). case map_of (cr_metadata r) key of
            Some actual \<Rightarrow> value_eq actual val | None \<Rightarrow> False)
       selector"

definition tags_contain :: "string list \<Rightarrow> coordinator_relation \<Rightarrow> bool" where
  "tags_contain tags r = list_all (\<lambda>tag. tag \<in> set (cr_tags r)) tags"

definition branch_predicate ::
  "external \<Rightarrow> branch_view \<Rightarrow> (coordinator_relation \<Rightarrow> bool) res"
where
  "branch_predicate ex b =
     (case bv_mode b of
        BySource \<Rightarrow> Inr (source_in (bs_source_ids (bv_selector b)))
      | ByMetadata \<Rightarrow> Inr (metadata_contains (ex_value_eq ex) (bs_metadata (bv_selector b)))
      | ByTag \<Rightarrow> Inr (tags_contain (bs_tags (bv_selector b)))
      | Separation \<Rightarrow> Inr (\<lambda>_. True)
      | ByFilter \<Rightarrow>
          rbind (ok_or (bs_filter (bv_selector b)) (Validation ''by_filter requires filter'')) (\<lambda>f.
          rbind (parse_native_branch_view_filter (ex_decode_filter ex) f) (\<lambda>native.
            Inr (\<lambda>r. metadata_contains (ex_value_eq ex) (nf_metadata_equals native) r \<and>
                     tags_contain (nf_tags_all native) r))))"

definition view_selects ::
  "data_view \<Rightarrow> (coordinator_relation \<Rightarrow> bool) \<Rightarrow> coordinator_relation \<Rightarrow> bool"
where
  "view_selects v branch r \<longleftrightarrow>
     (case dv_sample_ids v of None \<Rightarrow> True | Some samples \<Rightarrow> cr_sample_id r \<in> set samples) \<and>
     (case dv_source_ids v of None \<Rightarrow> True | Some sources \<Rightarrow> source_in sources r) \<and>
     branch r \<and>
     (dv_include_augmented v \<or> \<not> cr_is_augmented r) \<and>
     (dv_include_excluded v \<or> \<not> cr_excluded r)"

definition sample_position :: "sample_id list \<Rightarrow> sample_id \<Rightarrow> nat" where
  "sample_position sample_ids s =
     (case map_of (bt_collect (map (\<lambda>(idx, s). (s, idx)) (List.enumerate 0 sample_ids))) s of
        Some idx \<Rightarrow> idx | None \<Rightarrow> usize_max)"

definition filter_relations ::
  "external \<Rightarrow> coordinator_relation list \<Rightarrow> data_view \<Rightarrow> coordinator_relation list res"
where
  "filter_relations ex relations v =
     rbind
       (case dv_branch_view v of None \<Rightarrow> Inr (\<lambda>_. True) | Some b \<Rightarrow> branch_predicate ex b)
       (\<lambda>branch.
          (let filtered =
                 filter (\<lambda>(_, r). view_selects v branch r) (List.enumerate 0 relations) in
           if filtered = [] then invalid ''data view selected no coordinator relations''
           else
             Inr
               (map snd
                 (case dv_sample_ids v of
                    None \<Rightarrow> filtered
                  | Some sample_ids \<Rightarrow>
                      sort_key (\<lambda>(idx, r). (sample_position sample_ids (cr_sample_id r), idx))
                        filtered))))"

section \<open>What a view selects\<close>

lemma has_duplicates_iff [simp]: "has_duplicates xs \<longleftrightarrow> \<not> distinct xs"
  by (auto simp: has_duplicates_def length_remdups_card_conv distinct_card dest: card_distinct)

lemma map_snd_filter_enumerate:
  "map snd (filter (\<lambda>(_, x). P x) (List.enumerate n xs)) = filter P xs"
  by (induction xs arbitrary: n) auto

lemma sample_position_nth:
  assumes "distinct sample_ids" and "i < length sample_ids"
  shows "sample_position sample_ids (sample_ids ! i) = i"
proof -
  let ?kvs = "map (\<lambda>(idx, s). (s, idx)) (List.enumerate 0 sample_ids)"
  have fsts: "map fst ?kvs = sample_ids"
    by (simp add: comp_def case_prod_unfold)
  have "(sample_ids ! i, i) \<in> set ?kvs"
    using assms(2) by (force simp: in_set_enumerate_eq)
  then have "map_of ?kvs (sample_ids ! i) = Some i"
    using assms(1) fsts by (intro map_of_is_SomeI) auto
  then show ?thesis
    using assms(1) fsts by (simp add: sample_position_def bt.get_collect_distinct)
qed

text \<open>The relations of a view in its order: by requested sample, then as the parent lists them.\<close>

definition view_order ::
  "data_view \<Rightarrow> coordinator_relation list \<Rightarrow> coordinator_relation list"
where
  "view_order v relations =
     (case dv_sample_ids v of
        None \<Rightarrow> relations
      | Some ids \<Rightarrow> concat (map (\<lambda>s. filter (\<lambda>r. cr_sample_id r = s) relations) ids))"

lemma map_concat_filter_snd:
  "map snd (concat (map (\<lambda>s. filter (\<lambda>(i, r). g r = s) xs) ids)) =
     concat (map (\<lambda>s. filter (\<lambda>r. g r = s) (map snd xs)) ids)"
  by (induction ids) (simp_all add: filter_map comp_def case_prod_unfold)

lemma view_sort:
  assumes "distinct ids" and "\<forall>r\<in>set xs. cr_sample_id r \<in> set ids"
    and that: "xs = filter P relations"
  shows "map snd (sort_key (\<lambda>(i, r). (sample_position ids (cr_sample_id r), i))
      (filter (\<lambda>(_, r). P r) (List.enumerate 0 relations))) =
    concat (map (\<lambda>s. filter (\<lambda>r. cr_sample_id r = s) (filter P relations)) ids)"
proof -
  let ?es = "filter (\<lambda>(_, r). P r) (List.enumerate 0 relations)"
  let ?f = "\<lambda>(i, r). (sample_position ids (cr_sample_id r), i)"
  let ?B = "\<lambda>s. filter (\<lambda>(i, r). cr_sample_id r = s) ?es"
  have snds: "map snd ?es = xs" unfolding that by (rule map_snd_filter_enumerate)
  then have ids: "\<forall>e\<in>set ?es. cr_sample_id (snd e) \<in> set ids"
    using assms(2) by (metis image_eqI set_map)
  have fst_sorted: "sorted_wrt (\<lambda>a b. fst a < fst b) ?es"
    by (intro sorted_wrt_filter) (simp add: sorted_wrt_map [symmetric, of _ fst] sorted_wrt_upt)
  then have "sorted_wrt (<) (map fst ?es)" by (simp add: sorted_wrt_map)
  then have "distinct (map fst ?es)" unfolding strict_sorted_iff by blast
  then have "distinct (map ?f ?es)"
    by (auto simp: distinct_map inj_on_def)
  moreover have "mset ?es = mset (concat (map ?B ids))"
    using mset_group_all [OF assms(1) ids] by (simp add: case_prod_unfold)
  moreover have "sorted (map ?f (concat (map ?B ids)))"
    unfolding sorted_map
  proof (rule sorted_wrt_concat_map)
    fix s
    show "sorted_wrt (\<lambda>x y. ?f x \<le> ?f y) (?B s)"
      by (rule sorted_wrt_mono_rel [OF _ sorted_wrt_filter [OF fst_sorted]])
        (auto simp: less_eq_prod_def)
  next
    show "sorted_wrt (\<lambda>s t. \<forall>a\<in>set (?B s). \<forall>b\<in>set (?B t). ?f a \<le> ?f b) ids"
      using sample_position_nth [OF assms(1)]
      by (auto simp: sorted_wrt_iff_nth_less less_eq_prod_def)
  qed
  ultimately have "sort_key ?f ?es = concat (map ?B ids)"
    by (intro sort_key_unique)
  then show ?thesis by (simp only: map_concat_filter_snd snds [unfolded that])
qed

text \<open>The relations a branch view stands for, by its mode.\<close>

definition branch_selects :: "external \<Rightarrow> branch_view \<Rightarrow> coordinator_relation \<Rightarrow> bool" where
  "branch_selects ex b r =
     (case bv_mode b of
        Separation \<Rightarrow> True
      | BySource \<Rightarrow> source_in (bs_source_ids (bv_selector b)) r
      | ByMetadata \<Rightarrow> metadata_contains (ex_value_eq ex) (bs_metadata (bv_selector b)) r
      | ByTag \<Rightarrow> tags_contain (bs_tags (bv_selector b)) r
      | ByFilter \<Rightarrow>
          (case Option.bind (bs_filter (bv_selector b)) (ex_decode_filter ex) of
             None \<Rightarrow> False
           | Some native \<Rightarrow>
               metadata_contains (ex_value_eq ex) (nf_metadata_equals native) r \<and>
               tags_contain (nf_tags_all native) r))"

definition view_matches :: "external \<Rightarrow> data_view \<Rightarrow> coordinator_relation \<Rightarrow> bool" where
  "view_matches ex v =
     view_selects v
       (case dv_branch_view v of None \<Rightarrow> (\<lambda>_. True) | Some b \<Rightarrow> branch_selects ex b)"

lemma parse_native_decoded:
  "parse_native_branch_view_filter decode f = Inr native \<Longrightarrow> decode f = Some native"
  by (auto simp: parse_native_branch_view_filter_def rbind_eq_Inr if_Inl_eq_Inr ok_or_eq_Inr)

lemma branch_predicate_valid:
  assumes "branch_view_validate (ex_decode_filter ex) b = Inr ()"
  shows "branch_predicate ex b = Inr (branch_selects ex b)"
proof (cases "bv_mode b")
  case ByFilter
  then obtain f native where "bs_filter (bv_selector b) = Some f"
      and native: "parse_native_branch_view_filter (ex_decode_filter ex) f = Inr native"
    using assms
    by (auto simp: branch_view_validate_def Let_def rbind_eq_Inr if_Inl_eq_Inr ok_or_eq_Inr)
  then show ?thesis
    using parse_native_decoded [OF native] ByFilter
    by (simp add: branch_predicate_def branch_selects_def fun_eq_iff)
qed (simp_all add: branch_predicate_def branch_selects_def fun_eq_iff)

lemma validate_view_parts:
  assumes "validate_view ex v = Inr ()"
  shows "\<And>ids. dv_sample_ids v = Some ids \<Longrightarrow> distinct ids"
    and "\<And>ids. dv_source_ids v = Some ids \<Longrightarrow> distinct ids"
    and "\<And>b. dv_branch_view v = Some b \<Longrightarrow> branch_view_validate (ex_decode_filter ex) b = Inr ()"
    and "\<And>cols. dv_columns v = Some cols \<Longrightarrow> distinct cols \<and> list_all (\<lambda>c. \<not> is_blank c) cols"
  using assms
  by (auto simp: validate_view_def rbind_eq_Inr if_Inl_eq_Inr list_all_iff list_ex_iff)

lemma filter_relations_valid:
  assumes "validate_view ex v = Inr ()"
  shows "filter_relations ex relations v =
    (if filter (view_matches ex v) relations = []
     then invalid ''data view selected no coordinator relations''
     else Inr (view_order v (filter (view_matches ex v) relations)))"
proof -
  have branch: "(case dv_branch_view v of None \<Rightarrow> Inr (\<lambda>_. True) | Some b \<Rightarrow> branch_predicate ex b) =
      Inr (case dv_branch_view v of None \<Rightarrow> (\<lambda>_. True) | Some b \<Rightarrow> branch_selects ex b)"
    using validate_view_parts(3) [OF assms]
    by (simp add: branch_predicate_valid split: option.split)
  let ?P = "view_matches ex v"
  let ?es = "filter (\<lambda>(_, r). ?P r) (List.enumerate 0 relations)"
  have empty: "?es = [] \<longleftrightarrow> filter ?P relations = []"
    using map_snd_filter_enumerate [of ?P 0 relations] by (metis map_is_Nil_conv)
  show ?thesis
  proof (cases "dv_sample_ids v")
    case None
    then show ?thesis
      unfolding filter_relations_def branch
      by (simp add: view_matches_def [symmetric] Let_def empty map_snd_filter_enumerate view_order_def)
  next
    case (Some ids)
    then have "\<forall>r\<in>set (filter ?P relations). cr_sample_id r \<in> set ids"
      by (auto simp: view_matches_def view_selects_def)
    from view_sort [OF validate_view_parts(1) [OF assms Some] this refl] Some show ?thesis
      unfolding filter_relations_def branch
      by (simp add: view_matches_def [symmetric] Let_def empty view_order_def del: filter_filter)
  qed
qed

lemma filter_relations_some:
  assumes "validate_view ex v = Inr ()"
  shows "filter_relations ex relations v =
      (if \<not> list_ex (view_matches ex v) relations
       then invalid ''data view selected no coordinator relations''
       else Inr (view_order v (filter (view_matches ex v) relations)))"
  using filter_relations_valid [OF assms] by (simp add: filter_empty_conv list_ex_iff)

text \<open>
  What a view selects: for a valid view the filter fails exactly when no relation matches;
  otherwise it returns exactly the matching relations, grouped in the order of the requested
  samples (or in the parent's order when none are requested) and in the parent's order within a
  sample. A match must pass the sample, source, branch, augmentation and exclusion conditions together.
\<close>

lemma filter_relations_spec:
  assumes "validate_view ex v = Inr ()"
  shows "filter_relations ex relations v =
      (if \<not> list_ex (view_matches ex v) relations
       then invalid ''data view selected no coordinator relations''
       else Inr (view_order v (filter (view_matches ex v) relations)))"
  by (rule filter_relations_some [OF assms])

lemma set_view_order:
  assumes "\<forall>r\<in>set xs. \<forall>ids. dv_sample_ids v = Some ids \<longrightarrow> cr_sample_id r \<in> set ids"
  shows "set (view_order v xs) = set xs"
  using assms by (auto simp: view_order_def split: option.split)

lemma view_matches_sample:
  "view_matches ex v r \<Longrightarrow> dv_sample_ids v = Some ids \<Longrightarrow> cr_sample_id r \<in> set ids"
  by (simp add: view_matches_def view_selects_def)

lemma mset_view_order:
  assumes "validate_view ex v = Inr ()"
  shows "mset (view_order v (filter (view_matches ex v) xs)) = mset (filter (view_matches ex v) xs)"
proof (cases "dv_sample_ids v")
  case (Some ids)
  then have "\<forall>r\<in>set (filter (view_matches ex v) xs). cr_sample_id r \<in> set ids"
    using view_matches_sample by auto
  from mset_group_all [OF validate_view_parts(1) [OF assms Some] this] Some
  show ?thesis by (simp add: view_order_def del: filter_filter)
qed (simp add: view_order_def)

end
