(* ===== verification/Axis_Coordinates.thy ===== *)
theory Axis_Coordinates
  imports Data_Error Rust_Text "HOL-Library.Product_Lexorder"
begin

text \<open>
  Axis coordinates (\<open>CoordinateSpec\<close> of \<open>model.rs\<close>): numeric, categorical and datetime sequences,
  regular grids, strict monotonicity in either direction, and the canonical UTC time stamp. The
  reading of a JSON number as an \<open>f64\<close> belongs to serde and is the parameter \<open>number_f64\<close>.
\<close>

section \<open>Data\<close>

datatype coordinate_dtype = NumericCoord | CategoricalCoord | DatetimeCoord

datatype coordinate_values = Explicit "json list" | RegularGrid f64 f64

record coordinate_spec =
  co_dtype :: coordinate_dtype
  co_ordered :: bool
  co_values :: coordinate_values

datatype rust_ordering = OrdLess | OrdEqual | OrdGreater

definition total_cmp :: "'a::linorder \<Rightarrow> 'a \<Rightarrow> rust_ordering" where
  "total_cmp x y = (if x < y then OrdLess else if x = y then OrdEqual else OrdGreater)"

definition f64_partial_cmp :: "f64 \<Rightarrow> f64 \<Rightarrow> rust_ordering option" where
  "f64_partial_cmp x y =
     (if f64_less x y then Some OrdLess else if f64_eq x y then Some OrdEqual
      else if f64_less y x then Some OrdGreater else None)"

section \<open>Operations\<close>

definition require_strictly_monotonic ::
  "('a \<Rightarrow> 'a \<Rightarrow> rust_ordering option) \<Rightarrow> 'a list \<Rightarrow> unit res"
where
  "require_strictly_monotonic compare vals =
     (if length vals < 2 then Inr ()
      else
        rbind (ok_or (compare (vals ! 1) (vals ! 0)) (Validation ''coordinates are not comparable''))
          (\<lambda>first.
             if first = OrdEqual then invalid ''coordinates must be strictly monotonic''
             else
               each_res
                 (\<lambda>(left, right).
                    rbind (ok_or (compare right left) (Validation ''coordinates are not comparable''))
                      (\<lambda>ordering.
                         if ordering \<noteq> first then invalid ''coordinates must be strictly monotonic''
                         else Inr ()))
                 (zip vals (tl vals))))"

text \<open>\<open>value[start..end].parse::<u32>()\<close> on ASCII digits.\<close>

definition digit_value :: "char \<Rightarrow> nat" where
  "digit_value c = byte_of c - 48"

definition date_field :: "string \<Rightarrow> nat \<Rightarrow> nat \<Rightarrow> nat" where
  "date_field s start stop =
     fold (\<lambda>c acc. acc * 10 + digit_value c) (take (stop - start) (drop start s)) 0"

definition is_leap_year :: "nat \<Rightarrow> bool" where
  "is_leap_year y \<longleftrightarrow> y mod 4 = 0 \<and> (y mod 100 \<noteq> 0 \<or> y mod 400 = 0)"

definition days_in_month :: "nat \<Rightarrow> nat \<Rightarrow> nat" where
  "days_in_month y m =
     (if m \<in> {1, 3, 5, 7, 8, 10, 12} then 31
      else if m \<in> {4, 6, 9, 11} then 30
      else if is_leap_year y then 29 else 28)"

definition is_rfc3339_utc_seconds :: "string \<Rightarrow> bool" where
  "is_rfc3339_utc_seconds s =
     (if length s \<noteq> 20 then False
      else if list_ex (\<lambda>i. \<not> is_ascii_digit (s ! i)) [0, 1, 2, 3, 5, 6, 8, 9, 11, 12, 14, 15, 17, 18]
      then False
      else if s ! 4 \<noteq> CHR ''-'' \<or> s ! 7 \<noteq> CHR ''-'' \<or> s ! 10 \<noteq> CHR ''T'' \<or> s ! 13 \<noteq> CHR '':'' \<or>
              s ! 16 \<noteq> CHR '':'' \<or> s ! 19 \<noteq> CHR ''Z''
      then False
      else
        (let year = date_field s 0 4; month = date_field s 5 7; day = date_field s 8 10;
             hour = date_field s 11 13; minute = date_field s 14 16; second = date_field s 17 19 in
         if \<not> (1 \<le> month \<and> month \<le> 12) \<or> 23 < hour \<or> 59 < minute \<or> 59 < second then False
         else 1 \<le> day \<and> day \<le> days_in_month year month))"

definition json_as_f64 :: "(string \<Rightarrow> f64 option) \<Rightarrow> json \<Rightarrow> f64 option" where
  "json_as_f64 number_f64 v = (case v of JNumber n \<Rightarrow> number_f64 n | _ \<Rightarrow> None)"

definition validate_explicit ::
  "(string \<Rightarrow> f64 option) \<Rightarrow> coordinate_spec \<Rightarrow> json list \<Rightarrow> unit res"
where
  "validate_explicit number_f64 c vals =
     (case co_dtype c of
        NumericCoord \<Rightarrow>
          rbind
            (map_res
               (\<lambda>v. ok_or
                  (case json_as_f64 number_f64 v of
                     None \<Rightarrow> None | Some x \<Rightarrow> if f64_is_finite x then Some x else None)
                  (Validation ''numeric coordinate is not a finite number''))
               vals)
            (\<lambda>numbers.
               if co_ordered c then require_strictly_monotonic f64_partial_cmp numbers else Inr ())
      | CategoricalCoord \<Rightarrow>
          each_fresh
            (\<lambda>v. if v = JString [] \<or> json_as_str v = None
                 then invalid ''categorical coordinate is not a non-empty string'' else Inr ())
            json_as_str (\<lambda>_. Validation ''categorical coordinate is duplicated'') (\<lambda>_. Inr ()) [] vals
      | DatetimeCoord \<Rightarrow>
          rbind
            (map_res
               (\<lambda>v. rbind (ok_or (json_as_str v) (Validation ''datetime coordinate is not a string''))
                  (\<lambda>stamp.
                     if \<not> is_rfc3339_utc_seconds stamp
                     then invalid ''datetime coordinate is not canonical'' else Inr stamp))
               vals)
            (\<lambda>stamps.
               if co_ordered c
               then require_strictly_monotonic (\<lambda>x y. Some (total_cmp x y)) stamps else Inr ()))"

definition coordinate_validate ::
  "(string \<Rightarrow> f64 option) \<Rightarrow> coordinate_spec \<Rightarrow> usize option \<Rightarrow> bool \<Rightarrow> unit res"
where
  "coordinate_validate number_f64 c axis_size variable =
     (if variable then invalid ''axis cannot carry coordinates while variable''
      else
        (case co_values c of
           Explicit vals \<Rightarrow>
             if vals = [] then invalid ''empty explicit coordinates''
             else if (case axis_size of None \<Rightarrow> False | Some n \<Rightarrow> length vals \<noteq> n)
             then invalid ''coordinate count differs from size''
             else validate_explicit number_f64 c vals
         | RegularGrid start step \<Rightarrow>
             if co_dtype c \<noteq> NumericCoord then invalid ''regular grid requires numeric dtype''
             else if axis_size = None then invalid ''regular grid requires a known axis size''
             else if \<not> f64_is_finite start \<or> \<not> f64_is_finite step
             then invalid ''regular grid start/step must be finite''
             else if f64_eq step f64_zero then invalid ''regular grid step must be non-zero''
             else if \<not> co_ordered c then invalid ''regular grid is inherently ordered''
             else Inr ()))"

section \<open>Strict monotonicity\<close>

lemma zip_tl_successively:
  "(\<forall>(x, y)\<in>set (zip xs (tl xs)). P x y) \<longleftrightarrow> successively P xs"
  by (induction xs rule: induct_list012) auto

lemma require_strictly_monotonic_ok:
  "require_strictly_monotonic compare vals = Inr () \<longleftrightarrow>
     length vals < 2 \<or>
     (\<exists>ord\<in>{OrdLess, OrdGreater}. successively (\<lambda>x y. compare y x = Some ord) vals)"
proof (cases vals rule: remdups_adj.cases)
  case (3 a b rest)
  have pairs: "each_res (\<lambda>(left, right).
        rbind (ok_or (compare right left) e)
          (\<lambda>ordering. if ordering \<noteq> first then Inl e' else Inr ())) ps = Inr () \<longleftrightarrow>
      (\<forall>(x, y)\<in>set ps. compare y x = Some first)" for e e' first ps
    by (auto simp: each_res_ok rbind_eq_Inr ok_or_eq_Inr if_Inl_eq_Inr split_beta)
  have strict: "first \<noteq> OrdEqual \<longleftrightarrow> first = OrdLess \<or> first = OrdGreater" for first
    by (cases first) simp_all
  have "require_strictly_monotonic compare vals = Inr () \<longleftrightarrow>
      (\<exists>first. compare b a = Some first \<and> first \<noteq> OrdEqual \<and>
        (\<forall>(x, y)\<in>set (zip vals (tl vals)). compare y x = Some first))"
    unfolding require_strictly_monotonic_def 3
    by (cases "compare b a") (simp_all add: pairs if_Inl_eq_Inr)
  also have "\<dots> \<longleftrightarrow> (\<exists>ord\<in>{OrdLess, OrdGreater}. successively (\<lambda>x y. compare y x = Some ord) vals)"
    unfolding zip_tl_successively 3
    by (auto simp: strict)
  finally show ?thesis by (simp add: 3)
qed (simp_all add: require_strictly_monotonic_def)

lemma monotonic_total:
  "require_strictly_monotonic (\<lambda>x y. Some (total_cmp x y)) vals = Inr () \<longleftrightarrow>
     sorted_wrt (<) vals \<or> sorted_wrt (>) vals"
proof -
  have "(\<lambda>x y. Some (total_cmp y x) = Some OrdGreater) = ((<) :: 'a \<Rightarrow> 'a \<Rightarrow> bool)"
      "(\<lambda>x y. Some (total_cmp y x) = Some OrdLess) = ((>) :: 'a \<Rightarrow> 'a \<Rightarrow> bool)"
    by (auto simp: total_cmp_def fun_eq_iff)
  moreover have "length vals < 2 \<Longrightarrow> sorted_wrt (<) vals"
    by (cases vals rule: remdups_adj.cases) auto
  ultimately show ?thesis
    by (simp add: require_strictly_monotonic_ok successively_conv_sorted_wrt) auto
qed

section \<open>Canonical time stamps\<close>

text \<open>\<open>dec w n\<close> are the last \<open>w\<close> decimal digits of \<open>n\<close>.\<close>

fun dec :: "nat \<Rightarrow> nat \<Rightarrow> string" where
  "dec 0 n = []"
| "dec (Suc w) n = dec w (n div 10) @ [char_of (48 + n mod 10)]"

definition digits_value :: "string \<Rightarrow> nat" where
  "digits_value ds = fold (\<lambda>c acc. acc * 10 + digit_value c) ds 0"

lemma digits_value_simps [simp]:
  "digits_value [] = 0"
  "digits_value (ds @ [c]) = digits_value ds * 10 + digit_value c"
  by (simp_all add: digits_value_def)

lemma length_dec [simp]: "length (dec w n) = w"
  by (induction w arbitrary: n) simp_all

lemma dec_digits: "list_all is_ascii_digit (dec w n)"
  by (induction w arbitrary: n) (simp_all add: is_ascii_digit_def byte_of_def)

lemma digit_char: "is_ascii_digit c \<Longrightarrow> digit_value c < 10 \<and> char_of (48 + digit_value c) = c"
  by (auto simp: is_ascii_digit_def digit_value_def byte_of_def)

lemma digits_value_dec: "n < 10 ^ w \<Longrightarrow> digits_value (dec w n) = n"
proof (induction w arbitrary: n)
  case (Suc w)
  have "n div 10 < 10 ^ w" using Suc.prems by (simp add: div_less_iff_less_mult mult.commute)
  then show ?case using Suc.IH by (simp add: digit_value_def byte_of_def)
qed simp

lemma dec_digits_value:
  "list_all is_ascii_digit ds \<Longrightarrow> dec (length ds) (digits_value ds) = ds \<and> digits_value ds < 10 ^ length ds"
proof (induction ds rule: rev_induct)
  case (snoc c ds)
  then have "digit_value c < 10" "char_of (48 + digit_value c) = c" using digit_char by simp_all
  with snoc show ?case by simp
qed simp

text \<open>A moment of the proleptic calendar with a four-digit year, and its canonical text.\<close>

type_synonym moment = "nat \<times> nat \<times> nat \<times> nat \<times> nat \<times> nat"

fun valid_moment :: "moment \<Rightarrow> bool" where
  "valid_moment (y, mo, d, h, mi, s) \<longleftrightarrow>
     y < 10000 \<and> 1 \<le> mo \<and> mo \<le> 12 \<and> 1 \<le> d \<and> d \<le> days_in_month y mo \<and> h < 24 \<and> mi < 60 \<and> s < 60"

fun stamp :: "moment \<Rightarrow> string" where
  "stamp (y, mo, d, h, mi, s) =
     dec 4 y @ CHR ''-'' # dec 2 mo @ CHR ''-'' # dec 2 d @ CHR ''T'' # dec 2 h @ CHR '':'' #
     dec 2 mi @ CHR '':'' # dec 2 s @ [CHR ''Z'']"

lemma date_field_digits: "date_field s start stop = digits_value (take (stop - start) (drop start s))"
  by (simp add: date_field_def digits_value_def)

lemma days_in_month_bound: "days_in_month y m \<le> 31"
  by (simp add: days_in_month_def)

lemma dec_nth_digit: "i < w \<Longrightarrow> is_ascii_digit (dec w n ! i)"
  using dec_digits [of w n] by (simp add: list_all_length)

lemma stamp_accepted:
  assumes "valid_moment t"
  shows "is_rfc3339_utc_seconds (stamp t)"
proof -
  obtain y mo d h mi s where t: "t = (y, mo, d, h, mi, s)" by (cases t) auto
  have v: "y < 10 ^ 4" "1 \<le> mo" "mo \<le> 12" "1 \<le> d" "d \<le> days_in_month y mo" "h < 24" "mi < 60" "s < 60"
    using assms by (simp_all add: t)
  then have "mo < 10 ^ 2" "d < 10 ^ 2" "h < 10 ^ 2" "mi < 10 ^ 2" "s < 10 ^ 2"
    using days_in_month_bound [of y mo] by simp_all
  then show ?thesis
    using v
    by (simp add: t is_rfc3339_utc_seconds_def date_field_digits nth_append nth_Cons' dec_nth_digit
        digits_value_dec Let_def)
qed

lemma slices_of_stamp:
  assumes "length s = 20"
  shows "s = take 4 s @ s ! 4 # take 2 (drop 5 s) @ s ! 7 # take 2 (drop 8 s) @ s ! 10 #
    take 2 (drop 11 s) @ s ! 13 # take 2 (drop 14 s) @ s ! 16 # take 2 (drop 17 s) @ [s ! 19]"
proof (rule nth_equalityI)
  fix i assume "i < length s"
  then have "i < 20" using assms by simp
  then have "i \<in> set [0..<20]" by simp
  then show "s ! i = (take 4 s @ s ! 4 # take 2 (drop 5 s) @ s ! 7 # take 2 (drop 8 s) @ s ! 10 #
    take 2 (drop 11 s) @ s ! 13 # take 2 (drop 14 s) @ s ! 16 # take 2 (drop 17 s) @ [s ! 19]) ! i"
    using assms by (simp add: upt_rec nth_append nth_Cons') (auto simp: numeral_eq_Suc)
qed (simp add: assms)

lemma digits_slice:
  assumes "length s = 20" and "\<forall>i. start \<le> i \<longrightarrow> i < start + n \<longrightarrow> is_ascii_digit (s ! i)" and "start + n \<le> 20"
  shows "dec n (digits_value (take n (drop start s))) = take n (drop start s)"
    and "digits_value (take n (drop start s)) < 10 ^ n"
proof -
  have "list_all is_ascii_digit (take n (drop start s))" "length (take n (drop start s)) = n"
    using assms by (auto simp: list_all_length)
  from dec_digits_value [OF this(1)] this(2)
  show "dec n (digits_value (take n (drop start s))) = take n (drop start s)"
    and "digits_value (take n (drop start s)) < 10 ^ n"
    by simp_all
qed

lemma accepted_stamp:
  assumes "is_rfc3339_utc_seconds s"
  shows "\<exists>t. valid_moment t \<and> s = stamp t"
proof -
  have len: "length s = 20" using assms by (simp add: is_rfc3339_utc_seconds_def split: if_splits)
  have digits: "\<forall>i\<in>{0, 1, 2, 3, 5, 6, 8, 9, 11, 12, 14, 15, 17, 18}. is_ascii_digit (s ! i)"
    and marks: "s ! 4 = CHR ''-''" "s ! 7 = CHR ''-''" "s ! 10 = CHR ''T''" "s ! 13 = CHR '':''"
      "s ! 16 = CHR '':''" "s ! 19 = CHR ''Z''"
    using assms by (simp_all add: is_rfc3339_utc_seconds_def split: if_splits)
  define f where "f = (\<lambda>start n. digits_value (take n (drop start s)))"
  let ?t = "(f 0 4, f 5 2, f 8 2, f 11 2, f 14 2, f 17 2)"
  have digit: "is_ascii_digit (s ! i)" if "i \<notin> {4, 7, 10, 13, 16}" "i < 19" for i
  proof -
    have "i \<in> {0, 1, 2, 3, 5, 6, 8, 9, 11, 12, 14, 15, 17, 18}"
      using that unfolding insert_iff empty_iff by presburger
    then show ?thesis using digits by blast
  qed
  have two: "dec 2 (f i 2) = take 2 (drop i s)" if "i \<in> {5, 8, 11, 14, 17}" for i
    unfolding f_def using that by (intro digits_slice [OF len]) (auto intro!: digit)
  have four: "dec 4 (f 0 4) = take 4 s" "f 0 4 < 10 ^ 4"
    unfolding f_def using digits_slice [OF len, of 0 4] by (auto simp: digit)
  have "valid_moment ?t"
    using assms four(2) by (simp add: is_rfc3339_utc_seconds_def date_field_digits f_def Let_def split: if_splits)
  moreover have "s = stamp ?t"
    using slices_of_stamp [OF len] by (simp add: two four marks)
  ultimately show ?thesis by blast
qed

lemma rfc3339_iff: "is_rfc3339_utc_seconds s \<longleftrightarrow> (\<exists>t. valid_moment t \<and> s = stamp t)"
  using accepted_stamp stamp_accepted by blast

subsection \<open>Order of time stamps\<close>

lemma less_append_same_length:
  fixes xs ys as bs :: "'a::linorder list"
  shows "length xs = length ys \<Longrightarrow> xs @ as < ys @ bs \<longleftrightarrow> xs < ys \<or> xs = ys \<and> as < bs"
  by (induction xs ys rule: list_induct2) auto

lemma less_digit_char:
  "m < 10 \<Longrightarrow> n < 10 \<Longrightarrow> [char_of (48 + m)] < [char_of (48 + n) :: char] \<longleftrightarrow> m < n" for m n :: nat
  by (simp add: less_char_def)

lemma less_append_dec:
  "dec w m @ as < dec w n @ bs \<longleftrightarrow> dec w m < dec w n \<or> dec w m = dec w n \<and> as < bs"
  by (rule less_append_same_length) simp

lemma dec_eq: "m < 10 ^ w \<Longrightarrow> n < 10 ^ w \<Longrightarrow> dec w m = dec w n \<longleftrightarrow> m = n"
  by (metis digits_value_dec)

lemma digit_order:
  "p < 10 \<Longrightarrow> q < 10 \<Longrightarrow> a * 10 + p < b * 10 + q \<longleftrightarrow> a < b \<or> a = b \<and> p < q" for a b p q :: nat
  by linarith

lemma dec_less: "m < 10 ^ w \<Longrightarrow> n < 10 ^ w \<Longrightarrow> dec w m < dec w n \<longleftrightarrow> m < n"
proof (induction w arbitrary: m n)
  case (Suc w)
  have div: "m div 10 < 10 ^ w" "n div 10 < 10 ^ w"
    using Suc.prems by (simp_all add: div_less_iff_less_mult mult.commute)
  have "[char_of (48 + m mod 10)] < [char_of (48 + n mod 10) :: char] \<longleftrightarrow> m mod 10 < n mod 10"
    by (rule less_digit_char) simp_all
  moreover have "m < n \<longleftrightarrow> m div 10 < n div 10 \<or> m div 10 = n div 10 \<and> m mod 10 < n mod 10"
    using digit_order [of "m mod 10" "n mod 10" "m div 10" "n div 10"] by simp
  ultimately show ?case
    unfolding dec.simps less_append_dec Suc.IH [OF div] dec_eq [OF div] by argo
qed simp

lemma stamp_less:
  assumes "valid_moment t" and "valid_moment t'"
  shows "stamp t < stamp t' \<longleftrightarrow> t < t'"
proof -
  obtain y mo d h mi s where t: "t = (y, mo, d, h, mi, s)" by (cases t) auto
  obtain y' mo' d' h' mi' s' where t': "t' = (y', mo', d', h', mi', s')" by (cases t') auto
  have b: "y < 10 ^ 4" "mo < 10 ^ 2" "d < 10 ^ 2" "h < 10 ^ 2" "mi < 10 ^ 2" "s < 10 ^ 2"
    using assms(1) days_in_month_bound [of y mo] by (simp_all add: t)
  have b': "y' < 10 ^ 4" "mo' < 10 ^ 2" "d' < 10 ^ 2" "h' < 10 ^ 2" "mi' < 10 ^ 2" "s' < 10 ^ 2"
    using assms(2) days_in_month_bound [of y' mo'] by (simp_all add: t')
  have cons: "c # xs < c # ys \<longleftrightarrow> xs < ys" "xs < xs \<longleftrightarrow> False" for c :: char and xs ys by simp_all
  note less = dec_less [OF b(1) b'(1)] dec_eq [OF b(1) b'(1)] dec_less [OF b(2) b'(2)] dec_eq [OF b(2) b'(2)]
    dec_less [OF b(3) b'(3)] dec_eq [OF b(3) b'(3)] dec_less [OF b(4) b'(4)] dec_eq [OF b(4) b'(4)]
    dec_less [OF b(5) b'(5)] dec_eq [OF b(5) b'(5)] dec_less [OF b(6) b'(6)] dec_eq [OF b(6) b'(6)]
  show ?thesis
    unfolding t t' stamp.simps less_append_dec cons less less_prod_simp le_less by argo
qed

lemma stamp_eq:
  assumes "valid_moment t" and "valid_moment t'"
  shows "stamp t = stamp t' \<longleftrightarrow> t = t'"
  using stamp_less [OF assms] stamp_less [OF assms(2,1)] by (metis less_irrefl linorder_neqE)

text \<open>
  A canonical time stamp is exactly the text of a moment of the calendar (leap years included), the
  moment is determined by its text, and the byte order of two stamps is their chronological order,
  as the comparison of ordered datetime coordinates relies on.
\<close>

lemma timestamp_canonical:
  "(is_rfc3339_utc_seconds s \<longleftrightarrow> (\<exists>t. valid_moment t \<and> s = stamp t)) \<and>
   (\<forall>t t'. valid_moment t \<longrightarrow> valid_moment t' \<longrightarrow>
      (stamp t < stamp t' \<longleftrightarrow> t < t') \<and> (stamp t = stamp t' \<longleftrightarrow> t = t'))"
  using rfc3339_iff stamp_less stamp_eq by blast

lemma timestamp_canonical_witness:
  "is_rfc3339_utc_seconds (stamp (2024, 2, 29, 23, 59, 59)) \<and>
   stamp (2024, 2, 29, 23, 59, 59) < stamp (2024, 3, 1, 0, 0, 0)"
proof -
  have "valid_moment (2024, 2, 29, 23, 59, 59)" "valid_moment (2024, 3, 1, 0, 0, 0)"
    by (simp_all add: days_in_month_def is_leap_year_def)
  moreover have "(2024, 2, 29, 23, 59, 59) < ((2024, 3, 1, 0, 0, 0) :: moment)" by simp
  ultimately show ?thesis using timestamp_canonical by blast
qed

section \<open>Ordered datetime axes\<close>

lemma sorted_wrt_map_mono:
  "(\<And>x y. x \<in> set xs \<Longrightarrow> y \<in> set xs \<Longrightarrow> Q (f x) (f y) \<longleftrightarrow> P x y) \<Longrightarrow>
     sorted_wrt Q (map f xs) \<longleftrightarrow> sorted_wrt P xs"
  unfolding sorted_wrt_map by (intro iffI) (auto elim: sorted_wrt_mono_rel [rotated])

lemma ex_map_iff: "(\<forall>y\<in>set ys. \<exists>x. P x \<and> y = f x) \<longleftrightarrow> (\<exists>xs. list_all P xs \<and> ys = map f xs)"
proof
  show "\<forall>y\<in>set ys. \<exists>x. P x \<and> y = f x \<Longrightarrow> \<exists>xs. list_all P xs \<and> ys = map f xs"
  proof (induction ys)
    case (Cons y ys)
    then obtain x xs where "P x" "y = f x" "list_all P xs" "ys = map f xs" by auto
    then show ?case by (intro exI [of _ "x # xs"]) simp
  qed simp
qed (force simp: list_all_iff)

lemma list_all2_JString:
  "list_all2 (\<lambda>v s. v = JString s \<and> Q s) vals stamps \<longleftrightarrow>
     vals = map JString stamps \<and> (\<forall>s\<in>set stamps. Q s)"
  by (induction stamps arbitrary: vals) (auto simp: list_all2_Cons2 Cons_eq_map_conv)

lemma stamps_of_values:
  "map_res (\<lambda>v. rbind (ok_or (json_as_str v) e)
       (\<lambda>s. if \<not> is_rfc3339_utc_seconds s then Inl e' else Inr s)) vals = Inr stamps \<longleftrightarrow>
     (\<exists>ts. list_all valid_moment ts \<and> stamps = map stamp ts \<and> vals = map (JString \<circ> stamp) ts)"
proof -
  have "rbind (ok_or (json_as_str v) e)
      (\<lambda>s. if \<not> is_rfc3339_utc_seconds s then Inl e' else Inr s) = Inr s \<longleftrightarrow>
      v = JString s \<and> (\<exists>t. valid_moment t \<and> s = stamp t)" for v s
    unfolding rfc3339_iff [symmetric]
    by (auto simp: rbind_eq_Inr ok_or_eq_Inr if_Inl_eq_Inr json_as_str_Some)
  then show ?thesis
    unfolding map_res_eq_Inr by (auto simp: list_all2_JString ex_map_iff simp del: split_paired_Ex)
qed

text \<open>
  The coordinates of an ordered datetime axis are accepted exactly when they are the canonical
  texts of moments that run strictly forwards or strictly backwards, one for each index of a
  sized axis.
\<close>

lemma ordered_datetime_axis_iff:
  "coordinate_validate number_f64
     \<lparr>co_dtype = DatetimeCoord, co_ordered = True, co_values = Explicit vals\<rparr> axis_size variable = Inr () \<longleftrightarrow>
   \<not> variable \<and> vals \<noteq> [] \<and> axis_size \<in> {None, Some (length vals)} \<and>
   (\<exists>ts. list_all valid_moment ts \<and> vals = map (JString \<circ> stamp) ts \<and>
      (sorted_wrt (<) ts \<or> sorted_wrt (>) ts))"
proof -
  have order: "sorted_wrt (<) (map stamp ts) \<longleftrightarrow> sorted_wrt (<) ts"
      "sorted_wrt (>) (map stamp ts) \<longleftrightarrow> sorted_wrt (>) ts" if "list_all valid_moment ts" for ts
    by (rule sorted_wrt_map_mono, use that stamp_less in \<open>unfold list_all_iff, blast\<close>)+
  show ?thesis
    unfolding coordinate_validate_def validate_explicit_def
    by (cases axis_size) (auto simp: if_Inl_eq_Inr rbind_eq_Inr stamps_of_values monotonic_total order
          simp del: split_paired_Ex)
qed

end
