(* ===== verification/Schema_Model.thy ===== *)
theory Schema_Model
  imports Axis_Coordinates
begin

text \<open>
  Dataset schemas (\<open>model.rs\<close>): axes, shape contracts, representations, sources, metadata fields,
  groups, folds and the dataset schema itself, each with its validator, and the signal type match.
\<close>

section \<open>Axes\<close>

datatype axis_kind =
    AxisSample | AxisFeature | AxisProcessing | AxisTime | AxisHeight | AxisWidth | AxisChannel
  | AxisNode | AxisEdge | AxisVariant | AxisToken | AxisTarget | AxisWavelength | AxisWavenumber
  | AxisFrequency | AxisDepth

record axis_spec =
  ax_name :: string
  ax_kind :: axis_kind
  ax_unit :: "string option"
  ax_size :: "usize option"
  ax_variable :: bool
  ax_coordinate :: "coordinate_spec option"

definition axis_validate :: "(string \<Rightarrow> f64 option) \<Rightarrow> axis_spec \<Rightarrow> unit res" where
  "axis_validate number_f64 x =
     (if is_blank (ax_name x) then invalid ''axis name is empty''
      else if ax_variable x \<and> ax_size x \<noteq> None then invalid ''axis cannot be both variable and sized''
      else if (case ax_unit x of None \<Rightarrow> False | Some u \<Rightarrow> is_blank u)
      then invalid ''axis has an empty unit''
      else
        (case ax_coordinate x of
           None \<Rightarrow> Inr ()
         | Some c \<Rightarrow> coordinate_validate number_f64 c (ax_size x) (ax_variable x)))"

section \<open>Signal types\<close>

datatype signal_kind =
  Absorbance | Reflectance | Transmittance | LogReflectance | Preprocessed | UnknownSignal

definition signal_name :: "signal_kind \<Rightarrow> string" where
  "signal_name k =
     (case k of
        Absorbance \<Rightarrow> ''absorbance'' | Reflectance \<Rightarrow> ''reflectance''
      | Transmittance \<Rightarrow> ''transmittance'' | LogReflectance \<Rightarrow> ''log_reflectance''
      | Preprocessed \<Rightarrow> ''preprocessed'' | UnknownSignal \<Rightarrow> ''unknown'')"

definition require_signal_type_match :: "signal_kind \<Rightarrow> signal_kind \<Rightarrow> bool \<Rightarrow> unit res" where
  "require_signal_type_match expected actual allow_unknown =
     (if expected = UnknownSignal \<or> actual = UnknownSignal
      then (if allow_unknown then Inr ()
            else Inl (SignalTypeMismatch (signal_name expected) (signal_name actual)))
      else if expected = actual then Inr ()
      else Inl (SignalTypeMismatch (signal_name expected) (signal_name actual)))"

section \<open>Shape contracts\<close>

record axis_size_contract =
  ac_exact :: "usize option"
  ac_min :: "usize option"
  ac_max :: "usize option"

definition size_contract_validate :: "axis_size_contract \<Rightarrow> unit res" where
  "size_contract_validate c =
     (if ac_exact c = None \<and> ac_min c = None \<and> ac_max c = None
      then invalid ''shape contract does not constrain the size''
      else if (case (ac_min c, ac_max c) of (Some lo, Some hi) \<Rightarrow> hi < lo | _ \<Rightarrow> False)
      then invalid ''shape contract has min greater than max''
      else
        (case ac_exact c of
           None \<Rightarrow> Inr ()
         | Some exact \<Rightarrow>
             if (case ac_min c of None \<Rightarrow> False | Some lo \<Rightarrow> exact < lo)
             then invalid ''shape contract exact size is below min''
             else if (case ac_max c of None \<Rightarrow> False | Some hi \<Rightarrow> hi < exact)
             then invalid ''shape contract exact size is above max''
             else Inr ()))"

definition contract_accepts :: "axis_size_contract \<Rightarrow> usize \<Rightarrow> bool" where
  "contract_accepts c n =
     (if (case ac_exact c of None \<Rightarrow> False | Some exact \<Rightarrow> n \<noteq> exact) then False
      else if (case ac_min c of None \<Rightarrow> False | Some lo \<Rightarrow> n < lo) then False
      else if (case ac_max c of None \<Rightarrow> False | Some hi \<Rightarrow> hi < n) then False
      else True)"

record shape_contract =
  sc_rank :: "usize option"
  sc_axis_sizes :: "(string, axis_size_contract) btree_map"
  sc_allow_ragged :: bool

definition shape_contract_validate :: "shape_contract \<Rightarrow> unit res" where
  "shape_contract_validate c =
     (if sc_rank c = None \<and> sc_axis_sizes c = []
      then invalid ''shape contract must constrain rank or at least one axis''
      else
        each_res
          (\<lambda>(axis_name, contract).
             if is_blank axis_name then invalid ''shape contract contains an empty axis name''
             else size_contract_validate contract)
          (sc_axis_sizes c))"

section \<open>Representations and sources\<close>

record representation_spec =
  rp_id :: representation_id
  rp_type_id :: type_id
  rp_rank :: "usize option"
  rp_axes :: "axis_spec list"
  rp_container :: string
  rp_dtype :: "string option"
  rp_sparse :: bool
  rp_ragged :: bool
  rp_signal_type :: "signal_kind option"

definition representation_validate ::
  "(string \<Rightarrow> f64 option) \<Rightarrow> representation_spec \<Rightarrow> unit res"
where
  "representation_validate number_f64 r =
     (if is_blank (rp_container r) then invalid ''representation has an empty container''
      else if rp_rank r = None \<and> \<not> rp_ragged r
      then invalid ''representation with no rank must be ragged''
      else if (case rp_rank r of None \<Rightarrow> False | Some rank \<Rightarrow> length (rp_axes r) \<noteq> rank)
      then invalid ''representation rank differs from its axes''
      else
        rseq (each_res (axis_validate number_f64) (rp_axes r))
          (if rp_container r \<noteq> ''graph_batch'' \<and>
              \<not> list_ex (\<lambda>x. ax_kind x = AxisSample) (rp_axes r)
           then invalid ''representation has no sample axis'' else Inr ()))"

text \<open>The body of the loop over the axes a contract names.\<close>

definition require_axis_within :: "representation_spec \<Rightarrow> string \<times> axis_size_contract \<Rightarrow> unit res" where
  "require_axis_within r =
     (\<lambda>(axis_name, contract).
        rbind
          (ok_or (List.find (\<lambda>x. ax_name x = axis_name) (rp_axes r))
             (Validation ''shape contract references missing axis''))
          (\<lambda>axis.
             case ax_size axis of
               Some n \<Rightarrow>
                 if \<not> contract_accepts contract n
                 then invalid ''axis size violates shape contract'' else Inr ()
             | None \<Rightarrow>
                 if \<not> ax_variable axis
                 then invalid ''axis has no concrete size for shape contract'' else Inr ()))"

definition validate_representation :: "shape_contract \<Rightarrow> representation_spec \<Rightarrow> unit res" where
  "validate_representation c r =
     rseq (shape_contract_validate c)
       (if (case sc_rank c of None \<Rightarrow> False | Some expected \<Rightarrow> rp_rank r \<noteq> Some expected)
        then invalid ''shape contract expects another rank''
        else if rp_ragged r \<and> \<not> sc_allow_ragged c
        then invalid ''shape contract does not allow ragged representation''
        else each_res (require_axis_within r) (sc_axis_sizes c))"

datatype source_granularity =
    PerSample | PerSampleRepeated | PerSampleSequence | PerSampleSet | PerGroup | PerTarget

record source_descriptor =
  sd_id :: source_id
  sd_name :: string
  sd_type_id :: type_id
  sd_modality :: string
  sd_native_representation :: representation_spec
  sd_sample_key :: string
  sd_granularity :: source_granularity
  sd_schema :: metadata
  sd_tags :: metadata
  sd_shape_contract :: "shape_contract option"

definition source_validate :: "(string \<Rightarrow> f64 option) \<Rightarrow> source_descriptor \<Rightarrow> unit res" where
  "source_validate number_f64 s =
     (if is_blank (sd_name s) then invalid ''source has an empty name''
      else if is_blank (sd_sample_key s) then invalid ''source has an empty sample key''
      else
        rseq (representation_validate number_f64 (sd_native_representation s))
          (case sd_shape_contract s of
             None \<Rightarrow> Inr ()
           | Some c \<Rightarrow> validate_representation c (sd_native_representation s)))"

section \<open>Metadata, groups and folds\<close>

datatype metadata_value_kind =
    MetaString | MetaNumber | MetaInteger | MetaBoolean | MetaDate | MetaDatetime
  | MetaCategorical | MetaJson

record metadata_field_spec =
  mf_kind :: metadata_value_kind
  mf_required :: bool
  mf_unit :: "string option"
  mf_allowed_values :: "json list"
  mf_description :: "string option"

definition metadata_field_validate :: "metadata_field_spec \<Rightarrow> unit res" where
  "metadata_field_validate f =
     (if mf_kind f = MetaCategorical \<and> mf_allowed_values f = []
      then invalid ''categorical metadata field declares no allowed_values''
      else if (case mf_unit f of None \<Rightarrow> False | Some u \<Rightarrow> is_blank u)
      then invalid ''metadata field has an empty unit'' else Inr ())"

record metadata_schema =
  ms_fields :: "(string, metadata_field_spec) btree_map"

definition metadata_schema_validate :: "metadata_schema \<Rightarrow> unit res" where
  "metadata_schema_validate m =
     (if ms_fields m = [] then invalid ''metadata schema declares no fields''
      else
        each_res
          (\<lambda>(field_name, field).
             if is_blank field_name then invalid ''metadata schema contains an empty field name''
             else metadata_field_validate field)
          (ms_fields m))"

datatype group_kind = RepetitionGroup | SubjectGroup | BatchGroup | SplitGroup | CustomGroup

record group_spec =
  gs_id :: group_id
  gs_kind :: group_kind
  gs_column :: string
  gs_source_id :: "source_id option"
  gs_strict :: bool
  gs_metadata :: metadata

definition group_validate :: "group_spec \<Rightarrow> unit res" where
  "group_validate g =
     (if is_blank (gs_column g) then invalid ''group has an empty column''
      else
        each_res (\<lambda>key. if is_blank key then invalid ''group metadata contains an empty key'' else Inr ())
          (bt_keys (gs_metadata g)))"

record fold_spec =
  fo_id :: string
  fo_group_id :: "group_id option"
  fo_split_column :: "string option"
  fo_metadata :: metadata

definition fold_validate :: "fold_spec \<Rightarrow> unit res" where
  "fold_validate f =
     (if is_blank (fo_id f) then invalid ''fold id is empty''
      else if fo_group_id f = None \<and> fo_split_column f = None
      then invalid ''fold declares neither group_id nor split_column''
      else if (case fo_split_column f of None \<Rightarrow> False | Some c \<Rightarrow> is_blank c)
      then invalid ''fold has an empty split_column''
      else
        each_res (\<lambda>key. if is_blank key then invalid ''fold metadata contains an empty key'' else Inr ())
          (bt_keys (fo_metadata f)))"

section \<open>Dataset schemas\<close>

record dataset_schema =
  ds_dataset_id :: string
  ds_sample_ids :: "sample_id list"
  ds_sources :: "source_descriptor list"
  ds_targets :: "(target_id, representation_spec) btree_map"
  ds_metadata :: "(string, representation_spec) btree_map"
  ds_metadata_schema :: "metadata_schema option"
  ds_groups :: "group_spec list"
  ds_folds :: "fold_spec list"

definition dataset_schema_validate :: "(string \<Rightarrow> f64 option) \<Rightarrow> dataset_schema \<Rightarrow> unit res" where
  "dataset_schema_validate number_f64 d =
     (let source_ids = map sd_id (ds_sources d); group_ids = map gs_id (ds_groups d) in
      if is_blank (ds_dataset_id d) then invalid ''dataset id must not be empty''
      else if ds_sample_ids d = [] then invalid ''dataset schema must contain at least one sample''
      else if length (bset_of (ds_sample_ids d)) \<noteq> length (ds_sample_ids d)
      then invalid ''dataset schema contains duplicate sample ids''
      else
        rseq
          (each_fresh (\<lambda>_. Inr ()) sd_id (\<lambda>_. Validation ''duplicate source id'')
             (source_validate number_f64) [] (ds_sources d))
       (rseq (each_res (representation_validate number_f64) (bt_values (ds_targets d)))
       (rseq (each_res (representation_validate number_f64) (bt_values (ds_metadata d)))
       (rseq
          (case ds_metadata_schema d of None \<Rightarrow> Inr () | Some m \<Rightarrow> metadata_schema_validate m)
       (rseq
          (each_fresh (\<lambda>_. Inr ()) gs_id (\<lambda>_. Validation ''duplicate group id'')
             (\<lambda>g.
                rseq
                  (case gs_source_id g of
                     None \<Rightarrow> Inr ()
                   | Some s \<Rightarrow>
                       if s \<notin> set source_ids then invalid ''group references unknown source''
                       else Inr ())
                  (group_validate g))
             [] (ds_groups d))
          (each_fresh (\<lambda>_. Inr ()) fo_id (\<lambda>_. Validation ''duplicate fold id'')
             (\<lambda>f.
                rseq
                  (case fo_group_id f of
                     None \<Rightarrow> Inr ()
                   | Some g \<Rightarrow>
                       if g \<notin> set group_ids then invalid ''fold references unknown group''
                       else Inr ())
                  (fold_validate f))
             [] (ds_folds d)))))))"

section \<open>What a valid schema is\<close>

definition axis_ok :: "(string \<Rightarrow> f64 option) \<Rightarrow> axis_spec \<Rightarrow> bool" where
  "axis_ok number_f64 x \<longleftrightarrow>
     \<not> is_blank (ax_name x) \<and> (ax_variable x \<longrightarrow> ax_size x = None) \<and>
     (\<forall>u. ax_unit x = Some u \<longrightarrow> \<not> is_blank u) \<and>
     (\<forall>c. ax_coordinate x = Some c \<longrightarrow>
        coordinate_validate number_f64 c (ax_size x) (ax_variable x) = Inr ())"

text \<open>A size contract names a bound and some size satisfies it.\<close>

definition size_contract_ok :: "axis_size_contract \<Rightarrow> bool" where
  "size_contract_ok c \<longleftrightarrow>
     \<not> (ac_exact c = None \<and> ac_min c = None \<and> ac_max c = None) \<and> (\<exists>n. contract_accepts c n)"

definition representation_ok :: "(string \<Rightarrow> f64 option) \<Rightarrow> representation_spec \<Rightarrow> bool" where
  "representation_ok number_f64 r \<longleftrightarrow>
     \<not> is_blank (rp_container r) \<and>
     (rp_rank r = Some (length (rp_axes r)) \<or> rp_rank r = None \<and> rp_ragged r) \<and>
     (\<forall>x\<in>set (rp_axes r). axis_ok number_f64 x) \<and>
     (rp_container r = ''graph_batch'' \<or> (\<exists>x\<in>set (rp_axes r). ax_kind x = AxisSample))"

text \<open>The axis a contract speaks of is the first one of that name; its size, when known, is accepted.\<close>

definition within_contract :: "shape_contract \<Rightarrow> representation_spec \<Rightarrow> bool" where
  "within_contract c r \<longleftrightarrow>
     (sc_rank c = None \<or> sc_rank c = rp_rank r) \<and> (rp_ragged r \<longrightarrow> sc_allow_ragged c) \<and>
     (\<forall>(name, k)\<in>set (sc_axis_sizes c). \<exists>x. List.find (\<lambda>x. ax_name x = name) (rp_axes r) = Some x \<and>
        (case ax_size x of Some n \<Rightarrow> contract_accepts k n | None \<Rightarrow> ax_variable x))"

definition shape_contract_ok :: "shape_contract \<Rightarrow> bool" where
  "shape_contract_ok c \<longleftrightarrow>
     (sc_rank c \<noteq> None \<or> sc_axis_sizes c \<noteq> []) \<and>
     (\<forall>(name, k)\<in>set (sc_axis_sizes c). \<not> is_blank name \<and> size_contract_ok k)"

definition source_ok :: "(string \<Rightarrow> f64 option) \<Rightarrow> source_descriptor \<Rightarrow> bool" where
  "source_ok number_f64 s \<longleftrightarrow>
     \<not> is_blank (sd_name s) \<and> \<not> is_blank (sd_sample_key s) \<and>
     representation_ok number_f64 (sd_native_representation s) \<and>
     (\<forall>c. sd_shape_contract s = Some c \<longrightarrow>
        shape_contract_ok c \<and> within_contract c (sd_native_representation s))"

definition metadata_field_ok :: "metadata_field_spec \<Rightarrow> bool" where
  "metadata_field_ok f \<longleftrightarrow>
     (mf_kind f = MetaCategorical \<longrightarrow> mf_allowed_values f \<noteq> []) \<and>
     (\<forall>u. mf_unit f = Some u \<longrightarrow> \<not> is_blank u)"

definition group_ok :: "group_spec \<Rightarrow> bool" where
  "group_ok g \<longleftrightarrow> \<not> is_blank (gs_column g) \<and> (\<forall>k\<in>fst ` set (gs_metadata g). \<not> is_blank k)"

definition fold_spec_ok :: "fold_spec \<Rightarrow> bool" where
  "fold_spec_ok f \<longleftrightarrow>
     \<not> is_blank (fo_id f) \<and> (fo_group_id f \<noteq> None \<or> fo_split_column f \<noteq> None) \<and>
     (\<forall>c. fo_split_column f = Some c \<longrightarrow> \<not> is_blank c) \<and> (\<forall>k\<in>fst ` set (fo_metadata f). \<not> is_blank k)"

definition schema_ok :: "(string \<Rightarrow> f64 option) \<Rightarrow> dataset_schema \<Rightarrow> bool" where
  "schema_ok number_f64 d \<longleftrightarrow>
     \<not> is_blank (ds_dataset_id d) \<and> ds_sample_ids d \<noteq> [] \<and> distinct (ds_sample_ids d) \<and>
     distinct (map sd_id (ds_sources d)) \<and> (\<forall>s\<in>set (ds_sources d). source_ok number_f64 s) \<and>
     (\<forall>r\<in>snd ` set (ds_targets d) \<union> snd ` set (ds_metadata d). representation_ok number_f64 r) \<and>
     (\<forall>m. ds_metadata_schema d = Some m \<longrightarrow> ms_fields m \<noteq> [] \<and>
        (\<forall>(name, f)\<in>set (ms_fields m). \<not> is_blank name \<and> metadata_field_ok f)) \<and>
     distinct (map gs_id (ds_groups d)) \<and> (\<forall>g\<in>set (ds_groups d). group_ok g \<and>
        set_option (gs_source_id g) \<subseteq> sd_id ` set (ds_sources d)) \<and>
     distinct (map fo_id (ds_folds d)) \<and> (\<forall>f\<in>set (ds_folds d). fold_spec_ok f \<and>
        set_option (fo_group_id f) \<subseteq> gs_id ` set (ds_groups d))"

lemma contract_accepts_iff:
  "contract_accepts c n \<longleftrightarrow>
     (\<forall>e. ac_exact c = Some e \<longrightarrow> n = e) \<and> (\<forall>lo. ac_min c = Some lo \<longrightarrow> lo \<le> n) \<and>
     (\<forall>hi. ac_max c = Some hi \<longrightarrow> n \<le> hi)"
  by (auto simp: contract_accepts_def split: option.splits)

lemma size_contract_validate_ok: "size_contract_validate c = Inr () \<longleftrightarrow> size_contract_ok c"
proof -
  have "(\<exists>n. lo \<le> n \<and> n \<le> hi) \<longleftrightarrow> lo \<le> hi" for lo hi :: nat by (auto intro: order_trans)
  then show ?thesis
    unfolding size_contract_validate_def size_contract_ok_def contract_accepts_iff
    by (cases "ac_exact c"; cases "ac_min c"; cases "ac_max c") auto
qed

lemma axis_validate_ok: "axis_validate nf x = Inr () \<longleftrightarrow> axis_ok nf x"
  by (auto simp: axis_validate_def axis_ok_def res_simps split: option.splits)

lemma shape_contract_validate_ok: "shape_contract_validate c = Inr () \<longleftrightarrow> shape_contract_ok c"
  unfolding shape_contract_validate_def shape_contract_ok_def
  by (auto simp: res_simps size_contract_validate_ok split: prod.splits)

lemma representation_validate_ok: "representation_validate nf r = Inr () \<longleftrightarrow> representation_ok nf r"
  unfolding representation_validate_def representation_ok_def
  by (auto simp: res_simps axis_validate_ok list_ex_iff split: option.splits)

lemma require_axis_within_ok:
  "require_axis_within r (name, k) = Inr () \<longleftrightarrow>
     (\<exists>x. List.find (\<lambda>x. ax_name x = name) (rp_axes r) = Some x \<and>
        (case ax_size x of Some n \<Rightarrow> contract_accepts k n | None \<Rightarrow> ax_variable x))"
  by (cases "List.find (\<lambda>x. ax_name x = name) (rp_axes r)")
    (auto simp: require_axis_within_def res_simps split: option.splits)

lemma validate_representation_ok:
  "validate_representation c r = Inr () \<longleftrightarrow> shape_contract_ok c \<and> within_contract c r"
  unfolding validate_representation_def within_contract_def require_axis_within_ok [symmetric]
  by (cases "sc_rank c") (auto simp: res_simps shape_contract_validate_ok)

lemma source_validate_ok: "source_validate nf s = Inr () \<longleftrightarrow> source_ok nf s"
  unfolding source_validate_def source_ok_def
  by (auto simp: res_simps representation_validate_ok validate_representation_ok split: option.splits)

lemma metadata_field_validate_ok: "metadata_field_validate f = Inr () \<longleftrightarrow> metadata_field_ok f"
  unfolding metadata_field_validate_def metadata_field_ok_def
  by (auto simp: res_simps split: option.splits)

lemma metadata_schema_validate_ok:
  "metadata_schema_validate m = Inr () \<longleftrightarrow>
     ms_fields m \<noteq> [] \<and> (\<forall>(name, f)\<in>set (ms_fields m). \<not> is_blank name \<and> metadata_field_ok f)"
  unfolding metadata_schema_validate_def
  by (auto simp: res_simps metadata_field_validate_ok split: prod.splits)

lemma group_validate_ok: "group_validate g = Inr () \<longleftrightarrow> group_ok g"
  unfolding group_validate_def group_ok_def by (auto simp: res_simps)

lemma fold_validate_ok: "fold_validate f = Inr () \<longleftrightarrow> fold_spec_ok f"
  unfolding fold_validate_def fold_spec_ok_def by (auto simp: res_simps split: option.splits)

lemmas schema_parts_ok =
  source_validate_ok representation_validate_ok metadata_schema_validate_ok group_validate_ok
  fold_validate_ok

lemma known_reference_ok:
  "(case x of None \<Rightarrow> Inr () | Some s \<Rightarrow> if s \<notin> A then invalid m else Inr ()) = Inr () \<longleftrightarrow>
     set_option x \<subseteq> A"
  by (cases x) (auto simp: res_simps)

lemma dataset_schema_validate_ok:
  "dataset_schema_validate number_f64 d = Inr () \<longleftrightarrow> schema_ok number_f64 d"
  unfolding dataset_schema_validate_def schema_ok_def Let_def
  by (auto simp: res_simps schema_parts_ok known_reference_ok split: option.splits)

text \<open>
  A dataset schema passes its validator exactly when it is well formed.
\<close>

lemma dataset_schema_validate_iff:
  "dataset_schema_validate number_f64 d = Inr () \<longleftrightarrow> schema_ok number_f64 d"
  by (rule dataset_schema_validate_ok)

end
