(* ===== verification/Adapters.thy ===== *)
theory Adapters
  imports Data_Plan "HOL-Library.Product_Lexorder"
begin

text \<open>
  Adapters and the search for an adapter path (\<open>adapter.rs\<close>): input ports, adapter specifications, the
  registry, the planning policy, the score of an adapter and the uniform-cost search over the
  representations. The binary heap of search states, whose order is the reverse of the order on
  (score, hops, raw cost, node, adapter ids), is the list of its elements in the order they are
  popped; the edge map is the filtering of the registry by source node.
\<close>

section \<open>Specifications\<close>

definition name_char :: "char \<Rightarrow> bool" where
  "name_char b \<longleftrightarrow> is_ascii_alphanumeric b \<or> b \<in> set ''_-.:/''"

definition validate_name :: "string \<Rightarrow> string \<Rightarrow> unit res" where
  "validate_name kind v =
     (if is_blank v then invalid kind
      else if \<not> list_all name_char v then invalid kind
      else Inr ())"

record input_port_spec =
  ip_name :: string
  ip_accepted_representations :: "representation_id list"
  ip_accepted_types :: "type_id list"
  ip_rank :: "usize option"
  ip_multi_source :: bool
  ip_optional :: bool

definition input_port_validate :: "input_port_spec \<Rightarrow> unit res" where
  "input_port_validate p =
     rseq (validate_name ''input port'' (ip_name p))
       (if ip_accepted_representations p = [] then invalid ''input port accepts no representations''
        else if ip_accepted_types p = [] then invalid ''input port accepts no types''
        else Inr ())"

record model_input_spec =
  mi_ports :: "input_port_spec list"
  mi_default_fusion :: "json option"

definition model_input_validate :: "model_input_spec \<Rightarrow> unit res" where
  "model_input_validate m =
     (if mi_ports m = [] then invalid ''model input spec contains no ports''
      else
        each_fresh input_port_validate ip_name (\<lambda>_. Validation ''duplicate model input port'')
          (\<lambda>_. Inr ()) [] (mi_ports m))"

record adapter_spec =
  ad_id :: string
  ad_version :: string
  ad_input_type :: type_id
  ad_input_representation :: representation_id
  ad_output_type :: type_id
  ad_output_representation :: representation_id
  ad_cost :: u64
  ad_lossy :: bool
  ad_supervised :: bool
  ad_stateful :: bool
  ad_deterministic :: bool
  ad_fit_scope :: fit_scope
  ad_params :: metadata

definition adapter_validate :: "adapter_spec \<Rightarrow> unit res" where
  "adapter_validate a =
     rseq (validate_name ''adapter'' (ad_id a))
    (rseq (validate_name ''adapter version'' (ad_version a))
       (if \<not> ad_deterministic a then invalid ''adapter is not deterministic''
        else if ad_stateful a \<and> ad_fit_scope a = Stateless
        then invalid ''stateful adapter cannot use stateless fit scope''
        else Inr ()))"

type_synonym representation_node = "type_id \<times> representation_id"

definition ad_source :: "adapter_spec \<Rightarrow> representation_node" where
  "ad_source a = (ad_input_type a, ad_input_representation a)"

definition ad_target :: "adapter_spec \<Rightarrow> representation_node" where
  "ad_target a = (ad_output_type a, ad_output_representation a)"

record planning_policy =
  pp_allow_lossy :: bool
  pp_allow_stateful :: bool
  pp_allow_supervised :: bool
  pp_forbidden_adapters :: "string list"
  pp_preferred_adapters :: "string list"
  pp_require_user_choice_on_ambiguity :: bool
  pp_max_hops :: "usize option"

definition default_policy :: planning_policy where
  "default_policy =
     \<lparr>pp_allow_lossy = False, pp_allow_stateful = False, pp_allow_supervised = False,
      pp_forbidden_adapters = [], pp_preferred_adapters = [],
      pp_require_user_choice_on_ambiguity = True, pp_max_hops = None\<rparr>"

record adapter_path =
  pt_adapters :: "adapter_spec list"
  pt_total_cost :: u64
  pt_effective_score :: u64

record path_resolution =
  pr_path :: "adapter_path option"
  pr_requires_user_choice :: bool
  pr_issues :: "plan_issue list"

definition resolved :: "adapter_path \<Rightarrow> path_resolution" where
  "resolved p = \<lparr>pr_path = Some p, pr_requires_user_choice = False, pr_issues = []\<rparr>"

definition unresolved :: "string \<Rightarrow> string \<Rightarrow> string list \<Rightarrow> path_resolution" where
  "unresolved issue_code message choices =
     \<lparr>pr_path = None, pr_requires_user_choice = (choices \<noteq> []),
      pr_issues = [\<lparr>pi_code = issue_code, pi_message = message, pi_choices = choices\<rparr>]\<rparr>"

section \<open>The registry\<close>

type_synonym adapter_registry = "(string, adapter_spec) btree_map"

definition register_adapter :: "adapter_registry \<Rightarrow> adapter_spec \<Rightarrow> adapter_registry res" where
  "register_adapter reg a =
     rseq (adapter_validate a)
       (if map_of reg (ad_id a) \<noteq> None then invalid ''duplicate adapter id''
        else Inr (bt_insert (ad_id a) a reg))"

definition registry_from_spec :: "adapter_spec list \<Rightarrow> adapter_registry res" where
  "registry_from_spec adapters = fold_res register_adapter [] adapters"

section \<open>Scores and permitted edges\<close>

definition adapter_score_nat :: "adapter_spec \<Rightarrow> planning_policy \<Rightarrow> nat" where
  "adapter_score_nat a pol =
     (let score =
            max (unat (ad_cost a)) 1 + (if ad_lossy a then 1000000 else 0) +
            (if ad_stateful a then 100000 else 0) + (if ad_supervised a then 100000 else 0)
      in if ad_id a \<in> set (pp_preferred_adapters pol) then score - 1 else score)"

definition adapter_score :: "adapter_spec \<Rightarrow> planning_policy \<Rightarrow> u64 option" where
  "adapter_score a pol =
     (if adapter_score_nat a pol < 2 ^ 64 then Some (of_nat (adapter_score_nat a pol)) else None)"

definition permitted :: "planning_policy \<Rightarrow> adapter_spec \<Rightarrow> bool" where
  "permitted pol a \<longleftrightarrow>
     ad_id a \<notin> set (pp_forbidden_adapters pol) \<and>
     (ad_lossy a \<longrightarrow> pp_allow_lossy pol) \<and>
     (ad_stateful a \<longrightarrow> pp_allow_stateful pol) \<and>
     (ad_supervised a \<longrightarrow> pp_allow_supervised pol)"

definition edges_from ::
  "adapter_registry \<Rightarrow> planning_policy \<Rightarrow> representation_node \<Rightarrow> adapter_spec list"
where
  "edges_from reg pol n = filter (\<lambda>a. permitted pol a \<and> ad_source a = n) (bt_values reg)"

section \<open>The search\<close>

record search_state =
  st_score :: u64
  st_raw_cost :: u64
  st_hops :: usize
  st_node :: representation_node
  st_adapter_ids :: "string list"

definition st_key ::
  "search_state \<Rightarrow> u64 \<times> usize \<times> u64 \<times> representation_node \<times> string list"
where
  "st_key s = (st_score s, st_hops s, st_raw_cost s, st_node s, st_adapter_ids s)"

definition heap_push :: "search_state \<Rightarrow> search_state list \<Rightarrow> search_state list" where
  "heap_push s heap = insort_key st_key s heap"

record search =
  se_heap :: "search_state list"
  se_best_seen :: "((representation_node \<times> usize) \<times> u64) list"
  se_cost_overflow :: bool
  se_best_goal :: "(u64 \<times> usize \<times> u64) option"
  se_goal_paths :: "string list list"

text \<open>The body of the inner loop, for one edge out of the popped state.\<close>

definition expand_edge ::
  "planning_policy \<Rightarrow> search_state \<Rightarrow> adapter_spec \<Rightarrow> search \<Rightarrow> search"
where
  "expand_edge pol s a se =
     (if ad_id a \<in> set (st_adapter_ids s) then se
      else
        (case Option.bind (adapter_score a pol) (u64_checked_add (st_score s)) of
           None \<Rightarrow> se\<lparr>se_cost_overflow := True\<rparr>
         | Some score \<Rightarrow>
             (case u64_checked_add (st_raw_cost s) (ad_cost a) of
                None \<Rightarrow> se\<lparr>se_cost_overflow := True\<rparr>
              | Some raw_cost \<Rightarrow>
                  (let key = (ad_target a, st_hops s + 1) in
                   if (case map_of (se_best_seen se) key of
                         None \<Rightarrow> False | Some best \<Rightarrow> best < score)
                   then se
                   else
                     se\<lparr>se_best_seen := bt_insert key score (se_best_seen se),
                        se_heap :=
                          heap_push
                            \<lparr>st_score = score, st_raw_cost = raw_cost, st_hops = st_hops s + 1,
                             st_node = ad_target a,
                             st_adapter_ids = st_adapter_ids s @ [ad_id a]\<rparr>
                            (se_heap se)\<rparr>))))"

text \<open>One iteration of the outer loop; \<open>None\<close> when the loop ends.\<close>

definition search_step ::
  "adapter_registry \<Rightarrow> planning_policy \<Rightarrow> representation_node \<Rightarrow> search \<Rightarrow> search option"
where
  "search_step reg pol goal se =
     (case se_heap se of
        [] \<Rightarrow> None
      | s # heap \<Rightarrow>
          (let se' = se\<lparr>se_heap := heap\<rparr> in
           if (case se_best_goal se of
                 None \<Rightarrow> False
               | Some (best_score, best_hops, _) \<Rightarrow>
                   (best_score, best_hops) < (st_score s, st_hops s))
           then None
           else if st_node s = goal
           then
             Some
               (se'\<lparr>se_best_goal :=
                      (case se_best_goal se of
                         None \<Rightarrow> Some (st_score s, st_hops s, st_raw_cost s) | Some b \<Rightarrow> Some b),
                    se_goal_paths := se_goal_paths se @ [st_adapter_ids s]\<rparr>)
           else if (case pp_max_hops pol of None \<Rightarrow> False | Some max_hops \<Rightarrow> max_hops \<le> st_hops s)
           then Some se'
           else Some (fold (expand_edge pol s) (edges_from reg pol (st_node s)) se')))"

subsection \<open>Termination\<close>

text \<open>
  A state that has \<open>k\<close> adapters left to use spawns at most one state per adapter, each with one
  adapter less, so it stands for a tree of at most \<open>tree_bound E k\<close> states.
\<close>

fun tree_bound :: "nat \<Rightarrow> nat \<Rightarrow> nat" where
  "tree_bound E 0 = 1"
| "tree_bound E (Suc k) = 1 + E * tree_bound E k"

definition ids_left :: "adapter_registry \<Rightarrow> search_state \<Rightarrow> nat" where
  "ids_left reg s = card (ad_id ` set (bt_values reg) - set (st_adapter_ids s))"

definition heap_weight :: "adapter_registry \<Rightarrow> search_state list \<Rightarrow> nat" where
  "heap_weight reg heap = (\<Sum>s\<leftarrow>heap. tree_bound (length reg) (ids_left reg s))"

lemma tree_bound_pos: "0 < tree_bound E k"
  by (cases k) simp_all

lemma heap_weight_push:
  "heap_weight reg (heap_push s heap) = tree_bound (length reg) (ids_left reg s) + heap_weight reg heap"
proof -
  have "(\<Sum>x\<leftarrow>insort_key k s heap. f x) = f s + (\<Sum>x\<leftarrow>heap. f x)"
    for k :: "search_state \<Rightarrow> 'k::linorder" and f :: "search_state \<Rightarrow> nat"
    by (induction heap) simp_all
  then show ?thesis by (simp add: heap_weight_def heap_push_def)
qed

lemma expand_edge_weight:
  assumes "ids_left reg s = Suc k" and "a \<in> set (bt_values reg)"
  shows "heap_weight reg (se_heap (expand_edge pol s a se)) \<le>
    heap_weight reg (se_heap se) + tree_bound (length reg) k"
proof (cases "ad_id a \<in> set (st_adapter_ids s)")
  case False
  let ?A = "ad_id ` set (bt_values reg)"
  have "?A - set (st_adapter_ids s @ [ad_id a]) = ?A - set (st_adapter_ids s) - {ad_id a}" by auto
  then have "card (?A - set (st_adapter_ids s @ [ad_id a])) = k"
    using assms False by (simp add: ids_left_def)
  then show ?thesis
    by (simp add: expand_edge_def heap_weight_push ids_left_def Let_def split: option.split)
qed (simp add: expand_edge_def)

lemma expand_edge_none_left:
  assumes "ids_left reg s = 0" and "a \<in> set (bt_values reg)"
  shows "expand_edge pol s a se = se"
proof -
  have "ad_id a \<in> set (st_adapter_ids s)" using assms by (auto simp: ids_left_def)
  then show ?thesis by (simp add: expand_edge_def)
qed

lemma expand_weight:
  assumes "ids_left reg s = Suc k" and "set as \<subseteq> set (bt_values reg)"
  shows "heap_weight reg (se_heap (fold (expand_edge pol s) as se)) \<le>
    heap_weight reg (se_heap se) + length as * tree_bound (length reg) k"
  using assms(2)
proof (induction as arbitrary: se)
  case (Cons a as)
  have "heap_weight reg (se_heap (fold (expand_edge pol s) (a # as) se)) \<le>
      heap_weight reg (se_heap (expand_edge pol s a se)) + length as * tree_bound (length reg) k"
    using Cons by simp
  also have "\<dots> \<le> heap_weight reg (se_heap se) + length (a # as) * tree_bound (length reg) k"
    using expand_edge_weight [OF assms(1), of a pol se] Cons.prems by simp
  finally show ?case .
qed simp

lemma edges_from_subset: "set (edges_from reg pol n) \<subseteq> set (bt_values reg)"
  by (auto simp: edges_from_def)

lemma search_step_weight:
  assumes "search_step reg pol goal se = Some se'"
  shows "heap_weight reg (se_heap se') < heap_weight reg (se_heap se)"
proof -
  obtain s heap where h: "se_heap se = s # heap"
    using assms by (auto simp: search_step_def split: list.splits)
  have pos: "heap_weight reg heap < heap_weight reg (se_heap se)"
    using tree_bound_pos by (simp add: heap_weight_def h)
  have expanded: "heap_weight reg (se_heap (fold (expand_edge pol s) (edges_from reg pol n)
      (se\<lparr>se_heap := heap\<rparr>))) < heap_weight reg (se_heap se)" for n
  proof (cases "ids_left reg s")
    case 0
    have "fold (expand_edge pol s) as t = t" if "set as \<subseteq> set (bt_values reg)" for as t
      using that by (induction as) (simp_all add: expand_edge_none_left [OF 0])
    then show ?thesis using pos edges_from_subset by simp
  next
    case (Suc k)
    have "length (edges_from reg pol n) \<le> length reg"
      unfolding edges_from_def by (rule order_trans [OF length_filter_le]) simp
    then have "length (edges_from reg pol n) * tree_bound (length reg) k \<le>
        length reg * tree_bound (length reg) k"
      by (rule mult_le_mono1)
    moreover have "heap_weight reg (se_heap se) =
        1 + length reg * tree_bound (length reg) k + heap_weight reg heap"
      by (simp add: h heap_weight_def Suc)
    moreover have "heap_weight reg (se_heap (se\<lparr>se_heap := heap\<rparr>)) = heap_weight reg heap" by simp
    ultimately show ?thesis
      using expand_weight [OF Suc edges_from_subset, of pol pol n "se\<lparr>se_heap := heap\<rparr>"]
      by linarith
  qed
  show ?thesis
    using assms pos expanded [of "st_node s"]
    by (auto simp: search_step_def h Let_def split: if_splits)
qed

function search_loop ::
  "adapter_registry \<Rightarrow> planning_policy \<Rightarrow> representation_node \<Rightarrow> search \<Rightarrow> search"
where
  "search_loop reg pol goal se =
     (case search_step reg pol goal se of
        None \<Rightarrow> se | Some se' \<Rightarrow> search_loop reg pol goal se')"
  by pat_completeness auto

termination
  by (relation "measure (\<lambda>(reg, pol, goal, se). heap_weight reg (se_heap se))")
    (auto dest: search_step_weight)

declare search_loop.simps [simp del]

subsection \<open>The result\<close>

definition search_init :: "representation_node \<Rightarrow> search" where
  "search_init start =
     \<lparr>se_heap =
        heap_push
          \<lparr>st_score = 0, st_raw_cost = 0, st_hops = 0, st_node = start, st_adapter_ids = []\<rparr> [],
      se_best_seen = [((start, 0), 0)], se_cost_overflow = False, se_best_goal = None,
      se_goal_paths = []\<rparr>"

fun join_ids :: "string list \<Rightarrow> string" where
  "join_ids [] = []"
| "join_ids [i] = i"
| "join_ids (i # is) = i @ '' -> '' @ join_ids is"

definition sum_checked :: "('a \<Rightarrow> u64 option) \<Rightarrow> 'a list \<Rightarrow> u64 option" where
  "sum_checked f xs =
     fold (\<lambda>x acc. Option.bind acc (\<lambda>sum. Option.bind (f x) (u64_checked_add sum))) xs (Some 0)"

text \<open>
  The selected path names registered adapters only (the code's \<open>expect\<close>); \<open>List.map_filter\<close> drops
  nothing there, which is part of the soundness theorem.
\<close>

definition find_path ::
  "adapter_registry \<Rightarrow> type_id \<Rightarrow> representation_id \<Rightarrow> type_id \<Rightarrow> representation_id \<Rightarrow>
   planning_policy \<Rightarrow> path_resolution"
where
  "find_path reg source_type source_rep target_type target_rep pol =
     (let start = (source_type, source_rep); goal = (target_type, target_rep) in
      if start = goal
      then resolved \<lparr>pt_adapters = [], pt_total_cost = 0, pt_effective_score = 0\<rparr>
      else
        (let se = search_loop reg pol goal (search_init start); paths = bset_of (se_goal_paths se) in
         if se_goal_paths se = []
         then unresolved (if se_cost_overflow se then ''cost_overflow'' else ''no_path'')
                ''no adapter path'' []
         else if 1 < length paths \<and> pp_require_user_choice_on_ambiguity pol
         then unresolved ''ambiguous_path''
                ''multiple equivalent adapter paths require user choice'' (map join_ids paths)
         else
           (let adapters = List.map_filter (map_of reg) (hd paths) in
            case (sum_checked (\<lambda>a. Some (ad_cost a)) adapters,
                  sum_checked (\<lambda>a. adapter_score a pol) adapters) of
              (Some total_cost, Some effective_score) \<Rightarrow>
                resolved \<lparr>pt_adapters = adapters, pt_total_cost = total_cost,
                          pt_effective_score = effective_score\<rparr>
            | _ \<Rightarrow> unresolved ''cost_overflow'' ''adapter path cost exceeds u64'' [])))"

end
