(* ===== verification/Adapter_Search.thy ===== *)
theory Adapter_Search
  imports Adapters
begin

text \<open>
  Correctness of the adapter path search: paths as chains of permitted registered adapters, soundness
  of every state the search builds, and, as long as no sum of scores leaves 64 bits, completeness: the
  goal paths found are exactly the paths that are least in (score, hops).
\<close>

section \<open>Paths\<close>

definition registry_ok :: "adapter_registry \<Rightarrow> bool" where
  "registry_ok reg \<longleftrightarrow> bt_wf reg \<and> (\<forall>(k, a)\<in>set reg. k = ad_id a)"

definition usable :: "adapter_registry \<Rightarrow> planning_policy \<Rightarrow> adapter_spec set" where
  "usable reg pol = {a \<in> set (bt_values reg). permitted pol a}"

fun chain :: "representation_node \<Rightarrow> adapter_spec list \<Rightarrow> representation_node \<Rightarrow> bool" where
  "chain n [] m \<longleftrightarrow> n = m"
| "chain n (a # p) m \<longleftrightarrow> ad_source a = n \<and> chain (ad_target a) p m"

definition path_score :: "planning_policy \<Rightarrow> adapter_spec list \<Rightarrow> nat" where
  "path_score pol p = (\<Sum>a\<leftarrow>p. adapter_score_nat a pol)"

definition path_cost :: "adapter_spec list \<Rightarrow> nat" where
  "path_cost p = (\<Sum>a\<leftarrow>p. unat (ad_cost a))"

definition within_hops :: "planning_policy \<Rightarrow> nat \<Rightarrow> bool" where
  "within_hops pol h \<longleftrightarrow> (\<forall>m. pp_max_hops pol = Some m \<longrightarrow> h \<le> m)"

definition walk ::
  "adapter_registry \<Rightarrow> planning_policy \<Rightarrow> representation_node \<Rightarrow> adapter_spec list \<Rightarrow>
   representation_node \<Rightarrow> bool"
where
  "walk reg pol n p m \<longleftrightarrow> chain n p m \<and> set p \<subseteq> usable reg pol"

text \<open>An admissible path: a walk that repeats no adapter and stays within the hop budget.\<close>

definition admissible ::
  "adapter_registry \<Rightarrow> planning_policy \<Rightarrow> representation_node \<Rightarrow> adapter_spec list \<Rightarrow>
   representation_node \<Rightarrow> bool"
where
  "admissible reg pol n p m \<longleftrightarrow> walk reg pol n p m \<and> distinct p \<and> within_hops pol (length p)"

definition path_key :: "planning_policy \<Rightarrow> adapter_spec list \<Rightarrow> nat \<times> nat" where
  "path_key pol p = (path_score pol p, length p)"

definition optimal ::
  "adapter_registry \<Rightarrow> planning_policy \<Rightarrow> representation_node \<Rightarrow> representation_node \<Rightarrow>
   adapter_spec list \<Rightarrow> bool"
where
  "optimal reg pol n m p \<longleftrightarrow>
     admissible reg pol n p m \<and> (\<forall>q. admissible reg pol n q m \<longrightarrow> path_key pol p \<le> path_key pol q)"

lemma chain_append: "chain n (p @ q) m \<longleftrightarrow> (\<exists>k. chain n p k \<and> chain k q m)"
  by (induction p arbitrary: n) auto

lemma walk_append: "walk reg pol n (p @ q) m \<longleftrightarrow> (\<exists>k. walk reg pol n p k \<and> walk reg pol k q m)"
  by (auto simp: walk_def chain_append)

lemma walk_simps [simp]:
  "walk reg pol n [] m \<longleftrightarrow> n = m"
  "walk reg pol n (a # p) m \<longleftrightarrow> ad_source a = n \<and> a \<in> usable reg pol \<and> walk reg pol (ad_target a) p m"
  by (auto simp: walk_def)

lemma walk_snoc:
  "walk reg pol n (p @ [a]) m \<longleftrightarrow>
     walk reg pol n p (ad_source a) \<and> a \<in> usable reg pol \<and> m = ad_target a"
proof (induction p arbitrary: n)
  case Nil
  then show ?case by auto
next
  case (Cons b p)
  show ?case using Cons.IH [of "ad_target b"] by simp
qed

lemma walk_unique_end: "walk reg pol n p m \<Longrightarrow> walk reg pol n p k \<Longrightarrow> m = k"
proof (induction p arbitrary: n)
  case (Cons a p)
  then show ?case using Cons.IH [of "ad_target a"] by simp
qed simp

lemma path_score_simps [simp]:
  "path_score pol [] = 0"
  "path_score pol (a # p) = adapter_score_nat a pol + path_score pol p"
  "path_score pol (p @ q) = path_score pol p + path_score pol q"
  by (simp_all add: path_score_def)

lemma path_cost_simps [simp]:
  "path_cost [] = 0" "path_cost (a # p) = unat (ad_cost a) + path_cost p"
  "path_cost (p @ q) = path_cost p + path_cost q"
  by (simp_all add: path_cost_def)

text \<open>A walk can be cut to one that repeats no adapter, at no greater score and length.\<close>

lemma shorten_walk:
  "walk reg pol n p m \<Longrightarrow>
   \<exists>q. walk reg pol n q m \<and> distinct q \<and> path_score pol q \<le> path_score pol p \<and> length q \<le> length p"
proof (induction p rule: length_induct)
  case (1 p)
  show ?case
  proof (cases "distinct p")
    case True
    with "1.prems" show ?thesis by blast
  next
    case False
    then obtain xs ys zs a where p: "p = xs @ [a] @ ys @ [a] @ zs"
      by (metis not_distinct_decomp)
    let ?r = "xs @ a # zs"
    have "walk reg pol n ?r m" using "1.prems" by (auto simp: p walk_append)
    moreover have "length ?r < length p" "path_score pol ?r \<le> path_score pol p" by (simp_all add: p)
    ultimately obtain q where "walk reg pol n q m" "distinct q" "path_score pol q \<le> path_score pol ?r"
        "length q \<le> length ?r"
      using "1.IH" by blast
    with \<open>length ?r < length p\<close> \<open>path_score pol ?r \<le> path_score pol p\<close> show ?thesis
      by (meson le_trans less_imp_le)
  qed
qed

lemma registry_ok_inj:
  assumes "registry_ok reg"
  shows "inj_on ad_id (set (bt_values reg))" and "distinct (bt_values reg)"
proof -
  have keys: "bt_keys reg = map ad_id (bt_values reg)"
    using assms by (auto simp: registry_ok_def)
  have "distinct (bt_keys reg)" using assms by (simp add: registry_ok_def bt_wf_distinct)
  then have "distinct (map ad_id (bt_values reg))" by (simp only: keys)
  then have "distinct (bt_values reg) \<and> inj_on ad_id (set (bt_values reg))"
    by (simp only: distinct_map [of ad_id "bt_values reg"])
  then show "inj_on ad_id (set (bt_values reg))" "distinct (bt_values reg)" by blast+
qed

lemma ids_determine_path:
  assumes "registry_ok reg" and "set p \<subseteq> usable reg pol" and "set q \<subseteq> usable reg pol"
    and "map ad_id p = map ad_id q"
  shows "p = q"
proof -
  have "inj_on ad_id (set p \<union> set q)"
    by (rule inj_on_subset [OF registry_ok_inj(1) [OF assms(1)]])
      (use assms(2,3) in \<open>auto simp: usable_def simp del: set_map\<close>)
  with assms(4) show ?thesis by (simp add: map_inj_on)
qed

lemma optimal_prefix_not_goal:
  assumes "optimal reg pol n m (q @ r)" and "r \<noteq> []"
  shows "\<not> walk reg pol n q m"
proof
  assume "walk reg pol n q m"
  then have "admissible reg pol n q m"
    using assms(1) by (auto simp: optimal_def admissible_def within_hops_def)
  then have "path_key pol (q @ r) \<le> path_key pol q" using assms(1) by (simp add: optimal_def)
  with assms(2) show False by (auto simp: path_key_def less_eq_prod_def)
qed

text \<open>No walk reaches a point of an optimal path with the same number of hops at a lower score.\<close>

lemma optimal_prefix_least:
  assumes "optimal reg pol n m (q @ r)" and "walk reg pol n q k" and "walk reg pol n q' k"
    and "length q' = length q"
  shows "path_score pol q \<le> path_score pol q'"
proof -
  have "walk reg pol n (q @ r) m" using assms(1) by (simp add: optimal_def admissible_def)
  then obtain k' where "walk reg pol n q k'" "walk reg pol k' r m" unfolding walk_append by blast
  then have "walk reg pol k r m" using walk_unique_end assms(2) by metis
  then have "walk reg pol n (q' @ r) m" using assms(3) unfolding walk_append by blast
  from shorten_walk [OF this] obtain w where w: "walk reg pol n w m" "distinct w"
      "path_score pol w \<le> path_score pol (q' @ r)" "length w \<le> length (q' @ r)" by blast
  then have "admissible reg pol n w m"
    using assms(1,4) by (auto simp: optimal_def admissible_def within_hops_def)
  then have "path_key pol (q @ r) \<le> path_key pol w" using assms(1) by (simp add: optimal_def)
  then have "path_score pol (q @ r) \<le> path_score pol w"
    by (auto simp: path_key_def less_eq_prod_def)
  with w(3) show ?thesis by simp
qed

lemma optimal_exists:
  assumes "admissible reg pol n p m"
  shows "\<exists>q. optimal reg pol n m q"
proof -
  let ?P = "\<lambda>k. \<exists>q. admissible reg pol n q m \<and> path_key pol q = k"
  have "?P (path_key pol p)" using assms by blast
  from LeastI [where P = ?P, OF this] obtain q
    where q: "admissible reg pol n q m" "path_key pol q = Least ?P" by blast
  have "path_key pol q \<le> path_key pol r" if "admissible reg pol n r m" for r
    unfolding q(2) by (rule Least_le) (use that in blast)
  with q(1) show ?thesis by (auto simp: optimal_def)
qed

section \<open>Soundness of the search\<close>

definition state_for ::
  "adapter_registry \<Rightarrow> planning_policy \<Rightarrow> representation_node \<Rightarrow> search_state \<Rightarrow> adapter_spec list \<Rightarrow> bool"
where
  "state_for reg pol start s p \<longleftrightarrow>
     st_adapter_ids s = map ad_id p \<and> unat (st_score s) = path_score pol p \<and>
     unat (st_raw_cost s) = path_cost p \<and> st_hops s = length p \<and>
     admissible reg pol start p (st_node s)"

definition search_sound ::
  "adapter_registry \<Rightarrow> planning_policy \<Rightarrow> representation_node \<Rightarrow> representation_node \<Rightarrow> search \<Rightarrow> bool"
where
  "search_sound reg pol start goal se \<longleftrightarrow>
     sorted (map st_key (se_heap se)) \<and>
     (\<forall>s\<in>set (se_heap se). \<exists>p. state_for reg pol start s p) \<and>
     (\<forall>n h v. map_of (se_best_seen se) (n, h) = Some v \<longrightarrow>
        (\<exists>p. walk reg pol start p n \<and> length p = h \<and> path_score pol p = unat v)) \<and>
     (\<forall>ids\<in>set (se_goal_paths se). \<exists>p. admissible reg pol start p goal \<and> ids = map ad_id p) \<and>
     (se_best_goal se = None \<longleftrightarrow> se_goal_paths se = []) \<and>
     (\<forall>b h c. se_best_goal se = Some (b, h, c) \<longrightarrow>
        (\<exists>p. admissible reg pol start p goal \<and> path_key pol p = (unat b, h)))"

lemma adapter_score_Some:
  "adapter_score a pol = Some w \<longleftrightarrow> unat w = adapter_score_nat a pol"
proof -
  have "unat w < 2 ^ 64" using unsigned_less [of w, where ?'a = nat] by simp
  moreover have "unat (of_nat k :: u64) = k" if "k < 2 ^ 64" for k
    using that by (simp add: unsigned_of_nat take_bit_nat_eq_self)
  ultimately show ?thesis by (auto simp: adapter_score_def word_unat_eq_iff)
qed

definition successor :: "search_state \<Rightarrow> adapter_spec \<Rightarrow> u64 \<Rightarrow> u64 \<Rightarrow> search_state" where
  "successor s a score raw_cost =
     \<lparr>st_score = score, st_raw_cost = raw_cost, st_hops = st_hops s + 1, st_node = ad_target a,
      st_adapter_ids = st_adapter_ids s @ [ad_id a]\<rparr>"

lemma expand_edge_shape:
  "se_goal_paths (expand_edge pol s a se) = se_goal_paths se \<and>
   se_best_goal (expand_edge pol s a se) = se_best_goal se \<and>
   (se_heap (expand_edge pol s a se) = se_heap se \<and>
      se_best_seen (expand_edge pol s a se) = se_best_seen se \<or>
    (\<exists>score raw_cost. ad_id a \<notin> set (st_adapter_ids s) \<and>
       unat score = unat (st_score s) + adapter_score_nat a pol \<and>
       unat raw_cost = unat (st_raw_cost s) + unat (ad_cost a) \<and>
       se_best_seen (expand_edge pol s a se) =
         bt_insert (ad_target a, st_hops s + 1) score (se_best_seen se) \<and>
       se_heap (expand_edge pol s a se) = heap_push (successor s a score raw_cost) (se_heap se)))"
proof (cases "ad_id a \<in> set (st_adapter_ids s)")
  case False
  show ?thesis
  proof (cases "Option.bind (adapter_score a pol) (u64_checked_add (st_score s))")
    case (Some score)
    then have score: "unat score = unat (st_score s) + adapter_score_nat a pol"
      by (auto simp: bind_eq_Some_conv adapter_score_Some dest: u64_checked_add_unat)
    show ?thesis
    proof (cases "u64_checked_add (st_raw_cost s) (ad_cost a)")
      case raw: (Some raw_cost)
      show ?thesis
        using False score u64_checked_add_unat [OF raw]
        by (auto simp: expand_edge_def Some raw Let_def successor_def split: option.split)
    qed (simp add: expand_edge_def False Some)
  qed (simp add: expand_edge_def False)
qed (simp add: expand_edge_def)

lemma set_heap_push [simp]: "set (heap_push s heap) = insert s (set heap)"
  by (simp add: heap_push_def set_insort_key)

lemma sorted_heap_push:
  "sorted (map st_key heap) \<Longrightarrow> sorted (map st_key (heap_push s heap))"
  by (simp add: heap_push_def sorted_insort_key)

lemma successor_state_for:
  assumes "state_for reg pol start s p" and "a \<in> set (edges_from reg pol (st_node s))"
    and "within_hops pol (st_hops s + 1)" and "ad_id a \<notin> set (st_adapter_ids s)"
    and "unat score = unat (st_score s) + adapter_score_nat a pol"
    and "unat raw_cost = unat (st_raw_cost s) + unat (ad_cost a)"
  shows "state_for reg pol start (successor s a score raw_cost) (p @ [a])"
proof -
  have "a \<in> usable reg pol" "ad_source a = st_node s"
    using assms(2) by (auto simp: edges_from_def usable_def)
  then have "walk reg pol start (p @ [a]) (ad_target a)"
    using assms(1) unfolding walk_snoc state_for_def admissible_def by simp
  moreover have "a \<notin> set p" using assms(1,4) by (auto simp: state_for_def)
  ultimately show ?thesis
    using assms by (simp add: state_for_def successor_def admissible_def)
qed

lemma expand_edge_sound:
  assumes "search_sound reg pol start goal se" and "state_for reg pol start s p"
    and "a \<in> set (edges_from reg pol (st_node s))" and "within_hops pol (st_hops s + 1)"
  shows "search_sound reg pol start goal (expand_edge pol s a se)"
  using expand_edge_shape [of pol s a se]
proof (elim conjE disjE exE)
  fix score raw_cost
  assume pushed: "ad_id a \<notin> set (st_adapter_ids s)"
      "unat score = unat (st_score s) + adapter_score_nat a pol"
      "unat raw_cost = unat (st_raw_cost s) + unat (ad_cost a)"
    and se': "se_goal_paths (expand_edge pol s a se) = se_goal_paths se"
      "se_best_goal (expand_edge pol s a se) = se_best_goal se"
      "se_best_seen (expand_edge pol s a se) =
         bt_insert (ad_target a, st_hops s + 1) score (se_best_seen se)"
      "se_heap (expand_edge pol s a se) = heap_push (successor s a score raw_cost) (se_heap se)"
  have new: "state_for reg pol start (successor s a score raw_cost) (p @ [a])"
    by (rule successor_state_for [OF assms(2-4) pushed])
  then have walk: "walk reg pol start (p @ [a]) (ad_target a)" "length (p @ [a]) = st_hops s + 1"
      "path_score pol (p @ [a]) = unat score"
    by (simp_all add: state_for_def successor_def admissible_def)
  have seen: "\<exists>p. walk reg pol start p n \<and> length p = h \<and> path_score pol p = unat v"
    if "map_of (se_best_seen (expand_edge pol s a se)) (n, h) = Some v" for n h v
  proof (cases "(n, h) = (ad_target a, st_hops s + 1)")
    case True
    then have "v = score" using that unfolding se' map_of_bt_insert by simp
    with True walk show ?thesis by blast
  next
    case False
    then have "map_of (se_best_seen se) (n, h) = Some v"
      using that unfolding se' map_of_bt_insert by (simp only: fun_upd_apply if_False)
    with assms(1) show ?thesis unfolding search_sound_def by blast
  qed
  show ?thesis
    using assms(1) new seen unfolding search_sound_def se'
    by (simp add: sorted_heap_push) blast
qed (use assms(1) in \<open>simp add: search_sound_def\<close>)

lemma expand_sound:
  assumes "search_sound reg pol start goal se" and "state_for reg pol start s p"
    and "set as \<subseteq> set (edges_from reg pol (st_node s))" and "within_hops pol (st_hops s + 1)"
  shows "search_sound reg pol start goal (fold (expand_edge pol s) as se)"
  using assms(1,3)
proof (induction as arbitrary: se)
  case (Cons a as)
  then show ?case using expand_edge_sound [OF _ assms(2) _ assms(4)] by simp
qed simp

lemma search_step_sound:
  assumes "search_sound reg pol start goal se" and "search_step reg pol goal se = Some se'"
  shows "search_sound reg pol start goal se'"
proof -
  obtain s heap where h: "se_heap se = s # heap"
    using assms(2) by (auto simp: search_step_def split: list.splits)
  let ?rest = "se\<lparr>se_heap := heap\<rparr>"
  obtain p where p: "state_for reg pol start s p"
    using assms(1) by (auto simp: search_sound_def h)
  have rest: "search_sound reg pol start goal ?rest"
    using assms(1) by (auto simp: search_sound_def h)
  consider (found) "st_node s = goal"
      "se' = ?rest\<lparr>se_best_goal :=
          (case se_best_goal se of
             None \<Rightarrow> Some (st_score s, st_hops s, st_raw_cost s) | Some b \<Rightarrow> Some b),
        se_goal_paths := se_goal_paths se @ [st_adapter_ids s]\<rparr>"
    | (spent) "se' = ?rest"
    | (expanded) "within_hops pol (st_hops s + 1)"
        "se' = fold (expand_edge pol s) (edges_from reg pol (st_node s)) ?rest"
    using assms(2)
    by (auto simp: search_step_def h Let_def within_hops_def not_le split: if_splits option.splits)
  then show ?thesis
  proof cases
    case found
    then have "admissible reg pol start p goal" "st_adapter_ids s = map ad_id p"
        "path_key pol p = (unat (st_score s), st_hops s)"
      using p by (auto simp: state_for_def path_key_def)
    then show ?thesis
      using rest unfolding search_sound_def found(2)
      by (cases "se_best_goal se") auto
  next
    case spent
    with rest show ?thesis by simp
  next
    case expanded
    with expand_sound [OF rest p subset_refl] show ?thesis by simp
  qed
qed

text \<open>A property kept by every iteration holds when the loop ends, and there no step is left.\<close>

lemma search_loop_invariant:
  assumes "\<And>se se'. I se \<Longrightarrow> search_step reg pol goal se = Some se' \<Longrightarrow> I se'" and "I se"
  shows "I (search_loop reg pol goal se) \<and>
    search_step reg pol goal (search_loop reg pol goal se) = None"
  using assms
proof (induction reg pol goal se rule: search_loop.induct)
  case (1 reg pol goal se)
  show ?case
  proof (cases "search_step reg pol goal se")
    case None
    then show ?thesis using "1.prems"(2) by (simp add: search_loop.simps)
  next
    case (Some se')
    then have "search_loop reg pol goal se = search_loop reg pol goal se'"
      by (simp add: search_loop.simps [of reg pol goal se])
    moreover have "I se'" using "1.prems"(1) [OF "1.prems"(2) Some] .
    then have "I (search_loop reg pol goal se') \<and>
        search_step reg pol goal (search_loop reg pol goal se') = None"
      using "1.IH" [OF Some] "1.prems"(1) by presburger
    ultimately show ?thesis by simp
  qed
qed

lemma search_init_sound: "search_sound reg pol start goal (search_init start)"
  by (auto simp: search_sound_def search_init_def heap_push_def state_for_def admissible_def
      within_hops_def split: if_splits)

lemma search_result_sound:
  "search_sound reg pol start goal (search_loop reg pol goal (search_init start))"
  using search_loop_invariant [where I = "search_sound reg pol start goal"]
    search_step_sound search_init_sound by blast

lemma registry_lookup:
  assumes "registry_ok reg" and "a \<in> set (bt_values reg)"
  shows "map_of reg (ad_id a) = Some a"
proof -
  obtain k where k: "(k, a) \<in> set reg" using assms(2) by auto
  then have "k = ad_id a" using assms(1) by (auto simp: registry_ok_def)
  with k assms(1) show ?thesis
    by (simp add: registry_ok_def bt_wf_distinct)
qed

lemma adapters_of_ids:
  assumes "registry_ok reg" and "set p \<subseteq> usable reg pol"
  shows "List.map_filter (map_of reg) (map ad_id p) = p"
  using assms(2)
proof (induction p)
  case (Cons a p)
  then have "map_of reg (ad_id a) = Some a"
    by (intro registry_lookup [OF assms(1)]) (simp add: usable_def del: set_map)
  with Cons show ?case by (simp add: map_filter_simps)
qed (simp add: map_filter_simps)

lemma fold_sum_None:
  "fold (\<lambda>x acc. Option.bind acc (\<lambda>sum. Option.bind (f x) (u64_checked_add sum))) xs None = None"
  by (induction xs) simp_all

lemma fold_sum_checked:
  assumes "\<And>x w. f x = Some w \<longleftrightarrow> unat w = g x"
  shows "fold (\<lambda>x acc. Option.bind acc (\<lambda>sum. Option.bind (f x) (u64_checked_add sum))) xs (Some s) =
      Some w \<longleftrightarrow> unat w = unat s + (\<Sum>x\<leftarrow>xs. g x)"
proof (induction xs arbitrary: s)
  case Nil
  then show ?case by (auto simp: word_unat_eq_iff)
next
  case (Cons x xs)
  show ?case
  proof (cases "Option.bind (f x) (u64_checked_add s)")
    case (Some t)
    then have "unat t = unat s + g x"
      by (auto simp: bind_eq_Some_conv assms dest: u64_checked_add_unat)
    then show ?thesis using Cons.IH [of t] by (simp add: Some add.assoc)
  next
    case None
    have "unat w \<noteq> unat s + (g x + (\<Sum>x\<leftarrow>xs. g x))"
    proof
      assume eq: "unat w = unat s + (g x + (\<Sum>x\<leftarrow>xs. g x))"
      have "unat w < 2 ^ 64" using unsigned_less [of w, where ?'a = nat] by simp
      with eq have small: "unat s + g x < 2 ^ 64" by simp
      then have "unat (of_nat (g x) :: u64) = g x"
        by (simp add: unsigned_of_nat take_bit_nat_eq_self)
      then have "f x = Some (of_nat (g x))" by (simp add: assms)
      moreover have "u64_checked_add s (of_nat (g x)) = Some (s + of_nat (g x))"
        using small \<open>unat (of_nat (g x) :: u64) = g x\<close> by (simp add: u64_checked_add_def)
      ultimately show False using None by simp
    qed
    then show ?thesis by (simp add: None fold_sum_None)
  qed
qed

lemma sum_checked_cost: "sum_checked (\<lambda>a. Some (ad_cost a)) p = Some w \<longleftrightarrow> unat w = path_cost p"
  unfolding sum_checked_def path_cost_def
  by (subst fold_sum_checked [where g = "\<lambda>a. unat (ad_cost a)"]) (auto simp: word_unat_eq_iff)

lemma sum_checked_score:
  "sum_checked (\<lambda>a. adapter_score a pol) p = Some w \<longleftrightarrow> unat w = path_score pol p"
  unfolding sum_checked_def path_score_def
  by (subst fold_sum_checked [where g = "\<lambda>a. adapter_score_nat a pol"])
    (simp_all add: adapter_score_Some)

lemma goal_path_admissible:
  assumes "ids \<in> set (se_goal_paths (search_loop reg pol goal (search_init start)))"
  shows "\<exists>p. admissible reg pol start p goal \<and> ids = map ad_id p"
  using search_result_sound [of reg pol start goal] assms unfolding search_sound_def by blast

lemma find_path_sound_lemma:
  assumes "registry_ok reg"
  shows "case pr_path (find_path reg t r t' r' pol) of
      None \<Rightarrow> pr_issues (find_path reg t r t' r' pol) \<noteq> []
    | Some p \<Rightarrow>
        chain (t, r) (pt_adapters p) (t', r') \<and> distinct (pt_adapters p) \<and>
        (\<forall>a\<in>set (pt_adapters p). map_of reg (ad_id a) = Some a \<and> permitted pol a) \<and>
        within_hops pol (length (pt_adapters p)) \<and>
        unat (pt_total_cost p) = path_cost (pt_adapters p) \<and>
        unat (pt_effective_score p) = path_score pol (pt_adapters p)"
proof -
  let ?se = "search_loop reg pol (t', r') (search_init (t, r))"
  let ?p = "List.map_filter (map_of reg) (hd (bset_of (se_goal_paths ?se)))"
  have "chain (t, r) ?p (t', r') \<and> distinct ?p \<and> set ?p \<subseteq> usable reg pol \<and>
      within_hops pol (length ?p)" if "se_goal_paths ?se \<noteq> []"
  proof -
    have "hd (bset_of (se_goal_paths ?se)) \<in> set (se_goal_paths ?se)"
      using that by (metis bset_of_eq_Nil hd_in_set set_bset_of)
    then obtain p where p: "admissible reg pol (t, r) p (t', r')"
        "hd (bset_of (se_goal_paths ?se)) = map ad_id p"
      using goal_path_admissible by blast
    then have "set p \<subseteq> usable reg pol" by (simp add: admissible_def walk_def)
    then have "?p = p" using p(2) adapters_of_ids [OF assms] by simp
    with p(1) show ?thesis by (simp add: admissible_def walk_def)
  qed
  moreover have "map_of reg (ad_id a) = Some a" if "a \<in> usable reg pol" for a
    using that registry_lookup [OF assms] by (simp add: usable_def del: set_map)
  moreover have "within_hops pol 0" by (simp add: within_hops_def)
  ultimately show ?thesis
    unfolding find_path_def Let_def
    by (auto simp: resolved_def unresolved_def usable_def sum_checked_cost sum_checked_score
        simp del: set_map split: option.split)
qed

text \<open>
  C21. Soundness of path resolution: a resolved path is a chain of registered adapters that the policy
  permits, from the source representation to the target, repeats none, stays within the hop
  budget, and carries the exact sums of its costs and scores; a resolution with no path has issues.
\<close>

theorem find_path_sound:
  assumes "registry_ok reg"
  shows "case pr_path (find_path reg t r t' r' pol) of
      None \<Rightarrow> pr_issues (find_path reg t r t' r' pol) \<noteq> []
    | Some p \<Rightarrow>
        chain (t, r) (pt_adapters p) (t', r') \<and> distinct (pt_adapters p) \<and>
        (\<forall>a\<in>set (pt_adapters p). map_of reg (ad_id a) = Some a \<and> permitted pol a) \<and>
        within_hops pol (length (pt_adapters p)) \<and>
        unat (pt_total_cost p) = path_cost (pt_adapters p) \<and>
        unat (pt_effective_score p) = path_score pol (pt_adapters p)"
  using assms by (rule find_path_sound_lemma)

section \<open>Completeness of the search\<close>

text \<open>No sum along a path that repeats no adapter leaves 64 bits.\<close>

definition no_overflow :: "adapter_registry \<Rightarrow> planning_policy \<Rightarrow> bool" where
  "no_overflow reg pol \<longleftrightarrow>
     (\<Sum>a\<leftarrow>bt_values reg. max (adapter_score_nat a pol) (unat (ad_cost a))) < 2 ^ 64"

lemma sum_list_subset_le:
  fixes f :: "'a \<Rightarrow> nat"
  assumes "distinct p" and "distinct xs" and "set p \<subseteq> set xs"
  shows "(\<Sum>a\<leftarrow>p. f a) \<le> (\<Sum>a\<leftarrow>xs. f a)"
  using assms by (simp add: sum_list_distinct_conv_sum_set sum_mono2)

lemma no_overflow_path:
  assumes "registry_ok reg" and "no_overflow reg pol" and "distinct p" and "set p \<subseteq> usable reg pol"
  shows "path_score pol p < 2 ^ 64" and "path_cost p < 2 ^ 64"
proof -
  have sub: "set p \<subseteq> set (bt_values reg)" using assms(4) unfolding usable_def by blast
  let ?m = "\<lambda>a. max (adapter_score_nat a pol) (unat (ad_cost a))"
  have "(\<Sum>a\<leftarrow>p. ?m a) \<le> (\<Sum>a\<leftarrow>bt_values reg. ?m a)"
    by (rule sum_list_subset_le [OF assms(3) registry_ok_inj(2) [OF assms(1)] sub])
  then have "(\<Sum>a\<leftarrow>p. ?m a) < 2 ^ 64" using assms(2) unfolding no_overflow_def by linarith
  moreover have "path_score pol p \<le> (\<Sum>a\<leftarrow>p. ?m a)" "path_cost p \<le> (\<Sum>a\<leftarrow>p. ?m a)"
    by (induction p) auto
  ultimately show "path_score pol p < 2 ^ 64" "path_cost p < 2 ^ 64" by linarith+
qed

lemma edge_sums:
  assumes "registry_ok reg" and "no_overflow reg pol" and "state_for reg pol start s p"
    and "a \<in> set (edges_from reg pol (st_node s))" and "ad_id a \<notin> set (st_adapter_ids s)"
  shows "\<exists>score raw_cost.
    Option.bind (adapter_score a pol) (u64_checked_add (st_score s)) = Some score \<and>
    u64_checked_add (st_raw_cost s) (ad_cost a) = Some raw_cost \<and>
    unat score = unat (st_score s) + adapter_score_nat a pol \<and>
    unat raw_cost = unat (st_raw_cost s) + unat (ad_cost a)"
proof -
  have "a \<in> usable reg pol" using assms(4) by (simp add: edges_from_def usable_def)
  then have "set (p @ [a]) \<subseteq> usable reg pol" "distinct (p @ [a])"
    using assms(3,5) by (auto simp: state_for_def admissible_def walk_def)
  from no_overflow_path [OF assms(1,2) this(2,1)]
  have bounds: "unat (st_score s) + adapter_score_nat a pol < 2 ^ 64"
      "unat (st_raw_cost s) + unat (ad_cost a) < 2 ^ 64"
    using assms(3) by (simp_all add: state_for_def)
  let ?w = "of_nat (adapter_score_nat a pol) :: u64"
  have w: "unat ?w = adapter_score_nat a pol"
    using bounds(1) by (simp add: unsigned_of_nat take_bit_nat_eq_self)
  then have "adapter_score a pol = Some ?w" by (simp add: adapter_score_Some)
  moreover have "u64_checked_add (st_score s) ?w = Some (st_score s + ?w)"
      "u64_checked_add (st_raw_cost s) (ad_cost a) = Some (st_raw_cost s + ad_cost a)"
    using bounds w by (simp_all add: u64_checked_add_def)
  moreover from this have "unat (st_score s + ?w) = unat (st_score s) + adapter_score_nat a pol"
      "unat (st_raw_cost s + ad_cost a) = unat (st_raw_cost s) + unat (ad_cost a)"
    using w by (auto dest: u64_checked_add_unat)
  ultimately show ?thesis by simp
qed

lemma expand_edge_flag:
  assumes "registry_ok reg" and "no_overflow reg pol" and "state_for reg pol start s p"
    and "a \<in> set (edges_from reg pol (st_node s))"
  shows "se_cost_overflow (expand_edge pol s a se) = se_cost_overflow se"
proof (cases "ad_id a \<in> set (st_adapter_ids s)")
  case False
  then show ?thesis
    using edge_sums [OF assms False] by (auto simp: expand_edge_def Let_def split: option.split)
qed (simp add: expand_edge_def)

lemma expand_edge_mono: "set (se_heap se) \<subseteq> set (se_heap (expand_edge pol s a se))"
  using expand_edge_shape [of pol s a se] by auto

lemma expand_edge_push:
  assumes "registry_ok reg" and "no_overflow reg pol" and "search_sound reg pol start goal se"
    and "state_for reg pol start s p" and "a \<in> set (edges_from reg pol (st_node s))"
    and "optimal reg pol start goal (p @ a # r)"
  shows "\<exists>x\<in>set (se_heap (expand_edge pol s a se)). state_for reg pol start x (p @ [a])"
proof -
  have distinct: "distinct (p @ a # r)" "set (p @ a # r) \<subseteq> usable reg pol"
      "within_hops pol (length (p @ a # r))"
    using assms(6) by (simp_all add: optimal_def admissible_def walk_def)
  then have hops: "within_hops pol (st_hops s + 1)"
    using assms(4) by (fastforce simp: within_hops_def state_for_def)
  have "b = a" if "ad_id b = ad_id a" "b \<in> set p" for b
    using that ids_determine_path [OF assms(1), where p = "[b]" and q = "[a]"] distinct(2) by auto
  then have fresh: "ad_id a \<notin> set (st_adapter_ids s)"
    using assms(4) distinct(1) by (fastforce simp: state_for_def)
  obtain score raw_cost where sums:
      "Option.bind (adapter_score a pol) (u64_checked_add (st_score s)) = Some score"
      "u64_checked_add (st_raw_cost s) (ad_cost a) = Some raw_cost"
      "unat score = unat (st_score s) + adapter_score_nat a pol"
      "unat raw_cost = unat (st_raw_cost s) + unat (ad_cost a)"
    using edge_sums [OF assms(1,2,4,5) fresh] by blast
  have new: "state_for reg pol start (successor s a score raw_cost) (p @ [a])"
    by (rule successor_state_for [OF assms(4,5) hops fresh sums(3,4)])
  have "\<not> v < score" if v: "map_of (se_best_seen se) (ad_target a, st_hops s + 1) = Some v" for v
  proof -
    obtain q where q: "walk reg pol start q (ad_target a)" "length q = st_hops s + 1"
        "path_score pol q = unat v"
      using assms(3) v unfolding search_sound_def by blast
    have "walk reg pol start (p @ [a]) (ad_target a)" "length q = length (p @ [a])"
      using new q(2) by (simp_all add: state_for_def successor_def admissible_def)
    moreover have "optimal reg pol start goal ((p @ [a]) @ r)" using assms(6) by simp
    ultimately have "path_score pol (p @ [a]) \<le> path_score pol q"
      using optimal_prefix_least q(1) by blast
    then show ?thesis
      using new q(3) by (simp add: state_for_def successor_def word_less_nat_alt)
  qed
  then have "se_heap (expand_edge pol s a se) = heap_push (successor s a score raw_cost) (se_heap se)"
    using fresh sums(1,2)
    by (auto simp: expand_edge_def successor_def Let_def split: option.split)
  with new show ?thesis by auto
qed

lemma expand_push:
  assumes "registry_ok reg" and "no_overflow reg pol" and "search_sound reg pol start goal se"
    and "state_for reg pol start s p" and "set as \<subseteq> set (edges_from reg pol (st_node s))"
    and "within_hops pol (st_hops s + 1)"
  shows "se_cost_overflow (fold (expand_edge pol s) as se) = se_cost_overflow se \<and>
    se_goal_paths (fold (expand_edge pol s) as se) = se_goal_paths se \<and>
    se_best_goal (fold (expand_edge pol s) as se) = se_best_goal se \<and>
    set (se_heap se) \<subseteq> set (se_heap (fold (expand_edge pol s) as se)) \<and>
    (\<forall>a\<in>set as. \<forall>r. optimal reg pol start goal (p @ a # r) \<longrightarrow>
       (\<exists>x\<in>set (se_heap (fold (expand_edge pol s) as se)). state_for reg pol start x (p @ [a])))"
  using assms(3,5)
proof (induction as arbitrary: se)
  case (Cons a as)
  let ?se' = "expand_edge pol s a se"
  have a: "a \<in> set (edges_from reg pol (st_node s))" using Cons.prems(2) by simp
  have "search_sound reg pol start goal ?se'"
    by (rule expand_edge_sound [OF Cons.prems(1) assms(4) a assms(6)])
  from Cons.IH [OF this] Cons.prems(2) have IH:
    "se_cost_overflow (fold (expand_edge pol s) as ?se') = se_cost_overflow ?se' \<and>
    se_goal_paths (fold (expand_edge pol s) as ?se') = se_goal_paths ?se' \<and>
    se_best_goal (fold (expand_edge pol s) as ?se') = se_best_goal ?se' \<and>
    set (se_heap ?se') \<subseteq> set (se_heap (fold (expand_edge pol s) as ?se')) \<and>
    (\<forall>b\<in>set as. \<forall>r. optimal reg pol start goal (p @ b # r) \<longrightarrow>
       (\<exists>x\<in>set (se_heap (fold (expand_edge pol s) as ?se')). state_for reg pol start x (p @ [b])))"
    by simp
  moreover have "\<exists>x\<in>set (se_heap ?se'). state_for reg pol start x (p @ [a])"
    if "optimal reg pol start goal (p @ a # r)" for r
    by (rule expand_edge_push [OF assms(1,2) Cons.prems(1) assms(4) a that])
  moreover have "se_cost_overflow ?se' = se_cost_overflow se"
    by (rule expand_edge_flag [OF assms(1,2,4) a])
  moreover have "se_goal_paths ?se' = se_goal_paths se" "se_best_goal ?se' = se_best_goal se"
    using expand_edge_shape [of pol s a se] by blast+
  ultimately show ?case
    using expand_edge_mono [of se pol s a] by (simp only: fold_simps list.set) blast
qed simp

definition search_complete ::
  "adapter_registry \<Rightarrow> planning_policy \<Rightarrow> representation_node \<Rightarrow> representation_node \<Rightarrow> search \<Rightarrow> bool"
where
  "search_complete reg pol start goal se \<longleftrightarrow>
     search_sound reg pol start goal se \<and> \<not> se_cost_overflow se \<and>
     (\<forall>p. optimal reg pol start goal p \<longrightarrow>
        map ad_id p \<in> set (se_goal_paths se) \<or>
        (\<exists>x\<in>set (se_heap se). \<exists>q r. p = q @ r \<and> state_for reg pol start x q)) \<and>
     (\<forall>ids\<in>set (se_goal_paths se). \<exists>p. optimal reg pol start goal p \<and> ids = map ad_id p) \<and>
     (\<forall>b h c. se_best_goal se = Some (b, h, c) \<longrightarrow>
        (\<exists>p. optimal reg pol start goal p \<and> path_key pol p = (unat b, h)))"

lemma search_init_complete: "search_complete reg pol start goal (search_init start)"
proof -
  have "state_for reg pol start
      \<lparr>st_score = 0, st_raw_cost = 0, st_hops = 0, st_node = start, st_adapter_ids = []\<rparr> []"
    by (simp add: state_for_def admissible_def within_hops_def)
  then show ?thesis
    using search_init_sound by (auto simp: search_complete_def search_init_def heap_push_def)
qed

lemma state_for_unique:
  assumes "registry_ok reg" and "state_for reg pol start s p" and "state_for reg pol start s q"
  shows "p = q"
  using assms by (intro ids_determine_path [OF assms(1)]) (auto simp: state_for_def admissible_def walk_def)

lemma key_order:
  assumes "state_for reg pol start s p" and "state_for reg pol start x q" and "st_key s \<le> st_key x"
  shows "path_key pol p \<le> path_key pol q"
proof -
  have "st_score s < st_score x \<or> st_score s = st_score x \<and> st_hops s \<le> st_hops x"
    using assms(3) by (auto simp: st_key_def)
  then show ?thesis
    using assms(1,2) by (auto simp: state_for_def path_key_def word_less_nat_alt)
qed

lemma prefix_key: "path_key pol q \<le> path_key pol (q @ r)"
  by (simp add: path_key_def less_eq_prod_def)

lemma best_goal_order:
  assumes "state_for reg pol start s p"
  shows "(b, h) < (st_score s, st_hops s) \<longleftrightarrow> (unat b, h) < path_key pol p"
  using assms
  by (auto simp: state_for_def path_key_def less_prod_def less_eq_prod_def word_less_nat_alt
      word_le_nat_alt)

lemma optimal_key: "optimal reg pol n m p \<Longrightarrow> optimal reg pol n m q \<Longrightarrow> path_key pol p = path_key pol q"
  by (auto simp: optimal_def intro: antisym)

lemma optimalI:
  "admissible reg pol n p m \<Longrightarrow> optimal reg pol n m q \<Longrightarrow> path_key pol p \<le> path_key pol q \<Longrightarrow>
   optimal reg pol n m p"
  by (auto simp: optimal_def intro: order_trans)

lemma pending_key:
  assumes "search_complete reg pol start goal se" and "se_heap se = s # heap"
    and "state_for reg pol start s p" and "optimal reg pol start goal q"
    and "map ad_id q \<notin> set (se_goal_paths se)"
  shows "path_key pol p \<le> path_key pol q"
proof -
  obtain x q1 r where x: "x \<in> set (s # heap)" "q = q1 @ r" "state_for reg pol start x q1"
    using assms(1,4,5) unfolding search_complete_def assms(2) by blast
  have "sorted (map st_key (s # heap))"
    using assms(1) unfolding search_complete_def search_sound_def assms(2) by blast
  then have "st_key s \<le> st_key x" using x(1) by auto
  then have "path_key pol p \<le> path_key pol q1" by (rule key_order [OF assms(3) x(3)])
  also have "\<dots> \<le> path_key pol q" unfolding x(2) by (rule prefix_key)
  finally show ?thesis .
qed

text \<open>The first time the goal is popped, and every time after, it is by an optimal path.\<close>

lemma popped_goal_optimal:
  assumes "search_complete reg pol start goal se" and "se_heap se = s # heap"
    and "state_for reg pol start s p" and "st_node s = goal"
    and "\<not> (case se_best_goal se of None \<Rightarrow> False
      | Some (b, h, _) \<Rightarrow> (b, h) < (st_score s, st_hops s))"
  shows "optimal reg pol start goal p"
proof -
  have adm: "admissible reg pol start p goal" using assms(3,4) by (simp add: state_for_def)
  obtain q where q: "optimal reg pol start goal q" using optimal_exists [OF adm] by blast
  have "path_key pol p \<le> path_key pol q"
  proof (cases "se_best_goal se")
    case None
    then have "se_goal_paths se = []"
      using assms(1) by (simp add: search_complete_def search_sound_def)
    then show ?thesis using pending_key [OF assms(1-3) q] by simp
  next
    case (Some best)
    obtain b h c where best: "best = (b, h, c)" by (cases best)
    obtain q' where "optimal reg pol start goal q'" "path_key pol q' = (unat b, h)"
      using assms(1) Some best unfolding search_complete_def by blast
    moreover have "\<not> (unat b, h) < path_key pol p"
      using assms(5) unfolding Some best
      by (simp only: option.case prod.case best_goal_order [OF assms(3)] not_False_eq_True)
    ultimately show ?thesis using optimal_key [OF q] by (simp add: not_less)
  qed
  then show ?thesis by (rule optimalI [OF adm q])
qed

lemma unfinished_prefix:
  assumes "optimal reg pol start goal (p @ r)" and "state_for reg pol start s p" and "st_node s \<noteq> goal"
  shows "r \<noteq> []"
proof
  assume "r = []"
  then have "walk reg pol start p goal" "walk reg pol start p (st_node s)"
    using assms(1,2) by (simp_all add: optimal_def admissible_def state_for_def)
  then show False using walk_unique_end assms(3) by metis
qed

lemma search_step_complete:
  assumes "registry_ok reg" and "no_overflow reg pol"
    and "search_complete reg pol start goal se" and "search_step reg pol goal se = Some se'"
  shows "search_complete reg pol start goal se'"
proof -
  obtain s heap where h: "se_heap se = s # heap"
    using assms(4) by (auto simp: search_step_def split: list.splits)
  let ?rest = "se\<lparr>se_heap := heap\<rparr>"
  have sound: "search_sound reg pol start goal se"
    using assms(3) by (simp add: search_complete_def)
  obtain p where p: "state_for reg pol start s p"
    using sound by (auto simp: search_sound_def h)
  have sound': "search_sound reg pol start goal se'" by (rule search_step_sound [OF sound assms(4)])
  have pending: "map ad_id q \<in> set (se_goal_paths se) \<or>
      (\<exists>x\<in>set heap. \<exists>q1 r. q = q1 @ r \<and> state_for reg pol start x q1) \<or> (\<exists>r. q = p @ r)"
    if "optimal reg pol start goal q" for q
    using assms(3) that state_for_unique [OF assms(1) p] unfolding search_complete_def h
    by (metis set_ConsD)
  let ?break = "case se_best_goal se of None \<Rightarrow> False
      | Some (b, h, _) \<Rightarrow> (b, h) < (st_score s, st_hops s)"
  have no_break: "\<not> ?break"
    using assms(4) by (auto simp: search_step_def h Let_def)
  consider (found) "st_node s = goal"
      "se' = ?rest\<lparr>se_best_goal :=
          (case se_best_goal se of
             None \<Rightarrow> Some (st_score s, st_hops s, st_raw_cost s) | Some b \<Rightarrow> Some b),
        se_goal_paths := se_goal_paths se @ [st_adapter_ids s]\<rparr>"
    | (spent) "st_node s \<noteq> goal" "\<not> within_hops pol (st_hops s + 1)" "se' = ?rest"
    | (expanded) "st_node s \<noteq> goal" "within_hops pol (st_hops s + 1)"
        "se' = fold (expand_edge pol s) (edges_from reg pol (st_node s)) ?rest"
    using assms(4)
    by (auto simp: search_step_def h Let_def within_hops_def not_le split: if_splits option.splits)
  then show ?thesis
  proof cases
    case found
    have opt: "optimal reg pol start goal p"
      by (rule popped_goal_optimal [OF assms(3) h p found(1) no_break])
    have ids: "st_adapter_ids s = map ad_id p" "path_key pol p = (unat (st_score s), st_hops s)"
      using p by (auto simp: state_for_def path_key_def)
    have "r = []" if "optimal reg pol start goal (p @ r)" for r
      using optimal_prefix_not_goal [OF that] opt by (auto simp: optimal_def admissible_def)
    then have "map ad_id q \<in> set (se_goal_paths se') \<or>
        (\<exists>x\<in>set (se_heap se'). \<exists>q1 r. q = q1 @ r \<and> state_for reg pol start x q1)"
      if "optimal reg pol start goal q" for q
      using pending [OF that] that by (auto simp: found(2) ids)
    moreover have "\<exists>q. optimal reg pol start goal q \<and> i = map ad_id q"
      if "i \<in> set (se_goal_paths se')" for i
      using assms(3) that opt by (auto simp: search_complete_def found(2) ids)
    moreover have "\<exists>q. optimal reg pol start goal q \<and> path_key pol q = (unat b, k)"
      if "se_best_goal se' = Some (b, k, c)" for b k c
      using assms(3) that opt ids(2)
      by (cases "se_best_goal se") (auto simp: search_complete_def found(2))
    ultimately show ?thesis
      using sound' assms(3) by (auto simp: search_complete_def found(2))
  next
    case spent
    have "\<not> (\<exists>r. q = p @ r)" if q: "optimal reg pol start goal q" for q
    proof
      assume "\<exists>r. q = p @ r"
      then obtain r where r: "q = p @ r" by blast
      have "r \<noteq> []" using unfinished_prefix q p spent(1) r by blast
      then have "length p + 1 \<le> length q" using r by (cases r) simp_all
      moreover have "within_hops pol (length q)" using q by (simp add: optimal_def admissible_def)
      ultimately show False using spent(2) p by (auto simp: within_hops_def state_for_def)
    qed
    then show ?thesis
      using pending sound' assms(3) by (simp add: search_complete_def spent(3))
  next
    case expanded
    have rest: "search_sound reg pol start goal ?rest"
      using sound by (auto simp: search_sound_def h)
    note push = expand_push [OF assms(1,2) rest p subset_refl expanded(2)]
    have "map ad_id q \<in> set (se_goal_paths se') \<or>
        (\<exists>x\<in>set (se_heap se'). \<exists>q1 r. q = q1 @ r \<and> state_for reg pol start x q1)"
      if q: "optimal reg pol start goal q" for q
    proof (cases "\<exists>r. q = p @ r")
      case False
      then show ?thesis using pending [OF q] push unfolding expanded(3) by (simp, blast)
    next
      case True
      then obtain r where r: "q = p @ r" by blast
      have "r \<noteq> []" using unfinished_prefix q p expanded(1) r by blast
      then obtain a r' where q': "q = p @ a # r'" using r by (cases r) auto
      then have "walk reg pol start (p @ a # r') goal" using q by (simp add: optimal_def admissible_def)
      then obtain k where k: "walk reg pol start p k" "ad_source a = k" "a \<in> usable reg pol"
        unfolding walk_append walk_simps by blast
      then have "k = st_node s"
        using p walk_unique_end unfolding state_for_def admissible_def by metis
      with k have "a \<in> set (edges_from reg pol (st_node s))" by (simp add: edges_from_def usable_def)
      then obtain x where "x \<in> set (se_heap se')" "state_for reg pol start x (p @ [a])"
        using push q unfolding expanded(3) q' by blast
      then show ?thesis unfolding q' by (metis append.assoc append_Cons append_Nil)
    qed
    then show ?thesis
      using push sound' assms(3) unfolding search_complete_def expanded(3)
      by (simp del: fold_simps)
  qed
qed

lemma search_goal_paths:
  fixes start goal :: representation_node
  assumes "registry_ok reg" and "no_overflow reg pol"
  defines "se \<equiv> search_loop reg pol goal (search_init start)"
  shows "\<not> se_cost_overflow se \<and>
    set (se_goal_paths se) = map ad_id ` {p. optimal reg pol start goal p}"
proof -
  have "search_complete reg pol start goal se \<and> search_step reg pol goal se = None"
    unfolding se_def
    by (rule search_loop_invariant)
      (erule (1) search_step_complete [OF assms(1,2)], rule search_init_complete)
  then have complete: "search_complete reg pol start goal se"
    and stop: "search_step reg pol goal se = None"
    by blast+
  have "map ad_id q \<in> set (se_goal_paths se)" if q: "optimal reg pol start goal q" for q
  proof (cases "se_heap se")
    case Nil
    then show ?thesis using complete q by (auto simp: search_complete_def)
  next
    case (Cons s heap)
    obtain p where p: "state_for reg pol start s p"
      using complete Cons by (auto simp: search_complete_def search_sound_def)
    obtain b h c where best: "se_best_goal se = Some (b, h, c)" "(b, h) < (st_score s, st_hops s)"
      using stop by (auto simp: search_step_def Cons Let_def split: if_splits option.splits)
    then obtain q' where "optimal reg pol start goal q'" "path_key pol q' = (unat b, h)"
      using complete unfolding search_complete_def by blast
    then have "path_key pol q = (unat b, h)" using optimal_key [OF q] by simp
    moreover have "(unat b, h) < path_key pol p" using best(2) best_goal_order [OF p] by simp
    ultimately show ?thesis
      using pending_key [OF complete Cons p q] by (auto simp: not_le [symmetric])
  qed
  then show ?thesis using complete by (auto simp: search_complete_def)
qed

lemma optimal_ids_inj:
  assumes "registry_ok reg"
  shows "inj_on (map ad_id) {p. optimal reg pol n m p}"
  using ids_determine_path [OF assms]
  by (auto simp: inj_on_def optimal_def admissible_def walk_def)

lemma goal_path_lists:
  fixes start goal :: representation_node
  assumes "registry_ok reg" and "no_overflow reg pol"
  defines "paths \<equiv> bset_of (se_goal_paths (search_loop reg pol goal (search_init start)))"
  shows "set paths = map ad_id ` {p. optimal reg pol start goal p}"
    and "length paths = card {p. optimal reg pol start goal p}"
proof -
  show paths: "set paths = map ad_id ` {p. optimal reg pol start goal p}"
    using search_goal_paths [OF assms(1,2)] by (simp add: paths_def)
  have "distinct paths" unfolding paths_def using sorted_bset_of strict_sorted_iff by blast
  then show "length paths = card {p. optimal reg pol start goal p}"
    using paths card_image [OF optimal_ids_inj [OF assms(1)]] by (metis distinct_card)
qed

lemma find_path_complete_lemma:
  assumes "registry_ok reg" and "no_overflow reg pol" and "(t, r) \<noteq> (t', r')"
  shows "((\<nexists>p. admissible reg pol (t, r) p (t', r')) \<longrightarrow>
      find_path reg t r t' r' pol = unresolved ''no_path'' ''no adapter path'' []) \<and>
    ((\<exists>p. admissible reg pol (t, r) p (t', r')) \<longrightarrow>
      (if pp_require_user_choice_on_ambiguity pol \<and>
          1 < card {p. optimal reg pol (t, r) (t', r') p}
       then \<exists>paths. find_path reg t r t' r' pol =
             unresolved ''ambiguous_path''
               ''multiple equivalent adapter paths require user choice'' (map join_ids paths) \<and>
           set paths = map ad_id ` {p. optimal reg pol (t, r) (t', r') p} \<and> distinct paths
       else \<exists>p. pr_path (find_path reg t r t' r' pol) = Some p \<and>
           optimal reg pol (t, r) (t', r') (pt_adapters p)))"
proof -
  let ?start = "(t, r)" and ?goal = "(t', r')"
  let ?se = "search_loop reg pol ?goal (search_init ?start)"
  let ?opt = "{p. optimal reg pol ?start ?goal p}"
  let ?paths = "bset_of (se_goal_paths ?se)"
  have found: "\<not> se_cost_overflow ?se" "set (se_goal_paths ?se) = map ad_id ` ?opt"
    using search_goal_paths [OF assms(1,2)] by blast+
  have ne: "(t = t' \<and> r = r') = False" using assms(3) by simp
  note paths = goal_path_lists [OF assms(1,2), where start = ?start and goal = ?goal]
  have "?opt = {} \<longleftrightarrow> (\<nexists>p. admissible reg pol ?start p ?goal)"
    using optimal_exists [of reg pol ?start _ ?goal] unfolding optimal_def by blast
  then have empty: "se_goal_paths ?se = [] \<longleftrightarrow> (\<nexists>p. admissible reg pol ?start p ?goal)"
    using found(2) by (metis image_is_empty set_empty)
  show ?thesis
  proof (cases "se_goal_paths ?se = []")
    case True
    then show ?thesis using empty found(1) by (simp add: find_path_def Let_def ne)
  next
    case False
    then have adm: "\<exists>p. admissible reg pol ?start p ?goal" using empty by blast
    show ?thesis
    proof (cases "pp_require_user_choice_on_ambiguity pol \<and> 1 < card ?opt")
      case True
      then have "find_path reg t r t' r' pol = unresolved ''ambiguous_path''
          ''multiple equivalent adapter paths require user choice'' (map join_ids ?paths)"
        using False True found(1) paths(2) by (simp add: find_path_def Let_def ne)
      moreover have "distinct ?paths" using sorted_bset_of strict_sorted_iff by blast
      ultimately show ?thesis using adm True paths(1) by auto
    next
      case one: False
      have "hd ?paths \<in> set ?paths" using False by (metis bset_of_eq_Nil hd_in_set)
      then obtain p where p: "optimal reg pol ?start ?goal p" "hd ?paths = map ad_id p"
        using paths(1) by auto
      then have usable: "set p \<subseteq> usable reg pol" "distinct p"
        by (simp_all add: optimal_def admissible_def walk_def)
      note sums = no_overflow_path [OF assms(1,2) usable(2,1)]
      have "List.map_filter (map_of reg) (hd ?paths) = p"
        using adapters_of_ids [OF assms(1) usable(1)] p(2) by simp
      moreover have "sum_checked (\<lambda>a. Some (ad_cost a)) p = Some (of_nat (path_cost p))"
        using sums(2) by (simp add: sum_checked_cost unsigned_of_nat take_bit_nat_eq_self)
      moreover have "sum_checked (\<lambda>a. adapter_score a pol) p = Some (of_nat (path_score pol p))"
        using sums(1) by (simp add: sum_checked_score unsigned_of_nat take_bit_nat_eq_self)
      moreover have "\<not> (1 < length ?paths \<and> pp_require_user_choice_on_ambiguity pol)"
        using one paths(2) by auto
      ultimately have "pr_path (find_path reg t r t' r' pol) =
          Some \<lparr>pt_adapters = p, pt_total_cost = of_nat (path_cost p),
                pt_effective_score = of_nat (path_score pol p)\<rparr>"
        using False found(1) by (auto simp: find_path_def Let_def resolved_def ne)
      with p(1) adm one show ?thesis by auto
    qed
  qed
qed

text \<open>
  C8. Optimality and completeness of path resolution, when no sum of scores can leave 64 bits and the
  two representations differ: if there is no admissible path the answer is \<open>no_path\<close>; otherwise, if
  the policy asks for a choice and there are several best paths in (score, hops), the answer is
  \<open>ambiguous_path\<close> with one choice for each of them; otherwise a best path is returned. The
  pruning of the search by node and hop count never loses a best path.
\<close>

theorem find_path_complete:
  assumes "registry_ok reg" and "no_overflow reg pol" and "(t, r) \<noteq> (t', r')"
  shows "((\<nexists>p. admissible reg pol (t, r) p (t', r')) \<longrightarrow>
      find_path reg t r t' r' pol = unresolved ''no_path'' ''no adapter path'' []) \<and>
    ((\<exists>p. admissible reg pol (t, r) p (t', r')) \<longrightarrow>
      (if pp_require_user_choice_on_ambiguity pol \<and>
          1 < card {p. optimal reg pol (t, r) (t', r') p}
       then \<exists>paths. find_path reg t r t' r' pol =
             unresolved ''ambiguous_path''
               ''multiple equivalent adapter paths require user choice'' (map join_ids paths) \<and>
           set paths = map ad_id ` {p. optimal reg pol (t, r) (t', r') p} \<and> distinct paths
       else \<exists>p. pr_path (find_path reg t r t' r' pol) = Some p \<and>
           optimal reg pol (t, r) (t', r') (pt_adapters p)))"
  using assms by (rule find_path_complete_lemma)

section \<open>Registration\<close>

lemma bt_collect_snoc: "bt_collect (kvs @ [(k, v)]) = bt_insert k v (bt_collect kvs)"
  by (simp add: bt_collect_def)

lemma registry_from_spec_ok:
  "registry_from_spec adapters = Inr reg \<longleftrightarrow>
     (\<forall>a\<in>set adapters. adapter_validate a = Inr ()) \<and> distinct (map ad_id adapters) \<and>
     reg = bt_collect (map (\<lambda>a. (ad_id a, a)) adapters)"
proof (induction adapters arbitrary: reg rule: rev_induct)
  case Nil
  then show ?case by (auto simp: registry_from_spec_def bt_collect_def)
next
  case (snoc a adapters)
  have "map_of (bt_collect (map (\<lambda>a. (ad_id a, a)) adapters)) (ad_id a) = None \<longleftrightarrow>
      ad_id a \<notin> ad_id ` set adapters"
    by (simp add: bt.get_collect map_of_eq_None_iff image_image)
  then show ?case
    using snoc.IH
    by (auto simp: registry_from_spec_def fold_res_append rbind_eq_Inr register_adapter_def
        if_Inl_eq_Inr bt_collect_snoc simp del: not_None_eq)
qed

lemma registry_from_spec_registry_ok:
  assumes "registry_from_spec adapters = Inr reg"
  shows "registry_ok reg"
proof -
  have reg: "reg = bt_collect (map (\<lambda>a. (ad_id a, a)) adapters)" and "distinct (map ad_id adapters)"
    using assms by (simp_all add: registry_from_spec_ok)
  then have lookup: "map_of reg = map_of (map (\<lambda>a. (ad_id a, a)) adapters)"
    by (simp add: bt.get_collect_distinct comp_def)
  have "k = ad_id a" if "(k, a) \<in> set reg" for k a
  proof -
    have "map_of reg k = Some a"
      using that reg by (simp add: bt.wf_collect bt_wf_distinct)
    then have "map_of (map (\<lambda>a. (ad_id a, a)) adapters) k = Some a" using lookup by simp
    from map_of_SomeD [OF this] show ?thesis by auto
  qed
  then show ?thesis using reg by (auto simp: registry_ok_def bt.wf_collect)
qed

text \<open>
  The order in which adapters are registered does not matter: a permutation of an accepted list
  is accepted, gives the same registry, and so resolves every path in the same way.
\<close>

lemma registration_order_independent:
  assumes "registry_from_spec adapters = Inr reg" and "mset adapters = mset adapters'"
  shows "registry_from_spec adapters' = Inr reg"
proof -
  have ok: "\<forall>a\<in>set adapters. adapter_validate a = Inr ()" "distinct (map ad_id adapters)"
    and reg: "reg = bt_collect (map (\<lambda>a. (ad_id a, a)) adapters)"
    using assms(1) by (simp_all add: registry_from_spec_ok)
  have "distinct (map ad_id adapters')" using ok(2) distinct_map_perm [OF assms(2)] by blast
  moreover have "bt_collect (map (\<lambda>a. (ad_id a, a)) adapters) =
      bt_collect (map (\<lambda>a. (ad_id a, a)) adapters')"
    using ok(2) calculation mset_eq_setD [OF assms(2)]
    by (intro bt.collect_order_irrelevant) (simp_all add: comp_def)
  ultimately show ?thesis
    using ok(1) reg mset_eq_setD [OF assms(2)] by (simp add: registry_from_spec_ok)
qed

section \<open>A small registry\<close>

definition demo_adapter :: "string \<Rightarrow> string \<Rightarrow> string \<Rightarrow> u64 \<Rightarrow> adapter_spec" where
  "demo_adapter i source target cost =
     \<lparr>ad_id = i, ad_version = ''v'', ad_input_type = Ident ''T'', ad_input_representation = Ident source,
      ad_output_type = Ident ''T'', ad_output_representation = Ident target, ad_cost = cost,
      ad_lossy = False, ad_supervised = False, ad_stateful = False, ad_deterministic = True,
      ad_fit_scope = Stateless, ad_params = []\<rparr>"

text \<open>A direct adapter of cost 5 and a detour of two adapters of cost 1.\<close>

definition demo_adapters :: "adapter_spec list" where
  "demo_adapters =
     [demo_adapter ''a'' ''x'' ''y'' 1, demo_adapter ''b'' ''y'' ''z'' 1, demo_adapter ''c'' ''x'' ''z'' 5]"

definition demo_registry :: adapter_registry where
  "demo_registry = map (\<lambda>a. (ad_id a, a)) demo_adapters"

lemma demo_registered:
  "registry_from_spec demo_adapters = Inr demo_registry"
proof -
  have "\<forall>a\<in>set demo_adapters. adapter_validate a = Inr ()"
    by (simp add: demo_adapters_def demo_adapter_def adapter_validate_def validate_name_def
        is_blank_graphic is_ascii_graphic_def byte_of_def name_char_def ascii_class_defs)
  moreover have "bt_collect (map (\<lambda>a. (ad_id a, a)) demo_adapters) = demo_registry"
    by (simp add: bt_collect_def demo_registry_def demo_adapters_def demo_adapter_def)
  ultimately show ?thesis
    by (simp add: registry_from_spec_ok, simp add: demo_adapters_def demo_adapter_def)
qed

lemma registration_order_independent_witness:
  "registry_from_spec (rev demo_adapters) = Inr demo_registry"
  by (rule registration_order_independent [OF demo_registered]) simp

lemma demo_registry_ok: "registry_ok demo_registry"
  by (rule registry_from_spec_registry_ok [OF demo_registered])

lemma demo_edges:
  "edges_from demo_registry default_policy (Ident ''T'', Ident ''x'') =
     [demo_adapter ''a'' ''x'' ''y'' 1, demo_adapter ''c'' ''x'' ''z'' 5]"
  "edges_from demo_registry default_policy (Ident ''T'', Ident ''y'') = [demo_adapter ''b'' ''y'' ''z'' 1]"
  by (simp_all add: edges_from_def demo_registry_def demo_adapters_def demo_adapter_def ad_source_def
      permitted_def default_policy_def)

lemma demo_score: "cost \<in> {1, 5} \<Longrightarrow> adapter_score (demo_adapter i s t cost) default_policy = Some cost"
  by (auto simp: adapter_score_def adapter_score_nat_def demo_adapter_def default_policy_def)

lemma demo_adapter_fields:
  "ad_id (demo_adapter i source target cost) = i" "ad_cost (demo_adapter i source target cost) = cost"
  "ad_target (demo_adapter i source target cost) = (Ident ''T'', Ident target)"
  "pp_max_hops default_policy = None" "pp_require_user_choice_on_ambiguity default_policy"
  by (simp_all add: demo_adapter_def ad_target_def default_policy_def)

lemmas demo_search_simps =
  search_step_def expand_edge_def heap_push_def st_key_def u64_checked_add_def Let_def
  demo_edges demo_score demo_adapter_fields less_ident_def less_eq_ident_def
  word_le_nat_alt word_less_nat_alt

lemma goal_paths_step:
  "search_step reg pol goal se = Some se' \<Longrightarrow>
     se_goal_paths (search_loop reg pol goal se') = ps \<Longrightarrow> se_goal_paths (search_loop reg pol goal se) = ps"
  "search_step reg pol goal se = None \<Longrightarrow>
     se_goal_paths se = ps \<Longrightarrow> se_goal_paths (search_loop reg pol goal se) = ps"
  by (subst search_loop.simps, simp)+

lemma demo_goal_paths:
  "se_goal_paths (search_loop demo_registry default_policy (Ident ''T'', Ident ''z'')
     (search_init (Ident ''T'', Ident ''x''))) = [[''a'', ''b'']]"
  unfolding search_init_def
  apply (rule goal_paths_step(1), simp add: demo_search_simps)
  apply (rule goal_paths_step(1), simp add: demo_search_simps)
  apply (rule goal_paths_step(1), simp add: demo_search_simps)
  apply (rule goal_paths_step(2), simp add: demo_search_simps)
  apply simp
  done

lemma demo_path:
  "find_path demo_registry (Ident ''T'') (Ident ''x'') (Ident ''T'') (Ident ''z'') default_policy =
     resolved \<lparr>pt_adapters = [demo_adapter ''a'' ''x'' ''y'' 1, demo_adapter ''b'' ''y'' ''z'' 1],
              pt_total_cost = 2, pt_effective_score = 2\<rparr>"
proof -
  have "bset_of [[''a'', ''b'']] = [[''a'', ''b'']]" by (rule bset_of_id) simp
  moreover have "List.map_filter (map_of demo_registry) [''a'', ''b''] =
      [demo_adapter ''a'' ''x'' ''y'' 1, demo_adapter ''b'' ''y'' ''z'' 1]"
    by (simp add: List.map_filter_simps demo_registry_def demo_adapters_def demo_adapter_fields)
  ultimately show ?thesis
    by (simp add: find_path_def Let_def demo_goal_paths sum_checked_def demo_score demo_adapter_fields
        u64_checked_add_def)
qed

lemma find_path_sound_witness:
  "chain (Ident ''T'', Ident ''x'') [demo_adapter ''a'' ''x'' ''y'' 1, demo_adapter ''b'' ''y'' ''z'' 1]
     (Ident ''T'', Ident ''z'') \<and>
   path_cost [demo_adapter ''a'' ''x'' ''y'' 1, demo_adapter ''b'' ''y'' ''z'' 1] = 2"
  using find_path_sound [OF demo_registry_ok,
      of "Ident ''T''" "Ident ''x''" "Ident ''T''" "Ident ''z''" default_policy]
  by (simp only: demo_path resolved_def path_resolution.select_convs option.case adapter_path.select_convs)
    simp

lemma find_path_complete_witness:
  "\<exists>p. pr_path (find_path demo_registry (Ident ''T'') (Ident ''x'') (Ident ''T'') (Ident ''z'')
       (default_policy\<lparr>pp_require_user_choice_on_ambiguity := False\<rparr>)) = Some p \<and>
     optimal demo_registry (default_policy\<lparr>pp_require_user_choice_on_ambiguity := False\<rparr>)
       (Ident ''T'', Ident ''x'') (Ident ''T'', Ident ''z'') (pt_adapters p)"
proof -
  let ?pol = "default_policy\<lparr>pp_require_user_choice_on_ambiguity := False\<rparr>"
  have "no_overflow demo_registry ?pol"
    by (simp add: no_overflow_def demo_registry_def demo_adapters_def adapter_score_nat_def
        demo_adapter_def default_policy_def)
  moreover have "admissible demo_registry ?pol (Ident ''T'', Ident ''x'') [demo_adapter ''c'' ''x'' ''z'' 5]
      (Ident ''T'', Ident ''z'')"
    by (simp add: admissible_def walk_def usable_def within_hops_def demo_registry_def demo_adapters_def
        permitted_def demo_adapter_def default_policy_def ad_source_def ad_target_def)
  ultimately show ?thesis
    using find_path_complete [OF demo_registry_ok, of ?pol "Ident ''T''" "Ident ''x''" "Ident ''T''" "Ident ''z''"]
    by auto
qed

end
