(* ===== verification/Builtin_Models.thy ===== *)
theory Builtin_Models
  imports Schema_Model Adapter_Search
begin

text \<open>
  The catalogue of built-in data models (\<open>builtin_models.rs\<close>): the representation of each, the
  built-in adapters between them and the default planning policy. The vocabulary constants
  (\<open>TYPE_*\<close>, \<open>REPRESENTATION_*\<close>) are written out. \<open>tid\<close> and \<open>rid\<close> panic on a text that is not an
  identifier; that no constant of the catalogue is refused is part of \<open>builtin_catalogue\<close>.
\<close>

section \<open>Constructors\<close>

definition tid :: "string \<Rightarrow> type_id" where
  "tid v = Ident v"

definition rid :: "string \<Rightarrow> representation_id" where
  "rid v = Ident v"

record representation_storage =
  rs_container :: string
  rs_dtype :: "string option"
  rs_sparse :: bool
  rs_ragged :: bool
  rs_signal_type :: "signal_kind option"

definition representation_storage_new ::
  "string \<Rightarrow> string option \<Rightarrow> bool \<Rightarrow> bool \<Rightarrow> signal_kind option \<Rightarrow> representation_storage"
where
  "representation_storage_new container dtype sparse ragged signal_type =
     \<lparr>rs_container = container, rs_dtype = dtype, rs_sparse = sparse, rs_ragged = ragged,
      rs_signal_type = signal_type\<rparr>"

definition representation ::
  "string \<Rightarrow> string \<Rightarrow> usize option \<Rightarrow> axis_spec list \<Rightarrow> representation_storage \<Rightarrow> representation_spec"
where
  "representation i type_id rank axes storage =
     \<lparr>rp_id = rid i, rp_type_id = tid type_id, rp_rank = rank, rp_axes = axes,
      rp_container = rs_container storage, rp_dtype = rs_dtype storage,
      rp_sparse = rs_sparse storage, rp_ragged = rs_ragged storage,
      rp_signal_type = rs_signal_type storage\<rparr>"

definition axis :: "string \<Rightarrow> axis_kind \<Rightarrow> string option \<Rightarrow> usize option \<Rightarrow> bool \<Rightarrow> axis_spec" where
  "axis name kind unit n variable =
     \<lparr>ax_name = name, ax_kind = kind, ax_unit = unit, ax_size = n, ax_variable = variable,
      ax_coordinate = None\<rparr>"

definition sample_axis :: axis_spec where
  "sample_axis = axis ''sample'' AxisSample None None False"

section \<open>Representations\<close>

definition signal_1d :: "signal_kind \<Rightarrow> representation_spec" where
  "signal_1d signal_type =
     representation ''signal_1d'' ''dense_signal'' (Some 2)
       [sample_axis,
        axis ''wavelength'' AxisWavelength (Some ''nm'') None False]
       (representation_storage_new ''ndarray'' (Some ''float64'') False False (Some signal_type))"

definition signal_with_processings :: "signal_kind \<Rightarrow> representation_spec" where
  "signal_with_processings signal_type =
     representation ''signal_with_processings'' ''dense_signal'' (Some 3)
       [sample_axis,
        axis ''processing'' AxisProcessing None None False,
        axis ''wavelength'' AxisWavelength (Some ''nm'') None False]
       (representation_storage_new ''ndarray'' (Some ''float64'') False False (Some signal_type))"

definition spectroscopy_signal :: "string \<Rightarrow> representation_spec" where
  "spectroscopy_signal representation_id =
     representation representation_id ''dense_signal'' (Some 2)
       [sample_axis,
        axis ''wavenumber'' AxisWavenumber (Some ''cm^-1'') None False]
       (representation_storage_new ''ndarray'' (Some ''float64'') False False (Some UnknownSignal))"

definition raman_signal :: representation_spec where
  "raman_signal = spectroscopy_signal ''raman_signal''"

definition ftir_signal :: representation_spec where
  "ftir_signal = spectroscopy_signal ''ftir_signal''"

definition tabular_numeric :: representation_spec where
  "tabular_numeric =
     representation ''tabular_numeric'' ''table'' (Some 2)
       [sample_axis,
        axis ''feature'' AxisFeature None None False]
       (representation_storage_new ''dataframe'' (Some ''float64'') False False None)"

definition tabular_mixed :: representation_spec where
  "tabular_mixed =
     representation ''tabular_mixed'' ''table'' (Some 2)
       [sample_axis,
        axis ''column'' AxisFeature None None False]
       (representation_storage_new ''dataframe'' None False False None)"

definition feature_block_set :: representation_spec where
  "feature_block_set =
     representation ''feature_block_set'' ''multi_block'' (Some 3)
       [sample_axis,
        axis ''block'' AxisFeature None None False,
        axis ''feature'' AxisFeature None None True]
       (representation_storage_new ''feature_block_set'' (Some ''float64'') False True None)"

definition series_mv :: "string \<Rightarrow> representation_spec" where
  "series_mv representation_id =
     representation representation_id ''time_series'' (Some 3)
       [sample_axis,
        axis ''time'' AxisTime None None True,
        axis ''variable'' AxisFeature None None False]
       (representation_storage_new ''ndarray'' (Some ''float64'') False True None)"

definition genotype_variant_matrix :: representation_spec where
  "genotype_variant_matrix =
     representation ''variant_matrix'' ''genotype_matrix'' (Some 2)
       [sample_axis,
        axis ''variant'' AxisVariant None None False]
       (representation_storage_new ''ndarray'' (Some ''int8'') False False None)"

definition genotype_dosage_matrix :: representation_spec where
  "genotype_dosage_matrix =
     representation ''dosage_matrix'' ''genotype_matrix'' (Some 2)
       [sample_axis,
        axis ''variant'' AxisVariant None None False]
       (representation_storage_new ''ndarray'' (Some ''float32'') False False None)"

definition rgb_image :: representation_spec where
  "rgb_image =
     representation ''rgb_image'' ''image_rgb'' (Some 4)
       [sample_axis,
        axis ''height'' AxisHeight (Some ''px'') None False,
        axis ''width'' AxisWidth (Some ''px'') None False,
        axis ''channel'' AxisChannel None (Some 3) False]
       (representation_storage_new ''ndarray'' (Some ''uint8'') False False None)"

definition gray_image :: representation_spec where
  "gray_image =
     representation ''gray_image'' ''gray_image'' (Some 3)
       [sample_axis,
        axis ''height'' AxisHeight (Some ''px'') None False,
        axis ''width'' AxisWidth (Some ''px'') None False]
       (representation_storage_new ''ndarray'' (Some ''uint8'') False False None)"

definition multichannel_image :: representation_spec where
  "multichannel_image =
     representation ''mc_image'' ''multichannel_image'' (Some 4)
       [sample_axis,
        axis ''height'' AxisHeight (Some ''px'') None False,
        axis ''width'' AxisWidth (Some ''px'') None False,
        axis ''channel'' AxisChannel None None False]
       (representation_storage_new ''ndarray'' (Some ''float32'') False False None)"

definition multispectral_image :: representation_spec where
  "multispectral_image =
     representation ''multispectral_image'' ''multichannel_image'' (Some 4)
       [sample_axis,
        axis ''height'' AxisHeight (Some ''px'') None False,
        axis ''width'' AxisWidth (Some ''px'') None False,
        axis ''band'' AxisChannel None None False]
       (representation_storage_new ''ndarray'' (Some ''float32'') False False None)"

definition hyperspectral_cube :: representation_spec where
  "hyperspectral_cube =
     representation ''cube_hwb'' ''hyperspectral_cube'' (Some 4)
       [sample_axis,
        axis ''height'' AxisHeight (Some ''px'') None False,
        axis ''width'' AxisWidth (Some ''px'') None False,
        axis ''band'' AxisWavelength (Some ''nm'') None False]
       (representation_storage_new ''ndarray'' (Some ''float32'') False False None)"

definition segmentation_mask :: representation_spec where
  "segmentation_mask =
     representation ''segmentation_mask'' ''label_mask'' (Some 3)
       [sample_axis,
        axis ''height'' AxisHeight (Some ''px'') None False,
        axis ''width'' AxisWidth (Some ''px'') None False]
       (representation_storage_new ''ndarray'' (Some ''int32'') False False None)"

definition roi_mask :: representation_spec where
  "roi_mask =
     representation ''roi_mask'' ''label_mask'' (Some 3)
       [sample_axis,
        axis ''height'' AxisHeight (Some ''px'') None False,
        axis ''width'' AxisWidth (Some ''px'') None False]
       (representation_storage_new ''ndarray'' (Some ''bool'') False False None)"

definition sample_metadata :: representation_spec where
  "sample_metadata =
     representation ''sample_metadata'' ''metadata'' (Some 2)
       [sample_axis,
        axis ''field'' AxisFeature None None False]
       (representation_storage_new ''dataframe'' None False False None)"

definition target_numeric :: representation_spec where
  "target_numeric =
     representation ''target_numeric'' ''target'' (Some 1)
       [sample_axis]
       (representation_storage_new ''array'' (Some ''float64'') False False None)"

definition target_categorical :: representation_spec where
  "target_categorical =
     representation ''target_categorical'' ''target'' (Some 1)
       [sample_axis]
       (representation_storage_new ''array'' (Some ''string'') False False None)"

definition mass_spectrum :: representation_spec where
  "mass_spectrum =
     representation ''mass_spectrum'' ''mass_spec'' (Some 2)
       [sample_axis,
        axis ''mz'' AxisFeature (Some ''m/z'') None True]
       (representation_storage_new ''ragged_array'' (Some ''float64'') False True None)"

definition text_raw_representation :: representation_spec where
  "text_raw_representation =
     representation ''text_raw'' ''text'' (Some 1)
       [sample_axis]
       (representation_storage_new ''list'' (Some ''string'') False True None)"

definition text_token_ids :: representation_spec where
  "text_token_ids =
     representation ''text_token_ids'' ''text'' (Some 2)
       [sample_axis,
        axis ''token'' AxisToken None None True]
       (representation_storage_new ''ragged_array'' (Some ''int32'') False True None)"

definition target_matrix :: "string \<Rightarrow> string option \<Rightarrow> representation_spec" where
  "target_matrix representation_id dtype =
     representation representation_id ''target'' (Some 2)
       [sample_axis,
        axis ''target'' AxisTarget None None False]
       (representation_storage_new ''array'' dtype False False None)"

definition target_numeric_matrix :: representation_spec where
  "target_numeric_matrix = target_matrix ''target_numeric_matrix'' (Some ''float64'')"

definition target_categorical_matrix :: representation_spec where
  "target_categorical_matrix = target_matrix ''target_categorical_matrix'' (Some ''string'')"

section \<open>Built-in models\<close>

datatype builtin_data_model =
    NirsSignal1d | NirsSignalWithProcessings | RamanSignal | FtirSignal
  | TabularNumeric | TabularMixed | FeatureBlockSet | SeriesMultivariate
  | ClimateSeriesMultivariate | GenotypeVariantMatrix | GenotypeDosageMatrix | RgbImage
  | GrayImage | MultichannelImage | MultispectralImage | HyperspectralCube
  | SegmentationMask | RoiMask | SampleMetadata | TargetNumeric
  | TargetCategorical | TargetNumericMatrix | TargetCategoricalMatrix | MassSpectrum
  | TextRaw | TextTokenIds

definition builtin_data_models :: "builtin_data_model list" where
  "builtin_data_models =
     [NirsSignal1d, NirsSignalWithProcessings, RamanSignal, FtirSignal,
      TabularNumeric, TabularMixed, FeatureBlockSet, SeriesMultivariate,
      ClimateSeriesMultivariate, GenotypeVariantMatrix, GenotypeDosageMatrix, RgbImage,
      GrayImage, MultichannelImage, MultispectralImage, HyperspectralCube,
      SegmentationMask, RoiMask, SampleMetadata, TargetNumeric,
      TargetCategorical, TargetNumericMatrix, TargetCategoricalMatrix, MassSpectrum,
      TextRaw, TextTokenIds]"

fun builtin_key :: "builtin_data_model \<Rightarrow> string" where
  "builtin_key NirsSignal1d = ''nirs.signal_1d''"
| "builtin_key NirsSignalWithProcessings = ''nirs.signal_with_processings''"
| "builtin_key RamanSignal = ''spectroscopy.raman_signal''"
| "builtin_key FtirSignal = ''spectroscopy.ftir_signal''"
| "builtin_key TabularNumeric = ''tabular.numeric''"
| "builtin_key TabularMixed = ''tabular.mixed''"
| "builtin_key FeatureBlockSet = ''features.block_set''"
| "builtin_key SeriesMultivariate = ''series.multivariate''"
| "builtin_key ClimateSeriesMultivariate = ''climate.series_multivariate''"
| "builtin_key GenotypeVariantMatrix = ''genotype.variant_matrix''"
| "builtin_key GenotypeDosageMatrix = ''genotype.dosage_matrix''"
| "builtin_key RgbImage = ''image.rgb''"
| "builtin_key GrayImage = ''image.gray''"
| "builtin_key MultichannelImage = ''image.multichannel''"
| "builtin_key MultispectralImage = ''image.multispectral''"
| "builtin_key HyperspectralCube = ''hyperspectral.cube''"
| "builtin_key SegmentationMask = ''image.segmentation_mask''"
| "builtin_key RoiMask = ''image.roi_mask''"
| "builtin_key SampleMetadata = ''metadata.sample''"
| "builtin_key TargetNumeric = ''target.numeric''"
| "builtin_key TargetCategorical = ''target.categorical''"
| "builtin_key TargetNumericMatrix = ''target.numeric_matrix''"
| "builtin_key TargetCategoricalMatrix = ''target.categorical_matrix''"
| "builtin_key MassSpectrum = ''mass_spec.spectrum''"
| "builtin_key TextRaw = ''text.raw''"
| "builtin_key TextTokenIds = ''text.token_ids''"

fun builtin_modality :: "builtin_data_model \<Rightarrow> string" where
  "builtin_modality NirsSignal1d = ''nirs''"
| "builtin_modality NirsSignalWithProcessings = ''nirs''"
| "builtin_modality RamanSignal = ''raman''"
| "builtin_modality FtirSignal = ''ftir''"
| "builtin_modality TabularNumeric = ''tabular''"
| "builtin_modality TabularMixed = ''tabular''"
| "builtin_modality FeatureBlockSet = ''multi_block''"
| "builtin_modality SeriesMultivariate = ''time_series''"
| "builtin_modality ClimateSeriesMultivariate = ''climate''"
| "builtin_modality GenotypeVariantMatrix = ''genotype''"
| "builtin_modality GenotypeDosageMatrix = ''genotype''"
| "builtin_modality RgbImage = ''image''"
| "builtin_modality GrayImage = ''image''"
| "builtin_modality MultichannelImage = ''image''"
| "builtin_modality MultispectralImage = ''image''"
| "builtin_modality HyperspectralCube = ''hyperspectral''"
| "builtin_modality SegmentationMask = ''image_mask''"
| "builtin_modality RoiMask = ''image_mask''"
| "builtin_modality SampleMetadata = ''metadata''"
| "builtin_modality TargetNumeric = ''target''"
| "builtin_modality TargetCategorical = ''target''"
| "builtin_modality TargetNumericMatrix = ''target''"
| "builtin_modality TargetCategoricalMatrix = ''target''"
| "builtin_modality MassSpectrum = ''mass_spec''"
| "builtin_modality TextRaw = ''text''"
| "builtin_modality TextTokenIds = ''text''"

fun builtin_representation :: "builtin_data_model \<Rightarrow> representation_spec" where
  "builtin_representation NirsSignal1d = signal_1d UnknownSignal"
| "builtin_representation NirsSignalWithProcessings = signal_with_processings UnknownSignal"
| "builtin_representation RamanSignal = raman_signal"
| "builtin_representation FtirSignal = ftir_signal"
| "builtin_representation TabularNumeric = tabular_numeric"
| "builtin_representation TabularMixed = tabular_mixed"
| "builtin_representation FeatureBlockSet = feature_block_set"
| "builtin_representation SeriesMultivariate = series_mv ''series_mv''"
| "builtin_representation ClimateSeriesMultivariate = series_mv ''climate_series_mv''"
| "builtin_representation GenotypeVariantMatrix = genotype_variant_matrix"
| "builtin_representation GenotypeDosageMatrix = genotype_dosage_matrix"
| "builtin_representation RgbImage = rgb_image"
| "builtin_representation GrayImage = gray_image"
| "builtin_representation MultichannelImage = multichannel_image"
| "builtin_representation MultispectralImage = multispectral_image"
| "builtin_representation HyperspectralCube = hyperspectral_cube"
| "builtin_representation SegmentationMask = segmentation_mask"
| "builtin_representation RoiMask = roi_mask"
| "builtin_representation SampleMetadata = sample_metadata"
| "builtin_representation TargetNumeric = target_numeric"
| "builtin_representation TargetCategorical = target_categorical"
| "builtin_representation TargetNumericMatrix = target_numeric_matrix"
| "builtin_representation TargetCategoricalMatrix = target_categorical_matrix"
| "builtin_representation MassSpectrum = mass_spectrum"
| "builtin_representation TextRaw = text_raw_representation"
| "builtin_representation TextTokenIds = text_token_ids"

record builtin_data_model_spec =
  bd_key :: string
  bd_modality :: string
  bd_representation :: representation_spec

definition builtin_spec :: "builtin_data_model \<Rightarrow> builtin_data_model_spec" where
  "builtin_spec m =
     \<lparr>bd_key = builtin_key m, bd_modality = builtin_modality m,
      bd_representation = builtin_representation m\<rparr>"

definition builtin_data_model_specs :: "builtin_data_model_spec list" where
  "builtin_data_model_specs = map builtin_spec builtin_data_models"

definition builtin_representations :: "representation_spec list" where
  "builtin_representations = map builtin_representation builtin_data_models"

definition builtin_source_descriptor ::
  "(string \<Rightarrow> f64 option) \<Rightarrow> builtin_data_model_spec \<Rightarrow> string \<Rightarrow> string \<Rightarrow> string \<Rightarrow>
   source_granularity \<Rightarrow> source_descriptor res"
where
  "builtin_source_descriptor number_f64 spec source_id name sample_key granularity =
     rbind (ident_new source_id)
       (\<lambda>i.
          let descriptor =
                \<lparr>sd_id = i, sd_name = name, sd_type_id = rp_type_id (bd_representation spec),
                 sd_modality = bd_modality spec, sd_native_representation = bd_representation spec,
                 sd_sample_key = sample_key, sd_granularity = granularity, sd_schema = [],
                 sd_tags = [], sd_shape_contract = None\<rparr>
          in rseq (source_validate number_f64 descriptor) (Inr descriptor))"

definition tabular_numeric_model_input_spec :: model_input_spec where
  "tabular_numeric_model_input_spec =
     \<lparr>mi_ports =
        [\<lparr>ip_name = ''x'', ip_accepted_representations = [rid ''tabular_numeric''],
          ip_accepted_types = [tid ''table''], ip_rank = Some 2, ip_multi_source = True,
          ip_optional = False\<rparr>],
      mi_default_fusion = None\<rparr>"

section \<open>Built-in adapters\<close>

definition adapter ::
  "string \<Rightarrow> string \<times> string \<Rightarrow> string \<times> string \<Rightarrow> u64 \<Rightarrow> bool \<Rightarrow> bool \<Rightarrow> fit_scope \<Rightarrow> adapter_spec"
where
  "adapter i input output cost lossy stateful fit_scope =
     \<lparr>ad_id = i, ad_version = ''1.0.0'', ad_input_type = tid (fst input),
      ad_input_representation = rid (snd input), ad_output_type = tid (fst output),
      ad_output_representation = rid (snd output), ad_cost = cost, ad_lossy = lossy,
      ad_supervised = False, ad_stateful = stateful, ad_deterministic = True,
      ad_fit_scope = fit_scope, ad_params = []\<rparr>"

definition stateless_adapter ::
  "string \<Rightarrow> string \<Rightarrow> string \<Rightarrow> string \<Rightarrow> string \<Rightarrow> u64 \<Rightarrow> bool \<Rightarrow> adapter_spec"
where
  "stateless_adapter i input_type input_representation output_type output_representation cost lossy =
     adapter i (input_type, input_representation) (output_type, output_representation) cost lossy
       False Stateless"

definition stateful_adapter ::
  "string \<Rightarrow> string \<Rightarrow> string \<Rightarrow> string \<Rightarrow> string \<Rightarrow> u64 \<Rightarrow> bool \<Rightarrow> adapter_spec"
where
  "stateful_adapter i input_type input_representation output_type output_representation cost lossy =
     adapter i (input_type, input_representation) (output_type, output_representation) cost lossy
       True FoldTrain"

definition builtin_adapters :: "adapter_spec list" where
  "builtin_adapters =
     [stateless_adapter ''spectra.flatten'' ''dense_signal'' ''signal_with_processings'' ''table'' ''tabular_numeric'' 10 False,
      stateless_adapter ''spectra.identity_features'' ''dense_signal'' ''signal_1d'' ''table'' ''tabular_numeric'' 5 False,
      stateless_adapter ''spectra.raman_flatten'' ''dense_signal'' ''raman_signal'' ''table'' ''tabular_numeric'' 8 False,
      stateless_adapter ''spectra.ftir_flatten'' ''dense_signal'' ''ftir_signal'' ''table'' ''tabular_numeric'' 8 False,
      stateless_adapter ''features.blocks.flatten'' ''multi_block'' ''feature_block_set'' ''table'' ''tabular_numeric'' 5 False,
      stateless_adapter ''weather.aggregate'' ''time_series'' ''climate_series_mv'' ''table'' ''tabular_numeric'' 20 True,
      stateless_adapter ''series.aggregate'' ''time_series'' ''series_mv'' ''table'' ''tabular_numeric'' 20 True,
      stateless_adapter ''genotype.dosage'' ''genotype_matrix'' ''variant_matrix'' ''genotype_matrix'' ''dosage_matrix'' 8 False,
      stateful_adapter ''genotype.pca'' ''genotype_matrix'' ''dosage_matrix'' ''table'' ''tabular_numeric'' 30 True,
      stateful_adapter ''tabular.encoder'' ''table'' ''tabular_mixed'' ''table'' ''tabular_numeric'' 15 False,
      stateless_adapter ''image.channel_stats'' ''image_rgb'' ''rgb_image'' ''table'' ''tabular_numeric'' 25 True,
      stateless_adapter ''image.gray_stats'' ''gray_image'' ''gray_image'' ''table'' ''tabular_numeric'' 20 True,
      stateless_adapter ''image.multichannel_stats'' ''multichannel_image'' ''mc_image'' ''table'' ''tabular_numeric'' 30 True,
      stateless_adapter ''image.multispectral_stats'' ''multichannel_image'' ''multispectral_image'' ''table'' ''tabular_numeric'' 30 True,
      stateful_adapter ''image.embedding'' ''image_rgb'' ''rgb_image'' ''table'' ''tabular_numeric'' 60 True,
      stateless_adapter ''image.raw_tensor_chw'' ''image_rgb'' ''rgb_image'' ''multichannel_image'' ''mc_image'' 5 False,
      stateless_adapter ''hsi.spatial_mean'' ''hyperspectral_cube'' ''cube_hwb'' ''dense_signal'' ''signal_1d'' 20 True,
      stateless_adapter ''hsi.flatten'' ''hyperspectral_cube'' ''cube_hwb'' ''table'' ''tabular_numeric'' 80 False,
      stateless_adapter ''mask.area_features'' ''label_mask'' ''segmentation_mask'' ''table'' ''tabular_numeric'' 15 True,
      stateless_adapter ''mask.roi_area_features'' ''label_mask'' ''roi_mask'' ''table'' ''tabular_numeric'' 10 True,
      stateful_adapter ''metadata.encoder'' ''metadata'' ''sample_metadata'' ''table'' ''tabular_numeric'' 15 True,
      stateless_adapter ''ms.bin_to_table'' ''mass_spec'' ''mass_spectrum'' ''table'' ''tabular_numeric'' 25 True,
      stateful_adapter ''text.embedding'' ''text'' ''text_raw'' ''table'' ''tabular_numeric'' 50 True,
      stateless_adapter ''text.bag_of_tokens'' ''text'' ''text_token_ids'' ''table'' ''tabular_numeric'' 35 True]"

definition default_builtin_planning_policy :: planning_policy where
  "default_builtin_planning_policy =
     default_policy\<lparr>pp_allow_lossy := True, pp_allow_stateful := True, pp_allow_supervised := False,
       pp_require_user_choice_on_ambiguity := True, pp_max_hops := Some 4\<rparr>"

section \<open>The catalogue is sound\<close>

lemmas builtin_representation_defs =
  signal_1d_def signal_with_processings_def spectroscopy_signal_def raman_signal_def ftir_signal_def
  tabular_numeric_def tabular_mixed_def feature_block_set_def series_mv_def
  genotype_variant_matrix_def genotype_dosage_matrix_def rgb_image_def gray_image_def
  multichannel_image_def multispectral_image_def hyperspectral_cube_def segmentation_mask_def
  roi_mask_def sample_metadata_def target_numeric_def target_categorical_def target_matrix_def
  target_numeric_matrix_def target_categorical_matrix_def mass_spectrum_def
  text_raw_representation_def text_token_ids_def
  representation_def axis_def sample_axis_def representation_storage_new_def tid_def rid_def

lemmas builtin_adapter_defs =
  builtin_adapters_def stateless_adapter_def stateful_adapter_def adapter_def tid_def rid_def

lemma builtin_data_models_all: "set builtin_data_models = UNIV" "distinct builtin_data_models"
proof -
  have "m \<in> set builtin_data_models" for m
    by (cases m) (simp_all add: builtin_data_models_def)
  then show "set builtin_data_models = UNIV" by blast
qed (simp add: builtin_data_models_def)

lemma builtin_keys_distinct: "inj builtin_key"
  by (rule injI) (case_tac x; case_tac y; simp)

lemma builtin_ids:
  "map rp_id builtin_representations =
     map Ident
       [''signal_1d'', ''signal_with_processings'', ''raman_signal'', ''ftir_signal'',
        ''tabular_numeric'', ''tabular_mixed'', ''feature_block_set'', ''series_mv'',
        ''climate_series_mv'', ''variant_matrix'', ''dosage_matrix'', ''rgb_image'', ''gray_image'',
        ''mc_image'', ''multispectral_image'', ''cube_hwb'', ''segmentation_mask'', ''roi_mask'',
        ''sample_metadata'', ''target_numeric'', ''target_categorical'', ''target_numeric_matrix'',
        ''target_categorical_matrix'', ''mass_spectrum'', ''text_raw'', ''text_token_ids'']"
  by (simp add: builtin_representations_def builtin_data_models_def builtin_representation_defs)

lemma builtin_representation_sound:
  "representation_ok nf (builtin_representation m) \<and> valid_ident (rp_id (builtin_representation m)) \<and>
   valid_ident (rp_type_id (builtin_representation m))"
  by (cases m)
    (simp_all add: builtin_representation_defs representation_ok_def axis_ok_def valid_ident_iff
      identifier_char_def ascii_class_defs is_blank_graphic)

lemma builtin_adapters_accepted:
  "\<forall>a\<in>set builtin_adapters. adapter_validate a = Inr ()" "distinct (map ad_id builtin_adapters)"
  by (simp_all add: builtin_adapter_defs adapter_validate_def validate_name_def is_blank_graphic
      is_ascii_graphic_def byte_of_def name_char_def ascii_class_defs)

definition builtin_node :: "builtin_data_model \<Rightarrow> representation_node" where
  "builtin_node m = (rp_type_id (builtin_representation m), rp_id (builtin_representation m))"

text \<open>The graph of the built-in adapters, in registration order.\<close>

definition builtin_edges :: "(builtin_data_model \<times> builtin_data_model) list" where
  "builtin_edges =
     [(NirsSignalWithProcessings, TabularNumeric), (NirsSignal1d, TabularNumeric),
      (RamanSignal, TabularNumeric), (FtirSignal, TabularNumeric), (FeatureBlockSet, TabularNumeric),
      (ClimateSeriesMultivariate, TabularNumeric), (SeriesMultivariate, TabularNumeric),
      (GenotypeVariantMatrix, GenotypeDosageMatrix), (GenotypeDosageMatrix, TabularNumeric),
      (TabularMixed, TabularNumeric), (RgbImage, TabularNumeric), (GrayImage, TabularNumeric),
      (MultichannelImage, TabularNumeric), (MultispectralImage, TabularNumeric),
      (RgbImage, TabularNumeric), (RgbImage, MultichannelImage), (HyperspectralCube, NirsSignal1d),
      (HyperspectralCube, TabularNumeric), (SegmentationMask, TabularNumeric),
      (RoiMask, TabularNumeric), (SampleMetadata, TabularNumeric), (MassSpectrum, TabularNumeric),
      (TextRaw, TabularNumeric), (TextTokenIds, TabularNumeric)]"

lemma builtin_adapter_edges:
  "map (\<lambda>a. (ad_source a, ad_target a)) builtin_adapters =
     map (map_prod builtin_node builtin_node) builtin_edges"
  by (simp add: builtin_adapter_defs builtin_node_def builtin_representation_defs builtin_edges_def
      ad_source_def ad_target_def)

lemma builtin_edge_iff:
  "(\<exists>a\<in>set builtin_adapters. ad_source a = n \<and> ad_target a = n') \<longleftrightarrow>
     (\<exists>(m, k)\<in>set builtin_edges. n = builtin_node m \<and> n' = builtin_node k)"
proof -
  have "(\<exists>a\<in>set builtin_adapters. ad_source a = n \<and> ad_target a = n') \<longleftrightarrow>
      (n, n') \<in> set (map (\<lambda>a. (ad_source a, ad_target a)) builtin_adapters)"
    by auto
  then show ?thesis unfolding builtin_adapter_edges by auto
qed

lemma inj_builtin_node: "inj builtin_node"
proof -
  have "distinct (map rp_id builtin_representations)"
    unfolding builtin_ids by (simp add: distinct_map)
  then have "inj_on (rp_id \<circ> builtin_representation) (set builtin_data_models)"
    by (simp add: builtin_representations_def distinct_map)
  then show ?thesis
    by (auto simp: inj_on_def builtin_node_def builtin_data_models_all)
qed

lemma map_fst_ids: "map fst (map (\<lambda>a. (ad_id a, a)) as) = map ad_id as"
  by simp

definition builtin_registry :: adapter_registry where
  "builtin_registry = bt_collect (map (\<lambda>a. (ad_id a, a)) builtin_adapters)"

lemma builtin_registered: "registry_from_spec builtin_adapters = Inr builtin_registry"
  unfolding registry_from_spec_ok builtin_registry_def using builtin_adapters_accepted by blast

lemma builtin_registry_values: "set (bt_values builtin_registry) = set builtin_adapters"
proof -
  have "set (bt_values builtin_registry) = ran (map_of builtin_registry)"
    unfolding builtin_registry_def by (simp add: ran_distinct bt.wf_collect bt_wf_distinct)
  also have "\<dots> = ran (map_of (map (\<lambda>a. (ad_id a, a)) builtin_adapters))"
    using builtin_adapters_accepted(2)
    by (simp add: builtin_registry_def bt.get_collect_distinct comp_def)
  also have "\<dots> = set builtin_adapters"
    using builtin_adapters_accepted(2) by (simp add: ran_distinct comp_def image_image)
  finally show ?thesis .
qed

text \<open>
  The built-in catalogue is sound: it lists every built-in model once, under distinct keys and
  representation ids; every representation passes its validator and carries valid identifiers, so
  the constructors never panic; the built-in adapters are accepted as a registry, and each of them
  leads from a representation of the catalogue to a representation of the catalogue.
\<close>

lemma builtin_catalogue:
  "set builtin_data_models = UNIV \<and> distinct builtin_data_models \<and>
   distinct (map bd_key builtin_data_model_specs) \<and> distinct (map rp_id builtin_representations) \<and>
   (\<forall>m. representation_validate number_f64 (builtin_representation m) = Inr () \<and>
      ident_new (as_str (rp_id (builtin_representation m))) = Inr (rp_id (builtin_representation m)) \<and>
      ident_new (as_str (rp_type_id (builtin_representation m))) = Inr (rp_type_id (builtin_representation m))) \<and>
   (\<exists>reg. registry_from_spec builtin_adapters = Inr reg \<and>
      ad_source ` set (bt_values reg) \<union> ad_target ` set (bt_values reg) \<subseteq> range builtin_node)"
proof -
  have "ad_source a \<in> range builtin_node \<and> ad_target a \<in> range builtin_node"
    if "a \<in> set builtin_adapters" for a
    using that builtin_edge_iff [of "ad_source a" "ad_target a"] by auto
  then have "ad_source ` set (bt_values builtin_registry) \<union> ad_target ` set (bt_values builtin_registry)
      \<subseteq> range builtin_node"
    unfolding builtin_registry_values by blast
  moreover have "distinct (map bd_key builtin_data_model_specs)"
    using builtin_data_models_all(2) builtin_keys_distinct
    by (simp add: builtin_data_model_specs_def builtin_spec_def distinct_map comp_def inj_on_def)
  moreover have "distinct (map rp_id builtin_representations)"
    unfolding builtin_ids by (simp add: distinct_map)
  ultimately show ?thesis
    using builtin_data_models_all builtin_representation_sound builtin_registered
    by (auto simp: representation_validate_ok ident_new_eq_Inr)
qed

section \<open>Every input model reaches the numeric table\<close>

lemma builtin_usable: "usable builtin_registry default_builtin_planning_policy = set builtin_adapters"
proof -
  have "\<forall>a\<in>set builtin_adapters. \<not> ad_supervised a"
    by (simp add: builtin_adapters_def stateless_adapter_def stateful_adapter_def adapter_def)
  then show ?thesis
    unfolding usable_def builtin_registry_values
    by (auto simp: permitted_def default_builtin_planning_policy_def default_policy_def)
qed

lemma builtin_max_hops: "pp_max_hops default_builtin_planning_policy = Some 4"
  by (simp add: default_builtin_planning_policy_def)

lemma builtin_edge:
  assumes "(m, k) \<in> set builtin_edges"
  shows "\<exists>a. a \<in> set builtin_adapters \<and> ad_source a = builtin_node m \<and> ad_target a = builtin_node k"
  using assms builtin_edge_iff [of "builtin_node m" "builtin_node k"] by blast

lemma sum_list_bounded: "\<forall>x\<in>set xs. f x \<le> (b::nat) \<Longrightarrow> (\<Sum>x\<leftarrow>xs. f x) \<le> length xs * b"
  by (induction xs) auto

lemma builtin_no_overflow: "no_overflow builtin_registry default_builtin_planning_policy"
proof -
  have "\<forall>a\<in>set builtin_adapters. unat (ad_cost a) \<le> 1000"
    by (simp add: builtin_adapters_def stateless_adapter_def stateful_adapter_def adapter_def)
  moreover have "adapter_score_nat a pol \<le> unat (ad_cost a) + 1300000" for a pol
    by (auto simp: adapter_score_nat_def Let_def max_def)
  then have "adapter_score_nat a pol \<le> 3000000" if "unat (ad_cost a) \<le> 1000" for a pol
    by (rule order_trans) (use that in simp)
  ultimately have bound: "\<forall>a\<in>set (bt_values builtin_registry).
      max (adapter_score_nat a default_builtin_planning_policy) (unat (ad_cost a)) \<le> 3000000"
    unfolding builtin_registry_values by fastforce
  have count: "length builtin_adapters \<le> 24" by (simp add: builtin_adapters_def)
  have "bt_wf builtin_registry" by (simp add: builtin_registry_def bt.wf_collect)
  then have "length (bt_values builtin_registry) = card (set (bt_keys builtin_registry))"
    using distinct_card [OF bt_wf_distinct] by (metis length_map)
  also have "set (bt_keys builtin_registry) = dom (map_of builtin_registry)"
    by (simp only: dom_map_of_conv_image_fst set_map)
  also have "\<dots> = ad_id ` set builtin_adapters"
    using builtin_adapters_accepted(2)
    by (simp only: builtin_registry_def bt.get_collect_distinct map_fst_ids dom_map_of_conv_image_fst)
      (simp add: image_image)
  also have "card (ad_id ` set builtin_adapters) \<le> 24"
    by (rule order_trans [OF card_image_le [OF finite_set] order_trans [OF card_length count]])
  finally show ?thesis
    using sum_list_bounded [OF bound] unfolding no_overflow_def by simp
qed

lemma admissible_hop:
  assumes "(m, k) \<in> set builtin_edges"
  shows "\<exists>a. admissible builtin_registry default_builtin_planning_policy
    (builtin_node m) [a] (builtin_node k)"
proof -
  obtain a where "a \<in> set builtin_adapters" "ad_source a = builtin_node m" "ad_target a = builtin_node k"
    using builtin_edge [OF assms] by blast
  then show ?thesis
    by (intro exI [of _ a])
      (simp add: admissible_def walk_def builtin_usable within_hops_def builtin_max_hops)
qed

lemma admissible_two_hops:
  assumes "(m, k) \<in> set builtin_edges" and "(k, l) \<in> set builtin_edges" and "m \<noteq> k"
  shows "\<exists>p. admissible builtin_registry default_builtin_planning_policy
    (builtin_node m) p (builtin_node l)"
proof -
  obtain a b where "a \<in> set builtin_adapters" "ad_source a = builtin_node m" "ad_target a = builtin_node k"
    "b \<in> set builtin_adapters" "ad_source b = builtin_node k" "ad_target b = builtin_node l"
    using builtin_edge [OF assms(1)] builtin_edge [OF assms(2)] by blast
  moreover from this have "a \<noteq> b" using assms(3) inj_builtin_node by (auto dest: injD)
  ultimately show ?thesis
    by (intro exI [of _ "[a, b]"])
      (simp add: admissible_def walk_def builtin_usable within_hops_def builtin_max_hops)
qed

lemma table_reachable:
  assumes "builtin_modality m \<noteq> ''target''" and "m \<noteq> TabularNumeric"
  shows "\<exists>p. admissible builtin_registry default_builtin_planning_policy
    (builtin_node m) p (builtin_node TabularNumeric)"
proof (cases "(m, TabularNumeric) \<in> set builtin_edges")
  case True
  then show ?thesis using admissible_hop by blast
next
  case False
  then have "m = GenotypeVariantMatrix" using assms by (cases m) (simp_all add: builtin_edges_def)
  then show ?thesis
    using admissible_two_hops [of m GenotypeDosageMatrix TabularNumeric]
    by (simp add: builtin_edges_def)
qed

lemma target_unreachable:
  assumes "builtin_modality m = ''target''"
  shows "\<not> admissible builtin_registry default_builtin_planning_policy
    (builtin_node m) p (builtin_node TabularNumeric)"
proof
  assume adm: "admissible builtin_registry default_builtin_planning_policy
    (builtin_node m) p (builtin_node TabularNumeric)"
  have "m \<noteq> TabularNumeric" using assms by auto
  then have "builtin_node m \<noteq> builtin_node TabularNumeric" using inj_builtin_node by (auto dest: injD)
  with adm obtain a q where "p = a # q" "ad_source a = builtin_node m" "a \<in> set builtin_adapters"
    by (cases p) (auto simp: admissible_def walk_def builtin_usable)
  then obtain k l where "(k, l) \<in> set builtin_edges" "builtin_node m = builtin_node k"
    using builtin_edge_iff [of "builtin_node m" "ad_target a"] by auto
  then have "(m, l) \<in> set builtin_edges" using inj_builtin_node by (auto dest: injD)
  with assms show False by (cases m) (auto simp: builtin_edges_def)
qed

text \<open>A resolution that finds a path, or several equally good ones to choose from.\<close>

definition path_found :: "path_resolution \<Rightarrow> bool" where
  "path_found res \<longleftrightarrow>
     pr_path res \<noteq> None \<or>
     pr_requires_user_choice res \<and> map pi_code (pr_issues res) = [''ambiguous_path'']"

text \<open>
  Under the default built-in policy every built-in model but the targets can be brought to the
  numeric table: resolving a path from its representation answers \<open>no_path\<close> exactly for the target
  models (and never \<open>cost_overflow\<close>); the numeric table itself needs no adapter.
\<close>

lemma builtin_models_reach_table:
  "\<exists>reg. registry_from_spec builtin_adapters = Inr reg \<and>
     (\<forall>m. let res = find_path reg (rp_type_id (builtin_representation m))
                     (rp_id (builtin_representation m)) (tid ''table'') (rid ''tabular_numeric'')
                     default_builtin_planning_policy
       in (if builtin_modality m = ''target''
           then res = unresolved ''no_path'' ''no adapter path'' []
           else path_found res))"
proof (intro exI conjI allI)
  show "registry_from_spec builtin_adapters = Inr builtin_registry" by (rule builtin_registered)
  fix m
  have ok: "registry_ok builtin_registry" by (rule registry_from_spec_registry_ok [OF builtin_registered])
  have goal: "builtin_node TabularNumeric = (tid ''table'', rid ''tabular_numeric'')"
    by (simp add: builtin_node_def builtin_representation_defs)
  have split: "builtin_node m = (rp_type_id (builtin_representation m), rp_id (builtin_representation m))"
    by (simp add: builtin_node_def)
  let ?res = "find_path builtin_registry (rp_type_id (builtin_representation m))
    (rp_id (builtin_representation m)) (tid ''table'') (rid ''tabular_numeric'')
    default_builtin_planning_policy"
  show "let res = ?res in
      (if builtin_modality m = ''target'' then res = unresolved ''no_path'' ''no adapter path'' []
       else path_found res)"
  proof (cases "m = TabularNumeric")
    case True
    then show ?thesis
      by (simp add: path_found_def find_path_def builtin_representation_defs resolved_def)
  next
    case False
    then have "builtin_node m \<noteq> builtin_node TabularNumeric" using inj_builtin_node by (auto dest: injD)
    note complete = find_path_complete_lemma [OF ok builtin_no_overflow this [unfolded goal split],
        folded goal split]
    show ?thesis
    proof (cases "builtin_modality m = ''target''")
      case True
      then show ?thesis using complete target_unreachable by simp
    next
      case False
      with \<open>m \<noteq> TabularNumeric\<close> table_reachable
      have "\<exists>p. admissible builtin_registry default_builtin_planning_policy (builtin_node m) p
          (builtin_node TabularNumeric)" by blast
      moreover have "\<exists>p. optimal builtin_registry default_builtin_planning_policy (builtin_node m)
          (builtin_node TabularNumeric) p"
        using optimal_exists calculation by blast
      ultimately show ?thesis
        using complete False by (auto simp: path_found_def unresolved_def Let_def split: if_splits)
    qed
  qed
qed

end
