(* ===== verification/Representation_Registry.thy ===== *)
theory Representation_Registry
  imports Builtin_Models
begin

text \<open>
  The published catalogue of representation ids (\<open>representation_registry.rs\<close>): its construction
  from the built-in models, its validator, and the compatibility check of a model input against it.
\<close>

section \<open>The registry\<close>

definition representation_registry_schema_version :: u32 where
  "representation_registry_schema_version = 1"

definition representation_registry_id :: string where
  "representation_registry_id = ''dag-ml-data.representation_registry.v1''"

definition representation_registry_source :: string where
  "representation_registry_source = ''crates/dag-ml-data-core/src/builtin_models.rs''"

definition mvp_profile_spectra_image :: string where
  "mvp_profile_spectra_image = ''spectra_image''"

definition mvp_spectra_image_emitted :: "string list" where
  "mvp_spectra_image_emitted =
     [''signal_1d'', ''signal_with_processings'', ''feature_block_set'', ''target_numeric'',
      ''target_categorical'', ''target_numeric_matrix'', ''target_categorical_matrix'',
      ''sample_metadata'']"

definition mvp_spectra_image_pending :: "string list" where
  "mvp_spectra_image_pending = [''gray_image'', ''rgb_image'', ''mc_image'', ''multispectral_image'']"

datatype mvp_emission_status = Emitted | LandedPendingEmit

record mvp_status =
  mvp_profile :: string
  mvp_emission :: mvp_emission_status

record registered_representation =
  rr_representation_id :: string
  rr_builtin_key :: string
  rr_modality :: string
  rr_mvp :: "mvp_status option"
  rr_representation :: representation_spec

record representation_registry =
  rg_schema_version :: u32
  rg_registry_id :: string
  rg_source :: string
  rg_representations :: "registered_representation list"

definition mvp_status_of :: "string \<Rightarrow> mvp_status option" where
  "mvp_status_of representation_id =
     (if representation_id \<in> set mvp_spectra_image_emitted
      then Some \<lparr>mvp_profile = mvp_profile_spectra_image, mvp_emission = Emitted\<rparr>
      else if representation_id \<in> set mvp_spectra_image_pending
      then Some \<lparr>mvp_profile = mvp_profile_spectra_image, mvp_emission = LandedPendingEmit\<rparr>
      else None)"

definition registered_representation_of :: "builtin_data_model \<Rightarrow> registered_representation" where
  "registered_representation_of m =
     (let r = builtin_representation m; i = as_str (rp_id r) in
      \<lparr>rr_representation_id = i, rr_builtin_key = builtin_key m, rr_modality = builtin_modality m,
       rr_mvp = mvp_status_of i, rr_representation = r\<rparr>)"

definition published_registry :: representation_registry where
  "published_registry =
     \<lparr>rg_schema_version = representation_registry_schema_version,
      rg_registry_id = representation_registry_id, rg_source = representation_registry_source,
      rg_representations = map registered_representation_of builtin_data_models\<rparr>"

definition registry_validate ::
  "(string \<Rightarrow> f64 option) \<Rightarrow> representation_registry \<Rightarrow> unit res"
where
  "registry_validate number_f64 reg =
     (if rg_schema_version reg \<noteq> representation_registry_schema_version
      then invalid ''representation registry uses unsupported schema_version''
      else if rg_registry_id reg \<noteq> representation_registry_id
      then invalid ''representation registry id does not match''
      else if rg_representations reg = []
      then invalid ''representation registry contains no representations''
      else
        each_fresh
          (\<lambda>e. if is_blank (rr_representation_id e)
               then invalid ''representation registry contains an empty representation_id'' else Inr ())
          rr_representation_id
          (\<lambda>_. Validation ''representation registry contains duplicate representation'')
          (\<lambda>e. if rr_representation_id e \<noteq> as_str (rp_id (rr_representation e))
               then invalid ''representation registry entry does not match embedded representation id''
               else representation_validate number_f64 (rr_representation e))
          [] (rg_representations reg))"

text \<open>One accepted representation of a port, looked up in the catalogue.\<close>

definition port_accepts_entry ::
  "(string, registered_representation) btree_map \<Rightarrow> input_port_spec \<Rightarrow> representation_id \<Rightarrow> unit res"
where
  "port_accepts_entry by_id p i =
     rbind
       (ok_or (map_of by_id (as_str i))
          (Validation ''model input port accepts unknown representation''))
       (\<lambda>e.
          if rp_type_id (rr_representation e) \<notin> set (ip_accepted_types p)
          then invalid ''representation has a type not listed in accepted_types''
          else
            (case ip_rank p of
               None \<Rightarrow> Inr ()
             | Some rank \<Rightarrow>
                 if rp_rank (rr_representation e) \<noteq> Some rank
                 then invalid ''model input port requires another rank'' else Inr ()))"

definition validate_model_input_spec_against_registry ::
  "(string \<Rightarrow> f64 option) \<Rightarrow> model_input_spec \<Rightarrow> representation_registry \<Rightarrow> unit res"
where
  "validate_model_input_spec_against_registry number_f64 mi reg =
     rseq (registry_validate number_f64 reg)
    (rseq (model_input_validate mi)
       (let by_id = bt_collect (map (\<lambda>e. (rr_representation_id e, e)) (rg_representations reg)) in
        each_res (\<lambda>p. each_res (port_accepts_entry by_id p) (ip_accepted_representations p))
          (mi_ports mi)))"

section \<open>What is accepted\<close>

definition registry_sound :: "(string \<Rightarrow> f64 option) \<Rightarrow> representation_registry \<Rightarrow> bool" where
  "registry_sound nf reg \<longleftrightarrow>
     rg_schema_version reg = 1 \<and> rg_registry_id reg = representation_registry_id \<and>
     rg_representations reg \<noteq> [] \<and> distinct (map rr_representation_id (rg_representations reg)) \<and>
     (\<forall>e\<in>set (rg_representations reg). \<not> is_blank (rr_representation_id e) \<and>
        rr_representation_id e = as_str (rp_id (rr_representation e)) \<and>
        representation_ok nf (rr_representation e))"

lemma registry_validate_ok: "registry_validate nf reg = Inr () \<longleftrightarrow> registry_sound nf reg"
  unfolding registry_validate_def registry_sound_def representation_registry_schema_version_def
  by (auto simp: res_simps representation_validate_ok)

definition name_ok :: "string \<Rightarrow> bool" where
  "name_ok v \<longleftrightarrow> \<not> is_blank v \<and> list_all name_char v"

definition model_input_ok :: "model_input_spec \<Rightarrow> bool" where
  "model_input_ok mi \<longleftrightarrow>
     mi_ports mi \<noteq> [] \<and> distinct (map ip_name (mi_ports mi)) \<and>
     (\<forall>p\<in>set (mi_ports mi). name_ok (ip_name p) \<and> ip_accepted_representations p \<noteq> [] \<and>
        ip_accepted_types p \<noteq> [])"

lemma validate_name_ok: "validate_name kind v = Inr () \<longleftrightarrow> name_ok v"
  by (simp add: validate_name_def name_ok_def)

lemma model_input_validate_ok: "model_input_validate mi = Inr () \<longleftrightarrow> model_input_ok mi"
  by (auto simp: model_input_validate_def model_input_ok_def input_port_validate_def res_simps
      validate_name_ok)

definition published_for :: "representation_registry \<Rightarrow> input_port_spec \<Rightarrow> representation_id \<Rightarrow> bool" where
  "published_for reg p i \<longleftrightarrow>
     (\<exists>e\<in>set (rg_representations reg). rp_id (rr_representation e) = i \<and>
        rp_type_id (rr_representation e) \<in> set (ip_accepted_types p) \<and>
        (ip_rank p = None \<or> ip_rank p = rp_rank (rr_representation e)))"

lemma registry_lookup_entry:
  assumes "registry_sound nf reg"
  shows "map_of (bt_collect (map (\<lambda>e. (rr_representation_id e, e)) (rg_representations reg))) (as_str i) =
      Some e \<longleftrightarrow> e \<in> set (rg_representations reg) \<and> rp_id (rr_representation e) = i"
proof -
  let ?es = "rg_representations reg"
  have ids: "distinct (map rr_representation_id ?es)"
    "\<forall>e\<in>set ?es. rr_representation_id e = as_str (rp_id (rr_representation e))"
    using assms by (simp_all add: registry_sound_def)
  have "map_of (bt_collect (map (\<lambda>e. (rr_representation_id e, e)) ?es)) (as_str i) = Some e \<longleftrightarrow>
      e \<in> set ?es \<and> rr_representation_id e = as_str i"
    using ids(1) by (simp add: bt.get_collect_distinct comp_def) (auto intro: rev_image_eqI)
  also have "\<dots> \<longleftrightarrow> e \<in> set ?es \<and> rp_id (rr_representation e) = i"
    using ids(2) by (auto simp: ident.expand)
  finally show ?thesis .
qed

lemma port_accepts_entry_ok:
  assumes "registry_sound nf reg"
  shows "port_accepts_entry (bt_collect (map (\<lambda>e. (rr_representation_id e, e)) (rg_representations reg))) p i =
      Inr () \<longleftrightarrow> published_for reg p i"
  unfolding port_accepts_entry_def published_for_def
  by (simp only: rbind_eq_Inr ok_or_eq_Inr registry_lookup_entry [OF assms])
    (cases "ip_rank p"; auto simp: res_simps)

lemma against_registry_ok:
  "validate_model_input_spec_against_registry nf mi reg = Inr () \<longleftrightarrow>
     registry_sound nf reg \<and> model_input_ok mi \<and>
     (\<forall>p\<in>set (mi_ports mi). \<forall>i\<in>set (ip_accepted_representations p). published_for reg p i)"
proof (cases "registry_sound nf reg")
  case True
  then show ?thesis
    unfolding validate_model_input_spec_against_registry_def Let_def
    by (simp add: rbind_eq_Inr registry_validate_ok model_input_validate_ok each_res_ok
        port_accepts_entry_ok)
next
  case False
  then show ?thesis
    unfolding validate_model_input_spec_against_registry_def
    by (simp add: rbind_eq_Inr registry_validate_ok)
qed

lemma published_registry_sound: "registry_sound nf published_registry"
proof -
  have "distinct (map as_str (map rp_id builtin_representations))"
    unfolding builtin_ids by simp
  then have "distinct (map (\<lambda>m. as_str (rp_id (builtin_representation m))) builtin_data_models)"
    by (simp add: builtin_representations_def comp_def)
  moreover have "\<not> is_blank (as_str (rp_id (builtin_representation m)))" for m
    using builtin_representation_sound [of _ m] valid_ident_text by blast
  moreover have "builtin_data_models \<noteq> []" using builtin_data_models_all(1) by auto
  ultimately show ?thesis
    using builtin_representation_sound
    by (auto simp: registry_sound_def published_registry_def registered_representation_of_def
        representation_registry_schema_version_def comp_def Let_def)
qed

definition inputs_published :: "representation_registry \<Rightarrow> model_input_spec \<Rightarrow> bool" where
  "inputs_published reg mi \<longleftrightarrow>
     (\<forall>p\<in>set (mi_ports mi). \<forall>i\<in>set (ip_accepted_representations p). published_for reg p i)"

text \<open>
  The compatibility check of a model input accepts exactly when catalogue and model input are well
  formed and every accepted representation of every port is published, with a type and a rank that
  the port accepts. The published catalogue is well formed and accepts the built-in numeric input.
\<close>

lemma against_registry_iff:
  "(validate_model_input_spec_against_registry number_f64 mi reg = Inr () \<longleftrightarrow>
     registry_sound number_f64 reg \<and> model_input_ok mi \<and> inputs_published reg mi) \<and>
   validate_model_input_spec_against_registry number_f64 tabular_numeric_model_input_spec
     published_registry = Inr ()"
proof
  show "validate_model_input_spec_against_registry number_f64 mi reg = Inr () \<longleftrightarrow>
     registry_sound number_f64 reg \<and> model_input_ok mi \<and> inputs_published reg mi"
    unfolding against_registry_ok inputs_published_def by blast
  have "registered_representation_of TabularNumeric \<in> set (rg_representations published_registry)"
    using builtin_data_models_all(1) by (simp add: published_registry_def)
  then show "validate_model_input_spec_against_registry number_f64 tabular_numeric_model_input_spec
      published_registry = Inr ()"
    unfolding against_registry_ok published_for_def
    by (auto simp: published_registry_sound model_input_ok_def tabular_numeric_model_input_spec_def
        name_ok_def name_char_def is_blank_graphic ascii_class_defs
        registered_representation_of_def Let_def builtin_representation_defs intro!: bexI)
qed

end
