(* ===== verification/Planner.thy ===== *)
theory Planner
  imports Representation_Registry Alignment
begin

text \<open>
  The planner (\<open>planner.rs\<close>): from a dataset schema, a model input, an adapter registry and a request
  to a data plan. The fields of \<open>planning\<close> are the mutable locals of \<open>plan_model_input\<close>; the bodies of
  its nested loops are \<open>push_adapter\<close>, \<open>push_source\<close> and \<open>plan_port\<close>.
\<close>

section \<open>The request and the candidate sources\<close>

record data_plan_request =
  dr_id :: string
  dr_source_ids :: "source_id list option"
  dr_planning_policy :: planning_policy

definition data_plan_request_new :: "string \<Rightarrow> data_plan_request" where
  "data_plan_request_new i =
     \<lparr>dr_id = i, dr_source_ids = None, dr_planning_policy = default_policy\<rparr>"

definition validate_request :: "data_plan_request \<Rightarrow> unit res" where
  "validate_request req =
     (if is_blank (dr_id req) then invalid ''data plan request id is empty''
      else
        (case dr_source_ids req of
           None \<Rightarrow> Inr ()
         | Some ids \<Rightarrow>
             each_unique id (\<lambda>_. Validation ''data plan request contains duplicate source'') ids))"

definition candidate_sources ::
  "dataset_schema \<Rightarrow> data_plan_request \<Rightarrow> source_descriptor list res"
where
  "candidate_sources schema req =
     (let sources = sort_key sd_id (ds_sources schema) in
      case dr_source_ids req of
        None \<Rightarrow> Inr sources
      | Some requested \<Rightarrow>
          (let by_id = bt_collect (map (\<lambda>s. (sd_id s, s)) sources) in
           map_res
             (\<lambda>i. ok_or (map_of by_id i)
                (Validation ''data plan request references unknown source''))
             requested))"

section \<open>Resolving a source for a port\<close>

record resolved_source =
  rv_source :: source_descriptor
  rv_target_representation :: representation_id
  rv_path :: adapter_path
  rv_issues :: "plan_issue list"

definition known_rank :: "source_descriptor \<Rightarrow> representation_id \<Rightarrow> usize option" where
  "known_rank s target_representation =
     (if target_representation = rp_id (sd_native_representation s)
      then rp_rank (sd_native_representation s)
      else
        Option.bind (List.find (\<lambda>spec. rp_id spec = target_representation) builtin_representations)
          rp_rank)"

text \<open>One target type and representation of the port, in the body of the inner loop.\<close>

definition resolve_target ::
  "adapter_registry \<Rightarrow> planning_policy \<Rightarrow> input_port_spec \<Rightarrow> source_descriptor \<Rightarrow>
   representation_node \<Rightarrow> resolved_source option"
where
  "resolve_target adapters pol port s target =
     (let (target_type, target_representation) = target;
          rank = known_rank s target_representation;
          find = find_path adapters (sd_type_id s) (rp_id (sd_native_representation s))
                   target_type target_representation
      in
      if (case (ip_rank port, rank) of
            (Some required, Some actual) \<Rightarrow> required \<noteq> actual | _ \<Rightarrow> False)
      then None
      else
        (let resolution = find pol;
             path = (if pr_requires_user_choice resolution
                     then pr_path (find (pol\<lparr>pp_require_user_choice_on_ambiguity := False\<rparr>))
                     else pr_path resolution)
         in
         map_option
           (\<lambda>path.
              \<lparr>rv_source = s, rv_target_representation = target_representation, rv_path = path,
               rv_issues =
                 pr_issues resolution @
                 (if ip_rank port \<noteq> None \<and> rank = None
                  then [\<lparr>pi_code = ''unverified_rank'',
                         pi_message = ''representation has no declared rank'', pi_choices = []\<rparr>]
                  else [])\<rparr>)
           path))"

definition resolve_source ::
  "adapter_registry \<Rightarrow> planning_policy \<Rightarrow> input_port_spec \<Rightarrow> source_descriptor \<Rightarrow> resolved_source option"
where
  "resolve_source adapters pol port s =
     first_some (resolve_target adapters pol port s)
       (List.product (ip_accepted_types port) (ip_accepted_representations port))"

text \<open>One accepted type and representation for all the sources of a multi-source port.\<close>

definition negotiate ::
  "adapter_registry \<Rightarrow> planning_policy \<Rightarrow> input_port_spec \<Rightarrow> source_descriptor list \<Rightarrow>
   resolved_source list option"
where
  "negotiate adapters pol port eligible =
     first_some
       (\<lambda>(target_type, representation).
          let target_port =
                port\<lparr>ip_accepted_types := [target_type],
                     ip_accepted_representations := [representation]\<rparr>
          in those (map (resolve_source adapters pol target_port) eligible))
       (List.product (ip_accepted_types port) (ip_accepted_representations port))"

definition resolve_port ::
  "adapter_registry \<Rightarrow> planning_policy \<Rightarrow> source_descriptor list \<Rightarrow> input_port_spec \<Rightarrow>
   resolved_source list res"
where
  "resolve_port adapters pol candidates port =
     (let resolved = List.map_filter (resolve_source adapters pol port) candidates in
      if ip_multi_source port \<and> 1 < length resolved
      then ok_or (negotiate adapters pol port (map rv_source resolved))
             (Validation ''model input port has no common accepted representation'')
      else Inr resolved)"

section \<open>The steps of the plan\<close>

definition source_output_id :: "source_id \<Rightarrow> string" where
  "source_output_id i = ''src:'' @ as_str i"

definition materialize_step :: "source_descriptor \<Rightarrow> data_plan_step" where
  "materialize_step s =
     \<lparr>ps_kind = plan_step_kind.Materialize, ps_source_id = Some (sd_id s), ps_adapter_id = None,
      ps_input_representation = None,
      ps_output_representation = Some (rp_id (sd_native_representation s)),
      ps_fit_scope = Stateless, ps_requires_user_choice = False,
      ps_metadata = bt_collect [(''output'', JString (source_output_id (sd_id s)))]\<rparr>"

definition adapt_step ::
  "source_id \<Rightarrow> adapter_spec \<Rightarrow> string \<Rightarrow> representation_id \<Rightarrow> string \<Rightarrow> data_plan_step"
where
  "adapt_step i a current_output current_representation step_output =
     \<lparr>ps_kind = Adapt, ps_source_id = Some i, ps_adapter_id = Some (ad_id a),
      ps_input_representation = Some current_representation,
      ps_output_representation = Some (ad_output_representation a),
      ps_fit_scope = ad_fit_scope a, ps_requires_user_choice = False,
      ps_metadata =
        bt_collect
          [(''adapter_version'', JString (ad_version a)), (''adapter_params'', JObject (ad_params a)),
           (''input'', JString current_output), (''output'', JString step_output)]\<rparr>"

definition align_step ::
  "string list \<Rightarrow> string \<Rightarrow> alignment_mode \<Rightarrow> representation_id \<Rightarrow> data_plan_step"
where
  "align_step inputs output mode r =
     \<lparr>ps_kind = AlignStep, ps_source_id = None, ps_adapter_id = None,
      ps_input_representation = Some r, ps_output_representation = Some r,
      ps_fit_scope = Stateless, ps_requires_user_choice = False,
      ps_metadata = alignment_metadata inputs output mode\<rparr>"

definition join_step :: "string list \<Rightarrow> string \<Rightarrow> representation_id \<Rightarrow> data_plan_step" where
  "join_step inputs port r =
     \<lparr>ps_kind = Join, ps_source_id = None, ps_adapter_id = None,
      ps_input_representation = Some r, ps_output_representation = Some r,
      ps_fit_scope = Stateless, ps_requires_user_choice = False,
      ps_metadata =
        bt_collect
          [(''inputs'', JArray (map JString inputs)), (''output'', JString (''port:'' @ port))]\<rparr>"

record planning =
  pg_steps :: "data_plan_step list"
  pg_issues :: "plan_issue list"
  pg_output_representation :: "representation_id option"
  pg_adapt_idx :: nat
  pg_align_idx :: nat

definition planning_init :: planning where
  "planning_init =
     \<lparr>pg_steps = [], pg_issues = [], pg_output_representation = None, pg_adapt_idx = 0,
      pg_align_idx = 0\<rparr>"

text \<open>The loop over the adapters of a path, with the current output and representation.\<close>

definition push_adapter ::
  "source_id \<Rightarrow> adapter_spec \<Rightarrow> planning \<times> string \<times> representation_id \<Rightarrow>
   planning \<times> string \<times> representation_id"
where
  "push_adapter i a st =
     (let (pg, current_output, current_representation) = st;
          step_output = ''step:adapt:'' @ decimal (pg_adapt_idx pg)
      in
      (pg\<lparr>pg_steps :=
            pg_steps pg @ [adapt_step i a current_output current_representation step_output],
          pg_adapt_idx := pg_adapt_idx pg + 1\<rparr>,
       step_output, ad_output_representation a))"

text \<open>The loop over the resolved sources of a port, with the inputs of its join.\<close>

definition push_source :: "resolved_source \<Rightarrow> planning \<times> string list \<Rightarrow> planning \<times> string list" where
  "push_source r st =
     (let (pg, join_inputs) = st; s = rv_source r;
          pg' = pg\<lparr>pg_issues := pg_issues pg @ rv_issues r,
                   pg_steps := pg_steps pg @ [materialize_step s]\<rparr>;
          (pg'', current_output, _) =
            fold (push_adapter (sd_id s)) (pt_adapters (rv_path r))
              (pg', source_output_id (sd_id s), rp_id (sd_native_representation s))
      in (pg'', join_inputs @ [current_output]))"

definition plan_port ::
  "adapter_registry \<Rightarrow> planning_policy \<Rightarrow> json option \<Rightarrow> source_descriptor list \<Rightarrow> planning \<Rightarrow>
   input_port_spec \<Rightarrow> planning res"
where
  "plan_port adapters pol fusion candidates pg port =
     rbind (resolve_port adapters pol candidates port) (\<lambda>resolved.
       if resolved = []
       then (if ip_optional port then Inr pg
             else invalid ''no source can satisfy required model input port'')
       else if 1 < length resolved \<and> \<not> ip_multi_source port
       then invalid ''model input port accepts one source''
       else
         (let r = rv_target_representation (hd resolved);
              (pg', join_inputs) = fold push_source resolved (pg, [])
          in
          rbind
            (if 1 < length join_inputs
             then
               (let align_output = ''step:align:'' @ decimal (pg_align_idx pg') in
                rbind (alignment_mode_from_fusion fusion) (\<lambda>mode.
                  Inr (pg'\<lparr>pg_steps := pg_steps pg' @ [align_step join_inputs align_output mode r],
                           pg_align_idx := pg_align_idx pg' + 1\<rparr>,
                       [align_output])))
             else Inr (pg', join_inputs))
            (\<lambda>(pg'', join_inputs).
               Inr (pg''\<lparr>pg_steps := pg_steps pg'' @ [join_step join_inputs (ip_name port) r],
                         pg_output_representation := Some r\<rparr>))))"

text \<open>Everything but the final validation.\<close>

definition build_plan ::
  "(string \<Rightarrow> f64 option) \<Rightarrow> dataset_schema \<Rightarrow> model_input_spec \<Rightarrow> adapter_registry \<Rightarrow>
   data_plan_request \<Rightarrow> data_plan res"
where
  "build_plan number_f64 schema mi adapters req =
     rseq (dataset_schema_validate number_f64 schema)
    (rseq (model_input_validate mi)
    (rseq (validate_request req)
    (rbind (candidate_sources schema req) (\<lambda>candidates.
     rbind
       (fold_res (plan_port adapters (dr_planning_policy req) (mi_default_fusion mi) candidates)
          planning_init (mi_ports mi))
       (\<lambda>pg.
          rbind
            (ok_or (pg_output_representation pg)
               (Validation ''model input plan produced no outputs''))
            (\<lambda>r.
               Inr \<lparr>dp_id = dr_id req, dp_steps = pg_steps pg, dp_output_representation = r,
                    dp_issues = pg_issues pg\<rparr>))))))"

definition plan_model_input ::
  "(string \<Rightarrow> f64 option) \<Rightarrow> dataset_schema \<Rightarrow> model_input_spec \<Rightarrow> adapter_registry \<Rightarrow>
   data_plan_request \<Rightarrow> data_plan res"
where
  "plan_model_input number_f64 schema mi adapters req =
     rbind (build_plan number_f64 schema mi adapters req)
       (\<lambda>plan. rseq (data_plan_validate plan) (Inr plan))"

end
