(* ===== verification/Planner_Soundness.thy ===== *)
theory Planner_Soundness
  imports Planner
begin

text \<open>
  What the planner guarantees. \<open>planning_wf\<close> is the invariant of its loops: the steps made so far have
  a sound data flow, and every name they write is one of four kinds, so that the next counter value
  or port name is fresh. It follows that the final validation of a plan never fails, and when
  planning succeeds.
\<close>

section \<open>The data flow invariant\<close>

definition provides :: "data_plan_step list \<Rightarrow> string \<Rightarrow> representation_id \<Rightarrow> bool" where
  "provides steps name r \<longleftrightarrow>
     (\<exists>w\<in>set steps. step_writes w = Some name \<and> ps_output_representation w = Some r)"

lemma provides_compatible:
  assumes "steps_fit steps" and "provides steps name r" and "w \<in> set steps"
    and "step_writes w = Some name"
  shows "compatible (ps_output_representation w) (Some r)"
  using assms writers_agree [OF assms(1) assms(3)] unfolding provides_def compatible_def
  by fastforce

lemma step_fits_fresh:
  assumes "steps_fit earlier" and "earlier \<noteq> []" and "step_wf s"
    and "ps_input_representation s = Some r" and "\<forall>x\<in>set (step_reads s). provides earlier x r"
    and "\<forall>w\<in>set earlier. step_writes w = Some out \<longrightarrow> False" and "step_writes s = Some out"
  shows "step_fits earlier s"
  unfolding step_fits_def
proof (intro conjI ballI allI impI)
  fix x assume "x \<in> set (step_reads s)"
  with assms(5) have x: "provides earlier x r" by blast
  then show "\<exists>w\<in>set earlier. step_writes w = Some x" by (auto simp: provides_def)
  fix w assume "w \<in> set earlier" "step_writes w = Some x"
  with x show "compatible (ps_output_representation w) (ps_input_representation s)"
    using provides_compatible [OF assms(1)] assms(4) by simp
qed (use assms in auto)

lemma provides_mono: "provides steps x r \<Longrightarrow> set steps \<subseteq> set steps' \<Longrightarrow> provides steps' x r"
  by (auto simp: provides_def)

section \<open>The steps the planner writes\<close>

lemma strings_of_JString: "map_res (\<lambda>v. ok_or (json_as_str v) e) (map JString xs) = Inr xs"
  by (induction xs) simp_all

lemmas step_io_defs = step_reads_def step_writes_def step_wf_def plan_step_inputs_def
  plan_step_output_def bt.get_collect

lemma blank_prefixes [simp]:
  "\<not> is_blank (''src:'' @ s)" "\<not> is_blank (''step:adapt:'' @ s)" "\<not> is_blank (''step:align:'' @ s)"
  "\<not> is_blank (''port:'' @ s)"
  by (simp_all add: not_blank_graphic_head is_ascii_graphic_def byte_of_def)

lemma materialize_step_io:
  "step_wf (materialize_step s)" "step_reads (materialize_step s) = []"
  "step_writes (materialize_step s) = Some (''src:'' @ as_str (sd_id s))"
  using blank_prefixes(1) [of "as_str (sd_id s)"]
  by (simp_all add: step_io_defs materialize_step_def source_output_id_def del: append.simps)

lemma materialize_step_kind: "ps_kind (materialize_step s) = plan_step_kind.Materialize"
  by (simp add: materialize_step_def)

lemma adapt_step_io:
  assumes "\<not> is_blank (ad_id a)" and "\<not> is_blank out"
  shows "step_wf (adapt_step i a current r out)" "step_reads (adapt_step i a current r out) = [current]"
    "step_writes (adapt_step i a current r out) = Some out"
  using assms by (simp_all add: step_io_defs adapt_step_def)

lemma align_step_io:
  assumes "inputs \<noteq> []" and "\<not> is_blank out"
  shows "step_wf (align_step inputs out mode r)" "step_reads (align_step inputs out mode r) = inputs"
    "step_writes (align_step inputs out mode r) = Some out"
  using assms by (simp_all add: step_io_defs align_step_def alignment_metadata_def strings_of_JString)

lemma join_step_io:
  assumes "inputs \<noteq> []"
  shows "step_wf (join_step inputs port r)" "step_reads (join_step inputs port r) = inputs"
    "step_writes (join_step inputs port r) = Some (''port:'' @ port)"
  using assms blank_prefixes(4) [of port]
  by (simp_all add: step_io_defs join_step_def strings_of_JString del: append.simps)

section \<open>The loops keep the invariant\<close>

text \<open>The names written so far: a source with its native representation, or a name used once.\<close>

definition planned_write :: "source_descriptor set \<Rightarrow> planning \<Rightarrow> string set \<Rightarrow> data_plan_step \<Rightarrow> bool" where
  "planned_write sources pg ports w \<longleftrightarrow>
     (\<exists>s\<in>sources. w = materialize_step s) \<or>
     (\<exists>i<pg_adapt_idx pg. step_writes w = Some (''step:adapt:'' @ decimal i)) \<or>
     (\<exists>i<pg_align_idx pg. step_writes w = Some (''step:align:'' @ decimal i)) \<or>
     (\<exists>p\<in>ports. step_writes w = Some (''port:'' @ p))"

definition planning_wf :: "source_descriptor set \<Rightarrow> string set \<Rightarrow> planning \<Rightarrow> bool" where
  "planning_wf sources ports pg \<longleftrightarrow>
     inj_on sd_id sources \<and> steps_fit (pg_steps pg) \<and>
     (\<forall>w\<in>set (pg_steps pg). planned_write sources pg ports w)"

lemma push_materialize_wf:
  assumes "planning_wf sources ports pg" and "s \<in> sources"
  shows "planning_wf sources ports (pg\<lparr>pg_issues := issues, pg_steps := pg_steps pg @ [materialize_step s]\<rparr>)"
proof -
  have "step_fits (pg_steps pg) (materialize_step s)"
    unfolding step_fits_def materialize_step_io
  proof (intro conjI ballI allI impI)
    show "ps_kind (materialize_step s) = plan_step_kind.Materialize"
      by (simp add: materialize_step_def)
    fix w out assume w: "w \<in> set (pg_steps pg)" "step_writes w = Some out"
      "Some (''src:'' @ as_str (sd_id s)) = Some out"
    then have "planned_write sources pg ports w" using assms(1) by (simp add: planning_wf_def)
    with w(2,3) obtain t where t: "t \<in> sources" "w = materialize_step t"
      by (auto simp: planned_write_def)
    with w(2,3) have "sd_id t = sd_id s" 
      by (intro ident.expand) (auto simp: materialize_step_io)
    then have "t = s" using t(1) assms by (auto simp: planning_wf_def dest: inj_onD)
    then have "w = materialize_step s" using t(2) by simp
    then show "ps_kind w = plan_step_kind.Materialize"
      "ps_output_representation w = ps_output_representation (materialize_step s)"
      "ps_source_id w = ps_source_id (materialize_step s)"
      by (simp_all add: materialize_step_def)
  qed (simp_all add: materialize_step_io materialize_step_kind)
  then show ?thesis
    using assms by (auto simp: planning_wf_def steps_fit_snoc planned_write_def)
qed

text \<open>A step that writes a name of a kind of its own, with the next index of that kind.\<close>

lemma push_fresh_wf:
  assumes "planning_wf sources ports pg" and "pg_steps pg \<noteq> []" and "step_wf s"
    and "ps_input_representation s = Some r" and "\<forall>x\<in>set (step_reads s). provides (pg_steps pg) x r"
    and "step_writes s = Some out"
    and "\<And>w. planned_write sources pg ports w \<Longrightarrow> step_writes w \<noteq> Some out"
    and "pg_steps pg' = pg_steps pg @ [s]"
    and "\<And>w. planned_write sources pg ports w \<Longrightarrow> planned_write sources pg' ports' w"
    and "planned_write sources pg' ports' s"
  shows "planning_wf sources ports' pg'"
proof -
  have wf: "inj_on sd_id sources" "steps_fit (pg_steps pg)"
    "\<forall>w\<in>set (pg_steps pg). planned_write sources pg ports w"
    using assms(1) by (simp_all add: planning_wf_def)
  have "step_fits (pg_steps pg) s"
    using wf assms(2-7) by (intro step_fits_fresh) auto
  then show ?thesis
    using wf assms(8-10) by (auto simp: planning_wf_def steps_fit_snoc)
qed

lemma push_adapter_wf:
  assumes "planning_wf sources ports pg" and "provides (pg_steps pg) current r"
    and "\<not> is_blank (ad_id a)"
    and "push_adapter i a (pg, current, r) = (pg', current', r')"
  shows "planning_wf sources ports pg' \<and> provides (pg_steps pg') current' r' \<and>
    set (pg_steps pg) \<subseteq> set (pg_steps pg')"
proof -
  let ?out = "''step:adapt:'' @ decimal (pg_adapt_idx pg)"
  have pg': "pg' = pg\<lparr>pg_steps := pg_steps pg @ [adapt_step i a current r ?out],
      pg_adapt_idx := pg_adapt_idx pg + 1\<rparr>" "current' = ?out" "r' = ad_output_representation a"
    using assms(4) by (auto simp: push_adapter_def Let_def)
  note io = adapt_step_io [OF assms(3) blank_prefixes(2), of i current r "decimal (pg_adapt_idx pg)"]
  have "planning_wf sources ports pg'"
  proof (rule push_fresh_wf [OF assms(1), where s = "adapt_step i a current r ?out" and r = r and out = ?out])
    show "pg_steps pg \<noteq> []" using assms(2) by (auto simp: provides_def)
    show "step_writes w \<noteq> Some ?out" if "planned_write sources pg ports w" for w
      using that by (auto simp: planned_write_def materialize_step_io)
    show "planned_write sources pg' ports w" if "planned_write sources pg ports w" for w
      using that by (auto simp: planned_write_def pg' less_Suc_eq)
  qed (use assms(2) io in \<open>simp_all add: pg' planned_write_def adapt_step_def\<close>)
  moreover have "provides (pg_steps pg') current' r'"
    using io(3) by (simp add: provides_def pg' adapt_step_def)
  ultimately show ?thesis by (auto simp: pg')
qed

lemma push_adapters_wf:
  assumes "planning_wf sources ports pg" and "provides (pg_steps pg) current r"
    and "\<forall>a\<in>set as. \<not> is_blank (ad_id a)"
    and "fold (push_adapter i) as (pg, current, r) = (pg', current', r')"
  shows "planning_wf sources ports pg' \<and> provides (pg_steps pg') current' r' \<and>
    set (pg_steps pg) \<subseteq> set (pg_steps pg')"
  using assms
proof (induction as arbitrary: pg current r)
  case Nil
  then show ?case by simp
next
  case (Cons a as)
  obtain pg1 c1 r1 where step: "push_adapter i a (pg, current, r) = (pg1, c1, r1)"
    by (metis prod_cases3)
  have "planning_wf sources ports pg1 \<and> provides (pg_steps pg1) c1 r1 \<and> set (pg_steps pg) \<subseteq> set (pg_steps pg1)"
    using push_adapter_wf [OF Cons.prems(1,2) _ step] Cons.prems(3) by simp
  then show ?case
    using Cons.IH [of pg1 c1 r1] Cons.prems(3,4) step by auto
qed

lemma push_adapters_representation:
  "chain (t, r) as (t', r') \<Longrightarrow> fold (push_adapter i) as (pg, current, r) = (pg', current', r'') \<Longrightarrow> r'' = r'"
proof (induction as arbitrary: t r pg current)
  case (Cons a as)
  then show ?case by (auto simp: push_adapter_def Let_def ad_target_def)
qed simp

text \<open>A resolution the planner may use: a path from the source to the target with named adapters.\<close>

definition resolution_ok :: "source_descriptor set \<Rightarrow> resolved_source \<Rightarrow> bool" where
  "resolution_ok sources rv \<longleftrightarrow>
     rv_source rv \<in> sources \<and>
     (\<exists>t. chain (sd_type_id (rv_source rv), rp_id (sd_native_representation (rv_source rv)))
        (pt_adapters (rv_path rv)) (t, rv_target_representation rv)) \<and>
     (\<forall>a\<in>set (pt_adapters (rv_path rv)). \<not> is_blank (ad_id a))"

lemma push_source_wf:
  assumes "planning_wf sources ports pg" and "resolution_ok sources rv"
    and "\<forall>x\<in>set inputs. provides (pg_steps pg) x r" and "rv_target_representation rv = r"
    and "push_source rv (pg, inputs) = (pg', inputs')"
  shows "planning_wf sources ports pg' \<and> length inputs' = Suc (length inputs) \<and>
    (\<forall>x\<in>set inputs'. provides (pg_steps pg') x r) \<and> pg_steps pg' \<noteq> [] \<and>
    pg_align_idx pg' = pg_align_idx pg"
proof -
  let ?s = "rv_source rv"
  let ?pg1 = "pg\<lparr>pg_issues := pg_issues pg @ rv_issues rv, pg_steps := pg_steps pg @ [materialize_step ?s]\<rparr>"
  obtain pg2 c r2 where loop: "fold (push_adapter (sd_id ?s)) (pt_adapters (rv_path rv))
      (?pg1, source_output_id (sd_id ?s), rp_id (sd_native_representation ?s)) = (pg2, c, r2)"
    by (metis prod_cases3)
  have out: "pg' = pg2" "inputs' = inputs @ [c]"
    using assms(5) loop by (simp_all add: push_source_def Let_def)
  have wf1: "planning_wf sources ports ?pg1"
    using assms(1,2) by (intro push_materialize_wf) (simp_all add: resolution_ok_def)
  have prov1: "provides (pg_steps ?pg1) (source_output_id (sd_id ?s)) (rp_id (sd_native_representation ?s))"
    using materialize_step_io(3) [of ?s]
    by (simp add: provides_def source_output_id_def materialize_step_def)
  have wf2: "planning_wf sources ports pg2" "provides (pg_steps pg2) c r2"
      "set (pg_steps ?pg1) \<subseteq> set (pg_steps pg2)"
    using push_adapters_wf [OF wf1 prov1 _ loop] assms(2) by (simp_all add: resolution_ok_def)
  have "r2 = r"
    using push_adapters_representation [OF _ loop] assms(2,4) by (auto simp: resolution_ok_def)
  moreover have "pg_align_idx (fst (fold (push_adapter i) as st)) = pg_align_idx (fst st)" for i as st
    by (induction as arbitrary: st) (auto simp: push_adapter_def Let_def split: prod.splits)
  from this [of "sd_id ?s" "pt_adapters (rv_path rv)"
      "(?pg1, source_output_id (sd_id ?s), rp_id (sd_native_representation ?s))"]
  have "pg_align_idx pg2 = pg_align_idx pg" by (simp add: loop)
  moreover have "pg_steps pg2 \<noteq> []" using wf2(3) by auto
  ultimately show ?thesis
    using wf2 assms(3) provides_mono [of "pg_steps pg" _ r "pg_steps pg2"] by (auto simp: out)
qed

lemma push_sources_wf:
  assumes "planning_wf sources ports pg"
    and "\<forall>rv\<in>set rvs. resolution_ok sources rv \<and> rv_target_representation rv = r"
    and "\<forall>x\<in>set inputs. provides (pg_steps pg) x r"
    and "fold push_source rvs (pg, inputs) = (pg', inputs')"
  shows "planning_wf sources ports pg' \<and> length inputs' = length inputs + length rvs \<and>
    (\<forall>x\<in>set inputs'. provides (pg_steps pg') x r) \<and> (rvs \<noteq> [] \<longrightarrow> pg_steps pg' \<noteq> [])"
  using assms
proof (induction rvs arbitrary: pg inputs)
  case Nil
  then show ?case by simp
next
  case (Cons rv rvs)
  obtain pg1 inputs1 where step: "push_source rv (pg, inputs) = (pg1, inputs1)" by fastforce
  have one: "planning_wf sources ports pg1 \<and> length inputs1 = Suc (length inputs) \<and>
      (\<forall>x\<in>set inputs1. provides (pg_steps pg1) x r) \<and> pg_steps pg1 \<noteq> []"
    using push_source_wf [OF Cons.prems(1) _ Cons.prems(3) _ step] Cons.prems(2) by simp
  then have rest: "planning_wf sources ports pg' \<and> length inputs' = length inputs1 + length rvs \<and>
      (\<forall>x\<in>set inputs'. provides (pg_steps pg') x r) \<and> (rvs \<noteq> [] \<longrightarrow> pg_steps pg' \<noteq> [])"
    using Cons.IH [of pg1 inputs1] Cons.prems(2,4) step by simp
  show ?case
  proof (cases rvs)
    case Nil
    then show ?thesis using one Cons.prems(4) step by auto
  next
    case (Cons rv' rvs')
    then show ?thesis using one rest by simp
  qed
qed

lemma finish_port_wf:
  assumes "planning_wf sources ports pg" and "pg_steps pg \<noteq> []" and "port \<notin> ports"
    and "inputs \<noteq> []" and "\<forall>x\<in>set inputs. provides (pg_steps pg) x r"
  shows "planning_wf sources (insert port ports)
    (pg\<lparr>pg_steps := pg_steps pg @ [join_step inputs port r], pg_output_representation := Some r\<rparr>)"
  (is "planning_wf _ _ ?pg'")
proof (rule push_fresh_wf [OF assms(1,2), where s = "join_step inputs port r" and r = r and out = "''port:'' @ port"])
  note io = join_step_io [OF assms(4), of port r]
  show "step_wf (join_step inputs port r)" "step_writes (join_step inputs port r) = Some (''port:'' @ port)"
    by (rule io)+
  show "\<forall>x\<in>set (step_reads (join_step inputs port r)). provides (pg_steps pg) x r"
    using assms(5) by (simp add: io)
  show "step_writes w \<noteq> Some (''port:'' @ port)" if "planned_write sources pg ports w" for w
    using that assms(3) by (auto simp: planned_write_def materialize_step_io)
  show "planned_write sources ?pg' (insert port ports) w" if "planned_write sources pg ports w" for w
    using that by (auto simp: planned_write_def)
  show "planned_write sources ?pg' (insert port ports) (join_step inputs port r)"
    by (simp add: planned_write_def io)
qed (simp_all add: join_step_def)

lemma align_port_wf:
  fixes mode :: alignment_mode
  assumes "planning_wf sources ports pg" and "pg_steps pg \<noteq> []"
    and "inputs \<noteq> []" and "\<forall>x\<in>set inputs. provides (pg_steps pg) x r"
  defines "out \<equiv> ''step:align:'' @ decimal (pg_align_idx pg)"
  defines "pg' \<equiv> pg\<lparr>pg_steps := pg_steps pg @ [align_step inputs out mode r],
    pg_align_idx := pg_align_idx pg + 1\<rparr>"
  shows "planning_wf sources ports pg' \<and> pg_steps pg' \<noteq> [] \<and> provides (pg_steps pg') out r"
proof -
  have blank: "\<not> is_blank out" by (simp add: out_def del: append.simps)
  note io = align_step_io [OF assms(3) blank, of mode r]
  have "planning_wf sources ports pg'"
  proof (rule push_fresh_wf [OF assms(1,2), where s = "align_step inputs out mode r" and r = r and out = out])
    show "step_wf (align_step inputs out mode r)" "step_writes (align_step inputs out mode r) = Some out"
      by (rule io)+
    show "\<forall>x\<in>set (step_reads (align_step inputs out mode r)). provides (pg_steps pg) x r"
      using assms(4) by (simp add: io)
    show "step_writes w \<noteq> Some out" if "planned_write sources pg ports w" for w
      using that by (auto simp: planned_write_def materialize_step_io out_def)
    show "planned_write sources pg' ports w" if "planned_write sources pg ports w" for w
      using that by (auto simp: planned_write_def pg'_def less_Suc_eq)
    have "step_writes (align_step inputs out mode r) = Some (''step:align:'' @ decimal (pg_align_idx pg))"
      using io(3) by (simp only: out_def)
    then show "planned_write sources pg' ports (align_step inputs out mode r)"
      unfolding planned_write_def pg'_def
      by - (rule disjI2, rule disjI2, rule disjI1, auto intro!: exI [of _ "pg_align_idx pg"])
  qed (simp_all add: align_step_def pg'_def)
  moreover have "provides (pg_steps pg') out r"
    by (simp add: provides_def io pg'_def) (simp add: align_step_def)
  ultimately show ?thesis by (simp add: pg'_def)
qed

section \<open>Resolution\<close>

text \<open>The registry holds validated adapters only; it is built by registration.\<close>

definition adapters_ok :: "adapter_registry \<Rightarrow> bool" where
  "adapters_ok reg \<longleftrightarrow> registry_ok reg \<and> (\<forall>a\<in>set (bt_values reg). adapter_validate a = Inr ())"

lemma registry_from_spec_adapters_ok:
  assumes "registry_from_spec as = Inr reg"
  shows "adapters_ok reg"
proof -
  have reg: "reg = bt_collect (map (\<lambda>a. (ad_id a, a)) as)" "\<forall>a\<in>set as. adapter_validate a = Inr ()"
    using assms by (simp_all add: registry_from_spec_ok)
  have ok: "registry_ok reg" by (rule registry_from_spec_registry_ok [OF assms])
  have "a \<in> set as" if "a \<in> set (bt_values reg)" for a
  proof -
    from that obtain k where "(k, a) \<in> set reg" by auto
    then have "map_of reg k = Some a" using ok by (simp add: registry_ok_def bt_wf_distinct)
    then have "map_of (rev (map (\<lambda>a. (ad_id a, a)) as)) k = Some a" by (simp add: reg bt.get_collect)
    from map_of_SomeD [OF this] show ?thesis by auto
  qed
  then show ?thesis using ok reg(2) by (auto simp: adapters_ok_def)
qed

lemma found_path_ok:
  assumes "adapters_ok reg" and "pr_path (find_path reg t r t' r' pol) = Some p"
  shows "chain (t, r) (pt_adapters p) (t', r') \<and> (\<forall>a\<in>set (pt_adapters p). \<not> is_blank (ad_id a))"
proof -
  have ok: "registry_ok reg" using assms(1) by (simp add: adapters_ok_def)
  have path: "chain (t, r) (pt_adapters p) (t', r')"
      "\<forall>a\<in>set (pt_adapters p). map_of reg (ad_id a) = Some a"
    using find_path_sound_lemma [OF ok, of t r t' r' pol] assms(2) by simp_all
  have "\<not> is_blank (ad_id a)" if "a \<in> set (pt_adapters p)" for a
  proof -
    from that path(2) have "(ad_id a, a) \<in> set reg" by (blast dest: map_of_SomeD)
    then have "a \<in> set (bt_values reg)" by force
    then show ?thesis
      using assms(1) by (auto simp: adapters_ok_def adapter_validate_def validate_name_def res_simps)
  qed
  with path(1) show ?thesis by blast
qed

lemma resolve_target_ok:
  assumes "adapters_ok reg" and "resolve_target reg pol port s (t, r) = Some rv" and "s \<in> sources"
  shows "resolution_ok sources rv \<and> rv_source rv = s \<and> rv_target_representation rv = r"
proof -
  obtain pol' p where "pr_path (find_path reg (sd_type_id s) (rp_id (sd_native_representation s)) t r pol') = Some p"
    and rv: "rv_source rv = s" "rv_target_representation rv = r" "rv_path rv = p"
    using assms(2) by (auto simp: resolve_target_def Let_def split: if_splits option.splits)
  from found_path_ok [OF assms(1) this(1)] show ?thesis
    using assms(3) by (auto simp: resolution_ok_def rv)
qed

lemma resolve_source_ok:
  assumes "adapters_ok reg" and "resolve_source reg pol port s = Some rv" and "s \<in> sources"
  shows "resolution_ok sources rv \<and> rv_source rv = s \<and>
    rv_target_representation rv \<in> set (ip_accepted_representations port)"
proof -
  obtain t r where "(t, r) \<in> set (List.product (ip_accepted_types port) (ip_accepted_representations port))"
    "resolve_target reg pol port s (t, r) = Some rv"
    using first_some_mem assms(2) unfolding resolve_source_def by fastforce
  with resolve_target_ok [OF assms(1) this(2) assms(3)] show ?thesis by simp
qed

lemma negotiate_ok:
  assumes "adapters_ok reg" and "negotiate reg pol port eligible = Some rvs" and "set eligible \<subseteq> sources"
  shows "\<exists>r. \<forall>rv\<in>set rvs. resolution_ok sources rv \<and> rv_target_representation rv = r"
proof -
  obtain t r where "those (map (resolve_source reg pol
      (port\<lparr>ip_accepted_types := [t], ip_accepted_representations := [r]\<rparr>)) eligible) = Some rvs"
    using first_some_mem assms(2) unfolding negotiate_def Let_def by fastforce
  then have eq: "map (resolve_source reg pol
      (port\<lparr>ip_accepted_types := [t], ip_accepted_representations := [r]\<rparr>)) eligible = map Some rvs"
    by (simp add: those_eq_Some)
  have "resolution_ok sources rv \<and> rv_target_representation rv = r" if "rv \<in> set rvs" for rv
  proof -
    from that have "Some rv \<in> set (map Some rvs)" by simp
    then obtain s where "s \<in> set eligible" "resolve_source reg pol
        (port\<lparr>ip_accepted_types := [t], ip_accepted_representations := [r]\<rparr>) s = Some rv"
      unfolding eq [symmetric] by auto
    with resolve_source_ok [OF assms(1) this(2), of sources] assms(3) show ?thesis by auto
  qed
  then show ?thesis by blast
qed

lemma resolve_port_ok:
  assumes "adapters_ok reg" and "resolve_port reg pol candidates port = Inr rvs"
    and "set candidates \<subseteq> sources" and "rvs \<noteq> []" and "length rvs \<le> 1 \<or> ip_multi_source port"
  shows "\<forall>rv\<in>set rvs. resolution_ok sources rv \<and>
    rv_target_representation rv = rv_target_representation (hd rvs)"
proof -
  let ?each = "List.map_filter (resolve_source reg pol port) candidates"
  have each: "resolution_ok sources rv" "rv_source rv \<in> sources" if "rv \<in> set ?each" for rv
  proof -
    from that obtain s where "s \<in> set candidates" "resolve_source reg pol port s = Some rv"
      by (auto simp: set_map_filter)
    with resolve_source_ok [OF assms(1) this(2), of sources] assms(3)
    show "resolution_ok sources rv" "rv_source rv \<in> sources" by auto
  qed
  show ?thesis
  proof (cases "ip_multi_source port \<and> 1 < length ?each")
    case True
    then have "negotiate reg pol port (map rv_source ?each) = Some rvs"
      using assms(2) by (simp add: resolve_port_def Let_def ok_or_eq_Inr)
    from negotiate_ok [OF assms(1) this, of sources] each(2) assms(4) show ?thesis
      by (auto simp: image_subset_iff)
  next
    case False
    then have rvs: "rvs = ?each" using assms(2) by (auto simp: resolve_port_def Let_def split: if_splits)
    with False assms(5) have "length rvs \<le> 1" by auto
    then have "rv = hd rvs" if "rv \<in> set rvs" for rv using that by (cases rvs) auto
    then show ?thesis using each(1) unfolding rvs by blast
  qed
qed

section \<open>A built plan is valid\<close>

lemma plan_port_wf:
  assumes "planning_wf sources ports pg" and "adapters_ok reg" and "set candidates \<subseteq> sources"
    and "plan_port reg pol fusion candidates pg port = Inr pg'" and "ip_name port \<notin> ports"
  shows "planning_wf sources (insert (ip_name port) ports) pg' \<and>
    (pg' = pg \<or> pg_steps pg' \<noteq> [] \<and>
       ps_output_representation (last (pg_steps pg')) = pg_output_representation pg')"
proof -
  obtain rvs where rvs: "resolve_port reg pol candidates port = Inr rvs"
    using assms(4) by (auto simp: plan_port_def rbind_eq_Inr)
  show ?thesis
  proof (cases "rvs = []")
    case True
    then have "pg' = pg" using assms(4) rvs by (auto simp: plan_port_def split: if_splits)
    then show ?thesis using assms(1) by (auto simp: planning_wf_def planned_write_def)
  next
    case False
    let ?r = "rv_target_representation (hd rvs)"
    obtain pg1 inputs where loop: "fold push_source rvs (pg, []) = (pg1, inputs)" by fastforce
    have single: "length rvs \<le> 1 \<or> ip_multi_source port"
      using assms(4) rvs False by (auto simp: plan_port_def not_le split: if_splits)
    have ok: "\<forall>rv\<in>set rvs. resolution_ok sources rv \<and> rv_target_representation rv = ?r"
      using resolve_port_ok [OF assms(2) rvs assms(3) False single] .
    have wf1: "planning_wf sources ports pg1" "length inputs = length rvs" "pg_steps pg1 \<noteq> []"
        "\<forall>x\<in>set inputs. provides (pg_steps pg1) x ?r"
      using push_sources_wf [OF assms(1) ok _ loop] False by simp_all
    have nonempty: "inputs \<noteq> []" using wf1(2) False by auto
    obtain pg2 inputs2 where pg2: "planning_wf sources ports pg2" "pg_steps pg2 \<noteq> []"
        "inputs2 \<noteq> []" "\<forall>x\<in>set inputs2. provides (pg_steps pg2) x ?r"
      and pg': "pg' = pg2\<lparr>pg_steps := pg_steps pg2 @ [join_step inputs2 (ip_name port) ?r],
        pg_output_representation := Some ?r\<rparr>"
    proof (cases "1 < length inputs")
      case True
      let ?out = "''step:align:'' @ decimal (pg_align_idx pg1)"
      let ?pg2 = "\<lambda>mode. pg1\<lparr>pg_steps := pg_steps pg1 @ [align_step inputs ?out mode ?r],
        pg_align_idx := pg_align_idx pg1 + 1\<rparr>"
      obtain mode where "alignment_mode_from_fusion fusion = Inr mode"
          "pg' = (let out = ''step:align:'' @ decimal (pg_align_idx pg1);
                      pg2 = pg1\<lparr>pg_steps := pg_steps pg1 @ [align_step inputs out mode ?r],
                                pg_align_idx := pg_align_idx pg1 + 1\<rparr>
                  in pg2\<lparr>pg_steps := pg_steps pg2 @ [join_step [out] (ip_name port) ?r],
                         pg_output_representation := Some ?r\<rparr>)"
        using assms(4) rvs False True loop single
        by (auto simp: plan_port_def Let_def rbind_eq_Inr simp del: append.simps split: if_splits)
      then have pg': "pg' = ?pg2 mode\<lparr>pg_steps := pg_steps (?pg2 mode) @ [join_step [?out] (ip_name port) ?r],
          pg_output_representation := Some ?r\<rparr>"
        by (simp add: Let_def del: append.simps)
      show ?thesis
        using align_port_wf [OF wf1(1,3) nonempty wf1(4), of mode]
        by (intro that [OF _ _ _ _ pg']) simp_all
    next
      case False
      then have "pg' = pg1\<lparr>pg_steps := pg_steps pg1 @ [join_step inputs (ip_name port) ?r],
          pg_output_representation := Some ?r\<rparr>"
        using assms(4) rvs \<open>rvs \<noteq> []\<close> loop single
        by (auto simp: plan_port_def Let_def split: if_splits)
      then show ?thesis using that wf1 nonempty by blast
    qed
    show ?thesis
      using finish_port_wf [OF pg2(1,2) assms(5) pg2(3,4)] by (simp add: pg') (simp add: join_step_def)
  qed
qed

definition plan_complete :: "planning \<Rightarrow> bool" where
  "plan_complete pg \<longleftrightarrow>
     (case pg_output_representation pg of
        None \<Rightarrow> True
      | Some r \<Rightarrow> pg_steps pg \<noteq> [] \<and> ps_output_representation (last (pg_steps pg)) = Some r)"

lemma plan_ports_wf:
  assumes "planning_wf sources ports pg" and "plan_complete pg" and "adapters_ok reg"
    and "set candidates \<subseteq> sources" and "distinct (map ip_name ps)" and "set (map ip_name ps) \<inter> ports = {}"
    and "fold_res (plan_port reg pol fusion candidates) pg ps = Inr pg'"
  shows "planning_wf sources (ports \<union> set (map ip_name ps)) pg' \<and> plan_complete pg'"
  using assms(1,2,5-7)
proof (induction ps arbitrary: pg ports)
  case Nil
  then show ?case by simp
next
  case (Cons p ps)
  obtain pg1 where step: "plan_port reg pol fusion candidates pg p = Inr pg1"
    and rest: "fold_res (plan_port reg pol fusion candidates) pg1 ps = Inr pg'"
    using Cons.prems(5) by (auto simp: rbind_eq_Inr)
  have "ip_name p \<notin> ports" using Cons.prems(4) by auto
  from plan_port_wf [OF Cons.prems(1) assms(3,4) step this]
  have "planning_wf sources (insert (ip_name p) ports) pg1" "plan_complete pg1"
    using Cons.prems(2) by (auto simp: plan_complete_def split: option.split)
  from Cons.IH [OF this _ _ rest] Cons.prems(3,4) show ?case by auto
qed

lemma candidate_sources_subset:
  assumes "candidate_sources schema req = Inr candidates"
  shows "set candidates \<subseteq> set (ds_sources schema)"
proof (cases "dr_source_ids req")
  case None
  then show ?thesis using assms by (auto simp: candidate_sources_def)
next
  case (Some requested)
  let ?by_id = "map_of (bt_collect (map (\<lambda>s. (sd_id s, s)) (sort_key sd_id (ds_sources schema))))"
  have "\<forall>s\<in>set candidates. \<exists>i. ?by_id i = Some s"
    using assms Some
    by (fastforce simp: candidate_sources_def map_res_eq_Inr ok_or_eq_Inr in_set_conv_nth
        list_all2_conv_all_nth)
  then show ?thesis by (fastforce simp: bt.get_collect dest: map_of_SomeD)
qed

text \<open>The planner's own validation can never fail.\<close>

lemma build_plan_valid:
  assumes "adapters_ok reg" and "build_plan nf schema mi reg req = Inr plan"
  shows "data_plan_validate plan = Inr ()"
proof -
  obtain candidates pg r where parts:
      "dataset_schema_validate nf schema = Inr ()" "model_input_validate mi = Inr ()"
      "validate_request req = Inr ()" "candidate_sources schema req = Inr candidates"
      "fold_res (plan_port reg (dr_planning_policy req) (mi_default_fusion mi) candidates)
        planning_init (mi_ports mi) = Inr pg"
      "pg_output_representation pg = Some r"
      "plan = \<lparr>dp_id = dr_id req, dp_steps = pg_steps pg, dp_output_representation = r,
        dp_issues = pg_issues pg\<rparr>"
    using assms(2) by (auto simp: build_plan_def rbind_eq_Inr ok_or_eq_Inr)
  have "inj_on sd_id (set (ds_sources schema))"
    using parts(1) by (simp add: dataset_schema_validate_ok schema_ok_def distinct_map)
  then have "planning_wf (set (ds_sources schema)) {} planning_init" "plan_complete planning_init"
    by (simp_all add: planning_wf_def planning_init_def plan_complete_def)
  moreover have "distinct (map ip_name (mi_ports mi))"
    using parts(2) by (simp add: model_input_validate_ok model_input_ok_def)
  ultimately have "planning_wf (set (ds_sources schema)) (set (map ip_name (mi_ports mi))) pg \<and> plan_complete pg"
    using plan_ports_wf [OF _ _ assms(1) candidate_sources_subset [OF parts(4)] _ _ parts(5), where ports = "{}"]
    by simp
  then show ?thesis
    using parts(3,6)
    by (auto simp: data_plan_validate_ok data_plan_ok_def parts(7) planning_wf_def plan_complete_def
        compatible_def validate_request_def res_simps)
qed

section \<open>When a source is resolved\<close>

abbreviation source_node :: "source_descriptor \<Rightarrow> representation_node" where
  "source_node s \<equiv> (sd_type_id s, rp_id (sd_native_representation s))"

definition rank_fits :: "input_port_spec \<Rightarrow> source_descriptor \<Rightarrow> representation_id \<Rightarrow> bool" where
  "rank_fits port s r \<longleftrightarrow> compatible (ip_rank port) (known_rank s r)"

lemma policy_choice_simps [simp]:
  "adapter_score_nat a (pol\<lparr>pp_require_user_choice_on_ambiguity := b\<rparr>) = adapter_score_nat a pol"
  "permitted (pol\<lparr>pp_require_user_choice_on_ambiguity := b\<rparr>) = permitted pol"
  "within_hops (pol\<lparr>pp_require_user_choice_on_ambiguity := b\<rparr>) = within_hops pol"
  by (simp_all add: adapter_score_nat_def permitted_def within_hops_def fun_eq_iff)

lemma optimal_choice [simp]:
  "admissible reg (pol\<lparr>pp_require_user_choice_on_ambiguity := b\<rparr>) = admissible reg pol"
  "optimal reg (pol\<lparr>pp_require_user_choice_on_ambiguity := b\<rparr>) = optimal reg pol"
  "no_overflow reg (pol\<lparr>pp_require_user_choice_on_ambiguity := b\<rparr>) = no_overflow reg pol"
  by (simp_all add: fun_eq_iff admissible_def walk_def usable_def optimal_def path_key_def
      path_score_def no_overflow_def)

lemma optimal_Nil: "optimal reg pol n n []"
  by (simp add: optimal_def admissible_def walk_def within_hops_def path_key_def path_score_def less_eq_prod_def)

lemma admissible_Nil: "\<exists>p. admissible reg pol n p n"
  using optimal_Nil unfolding optimal_def by blast

lemma find_path_same: "find_path reg t r t r pol = resolved \<lparr>pt_adapters = [], pt_total_cost = 0, pt_effective_score = 0\<rparr>"
  by (simp add: find_path_def)

lemma optimal_same: "optimal reg pol n n p \<longleftrightarrow> p = []"
proof
  assume "optimal reg pol n n p"
  moreover have "admissible reg pol n [] n" using optimal_Nil by (simp add: optimal_def)
  ultimately have "path_key pol p \<le> path_key pol []" by (auto simp: optimal_def)
  then show "p = []" by (auto simp: path_key_def path_score_def less_eq_prod_def)
qed (simp add: optimal_Nil)

text \<open>The path used for a target, with the fallback of an ambiguous resolution.\<close>

lemma chosen_path:
  fixes pol :: planning_policy and t t' :: type_id and r r' :: representation_id
  assumes "registry_ok reg" and "no_overflow reg pol"
  defines "res \<equiv> find_path reg t r t' r' pol"
  defines "path \<equiv> (if pr_requires_user_choice res
     then pr_path (find_path reg t r t' r' (pol\<lparr>pp_require_user_choice_on_ambiguity := False\<rparr>))
     else pr_path res)"
  shows "(path = None \<longleftrightarrow> (\<nexists>p. admissible reg pol (t, r) p (t', r'))) \<and>
    (\<forall>p. path = Some p \<longrightarrow> optimal reg pol (t, r) (t', r') (pt_adapters p) \<and>
       (pp_require_user_choice_on_ambiguity pol \<and> 1 < card {p. optimal reg pol (t, r) (t', r') p} \<longrightarrow>
          ''ambiguous_path'' \<in> set (map pi_code (pr_issues res))))"
proof (cases "(t, r) = (t', r')")
  case True
  then show ?thesis
    using optimal_Nil [of reg pol "(t, r)"]
    by (auto simp: path_def res_def find_path_same resolved_def optimal_same admissible_Nil)
next
  case ne: False
  note strict = find_path_complete_lemma [OF assms(1,2) ne]
  let ?pol = "pol\<lparr>pp_require_user_choice_on_ambiguity := False\<rparr>"
  have relaxed: "(\<nexists>p. admissible reg pol (t, r) p (t', r')) \<longrightarrow>
      find_path reg t r t' r' ?pol = unresolved ''no_path'' ''no adapter path'' []"
    "(\<exists>p. admissible reg pol (t, r) p (t', r')) \<longrightarrow>
      (\<exists>p. pr_path (find_path reg t r t' r' ?pol) = Some p \<and> optimal reg pol (t, r) (t', r') (pt_adapters p))"
    using find_path_complete_lemma [OF assms(1) _ ne, of ?pol] assms(2) by simp_all
  show ?thesis
  proof (cases "\<exists>p. admissible reg pol (t, r) p (t', r')")
    case False
    then show ?thesis using strict by (simp add: path_def res_def unresolved_def)
  next
    case adm: True
    then obtain q where q: "optimal reg pol (t, r) (t', r') q" using optimal_exists by blast
    show ?thesis
    proof (cases "pp_require_user_choice_on_ambiguity pol \<and> 1 < card {p. optimal reg pol (t, r) (t', r') p}")
      case True
      then obtain paths where res: "res = unresolved ''ambiguous_path''
            ''multiple equivalent adapter paths require user choice'' (map join_ids paths)"
          "set paths = map ad_id ` {p. optimal reg pol (t, r) (t', r') p}"
        using strict adm unfolding res_def by auto
      then have "paths \<noteq> []" using q by auto
      then have "path = pr_path (find_path reg t r t' r' ?pol)"
        by (simp add: path_def res(1) unresolved_def)
      then show ?thesis using relaxed adm by (auto simp: res(1) unresolved_def)
    next
      case False
      then obtain p where "pr_path res = Some p" "optimal reg pol (t, r) (t', r') (pt_adapters p)"
        using strict adm unfolding res_def by auto
      then show ?thesis
        using False adm relaxed by (auto simp: path_def)
    qed
  qed
qed

lemma resolve_target_spec:
  assumes "adapters_ok reg" and "no_overflow reg pol"
  shows "(resolve_target reg pol port s (t, r) \<noteq> None \<longleftrightarrow>
       rank_fits port s r \<and> (\<exists>p. admissible reg pol (source_node s) p (t, r))) \<and>
    (\<forall>rv. resolve_target reg pol port s (t, r) = Some rv \<longrightarrow>
       rv_source rv = s \<and> rv_target_representation rv = r \<and>
       optimal reg pol (source_node s) (t, r) (pt_adapters (rv_path rv)) \<and>
       (pp_require_user_choice_on_ambiguity pol \<and>
          1 < card {p. optimal reg pol (source_node s) (t, r) p} \<longrightarrow>
          ''ambiguous_path'' \<in> set (map pi_code (rv_issues rv))))"
proof -
  have ok: "registry_ok reg" using assms(1) by (simp add: adapters_ok_def)
  have fits: "(case ip_rank port of None \<Rightarrow> False
      | Some required \<Rightarrow> (case known_rank s r of None \<Rightarrow> False | Some actual \<Rightarrow> required \<noteq> actual)) \<longleftrightarrow>
      \<not> rank_fits port s r"
    by (auto simp: rank_fits_def compatible_def split: option.splits)
  let ?find = "find_path reg (sd_type_id s) (rp_id (sd_native_representation s)) t r"
  let ?path = "if pr_requires_user_choice (?find pol)
     then pr_path (?find (pol\<lparr>pp_require_user_choice_on_ambiguity := False\<rparr>)) else pr_path (?find pol)"
  note chosen = chosen_path [OF ok assms(2), of "sd_type_id s" "rp_id (sd_native_representation s)" t r]
  show ?thesis
  proof (cases "rank_fits port s r")
    case False
    then show ?thesis unfolding resolve_target_def Let_def prod.case fits by simp
  next
    case True
    then obtain issues where result: "resolve_target reg pol port s (t, r) =
        map_option (\<lambda>path. \<lparr>rv_source = s, rv_target_representation = r, rv_path = path,
          rv_issues = pr_issues (?find pol) @ issues\<rparr>) ?path"
      unfolding resolve_target_def Let_def prod.case fits by simp
    show ?thesis
      using chosen True unfolding result by (cases ?path) auto
  qed
qed

lemma resolve_source_lemma:
  assumes "adapters_ok reg" and "no_overflow reg pol"
  shows "(resolve_source reg pol port s \<noteq> None \<longleftrightarrow>
       (\<exists>t\<in>set (ip_accepted_types port). \<exists>r\<in>set (ip_accepted_representations port).
          rank_fits port s r \<and> (\<exists>p. admissible reg pol (source_node s) p (t, r)))) \<and>
    (\<forall>rv. resolve_source reg pol port s = Some rv \<longrightarrow>
       rv_source rv = s \<and> rv_target_representation rv \<in> set (ip_accepted_representations port) \<and>
       (\<exists>t\<in>set (ip_accepted_types port).
          optimal reg pol (source_node s) (t, rv_target_representation rv) (pt_adapters (rv_path rv)) \<and>
          (pp_require_user_choice_on_ambiguity pol \<and>
             1 < card {p. optimal reg pol (source_node s) (t, rv_target_representation rv) p} \<longrightarrow>
             ''ambiguous_path'' \<in> set (map pi_code (rv_issues rv)))))"
proof -
  note target = resolve_target_spec [OF assms, of port s]
  have "resolve_source reg pol port s \<noteq> None \<longleftrightarrow>
      (\<exists>x\<in>set (List.product (ip_accepted_types port) (ip_accepted_representations port)).
         resolve_target reg pol port s x \<noteq> None)"
    by (simp add: resolve_source_def first_some_None)
  also have "\<dots> \<longleftrightarrow> (\<exists>t\<in>set (ip_accepted_types port). \<exists>r\<in>set (ip_accepted_representations port).
          rank_fits port s r \<and> (\<exists>p. admissible reg pol (source_node s) p (t, r)))"
    using target by (auto simp del: not_None_eq)
  finally have "resolve_source reg pol port s \<noteq> None \<longleftrightarrow>
      (\<exists>t\<in>set (ip_accepted_types port). \<exists>r\<in>set (ip_accepted_representations port).
          rank_fits port s r \<and> (\<exists>p. admissible reg pol (source_node s) p (t, r)))" .
  moreover have "rv_source rv = s \<and> rv_target_representation rv \<in> set (ip_accepted_representations port) \<and>
       (\<exists>t\<in>set (ip_accepted_types port).
          optimal reg pol (source_node s) (t, rv_target_representation rv) (pt_adapters (rv_path rv)) \<and>
          (pp_require_user_choice_on_ambiguity pol \<and>
             1 < card {p. optimal reg pol (source_node s) (t, rv_target_representation rv) p} \<longrightarrow>
             ''ambiguous_path'' \<in> set (map pi_code (rv_issues rv))))"
    if found: "resolve_source reg pol port s = Some rv" for rv
  proof -
    obtain t r where "t \<in> set (ip_accepted_types port)" "r \<in> set (ip_accepted_representations port)"
        "resolve_target reg pol port s (t, r) = Some rv"
      using first_some_mem [OF found [unfolded resolve_source_def]] by auto
    with target [of t r] show ?thesis by auto
  qed
  ultimately show ?thesis by blast
qed

section \<open>When planning succeeds\<close>

lemma push_sources_length:
  "length (snd (fold push_source rvs (pg, inputs))) = length inputs + length rvs"
proof (induction rvs arbitrary: pg inputs)
  case (Cons rv rvs)
  have "push_source rv (pg, inputs) = (fst (push_source rv (pg, inputs)), snd (push_source rv (pg, inputs)))"
    by simp
  moreover have "length (snd (push_source rv (pg, inputs))) = Suc (length inputs)"
    by (simp add: push_source_def Let_def split: prod.split)
  ultimately show ?case using Cons.IH by (metis (no_types) add_Suc_shift fold_simps(2) length_Cons)
qed simp

text \<open>What a port needs: its sources resolve, in the number it accepts, and they can be aligned.\<close>

definition port_planned ::
  "adapter_registry \<Rightarrow> planning_policy \<Rightarrow> json option \<Rightarrow> source_descriptor list \<Rightarrow> input_port_spec \<Rightarrow>
   resolved_source list \<Rightarrow> bool"
where
  "port_planned reg pol fusion candidates port rvs \<longleftrightarrow>
     resolve_port reg pol candidates port = Inr rvs \<and> (rvs = [] \<longrightarrow> ip_optional port) \<and>
     (1 < length rvs \<longrightarrow> ip_multi_source port \<and> is_ok (alignment_mode_from_fusion fusion))"

lemma plan_port_ok:
  "is_ok (plan_port reg pol fusion candidates pg port) \<longleftrightarrow>
     (\<exists>rvs. port_planned reg pol fusion candidates port rvs)"
proof (cases "resolve_port reg pol candidates port")
  case (Inl e)
  then show ?thesis by (simp add: plan_port_def port_planned_def)
next
  case (Inr rvs)
  obtain pg1 inputs where loop: "fold push_source rvs (pg, []) = (pg1, inputs)" by fastforce
  then have "length inputs = length rvs" using push_sources_length [of rvs pg "[]"] by simp
  then show ?thesis
    by (cases "alignment_mode_from_fusion fusion")
      (auto simp: plan_port_def port_planned_def Inr loop Let_def)
qed

lemma plan_port_output:
  assumes "plan_port reg pol fusion candidates pg port = Inr pg'"
  shows "\<exists>rvs. port_planned reg pol fusion candidates port rvs \<and>
    (if rvs = [] then pg' = pg else pg_output_representation pg' \<noteq> None)"
proof -
  obtain rvs where rvs: "port_planned reg pol fusion candidates port rvs"
    using plan_port_ok assms by (metis is_ok_simps(2))
  then have r: "resolve_port reg pol candidates port = Inr rvs" by (simp add: port_planned_def)
  obtain pg1 inputs where loop: "fold push_source rvs (pg, []) = (pg1, inputs)" by fastforce
  have "if rvs = [] then pg' = pg else pg_output_representation pg' \<noteq> None"
    using assms r loop by (auto simp: plan_port_def Let_def rbind_eq_Inr split: if_splits)
  with rvs show ?thesis by blast
qed

lemma plan_ports_ok:
  "(\<exists>pg'. fold_res (plan_port reg pol fusion candidates) pg ps = Inr pg' \<and>
      pg_output_representation pg' \<noteq> None) \<longleftrightarrow>
   (\<forall>p\<in>set ps. \<exists>rvs. port_planned reg pol fusion candidates p rvs) \<and>
   (pg_output_representation pg \<noteq> None \<or>
    (\<exists>p\<in>set ps. \<exists>rvs. port_planned reg pol fusion candidates p rvs \<and> rvs \<noteq> []))"
proof (induction ps arbitrary: pg)
  case Nil
  then show ?case by simp
next
  case (Cons p ps)
  have unique: "rvs = rvs'" if "port_planned reg pol fusion candidates p rvs"
    "port_planned reg pol fusion candidates p rvs'" for rvs rvs'
    using that by (simp add: port_planned_def)
  show ?case
  proof (cases "plan_port reg pol fusion candidates pg p")
    case (Inl e)
    then show ?thesis using plan_port_ok [of reg pol fusion candidates pg p] by auto
  next
    case (Inr pg1)
    from plan_port_output [OF this] obtain rvs where rvs: "port_planned reg pol fusion candidates p rvs"
      "if rvs = [] then pg1 = pg else pg_output_representation pg1 \<noteq> None" by blast
    have "(\<exists>rvs. port_planned reg pol fusion candidates p rvs \<and> rvs \<noteq> []) \<longleftrightarrow> rvs \<noteq> []"
      using rvs(1) unique by blast
    then show ?thesis
      using Cons.IH [of pg1] rvs by (cases "rvs = []") (auto simp: Inr)
  qed
qed

text \<open>The sources a request names, in its order, or all of them in the order of their ids.\<close>

definition requested_sources :: "dataset_schema \<Rightarrow> data_plan_request \<Rightarrow> source_descriptor list \<Rightarrow> bool" where
  "requested_sources schema req candidates \<longleftrightarrow>
     (case dr_source_ids req of
        None \<Rightarrow> candidates = sort_key sd_id (ds_sources schema)
      | Some ids \<Rightarrow> distinct ids \<and> map sd_id candidates = ids \<and> set candidates \<subseteq> set (ds_sources schema))"

lemma requested_sources_ok:
  assumes "distinct (map sd_id (ds_sources schema))"
  shows "validate_request req = Inr () \<and> candidate_sources schema req = Inr candidates \<longleftrightarrow>
    \<not> is_blank (dr_id req) \<and> requested_sources schema req candidates"
proof -
  let ?sorted = "sort_key sd_id (ds_sources schema)"
  have "distinct (map sd_id ?sorted)"
    using assms distinct_map_perm [of ?sorted "ds_sources schema" sd_id] by simp
  then have "map_of (bt_collect (map (\<lambda>s. (sd_id s, s)) ?sorted)) = map_of (map (\<lambda>s. (sd_id s, s)) ?sorted)"
    by (simp add: bt.get_collect_distinct comp_def)
  moreover have "map_of (map (\<lambda>s. (sd_id s, s)) ?sorted) i = Some s \<longleftrightarrow>
      s \<in> set (ds_sources schema) \<and> sd_id s = i" for i s
    using \<open>distinct (map sd_id ?sorted)\<close>
    by (auto simp: map_of_eq_Some_iff comp_def intro: rev_image_eqI)
  ultimately have lookup: "map_of (bt_collect (map (\<lambda>s. (sd_id s, s)) ?sorted)) i = Some s \<longleftrightarrow>
      s \<in> set (ds_sources schema) \<and> sd_id s = i" for i s by simp
  have "list_all2 (\<lambda>i s. s \<in> set (ds_sources schema) \<and> sd_id s = i) ids candidates \<longleftrightarrow>
      map sd_id candidates = ids \<and> set candidates \<subseteq> set (ds_sources schema)" for ids
    by (induction ids arbitrary: candidates) (auto simp: list_all2_Cons1 Cons_eq_map_conv)
  then show ?thesis
    by (cases "dr_source_ids req")
      (auto simp: validate_request_def candidate_sources_def requested_sources_def Let_def res_simps
        lookup)
qed

text \<open>
  C16. When the planner succeeds, over a registry built by registration: exactly when the schema and the
  model input are well formed, the request has an id and names known sources once each, every port
  can be planned (its sources resolve to a common representation in the number it accepts, and can
  be aligned), and some port is not left empty. Its own last check never refuses.
\<close>

theorem planner_succeeds_iff:
  assumes "registry_from_spec adapters = Inr reg"
  shows "is_ok (plan_model_input number_f64 schema mi reg req) \<longleftrightarrow>
    schema_ok number_f64 schema \<and> model_input_ok mi \<and> \<not> is_blank (dr_id req) \<and>
    (\<exists>candidates. requested_sources schema req candidates \<and>
       (\<forall>p\<in>set (mi_ports mi). \<exists>rvs.
          port_planned reg (dr_planning_policy req) (mi_default_fusion mi) candidates p rvs) \<and>
       (\<exists>p\<in>set (mi_ports mi). \<exists>rvs.
          port_planned reg (dr_planning_policy req) (mi_default_fusion mi) candidates p rvs \<and> rvs \<noteq> []))"
proof -
  have ok: "adapters_ok reg" by (rule registry_from_spec_adapters_ok [OF assms])
  have "is_ok (plan_model_input number_f64 schema mi reg req) \<longleftrightarrow>
      is_ok (build_plan number_f64 schema mi reg req)"
    using build_plan_valid [OF ok, of number_f64 schema mi req]
    by (cases "build_plan number_f64 schema mi reg req") (auto simp: plan_model_input_def)
  also have "\<dots> \<longleftrightarrow> schema_ok number_f64 schema \<and> model_input_ok mi \<and>
      (\<exists>candidates. (validate_request req = Inr () \<and> candidate_sources schema req = Inr candidates) \<and>
        (\<exists>pg'. fold_res (plan_port reg (dr_planning_policy req) (mi_default_fusion mi) candidates)
           planning_init (mi_ports mi) = Inr pg' \<and> pg_output_representation pg' \<noteq> None))"
    by (auto simp: build_plan_def is_ok_iff rbind_eq_Inr ok_or_eq_Inr dataset_schema_validate_ok
        model_input_validate_ok)
  also have "\<dots> \<longleftrightarrow> schema_ok number_f64 schema \<and> model_input_ok mi \<and>
      (\<exists>candidates. (\<not> is_blank (dr_id req) \<and> requested_sources schema req candidates) \<and>
        (\<exists>pg'. fold_res (plan_port reg (dr_planning_policy req) (mi_default_fusion mi) candidates)
           planning_init (mi_ports mi) = Inr pg' \<and> pg_output_representation pg' \<noteq> None))"
    using requested_sources_ok [of schema req] by (auto simp: schema_ok_def)
  finally show ?thesis
    unfolding plan_ports_ok by (auto simp: planning_init_def)
qed

text \<open>
  C15. Every plan of the planner passes the plan validator, so the check that ends planning is never the
  one that fails, and the plan carries the id of its request.
\<close>

theorem planner_output_valid:
  assumes "registry_from_spec adapters = Inr reg"
  shows "plan_model_input number_f64 schema mi reg req = build_plan number_f64 schema mi reg req \<and>
    (\<forall>plan. build_plan number_f64 schema mi reg req = Inr plan \<longrightarrow>
       data_plan_ok plan \<and> dp_id plan = dr_id req)"
proof -
  have ok: "adapters_ok reg" by (rule registry_from_spec_adapters_ok [OF assms])
  have "dp_id plan = dr_id req" if "build_plan number_f64 schema mi reg req = Inr plan" for plan
    using that by (auto simp: build_plan_def rbind_eq_Inr)
  then show ?thesis
    using build_plan_valid [OF ok, of number_f64 schema mi req]
    by (cases "build_plan number_f64 schema mi reg req")
      (auto simp: plan_model_input_def data_plan_validate_ok [symmetric])
qed

text \<open>
  Resolution of a source for a port, when no sum of scores leaves 64 bits: it succeeds exactly when
  an admissible adapter path leads from the source to an accepted type and representation of a rank
  the port can take; the chosen path is optimal, and an ambiguity that the policy wants to be asked
  about is reported among the issues of the plan, never hidden.
\<close>

lemma resolve_source_spec:
  assumes "registry_from_spec adapters = Inr reg" and "no_overflow reg pol"
  shows "(resolve_source reg pol port s \<noteq> None \<longleftrightarrow>
       (\<exists>t\<in>set (ip_accepted_types port). \<exists>r\<in>set (ip_accepted_representations port).
          rank_fits port s r \<and> (\<exists>p. admissible reg pol (source_node s) p (t, r)))) \<and>
    (\<forall>rv. resolve_source reg pol port s = Some rv \<longrightarrow>
       rv_source rv = s \<and> rv_target_representation rv \<in> set (ip_accepted_representations port) \<and>
       (\<exists>t\<in>set (ip_accepted_types port).
          optimal reg pol (source_node s) (t, rv_target_representation rv) (pt_adapters (rv_path rv)) \<and>
          (pp_require_user_choice_on_ambiguity pol \<and>
             1 < card {p. optimal reg pol (source_node s) (t, rv_target_representation rv) p} \<longrightarrow>
             ''ambiguous_path'' \<in> set (map pi_code (rv_issues rv)))))"
  by (rule resolve_source_lemma [OF registry_from_spec_adapters_ok [OF assms(1)] assms(2)])

section \<open>A small planning problem\<close>

definition demo_representation :: representation_spec where
  "demo_representation =
     representation ''x'' ''T'' (Some 1) [sample_axis]
       (representation_storage_new ''array'' None False False None)"

definition demo_source :: source_descriptor where
  "demo_source =
     \<lparr>sd_id = Ident ''nir'', sd_name = ''nir'', sd_type_id = Ident ''T'', sd_modality = ''m'',
      sd_native_representation = demo_representation, sd_sample_key = ''id'',
      sd_granularity = PerSample, sd_schema = [], sd_tags = [], sd_shape_contract = None\<rparr>"

definition demo_schema :: dataset_schema where
  "demo_schema =
     \<lparr>ds_dataset_id = ''d'', ds_sample_ids = [Ident ''s''], ds_sources = [demo_source],
      ds_targets = [], ds_metadata = [], ds_metadata_schema = None, ds_groups = [], ds_folds = []\<rparr>"

definition demo_port :: input_port_spec where
  "demo_port =
     \<lparr>ip_name = ''in'', ip_accepted_representations = [Ident ''z''], ip_accepted_types = [Ident ''T''],
      ip_rank = None, ip_multi_source = False, ip_optional = False\<rparr>"

definition demo_input :: model_input_spec where
  "demo_input = \<lparr>mi_ports = [demo_port], mi_default_fusion = None\<rparr>"

definition demo_request :: data_plan_request where
  "demo_request = data_plan_request_new ''plan''"

lemma demo_resolved:
  "resolve_source demo_registry default_policy demo_port demo_source =
     Some \<lparr>rv_source = demo_source, rv_target_representation = Ident ''z'',
       rv_path = \<lparr>pt_adapters = [demo_adapter ''a'' ''x'' ''y'' 1, demo_adapter ''b'' ''y'' ''z'' 1],
         pt_total_cost = 2, pt_effective_score = 2\<rparr>, rv_issues = []\<rparr>"
proof -
  have "rp_id (sd_native_representation demo_source) = Ident ''x''" "sd_type_id demo_source = Ident ''T''"
    "sd_id demo_source = Ident ''nir''"
    by (simp_all add: demo_source_def demo_representation_def representation_def rid_def)
  then show ?thesis
    by (simp add: resolve_source_def resolve_target_def demo_port_def demo_path resolved_def Let_def)
qed

lemma demo_resolved_port:
  "resolve_port demo_registry default_policy [demo_source] demo_port =
     Inr [\<lparr>rv_source = demo_source, rv_target_representation = Ident ''z'',
       rv_path = \<lparr>pt_adapters = [demo_adapter ''a'' ''x'' ''y'' 1, demo_adapter ''b'' ''y'' ''z'' 1],
         pt_total_cost = 2, pt_effective_score = 2\<rparr>, rv_issues = []\<rparr>]"
  by (simp add: resolve_port_def List.map_filter_simps demo_resolved)

lemma demo_problem_ok:
  "schema_ok nf demo_schema" "model_input_ok demo_input" "\<not> is_blank (dr_id demo_request)"
  "requested_sources demo_schema demo_request [demo_source]"
  by (simp_all add: schema_ok_def demo_schema_def demo_source_def source_ok_def demo_representation_def
      representation_ok_def representation_def representation_storage_new_def axis_ok_def sample_axis_def
      axis_def demo_input_def demo_port_def model_input_ok_def name_ok_def name_char_def
      demo_request_def data_plan_request_new_def requested_sources_def is_blank_graphic ascii_class_defs)

lemma demo_port_planned:
  "\<exists>rvs. port_planned demo_registry (dr_planning_policy demo_request) (mi_default_fusion demo_input)
     [demo_source] demo_port rvs \<and> rvs \<noteq> []"
  by (simp add: port_planned_def demo_request_def data_plan_request_new_def demo_resolved_port)

lemma planner_succeeds_iff_witness:
  "is_ok (plan_model_input (\<lambda>_. None) demo_schema demo_input demo_registry demo_request)"
proof -
  have ports: "mi_ports demo_input = [demo_port]" by (simp add: demo_input_def)
  show ?thesis
    unfolding planner_succeeds_iff [OF demo_registered] ports
    using demo_problem_ok demo_port_planned by (intro conjI exI [of _ "[demo_source]"]) auto
qed

lemma demo_built: "\<exists>plan. build_plan (\<lambda>_. None) demo_schema demo_input demo_registry demo_request = Inr plan"
proof -
  have "\<exists>pg'. fold_res (plan_port demo_registry (dr_planning_policy demo_request)
      (mi_default_fusion demo_input) [demo_source]) planning_init (mi_ports demo_input) = Inr pg' \<and>
      pg_output_representation pg' \<noteq> None"
    using demo_port_planned unfolding plan_ports_ok by (auto simp: demo_input_def)
  moreover have "distinct (map sd_id (ds_sources demo_schema))" by (simp add: demo_schema_def)
  from requested_sources_ok [OF this, of demo_request "[demo_source]"]
  have "validate_request demo_request = Inr () \<and> candidate_sources demo_schema demo_request = Inr [demo_source]"
    using demo_problem_ok by blast
  moreover have "dataset_schema_validate (\<lambda>_. None) demo_schema = Inr ()"
      "model_input_validate demo_input = Inr ()"
    by (simp_all add: dataset_schema_validate_ok model_input_validate_ok demo_problem_ok)
  ultimately show ?thesis by (auto simp: build_plan_def)
qed

lemma planner_output_valid_witness:
  "\<exists>plan. plan_model_input (\<lambda>_. None) demo_schema demo_input demo_registry demo_request = Inr plan \<and>
     data_plan_ok plan \<and> dp_id plan = ''plan''"
  using demo_built planner_output_valid [OF demo_registered, of "\<lambda>_. None" demo_schema demo_input demo_request]
  by (auto simp: demo_request_def data_plan_request_new_def)

lemma demo_no_overflow: "no_overflow demo_registry default_policy"
  by (simp add: no_overflow_def demo_registry_def demo_adapters_def adapter_score_nat_def
      demo_adapter_def default_policy_def)

lemma resolve_source_spec_witness:
  "\<exists>p. admissible demo_registry default_policy (source_node demo_source) p (Ident ''T'', Ident ''z'')"
proof -
  have "resolve_source demo_registry default_policy demo_port demo_source \<noteq> None"
    by (simp add: demo_resolved)
  with resolve_source_spec [OF demo_registered demo_no_overflow, of demo_port demo_source]
  show ?thesis by (auto simp: demo_port_def)
qed

end
