(* ===== verification/Aggregation.thy ===== *)
theory Aggregation
  imports Data_Error
begin

text \<open>
  The prediction aggregation policy of ADR-07 (\<open>aggregation.rs\<close>): reducers, the parameter each takes, the
  ranges of the parameters and the refusal of a vote on a regression task. The reducers themselves
  are executed by the host.
\<close>

section \<open>Reducers\<close>

definition is_clean_label :: "string \<Rightarrow> bool" where
  "is_clean_label v \<longleftrightarrow> v \<noteq> [] \<and> is_trimmed v \<and> \<not> has_control v"

definition canonical_aggregation_reducers :: "string list" where
  "canonical_aggregation_reducers =
     [''mean'', ''weighted_mean'', ''median'', ''vote'', ''robust_mean'', ''exclude_outliers'']"

datatype aggregation_reducer =
  Mean | WeightedMean | Median | Vote | RobustMean | ExcludeOutliers | CustomReducer

fun reducer_name :: "aggregation_reducer \<Rightarrow> string" where
  "reducer_name Mean = ''mean''"
| "reducer_name WeightedMean = ''weighted_mean''"
| "reducer_name Median = ''median''"
| "reducer_name Vote = ''vote''"
| "reducer_name RobustMean = ''robust_mean''"
| "reducer_name ExcludeOutliers = ''exclude_outliers''"
| "reducer_name CustomReducer = ''custom''"

datatype prediction_task = Regression | Classification

record aggregation_policy =
  ag_reducer :: aggregation_reducer
  ag_trim_fraction :: "f64 option"
  ag_threshold :: "f64 option"
  ag_weight_column :: "string option"
  ag_custom_reducer_id :: "string option"

section \<open>Validation\<close>

definition reject_unexpected :: "bool \<Rightarrow> bool \<Rightarrow> unit res" where
  "reject_unexpected present allowed =
     (if present \<and> \<not> allowed then invalid ''aggregation reducer does not accept parameter'' else Inr ())"

text \<open>Which of trim fraction, threshold, weight column and custom id the reducer takes.\<close>

definition allowed_parameters :: "aggregation_reducer \<Rightarrow> bool \<times> bool \<times> bool \<times> bool" where
  "allowed_parameters r =
     (case r of
        RobustMean \<Rightarrow> (True, False, False, False)
      | ExcludeOutliers \<Rightarrow> (False, True, False, False)
      | WeightedMean \<Rightarrow> (False, False, True, False)
      | CustomReducer \<Rightarrow> (False, False, False, True)
      | _ \<Rightarrow> (False, False, False, False))"

definition reducer_parameter_validate :: "aggregation_policy \<Rightarrow> unit res" where
  "reducer_parameter_validate p =
     (case ag_reducer p of
        RobustMean \<Rightarrow>
          (case ag_trim_fraction p of
             None \<Rightarrow> Inr ()
           | Some trim \<Rightarrow>
               if \<not> f64_is_finite trim \<or> \<not> (f64_le f64_zero trim \<and> f64_less trim f64_half)
               then invalid ''trim_fraction must be in [0.0, 0.5)'' else Inr ())
      | ExcludeOutliers \<Rightarrow>
          (case ag_threshold p of
             None \<Rightarrow> Inr ()
           | Some threshold \<Rightarrow>
               if \<not> f64_is_finite threshold \<or> f64_le threshold f64_zero \<or> f64_le f64_one threshold
               then invalid ''threshold must be in (0.0, 1.0)'' else Inr ())
      | WeightedMean \<Rightarrow>
          (let column = (case ag_weight_column p of None \<Rightarrow> [] | Some c \<Rightarrow> c) in
           if \<not> is_clean_label column then invalid ''weighted_mean requires a weight_column'' else Inr ())
      | CustomReducer \<Rightarrow>
          (let i = (case ag_custom_reducer_id p of None \<Rightarrow> [] | Some i \<Rightarrow> i) in
           if \<not> is_clean_label i then invalid ''custom requires a custom_reducer_id''
           else if i \<in> set canonical_aggregation_reducers \<or> i = ''custom''
           then invalid ''custom_reducer_id collides with a reserved reducer name'' else Inr ())
      | _ \<Rightarrow> Inr ())"

definition aggregation_validate :: "aggregation_policy \<Rightarrow> unit res" where
  "aggregation_validate p =
     (let (allow_trim, allow_threshold, allow_weight, allow_custom) = allowed_parameters (ag_reducer p) in
      rseq (reject_unexpected (ag_trim_fraction p \<noteq> None) allow_trim)
     (rseq (reject_unexpected (ag_threshold p \<noteq> None) allow_threshold)
     (rseq (reject_unexpected (ag_weight_column p \<noteq> None) allow_weight)
     (rseq (reject_unexpected (ag_custom_reducer_id p \<noteq> None) allow_custom)
       (reducer_parameter_validate p)))))"

definition validate_for_task :: "aggregation_policy \<Rightarrow> prediction_task \<Rightarrow> unit res" where
  "validate_for_task p task =
     rseq (aggregation_validate p)
       (if ag_reducer p = Vote \<and> task = Regression
        then Inl (IncompatibleReducer ''vote'' ''regression'') else Inr ())"

section \<open>What is accepted\<close>

text \<open>
  The policies the wire format means: a reducer with its own parameter in range, or with none where
  it has a default. The ranges are written on the sign and magnitude of the IEEE bits.
\<close>

inductive aggregation_ok :: "aggregation_policy \<Rightarrow> bool" where
  plain: "r \<in> {Mean, Median, Vote} \<Longrightarrow>
    aggregation_ok \<lparr>ag_reducer = r, ag_trim_fraction = None, ag_threshold = None,
      ag_weight_column = None, ag_custom_reducer_id = None\<rparr>"
| robust: "(\<forall>x\<in>set_option trim. 0 \<le> f64_key x \<and> f64_key x < f64_key f64_half) \<Longrightarrow>
    aggregation_ok \<lparr>ag_reducer = RobustMean, ag_trim_fraction = trim, ag_threshold = None,
      ag_weight_column = None, ag_custom_reducer_id = None\<rparr>"
| exclude: "(\<forall>x\<in>set_option threshold. 0 < f64_key x \<and> f64_key x < f64_key f64_one) \<Longrightarrow>
    aggregation_ok \<lparr>ag_reducer = ExcludeOutliers, ag_trim_fraction = None, ag_threshold = threshold,
      ag_weight_column = None, ag_custom_reducer_id = None\<rparr>"
| weighted: "is_clean_label column \<Longrightarrow>
    aggregation_ok \<lparr>ag_reducer = WeightedMean, ag_trim_fraction = None, ag_threshold = None,
      ag_weight_column = Some column, ag_custom_reducer_id = None\<rparr>"
| custom: "is_clean_label i \<Longrightarrow> i \<notin> range reducer_name \<Longrightarrow>
    aggregation_ok \<lparr>ag_reducer = CustomReducer, ag_trim_fraction = None, ag_threshold = None,
      ag_weight_column = None, ag_custom_reducer_id = Some i\<rparr>"

lemma reserved_names: "range reducer_name = set canonical_aggregation_reducers \<union> {''custom''}"
proof -
  have "range reducer_name = reducer_name ` {Mean, WeightedMean, Median, Vote, RobustMean, ExcludeOutliers, CustomReducer}"
    using aggregation_reducer.exhaust by (intro arg_cong2 [where f = image]) auto
  then show ?thesis by (auto simp: canonical_aggregation_reducers_def)
qed

lemma f64_key_constants [simp]:
  "f64_key f64_zero = 0" "f64_key f64_half = 4602678819172646912" "f64_key f64_one = 4607182418800017408"
  by (simp_all add: f64_key_def f64_zero_def f64_half_def f64_one_def f64_magnitude_def f64_negative_def)

text \<open>A NaN or infinity has a magnitude above every finite bound.\<close>

lemma finite_magnitude: "f64_is_finite x \<longleftrightarrow> f64_magnitude x < 9218868437227405312"
proof -
  have masks: "(mask 63 :: 64 word) = 9223372036854775807" "(mask 11 :: 64 word) = 2047"
    by (simp_all add: mask_eq_exp_minus_1)
  have mag: "f64_magnitude x = unat x mod 2 ^ 63"
    unfolding f64_magnitude_def masks(1) [symmetric] take_bit_eq_mask [symmetric]
    by (simp only: unsigned_take_bit_eq) (simp only: take_bit_eq_mod)
  have expo: "f64_exponent x = unat x div 2 ^ 52 mod 2 ^ 11"
    unfolding f64_exponent_def masks(2) [symmetric] take_bit_eq_mask [symmetric]
    by (simp only: unsigned_take_bit_eq unat_drop_bit_eq) (simp only: take_bit_eq_mod drop_bit_eq_div)
  have "unat x div 2 ^ 52 mod 2 ^ 11 = unat x mod 2 ^ 63 div 2 ^ 52"
    by (simp add: mod_mult2_eq [of _ "2 ^ 52" "2 ^ 11", simplified])
  then have "f64_exponent x = f64_magnitude x div 2 ^ 52" by (simp only: mag expo)
  moreover have "f64_magnitude x < 2 ^ 63" by (simp add: mag)
  ultimately show ?thesis unfolding f64_is_finite_def by auto
qed

lemma not_nan_finite: "f64_is_finite x \<Longrightarrow> \<not> f64_is_nan x"
  by (simp add: finite_magnitude f64_is_nan_def)

lemma constants_not_nan [simp]: "\<not> f64_is_nan f64_zero" "\<not> f64_is_nan f64_half" "\<not> f64_is_nan f64_one"
  by (simp_all add: f64_is_nan_def f64_magnitude_def f64_zero_def f64_half_def f64_one_def)

lemma small_key_finite: "0 \<le> f64_key x \<Longrightarrow> f64_key x < 4607182418800017408 \<Longrightarrow> f64_is_finite x"
  by (auto simp: finite_magnitude f64_key_def split: if_splits)

lemma trim_range:
  "(\<not> f64_is_finite x \<or> \<not> (f64_le f64_zero x \<and> f64_less x f64_half)) \<longleftrightarrow>
     \<not> (0 \<le> f64_key x \<and> f64_key x < f64_key f64_half)"
  using not_nan_finite [of x] small_key_finite [of x] by (auto simp: f64_le_def f64_less_def)

lemma threshold_range:
  "(\<not> f64_is_finite x \<or> f64_le x f64_zero \<or> f64_le f64_one x) \<longleftrightarrow>
     \<not> (0 < f64_key x \<and> f64_key x < f64_key f64_one)"
  using not_nan_finite [of x] small_key_finite [of x] by (auto simp: f64_le_def)

lemma clean_label_nonempty: "\<not> is_clean_label []"
  by (simp add: is_clean_label_def)

inductive_simps aggregation_ok_simps [unfolded aggregation_policy.simps]: "aggregation_ok p"

lemma aggregation_validate_ok: "aggregation_validate p = Inr () \<longleftrightarrow> aggregation_ok p"
proof -
  obtain r trim threshold column i where p: "p = \<lparr>ag_reducer = r, ag_trim_fraction = trim,
      ag_threshold = threshold, ag_weight_column = column, ag_custom_reducer_id = i\<rparr>"
    by (cases p)
  show ?thesis
    unfolding p aggregation_validate_def aggregation_ok_simps reducer_parameter_validate_def
      trim_range threshold_range reserved_names allowed_parameters_def reject_unexpected_def
    by (cases r; cases column; cases i; cases trim; cases threshold)
      (auto simp: clean_label_nonempty res_simps Let_def)
qed

text \<open>
  The aggregation policy validator accepts exactly the policies of ADR-07: each reducer with its own
  parameter only, the trim fraction in [0, 0.5) and the threshold in (0, 1) as IEEE values (so never
  a NaN), a clean weight column, and a clean custom id that is not the name of a reducer. For a task
  it refuses a vote on a regression as an incompatible reducer, and nothing else.
\<close>

lemma aggregation_validate_iff:
  "(aggregation_validate p = Inr () \<longleftrightarrow> aggregation_ok p) \<and>
   (validate_for_task p task = Inr () \<longleftrightarrow>
      aggregation_ok p \<and> \<not> (ag_reducer p = Vote \<and> task = Regression)) \<and>
   (validate_for_task p task = Inl (IncompatibleReducer ''vote'' ''regression'') \<longleftrightarrow>
      aggregation_ok p \<and> ag_reducer p = Vote \<and> task = Regression)"
proof -
  have "aggregation_validate p \<noteq> Inl (IncompatibleReducer v t)" for v t
    unfolding aggregation_validate_def reducer_parameter_validate_def reject_unexpected_def
      allowed_parameters_def
    by (cases "ag_reducer p") (auto simp: rbind_eq_Inl Let_def split: option.splits if_splits)
  then show ?thesis
    unfolding validate_for_task_def aggregation_validate_ok [symmetric]
    by (auto simp: rbind_eq_Inr rbind_eq_Inl)
qed

end
