(* ===== verification/Handle_Arena.thy ===== *)
theory Handle_Arena
  imports Envelope Data_View
begin

text \<open>
  The coordinator handle arena (\<open>handle.rs\<close>): materializing a data handle from an envelope, deriving
  views from it, reading identities and releasing handles. The arena's \<open>RefCell\<close> fields are one
  record of state; an operation that may fail changes the state only after its last check, so it
  returns the new state with its result and leaves the old one on an error.
\<close>

section \<open>Requests and records\<close>

datatype handle_kind = DataHandle | ViewHandle

record handle_ref =
  hr_handle :: u64
  hr_kind :: handle_kind
  hr_owner_controller :: string

record materialization_request =
  mr_run_id :: string
  mr_node_id :: string
  mr_input_name :: string
  mr_phase :: string
  mr_variant_id :: "string option"
  mr_fold_id :: "string option"
  mr_request_id :: string
  mr_schema_fingerprint :: string
  mr_plan_fingerprint :: string
  mr_relation_fingerprint :: "string option"
  mr_output_representation :: representation_id
  mr_source_ids :: "source_id list"
  mr_require_relations :: bool
  mr_predict_cohort :: "predict_cohort option"

definition request_validate :: "materialization_request \<Rightarrow> unit res" where
  "request_validate q =
     rseq (validate_non_empty ''run_id'' (mr_run_id q))
    (rseq (validate_non_empty ''node_id'' (mr_node_id q))
    (rseq (validate_non_empty ''input_name'' (mr_input_name q))
    (rseq (validate_non_empty ''phase'' (mr_phase q))
    (rseq (validate_non_empty ''request_id'' (mr_request_id q))
    (rseq (validate_fingerprint ''schema'' (mr_schema_fingerprint q))
    (rseq (validate_fingerprint ''plan'' (mr_plan_fingerprint q))
    (rseq
       (case mr_relation_fingerprint q of
          Some fp \<Rightarrow> validate_fingerprint ''relation'' fp
        | None \<Rightarrow>
            if mr_require_relations q
            then invalid ''requires relations but has no relation_fingerprint'' else Inr ())
       (if has_duplicates (mr_source_ids q)
        then invalid ''materialization request contains duplicate source ids''
        else Inr ()))))))))"

record data_handle_record =
  dh_handle :: handle_ref
  dh_run_id :: string
  dh_node_id :: string
  dh_input_name :: string
  dh_phase :: string
  dh_variant_id :: "string option"
  dh_fold_id :: "string option"
  dh_request_id :: string
  dh_schema_fingerprint :: string
  dh_plan_fingerprint :: string
  dh_relation_fingerprint :: "string option"
  dh_plan_id :: string
  dh_output_representation :: representation_id
  dh_source_ids :: "source_id list"
  dh_sample_count :: "usize option"
  dh_relation_record_count :: "usize option"

record view_handle_record =
  vh_handle :: handle_ref
  vh_parent_handle :: handle_ref
  vh_view :: data_view
  vh_sample_count :: usize
  vh_relation_record_count :: usize

record handle_arena =
  ha_owner_controller :: string
  ha_next_handle :: u64
  ha_records :: "(u64, data_handle_record) btree_map"
  ha_data_relations :: "(u64, relation_set) btree_map"
  ha_view_records :: "(u64, view_handle_record) btree_map"
  ha_view_relations :: "(u64, relation_set) btree_map"

definition arena_new :: "string \<Rightarrow> handle_arena res" where
  "arena_new owner =
     rseq (validate_non_empty ''owner_controller'' owner)
       (Inr \<lparr>ha_owner_controller = owner, ha_next_handle = 1, ha_records = [],
             ha_data_relations = [], ha_view_records = [], ha_view_relations = []\<rparr>)"

text \<open>
  The counter wraps as in a release build; a debug build panics instead. The step relation below
  does not step past the last handle.
\<close>

definition next_handle :: "handle_arena \<Rightarrow> u64 \<times> handle_arena" where
  "next_handle a = (ha_next_handle a, a\<lparr>ha_next_handle := ha_next_handle a + 1\<rparr>)"

definition unique_sample_count :: "coordinator_relation list \<Rightarrow> usize" where
  "unique_sample_count rs = length (bset_of (map cr_sample_id rs))"

section \<open>Materialization\<close>

text \<open>The derived \<open>PartialEq\<close> of relations and cohorts, up to the equality of JSON values.\<close>

definition metadata_eq :: "(json \<Rightarrow> json \<Rightarrow> bool) \<Rightarrow> metadata \<Rightarrow> metadata \<Rightarrow> bool" where
  "metadata_eq value_eq = list_all2 (\<lambda>(k, v) (l, w). k = l \<and> value_eq v w)"

definition weight_eq :: "f64 option \<Rightarrow> f64 option \<Rightarrow> bool" where
  "weight_eq x y =
     (case (x, y) of (None, None) \<Rightarrow> True | (Some a, Some b) \<Rightarrow> f64_eq a b | _ \<Rightarrow> False)"

definition relation_eq ::
  "(json \<Rightarrow> json \<Rightarrow> bool) \<Rightarrow> coordinator_relation \<Rightarrow> coordinator_relation \<Rightarrow> bool"
where
  "relation_eq value_eq r s \<longleftrightarrow>
     r\<lparr>cr_sample_influence_weight := None, cr_metadata := []\<rparr> =
       s\<lparr>cr_sample_influence_weight := None, cr_metadata := []\<rparr> \<and>
     weight_eq (cr_sample_influence_weight r) (cr_sample_influence_weight s) \<and>
     metadata_eq value_eq (cr_metadata r) (cr_metadata s)"

definition cohort_eq :: "(json \<Rightarrow> json \<Rightarrow> bool) \<Rightarrow> predict_cohort \<Rightarrow> predict_cohort \<Rightarrow> bool" where
  "cohort_eq value_eq c d \<longleftrightarrow>
     c\<lparr>pc_relations := \<lparr>rs_records = []\<rparr>\<rparr> = d\<lparr>pc_relations := \<lparr>rs_records = []\<rparr>\<rparr> \<and>
     list_all2 (relation_eq value_eq) (rs_records (pc_relations c)) (rs_records (pc_relations d))"

definition phase_is :: "materialization_request \<Rightarrow> string \<Rightarrow> bool" where
  "phase_is q phase = eq_ignore_ascii_case (mr_phase q) phase"

definition materialization_relations ::
  "external \<Rightarrow> envelope \<Rightarrow> materialization_request \<Rightarrow> relation_set option res"
where
  "materialization_relations ex e q =
     (let prediction = phase_is q ''predict'' \<or> phase_is q ''explain'' in
      case mr_predict_cohort q of
        Some cohort \<Rightarrow>
          rseq (cohort_validate ex cohort)
            (case en_predict_cohort e of
               None \<Rightarrow> invalid ''request predict_cohort does not match envelope authority''
             | Some authority \<Rightarrow>
                 if \<not> cohort_eq (ex_value_eq ex) authority cohort
                 then invalid ''request predict_cohort does not match envelope authority''
                 else
                   (let companion = phase_is q ''fit_cv'' \<or> phase_is q ''refit'' in
                    if \<not> (prediction \<or> companion \<and> pc_role cohort = ExternalTest)
                    then invalid ''request phase cannot read this predict cohort''
                    else Inr (Some (pc_relations authority))))
      | None \<Rightarrow>
          (case en_predict_cohort e of
             Some cohort \<Rightarrow>
               if prediction then Inr (Some (pc_relations cohort))
               else Inr (en_coordinator_relations e)
           | None \<Rightarrow> Inr (en_coordinator_relations e)))"

definition validate_request_against_envelope ::
  "external \<Rightarrow> envelope \<Rightarrow> materialization_request \<Rightarrow> unit res"
where
  "validate_request_against_envelope ex e q =
     (if mr_schema_fingerprint q \<noteq> en_schema_fingerprint e
      then Inl (FingerprintMismatch ''schema'' (en_schema_fingerprint e) (mr_schema_fingerprint q))
      else if mr_plan_fingerprint q \<noteq> en_plan_fingerprint e
      then Inl (FingerprintMismatch ''plan'' (en_plan_fingerprint e) (mr_plan_fingerprint q))
      else if mr_relation_fingerprint q \<noteq> en_relation_fingerprint e
      then
        (let or_none = (\<lambda>fp. case fp of None \<Rightarrow> ''<none>'' | Some s \<Rightarrow> s) in
         Inl (FingerprintMismatch ''relation'' (or_none (en_relation_fingerprint e))
                (or_none (mr_relation_fingerprint q))))
      else
        rseq
          (if mr_require_relations q
           then
             rbind (materialization_relations ex e q) (\<lambda>relations.
               if relations = None then invalid ''requires coordinator relations'' else Inr ())
           else Inr ())
          (if mr_output_representation q \<noteq> dp_output_representation (en_plan e)
           then invalid ''output representation does not match plan output''
           else if mr_source_ids q \<noteq> []
           then
             (let plan_sources = List.map_filter ps_source_id (dp_steps (en_plan e)) in
              each_res
                (\<lambda>s. if s \<notin> set plan_sources then invalid ''source is not present in data plan''
                     else Inr ())
                (mr_source_ids q))
           else Inr ()))"

definition scoped_relations_for_materialization ::
  "relation_set \<Rightarrow> materialization_request \<Rightarrow> relation_set res"
where
  "scoped_relations_for_materialization relations q =
     rseq (relation_set_validate relations)
       (if mr_source_ids q = [] then Inr relations
        else
          (let scoped = filter (source_in (mr_source_ids q)) (rs_records relations) in
           if scoped = [] then invalid ''selected no coordinator relations for requested source ids''
           else
             rseq (relation_set_validate \<lparr>rs_records = scoped\<rparr>) (Inr \<lparr>rs_records = scoped\<rparr>)))"

definition materialize ::
  "external \<Rightarrow> envelope \<Rightarrow> materialization_request \<Rightarrow> handle_arena \<Rightarrow>
   (data_handle_record \<times> handle_arena) res"
where
  "materialize ex e q a =
     rseq (envelope_validate ex e)
    (rseq (request_validate q)
    (rseq (validate_request_against_envelope ex e q)
    (rbind (materialization_relations ex e q) (\<lambda>relations.
     rbind
       (case relations of
          None \<Rightarrow> Inr None
        | Some rs \<Rightarrow> rbind (scoped_relations_for_materialization rs q) (\<lambda>s. Inr (Some s)))
       (\<lambda>scoped.
          (let (h, a1) = next_handle a;
               rec =
                 \<lparr>dh_handle = \<lparr>hr_handle = h, hr_kind = DataHandle,
                              hr_owner_controller = ha_owner_controller a\<rparr>,
                  dh_run_id = mr_run_id q, dh_node_id = mr_node_id q,
                  dh_input_name = mr_input_name q, dh_phase = mr_phase q,
                  dh_variant_id = mr_variant_id q, dh_fold_id = mr_fold_id q,
                  dh_request_id = mr_request_id q,
                  dh_schema_fingerprint = mr_schema_fingerprint q,
                  dh_plan_fingerprint = mr_plan_fingerprint q,
                  dh_relation_fingerprint = mr_relation_fingerprint q,
                  dh_plan_id = dp_id (en_plan e),
                  dh_output_representation = mr_output_representation q,
                  dh_source_ids = mr_source_ids q,
                  dh_sample_count =
                    map_option (\<lambda>rs. unique_sample_count (rs_records rs)) scoped,
                  dh_relation_record_count = map_option (\<lambda>rs. length (rs_records rs)) scoped\<rparr>;
               a2 = a1\<lparr>ha_records := bt_insert h rec (ha_records a1)\<rparr>
           in
           Inr (rec,
                case scoped of
                  None \<Rightarrow> a2
                | Some rs \<Rightarrow> a2\<lparr>ha_data_relations := bt_insert h rs (ha_data_relations a2)\<rparr>)))))))"

section \<open>Views, identities and release\<close>

definition make_view ::
  "external \<Rightarrow> u64 \<Rightarrow> data_view \<Rightarrow> handle_arena \<Rightarrow> (view_handle_record \<times> handle_arena) res"
where
  "make_view ex data_handle v a =
     rseq (validate_view ex v)
    (rbind (ok_or (map_of (ha_records a) data_handle) (UnknownHandle ''data'' data_handle))
       (\<lambda>parent.
     rbind
       (ok_or (map_of (ha_data_relations a) data_handle)
          (Validation ''data handle has no coordinator relations''))
       (\<lambda>relations.
     rbind (resolved_view_labels v (dh_phase parent) (dh_fold_id parent)) (\<lambda>selectors.
       (let scoped = filter (label_matches selectors) (rs_records relations) in
        rbind (filter_relations ex scoped v) (\<lambda>filtered.
          (let (h, a1) = next_handle a;
               rec =
                 \<lparr>vh_handle = \<lparr>hr_handle = h, hr_kind = ViewHandle,
                              hr_owner_controller = ha_owner_controller a\<rparr>,
                  vh_parent_handle = dh_handle parent, vh_view = v,
                  vh_sample_count = unique_sample_count filtered,
                  vh_relation_record_count = length filtered\<rparr>
           in
           Inr (rec,
                a1\<lparr>ha_view_records := bt_insert h rec (ha_view_records a1),
                   ha_view_relations :=
                     bt_insert h \<lparr>rs_records = filtered\<rparr> (ha_view_relations a1)\<rparr>))))))))"

definition view_record :: "handle_arena \<Rightarrow> u64 \<Rightarrow> view_handle_record option" where
  "view_record a h = map_of (ha_view_records a) h"

definition handle_record :: "handle_arena \<Rightarrow> u64 \<Rightarrow> data_handle_record option" where
  "handle_record a h = map_of (ha_records a) h"

definition handle_records :: "handle_arena \<Rightarrow> data_handle_record list" where
  "handle_records a = bt_values (ha_records a)"

definition view_identity :: "handle_arena \<Rightarrow> u64 \<Rightarrow> relation_set res" where
  "view_identity a h = ok_or (map_of (ha_view_relations a) h) (UnknownHandle ''view'' h)"

definition data_identity :: "handle_arena \<Rightarrow> u64 \<Rightarrow> relation_set res" where
  "data_identity a h =
     (if map_of (ha_records a) h = None then Inl (UnknownHandle ''data'' h)
      else
        ok_or (map_of (ha_data_relations a) h)
          (Validation ''data handle has no coordinator relations''))"

definition remove_view :: "u64 \<Rightarrow> handle_arena \<Rightarrow> handle_arena" where
  "remove_view h a =
     a\<lparr>ha_view_records := bt_remove h (ha_view_records a),
       ha_view_relations := bt_remove h (ha_view_relations a)\<rparr>"

definition child_views :: "handle_arena \<Rightarrow> data_handle_record \<Rightarrow> u64 list" where
  "child_views a r =
     List.map_filter
       (\<lambda>(h, v). if vh_parent_handle v = dh_handle r then Some h else None) (ha_view_records a)"

definition release_handle :: "u64 \<Rightarrow> handle_arena \<Rightarrow> bool \<times> handle_arena" where
  "release_handle h a =
     (case map_of (ha_view_records a) h of
        Some _ \<Rightarrow> (True, remove_view h a)
      | None \<Rightarrow>
          (case map_of (ha_records a) h of
             Some r \<Rightarrow>
               (let a1 = a\<lparr>ha_records := bt_remove h (ha_records a),
                           ha_data_relations := bt_remove h (ha_data_relations a)\<rparr>
                in (True, fold remove_view (child_views a1 r) a1))
           | None \<Rightarrow> (False, a)))"

end
