(* ===== verification/Arena_Safety.thy ===== *)
theory Arena_Safety
  imports Handle_Arena
begin

text \<open>
  The life of handles. The interface \<open>handle_store\<close> states what any store that mints handles from a
  counter promises, with the consequence that a dead handle stays dead; the arena is interpreted as
  such a store. The well-formedness of the arena (\<open>arena_wf\<close>) is kept by every operation and so
  holds in every reachable arena.
\<close>

section \<open>The interface of a handle store\<close>

locale handle_store =
  fixes live :: "'s \<Rightarrow> 'h::linorder set"
    and counter :: "'s \<Rightarrow> 'h"
    and step :: "'s \<Rightarrow> 's \<Rightarrow> bool"
    and wf :: "'s \<Rightarrow> bool"
  assumes step_wf: "wf s \<Longrightarrow> step s t \<Longrightarrow> wf t"
    and live_below: "wf s \<Longrightarrow> h \<in> live s \<Longrightarrow> h < counter s"
    and counter_mono: "wf s \<Longrightarrow> step s t \<Longrightarrow> counter s \<le> counter t"
    and minted_above: "wf s \<Longrightarrow> step s t \<Longrightarrow> h \<in> live t \<Longrightarrow> h \<notin> live s \<Longrightarrow> counter s \<le> h"
begin

lemma steps_wf: "step\<^sup>*\<^sup>* s t \<Longrightarrow> wf s \<Longrightarrow> wf t"
  by (induction rule: rtranclp_induct) (auto intro: step_wf)

lemma steps_mono: "step\<^sup>*\<^sup>* s t \<Longrightarrow> wf s \<Longrightarrow> counter s \<le> counter t"
proof (induction rule: rtranclp_induct)
  case (step t u)
  then have "counter t \<le> counter u" using steps_wf counter_mono by blast
  with step show ?case by simp
qed simp

lemma dead_stays_dead:
  "step\<^sup>*\<^sup>* s t \<Longrightarrow> wf s \<Longrightarrow> h < counter s \<Longrightarrow> h \<notin> live s \<Longrightarrow> h \<notin> live t"
proof (induction rule: rtranclp_induct)
  case (step t u)
  then have "wf t" "h < counter t" using steps_wf steps_mono by (blast, fastforce)
  moreover have "h \<notin> live t" using step by blast
  ultimately show ?case using minted_above [OF \<open>wf t\<close> step.hyps(2)] by fastforce
qed simp

end

section \<open>Well-formed arenas\<close>

definition data_entry_ok :: "handle_arena \<Rightarrow> u64 \<Rightarrow> data_handle_record \<Rightarrow> bool" where
  "data_entry_ok a h r \<longleftrightarrow>
     dh_handle r = \<lparr>hr_handle = h, hr_kind = DataHandle, hr_owner_controller = ha_owner_controller a\<rparr> \<and>
     dh_sample_count r =
       map_option (\<lambda>rs. unique_sample_count (rs_records rs)) (map_of (ha_data_relations a) h) \<and>
     dh_relation_record_count r =
       map_option (\<lambda>rs. length (rs_records rs)) (map_of (ha_data_relations a) h) \<and>
     (\<forall>rs. map_of (ha_data_relations a) h = Some rs \<longrightarrow> relation_set_ok rs)"

definition view_entry_ok :: "external \<Rightarrow> handle_arena \<Rightarrow> u64 \<Rightarrow> view_handle_record \<Rightarrow> bool" where
  "view_entry_ok ex a h v \<longleftrightarrow>
     vh_handle v = \<lparr>hr_handle = h, hr_kind = ViewHandle, hr_owner_controller = ha_owner_controller a\<rparr> \<and>
     (\<exists>p parent_relations rs.
        map_of (ha_records a) (hr_handle (vh_parent_handle v)) = Some p \<and>
        dh_handle p = vh_parent_handle v \<and>
        map_of (ha_data_relations a) (hr_handle (vh_parent_handle v)) = Some parent_relations \<and>
        map_of (ha_view_relations a) h = Some rs \<and> rs_records rs \<noteq> [] \<and>
        mset (rs_records rs) \<subseteq># mset (rs_records parent_relations) \<and>
        list_all (view_matches ex (vh_view v)) (rs_records rs) \<and>
        vh_sample_count v = unique_sample_count (rs_records rs) \<and>
        vh_relation_record_count v = length (rs_records rs))"

definition live_handles :: "handle_arena \<Rightarrow> u64 set" where
  "live_handles a = dom (map_of (ha_records a)) \<union> dom (map_of (ha_view_records a))"

definition maps_ok :: "handle_arena \<Rightarrow> bool" where
  "maps_ok a \<longleftrightarrow>
     bt_wf (ha_records a) \<and> bt_wf (ha_data_relations a) \<and>
     bt_wf (ha_view_records a) \<and> bt_wf (ha_view_relations a) \<and>
     dom (map_of (ha_data_relations a)) \<subseteq> dom (map_of (ha_records a)) \<and>
     dom (map_of (ha_view_relations a)) = dom (map_of (ha_view_records a)) \<and>
     dom (map_of (ha_records a)) \<inter> dom (map_of (ha_view_records a)) = {} \<and>
     (\<forall>h\<in>live_handles a. h < ha_next_handle a)"

definition arena_wf :: "external \<Rightarrow> handle_arena \<Rightarrow> bool" where
  "arena_wf ex a \<longleftrightarrow>
     maps_ok a \<and>
     (\<forall>h r. map_of (ha_records a) h = Some r \<longrightarrow> data_entry_ok a h r) \<and>
     (\<forall>h v. map_of (ha_view_records a) h = Some v \<longrightarrow> view_entry_ok ex a h v)"

lemma arena_new_wf: "arena_new owner = Inr a \<Longrightarrow> arena_wf ex a"
  by (auto simp: arena_new_def rbind_eq_Inr arena_wf_def maps_ok_def live_handles_def bt_wf_def)

lemma next_above:
  fixes n h :: u64
  assumes "n \<noteq> - 1" and "h \<le> n"
  shows "h < n + 1"
proof -
  have "n < - 1" using assms(1) max_word_max [of n] by (simp add: order_less_le)
  then have "unat n < unat (- 1 :: u64)" by (simp only: word_less_nat_alt)
  then have "unat n + 1 < 2 ^ 64" by (simp add: unsigned_minus_1_eq_mask mask_eq_exp_minus_1)
  then have "unat (n + 1) = unat n + 1" by (simp add: unat_word_ariths)
  with assms(2) show ?thesis by (simp add: word_less_nat_alt word_le_nat_alt)
qed

section \<open>Preservation\<close>

definition with_data ::
  "handle_arena \<Rightarrow> data_handle_record \<Rightarrow> relation_set option \<Rightarrow> handle_arena"
where
  "with_data a r scoped =
     a\<lparr>ha_next_handle := ha_next_handle a + 1,
       ha_records := bt_insert (ha_next_handle a) r (ha_records a),
       ha_data_relations :=
         (case scoped of None \<Rightarrow> ha_data_relations a
          | Some rs \<Rightarrow> bt_insert (ha_next_handle a) rs (ha_data_relations a))\<rparr>"

definition minted_record ::
  "envelope \<Rightarrow> materialization_request \<Rightarrow> handle_arena \<Rightarrow> relation_set option \<Rightarrow> data_handle_record"
where
  "minted_record e q a scoped =
     \<lparr>dh_handle = \<lparr>hr_handle = ha_next_handle a, hr_kind = DataHandle,
                  hr_owner_controller = ha_owner_controller a\<rparr>,
      dh_run_id = mr_run_id q, dh_node_id = mr_node_id q, dh_input_name = mr_input_name q,
      dh_phase = mr_phase q, dh_variant_id = mr_variant_id q, dh_fold_id = mr_fold_id q,
      dh_request_id = mr_request_id q, dh_schema_fingerprint = mr_schema_fingerprint q,
      dh_plan_fingerprint = mr_plan_fingerprint q,
      dh_relation_fingerprint = mr_relation_fingerprint q, dh_plan_id = dp_id (en_plan e),
      dh_output_representation = mr_output_representation q, dh_source_ids = mr_source_ids q,
      dh_sample_count = map_option (\<lambda>rs. unique_sample_count (rs_records rs)) scoped,
      dh_relation_record_count = map_option (\<lambda>rs. length (rs_records rs)) scoped\<rparr>"

lemma scoped_relations_ok:
  "scoped_relations_for_materialization rs q = Inr s \<longleftrightarrow>
     relation_set_ok rs \<and>
     (if mr_source_ids q = [] then s = rs
      else s = \<lparr>rs_records = filter (source_in (mr_source_ids q)) (rs_records rs)\<rparr> \<and>
        relation_set_ok s)"
proof -
  have "\<not> relation_set_ok \<lparr>rs_records = []\<rparr>"
    by (simp add: relation_set_ok_def)
  then show ?thesis
    unfolding scoped_relations_for_materialization_def
    by (auto simp: rbind_eq_Inr if_Inl_eq_Inr Let_def relation_set_validate_ok)
qed

definition selected_relations ::
  "external \<Rightarrow> envelope \<Rightarrow> materialization_request \<Rightarrow> relation_set option res"
where
  "selected_relations ex e q =
     rbind (materialization_relations ex e q)
       (\<lambda>relations. case relations of
          None \<Rightarrow> Inr None
        | Some rs \<Rightarrow> rbind (scoped_relations_for_materialization rs q) (\<lambda>s. Inr (Some s)))"

lemma materialize_ok:
  "materialize ex e q a = Inr (r, a') \<longleftrightarrow>
     envelope_validate ex e = Inr () \<and> request_validate q = Inr () \<and>
     validate_request_against_envelope ex e q = Inr () \<and>
     (\<exists>scoped. selected_relations ex e q = Inr scoped \<and>
        r = minted_record e q a scoped \<and> a' = with_data a r scoped)"
proof -
  have "materialize ex e q a =
     rseq (envelope_validate ex e)
    (rseq (request_validate q)
    (rseq (validate_request_against_envelope ex e q)
    (rbind (selected_relations ex e q) (\<lambda>scoped.
       Inr (minted_record e q a scoped, with_data a (minted_record e q a scoped) scoped)))))"
    unfolding materialize_def selected_relations_def rbind_assoc
    by (intro arg_cong2 [where f = rbind] refl ext)
      (auto simp: next_handle_def with_data_def minted_record_def Let_def split: option.split)
  then show ?thesis by (auto simp: rbind_eq_Inr)
qed

lemma selected_relations_valid: "selected_relations ex e q = Inr (Some rs) \<Longrightarrow> relation_set_ok rs"
  by (auto simp: selected_relations_def rbind_eq_Inr scoped_relations_ok
      split: option.splits if_splits)

lemma live_handles_with_data: "live_handles (with_data a r scoped) = insert (ha_next_handle a) (live_handles a)"
  by (auto simp: live_handles_def with_data_def map_of_bt_insert)

lemma maps_ok_next_dead:
  "maps_ok a \<Longrightarrow> map_of (ha_records a) (ha_next_handle a) = None \<and>
     map_of (ha_data_relations a) (ha_next_handle a) = None \<and>
     map_of (ha_view_records a) (ha_next_handle a) = None \<and>
     map_of (ha_view_relations a) (ha_next_handle a) = None"
  unfolding maps_ok_def live_handles_def by (auto simp: domIff) blast+

lemma maps_ok_with_data:
  assumes "maps_ok a" and "ha_next_handle a \<noteq> - 1"
  shows "maps_ok (with_data a r scoped)"
proof -
  have "\<forall>h\<in>live_handles (with_data a r scoped). h < ha_next_handle (with_data a r scoped)"
    using assms next_above [OF assms(2)] unfolding live_handles_with_data
    by (auto simp: maps_ok_def with_data_def)
  then show ?thesis
    using assms maps_ok_next_dead [OF assms(1)]
    by (cases scoped)
      (auto simp: maps_ok_def with_data_def bt_map_simps map_of_bt_insert)
qed

lemma materialize_wf:
  assumes "arena_wf ex a" and "ha_next_handle a \<noteq> - 1" and "materialize ex e q a = Inr (r, a')"
  shows "arena_wf ex a'"
proof -
  obtain scoped where scoped: "selected_relations ex e q = Inr scoped"
    and r: "r = minted_record e q a scoped" and a': "a' = with_data a r scoped"
    using assms(3) by (auto simp: materialize_ok)
  have maps: "maps_ok a" using assms(1) by (simp add: arena_wf_def)
  note dead = maps_ok_next_dead [OF maps]
  let ?n = "ha_next_handle a"
  have fields: "map_of (ha_records a') = (map_of (ha_records a))(?n \<mapsto> r)"
      "map_of (ha_data_relations a') =
        (case scoped of None \<Rightarrow> map_of (ha_data_relations a)
         | Some rs \<Rightarrow> (map_of (ha_data_relations a))(?n \<mapsto> rs))"
      "ha_view_records a' = ha_view_records a" "ha_view_relations a' = ha_view_relations a"
      "ha_owner_controller a' = ha_owner_controller a"
    by (simp_all add: a' with_data_def map_of_bt_insert split: option.split)
  have new: "data_entry_ok a' ?n r"
    using scoped dead selected_relations_valid
    by (cases scoped) (auto simp: data_entry_ok_def fields r minted_record_def)
  have old: "data_entry_ok a' h s" if "map_of (ha_records a) h = Some s" for h s
  proof -
    have "h \<noteq> ?n" using that dead by auto
    moreover have "data_entry_ok a h s" using assms(1) that by (simp add: arena_wf_def)
    ultimately show ?thesis
      by (cases scoped) (simp_all add: data_entry_ok_def fields)
  qed
  have views: "view_entry_ok ex a' h v" if "map_of (ha_view_records a) h = Some v" for h v
  proof -
    have v: "view_entry_ok ex a h v" using assms(1) that by (simp add: arena_wf_def)
    then have "hr_handle (vh_parent_handle v) \<noteq> ?n" using dead by (auto simp: view_entry_ok_def)
    with v show ?thesis by (cases scoped) (auto simp: view_entry_ok_def fields)
  qed
  have "maps_ok a'" unfolding a' by (rule maps_ok_with_data [OF maps assms(2)])
  then show ?thesis using new old views by (simp add: arena_wf_def fields)
qed

definition with_view :: "handle_arena \<Rightarrow> view_handle_record \<Rightarrow> coordinator_relation list \<Rightarrow> handle_arena" where
  "with_view a v filtered =
     a\<lparr>ha_next_handle := ha_next_handle a + 1,
       ha_view_records := bt_insert (ha_next_handle a) v (ha_view_records a),
       ha_view_relations :=
         bt_insert (ha_next_handle a) \<lparr>rs_records = filtered\<rparr> (ha_view_relations a)\<rparr>"

definition minted_view ::
  "handle_arena \<Rightarrow> data_handle_record \<Rightarrow> data_view \<Rightarrow> coordinator_relation list \<Rightarrow> view_handle_record"
where
  "minted_view a parent v filtered =
     \<lparr>vh_handle = \<lparr>hr_handle = ha_next_handle a, hr_kind = ViewHandle,
                  hr_owner_controller = ha_owner_controller a\<rparr>,
      vh_parent_handle = dh_handle parent, vh_view = v,
      vh_sample_count = unique_sample_count filtered,
      vh_relation_record_count = length filtered\<rparr>"

text \<open>The relations of the parent that carry the resolved labels and match the view.\<close>

definition selected_by_view ::
  "external \<Rightarrow> data_view \<Rightarrow> (string \<times> string) list \<Rightarrow> relation_set \<Rightarrow> coordinator_relation list"
where
  "selected_by_view ex v selectors rs =
     view_order v (filter (\<lambda>r. label_matches selectors r \<and> view_matches ex v r) (rs_records rs))"

lemma selected_by_view_alt:
  "selected_by_view ex v selectors rs =
     view_order v (filter (view_matches ex v) (filter (label_matches selectors) (rs_records rs)))"
  by (simp add: selected_by_view_def conj_commute)

lemma make_view_ok:
  "make_view ex h v a = Inr (r, a') \<longleftrightarrow>
     validate_view ex v = Inr () \<and>
     (\<exists>parent relations selectors.
        map_of (ha_records a) h = Some parent \<and> map_of (ha_data_relations a) h = Some relations \<and>
        resolved_view_labels v (dh_phase parent) (dh_fold_id parent) = Inr selectors \<and>
        (\<exists>x\<in>set (rs_records relations). label_matches selectors x \<and> view_matches ex v x) \<and>
        r = minted_view a parent v (selected_by_view ex v selectors relations) \<and>
        a' = with_view a r (selected_by_view ex v selectors relations))"
proof (cases "validate_view ex v = Inr ()")
  case True
  show ?thesis
    unfolding make_view_def selected_by_view_alt
    by (auto simp: True rbind_eq_Inr if_Inl_eq_Inr ok_or_eq_Inr filter_relations_some [OF True] Let_def
        next_handle_def with_view_def minted_view_def list_ex_iff)
next
  case False
  then show ?thesis by (auto simp: make_view_def rbind_eq_Inr)
qed

lemma selected_by_view_subset:
  assumes "validate_view ex v = Inr ()"
  shows "mset (selected_by_view ex v selectors rs) \<subseteq># mset (rs_records rs)"
    and "list_all (view_matches ex v) (selected_by_view ex v selectors rs)"
proof -
  let ?xs = "filter (label_matches selectors) (rs_records rs)"
  have eq: "mset (selected_by_view ex v selectors rs) = mset (filter (view_matches ex v) ?xs)"
    unfolding selected_by_view_alt by (rule mset_view_order [OF assms])
  then show "mset (selected_by_view ex v selectors rs) \<subseteq># mset (rs_records rs)" by simp
  have "set (selected_by_view ex v selectors rs) = set (filter (view_matches ex v) ?xs)"
    using eq by (rule mset_eq_setD)
  then show "list_all (view_matches ex v) (selected_by_view ex v selectors rs)"
    by (simp add: list_all_iff)
qed

lemma selected_by_view_nonempty:
  assumes "validate_view ex v = Inr ()"
    and "\<exists>x\<in>set (rs_records rs). label_matches selectors x \<and> view_matches ex v x"
  shows "selected_by_view ex v selectors rs \<noteq> []"
proof -
  have "mset (selected_by_view ex v selectors rs) =
      mset (filter (view_matches ex v) (filter (label_matches selectors) (rs_records rs)))"
    unfolding selected_by_view_alt by (rule mset_view_order [OF assms(1)])
  from mset_eq_setD [OF this] have "set (selected_by_view ex v selectors rs) =
      {x\<in>set (rs_records rs). label_matches selectors x \<and> view_matches ex v x}"
    by auto
  with assms(2) show ?thesis by force
qed

lemma live_handles_with_view: "live_handles (with_view a v xs) = insert (ha_next_handle a) (live_handles a)"
  by (auto simp: live_handles_def with_view_def map_of_bt_insert)

lemma maps_ok_with_view:
  assumes "maps_ok a" and "ha_next_handle a \<noteq> - 1"
  shows "maps_ok (with_view a v xs)"
proof -
  have "\<forall>h\<in>live_handles (with_view a v xs). h < ha_next_handle (with_view a v xs)"
    using assms next_above [OF assms(2)] unfolding live_handles_with_view
    by (auto simp: maps_ok_def with_view_def)
  then show ?thesis
    using assms maps_ok_next_dead [OF assms(1)]
    by (auto simp: maps_ok_def with_view_def bt_map_simps map_of_bt_insert)
qed

lemma make_view_wf:
  assumes "arena_wf ex a" and "ha_next_handle a \<noteq> - 1" and "make_view ex h v a = Inr (r, a')"
  shows "arena_wf ex a'"
proof -
  obtain parent relations selectors where valid: "validate_view ex v = Inr ()"
    and parent: "map_of (ha_records a) h = Some parent"
    and relations: "map_of (ha_data_relations a) h = Some relations"
    and some: "\<exists>x\<in>set (rs_records relations). label_matches selectors x \<and> view_matches ex v x"
    and r: "r = minted_view a parent v (selected_by_view ex v selectors relations)"
    and a': "a' = with_view a r (selected_by_view ex v selectors relations)"
    using assms(3) unfolding make_view_ok by blast
  have maps: "maps_ok a" using assms(1) by (simp add: arena_wf_def)
  note dead = maps_ok_next_dead [OF maps]
  let ?n = "ha_next_handle a" and ?sel = "selected_by_view ex v selectors relations"
  have fields: "map_of (ha_view_records a') = (map_of (ha_view_records a))(?n \<mapsto> r)"
      "map_of (ha_view_relations a') = (map_of (ha_view_relations a))(?n \<mapsto> \<lparr>rs_records = ?sel\<rparr>)"
      "ha_records a' = ha_records a" "ha_data_relations a' = ha_data_relations a"
      "ha_owner_controller a' = ha_owner_controller a"
    by (simp_all add: a' with_view_def map_of_bt_insert)
  have "data_entry_ok a h parent" using assms(1) parent by (simp add: arena_wf_def)
  then have "hr_handle (dh_handle parent) = h" by (simp add: data_entry_ok_def)
  then have new: "view_entry_ok ex a' ?n r"
    using parent relations selected_by_view_subset [OF valid]
      selected_by_view_nonempty [OF valid some]
    by (simp add: view_entry_ok_def fields r minted_view_def)
  have old: "view_entry_ok ex a' k w" if "map_of (ha_view_records a) k = Some w" for k w
  proof -
    have "k \<noteq> ?n" using that dead by auto
    moreover have "view_entry_ok ex a k w" using assms(1) that by (simp add: arena_wf_def)
    ultimately show ?thesis by (simp add: view_entry_ok_def fields)
  qed
  have data: "data_entry_ok a' k s" if "map_of (ha_records a) k = Some s" for k s
    using assms(1) that by (simp add: arena_wf_def data_entry_ok_def fields)
  have "maps_ok a'" unfolding a' by (rule maps_ok_with_view [OF maps assms(2)])
  then show ?thesis using new old data by (simp add: arena_wf_def fields)
qed

lemma map_of_removed_views:
  "map_of (ha_view_records (fold remove_view hs a)) h =
     (if h \<in> set hs then None else map_of (ha_view_records a) h)"
  "map_of (ha_view_relations (fold remove_view hs a)) h =
     (if h \<in> set hs then None else map_of (ha_view_relations a) h)"
  by (induction hs arbitrary: a) (auto simp: remove_view_def map_of_bt_remove)

lemma removed_views_fields [simp]:
  "ha_records (fold remove_view hs a) = ha_records a"
  "ha_data_relations (fold remove_view hs a) = ha_data_relations a"
  "ha_next_handle (fold remove_view hs a) = ha_next_handle a"
  "ha_owner_controller (fold remove_view hs a) = ha_owner_controller a"
  by (induction hs arbitrary: a) (simp_all add: remove_view_def)

lemma removed_views_bt_wf:
  "bt_wf (ha_view_records a) \<Longrightarrow> bt_wf (ha_view_records (fold remove_view hs a))"
  "bt_wf (ha_view_relations a) \<Longrightarrow> bt_wf (ha_view_relations (fold remove_view hs a))"
  by (induction hs arbitrary: a) (auto simp: remove_view_def bt_wf_remove)

lemma view_entry_remove_views:
  "k \<notin> set hs \<Longrightarrow> view_entry_ok ex (fold remove_view hs a) k w \<longleftrightarrow> view_entry_ok ex a k w"
  by (simp add: view_entry_ok_def map_of_removed_views)

lemma remove_views_wf:
  assumes "arena_wf ex a"
  shows "arena_wf ex (fold remove_view hs a)"
proof -
  have "maps_ok (fold remove_view hs a)"
    using assms
    by (auto simp: arena_wf_def maps_ok_def removed_views_bt_wf map_of_removed_views
        live_handles_def dom_def)
  moreover have "data_entry_ok (fold remove_view hs a) h r \<longleftrightarrow> data_entry_ok a h r" for h r
    by (simp add: data_entry_ok_def)
  ultimately show ?thesis
    using assms
    by (auto simp: arena_wf_def map_of_removed_views view_entry_remove_views split: if_splits)
qed

lemma set_child_views:
  assumes "bt_wf (ha_view_records a)"
  shows "set (child_views a r) =
    {h. \<exists>v. map_of (ha_view_records a) h = Some v \<and> vh_parent_handle v = dh_handle r}"
  using bt_wf_distinct [OF assms]
  by (auto simp: child_views_def set_map_filter split: if_splits) (force dest: map_of_SomeD)+

text \<open>Releasing a data handle: its record, its relations and exactly its own views disappear.\<close>

lemma release_data_eq:
  assumes "map_of (ha_view_records a) h = None" and "map_of (ha_records a) h = Some r"
  shows "release_handle h a =
    (True, (fold remove_view (child_views a r) a)
       \<lparr>ha_records := bt_remove h (ha_records a), ha_data_relations := bt_remove h (ha_data_relations a)\<rparr>)"
proof -
  have one: "remove_view k (c\<lparr>ha_records := x, ha_data_relations := y\<rparr>) =
      (remove_view k c)\<lparr>ha_records := x, ha_data_relations := y\<rparr>" for k c x y
    by (simp add: remove_view_def)
  have commute: "fold remove_view hs (a\<lparr>ha_records := x, ha_data_relations := y\<rparr>) =
      (fold remove_view hs a)\<lparr>ha_records := x, ha_data_relations := y\<rparr>" for hs x y
    by (induction hs arbitrary: a) (simp_all add: one)
  show ?thesis
    using assms by (simp add: release_handle_def Let_def commute child_views_def)
qed

lemma release_data_wf:
  assumes "arena_wf ex a" and "map_of (ha_records a) h = Some r"
  shows "arena_wf ex ((fold remove_view (child_views a r) a)
     \<lparr>ha_records := bt_remove h (ha_records a), ha_data_relations := bt_remove h (ha_data_relations a)\<rparr>)"
    (is "arena_wf ex ?a'")
proof -
  let ?b = "fold remove_view (child_views a r) a"
  have wf: "arena_wf ex ?b" by (rule remove_views_wf [OF assms(1)])
  have maps: "maps_ok a" using assms(1) by (simp add: arena_wf_def)
  have "maps_ok ?a'"
    using wf by (auto simp: arena_wf_def maps_ok_def bt_map_simps map_of_bt_remove live_handles_def)
  moreover have "data_entry_ok ?a' k s" if "map_of (ha_records ?a') k = Some s" for k s
    using assms(1) that
    by (auto simp: arena_wf_def data_entry_ok_def map_of_bt_remove split: if_splits)
  moreover have "view_entry_ok ex ?a' k w" if k: "map_of (ha_view_records ?a') k = Some w" for k w
  proof -
    have w: "map_of (ha_view_records a) k = Some w" "k \<notin> set (child_views a r)"
      using k by (auto simp: map_of_removed_views split: if_splits)
    then have "vh_parent_handle w \<noteq> dh_handle r"
      using maps by (auto simp: set_child_views maps_ok_def)
    moreover have entry: "view_entry_ok ex a k w" using assms(1) w(1) by (simp add: arena_wf_def)
    ultimately have "hr_handle (vh_parent_handle w) \<noteq> h"
      using assms(2) by (auto simp: view_entry_ok_def)
    with entry w(2) show ?thesis
      by (simp add: view_entry_ok_def map_of_removed_views map_of_bt_remove)
  qed
  ultimately show ?thesis by (simp add: arena_wf_def)
qed

lemma release_wf:
  assumes "arena_wf ex a" and "release_handle h a = (b, a')"
  shows "arena_wf ex a'"
proof (cases "map_of (ha_view_records a) h")
  case (Some v)
  then show ?thesis
    using assms remove_views_wf [OF assms(1), of "[h]"] by (simp add: release_handle_def)
next
  case None
  show ?thesis
  proof (cases "map_of (ha_records a) h")
    case (Some r)
    then show ?thesis
      using release_data_wf [OF assms(1) Some] assms(2) release_data_eq [OF None Some] by simp
  next
    case none: None
    then show ?thesis using assms None by (simp add: release_handle_def)
  qed
qed

section \<open>Reachable arenas\<close>

text \<open>
  One step of a client: a successful materialization, a successful view, or a release. Minting stops
  at the last 64-bit handle, where a debug build panics.
\<close>

inductive arena_step :: "external \<Rightarrow> handle_arena \<Rightarrow> handle_arena \<Rightarrow> bool" for ex where
  step_materialize:
    "ha_next_handle a \<noteq> - 1 \<Longrightarrow> materialize ex e q a = Inr (r, a') \<Longrightarrow> arena_step ex a a'"
| step_view:
    "ha_next_handle a \<noteq> - 1 \<Longrightarrow> make_view ex h v a = Inr (r, a') \<Longrightarrow> arena_step ex a a'"
| step_release: "release_handle h a = (b, a') \<Longrightarrow> arena_step ex a a'"

inductive arena_reachable :: "external \<Rightarrow> handle_arena \<Rightarrow> bool" for ex where
  reach_new: "arena_new owner = Inr a \<Longrightarrow> arena_reachable ex a"
| reach_step: "arena_reachable ex a \<Longrightarrow> arena_step ex a a' \<Longrightarrow> arena_reachable ex a'"

inductive_cases arena_stepE: "arena_step ex a a'"

lemma arena_step_wf: "arena_wf ex a \<Longrightarrow> arena_step ex a a' \<Longrightarrow> arena_wf ex a'"
  by (erule arena_stepE) (auto intro: materialize_wf make_view_wf release_wf)

lemma arena_reachable_wf: "arena_reachable ex a \<Longrightarrow> arena_wf ex a"
  by (induction rule: arena_reachable.induct) (auto intro: arena_new_wf arena_step_wf)

lemma release_live_mono:
  "release_handle h a = (b, a') \<Longrightarrow> live_handles a' \<subseteq> live_handles a \<and> ha_next_handle a' = ha_next_handle a"
  unfolding release_handle_def
  by (auto simp: Let_def live_handles_def map_of_removed_views remove_view_def map_of_bt_remove
      split: option.splits if_splits)

lemma arena_step_counter:
  assumes "arena_step ex a a'"
  shows "ha_next_handle a' = ha_next_handle a \<and> live_handles a' \<subseteq> live_handles a \<or>
    ha_next_handle a < ha_next_handle a' \<and> live_handles a' = insert (ha_next_handle a) (live_handles a)"
  using assms
proof (cases rule: arena_step.cases)
  case (step_materialize e q r)
  then show ?thesis
    using next_above [OF step_materialize(1)]
    by (auto simp: materialize_ok live_handles_with_data, auto simp: with_data_def)
next
  case (step_view h v r)
  then show ?thesis
    using next_above [OF step_view(1)]
    by (auto simp: make_view_ok live_handles_with_view, auto simp: with_view_def)
next
  case (step_release h b)
  then show ?thesis by (simp add: release_live_mono)
qed

interpretation arena: handle_store live_handles ha_next_handle "arena_step ex" "arena_wf ex" for ex
proof
  show "arena_wf ex s \<Longrightarrow> arena_step ex s t \<Longrightarrow> arena_wf ex t" for s t
    by (rule arena_step_wf)
  show "arena_wf ex s \<Longrightarrow> h \<in> live_handles s \<Longrightarrow> h < ha_next_handle s" for s h
    by (simp add: arena_wf_def maps_ok_def)
  show "arena_wf ex s \<Longrightarrow> arena_step ex s t \<Longrightarrow> ha_next_handle s \<le> ha_next_handle t" for s t
    using arena_step_counter by fastforce
  show "arena_wf ex s \<Longrightarrow> arena_step ex s t \<Longrightarrow> h \<in> live_handles t \<Longrightarrow> h \<notin> live_handles s \<Longrightarrow>
      ha_next_handle s \<le> h" for s t h
    using arena_step_counter [of ex s t] by auto
qed

text \<open>
  C9. Every reachable arena is well-formed: records are filed under their own fresh handle, data and
  view handles never collide, every live view has a live parent whose relations contain its own,
  all of which match the view, and the recorded counts are the real ones.
\<close>

theorem reachable_arena_wf:
  assumes "arena_reachable ex a"
  shows "arena_wf ex a"
  using assms by (rule arena_reachable_wf)

lemma dead_handle_unknown:
  assumes "arena_wf ex a" and "h \<notin> live_handles a"
  shows "view_identity a h = Inl (UnknownHandle ''view'' h)"
    and "data_identity a h = Inl (UnknownHandle ''data'' h)"
    and "release_handle h a = (False, a)"
proof -
  have "map_of (ha_records a) h = None" "map_of (ha_view_records a) h = None"
    using assms(2) by (auto simp: live_handles_def domIff)
  moreover from this have "map_of (ha_view_relations a) h = None"
    using assms(1) by (auto simp: arena_wf_def maps_ok_def domIff)
  ultimately show "view_identity a h = Inl (UnknownHandle ''view'' h)"
      "data_identity a h = Inl (UnknownHandle ''data'' h)" "release_handle h a = (False, a)"
    by (simp_all add: view_identity_def data_identity_def release_handle_def)
qed

lemma released_is_dead:
  assumes "arena_wf ex a" and "release_handle h a = (True, a')"
  shows "h \<in> live_handles a \<and> h \<notin> live_handles a'"
proof -
  have "map_of (ha_records a) h = None" if "map_of (ha_view_records a) h = Some v" for v
    using assms(1) that by (auto simp: arena_wf_def maps_ok_def)
  then show ?thesis
    using assms(2) unfolding release_handle_def
    by (auto simp: Let_def live_handles_def map_of_removed_views remove_view_def map_of_bt_remove
        split: option.splits if_splits)
qed

text \<open>
  A handle is never reused: once a handle has been released, in every later state of the arena it
  is unknown to the view and data lookups and releasing it again has no effect.
\<close>

lemma released_forever:
  assumes "arena_reachable ex a" and "release_handle h a = (True, a')"
    and "(arena_step ex)\<^sup>*\<^sup>* a' b"
  shows "view_identity b h = Inl (UnknownHandle ''view'' h) \<and>
    data_identity b h = Inl (UnknownHandle ''data'' h) \<and> release_handle h b = (False, b)"
proof -
  have wf: "arena_wf ex a" "arena_wf ex a'"
    using arena_reachable_wf [OF assms(1)] release_wf assms(2) by blast+
  have "h < ha_next_handle a'"
    using released_is_dead [OF wf(1) assms(2)] release_live_mono [OF assms(2)] arena.live_below [OF wf(1)]
    by simp
  then have "h \<notin> live_handles b"
    using arena.dead_stays_dead [OF assms(3) wf(2)] released_is_dead [OF wf(1) assms(2)] by blast
  moreover have "arena_wf ex b" using arena.steps_wf [OF assms(3) wf(2)] .
  ultimately show ?thesis using dead_handle_unknown by blast
qed

section \<open>What the operations do\<close>

text \<open>
  C12. Making a view of a data handle succeeds exactly when the view is valid, the handle is live with
  relations, its labels resolve against the parent and some relation is selected. The new view
  then identifies exactly the parent's relations that carry the labels and match the view, in the
  view's order, under a fresh handle, and every other handle identifies what it did before.
\<close>

theorem make_view_spec:
  assumes "arena_reachable ex a"
  shows "(is_ok (make_view ex h v a) \<longleftrightarrow>
      validate_view ex v = Inr () \<and>
      (\<exists>parent relations selectors.
         handle_record a h = Some parent \<and> data_identity a h = Inr relations \<and>
         resolved_view_labels v (dh_phase parent) (dh_fold_id parent) = Inr selectors \<and>
         (\<exists>x\<in>set (rs_records relations). label_matches selectors x \<and> view_matches ex v x))) \<and>
    (\<forall>r a' parent relations selectors.
      make_view ex h v a = Inr (r, a') \<longrightarrow> handle_record a h = Some parent \<longrightarrow>
      data_identity a h = Inr relations \<longrightarrow>
      resolved_view_labels v (dh_phase parent) (dh_fold_id parent) = Inr selectors \<longrightarrow>
      vh_parent_handle r = dh_handle parent \<and> vh_view r = v \<and>
      hr_handle (vh_handle r) \<notin> live_handles a \<and>
      view_identity a' (hr_handle (vh_handle r)) =
        Inr \<lparr>rs_records = view_order v
          (filter (\<lambda>x. label_matches selectors x \<and> view_matches ex v x) (rs_records relations))\<rparr> \<and>
      (\<forall>k. k \<noteq> hr_handle (vh_handle r) \<longrightarrow>
         view_identity a' k = view_identity a k \<and> data_identity a' k = data_identity a k))"
proof -
  have identity: "data_identity a h = Inr relations \<longleftrightarrow>
      map_of (ha_records a) h \<noteq> None \<and> map_of (ha_data_relations a) h = Some relations" for relations
    by (auto simp: data_identity_def ok_or_eq_Inr)
  have fresh: "ha_next_handle a \<notin> live_handles a"
    using arena_reachable_wf [OF assms] by (auto simp: arena_wf_def maps_ok_def)
  have "is_ok (make_view ex h v a) \<longleftrightarrow> validate_view ex v = Inr () \<and>
      (\<exists>parent relations selectors.
         handle_record a h = Some parent \<and> data_identity a h = Inr relations \<and>
         resolved_view_labels v (dh_phase parent) (dh_fold_id parent) = Inr selectors \<and>
         (\<exists>x\<in>set (rs_records relations). label_matches selectors x \<and> view_matches ex v x))"
    unfolding is_ok_iff split_paired_Ex make_view_ok identity handle_record_def by blast
  moreover have "vh_parent_handle r = dh_handle parent \<and> vh_view r = v \<and>
      hr_handle (vh_handle r) \<notin> live_handles a \<and>
      view_identity a' (hr_handle (vh_handle r)) =
        Inr \<lparr>rs_records = view_order v
          (filter (\<lambda>x. label_matches selectors x \<and> view_matches ex v x) (rs_records relations))\<rparr> \<and>
      (\<forall>k. k \<noteq> hr_handle (vh_handle r) \<longrightarrow>
         view_identity a' k = view_identity a k \<and> data_identity a' k = data_identity a k)"
    if "make_view ex h v a = Inr (r, a')" "handle_record a h = Some parent"
      "data_identity a h = Inr relations"
      "resolved_view_labels v (dh_phase parent) (dh_fold_id parent) = Inr selectors"
    for r a' parent relations selectors
  proof -
    have "r = minted_view a parent v (selected_by_view ex v selectors relations)"
        "a' = with_view a r (selected_by_view ex v selectors relations)"
      using that unfolding make_view_ok identity handle_record_def by auto
    then show ?thesis
      using fresh
      by (simp add: minted_view_def view_identity_def data_identity_def with_view_def
          map_of_bt_insert selected_by_view_def)
  qed
  ultimately show ?thesis by blast
qed

text \<open>
  Views never widen: in a reachable arena whatever a view identifies is, with multiplicity, part of
  what its live parent data handle identifies, matches the view, and is not empty.
\<close>

lemma view_within_parent:
  assumes "arena_reachable ex a" and "view_identity a h = Inr rs"
  shows "\<exists>v parent_relations. view_record a h = Some v \<and>
    data_identity a (hr_handle (vh_parent_handle v)) = Inr parent_relations \<and>
    rs_records rs \<noteq> [] \<and> mset (rs_records rs) \<subseteq># mset (rs_records parent_relations) \<and>
    list_all (view_matches ex (vh_view v)) (rs_records rs) \<and>
    vh_relation_record_count v = length (rs_records rs)"
proof -
  have wf: "arena_wf ex a" by (rule arena_reachable_wf [OF assms(1)])
  have rs: "map_of (ha_view_relations a) h = Some rs"
    using assms(2) by (simp add: view_identity_def ok_or_eq_Inr)
  have "dom (map_of (ha_view_relations a)) = dom (map_of (ha_view_records a))"
    using wf by (simp add: arena_wf_def maps_ok_def)
  with rs obtain v where v: "map_of (ha_view_records a) h = Some v" by blast
  then have "view_entry_ok ex a h v" using wf by (simp add: arena_wf_def)
  then obtain p parent_relations where
      "map_of (ha_records a) (hr_handle (vh_parent_handle v)) = Some p"
      "map_of (ha_data_relations a) (hr_handle (vh_parent_handle v)) = Some parent_relations"
      "rs_records rs \<noteq> []" "mset (rs_records rs) \<subseteq># mset (rs_records parent_relations)"
      "list_all (view_matches ex (vh_view v)) (rs_records rs)"
      "vh_relation_record_count v = length (rs_records rs)"
    using rs unfolding view_entry_ok_def by auto
  with v show ?thesis
    by (intro exI [of _ v] exI [of _ parent_relations]) (simp add: view_record_def data_identity_def)
qed

text \<open>
  Releasing a live data handle releases it and exactly the views derived from it: every other data
  handle and every view of another parent keep their records and identities.
\<close>

lemma release_data_handle_exact:
  assumes "arena_reachable ex a" and "handle_record a h = Some r" and "release_handle h a = (b, a')"
  shows "b \<and> handle_record a' h = None \<and>
    (\<forall>k. k \<noteq> h \<longrightarrow> handle_record a' k = handle_record a k \<and> data_identity a' k = data_identity a k) \<and>
    (\<forall>k v. view_record a k = Some v \<longrightarrow>
       (if vh_parent_handle v = dh_handle r
        then view_record a' k = None \<and> view_identity a' k = Inl (UnknownHandle ''view'' k)
        else view_record a' k = Some v \<and> view_identity a' k = view_identity a k))"
proof -
  have wf: "arena_wf ex a" by (rule arena_reachable_wf [OF assms(1)])
  have r: "map_of (ha_records a) h = Some r" using assms(2) by (simp add: handle_record_def)
  then have "map_of (ha_view_records a) h = None"
    using wf by (auto simp: arena_wf_def maps_ok_def domIff)
  from release_data_eq [OF this r] assms(3)
  have a': "b" "a' = (fold remove_view (child_views a r) a)
     \<lparr>ha_records := bt_remove h (ha_records a), ha_data_relations := bt_remove h (ha_data_relations a)\<rparr>"
    by simp_all
  have "set (child_views a r) =
      {k. \<exists>v. map_of (ha_view_records a) k = Some v \<and> vh_parent_handle v = dh_handle r}"
    using wf by (intro set_child_views) (simp add: arena_wf_def maps_ok_def)
  then show ?thesis
    by (auto simp: a' handle_record_def data_identity_def view_record_def view_identity_def
        map_of_bt_remove map_of_removed_views)
qed

end
