(* ===== verification/Coordinator_Tables.thy ===== *)
theory Coordinator_Tables
  imports Arena_Safety
begin

text \<open>
  Target and feature tables and their projection on a view (\<open>handle.rs\<close>): single-target values,
  multi-target values with validity masks, and feature rows with selected columns.
\<close>

section \<open>Target tables\<close>

record target_value =
  tv_sample_id :: sample_id
  tv_value :: json

record target_table =
  tt_target_id :: target_id
  tt_values :: "target_value list"

definition target_table_validate :: "target_table \<Rightarrow> unit res" where
  "target_table_validate t =
     (if tt_values t = [] then invalid ''target table contains no values''
      else each_unique tv_sample_id (\<lambda>_. Validation ''target table duplicate sample'') (tt_values t))"

datatype target_value_kind = NumberKind | LabelKind

record target_value_shape =
  sh_kind :: target_value_kind
  sh_width :: "usize option"

fun target_scalar_kind :: "json \<Rightarrow> string + target_value_kind" where
  "target_scalar_kind (JNumber _) = Inr NumberKind"
| "target_scalar_kind (JString label) =
     (if is_blank label then Inl ''an empty string label'' else Inr LabelKind)"
| "target_scalar_kind JNull = Inl ''a missing (null) value''"
| "target_scalar_kind (JBool _) = Inl ''a boolean value''"
| "target_scalar_kind (JObject _) = Inl ''an object value''"
| "target_scalar_kind (JArray _) = Inl ''a nested array''"

definition target_shape :: "json \<Rightarrow> string + target_value_shape" where
  "target_shape v =
     (case json_as_array v of
        None \<Rightarrow> rbind (target_scalar_kind v) (\<lambda>k. Inr \<lparr>sh_kind = k, sh_width = None\<rparr>)
      | Some items \<Rightarrow>
          (case items of
             [] \<Rightarrow> Inl ''an empty array''
           | item # rest \<Rightarrow>
               rbind (target_scalar_kind item) (\<lambda>kind.
               rseq
                 (each_res
                    (\<lambda>i. rbind (target_scalar_kind i) (\<lambda>k.
                       if k \<noteq> kind then Inl ''a vector mixing numbers and string labels''
                       else Inr ())) rest)
                 (Inr \<lparr>sh_kind = kind, sh_width = Some (length items)\<rparr>))))"

definition value_error :: "string \<Rightarrow> data_error" where
  "value_error reason = Validation reason"

definition target_shape_res :: "target_value \<Rightarrow> target_value_shape res" where
  "target_shape_res entry =
     (case target_shape (tv_value entry) of
        Inl reason \<Rightarrow> Inl (value_error reason) | Inr s \<Rightarrow> Inr s)"

definition validate_values :: "target_table \<Rightarrow> unit res" where
  "validate_values t =
     rseq (target_table_validate t)
       (rbind (map_res target_shape_res (tt_values t)) (\<lambda>shapes.
          (let numeric = list_ex (\<lambda>s. sh_kind s = NumberKind) shapes; first_shape = hd shapes in
           each_res
             (\<lambda>s. if numeric \<and> sh_kind s = LabelKind
                  then Inl (value_error ''a non-numeric string value in a numeric target'')
                  else if sh_width s \<noteq> sh_width first_shape
                  then Inl (value_error ''a ragged value'') else Inr ())
             shapes)))"

section \<open>Projection of targets on a view\<close>

record target_block =
  tb_target_id :: target_id
  tb_sample_ids :: "sample_id list"
  tb_values :: "json list"

definition values_by_sample :: "target_table \<Rightarrow> (sample_id, json) btree_map" where
  "values_by_sample t = bt_collect (map (\<lambda>v. (tv_sample_id v, tv_value v)) (tt_values t))"

definition target_step ::
  "(sample_id, json) btree_map \<Rightarrow> sample_id list \<times> json list \<Rightarrow> coordinator_relation \<Rightarrow>
   (sample_id list \<times> json list) res"
where
  "target_step table st r =
     (let (sample_ids, vals) = st in
      if cr_sample_id r \<in> set sample_ids then Inr (sample_ids, vals)
      else
        rbind (ok_or (map_of table (cr_sample_id r)) (Validation ''target table has no value for sample''))
          (\<lambda>v. Inr (sample_ids @ [cr_sample_id r], vals @ [v])))"

definition target_values :: "handle_arena \<Rightarrow> u64 \<Rightarrow> target_table \<Rightarrow> target_block res" where
  "target_values a view_handle t =
     rseq (validate_values t)
       (rbind (view_identity a view_handle) (\<lambda>relations.
        rbind
          (fold_res (target_step (values_by_sample t)) ([], [])
             (filter
                (\<lambda>r. case cr_target_id r of Some i \<Rightarrow> i = tt_target_id t | None \<Rightarrow> True)
                (rs_records relations)))
          (\<lambda>(sample_ids, vals).
             if sample_ids = [] then invalid ''view contains no samples for target''
             else Inr \<lparr>tb_target_id = tt_target_id t, tb_sample_ids = sample_ids, tb_values = vals\<rparr>)))"

record multi_target_block =
  mb_target_ids :: "target_id list"
  mb_sample_ids :: "sample_id list"
  mb_values :: "json list list"
  mb_validity_masks :: "bool list list"

definition masked_value :: "(sample_id, json) btree_map \<Rightarrow> sample_id \<Rightarrow> json \<times> bool" where
  "masked_value table s =
     (case map_of table s of
        Some v \<Rightarrow> if \<not> json_is_null v then (v, True) else (JNull, False)
      | None \<Rightarrow> (JNull, False))"

definition multi_target_values ::
  "handle_arena \<Rightarrow> u64 \<Rightarrow> target_table list \<Rightarrow> multi_target_block res"
where
  "multi_target_values a view_handle tables =
     (if tables = [] then invalid ''multi-target materialization requires at least one target table''
      else
        rseq
          (each_fresh target_table_validate tt_target_id
             (\<lambda>_. Validation ''duplicate target'') (\<lambda>_. Inr ()) [] tables)
          (let target_ids = map tt_target_id tables in
           rbind (view_identity a view_handle) (\<lambda>relations.
             (let sample_ids =
                    dedup_first []
                      (map cr_sample_id
                        (filter
                          (\<lambda>r. case cr_target_id r of Some i \<Rightarrow> i \<in> set target_ids | None \<Rightarrow> True)
                          (rs_records relations))) in
              if sample_ids = [] then invalid ''view contains no samples for requested targets''
              else
                Inr \<lparr>mb_target_ids = target_ids, mb_sample_ids = sample_ids,
                     mb_values =
                       map (\<lambda>t. map (\<lambda>s. fst (masked_value (values_by_sample t) s)) sample_ids) tables,
                     mb_validity_masks =
                       map (\<lambda>t. map (\<lambda>s. snd (masked_value (values_by_sample t) s)) sample_ids)
                         tables\<rparr>))))"

section \<open>Feature tables\<close>

record feature_row =
  fr_observation_id :: observation_id
  fr_values :: "json list"

record feature_table =
  ft_feature_set_id :: string
  ft_representation_id :: representation_id
  ft_feature_names :: "string list"
  ft_rows :: "feature_row list"

definition feature_table_validate :: "feature_table \<Rightarrow> unit res" where
  "feature_table_validate t =
     rseq (validate_non_empty ''feature_set_id'' (ft_feature_set_id t))
       (if ft_feature_names t = [] then invalid ''feature table contains no features''
        else
          rseq
            (each_fresh (validate_non_empty ''feature_name'') id
               (\<lambda>_. Validation ''duplicate feature'') (\<lambda>_. Inr ()) [] (ft_feature_names t))
            (if ft_rows t = [] then invalid ''feature table contains no rows''
             else
               each_fresh (\<lambda>_. Inr ()) fr_observation_id
                 (\<lambda>_. Validation ''duplicate observation'')
                 (\<lambda>r. if length (fr_values r) \<noteq> length (ft_feature_names t)
                      then invalid ''feature row width'' else Inr ())
                 [] (ft_rows t)))"

record feature_block =
  fb_feature_set_id :: string
  fb_representation_id :: representation_id
  fb_feature_names :: "string list"
  fb_observation_ids :: "observation_id list"
  fb_sample_ids :: "sample_id list"
  fb_values :: "json list list"

definition selected_feature_indices :: "feature_table \<Rightarrow> data_view \<Rightarrow> nat list res" where
  "selected_feature_indices t v =
     (let index_by_name =
            bt_collect (map (\<lambda>(idx, name). (name, idx)) (List.enumerate 0 (ft_feature_names t))) in
      rbind
        (case dv_columns v of
           Some columns \<Rightarrow>
             map_res
               (\<lambda>c. ok_or (map_of index_by_name c) (Validation ''feature table has no feature column''))
               columns
         | None \<Rightarrow> Inr [0..<length (ft_feature_names t)])
        (\<lambda>indices.
           if indices = [] then invalid ''feature table selected no feature columns''
           else Inr indices))"

definition feature_values :: "handle_arena \<Rightarrow> u64 \<Rightarrow> feature_table \<Rightarrow> feature_block res" where
  "feature_values a view_handle t =
     rseq (feature_table_validate t)
    (rbind (ok_or (map_of (ha_view_records a) view_handle) (UnknownHandle ''view'' view_handle))
       (\<lambda>view_rec.
     rbind
       (ok_or (map_of (ha_records a) (hr_handle (vh_parent_handle view_rec)))
          (UnknownHandle ''data'' (hr_handle (vh_parent_handle view_rec))))
       (\<lambda>parent.
     if ft_representation_id t \<noteq> dh_output_representation parent
     then invalid ''feature table representation does not match materialized output''
     else
       rbind (view_identity a view_handle) (\<lambda>relations.
       rbind (selected_feature_indices t (vh_view view_rec)) (\<lambda>indices.
         (let rows_by_observation =
                bt_collect (map (\<lambda>row. (fr_observation_id row, row)) (ft_rows t)) in
          rbind
            (map_res
               (\<lambda>r. rbind
                  (ok_or (map_of rows_by_observation (cr_observation_id r))
                     (Validation ''feature table has no row for observation''))
                  (\<lambda>row. Inr (map (\<lambda>i. fr_values row ! i) indices)))
               (rs_records relations))
            (\<lambda>vals.
               Inr \<lparr>fb_feature_set_id = ft_feature_set_id t,
                    fb_representation_id = ft_representation_id t,
                    fb_feature_names = map (\<lambda>i. ft_feature_names t ! i) indices,
                    fb_observation_ids = map cr_observation_id (rs_records relations),
                    fb_sample_ids = map cr_sample_id (rs_records relations),
                    fb_values = vals\<rparr>)))))))"

section \<open>What the target contract means\<close>

text \<open>The cells of a target value and the width that must be uniform.\<close>

fun value_cells :: "json \<Rightarrow> json list" where
  "value_cells (JArray vs) = vs"
| "value_cells v = [v]"

fun value_width :: "json \<Rightarrow> usize option" where
  "value_width (JArray vs) = Some (length vs)"
| "value_width _ = None"

definition is_number :: "json \<Rightarrow> bool" where
  "is_number v \<longleftrightarrow> (\<exists>n. v = JNumber n)"

definition is_class_label :: "json \<Rightarrow> bool" where
  "is_class_label v \<longleftrightarrow> (\<exists>s. v = JString s \<and> \<not> is_blank s)"

definition target_values_ok :: "target_table \<Rightarrow> bool" where
  "target_values_ok t \<longleftrightarrow>
     tt_values t \<noteq> [] \<and> distinct (map tv_sample_id (tt_values t)) \<and>
     (\<forall>e\<in>set (tt_values t). value_cells (tv_value e) \<noteq> []) \<and>
     (\<forall>e\<in>set (tt_values t). \<forall>e'\<in>set (tt_values t).
        value_width (tv_value e) = value_width (tv_value e')) \<and>
     ((\<forall>e\<in>set (tt_values t). list_all is_number (value_cells (tv_value e))) \<or>
      (\<forall>e\<in>set (tt_values t). list_all is_class_label (value_cells (tv_value e))))"

lemma target_scalar_kind_ok:
  "target_scalar_kind v = Inr k \<longleftrightarrow>
     (k = NumberKind \<and> is_number v) \<or> (k = LabelKind \<and> is_class_label v)"
  by (cases v; cases k) (auto simp: is_number_def is_class_label_def)

lemma not_number_and_label: "\<not> (is_number v \<and> is_class_label v)"
  by (auto simp: is_number_def is_class_label_def)

definition kind_pred :: "target_value_kind \<Rightarrow> json \<Rightarrow> bool" where
  "kind_pred k = (case k of NumberKind \<Rightarrow> is_number | LabelKind \<Rightarrow> is_class_label)"

lemma target_scalar_kind_pred: "target_scalar_kind v = Inr k \<longleftrightarrow> kind_pred k v"
  by (cases k) (simp_all add: target_scalar_kind_ok kind_pred_def)

lemma kind_pred_unique: "kind_pred k v \<Longrightarrow> kind_pred k' v \<Longrightarrow> k = k'"
  using not_number_and_label by (cases k; cases k') (auto simp: kind_pred_def)

lemma target_shape_ok:
  "target_shape v = Inr s \<longleftrightarrow>
     value_cells v \<noteq> [] \<and> list_all (kind_pred (sh_kind s)) (value_cells v) \<and>
     sh_width s = value_width v"
proof (cases "json_as_array v")
  case None
  then have "value_cells v = [v]" "value_width v = None" by (cases v; simp)+
  with None show ?thesis
    by (cases s) (auto simp: target_shape_def rbind_eq_Inr target_scalar_kind_pred)
next
  case (Some items)
  then have v: "v = JArray items" by (simp add: json_as_array_Some)
  show ?thesis
  proof (cases items)
    case Nil
    then show ?thesis by (simp add: target_shape_def v)
  next
    case (Cons i rest)
    show ?thesis
      by (cases s)
        (auto simp: target_shape_def v Cons rbind_eq_Inr if_Inl_eq_Inr each_res_ok
          target_scalar_kind_pred list_all_iff dest: kind_pred_unique)
  qed
qed

lemma target_shape_res_ok: "target_shape_res e = Inr s \<longleftrightarrow> target_shape (tv_value e) = Inr s"
  by (simp add: target_shape_res_def split: sum.split)

lemma uniform_kinds:
  assumes "shapes \<noteq> []"
  shows "(\<forall>s\<in>set shapes. \<not> (list_ex (\<lambda>s. sh_kind s = NumberKind) shapes \<and> sh_kind s = LabelKind)) \<longleftrightarrow>
    (\<exists>k. \<forall>s\<in>set shapes. sh_kind s = k)"
proof -
  have other: "k \<noteq> NumberKind \<longleftrightarrow> k = LabelKind" for k by (cases k) auto
  show ?thesis
    using assms unfolding list_ex_iff other by (metis (full_types) last_in_set other)
qed

lemma list_all2_left: "list_all2 P xs ys \<Longrightarrow> x \<in> set xs \<Longrightarrow> \<exists>y\<in>set ys. P x y"
  by (induction xs ys rule: list_all2_induct) auto

lemma target_values_ok_alt:
  "target_values_ok t \<longleftrightarrow>
     tt_values t \<noteq> [] \<and> distinct (map tv_sample_id (tt_values t)) \<and>
     (\<exists>k. \<forall>e\<in>set (tt_values t). value_cells (tv_value e) \<noteq> [] \<and>
        list_all (kind_pred k) (value_cells (tv_value e))) \<and>
     (\<forall>e\<in>set (tt_values t). \<forall>e'\<in>set (tt_values t).
        value_width (tv_value e) = value_width (tv_value e'))"
proof -
  have "(\<exists>k. \<forall>e\<in>E. P e \<and> list_all (kind_pred k) (f e)) \<longleftrightarrow>
      (\<forall>e\<in>E. P e) \<and> ((\<forall>e\<in>E. list_all is_number (f e)) \<or> (\<forall>e\<in>E. list_all is_class_label (f e)))"
    for E :: "target_value set" and P f
  proof
    assume "\<exists>k. \<forall>e\<in>E. P e \<and> list_all (kind_pred k) (f e)"
    then obtain k where "\<forall>e\<in>E. P e \<and> list_all (kind_pred k) (f e)" by blast
    then show "(\<forall>e\<in>E. P e) \<and>
        ((\<forall>e\<in>E. list_all is_number (f e)) \<or> (\<forall>e\<in>E. list_all is_class_label (f e)))"
      by (cases k) (auto simp: kind_pred_def)
  next
    assume "(\<forall>e\<in>E. P e) \<and>
        ((\<forall>e\<in>E. list_all is_number (f e)) \<or> (\<forall>e\<in>E. list_all is_class_label (f e)))"
    then have "(\<forall>e\<in>E. P e \<and> list_all (kind_pred NumberKind) (f e)) \<or>
        (\<forall>e\<in>E. P e \<and> list_all (kind_pred LabelKind) (f e))"
      by (simp add: kind_pred_def)
    then show "\<exists>k. \<forall>e\<in>E. P e \<and> list_all (kind_pred k) (f e)" by blast
  qed
  from this [of "set (tt_values t)" "\<lambda>e. value_cells (tv_value e) \<noteq> []" "\<lambda>e. value_cells (tv_value e)"]
  show ?thesis unfolding target_values_ok_def by argo
qed

lemma shapes_uniform:
  assumes "es \<noteq> []"
  shows "(\<exists>shapes. list_all2 (\<lambda>e s. target_shape (tv_value e) = Inr s) es shapes \<and>
        (\<exists>k. \<forall>s\<in>set shapes. sh_kind s = k) \<and>
        (\<forall>s\<in>set shapes. sh_width s = sh_width (hd shapes))) \<longleftrightarrow>
    (\<exists>k. \<forall>e\<in>set es. value_cells (tv_value e) \<noteq> [] \<and>
        list_all (kind_pred k) (value_cells (tv_value e))) \<and>
    (\<forall>e\<in>set es. \<forall>e'\<in>set es. value_width (tv_value e) = value_width (tv_value e'))"
    (is "?L \<longleftrightarrow> ?R")
proof
  assume ?L
  then obtain shapes k where shapes: "list_all2 (\<lambda>e s. target_shape (tv_value e) = Inr s) es shapes"
    and k: "\<forall>s\<in>set shapes. sh_kind s = k"
    and w: "\<forall>s\<in>set shapes. sh_width s = sh_width (hd shapes)" by blast
  have *: "value_cells (tv_value e) \<noteq> [] \<and> list_all (kind_pred k) (value_cells (tv_value e)) \<and>
      value_width (tv_value e) = sh_width (hd shapes)" if e: "e \<in> set es" for e
  proof -
    obtain s where "s \<in> set shapes" "target_shape (tv_value e) = Inr s"
      using list_all2_left [OF shapes e] by blast
    with k w show ?thesis by (simp add: target_shape_ok)
  qed
  show ?R
  proof (intro conjI exI [of _ k] ballI)
    fix e e' assume "e \<in> set es" "e' \<in> set es"
    then show "value_width (tv_value e) = value_width (tv_value e')" using * by simp
  qed (use * in blast)+
next
  assume ?R
  then obtain k where k: "\<forall>e\<in>set es. value_cells (tv_value e) \<noteq> [] \<and>
        list_all (kind_pred k) (value_cells (tv_value e))"
    and w: "\<forall>e\<in>set es. \<forall>e'\<in>set es. value_width (tv_value e) = value_width (tv_value e')" by blast
  let ?shapes = "map (\<lambda>e. \<lparr>sh_kind = k, sh_width = value_width (tv_value e)\<rparr>) es"
  have "list_all2 (\<lambda>e s. target_shape (tv_value e) = Inr s) es ?shapes"
    using k by (auto simp: list_all2_conv_all_nth target_shape_ok)
  moreover have "\<forall>s\<in>set ?shapes. sh_width s = sh_width (hd ?shapes)"
  proof
    fix s assume "s \<in> set ?shapes"
    then obtain e where e: "e \<in> set es" "sh_width s = value_width (tv_value e)" by auto
    have "value_width (tv_value e) = value_width (tv_value (hd es))"
      using w e(1) hd_in_set [OF assms] by blast
    with e(2) show "sh_width s = sh_width (hd ?shapes)" by (simp add: hd_map [OF assms])
  qed
  ultimately show ?L by (intro exI [of _ ?shapes] conjI exI [of _ k]) auto
qed

lemma validate_values_ok: "validate_values t = Inr () \<longleftrightarrow> target_values_ok t"
proof (cases "target_table_validate t = Inr ()")
  case True
  then have es: "tt_values t \<noteq> []" "distinct (map tv_sample_id (tt_values t))"
    by (auto simp: target_table_validate_def if_Inl_eq_Inr each_unique_ok)
  have "validate_values t = Inr () \<longleftrightarrow>
      (\<exists>shapes. list_all2 (\<lambda>e s. target_shape (tv_value e) = Inr s) (tt_values t) shapes \<and>
        (\<forall>s\<in>set shapes. \<not> (list_ex (\<lambda>s. sh_kind s = NumberKind) shapes \<and> sh_kind s = LabelKind)) \<and>
        (\<forall>s\<in>set shapes. sh_width s = sh_width (hd shapes)))"
    unfolding validate_values_def True
    by (auto simp: rbind_eq_Inr map_res_eq_Inr target_shape_res_ok each_res_ok if_Inl_eq_Inr Let_def)
  also have "\<dots> \<longleftrightarrow> (\<exists>shapes. list_all2 (\<lambda>e s. target_shape (tv_value e) = Inr s) (tt_values t) shapes \<and>
        (\<exists>k. \<forall>s\<in>set shapes. sh_kind s = k) \<and>
        (\<forall>s\<in>set shapes. sh_width s = sh_width (hd shapes)))"
  proof (intro ex_cong1 conj_cong refl)
    fix shapes
    assume "list_all2 (\<lambda>e s. target_shape (tv_value e) = Inr s) (tt_values t) shapes"
    with es(1) have "shapes \<noteq> []" by auto
    then show "(\<forall>s\<in>set shapes. \<not> (list_ex (\<lambda>s. sh_kind s = NumberKind) shapes \<and> sh_kind s = LabelKind)) \<longleftrightarrow>
        (\<exists>k. \<forall>s\<in>set shapes. sh_kind s = k)"
      by (rule uniform_kinds)
  qed
  finally show ?thesis
    unfolding shapes_uniform [OF es(1)] target_values_ok_alt using es by blast
next
  case False
  then have "\<not> (tt_values t \<noteq> [] \<and> distinct (map tv_sample_id (tt_values t)))"
    by (auto simp: target_table_validate_def if_Inl_eq_Inr each_unique_ok)
  then show ?thesis using False by (auto simp: validate_values_def target_values_ok_def rbind_eq_Inr)
qed

text \<open>
  The single-target value contract: a table is accepted exactly when it has values, no sample
  twice, and its values are all numbers or all non-blank labels, all scalars or all non-empty flat
  vectors of one common length. Missing values, booleans, objects and nested arrays are refused.
\<close>

lemma validate_values_iff: "validate_values t = Inr () \<longleftrightarrow> target_values_ok t"
  by (rule validate_values_ok)

section \<open>What the projections return\<close>

definition target_rows :: "target_table \<Rightarrow> relation_set \<Rightarrow> coordinator_relation list" where
  "target_rows t rs =
     filter (\<lambda>r. cr_target_id r \<in> {None, Some (tt_target_id t)}) (rs_records rs)"

lemma target_fold_ok:
  "fold_res (target_step table) (ids, vals) rows = Inr st \<longleftrightarrow>
     (\<forall>r\<in>set rows. cr_sample_id r \<notin> set ids \<longrightarrow> map_of table (cr_sample_id r) \<noteq> None) \<and>
     st = (ids @ dedup_first ids (map cr_sample_id rows),
           vals @ map (\<lambda>s. the (map_of table s)) (dedup_first ids (map cr_sample_id rows)))"
proof (induction rows arbitrary: ids vals)
  case Nil
  then show ?case by auto
next
  case (Cons r rows)
  have seen: "dedup_first (ids @ [cr_sample_id r]) xs = dedup_first (cr_sample_id r # ids) xs" for xs
    by (rule dedup_first_seen_cong) auto
  have step: "target_step table (ids, vals) r =
      (if cr_sample_id r \<in> set ids then Inr (ids, vals)
       else
         (case map_of table (cr_sample_id r) of
            None \<Rightarrow> invalid ''target table has no value for sample''
          | Some v \<Rightarrow> Inr (ids @ [cr_sample_id r], vals @ [v])))"
    by (simp add: target_step_def split: option.split)
  show ?case
  proof (cases "cr_sample_id r \<in> set ids")
    case True
    then show ?thesis by (simp add: step Cons.IH)
  next
    case False
    then show ?thesis
      by (cases "map_of table (cr_sample_id r)") (auto simp: step Cons.IH seen)
  qed
qed

lemma values_by_sample_lookup:
  "distinct (map tv_sample_id (tt_values t)) \<Longrightarrow>
     map_of (values_by_sample t) = map_of (map (\<lambda>v. (tv_sample_id v, tv_value v)) (tt_values t))"
  by (simp add: values_by_sample_def bt.get_collect_distinct comp_def)

lemma values_by_sample_dom:
  "distinct (map tv_sample_id (tt_values t)) \<Longrightarrow>
     map_of (values_by_sample t) s \<noteq> None \<longleftrightarrow> s \<in> tv_sample_id ` set (tt_values t)"
  by (force simp: values_by_sample_lookup dom_map_of_conv_image_fst domIff [symmetric]
      simp del: not_None_eq)

lemma target_values_lemma:
  "target_values a h t = Inr block \<longleftrightarrow>
     target_values_ok t \<and>
     (\<exists>rs. view_identity a h = Inr rs \<and> target_rows t rs \<noteq> [] \<and>
        cr_sample_id ` set (target_rows t rs) \<subseteq> tv_sample_id ` set (tt_values t) \<and>
        block = \<lparr>tb_target_id = tt_target_id t,
                 tb_sample_ids = dedup_first [] (map cr_sample_id (target_rows t rs)),
                 tb_values = map (\<lambda>s. the (map_of (values_by_sample t) s))
                   (dedup_first [] (map cr_sample_id (target_rows t rs)))\<rparr>)"
proof (cases "target_values_ok t")
  case True
  then have distinct: "distinct (map tv_sample_id (tt_values t))" by (simp add: target_values_ok_def)
  have rows: "filter (\<lambda>r. case cr_target_id r of Some i \<Rightarrow> i = tt_target_id t | None \<Rightarrow> True)
      (rs_records rs) = target_rows t rs" for rs
    unfolding target_rows_def by (intro filter_cong refl) (auto split: option.split)
  have empty: "dedup_first [] (map cr_sample_id (target_rows t rs)) = [] \<longleftrightarrow> target_rows t rs = []" for rs
    by (metis Diff_empty dedup_first.simps(1) list.set(1) map_is_Nil_conv set_dedup_first set_empty)
  show ?thesis
    using True
    by (auto simp: target_values_def rbind_eq_Inr validate_values_ok rows target_fold_ok empty
        if_Inl_eq_Inr values_by_sample_dom [OF distinct] simp del: not_None_eq)
next
  case False
  then show ?thesis by (simp add: target_values_def rbind_eq_Inr validate_values_ok)
qed

text \<open>
  Projecting a single target on a view: it succeeds exactly when the table satisfies the value
  contract, the view is live, some of its relations are of the target and every one of those samples
  has a value; then each sample appears once, in the view's order, with its own value.
\<close>

lemma target_values_spec:
  "target_values a h t = Inr block \<longleftrightarrow>
     target_values_ok t \<and>
     (\<exists>rs. view_identity a h = Inr rs \<and> target_rows t rs \<noteq> [] \<and>
        cr_sample_id ` set (target_rows t rs) \<subseteq> tv_sample_id ` set (tt_values t) \<and>
        block = \<lparr>tb_target_id = tt_target_id t,
                 tb_sample_ids = dedup_first [] (map cr_sample_id (target_rows t rs)),
                 tb_values = map (\<lambda>s. the (map_of (values_by_sample t) s))
                   (dedup_first [] (map cr_sample_id (target_rows t rs)))\<rparr>)"
  by (rule target_values_lemma)

lemma target_not_null:
  assumes "target_values_ok t" and "map_of (values_by_sample t) s = Some v"
  shows "v \<noteq> JNull"
proof -
  have "map_of (map (\<lambda>v. (tv_sample_id v, tv_value v)) (tt_values t)) s = Some v"
    using assms by (simp add: values_by_sample_lookup target_values_ok_def)
  from map_of_SomeD [OF this] obtain e where e: "e \<in> set (tt_values t)" "tv_value e = v"
    by auto
  obtain k where "list_all (kind_pred k) (value_cells v)"
    using assms(1) e unfolding target_values_ok_alt by blast
  then show ?thesis
    by (cases k) (auto simp: kind_pred_def is_number_def is_class_label_def)
qed

text \<open>
  The multi-target projection agrees with the single-target one: whenever a view can be projected
  on one target, projecting it on the list of that target alone gives the same samples, the same
  values and a validity mask without a gap.
\<close>

lemma multi_target_agrees:
  assumes "target_values a h t = Inr block"
  shows "multi_target_values a h [t] =
    Inr \<lparr>mb_target_ids = [tb_target_id block], mb_sample_ids = tb_sample_ids block,
         mb_values = [tb_values block],
         mb_validity_masks = [map (\<lambda>_. True) (tb_sample_ids block)]\<rparr>"
proof -
  have ok: "target_values_ok t"
    and rs: "\<exists>rs. view_identity a h = Inr rs \<and> target_rows t rs \<noteq> [] \<and>
        cr_sample_id ` set (target_rows t rs) \<subseteq> tv_sample_id ` set (tt_values t) \<and>
        block = \<lparr>tb_target_id = tt_target_id t,
                 tb_sample_ids = dedup_first [] (map cr_sample_id (target_rows t rs)),
                 tb_values = map (\<lambda>s. the (map_of (values_by_sample t) s))
                   (dedup_first [] (map cr_sample_id (target_rows t rs)))\<rparr>"
    using assms by (simp_all add: target_values_lemma)
  then obtain rs where rs: "view_identity a h = Inr rs" "target_rows t rs \<noteq> []"
        "cr_sample_id ` set (target_rows t rs) \<subseteq> tv_sample_id ` set (tt_values t)"
    and block: "block = \<lparr>tb_target_id = tt_target_id t,
                 tb_sample_ids = dedup_first [] (map cr_sample_id (target_rows t rs)),
                 tb_values = map (\<lambda>s. the (map_of (values_by_sample t) s))
                   (dedup_first [] (map cr_sample_id (target_rows t rs)))\<rparr>"
    by blast
  have distinct: "distinct (map tv_sample_id (tt_values t))" using ok by (simp add: target_values_ok_def)
  have table: "target_table_validate t = Inr ()"
    using ok by (auto simp: target_table_validate_def target_values_ok_def if_Inl_eq_Inr each_unique_ok)
  let ?ids = "dedup_first [] (map cr_sample_id (target_rows t rs))"
  have rows: "filter (\<lambda>r. case cr_target_id r of Some i \<Rightarrow> i \<in> set [tt_target_id t] | None \<Rightarrow> True)
      (rs_records rs) = target_rows t rs"
    unfolding target_rows_def by (intro filter_cong refl) (auto split: option.split)
  have nonempty: "?ids \<noteq> []"
    using rs(2) by (metis Diff_empty list.set(1) map_is_Nil_conv set_dedup_first set_empty)
  have masked: "masked_value (values_by_sample t) s = (the (map_of (values_by_sample t) s), True)"
    if "s \<in> set ?ids" for s
  proof -
    have "s \<in> tv_sample_id ` set (tt_values t)" using that rs(3) by (auto simp: set_dedup_first)
    then obtain v where "map_of (values_by_sample t) s = Some v"
      using values_by_sample_dom [OF distinct] by auto
    with target_not_null [OF ok this] show ?thesis by (simp add: masked_value_def json_is_null_def)
  qed
  show ?thesis
    using table masked nonempty
    by (simp add: multi_target_values_def rs(1) rows block Let_def)
qed

text \<open>
  The validity masks of a multi-target block: one row per requested target and one flag per
  sample, set exactly when the target's table holds a non-null value for the sample, which is then
  the value served; a missing value is served as null. Tables with repeated targets are refused.
\<close>

lemma multi_target_masks:
  assumes "multi_target_values a h tables = Inr block"
    and "i < length tables" and "j < length (mb_sample_ids block)"
  shows "distinct (mb_target_ids block) \<and> mb_target_ids block = map tt_target_id tables \<and>
    distinct (mb_sample_ids block) \<and>
    mb_validity_masks block ! i ! j =
      (\<exists>e\<in>set (tt_values (tables ! i)). tv_sample_id e = mb_sample_ids block ! j \<and> tv_value e \<noteq> JNull) \<and>
    (if mb_validity_masks block ! i ! j
     then \<exists>e\<in>set (tt_values (tables ! i)). tv_sample_id e = mb_sample_ids block ! j \<and>
       tv_value e = mb_values block ! i ! j
     else mb_values block ! i ! j = JNull)"
proof -
  have tables: "distinct (map tt_target_id tables)"
      "\<forall>t\<in>set tables. target_table_validate t = Inr ()"
    and block: "block = \<lparr>mb_target_ids = map tt_target_id tables, mb_sample_ids = mb_sample_ids block,
       mb_values = map (\<lambda>t. map (\<lambda>s. fst (masked_value (values_by_sample t) s)) (mb_sample_ids block)) tables,
       mb_validity_masks = map (\<lambda>t. map (\<lambda>s. snd (masked_value (values_by_sample t) s)) (mb_sample_ids block)) tables\<rparr>"
    and ids: "distinct (mb_sample_ids block)"
    using assms(1)
    by (auto simp: multi_target_values_def rbind_eq_Inr if_Inl_eq_Inr each_fresh_ok Let_def
        distinct_dedup_first)
  let ?t = "tables ! i" and ?s = "mb_sample_ids block ! j"
  have "target_table_validate ?t = Inr ()" using tables(2) assms(2) by simp
  then have distinct: "distinct (map tv_sample_id (tt_values ?t))"
    by (auto simp: target_table_validate_def if_Inl_eq_Inr each_unique_ok)
  have cell: "mb_values block ! i ! j = fst (masked_value (values_by_sample ?t) ?s)"
      "mb_validity_masks block ! i ! j = snd (masked_value (values_by_sample ?t) ?s)"
    using assms(2,3) by (subst block, simp)+
  have lookup: "map_of (values_by_sample ?t) ?s = Some v \<longleftrightarrow>
      (\<exists>e\<in>set (tt_values ?t). tv_sample_id e = ?s \<and> tv_value e = v)" for v
    using distinct by (force simp: values_by_sample_lookup comp_def)
  have "snd (masked_value (values_by_sample ?t) ?s) \<longleftrightarrow>
      (\<exists>v. map_of (values_by_sample ?t) ?s = Some v \<and> v \<noteq> JNull)"
    by (auto simp: masked_value_def json_is_null_def split: option.split)
  moreover have "map_of (values_by_sample ?t) ?s = Some (fst (masked_value (values_by_sample ?t) ?s))"
    if "snd (masked_value (values_by_sample ?t) ?s)"
    using that by (auto simp: masked_value_def json_is_null_def split: option.splits if_splits)
  moreover have "fst (masked_value (values_by_sample ?t) ?s) = JNull"
    if "\<not> snd (masked_value (values_by_sample ?t) ?s)"
    using that by (auto simp: masked_value_def split: option.splits if_splits)
  moreover have "mb_target_ids block = map tt_target_id tables" by (subst block) simp
  ultimately show ?thesis
    using tables(1) ids unfolding cell by (auto simp: lookup)
qed

section \<open>Feature values\<close>

lemma feature_table_valid:
  "feature_table_validate t = Inr () \<longleftrightarrow>
     \<not> is_blank (ft_feature_set_id t) \<and> ft_feature_names t \<noteq> [] \<and> distinct (ft_feature_names t) \<and>
     (\<forall>n\<in>set (ft_feature_names t). \<not> is_blank n) \<and> ft_rows t \<noteq> [] \<and>
     distinct (map fr_observation_id (ft_rows t)) \<and>
     (\<forall>r\<in>set (ft_rows t). length (fr_values r) = length (ft_feature_names t))"
  by (auto simp: feature_table_validate_def validate_non_empty_def rbind_eq_Inr if_Inl_eq_Inr
      each_fresh_ok)

lemma name_index:
  assumes "distinct names"
  shows "map_of (bt_collect (map (\<lambda>(idx, n). (n, idx)) (List.enumerate 0 names))) c = Some k \<longleftrightarrow>
    k < length names \<and> names ! k = c"
proof -
  let ?kvs = "map (\<lambda>(idx, n). (n, idx)) (List.enumerate 0 names)"
  have keys: "map fst ?kvs = names" by (simp add: comp_def case_prod_unfold)
  then have "map_of (bt_collect ?kvs) = map_of ?kvs"
    using assms by (simp add: bt.get_collect_distinct)
  moreover have "map_of ?kvs c = Some k \<longleftrightarrow> (c, k) \<in> set ?kvs"
    using assms keys by (intro map_of_eq_Some_iff) simp
  moreover have "(c, k) \<in> set ?kvs \<longleftrightarrow> k < length names \<and> names ! k = c"
    by (force simp: in_set_enumerate_eq)
  ultimately show ?thesis by simp
qed

lemma selected_feature_indices_ok:
  assumes "distinct (ft_feature_names t)" and "selected_feature_indices t v = Inr indices"
  shows "(\<forall>k\<in>set indices. k < length (ft_feature_names t)) \<and> indices \<noteq> [] \<and>
    map (\<lambda>k. ft_feature_names t ! k) indices =
      (case dv_columns v of None \<Rightarrow> ft_feature_names t | Some columns \<Rightarrow> columns)"
proof (cases "dv_columns v")
  case None
  then show ?thesis
    using assms(2) by (auto simp: selected_feature_indices_def if_Inl_eq_Inr map_nth)
next
  case (Some columns)
  then have "list_all2 (\<lambda>c k. k < length (ft_feature_names t) \<and> ft_feature_names t ! k = c) columns indices"
      "indices \<noteq> []"
    using assms(2)
    by (auto simp: selected_feature_indices_def rbind_eq_Inr if_Inl_eq_Inr map_res_eq_Inr
        ok_or_eq_Inr name_index [OF assms(1)])
  moreover from this(1) have "(\<forall>k\<in>set indices. k < length (ft_feature_names t)) \<and>
      map (\<lambda>k. ft_feature_names t ! k) indices = columns"
    by (induction rule: list_all2_induct) auto
  ultimately show ?thesis using Some by simp
qed

text \<open>
  Projecting a feature table on a view: the block has the view's observations and samples in the
  view's order and the requested columns (all of them by default) in their order, and every cell
  is the cell of that observation and that column in the table. No index runs out of its row.
\<close>

lemma feature_values_cells:
  assumes "feature_values a h t = Inr block" and "view_identity a h = Inr rs"
    and "view_record a h = Some v" and "i < length (rs_records rs)"
    and "j < length (fb_feature_names block)"
  shows "fb_observation_ids block = map cr_observation_id (rs_records rs) \<and>
    fb_sample_ids block = map cr_sample_id (rs_records rs) \<and>
    fb_feature_names block =
      (case dv_columns (vh_view v) of None \<Rightarrow> ft_feature_names t | Some columns \<Rightarrow> columns) \<and>
    length (fb_values block) = length (rs_records rs) \<and>
    length (fb_values block ! i) = length (fb_feature_names block) \<and>
    (\<exists>row\<in>set (ft_rows t). fr_observation_id row = cr_observation_id (rs_records rs ! i) \<and>
       (\<exists>k<length (fr_values row). ft_feature_names t ! k = fb_feature_names block ! j \<and>
          fb_values block ! i ! j = fr_values row ! k))"
proof -
  let ?rows = "bt_collect (map (\<lambda>row. (fr_observation_id row, row)) (ft_rows t))"
  obtain indices vals where valid: "feature_table_validate t = Inr ()"
    and indices: "selected_feature_indices t (vh_view v) = Inr indices"
    and vals: "list_all2 (\<lambda>r vs. \<exists>row. map_of ?rows (cr_observation_id r) = Some row \<and>
        map (\<lambda>k. fr_values row ! k) indices = vs) (rs_records rs) vals"
    and block: "block = \<lparr>fb_feature_set_id = ft_feature_set_id t,
                    fb_representation_id = ft_representation_id t,
                    fb_feature_names = map (\<lambda>i. ft_feature_names t ! i) indices,
                    fb_observation_ids = map cr_observation_id (rs_records rs),
                    fb_sample_ids = map cr_sample_id (rs_records rs), fb_values = vals\<rparr>"
    using assms(1-3)
    by (auto simp: feature_values_def rbind_eq_Inr if_Inl_eq_Inr ok_or_eq_Inr map_res_eq_Inr Let_def
        view_record_def)
  have names: "distinct (ft_feature_names t)" "distinct (map fr_observation_id (ft_rows t))"
      "\<forall>r\<in>set (ft_rows t). length (fr_values r) = length (ft_feature_names t)"
    using valid by (simp_all add: feature_table_valid)
  note idx = selected_feature_indices_ok [OF names(1) indices]
  have "map_of ?rows = map_of (map (\<lambda>row. (fr_observation_id row, row)) (ft_rows t))"
    using names(2) by (simp add: bt.get_collect_distinct comp_def)
  then obtain row where row: "row \<in> set (ft_rows t)"
      "fr_observation_id row = cr_observation_id (rs_records rs ! i)"
      "vals ! i = map (\<lambda>k. fr_values row ! k) indices"
    using list_all2_nthD [OF vals assms(4)] by (auto dest!: map_of_SomeD)
  have j: "j < length indices" using assms(5) by (simp add: block)
  then have k: "indices ! j < length (fr_values row)"
    using idx row(1) names(3) nth_mem by fastforce
  have cols: "fb_feature_names block =
      (case dv_columns (vh_view v) of None \<Rightarrow> ft_feature_names t | Some columns \<Rightarrow> columns)"
    using idx by (simp add: block)
  have cell: "\<exists>k<length (fr_values row). ft_feature_names t ! k = fb_feature_names block ! j \<and>
      fb_values block ! i ! j = fr_values row ! k"
    using j k row(3) by (intro exI [of _ "indices ! j"]) (simp add: block)
  have "length vals = length (rs_records rs)" using vals by (auto dest: list_all2_lengthD)
  moreover from this have "length (fb_values block ! i) = length (fb_feature_names block)"
    using row(3) by (simp add: block)
  moreover have "\<exists>row\<in>set (ft_rows t). fr_observation_id row = cr_observation_id (rs_records rs ! i) \<and>
      (\<exists>k<length (fr_values row). ft_feature_names t ! k = fb_feature_names block ! j \<and>
         fb_values block ! i ! j = fr_values row ! k)"
    using row(1,2) cell by blast
  ultimately show ?thesis
    by (intro conjI cols) (simp_all add: block)
qed

end
