(* ===== verification/Collation.thy ===== *)
theory Collation
  imports Coordinator_Tables
begin

text \<open>
  Collation of ragged numeric rows into a rectangular block (\<open>collation.rs\<close>): padding or truncating
  every row to one length, with a presence mask for the cells that come from the row and a validity
  mask for those that hold a value. An allocation of \<open>n\<close> bytes may fail; \<open>can_reserve\<close> says when it
  does not. The reading of a JSON number is the parameter \<open>number_f64\<close>.
\<close>

section \<open>Policies and blocks\<close>

datatype collation_padding = PadNone | PadRight | PadLeft | PadCenter

record collation_policy =
  cp_padding :: collation_padding
  cp_truncate :: bool
  cp_batch_container :: "string option"
  cp_emit_mask :: bool
  cp_max_length :: "usize option"
  cp_pad_value :: f64

definition default_collation_policy :: collation_policy where
  "default_collation_policy =
     \<lparr>cp_padding = PadNone, cp_truncate = False, cp_batch_container = None, cp_emit_mask = True,
      cp_max_length = None, cp_pad_value = f64_zero\<rparr>"

record numeric_input_block =
  ni_block_id :: string
  ni_representation_id :: representation_id
  ni_observation_ids :: "observation_id list"
  ni_sample_ids :: "sample_id list"
  ni_rows :: "f64 option list list"
  ni_feature_names :: "string list option"

record numeric_tensor_block =
  nt_block_id :: string
  nt_representation_id :: representation_id
  nt_batch_container :: string
  nt_observation_ids :: "observation_id list"
  nt_sample_ids :: "sample_id list"
  nt_shape :: "usize list"
  nt_values :: "f64 list"
  nt_presence_mask :: "bool list option"
  nt_validity_mask :: "bool list option"
  nt_feature_names :: "string list option"

section \<open>Validation\<close>

definition validate_collation_policy :: "collation_policy \<Rightarrow> unit res" where
  "validate_collation_policy p =
     (if cp_max_length p = Some 0 then invalid ''collation max_length must be greater than zero''
      else if (case cp_batch_container p of None \<Rightarrow> False | Some c \<Rightarrow> is_blank c)
      then invalid ''collation batch_container must not be empty''
      else if \<not> f64_is_finite (cp_pad_value p) then invalid ''collation pad_value must be finite''
      else Inr ())"

definition numeric_row_validate :: "f64 option list \<Rightarrow> unit res" where
  "numeric_row_validate row =
     (if row = [] then invalid ''row is empty''
      else
        each_res (\<lambda>v. if \<not> f64_is_finite v then invalid ''non-finite value'' else Inr ())
          (List.map_filter id row))"

definition validate_numeric_input_block :: "numeric_input_block \<Rightarrow> unit res" where
  "validate_numeric_input_block b =
     (if is_blank (ni_block_id b) then invalid ''collation input block_id is empty''
      else if ni_observation_ids b = [] then invalid ''collation input block contains no rows''
      else if length (ni_observation_ids b) \<noteq> length (ni_sample_ids b) \<or>
              length (ni_sample_ids b) \<noteq> length (ni_rows b)
      then invalid ''collation input block lengths differ''
      else
        rseq
          (each_fresh (\<lambda>_. Inr ()) fst (\<lambda>_. Validation ''duplicate observation'')
             (\<lambda>x. numeric_row_validate (snd x)) [] (zip (ni_observation_ids b) (ni_rows b)))
          (case ni_feature_names b of
             None \<Rightarrow> Inr ()
           | Some names \<Rightarrow>
               if names = [] then invalid ''empty feature_names''
               else if list_ex is_blank names then invalid ''empty feature name''
               else each_unique id (\<lambda>_. Validation ''duplicate feature'') names))"

definition validate_feature_block_shape :: "feature_block \<Rightarrow> unit res" where
  "validate_feature_block_shape b =
     (if is_blank (fb_feature_set_id b) then invalid ''feature block feature_set_id is empty''
      else if fb_feature_names b = [] then invalid ''feature block contains no features''
      else if length (fb_observation_ids b) \<noteq> length (fb_sample_ids b) \<or>
              length (fb_sample_ids b) \<noteq> length (fb_values b)
      then invalid ''feature block lengths differ''
      else
        each_res
          (\<lambda>row. if length row \<noteq> length (fb_feature_names b) then invalid ''row width'' else Inr ())
          (fb_values b))"

definition numeric_cell :: "(string \<Rightarrow> f64 option) \<Rightarrow> json \<Rightarrow> f64 option res" where
  "numeric_cell number_f64 v =
     (case v of
        JNull \<Rightarrow> Inr None
      | JNumber n \<Rightarrow>
          (case number_f64 n of Some x \<Rightarrow> Inr (Some x) | None \<Rightarrow> invalid ''non-f64 numeric value'')
      | _ \<Rightarrow> invalid ''must be numeric or null for collation'')"

definition numeric_input_from_feature_block ::
  "(string \<Rightarrow> f64 option) \<Rightarrow> feature_block \<Rightarrow> numeric_input_block res"
where
  "numeric_input_from_feature_block number_f64 b =
     rseq (validate_feature_block_shape b)
       (rbind (map_res (map_res (numeric_cell number_f64)) (fb_values b))
          (\<lambda>rows.
             Inr \<lparr>ni_block_id = fb_feature_set_id b, ni_representation_id = fb_representation_id b,
                  ni_observation_ids = fb_observation_ids b, ni_sample_ids = fb_sample_ids b,
                  ni_rows = rows, ni_feature_names = Some (fb_feature_names b)\<rparr>))"

section \<open>Lengths\<close>

definition target_length :: "numeric_input_block \<Rightarrow> collation_policy \<Rightarrow> usize res" where
  "target_length b p =
     (let max_observed = (if ni_rows b = [] then 0 else Max (set (map length (ni_rows b))));
          target = (case cp_max_length p of Some n \<Rightarrow> n | None \<Rightarrow> max_observed)
      in
      if target = 0 then invalid ''empty target length''
      else if \<not> cp_truncate p \<and> list_ex (\<lambda>row. target < length row) (ni_rows b)
      then invalid ''rows longer than max_length without truncate''
      else if cp_padding p = PadNone \<and> list_ex (\<lambda>row. length row < target) (ni_rows b)
      then invalid ''ragged rows but padding is none''
      else Inr target)"

definition validate_feature_names_for_collation ::
  "numeric_input_block \<Rightarrow> collation_policy \<Rightarrow> usize \<Rightarrow> unit res"
where
  "validate_feature_names_for_collation b p target =
     (case ni_feature_names b of
        None \<Rightarrow> Inr ()
      | Some names \<Rightarrow>
          rseq
            (each_res
               (\<lambda>row. if length row \<noteq> length names then invalid ''rectangular rows'' else Inr ())
               (ni_rows b))
            (if length names < target then invalid ''cannot pad named feature rows''
             else if target < length names \<and> \<not> cp_truncate p
             then invalid ''feature names require truncation'' else Inr ()))"

definition truncate_start :: "usize \<Rightarrow> usize \<Rightarrow> collation_padding \<Rightarrow> usize" where
  "truncate_start row_len target padding =
     (case padding of
        PadLeft \<Rightarrow> row_len - target
      | PadCenter \<Rightarrow> (row_len - target) div 2
      | _ \<Rightarrow> 0)"

section \<open>Projection of a row\<close>

record projected_row =
  pj_values :: "f64 option list"
  pj_presence :: "bool list"

definition reserve_collation :: "(nat \<Rightarrow> bool) \<Rightarrow> nat \<Rightarrow> usize \<Rightarrow> unit res" where
  "reserve_collation can_reserve item_bytes n =
     (if can_reserve (item_bytes * n) then Inr () else invalid ''collation allocation failed'')"

definition project_row ::
  "(nat \<Rightarrow> bool) \<Rightarrow> f64 option list \<Rightarrow> usize \<Rightarrow> collation_policy \<Rightarrow> projected_row res"
where
  "project_row can_reserve row target p =
     rbind
       (if target < length row
        then
          (if \<not> cp_truncate p then invalid ''row is longer than target length without truncate''
           else
             (let start = truncate_start (length row) target (cp_padding p) in
              Inr (take target (drop start row))))
        else Inr row)
       (\<lambda>truncated.
          if length truncated = target
          then Inr \<lparr>pj_values = truncated, pj_presence = replicate target True\<rparr>
          else if cp_padding p = PadNone
          then invalid ''row is shorter than target length but padding is none''
          else
            (let missing = target - length truncated;
                 (left_pad, right_pad) =
                   (case cp_padding p of
                      PadLeft \<Rightarrow> (missing, 0)
                    | PadCenter \<Rightarrow> (missing div 2, missing - missing div 2)
                    | _ \<Rightarrow> (0, missing))
             in
             rseq (reserve_collation can_reserve 16 target)
            (rseq (reserve_collation can_reserve 1 target)
               (Inr \<lparr>pj_values = replicate left_pad None @ truncated @ replicate right_pad None,
                     pj_presence =
                       replicate left_pad False @ replicate (target - left_pad - right_pad) True @
                       replicate right_pad False\<rparr>))))"

definition projected_feature_names ::
  "string list option \<Rightarrow> usize \<Rightarrow> collation_policy \<Rightarrow> string list option res"
where
  "projected_feature_names feature_names target p =
     (case feature_names of
        None \<Rightarrow> Inr None
      | Some names \<Rightarrow>
          if target = length names then Inr (Some names)
          else if length names < target then invalid ''cannot add padded feature names''
          else
            (let start = truncate_start (length names) target (cp_padding p) in
             Inr (Some (take target (drop start names)))))"

text \<open>Whether a projected cell holds a value: \<open>*present && value.is_some()\<close>.\<close>

definition validity_of :: "projected_row \<Rightarrow> bool list" where
  "validity_of r = map (\<lambda>(value, present). present \<and> value \<noteq> None) (zip (pj_values r) (pj_presence r))"

definition assemble_tensor ::
  "numeric_input_block \<Rightarrow> collation_policy \<Rightarrow> usize \<Rightarrow> projected_row list \<Rightarrow> string list option \<Rightarrow>
   numeric_tensor_block"
where
  "assemble_tensor b p target projected names =
     (let values = concat (map (\<lambda>r. map (\<lambda>v. case v of Some x \<Rightarrow> x | None \<Rightarrow> cp_pad_value p) (pj_values r)) projected);
          presence = concat (map pj_presence projected);
          validity = concat (map validity_of projected);
          has_invalid = list_ex (\<lambda>v. \<not> v) validity
      in
      \<lparr>nt_block_id = ni_block_id b, nt_representation_id = ni_representation_id b,
       nt_batch_container = (case cp_batch_container p of Some c \<Rightarrow> c | None \<Rightarrow> ''ndarray''),
       nt_observation_ids = ni_observation_ids b, nt_sample_ids = ni_sample_ids b,
       nt_shape = [length (ni_rows b), target], nt_values = values,
       nt_presence_mask = (if cp_emit_mask p then Some presence else None),
       nt_validity_mask = (if has_invalid then Some validity else None),
       nt_feature_names = names\<rparr>)"

definition collate_numeric_block ::
  "(nat \<Rightarrow> bool) \<Rightarrow> numeric_input_block \<Rightarrow> collation_policy \<Rightarrow> numeric_tensor_block res"
where
  "collate_numeric_block can_reserve b p =
     rseq (validate_numeric_input_block b)
    (rseq (validate_collation_policy p)
    (rbind (target_length b p) (\<lambda>target.
     rseq (validate_feature_names_for_collation b p target)
    (rbind
       (ok_or (checked_mul (length (ni_rows b)) target)
          (Validation ''collation dimensions exceed addressable capacity''))
       (\<lambda>cells.
     rseq (reserve_collation can_reserve 8 cells)
    (rseq (reserve_collation can_reserve 1 cells)
    (rseq (reserve_collation can_reserve 1 cells)
    (rbind (map_res (\<lambda>row. project_row can_reserve row target p) (ni_rows b)) (\<lambda>projected.
     rbind (projected_feature_names (ni_feature_names b) target p) (\<lambda>names.
       Inr (assemble_tensor b p target projected names)))))))))))"

definition collate_feature_block ::
  "(string \<Rightarrow> f64 option) \<Rightarrow> (nat \<Rightarrow> bool) \<Rightarrow> feature_block \<Rightarrow> collation_policy \<Rightarrow>
   numeric_tensor_block res"
where
  "collate_feature_block number_f64 can_reserve b p =
     rbind (numeric_input_from_feature_block number_f64 b)
       (\<lambda>input. collate_numeric_block can_reserve input p)"

section \<open>What collation returns\<close>

text \<open>
  The cell of a row that column \<open>j\<close> of the output shows: the row is cut or padded at its end, at its
  start, or on both sides with the smaller half first.
\<close>

definition cell_source :: "usize \<Rightarrow> usize \<Rightarrow> collation_padding \<Rightarrow> usize \<Rightarrow> usize option" where
  "cell_source len target padding j =
     (if target \<le> len then Some (truncate_start len target padding + j)
      else
        (let left = (case padding of PadLeft \<Rightarrow> target - len | PadCenter \<Rightarrow> (target - len) div 2 | _ \<Rightarrow> 0) in
         if left \<le> j \<and> j < left + len then Some (j - left) else None))"

definition fitted :: "f64 option list \<Rightarrow> usize \<Rightarrow> collation_padding \<Rightarrow> f64 option list" where
  "fitted row target padding =
     map (\<lambda>j. Option.bind (cell_source (length row) target padding j) (\<lambda>k. row ! k)) [0..<target]"

definition covered :: "f64 option list \<Rightarrow> usize \<Rightarrow> collation_padding \<Rightarrow> bool list" where
  "covered row target padding = map (\<lambda>j. cell_source (length row) target padding j \<noteq> None) [0..<target]"

lemma truncate_start_le: "target \<le> len \<Longrightarrow> truncate_start len target padding + target \<le> len"
  by (auto simp: truncate_start_def split: collation_padding.split)

lemma fitted_cut:
  assumes "target \<le> length row"
  shows "fitted row target padding = take target (drop (truncate_start (length row) target padding) row)"
    "covered row target padding = replicate target True"
  using assms truncate_start_le [OF assms, of padding]
  by (auto intro!: nth_equalityI simp: fitted_def covered_def cell_source_def)

lemma fitted_padded:
  fixes padding :: collation_padding and row :: "f64 option list"
  assumes "length row < target"
  defines "left \<equiv> case padding of PadLeft \<Rightarrow> target - length row | PadCenter \<Rightarrow> (target - length row) div 2 | _ \<Rightarrow> 0"
  shows "fitted row target padding =
      replicate left None @ row @ replicate (target - length row - left) None"
    "covered row target padding =
      replicate left False @ replicate (length row) True @ replicate (target - length row - left) False"
proof -
  have "left \<le> target - length row" by (auto simp: left_def split: collation_padding.split)
  then have len: "left + (length row + (target - length row - left)) = target" using assms(1) by simp
  have source: "cell_source (length row) target padding j =
      (if left \<le> j \<and> j < left + length row then Some (j - left) else None)" for j
    using assms(1) by (simp add: cell_source_def left_def Let_def)
  show "fitted row target padding =
      replicate left None @ row @ replicate (target - length row - left) None"
    using len by (auto intro!: nth_equalityI simp: fitted_def source nth_append)
  show "covered row target padding =
      replicate left False @ replicate (length row) True @ replicate (target - length row - left) False"
    using len by (auto intro!: nth_equalityI simp: covered_def source nth_append split: if_splits)
qed

lemma project_row_ok:
  "project_row can_reserve row target p = Inr r \<longleftrightarrow>
     (target < length row \<longrightarrow> cp_truncate p) \<and>
     (length row < target \<longrightarrow> cp_padding p \<noteq> PadNone \<and> can_reserve (16 * target) \<and> can_reserve target) \<and>
     r = \<lparr>pj_values = fitted row target (cp_padding p), pj_presence = covered row target (cp_padding p)\<rparr>"
proof (cases "length row < target")
  case True
  define left where "left = (case cp_padding p of PadLeft \<Rightarrow> target - length row
    | PadCenter \<Rightarrow> (target - length row) div 2 | _ \<Rightarrow> 0)"
  have "target - left - (target - length row - left) = length row"
    using True by (auto simp: left_def split: collation_padding.split)
  moreover have "(case cp_padding p of
        PadLeft \<Rightarrow> (target - length row, 0)
      | PadCenter \<Rightarrow> ((target - length row) div 2, (target - length row) - (target - length row) div 2)
      | _ \<Rightarrow> (0, target - length row)) = (left, target - length row - left)"
    by (auto simp: left_def split: collation_padding.split)
  ultimately show ?thesis
    using True fitted_padded [OF True, of "cp_padding p", folded left_def]
    by (auto simp: project_row_def reserve_collation_def Let_def)
next
  case False
  then show ?thesis
    using fitted_cut [of target row "cp_padding p"] truncate_start_le [of target "length row" "cp_padding p"]
    by (cases "target = length row")
      (auto simp: project_row_def Let_def truncate_start_def split: collation_padding.split)
qed

definition input_block_ok :: "numeric_input_block \<Rightarrow> bool" where
  "input_block_ok b \<longleftrightarrow>
     \<not> is_blank (ni_block_id b) \<and> ni_rows b \<noteq> [] \<and> distinct (ni_observation_ids b) \<and>
     length (ni_observation_ids b) = length (ni_rows b) \<and> length (ni_sample_ids b) = length (ni_rows b) \<and>
     (\<forall>row\<in>set (ni_rows b). row \<noteq> [] \<and> (\<forall>x. Some x \<in> set row \<longrightarrow> f64_is_finite x)) \<and>
     (\<forall>names. ni_feature_names b = Some names \<longrightarrow>
        names \<noteq> [] \<and> distinct names \<and> (\<forall>n\<in>set names. \<not> is_blank n))"

lemma numeric_row_validate_ok:
  "numeric_row_validate row = Inr () \<longleftrightarrow> row \<noteq> [] \<and> (\<forall>x. Some x \<in> set row \<longrightarrow> f64_is_finite x)"
  by (auto simp: numeric_row_validate_def res_simps set_map_filter)

lemma validate_numeric_input_block_ok: "validate_numeric_input_block b = Inr () \<longleftrightarrow> input_block_ok b"
proof (cases "length (ni_observation_ids b) = length (ni_rows b)")
  case True
  have names: "(case ni_feature_names b of None \<Rightarrow> Inr ()
        | Some names \<Rightarrow> if names = [] then Inl e1 else if list_ex is_blank names then Inl e2
            else each_unique id (\<lambda>_. e3) names) = Inr () \<longleftrightarrow>
      (\<forall>names. ni_feature_names b = Some names \<longrightarrow>
        names \<noteq> [] \<and> distinct names \<and> (\<forall>n\<in>set names. \<not> is_blank n))" for e1 e2 e3 :: data_error
    by (cases "ni_feature_names b") (auto simp: res_simps list_ex_iff)
  have "ni_rows b = [] \<longleftrightarrow> ni_observation_ids b = []" using True by auto
  then show ?thesis
    using True unfolding validate_numeric_input_block_def input_block_ok_def
    by (simp add: if_Inl_eq_Inr rbind_eq_Inr each_fresh_zip [OF True] numeric_row_validate_ok names) auto
next
  case False
  then show ?thesis by (auto simp: validate_numeric_input_block_def input_block_ok_def res_simps)
qed

definition policy_ok :: "collation_policy \<Rightarrow> bool" where
  "policy_ok p \<longleftrightarrow>
     cp_max_length p \<noteq> Some 0 \<and> (\<forall>c. cp_batch_container p = Some c \<longrightarrow> \<not> is_blank c) \<and>
     f64_is_finite (cp_pad_value p)"

lemma validate_collation_policy_ok: "validate_collation_policy p = Inr () \<longleftrightarrow> policy_ok p"
  by (auto simp: validate_collation_policy_def policy_ok_def res_simps split: option.splits)

text \<open>The common length, and that every row can be brought to it.\<close>

definition length_ok :: "numeric_input_block \<Rightarrow> collation_policy \<Rightarrow> usize \<Rightarrow> bool" where
  "length_ok b p target \<longleftrightarrow>
     0 < target \<and> target = (case cp_max_length p of Some n \<Rightarrow> n | None \<Rightarrow> Max (length ` set (ni_rows b))) \<and>
     (\<forall>row\<in>set (ni_rows b). (target < length row \<longrightarrow> cp_truncate p) \<and>
        (length row < target \<longrightarrow> cp_padding p \<noteq> PadNone)) \<and>
     (\<forall>names. ni_feature_names b = Some names \<longrightarrow>
        target \<le> length names \<and> (\<forall>row\<in>set (ni_rows b). length row = length names))"

lemma length_checks_ok:
  assumes "ni_rows b \<noteq> []"
  shows "target_length b p = Inr target \<and> validate_feature_names_for_collation b p target = Inr () \<longleftrightarrow>
    length_ok b p target"
proof -
  obtain row where row: "row \<in> set (ni_rows b)" using assms by (cases "ni_rows b") auto
  have "target_length b p = Inr target \<longleftrightarrow>
      0 < target \<and> target = (case cp_max_length p of Some n \<Rightarrow> n | None \<Rightarrow> Max (length ` set (ni_rows b))) \<and>
      (\<forall>row\<in>set (ni_rows b). (target < length row \<longrightarrow> cp_truncate p) \<and>
        (length row < target \<longrightarrow> cp_padding p \<noteq> PadNone))"
    using assms by (auto simp: target_length_def Let_def list_ex_iff)
  then show ?thesis
    using row unfolding length_ok_def validate_feature_names_for_collation_def
    by (cases "ni_feature_names b") (auto simp: res_simps)
qed

definition memory_ok :: "(nat \<Rightarrow> bool) \<Rightarrow> numeric_input_block \<Rightarrow> usize \<Rightarrow> bool" where
  "memory_ok can_reserve b target \<longleftrightarrow>
     length (ni_rows b) * target \<le> usize_max \<and> can_reserve (8 * (length (ni_rows b) * target)) \<and>
     can_reserve (length (ni_rows b) * target) \<and>
     ((\<exists>row\<in>set (ni_rows b). length row < target) \<longrightarrow> can_reserve (16 * target) \<and> can_reserve target)"

definition collated :: "numeric_input_block \<Rightarrow> collation_policy \<Rightarrow> usize \<Rightarrow> numeric_tensor_block" where
  "collated b p target =
     (let cells = map (\<lambda>row. fitted row target (cp_padding p)) (ni_rows b);
          valid = concat (map (map (\<lambda>v. v \<noteq> None)) cells)
      in
      \<lparr>nt_block_id = ni_block_id b, nt_representation_id = ni_representation_id b,
       nt_batch_container = (case cp_batch_container p of Some c \<Rightarrow> c | None \<Rightarrow> ''ndarray''),
       nt_observation_ids = ni_observation_ids b, nt_sample_ids = ni_sample_ids b,
       nt_shape = [length (ni_rows b), target],
       nt_values = map (\<lambda>v. case v of Some x \<Rightarrow> x | None \<Rightarrow> cp_pad_value p) (concat cells),
       nt_presence_mask =
         (if cp_emit_mask p
          then Some (concat (map (\<lambda>row. covered row target (cp_padding p)) (ni_rows b))) else None),
       nt_validity_mask = (if False \<in> set valid then Some valid else None),
       nt_feature_names =
         map_option
           (\<lambda>names. map (\<lambda>j. names ! the (cell_source (length names) target (cp_padding p) j)) [0..<target])
           (ni_feature_names b)\<rparr>)"

text \<open>A cell that is not covered holds no value, so validity is having a value.\<close>

lemma validity_of_fitted:
  "validity_of \<lparr>pj_values = fitted row target padding, pj_presence = covered row target padding\<rparr> =
     map (\<lambda>v. v \<noteq> None) (fitted row target padding)"
  by (auto intro!: nth_equalityI simp: validity_of_def fitted_def covered_def bind_eq_Some_conv)

lemma map_res_project:
  "map_res (\<lambda>row. project_row can_reserve row target p) rows = Inr projected \<longleftrightarrow>
     (\<forall>row\<in>set rows. (target < length row \<longrightarrow> cp_truncate p) \<and>
       (length row < target \<longrightarrow> cp_padding p \<noteq> PadNone \<and> can_reserve (16 * target) \<and> can_reserve target)) \<and>
     projected = map (\<lambda>row. \<lparr>pj_values = fitted row target (cp_padding p),
       pj_presence = covered row target (cp_padding p)\<rparr>) rows"
  by (induction rows arbitrary: projected) (auto simp: rbind_eq_Inr project_row_ok)

lemma projected_feature_names_ok:
  assumes "\<And>names. feature_names = Some names \<Longrightarrow> target \<le> length names"
  shows "projected_feature_names feature_names target p =
    Inr (map_option
      (\<lambda>names. map (\<lambda>j. names ! the (cell_source (length names) target (cp_padding p) j)) [0..<target])
      feature_names)"
proof (cases feature_names)
  case (Some names)
  then have le: "target \<le> length names" using assms by simp
  have start: "truncate_start (length names) target (cp_padding p) + target \<le> length names"
    using truncate_start_le [OF le] .
  then have "map (\<lambda>j. names ! the (cell_source (length names) target (cp_padding p) j)) [0..<target] =
      take target (drop (truncate_start (length names) target (cp_padding p)) names)"
    using le by (auto intro!: nth_equalityI simp: cell_source_def)
  then show ?thesis
    using Some le start
    by (cases "target = length names") (auto simp: projected_feature_names_def Let_def)
qed (simp add: projected_feature_names_def)

lemma reserve_collation_ok:
  "reserve_collation can_reserve bytes n = Inr () \<longleftrightarrow> can_reserve (bytes * n)"
  by (simp add: reserve_collation_def)

lemma assemble_collated:
  "assemble_tensor b p target
     (map (\<lambda>row. \<lparr>pj_values = fitted row target (cp_padding p),
        pj_presence = covered row target (cp_padding p)\<rparr>) (ni_rows b))
     (map_option
        (\<lambda>names. map (\<lambda>j. names ! the (cell_source (length names) target (cp_padding p) j)) [0..<target])
        (ni_feature_names b)) =
   collated b p target"
proof -
  have "list_ex (\<lambda>v. \<not> v) bs \<longleftrightarrow> False \<in> set bs" for bs by (auto simp: list_ex_iff)
  then show ?thesis
    by (simp only: assemble_tensor_def collated_def Let_def map_map comp_def map_concat
        projected_row.simps validity_of_fitted)
qed

lemma collate_numeric_block_lemma:
  "collate_numeric_block can_reserve b p = Inr out \<longleftrightarrow>
     (\<exists>target. input_block_ok b \<and> policy_ok p \<and> length_ok b p target \<and> memory_ok can_reserve b target \<and>
        out = collated b p target)"
proof (cases "input_block_ok b \<and> policy_ok p")
  case True
  then have ne: "ni_rows b \<noteq> []" by (simp add: input_block_ok_def)
  show ?thesis
  proof (cases "\<exists>target. length_ok b p target")
    case False
    then have "\<not> (target_length b p = Inr target \<and> validate_feature_names_for_collation b p target = Inr ())" for target
      using length_checks_ok [OF ne] by blast
    then show ?thesis
      using False by (auto simp: collate_numeric_block_def rbind_eq_Inr)
  next
    case len: True
    then obtain target where target: "length_ok b p target" by blast
    then have checks: "target_length b p = Inr target" "validate_feature_names_for_collation b p target = Inr ()"
      using length_checks_ok [OF ne] by blast+
    have unique: "t = target" if "length_ok b p t" for t
      using that target by (simp add: length_ok_def)
    have names: "projected_feature_names (ni_feature_names b) target p = Inr (map_option
        (\<lambda>names. map (\<lambda>j. names ! the (cell_source (length names) target (cp_padding p) j)) [0..<target])
        (ni_feature_names b))"
      using target by (intro projected_feature_names_ok) (simp add: length_ok_def)
    have fits: "\<forall>row\<in>set (ni_rows b). (target < length row \<longrightarrow> cp_truncate p) \<and>
        (length row < target \<longrightarrow> cp_padding p \<noteq> PadNone)"
      using target by (simp add: length_ok_def)
    have rows: "(\<forall>row\<in>set (ni_rows b). (target < length row \<longrightarrow> cp_truncate p) \<and>
        (length row < target \<longrightarrow> cp_padding p \<noteq> PadNone \<and> can_reserve (16 * target) \<and> can_reserve target)) \<longleftrightarrow>
        ((\<exists>row\<in>set (ni_rows b). length row < target) \<longrightarrow> can_reserve (16 * target) \<and> can_reserve target)"
      using fits by blast
    have valid: "validate_numeric_input_block b = Inr ()" "validate_collation_policy p = Inr ()"
      using True by (simp_all add: validate_numeric_input_block_ok validate_collation_policy_ok)
    have "collate_numeric_block can_reserve b p = Inr out \<longleftrightarrow>
        memory_ok can_reserve b target \<and> out = collated b p target"
      unfolding collate_numeric_block_def valid checks names rbind_simps memory_ok_def rows [symmetric]
      by (auto simp: rbind_eq_Inr ok_or_eq_Inr checked_mul_Some reserve_collation_ok map_res_project
          assemble_collated)
    then show ?thesis using True target unique by blast
  qed
next
  case False
  then show ?thesis
    by (auto simp: collate_numeric_block_def rbind_eq_Inr validate_numeric_input_block_ok
        validate_collation_policy_ok)
qed

lemma length_concat_map: "(\<And>x. x \<in> set xs \<Longrightarrow> length (f x) = n) \<Longrightarrow> length (concat (map f xs)) = length xs * n"
  by (induction xs) auto

lemma length_fitted [simp]: "length (fitted row target padding) = target"
  by (simp add: fitted_def)

text \<open>
  Collation of numeric rows succeeds exactly when the block and the policy are well formed, every
  row can be brought to the common length as the policy allows, the number of cells fits the address
  space and the memory can be had. Every output row shows a window of its input row, or the whole
  row with padding at the end, at the start or around it; the masks say exactly which cells come
  from the row and which hold a value, and the block has one cell for every row and column.
\<close>

lemma collate_numeric_block_iff:
  "(collate_numeric_block can_reserve b p = Inr out \<longleftrightarrow>
      (\<exists>target. input_block_ok b \<and> policy_ok p \<and> length_ok b p target \<and> memory_ok can_reserve b target \<and>
         out = collated b p target)) \<and>
   length (nt_values (collated b p target)) = length (ni_rows b) * target"
  by (simp add: collate_numeric_block_lemma) (simp add: collated_def Let_def length_concat_map)

end
