(* ===== verification/Fusion.thy ===== *)
theory Fusion
  imports Alignment Coordinator_Tables
begin

text \<open>
  Fusion of the feature blocks of several sources into one block (\<open>fusion.rs\<close>), along a sample
  alignment: the rows are those of the first source, the columns of the other sources are joined by
  sample, and what a source lacks is null. The source layout describes the columns of the result.
  An \<open>expect\<close> is an error whose unreachability is part of \<open>fuse_feature_blocks_iff\<close>.
\<close>

section \<open>Source layouts\<close>

datatype source_feature_layout_kind = BySourceConcat

datatype source_concat_axis = Feature_Axis

record source_preprocessing_output =
  so_feature_set_id :: string
  so_representation_id :: representation_id
  so_adapter_id :: "string option"
  so_fit_scope :: "fit_scope option"

record source_layout_block =
  lb_source_id :: source_id
  lb_preprocessing_output :: source_preprocessing_output
  lb_column_start :: usize
  lb_column_count :: usize
  lb_feature_names :: "string list"
  lb_metadata :: metadata

record source_concat_layout =
  cl_feature_set_id :: string
  cl_representation_id :: representation_id
  cl_axis :: source_concat_axis
  cl_total_column_count :: usize
  cl_preserve_source_order :: bool
  cl_namespace_columns :: bool

record source_layout =
  sl_kind :: source_feature_layout_kind
  sl_source_order :: "source_id list"
  sl_blocks :: "source_layout_block list"
  sl_concat :: source_concat_layout
  sl_metadata :: metadata

definition preprocessing_output_validate :: "source_preprocessing_output \<Rightarrow> unit res" where
  "preprocessing_output_validate o' =
     (if is_blank (so_feature_set_id o') then invalid ''preprocessing_output feature_set_id is empty''
      else if (case so_adapter_id o' of None \<Rightarrow> False | Some i \<Rightarrow> is_blank i)
      then invalid ''preprocessing_output adapter_id is empty'' else Inr ())"

definition non_empty_keys :: "string \<Rightarrow> metadata \<Rightarrow> unit res" where
  "non_empty_keys msg m = each_res (\<lambda>key. if is_blank key then invalid msg else Inr ()) (bt_keys m)"

definition layout_block_validate :: "source_layout_block \<Rightarrow> unit res" where
  "layout_block_validate b =
     rseq (preprocessing_output_validate (lb_preprocessing_output b))
       (if lb_column_count b = 0 then invalid ''column_count must be greater than zero''
        else if lb_feature_names b \<noteq> [] \<and> length (lb_feature_names b) \<noteq> lb_column_count b
        then invalid ''feature_names length does not match column_count''
        else
          rseq
            (each_fresh
               (\<lambda>n. if is_blank n then invalid ''empty feature name'' else Inr ())
               id (\<lambda>_. Validation ''duplicate feature'') (\<lambda>_. Inr ()) [] (lb_feature_names b))
            (non_empty_keys ''metadata contains an empty key'' (lb_metadata b)))"

definition concat_layout_validate :: "source_concat_layout \<Rightarrow> unit res" where
  "concat_layout_validate c =
     (if is_blank (cl_feature_set_id c) then invalid ''source concat layout feature_set_id is empty''
      else if cl_total_column_count c = 0 then invalid ''total_column_count must be greater than zero''
      else if \<not> cl_preserve_source_order c then invalid ''must preserve source order''
      else Inr ())"

text \<open>The body of the loop over the ordered sources; the state is the seen sources and the next column.\<close>

definition layout_step ::
  "source_layout \<Rightarrow> source_id list \<times> usize \<Rightarrow> nat \<times> source_id \<Rightarrow> (source_id list \<times> usize) res"
where
  "layout_step l st item =
     (let (seen, expected_column_start) = st; (idx, source_id) = item; block = sl_blocks l ! idx in
      if source_id \<in> set seen then invalid ''duplicate source''
      else if lb_source_id block \<noteq> source_id then invalid ''block is for another source''
      else
        rseq (layout_block_validate block)
          (if lb_column_start block \<noteq> expected_column_start
           then invalid ''expected contiguous start''
           else
             rbind
               (ok_or (checked_add expected_column_start (lb_column_count block))
                  (Validation ''column range overflows''))
               (\<lambda>next. Inr (source_id # seen, next))))"

definition layout_validate :: "source_layout \<Rightarrow> unit res" where
  "layout_validate l =
     (if sl_source_order l = [] then invalid ''no source_order''
      else if length (sl_blocks l) \<noteq> length (sl_source_order l) then invalid ''blocks for ordered sources''
      else
        rseq (concat_layout_validate (sl_concat l))
          (rbind (fold_res (layout_step l) ([], 0) (List.enumerate 0 (sl_source_order l)))
             (\<lambda>(_, expected_column_start).
                if expected_column_start \<noteq> cl_total_column_count (sl_concat l)
                then invalid ''total_column_count does not match block span''
                else non_empty_keys ''metadata contains an empty key'' (sl_metadata l))))"

section \<open>Source blocks\<close>

record source_feature_block =
  sb_source_id :: source_id
  sb_block :: feature_block

definition layout_matches :: "source_layout \<Rightarrow> source_layout_block \<times> source_feature_block \<Rightarrow> unit res" where
  "layout_matches l pair =
     (let (lb, sb) = pair; b = sb_block sb in
      if lb_source_id lb \<noteq> sb_source_id sb then invalid ''source layout block source''
      else if so_feature_set_id (lb_preprocessing_output lb) \<noteq> fb_feature_set_id b
      then invalid ''preprocessing_output feature_set_id''
      else if so_representation_id (lb_preprocessing_output lb) \<noteq> fb_representation_id b
      then invalid ''preprocessing_output representation''
      else if lb_column_count lb \<noteq> length (fb_feature_names b) then invalid ''column_count''
      else if lb_feature_names lb \<noteq> [] \<and> lb_feature_names lb \<noteq> fb_feature_names b
      then invalid ''feature_names''
      else if cl_representation_id (sl_concat l) \<noteq> fb_representation_id b
      then invalid ''source concat layout representation'' else Inr ())"

definition validate_for_source_blocks ::
  "source_layout \<Rightarrow> string \<Rightarrow> source_feature_block list \<Rightarrow> unit res"
where
  "validate_for_source_blocks l feature_set_id blocks =
     rseq (layout_validate l)
       (if cl_feature_set_id (sl_concat l) \<noteq> feature_set_id
        then invalid ''source concat layout feature_set_id''
        else if length blocks \<noteq> length (sl_blocks l) then invalid ''source blocks''
        else each_res (layout_matches l) (zip (sl_blocks l) blocks))"

definition feature_block_validate :: "feature_block \<Rightarrow> unit res" where
  "feature_block_validate b =
     (if is_blank (fb_feature_set_id b) then invalid ''feature block feature_set_id is empty''
      else if fb_feature_names b = [] then invalid ''feature block contains no features''
      else if length (fb_observation_ids b) \<noteq> length (fb_sample_ids b) \<or>
              length (fb_sample_ids b) \<noteq> length (fb_values b)
      then invalid ''feature block lengths differ''
      else
        each_fresh (\<lambda>_. Inr ()) fst (\<lambda>_. Validation ''duplicate observation'')
          (\<lambda>x. if length (snd x) \<noteq> length (fb_feature_names b) then invalid ''row width'' else Inr ())
          [] (zip (fb_observation_ids b) (fb_values b)))"

definition source_sample_set_from_feature_block :: "source_feature_block \<Rightarrow> source_sample_set res" where
  "source_sample_set_from_feature_block sb =
     rseq (feature_block_validate (sb_block sb))
       (Inr \<lparr>ss_source_id = sb_source_id sb,
             ss_sample_ids = dedup_first [] (fb_sample_ids (sb_block sb))\<rparr>)"

definition rows_by_sample :: "feature_block \<Rightarrow> (sample_id, usize list) btree_map" where
  "rows_by_sample b =
     fold
       (\<lambda>(idx, s) m. bt_insert s ((case map_of m s of None \<Rightarrow> [] | Some is \<Rightarrow> is) @ [idx]) m)
       (List.enumerate 0 (fb_sample_ids b)) []"

type_synonym row_maps = "(source_id, (sample_id, usize list) btree_map) btree_map"

definition row_maps_of :: "source_feature_block list \<Rightarrow> row_maps" where
  "row_maps_of blocks = bt_collect (map (\<lambda>sb. (sb_source_id sb, rows_by_sample (sb_block sb))) blocks)"

definition source_rows :: "row_maps \<Rightarrow> source_feature_block \<Rightarrow> (sample_id, usize list) btree_map" where
  "source_rows maps sb = (case map_of maps (sb_source_id sb) of Some m \<Rightarrow> m | None \<Rightarrow> [])"

section \<open>Fusion\<close>

definition sample_presence ::
  "source_feature_block list \<Rightarrow> sample_alignment_plan \<Rightarrow> row_maps \<Rightarrow> nat \<times> sample_id \<Rightarrow> unit res"
where
  "sample_presence blocks al maps item =
     (if ap_mode al = AlignLeft \<and> map_of (source_rows maps (hd blocks)) (snd item) = None
      then invalid ''left alignment sample is absent from the reference source''
      else if \<not> list_ex (\<lambda>m. pm_present m ! fst item) (ap_masks al)
      then invalid ''alignment sample is absent from every fused source'' else Inr ())"

definition mask_agrees ::
  "sample_alignment_plan \<Rightarrow> row_maps \<Rightarrow> source_feature_block \<Rightarrow> unit res"
where
  "mask_agrees al maps sb =
     rbind
       (ok_or (List.find (\<lambda>m. pm_source_id m = sb_source_id sb) (ap_masks al))
          (Validation ''unreachable: mask of a fused source''))
       (\<lambda>mask.
          each_res
            (\<lambda>item.
               if snd item \<noteq> (map_of (source_rows maps sb) (fst item) \<noteq> None)
               then invalid ''alignment presence'' else Inr ())
            (zip (ap_sample_ids al) (pm_present mask)))"

definition validate_alignment_presence ::
  "source_feature_block list \<Rightarrow> sample_alignment_plan \<Rightarrow> row_maps \<Rightarrow> unit res"
where
  "validate_alignment_presence blocks al maps =
     rseq (each_res (sample_presence blocks al maps) (List.enumerate 0 (ap_sample_ids al)))
       (each_res (mask_agrees al maps) blocks)"

datatype output_row = Reference usize | Synthetic

definition synthetic_observation_id :: "sample_id \<Rightarrow> observation_id res" where
  "synthetic_observation_id s = ident_new (''fused.'' @ as_str s)"

text \<open>The columns that one source contributes to an output row.\<close>

definition source_columns ::
  "row_maps \<Rightarrow> source_feature_block \<Rightarrow> sample_id \<Rightarrow> output_row \<Rightarrow> source_feature_block \<Rightarrow> json list res"
where
  "source_columns maps reference s row sb =
     (let b = sb_block sb; nulls = replicate (length (fb_feature_names b)) JNull in
      if sb_source_id sb = sb_source_id reference
      then (case row of Reference idx \<Rightarrow> Inr (fb_values b ! idx) | Synthetic \<Rightarrow> Inr nulls)
      else
        (case map_of (source_rows maps sb) s of
           Some [idx] \<Rightarrow> Inr (fb_values b ! idx)
         | Some _ \<Rightarrow> invalid ''feature fusion cannot broadcast repeated rows''
         | None \<Rightarrow> Inr nulls))"

definition output_rows :: "row_maps \<Rightarrow> source_feature_block \<Rightarrow> sample_id \<Rightarrow> output_row list" where
  "output_rows maps reference s =
     (case map_of (source_rows maps reference) s of
        Some is \<Rightarrow> map Reference is | None \<Rightarrow> [Synthetic])"

definition fuse_row ::
  "row_maps \<Rightarrow> source_feature_block list \<Rightarrow> sample_id \<times> output_row \<Rightarrow>
   (observation_id \<times> sample_id \<times> json list) res"
where
  "fuse_row maps blocks sr =
     (let (s, row) = sr; reference = hd blocks in
      rbind
        (case row of
           Reference idx \<Rightarrow> Inr (fb_observation_ids (sb_block reference) ! idx)
         | Synthetic \<Rightarrow> synthetic_observation_id s)
        (\<lambda>i. rbind (map_res (source_columns maps reference s row) blocks)
           (\<lambda>columns. Inr (i, s, concat columns))))"

definition fused_feature_names :: "bool \<Rightarrow> source_feature_block list \<Rightarrow> string list" where
  "fused_feature_names namespace_columns blocks =
     concat
       (map
          (\<lambda>sb. map (\<lambda>n. if namespace_columns then as_str (sb_source_id sb) @ ''.'' @ n else n)
                 (fb_feature_names (sb_block sb)))
          blocks)"

text \<open>The loop over the aligned samples, and the validation of what it made.\<close>

definition fuse_aligned_rows ::
  "string \<Rightarrow> source_feature_block list \<Rightarrow> sample_alignment_plan \<Rightarrow> bool \<Rightarrow> row_maps \<Rightarrow> feature_block res"
where
  "fuse_aligned_rows feature_set_id blocks al namespace_columns maps =
     rbind
       (map_res (fuse_row maps blocks)
          (concat (map (\<lambda>s. map (Pair s) (output_rows maps (hd blocks) s)) (ap_sample_ids al))))
       (\<lambda>rows.
          let fused =
                \<lparr>fb_feature_set_id = feature_set_id,
                 fb_representation_id = fb_representation_id (sb_block (hd blocks)),
                 fb_feature_names = fused_feature_names namespace_columns blocks,
                 fb_observation_ids = map fst rows, fb_sample_ids = map (fst \<circ> snd) rows,
                 fb_values = map (snd \<circ> snd) rows\<rparr>
          in rseq (feature_block_validate fused) (Inr fused))"

definition fuse_feature_blocks ::
  "string \<Rightarrow> source_feature_block list \<Rightarrow> sample_alignment_plan \<Rightarrow> bool \<Rightarrow> feature_block res"
where
  "fuse_feature_blocks feature_set_id blocks al namespace_columns =
     (if is_blank feature_set_id then invalid ''fused feature set id is empty''
      else if blocks = [] then invalid ''feature fusion requires at least one source block''
      else
        rseq (alignment_plan_validate al)
       (rseq
          (each_fresh (\<lambda>_. Inr ()) sb_source_id (\<lambda>_. Validation ''feature fusion contains duplicate source'')
             (\<lambda>sb. feature_block_validate (sb_block sb)) [] blocks)
       (rseq
          (each_res
             (\<lambda>m. if pm_source_id m \<notin> set (map sb_source_id blocks)
                  then invalid ''alignment mask references absent source'' else Inr ())
             (ap_masks al))
       (if length (ap_masks al) \<noteq> length blocks
        then invalid ''feature fusion sources and alignment masks differ''
        else
          rseq
            (each_res
               (\<lambda>sb. if fb_representation_id (sb_block sb) \<noteq> fb_representation_id (sb_block (hd blocks))
                     then invalid ''feature fusion representation'' else Inr ())
               (tl blocks))
         (rseq
            (each_unique id (\<lambda>_. Validation ''feature fusion produced duplicate feature'')
               (fused_feature_names namespace_columns blocks))
            (let maps = row_maps_of blocks in
             rseq (validate_alignment_presence blocks al maps)
               (fuse_aligned_rows feature_set_id blocks al namespace_columns maps)))))))"

end
