(* ===== verification/Fused_Blocks.thy ===== *)
theory Fused_Blocks
  imports Fusion
begin

text \<open>
  What fusion returns: \<open>fused_block\<close> is the result as a comprehension over the aligned samples,
  \<open>fusable\<close> the inputs on which it is returned, \<open>layout_ok\<close> the accepted source layouts.
\<close>

section \<open>Rows by sample\<close>

definition row_indices :: "feature_block \<Rightarrow> sample_id \<Rightarrow> usize list" where
  "row_indices b s = filter (\<lambda>i. fb_sample_ids b ! i = s) [0..<length (fb_sample_ids b)]"

lemma rows_by_sample_lookup:
  "map_of (rows_by_sample b) s =
     (if s \<in> set (fb_sample_ids b) then Some (row_indices b s) else None)"
proof -
  have "map_of (fold (\<lambda>(idx, s) m. bt_insert s ((case map_of m s of None \<Rightarrow> [] | Some is \<Rightarrow> is) @ [idx]) m)
      (List.enumerate 0 xs) []) s =
      (if s \<in> set xs then Some (filter (\<lambda>i. xs ! i = s) [0..<length xs]) else None)" for xs
  proof (induction xs arbitrary: s rule: rev_induct)
    case Nil
    then show ?case by simp
  next
    case (snoc x xs)
    have "filter (\<lambda>i. (xs @ [x]) ! i = t) [0..<length xs] = filter (\<lambda>i. xs ! i = t) [0..<length xs]" for t
      by (rule filter_cong) (auto simp: nth_append)
    moreover have "filter (\<lambda>i. xs ! i = t) [0..<length xs] = []" if "t \<notin> set xs" for t
      using that by (auto simp: filter_empty_conv)
    ultimately show ?case
      by (auto simp: enumerate_append_eq map_of_bt_insert snoc.IH split: if_splits)
  qed
  then show ?thesis by (simp add: rows_by_sample_def row_indices_def)
qed

lemma row_indices_range: "i \<in> set (row_indices b s) \<longleftrightarrow> i < length (fb_sample_ids b) \<and> fb_sample_ids b ! i = s"
  by (auto simp: row_indices_def)

lemma row_indices_eq_Nil: "row_indices b s = [] \<longleftrightarrow> s \<notin> set (fb_sample_ids b)"
  by (auto simp: row_indices_def filter_empty_conv in_set_conv_nth)

definition feature_block_ok :: "feature_block \<Rightarrow> bool" where
  "feature_block_ok b \<longleftrightarrow>
     \<not> is_blank (fb_feature_set_id b) \<and> fb_feature_names b \<noteq> [] \<and>
     length (fb_observation_ids b) = length (fb_values b) \<and>
     length (fb_sample_ids b) = length (fb_values b) \<and> distinct (fb_observation_ids b) \<and>
     (\<forall>row\<in>set (fb_values b). length row = length (fb_feature_names b))"

lemma feature_block_validate_ok: "feature_block_validate b = Inr () \<longleftrightarrow> feature_block_ok b"
proof (cases "length (fb_observation_ids b) = length (fb_values b)")
  case True
  note rows = each_fresh_zip [OF True, of _ "\<lambda>row. if length row \<noteq> n then Inl e else Inr ()" for n e]
  show ?thesis
    using True unfolding feature_block_validate_def feature_block_ok_def
    by (auto simp: if_Inl_eq_Inr rows)
qed (auto simp: feature_block_validate_def feature_block_ok_def if_Inl_eq_Inr)

section \<open>The fused block\<close>

text \<open>The row of a source that an output row shows, if it has exactly one.\<close>

definition shown_row :: "source_feature_block \<Rightarrow> sample_id \<Rightarrow> output_row \<Rightarrow> source_feature_block \<Rightarrow> usize option" where
  "shown_row reference s row sb =
     (if sb_source_id sb = sb_source_id reference
      then (case row of Reference i \<Rightarrow> Some i | Synthetic \<Rightarrow> None)
      else (case row_indices (sb_block sb) s of [i] \<Rightarrow> Some i | _ \<Rightarrow> None))"

definition shown_columns :: "source_feature_block \<Rightarrow> sample_id \<Rightarrow> output_row \<Rightarrow> source_feature_block \<Rightarrow> json list" where
  "shown_columns reference s row sb =
     (case shown_row reference s row sb of
        Some i \<Rightarrow> fb_values (sb_block sb) ! i
      | None \<Rightarrow> replicate (length (fb_feature_names (sb_block sb))) JNull)"

definition fused_rows :: "source_feature_block \<Rightarrow> sample_id list \<Rightarrow> (sample_id \<times> output_row) list" where
  "fused_rows reference samples =
     concat
       (map
          (\<lambda>s. map (Pair s)
                 (if s \<in> set (fb_sample_ids (sb_block reference))
                  then map Reference (row_indices (sb_block reference) s) else [Synthetic]))
          samples)"

definition fused_observation :: "source_feature_block \<Rightarrow> sample_id \<times> output_row \<Rightarrow> observation_id" where
  "fused_observation reference =
     (\<lambda>(s, row).
        case row of Reference i \<Rightarrow> fb_observation_ids (sb_block reference) ! i
        | Synthetic \<Rightarrow> Ident (''fused.'' @ as_str s))"

definition fused_block ::
  "string \<Rightarrow> source_feature_block list \<Rightarrow> sample_alignment_plan \<Rightarrow> bool \<Rightarrow> feature_block"
where
  "fused_block feature_set_id blocks al namespace_columns =
     (let reference = hd blocks; rows = fused_rows reference (ap_sample_ids al) in
      \<lparr>fb_feature_set_id = feature_set_id,
       fb_representation_id = fb_representation_id (sb_block reference),
       fb_feature_names = fused_feature_names namespace_columns blocks,
       fb_observation_ids = map (fused_observation reference) rows,
       fb_sample_ids = map fst rows,
       fb_values = map (\<lambda>(s, row). concat (map (shown_columns reference s row) blocks)) rows\<rparr>)"

text \<open>The masks say which aligned samples each source has.\<close>

definition presence_ok :: "source_feature_block list \<Rightarrow> sample_alignment_plan \<Rightarrow> bool" where
  "presence_ok blocks al \<longleftrightarrow>
     (ap_mode al = AlignLeft \<longrightarrow> set (ap_sample_ids al) \<subseteq> set (fb_sample_ids (sb_block (hd blocks)))) \<and>
     (\<forall>sb\<in>set blocks. \<forall>m\<in>set (ap_masks al). pm_source_id m = sb_source_id sb \<longrightarrow>
        pm_present m = map (\<lambda>s. s \<in> set (fb_sample_ids (sb_block sb))) (ap_sample_ids al))"

text \<open>Only the first source may have several rows for a sample, and what it lacks gets an id of its own.\<close>

definition joinable :: "source_feature_block list \<Rightarrow> sample_id list \<Rightarrow> bool" where
  "joinable blocks samples \<longleftrightarrow>
     (\<forall>s\<in>set samples. \<forall>sb\<in>set (tl blocks). length (row_indices (sb_block sb) s) \<le> 1) \<and>
     (\<forall>s\<in>set samples - set (fb_sample_ids (sb_block (hd blocks))).
        length (as_str s) \<le> 122 \<and> list_all identifier_char (as_str s)) \<and>
     distinct (map (fused_observation (hd blocks)) (fused_rows (hd blocks) samples))"

definition fusable ::
  "string \<Rightarrow> source_feature_block list \<Rightarrow> sample_alignment_plan \<Rightarrow> bool \<Rightarrow> bool"
where
  "fusable feature_set_id blocks al namespace_columns \<longleftrightarrow>
     \<not> is_blank feature_set_id \<and> blocks \<noteq> [] \<and> alignment_plan_validate al = Inr () \<and>
     distinct (map sb_source_id blocks) \<and> (\<forall>sb\<in>set blocks. feature_block_ok (sb_block sb)) \<and>
     set (map pm_source_id (ap_masks al)) = set (map sb_source_id blocks) \<and>
     (\<forall>sb\<in>set blocks. fb_representation_id (sb_block sb) = fb_representation_id (sb_block (hd blocks))) \<and>
     distinct (fused_feature_names namespace_columns blocks) \<and> presence_ok blocks al \<and>
     joinable blocks (ap_sample_ids al)"

section \<open>The loops\<close>

lemma source_rows_lookup:
  assumes "distinct (map sb_source_id blocks)" and "sb \<in> set blocks"
  shows "map_of (source_rows (row_maps_of blocks) sb) s =
    (if s \<in> set (fb_sample_ids (sb_block sb)) then Some (row_indices (sb_block sb) s) else None)"
proof -
  have "map_of (row_maps_of blocks) (sb_source_id sb) = Some (rows_by_sample (sb_block sb))"
    using assms by (auto simp: row_maps_of_def bt.get_collect_distinct comp_def intro: rev_image_eqI)
  then show ?thesis by (simp add: source_rows_def rows_by_sample_lookup)
qed

lemma mask_of_source:
  assumes "distinct (map pm_source_id masks)"
  shows "List.find (\<lambda>m. pm_source_id m = i) masks = Some m \<longleftrightarrow> m \<in> set masks \<and> pm_source_id m = i"
  using assms
proof (induction masks)
  case (Cons a masks)
  then show ?case by (auto simp: rev_image_eqI)
qed simp

lemma masks_cover_sources:
  assumes "distinct xs" and "distinct ys" and "set xs \<subseteq> set ys" and "length xs = length ys"
  shows "set xs = set ys"
  using assms by (metis card_subset_eq distinct_card finite_set)

lemma validate_alignment_presence_ok:
  assumes "distinct (map sb_source_id blocks)" and "blocks \<noteq> []" and "alignment_plan_validate al = Inr ()"
    and "set (map pm_source_id (ap_masks al)) = set (map sb_source_id blocks)"
  shows "validate_alignment_presence blocks al (row_maps_of blocks) = Inr () \<longleftrightarrow> presence_ok blocks al"
proof -
  have al: "distinct (map pm_source_id (ap_masks al))" "plan_masks_match al"
    "\<forall>i<length (ap_sample_ids al). list_ex (\<lambda>m. pm_present m ! i) (ap_masks al)"
    using assms(3) by (auto simp: alignment_plan_validate_ok list_ex_iff)
  have hd: "hd blocks \<in> set blocks" using assms(2) by simp
  have mask: "(\<forall>x\<in>set (zip (ap_sample_ids al) (pm_present m)).
        snd x \<longleftrightarrow> fst x \<in> A) \<longleftrightarrow> pm_present m = map (\<lambda>s. s \<in> A) (ap_sample_ids al)"
    if "m \<in> set (ap_masks al)" for m A
    using al(2) that by (auto simp: plan_masks_match_def ball_zip_nth list_eq_iff_nth_eq)
  have source: "mask_agrees al (row_maps_of blocks) sb = Inr () \<longleftrightarrow>
      (\<forall>m\<in>set (ap_masks al). pm_source_id m = sb_source_id sb \<longrightarrow>
        pm_present m = map (\<lambda>s. s \<in> set (fb_sample_ids (sb_block sb))) (ap_sample_ids al))"
    if "sb \<in> set blocks" for sb
  proof -
    have "sb_source_id sb \<in> set (map pm_source_id (ap_masks al))" using assms(4) that by auto
    then obtain m where m: "m \<in> set (ap_masks al)" "pm_source_id m = sb_source_id sb" by auto
    then have find: "List.find (\<lambda>m. pm_source_id m = sb_source_id sb) (ap_masks al) = Some m"
      by (simp add: mask_of_source [OF al(1)])
    have "m' = m" if "m' \<in> set (ap_masks al)" "pm_source_id m' = sb_source_id sb" for m'
      using mask_of_source [OF al(1), of "sb_source_id sb" m'] find that by simp
    then have all: "(\<forall>m'\<in>set (ap_masks al). pm_source_id m' = sb_source_id sb \<longrightarrow> P m') \<longleftrightarrow> P m" for P
      using m by blast
    have known: "map_of (source_rows (row_maps_of blocks) sb) s \<noteq> None \<longleftrightarrow> s \<in> set (fb_sample_ids (sb_block sb))"
      for s using source_rows_lookup [OF assms(1) that] by simp
    show ?thesis
      unfolding mask_agrees_def all find ok_or_simps rbind_simps each_res_ok if_Inl_eq_Inr not_not known
      using mask [OF m(1), of "set (fb_sample_ids (sb_block sb))"] by simp
  qed
  have subset_nth: "set xs \<subseteq> A \<longleftrightarrow> (\<forall>i<length xs. xs ! i \<in> A)" for xs and A :: "sample_id set"
    by (auto simp: subset_iff in_set_conv_nth)
  have "(\<forall>i<length (ap_sample_ids al). sample_presence blocks al (row_maps_of blocks) (i, ap_sample_ids al ! i) = Inr ()) \<longleftrightarrow>
      (ap_mode al = AlignLeft \<longrightarrow> set (ap_sample_ids al) \<subseteq> set (fb_sample_ids (sb_block (hd blocks))))"
    using al(3) subset_nth
    by (auto simp: sample_presence_def if_Inl_eq_Inr source_rows_lookup [OF assms(1) hd])
  then show ?thesis
    by (simp add: validate_alignment_presence_def presence_ok_def rbind_eq_Inr each_res_ok
        ball_enumerate source)
qed

text \<open>What the row loop does on a source: the shown columns, unless it has several rows to choose from.\<close>

lemma source_columns_ok:
  assumes "distinct (map sb_source_id blocks)" and "sb \<in> set blocks" and "reference \<in> set blocks"
  shows "source_columns (row_maps_of blocks) reference s row sb = Inr cols \<longleftrightarrow>
    (sb \<noteq> reference \<longrightarrow> length (row_indices (sb_block sb) s) \<le> 1) \<and> cols = shown_columns reference s row sb"
proof -
  have same: "sb_source_id sb = sb_source_id reference \<longleftrightarrow> sb = reference"
    using assms by (auto simp: distinct_map inj_on_def)
  consider "row_indices (sb_block sb) s = []" | i where "row_indices (sb_block sb) s = [i]"
    | i j ks where "row_indices (sb_block sb) s = i # j # ks"
    by (metis list.exhaust)
  then show ?thesis
    by cases
      (use row_indices_eq_Nil [of "sb_block sb" s] in
        \<open>auto simp: source_columns_def shown_columns_def shown_row_def same Let_def
          source_rows_lookup [OF assms(1,2)] split: output_row.split\<close>)
qed

lemma output_rows_fused:
  assumes "distinct (map sb_source_id blocks)" and "blocks \<noteq> []"
  shows "concat (map (\<lambda>s. map (Pair s) (output_rows (row_maps_of blocks) (hd blocks) s)) samples) =
    fused_rows (hd blocks) samples"
proof -
  have "output_rows (row_maps_of blocks) (hd blocks) s =
      (if s \<in> set (fb_sample_ids (sb_block (hd blocks)))
       then map Reference (row_indices (sb_block (hd blocks)) s) else [Synthetic])" for s
    by (simp add: output_rows_def source_rows_lookup [OF assms(1) hd_in_set [OF assms(2)]])
  then show ?thesis by (simp add: fused_rows_def)
qed

lemma synthetic_observation_id_ok:
  "synthetic_observation_id s = Inr i \<longleftrightarrow>
     i = Ident (''fused.'' @ as_str s) \<and> length (as_str s) \<le> 122 \<and> list_all identifier_char (as_str s)"
  by (auto simp: synthetic_observation_id_def ident_new_eq_Inr valid_ident_iff identifier_char_def
      ascii_class_defs)

definition row_ok :: "source_feature_block list \<Rightarrow> sample_id \<times> output_row \<Rightarrow> bool" where
  "row_ok blocks sr \<longleftrightarrow>
     (\<forall>sb\<in>set (tl blocks). length (row_indices (sb_block sb) (fst sr)) \<le> 1) \<and>
     (snd sr = Synthetic \<longrightarrow>
        length (as_str (fst sr)) \<le> 122 \<and> list_all identifier_char (as_str (fst sr)))"

lemma fuse_row_ok:
  assumes "distinct (map sb_source_id blocks)" and "blocks \<noteq> []"
  shows "fuse_row (row_maps_of blocks) blocks sr = Inr out \<longleftrightarrow>
    row_ok blocks sr \<and>
    out = (fused_observation (hd blocks) sr, fst sr,
      concat (map (shown_columns (hd blocks) (fst sr) (snd sr)) blocks))"
proof -
  have "sb \<noteq> hd blocks" if "sb \<in> set (tl blocks)" for sb
    using that assms by (cases blocks) auto
  moreover have "set blocks = insert (hd blocks) (set (tl blocks))" using assms(2) by (cases blocks) auto
  ultimately have others: "(\<forall>sb\<in>set blocks. sb \<noteq> hd blocks \<longrightarrow> P sb) \<longleftrightarrow> (\<forall>sb\<in>set (tl blocks). P sb)" for P
    by auto
  have columns: "map_res (source_columns (row_maps_of blocks) (hd blocks) s row) blocks = Inr cols \<longleftrightarrow>
      (\<forall>sb\<in>set (tl blocks). length (row_indices (sb_block sb) s) \<le> 1) \<and>
      cols = map (shown_columns (hd blocks) s row) blocks" for s row cols
  proof -
    have "map_res (source_columns (row_maps_of blocks) (hd blocks) s row) xs = Inr cols \<longleftrightarrow>
        (\<forall>sb\<in>set xs. sb \<noteq> hd blocks \<longrightarrow> length (row_indices (sb_block sb) s) \<le> 1) \<and>
        cols = map (shown_columns (hd blocks) s row) xs" if "set xs \<subseteq> set blocks" for xs cols
      using that
      by (induction xs arbitrary: cols)
        (auto simp: rbind_eq_Inr source_columns_ok [OF assms(1) _ hd_in_set [OF assms(2)]])
    from this [of blocks cols] show ?thesis unfolding others by simp
  qed
  show ?thesis
    by (cases sr; cases "snd sr")
      (auto simp: fuse_row_def Let_def rbind_eq_Inr columns row_ok_def fused_observation_def
        synthetic_observation_id_ok)
qed

lemma fuse_rows_ok:
  assumes "distinct (map sb_source_id blocks)" and "blocks \<noteq> []"
  shows "map_res (fuse_row (row_maps_of blocks) blocks) rows = Inr outs \<longleftrightarrow>
    (\<forall>sr\<in>set rows. row_ok blocks sr) \<and>
    outs = map (\<lambda>sr. (fused_observation (hd blocks) sr, fst sr,
      concat (map (shown_columns (hd blocks) (fst sr) (snd sr)) blocks))) rows"
  by (rule map_res_map) (rule fuse_row_ok [OF assms])

lemma mem_concat_pairs:
  "(x, y) \<in> set (concat (map (\<lambda>x. map (Pair x) (f x)) xs)) \<longleftrightarrow> x \<in> set xs \<and> y \<in> set (f x)"
  by auto

lemma fused_rows_mem:
  "(s, row) \<in> set (fused_rows reference samples) \<longleftrightarrow>
     s \<in> set samples \<and>
     (case row of
        Reference i \<Rightarrow> i < length (fb_sample_ids (sb_block reference)) \<and> fb_sample_ids (sb_block reference) ! i = s
      | Synthetic \<Rightarrow> s \<notin> set (fb_sample_ids (sb_block reference)))"
proof -
  have "(s, row) \<in> set (fused_rows reference samples) \<longleftrightarrow> s \<in> set samples \<and>
      row \<in> set (if s \<in> set (fb_sample_ids (sb_block reference))
        then map Reference (row_indices (sb_block reference) s) else [Synthetic])"
    unfolding fused_rows_def by (rule mem_concat_pairs)
  also have "\<dots> \<longleftrightarrow> s \<in> set samples \<and>
     (case row of
        Reference i \<Rightarrow> i < length (fb_sample_ids (sb_block reference)) \<and> fb_sample_ids (sb_block reference) ! i = s
      | Synthetic \<Rightarrow> s \<notin> set (fb_sample_ids (sb_block reference)))"
    by (cases row) (auto simp: row_indices_range)
  finally show ?thesis .
qed

lemma rows_joinable:
  assumes "\<forall>s\<in>set samples. \<exists>row. (s, row) \<in> set (fused_rows (hd blocks) samples)"
  shows "(\<forall>sr\<in>set (fused_rows (hd blocks) samples). row_ok blocks sr) \<longleftrightarrow>
    (\<forall>s\<in>set samples. \<forall>sb\<in>set (tl blocks). length (row_indices (sb_block sb) s) \<le> 1) \<and>
    (\<forall>s\<in>set samples - set (fb_sample_ids (sb_block (hd blocks))).
        length (as_str s) \<le> 122 \<and> list_all identifier_char (as_str s))"
  (is "?rows \<longleftrightarrow> ?one \<and> ?synthetic")
proof
  assume rows: ?rows
  have ?one
  proof (intro ballI)
    fix s sb assume s: "s \<in> set samples" "sb \<in> set (tl blocks)"
    then obtain row where "(s, row) \<in> set (fused_rows (hd blocks) samples)" using assms by blast
    with rows s(2) show "length (row_indices (sb_block sb) s) \<le> 1" by (auto simp: row_ok_def)
  qed
  moreover have ?synthetic
  proof
    fix s assume "s \<in> set samples - set (fb_sample_ids (sb_block (hd blocks)))"
    then have "(s, Synthetic) \<in> set (fused_rows (hd blocks) samples)" by (simp add: fused_rows_mem)
    with rows show "length (as_str s) \<le> 122 \<and> list_all identifier_char (as_str s)"
      by (auto simp: row_ok_def)
  qed
  ultimately show "?one \<and> ?synthetic" by blast
next
  assume "?one \<and> ?synthetic"
  then show ?rows by (auto simp: row_ok_def fused_rows_mem)
qed

lemma sample_has_row:
  assumes "s \<in> set samples"
  shows "\<exists>row. (s, row) \<in> set (fused_rows reference samples)"
proof (cases "s \<in> set (fb_sample_ids (sb_block reference))")
  case True
  then obtain i where "i < length (fb_sample_ids (sb_block reference))"
      "fb_sample_ids (sb_block reference) ! i = s"
    by (auto simp: in_set_conv_nth)
  then show ?thesis using assms by (intro exI [of _ "Reference i"]) (simp add: fused_rows_mem)
next
  case False
  then show ?thesis using assms by (intro exI [of _ Synthetic]) (simp add: fused_rows_mem)
qed

text \<open>The widths of the fused rows are right, so only repeated observations can be refused at the end.\<close>

lemma shown_columns_width:
  assumes "feature_block_ok (sb_block sb)" and "(s, row) \<in> set (fused_rows reference samples)"
    and "sb_source_id sb = sb_source_id reference \<Longrightarrow> sb = reference"
  shows "length (shown_columns reference s row sb) = length (fb_feature_names (sb_block sb))"
proof (cases "shown_row reference s row sb")
  case None
  then show ?thesis by (simp add: shown_columns_def)
next
  case (Some i)
  have "i < length (fb_values (sb_block sb))"
  proof (cases "sb_source_id sb = sb_source_id reference")
    case True
    with Some have "row = Reference i" by (auto simp: shown_row_def split: output_row.splits)
    with assms(2) have "i < length (fb_sample_ids (sb_block reference))" by (simp add: fused_rows_mem)
    then show ?thesis using assms(1,3) True by (simp add: feature_block_ok_def)
  next
    case False
    with Some have "row_indices (sb_block sb) s = [i]"
      by (auto simp: shown_row_def split: list.splits)
    then have "i \<in> set (row_indices (sb_block sb) s)" by simp
    then show ?thesis using assms(1) by (simp only: row_indices_range feature_block_ok_def)
  qed
  then show ?thesis using assms(1) Some by (simp add: shown_columns_def feature_block_ok_def)
qed

lemma length_concat_sum: "length (concat (map f xs)) = (\<Sum>x\<leftarrow>xs. length (f x))"
  by (induction xs) auto

lemma fused_block_ok:
  assumes "\<not> is_blank feature_set_id" and "blocks \<noteq> []" and "distinct (map sb_source_id blocks)"
    and "\<forall>sb\<in>set blocks. feature_block_ok (sb_block sb)"
  shows "feature_block_ok (fused_block feature_set_id blocks al ns) \<longleftrightarrow>
    distinct (map (fused_observation (hd blocks)) (fused_rows (hd blocks) (ap_sample_ids al)))"
proof -
  have "hd blocks \<in> set blocks" using assms(2) by simp
  then have same: "sb_source_id sb = sb_source_id (hd blocks) \<Longrightarrow> sb = hd blocks" if "sb \<in> set blocks" for sb
    using assms(3) that by (auto simp: distinct_map inj_on_def)
  have "length (concat (map (shown_columns (hd blocks) s row) blocks)) =
      length (fused_feature_names ns blocks)"
    if "(s, row) \<in> set (fused_rows (hd blocks) (ap_sample_ids al))" for s row
  proof -
    have "map (\<lambda>sb. length (shown_columns (hd blocks) s row sb)) blocks =
        map (\<lambda>sb. length (fb_feature_names (sb_block sb))) blocks"
      using shown_columns_width [OF _ that same] assms(4) by (intro map_cong) auto
    from arg_cong [OF this, of sum_list] show ?thesis
      by (simp add: length_concat_sum fused_feature_names_def)
  qed
  moreover have "fused_feature_names ns blocks \<noteq> []"
    using assms(2,4) \<open>hd blocks \<in> set blocks\<close>
    by (auto simp: fused_feature_names_def feature_block_ok_def)
  ultimately show ?thesis
    using assms(1) by (auto simp: feature_block_ok_def fused_block_def Let_def)
qed

lemma fuse_checks:
  assumes "fuse_feature_blocks feature_set_id blocks al namespace_columns = Inr out"
  shows "\<not> is_blank feature_set_id \<and> blocks \<noteq> [] \<and> alignment_plan_validate al = Inr () \<and>
     distinct (map sb_source_id blocks) \<and> (\<forall>sb\<in>set blocks. feature_block_ok (sb_block sb)) \<and>
     set (map pm_source_id (ap_masks al)) = set (map sb_source_id blocks)"
proof -
  have checks: "\<not> is_blank feature_set_id" "blocks \<noteq> []" "alignment_plan_validate al = Inr ()"
      "distinct (map sb_source_id blocks)" "\<forall>sb\<in>set blocks. feature_block_ok (sb_block sb)"
      "\<forall>m\<in>set (ap_masks al). pm_source_id m \<in> set (map sb_source_id blocks)"
      "length (ap_masks al) = length blocks"
    using assms unfolding fuse_feature_blocks_def
    by (simp_all add: if_Inl_eq_Inr rbind_eq_Inr each_fresh_ok each_res_ok feature_block_validate_ok)
  moreover have "set (map pm_source_id (ap_masks al)) = set (map sb_source_id blocks)"
    using checks by (intro masks_cover_sources) (auto simp: alignment_plan_validate_ok)
  ultimately show ?thesis by blast
qed

lemma ex_one_point: "(\<exists>x. (P \<and> x = t) \<and> Q x) \<longleftrightarrow> P \<and> Q t"
  by blast

lemma assemble_fused:
  assumes "rows = map (\<lambda>sr. (fused_observation (hd blocks) sr, fst sr,
      concat (map (shown_columns (hd blocks) (fst sr) (snd sr)) blocks)))
      (fused_rows (hd blocks) (ap_sample_ids al))"
  shows "\<lparr>fb_feature_set_id = feature_set_id,
      fb_representation_id = fb_representation_id (sb_block (hd blocks)),
      fb_feature_names = fused_feature_names ns blocks, fb_observation_ids = map fst rows,
      fb_sample_ids = map (fst \<circ> snd) rows, fb_values = map (snd \<circ> snd) rows\<rparr> =
    fused_block feature_set_id blocks al ns"
  by (simp add: assms fused_block_def Let_def comp_def case_prod_unfold)

lemma fuse_aligned_rows_ok:
  assumes "\<not> is_blank feature_set_id" and "blocks \<noteq> []" and "distinct (map sb_source_id blocks)"
    and "\<forall>sb\<in>set blocks. feature_block_ok (sb_block sb)"
  shows "fuse_aligned_rows feature_set_id blocks al ns (row_maps_of blocks) = Inr out \<longleftrightarrow>
    joinable blocks (ap_sample_ids al) \<and> out = fused_block feature_set_id blocks al ns"
proof -
  let ?rows = "map (\<lambda>sr. (fused_observation (hd blocks) sr, fst sr,
      concat (map (shown_columns (hd blocks) (fst sr) (snd sr)) blocks)))
      (fused_rows (hd blocks) (ap_sample_ids al))"
  have joined: "(\<forall>sr\<in>set (fused_rows (hd blocks) (ap_sample_ids al)). row_ok blocks sr) \<longleftrightarrow>
      (\<forall>s\<in>set (ap_sample_ids al). \<forall>sb\<in>set (tl blocks). length (row_indices (sb_block sb) s) \<le> 1) \<and>
      (\<forall>s\<in>set (ap_sample_ids al) - set (fb_sample_ids (sb_block (hd blocks))).
        length (as_str s) \<le> 122 \<and> list_all identifier_char (as_str s))"
    by (rule rows_joinable) (blast intro: sample_has_row)
  have "fuse_aligned_rows feature_set_id blocks al ns (row_maps_of blocks) = Inr out \<longleftrightarrow>
      (\<forall>sr\<in>set (fused_rows (hd blocks) (ap_sample_ids al)). row_ok blocks sr) \<and>
      rseq (feature_block_validate (fused_block feature_set_id blocks al ns))
        (Inr (fused_block feature_set_id blocks al ns)) = Inr out"
    unfolding fuse_aligned_rows_def output_rows_fused [OF assms(3,2)]
      rbind_eq_Inr [of "map_res (fuse_row (row_maps_of blocks) blocks) rows" for rows]
      fuse_rows_ok [OF assms(3,2)] Let_def ex_one_point assemble_fused [OF refl] ..
  also have "\<dots> \<longleftrightarrow> (\<forall>sr\<in>set (fused_rows (hd blocks) (ap_sample_ids al)). row_ok blocks sr) \<and>
      feature_block_ok (fused_block feature_set_id blocks al ns) \<and>
      out = fused_block feature_set_id blocks al ns"
    by (auto simp: rbind_eq_Inr feature_block_validate_ok)
  finally have "fuse_aligned_rows feature_set_id blocks al ns (row_maps_of blocks) = Inr out \<longleftrightarrow> \<dots>" .
  then show ?thesis
    unfolding fused_block_ok [OF assms] joinable_def joined by blast
qed

lemma fuse_feature_blocks_lemma:
  "fuse_feature_blocks feature_set_id blocks al namespace_columns = Inr out \<longleftrightarrow>
     fusable feature_set_id blocks al namespace_columns \<and>
     out = fused_block feature_set_id blocks al namespace_columns"
proof (cases "\<not> is_blank feature_set_id \<and> blocks \<noteq> [] \<and> alignment_plan_validate al = Inr () \<and>
     distinct (map sb_source_id blocks) \<and> (\<forall>sb\<in>set blocks. feature_block_ok (sb_block sb)) \<and>
     set (map pm_source_id (ap_masks al)) = set (map sb_source_id blocks)")
  case True
  then have ne: "blocks \<noteq> []" and dist: "distinct (map sb_source_id blocks)"
    and al: "alignment_plan_validate al = Inr ()" and id_ok: "\<not> is_blank feature_set_id"
    and blocks_ok: "\<forall>sb\<in>set blocks. feature_block_ok (sb_block sb)"
    and masks: "set (map pm_source_id (ap_masks al)) = set (map sb_source_id blocks)" by simp_all
  have "distinct (map pm_source_id (ap_masks al))"
    using al by (simp add: alignment_plan_validate_ok)
  then have len: "length (ap_masks al) = length blocks"
    using dist masks by (metis distinct_card length_map)
  have known: "\<forall>m\<in>set (ap_masks al). pm_source_id m \<in> set (map sb_source_id blocks)"
    using masks by auto
  have "set blocks = insert (hd blocks) (set (tl blocks))" using ne by (cases blocks) auto
  then have reps: "(\<forall>sb\<in>set (tl blocks). fb_representation_id (sb_block sb) =
        fb_representation_id (sb_block (hd blocks))) \<longleftrightarrow>
      (\<forall>sb\<in>set blocks. fb_representation_id (sb_block sb) = fb_representation_id (sb_block (hd blocks)))"
    by simp
  have "fuse_feature_blocks feature_set_id blocks al namespace_columns = Inr out \<longleftrightarrow>
      (\<forall>sb\<in>set blocks. fb_representation_id (sb_block sb) = fb_representation_id (sb_block (hd blocks))) \<and>
      distinct (fused_feature_names namespace_columns blocks) \<and> presence_ok blocks al \<and>
      joinable blocks (ap_sample_ids al) \<and> out = fused_block feature_set_id blocks al namespace_columns"
    unfolding fuse_feature_blocks_def Let_def
    using id_ok ne dist al blocks_ok known len
    by (simp add: if_Inl_eq_Inr rbind_eq_Inr each_fresh_ok each_res_ok each_unique_ok
        feature_block_validate_ok reps validate_alignment_presence_ok [OF dist ne al masks]
        fuse_aligned_rows_ok)
  then show ?thesis using True by (simp add: fusable_def)
next
  case False
  then show ?thesis using fuse_checks unfolding fusable_def by blast
qed

text \<open>
  C23. Fusion succeeds exactly on a non-empty list of well-formed blocks of distinct sources and one
  representation whose presence matches the masks of a valid alignment, where only the first source
  repeats samples and no column or observation of the result is repeated. The result has the rows of
  the first source, one new row for each aligned sample it lacks, and in every row the columns of
  each source for that sample, null where the source has none.
\<close>

theorem fuse_feature_blocks_iff:
  "fuse_feature_blocks feature_set_id blocks al namespace_columns = Inr out \<longleftrightarrow>
     fusable feature_set_id blocks al namespace_columns \<and>
     out = fused_block feature_set_id blocks al namespace_columns"
  by (rule fuse_feature_blocks_lemma)

end
