(* ===== verification/Source_Layouts.thy ===== *)
theory Source_Layouts
  imports Fused_Blocks
begin

text \<open>
  Accepted source layouts and what they say of a fused block: the blocks of a layout are laid end
  to end without a gap, their span fits in \<open>usize\<close>, and in every row of the fused block the columns
  a layout block names are those of its source.
\<close>

section \<open>Accepted layouts\<close>

fun contiguous :: "usize \<Rightarrow> source_layout_block list \<Rightarrow> bool" where
  "contiguous start [] \<longleftrightarrow> True"
| "contiguous start (b # bs) \<longleftrightarrow> lb_column_start b = start \<and> contiguous (start + lb_column_count b) bs"

definition layout_ok :: "source_layout \<Rightarrow> bool" where
  "layout_ok l \<longleftrightarrow>
     sl_source_order l \<noteq> [] \<and> map lb_source_id (sl_blocks l) = sl_source_order l \<and>
     distinct (sl_source_order l) \<and> concat_layout_validate (sl_concat l) = Inr () \<and>
     list_all (\<lambda>b. layout_block_validate b = Inr ()) (sl_blocks l) \<and> contiguous 0 (sl_blocks l) \<and>
     cl_total_column_count (sl_concat l) = (\<Sum>b\<leftarrow>sl_blocks l. lb_column_count b) \<and>
     cl_total_column_count (sl_concat l) \<le> usize_max \<and> \<not> list_ex is_blank (bt_keys (sl_metadata l))"

lemma layout_step_ok:
  "layout_step l (seen, start) (k, s) = Inr st \<longleftrightarrow>
     s \<notin> set seen \<and> lb_source_id (sl_blocks l ! k) = s \<and> layout_block_validate (sl_blocks l ! k) = Inr () \<and>
     lb_column_start (sl_blocks l ! k) = start \<and> start + lb_column_count (sl_blocks l ! k) \<le> usize_max \<and>
     st = (s # seen, start + lb_column_count (sl_blocks l ! k))"
  by (auto simp: layout_step_def Let_def if_Inl_eq_Inr rbind_eq_Inr ok_or_eq_Inr checked_add_Some)

lemma layout_steps_ok:
  assumes "drop k (sl_blocks l) = bs" and "length bs = length order" and "start \<le> usize_max"
  shows "fold_res (layout_step l) (seen, start) (List.enumerate k order) = Inr st \<longleftrightarrow>
    map lb_source_id bs = order \<and> distinct order \<and> set order \<inter> set seen = {} \<and>
    list_all (\<lambda>b. layout_block_validate b = Inr ()) bs \<and> contiguous start bs \<and>
    start + (\<Sum>b\<leftarrow>bs. lb_column_count b) \<le> usize_max \<and>
    st = (rev order @ seen, start + (\<Sum>b\<leftarrow>bs. lb_column_count b))"
  using assms
proof (induction order arbitrary: k bs seen start)
  case Nil
  then show ?case by auto
next
  case (Cons s order)
  then obtain b rest where bs: "bs = b # rest" by (cases bs) auto
  with Cons.prems have "sl_blocks l ! k = b" "drop (Suc k) (sl_blocks l) = rest"
    by (metis nth_via_drop, metis drop_Suc tl_drop list.sel(3))
  moreover have "length rest = length order" using Cons.prems bs by simp
  ultimately show ?case
    using bs Cons.IH [of "Suc k" rest] by (auto simp: rbind_eq_Inr layout_step_ok)
qed

lemma layout_validate_ok: "layout_validate l = Inr () \<longleftrightarrow> layout_ok l"
proof (cases "length (sl_blocks l) = length (sl_source_order l)")
  case True
  have "fold_res (layout_step l) ([], 0) (List.enumerate 0 (sl_source_order l)) = Inr st \<longleftrightarrow>
      map lb_source_id (sl_blocks l) = sl_source_order l \<and> distinct (sl_source_order l) \<and>
      list_all (\<lambda>b. layout_block_validate b = Inr ()) (sl_blocks l) \<and> contiguous 0 (sl_blocks l) \<and>
      (\<Sum>b\<leftarrow>sl_blocks l. lb_column_count b) \<le> usize_max \<and>
      st = (rev (sl_source_order l), \<Sum>b\<leftarrow>sl_blocks l. lb_column_count b)" for st
    using layout_steps_ok [of 0 l "sl_blocks l" "sl_source_order l" 0 "[]" st] True by simp
  with True show ?thesis
    unfolding layout_validate_def layout_ok_def
    by (auto simp: if_Inl_eq_Inr rbind_eq_Inr non_empty_keys_def each_res_ok list_ex_iff)
next
  case False
  then have "map lb_source_id (sl_blocks l) \<noteq> sl_source_order l" by (metis length_map)
  with False show ?thesis by (simp add: layout_validate_def layout_ok_def)
qed

text \<open>
  A source layout is accepted exactly when its blocks are those of the ordered, distinct sources,
  each well formed and starting where the one before it ends, and the total column count is the sum
  of the blocks' counts, which never exceeds \<open>usize::MAX\<close>: a wrapped sum is refused.
\<close>

lemma layout_validate_iff: "layout_validate l = Inr () \<longleftrightarrow> layout_ok l"
  by (rule layout_validate_ok)

section \<open>The columns of the fused block\<close>

lemma contiguous_start:
  assumes "contiguous start bs" and "i < length bs"
  shows "lb_column_start (bs ! i) = start + (\<Sum>b\<leftarrow>take i bs. lb_column_count b)"
  using assms by (induction bs arbitrary: start i) (auto simp: nth_Cons' take_Cons' add.assoc)

lemma take_drop_concat:
  assumes "i < length xs"
  shows "take (length (xs ! i)) (drop (\<Sum>x\<leftarrow>take i xs. length x) (concat xs)) = xs ! i"
  using assms
proof (induction xs arbitrary: i)
  case (Cons x xs)
  then show ?case by (cases i) simp_all
qed simp

definition layout_slice :: "source_layout_block \<Rightarrow> 'a list \<Rightarrow> 'a list" where
  "layout_slice lb row = take (lb_column_count lb) (drop (lb_column_start lb) row)"

lemma layout_matches_blocks:
  assumes "validate_for_source_blocks l feature_set_id blocks = Inr ()"
  shows "layout_ok l \<and> map lb_column_count (sl_blocks l) = map (\<lambda>sb. length (fb_feature_names (sb_block sb))) blocks"
proof -
  have len: "length blocks = length (sl_blocks l)" and ok: "layout_ok l"
    and each: "\<forall>pair\<in>set (zip (sl_blocks l) blocks). layout_matches l pair = Inr ()"
    using assms
    by (simp_all add: validate_for_source_blocks_def if_Inl_eq_Inr rbind_eq_Inr layout_validate_ok each_res_ok)
  have "lb_column_count (sl_blocks l ! i) = length (fb_feature_names (sb_block (blocks ! i)))"
    if "i < length blocks" for i
    using each that len by (auto simp: ball_zip_nth layout_matches_def Let_def if_Inl_eq_Inr)
  with len ok show ?thesis by (simp add: list_eq_iff_nth_eq)
qed

lemma layout_slice_concat:
  assumes "contiguous 0 bs" and "map lb_column_count bs = map length xss" and "i < length xss"
  shows "layout_slice (bs ! i) (concat xss) = xss ! i"
proof -
  have len: "length bs = length xss" using assms(2) by (metis length_map)
  have "lb_column_start (bs ! i) = (\<Sum>b\<leftarrow>take i bs. lb_column_count b)"
    using contiguous_start [OF assms(1)] assms(3) len by simp
  also have "\<dots> = (\<Sum>xs\<leftarrow>take i xss. length xs)"
    by (metis assms(2) take_map)
  finally have "lb_column_start (bs ! i) = (\<Sum>xs\<leftarrow>take i xss. length xs)" .
  moreover have "lb_column_count (bs ! i) = length (xss ! i)"
    using assms(2,3) len by (metis nth_map)
  ultimately show ?thesis
    using take_drop_concat [OF assms(3)] by (simp add: layout_slice_def)
qed

lemma fused_row_widths:
  assumes "fusable feature_set_id blocks al ns"
    and "(s, row) \<in> set (fused_rows (hd blocks) (ap_sample_ids al))"
  shows "map length (map (shown_columns (hd blocks) s row) blocks) =
    map (\<lambda>sb. length (fb_feature_names (sb_block sb))) blocks"
proof -
  have f: "blocks \<noteq> []" "distinct (map sb_source_id blocks)" "\<forall>sb\<in>set blocks. feature_block_ok (sb_block sb)"
    using assms(1) by (simp_all add: fusable_def)
  then have same: "sb_source_id sb = sb_source_id (hd blocks) \<Longrightarrow> sb = hd blocks" if "sb \<in> set blocks" for sb
    using that by (metis distinct_map hd_in_set inj_onD)
  show ?thesis
    using shown_columns_width [OF _ assms(2) same] f by (auto intro!: map_cong)
qed

lemma fused_layout_slice:
  assumes "validate_for_source_blocks l feature_set_id blocks = Inr ()"
    and "fuse_feature_blocks feature_set_id blocks al ns = Inr out" and "i < length blocks"
  shows "map (layout_slice (sl_blocks l ! i)) (fb_values out) =
    map (\<lambda>(s, row). shown_columns (hd blocks) s row (blocks ! i)) (fused_rows (hd blocks) (ap_sample_ids al))"
proof -
  have l: "contiguous 0 (sl_blocks l)"
      "map lb_column_count (sl_blocks l) = map (\<lambda>sb. length (fb_feature_names (sb_block sb))) blocks"
    using layout_matches_blocks [OF assms(1)] by (simp_all add: layout_ok_def)
  have f: "fusable feature_set_id blocks al ns" "out = fused_block feature_set_id blocks al ns"
    using assms(2) by (simp_all add: fuse_feature_blocks_lemma)
  have "layout_slice (sl_blocks l ! i) (concat (map (shown_columns (hd blocks) s row) blocks)) =
      shown_columns (hd blocks) s row (blocks ! i)"
    if "(s, row) \<in> set (fused_rows (hd blocks) (ap_sample_ids al))" for s row
    using layout_slice_concat [OF l(1), of "map (shown_columns (hd blocks) s row) blocks" i] assms(3)
      fused_row_widths [OF f(1) that] l(2) by (simp only: length_map nth_map)
  then show ?thesis by (auto simp: f(2) fused_block_def Let_def)
qed

lemma fused_names_slice:
  assumes "validate_for_source_blocks l feature_set_id blocks = Inr ()" and "i < length blocks"
  shows "layout_slice (sl_blocks l ! i) (fused_feature_names False blocks) =
    fb_feature_names (sb_block (blocks ! i))"
  using layout_slice_concat [of "sl_blocks l" "map (\<lambda>sb. fb_feature_names (sb_block sb)) blocks" i]
    layout_matches_blocks [OF assms(1)] assms(2)
  by (simp add: fused_feature_names_def layout_ok_def comp_def)

text \<open>
  A layout validated for the source blocks describes the fused block: in every row, the columns
  from a layout block's start over its count are exactly those of that source for the row's sample.
\<close>

lemma layout_describes_fusion:
  assumes "validate_for_source_blocks l feature_set_id blocks = Inr ()"
    and "fuse_feature_blocks feature_set_id blocks al ns = Inr out" and "i < length blocks"
  shows "map (layout_slice (sl_blocks l ! i)) (fb_values out) =
    map (\<lambda>(s, row). shown_columns (hd blocks) s row (blocks ! i)) (fused_rows (hd blocks) (ap_sample_ids al))"
  using assms by (rule fused_layout_slice)

section \<open>Alignments built from the blocks\<close>

lemma built_alignment_fusable:
  assumes "map_res source_sample_set_from_feature_block blocks = Inr sets"
    and "build_sample_alignment_plan sets mode = Inr al"
  shows "blocks \<noteq> [] \<and> alignment_plan_validate al = Inr () \<and> distinct (map sb_source_id blocks) \<and>
    (\<forall>sb\<in>set blocks. feature_block_ok (sb_block sb)) \<and>
    set (map pm_source_id (ap_masks al)) = set (map sb_source_id blocks) \<and> presence_ok blocks al"
proof -
  have "(\<forall>sb\<in>set blocks. feature_block_ok (sb_block sb)) \<and>
      sets = map (\<lambda>sb. \<lparr>ss_source_id = sb_source_id sb,
      ss_sample_ids = dedup_first [] (fb_sample_ids (sb_block sb))\<rparr>) blocks"
    by (rule map_res_map [THEN iffD1, OF _ assms(1)])
      (auto simp: source_sample_set_from_feature_block_def rbind_eq_Inr feature_block_validate_ok)
  then have blocks_ok: "\<forall>sb\<in>set blocks. feature_block_ok (sb_block sb)"
    and sets: "sets = map (\<lambda>sb. \<lparr>ss_source_id = sb_source_id sb,
      ss_sample_ids = dedup_first [] (fb_sample_ids (sb_block sb))\<rparr>) blocks" by simp_all
  have built: "sets \<noteq> []" "distinct (map ss_source_id sets)" "alignment_plan_validate al = Inr ()"
      "al = \<lparr>ap_mode = mode, ap_sample_ids = aligned_samples mode sets,
        ap_masks = map (source_mask (aligned_samples mode sets)) sets\<rparr>"
    using assms(2) unfolding build_sample_alignment_plan_spec by blast+
  have dist: "distinct (map sb_source_id blocks)" using built(2) by (simp add: sets comp_def)
  have "presence_ok blocks al"
    using built(1,4) dist
    by (auto simp: presence_ok_def sets source_mask_def set_dedup_first aligned_samples_def
        hd_map distinct_map inj_on_def)
  moreover have "set (map pm_source_id (ap_masks al)) = set (map sb_source_id blocks)"
    by (simp add: built(4) sets source_mask_def image_image)
  ultimately show ?thesis using blocks_ok dist built(1,3) by (simp add: sets)
qed

text \<open>
  C24. An alignment plan built from the sample sets of the blocks always agrees with them: fusing
  along it is refused only for a blank id, different representations, repeated column names, repeated
  rows of a source that is not the first, or an observation id that repeats or cannot be made.
\<close>

theorem built_alignment_fuses:
  assumes "map_res source_sample_set_from_feature_block blocks = Inr sets"
    and "build_sample_alignment_plan sets mode = Inr al"
  shows "fuse_feature_blocks feature_set_id blocks al ns = Inr out \<longleftrightarrow>
    \<not> is_blank feature_set_id \<and>
    (\<forall>sb\<in>set blocks. fb_representation_id (sb_block sb) = fb_representation_id (sb_block (hd blocks))) \<and>
    distinct (fused_feature_names ns blocks) \<and> joinable blocks (ap_sample_ids al) \<and>
    out = fused_block feature_set_id blocks al ns"
  unfolding fuse_feature_blocks_lemma fusable_def using built_alignment_fusable [OF assms] by blast

section \<open>An example\<close>

definition demo_nir :: source_feature_block where
  "demo_nir =
     \<lparr>sb_source_id = Ident ''nir'', sb_block =
       \<lparr>fb_feature_set_id = ''n'', fb_representation_id = Ident ''tabular'', fb_feature_names = [''w''],
        fb_observation_ids = [Ident ''o1'', Ident ''o2''], fb_sample_ids = [Ident ''a'', Ident ''a''],
        fb_values = [[JNumber ''1''], [JNumber ''2'']]\<rparr>\<rparr>"

definition demo_lab :: source_feature_block where
  "demo_lab =
     \<lparr>sb_source_id = Ident ''lab'', sb_block =
       \<lparr>fb_feature_set_id = ''l'', fb_representation_id = Ident ''tabular'', fb_feature_names = [''p'', ''q''],
        fb_observation_ids = [Ident ''o3'', Ident ''o4''], fb_sample_ids = [Ident ''a'', Ident ''c''],
        fb_values = [[JNumber ''3'', JNumber ''4''], [JNumber ''5'', JNumber ''6'']]\<rparr>\<rparr>"

definition demo_layout_block :: "string \<Rightarrow> string \<Rightarrow> usize \<Rightarrow> usize \<Rightarrow> source_layout_block" where
  "demo_layout_block i fs start width =
     \<lparr>lb_source_id = Ident i,
      lb_preprocessing_output = \<lparr>so_feature_set_id = fs, so_representation_id = Ident ''tabular'',
        so_adapter_id = None, so_fit_scope = None\<rparr>,
      lb_column_start = start, lb_column_count = width, lb_feature_names = [], lb_metadata = []\<rparr>"

definition demo_layout :: source_layout where
  "demo_layout =
     \<lparr>sl_kind = BySourceConcat, sl_source_order = [Ident ''nir'', Ident ''lab''],
      sl_blocks = [demo_layout_block ''nir'' ''n'' 0 1, demo_layout_block ''lab'' ''l'' 1 2],
      sl_concat = \<lparr>cl_feature_set_id = ''x'', cl_representation_id = Ident ''tabular'',
        cl_axis = Feature_Axis, cl_total_column_count = 3, cl_preserve_source_order = True,
        cl_namespace_columns = True\<rparr>, sl_metadata = []\<rparr>"

definition demo_sets :: "source_sample_set list" where
  "demo_sets =
     [\<lparr>ss_source_id = Ident ''nir'', ss_sample_ids = [Ident ''a'']\<rparr>,
      \<lparr>ss_source_id = Ident ''lab'', ss_sample_ids = [Ident ''a'', Ident ''c'']\<rparr>]"

definition demo_plan :: sample_alignment_plan where
  "demo_plan =
     \<lparr>ap_mode = AlignOuter, ap_sample_ids = [Ident ''a'', Ident ''c''],
      ap_masks = map (source_mask [Ident ''a'', Ident ''c'']) demo_sets\<rparr>"

lemma demo_sample_sets: "map_res source_sample_set_from_feature_block [demo_nir, demo_lab] = Inr demo_sets"
  by (simp add: source_sample_set_from_feature_block_def feature_block_validate_def demo_nir_def
      demo_lab_def demo_sets_def is_blank_graphic is_ascii_graphic_def byte_of_def)

lemma demo_alignment: "build_sample_alignment_plan demo_sets AlignOuter = Inr demo_plan"
  by (simp add: demo_plan_def build_sample_alignment_plan_def source_sample_sets_validate_def
      each_unique_def aligned_samples_def source_mask_def alignment_plan_validate_def demo_sets_def
      presence_mask_validate_def mode_accepts_def Let_def)

lemma demo_layout_valid: "validate_for_source_blocks demo_layout ''x'' [demo_nir, demo_lab] = Inr ()"
  by (simp add: validate_for_source_blocks_def layout_validate_def demo_layout_def concat_layout_validate_def
      layout_step_def layout_block_validate_def preprocessing_output_validate_def non_empty_keys_def
      demo_layout_block_def checked_add_def usize_max_def layout_matches_def demo_nir_def demo_lab_def
      ok_or_def is_blank_graphic is_ascii_graphic_def byte_of_def Let_def)

lemma demo_fused:
  "fused_rows demo_nir (ap_sample_ids demo_plan) =
     [(Ident ''a'', Reference 0), (Ident ''a'', Reference 1), (Ident ''c'', Synthetic)]"
  by (simp add: fused_rows_def row_indices_def demo_nir_def demo_plan_def upt_rec nth_Cons')

lemma demo_joinable: "joinable [demo_nir, demo_lab] (ap_sample_ids demo_plan)"
proof -
  have "distinct (map (fused_observation demo_nir) (fused_rows demo_nir (ap_sample_ids demo_plan)))"
    unfolding demo_fused by (simp add: fused_observation_def demo_nir_def)
  moreover have "\<forall>s\<in>set (ap_sample_ids demo_plan). length (row_indices (sb_block demo_lab) s) \<le> 1"
    by (simp add: row_indices_def demo_lab_def demo_plan_def upt_rec nth_Cons')
  ultimately show ?thesis
    by (auto simp: joinable_def demo_plan_def identifier_char_def ascii_class_defs byte_of_def)
qed

lemma built_alignment_fuses_witness:
  "fuse_feature_blocks ''x'' [demo_nir, demo_lab] demo_plan True =
     Inr (fused_block ''x'' [demo_nir, demo_lab] demo_plan True)"
  using built_alignment_fuses [OF demo_sample_sets demo_alignment, of "''x''" True] demo_joinable
  by (simp add: is_blank_graphic is_ascii_graphic_def byte_of_def fused_feature_names_def demo_nir_def demo_lab_def)

lemma demo_fuses:
  "fuse_feature_blocks ''x'' [demo_nir, demo_lab] demo_plan True =
     Inr (fused_block ''x'' [demo_nir, demo_lab] demo_plan True)"
  unfolding fuse_feature_blocks_lemma fusable_def
  using built_alignment_fusable [OF demo_sample_sets demo_alignment] demo_joinable
  by (simp add: is_blank_graphic is_ascii_graphic_def byte_of_def fused_feature_names_def demo_nir_def demo_lab_def)

lemma layout_describes_fusion_witness:
  "map (layout_slice (demo_layout_block ''lab'' ''l'' 1 2))
       (fb_values (fused_block ''x'' [demo_nir, demo_lab] demo_plan True)) =
     [[JNumber ''3'', JNumber ''4''], [JNumber ''3'', JNumber ''4''], [JNumber ''5'', JNumber ''6'']]"
proof -
  have "shown_columns demo_nir s row demo_lab = fb_values (sb_block demo_lab) ! (if s = Ident ''a'' then 0 else 1)"
    if "s \<in> {Ident ''a'', Ident ''c''}" for s row
    using that by (auto simp: shown_columns_def shown_row_def row_indices_def demo_nir_def demo_lab_def upt_rec)
  moreover have "sl_blocks demo_layout ! 1 = demo_layout_block ''lab'' ''l'' 1 2"
    by (simp add: demo_layout_def)
  ultimately show ?thesis
    using layout_describes_fusion [OF demo_layout_valid demo_fuses, of 1]
    by (simp add: demo_fused del: One_nat_def) (simp add: demo_lab_def)
qed

end
