(* ===== verification/Content_Hash.thy ===== *)
theory Content_Hash
  imports Fingerprints
begin

text \<open>
  Content hashing (\<open>content_hash.rs\<close>): bytes are gathered in a scratch buffer and fed to SHA-256 when
  it is full. The state of the SHA-256 hasher is the bytes it was given; that updating piecewise is
  hashing the concatenation is what the \<open>Digest\<close> interface documents. The frames are shown to be
  prefix codes, so a sequence of frames determines its fields.
\<close>

section \<open>Little-endian bytes\<close>

primrec le_bytes :: "nat \<Rightarrow> nat \<Rightarrow> u8 list" where
  "le_bytes 0 v = []"
| "le_bytes (Suc n) v = of_nat (v mod 256) # le_bytes n (v div 256)"

primrec le_value :: "u8 list \<Rightarrow> nat" where
  "le_value [] = 0"
| "le_value (b # bs) = unat b + 256 * le_value bs"

definition u64_bytes :: "u64 \<Rightarrow> u8 list" where
  "u64_bytes w = le_bytes 8 (unat w)"

definition str_bytes :: "string \<Rightarrow> u8 list" where
  "str_bytes s = map (\<lambda>c. of_nat (byte_of c)) s"

lemma length_le_bytes [simp]: "length (le_bytes n v) = n"
  by (induction n arbitrary: v) simp_all

lemma le_value_le_bytes: "v < 256 ^ n \<Longrightarrow> le_value (le_bytes n v) = v"
proof (induction n arbitrary: v)
  case (Suc n)
  then have "v div 256 < 256 ^ n" by (simp add: less_mult_imp_div_less mult.commute)
  then show ?case using Suc.IH by (simp add: unat_of_nat)
qed simp

lemma le_bytes_le_value: "le_bytes (length bs) (le_value bs) = bs"
proof (induction bs)
  case (Cons b bs)
  have "unat b < 256" using unsigned_less [of b, where ?'a = nat] by simp
  then have "(unat b + 256 * le_value bs) mod 256 = unat b" "(unat b + 256 * le_value bs) div 256 = le_value bs"
    by simp_all
  with Cons show ?case by simp
qed simp

lemma le_value_bound: "le_value bs < 256 ^ length bs"
proof (induction bs)
  case (Cons b bs)
  have "unat b < 256" using unsigned_less [of b, where ?'a = nat] by simp
  with Cons show ?case by simp
qed simp

lemma le_bytes_inject: "v < 256 ^ n \<Longrightarrow> w < 256 ^ n \<Longrightarrow> le_bytes n v = le_bytes n w \<longleftrightarrow> v = w"
  by (metis le_value_le_bytes)

lemma length_u64_bytes [simp]: "length (u64_bytes w) = 8"
  by (simp add: u64_bytes_def)

lemma u64_bytes_inject: "u64_bytes v = u64_bytes w \<longleftrightarrow> v = w"
proof -
  have "unat x < 256 ^ 8" for x :: u64 using unsigned_less [of x, where ?'a = nat] by simp
  then show ?thesis by (simp add: u64_bytes_def le_bytes_inject word_unat_eq_iff)
qed

lemma of_nat_u64_inject: "m < 2 ^ 64 \<Longrightarrow> n < 2 ^ 64 \<Longrightarrow> (of_nat m :: u64) = of_nat n \<longleftrightarrow> m = n"
  by (simp add: word_unat_eq_iff unat_of_nat)

lemma unat_byte_of [simp]: "unat (of_nat (byte_of c) :: u8) = byte_of c"
  using nat_of_char_less_256 [of c] by (simp add: unat_of_nat byte_of_def)

lemma str_bytes_inject: "str_bytes s = str_bytes t \<longleftrightarrow> s = t"
proof -
  have "(of_nat (byte_of c) :: u8) = of_nat (byte_of d) \<longleftrightarrow> c = d" for c d
    unfolding word_unat_eq_iff unat_byte_of by (simp add: byte_of_def)
  then show ?thesis by (simp add: str_bytes_def inj_map_eq_map inj_def)
qed

lemma length_str_bytes [simp]: "length (str_bytes s) = length s"
  by (simp add: str_bytes_def)

section \<open>The hasher\<close>

record streaming_hasher =
  sh_absorbed :: "u8 list"
  sh_scratch :: "u8 list"

definition scratch_capacity :: usize where
  "scratch_capacity = 8 * 1024"

definition hasher_new :: "u8 list \<Rightarrow> streaming_hasher" where
  "hasher_new domain = \<lparr>sh_absorbed = domain, sh_scratch = []\<rparr>"

definition hasher_flush :: "streaming_hasher \<Rightarrow> streaming_hasher" where
  "hasher_flush h =
     (if sh_scratch h \<noteq> []
      then h\<lparr>sh_absorbed := sh_absorbed h @ sh_scratch h, sh_scratch := []\<rparr> else h)"

definition push_bytes :: "u8 list \<Rightarrow> streaming_hasher \<Rightarrow> streaming_hasher" where
  "push_bytes bytes h =
     (if length bytes \<ge> scratch_capacity
      then (let g = hasher_flush h in g\<lparr>sh_absorbed := sh_absorbed g @ bytes\<rparr>)
      else
        (let g = (if length (sh_scratch h) + length bytes > scratch_capacity then hasher_flush h else h) in
         g\<lparr>sh_scratch := sh_scratch g @ bytes\<rparr>))"

definition absorb_u64 :: "u64 \<Rightarrow> streaming_hasher \<Rightarrow> streaming_hasher" where
  "absorb_u64 v = push_bytes (u64_bytes v)"

text \<open>\<open>u64::try_from\<close> of a \<open>usize\<close> never fails on a 64-bit target.\<close>

definition absorb_len :: "usize \<Rightarrow> streaming_hasher \<Rightarrow> streaming_hasher" where
  "absorb_len n = absorb_u64 (of_nat n)"

definition absorb_str :: "string \<Rightarrow> streaming_hasher \<Rightarrow> streaming_hasher" where
  "absorb_str s h = push_bytes (str_bytes s) (absorb_len (length s) h)"

definition absorb_str_collection :: "string list \<Rightarrow> streaming_hasher \<Rightarrow> streaming_hasher" where
  "absorb_str_collection items h = fold absorb_str items (absorb_len (length items) h)"

definition cell_frame :: "f64 option \<Rightarrow> u8 list" where
  "cell_frame cell = (case cell of None \<Rightarrow> replicate 9 0 | Some v \<Rightarrow> 1 # u64_bytes v)"

definition absorb_cell :: "f64 option \<Rightarrow> streaming_hasher \<Rightarrow> streaming_hasher" where
  "absorb_cell cell = push_bytes (cell_frame cell)"

definition absorb_raw :: "u8 list \<Rightarrow> streaming_hasher \<Rightarrow> streaming_hasher" where
  "absorb_raw = push_bytes"

definition finalize_hex :: "(u8 list \<Rightarrow> u8 list) \<Rightarrow> streaming_hasher \<Rightarrow> string" where
  "finalize_hex sha256 h = to_hex (sha256 (sh_absorbed (hasher_flush h)))"

section \<open>The hasher as a stream\<close>

text \<open>What a sink of bytes promises its clients: that a push appends to the stream.\<close>

locale byte_sink =
  fixes stream :: "'h \<Rightarrow> u8 list" and push :: "u8 list \<Rightarrow> 'h \<Rightarrow> 'h" and wf :: "'h \<Rightarrow> bool"
  assumes stream_push: "wf h \<Longrightarrow> stream (push bytes h) = stream h @ bytes"
    and wf_push: "wf h \<Longrightarrow> wf (push bytes h)"
begin

lemma stream_pushes: "wf h \<Longrightarrow> stream (fold push chunks h) = stream h @ concat chunks"
  by (induction chunks arbitrary: h) (simp_all add: stream_push wf_push)

lemma wf_pushes: "wf h \<Longrightarrow> wf (fold push chunks h)"
  by (induction chunks arbitrary: h) (simp_all add: wf_push)

lemma stream_fold:
  assumes "\<And>x h. wf h \<Longrightarrow> stream (f x h) = stream h @ frame x" and "\<And>x h. wf h \<Longrightarrow> wf (f x h)"
    and "wf h"
  shows "stream (fold f xs h) = stream h @ concat (map frame xs) \<and> wf (fold f xs h)"
  using assms(3) by (induction xs arbitrary: h) (simp_all add: assms(1,2))

end

definition hashed_stream :: "streaming_hasher \<Rightarrow> u8 list" where
  "hashed_stream h = sh_absorbed h @ sh_scratch h"

definition scratch_ok :: "streaming_hasher \<Rightarrow> bool" where
  "scratch_ok h \<longleftrightarrow> length (sh_scratch h) \<le> scratch_capacity"

lemma hashed_stream_flush [simp]: "hashed_stream (hasher_flush h) = hashed_stream h"
  by (simp add: hashed_stream_def hasher_flush_def)

lemma scratch_flush [simp]: "sh_scratch (hasher_flush h) = []"
  by (simp add: hasher_flush_def)

interpretation sink: byte_sink hashed_stream push_bytes scratch_ok
proof
  fix h bytes
  have "sh_absorbed (hasher_flush h) = hashed_stream h"
    by (simp add: hashed_stream_def hasher_flush_def)
  then show "hashed_stream (push_bytes bytes h) = hashed_stream h @ bytes"
    by (simp add: push_bytes_def Let_def hashed_stream_def)
  assume "scratch_ok h"
  then show "scratch_ok (push_bytes bytes h)"
    by (auto simp: push_bytes_def Let_def scratch_ok_def)
qed

text \<open>The frames of the fields.\<close>

definition len_frame :: "usize \<Rightarrow> u8 list" where
  "len_frame n = u64_bytes (of_nat n)"

definition str_frame :: "string \<Rightarrow> u8 list" where
  "str_frame s = len_frame (length s) @ str_bytes s"

definition strs_frame :: "string list \<Rightarrow> u8 list" where
  "strs_frame ss = len_frame (length ss) @ concat (map str_frame ss)"

lemma absorb_len_stream [simp]:
  "scratch_ok h \<Longrightarrow> hashed_stream (absorb_len n h) = hashed_stream h @ len_frame n"
  "scratch_ok h \<Longrightarrow> scratch_ok (absorb_len n h)"
  by (simp_all add: absorb_len_def absorb_u64_def len_frame_def sink.stream_push sink.wf_push)

lemma absorb_str_stream [simp]:
  "scratch_ok h \<Longrightarrow> hashed_stream (absorb_str s h) = hashed_stream h @ str_frame s"
  "scratch_ok h \<Longrightarrow> scratch_ok (absorb_str s h)"
  by (simp_all add: absorb_str_def str_frame_def sink.stream_push sink.wf_push)

lemma absorb_str_collection_stream [simp]:
  "scratch_ok h \<Longrightarrow> hashed_stream (absorb_str_collection ss h) = hashed_stream h @ strs_frame ss"
  "scratch_ok h \<Longrightarrow> scratch_ok (absorb_str_collection ss h)"
  using sink.stream_fold [of absorb_str str_frame]
  by (simp_all add: absorb_str_collection_def strs_frame_def)

lemma absorb_cell_stream [simp]:
  "scratch_ok h \<Longrightarrow> hashed_stream (absorb_cell c h) = hashed_stream h @ cell_frame c"
  "scratch_ok h \<Longrightarrow> scratch_ok (absorb_cell c h)"
  by (simp_all add: absorb_cell_def sink.stream_push sink.wf_push)

lemma absorb_raw_stream [simp]:
  "scratch_ok h \<Longrightarrow> hashed_stream (absorb_raw bs h) = hashed_stream h @ bs"
  "scratch_ok h \<Longrightarrow> scratch_ok (absorb_raw bs h)"
  by (simp_all add: absorb_raw_def sink.stream_push sink.wf_push)

lemma hasher_new_stream [simp]: "hashed_stream (hasher_new d) = d" "scratch_ok (hasher_new d)"
  by (simp_all add: hasher_new_def hashed_stream_def scratch_ok_def)

lemma finalize_hex_stream: "finalize_hex sha256 h = to_hex (sha256 (hashed_stream h))"
  by (simp add: finalize_hex_def hashed_stream_def hasher_flush_def)

text \<open>
  The streaming hasher refines hashing the whole text at once: however the bytes are cut into
  pushes, and whether they pass through the scratch buffer or go straight to SHA-256, the digest is
  that of the domain tag followed by all the bytes in order, and the scratch buffer never outgrows
  the capacity it was allocated with.
\<close>

lemma hasher_refines_concat:
  "finalize_hex sha256 (fold push_bytes chunks (hasher_new domain)) = to_hex (sha256 (domain @ concat chunks)) \<and>
   length (sh_scratch (fold push_bytes chunks (hasher_new domain))) \<le> 8192"
proof -
  have "scratch_ok (fold push_bytes chunks (hasher_new domain))" by (simp add: sink.wf_pushes)
  then show ?thesis
    by (simp add: finalize_hex_stream sink.stream_pushes) (simp add: scratch_ok_def scratch_capacity_def)
qed

section \<open>Frames are prefix codes\<close>

lemma len_frame_prefix:
  assumes "m < 2 ^ 64" and "n < 2 ^ 64"
  shows "len_frame m @ r = len_frame n @ s \<longleftrightarrow> m = n \<and> r = s"
  using assms by (auto simp: len_frame_def u64_bytes_inject of_nat_u64_inject)

lemma str_frame_prefix:
  assumes "length s < 2 ^ 64" and "length t < 2 ^ 64"
  shows "str_frame s @ r = str_frame t @ q \<longleftrightarrow> s = t \<and> r = q"
proof -
  have "str_frame s @ r = str_frame t @ q \<longleftrightarrow> length s = length t \<and> str_bytes s @ r = str_bytes t @ q"
    using assms by (simp add: str_frame_def len_frame_prefix)
  also have "\<dots> \<longleftrightarrow> s = t \<and> r = q" by (auto simp: str_bytes_inject)
  finally show ?thesis .
qed

lemma concat_frames_prefix:
  assumes "\<And>x y r q. x \<in> A \<Longrightarrow> y \<in> A \<Longrightarrow> f x @ r = f y @ q \<longleftrightarrow> x = y \<and> r = q"
    and "set xs \<subseteq> A" and "set ys \<subseteq> A" and "length xs = length ys"
  shows "concat (map f xs) @ r = concat (map f ys) @ q \<longleftrightarrow> xs = ys \<and> r = q"
  using assms(4,2,3) by (induction xs ys rule: list_induct2) (auto simp: assms(1))

definition sizes_fit :: "string list \<Rightarrow> bool" where
  "sizes_fit ss \<longleftrightarrow> length ss < 2 ^ 64 \<and> list_all (\<lambda>s. length s < 2 ^ 64) ss"

lemma strs_frame_prefix:
  assumes "sizes_fit ss" and "sizes_fit ts"
  shows "strs_frame ss @ r = strs_frame ts @ q \<longleftrightarrow> ss = ts \<and> r = q"
proof -
  have "strs_frame ss @ r = strs_frame ts @ q \<longleftrightarrow>
      length ss = length ts \<and> concat (map str_frame ss) @ r = concat (map str_frame ts) @ q"
    using assms by (simp add: strs_frame_def sizes_fit_def len_frame_prefix)
  also have "\<dots> \<longleftrightarrow> length ss = length ts \<and> ss = ts \<and> r = q"
    using concat_frames_prefix [of "{s. length s < 2 ^ 64}" str_frame ss ts r q] assms
    by (auto simp: str_frame_prefix sizes_fit_def list_all_iff)
  also have "\<dots> \<longleftrightarrow> ss = ts \<and> r = q" by auto
  finally show ?thesis .
qed

lemma length_cell_frame [simp]: "length (cell_frame c) = 9"
  by (simp add: cell_frame_def split: option.splits)

lemma cell_frame_inject: "cell_frame c = cell_frame d \<longleftrightarrow> c = d"
  by (auto simp: cell_frame_def u64_bytes_inject numeral_eq_Suc split: option.splits)

lemma cell_frames_prefix:
  "length cs = length ds \<Longrightarrow>
   concat (map cell_frame cs) @ r = concat (map cell_frame ds) @ q \<longleftrightarrow> cs = ds \<and> r = q"
  by (rule concat_frames_prefix [of UNIV]) (auto simp: cell_frame_inject)

end
