(* ===== verification/Feature_Buffers.thy ===== *)
theory Feature_Buffers
  imports Content_Hash Coordinator_Tables
begin

text \<open>
  Numeric feature buffers (\<open>buffer.rs\<close>): the cells of a feature table as columns of optional \<open>f64\<close>,
  built from JSON rows, from a flat row-major matrix or from columns; their content fingerprint;
  projection on relations; the store of buffers by feature set; and the arena that binds buffers to
  data handles. The reading of a JSON number as \<open>f64\<close> and its writing back are serde_json's, and
  SHA-256 is a library: both are parameters.
\<close>

section \<open>Data\<close>

record feature_buffer =
  nb_feature_set_id :: string
  nb_representation_id :: representation_id
  nb_feature_names :: "string list"
  nb_observation_ids :: "observation_id list"
  nb_columns :: "f64 option list list"
  nb_row_index :: "(observation_id, usize) btree_map"

record buffer_manifest =
  bm_schema_version :: u32
  bm_feature_set_id :: string
  bm_representation_id :: representation_id
  bm_feature_names :: "string list"
  bm_observation_ids :: "observation_id list"
  bm_row_count :: usize
  bm_feature_count :: usize
  bm_value_count :: usize
  bm_estimated_value_bytes :: usize
  bm_buffer_fingerprint :: string

record buffer_binding =
  bb_feature_set_id :: string
  bb_representation_id :: representation_id
  bb_source_ids :: "source_id list"
  bb_row_count :: usize
  bb_feature_count :: usize
  bb_buffer_fingerprint :: string

record f64_matrix =
  fm_feature_set_id :: string
  fm_representation_id :: representation_id
  fm_feature_names :: "string list"
  fm_observation_ids :: "observation_id list"
  fm_values :: "f64 list"
  fm_validity_mask :: "bool list option"

record f64_columnar =
  fc_feature_set_id :: string
  fc_representation_id :: representation_id
  fc_feature_names :: "string list"
  fc_observation_ids :: "observation_id list"
  fc_columns :: "f64 list list"
  fc_validity_masks :: "bool list list option"

record feature_block_f64 =
  ff_feature_set_id :: string
  ff_representation_id :: representation_id
  ff_feature_names :: "string list"
  ff_observation_ids :: "observation_id list"
  ff_sample_ids :: "sample_id list"
  ff_values :: "f64 list"

type_synonym buffer_store = "(string, feature_buffer) btree_map"

record buffer_arena =
  ba_store :: buffer_store
  ba_data_bindings :: "(u64, (string, buffer_binding) btree_map) btree_map"

section \<open>Validation\<close>

definition buffer_validate :: "feature_buffer \<Rightarrow> unit res" where
  "buffer_validate b =
     (if is_blank (nb_feature_set_id b) \<or> nb_feature_names b = [] \<or>
         length (nb_feature_names b) \<noteq> length (nb_columns b) \<or> nb_observation_ids b = [] \<or>
         length (nb_observation_ids b) \<noteq> length (nb_row_index b)
      then invalid ''feature buffer descriptors do not match storage''
      else
        rseq
          (each_fresh
             (\<lambda>n. if is_blank n then invalid ''empty or duplicate feature names'' else Inr ())
             id (\<lambda>_. Validation ''empty or duplicate feature names'') (\<lambda>_. Inr ()) []
             (nb_feature_names b))
       (rseq
          (each_res
             (\<lambda>(idx, observation).
                if map_of (nb_row_index b) observation \<noteq> Some idx
                then invalid ''observation descriptors do not match row index'' else Inr ())
             (List.enumerate 0 (nb_observation_ids b)))
          (if list_ex (\<lambda>column. length column \<noteq> length (nb_observation_ids b)) (nb_columns b)
           then invalid ''column length differs from observation count'' else Inr ())))"

definition validate_feature_shape :: "string \<Rightarrow> string list \<Rightarrow> observation_id list \<Rightarrow> unit res" where
  "validate_feature_shape feature_set_id feature_names observation_ids =
     (if is_blank feature_set_id then invalid ''feature_set_id is empty''
      else if feature_names = [] then invalid ''feature matrix contains no features''
      else
        rseq
          (each_fresh (\<lambda>n. if is_blank n then invalid ''empty feature name'' else Inr ())
             id (\<lambda>_. Validation ''duplicate feature'') (\<lambda>_. Inr ()) [] feature_names)
          (if observation_ids = [] then invalid ''feature matrix contains no observations''
           else each_unique id (\<lambda>_. Validation ''duplicate observation'') observation_ids))"

text \<open>Whether the cell at a flat index counts: \<open>mask.map(|mask| mask[idx]).unwrap_or(true)\<close>.\<close>

definition mask_at :: "bool list option \<Rightarrow> usize \<Rightarrow> bool" where
  "mask_at flags idx = (case flags of Some m \<Rightarrow> m ! idx | None \<Rightarrow> True)"

definition f64_matrix_validate :: "f64_matrix \<Rightarrow> unit res" where
  "f64_matrix_validate m =
     rseq (validate_feature_shape (fm_feature_set_id m) (fm_feature_names m) (fm_observation_ids m))
       (let expected = length (fm_feature_names m) * length (fm_observation_ids m) in
        if length (fm_values m) \<noteq> expected then invalid ''f64 feature matrix values''
        else if (case fm_validity_mask m of None \<Rightarrow> False | Some flags \<Rightarrow> length flags \<noteq> expected)
        then invalid ''f64 feature matrix validity_mask''
        else
          each_res
            (\<lambda>(idx, v). if mask_at (fm_validity_mask m) idx \<and> \<not> f64_is_finite v
                        then invalid ''f64 feature matrix value is not finite'' else Inr ())
            (List.enumerate 0 (fm_values m)))"

definition column_mask :: "bool list list option \<Rightarrow> usize \<Rightarrow> bool list option" where
  "column_mask masks feature_idx = (case masks of Some ms \<Rightarrow> Some (ms ! feature_idx) | None \<Rightarrow> None)"

definition f64_column_validate :: "f64_columnar \<Rightarrow> nat \<times> f64 list \<Rightarrow> unit res" where
  "f64_column_validate m item =
     (let (feature_idx, column) = item; row_count = length (fc_observation_ids m);
          flags = column_mask (fc_validity_masks m) feature_idx in
      if length column \<noteq> row_count then invalid ''f64 columnar column length''
      else if (case flags of None \<Rightarrow> False | Some flags \<Rightarrow> length flags \<noteq> row_count)
      then invalid ''f64 columnar validity_mask length''
      else
        each_res
          (\<lambda>(row_idx, v). if mask_at flags row_idx \<and> \<not> f64_is_finite v
                          then invalid ''f64 columnar value is not finite'' else Inr ())
          (List.enumerate 0 column))"

definition f64_columnar_validate :: "f64_columnar \<Rightarrow> unit res" where
  "f64_columnar_validate m =
     rseq (validate_feature_shape (fc_feature_set_id m) (fc_feature_names m) (fc_observation_ids m))
       (if length (fc_columns m) \<noteq> length (fc_feature_names m) then invalid ''f64 columnar columns''
        else if (case fc_validity_masks m of
                   None \<Rightarrow> False | Some ms \<Rightarrow> length ms \<noteq> length (fc_feature_names m))
        then invalid ''f64 columnar validity_masks''
        else each_res (f64_column_validate m) (List.enumerate 0 (fc_columns m)))"

section \<open>Construction\<close>

definition numeric_feature_value :: "(string \<Rightarrow> f64 option) \<Rightarrow> json \<Rightarrow> f64 option res" where
  "numeric_feature_value number_f64 v =
     (case v of
        JNull \<Rightarrow> Inr None
      | JNumber n \<Rightarrow>
          (case number_f64 n of Some x \<Rightarrow> Inr (Some x) | None \<Rightarrow> invalid ''non-f64 numeric value'')
      | _ \<Rightarrow> invalid ''must be numeric or null'')"

definition push_cell ::
  "(string \<Rightarrow> f64 option) \<Rightarrow> f64 option list list \<Rightarrow> nat \<times> json \<Rightarrow> f64 option list list res"
where
  "push_cell number_f64 columns item =
     rbind (numeric_feature_value number_f64 (snd item))
       (\<lambda>c. Inr (columns[fst item := columns ! fst item @ [c]]))"

text \<open>The loop over the rows; the state is the row index, the observations and the columns.\<close>

definition push_row ::
  "(string \<Rightarrow> f64 option) \<Rightarrow>
   (observation_id, usize) btree_map \<times> observation_id list \<times> f64 option list list \<Rightarrow>
   nat \<times> feature_row \<Rightarrow>
   ((observation_id, usize) btree_map \<times> observation_id list \<times> f64 option list list) res"
where
  "push_row number_f64 st item =
     (let (index, observations, columns) = st; (row_idx, row) = item in
      if map_of index (fr_observation_id row) \<noteq> None then invalid ''duplicate observation''
      else
        rbind (fold_res (push_cell number_f64) columns (List.enumerate 0 (fr_values row)))
          (\<lambda>columns.
             Inr (bt_insert (fr_observation_id row) row_idx index,
                  observations @ [fr_observation_id row], columns)))"

definition from_feature_table :: "(string \<Rightarrow> f64 option) \<Rightarrow> feature_table \<Rightarrow> feature_buffer res" where
  "from_feature_table number_f64 t =
     rseq (feature_table_validate t)
       (rbind
          (fold_res (push_row number_f64) ([], [], map (\<lambda>_. []) (ft_feature_names t))
             (List.enumerate 0 (ft_rows t)))
          (\<lambda>(index, observations, columns).
             Inr \<lparr>nb_feature_set_id = ft_feature_set_id t,
                  nb_representation_id = ft_representation_id t,
                  nb_feature_names = ft_feature_names t, nb_observation_ids = observations,
                  nb_columns = columns, nb_row_index = index\<rparr>))"

definition row_index_of :: "observation_id list \<Rightarrow> (observation_id, usize) btree_map" where
  "row_index_of observation_ids =
     bt_collect (map (\<lambda>(idx, observation_id). (observation_id, idx)) (List.enumerate 0 observation_ids))"

definition from_f64_matrix :: "f64_matrix \<Rightarrow> feature_buffer res" where
  "from_f64_matrix m =
     rseq (f64_matrix_validate m)
       (let row_count = length (fm_observation_ids m); feature_count = length (fm_feature_names m);
            cell = (\<lambda>row_idx feature_idx.
              let flat_idx = row_idx * feature_count + feature_idx in
              if mask_at (fm_validity_mask m) flat_idx then Some (fm_values m ! flat_idx) else None)
        in Inr
             \<lparr>nb_feature_set_id = fm_feature_set_id m, nb_representation_id = fm_representation_id m,
              nb_feature_names = fm_feature_names m, nb_observation_ids = fm_observation_ids m,
              nb_columns =
                map (\<lambda>feature_idx. map (\<lambda>row_idx. cell row_idx feature_idx) [0..<row_count])
                  [0..<feature_count],
              nb_row_index = row_index_of (fm_observation_ids m)\<rparr>)"

definition from_f64_column_matrix :: "f64_columnar \<Rightarrow> feature_buffer res" where
  "from_f64_column_matrix m =
     rseq (f64_columnar_validate m)
       (Inr
          \<lparr>nb_feature_set_id = fc_feature_set_id m, nb_representation_id = fc_representation_id m,
           nb_feature_names = fc_feature_names m, nb_observation_ids = fc_observation_ids m,
           nb_columns =
             map (\<lambda>(feature_idx, column).
                    let flags = column_mask (fc_validity_masks m) feature_idx in
                    map (\<lambda>(row_idx, v). if mask_at flags row_idx then Some v else None)
                      (List.enumerate 0 column))
               (List.enumerate 0 (fc_columns m)),
           nb_row_index = row_index_of (fc_observation_ids m)\<rparr>)"

definition to_f64_column_matrix :: "feature_buffer \<Rightarrow> f64_columnar" where
  "to_f64_column_matrix b =
     \<lparr>fc_feature_set_id = nb_feature_set_id b, fc_representation_id = nb_representation_id b,
      fc_feature_names = nb_feature_names b, fc_observation_ids = nb_observation_ids b,
      fc_columns =
        map (map (\<lambda>cell. case cell of Some v \<Rightarrow> v | None \<Rightarrow> f64_zero)) (nb_columns b),
      fc_validity_masks =
        (if list_ex (list_ex (\<lambda>cell. cell = None)) (nb_columns b)
         then Some (map (map (\<lambda>cell. cell \<noteq> None)) (nb_columns b)) else None)\<rparr>"

section \<open>Descriptions\<close>

definition row_count :: "feature_buffer \<Rightarrow> usize" where
  "row_count b = length (nb_observation_ids b)"

definition feature_count :: "feature_buffer \<Rightarrow> usize" where
  "feature_count b = length (nb_feature_names b)"

definition value_count :: "feature_buffer \<Rightarrow> usize" where
  "value_count b = row_count b * feature_count b"

definition estimated_value_bytes :: "feature_buffer \<Rightarrow> usize" where
  "estimated_value_bytes b = value_count b * 8"

definition contains_observation :: "feature_buffer \<Rightarrow> observation_id \<Rightarrow> bool" where
  "contains_observation b observation_id \<longleftrightarrow> map_of (nb_row_index b) observation_id \<noteq> None"

definition buffer_domain :: "u8 list" where
  "buffer_domain = str_bytes ''dag-ml-data.numeric-feature-buffer.v2'' @ [0]"

definition buffer_fingerprint :: "(u8 list \<Rightarrow> u8 list) \<Rightarrow> feature_buffer \<Rightarrow> string res" where
  "buffer_fingerprint sha256 b =
     rseq (buffer_validate b)
       (let h = hasher_new buffer_domain;
            h = absorb_str (nb_feature_set_id b) h;
            h = absorb_str (as_str (nb_representation_id b)) h;
            h = absorb_str_collection (nb_feature_names b) h;
            h = absorb_str_collection (map as_str (nb_observation_ids b)) h;
            h = absorb_len (row_count b) h;
            h = absorb_len (feature_count b) h;
            h = fold (\<lambda>row. fold (\<lambda>column. absorb_cell (column ! row)) (nb_columns b))
                  [0..<row_count b] h
        in Inr (finalize_hex sha256 h))"

definition buffer_manifest_of :: "(u8 list \<Rightarrow> u8 list) \<Rightarrow> feature_buffer \<Rightarrow> buffer_manifest res" where
  "buffer_manifest_of sha256 b =
     rbind (buffer_fingerprint sha256 b)
       (\<lambda>fp. Inr
          \<lparr>bm_schema_version = 1, bm_feature_set_id = nb_feature_set_id b,
           bm_representation_id = nb_representation_id b, bm_feature_names = nb_feature_names b,
           bm_observation_ids = nb_observation_ids b, bm_row_count = row_count b,
           bm_feature_count = feature_count b, bm_value_count = value_count b,
           bm_estimated_value_bytes = estimated_value_bytes b, bm_buffer_fingerprint = fp\<rparr>)"

definition binding_for_sources ::
  "(u8 list \<Rightarrow> u8 list) \<Rightarrow> feature_buffer \<Rightarrow> source_id list \<Rightarrow> buffer_binding res"
where
  "binding_for_sources sha256 b source_ids =
     rbind (buffer_fingerprint sha256 b)
       (\<lambda>fp. Inr
          \<lparr>bb_feature_set_id = nb_feature_set_id b, bb_representation_id = nb_representation_id b,
           bb_source_ids = source_ids, bb_row_count = row_count b,
           bb_feature_count = feature_count b, bb_buffer_fingerprint = fp\<rparr>)"

section \<open>Projection\<close>

definition selected_indices :: "feature_buffer \<Rightarrow> string list option \<Rightarrow> usize list res" where
  "selected_indices b columns =
     rseq (buffer_validate b)
       (let index_by_name =
              bt_collect (map (\<lambda>(idx, name). (name, idx)) (List.enumerate 0 (nb_feature_names b))) in
        rbind
          (case columns of
             Some columns \<Rightarrow>
               rseq
                 (each_fresh (\<lambda>_. Inr ()) id (\<lambda>_. Validation ''selected duplicate feature column'')
                    (\<lambda>c. if map_of index_by_name c = None
                         then invalid ''feature table has no feature column'' else Inr ())
                    [] columns)
                 (map_res
                    (\<lambda>c. ok_or (map_of index_by_name c)
                           (Validation ''feature table has no feature column''))
                    columns)
           | None \<Rightarrow> Inr [0..<length (nb_feature_names b)])
          (\<lambda>indices.
             if indices = [] then invalid ''feature table selected no feature columns''
             else Inr indices))"

text \<open>The relations that a projection visits, those of the given source if one is given.\<close>

definition of_source :: "source_id option \<Rightarrow> relation_set \<Rightarrow> coordinator_relation list" where
  "of_source source_id relations =
     filter (\<lambda>r. case source_id of Some s \<Rightarrow> cr_source_id r = Some s | None \<Rightarrow> True)
       (rs_records relations)"

definition row_of :: "feature_buffer \<Rightarrow> coordinator_relation \<Rightarrow> usize res" where
  "row_of b r =
     ok_or (map_of (nb_row_index b) (cr_observation_id r))
       (Validation ''feature table has no row for observation'')"

definition project_relations ::
  "(f64 \<Rightarrow> json) \<Rightarrow> feature_buffer \<Rightarrow> relation_set \<Rightarrow> source_id option \<Rightarrow> string list option \<Rightarrow>
   feature_block res"
where
  "project_relations json_f64 b relations source_id columns =
     rseq (relation_set_validate relations)
       (rbind (selected_indices b columns)
          (\<lambda>indices.
             rbind
               (map_res
                  (\<lambda>r. rbind (row_of b r)
                     (\<lambda>row. Inr (map (\<lambda>f. case nb_columns b ! f ! row of
                                            None \<Rightarrow> JNull | Some v \<Rightarrow> json_f64 v) indices)))
                  (of_source source_id relations))
               (\<lambda>vals.
                  Inr \<lparr>fb_feature_set_id = nb_feature_set_id b,
                       fb_representation_id = nb_representation_id b,
                       fb_feature_names = map (\<lambda>i. nb_feature_names b ! i) indices,
                       fb_observation_ids = map cr_observation_id (of_source source_id relations),
                       fb_sample_ids = map cr_sample_id (of_source source_id relations),
                       fb_values = vals\<rparr>)))"

definition project_relations_f64 ::
  "feature_buffer \<Rightarrow> relation_set \<Rightarrow> source_id option \<Rightarrow> string list option \<Rightarrow> feature_block_f64 res"
where
  "project_relations_f64 b relations source_id columns =
     rseq (relation_set_validate relations)
       (rbind (selected_indices b columns)
          (\<lambda>indices.
             rbind
               (map_res
                  (\<lambda>r. rbind (row_of b r)
                     (\<lambda>row. map_res
                        (\<lambda>f. ok_or (nb_columns b ! f ! row)
                               (Validation ''the typed f64 projection requires fully numeric values''))
                        indices))
                  (of_source source_id relations))
               (\<lambda>rows.
                  Inr \<lparr>ff_feature_set_id = nb_feature_set_id b,
                       ff_representation_id = nb_representation_id b,
                       ff_feature_names = map (\<lambda>i. nb_feature_names b ! i) indices,
                       ff_observation_ids = map cr_observation_id (of_source source_id relations),
                       ff_sample_ids = map cr_sample_id (of_source source_id relations),
                       ff_values = concat rows\<rparr>)))"

end
