(* ===== verification/Buffer_Content.thy ===== *)
theory Buffer_Content
  imports Feature_Buffers
begin

text \<open>
  What a feature buffer is: the well-formedness that every constructor establishes, the equivalence
  of the constructors, the round trip through columns, and the content that a fingerprint identifies.
\<close>

section \<open>Well-formed buffers\<close>

definition buffer_ok :: "feature_buffer \<Rightarrow> bool" where
  "buffer_ok b \<longleftrightarrow>
     \<not> is_blank (nb_feature_set_id b) \<and> nb_feature_names b \<noteq> [] \<and> distinct (nb_feature_names b) \<and>
     list_all (\<lambda>n. \<not> is_blank n) (nb_feature_names b) \<and>
     length (nb_columns b) = length (nb_feature_names b) \<and> nb_observation_ids b \<noteq> [] \<and>
     distinct (nb_observation_ids b) \<and> nb_row_index b = row_index_of (nb_observation_ids b) \<and>
     list_all (\<lambda>c. length c = length (nb_observation_ids b)) (nb_columns b)"

definition cells_finite :: "feature_buffer \<Rightarrow> bool" where
  "cells_finite b \<longleftrightarrow> list_all (list_all (\<lambda>c. case c of None \<Rightarrow> True | Some v \<Rightarrow> f64_is_finite v)) (nb_columns b)"

lemma row_index_lookup:
  "distinct obs \<Longrightarrow> map_of (row_index_of obs) x = Some k \<longleftrightarrow> k < length obs \<and> obs ! k = x"
  unfolding row_index_of_def by (rule name_index)

lemma row_index_keys:
  assumes "distinct obs"
  shows "map_of (row_index_of obs) x = None \<longleftrightarrow> x \<notin> set obs"
proof -
  have "(\<exists>k. map_of (row_index_of obs) x = Some k) \<longleftrightarrow> x \<in> set obs"
    by (simp only: row_index_lookup [OF assms] in_set_conv_nth)
  then show ?thesis by (metis option.exhaust option.distinct(1))
qed

lemma row_index_wf: "bt_wf (row_index_of obs)"
  by (simp add: row_index_of_def bt.wf_collect)

lemma bt_keys_dom: "set (bt_keys m) = dom (map_of m)"
  by (simp add: dom_map_of_conv_image_fst)

lemma length_row_index: "distinct obs \<Longrightarrow> length (row_index_of obs) = length obs"
proof -
  assume dist: "distinct obs"
  have "set (bt_keys (row_index_of obs)) = set obs"
    unfolding bt_keys_dom using row_index_keys [OF dist] by (metis domIff subsetI subset_antisym)
  then show ?thesis
    using distinct_card [OF bt_wf_distinct [OF row_index_wf [of obs]]] distinct_card [OF dist]
    by (metis length_map)
qed

lemma row_index_determined:
  assumes "bt_wf index" and "length obs = length index"
    and "\<forall>i<length obs. map_of index (obs ! i) = Some i"
  shows "distinct obs \<and> index = row_index_of obs"
proof
  show dist: "distinct obs" using assms(3) by (metis distinct_conv_nth option.inject)
  have "set obs \<subseteq> set (bt_keys index)"
    unfolding bt_keys_dom using assms(3) by (force simp: in_set_conv_nth)
  moreover have "card (set obs) = card (set (bt_keys index))"
    using assms(2) dist bt_wf_distinct [OF assms(1)] by (metis distinct_card length_map)
  ultimately have keys: "set (bt_keys index) = set obs" by (metis List.finite_set card_subset_eq)
  have "map_of index x = map_of (row_index_of obs) x" for x
  proof (cases "x \<in> set obs")
    case True
    then obtain i where "i < length obs" "obs ! i = x" by (auto simp: in_set_conv_nth)
    then have "map_of (row_index_of obs) x = Some i" using row_index_lookup [OF dist] by blast
    with \<open>i < length obs\<close> \<open>obs ! i = x\<close> assms(3) show ?thesis by auto
  next
    case False
    then show ?thesis
      using keys row_index_keys [OF dist] unfolding bt_keys_dom by (metis domIff)
  qed
  then show "index = row_index_of obs"
    by (intro bt_wf_ext [OF assms(1) row_index_wf]) (rule ext)
qed

lemma buffer_validate_ok:
  assumes "bt_wf (nb_row_index b)"
  shows "buffer_validate b = Inr () \<longleftrightarrow> buffer_ok b"
proof
  assume "buffer_validate b = Inr ()"
  then have v: "\<not> is_blank (nb_feature_set_id b)" "nb_feature_names b \<noteq> []"
      "length (nb_feature_names b) = length (nb_columns b)" "nb_observation_ids b \<noteq> []"
      "length (nb_observation_ids b) = length (nb_row_index b)" "distinct (nb_feature_names b)"
      "\<forall>n\<in>set (nb_feature_names b). \<not> is_blank n"
      "\<forall>i<length (nb_observation_ids b). map_of (nb_row_index b) (nb_observation_ids b ! i) = Some i"
      "\<forall>c\<in>set (nb_columns b). length c = length (nb_observation_ids b)"
    by (auto simp: buffer_validate_def if_Inl_eq_Inr rbind_eq_Inr each_fresh_ok each_res_ok
        ball_enumerate list_ex_iff)
  then show "buffer_ok b"
    using row_index_determined [OF assms v(5) v(8)] by (simp add: buffer_ok_def list_all_iff)
next
  assume ok: "buffer_ok b"
  then have "\<forall>i<length (nb_observation_ids b).
      map_of (row_index_of (nb_observation_ids b)) (nb_observation_ids b ! i) = Some i"
    by (simp add: buffer_ok_def row_index_lookup)
  with ok show "buffer_validate b = Inr ()"
    by (simp add: buffer_ok_def buffer_validate_def rbind_eq_Inr each_fresh_ok each_res_ok
        ball_enumerate list_all_iff list_ex_iff length_row_index if_Inl_eq_Inr)
qed

lemma buffer_ok_validates: "buffer_ok b \<Longrightarrow> buffer_validate b = Inr ()"
  by (subst buffer_validate_ok) (simp_all add: buffer_ok_def row_index_wf)

section \<open>The constructors\<close>

lemma validate_feature_shape_ok:
  "validate_feature_shape i names obs = Inr () \<longleftrightarrow>
     \<not> is_blank i \<and> names \<noteq> [] \<and> distinct names \<and> list_all (\<lambda>n. \<not> is_blank n) names \<and>
     obs \<noteq> [] \<and> distinct obs"
  by (auto simp: validate_feature_shape_def if_Inl_eq_Inr rbind_eq_Inr each_fresh_ok each_unique_ok
      list_all_iff)

text \<open>A column with its mask as optional cells.\<close>

definition masked_column :: "bool list option \<Rightarrow> f64 list \<Rightarrow> f64 option list" where
  "masked_column flags column =
     map (\<lambda>(i, v). if mask_at flags i then Some v else None) (List.enumerate 0 column)"

lemma length_masked_column [simp]: "length (masked_column flags column) = length column"
  by (simp add: masked_column_def)

lemma nth_masked_column:
  "i < length column \<Longrightarrow> masked_column flags column ! i = (if mask_at flags i then Some (column ! i) else None)"
  by (simp add: masked_column_def nth_enumerate_eq)

definition columnar_cells :: "f64_columnar \<Rightarrow> f64 option list list" where
  "columnar_cells m =
     map (\<lambda>(j, column). masked_column (column_mask (fc_validity_masks m) j) column)
       (List.enumerate 0 (fc_columns m))"

definition buffer_of_columnar :: "f64_columnar \<Rightarrow> feature_buffer" where
  "buffer_of_columnar m =
     \<lparr>nb_feature_set_id = fc_feature_set_id m, nb_representation_id = fc_representation_id m,
      nb_feature_names = fc_feature_names m, nb_observation_ids = fc_observation_ids m,
      nb_columns = columnar_cells m, nb_row_index = row_index_of (fc_observation_ids m)\<rparr>"

definition columnar_ok :: "f64_columnar \<Rightarrow> bool" where
  "columnar_ok m \<longleftrightarrow>
     validate_feature_shape (fc_feature_set_id m) (fc_feature_names m) (fc_observation_ids m) = Inr () \<and>
     length (fc_columns m) = length (fc_feature_names m) \<and>
     list_all (\<lambda>c. length c = length (fc_observation_ids m)) (fc_columns m) \<and>
     (case fc_validity_masks m of None \<Rightarrow> True
      | Some ms \<Rightarrow> length ms = length (fc_feature_names m) \<and>
          list_all (\<lambda>flags. length flags = length (fc_observation_ids m)) ms) \<and>
     cells_finite (buffer_of_columnar m)"

lemma masked_column_finite:
  "list_all (\<lambda>c. case c of None \<Rightarrow> True | Some v \<Rightarrow> f64_is_finite v) (masked_column flags column) \<longleftrightarrow>
     (\<forall>i<length column. mask_at flags i \<longrightarrow> f64_is_finite (column ! i))"
  by (auto simp: list_all_length nth_masked_column)

lemma f64_column_validate_ok:
  "f64_column_validate m (j, column) = Inr () \<longleftrightarrow>
     length column = length (fc_observation_ids m) \<and>
     (case column_mask (fc_validity_masks m) j of None \<Rightarrow> True
      | Some flags \<Rightarrow> length flags = length (fc_observation_ids m)) \<and>
     list_all (\<lambda>c. case c of None \<Rightarrow> True | Some v \<Rightarrow> f64_is_finite v)
       (masked_column (column_mask (fc_validity_masks m) j) column)"
  unfolding masked_column_finite
  by (auto simp: f64_column_validate_def Let_def if_Inl_eq_Inr each_res_ok ball_enumerate
      split: option.splits)

lemma f64_columnar_validate_ok: "f64_columnar_validate m = Inr () \<longleftrightarrow> columnar_ok m"
  by (cases "fc_validity_masks m")
    (auto simp: f64_columnar_validate_def columnar_ok_def if_Inl_eq_Inr rbind_eq_Inr each_res_ok
      ball_enumerate f64_column_validate_ok column_mask_def cells_finite_def buffer_of_columnar_def
      columnar_cells_def list_all_length nth_enumerate_eq)

lemma from_f64_column_matrix_ok:
  "from_f64_column_matrix m = Inr b \<longleftrightarrow> columnar_ok m \<and> b = buffer_of_columnar m"
  by (auto simp: from_f64_column_matrix_def rbind_eq_Inr f64_columnar_validate_ok buffer_of_columnar_def
      columnar_cells_def masked_column_def Let_def)

lemma columnar_buffer_ok: "columnar_ok m \<Longrightarrow> buffer_ok (buffer_of_columnar m) \<and> cells_finite (buffer_of_columnar m)"
  by (auto simp: columnar_ok_def buffer_ok_def buffer_of_columnar_def validate_feature_shape_ok
      columnar_cells_def list_all_length nth_enumerate_eq)

subsection \<open>Flat matrices\<close>

text \<open>The same matrix as columns.\<close>

definition column_of :: "usize \<Rightarrow> usize \<Rightarrow> 'a list \<Rightarrow> usize \<Rightarrow> 'a list" where
  "column_of rows width xs j = map (\<lambda>i. xs ! (i * width + j)) [0..<rows]"

definition columnar_of :: "f64_matrix \<Rightarrow> f64_columnar" where
  "columnar_of m =
     (let rows = length (fm_observation_ids m); width = length (fm_feature_names m) in
      \<lparr>fc_feature_set_id = fm_feature_set_id m, fc_representation_id = fm_representation_id m,
       fc_feature_names = fm_feature_names m, fc_observation_ids = fm_observation_ids m,
       fc_columns = map (column_of rows width (fm_values m)) [0..<width],
       fc_validity_masks =
         map_option (\<lambda>flags. map (column_of rows width flags) [0..<width]) (fm_validity_mask m)\<rparr>)"

definition flat_sizes :: "f64_matrix \<Rightarrow> bool" where
  "flat_sizes m \<longleftrightarrow>
     length (fm_values m) = length (fm_feature_names m) * length (fm_observation_ids m) \<and>
     (case fm_validity_mask m of None \<Rightarrow> True
      | Some flags \<Rightarrow> length flags = length (fm_feature_names m) * length (fm_observation_ids m))"

lemma length_column_of [simp]: "length (column_of rows width xs j) = rows"
  by (simp add: column_of_def)

lemma flat_index:
  fixes width rows :: usize
  shows "(\<forall>k<width * rows. P k) \<longleftrightarrow> (\<forall>j<width. \<forall>i<rows. P (i * width + j))"
proof
  assume all: "\<forall>k<width * rows. P k"
  show "\<forall>j<width. \<forall>i<rows. P (i * width + j)"
  proof (intro allI impI)
    fix j i assume "j < width" "i < rows"
    then have "i * width + j < Suc i * width" by simp
    also have "\<dots> \<le> rows * width" using \<open>i < rows\<close> by (intro mult_le_mono1) simp
    finally show "P (i * width + j)" using all by (simp add: mult.commute)
  qed
next
  assume all: "\<forall>j<width. \<forall>i<rows. P (i * width + j)"
  show "\<forall>k<width * rows. P k"
  proof (intro allI impI)
    fix k assume k: "k < width * rows"
    then have "k mod width < width" "k div width < rows"
      by (simp_all add: less_mult_imp_div_less mult.commute) (use k in \<open>cases width; simp\<close>)
    with all have "P (k div width * width + k mod width)" by blast
    then show "P k" by simp
  qed
qed

lemma column_mask_of:
  "j < width \<Longrightarrow> i < rows \<Longrightarrow>
   mask_at (column_mask (map_option (\<lambda>flags. map (column_of rows width flags) [0..<width]) mk) j) i =
   mask_at mk (i * width + j)"
  by (simp add: mask_at_def column_mask_def column_of_def split: option.splits)

lemma columnar_of_cells:
  "columnar_cells (columnar_of m) =
     map (\<lambda>j. map (\<lambda>i. if mask_at (fm_validity_mask m) (i * length (fm_feature_names m) + j)
                        then Some (fm_values m ! (i * length (fm_feature_names m) + j)) else None)
              [0..<length (fm_observation_ids m)])
       [0..<length (fm_feature_names m)]"
  unfolding columnar_cells_def columnar_of_def Let_def masked_column_def
  by (simp add: enumerate_map_upt column_mask_of column_of_def [of _ _ "fm_values m"])

lemma cells_finite_columnar_of:
  "cells_finite (buffer_of_columnar (columnar_of m)) \<longleftrightarrow>
     (\<forall>k<length (fm_feature_names m) * length (fm_observation_ids m).
        mask_at (fm_validity_mask m) k \<longrightarrow> f64_is_finite (fm_values m ! k))"
  unfolding flat_index
  by (simp add: cells_finite_def buffer_of_columnar_def columnar_of_cells list.pred_map comp_def)
    (auto simp: list_all_iff split: if_splits)

lemma f64_matrix_validate_ok:
  "f64_matrix_validate m = Inr () \<longleftrightarrow>
     flat_sizes m \<and> columnar_ok (columnar_of m)"
proof -
  have "columnar_ok (columnar_of m) \<longleftrightarrow>
      validate_feature_shape (fm_feature_set_id m) (fm_feature_names m) (fm_observation_ids m) = Inr () \<and>
      cells_finite (buffer_of_columnar (columnar_of m))"
    by (auto simp: columnar_ok_def columnar_of_def Let_def list_all_iff split: option.splits)
  then show ?thesis
    unfolding f64_matrix_validate_def Let_def cells_finite_columnar_of flat_sizes_def
    by (auto simp: if_Inl_eq_Inr rbind_eq_Inr each_res_ok ball_enumerate split: option.splits)
qed

lemma from_f64_matrix_ok:
  "from_f64_matrix m = Inr b \<longleftrightarrow> flat_sizes m \<and> from_f64_column_matrix (columnar_of m) = Inr b"
  unfolding from_f64_matrix_def from_f64_column_matrix_ok
  by (auto simp: rbind_eq_Inr f64_matrix_validate_ok buffer_of_columnar_def columnar_of_cells Let_def)
    (auto simp: columnar_of_def Let_def)

text \<open>
  The two typed inputs agree: a flat row-major matrix is accepted exactly when its value and mask
  counts fit its shape and its transposition into columns is accepted, and then both give the same
  buffer, cell by cell, so the same content has the same fingerprint whatever its layout.
\<close>

lemma row_major_equals_columnar:
  "from_f64_matrix m = Inr b \<longleftrightarrow> flat_sizes m \<and> from_f64_column_matrix (columnar_of m) = Inr b"
  by (rule from_f64_matrix_ok)

subsection \<open>The round trip through columns\<close>

lemma unmasked_cells:
  "fc_validity_masks m = None \<Longrightarrow> columnar_cells m = map (map Some) (fc_columns m)"
  by (simp add: list_eq_iff_nth_eq columnar_cells_def nth_enumerate_eq nth_masked_column column_mask_def
      mask_at_def)

lemma to_columnar_cells:
  assumes "buffer_ok b"
  shows "columnar_cells (to_f64_column_matrix b) = nb_columns b"
proof (cases "list_ex (list_ex (\<lambda>cell. cell = None)) (nb_columns b)")
  case True
  then show ?thesis
    by (auto simp: list_eq_iff_nth_eq columnar_cells_def to_f64_column_matrix_def nth_enumerate_eq
        nth_masked_column column_mask_def mask_at_def)
next
  case False
  have "map (\<lambda>cell. Some (case cell of Some v \<Rightarrow> v | None \<Rightarrow> f64_zero)) c = c" if "c \<in> set (nb_columns b)" for c
    using False that by (intro map_idI) (auto simp: list_ex_iff split: option.splits, metis not_None_eq)
  then have "map (map Some) (fc_columns (to_f64_column_matrix b)) = nb_columns b"
    by (simp add: to_f64_column_matrix_def comp_def map_idI)
  moreover have "fc_validity_masks (to_f64_column_matrix b) = None"
    using False by (simp add: to_f64_column_matrix_def)
  ultimately show ?thesis by (simp add: unmasked_cells)
qed

lemma to_columnar_ok:
  assumes "buffer_ok b" and "cells_finite b"
  shows "columnar_ok (to_f64_column_matrix b) \<and> buffer_of_columnar (to_f64_column_matrix b) = b"
proof -
  have "buffer_of_columnar (to_f64_column_matrix b) = b"
    using assms(1) to_columnar_cells [OF assms(1)]
    by (simp add: buffer_of_columnar_def buffer_ok_def) (simp add: to_f64_column_matrix_def)
  then show ?thesis
    using assms
    by (auto simp: columnar_ok_def buffer_ok_def validate_feature_shape_ok to_f64_column_matrix_def
        list_all_iff)
qed

section \<open>Feature tables\<close>

definition cell_numeric :: "(string \<Rightarrow> f64 option) \<Rightarrow> json \<Rightarrow> bool" where
  "cell_numeric number_f64 v \<longleftrightarrow> v = JNull \<or> (\<exists>n x. v = JNumber n \<and> number_f64 n = Some x)"

definition cell_value :: "(string \<Rightarrow> f64 option) \<Rightarrow> json \<Rightarrow> f64 option" where
  "cell_value number_f64 v = (case v of JNumber n \<Rightarrow> number_f64 n | _ \<Rightarrow> None)"

lemma numeric_feature_value_ok:
  "numeric_feature_value number_f64 v = Inr c \<longleftrightarrow> cell_numeric number_f64 v \<and> c = cell_value number_f64 v"
  by (auto simp: numeric_feature_value_def cell_numeric_def cell_value_def split: json.splits option.splits)

lemma push_cells_ok:
  assumes "k + length vs \<le> length columns"
  shows "fold_res (push_cell number_f64) columns (List.enumerate k vs) = Inr out \<longleftrightarrow>
    list_all (cell_numeric number_f64) vs \<and> length out = length columns \<and>
    (\<forall>j<length columns. out ! j =
       columns ! j @ (if k \<le> j \<and> j < k + length vs then [cell_value number_f64 (vs ! (j - k))] else []))"
  using assms
proof (induction vs arbitrary: k columns)
  case Nil
  then show ?case by (auto simp: list_eq_iff_nth_eq [of columns])
next
  case (Cons v vs)
  let ?next = "columns[k := columns ! k @ [cell_value number_f64 v]]"
  have "(\<forall>j<length columns. out ! j = ?next ! j @
        (if Suc k \<le> j \<and> j < Suc k + length vs then [cell_value number_f64 (vs ! (j - Suc k))] else [])) \<longleftrightarrow>
      (\<forall>j<length columns. out ! j = columns ! j @
        (if k \<le> j \<and> j < k + length (v # vs) then [cell_value number_f64 ((v # vs) ! (j - k))] else []))"
    using Cons.prems by (intro all_cong) (auto simp: nth_list_update nth_Cons')
  then show ?case
    using Cons.prems Cons.IH [of "Suc k" ?next]
    by (auto simp: rbind_eq_Inr push_cell_def numeric_feature_value_ok)
qed

definition indexed_from ::
  "nat \<Rightarrow> feature_row list \<Rightarrow> (observation_id, usize) btree_map \<Rightarrow> (observation_id, usize) btree_map"
where
  "indexed_from k rows index =
     fold (\<lambda>(idx, o'). bt_insert o' idx) (List.enumerate k (map fr_observation_id rows)) index"

lemma push_rows_ok:
  assumes "\<forall>r\<in>set rows. length (fr_values r) = length columns"
    and "distinct (map fr_observation_id rows)"
    and "\<forall>r\<in>set rows. map_of index (fr_observation_id r) = None"
  shows "fold_res (push_row number_f64) (index, obs, columns) (List.enumerate k rows) = Inr out \<longleftrightarrow>
    (\<forall>r\<in>set rows. list_all (cell_numeric number_f64) (fr_values r)) \<and>
    fst out = indexed_from k rows index \<and> fst (snd out) = obs @ map fr_observation_id rows \<and>
    length (snd (snd out)) = length columns \<and>
    (\<forall>j<length columns. snd (snd out) ! j =
       columns ! j @ map (\<lambda>r. cell_value number_f64 (fr_values r ! j)) rows)"
  using assms
proof (induction rows arbitrary: k index obs columns)
  case Nil
  then show ?case by (cases out) (auto simp: indexed_from_def list_eq_iff_nth_eq [of columns])
next
  case (Cons r rows)
  have row: "fold_res (push_cell number_f64) columns (List.enumerate 0 (fr_values r)) = Inr cs \<longleftrightarrow>
      list_all (cell_numeric number_f64) (fr_values r) \<and>
      cs = map (\<lambda>j. columns ! j @ [cell_value number_f64 (fr_values r ! j)]) [0..<length columns]" for cs
    using push_cells_ok [of 0 "fr_values r" columns number_f64 cs] Cons.prems(1)
    by (auto simp: list_eq_iff_nth_eq [of cs])
  let ?next = "map (\<lambda>j. columns ! j @ [cell_value number_f64 (fr_values r ! j)]) [0..<length columns]"
  let ?index = "bt_insert (fr_observation_id r) k index"
  have fresh: "\<forall>r\<in>set rows. map_of ?index (fr_observation_id r) = None"
    using Cons.prems(2,3) by (auto simp: map_of_bt_insert image_iff)
  have widths: "\<forall>r\<in>set rows. length (fr_values r) = length ?next" using Cons.prems(1) by simp
  have later: "distinct (map fr_observation_id rows)" using Cons.prems(2) by simp
  have "fold_res (push_row number_f64) (index, obs, columns) (List.enumerate k (r # rows)) = Inr out \<longleftrightarrow>
      list_all (cell_numeric number_f64) (fr_values r) \<and>
      fold_res (push_row number_f64) (?index, obs @ [fr_observation_id r], ?next)
        (List.enumerate (Suc k) rows) = Inr out"
    using Cons.prems(3) by (simp add: push_row_def rbind_eq_Inr row)
  also have "\<dots> \<longleftrightarrow> list_all (cell_numeric number_f64) (fr_values r) \<and>
      (\<forall>r\<in>set rows. list_all (cell_numeric number_f64) (fr_values r)) \<and>
      fst out = indexed_from (Suc k) rows ?index \<and>
      fst (snd out) = (obs @ [fr_observation_id r]) @ map fr_observation_id rows \<and>
      length (snd (snd out)) = length ?next \<and>
      (\<forall>j<length ?next. snd (snd out) ! j =
         ?next ! j @ map (\<lambda>r. cell_value number_f64 (fr_values r ! j)) rows)"
    by (subst Cons.IH [OF widths later fresh]) (rule refl)
  also have "indexed_from (Suc k) rows ?index = indexed_from k (r # rows) index"
    by (simp add: indexed_from_def)
  also have "(\<forall>j<length ?next. snd (snd out) ! j =
         ?next ! j @ map (\<lambda>r. cell_value number_f64 (fr_values r ! j)) rows) \<longleftrightarrow>
      (\<forall>j<length columns. snd (snd out) ! j =
         columns ! j @ map (\<lambda>r. cell_value number_f64 (fr_values r ! j)) (r # rows))" by simp
  also have "(obs @ [fr_observation_id r]) @ map fr_observation_id rows =
      obs @ map fr_observation_id (r # rows)" by simp
  also have "length ?next = length columns" by simp
  finally show ?case by (simp only: list.set ball_simps conj_assoc)
qed

lemma eq_map_upt: "xs = map f [0..<n] \<longleftrightarrow> length xs = n \<and> (\<forall>j<n. xs ! j = f j)"
  unfolding list_eq_iff_nth_eq [of xs] by (simp cong: conj_cong)

lemma indexed_from_rows: "indexed_from 0 rows [] = row_index_of (map fr_observation_id rows)"
  by (simp add: indexed_from_def row_index_of_def bt_collect_def fold_map comp_def case_prod_unfold)

definition buffer_of_table :: "(string \<Rightarrow> f64 option) \<Rightarrow> feature_table \<Rightarrow> feature_buffer" where
  "buffer_of_table number_f64 t =
     \<lparr>nb_feature_set_id = ft_feature_set_id t, nb_representation_id = ft_representation_id t,
      nb_feature_names = ft_feature_names t, nb_observation_ids = map fr_observation_id (ft_rows t),
      nb_columns =
        map (\<lambda>j. map (\<lambda>r. cell_value number_f64 (fr_values r ! j)) (ft_rows t))
          [0..<length (ft_feature_names t)],
      nb_row_index = row_index_of (map fr_observation_id (ft_rows t))\<rparr>"

lemma from_feature_table_ok:
  "from_feature_table number_f64 t = Inr b \<longleftrightarrow>
     feature_table_validate t = Inr () \<and>
     (\<forall>r\<in>set (ft_rows t). list_all (cell_numeric number_f64) (fr_values r)) \<and>
     b = buffer_of_table number_f64 t"
proof (cases "feature_table_validate t = Inr ()")
  case True
  have rows: "\<forall>r\<in>set (ft_rows t). length (fr_values r) = length (map (\<lambda>_. []) (ft_feature_names t))"
      "distinct (map fr_observation_id (ft_rows t))"
    using True by (simp_all add: feature_table_valid)
  have "fold_res (push_row number_f64) ([], [], map (\<lambda>_. []) (ft_feature_names t))
        (List.enumerate 0 (ft_rows t)) = Inr out \<longleftrightarrow>
      (\<forall>r\<in>set (ft_rows t). list_all (cell_numeric number_f64) (fr_values r)) \<and>
      out = (row_index_of (map fr_observation_id (ft_rows t)), map fr_observation_id (ft_rows t),
        nb_columns (buffer_of_table number_f64 t))" for out
    using push_rows_ok [OF rows, of "[]" number_f64 "[]" 0 out]
    by (cases out) (simp add: indexed_from_rows buffer_of_table_def eq_map_upt)
  then show ?thesis
    using True by (auto simp: from_feature_table_def rbind_eq_Inr buffer_of_table_def)
next
  case False
  then show ?thesis by (simp add: from_feature_table_def rbind_eq_Inr)
qed

lemma table_buffer_ok:
  assumes "feature_table_validate t = Inr ()"
  shows "buffer_ok (buffer_of_table number_f64 t)"
  using assms by (auto simp: feature_table_valid buffer_ok_def buffer_of_table_def list_all_iff)

text \<open>Whatever it is built from, a buffer is well-formed.\<close>

lemma constructed_buffer_ok:
  "from_feature_table number_f64 t = Inr b \<Longrightarrow> buffer_ok b"
  "from_f64_matrix m = Inr b \<Longrightarrow> buffer_ok b"
  "from_f64_column_matrix n = Inr b \<Longrightarrow> buffer_ok b"
  by (auto simp: from_feature_table_ok table_buffer_ok from_f64_matrix_ok from_f64_column_matrix_ok
      columnar_buffer_ok)

lemma columns_round_trip:
  "from_f64_column_matrix (to_f64_column_matrix b) = Inr b \<longleftrightarrow> buffer_ok b \<and> cells_finite b"
proof
  assume "from_f64_column_matrix (to_f64_column_matrix b) = Inr b"
  then have c: "columnar_ok (to_f64_column_matrix b)" "b = buffer_of_columnar (to_f64_column_matrix b)"
    by (simp_all add: from_f64_column_matrix_ok)
  show "buffer_ok b \<and> cells_finite b" using columnar_buffer_ok [OF c(1)] c(2) by simp
next
  assume "buffer_ok b \<and> cells_finite b"
  then show "from_f64_column_matrix (to_f64_column_matrix b) = Inr b"
    using to_columnar_ok by (simp add: from_f64_column_matrix_ok)
qed

text \<open>
  Writing a buffer out as columns and reading it back is the identity exactly on the well-formed
  buffers of finite cells: masked cells, their positions, the row index and the descriptors all
  survive, although a masked cell is written as zero.
\<close>

lemma columnar_round_trip:
  "from_f64_column_matrix (to_f64_column_matrix b) = Inr b \<longleftrightarrow> buffer_ok b \<and> cells_finite b"
  by (rule columns_round_trip)

section \<open>The content fingerprint\<close>

definition row_frame :: "f64 option list \<Rightarrow> u8 list" where
  "row_frame cells = concat (map cell_frame cells)"

definition buffer_rows :: "feature_buffer \<Rightarrow> f64 option list list" where
  "buffer_rows b = map (\<lambda>row. map (\<lambda>column. column ! row) (nb_columns b)) [0..<row_count b]"

definition buffer_preimage :: "feature_buffer \<Rightarrow> u8 list" where
  "buffer_preimage b =
     buffer_domain @ str_frame (nb_feature_set_id b) @ str_frame (as_str (nb_representation_id b)) @
     strs_frame (nb_feature_names b) @ strs_frame (map as_str (nb_observation_ids b)) @
     len_frame (row_count b) @ len_frame (feature_count b) @ concat (map row_frame (buffer_rows b))"

definition buffer_fits :: "feature_buffer \<Rightarrow> bool" where
  "buffer_fits b \<longleftrightarrow>
     length (nb_feature_set_id b) < 2 ^ 64 \<and> length (as_str (nb_representation_id b)) < 2 ^ 64 \<and>
     sizes_fit (nb_feature_names b) \<and> sizes_fit (map as_str (nb_observation_ids b))"

lemma absorb_row_stream:
  assumes "scratch_ok h"
  shows "hashed_stream (fold (\<lambda>column. absorb_cell (column ! row)) columns h) =
      hashed_stream h @ row_frame (map (\<lambda>column. column ! row) columns) \<and>
    scratch_ok (fold (\<lambda>column. absorb_cell (column ! row)) columns h)"
  using sink.stream_fold [of "\<lambda>column. absorb_cell (column ! row)" "\<lambda>column. cell_frame (column ! row)"]
    assms by (simp add: row_frame_def comp_def)

lemma absorb_rows_stream:
  assumes "scratch_ok h"
  shows "hashed_stream (fold (\<lambda>row. fold (\<lambda>column. absorb_cell (column ! row)) columns) rows h) =
    hashed_stream h @ concat (map row_frame (map (\<lambda>row. map (\<lambda>column. column ! row) columns) rows))"
  using sink.stream_fold [of "\<lambda>row. fold (\<lambda>column. absorb_cell (column ! row)) columns"
      "\<lambda>row. row_frame (map (\<lambda>column. column ! row) columns)"] absorb_row_stream assms
  by (simp add: comp_def)

lemma buffer_fingerprint_ok:
  "buffer_fingerprint sha256 b = rseq (buffer_validate b) (Inr (to_hex (sha256 (buffer_preimage b))))"
  by (simp add: buffer_fingerprint_def Let_def finalize_hex_stream absorb_rows_stream buffer_preimage_def
      buffer_rows_def)

lemma buffer_rows_inject:
  assumes "buffer_ok b" and "buffer_ok c" and "nb_observation_ids b = nb_observation_ids c"
    and "nb_feature_names b = nb_feature_names c"
  shows "concat (map row_frame (buffer_rows b)) = concat (map row_frame (buffer_rows c)) \<longleftrightarrow>
    nb_columns b = nb_columns c"
proof
  let ?n = "length (nb_feature_names b)"
  assume "concat (map row_frame (buffer_rows b)) = concat (map row_frame (buffer_rows c))"
  then have "concat (map row_frame (buffer_rows b)) @ [] = concat (map row_frame (buffer_rows c)) @ []" by simp
  then have rows: "buffer_rows b = buffer_rows c"
    using assms
    by (subst (asm) concat_frames_prefix [of "{l. length l = ?n}"])
      (auto simp: row_frame_def cell_frames_prefix buffer_rows_def row_count_def buffer_ok_def)
  have "nb_columns b ! j ! i = nb_columns c ! j ! i"
    if "j < ?n" "i < length (nb_observation_ids b)" for i j
  proof -
    have "buffer_rows b ! i ! j = buffer_rows c ! i ! j" by (simp add: rows)
    then show ?thesis using that assms by (simp add: buffer_rows_def row_count_def buffer_ok_def)
  qed
  then show "nb_columns b = nb_columns c"
    using assms by (auto simp: buffer_ok_def list_all_length intro!: nth_equalityI)
qed (simp add: assms buffer_rows_def row_count_def)

lemma buffer_preimage_inject:
  assumes "buffer_ok b" and "buffer_ok c" and "buffer_fits b" and "buffer_fits c"
  shows "buffer_preimage b = buffer_preimage c \<longleftrightarrow> b = c"
proof
  assume eq: "buffer_preimage b = buffer_preimage c"
  have fit: "row_count b < 2 ^ 64" "row_count c < 2 ^ 64" "feature_count b < 2 ^ 64" "feature_count c < 2 ^ 64"
    using assms(3,4) by (simp_all add: buffer_fits_def sizes_fit_def row_count_def feature_count_def)
  have "nb_feature_set_id b = nb_feature_set_id c"
      "as_str (nb_representation_id b) = as_str (nb_representation_id c)"
      "nb_feature_names b = nb_feature_names c"
      "map as_str (nb_observation_ids b) = map as_str (nb_observation_ids c)"
      and rows: "concat (map row_frame (buffer_rows b)) = concat (map row_frame (buffer_rows c))"
    using eq assms(3,4) fit unfolding buffer_preimage_def buffer_fits_def
    by (simp_all add: str_frame_prefix strs_frame_prefix len_frame_prefix)
  moreover from this have "nb_observation_ids b = nb_observation_ids c"
    by (metis ident.expand inj_map_eq_map injI)
  moreover from this calculation have "nb_columns b = nb_columns c"
    using rows buffer_rows_inject [OF assms(1,2)] by simp
  ultimately show "b = c"
    using assms(1,2) by (auto simp: buffer_ok_def ident.expand)
qed simp

text \<open>
  C25. A fingerprint identifies content. The bytes that are hashed determine the buffer: two well-formed
  buffers whose sizes fit 64 bits have the same preimage only if they are equal in every descriptor
  and every cell, masks included. So their fingerprints agree exactly when SHA-256 maps the two
  preimages to the same digest.
\<close>

theorem fingerprint_identifies_buffer:
  assumes "buffer_ok b" and "buffer_ok c" and "buffer_fits b" and "buffer_fits c"
  shows "(buffer_preimage b = buffer_preimage c \<longleftrightarrow> b = c) \<and>
    (buffer_fingerprint sha256 b = buffer_fingerprint sha256 c \<longleftrightarrow>
       sha256 (buffer_preimage b) = sha256 (buffer_preimage c))"
  using buffer_preimage_inject [OF assms] assms(1,2)
  by (auto simp: buffer_fingerprint_ok buffer_ok_validates dest: to_hex_inj)

definition demo_buffer :: "f64 option \<Rightarrow> feature_buffer" where
  "demo_buffer cell =
     \<lparr>nb_feature_set_id = ''x'', nb_representation_id = Ident ''tabular_numeric'', nb_feature_names = [''a''],
      nb_observation_ids = [Ident ''o''], nb_columns = [[cell]], nb_row_index = row_index_of [Ident ''o'']\<rparr>"

lemma demo_buffer_ok: "buffer_ok (demo_buffer c)" "buffer_fits (demo_buffer c)"
  by (simp_all add: demo_buffer_def buffer_ok_def buffer_fits_def sizes_fit_def is_blank_graphic
      is_ascii_graphic_def byte_of_def)

text \<open>A masked cell and a zero are different content.\<close>

lemma fingerprint_identifies_buffer_witness:
  "buffer_preimage (demo_buffer None) \<noteq> buffer_preimage (demo_buffer (Some f64_zero))"
  using fingerprint_identifies_buffer [OF demo_buffer_ok(1) demo_buffer_ok(1) demo_buffer_ok(2)
      demo_buffer_ok(2), of None "Some f64_zero" id]
  by (simp add: demo_buffer_def)

end
