(* ===== verification/Buffer_Arena.thy ===== *)
theory Buffer_Arena
  imports Buffer_Content
begin

text \<open>
  The store of feature buffers and the arena that binds them to data handles (\<open>buffer.rs\<close>).
  A binding records for which sources a buffer covers the relations of a handle; the projections of
  the arena check it first. The arena is an explicit state that binding and release return updated.
\<close>

section \<open>Stores keyed by what they hold\<close>

text \<open>Selecting values of a keyed store and filing what is made of them under the same keys.\<close>

lemma collect_selected:
  fixes s :: "(string, 'b) btree_map"
  assumes "bt_wf s" and "\<forall>(k, b)\<in>set s. key b = k" and "\<And>b. name (f b) = key b"
  shows "map_of (bt_collect (map (\<lambda>bd. (name bd, bd)) (map f (filter P (bt_values s))))) k = Some bd \<longleftrightarrow>
    (\<exists>b. map_of s k = Some b \<and> P b \<and> bd = f b)"
proof -
  let ?bs = "filter P (bt_values s)"
  let ?kvs = "map (\<lambda>bd. (name bd, bd)) (map f ?bs)"
  have mem: "b \<in> set (bt_values s) \<and> key b = k \<longleftrightarrow> map_of s k = Some b" for b
  proof -
    have "b \<in> set (bt_values s) \<longleftrightarrow> (\<exists>k'. (k', b) \<in> set s)" by force
    moreover have "key b = k'" if "(k', b) \<in> set s" for k' using assms(2) that by blast
    ultimately have "b \<in> set (bt_values s) \<and> key b = k \<longleftrightarrow> (k, b) \<in> set s" by metis
    then show ?thesis unfolding map_of_eq_Some_iff [OF bt_wf_distinct [OF assms(1)]] .
  qed
  have "map key (bt_values s) = bt_keys s" using assms(2) by auto
  then have "distinct (map key (bt_values s))" using assms(1) by (simp only: bt_wf_distinct)
  then have "distinct (map key ?bs)" by (simp add: distinct_map_filter)
  then have dist: "distinct (map fst ?kvs)" by (simp add: comp_def assms(3))
  then have "map_of (bt_collect ?kvs) k = Some bd \<longleftrightarrow> (k, bd) \<in> set ?kvs"
    by (simp only: bt.get_collect_distinct map_of_eq_Some_iff)
  also have "\<dots> \<longleftrightarrow> (\<exists>b\<in>set ?bs. key b = k \<and> bd = f b)" by (auto simp: assms(3))
  also have "\<dots> \<longleftrightarrow> (\<exists>b. map_of s k = Some b \<and> P b \<and> bd = f b)"
    unfolding set_filter mem [symmetric] by blast
  finally show ?thesis .
qed

section \<open>The store\<close>

definition store_new :: "buffer_store \<Rightarrow> buffer_store res" where
  "store_new buffers =
     rseq
       (each_res
          (\<lambda>(feature_set_id, b).
             rseq (buffer_validate b)
               (if feature_set_id \<noteq> nb_feature_set_id b
                then invalid ''feature buffer store key'' else Inr ()))
          buffers)
       (Inr buffers)"

text \<open>The loop shared by the three constructors.\<close>

definition store_from ::
  "('m \<Rightarrow> string) \<Rightarrow> ('m \<Rightarrow> feature_buffer res) \<Rightarrow> string \<Rightarrow> 'm list \<Rightarrow> buffer_store res"
where
  "store_from key build duplicate ms =
     rbind
       (fold_res
          (\<lambda>buffers m.
             rbind (build m)
               (\<lambda>b. if map_of buffers (key m) \<noteq> None then invalid duplicate
                    else Inr (bt_insert (key m) b buffers)))
          [] ms)
       store_new"

definition store_from_feature_tables :: "(string \<Rightarrow> f64 option) \<Rightarrow> feature_table list \<Rightarrow> buffer_store res" where
  "store_from_feature_tables number_f64 =
     store_from ft_feature_set_id (from_feature_table number_f64) ''duplicate feature table''"

definition store_from_f64_matrices :: "f64_matrix list \<Rightarrow> buffer_store res" where
  "store_from_f64_matrices =
     store_from fm_feature_set_id from_f64_matrix ''duplicate f64 feature matrix''"

definition store_from_f64_column_matrices :: "f64_columnar list \<Rightarrow> buffer_store res" where
  "store_from_f64_column_matrices =
     store_from fc_feature_set_id from_f64_column_matrix ''duplicate f64 columnar feature matrix''"

definition store_manifests :: "(u8 list \<Rightarrow> u8 list) \<Rightarrow> buffer_store \<Rightarrow> buffer_manifest list res" where
  "store_manifests sha256 s = map_res (buffer_manifest_of sha256) (bt_values s)"

definition covers :: "feature_buffer \<Rightarrow> coordinator_relation list \<Rightarrow> bool" where
  "covers b rs \<longleftrightarrow> list_all (\<lambda>r. contains_observation b (cr_observation_id r)) rs"

text \<open>The body of the loop over the buffers.\<close>

definition bind_buffer ::
  "(u8 list \<Rightarrow> u8 list) \<Rightarrow> relation_set \<Rightarrow> source_id list \<Rightarrow> representation_id \<Rightarrow>
   buffer_binding list \<Rightarrow> feature_buffer \<Rightarrow> buffer_binding list res"
where
  "bind_buffer sha256 relations source_ids representation_id bindings b =
     (if nb_representation_id b \<noteq> representation_id then Inr bindings
      else if source_ids = []
      then (if covers b (rs_records relations)
            then rbind (binding_for_sources sha256 b []) (\<lambda>bd. Inr (bindings @ [bd]))
            else Inr bindings)
      else
        (let covered_sources =
               filter (\<lambda>s. covers b (filter (\<lambda>r. cr_source_id r = Some s) (rs_records relations))) source_ids
         in if covered_sources \<noteq> []
            then rbind (binding_for_sources sha256 b covered_sources) (\<lambda>bd. Inr (bindings @ [bd]))
            else Inr bindings))"

definition relation_sources :: "relation_set \<Rightarrow> source_id list" where
  "relation_sources relations = bset_of (List.map_filter cr_source_id (rs_records relations))"

definition bindings_for_relations ::
  "(u8 list \<Rightarrow> u8 list) \<Rightarrow> buffer_store \<Rightarrow> relation_set \<Rightarrow> representation_id \<Rightarrow> buffer_binding list res"
where
  "bindings_for_relations sha256 s relations representation_id =
     rseq (relation_set_validate relations)
       (fold_res (bind_buffer sha256 relations (relation_sources relations) representation_id) []
          (bt_values s))"

definition store_project_relations ::
  "(f64 \<Rightarrow> json) \<Rightarrow> buffer_store \<Rightarrow> string \<Rightarrow> relation_set \<Rightarrow> source_id option \<Rightarrow>
   string list option \<Rightarrow> feature_block res"
where
  "store_project_relations json_f64 s feature_set_id relations source_id columns =
     rbind (ok_or (map_of s feature_set_id) (Validation ''unknown feature buffer''))
       (\<lambda>b. project_relations json_f64 b relations source_id columns)"

definition store_project_relations_f64 ::
  "buffer_store \<Rightarrow> string \<Rightarrow> relation_set \<Rightarrow> source_id option \<Rightarrow> string list option \<Rightarrow>
   feature_block_f64 res"
where
  "store_project_relations_f64 s feature_set_id relations source_id columns =
     rbind (ok_or (map_of s feature_set_id) (Validation ''unknown feature buffer''))
       (\<lambda>b. project_relations_f64 b relations source_id columns)"

section \<open>The arena\<close>

definition buffer_arena_new :: "buffer_store \<Rightarrow> buffer_arena" where
  "buffer_arena_new s = \<lparr>ba_store = s, ba_data_bindings = []\<rparr>"

definition bind_data_handle ::
  "(u8 list \<Rightarrow> u8 list) \<Rightarrow> buffer_arena \<Rightarrow> u64 \<Rightarrow> relation_set \<Rightarrow> representation_id \<Rightarrow>
   (buffer_arena \<times> buffer_binding list) res"
where
  "bind_data_handle sha256 a data_handle relations representation_id =
     rbind (bindings_for_relations sha256 (ba_store a) relations representation_id)
       (\<lambda>bindings.
          Inr (a\<lparr>ba_data_bindings :=
                  bt_insert data_handle
                    (bt_collect (map (\<lambda>bd. (bb_feature_set_id bd, bd)) bindings))
                    (ba_data_bindings a)\<rparr>,
               bindings))"

definition buffer_release_data_handle :: "buffer_arena \<Rightarrow> u64 \<Rightarrow> buffer_arena \<times> bool" where
  "buffer_release_data_handle a data_handle =
     (a\<lparr>ba_data_bindings := bt_remove data_handle (ba_data_bindings a)\<rparr>,
      map_of (ba_data_bindings a) data_handle \<noteq> None)"

definition bindings_for_data_handle :: "buffer_arena \<Rightarrow> u64 \<Rightarrow> buffer_binding list res" where
  "bindings_for_data_handle a data_handle =
     rbind (ok_or (map_of (ba_data_bindings a) data_handle)
              (Validation ''data handle has no feature buffer bindings''))
       (\<lambda>bindings. Inr (bt_values bindings))"

definition validate_bound_sources ::
  "buffer_arena \<Rightarrow> u64 \<Rightarrow> string \<Rightarrow> relation_set \<Rightarrow> source_id option \<Rightarrow> unit res"
where
  "validate_bound_sources a data_handle feature_set_id relations source_id =
     rseq (relation_set_validate relations)
       (rbind
          (ok_or (Option.bind (map_of (ba_data_bindings a) data_handle) (\<lambda>bs. map_of bs feature_set_id))
             (Validation ''feature buffer is not bound to data handle''))
          (\<lambda>binding.
             let relation_source_ids = relation_sources relations in
             rbind
               (case source_id of
                  Some s \<Rightarrow>
                    if relation_source_ids = [] \<or> s \<notin> set relation_source_ids
                    then invalid ''source is not present in view for data handle'' else Inr [s]
                | None \<Rightarrow> Inr relation_source_ids)
               (each_res
                  (\<lambda>s. if s \<notin> set (bb_source_ids binding)
                       then invalid ''feature buffer is not bound to source for data handle''
                       else Inr ()))))"

definition project_bound_relations ::
  "(f64 \<Rightarrow> json) \<Rightarrow> buffer_arena \<Rightarrow> u64 \<Rightarrow> string \<Rightarrow> relation_set \<Rightarrow> source_id option \<Rightarrow>
   string list option \<Rightarrow> feature_block res"
where
  "project_bound_relations json_f64 a data_handle feature_set_id relations source_id columns =
     rseq (validate_bound_sources a data_handle feature_set_id relations source_id)
       (store_project_relations json_f64 (ba_store a) feature_set_id relations source_id columns)"

definition project_bound_relations_f64 ::
  "buffer_arena \<Rightarrow> u64 \<Rightarrow> string \<Rightarrow> relation_set \<Rightarrow> source_id option \<Rightarrow> string list option \<Rightarrow>
   feature_block_f64 res"
where
  "project_bound_relations_f64 a data_handle feature_set_id relations source_id columns =
     rseq (validate_bound_sources a data_handle feature_set_id relations source_id)
       (store_project_relations_f64 (ba_store a) feature_set_id relations source_id columns)"

section \<open>Well-formed stores\<close>

definition store_ok :: "buffer_store \<Rightarrow> bool" where
  "store_ok s \<longleftrightarrow> bt_wf s \<and> list_all (\<lambda>(k, b). buffer_ok b \<and> nb_feature_set_id b = k) s"

lemma store_ok_lookup: "store_ok s \<Longrightarrow> map_of s k = Some b \<Longrightarrow> buffer_ok b \<and> nb_feature_set_id b = k"
  by (auto simp: store_ok_def list_all_iff dest: map_of_SomeD)

lemma store_ok_value: "store_ok s \<Longrightarrow> b \<in> set (bt_values s) \<Longrightarrow> buffer_ok b \<and> map_of s (nb_feature_set_id b) = Some b"
  by (auto simp: store_ok_def list_all_iff bt_wf_distinct)

lemma store_ok_empty: "store_ok []"
  by (simp add: store_ok_def bt.wf_empty)

lemma bt_insert_entries: "set (bt_insert k v m) \<subseteq> insert (k, v) (set m)"
  by (induction k v m rule: bt_insert.induct) auto

lemma store_ok_insert:
  assumes "store_ok s" and "buffer_ok b"
  shows "store_ok (bt_insert (nb_feature_set_id b) b s)"
  using assms bt_insert_entries [of "nb_feature_set_id b" b s]
  by (auto simp: store_ok_def list_all_iff bt_wf_insert)

lemma store_new_ok: "store_ok s \<Longrightarrow> store_new s = Inr s"
  by (auto simp: store_new_def store_ok_def rbind_eq_Inr each_res_ok list_all_iff buffer_ok_validates)

lemma store_from_ok:
  assumes "\<And>m b. build m = Inr b \<Longrightarrow> buffer_ok b \<and> nb_feature_set_id b = key m"
    and "store_from key build duplicate ms = Inr s"
  shows "store_ok s"
proof -
  obtain t where t: "fold_res (\<lambda>buffers m. rbind (build m)
      (\<lambda>b. if map_of buffers (key m) \<noteq> None then invalid duplicate
           else Inr (bt_insert (key m) b buffers))) [] ms = Inr t" "store_new t = Inr s"
    using assms(2) by (auto simp: store_from_def rbind_eq_Inr)
  have "store_ok t"
    by (rule fold_res_invariant [OF t(1)])
      (auto simp: rbind_eq_Inr if_Inl_eq_Inr store_ok_empty dest!: assms(1), metis store_ok_insert)
  with t(2) store_new_ok show ?thesis by simp
qed

section \<open>Projection\<close>

definition chosen_columns :: "feature_buffer \<Rightarrow> string list option \<Rightarrow> string list" where
  "chosen_columns b columns = (case columns of None \<Rightarrow> nb_feature_names b | Some cs \<Rightarrow> cs)"

definition position :: "'a \<Rightarrow> 'a list \<Rightarrow> usize" where
  "position x xs = length (takeWhile (\<lambda>y. y \<noteq> x) xs)"

text \<open>The cell of an observation and a feature.\<close>

definition buffer_cell :: "feature_buffer \<Rightarrow> observation_id \<Rightarrow> string \<Rightarrow> f64 option" where
  "buffer_cell b o' n = nb_columns b ! position n (nb_feature_names b) ! position o' (nb_observation_ids b)"

definition projectable :: "feature_buffer \<Rightarrow> relation_set \<Rightarrow> source_id option \<Rightarrow> string list option \<Rightarrow> bool" where
  "projectable b relations source_id columns \<longleftrightarrow>
     relation_set_ok relations \<and> chosen_columns b columns \<noteq> [] \<and> distinct (chosen_columns b columns) \<and>
     set (chosen_columns b columns) \<subseteq> set (nb_feature_names b) \<and>
     cr_observation_id ` set (of_source source_id relations) \<subseteq> set (nb_observation_ids b)"

definition projected_cells ::
  "feature_buffer \<Rightarrow> relation_set \<Rightarrow> source_id option \<Rightarrow> string list option \<Rightarrow> f64 option list list"
where
  "projected_cells b relations source_id columns =
     map (\<lambda>r. map (buffer_cell b (cr_observation_id r)) (chosen_columns b columns))
       (of_source source_id relations)"

lemma position_nth: "distinct xs \<Longrightarrow> i < length xs \<Longrightarrow> position (xs ! i) xs = i"
proof (induction xs arbitrary: i)
  case (Cons x xs)
  then show ?case by (cases i) (auto simp: position_def)
qed simp

lemma position_bound: "x \<in> set xs \<Longrightarrow> position x xs < length xs \<and> xs ! position x xs = x"
  by (induction xs) (auto simp: position_def)

lemma position_unique: "distinct xs \<Longrightarrow> k < length xs \<and> xs ! k = x \<longleftrightarrow> x \<in> set xs \<and> k = position x xs"
  by (metis nth_mem position_bound position_nth)

lemma selected_indices_ok:
  assumes "buffer_ok b"
  shows "selected_indices b columns = Inr indices \<longleftrightarrow>
    chosen_columns b columns \<noteq> [] \<and> distinct (chosen_columns b columns) \<and>
    set (chosen_columns b columns) \<subseteq> set (nb_feature_names b) \<and>
    indices = map (\<lambda>n. position n (nb_feature_names b)) (chosen_columns b columns)"
proof -
  have dist: "distinct (nb_feature_names b)" and ne: "nb_feature_names b \<noteq> []"
    using assms by (simp_all add: buffer_ok_def)
  let ?index = "bt_collect (map (\<lambda>(idx, name). (name, idx)) (List.enumerate 0 (nb_feature_names b)))"
  have known: "map_of ?index c = Some k \<longleftrightarrow> c \<in> set (nb_feature_names b) \<and> k = position c (nb_feature_names b)" for c k
    unfolding name_index [OF dist] by (rule position_unique [OF dist])
  have unknown: "map_of ?index c = None \<longleftrightarrow> c \<notin> set (nb_feature_names b)" for c
    using known [of c] by (metis option.exhaust option.distinct(1))
  have all: "map (\<lambda>n. position n (nb_feature_names b)) (nb_feature_names b) = [0..<length (nb_feature_names b)]"
    using position_nth [OF dist] by (intro nth_equalityI) simp_all
  show ?thesis
  proof (cases columns)
    case None
    then have "selected_indices b columns = Inr indices \<longleftrightarrow> indices = [0..<length (nb_feature_names b)]"
      using ne by (simp add: selected_indices_def buffer_ok_validates [OF assms]) (blast dest: sym)
    with None show ?thesis using ne dist by (simp add: chosen_columns_def all)
  next
    case (Some cs)
    have "map_res (\<lambda>c. ok_or (map_of ?index c) (e :: data_error)) cs = Inr ks \<longleftrightarrow>
        (\<forall>c\<in>set cs. c \<in> set (nb_feature_names b)) \<and> ks = map (\<lambda>c. position c (nb_feature_names b)) cs" for e ks
      by (rule map_res_map) (simp only: ok_or_eq_Inr known)
    with Some show ?thesis
      by (auto simp: selected_indices_def rbind_eq_Inr buffer_ok_validates [OF assms] Let_def
          chosen_columns_def if_Inl_eq_Inr each_fresh_ok unknown)
  qed
qed

lemma row_of_ok:
  assumes "buffer_ok b"
  shows "row_of b r = Inr k \<longleftrightarrow>
    cr_observation_id r \<in> set (nb_observation_ids b) \<and> k = position (cr_observation_id r) (nb_observation_ids b)"
proof -
  have "distinct (nb_observation_ids b)" using assms by (simp add: buffer_ok_def)
  then show ?thesis
    using assms by (simp add: row_of_def ok_or_eq_Inr buffer_ok_def row_index_lookup position_unique)
qed

definition projected_block ::
  "(f64 \<Rightarrow> json) \<Rightarrow> feature_buffer \<Rightarrow> relation_set \<Rightarrow> source_id option \<Rightarrow> string list option \<Rightarrow>
   feature_block"
where
  "projected_block json_f64 b relations source_id columns =
     \<lparr>fb_feature_set_id = nb_feature_set_id b, fb_representation_id = nb_representation_id b,
      fb_feature_names = chosen_columns b columns,
      fb_observation_ids = map cr_observation_id (of_source source_id relations),
      fb_sample_ids = map cr_sample_id (of_source source_id relations),
      fb_values =
        map (map (\<lambda>cell. case cell of None \<Rightarrow> JNull | Some v \<Rightarrow> json_f64 v))
          (projected_cells b relations source_id columns)\<rparr>"

lemma chosen_names:
  "set (chosen_columns b columns) \<subseteq> set (nb_feature_names b) \<Longrightarrow>
   map (\<lambda>n. nb_feature_names b ! position n (nb_feature_names b)) (chosen_columns b columns) =
     chosen_columns b columns"
  by (rule map_idI) (auto simp: position_bound)

lemma project_relations_ok:
  assumes "buffer_ok b"
  shows "project_relations json_f64 b relations source_id columns = Inr block \<longleftrightarrow>
    projectable b relations source_id columns \<and>
    block = projected_block json_f64 b relations source_id columns"
proof -
  let ?indices = "map (\<lambda>n. position n (nb_feature_names b)) (chosen_columns b columns)"
  have "map_res (\<lambda>r. rbind (row_of b r)
        (\<lambda>row. Inr (map (\<lambda>f. case nb_columns b ! f ! row of None \<Rightarrow> JNull | Some v \<Rightarrow> json_f64 v) ?indices)))
        (of_source source_id relations) = Inr vals \<longleftrightarrow>
      (\<forall>r\<in>set (of_source source_id relations). cr_observation_id r \<in> set (nb_observation_ids b)) \<and>
      vals = map (\<lambda>r. map (\<lambda>n. case buffer_cell b (cr_observation_id r) n of
        None \<Rightarrow> JNull | Some v \<Rightarrow> json_f64 v) (chosen_columns b columns)) (of_source source_id relations)" for vals
    by (rule map_res_map) (auto simp: rbind_eq_Inr row_of_ok [OF assms] buffer_cell_def)
  then show ?thesis
    unfolding project_relations_def
    by (auto simp: rbind_eq_Inr relation_set_validate_ok selected_indices_ok [OF assms] projectable_def
        projected_block_def projected_cells_def chosen_names comp_def image_subset_iff)
qed

lemma project_relations_f64_ok:
  assumes "buffer_ok b"
  shows "project_relations_f64 b relations source_id columns = Inr block \<longleftrightarrow>
    projectable b relations source_id columns \<and>
    list_all (list_all (\<lambda>cell. cell \<noteq> None)) (projected_cells b relations source_id columns) \<and>
    block =
      \<lparr>ff_feature_set_id = nb_feature_set_id b, ff_representation_id = nb_representation_id b,
       ff_feature_names = chosen_columns b columns,
       ff_observation_ids = map cr_observation_id (of_source source_id relations),
       ff_sample_ids = map cr_sample_id (of_source source_id relations),
       ff_values = concat (map (map the) (projected_cells b relations source_id columns))\<rparr>"
proof -
  let ?indices = "map (\<lambda>n. position n (nb_feature_names b)) (chosen_columns b columns)"
  let ?cell = "\<lambda>r. buffer_cell b (cr_observation_id r)"
  have cells: "map_res (\<lambda>f. ok_or (nb_columns b ! f ! position (cr_observation_id r) (nb_observation_ids b)) (e :: data_error)) ?indices =
      Inr vs \<longleftrightarrow> (\<forall>n\<in>set (chosen_columns b columns). ?cell r n \<noteq> None) \<and>
        vs = map (\<lambda>n. the (?cell r n)) (chosen_columns b columns)" for r e vs
  proof -
    have "map_res (\<lambda>f. ok_or (nb_columns b ! f ! position (cr_observation_id r) (nb_observation_ids b)) (e :: data_error)) ?indices =
        Inr vs \<longleftrightarrow> (\<forall>f\<in>set ?indices. nb_columns b ! f ! position (cr_observation_id r) (nb_observation_ids b) \<noteq> None) \<and>
        vs = map (\<lambda>f. the (nb_columns b ! f ! position (cr_observation_id r) (nb_observation_ids b))) ?indices"
      by (rule map_res_map) (auto simp: ok_or_eq_Inr)
    then show ?thesis by (simp add: buffer_cell_def comp_def)
  qed
  have "map_res (\<lambda>r. rbind (row_of b r)
        (\<lambda>row. map_res (\<lambda>f. ok_or (nb_columns b ! f ! row) e) ?indices))
        (of_source source_id relations) = Inr rows \<longleftrightarrow>
      (\<forall>r\<in>set (of_source source_id relations). cr_observation_id r \<in> set (nb_observation_ids b) \<and>
        (\<forall>n\<in>set (chosen_columns b columns). ?cell r n \<noteq> None)) \<and>
      rows = map (\<lambda>r. map (\<lambda>n. the (?cell r n)) (chosen_columns b columns)) (of_source source_id relations)" for e rows
    by (rule map_res_map) (auto simp: rbind_eq_Inr row_of_ok [OF assms] cells)
  then show ?thesis
    unfolding project_relations_f64_def
    by (auto simp: rbind_eq_Inr relation_set_validate_ok selected_indices_ok [OF assms] projectable_def
        projected_cells_def chosen_names comp_def image_subset_iff list_all_iff)
qed

lemma unmasked_cells_json:
  "list_all (list_all (\<lambda>cell. \<exists>v. cell = Some v)) rows \<Longrightarrow>
   map (map (json_f64 \<circ> the)) rows = map (map (\<lambda>cell. case cell of None \<Rightarrow> JNull | Some v \<Rightarrow> json_f64 v)) rows"
  by (fastforce simp: list_all_iff)

lemma typed_projection:
  assumes "buffer_ok b"
  shows "is_ok (project_relations_f64 b relations source_id columns) \<longleftrightarrow>
      is_ok (project_relations json_f64 b relations source_id columns) \<and>
      list_all (list_all (\<lambda>cell. cell \<noteq> None)) (projected_cells b relations source_id columns)"
    and "project_relations_f64 b relations source_id columns = Inr out \<Longrightarrow>
      project_relations json_f64 b relations source_id columns = Inr block \<Longrightarrow>
      ff_feature_names out = fb_feature_names block \<and> ff_observation_ids out = fb_observation_ids block \<and>
      ff_sample_ids out = fb_sample_ids block \<and> map json_f64 (ff_values out) = concat (fb_values block)"
proof -
  show "is_ok (project_relations_f64 b relations source_id columns) \<longleftrightarrow>
      is_ok (project_relations json_f64 b relations source_id columns) \<and>
      list_all (list_all (\<lambda>cell. cell \<noteq> None)) (projected_cells b relations source_id columns)"
    by (simp add: is_ok_iff project_relations_ok [OF assms] project_relations_f64_ok [OF assms])
  assume "project_relations_f64 b relations source_id columns = Inr out"
      and "project_relations json_f64 b relations source_id columns = Inr block"
  then show "ff_feature_names out = fb_feature_names block \<and> ff_observation_ids out = fb_observation_ids block \<and>
      ff_sample_ids out = fb_sample_ids block \<and> map json_f64 (ff_values out) = concat (fb_values block)"
    by (simp add: project_relations_ok [OF assms] project_relations_f64_ok [OF assms] projected_block_def
        map_concat unmasked_cells_json)
qed

section \<open>Bindings\<close>

definition covered_sources :: "feature_buffer \<Rightarrow> relation_set \<Rightarrow> source_id list" where
  "covered_sources b relations =
     filter (\<lambda>s. covers b (filter (\<lambda>r. cr_source_id r = Some s) (rs_records relations)))
       (relation_sources relations)"

definition bound :: "relation_set \<Rightarrow> representation_id \<Rightarrow> feature_buffer \<Rightarrow> bool" where
  "bound relations representation_id b \<longleftrightarrow>
     nb_representation_id b = representation_id \<and>
     (if relation_sources relations = [] then covers b (rs_records relations)
      else covered_sources b relations \<noteq> [])"

definition describe :: "(u8 list \<Rightarrow> u8 list) \<Rightarrow> feature_buffer \<Rightarrow> source_id list \<Rightarrow> buffer_binding" where
  "describe sha256 b source_ids =
     \<lparr>bb_feature_set_id = nb_feature_set_id b, bb_representation_id = nb_representation_id b,
      bb_source_ids = source_ids, bb_row_count = row_count b, bb_feature_count = feature_count b,
      bb_buffer_fingerprint = to_hex (sha256 (buffer_preimage b))\<rparr>"

lemma bind_buffer_ok:
  assumes "buffer_ok b"
  shows "bind_buffer sha256 relations (relation_sources relations) rep bindings b =
    Inr (bindings @ (if bound relations rep b then [describe sha256 b (covered_sources b relations)] else []))"
proof -
  have "binding_for_sources sha256 b ss = Inr (describe sha256 b ss)" for ss
    by (simp add: binding_for_sources_def buffer_fingerprint_ok buffer_ok_validates [OF assms] describe_def)
  moreover have "relation_sources relations = [] \<Longrightarrow> covered_sources b relations = []"
    by (simp add: covered_sources_def)
  ultimately show ?thesis
    by (simp add: bind_buffer_def bound_def Let_def covered_sources_def [symmetric])
qed

lemma bindings_for_relations_ok:
  assumes "store_ok s"
  shows "bindings_for_relations sha256 s relations rep =
    rseq (relation_set_validate relations)
      (Inr (map (\<lambda>b. describe sha256 b (covered_sources b relations)) (filter (bound relations rep) (bt_values s))))"
proof -
  have "fold_res (bind_buffer sha256 relations (relation_sources relations) rep) bindings bs =
      Inr (bindings @ map (\<lambda>b. describe sha256 b (covered_sources b relations)) (filter (bound relations rep) bs))"
    if "\<forall>b\<in>set bs. buffer_ok b" for bs bindings
    using that by (induction bs arbitrary: bindings) (simp_all add: bind_buffer_ok)
  moreover have "\<forall>b\<in>set (bt_values s). buffer_ok b" using store_ok_value [OF assms] by blast
  ultimately show ?thesis unfolding bindings_for_relations_def by simp
qed

lemma describe_simps [simp]:
  "bb_feature_set_id (describe sha256 b ss) = nb_feature_set_id b" "bb_source_ids (describe sha256 b ss) = ss"
  by (simp_all add: describe_def)

lemma store_ids: "store_ok s \<Longrightarrow> map nb_feature_set_id (bt_values s) = bt_keys s"
  by (auto simp: store_ok_def list_all_iff)

lemma binding_lookup:
  assumes "store_ok s"
  shows "map_of (bt_collect (map (\<lambda>bd. (bb_feature_set_id bd, bd))
      (map (\<lambda>b. describe sha256 b (covered_sources b relations)) (filter (bound relations rep) (bt_values s))))) k =
    Some bd \<longleftrightarrow>
    (\<exists>b. map_of s k = Some b \<and> bound relations rep b \<and> bd = describe sha256 b (covered_sources b relations))"
  using assms by (intro collect_selected [where key = nb_feature_set_id]) (auto simp: store_ok_def list_all_iff)

lemma bind_data_handle_ok:
  assumes "store_ok (ba_store a)"
  shows "bind_data_handle sha256 a h relations rep = Inr (a', bs) \<longleftrightarrow>
    relation_set_ok relations \<and>
    bs = map (\<lambda>b. describe sha256 b (covered_sources b relations))
      (filter (bound relations rep) (bt_values (ba_store a))) \<and>
    a' = a\<lparr>ba_data_bindings := bt_insert h (bt_collect (map (\<lambda>bd. (bb_feature_set_id bd, bd)) bs))
      (ba_data_bindings a)\<rparr>"
  by (auto simp: bind_data_handle_def bindings_for_relations_ok [OF assms] rbind_eq_Inr relation_set_validate_ok)

text \<open>Every state that binding and release reach.\<close>

inductive buffer_arena_step :: "(u8 list \<Rightarrow> u8 list) \<Rightarrow> buffer_arena \<Rightarrow> buffer_arena \<Rightarrow> bool" for sha256 where
  bind: "bind_data_handle sha256 a h relations rep = Inr (a', bs) \<Longrightarrow> buffer_arena_step sha256 a a'"
| release: "buffer_arena_step sha256 a (fst (buffer_release_data_handle a h))"

definition bindings_true :: "(u8 list \<Rightarrow> u8 list) \<Rightarrow> buffer_arena \<Rightarrow> bool" where
  "bindings_true sha256 a \<longleftrightarrow>
     (\<forall>h m k bd. map_of (ba_data_bindings a) h = Some m \<longrightarrow> map_of m k = Some bd \<longrightarrow>
        (\<exists>b. map_of (ba_store a) k = Some b \<and> bd = describe sha256 b (bb_source_ids bd)))"

lemma buffer_step_true:
  assumes "buffer_arena_step sha256 a t" and "store_ok (ba_store a)" and "bindings_true sha256 a"
  shows "ba_store t = ba_store a \<and> bindings_true sha256 t"
  using assms(1)
proof cases
  case (bind h relations rep bs)
  then have t: "t = a\<lparr>ba_data_bindings := bt_insert h (bt_collect (map (\<lambda>bd. (bb_feature_set_id bd, bd)) bs))
        (ba_data_bindings a)\<rparr>"
    and bs: "bs = map (\<lambda>b. describe sha256 b (covered_sources b relations))
        (filter (bound relations rep) (bt_values (ba_store a)))"
    using bind_data_handle_ok [OF assms(2)] by simp_all
  have "\<exists>b. map_of (ba_store a) k = Some b \<and> bd = describe sha256 b (bb_source_ids bd)"
    if "map_of (bt_collect (map (\<lambda>bd. (bb_feature_set_id bd, bd)) bs)) k = Some bd" for k bd
    using that unfolding bs binding_lookup [OF assms(2)] by auto
  with t assms(3) show ?thesis by (auto simp: bindings_true_def map_of_bt_insert)
next
  case (release h)
  with assms(3) show ?thesis
    by (auto simp: bindings_true_def buffer_release_data_handle_def map_of_bt_remove)
qed

lemma buffer_steps_true:
  assumes "(buffer_arena_step sha256)\<^sup>*\<^sup>* (buffer_arena_new s) a" and "store_ok s"
  shows "ba_store a = s \<and> bindings_true sha256 a"
  using assms(1)
proof (induction rule: rtranclp_induct)
  case base
  then show ?case by (simp add: buffer_arena_new_def bindings_true_def)
next
  case (step a t)
  with buffer_step_true [OF step.hyps(2)] assms(2) show ?case by simp
qed

lemma covers_records: "covers b rs \<longleftrightarrow> (\<forall>r\<in>set rs. contains_observation b (cr_observation_id r))"
  by (simp add: covers_def list_all_iff)

lemma contains_observation_ok: "buffer_ok b \<Longrightarrow> contains_observation b o' \<longleftrightarrow> o' \<in> set (nb_observation_ids b)"
  by (simp add: contains_observation_def buffer_ok_def row_index_keys)

lemma set_relation_sources: "set (relation_sources relations) = {s. \<exists>r\<in>set (rs_records relations). cr_source_id r = Some s}"
  by (auto simp: relation_sources_def set_map_filter)

definition serves :: "buffer_binding \<Rightarrow> relation_set \<Rightarrow> bool" where
  "serves bd view \<longleftrightarrow>
     list_all (\<lambda>r. case cr_source_id r of None \<Rightarrow> bb_source_ids bd = [] | Some s \<Rightarrow> s \<in> set (bb_source_ids bd))
       (rs_records view)"

lemma bound_view_covered:
  assumes "buffer_ok b" and "bound relations rep b" and "set (rs_records view) \<subseteq> set (rs_records relations)"
    and "serves (describe sha256 b (covered_sources b relations)) view" and "r \<in> set (rs_records view)"
  shows "cr_observation_id r \<in> set (nb_observation_ids b)"
proof (cases "cr_source_id r")
  case None
  then have "covered_sources b relations = []" using assms(4,5) by (auto simp: serves_def list_all_iff)
  then have "covers b (rs_records relations)"
    using assms(2) by (auto simp: bound_def split: if_splits)
  then show ?thesis using assms(1,3,5) contains_observation_ok by (auto simp: covers_records)
next
  case (Some s)
  then have "s \<in> set (covered_sources b relations)" using assms(4,5) by (auto simp: serves_def list_all_iff)
  then have "covers b (filter (\<lambda>r. cr_source_id r = Some s) (rs_records relations))"
    by (simp add: covered_sources_def)
  then show ?thesis using Some assms(1,3,5) contains_observation_ok by (auto simp: covers_records)
qed

text \<open>
  The arena serves the views of a bound handle: once a data handle is bound, a non-empty valid
  part of its relations whose sources the binding lists always projects on that buffer. The block has
  the view's observations and samples in order and in every cell the value that the buffer holds.
\<close>

lemma bound_views_project:
  assumes "store_ok (ba_store a)" and "bind_data_handle sha256 a h relations rep = Inr (a', bs)"
    and "bd \<in> set bs" and "relation_set_ok view" and "set (rs_records view) \<subseteq> set (rs_records relations)"
    and "serves bd view"
  shows "\<exists>b. map_of (ba_store a) (bb_feature_set_id bd) = Some b \<and>
    project_bound_relations json_f64 a' h (bb_feature_set_id bd) view None None =
      Inr (projected_block json_f64 b view None None)"
proof -
  have bs: "bs = map (\<lambda>b. describe sha256 b (covered_sources b relations))
      (filter (bound relations rep) (bt_values (ba_store a)))"
    and a': "a' = a\<lparr>ba_data_bindings := bt_insert h (bt_collect (map (\<lambda>bd. (bb_feature_set_id bd, bd)) bs))
      (ba_data_bindings a)\<rparr>"
    using assms(1,2) by (simp_all add: bind_data_handle_ok)
  obtain b where b: "b \<in> set (bt_values (ba_store a))" "bound relations rep b"
      "bd = describe sha256 b (covered_sources b relations)"
    using assms(3) bs by auto
  have ok: "buffer_ok b" and stored: "map_of (ba_store a) (nb_feature_set_id b) = Some b"
    using store_ok_value [OF assms(1) b(1)] by simp_all
  have found: "map_of (bt_collect (map (\<lambda>bd. (bb_feature_set_id bd, bd)) bs)) (nb_feature_set_id b) = Some bd"
    unfolding bs binding_lookup [OF assms(1)] using stored b(2,3) by blast
  have sources: "\<forall>s\<in>set (relation_sources view). s \<in> set (bb_source_ids bd)"
    using assms(6) by (auto simp: set_relation_sources serves_def list_all_iff split: option.splits)
  have "validate_bound_sources a' h (nb_feature_set_id b) view None = Inr ()"
    using assms(4) found sources
    by (simp add: validate_bound_sources_def a' map_of_bt_insert relation_set_validate_ok each_res_ok
        if_Inl_eq_Inr rbind_eq_Inr)
  moreover have "projectable b view None None"
    using ok assms(4) bound_view_covered [OF ok b(2) assms(5)] assms(6) b(3)
    by (auto simp: projectable_def chosen_columns_def of_source_def buffer_ok_def)
  then have "project_relations json_f64 b view None None = Inr (projected_block json_f64 b view None None)"
    by (simp add: project_relations_ok [OF ok])
  ultimately have "project_bound_relations json_f64 a' h (nb_feature_set_id b) view None None =
      Inr (projected_block json_f64 b view None None)"
    by (simp add: project_bound_relations_def store_project_relations_def a' stored)
  then show ?thesis using stored b(3) by auto
qed

text \<open>
  In every state that binding and release reach from a well-formed store, each binding that a data
  handle holds describes a buffer of the store: its representation, its shape and its fingerprint.
\<close>

lemma bindings_describe_store:
  assumes "store_ok s" and "(buffer_arena_step sha256)\<^sup>*\<^sup>* (buffer_arena_new s) a"
    and "map_of (ba_data_bindings a) h = Some m" and "map_of m k = Some bd"
  shows "\<exists>b. map_of s k = Some b \<and> bd = describe sha256 b (bb_source_ids bd)"
  using buffer_steps_true [OF assms(2,1)] assms(3,4) by (auto simp: bindings_true_def)

section \<open>An example\<close>

definition demo_store :: buffer_store where
  "demo_store = [(''x'', demo_buffer (Some f64_zero))]"

definition demo_relations :: relation_set where
  "demo_relations = \<lparr>rs_records = [relation_new (Ident ''o'') (Ident ''s'')]\<rparr>"

definition demo_binding :: "(u8 list \<Rightarrow> u8 list) \<Rightarrow> buffer_binding" where
  "demo_binding sha256 = describe sha256 (demo_buffer (Some f64_zero)) []"

definition demo_bound :: "(u8 list \<Rightarrow> u8 list) \<Rightarrow> buffer_arena" where
  "demo_bound sha256 =
     \<lparr>ba_store = demo_store, ba_data_bindings = [(7, [(''x'', demo_binding sha256)])]\<rparr>"

lemma demo_store_ok: "store_ok demo_store"
  using demo_buffer_ok(1) by (simp add: store_ok_def demo_store_def bt_wf_def) (simp add: demo_buffer_def)

lemma demo_relations_ok: "relation_set_ok demo_relations"
  by (simp add: relation_set_ok_def demo_relations_def plain_relation_ok)

lemma demo_binds:
  "bind_data_handle sha256 (buffer_arena_new demo_store) 7 demo_relations (Ident ''tabular_numeric'') =
     Inr (demo_bound sha256, [demo_binding sha256])"
proof -
  have sources: "relation_sources demo_relations = []"
    by (simp add: relation_sources_def demo_relations_def relation_new_def List.map_filter_def)
  have "contains_observation (demo_buffer (Some f64_zero)) (Ident ''o'')"
    using demo_buffer_ok(1) by (simp add: contains_observation_ok) (simp add: demo_buffer_def)
  then have "bound demo_relations (Ident ''tabular_numeric'') (demo_buffer (Some f64_zero))"
    by (simp add: bound_def sources covers_def) (simp add: demo_relations_def relation_new_def demo_buffer_def)
  moreover have "nb_feature_set_id (demo_buffer (Some f64_zero)) = ''x''" by (simp add: demo_buffer_def)
  ultimately show ?thesis
    by (simp add: bind_data_handle_ok buffer_arena_new_def demo_store_ok demo_relations_ok)
      (simp add: demo_store_def demo_bound_def demo_binding_def covered_sources_def sources bt_collect_def)
qed

lemma bound_views_project_witness:
  "\<exists>b. map_of demo_store ''x'' = Some b \<and>
     project_bound_relations (\<lambda>_. JNull) (demo_bound rev) 7 ''x'' demo_relations None None =
       Inr (projected_block (\<lambda>_. JNull) b demo_relations None None)"
proof -
  have "serves (demo_binding rev) demo_relations"
    by (simp add: serves_def demo_relations_def relation_new_def demo_binding_def)
  then show ?thesis
    using bound_views_project [OF _ demo_binds, of "demo_binding rev" rev demo_relations "\<lambda>_. JNull"]
      demo_store_ok demo_relations_ok
    by (simp add: buffer_arena_new_def demo_binding_def demo_buffer_def)
qed

lemma bindings_describe_store_witness:
  "\<exists>b. map_of demo_store ''x'' = Some b \<and> demo_binding rev = describe rev b (bb_source_ids (demo_binding rev))"
proof (rule bindings_describe_store [OF demo_store_ok])
  show "(buffer_arena_step rev)\<^sup>*\<^sup>* (buffer_arena_new demo_store) (demo_bound rev)"
    using buffer_arena_step.bind [OF demo_binds] by blast
  show "map_of (ba_data_bindings (demo_bound rev)) 7 = Some [(''x'', demo_binding rev)]"
    by (simp add: demo_bound_def)
qed simp

end
