(* ===== verification/File_System.thy ===== *)
theory File_System
  imports Data_Error
begin

text \<open>
  What the code uses of \<open>std::fs\<close>: whole files read and written by path. Any path may fail, which
  the field \<open>fs_failing\<close> says; a write replaces the file and changes no other.
\<close>

record file_system =
  fs_files :: "string \<rightharpoonup> u8 list"
  fs_failing :: "string \<Rightarrow> bool"

definition fs_write :: "string \<Rightarrow> u8 list \<Rightarrow> file_system \<Rightarrow> file_system option" where
  "fs_write path bytes fs =
     (if fs_failing fs path then None else Some (fs\<lparr>fs_files := (fs_files fs)(path \<mapsto> bytes)\<rparr>))"

definition fs_read :: "string \<Rightarrow> file_system \<Rightarrow> u8 list option" where
  "fs_read path fs = (if fs_failing fs path then None else fs_files fs path)"

lemma fs_read_write: "fs_write path bytes fs = Some fs' \<Longrightarrow> fs_read path fs' = Some bytes"
  by (auto simp: fs_write_def fs_read_def split: if_splits)

lemma fs_read_write_other:
  "fs_write path bytes fs = Some fs' \<Longrightarrow> p \<noteq> path \<Longrightarrow> fs_read p fs' = fs_read p fs"
  by (auto simp: fs_write_def fs_read_def split: if_splits)

end
