(* ===== verification/Buffer_File.thy ===== *)
theory Buffer_File
  imports Buffer_Arena File_System
begin

text \<open>
  The binary file of a buffer store (\<open>buffer_file_store.rs\<close>): a versioned little-endian byte stream
  with a SHA-256 trailer. The writer panics (\<open>None\<close>) when a count does not fit 32 bits. The reader
  works on the whole byte vector with a cursor, as the code does; a slice out of range would panic, so
  it is an error of its own, shown never to occur. \<open>can_reserve\<close> says which allocations succeed.
\<close>

section \<open>Writing\<close>

definition u32_bytes :: "usize \<Rightarrow> u8 list option" where
  "u32_bytes n = (if n < 2 ^ 32 then Some (le_bytes 4 n) else None)"

definition file_magic :: "u8 list" where
  "file_magic = str_bytes ''N4DF''"

definition file_version :: usize where
  "file_version = 1"

definition trailer_len :: usize where
  "trailer_len = 32"

definition write_string :: "string \<Rightarrow> u8 list option" where
  "write_string s = map_option (\<lambda>len. len @ str_bytes s) (u32_bytes (length s))"

definition concat_option :: "'a list option list \<Rightarrow> 'a list option" where
  "concat_option parts = map_option concat (those parts)"

definition write_buffer :: "f64_columnar \<Rightarrow> u8 list option" where
  "write_buffer m =
     concat_option
       ([write_string (fc_feature_set_id m), write_string (as_str (fc_representation_id m)),
         u32_bytes (length (fc_observation_ids m)), u32_bytes (length (fc_feature_names m)),
         Some [if fc_validity_masks m \<noteq> None then 1 else 0]] @
        map write_string (fc_feature_names m) @
        map (\<lambda>o'. write_string (as_str o')) (fc_observation_ids m) @
        map (\<lambda>column. Some (concat (map u64_bytes column))) (fc_columns m) @
        (case fc_validity_masks m of
           None \<Rightarrow> []
         | Some ms \<Rightarrow> map (\<lambda>flags. Some (map (\<lambda>present. if present then 1 else 0) flags)) ms))"

definition store_payload :: "buffer_store \<Rightarrow> u8 list option" where
  "store_payload s =
     concat_option
       ([Some file_magic, u32_bytes file_version, u32_bytes (length s)] @
        map (\<lambda>(_, b). write_buffer (to_f64_column_matrix b)) s)"

definition serialize_columnar_store :: "(u8 list \<Rightarrow> u8 list) \<Rightarrow> buffer_store \<Rightarrow> u8 list option" where
  "serialize_columnar_store sha256 s = map_option (\<lambda>payload. payload @ sha256 payload) (store_payload s)"

section \<open>Reading\<close>

text \<open>\<open>std::str::from_utf8\<close>: the well-formed byte sequences of the Unicode standard.\<close>

definition continuation :: "u8 \<Rightarrow> bool" where
  "continuation b \<longleftrightarrow> 128 \<le> b \<and> b < 192"

fun utf8_valid :: "u8 list \<Rightarrow> bool" where
  "utf8_valid [] \<longleftrightarrow> True"
| "utf8_valid (a # bs) \<longleftrightarrow>
     (if a < 128 then utf8_valid bs
      else if 194 \<le> a \<and> a < 224
      then (case bs of b # cs \<Rightarrow> continuation b \<and> utf8_valid cs | _ \<Rightarrow> False)
      else if 224 \<le> a \<and> a < 240
      then
        (case bs of
           b # c # cs \<Rightarrow>
             (if a = 224 then 160 \<le> b \<and> b < 192 else if a = 237 then 128 \<le> b \<and> b < 160 else continuation b) \<and>
             continuation c \<and> utf8_valid cs
         | _ \<Rightarrow> False)
      else if 240 \<le> a \<and> a < 245
      then
        (case bs of
           b # c # d # cs \<Rightarrow>
             (if a = 240 then 144 \<le> b \<and> b < 192 else if a = 244 then 128 \<le> b \<and> b < 144 else continuation b) \<and>
             continuation c \<and> continuation d \<and> utf8_valid cs
         | _ \<Rightarrow> False)
      else False)"

definition string_of_bytes :: "u8 list \<Rightarrow> string" where
  "string_of_bytes bs = map (\<lambda>b. char_of (unat b)) bs"

text \<open>\<open>&bytes[a..b]\<close> panics outside the vector.\<close>

definition slice_panic :: data_error where
  "slice_panic = Validation ''panic: slice out of range''"

definition bytes_slice :: "u8 list \<Rightarrow> usize \<Rightarrow> usize \<Rightarrow> u8 list res" where
  "bytes_slice bytes a b =
     (if a \<le> b \<and> b \<le> length bytes then Inr (take (b - a) (drop a bytes)) else Inl slice_panic)"

definition byte_at :: "u8 list \<Rightarrow> usize \<Rightarrow> u8 res" where
  "byte_at bytes i = (if i < length bytes then Inr (bytes ! i) else Inl slice_panic)"

definition ensure_remaining :: "usize \<Rightarrow> usize \<Rightarrow> usize \<Rightarrow> unit res" where
  "ensure_remaining payload_end cursor needed =
     (if cursor > payload_end \<or> needed > payload_end - cursor then invalid ''truncated at cursor'' else Inr ())"

definition ensure_count_fits :: "usize \<Rightarrow> usize \<Rightarrow> usize \<Rightarrow> usize \<Rightarrow> unit res" where
  "ensure_count_fits payload_end cursor n minimum_bytes =
     rbind (ok_or (checked_mul n minimum_bytes) (Validation ''size overflows usize''))
       (ensure_remaining payload_end cursor)"

definition reserved_vec :: "(usize \<Rightarrow> bool) \<Rightarrow> usize \<Rightarrow> unit res" where
  "reserved_vec can_reserve n =
     (if can_reserve n then Inr () else invalid ''feature buffer file allocation failed'')"

definition read_u32 :: "u8 list \<Rightarrow> usize \<Rightarrow> usize res" where
  "read_u32 bytes offset =
     (if offset + 4 > length bytes then invalid ''truncated reading u32''
      else rbind (bytes_slice bytes offset (offset + 4)) (\<lambda>raw. Inr (le_value raw)))"

type_synonym 'a reader = "u8 list \<Rightarrow> usize \<Rightarrow> usize \<Rightarrow> ('a \<times> usize) res"

definition read_u32_advance :: "usize reader" where
  "read_u32_advance bytes payload_end cursor =
     rseq (ensure_remaining payload_end cursor 4)
       (rbind (bytes_slice bytes cursor (cursor + 4)) (\<lambda>raw. Inr (le_value raw, cursor + 4)))"

definition read_u8_advance :: "u8 reader" where
  "read_u8_advance bytes payload_end cursor =
     rseq (ensure_remaining payload_end cursor 1)
       (rbind (byte_at bytes cursor) (\<lambda>b. Inr (b, cursor + 1)))"

definition read_string :: "string reader" where
  "read_string bytes payload_end cursor =
     rbind (read_u32_advance bytes payload_end cursor)
       (\<lambda>(len, cursor).
          rseq (ensure_remaining payload_end cursor len)
            (rbind (bytes_slice bytes cursor (cursor + len))
               (\<lambda>raw.
                  if \<not> utf8_valid raw then invalid ''invalid utf-8 string''
                  else Inr (string_of_bytes raw, cursor + len))))"

definition read_ident :: "'k ident reader" where
  "read_ident bytes payload_end cursor =
     rbind (read_string bytes payload_end cursor)
       (\<lambda>(raw, cursor). rbind (ident_new raw) (\<lambda>i. Inr (i, cursor)))"

text \<open>\<open>for _ in 0..n { v.push(read(bytes, &mut cursor)?) }\<close>\<close>

primrec read_many :: "nat \<Rightarrow> 'a reader \<Rightarrow> 'a list reader" where
  "read_many 0 rd bytes payload_end cursor = Inr ([], cursor)"
| "read_many (Suc n) rd bytes payload_end cursor =
     rbind (rd bytes payload_end cursor)
       (\<lambda>(x, cursor). rbind (read_many n rd bytes payload_end cursor) (\<lambda>(xs, cursor). Inr (x # xs, cursor)))"

definition read_column :: "(usize \<Rightarrow> bool) \<Rightarrow> usize \<Rightarrow> f64 list reader" where
  "read_column can_reserve rows bytes payload_end cursor =
     rbind (ok_or (checked_mul rows 8) (Validation ''column size overflows usize''))
       (\<lambda>needed.
          rseq (ensure_remaining payload_end cursor needed)
         (rseq (reserved_vec can_reserve rows)
            (rbind
               (map_res
                  (\<lambda>row. rbind (bytes_slice bytes (cursor + row * 8) (cursor + row * 8 + 8))
                           (\<lambda>raw. Inr (of_nat (le_value raw))))
                  [0..<rows])
               (\<lambda>column. Inr (column, cursor + needed)))))"

definition read_flags :: "(usize \<Rightarrow> bool) \<Rightarrow> usize \<Rightarrow> bool list reader" where
  "read_flags can_reserve rows bytes payload_end cursor =
     rseq (ensure_remaining payload_end cursor rows)
    (rseq (reserved_vec can_reserve rows)
       (rbind
          (map_res
             (\<lambda>offset. rbind (byte_at bytes (cursor + offset))
                (\<lambda>b. if b > 1 then invalid ''validity byte is not 0 or 1'' else Inr (b = 1)))
             [0..<rows])
          (\<lambda>flags. Inr (flags, cursor + rows))))"

text \<open>What follows the header of a buffer: its sizes are checked against the payload first.\<close>

definition check_sizes :: "usize \<Rightarrow> usize \<Rightarrow> usize \<Rightarrow> usize \<Rightarrow> u8 \<Rightarrow> unit res" where
  "check_sizes payload_end cursor rows width has_validity =
     (if has_validity > 1 then invalid ''invalid has_validity byte''
      else
        rseq (ensure_count_fits payload_end cursor width 4)
       (rseq (ensure_count_fits payload_end cursor rows 4)
          (rbind
             (ok_or (checked_mul rows width) (Validation ''matrix dimensions overflow usize''))
             (\<lambda>cells. ensure_count_fits payload_end cursor cells (8 + unat has_validity)))))"

definition read_body ::
  "(usize \<Rightarrow> bool) \<Rightarrow> string \<Rightarrow> representation_id \<Rightarrow> usize \<Rightarrow> usize \<Rightarrow> u8 \<Rightarrow> f64_columnar reader"
where
  "read_body can_reserve feature_set_id representation_id rows width has_validity
      bytes payload_end cursor =
     rseq (check_sizes payload_end cursor rows width has_validity)
    (rseq (reserved_vec can_reserve width)
    (rbind (read_many width read_string bytes payload_end cursor)
       (\<lambda>(feature_names, cursor).
     rseq (reserved_vec can_reserve rows)
    (rbind (read_many rows read_ident bytes payload_end cursor)
       (\<lambda>(observation_ids, cursor).
     rseq (reserved_vec can_reserve width)
    (rbind (read_many width (read_column can_reserve rows) bytes payload_end cursor)
       (\<lambda>(columns, cursor).
     rbind
       (if has_validity = 1
        then
          rseq (reserved_vec can_reserve width)
            (rbind (read_many width (read_flags can_reserve rows) bytes payload_end cursor)
               (\<lambda>(masks, cursor). Inr (Some masks, cursor)))
        else Inr (None, cursor))
       (\<lambda>(validity_masks, cursor).
     Inr (\<lparr>fc_feature_set_id = feature_set_id, fc_representation_id = representation_id,
           fc_feature_names = feature_names, fc_observation_ids = observation_ids,
           fc_columns = columns, fc_validity_masks = validity_masks\<rparr>, cursor)))))))))"

definition read_buffer :: "(usize \<Rightarrow> bool) \<Rightarrow> f64_columnar reader" where
  "read_buffer can_reserve bytes payload_end cursor =
     rbind (read_string bytes payload_end cursor)
       (\<lambda>(feature_set_id, cursor).
     rbind (read_ident bytes payload_end cursor)
       (\<lambda>(representation_id, cursor).
     rbind (read_u32_advance bytes payload_end cursor)
       (\<lambda>(rows, cursor).
     rbind (read_u32_advance bytes payload_end cursor)
       (\<lambda>(width, cursor).
     rbind (read_u8_advance bytes payload_end cursor)
       (\<lambda>(has_validity, cursor).
     read_body can_reserve feature_set_id representation_id rows width has_validity
       bytes payload_end cursor)))))"

definition deserialize_columnar_store ::
  "(usize \<Rightarrow> bool) \<Rightarrow> (u8 list \<Rightarrow> u8 list) \<Rightarrow> u8 list \<Rightarrow> buffer_store res"
where
  "deserialize_columnar_store can_reserve sha256 bytes =
     (if length bytes < 12 + trailer_len then invalid ''feature buffer file is truncated''
      else
        rbind (bytes_slice bytes 0 4) (\<lambda>magic.
        if magic \<noteq> file_magic then invalid ''no N4DF magic''
        else
          (let payload_end = length bytes - trailer_len in
           rbind (bytes_slice bytes 0 payload_end) (\<lambda>payload.
           rbind (bytes_slice bytes payload_end (length bytes)) (\<lambda>trailer.
           if sha256 payload \<noteq> trailer then invalid ''SHA-256 trailer does not match payload''
           else
             rbind (read_u32 bytes 4) (\<lambda>version.
             if version \<noteq> file_version then invalid ''unsupported format version''
             else
               rbind (read_u32 bytes 8) (\<lambda>buffer_count.
               rseq (ensure_count_fits payload_end 12 buffer_count 17)
              (rseq (reserved_vec can_reserve buffer_count)
              (rbind (read_many buffer_count (read_buffer can_reserve) bytes payload_end 12)
                 (\<lambda>(matrices, cursor).
                    if cursor \<noteq> payload_end then invalid ''trailing bytes''
                    else store_from_f64_column_matrices matrices))))))))))"

section \<open>Files\<close>

definition write_store_to_path ::
  "(u8 list \<Rightarrow> u8 list) \<Rightarrow> buffer_store \<Rightarrow> string \<Rightarrow> file_system \<Rightarrow> file_system res option"
where
  "write_store_to_path sha256 s path fs =
     map_option
       (\<lambda>bytes. ok_or (fs_write path bytes fs) (Validation ''failed to write feature buffer store''))
       (serialize_columnar_store sha256 s)"

definition read_store_from_path ::
  "(usize \<Rightarrow> bool) \<Rightarrow> (u8 list \<Rightarrow> u8 list) \<Rightarrow> string \<Rightarrow> file_system \<Rightarrow> buffer_store res"
where
  "read_store_from_path can_reserve sha256 path fs =
     rbind (ok_or (fs_read path fs) (Validation ''failed to read feature buffer store''))
       (deserialize_columnar_store can_reserve sha256)"

end
