(* ===== verification/Buffer_File_Roundtrip.thy ===== *)
theory Buffer_File_Roundtrip
  imports Buffer_File
begin

text \<open>
  A store that is written to the binary format is read back unchanged, the reader accepts only what
  its trailer certifies, and it never indexes outside the bytes it was given.
\<close>

section \<open>Readers and what they read\<close>

text \<open>\<open>reads rd enc v\<close>: at the start of \<open>enc\<close>, anywhere in a file, \<open>rd\<close> returns \<open>v\<close> and stops at its end.\<close>

definition reads :: "'a reader \<Rightarrow> u8 list \<Rightarrow> 'a \<Rightarrow> bool" where
  "reads rd enc v \<longleftrightarrow>
     (\<forall>pre rest e. length pre + length enc \<le> e \<longrightarrow> e \<le> length (pre @ enc @ rest) \<longrightarrow>
        length (pre @ enc @ rest) \<le> usize_max \<longrightarrow>
        rd (pre @ enc @ rest) e (length pre) = Inr (v, length pre + length enc))"

lemma readsD:
  assumes "reads rd enc v" and "length pre + length enc \<le> e" and "e \<le> length (pre @ enc @ rest)"
    and "length (pre @ enc @ rest) \<le> usize_max"
  shows "rd (pre @ enc @ rest) e (length pre) = Inr (v, length pre + length enc)"
  using assms unfolding reads_def by blast

lemma reads_then:
  assumes "reads rd enc v" and "reads (cont v) enc' w"
  shows "reads (\<lambda>bytes e c. rbind (rd bytes e c) (\<lambda>(v, c). cont v bytes e c)) (enc @ enc') w"
  unfolding reads_def
proof (intro allI impI)
  fix pre rest :: "u8 list" and e
  assume e: "length pre + length (enc @ enc') \<le> e" "e \<le> length (pre @ (enc @ enc') @ rest)"
      "length (pre @ (enc @ enc') @ rest) \<le> usize_max"
  have "rd (pre @ enc @ enc' @ rest) e (length pre) = Inr (v, length pre + length enc)"
    by (rule readsD [OF assms(1)]) (use e in simp_all)
  moreover have "cont v ((pre @ enc) @ enc' @ rest) e (length (pre @ enc)) =
      Inr (w, length (pre @ enc) + length enc')"
    by (rule readsD [OF assms(2)]) (use e in simp_all)
  ultimately show "rbind (rd (pre @ (enc @ enc') @ rest) e (length pre))
      (\<lambda>(v, c). cont v (pre @ (enc @ enc') @ rest) e c) = Inr (w, length pre + length (enc @ enc'))"
    by (simp add: add.assoc)
qed

lemma reads_return: "reads (\<lambda>_ _ c. Inr (v, c)) [] v"
  by (simp add: reads_def)

lemma reads_guard:
  assumes "\<And>e c. c + length enc \<le> e \<Longrightarrow> e \<le> usize_max \<Longrightarrow> g e c = Inr ()" and "reads rd enc v"
  shows "reads (\<lambda>bytes e c. rseq (g e c) (rd bytes e c)) enc v"
  using assms(2) unfolding reads_def
  by (simp add: assms(1))

lemma bytes_slice_mid:
  "bytes_slice (pre @ enc @ rest) (length pre) (length pre + length enc) = Inr enc"
  by (simp add: bytes_slice_def)

lemma ensure_remaining_ok: "ensure_remaining e c n = Inr () \<longleftrightarrow> c + n \<le> e"
  by (auto simp: ensure_remaining_def)

lemma ensure_remaining_fits [simp]: "c + n \<le> e \<Longrightarrow> ensure_remaining e c n = Inr ()"
  by (simp add: ensure_remaining_ok)

lemma ensure_count_fits_ok:
  "n * k \<le> usize_max \<Longrightarrow> c + n * k \<le> e \<Longrightarrow> ensure_count_fits e c n k = Inr ()"
  by (simp add: ensure_count_fits_def checked_mul_def ensure_remaining_ok)

lemma reads_u32:
  assumes "n < 2 ^ 32"
  shows "reads read_u32_advance (le_bytes 4 n) n"
  unfolding reads_def
proof (intro allI impI)
  fix pre rest :: "u8 list" and e
  assume "length pre + length (le_bytes 4 n) \<le> e"
  then show "read_u32_advance (pre @ le_bytes 4 n @ rest) e (length pre) = Inr (n, length pre + length (le_bytes 4 n))"
    using assms bytes_slice_mid [of pre "le_bytes 4 n" rest]
    by (simp add: read_u32_advance_def ensure_remaining_ok le_value_le_bytes)
qed

lemma reads_u8: "reads read_u8_advance [b] b"
  by (simp add: reads_def read_u8_advance_def ensure_remaining_ok byte_at_def)

lemma string_of_str_bytes: "string_of_bytes (str_bytes s) = s"
  by (induction s) (simp_all add: string_of_bytes_def str_bytes_def, simp add: byte_of_def)

definition storable :: "string \<Rightarrow> bool" where
  "storable s \<longleftrightarrow> length s < 2 ^ 32 \<and> utf8_valid (str_bytes s)"

definition string_frame :: "string \<Rightarrow> u8 list" where
  "string_frame s = le_bytes 4 (length s) @ str_bytes s"

lemma reads_string:
  assumes "storable s"
  shows "reads read_string (string_frame s) s"
proof -
  have "reads (\<lambda>bytes e c. rseq (ensure_remaining e c (length s))
      (rbind (bytes_slice bytes c (c + length s))
        (\<lambda>raw. if \<not> utf8_valid raw then invalid ''invalid utf-8 string''
          else Inr (string_of_bytes raw, c + length s)))) (str_bytes s) s"
    unfolding reads_def
  proof (intro allI impI)
    fix pre rest :: "u8 list" and e
    assume "length pre + length (str_bytes s) \<le> e"
    then show "rseq (ensure_remaining e (length pre) (length s))
      (rbind (bytes_slice (pre @ str_bytes s @ rest) (length pre) (length pre + length s))
        (\<lambda>raw. if \<not> utf8_valid raw then invalid ''invalid utf-8 string''
          else Inr (string_of_bytes raw, length pre + length s))) = Inr (s, length pre + length (str_bytes s))"
      using assms bytes_slice_mid [of pre "str_bytes s" rest]
      by (simp add: ensure_remaining_ok storable_def string_of_str_bytes)
  qed
  moreover have "reads read_u32_advance (le_bytes 4 (length s)) (length s)"
    using assms by (intro reads_u32) (simp add: storable_def)
  ultimately show ?thesis
    unfolding read_string_def [abs_def] string_frame_def by (rule reads_then [rotated])
qed

lemma identifier_bytes_utf8: "list_all identifier_char s \<Longrightarrow> utf8_valid (str_bytes s)"
proof (induction s)
  case (Cons c s)
  have "byte_of c < 128" using Cons.prems by (auto simp: identifier_char_def ascii_class_defs)
  then have "(of_nat (byte_of c) :: u8) < 128" by (simp add: word_less_nat_alt)
  with Cons show ?case by (simp add: str_bytes_def)
qed (simp add: str_bytes_def)

lemma valid_ident_storable: "valid_ident i \<Longrightarrow> storable (as_str i)"
  by (auto simp: storable_def valid_ident_iff identifier_bytes_utf8)

lemma reads_ident:
  assumes "valid_ident i"
  shows "reads read_ident (string_frame (as_str i)) i"
proof -
  have "reads (\<lambda>bytes e c. rbind (ident_new (as_str i)) (\<lambda>i. Inr (i, c))) [] i"
    using assms by (simp add: reads_def ident_new_eq_Inr [THEN iffD2])
  with reads_string [OF valid_ident_storable [OF assms]] show ?thesis
    unfolding read_ident_def [abs_def] using reads_then by fastforce
qed

lemma reads_many:
  "\<forall>v\<in>set vs. reads rd (enc v) v \<Longrightarrow> reads (read_many (length vs) rd) (concat (map enc vs)) vs"
proof (induction vs)
  case Nil
  then show ?case by (simp add: reads_def)
next
  case (Cons v vs)
  have "reads (\<lambda>bytes e c. rbind (read_many (length vs) rd bytes e c) (\<lambda>(xs, c). Inr (v # xs, c)))
      (concat (map enc vs) @ []) (v # vs)"
    by (rule reads_then [OF _ reads_return]) (use Cons in simp)
  then have "reads (\<lambda>bytes e c. rbind (rd bytes e c) (\<lambda>(x, c).
      rbind (read_many (length vs) rd bytes e c) (\<lambda>(xs, c). Inr (x # xs, c))))
      (enc v @ concat (map enc vs)) (v # vs)"
    using Cons.prems by (intro reads_then [of rd "enc v" v]) simp_all
  then show ?case by (simp add: fun_eq_iff [symmetric])
qed

section \<open>Columns and masks\<close>

definition column_frame :: "f64 list \<Rightarrow> u8 list" where
  "column_frame column = concat (map u64_bytes column)"

definition flags_frame :: "bool list \<Rightarrow> u8 list" where
  "flags_frame flags = map (\<lambda>present. if present then 1 else 0) flags"

lemma length_column_frame [simp]: "length (column_frame column) = 8 * length column"
  by (induction column) (simp_all add: column_frame_def)

lemma length_flags_frame [simp]: "length (flags_frame flags) = length flags"
  by (simp add: flags_frame_def)

lemma of_nat_u64_bytes: "of_nat (le_value (u64_bytes w)) = w"
proof -
  have "unat w < 256 ^ 8" using unsigned_less [of w, where ?'a = nat] by simp
  then show ?thesis by (simp add: u64_bytes_def le_value_le_bytes)
qed

lemma column_cell_slice:
  assumes "i < length column"
  shows "bytes_slice (pre @ column_frame column @ rest) (length pre + i * 8) (length pre + i * 8 + 8) =
    Inr (u64_bytes (column ! i))"
proof -
  have "column_frame column = column_frame (take i column) @ u64_bytes (column ! i) @ column_frame (drop (Suc i) column)"
    by (subst id_take_nth_drop [OF assms]) (simp add: column_frame_def)
  then have "pre @ column_frame column @ rest =
      (pre @ column_frame (take i column)) @ u64_bytes (column ! i) @ (column_frame (drop (Suc i) column) @ rest)"
    by simp
  moreover have "length (pre @ column_frame (take i column)) = length pre + i * 8"
    using assms by simp
  ultimately show ?thesis
    using bytes_slice_mid [of "pre @ column_frame (take i column)" "u64_bytes (column ! i)"]
    by (simp add: mult.commute)
qed

lemma reads_column:
  assumes "can_reserve (length column)"
  shows "reads (read_column can_reserve (length column)) (column_frame column) column"
  unfolding reads_def
proof (intro allI impI)
  fix pre rest :: "u8 list" and e
  assume e: "length pre + length (column_frame column) \<le> e" "e \<le> length (pre @ column_frame column @ rest)"
      "length (pre @ column_frame column @ rest) \<le> usize_max"
  have "map_res (\<lambda>row. rbind (bytes_slice (pre @ column_frame column @ rest) (length pre + row * 8) (length pre + row * 8 + 8))
      (\<lambda>raw. Inr (of_nat (le_value raw)))) [0..<length column] =
      (Inr (map (\<lambda>i. column ! i) [0..<length column]) :: f64 list res)"
    by (rule map_res_pure) (simp add: column_cell_slice of_nat_u64_bytes)
  moreover have "checked_mul (length column) 8 = Some (8 * length column)"
    using e by (simp add: checked_mul_def)
  ultimately show "read_column can_reserve (length column) (pre @ column_frame column @ rest) e (length pre) =
      Inr (column, length pre + length (column_frame column))"
    using e(1) assms by (simp add: read_column_def reserved_vec_def map_nth)
qed

lemma flag_at:
  "i < length flags \<Longrightarrow>
   byte_at (pre @ flags_frame flags @ rest) (length pre + i) = Inr (if flags ! i then 1 else 0)"
  by (simp add: byte_at_def nth_append flags_frame_def)

lemma reads_flags:
  assumes "can_reserve (length flags)"
  shows "reads (read_flags can_reserve (length flags)) (flags_frame flags) flags"
  unfolding reads_def
proof (intro allI impI)
  fix pre rest :: "u8 list" and e
  assume e: "length pre + length (flags_frame flags) \<le> e"
  have "map_res (\<lambda>offset. rbind (byte_at (pre @ flags_frame flags @ rest) (length pre + offset))
      (\<lambda>b. if b > 1 then invalid ''validity byte is not 0 or 1'' else Inr (b = 1))) [0..<length flags] =
      Inr (map (\<lambda>i. flags ! i) [0..<length flags])"
    by (rule map_res_pure) (simp add: flag_at)
  then show "read_flags can_reserve (length flags) (pre @ flags_frame flags @ rest) e (length pre) =
      Inr (flags, length pre + length (flags_frame flags))"
    using e assms by (simp add: read_flags_def reserved_vec_def map_nth)
qed

section \<open>Buffers\<close>

definition masks_frame :: "bool list list option \<Rightarrow> u8 list" where
  "masks_frame masks = (case masks of None \<Rightarrow> [] | Some ms \<Rightarrow> concat (map flags_frame ms))"

definition body_frame :: "f64_columnar \<Rightarrow> u8 list" where
  "body_frame m =
     concat (map string_frame (fc_feature_names m)) @
     concat (map (\<lambda>o'. string_frame (as_str o')) (fc_observation_ids m)) @
     concat (map column_frame (fc_columns m)) @ masks_frame (fc_validity_masks m)"

definition buffer_frame :: "f64_columnar \<Rightarrow> u8 list" where
  "buffer_frame m =
     string_frame (fc_feature_set_id m) @ string_frame (as_str (fc_representation_id m)) @
     le_bytes 4 (length (fc_observation_ids m)) @ le_bytes 4 (length (fc_feature_names m)) @
     [if fc_validity_masks m \<noteq> None then 1 else 0] @ body_frame m"

definition columnar_storable :: "f64_columnar \<Rightarrow> bool" where
  "columnar_storable m \<longleftrightarrow>
     storable (fc_feature_set_id m) \<and> valid_ident (fc_representation_id m) \<and>
     length (fc_observation_ids m) < 2 ^ 32 \<and> length (fc_feature_names m) < 2 ^ 32 \<and>
     list_all storable (fc_feature_names m) \<and> list_all valid_ident (fc_observation_ids m) \<and>
     length (fc_columns m) = length (fc_feature_names m) \<and>
     list_all (\<lambda>c. length c = length (fc_observation_ids m)) (fc_columns m) \<and>
     (case fc_validity_masks m of None \<Rightarrow> True
      | Some ms \<Rightarrow> length ms = length (fc_feature_names m) \<and>
          list_all (\<lambda>flags. length flags = length (fc_observation_ids m)) ms)"

lemma write_string_frame: "storable s \<Longrightarrow> write_string s = Some (string_frame s)"
  by (simp add: write_string_def u32_bytes_def storable_def string_frame_def)

lemma concat_option_Some: "concat_option (map Some bs) = Some (concat bs)"
proof -
  have "those (map Some bs) = Some bs" by (induction bs) simp_all
  then show ?thesis by (simp add: concat_option_def)
qed

lemma write_buffer_frame:
  assumes "columnar_storable m"
  shows "write_buffer m = Some (buffer_frame m)"
proof -
  let ?parts = "[string_frame (fc_feature_set_id m), string_frame (as_str (fc_representation_id m)),
      le_bytes 4 (length (fc_observation_ids m)), le_bytes 4 (length (fc_feature_names m)),
      [if fc_validity_masks m \<noteq> None then 1 else 0]] @
    map string_frame (fc_feature_names m) @ map (\<lambda>o'. string_frame (as_str o')) (fc_observation_ids m) @
    map column_frame (fc_columns m) @
    (case fc_validity_masks m of None \<Rightarrow> [] | Some ms \<Rightarrow> map flags_frame ms)"
  have names: "map write_string (fc_feature_names m) = map Some (map string_frame (fc_feature_names m))"
      "map (\<lambda>o'. write_string (as_str o')) (fc_observation_ids m) =
       map Some (map (\<lambda>o'. string_frame (as_str o')) (fc_observation_ids m))"
    using assms by (simp_all add: columnar_storable_def list_all_iff write_string_frame valid_ident_storable)
  have "write_buffer m = concat_option (map Some ?parts)"
    using assms unfolding write_buffer_def names
    by (simp add: columnar_storable_def write_string_frame valid_ident_storable u32_bytes_def comp_def
        column_frame_def flags_frame_def split: option.splits)
  also have "\<dots> = Some (buffer_frame m)"
    unfolding concat_option_Some
    by (simp add: buffer_frame_def body_frame_def masks_frame_def split: option.splits)
  finally show ?thesis .
qed

lemma concat_lengths:
  "\<forall>x\<in>set xs. k \<le> length (f x) \<Longrightarrow> k * length xs \<le> length (concat (map f xs))"
  by (induction xs) (simp_all add: add_mono)

lemma concat_lengths_eq:
  "\<forall>x\<in>set xs. length (f x) = k \<Longrightarrow> length (concat (map f xs)) = k * length xs"
  by (induction xs) simp_all

lemma length_string_frame [simp]: "length (string_frame s) = 4 + length s"
  by (simp add: string_frame_def)

lemma body_sizes:
  assumes "columnar_storable m"
  shows "4 * length (fc_feature_names m) + 4 * length (fc_observation_ids m) +
      length (fc_observation_ids m) * length (fc_feature_names m) *
        (8 + (if fc_validity_masks m \<noteq> None then 1 else 0)) \<le> length (body_frame m)"
proof -
  have "length (concat (map column_frame (fc_columns m))) =
      8 * length (fc_observation_ids m) * length (fc_feature_names m)"
    using assms by (subst concat_lengths_eq) (auto simp: columnar_storable_def list_all_iff)
  moreover have "length (masks_frame (fc_validity_masks m)) =
      (if fc_validity_masks m \<noteq> None then length (fc_observation_ids m) * length (fc_feature_names m) else 0)"
    using assms
    by (auto simp: masks_frame_def columnar_storable_def list_all_iff split: option.splits
        intro!: concat_lengths_eq [THEN trans])
  moreover have "4 * length (fc_feature_names m) \<le> length (concat (map string_frame (fc_feature_names m)))"
    by (rule concat_lengths) simp
  moreover have "4 * length (fc_observation_ids m) \<le>
      length (concat (map (\<lambda>o'. string_frame (as_str o')) (fc_observation_ids m)))"
    by (rule concat_lengths) simp
  ultimately show ?thesis by (simp add: body_frame_def algebra_simps)
qed

lemma check_sizes_ok:
  assumes "columnar_storable m" and "c + length (body_frame m) \<le> e" and "e \<le> usize_max"
  shows "check_sizes e c (length (fc_observation_ids m)) (length (fc_feature_names m))
    (if fc_validity_masks m \<noteq> None then 1 else 0) = Inr ()"
proof -
  let ?rows = "length (fc_observation_ids m)" and ?width = "length (fc_feature_names m)"
  let ?k = "8 + (if fc_validity_masks m \<noteq> None then 1 else 0)"
  note sizes = body_sizes [OF assms(1)]
  have "?rows * ?width \<le> ?rows * ?width * ?k" by simp
  also have "\<dots> \<le> length (body_frame m)" using sizes by linarith
  also have "\<dots> \<le> usize_max" using assms(2,3) by linarith
  finally have "checked_mul ?rows ?width = Some (?rows * ?width)" by (simp add: checked_mul_def)
  moreover have "ensure_count_fits e c ?width 4 = Inr ()" "ensure_count_fits e c ?rows 4 = Inr ()"
      "ensure_count_fits e c (?rows * ?width) ?k = Inr ()"
    using sizes assms(2,3) by (intro ensure_count_fits_ok; simp)+
  ultimately show ?thesis by (auto simp: check_sizes_def)
qed

lemma reads_masks:
  assumes "columnar_storable m" and "\<forall>n<2 ^ 32. can_reserve n"
  shows "reads
    (\<lambda>bytes e c.
       if (if fc_validity_masks m \<noteq> None then 1 else 0) = (1 :: u8)
       then
         rseq (reserved_vec can_reserve (length (fc_feature_names m)))
           (rbind (read_many (length (fc_feature_names m))
                     (read_flags can_reserve (length (fc_observation_ids m))) bytes e c)
              (\<lambda>(masks, c). Inr (Some masks, c)))
       else Inr (None, c))
    (masks_frame (fc_validity_masks m)) (fc_validity_masks m)"
proof (cases "fc_validity_masks m")
  case None
  then show ?thesis by (simp add: masks_frame_def reads_def)
next
  case (Some ms)
  have ms: "length ms = length (fc_feature_names m)" "\<forall>flags\<in>set ms. length flags = length (fc_observation_ids m)"
      "length (fc_observation_ids m) < 2 ^ 32" "length (fc_feature_names m) < 2 ^ 32"
    using assms(1) Some by (auto simp: columnar_storable_def list_all_iff)
  then have "\<forall>flags\<in>set ms. reads (read_flags can_reserve (length (fc_observation_ids m))) (flags_frame flags) flags"
    using reads_flags assms(2) by metis
  from reads_then [OF reads_many [OF this] reads_return, of Some]
  have "reads (\<lambda>bytes e c. rbind (read_many (length ms) (read_flags can_reserve (length (fc_observation_ids m))) bytes e c)
      (\<lambda>(masks, c). Inr (Some masks, c))) (concat (map flags_frame ms)) (Some ms)" by simp
  then show ?thesis
    using Some ms(1,4) assms(2) by (simp add: reserved_vec_def masks_frame_def)
qed

lemma reads_body:
  assumes "columnar_storable m" and "\<forall>n<2 ^ 32. can_reserve n"
  shows "reads
    (read_body can_reserve (fc_feature_set_id m) (fc_representation_id m) (length (fc_observation_ids m))
       (length (fc_feature_names m)) (if fc_validity_masks m \<noteq> None then 1 else 0))
    (body_frame m) m"
proof -
  have m: "length (fc_observation_ids m) < 2 ^ 32" "length (fc_feature_names m) < 2 ^ 32"
      "\<forall>n\<in>set (fc_feature_names m). storable n" "\<forall>o'\<in>set (fc_observation_ids m). valid_ident o'"
      "length (fc_columns m) = length (fc_feature_names m)"
      "\<forall>c\<in>set (fc_columns m). length c = length (fc_observation_ids m)"
    using assms(1) by (auto simp: columnar_storable_def list_all_iff)
  have "\<forall>c\<in>set (fc_columns m). reads (read_column can_reserve (length (fc_observation_ids m))) (column_frame c) c"
    using m(1,6) reads_column assms(2) by metis
  note columns = reads_many [OF this, unfolded m(5)]
  have "\<forall>n\<in>set (fc_feature_names m). reads read_string (string_frame n) n" using m(3) reads_string by blast
  note names = reads_many [OF this]
  have "\<forall>o'\<in>set (fc_observation_ids m). reads read_ident (string_frame (as_str o')) o'"
    using m(4) reads_ident by blast
  note observations = reads_many [OF this]
  have reserve: "reserved_vec can_reserve (length (fc_observation_ids m)) = Inr ()"
      "reserved_vec can_reserve (length (fc_feature_names m)) = Inr ()"
    using m(1,2) assms(2) by (simp_all add: reserved_vec_def)
  have last: "reads (\<lambda>bytes e c. Inr (\<lparr>fc_feature_set_id = fc_feature_set_id m,
      fc_representation_id = fc_representation_id m, fc_feature_names = fc_feature_names m,
      fc_observation_ids = fc_observation_ids m, fc_columns = fc_columns m,
      fc_validity_masks = fc_validity_masks m\<rparr>, c)) [] m"
    using reads_return [of m] by (cases m) simp
  note whole = reads_then [OF reads_masks [OF assms, unfolded reserve rbind_simps], where cont = "\<lambda>masks bytes e c.
      Inr (\<lparr>fc_feature_set_id = fc_feature_set_id m,
        fc_representation_id = fc_representation_id m, fc_feature_names = fc_feature_names m,
        fc_observation_ids = fc_observation_ids m, fc_columns = fc_columns m,
        fc_validity_masks = masks\<rparr>, c)", OF last]
  show ?thesis
    unfolding read_body_def [abs_def] reserve rbind_simps
  proof (rule reads_guard [OF check_sizes_ok [OF assms(1)]])
    show "reads (\<lambda>bytes e c. rbind (read_many (length (fc_feature_names m)) read_string bytes e c)
        (\<lambda>(feature_names, c). rbind (read_many (length (fc_observation_ids m)) read_ident bytes e c)
        (\<lambda>(observation_ids, c). rbind (read_many (length (fc_feature_names m))
            (read_column can_reserve (length (fc_observation_ids m))) bytes e c)
        (\<lambda>(columns, c). rbind
          (if (if fc_validity_masks m \<noteq> None then 1 else 0) = (1 :: u8)
           then rbind (read_many (length (fc_feature_names m))
               (read_flags can_reserve (length (fc_observation_ids m))) bytes e c)
             (\<lambda>(masks, c). Inr (Some masks, c))
           else Inr (None, c))
        (\<lambda>(validity_masks, c). Inr (\<lparr>fc_feature_set_id = fc_feature_set_id m,
          fc_representation_id = fc_representation_id m, fc_feature_names = feature_names,
          fc_observation_ids = observation_ids, fc_columns = columns,
          fc_validity_masks = validity_masks\<rparr>, c)))))) (body_frame m) m"
      unfolding body_frame_def
      apply (rule reads_then [OF names])
      apply (rule reads_then [OF observations])
      apply (rule reads_then [OF columns])
      using whole by (cases "fc_validity_masks m") simp_all
  qed
qed

lemma reads_buffer:
  assumes "columnar_storable m" and "\<forall>n<2 ^ 32. can_reserve n"
  shows "reads (read_buffer can_reserve) (buffer_frame m) m"
proof -
  have head: "reads read_string (string_frame (fc_feature_set_id m)) (fc_feature_set_id m)"
      "reads read_ident (string_frame (as_str (fc_representation_id m))) (fc_representation_id m)"
      "reads read_u32_advance (le_bytes 4 (length (fc_observation_ids m))) (length (fc_observation_ids m))"
      "reads read_u32_advance (le_bytes 4 (length (fc_feature_names m))) (length (fc_feature_names m))"
    using assms(1) by (simp_all add: columnar_storable_def reads_string reads_ident reads_u32)
  show ?thesis
    unfolding read_buffer_def [abs_def] buffer_frame_def
    by (rule reads_then [OF head(1)], rule reads_then [OF head(2)], rule reads_then [OF head(3)],
        rule reads_then [OF head(4)], rule reads_then [OF reads_u8], rule reads_body [OF assms])
qed

section \<open>Stores\<close>

definition store_storable :: "buffer_store \<Rightarrow> bool" where
  "store_storable s \<longleftrightarrow>
     store_ok s \<and> length s < 2 ^ 32 \<and>
     list_all (\<lambda>(_, b). cells_finite b \<and> columnar_storable (to_f64_column_matrix b)) s"

definition payload_frame :: "buffer_store \<Rightarrow> u8 list" where
  "payload_frame s =
     file_magic @ le_bytes 4 file_version @ le_bytes 4 (length s) @
     concat (map (\<lambda>b. buffer_frame (to_f64_column_matrix b)) (bt_values s))"

lemma store_payload_frame:
  assumes "store_storable s"
  shows "store_payload s = Some (payload_frame s)"
proof -
  have buffers: "map (\<lambda>(_, b). write_buffer (to_f64_column_matrix b)) s =
      map Some (map (\<lambda>b. buffer_frame (to_f64_column_matrix b)) (bt_values s))"
    using assms by (auto simp: store_storable_def list_all_iff write_buffer_frame)
  have "store_payload s = concat_option (map Some ([file_magic, le_bytes 4 file_version, le_bytes 4 (length s)] @
      map (\<lambda>b. buffer_frame (to_f64_column_matrix b)) (bt_values s)))"
    using assms unfolding store_payload_def buffers
    by (simp add: u32_bytes_def file_version_def store_storable_def del: le_bytes.simps)
  then show ?thesis unfolding concat_option_Some by (simp add: payload_frame_def)
qed

lemma length_buffer_frame: "17 \<le> length (buffer_frame m)"
  by (simp add: buffer_frame_def)

text \<open>A sorted list of entries is the map collected from it.\<close>

lemma bt_collect_wf: "bt_wf s \<Longrightarrow> bt_collect s = s"
  by (rule bt_wf_ext) (simp_all add: bt.wf_collect bt.get_collect_distinct bt_wf_distinct)

lemma store_from_columns:
  assumes "store_ok s" and "\<forall>b\<in>set (bt_values s). cells_finite b"
  shows "store_from_f64_column_matrices (map to_f64_column_matrix (bt_values s)) = Inr s"
proof -
  have build: "fold_res
      (\<lambda>buffers m. rbind (from_f64_column_matrix m)
         (\<lambda>b. if map_of buffers (fc_feature_set_id m) \<noteq> None then invalid dup
              else Inr (bt_insert (fc_feature_set_id m) b buffers)))
      acc (map to_f64_column_matrix (bt_values kvs)) = Inr (fold (\<lambda>(k, v) m. bt_insert k v m) kvs acc)"
    if "list_all (\<lambda>(k, b). buffer_ok b \<and> nb_feature_set_id b = k \<and> cells_finite b) kvs"
      "distinct (map fst kvs)" "\<forall>k\<in>set (map fst kvs). map_of acc k = None" for acc kvs dup
    using that
  proof (induction kvs arbitrary: acc)
    case (Cons kv kvs)
    obtain k b where kv: "kv = (k, b)" by (cases kv)
    with Cons.prems have b: "from_f64_column_matrix (to_f64_column_matrix b) = Inr b" "nb_feature_set_id b = k"
        "map_of acc k = None"
      by (simp_all add: columns_round_trip)
    have "\<forall>l\<in>set (map fst kvs). map_of (bt_insert k b acc) l = None"
      using Cons.prems(2,3) kv by (auto simp: map_of_bt_insert simp del: set_map)
    then show ?case
      using Cons.IH [of "bt_insert k b acc"] Cons.prems b kv
      by (simp add: to_f64_column_matrix_def [of b, THEN arg_cong [where f = fc_feature_set_id]])
  qed simp
  have "bt_collect s = s" using assms(1) by (intro bt_collect_wf) (simp add: store_ok_def)
  moreover have "list_all (\<lambda>(k, b). buffer_ok b \<and> nb_feature_set_id b = k \<and> cells_finite b) s"
    using assms by (force simp: store_ok_def list_all_iff)
  ultimately show ?thesis
    using build [of s "[]"] assms(1) store_new_ok [OF assms(1)]
    by (simp add: store_from_f64_column_matrices_def store_from_def bt_collect_def store_ok_def bt_wf_distinct)
qed

lemma read_u32_at:
  assumes "n < 2 ^ 32"
  shows "read_u32 (pre @ le_bytes 4 n @ rest) (length pre) = Inr n"
  using assms bytes_slice_mid [of pre "le_bytes 4 n" rest]
  by (simp add: read_u32_def le_value_le_bytes)

lemma store_round_trip:
  assumes "store_storable s" and "\<forall>n<2 ^ 32. can_reserve n" and "\<forall>bs. length (sha256 bs) = 32"
    and "length (payload_frame s) + 32 \<le> usize_max"
  shows "deserialize_columnar_store can_reserve sha256 (payload_frame s @ sha256 (payload_frame s)) = Inr s"
proof -
  let ?payload = "payload_frame s" and ?trailer = "sha256 (payload_frame s)"
  let ?bytes = "?payload @ ?trailer" and ?stop = "length (payload_frame s)"
  let ?buffers = "concat (map (\<lambda>b. buffer_frame (to_f64_column_matrix b)) (bt_values s))"
  let ?matrices = "map to_f64_column_matrix (bt_values s)"
  have len: "length ?trailer = 32" "length file_magic = 4" using assms(3) by (simp_all add: file_magic_def)
  have n: "length s < 2 ^ 32" and storable: "\<forall>b\<in>set (bt_values s). columnar_storable (to_f64_column_matrix b)"
    and finite: "\<forall>b\<in>set (bt_values s). cells_finite b" and ok: "store_ok s"
    using assms(1) by (auto simp: store_storable_def list_all_iff)
  have slices: "bytes_slice ?bytes 0 4 = Inr file_magic" "bytes_slice ?bytes 0 ?stop = Inr ?payload"
      "bytes_slice ?bytes ?stop (?stop + 32) = Inr ?trailer"
    using bytes_slice_mid [of "[]" file_magic] bytes_slice_mid [of "[]" ?payload ?trailer]
      bytes_slice_mid [of ?payload ?trailer "[]"] len by (simp_all add: payload_frame_def)
  have header: "read_u32 ?bytes 4 = Inr file_version" "read_u32 ?bytes 8 = Inr (length s)"
    using read_u32_at [of file_version file_magic] n len
      read_u32_at [of "length s" "file_magic @ le_bytes 4 file_version"]
    by (simp_all add: payload_frame_def file_version_def del: le_bytes.simps)
  have "17 * length (bt_values s) \<le> length ?buffers"
    by (rule concat_lengths) (simp add: length_buffer_frame)
  then have count: "ensure_count_fits ?stop 12 (length s) 17 = Inr ()"
    using assms(4) len by (intro ensure_count_fits_ok) (simp_all add: payload_frame_def)
  have "\<forall>m\<in>set ?matrices. reads (read_buffer can_reserve) (buffer_frame m) m"
    using storable reads_buffer assms(2) by simp
  from reads_many [OF this] have "reads (read_many (length s) (read_buffer can_reserve)) ?buffers ?matrices"
    by (simp add: comp_def)
  from readsD [OF this, of "file_magic @ le_bytes 4 file_version @ le_bytes 4 (length s)" ?stop ?trailer]
  have body: "read_many (length s) (read_buffer can_reserve) ?bytes ?stop 12 = Inr (?matrices, ?stop)"
    using assms(4) len by (simp add: payload_frame_def)
  have "12 + 32 \<le> length ?bytes" using len by (simp add: payload_frame_def)
  then show ?thesis
    using n assms(2) len
    by (simp add: deserialize_columnar_store_def trailer_len_def slices header count body reserved_vec_def
        store_from_columns [OF ok finite, unfolded map_map])
qed

text \<open>
  C26. The file format loses nothing: a well-formed store of finite cells, valid identifiers, UTF-8
  strings and counts that fit 32 bits is written without a panic, and reading the bytes gives back
  the same store, every cell, mask and index included; so does a file on a path that does not fail. The digest is any function to 32 bytes,
  allocations of fewer than \<open>2^32\<close> elements succeed, and the file fits the address space.
\<close>

theorem file_round_trip:
  assumes "store_storable s" and "\<forall>n<2 ^ 32. can_reserve n" and "\<forall>bs. length (sha256 bs) = 32"
    and "length (payload_frame s) + 32 \<le> usize_max"
  shows "\<exists>bytes. serialize_columnar_store sha256 s = Some bytes \<and>
      deserialize_columnar_store can_reserve sha256 bytes = Inr s \<and>
      (fs_failing fs path \<or>
       (\<exists>fs'. write_store_to_path sha256 s path fs = Some (Inr fs') \<and>
          fs_read path fs' = Some bytes \<and> read_store_from_path can_reserve sha256 path fs' = Inr s))"
  using store_round_trip [OF assms] store_payload_frame [OF assms(1)]
  by (simp add: serialize_columnar_store_def write_store_to_path_def read_store_from_path_def ok_or_def
      fs_write_def fs_read_def)

section \<open>The reader stays inside the file\<close>

definition safe :: "'a res \<Rightarrow> bool" where
  "safe r \<longleftrightarrow> r \<noteq> Inl slice_panic"

lemma safe_Inr [simp, intro]: "safe (Inr x)"
  by (simp add: safe_def)

lemma safe_Inl: "e \<noteq> slice_panic \<Longrightarrow> safe (Inl e)"
  by (simp add: safe_def)

lemma safe_rbind [intro]: "safe r \<Longrightarrow> (\<And>x. r = Inr x \<Longrightarrow> safe (f x)) \<Longrightarrow> safe (rbind r f)"
  by (cases r) (simp_all add: safe_def)

lemma safe_if: "(c \<Longrightarrow> safe r) \<Longrightarrow> (\<not> c \<Longrightarrow> safe q) \<Longrightarrow> safe (if c then r else q)"
  by simp

lemma safe_ok_or: "e \<noteq> slice_panic \<Longrightarrow> safe (ok_or x e)"
  by (cases x) (simp_all add: safe_def ok_or_def)

lemma safe_each_res: "(\<And>x. x \<in> set xs \<Longrightarrow> safe (f x)) \<Longrightarrow> safe (each_res f xs)"
  by (induction xs) auto

lemma safe_map_res: "(\<And>x. x \<in> set xs \<Longrightarrow> safe (f x)) \<Longrightarrow> safe (map_res f xs)"
  by (induction xs) auto

lemma safe_fold_res: "(\<And>st x. safe (f st x)) \<Longrightarrow> safe (fold_res f st xs)"
  by (induction xs arbitrary: st) auto

lemma safe_each_fresh:
  assumes "\<And>x. safe (p x)" and "\<And>k. dup k \<noteq> slice_panic" and "\<And>x. safe (q x)"
  shows "safe (each_fresh p key dup q seen xs)"
proof (induction xs arbitrary: seen)
  case (Cons x xs)
  then show ?case unfolding each_fresh.simps by (intro safe_rbind safe_if safe_Inl assms)
qed simp

lemmas safe_rules =
  safe_rbind safe_if safe_Inr safe_Inl safe_ok_or safe_each_res safe_map_res safe_fold_res safe_each_fresh

lemma safe_validators:
  "safe (validate_feature_shape i names obs)" "safe (f64_column_validate m item)" "safe (buffer_validate b)"
  unfolding validate_feature_shape_def f64_column_validate_def buffer_validate_def each_unique_def Let_def
    case_prod_unfold
  by (intro safe_rules; simp add: slice_panic_def)+

lemma safe_from_columns: "safe (from_f64_column_matrix m)"
  unfolding from_f64_column_matrix_def f64_columnar_validate_def
  by (intro safe_rules safe_validators; simp add: slice_panic_def)

lemma safe_store_from: "safe (store_from_f64_column_matrices ms)"
  unfolding store_from_f64_column_matrices_def store_from_def store_new_def case_prod_unfold
  by (intro safe_rules safe_validators safe_from_columns; simp add: slice_panic_def)

lemma safe_ident_new: "safe (ident_new s)"
  by (auto simp: ident_new_def validate_identifier_def safe_def slice_panic_def)

definition reader_safe :: "'a reader \<Rightarrow> bool" where
  "reader_safe rd \<longleftrightarrow> (\<forall>bytes e c. e \<le> length bytes \<longrightarrow> safe (rd bytes e c))"

lemma reader_safeD: "reader_safe rd \<Longrightarrow> e \<le> length bytes \<Longrightarrow> safe (rd bytes e c)"
  by (simp add: reader_safe_def)

lemma safe_slice: "a \<le> b \<Longrightarrow> b \<le> length bytes \<Longrightarrow> safe (bytes_slice bytes a b)"
  by (simp add: bytes_slice_def)

lemma safe_byte: "i < length bytes \<Longrightarrow> safe (byte_at bytes i)"
  by (simp add: byte_at_def)

lemma safe_guards:
  "safe (ensure_remaining e c n)" "safe (ensure_count_fits e c n k)" "safe (reserved_vec can_reserve n)"
  unfolding ensure_count_fits_def ensure_remaining_def reserved_vec_def
  by (intro safe_rules; simp add: slice_panic_def)+

lemma buffer_of_id: "nb_feature_set_id (buffer_of_columnar m) = fc_feature_set_id m"
  by (simp add: buffer_of_columnar_def)

lemma reader_safe_u32: "reader_safe read_u32_advance"
  unfolding reader_safe_def read_u32_advance_def
  by (intro allI impI safe_rules safe_guards safe_slice) (auto simp: ensure_remaining_ok)

lemma reader_safe_u8: "reader_safe read_u8_advance"
  unfolding reader_safe_def read_u8_advance_def
  by (intro allI impI safe_rules safe_guards safe_byte) (auto simp: ensure_remaining_ok)

lemma reader_safe_string: "reader_safe read_string"
  unfolding reader_safe_def read_string_def case_prod_unfold
  by (intro allI impI safe_rules safe_guards safe_slice reader_safeD [OF reader_safe_u32])
    (auto simp: ensure_remaining_ok slice_panic_def)

lemma reader_safe_ident: "reader_safe read_ident"
  unfolding reader_safe_def read_ident_def case_prod_unfold
  by (intro allI impI safe_rules safe_ident_new reader_safeD [OF reader_safe_string])

lemma reader_safe_many: "reader_safe rd \<Longrightarrow> reader_safe (read_many n rd)"
proof (induction n)
  case (Suc n)
  then show ?case
    unfolding reader_safe_def read_many.simps case_prod_unfold by (intro allI impI safe_rules) simp_all
qed (simp add: reader_safe_def)

lemma reader_safe_column: "reader_safe (read_column can_reserve rows)"
  unfolding reader_safe_def read_column_def
  by (intro allI impI safe_rules safe_guards safe_slice)
    (auto simp: ensure_remaining_ok slice_panic_def ok_or_eq_Inr checked_mul_Some)

lemma reader_safe_flags: "reader_safe (read_flags can_reserve rows)"
  unfolding reader_safe_def read_flags_def
  by (intro allI impI safe_rules safe_guards safe_byte) (auto simp: ensure_remaining_ok slice_panic_def)

lemma safe_sizes: "safe (check_sizes e c rows width has_validity)"
  unfolding check_sizes_def by (intro safe_rules safe_guards) (simp_all add: slice_panic_def)

lemma reader_safe_body: "reader_safe (read_body can_reserve i rep rows width has_validity)"
  unfolding reader_safe_def read_body_def case_prod_unfold
  by (intro allI impI safe_rules safe_guards safe_sizes reader_safeD [OF reader_safe_many [OF reader_safe_string]]
      reader_safeD [OF reader_safe_many [OF reader_safe_ident]]
      reader_safeD [OF reader_safe_many [OF reader_safe_column]]
      reader_safeD [OF reader_safe_many [OF reader_safe_flags]])

lemma reader_safe_buffer: "reader_safe (read_buffer can_reserve)"
  unfolding reader_safe_def read_buffer_def case_prod_unfold
  by (intro allI impI safe_rules reader_safeD [OF reader_safe_string] reader_safeD [OF reader_safe_ident]
      reader_safeD [OF reader_safe_u32] reader_safeD [OF reader_safe_u8] reader_safeD [OF reader_safe_body])

lemma safe_read_u32: "safe (read_u32 bytes offset)"
  unfolding read_u32_def by (intro safe_rules safe_slice) (simp_all add: slice_panic_def)

text \<open>
  C27. Reading never indexes outside the file, whatever the bytes are: every slice and every single
  byte that the reader takes was checked against the payload, so a damaged or hostile file is an
  ordinary error and never a panic.
\<close>

theorem deserialize_never_panics:
  "deserialize_columnar_store can_reserve sha256 bytes \<noteq> Inl slice_panic"
proof -
  have "safe (deserialize_columnar_store can_reserve sha256 bytes)"
    unfolding deserialize_columnar_store_def case_prod_unfold Let_def
    by (intro safe_rules safe_guards safe_slice safe_store_from safe_read_u32
        reader_safeD [OF reader_safe_many [OF reader_safe_buffer]])
      (simp_all add: slice_panic_def trailer_len_def)
  then show ?thesis by (simp add: safe_def)
qed

text \<open>
  What the trailer certifies: a file that is accepted starts with the magic, ends with the digest
  of everything before it, and holds a well-formed store.
\<close>

lemma accepted_file_certified:
  assumes "deserialize_columnar_store can_reserve sha256 bytes = Inr s"
  shows "store_ok s \<and> 44 \<le> length bytes \<and> take 4 bytes = file_magic \<and>
    sha256 (take (length bytes - 32) bytes) = drop (length bytes - 32) bytes"
proof -
  have "12 + trailer_len \<le> length bytes" "bytes_slice bytes 0 4 = Inr file_magic"
      "rbind (bytes_slice bytes 0 (length bytes - trailer_len)) (\<lambda>payload. Inr (sha256 payload)) =
       bytes_slice bytes (length bytes - trailer_len) (length bytes)"
      and "\<exists>ms. store_from_f64_column_matrices ms = Inr s"
    using assms
    by (auto simp: deserialize_columnar_store_def if_Inl_eq_Inr rbind_eq_Inr Let_def case_prod_unfold)
  moreover from this(4) have "store_ok s"
    unfolding store_from_f64_column_matrices_def
    by (auto elim!: store_from_ok [rotated] simp: from_f64_column_matrix_ok columnar_buffer_ok buffer_of_id)
  ultimately show ?thesis by (auto simp: trailer_len_def bytes_slice_def split: if_splits)
qed

section \<open>An example\<close>

definition demo_digest :: "u8 list \<Rightarrow> u8 list" where
  "demo_digest bytes = replicate 32 (sum_list bytes)"

lemma demo_storable: "store_storable demo_store" "length (payload_frame demo_store) + 32 \<le> usize_max"
proof -
  have finite: "f64_is_finite f64_zero" by (simp add: f64_is_finite_def f64_exponent_def f64_zero_def)
  have columnar: "to_f64_column_matrix (demo_buffer (Some f64_zero)) =
      \<lparr>fc_feature_set_id = ''x'', fc_representation_id = Ident ''tabular_numeric'',
       fc_feature_names = [''a''], fc_observation_ids = [Ident ''o''], fc_columns = [[f64_zero]],
       fc_validity_masks = None\<rparr>"
    by (simp add: to_f64_column_matrix_def demo_buffer_def)
  show "store_storable demo_store"
    using demo_store_ok finite identifier_bytes_utf8 [of "''x''"] identifier_bytes_utf8 [of "''a''"]
    by (simp add: store_storable_def demo_store_def columnar_storable_def columnar storable_def valid_ident_iff
        identifier_char_def ascii_class_defs)
      (simp add: cells_finite_def demo_buffer_def finite)
  show "length (payload_frame demo_store) + 32 \<le> usize_max"
    by (simp add: payload_frame_def demo_store_def columnar buffer_frame_def body_frame_def file_magic_def
        string_frame_def masks_frame_def column_frame_def usize_max_def)
qed

lemma demo_digest_length: "length (demo_digest bytes) = 32"
  by (simp add: demo_digest_def)

lemma file_round_trip_witness:
  "\<exists>bytes. serialize_columnar_store demo_digest demo_store = Some bytes \<and>
     deserialize_columnar_store (\<lambda>_. True) demo_digest bytes = Inr demo_store"
  using file_round_trip
    [OF demo_storable(1) _ _ demo_storable(2), of "\<lambda>_. True" demo_digest
      "\<lparr>fs_files = Map.empty, fs_failing = \<lambda>_. True\<rparr>" "[]"]
  by (simp add: demo_digest_length)

lemma accepted_file_certified_witness:
  "\<exists>bytes. deserialize_columnar_store (\<lambda>_. True) demo_digest bytes = Inr demo_store \<and> take 4 bytes = file_magic"
proof -
  let ?bytes = "payload_frame demo_store @ demo_digest (payload_frame demo_store)"
  have read: "deserialize_columnar_store (\<lambda>_. True) demo_digest ?bytes = Inr demo_store"
    using store_round_trip [OF demo_storable(1) _ _ demo_storable(2)] by (simp add: demo_digest_length)
  with accepted_file_certified [OF read] show ?thesis by blast
qed

end
