(* ===== verification/Fitted_Adapters.thy ===== *)
theory Fitted_Adapters
  imports File_System Arena_Safety
begin

text \<open>
  Fitted adapters (\<open>fitted_adapter.rs\<close>): references to host-owned state with their portability rules,
  manifests, and the in-memory store that hands out opaque handles. The store's mutex makes each
  operation atomic, so an operation is a function on the store; no operation panics while it holds the
  lock, so the lock is never poisoned. serde_json is a parameter (\<open>to_vec_pretty\<close>, \<open>from_slice\<close>).
\<close>

section \<open>References\<close>

datatype fitted_adapter_backend = Joblib | Pickle | JsonBackend | Numpy | Onnx | RawBackend

record fitted_adapter_ref =
  fa_schema_version :: u32
  fa_adapter_id :: string
  fa_adapter_version :: string
  fa_params_fingerprint :: string
  fa_backend :: "fitted_adapter_backend option"
  fa_uri :: "string option"
  fa_content_fingerprint :: "string option"
  fa_size_bytes :: "u64 option"
  fa_plugin :: "string option"
  fa_plugin_version :: "string option"
  fa_metadata :: metadata

definition fitted_adapter_ref_schema_version :: u32 where
  "fitted_adapter_ref_schema_version = 1"

definition validate_optional_text :: "string option \<Rightarrow> unit res" where
  "validate_optional_text v =
     (case v of
        None \<Rightarrow> Inr ()
      | Some s \<Rightarrow>
          if is_blank s then invalid ''fitted adapter has empty text''
          else if has_control s then invalid ''fitted adapter has control characters'' else Inr ())"

definition fitted_fingerprint_validate :: "string \<Rightarrow> unit res" where
  "fitted_fingerprint_validate v =
     (if length v \<noteq> 64 \<or> \<not> list_all is_ascii_hexdigit v
      then invalid ''fingerprint must be a 64-character hex digest'' else Inr ())"

definition fitted_ref_validate :: "fitted_adapter_ref \<Rightarrow> unit res" where
  "fitted_ref_validate r =
     (if fa_schema_version r \<noteq> fitted_adapter_ref_schema_version
      then invalid ''unsupported schema_version''
      else if is_blank (fa_adapter_id r) then invalid ''empty adapter_id''
      else if is_blank (fa_adapter_version r) then invalid ''empty adapter_version''
      else
        rseq (fitted_fingerprint_validate (fa_params_fingerprint r))
       (rseq (validate_optional_text (fa_uri r))
       (rseq (validate_optional_text (fa_plugin r))
       (rseq (validate_optional_text (fa_plugin_version r))
         (if fa_plugin_version r \<noteq> None \<and> fa_plugin r = None then invalid ''plugin_version without plugin''
          else
            rseq
              (case fa_content_fingerprint r of
                 None \<Rightarrow> Inr () | Some fp \<Rightarrow> fitted_fingerprint_validate fp)
              (if fa_uri r \<noteq> None \<and> fa_backend r = None then invalid ''uri without backend''
               else if fa_uri r \<noteq> None \<and> fa_content_fingerprint r = None
               then invalid ''uri without content_fingerprint''
               else
                 each_res
                   (\<lambda>key. if is_blank key then invalid ''metadata contains an empty key'' else Inr ())
                   (bt_keys (fa_metadata r))))))))"

text \<open>\<open>uri.split(['/', '\\'])\<close>\<close>

definition is_separator :: "char \<Rightarrow> bool" where
  "is_separator c \<longleftrightarrow> byte_of c = 47 \<or> byte_of c = 92"

fun split_path :: "string \<Rightarrow> string list" where
  "split_path [] = [[]]"
| "split_path (c # s) =
     (if is_separator c then [] # split_path s
      else (case split_path s of seg # segs \<Rightarrow> (c # seg) # segs | [] \<Rightarrow> [[c]]))"

definition validate_relative_uri :: "string \<Rightarrow> unit res" where
  "validate_relative_uri uri =
     (if uri = [] then invalid ''empty uri''
      else if has_control uri then invalid ''uri has control characters''
      else if is_separator (hd uri) then invalid ''must be a relative path''
      else if (case uri of d # c # _ \<Rightarrow> c = CHR '':'' \<and> is_ascii_alphabetic d | _ \<Rightarrow> False)
      then invalid ''must be a relative path''
      else if CHR '':'' \<in> set (hd (split_path uri))
      then invalid ''must not include a scheme or colon in its first path segment''
      else
        each_res
          (\<lambda>segment. if segment = ''..'' then invalid ''must not contain parent components'' else Inr ())
          (split_path uri))"

definition fitted_ref_validate_portable :: "fitted_adapter_ref \<Rightarrow> unit res" where
  "fitted_ref_validate_portable r =
     rseq (fitted_ref_validate r)
       (case fa_uri r of
          None \<Rightarrow> invalid ''not portable: requires backend, uri and content_fingerprint''
        | Some uri \<Rightarrow> validate_relative_uri uri)"

section \<open>Manifests\<close>

record manifest_entry =
  me_adapter_id :: string
  me_fitted_adapter :: fitted_adapter_ref

record fitted_manifest =
  mf_schema_version :: u32
  mf_entries :: "manifest_entry list"

definition fitted_manifest_schema_version :: u32 where
  "fitted_manifest_schema_version = 1"

definition fitted_manifest_new :: "manifest_entry list \<Rightarrow> fitted_manifest" where
  "fitted_manifest_new entries =
     \<lparr>mf_schema_version = fitted_manifest_schema_version, mf_entries = entries\<rparr>"

definition manifest_validate_inner :: "bool \<Rightarrow> fitted_manifest \<Rightarrow> unit res" where
  "manifest_validate_inner require_portable m =
     (if mf_schema_version m \<noteq> fitted_manifest_schema_version then invalid ''unsupported schema_version''
      else
        each_fresh
          (\<lambda>e. if me_adapter_id e \<noteq> fa_adapter_id (me_fitted_adapter e)
               then invalid ''manifest entry key does not match ref adapter_id'' else Inr ())
          me_adapter_id (\<lambda>_. Validation ''manifest contains duplicate adapter_id'')
          (\<lambda>e. if require_portable then fitted_ref_validate_portable (me_fitted_adapter e)
               else fitted_ref_validate (me_fitted_adapter e))
          [] (mf_entries m))"

definition manifest_validate :: "fitted_manifest \<Rightarrow> unit res" where
  "manifest_validate = manifest_validate_inner False"

definition manifest_validate_portable :: "fitted_manifest \<Rightarrow> unit res" where
  "manifest_validate_portable = manifest_validate_inner True"

definition manifest_write_to_path ::
  "(fitted_manifest \<Rightarrow> u8 list option) \<Rightarrow> fitted_manifest \<Rightarrow> string \<Rightarrow> bool \<Rightarrow> file_system \<Rightarrow> file_system res"
where
  "manifest_write_to_path to_vec_pretty m path require_portable fs =
     rseq (if require_portable then manifest_validate_portable m else manifest_validate m)
    (rbind (ok_or (to_vec_pretty m) (Validation ''failed to serialize fitted adapter manifest''))
       (\<lambda>payload. ok_or (fs_write path payload fs) (Validation ''failed to write fitted adapter manifest'')))"

definition manifest_read_from_path ::
  "(u8 list \<Rightarrow> fitted_manifest option) \<Rightarrow> string \<Rightarrow> bool \<Rightarrow> file_system \<Rightarrow> fitted_manifest res"
where
  "manifest_read_from_path from_slice path require_portable fs =
     rbind (ok_or (fs_read path fs) (Validation ''failed to read fitted adapter manifest''))
       (\<lambda>bytes.
     rbind (ok_or (from_slice bytes) (Validation ''failed to parse fitted adapter manifest''))
       (\<lambda>m.
     rseq (if require_portable then manifest_validate_portable m else manifest_validate m) (Inr m)))"

section \<open>The store\<close>

record materialization_key =
  mk_adapter_id :: string
  mk_params_fingerprint :: string

definition key_validate :: "materialization_key \<Rightarrow> unit res" where
  "key_validate k =
     (if is_blank (mk_adapter_id k) then invalid ''materialization request has empty adapter_id''
      else fitted_fingerprint_validate (mk_params_fingerprint k))"

record fitted_handle_record =
  fh_handle :: u64
  fh_fitted_adapter :: fitted_adapter_ref

record fitted_store =
  fst_next_handle :: u64
  fst_records :: "(string, fitted_handle_record) btree_map"

definition fitted_store_new :: fitted_store where
  "fitted_store_new = \<lparr>fst_next_handle = 1, fst_records = []\<rparr>"

definition fitted_register ::
  "fitted_adapter_ref \<Rightarrow> fitted_store \<Rightarrow> fitted_store \<times> fitted_handle_record res"
where
  "fitted_register r s =
     (case fitted_ref_validate r of
        Inl e \<Rightarrow> (s, Inl e)
      | Inr _ \<Rightarrow>
          if map_of (fst_records s) (fa_adapter_id r) \<noteq> None
          then (s, invalid ''fitted adapter store already has handle'')
          else
            (let rec = \<lparr>fh_handle = fst_next_handle s, fh_fitted_adapter = r\<rparr> in
             (s\<lparr>fst_next_handle := fst_next_handle s + 1,
                fst_records := bt_insert (fa_adapter_id r) rec (fst_records s)\<rparr>,
              Inr rec)))"

text \<open>\<open>entries.map(register).collect()\<close>: what was registered before the first error stays.\<close>

fun register_all ::
  "fitted_adapter_ref list \<Rightarrow> fitted_store \<Rightarrow> fitted_store \<times> fitted_handle_record list res"
where
  "register_all [] s = (s, Inr [])"
| "register_all (r # rs) s =
     (case fitted_register r s of
        (s, Inl e) \<Rightarrow> (s, Inl e)
      | (s, Inr rec) \<Rightarrow>
          (case register_all rs s of
             (s, Inl e) \<Rightarrow> (s, Inl e)
           | (s, Inr recs) \<Rightarrow> (s, Inr (rec # recs))))"

definition register_manifest ::
  "fitted_manifest \<Rightarrow> fitted_store \<Rightarrow> fitted_store \<times> fitted_handle_record list res"
where
  "register_manifest m s =
     (case manifest_validate m of
        Inl e \<Rightarrow> (s, Inl e)
      | Inr _ \<Rightarrow> register_all (map me_fitted_adapter (mf_entries m)) s)"

definition fitted_get :: "string \<Rightarrow> fitted_store \<Rightarrow> fitted_handle_record option" where
  "fitted_get adapter_id s = map_of (fst_records s) adapter_id"

definition fitted_release :: "string \<Rightarrow> fitted_store \<Rightarrow> fitted_store \<times> bool" where
  "fitted_release adapter_id s =
     (s\<lparr>fst_records := bt_remove adapter_id (fst_records s)\<rparr>,
      map_of (fst_records s) adapter_id \<noteq> None)"

definition fitted_len :: "fitted_store \<Rightarrow> usize" where
  "fitted_len s = length (fst_records s)"

definition fitted_is_empty :: "fitted_store \<Rightarrow> bool" where
  "fitted_is_empty s \<longleftrightarrow> fst_records s = []"

definition fitted_materialize :: "materialization_key \<Rightarrow> fitted_store \<Rightarrow> u64 res" where
  "fitted_materialize k s =
     rseq (key_validate k)
    (rbind
       (ok_or (map_of (fst_records s) (mk_adapter_id k))
          (Validation ''fitted adapter store is missing adapter''))
       (\<lambda>rec.
          if fa_params_fingerprint (fh_fitted_adapter rec) \<noteq> mk_params_fingerprint k
          then Inl (FingerprintMismatch ''params'' (fa_params_fingerprint (fh_fitted_adapter rec))
                      (mk_params_fingerprint k))
          else Inr (fh_handle rec)))"

end
