(* ===== verification/Fitted_Store.thy ===== *)
theory Fitted_Store
  imports Fitted_Adapters
begin

text \<open>
  What the store of fitted adapters promises: it is a refinement of a log of registrations and
  releases, its handles are never reused (the second interpretation of \<open>handle_store\<close>), and portable
  references stay inside the directory they are resolved in.
\<close>

section \<open>The log\<close>

text \<open>
  The abstract store keeps only what happened, the latest event first. The handle of an adapter is the
  number of the registration that is still in force for it.
\<close>

datatype fitted_event = Registered fitted_adapter_ref | Released string

fun registrations :: "fitted_event list \<Rightarrow> nat" where
  "registrations [] = 0"
| "registrations (Registered _ # log) = Suc (registrations log)"
| "registrations (Released _ # log) = registrations log"

fun in_force :: "fitted_event list \<Rightarrow> string \<Rightarrow> (nat \<times> fitted_adapter_ref) option" where
  "in_force [] i = None"
| "in_force (Registered r # log) i =
     (if fa_adapter_id r = i then Some (Suc (registrations log), r) else in_force log i)"
| "in_force (Released j # log) i = (if j = i then None else in_force log i)"

definition numbered :: "nat \<times> fitted_adapter_ref \<Rightarrow> fitted_handle_record" where
  "numbered kr = \<lparr>fh_handle = of_nat (fst kr), fh_fitted_adapter = snd kr\<rparr>"

definition log_register ::
  "fitted_adapter_ref \<Rightarrow> fitted_event list \<Rightarrow> fitted_event list \<times> fitted_handle_record res"
where
  "log_register r log =
     (case fitted_ref_validate r of
        Inl e \<Rightarrow> (log, Inl e)
      | Inr _ \<Rightarrow>
          if in_force log (fa_adapter_id r) \<noteq> None
          then (log, invalid ''fitted adapter store already has handle'')
          else (Registered r # log, Inr (numbered (Suc (registrations log), r))))"

fun log_register_all ::
  "fitted_adapter_ref list \<Rightarrow> fitted_event list \<Rightarrow> fitted_event list \<times> fitted_handle_record list res"
where
  "log_register_all [] log = (log, Inr [])"
| "log_register_all (r # rs) log =
     (case log_register r log of
        (log, Inl e) \<Rightarrow> (log, Inl e)
      | (log, Inr rec) \<Rightarrow>
          (case log_register_all rs log of
             (log, Inl e) \<Rightarrow> (log, Inl e)
           | (log, Inr recs) \<Rightarrow> (log, Inr (rec # recs))))"

definition log_materialize :: "materialization_key \<Rightarrow> fitted_event list \<Rightarrow> u64 res" where
  "log_materialize k log =
     rseq (key_validate k)
       (case in_force log (mk_adapter_id k) of
          None \<Rightarrow> invalid ''fitted adapter store is missing adapter''
        | Some (n, r) \<Rightarrow>
            if fa_params_fingerprint r \<noteq> mk_params_fingerprint k
            then Inl (FingerprintMismatch ''params'' (fa_params_fingerprint r) (mk_params_fingerprint k))
            else Inr (of_nat n))"

section \<open>Runs\<close>

datatype fitted_op =
    Register fitted_adapter_ref
  | RegisterManifest fitted_manifest
  | Materialize materialization_key
  | Get string
  | Release string
  | Length

datatype fitted_out =
    RegisterOut "fitted_handle_record res"
  | ManifestOut "fitted_handle_record list res"
  | MaterializeOut "u64 res"
  | GetOut "fitted_handle_record option"
  | ReleaseOut bool
  | LengthOut usize

fun store_exec :: "fitted_op \<Rightarrow> fitted_store \<Rightarrow> fitted_store \<times> fitted_out" where
  "store_exec (Register r) s = map_prod id RegisterOut (fitted_register r s)"
| "store_exec (RegisterManifest m) s = map_prod id ManifestOut (register_manifest m s)"
| "store_exec (Materialize k) s = (s, MaterializeOut (fitted_materialize k s))"
| "store_exec (Get i) s = (s, GetOut (fitted_get i s))"
| "store_exec (Release i) s = map_prod id ReleaseOut (fitted_release i s)"
| "store_exec Length s = (s, LengthOut (fitted_len s))"

fun log_exec :: "fitted_op \<Rightarrow> fitted_event list \<Rightarrow> fitted_event list \<times> fitted_out" where
  "log_exec (Register r) log = map_prod id RegisterOut (log_register r log)"
| "log_exec (RegisterManifest m) log =
     (case manifest_validate m of
        Inl e \<Rightarrow> (log, ManifestOut (Inl e))
      | Inr _ \<Rightarrow> map_prod id ManifestOut (log_register_all (map me_fitted_adapter (mf_entries m)) log))"
| "log_exec (Materialize k) log = (log, MaterializeOut (log_materialize k log))"
| "log_exec (Get i) log = (log, GetOut (map_option numbered (in_force log i)))"
| "log_exec (Release i) log = (Released i # log, ReleaseOut (in_force log i \<noteq> None))"
| "log_exec Length log = (log, LengthOut (card {i. in_force log i \<noteq> None}))"

fun run :: "('op \<Rightarrow> 's \<Rightarrow> 's \<times> 'out) \<Rightarrow> 'op list \<Rightarrow> 's \<Rightarrow> 'out list" where
  "run exec [] s = []"
| "run exec (op # ops) s = (let (t, out) = exec op s in out # run exec ops t)"

section \<open>The simulation\<close>

definition represents :: "fitted_store \<Rightarrow> fitted_event list \<Rightarrow> bool" where
  "represents s log \<longleftrightarrow>
     fst_next_handle s = of_nat (Suc (registrations log)) \<and> bt_wf (fst_records s) \<and>
     map_of (fst_records s) = map_option numbered \<circ> in_force log"

lemma represents_lookup: "represents s log \<Longrightarrow> map_of (fst_records s) i = map_option numbered (in_force log i)"
  by (simp add: represents_def)

lemma represents_new: "represents fitted_store_new []"
  by (simp add: represents_def fitted_store_new_def bt.wf_empty fun_eq_iff)

lemma represents_register:
  assumes "represents s log"
  shows "represents (fst (fitted_register r s)) (fst (log_register r log)) \<and>
    snd (fitted_register r s) = snd (log_register r log)"
proof (cases "fitted_ref_validate r")
  case (Inr u)
  show ?thesis
  proof (cases "in_force log (fa_adapter_id r)")
    case None
    have "fst_next_handle s = of_nat (Suc (registrations log))" using assms by (simp add: represents_def)
    with None Inr show ?thesis
      using assms
      by (auto simp: fitted_register_def log_register_def represents_def Let_def numbered_def
          bt_wf_insert map_of_bt_insert fun_eq_iff)
  next
    case (Some kr)
    with Inr assms show ?thesis
      by (simp add: fitted_register_def log_register_def represents_lookup)
  qed
qed (use assms in \<open>simp add: fitted_register_def log_register_def\<close>)

lemma represents_register_all:
  assumes "represents s log"
  shows "represents (fst (register_all rs s)) (fst (log_register_all rs log)) \<and>
    snd (register_all rs s) = snd (log_register_all rs log)"
  using assms
proof (induction rs arbitrary: s log)
  case (Cons r rs)
  obtain t a where t: "fitted_register r s = (t, a)" by (cases "fitted_register r s")
  obtain log' b where log': "log_register r log = (log', b)" by (cases "log_register r log")
  have step: "represents t log'" "a = b" using represents_register [OF Cons.prems, of r] t log' by simp_all
  obtain u c where u: "register_all rs t = (u, c)" by (cases "register_all rs t")
  obtain log'' d where log'': "log_register_all rs log' = (log'', d)" by (cases "log_register_all rs log'")
  have "represents u log''" "c = d" using Cons.IH [OF step(1)] u log'' by simp_all
  with step t log' u log'' show ?case by (auto split: sum.splits)
qed simp

lemma represents_release:
  "represents s log \<Longrightarrow> represents (fst (fitted_release i s)) (Released i # log)"
  by (auto simp: represents_def fitted_release_def bt_wf_remove map_of_bt_remove fun_eq_iff)

lemma represents_length:
  assumes "represents s log"
  shows "fitted_len s = card {i. in_force log i \<noteq> None}"
proof -
  have "set (bt_keys (fst_records s)) = {i. in_force log i \<noteq> None}"
    unfolding set_map dom_map_of_conv_image_fst [symmetric]
    by (auto simp: represents_lookup [OF assms] dom_def)
  moreover have "distinct (bt_keys (fst_records s))"
    using assms by (simp add: represents_def bt_wf_distinct)
  ultimately show ?thesis by (metis distinct_card fitted_len_def length_map)
qed

lemma represents_materialize: "represents s log \<Longrightarrow> fitted_materialize k s = log_materialize k log"
  by (cases "in_force log (mk_adapter_id k)")
    (auto simp: fitted_materialize_def log_materialize_def represents_lookup numbered_def ok_or_def
      intro!: rbind_cong)

lemma simulation:
  assumes "represents s log"
  shows "represents (fst (store_exec op s)) (fst (log_exec op log)) \<and>
    snd (store_exec op s) = snd (log_exec op log)"
proof (cases op)
  case (Register r)
  with represents_register [OF assms, of r] show ?thesis by simp
next
  case (RegisterManifest m)
  with represents_register_all [OF assms, of "map me_fitted_adapter (mf_entries m)"] assms show ?thesis
    by (simp add: register_manifest_def split: sum.splits)
next
  case (Release i)
  with represents_release [OF assms, of i] show ?thesis
    by (simp add: fitted_release_def represents_lookup [OF assms])
qed (use assms in \<open>simp_all add: represents_materialize represents_length fitted_get_def represents_lookup\<close>)

lemma runs_agree: "represents s log \<Longrightarrow> run store_exec ops s = run log_exec ops log"
proof (induction ops arbitrary: s log)
  case (Cons op ops)
  then show ?case using simulation [OF Cons.prems, of op] by (simp add: Let_def case_prod_unfold)
qed simp

text \<open>
  C28. The store refines its log. Whatever sequence of registrations, manifests, materializations,
  lookups and releases a client issues, every answer is the one that the history determines: an
  adapter is live exactly if its last registration was not released since, its handle is the number of
  that registration, a refused registration changes nothing, and a manifest that is refused half way
  keeps what was registered before the refusal.
\<close>

theorem store_refines_log: "run store_exec ops fitted_store_new = run log_exec ops []"
  by (rule runs_agree) (rule represents_new)

section \<open>Handles are never reused\<close>

text \<open>
  Where the counter would overflow, \<open>next_handle += 1\<close> panics in a debug build; a step stops before it.
\<close>

inductive fitted_step :: "fitted_store \<Rightarrow> fitted_store \<Rightarrow> bool" where
  Step_register:
    "fitted_register r s = (t, Inr rec) \<Longrightarrow> fst_next_handle s \<noteq> - 1 \<Longrightarrow> fitted_step s t"
| Step_release: "fitted_release i s = (t, found) \<Longrightarrow> fitted_step s t"

inductive_cases fitted_stepE: "fitted_step s t"

definition fitted_entry_ok :: "u64 \<Rightarrow> string \<Rightarrow> fitted_handle_record \<Rightarrow> bool" where
  "fitted_entry_ok bound i rec \<longleftrightarrow>
     fa_adapter_id (fh_fitted_adapter rec) = i \<and> fitted_ref_validate (fh_fitted_adapter rec) = Inr () \<and>
     fh_handle rec < bound"

definition fitted_wf :: "fitted_store \<Rightarrow> bool" where
  "fitted_wf s \<longleftrightarrow>
     bt_wf (fst_records s) \<and>
     (\<forall>i rec. map_of (fst_records s) i = Some rec \<longrightarrow> fitted_entry_ok (fst_next_handle s) i rec) \<and>
     (\<forall>i j rec rec'. map_of (fst_records s) i = Some rec \<longrightarrow> map_of (fst_records s) j = Some rec' \<longrightarrow>
        fh_handle rec = fh_handle rec' \<longrightarrow> i = j)"

definition fitted_live :: "fitted_store \<Rightarrow> u64 set" where
  "fitted_live s = {h. \<exists>i rec. map_of (fst_records s) i = Some rec \<and> fh_handle rec = h}"

lemma fitted_register_Inr:
  "fitted_register r s = (t, Inr rec) \<longleftrightarrow>
     fitted_ref_validate r = Inr () \<and> map_of (fst_records s) (fa_adapter_id r) = None \<and>
     rec = \<lparr>fh_handle = fst_next_handle s, fh_fitted_adapter = r\<rparr> \<and>
     t = s\<lparr>fst_next_handle := fst_next_handle s + 1,
           fst_records := bt_insert (fa_adapter_id r) rec (fst_records s)\<rparr>"
  by (auto simp: fitted_register_def Let_def split: sum.splits if_splits)

lemma fitted_new_wf: "fitted_wf fitted_store_new"
  by (simp add: fitted_wf_def fitted_store_new_def bt.wf_empty)

lemma fitted_entry_ok_weaken: "fitted_entry_ok b i rec \<Longrightarrow> b < c \<Longrightarrow> fitted_entry_ok c i rec"
  by (auto simp: fitted_entry_ok_def)

lemma fitted_register_wf:
  assumes "fitted_wf s" and "fitted_register r s = (t, Inr rec)" and "fst_next_handle s \<noteq> - 1"
  shows "fitted_wf t"
proof -
  have up: "fst_next_handle s < fst_next_handle s + 1" using next_above [OF assms(3) order_refl] .
  have old: "fitted_entry_ok (fst_next_handle s) i rec'" if "map_of (fst_records s) i = Some rec'" for i rec'
    using assms(1) that by (auto simp: fitted_wf_def)
  have below: "fh_handle rec' \<noteq> fst_next_handle s" if "map_of (fst_records s) i = Some rec'" for i rec'
    using old [OF that] by (auto simp: fitted_entry_ok_def)
  have entries: "bt_wf (fst_records s)"
    "map_of (fst_records t) =
       (map_of (fst_records s))(fa_adapter_id r \<mapsto> \<lparr>fh_handle = fst_next_handle s, fh_fitted_adapter = r\<rparr>)"
    using assms(1,2) by (auto simp: fitted_register_Inr fitted_wf_def map_of_bt_insert)
  have counter: "fst_next_handle t = fst_next_handle s + 1" "fitted_ref_validate r = Inr ()"
    using assms(2) by (auto simp: fitted_register_Inr)
  have "bt_wf (fst_records t)" using assms(2) entries(1) by (auto simp: fitted_register_Inr bt_wf_insert)
  moreover have "fitted_entry_ok (fst_next_handle t) i rec'" if "map_of (fst_records t) i = Some rec'" for i rec'
    using that up fitted_entry_ok_weaken [OF old up]
    by (auto simp: entries counter fitted_entry_ok_def split: if_splits)
  moreover have "i = j"
    if "map_of (fst_records t) i = Some x" "map_of (fst_records t) j = Some y" "fh_handle x = fh_handle y"
    for i j x y
    using that below [of j y] below [of i x] assms(1)
    by (auto simp: entries fitted_wf_def split: if_splits)
  ultimately show ?thesis by (auto simp: fitted_wf_def)
qed

lemma fitted_release_wf: "fitted_wf s \<Longrightarrow> fitted_release i s = (t, found) \<Longrightarrow> fitted_wf t"
  by (auto simp: fitted_wf_def fitted_release_def bt_wf_remove map_of_bt_remove split: if_splits)

lemma fitted_step_wf: "fitted_wf s \<Longrightarrow> fitted_step s t \<Longrightarrow> fitted_wf t"
  by (auto elim!: fitted_stepE intro: fitted_register_wf fitted_release_wf)

interpretation fitted: handle_store fitted_live fst_next_handle fitted_step fitted_wf
proof
  show "fitted_wf s \<Longrightarrow> fitted_step s t \<Longrightarrow> fitted_wf t" for s t by (rule fitted_step_wf)
  show "fitted_wf s \<Longrightarrow> h \<in> fitted_live s \<Longrightarrow> h < fst_next_handle s" for s h
    by (auto simp: fitted_wf_def fitted_live_def fitted_entry_ok_def)
  show "fitted_wf s \<Longrightarrow> fitted_step s t \<Longrightarrow> fst_next_handle s \<le> fst_next_handle t" for s t
    using next_above [of "fst_next_handle s" "fst_next_handle s"]
    by (auto elim!: fitted_stepE simp: fitted_register_Inr fitted_release_def)
  show "fitted_wf s \<Longrightarrow> fitted_step s t \<Longrightarrow> h \<in> fitted_live t \<Longrightarrow> h \<notin> fitted_live s \<Longrightarrow> fst_next_handle s \<le> h"
    for s t h
    by (fastforce elim!: fitted_stepE
        simp: fitted_register_Inr fitted_release_def fitted_live_def map_of_bt_insert map_of_bt_remove
          fitted_wf_def split: if_splits)
qed

lemma fitted_materialize_Inr:
  "fitted_materialize k s = Inr h \<longleftrightarrow>
     key_validate k = Inr () \<and>
     (\<exists>rec. map_of (fst_records s) (mk_adapter_id k) = Some rec \<and> fh_handle rec = h \<and>
        fa_params_fingerprint (fh_fitted_adapter rec) = mk_params_fingerprint k)"
  by (auto simp: fitted_materialize_def rbind_eq_Inr ok_or_def split: option.splits if_splits)

text \<open>
  Once an adapter is released, the handle under which it was materialized is dead: no key, not even
  after the same adapter is registered again, materializes to it in any later state of the store.
\<close>

lemma released_adapter_never_returns:
  assumes "fitted_step\<^sup>*\<^sup>* fitted_store_new s" and "fitted_materialize k s = Inr h"
    and "fitted_step\<^sup>*\<^sup>* (fst (fitted_release (mk_adapter_id k) s)) t"
  shows "fitted_materialize k' t \<noteq> Inr h"
proof -
  let ?u = "fst (fitted_release (mk_adapter_id k) s)"
  have wf: "fitted_wf s" using fitted.steps_wf [OF assms(1) fitted_new_wf] .
  from assms(2) obtain rec where
    rec: "map_of (fst_records s) (mk_adapter_id k) = Some rec" "fh_handle rec = h"
    by (auto simp: fitted_materialize_Inr)
  have "fitted_wf ?u" using wf by (auto intro: fitted_release_wf [of s "mk_adapter_id k"] simp: prod_eq_iff)
  moreover have "h < fst_next_handle ?u"
    using wf rec by (auto simp: fitted_wf_def fitted_entry_ok_def fitted_release_def)
  moreover have "h \<notin> fitted_live ?u"
    using wf rec by (auto simp: fitted_live_def fitted_release_def map_of_bt_remove fitted_wf_def split: if_splits)
  ultimately have "h \<notin> fitted_live t" using fitted.dead_stays_dead [OF assms(3)] by blast
  then show ?thesis by (auto simp: fitted_materialize_Inr fitted_live_def)
qed

section \<open>Portable references\<close>

text \<open>
  How a reader resolves a reference against a root directory, the innermost directory first. An absolute
  path, a drive or a scheme starts outside the root.
\<close>

fun enter :: "string \<Rightarrow> string list \<Rightarrow> string list" where
  "enter seg dir = (if seg = ''..'' then tl dir else if seg = [] \<or> seg = ''.'' then dir else seg # dir)"

definition leaves_root :: "string \<Rightarrow> bool" where
  "leaves_root uri \<longleftrightarrow> uri = [] \<or> is_separator (hd uri) \<or> CHR '':'' \<in> set (hd (split_path uri))"

definition resolve :: "string list \<Rightarrow> string \<Rightarrow> string list" where
  "resolve root uri = fold enter (split_path uri) (if leaves_root uri then [] else root)"

lemma fold_enter_inside:
  "''..'' \<notin> set segs \<Longrightarrow> \<exists>below. fold enter segs (dir @ root) = below @ root"
proof (induction segs arbitrary: dir)
  case (Cons seg segs)
  then show ?case using Cons.IH [of dir] Cons.IH [of "seg # dir"] by auto
qed simp

lemma validate_relative_uri_Inr:
  "validate_relative_uri uri = Inr () \<Longrightarrow> \<not> leaves_root uri \<and> ''..'' \<notin> set (split_path uri)"
  by (auto simp: validate_relative_uri_def leaves_root_def each_res_ok split: if_splits)

text \<open>
  C29. A portable reference never leaves the directory it is resolved in: when a reference passes
  \<open>validate_portable\<close>, its uri resolves to a path below the root, whatever the root.
\<close>

theorem portable_uri_stays_inside:
  assumes "fitted_ref_validate_portable r = Inr ()"
  shows "\<exists>uri below. fa_uri r = Some uri \<and> resolve root uri = below @ root"
proof -
  from assms obtain uri where uri: "fa_uri r = Some uri" "validate_relative_uri uri = Inr ()"
    by (auto simp: fitted_ref_validate_portable_def rbind_eq_Inr split: option.splits)
  with fold_enter_inside [of "split_path uri" "[]" root] validate_relative_uri_Inr [OF uri(2)] show ?thesis
    by (auto simp: resolve_def)
qed

section \<open>Manifest files\<close>

text \<open>What was written reads back, under the same or the weaker check.\<close>

lemma validate_portable_weaken: "fitted_ref_validate_portable r = Inr () \<Longrightarrow> fitted_ref_validate r = Inr ()"
  by (auto simp: fitted_ref_validate_portable_def rbind_eq_Inr)

lemma manifest_file_round_trip:
  assumes "manifest_write_to_path to_vec m path portable fs = Inr fs'"
    and "\<And>bytes. to_vec m = Some bytes \<Longrightarrow> from_slice bytes = Some m"
  shows "manifest_read_from_path from_slice path portable fs' = Inr m"
  using assms fs_read_write
  by (auto simp: manifest_write_to_path_def manifest_read_from_path_def rbind_eq_Inr ok_or_def
      split: option.splits if_splits)

section \<open>A store at work\<close>

definition demo_fitted :: "string \<Rightarrow> fitted_adapter_ref" where
  "demo_fitted i =
     \<lparr>fa_schema_version = 1, fa_adapter_id = i, fa_adapter_version = ''1'',
      fa_params_fingerprint = replicate 64 (CHR ''a''), fa_backend = Some Joblib,
      fa_uri = Some ''fitted/pca.joblib'', fa_content_fingerprint = Some (replicate 64 (CHR ''b'')),
      fa_size_bytes = Some 12, fa_plugin = None, fa_plugin_version = None, fa_metadata = []\<rparr>"

definition demo_fitted_key :: "string \<Rightarrow> materialization_key" where
  "demo_fitted_key i = \<lparr>mk_adapter_id = i, mk_params_fingerprint = replicate 64 (CHR ''a'')\<rparr>"

definition demo_fitted_store :: fitted_store where
  "demo_fitted_store = fst (fitted_register (demo_fitted ''pca'') fitted_store_new)"

lemmas demo_fitted_simps =
  demo_fitted_def demo_fitted_key_def key_validate_def fitted_ref_validate_portable_def
  fitted_ref_validate_def validate_optional_text_def fitted_fingerprint_validate_def
  validate_relative_uri_def fitted_adapter_ref_schema_version_def is_blank_graphic has_control_graphic
  is_ascii_graphic_def byte_of_def ascii_class_defs list_all_iff

lemma demo_fitted_portable: "fitted_ref_validate_portable (demo_fitted ''pca'') = Inr ()"
  by (simp add: demo_fitted_simps is_separator_def)

lemma demo_fitted_register:
  "fitted_register (demo_fitted ''pca'') fitted_store_new =
     (demo_fitted_store, Inr \<lparr>fh_handle = 1, fh_fitted_adapter = demo_fitted ''pca''\<rparr>)"
  using validate_portable_weaken [OF demo_fitted_portable]
  by (simp add: demo_fitted_store_def fitted_register_def fitted_store_new_def Let_def)

lemma demo_fitted_step: "fitted_step fitted_store_new demo_fitted_store"
  by (rule Step_register [OF demo_fitted_register]) (simp add: fitted_store_new_def)

lemma demo_fitted_store_is:
  "demo_fitted_store =
     \<lparr>fst_next_handle = 2,
      fst_records = [(''pca'', \<lparr>fh_handle = 1, fh_fitted_adapter = demo_fitted ''pca''\<rparr>)]\<rparr>"
  using demo_fitted_register by (simp add: fitted_register_Inr fitted_store_new_def demo_fitted_def)

lemma demo_fitted_materialize: "fitted_materialize (demo_fitted_key ''pca'') demo_fitted_store = Inr 1"
  by (simp add: demo_fitted_store_is fitted_materialize_Inr demo_fitted_simps)

theorem released_adapter_never_returns_witness:
  "fitted_materialize (demo_fitted_key ''pca'')
     (fst (fitted_release ''pca'' demo_fitted_store)) \<noteq> Inr 1"
  using released_adapter_never_returns
    [OF r_into_rtranclp [of fitted_step, OF demo_fitted_step] demo_fitted_materialize rtranclp.rtrancl_refl]
  by (simp add: demo_fitted_key_def)

theorem portable_uri_stays_inside_witness:
  "\<exists>uri below. fa_uri (demo_fitted ''pca'') = Some uri \<and> resolve [''run''] uri = below @ [''run'']"
  by (rule portable_uri_stays_inside [OF demo_fitted_portable])

end
