(* ===== verification/Nd_Tensor.thy ===== *)
theory Nd_Tensor
  imports Buffer_File
begin

text \<open>
  Dense tensors keyed by observation (\<open>nd_tensor.rs\<close>): their construction from canonical row-major
  bytes, the gathering of axis-0 rows along a relation set, the content fingerprint, the store of
  tensors and the arena that binds them to data handles. An index or a slice out of range is the error
  \<open>slice_panic\<close>, shown never to occur.
\<close>

section \<open>Data\<close>

datatype nd_dtype = DF64 | DF32 | DU8 | DI32 | DBool

fun element_size :: "nd_dtype \<Rightarrow> usize" where
  "element_size DF64 = 8"
| "element_size DF32 = 4"
| "element_size DU8 = 1"
| "element_size DI32 = 4"
| "element_size DBool = 1"

fun fingerprint_tag :: "nd_dtype \<Rightarrow> u64" where
  "fingerprint_tag DF64 = 1"
| "fingerprint_tag DF32 = 2"
| "fingerprint_tag DU8 = 3"
| "fingerprint_tag DI32 = 4"
| "fingerprint_tag DBool = 5"

record nd_input =
  ndi_tensor_id :: string
  ndi_representation_id :: representation_id
  ndi_container :: string
  ndi_dtype :: nd_dtype
  ndi_shape :: "usize list"
  ndi_observation_ids :: "observation_id list"
  ndi_sample_ids :: "sample_id list option"
  ndi_data :: "u8 list"
  ndi_row_presence :: "bool list option"

record nd_tensor =
  nd_tensor_id :: string
  nd_representation_id :: representation_id
  nd_container :: string
  nd_dtype :: nd_dtype
  nd_shape :: "usize list"
  nd_observation_ids :: "observation_id list"
  nd_data :: "u8 list"
  nd_row_presence :: "bool list option"
  nd_row_index :: "(observation_id, usize) btree_map"
  nd_row_stride_bytes :: usize

record nd_manifest =
  ndm_schema_version :: u32
  ndm_tensor_id :: string
  ndm_representation_id :: representation_id
  ndm_container :: string
  ndm_dtype :: nd_dtype
  ndm_shape :: "usize list"
  ndm_observation_ids :: "observation_id list"
  ndm_row_count :: usize
  ndm_element_bytes :: usize
  ndm_data_bytes :: usize
  ndm_tensor_fingerprint :: string

record nd_binding =
  ndb_tensor_id :: string
  ndb_representation_id :: representation_id
  ndb_container :: string
  ndb_dtype :: nd_dtype
  ndb_source_ids :: "source_id list"
  ndb_shape :: "usize list"
  ndb_row_count :: usize
  ndb_tensor_fingerprint :: string

record nd_block =
  ndk_tensor_id :: string
  ndk_representation_id :: representation_id
  ndk_container :: string
  ndk_dtype :: nd_dtype
  ndk_shape :: "usize list"
  ndk_observation_ids :: "observation_id list"
  ndk_sample_ids :: "sample_id list"
  ndk_data :: "u8 list"
  ndk_row_presence :: "bool list option"

type_synonym nd_store = "(string, nd_tensor) btree_map"

record nd_arena =
  nda_store :: nd_store
  nda_data_bindings :: "(u64, (string, nd_binding) btree_map) btree_map"

section \<open>Construction\<close>

definition nd_tensor_max_rank :: usize where
  "nd_tensor_max_rank = 16"

definition checked_shape_product :: "usize list \<Rightarrow> usize res" where
  "checked_shape_product =
     fold_res
       (\<lambda>product dim. ok_or (checked_mul product dim) (Validation ''shape product overflows usize'')) 1"

text \<open>The loop that numbers the observations.\<close>

definition number_rows :: "observation_id list \<Rightarrow> (observation_id, usize) btree_map res" where
  "number_rows observation_ids =
     fold_res
       (\<lambda>index (idx, observation_id).
          if map_of index observation_id \<noteq> None then invalid ''nd tensor has duplicate observation''
          else Inr (bt_insert observation_id idx index))
       [] (List.enumerate 0 observation_ids)"

definition nd_from_input :: "nd_input \<Rightarrow> nd_tensor res" where
  "nd_from_input i =
     (if is_blank (ndi_tensor_id i) then invalid ''nd tensor has an empty tensor id''
      else if is_blank (ndi_container i) then invalid ''nd tensor has an empty container''
      else if ndi_shape i = [] \<or> length (ndi_shape i) > nd_tensor_max_rank
      then invalid ''rank is not in range''
      else if 0 \<in> set (ndi_shape i) then invalid ''zero dimension in shape''
      else
        (let row_count = hd (ndi_shape i) in
         if length (ndi_observation_ids i) \<noteq> row_count then invalid ''observation ids for axis-0 size''
         else if ndi_observation_ids i = [] then invalid ''nd tensor has no observations''
         else
           rbind (number_rows (ndi_observation_ids i)) (\<lambda>index.
           if (case ndi_sample_ids i of Some ss \<Rightarrow> length ss \<noteq> row_count | None \<Rightarrow> False)
           then invalid ''sample ids for axis-0 size''
           else
             rbind (checked_shape_product (ndi_shape i)) (\<lambda>total_elements.
             rbind
               (ok_or (checked_mul total_elements (element_size (ndi_dtype i)))
                  (Validation ''byte size overflows usize''))
               (\<lambda>expected_bytes.
             if length (ndi_data i) \<noteq> expected_bytes then invalid ''data bytes for shape''
             else if ndi_dtype i = DBool \<and> list_ex (\<lambda>byte. byte > 1) (ndi_data i)
             then invalid ''bool payload contains a byte that is not 0 or 1''
             else if (case ndi_row_presence i of Some p \<Rightarrow> length p \<noteq> row_count | None \<Rightarrow> False)
             then invalid ''row presence flags for axis-0 size''
             else
               Inr \<lparr>nd_tensor_id = ndi_tensor_id i, nd_representation_id = ndi_representation_id i,
                    nd_container = ndi_container i, nd_dtype = ndi_dtype i, nd_shape = ndi_shape i,
                    nd_observation_ids = ndi_observation_ids i, nd_data = ndi_data i,
                    nd_row_presence = ndi_row_presence i, nd_row_index = index,
                    nd_row_stride_bytes = expected_bytes div row_count\<rparr>)))))"

section \<open>Gathering rows\<close>

definition nd_contains_observation :: "nd_tensor \<Rightarrow> observation_id \<Rightarrow> bool" where
  "nd_contains_observation t observation_id \<longleftrightarrow> map_of (nd_row_index t) observation_id \<noteq> None"

text \<open>The body of the loop over the selected relations: the bytes of a row and its presence flag.\<close>

definition gather_row :: "nd_tensor \<Rightarrow> coordinator_relation \<Rightarrow> (u8 list \<times> bool list) res" where
  "gather_row t r =
     rbind
       (ok_or (map_of (nd_row_index t) (cr_observation_id r))
          (Validation ''nd tensor has no row for observation''))
       (\<lambda>row_idx.
     let start = row_idx * nd_row_stride_bytes t in
     rbind (bytes_slice (nd_data t) start (start + nd_row_stride_bytes t))
       (\<lambda>chunk.
     rbind
       (case nd_row_presence t of
          None \<Rightarrow> Inr []
        | Some p \<Rightarrow> if row_idx < length p then Inr [p ! row_idx] else Inl slice_panic)
       (\<lambda>flags. Inr (chunk, flags))))"

definition nd_project_relations :: "nd_tensor \<Rightarrow> relation_set \<Rightarrow> source_id option \<Rightarrow> nd_block res" where
  "nd_project_relations t relations source_id =
     rseq (relation_set_validate relations)
       (let selected = of_source source_id relations in
        rbind (map_res (gather_row t) selected)
          (\<lambda>gathered.
             Inr \<lparr>ndk_tensor_id = nd_tensor_id t, ndk_representation_id = nd_representation_id t,
                  ndk_container = nd_container t, ndk_dtype = nd_dtype t,
                  ndk_shape = (nd_shape t)[0 := length selected],
                  ndk_observation_ids = map cr_observation_id selected,
                  ndk_sample_ids = map cr_sample_id selected, ndk_data = concat (map fst gathered),
                  ndk_row_presence = map_option (\<lambda>_. concat (map snd gathered)) (nd_row_presence t)\<rparr>))"

section \<open>Fingerprint, manifest and binding\<close>

definition nd_domain :: "u8 list" where
  "nd_domain = str_bytes ''dag-ml-data.nd-tensor.v2'' @ [0]"

definition nd_fingerprint :: "(u8 list \<Rightarrow> u8 list) \<Rightarrow> nd_tensor \<Rightarrow> string" where
  "nd_fingerprint sha256 t =
     (let h = hasher_new nd_domain;
          h = absorb_str (nd_tensor_id t) h;
          h = absorb_str (as_str (nd_representation_id t)) h;
          h = absorb_str (nd_container t) h;
          h = absorb_u64 (fingerprint_tag (nd_dtype t)) h;
          h = absorb_len (length (nd_shape t)) h;
          h = fold absorb_len (nd_shape t) h;
          h = absorb_str_collection (map as_str (nd_observation_ids t)) h;
          h = absorb_len (length (nd_data t)) h;
          h = absorb_raw (nd_data t) h;
          h = (case nd_row_presence t of
                 None \<Rightarrow> absorb_u64 0 h
               | Some presence \<Rightarrow>
                   fold (\<lambda>present. absorb_raw [if present then 1 else 0]) presence
                     (absorb_len (length presence) (absorb_u64 1 h)))
      in finalize_hex sha256 h)"

definition nd_manifest_of :: "(u8 list \<Rightarrow> u8 list) \<Rightarrow> nd_tensor \<Rightarrow> nd_manifest" where
  "nd_manifest_of sha256 t =
     \<lparr>ndm_schema_version = 1, ndm_tensor_id = nd_tensor_id t,
      ndm_representation_id = nd_representation_id t, ndm_container = nd_container t,
      ndm_dtype = nd_dtype t, ndm_shape = nd_shape t, ndm_observation_ids = nd_observation_ids t,
      ndm_row_count = nd_shape t ! 0, ndm_element_bytes = element_size (nd_dtype t),
      ndm_data_bytes = length (nd_data t), ndm_tensor_fingerprint = nd_fingerprint sha256 t\<rparr>"

definition nd_binding_for_sources :: "(u8 list \<Rightarrow> u8 list) \<Rightarrow> nd_tensor \<Rightarrow> source_id list \<Rightarrow> nd_binding" where
  "nd_binding_for_sources sha256 t source_ids =
     \<lparr>ndb_tensor_id = nd_tensor_id t, ndb_representation_id = nd_representation_id t,
      ndb_container = nd_container t, ndb_dtype = nd_dtype t, ndb_source_ids = source_ids,
      ndb_shape = nd_shape t, ndb_row_count = nd_shape t ! 0,
      ndb_tensor_fingerprint = nd_fingerprint sha256 t\<rparr>"

section \<open>The store\<close>

definition nd_store_from_inputs :: "nd_input list \<Rightarrow> nd_store res" where
  "nd_store_from_inputs inputs =
     fold_res
       (\<lambda>tensors i.
          rbind (nd_from_input i)
            (\<lambda>t. if map_of tensors (nd_tensor_id t) \<noteq> None then invalid ''duplicate nd tensor''
                 else Inr (bt_insert (nd_tensor_id t) t tensors)))
       [] inputs"

definition nd_store_manifests :: "(u8 list \<Rightarrow> u8 list) \<Rightarrow> nd_store \<Rightarrow> nd_manifest list" where
  "nd_store_manifests sha256 s = map (nd_manifest_of sha256) (bt_values s)"

definition nd_covers :: "nd_tensor \<Rightarrow> coordinator_relation list \<Rightarrow> bool" where
  "nd_covers t rs \<longleftrightarrow> list_all (\<lambda>r. nd_contains_observation t (cr_observation_id r)) rs"

text \<open>The body of the loop over the tensors; the fingerprint never fails.\<close>

definition nd_bind_tensor ::
  "(u8 list \<Rightarrow> u8 list) \<Rightarrow> relation_set \<Rightarrow> source_id list \<Rightarrow> representation_id \<Rightarrow> nd_tensor \<Rightarrow> nd_binding list"
where
  "nd_bind_tensor sha256 relations source_ids representation_id t =
     (if nd_representation_id t \<noteq> representation_id then []
      else if source_ids = []
      then (if nd_covers t (rs_records relations) then [nd_binding_for_sources sha256 t []] else [])
      else
        (let covered_sources =
               filter (\<lambda>s. nd_covers t (filter (\<lambda>r. cr_source_id r = Some s) (rs_records relations)))
                 source_ids
         in if covered_sources \<noteq> [] then [nd_binding_for_sources sha256 t covered_sources] else []))"

definition nd_bindings_for_relations ::
  "(u8 list \<Rightarrow> u8 list) \<Rightarrow> nd_store \<Rightarrow> relation_set \<Rightarrow> representation_id \<Rightarrow> nd_binding list res"
where
  "nd_bindings_for_relations sha256 s relations representation_id =
     rseq (relation_set_validate relations)
       (Inr (concat
          (map (nd_bind_tensor sha256 relations (relation_sources relations) representation_id)
             (bt_values s))))"

definition nd_store_project_relations ::
  "nd_store \<Rightarrow> string \<Rightarrow> relation_set \<Rightarrow> source_id option \<Rightarrow> nd_block res"
where
  "nd_store_project_relations s tensor_id relations source_id =
     rbind (ok_or (map_of s tensor_id) (Validation ''nd tensor is not present''))
       (\<lambda>t. nd_project_relations t relations source_id)"

section \<open>The arena\<close>

definition nd_arena_new :: "nd_store \<Rightarrow> nd_arena" where
  "nd_arena_new s = \<lparr>nda_store = s, nda_data_bindings = []\<rparr>"

definition nd_bind_data_handle ::
  "(u8 list \<Rightarrow> u8 list) \<Rightarrow> nd_arena \<Rightarrow> u64 \<Rightarrow> relation_set \<Rightarrow> representation_id \<Rightarrow>
   (nd_arena \<times> nd_binding list) res"
where
  "nd_bind_data_handle sha256 a data_handle relations representation_id =
     rbind (nd_bindings_for_relations sha256 (nda_store a) relations representation_id)
       (\<lambda>bindings.
          Inr (a\<lparr>nda_data_bindings :=
                  bt_insert data_handle (bt_collect (map (\<lambda>bd. (ndb_tensor_id bd, bd)) bindings))
                    (nda_data_bindings a)\<rparr>,
               bindings))"

definition nd_release_data_handle :: "nd_arena \<Rightarrow> u64 \<Rightarrow> nd_arena \<times> bool" where
  "nd_release_data_handle a data_handle =
     (a\<lparr>nda_data_bindings := bt_remove data_handle (nda_data_bindings a)\<rparr>,
      map_of (nda_data_bindings a) data_handle \<noteq> None)"

definition nd_bindings_for_data_handle :: "nd_arena \<Rightarrow> u64 \<Rightarrow> nd_binding list res" where
  "nd_bindings_for_data_handle a data_handle =
     rbind (ok_or (map_of (nda_data_bindings a) data_handle)
              (Validation ''data handle has no nd tensor bindings''))
       (\<lambda>bindings. Inr (bt_values bindings))"

definition nd_project_bound_relations ::
  "nd_arena \<Rightarrow> u64 \<Rightarrow> string \<Rightarrow> relation_set \<Rightarrow> source_id option \<Rightarrow> nd_block res"
where
  "nd_project_bound_relations a data_handle tensor_id relations source_id =
     rseq (relation_set_validate relations)
       (rbind
          (ok_or (Option.bind (map_of (nda_data_bindings a) data_handle) (\<lambda>bs. map_of bs tensor_id))
             (Validation ''nd tensor is not bound to data handle''))
          (\<lambda>binding.
             let view_source_ids = relation_sources relations in
             rbind
               (case source_id of
                  Some s \<Rightarrow>
                    if view_source_ids = [] \<or> s \<notin> set view_source_ids
                    then invalid ''source is not present in view for data handle'' else Inr [s]
                | None \<Rightarrow> Inr view_source_ids)
               (\<lambda>required.
             rseq
               (each_res
                  (\<lambda>s. if s \<notin> set (ndb_source_ids binding)
                       then invalid ''nd tensor is not bound to source for data handle''
                       else Inr ())
                  required)
               (nd_store_project_relations (nda_store a) tensor_id relations source_id))))"

end
