(* ===== verification/Nd_Gather.thy ===== *)
theory Nd_Gather
  imports Nd_Tensor
begin

text \<open>
  What tensors promise: which inputs are accepted, that gathering copies whole rows without leaving
  the payload, that the fingerprint identifies the tensor, and that a bound tensor serves the views of
  its handle.
\<close>

section \<open>Accepted inputs\<close>

definition nd_input_ok :: "nd_input \<Rightarrow> bool" where
  "nd_input_ok i \<longleftrightarrow>
     \<not> is_blank (ndi_tensor_id i) \<and> \<not> is_blank (ndi_container i) \<and>
     ndi_shape i \<noteq> [] \<and> length (ndi_shape i) \<le> 16 \<and> 0 \<notin> set (ndi_shape i) \<and>
     length (ndi_observation_ids i) = hd (ndi_shape i) \<and> distinct (ndi_observation_ids i) \<and>
     (\<forall>ss. ndi_sample_ids i = Some ss \<longrightarrow> length ss = hd (ndi_shape i)) \<and>
     (\<forall>p. ndi_row_presence i = Some p \<longrightarrow> length p = hd (ndi_shape i)) \<and>
     prod_list (ndi_shape i) * element_size (ndi_dtype i) \<le> usize_max \<and>
     length (ndi_data i) = prod_list (ndi_shape i) * element_size (ndi_dtype i) \<and>
     (ndi_dtype i = DBool \<longrightarrow> list_all (\<lambda>byte. byte \<le> 1) (ndi_data i))"

definition row_bytes_of :: "usize list \<Rightarrow> nd_dtype \<Rightarrow> usize" where
  "row_bytes_of shape dtype = prod_list (tl shape) * element_size dtype"

definition stored_tensor :: "nd_input \<Rightarrow> nd_tensor" where
  "stored_tensor i =
     \<lparr>nd_tensor_id = ndi_tensor_id i, nd_representation_id = ndi_representation_id i,
      nd_container = ndi_container i, nd_dtype = ndi_dtype i, nd_shape = ndi_shape i,
      nd_observation_ids = ndi_observation_ids i, nd_data = ndi_data i,
      nd_row_presence = ndi_row_presence i, nd_row_index = row_index_of (ndi_observation_ids i),
      nd_row_stride_bytes = row_bytes_of (ndi_shape i) (ndi_dtype i)\<rparr>"

lemma element_size_pos: "element_size d > 0"
  by (cases d) simp_all

lemma prod_list_pos: "0 \<notin> set shape \<Longrightarrow> prod_list shape > (0 :: nat)"
  by (induction shape) auto

lemma number_rows_from:
  "fold_res
     (\<lambda>index (idx, observation_id).
        if map_of index observation_id \<noteq> None then invalid ''nd tensor has duplicate observation''
        else Inr (bt_insert observation_id idx index)) acc (List.enumerate n obs) = Inr index \<longleftrightarrow>
   distinct obs \<and> (\<forall>x\<in>set obs. map_of acc x = None) \<and>
   index = fold (\<lambda>(k, v) m. bt_insert k v m) (map (\<lambda>(idx, x). (x, idx)) (List.enumerate n obs)) acc"
  by (induction obs arbitrary: n acc) (auto simp: rbind_eq_Inr if_Inl_eq_Inr map_of_bt_insert split: if_splits)

lemma number_rows_ok: "number_rows obs = Inr index \<longleftrightarrow> distinct obs \<and> index = row_index_of obs"
  unfolding number_rows_def number_rows_from row_index_of_def bt_collect_def by simp

lemma shape_product_from:
  assumes "0 \<notin> set shape" and "p \<le> usize_max"
  shows "fold_res (\<lambda>product dim. ok_or (checked_mul product dim) e) p shape = Inr q \<longleftrightarrow>
    q = p * prod_list shape \<and> p * prod_list shape \<le> usize_max"
  using assms
proof (induction shape arbitrary: p)
  case (Cons d shape)
  have "p * d \<le> p * (d * prod_list shape)" using prod_list_pos [of shape] Cons.prems(1) by simp
  then have "p * (d * prod_list shape) \<le> usize_max \<Longrightarrow> p * d \<le> usize_max" by (rule order_trans)
  then show ?case
    using Cons.IH [of "p * d"] Cons.prems
    by (auto simp: rbind_eq_Inr ok_or_eq_Inr checked_mul_Some mult.assoc)
qed auto

lemma shape_product_ok:
  "0 \<notin> set shape \<Longrightarrow>
   checked_shape_product shape = Inr q \<longleftrightarrow> q = prod_list shape \<and> prod_list shape \<le> usize_max"
  using shape_product_from [of shape 1] by (simp add: checked_shape_product_def usize_max_def)

lemma stride_of_shape:
  "shape \<noteq> [] \<Longrightarrow> 0 \<notin> set shape \<Longrightarrow> prod_list shape * element_size d = hd shape * row_bytes_of shape d"
  by (cases shape) (simp_all add: row_bytes_of_def mult.assoc)

lemma nd_from_input_iff: "nd_from_input i = Inr t \<longleftrightarrow> nd_input_ok i \<and> t = stored_tensor i"
proof (cases "ndi_shape i \<noteq> [] \<and> 0 \<notin> set (ndi_shape i)")
  case True
  then have pos: "hd (ndi_shape i) > 0" by (cases "ndi_shape i") auto
  have "prod_list (ndi_shape i) \<le> prod_list (ndi_shape i) * element_size (ndi_dtype i)"
    using element_size_pos [of "ndi_dtype i"] by simp
  then have fits: "prod_list (ndi_shape i) * element_size (ndi_dtype i) \<le> usize_max \<Longrightarrow>
      prod_list (ndi_shape i) \<le> usize_max"
    by (rule order_trans)
  have stride: "prod_list (ndi_shape i) * element_size (ndi_dtype i) div hd (ndi_shape i) =
      row_bytes_of (ndi_shape i) (ndi_dtype i)"
    using True pos stride_of_shape [of "ndi_shape i" "ndi_dtype i"] by simp
  have bools: "\<not> list_ex (\<lambda>byte. byte > 1) (ndi_data i) \<longleftrightarrow> list_all (\<lambda>byte. byte \<le> 1) (ndi_data i)"
    by (auto simp: list_ex_iff list_all_iff not_less)
  have some: "\<not> (case x of Some xs \<Rightarrow> length xs \<noteq> n | None \<Rightarrow> False) \<longleftrightarrow> (\<forall>xs. x = Some xs \<longrightarrow> length xs = n)"
    for x :: "'x list option" and n by (cases x) auto
  show ?thesis
    using True pos
    by (auto intro: fits simp: nd_from_input_def nd_input_ok_def if_Inl_eq_Inr Let_def rbind_eq_Inr number_rows_ok
        shape_product_ok ok_or_eq_Inr checked_mul_Some stride stored_tensor_def nd_tensor_max_rank_def
        bools some)
qed (auto simp: nd_from_input_def nd_input_ok_def if_Inl_eq_Inr)

section \<open>Gathering\<close>

definition tensor_row :: "nd_tensor \<Rightarrow> observation_id \<Rightarrow> u8 list" where
  "tensor_row t x =
     take (nd_row_stride_bytes t)
       (drop (position x (nd_observation_ids t) * nd_row_stride_bytes t) (nd_data t))"

definition gathered_block :: "nd_tensor \<Rightarrow> coordinator_relation list \<Rightarrow> nd_block" where
  "gathered_block t rs =
     \<lparr>ndk_tensor_id = nd_tensor_id t, ndk_representation_id = nd_representation_id t,
      ndk_container = nd_container t, ndk_dtype = nd_dtype t, ndk_shape = length rs # tl (nd_shape t),
      ndk_observation_ids = map cr_observation_id rs, ndk_sample_ids = map cr_sample_id rs,
      ndk_data = concat (map (\<lambda>r. tensor_row t (cr_observation_id r)) rs),
      ndk_row_presence =
        map_option (\<lambda>p. map (\<lambda>r. p ! position (cr_observation_id r) (nd_observation_ids t)) rs)
          (nd_row_presence t)\<rparr>"

lemma row_in_payload:
  assumes "nd_input_ok i" and "k < length (ndi_observation_ids i)"
  shows "k * row_bytes_of (ndi_shape i) (ndi_dtype i) + row_bytes_of (ndi_shape i) (ndi_dtype i) \<le> length (ndi_data i)"
proof -
  have "Suc k * row_bytes_of (ndi_shape i) (ndi_dtype i) \<le> hd (ndi_shape i) * row_bytes_of (ndi_shape i) (ndi_dtype i)"
    using assms by (intro mult_right_mono) (simp_all add: nd_input_ok_def)
  then show ?thesis using assms(1) stride_of_shape [of "ndi_shape i" "ndi_dtype i"] by (simp add: nd_input_ok_def)
qed

lemma gather_row_ok:
  assumes "nd_from_input i = Inr t"
  shows "gather_row t r =
    (if cr_observation_id r \<in> set (nd_observation_ids t)
     then Inr (tensor_row t (cr_observation_id r),
            case nd_row_presence t of None \<Rightarrow> []
            | Some p \<Rightarrow> [p ! position (cr_observation_id r) (nd_observation_ids t)])
     else invalid ''nd tensor has no row for observation'')"
proof -
  have ok: "nd_input_ok i" and t: "t = stored_tensor i" using assms by (simp_all add: nd_from_input_iff)
  have dist: "distinct (ndi_observation_ids i)" using ok by (simp add: nd_input_ok_def)
  show ?thesis
  proof (cases "cr_observation_id r \<in> set (ndi_observation_ids i)")
    case True
    let ?k = "position (cr_observation_id r) (ndi_observation_ids i)"
    have k: "?k < length (ndi_observation_ids i)" "ndi_observation_ids i ! ?k = cr_observation_id r"
      using position_bound [OF True] by simp_all
    then have "map_of (nd_row_index t) (cr_observation_id r) = Some ?k"
      by (simp add: t stored_tensor_def row_index_lookup [OF dist])
    moreover have "?k < length p" if "ndi_row_presence i = Some p" for p
      using that ok k(1) by (simp add: nd_input_ok_def)
    ultimately show ?thesis
      using True row_in_payload [OF ok k(1)]
      by (auto simp: gather_row_def Let_def bytes_slice_def t stored_tensor_def tensor_row_def split: option.splits)
  next
    case False
    then have "map_of (nd_row_index t) (cr_observation_id r) = None"
      by (simp add: t stored_tensor_def row_index_keys [OF dist])
    with False show ?thesis by (simp add: gather_row_def t stored_tensor_def)
  qed
qed

lemma map_res_guarded:
  "map_res (\<lambda>x. if P x then Inr (g x) else Inl e) xs = (if \<forall>x\<in>set xs. P x then Inr (map g xs) else Inl e)"
  by (induction xs) auto

lemma length_tensor_row:
  assumes "nd_from_input i = Inr t" and "x \<in> set (nd_observation_ids t)"
  shows "length (tensor_row t x) = nd_row_stride_bytes t"
  using assms row_in_payload [of i "position x (ndi_observation_ids i)"] position_bound [of x "ndi_observation_ids i"]
  by (auto simp: nd_from_input_iff stored_tensor_def tensor_row_def)

lemma concat_chunk:
  "(\<forall>x\<in>set xs. length (f x) = n) \<Longrightarrow> k < length xs \<Longrightarrow> take n (drop (k * n) (concat (map f xs))) = f (xs ! k)"
proof (induction xs arbitrary: k)
  case (Cons x xs)
  then show ?case by (cases k) simp_all
qed simp

lemma length_concat_chunks: "(\<forall>x\<in>set xs. length (f x) = n) \<Longrightarrow> length (concat (map f xs)) = length xs * n"
  by (induction xs) simp_all

lemma nd_projection_gathers_lemma:
  assumes "nd_from_input i = Inr t"
  shows "nd_project_relations t relations source_id =
      rseq (relation_set_validate relations)
        (if cr_observation_id ` set (of_source source_id relations) \<subseteq> set (nd_observation_ids t)
         then Inr (gathered_block t (of_source source_id relations))
         else invalid ''nd tensor has no row for observation'') \<and>
    (\<forall>rs k. cr_observation_id ` set rs \<subseteq> set (nd_observation_ids t) \<longrightarrow> k < length rs \<longrightarrow>
       length (ndk_data (gathered_block t rs)) =
         prod_list (ndk_shape (gathered_block t rs)) * element_size (nd_dtype t) \<and>
       take (nd_row_stride_bytes t) (drop (k * nd_row_stride_bytes t) (ndk_data (gathered_block t rs))) =
         tensor_row t (cr_observation_id (rs ! k)))"
proof (intro conjI allI impI)
  have shape: "(nd_shape t)[0 := n] = n # tl (nd_shape t)" for n
    using assms by (cases "ndi_shape i") (auto simp: nd_from_input_iff nd_input_ok_def stored_tensor_def)
  let ?rs = "of_source source_id relations"
  have rows: "map_res (gather_row t) ?rs =
      (if \<forall>r\<in>set ?rs. cr_observation_id r \<in> set (nd_observation_ids t)
       then Inr (map (\<lambda>r. (tensor_row t (cr_observation_id r),
            case nd_row_presence t of None \<Rightarrow> []
            | Some p \<Rightarrow> [p ! position (cr_observation_id r) (nd_observation_ids t)])) ?rs)
       else invalid ''nd tensor has no row for observation'')"
    unfolding gather_row_ok [OF assms, abs_def] by (rule map_res_guarded)
  show "nd_project_relations t relations source_id =
      rseq (relation_set_validate relations)
        (if cr_observation_id ` set ?rs \<subseteq> set (nd_observation_ids t)
         then Inr (gathered_block t ?rs) else invalid ''nd tensor has no row for observation'')"
    unfolding nd_project_relations_def Let_def rows
    by (cases "nd_row_presence t") (auto simp: shape gathered_block_def comp_def image_subset_iff intro!: rbind_cong)
next
  fix rs k assume "cr_observation_id ` set rs \<subseteq> set (nd_observation_ids t)" and k: "k < length (rs :: coordinator_relation list)"
  then have rows: "\<forall>r\<in>set rs. length (tensor_row t (cr_observation_id r)) = nd_row_stride_bytes t"
    using length_tensor_row [OF assms] by blast
  have "nd_row_stride_bytes t = prod_list (tl (nd_shape t)) * element_size (nd_dtype t)"
    using assms by (simp add: nd_from_input_iff stored_tensor_def row_bytes_of_def)
  then show "length (ndk_data (gathered_block t rs)) =
         prod_list (ndk_shape (gathered_block t rs)) * element_size (nd_dtype t)"
    by (simp add: gathered_block_def length_concat_chunks [OF rows] mult.assoc)
  show "take (nd_row_stride_bytes t) (drop (k * nd_row_stride_bytes t) (ndk_data (gathered_block t rs))) =
         tensor_row t (cr_observation_id (rs ! k))"
    by (simp add: gathered_block_def concat_chunk [OF rows k])
qed

text \<open>
  C30. Gathering copies whole rows. Projecting a stored tensor on a valid relation set fails only if a
  selected observation has no row; otherwise no index leaves the payload, the block has one row per
  selected relation in their order, its payload has exactly the bytes its shape calls for, and row
  \<open>k\<close> is byte for byte the tensor's row of the \<open>k\<close>th observation, with its presence flag.
\<close>

theorem nd_projection_gathers:
  assumes "nd_from_input i = Inr t"
  shows "nd_project_relations t relations source_id =
      rseq (relation_set_validate relations)
        (if cr_observation_id ` set (of_source source_id relations) \<subseteq> set (nd_observation_ids t)
         then Inr (gathered_block t (of_source source_id relations))
         else invalid ''nd tensor has no row for observation'') \<and>
    (\<forall>rs k. cr_observation_id ` set rs \<subseteq> set (nd_observation_ids t) \<longrightarrow> k < length rs \<longrightarrow>
       length (ndk_data (gathered_block t rs)) =
         prod_list (ndk_shape (gathered_block t rs)) * element_size (nd_dtype t) \<and>
       take (nd_row_stride_bytes t) (drop (k * nd_row_stride_bytes t) (ndk_data (gathered_block t rs))) =
         tensor_row t (cr_observation_id (rs ! k)))"
  using assms by (rule nd_projection_gathers_lemma)

section \<open>Fingerprints\<close>

definition presence_frame :: "bool list option \<Rightarrow> u8 list" where
  "presence_frame p =
     (case p of None \<Rightarrow> u64_bytes 0
      | Some ps \<Rightarrow> u64_bytes 1 @ len_frame (length ps) @ map (\<lambda>b. if b then 1 else 0) ps)"

definition nd_preimage :: "nd_tensor \<Rightarrow> u8 list" where
  "nd_preimage t =
     nd_domain @ str_frame (nd_tensor_id t) @ str_frame (as_str (nd_representation_id t)) @
     str_frame (nd_container t) @ u64_bytes (fingerprint_tag (nd_dtype t)) @
     len_frame (length (nd_shape t)) @ concat (map len_frame (nd_shape t)) @
     strs_frame (map as_str (nd_observation_ids t)) @ len_frame (length (nd_data t)) @ nd_data t @
     presence_frame (nd_row_presence t)"

definition nd_fits :: "nd_tensor \<Rightarrow> bool" where
  "nd_fits t \<longleftrightarrow>
     sizes_fit [nd_tensor_id t, as_str (nd_representation_id t), nd_container t] \<and>
     sizes_fit (map as_str (nd_observation_ids t)) \<and> length (nd_shape t) < 2 ^ 64 \<and>
     list_all (\<lambda>d. d < 2 ^ 64) (nd_shape t) \<and> length (nd_data t) < 2 ^ 64 \<and>
     (\<forall>p. nd_row_presence t = Some p \<longrightarrow> length p < 2 ^ 64)"

lemma absorb_u64_stream [simp]:
  "scratch_ok h \<Longrightarrow> hashed_stream (absorb_u64 v h) = hashed_stream h @ u64_bytes v"
  "scratch_ok h \<Longrightarrow> scratch_ok (absorb_u64 v h)"
  by (simp_all add: absorb_u64_def sink.stream_push sink.wf_push)

lemma absorb_lens_stream [simp]:
  "scratch_ok h \<Longrightarrow> hashed_stream (fold absorb_len ns h) = hashed_stream h @ concat (map len_frame ns)"
  "scratch_ok h \<Longrightarrow> scratch_ok (fold absorb_len ns h)"
  using sink.stream_fold [of absorb_len len_frame] by simp_all

lemma absorb_flags_stream [simp]:
  "scratch_ok h \<Longrightarrow> hashed_stream (fold (\<lambda>b. absorb_raw [if b then 1 else 0]) bs h) =
     hashed_stream h @ map (\<lambda>b. if b then 1 else 0) bs"
  "scratch_ok h \<Longrightarrow> scratch_ok (fold (\<lambda>b. absorb_raw [if b then 1 else 0]) bs h)"
  using sink.stream_fold [of "\<lambda>b. absorb_raw [if b then 1 else 0]" "\<lambda>b. [if b then 1 else 0]" h bs]
  by simp_all

lemma nd_fingerprint_preimage: "nd_fingerprint sha256 t = to_hex (sha256 (nd_preimage t))"
  by (cases "nd_row_presence t")
    (simp_all add: nd_fingerprint_def Let_def finalize_hex_stream nd_preimage_def presence_frame_def)

lemma as_str_inject: "as_str i = as_str j \<longleftrightarrow> i = j"
  by (cases i; cases j) simp

lemma fingerprint_tag_inject: "fingerprint_tag d = fingerprint_tag e \<longleftrightarrow> d = e"
  by (cases d; cases e) simp_all

lemma presence_frame_inject:
  assumes "\<forall>ps. p = Some ps \<longrightarrow> length ps < 2 ^ 64" and "\<forall>qs. q = Some qs \<longrightarrow> length qs < 2 ^ 64"
  shows "presence_frame p = presence_frame q \<longleftrightarrow> p = q"
proof -
  have "map (\<lambda>b. if b then 1 else 0 :: u8) ps = map (\<lambda>b. if b then 1 else 0) qs \<longleftrightarrow> ps = qs" for ps qs :: "bool list"
    by (rule inj_map_eq_map) (simp add: inj_def)
  moreover have "u64_bytes 0 \<noteq> u64_bytes 1 @ r" for r
    using append_eq_append_conv [of "u64_bytes 0" "u64_bytes 1" "[]" r] by (auto simp: u64_bytes_inject)
  ultimately show ?thesis
    using assms
    by (cases p; cases q) (simp_all add: presence_frame_def len_frame_prefix, metis+)
qed

lemma lens_prefix:
  assumes "length ms = length ns" and "list_all (\<lambda>d. d < 2 ^ 64) ms" and "list_all (\<lambda>d. d < 2 ^ 64) ns"
  shows "concat (map len_frame ms) @ r = concat (map len_frame ns) @ q \<longleftrightarrow> ms = ns \<and> r = q"
  using assms by (intro concat_frames_prefix [of "{d. d < 2 ^ 64}"]) (auto simp: len_frame_prefix list_all_iff)

lemma nd_preimage_inject:
  assumes "nd_fits t" and "nd_fits u"
  shows "nd_preimage t = nd_preimage u \<longleftrightarrow>
    nd_tensor_id t = nd_tensor_id u \<and> nd_representation_id t = nd_representation_id u \<and>
    nd_container t = nd_container u \<and> nd_dtype t = nd_dtype u \<and> nd_shape t = nd_shape u \<and>
    nd_observation_ids t = nd_observation_ids u \<and> nd_data t = nd_data u \<and>
    nd_row_presence t = nd_row_presence u"
proof -
  have strs: "str_frame (f t) @ r = str_frame (f u) @ q \<longleftrightarrow> f t = f u \<and> r = q"
    if "f = nd_tensor_id \<or> f = as_str \<circ> nd_representation_id \<or> f = nd_container" for f r q
    using that assms by (intro str_frame_prefix) (auto simp: nd_fits_def sizes_fit_def)
  have obs: "strs_frame (map as_str (nd_observation_ids t)) @ r = strs_frame (map as_str (nd_observation_ids u)) @ q \<longleftrightarrow>
      nd_observation_ids t = nd_observation_ids u \<and> r = q" for r q
    using assms by (subst strs_frame_prefix) (auto simp: nd_fits_def inj_map_eq_map inj_def as_str_inject)
  have tail: "presence_frame (nd_row_presence t) = presence_frame (nd_row_presence u) \<longleftrightarrow>
      nd_row_presence t = nd_row_presence u"
    using assms by (intro presence_frame_inject) (simp_all add: nd_fits_def)
  have shape: "len_frame (length (nd_shape t)) @ concat (map len_frame (nd_shape t)) @ r =
      len_frame (length (nd_shape u)) @ concat (map len_frame (nd_shape u)) @ q \<longleftrightarrow>
      nd_shape t = nd_shape u \<and> r = q" for r q
    using assms lens_prefix [of "nd_shape t" "nd_shape u" r q] by (auto simp: nd_fits_def len_frame_prefix)
  have data: "len_frame (length (nd_data t)) @ nd_data t @ r = len_frame (length (nd_data u)) @ nd_data u @ q \<longleftrightarrow>
      nd_data t = nd_data u \<and> r = q" for r q
    using assms by (auto simp: nd_fits_def len_frame_prefix)
  have rep: "as_str (nd_representation_id t) = as_str (nd_representation_id u) \<longleftrightarrow>
      nd_representation_id t = nd_representation_id u"
    by (simp add: as_str_inject)
  have tags: "u64_bytes v @ r = u64_bytes w @ q \<longleftrightarrow> v = w \<and> r = q" for v w r q
    by (auto simp: u64_bytes_inject)
  show ?thesis
    unfolding nd_preimage_def same_append_eq
    using strs [of nd_tensor_id] strs [of "as_str \<circ> nd_representation_id"] strs [of nd_container]
    by (simp add: obs shape data tail tags fingerprint_tag_inject rep)
qed

text \<open>
  The fingerprint identifies the tensor. Two stored tensors whose sizes fit 64 bits feed SHA-256 the
  same bytes exactly when they are the same tensor: identity, element type, shape, observations, payload
  and presence flags; so their fingerprints agree exactly when the digests of those bytes do.
\<close>

lemma nd_fingerprint_identifies:
  assumes "nd_from_input i = Inr t" and "nd_from_input j = Inr u" and "nd_fits t" and "nd_fits u"
  shows "(nd_preimage t = nd_preimage u \<longleftrightarrow> t = u) \<and>
    (nd_fingerprint sha256 t = nd_fingerprint sha256 u \<longleftrightarrow> sha256 (nd_preimage t) = sha256 (nd_preimage u))"
  using nd_preimage_inject [OF assms(3,4)] assms(1,2)
  by (auto simp: nd_fingerprint_preimage nd_from_input_iff stored_tensor_def dest: to_hex_inj)

section \<open>Bound tensors\<close>

definition nd_entry_ok :: "string \<times> nd_tensor \<Rightarrow> bool" where
  "nd_entry_ok e \<longleftrightarrow> nd_tensor_id (snd e) = fst e \<and> (\<exists>i. nd_from_input i = Inr (snd e))"

definition nd_store_ok :: "nd_store \<Rightarrow> bool" where
  "nd_store_ok s \<longleftrightarrow> bt_wf s \<and> (\<forall>e\<in>set s. nd_entry_ok e)"

lemma nd_store_ok_insert:
  assumes "nd_store_ok s" and "nd_from_input i = Inr t"
  shows "nd_store_ok (bt_insert (nd_tensor_id t) t s)"
proof -
  have "nd_entry_ok (nd_tensor_id t, t)" using assms(2) by (auto simp: nd_entry_ok_def)
  then show ?thesis
    using assms(1) bt_insert_entries [of "nd_tensor_id t" t s] by (auto simp: nd_store_ok_def bt_wf_insert)
qed

lemma nd_store_from_inputs_ok:
  assumes "nd_store_from_inputs inputs = Inr s"
  shows "nd_store_ok s"
  using assms unfolding nd_store_from_inputs_def
proof (rule fold_res_invariant)
  show "nd_store_ok []" by (simp add: nd_store_ok_def bt.wf_empty)
qed (auto simp: rbind_eq_Inr if_Inl_eq_Inr intro: nd_store_ok_insert)

definition nd_covered_sources :: "nd_tensor \<Rightarrow> relation_set \<Rightarrow> source_id list" where
  "nd_covered_sources t relations =
     filter (\<lambda>s. nd_covers t (filter (\<lambda>r. cr_source_id r = Some s) (rs_records relations)))
       (relation_sources relations)"

definition nd_bound :: "relation_set \<Rightarrow> representation_id \<Rightarrow> nd_tensor \<Rightarrow> bool" where
  "nd_bound relations representation_id t \<longleftrightarrow>
     nd_representation_id t = representation_id \<and>
     (if relation_sources relations = [] then nd_covers t (rs_records relations)
      else nd_covered_sources t relations \<noteq> [])"

definition nd_describe :: "(u8 list \<Rightarrow> u8 list) \<Rightarrow> relation_set \<Rightarrow> nd_tensor \<Rightarrow> nd_binding" where
  "nd_describe sha256 relations t = nd_binding_for_sources sha256 t (nd_covered_sources t relations)"

lemma nd_bindings_ok:
  "nd_bindings_for_relations sha256 s relations rep = Inr bs \<longleftrightarrow>
     relation_set_ok relations \<and> bs = map (nd_describe sha256 relations) (filter (nd_bound relations rep) (bt_values s))"
proof -
  have "nd_bind_tensor sha256 relations (relation_sources relations) rep t =
      (if nd_bound relations rep t then [nd_describe sha256 relations t] else [])" for t
    by (simp add: nd_bind_tensor_def nd_bound_def nd_describe_def nd_covered_sources_def Let_def)
  then have "concat (map (nd_bind_tensor sha256 relations (relation_sources relations) rep) ts) =
      map (nd_describe sha256 relations) (filter (nd_bound relations rep) ts)" for ts
    by (induction ts) simp_all
  then show ?thesis
    using relation_set_validate_ok [of relations]
    by (cases "relation_set_validate relations",
        auto simp only: nd_bindings_for_relations_def rbind_simps sum.inject sum.simps) simp
qed

lemma nd_contains_observation_ok:
  "nd_from_input i = Inr t \<Longrightarrow> nd_contains_observation t x \<longleftrightarrow> x \<in> set (nd_observation_ids t)"
  by (auto simp: nd_contains_observation_def nd_from_input_iff stored_tensor_def nd_input_ok_def row_index_keys)

definition nd_serves :: "nd_binding \<Rightarrow> relation_set \<Rightarrow> bool" where
  "nd_serves bd view \<longleftrightarrow>
     list_all (\<lambda>r. case cr_source_id r of None \<Rightarrow> ndb_source_ids bd = [] | Some s \<Rightarrow> s \<in> set (ndb_source_ids bd))
       (rs_records view)"

lemma nd_view_covered:
  assumes "nd_from_input i = Inr t" and "nd_bound relations rep t"
    and "set (rs_records view) \<subseteq> set (rs_records relations)"
    and "nd_serves (nd_describe sha256 relations t) view" and "r \<in> set (rs_records view)"
  shows "cr_observation_id r \<in> set (nd_observation_ids t)"
proof (cases "cr_source_id r")
  case None
  then have "nd_covered_sources t relations = []"
    using assms(4,5) by (auto simp: nd_serves_def list_all_iff nd_describe_def nd_binding_for_sources_def)
  then have "nd_covers t (rs_records relations)" using assms(2) by (auto simp: nd_bound_def split: if_splits)
  then show ?thesis
    using assms(3,5) by (auto simp: nd_covers_def list_all_iff nd_contains_observation_ok [OF assms(1)])
next
  case (Some s)
  then have "s \<in> set (nd_covered_sources t relations)"
    using assms(4,5) by (auto simp: nd_serves_def list_all_iff nd_describe_def nd_binding_for_sources_def)
  then have "nd_covers t (filter (\<lambda>r. cr_source_id r = Some s) (rs_records relations))"
    by (simp add: nd_covered_sources_def)
  then show ?thesis
    using Some assms(3,5) by (auto simp: nd_covers_def list_all_iff nd_contains_observation_ok [OF assms(1)])
qed

text \<open>
  The tensor arena serves the views of a bound handle: once a handle is bound, a valid part of its
  relations whose sources the binding lists always projects, and the block is the gathering of the
  view's rows from the stored tensor.
\<close>

lemma nd_bound_views_project:
  assumes "nd_store_ok (nda_store a)" and "nd_bind_data_handle sha256 a h relations rep = Inr (a', bs)"
    and "bd \<in> set bs" and "relation_set_ok view" and "set (rs_records view) \<subseteq> set (rs_records relations)"
    and "nd_serves bd view"
  shows "\<exists>t. map_of (nda_store a) (ndb_tensor_id bd) = Some t \<and>
    nd_project_bound_relations a' h (ndb_tensor_id bd) view None = Inr (gathered_block t (rs_records view))"
proof -
  have bs: "bs = map (nd_describe sha256 relations) (filter (nd_bound relations rep) (bt_values (nda_store a)))"
    and a': "a' = a\<lparr>nda_data_bindings := bt_insert h (bt_collect (map (\<lambda>bd. (ndb_tensor_id bd, bd)) bs))
      (nda_data_bindings a)\<rparr>"
    using assms(2) by (auto simp: nd_bind_data_handle_def rbind_eq_Inr nd_bindings_ok)
  obtain t where t: "t \<in> set (bt_values (nda_store a))" "nd_bound relations rep t" "bd = nd_describe sha256 relations t"
    using assms(3) bs by auto
  have id: "ndb_tensor_id (nd_describe sha256 relations u) = nd_tensor_id u" for u
    by (simp add: nd_describe_def nd_binding_for_sources_def)
  obtain i where i: "nd_from_input i = Inr t" and stored: "map_of (nda_store a) (nd_tensor_id t) = Some t"
    using assms(1) t(1) by (auto simp: nd_store_ok_def nd_entry_ok_def bt_wf_distinct dest!: bspec)
  have "map_of (bt_collect (map (\<lambda>bd. (ndb_tensor_id bd, bd)) bs)) (nd_tensor_id t) = Some bd"
    unfolding bs using assms(1) stored t(2,3)
    by (subst collect_selected [where key = nd_tensor_id]) (auto simp: nd_store_ok_def nd_entry_ok_def id)
  moreover have "\<forall>s\<in>set (relation_sources view). s \<in> set (ndb_source_ids bd)"
    using assms(6) by (auto simp: set_relation_sources nd_serves_def list_all_iff split: option.splits)
  moreover have "nd_project_relations t view None = Inr (gathered_block t (rs_records view))"
    using nd_view_covered [OF i t(2) assms(5)] assms(4,6) t(3)
    by (auto simp: conjunct1 [OF nd_projection_gathers_lemma [OF i]] of_source_def
        relation_set_validate_ok [THEN iffD2])
  ultimately have "nd_project_bound_relations a' h (nd_tensor_id t) view None =
      Inr (gathered_block t (rs_records view))"
    using assms(4)
    by (simp add: nd_project_bound_relations_def nd_store_project_relations_def a' map_of_bt_insert stored
        relation_set_validate_ok each_res_ok rbind_eq_Inr Let_def if_Inl_eq_Inr)
  then show ?thesis using stored t(3) id by auto
qed

section \<open>An example\<close>

text \<open>Two observations of one 32-bit and one masked element each, and a view of the second.\<close>

definition demo_nd_input :: nd_input where
  "demo_nd_input =
     \<lparr>ndi_tensor_id = ''t'', ndi_representation_id = Ident ''image'', ndi_container = ''nd'', ndi_dtype = DU8,
      ndi_shape = [2, 2], ndi_observation_ids = [Ident ''o1'', Ident ''o2''], ndi_sample_ids = None,
      ndi_data = [10, 11, 20, 21], ndi_row_presence = Some [True, False]\<rparr>"

definition demo_nd :: nd_tensor where
  "demo_nd = stored_tensor demo_nd_input"

definition demo_nd_store :: nd_store where
  "demo_nd_store = [(''t'', demo_nd)]"

definition demo_nd_relations :: relation_set where
  "demo_nd_relations =
     \<lparr>rs_records = [relation_new (Ident ''o2'') (Ident ''s2''), relation_new (Ident ''o1'') (Ident ''s1'')]\<rparr>"

definition demo_nd_view :: relation_set where
  "demo_nd_view = \<lparr>rs_records = [relation_new (Ident ''o2'') (Ident ''s2'')]\<rparr>"

lemma demo_nd_input_ok: "nd_from_input demo_nd_input = Inr demo_nd"
  by (simp add: nd_from_input_iff demo_nd_def)
    (simp add: nd_input_ok_def demo_nd_input_def is_blank_graphic is_ascii_graphic_def byte_of_def usize_max_def)

lemma demo_nd_fits: "nd_fits demo_nd"
  by (simp add: nd_fits_def demo_nd_def stored_tensor_def demo_nd_input_def sizes_fit_def)

lemma demo_nd_store_ok: "nd_store_ok demo_nd_store"
  using demo_nd_input_ok
  by (auto simp: nd_store_ok_def demo_nd_store_def nd_entry_ok_def bt_wf_def demo_nd_def stored_tensor_def
      demo_nd_input_def)

lemma demo_nd_relations_ok: "relation_set_ok demo_nd_relations" "relation_set_ok demo_nd_view"
  by (simp_all add: relation_set_ok_def demo_nd_relations_def demo_nd_view_def plain_relation_ok)
    (simp add: relation_new_def)

lemma demo_nd_sources: "relation_sources demo_nd_relations = []" "relation_sources demo_nd_view = []"
  by (simp_all add: relation_sources_def demo_nd_relations_def demo_nd_view_def relation_new_def List.map_filter_def)

lemma demo_nd_bound: "nd_bound demo_nd_relations (Ident ''image'') demo_nd"
proof -
  have "nd_observation_ids demo_nd = [Ident ''o1'', Ident ''o2'']" "nd_representation_id demo_nd = Ident ''image''"
    by (simp_all add: demo_nd_def stored_tensor_def demo_nd_input_def)
  moreover from this(1) have "nd_covers demo_nd (rs_records demo_nd_relations)"
    by (simp add: nd_covers_def nd_contains_observation_ok [OF demo_nd_input_ok])
      (simp add: demo_nd_relations_def relation_new_def)
  ultimately show ?thesis by (simp add: nd_bound_def demo_nd_sources)
qed

definition demo_nd_arena :: nd_arena where
  "demo_nd_arena =
     \<lparr>nda_store = demo_nd_store,
      nda_data_bindings = [(7, [(''t'', nd_describe rev demo_nd_relations demo_nd)])]\<rparr>"

lemma demo_nd_binds:
  "nd_bind_data_handle rev (nd_arena_new demo_nd_store) 7 demo_nd_relations (Ident ''image'') =
     Inr (demo_nd_arena, [nd_describe rev demo_nd_relations demo_nd])"
proof -
  have "nd_bindings_for_relations rev demo_nd_store demo_nd_relations (Ident ''image'') =
      Inr [nd_describe rev demo_nd_relations demo_nd]"
    using demo_nd_bound by (simp add: nd_bindings_ok demo_nd_relations_ok demo_nd_store_def)
  then show ?thesis
    by (simp add: nd_bind_data_handle_def nd_arena_new_def demo_nd_arena_def bt_collect_def nd_describe_def
        nd_binding_for_sources_def)
      (simp add: demo_nd_def stored_tensor_def demo_nd_input_def)
qed

lemma demo_nd_gathered:
  "ndk_data (gathered_block demo_nd (rs_records demo_nd_view)) = [20, 21]"
  "ndk_shape (gathered_block demo_nd (rs_records demo_nd_view)) = [1, 2]"
  by (simp_all add: gathered_block_def demo_nd_view_def relation_new_def tensor_row_def demo_nd_def
      stored_tensor_def demo_nd_input_def position_def row_bytes_of_def)

theorem nd_projection_gathers_witness:
  "\<exists>b. nd_project_relations demo_nd demo_nd_view None = Inr b \<and> ndk_data b = [20, 21]"
proof -
  have "nd_project_relations demo_nd demo_nd_view None = Inr (gathered_block demo_nd (rs_records demo_nd_view))"
    using conjunct1 [OF nd_projection_gathers [OF demo_nd_input_ok]] relation_set_validate_ok [of demo_nd_view]
      demo_nd_relations_ok(2)
    by (simp add: of_source_def demo_nd_def stored_tensor_def demo_nd_input_def)
      (simp add: demo_nd_view_def relation_new_def)
  with demo_nd_gathered show ?thesis by blast
qed

text \<open>Dropping the presence flags changes the content.\<close>

theorem nd_fingerprint_identifies_witness:
  "nd_preimage demo_nd \<noteq> nd_preimage (stored_tensor (demo_nd_input\<lparr>ndi_row_presence := None\<rparr>))"
proof -
  let ?i = "demo_nd_input\<lparr>ndi_row_presence := None\<rparr>"
  have "nd_from_input ?i = Inr (stored_tensor ?i)"
    using demo_nd_input_ok by (simp add: nd_from_input_iff nd_input_ok_def)
  moreover have "nd_fits (stored_tensor ?i)"
    using demo_nd_fits by (simp add: nd_fits_def demo_nd_def stored_tensor_def)
  ultimately show ?thesis
    using nd_fingerprint_identifies [OF demo_nd_input_ok _ demo_nd_fits, of ?i "stored_tensor ?i" id]
    by (simp add: demo_nd_def stored_tensor_def demo_nd_input_def)
qed

theorem nd_bound_views_project_witness:
  "\<exists>t. map_of demo_nd_store ''t'' = Some t \<and>
     nd_project_bound_relations demo_nd_arena 7 ''t'' demo_nd_view None =
       Inr (gathered_block t (rs_records demo_nd_view))"
proof -
  let ?bd = "nd_describe rev demo_nd_relations demo_nd"
  have "ndb_tensor_id ?bd = ''t''" "ndb_source_ids ?bd = []"
    by (simp_all add: nd_describe_def nd_binding_for_sources_def nd_covered_sources_def demo_nd_sources
        demo_nd_def stored_tensor_def demo_nd_input_def)
  moreover from this(2) have "nd_serves ?bd demo_nd_view"
    by (simp add: nd_serves_def demo_nd_view_def relation_new_def)
  moreover have "set (rs_records demo_nd_view) \<subseteq> set (rs_records demo_nd_relations)"
    by (simp add: demo_nd_view_def demo_nd_relations_def)
  ultimately show ?thesis
    using nd_bound_views_project [OF _ demo_nd_binds, of ?bd demo_nd_view] demo_nd_store_ok demo_nd_relations_ok
    by (simp add: nd_arena_new_def)
qed

end
