(* ===== verification/Envelope_Assembly.thy ===== *)
theory Envelope_Assembly
  imports Envelope Schema_Model
begin

text \<open>
  Assembling an envelope from a schema, a plan and a relation table
  (\<open>CoordinatorDataPlanEnvelope::from_parts\<close> of \<open>coordinator.rs\<close>), decoding one, and the fingerprint of a
  schema (\<open>fingerprint.rs\<close>). The serializations of the schema and of the table are parameters, like those in
  \<open>external\<close>.
\<close>

record codecs =
  cd_external :: external
  cd_encode_schema :: "dataset_schema \<Rightarrow> u8 list res"
  cd_encode_table :: "sample_relation_table \<Rightarrow> u8 list res"
  cd_number_f64 :: "string \<Rightarrow> f64 option"

section \<open>Operations\<close>

definition canonical_schema :: "dataset_schema \<Rightarrow> dataset_schema" where
  "canonical_schema d =
     d\<lparr>ds_sample_ids := sort (ds_sample_ids d), ds_sources := sort_key sd_id (ds_sources d),
       ds_groups := sort_key gs_id (ds_groups d), ds_folds := sort_key fo_id (ds_folds d)\<rparr>"

definition schema_fingerprint :: "codecs \<Rightarrow> dataset_schema \<Rightarrow> string res" where
  "schema_fingerprint cd d =
     rseq (dataset_schema_validate (cd_number_f64 cd) d)
       (typed_fingerprint (cd_encode_schema cd) (ex_sha256 (cd_external cd)) (canonical_schema d))"

definition declares_source :: "dataset_schema \<Rightarrow> source_id \<Rightarrow> bool" where
  "declares_source d source \<longleftrightarrow> list_ex (\<lambda>declared. sd_id declared = source) (ds_sources d)"

definition check_plan_step :: "dataset_schema \<Rightarrow> data_plan_step \<Rightarrow> unit res" where
  "check_plan_step d step =
     (case ps_source_id step of
        None \<Rightarrow> Inr ()
      | Some source \<Rightarrow>
          if \<not> declares_source d source then invalid ''plan references undeclared source'' else Inr ())"

definition check_relation_row :: "dataset_schema \<Rightarrow> sample_relation list \<Rightarrow> sample_relation \<Rightarrow> unit res" where
  "check_relation_row d rows row =
     (if sr_sample_id row \<notin> set (ds_sample_ids d) \<and> \<not> sr_augmented row
      then invalid ''relation references undeclared sample''
      else if (case sr_source_id row of Some s \<Rightarrow> \<not> declares_source d s | None \<Rightarrow> False) \<or>
              (case sr_target_id row of Some t \<Rightarrow> map_of (ds_targets d) t = None | None \<Rightarrow> False)
      then invalid ''relation references undeclared source or target''
      else if sr_augmented row
      then
        (let origin =
               Option.bind (sr_origin_id row)
                 (\<lambda>i. List.find (\<lambda>base. as_str (sr_observation_id base) = as_str i) rows) in
         if \<not> (case origin of Some base \<Rightarrow> sr_sample_id base \<in> set (ds_sample_ids d) | None \<Rightarrow> False)
         then invalid ''augmented relation origin is outside the schema'' else Inr ())
      else Inr ())"

text \<open>\<open>relations.map(f).transpose()\<close>\<close>

definition transposed :: "('a \<Rightarrow> 'b res) \<Rightarrow> 'a option \<Rightarrow> 'b option res" where
  "transposed f v = (case v of None \<Rightarrow> Inr None | Some x \<Rightarrow> rbind (f x) (\<lambda>y. Inr (Some y)))"

definition envelope_from_parts ::
  "codecs \<Rightarrow> dataset_schema \<Rightarrow> data_plan \<Rightarrow> sample_relation_table option \<Rightarrow> envelope res"
where
  "envelope_from_parts cd d p relations =
     rseq (dataset_schema_validate (cd_number_f64 cd) d)
    (rseq (each_res (check_plan_step d) (dp_steps p))
    (rseq
       (case relations of
          None \<Rightarrow> Inr ()
        | Some t \<Rightarrow> rseq (table_validate t) (each_res (check_relation_row d (rt_rows t)) (rt_rows t)))
    (rbind (schema_fingerprint cd d)
       (\<lambda>schema_fp.
     rbind (data_plan_fingerprint (cd_external cd) p)
       (\<lambda>plan_fp.
     rbind
       (transposed (sample_relation_fingerprint (cd_encode_table cd) (ex_sha256 (cd_external cd))) relations)
       (\<lambda>relation_fp.
     rbind (transposed coordinator_relations_from_sample_table relations)
       (\<lambda>coordinator_relations.
     let e = \<lparr>en_schema_version = 1, en_schema_fingerprint = schema_fp, en_plan_fingerprint = plan_fp,
              en_relation_fingerprint = relation_fp, en_data_content_fingerprint = None,
              en_target_content_fingerprint = None, en_plan = p,
              en_coordinator_relations = coordinator_relations, en_predict_cohort = None,
              en_metadata = []\<rparr>
     in rseq (envelope_validate (cd_external cd) e) (Inr e))))))))"

section \<open>Decoding\<close>

text \<open>
  \<open>Deserialize\<close> of an envelope: the checks on the root object come before the field by field decoding of
  the derived \<open>CoordinatorEnvelopeWire\<close>. That decoding and \<open>as_u64\<close> are serde's.
\<close>

definition json_member :: "string \<Rightarrow> json \<Rightarrow> json option" where
  "json_member key v = (case v of JObject m \<Rightarrow> map_of m key | _ \<Rightarrow> None)"

definition envelope_v2_fields :: "string list" where
  "envelope_v2_fields =
     [''schema_version'', ''schema_fingerprint'', ''plan_fingerprint'', ''relation_fingerprint'',
      ''data_content_fingerprint'', ''target_content_fingerprint'', ''plan'', ''coordinator_relations'',
      ''predict_cohort'', ''metadata'']"

definition envelope_deserialize ::
  "(json \<Rightarrow> u64 option) \<Rightarrow> (json \<Rightarrow> envelope res) \<Rightarrow> json \<Rightarrow> envelope res"
where
  "envelope_deserialize as_u64 from_value v =
     (let version =
            (case Option.bind (json_member ''schema_version'' v) as_u64 of Some n \<Rightarrow> n | None \<Rightarrow> 1) in
      if version = 1 \<and> json_member ''predict_cohort'' v \<noteq> None
      then invalid ''envelope V1 cannot carry predict_cohort''
      else if version = 2 \<and>
              (case v of JObject m \<Rightarrow> list_ex (\<lambda>key. key \<notin> set envelope_v2_fields) (bt_keys m) | _ \<Rightarrow> False)
      then invalid ''envelope V2 contains an unknown root field''
      else from_value v)"

lemma envelope_deserialize_refuses:
  "envelope_deserialize as_u64 from_value (JObject m) = Inr e \<Longrightarrow>
   map_of m ''schema_version'' = Some n \<Longrightarrow> as_u64 n = Some 2 \<Longrightarrow> fst ` set m \<subseteq> set envelope_v2_fields"
  by (auto simp: envelope_deserialize_def json_member_def list_ex_iff split: if_splits)

section \<open>When an envelope is assembled\<close>

definition source_ids_of :: "dataset_schema \<Rightarrow> source_id set" where
  "source_ids_of d = sd_id ` set (ds_sources d)"

definition row_declared :: "dataset_schema \<Rightarrow> sample_relation list \<Rightarrow> sample_relation \<Rightarrow> bool" where
  "row_declared d rows row \<longleftrightarrow>
     set_option (sr_source_id row) \<subseteq> source_ids_of d \<and>
     set_option (sr_target_id row) \<subseteq> fst ` set (ds_targets d) \<and>
     (if sr_augmented row
      then \<exists>base origin. sr_origin_id row = Some origin \<and> base \<in> set rows \<and>
             as_str (sr_observation_id base) = as_str origin \<and> sr_sample_id base \<in> set (ds_sample_ids d)
      else sr_sample_id row \<in> set (ds_sample_ids d))"

definition table_declared :: "dataset_schema \<Rightarrow> sample_relation_table \<Rightarrow> bool" where
  "table_declared d t \<longleftrightarrow> table_ok t \<and> (\<forall>row\<in>set (rt_rows t). row_declared d (rt_rows t) row)"

definition plan_declared :: "dataset_schema \<Rightarrow> data_plan \<Rightarrow> bool" where
  "plan_declared d p \<longleftrightarrow> data_plan_ok p \<and> (\<forall>step\<in>set (dp_steps p). set_option (ps_source_id step) \<subseteq> source_ids_of d)"

definition table_fingerprint :: "codecs \<Rightarrow> sample_relation_table \<Rightarrow> string res" where
  "table_fingerprint cd = sample_relation_fingerprint (cd_encode_table cd) (ex_sha256 (cd_external cd))"

definition converted_table :: "sample_relation_table \<Rightarrow> relation_set" where
  "converted_table t =
     \<lparr>rs_records = sort_key cr_observation_id (map (coordinator_row (rt_rows t)) (rt_rows t))\<rparr>"

definition assembled :: "codecs \<Rightarrow> dataset_schema \<Rightarrow> data_plan \<Rightarrow> sample_relation_table option \<Rightarrow> envelope \<Rightarrow> bool" where
  "assembled cd d p relations e \<longleftrightarrow>
     schema_fingerprint cd d = Inr (en_schema_fingerprint e) \<and>
     data_plan_fingerprint (cd_external cd) p = Inr (en_plan_fingerprint e) \<and>
     (case relations of
        None \<Rightarrow> en_relation_fingerprint e = None
      | Some t \<Rightarrow> \<exists>fp. table_fingerprint cd t = Inr fp \<and> en_relation_fingerprint e = Some fp) \<and>
     en_coordinator_relations e = map_option converted_table relations \<and>
     en_schema_version e = 1 \<and> en_plan e = p \<and> en_data_content_fingerprint e = None \<and>
     en_target_content_fingerprint e = None \<and> en_predict_cohort e = None \<and> en_metadata e = []"

lemma declares_source_ok: "declares_source d s \<longleftrightarrow> s \<in> source_ids_of d"
  by (auto simp: declares_source_def source_ids_of_def list_ex_iff)

lemma check_plan_steps_ok:
  "each_res (check_plan_step d) steps = Inr () \<longleftrightarrow>
     (\<forall>step\<in>set steps. set_option (ps_source_id step) \<subseteq> source_ids_of d)"
  by (auto simp: each_res_ok check_plan_step_def declares_source_ok split: option.splits)

lemma find_base:
  assumes "distinct (map sr_observation_id rows)"
  shows "(case List.find (\<lambda>base. as_str (sr_observation_id base) = as_str origin) rows of
      Some base \<Rightarrow> P base | None \<Rightarrow> False) \<longleftrightarrow>
    (\<exists>base\<in>set rows. as_str (sr_observation_id base) = as_str origin \<and> P base)"
  using assms
proof (induction rows)
  case (Cons row rows)
  show ?case
  proof (cases "as_str (sr_observation_id row) = as_str origin")
    case True
    have "as_str (sr_observation_id base) \<noteq> as_str origin" if "base \<in> set rows" for base
    proof
      assume "as_str (sr_observation_id base) = as_str origin"
      with True have "sr_observation_id base = sr_observation_id row" by (metis ident.expand)
      then have "sr_observation_id row \<in> sr_observation_id ` set rows" using that by (metis imageI)
      with Cons.prems show False by simp
    qed
    with True show ?thesis by auto
  qed (use Cons in auto)
qed simp

lemma check_relation_row_ok:
  assumes "distinct (map sr_observation_id rows)"
  shows "check_relation_row d rows row = Inr () \<longleftrightarrow> row_declared d rows row"
proof -
  have target: "map_of (ds_targets d) t = None \<longleftrightarrow> t \<notin> fst ` set (ds_targets d)" for t
    by (simp add: map_of_eq_None_iff)
  show ?thesis
    unfolding check_relation_row_def row_declared_def
    by (cases "sr_origin_id row"; cases "sr_source_id row"; cases "sr_target_id row")
      (auto simp: declares_source_ok target find_base [OF assms] Let_def)
qed

lemma check_table_ok:
  "rseq (table_validate t) (each_res (check_relation_row d (rt_rows t)) (rt_rows t)) = Inr () \<longleftrightarrow> table_declared d t"
proof (cases "table_ok t")
  case True
  then have "distinct (map sr_observation_id (rt_rows t))" by (simp add: table_ok_def)
  with True show ?thesis
    by (auto simp: rbind_eq_Inr table_validate_ok each_res_ok check_relation_row_ok table_declared_def)
qed (auto simp: rbind_eq_Inr table_validate_ok table_declared_def)

lemma transposed_Inr:
  "transposed f v = Inr w \<longleftrightarrow>
     (case v of None \<Rightarrow> w = None | Some x \<Rightarrow> \<exists>y. f x = Inr y \<and> w = Some y)"
  by (auto simp: transposed_def rbind_eq_Inr split: option.splits)

lemma typed_fingerprint_hex64:
  "(\<And>bytes. length (sha256 bytes) = 32) \<Longrightarrow> typed_fingerprint encode sha256 v = Inr fp \<Longrightarrow> hex64 fp"
  using typed_fingerprint_format [of sha256 encode v fp "[]"] by (simp add: validate_fingerprint_ok hex64_def)

text \<open>The envelope that the parts determine is valid, so the last check never refuses.\<close>

lemma table_fingerprint_hex64:
  "(\<And>bytes. length (ex_sha256 (cd_external cd) bytes) = 32) \<Longrightarrow> table_fingerprint cd t = Inr fp \<Longrightarrow> hex64 fp"
  by (auto simp: table_fingerprint_def sample_relation_fingerprint_def rbind_eq_Inr intro: typed_fingerprint_hex64)

lemma converted_table_ok:
  assumes "table_ok t" and "repetitions_valid t"
  shows "coordinator_relations_from_sample_table t = Inr (converted_table t)" and "relation_set_ok (converted_table t)"
proof -
  have "table_validate t = Inr ()" using assms(1) by (simp add: table_validate_ok)
  then show conv: "coordinator_relations_from_sample_table t = Inr (converted_table t)"
    by (simp add: coordinator_relations_from_sample_table_spec [OF assms(2)] converted_table_def)
  then show "relation_set_ok (converted_table t)"
    by (auto simp: coordinator_relations_from_sample_table_def rbind_eq_Inr Let_def relation_set_validate_ok)
qed

lemma assembled_valid:
  assumes "\<And>bytes. length (ex_sha256 (cd_external cd) bytes) = 32"
    and "plan_declared d p" and "\<forall>t. relations = Some t \<longrightarrow> table_ok t \<and> repetitions_valid t"
    and "assembled cd d p relations e"
  shows "envelope_validate (cd_external cd) e = Inr ()"
proof -
  have "hex64 (en_schema_fingerprint e)" "hex64 (en_plan_fingerprint e)"
    using assms(1,4)
    by (auto simp: assembled_def schema_fingerprint_def data_plan_fingerprint_def rbind_eq_Inr
        intro: typed_fingerprint_hex64)
  then show ?thesis
    unfolding envelope_validate_ok envelope_ok_def
    using assms converted_table_ok(2) table_fingerprint_hex64 [OF assms(1)]
    by (auto simp: assembled_def cohort_admitted_def plan_declared_def split: option.splits)
qed

lemma from_parts_lemma:
  assumes "\<And>bytes. length (ex_sha256 (cd_external cd) bytes) = 32"
    and "\<forall>t. relations = Some t \<longrightarrow> repetitions_valid t"
  shows "envelope_from_parts cd d p relations = Inr e \<longleftrightarrow>
    schema_ok (cd_number_f64 cd) d \<and> plan_declared d p \<and>
    (\<forall>t. relations = Some t \<longrightarrow> table_declared d t) \<and> assembled cd d p relations e"
proof -
  have plan: "data_plan_fingerprint (cd_external cd) p = Inr fp \<Longrightarrow> data_plan_ok p" for fp
    by (auto simp: data_plan_fingerprint_def rbind_eq_Inr data_plan_validate_ok)
  have table: "(case relations of None \<Rightarrow> Inr ()
      | Some t \<Rightarrow> rseq (table_validate t) (each_res (check_relation_row d (rt_rows t)) (rt_rows t))) = Inr () \<longleftrightarrow>
      (\<forall>t. relations = Some t \<longrightarrow> table_declared d t)"
    by (auto simp: check_table_ok split: option.split)
  have conv: "coordinator_relations_from_sample_table t = Inr (converted_table t)"
    if "relations = Some t" "table_declared d t" for t
    using that assms(2) converted_table_ok(1) by (simp add: table_declared_def)
  have valid: "envelope_validate (cd_external cd) e = Inr ()"
    if "plan_declared d p" "\<forall>t. relations = Some t \<longrightarrow> table_declared d t" "assembled cd d p relations e"
    using that assms assembled_valid [of cd d p relations e] by (auto simp: table_declared_def)
  show ?thesis
  proof
    assume "envelope_from_parts cd d p relations = Inr e"
    then show "schema_ok (cd_number_f64 cd) d \<and> plan_declared d p \<and>
        (\<forall>t. relations = Some t \<longrightarrow> table_declared d t) \<and> assembled cd d p relations e"
      using conv
      by (auto simp: envelope_from_parts_def rbind_eq_Inr Let_def dataset_schema_validate_ok check_plan_steps_ok
          table transposed_Inr plan_declared_def plan assembled_def table_fingerprint_def split: option.splits)
  next
    assume "schema_ok (cd_number_f64 cd) d \<and> plan_declared d p \<and>
        (\<forall>t. relations = Some t \<longrightarrow> table_declared d t) \<and> assembled cd d p relations e"
    then show "envelope_from_parts cd d p relations = Inr e"
      using conv valid
      by (cases e) (auto simp: envelope_from_parts_def rbind_eq_Inr Let_def dataset_schema_validate_ok
          check_plan_steps_ok table transposed_Inr plan_declared_def assembled_def table_fingerprint_def
          split: option.splits)
  qed
qed

text \<open>
  C31. When an envelope is assembled and what it holds. Assembly succeeds exactly for a well-formed
  schema, a sound plan that reads declared sources only, and, if there is a relation table, a
  well-formed one whose rows name declared sources, targets and samples, augmented rows through the
  base row they were made from. The envelope carries the fingerprints of the three parts and the
  converted relations; its own validation, the last step of the assembly, never refuses. (Repetition
  ids are identifiers, as their type guarantees, and a digest has 32 bytes.)
\<close>

theorem from_parts_spec:
  assumes "\<And>bytes. length (ex_sha256 (cd_external cd) bytes) = 32"
    and "\<forall>t. relations = Some t \<longrightarrow> repetitions_valid t"
  shows "(envelope_from_parts cd d p relations = Inr e \<longleftrightarrow>
      schema_ok (cd_number_f64 cd) d \<and> plan_declared d p \<and>
      (\<forall>t. relations = Some t \<longrightarrow> table_declared d t) \<and> assembled cd d p relations e) \<and>
    (envelope_from_parts cd d p relations = Inr e \<longrightarrow> envelope_validate (cd_external cd) e = Inr ())"
proof (intro conjI impI)
  show iff: "envelope_from_parts cd d p relations = Inr e \<longleftrightarrow>
      schema_ok (cd_number_f64 cd) d \<and> plan_declared d p \<and>
      (\<forall>t. relations = Some t \<longrightarrow> table_declared d t) \<and> assembled cd d p relations e"
    by (rule from_parts_lemma [OF assms])
  assume "envelope_from_parts cd d p relations = Inr e"
  with iff assms(2) show "envelope_validate (cd_external cd) e = Inr ()"
    by (intro assembled_valid [OF assms(1), where d = d and p = p and relations = relations])
      (simp_all add: table_declared_def)
qed

section \<open>The order of the parts\<close>

text \<open>Two schemas that list the same samples, sources, groups and folds.\<close>

definition same_schema :: "dataset_schema \<Rightarrow> dataset_schema \<Rightarrow> bool" where
  "same_schema d d' \<longleftrightarrow>
     mset (ds_sample_ids d) = mset (ds_sample_ids d') \<and> mset (ds_sources d) = mset (ds_sources d') \<and>
     mset (ds_groups d) = mset (ds_groups d') \<and> mset (ds_folds d) = mset (ds_folds d') \<and>
     ds_dataset_id d = ds_dataset_id d' \<and> ds_targets d = ds_targets d' \<and>
     ds_metadata d = ds_metadata d' \<and> ds_metadata_schema d = ds_metadata_schema d'"

definition same_rows :: "sample_relation_table option \<Rightarrow> sample_relation_table option \<Rightarrow> bool" where
  "same_rows r r' \<longleftrightarrow> map_option (\<lambda>t. mset (rt_rows t)) r = map_option (\<lambda>t. mset (rt_rows t)) r'"

lemma same_schema_sets:
  assumes "same_schema d d'"
  shows "set (ds_sample_ids d) = set (ds_sample_ids d')" "set (ds_sources d) = set (ds_sources d')"
    "set (ds_groups d) = set (ds_groups d')" "set (ds_folds d) = set (ds_folds d')"
  using assms by (auto simp: same_schema_def dest: mset_eq_setD)

lemma schema_ok_same:
  assumes "same_schema d d'"
  shows "schema_ok nf d \<longleftrightarrow> schema_ok nf d'"
proof -
  have "distinct (ds_sample_ids d) \<longleftrightarrow> distinct (ds_sample_ids d')"
    using assms distinct_map_perm [of "ds_sample_ids d" "ds_sample_ids d'" id] by (simp add: same_schema_def)
  moreover have "distinct (map sd_id (ds_sources d)) \<longleftrightarrow> distinct (map sd_id (ds_sources d'))"
      "distinct (map gs_id (ds_groups d)) \<longleftrightarrow> distinct (map gs_id (ds_groups d'))"
      "distinct (map fo_id (ds_folds d)) \<longleftrightarrow> distinct (map fo_id (ds_folds d'))"
    using assms by (auto simp: same_schema_def dest: distinct_map_perm)
  moreover have "ds_sample_ids d = [] \<longleftrightarrow> ds_sample_ids d' = []"
    using assms by (auto simp: same_schema_def)
  ultimately show ?thesis
    using assms unfolding schema_ok_def same_schema_sets [OF assms] by (simp add: same_schema_def)
qed

lemma canonical_schema_same:
  assumes "same_schema d d'" and "schema_ok nf d"
  shows "canonical_schema d = canonical_schema d'"
proof -
  have "sort_key sd_id (ds_sources d) = sort_key sd_id (ds_sources d')"
      "sort_key gs_id (ds_groups d) = sort_key gs_id (ds_groups d')"
      "sort_key fo_id (ds_folds d) = sort_key fo_id (ds_folds d')"
    using assms by (auto simp: same_schema_def schema_ok_def intro: sort_key_perm)
  moreover have "sort (ds_sample_ids d) = sort (ds_sample_ids d')"
    using assms(1) by (auto simp: same_schema_def intro: sort_mset_cong)
  ultimately show ?thesis
    using assms(1) by (cases d; cases d') (simp add: same_schema_def canonical_schema_def)
qed

lemma schema_fingerprint_same:
  "same_schema d d' \<Longrightarrow> schema_ok (cd_number_f64 cd) d \<Longrightarrow> schema_fingerprint cd d = schema_fingerprint cd d'"
  using schema_ok_same [of d d'] canonical_schema_same [of d d']
  by (simp add: schema_fingerprint_def dataset_schema_validate_ok [THEN iffD2])

lemma row_declared_same:
  "same_schema d d' \<Longrightarrow> set rows = set rows' \<Longrightarrow> row_declared d rows row \<longleftrightarrow> row_declared d' rows' row"
  using same_schema_sets [of d d'] by (simp add: row_declared_def source_ids_of_def same_schema_def)

lemma table_declared_same:
  assumes "same_schema d d'" and "mset (rt_rows t) = mset (rt_rows t')"
  shows "table_declared d t \<longleftrightarrow> table_declared d' t'"
  using row_declared_same [OF assms(1) mset_eq_setD [OF assms(2)]] table_ok_perm [OF assms(2)]
    mset_eq_setD [OF assms(2)]
  by (simp add: table_declared_def)

text \<open>What the validations of the parts leave of the assembly.\<close>

lemma from_parts_success:
  assumes "envelope_from_parts cd d p relations = Inr e"
  shows "schema_ok (cd_number_f64 cd) d" and "\<forall>step\<in>set (dp_steps p). set_option (ps_source_id step) \<subseteq> source_ids_of d"
    and "\<forall>t. relations = Some t \<longrightarrow> table_declared d t"
  using assms
  by (auto simp: envelope_from_parts_def rbind_eq_Inr dataset_schema_validate_ok check_plan_steps_ok
      check_table_ok [unfolded rbind_eq_Inr, simplified])

text \<open>
  An envelope depends on what its parts say, not on the order in which they say it: when the
  samples, sources, groups and folds of the schema and the rows of the relation table are listed in any
  other order, the assembly gives the same envelope, every fingerprint and the order of the coordinator
  relations included.
\<close>

lemma assembly_order_independent:
  assumes "envelope_from_parts cd d p relations = Inr e" and "same_schema d d'" and "same_rows relations relations'"
  shows "envelope_from_parts cd d' p relations' = Inr e"
proof -
  note parts = from_parts_success [OF assms(1)]
  have schema: "dataset_schema_validate (cd_number_f64 cd) d = Inr ()"
      "dataset_schema_validate (cd_number_f64 cd) d' = Inr ()"
    using parts(1) schema_ok_same [OF assms(2)] by (simp_all add: dataset_schema_validate_ok)
  have "source_ids_of d' = source_ids_of d" by (simp add: source_ids_of_def same_schema_sets [OF assms(2)])
  then have steps: "each_res (check_plan_step d) (dp_steps p) = Inr ()" "each_res (check_plan_step d') (dp_steps p) = Inr ()"
    using parts(2) by (simp_all add: check_plan_steps_ok)
  note fp = schema_fingerprint_same [OF assms(2) parts(1)]
  show ?thesis
  proof (cases relations)
    case None
    with assms(3) have "relations' = None" by (simp add: same_rows_def)
    with None assms(1) schema steps fp show ?thesis by (simp add: envelope_from_parts_def)
  next
    case (Some t)
    with assms(3) obtain t' where t': "relations' = Some t'" and perm: "mset (rt_rows t) = mset (rt_rows t')"
      by (cases relations') (auto simp: same_rows_def)
    have decl: "table_declared d t" "table_declared d' t'"
      using parts(3) Some table_declared_same [OF assms(2) perm] by simp_all
    then have "table_validate t = Inr ()" by (simp add: table_declared_def table_validate_ok)
    note same = sample_relation_fingerprint_order_independent [OF perm this]
      conversion_order_independent [OF perm this]
    from decl have "rseq (table_validate t) (each_res (check_relation_row d (rt_rows t)) (rt_rows t)) = Inr ()"
        "rseq (table_validate t') (each_res (check_relation_row d' (rt_rows t')) (rt_rows t')) = Inr ()"
      by (simp_all only: check_table_ok)
    with assms(1) Some t' schema steps fp same show ?thesis
      by (simp add: envelope_from_parts_def transposed_def)
  qed
qed

text \<open>
  An assembled envelope only speaks of what the schema declares: each of its coordinator relations
  names a declared source and target if any, and either a declared sample or, when it is augmented, a
  sample whose origin resolves to a declared one.
\<close>

lemma assembled_relations_declared:
  assumes "envelope_from_parts cd d p relations = Inr e" and "en_coordinator_relations e = Some rs"
    and "r \<in> set (rs_records rs)"
  shows "set_option (cr_source_id r) \<subseteq> source_ids_of d \<and>
    set_option (cr_target_id r) \<subseteq> fst ` set (ds_targets d) \<and>
    (if cr_is_augmented r
     then \<exists>origin. cr_origin_sample_id r = Some origin \<and> origin \<in> set (ds_sample_ids d)
     else cr_sample_id r \<in> set (ds_sample_ids d))"
proof -
  from assms(1,2) obtain t where t: "relations = Some t" "coordinator_relations_from_sample_table t = Inr rs"
    by (cases relations) (auto simp: envelope_from_parts_def rbind_eq_Inr Let_def transposed_def)
  then have decl: "table_declared d t" using from_parts_success(3) [OF assms(1)] by blast
  then have ok: "table_ok t" by (simp add: table_declared_def)
  have "rs = converted_table t"
    using t(2) by (simp add: conversion_lemma [OF ok] Let_def rbind_eq_Inr converted_table_def)
  with assms(3) obtain row where row: "row \<in> set (rt_rows t)" "r = coordinator_row (rt_rows t) row"
    by (auto simp: converted_table_def)
  have declared: "row_declared d (rt_rows t) row" using decl row(1) by (simp add: table_declared_def)
  have "distinct (map sr_observation_id (rt_rows t))" using ok by (simp add: table_ok_def)
  then have "map_of (map (\<lambda>r. (sr_observation_id r, sr_sample_id r)) (rt_rows t)) (sr_observation_id base) =
      Some (sr_sample_id base)" if "base \<in> set (rt_rows t)" for base
    using that by (intro map_of_is_SomeI) (auto simp: comp_def)
  then have "map_of (map (\<lambda>r. (sr_observation_id r, sr_sample_id r)) (rt_rows t)) (Ident (as_str origin)) =
      Some (sr_sample_id base)"
    if "base \<in> set (rt_rows t)" "as_str (sr_observation_id base) = as_str (origin :: origin_id)" for base origin
    using that by (metis ident.collapse)
  then show ?thesis
    using declared
    by (auto simp: row_declared_def row(2) coordinator_row_def relation_new_def origin_sample_of_def)
qed

end
