(* ===== verification/Materialization.thy ===== *)
theory Materialization
  imports Arena_Safety
begin

text \<open>
  Which relations a materialized handle identifies, when materialization succeeds, and what that
  means for an external test cohort: nothing that a training handle or a view of it ever identifies
  shares a sample or an origin with the cohort.
\<close>

section \<open>The authority of a request\<close>

definition training_phase :: "materialization_request \<Rightarrow> bool" where
  "training_phase q \<longleftrightarrow> \<not> phase_is q ''predict'' \<and> \<not> phase_is q ''explain''"

text \<open>The relations that a request reads before they are scoped to its sources.\<close>

definition authority :: "envelope \<Rightarrow> materialization_request \<Rightarrow> relation_set option" where
  "authority e q =
     (case en_predict_cohort e of
        None \<Rightarrow> en_coordinator_relations e
      | Some c \<Rightarrow>
          if mr_predict_cohort q = None \<and> training_phase q then en_coordinator_relations e
          else Some (pc_relations c))"

text \<open>
  A request may name a cohort only if the envelope carries an equal one, in a prediction phase or,
  for an external test cohort, as the companion of a fit or a refit.
\<close>

definition cohort_granted :: "external \<Rightarrow> envelope \<Rightarrow> materialization_request \<Rightarrow> bool" where
  "cohort_granted ex e q \<longleftrightarrow>
     (case mr_predict_cohort q of
        None \<Rightarrow> True
      | Some c \<Rightarrow>
          cohort_validate ex c = Inr () \<and>
          (\<exists>auth. en_predict_cohort e = Some auth \<and> cohort_eq (ex_value_eq ex) auth c) \<and>
          (training_phase q \<longrightarrow>
             (phase_is q ''fit_cv'' \<or> phase_is q ''refit'') \<and> pc_role c = ExternalTest))"

definition scope :: "materialization_request \<Rightarrow> relation_set \<Rightarrow> relation_set" where
  "scope q rs =
     (if mr_source_ids q = [] then rs
      else \<lparr>rs_records = filter (source_in (mr_source_ids q)) (rs_records rs)\<rparr>)"

definition request_ok :: "materialization_request \<Rightarrow> bool" where
  "request_ok q \<longleftrightarrow>
     list_all (\<lambda>s. \<not> is_blank s)
       [mr_run_id q, mr_node_id q, mr_input_name q, mr_phase q, mr_request_id q] \<and>
     hex64 (mr_schema_fingerprint q) \<and> hex64 (mr_plan_fingerprint q) \<and>
     (\<forall>fp. mr_relation_fingerprint q = Some fp \<longrightarrow> hex64 fp) \<and>
     (mr_require_relations q \<longrightarrow> mr_relation_fingerprint q \<noteq> None) \<and>
     distinct (mr_source_ids q)"

definition request_matches :: "envelope \<Rightarrow> materialization_request \<Rightarrow> bool" where
  "request_matches e q \<longleftrightarrow>
     mr_schema_fingerprint q = en_schema_fingerprint e \<and>
     mr_plan_fingerprint q = en_plan_fingerprint e \<and>
     mr_relation_fingerprint q = en_relation_fingerprint e \<and>
     (mr_require_relations q \<longrightarrow> authority e q \<noteq> None) \<and>
     mr_output_representation q = dp_output_representation (en_plan e) \<and>
     (\<forall>s\<in>set (mr_source_ids q). \<exists>step\<in>set (dp_steps (en_plan e)). ps_source_id step = Some s)"

lemma cohort_eq_role: "cohort_eq value_eq c d \<Longrightarrow> pc_role c = pc_role d"
  by (cases c; cases d) (simp add: cohort_eq_def)

lemma materialization_relations_ok:
  "materialization_relations ex e q = Inr out \<longleftrightarrow> cohort_granted ex e q \<and> out = authority e q"
proof (cases "mr_predict_cohort q")
  case None
  then show ?thesis
    unfolding materialization_relations_def cohort_granted_def authority_def training_phase_def
    by (cases "en_predict_cohort e") auto
next
  case (Some c)
  then show ?thesis
    unfolding materialization_relations_def cohort_granted_def authority_def training_phase_def
    by (cases "en_predict_cohort e") (auto simp: rbind_eq_Inr if_Inl_eq_Inr Let_def)
qed

lemma validate_non_empty_ok: "validate_non_empty label s = Inr () \<longleftrightarrow> \<not> is_blank s"
  by (simp add: validate_non_empty_def)

lemma request_validate_ok: "request_validate q = Inr () \<longleftrightarrow> request_ok q"
  unfolding request_validate_def request_ok_def
  by (cases "mr_relation_fingerprint q")
    (auto simp: rbind_eq_Inr if_Inl_eq_Inr validate_non_empty_ok validate_fingerprint_ok hex64_def)

lemma request_against_envelope_ok:
  "validate_request_against_envelope ex e q = Inr () \<and> cohort_granted ex e q \<longleftrightarrow>
     request_matches e q \<and> cohort_granted ex e q"
  unfolding validate_request_against_envelope_def request_matches_def
  by (auto simp: rbind_eq_Inr if_Inl_eq_Inr Let_def materialization_relations_ok each_res_ok
      set_map_filter)

lemma selected_relations_ok:
  "selected_relations ex e q = Inr out \<longleftrightarrow>
     cohort_granted ex e q \<and> out = map_option (scope q) (authority e q) \<and>
     (\<forall>rs. authority e q = Some rs \<longrightarrow> relation_set_ok rs \<and> relation_set_ok (scope q rs))"
  unfolding selected_relations_def
  by (cases "authority e q")
    (auto simp: rbind_eq_Inr materialization_relations_ok scoped_relations_ok scope_def)

lemma authority_valid:
  assumes "envelope_ok ex e" and "authority e q = Some rs"
  shows "relation_set_ok rs"
proof (cases "en_predict_cohort e")
  case None
  then show ?thesis using assms by (simp add: authority_def envelope_ok_def)
next
  case (Some c)
  then have "cohort_validate ex c = Inr ()"
    using assms(1) by (simp add: envelope_ok_def cohort_admitted_def)
  then have "relation_set_ok (pc_relations c)"
    by (auto simp: cohort_members_ok_def dest: cohort_validate_members)
  then show ?thesis
    using assms Some by (auto simp: authority_def envelope_ok_def split: if_splits)
qed

lemma materialize_iff:
  "materialize ex e q a = Inr (r, a') \<longleftrightarrow>
     envelope_ok ex e \<and> request_ok q \<and> request_matches e q \<and> cohort_granted ex e q \<and>
     (\<forall>rs. authority e q = Some rs \<longrightarrow> relation_set_ok (scope q rs)) \<and>
     r = minted_record e q a (map_option (scope q) (authority e q)) \<and>
     a' = with_data a r (map_option (scope q) (authority e q))"
  unfolding materialize_ok envelope_validate_ok request_validate_ok selected_relations_ok
  using request_against_envelope_ok [of ex e q] authority_valid [of ex e q] by blast

text \<open>
  C11. Materialization succeeds exactly for a valid envelope and request that agree, when the request
  may read the cohort it names and the scoped relations are well-formed. It then mints a handle that
  no live handle uses, files the request's identity under it, makes it identify the authority's
  relations restricted to the requested sources, and changes what no other handle identifies.
\<close>

theorem materialize_spec:
  assumes "arena_reachable ex a"
  shows "(is_ok (materialize ex e q a) \<longleftrightarrow>
      envelope_ok ex e \<and> request_ok q \<and> request_matches e q \<and> cohort_granted ex e q \<and>
      (\<forall>rs. authority e q = Some rs \<longrightarrow> relation_set_ok (scope q rs))) \<and>
    (\<forall>r a'. materialize ex e q a = Inr (r, a') \<longrightarrow>
      hr_handle (dh_handle r) \<notin> live_handles a \<and>
      handle_record a' (hr_handle (dh_handle r)) = Some r \<and>
      dh_phase r = mr_phase q \<and> dh_fold_id r = mr_fold_id q \<and> dh_plan_id r = dp_id (en_plan e) \<and>
      data_identity a' (hr_handle (dh_handle r)) =
        (case authority e q of
           None \<Rightarrow> invalid ''data handle has no coordinator relations''
         | Some rs \<Rightarrow> Inr (scope q rs)) \<and>
      (\<forall>k. k \<noteq> hr_handle (dh_handle r) \<longrightarrow>
         handle_record a' k = handle_record a k \<and> data_identity a' k = data_identity a k) \<and>
      (\<forall>k. view_record a' k = view_record a k \<and> view_identity a' k = view_identity a k))"
proof -
  have wf: "maps_ok a" using arena_reachable_wf [OF assms] by (simp add: arena_wf_def)
  then have fresh: "ha_next_handle a \<notin> live_handles a" by (auto simp: maps_ok_def)
  have "hr_handle (dh_handle r) \<notin> live_handles a \<and>
      handle_record a' (hr_handle (dh_handle r)) = Some r \<and>
      dh_phase r = mr_phase q \<and> dh_fold_id r = mr_fold_id q \<and> dh_plan_id r = dp_id (en_plan e) \<and>
      data_identity a' (hr_handle (dh_handle r)) =
        (case authority e q of
           None \<Rightarrow> invalid ''data handle has no coordinator relations''
         | Some rs \<Rightarrow> Inr (scope q rs)) \<and>
      (\<forall>k. k \<noteq> hr_handle (dh_handle r) \<longrightarrow>
         handle_record a' k = handle_record a k \<and> data_identity a' k = data_identity a k) \<and>
      (\<forall>k. view_record a' k = view_record a k \<and> view_identity a' k = view_identity a k)"
    if "materialize ex e q a = Inr (r, a')" for r a'
  proof -
    have r: "r = minted_record e q a (map_option (scope q) (authority e q))"
      and a': "a' = with_data a r (map_option (scope q) (authority e q))"
      using that by (auto simp: materialize_iff)
    have "hr_handle (dh_handle r) = ha_next_handle a" "dh_phase r = mr_phase q"
        "dh_fold_id r = mr_fold_id q" "dh_plan_id r = dp_id (en_plan e)"
      by (simp_all add: r minted_record_def)
    with fresh maps_ok_next_dead [OF wf] show ?thesis
      by (cases "authority e q")
        (simp_all add: a' with_data_def handle_record_def data_identity_def view_record_def
          view_identity_def map_of_bt_insert)
  qed
  then show ?thesis by (simp add: is_ok_iff materialize_iff)
qed

section \<open>The test set barrier\<close>

lemma data_relations_live:
  assumes "arena_wf ex a" and "map_of (ha_data_relations a) h = Some rs"
  shows "h \<in> live_handles a" and "h < ha_next_handle a"
proof -
  have "h \<in> dom (map_of (ha_records a))"
    using assms by (auto simp: arena_wf_def maps_ok_def)
  then show "h \<in> live_handles a" by (simp add: live_handles_def)
  then show "h < ha_next_handle a" using assms(1) by (simp add: arena_wf_def maps_ok_def)
qed

lemma data_relations_step:
  assumes "arena_wf ex a" and "arena_step ex a b" and "map_of (ha_data_relations a) h = Some rs"
  shows "map_of (ha_data_relations b) h = Some rs \<or> h \<notin> live_handles b"
  using assms(2)
proof (cases rule: arena_step.cases)
  case (step_materialize e q r)
  have "maps_ok a" using assms(1) by (simp add: arena_wf_def)
  then have "h \<noteq> ha_next_handle a" using maps_ok_next_dead assms(3) by fastforce
  then show ?thesis
    using step_materialize(2) assms(3)
    by (auto simp: materialize_iff with_data_def map_of_bt_insert split: option.splits)
next
  case (step_view k v r)
  then show ?thesis using assms(3) by (auto simp: make_view_ok with_view_def)
next
  case (step_release k released)
  show ?thesis
  proof (cases "k = h")
    case True
    have "released"
      using step_release True data_relations_live(1) [OF assms(1,3)]
      by (auto simp: release_handle_def live_handles_def Let_def split: option.splits)
    then have "release_handle h a = (True, b)" using step_release True by simp
    then show ?thesis using released_is_dead [OF assms(1)] by blast
  next
    case False
    then show ?thesis
      using step_release assms(3) unfolding release_handle_def
      by (auto simp: Let_def map_of_bt_remove remove_view_def split: option.splits if_splits)
  qed
qed

lemma data_relations_steps:
  assumes "(arena_step ex)\<^sup>*\<^sup>* a b" and "arena_wf ex a" and "map_of (ha_data_relations a) h = Some rs"
  shows "map_of (ha_data_relations b) h = Some rs \<or> h \<notin> live_handles b"
  using assms(1)
proof (induction rule: rtranclp_induct)
  case base
  then show ?case using assms(3) by simp
next
  case (step b c)
  have wf: "arena_wf ex b" using arena.steps_wf [OF step.hyps(1) assms(2)] .
  have below: "h < ha_next_handle b"
    using arena.steps_mono [OF step.hyps(1) assms(2)] data_relations_live(2) [OF assms(2,3)] by simp
  show ?case
  proof (cases "h \<in> live_handles b")
    case True
    then show ?thesis using step.IH data_relations_step [OF wf step.hyps(2)] by blast
  next
    case False
    then show ?thesis
      using arena.dead_stays_dead [OF r_into_rtranclp [of "arena_step ex", OF step.hyps(2)] wf below]
      by blast
  qed
qed

text \<open>What a data handle or a view of it identifies in an arena.\<close>

definition exposes :: "handle_arena \<Rightarrow> handle_ref \<Rightarrow> relation_set \<Rightarrow> bool" where
  "exposes b h rs \<longleftrightarrow>
     data_identity b (hr_handle h) = Inr rs \<or>
     (\<exists>k v. view_record b k = Some v \<and> vh_parent_handle v = h \<and> view_identity b k = Inr rs)"

lemma exposed_within_data:
  assumes "arena_wf ex b" and "exposes b h rs"
  shows "\<exists>ps. map_of (ha_data_relations b) (hr_handle h) = Some ps \<and>
    set (rs_records rs) \<subseteq> set (rs_records ps) \<and> hr_handle h \<in> live_handles b"
proof (cases "data_identity b (hr_handle h) = Inr rs")
  case True
  then show ?thesis
    by (auto simp: data_identity_def ok_or_eq_Inr live_handles_def split: if_splits)
next
  case False
  then obtain k v where v: "view_record b k = Some v" "vh_parent_handle v = h" "view_identity b k = Inr rs"
    using assms(2) by (auto simp: exposes_def)
  then have "view_entry_ok ex b k v" "map_of (ha_view_relations b) k = Some rs"
    using assms(1) by (simp_all add: arena_wf_def view_record_def view_identity_def ok_or_eq_Inr)
  then obtain ps where "map_of (ha_data_relations b) (hr_handle h) = Some ps"
      "mset (rs_records rs) \<subseteq># mset (rs_records ps)"
    using v(2) unfolding view_entry_ok_def by auto
  then show ?thesis
    using set_mset_mono data_relations_live(1) [OF assms(1)] by fastforce
qed

lemma training_authority:
  assumes "envelope_ok ex e" and "en_predict_cohort e = Some c" and "pc_role c = ExternalTest"
    and "mr_predict_cohort q = None" and "training_phase q"
  shows "\<exists>training. authority e q = Some training \<and> validate_disjoint ex c training = Inr ()"
  using assms by (auto simp: envelope_ok_def cohort_admitted_def authority_def)

lemma training_barrier:
  assumes "arena_wf ex a" and "ha_next_handle a \<noteq> - 1"
    and "materialize ex e q a = Inr (r, a')" and "(arena_step ex)\<^sup>*\<^sup>* a' b"
    and "en_predict_cohort e = Some c" and "pc_role c = ExternalTest"
    and "mr_predict_cohort q = None" and "training_phase q"
    and "exposes b (dh_handle r) rs"
    and "x \<in> set (rs_records rs)" and "y \<in> set (rs_records (pc_relations c))"
  shows "({cr_sample_id y} \<union> set_option (cr_origin_sample_id y)) \<inter>
    ({cr_sample_id x} \<union> set_option (cr_origin_sample_id x)) = {}"
proof -
  have env: "envelope_ok ex e" and r: "r = minted_record e q a (map_option (scope q) (authority e q))"
    and a': "a' = with_data a r (map_option (scope q) (authority e q))"
    using assms(3) by (auto simp: materialize_iff)
  obtain training where t: "authority e q = Some training" "validate_disjoint ex c training = Inr ()"
    using training_authority [OF env assms(5-8)] by blast
  let ?h = "hr_handle (dh_handle r)"
  have "map_of (ha_data_relations a') ?h = Some (scope q training)"
    by (simp add: a' t(1) with_data_def map_of_bt_insert, simp add: r minted_record_def)
  moreover have wf: "arena_wf ex a'"
    using materialize_wf assms(1-3) by blast
  ultimately have later: "map_of (ha_data_relations b) ?h = Some (scope q training) \<or> ?h \<notin> live_handles b"
    by (intro data_relations_steps [OF assms(4)])
  have "arena_wf ex b" using arena.steps_wf [OF assms(4) wf] .
  then have "x \<in> set (rs_records (scope q training))"
    using exposed_within_data [OF _ assms(9)] later assms(10) by fastforce
  then have "x \<in> set (rs_records training)" by (auto simp: scope_def split: if_splits)
  then show ?thesis using validate_disjoint_apart [OF t(2) assms(6,11)] by blast
qed

text \<open>
  The test set barrier across the life of an arena. Let a handle be materialized in a training
  phase, without naming a cohort, from an envelope that carries an external test cohort. Whatever
  happens to the arena afterwards, no row that the handle or any view of it identifies shares a
  sample or an origin with a row of the cohort.
\<close>

lemma training_handles_avoid_test_cohort:
  assumes "arena_reachable ex a" and "ha_next_handle a \<noteq> - 1"
    and "materialize ex e q a = Inr (r, a')" and "(arena_step ex)\<^sup>*\<^sup>* a' b"
    and "en_predict_cohort e = Some c" and "pc_role c = ExternalTest"
    and "mr_predict_cohort q = None" and "training_phase q"
    and "exposes b (dh_handle r) rs"
    and "x \<in> set (rs_records rs)" and "y \<in> set (rs_records (pc_relations c))"
  shows "({cr_sample_id y} \<union> set_option (cr_origin_sample_id y)) \<inter>
    ({cr_sample_id x} \<union> set_option (cr_origin_sample_id x)) = {}"
  by (rule training_barrier [OF arena_reachable_wf [OF assms(1)] assms(2-)])

end
