(* ===== verification/Sample_Campaign.thy ===== *)
theory Sample_Campaign
  imports Materialization Coordinator_Tables
begin

text \<open>
  A small campaign on which the properties of cohorts, envelopes, views, handles and tables are
  instantiated: a plan that materializes one source, two training rows, an external test cohort of
  two other rows, and an arena with one data handle and one view of it.
\<close>

section \<open>Cohort and envelope\<close>

definition demo_external :: external where
  "demo_external =
     \<lparr>ex_encode_relations = unit_encoder, ex_encode_cohort = (\<lambda>c. Inr [of_nat (length (fi_target_names c))]),
      ex_encode_plan = (\<lambda>p. Inr [of_nat (length (dp_steps p))]), ex_sha256 = sample_digest,
      ex_decode_filter = (\<lambda>_. None), ex_value_eq = (=)\<rparr>"

definition demo_step :: data_plan_step where
  "demo_step =
     \<lparr>ps_kind = Materialize, ps_source_id = Some (Ident ''nir''), ps_adapter_id = None,
      ps_input_representation = None, ps_output_representation = Some (Ident ''spectra''),
      ps_fit_scope = Stateless, ps_requires_user_choice = False, ps_metadata = []\<rparr>"

definition demo_plan :: "nat \<Rightarrow> data_plan" where
  "demo_plan n =
     \<lparr>dp_id = ''plan'', dp_steps = replicate (Suc n) demo_step,
      dp_output_representation = Ident ''spectra'', dp_issues = []\<rparr>"

definition test_relations :: relation_set where
  "test_relations =
     \<lparr>rs_records = [relation_new (Ident ''y'') (Ident ''w''), relation_new (Ident ''x'') (Ident ''v'')]\<rparr>"

definition zero_fingerprint :: string where
  "zero_fingerprint = replicate 64 CHR ''0''"

definition demo_cohort :: predict_cohort where
  "demo_cohort =
     (case cohort_from_relations demo_external ExternalTest test_relations [''yield'']
             zero_fingerprint (Some zero_fingerprint) of
        Inr c \<Rightarrow> c | Inl _ \<Rightarrow> undefined)"

lemma demo_external_simps [simp]:
  "ex_encode_relations demo_external = unit_encoder"
  "ex_encode_cohort demo_external c = Inr [of_nat (length (fi_target_names c))]"
  "ex_encode_plan demo_external p = Inr [of_nat (length (dp_steps p))]"
  "ex_sha256 demo_external = sample_digest"
  "ex_value_eq demo_external = (=)"
  by (simp_all add: demo_external_def)

lemma zero_fingerprint_hex: "hex64 zero_fingerprint"
  by (simp add: hex64_def zero_fingerprint_def list_all_iff ascii_class_defs)

lemma test_relations_ok: "relation_set_ok test_relations"
  by (simp add: relation_set_ok_def test_relations_def plain_relation_ok, simp add: relation_new_def)

lemma is_ok_unit_fingerprint: "relation_set_ok rs \<Longrightarrow> is_ok (relations_fingerprint demo_external rs)"
  by (simp add: relations_fingerprint_def relation_set_fingerprint_ok typed_fingerprint_def
      unit_encoder_def is_ok_iff)

lemma demo_cohort_built:
  "cohort_from_relations demo_external ExternalTest test_relations [''yield'']
     zero_fingerprint (Some zero_fingerprint) = Inr demo_cohort"
proof -
  obtain fp where fp: "relations_fingerprint demo_external test_relations = Inr fp"
    using is_ok_unit_fingerprint [OF test_relations_ok] by (auto simp: is_ok_iff)
  let ?c = "\<lparr>pc_role = ExternalTest, pc_physical_sample_ids = bset_of (row_samples test_relations),
           pc_origin_sample_ids = bset_of (row_origins test_relations), pc_target_names = [''yield''],
           pc_relation_fingerprint = fp, pc_relations = test_relations,
           pc_data_content_fingerprint = zero_fingerprint,
           pc_target_content_fingerprint = Some zero_fingerprint, pc_cohort_fingerprint = []\<rparr>"
  have "cohort_members_ok demo_external ?c"
    using zero_fingerprint_hex test_relations_ok fp
    by (simp add: cohort_members_ok_def hex64_def is_blank_graphic is_ascii_graphic_def byte_of_def)
  then have "is_ok (cohort_fingerprint demo_external ?c)"
    by (simp add: is_ok_iff cohort_fingerprint_ok typed_fingerprint_def)
  then have "is_ok (cohort_from_relations demo_external ExternalTest test_relations [''yield'']
      zero_fingerprint (Some zero_fingerprint))"
    by (auto simp: cohort_from_relations_def fp is_ok_iff)
  then show ?thesis by (auto simp: demo_cohort_def is_ok_iff)
qed

lemma cohort_from_relations_valid_witness:
  "cohort_validate demo_external demo_cohort = Inr () \<and> pc_role demo_cohort = ExternalTest \<and>
   pc_relations demo_cohort = test_relations \<and>
   sorted_wrt (<) (pc_physical_sample_ids demo_cohort) \<and>
   set (pc_physical_sample_ids demo_cohort) = {Ident ''v'', Ident ''w''}"
  using cohort_from_relations_valid [OF demo_cohort_built]
  by (auto simp: test_relations_def relation_new_def)

lemma demo_cohort_valid:
  "cohort_validate demo_external demo_cohort = Inr ()" "pc_relations demo_cohort = test_relations"
  "pc_role demo_cohort = ExternalTest"
  "set (pc_physical_sample_ids demo_cohort) = {Ident ''v'', Ident ''w''}"
  "set (pc_origin_sample_ids demo_cohort) = {Ident ''v'', Ident ''w''}"
  using cohort_from_relations_ok [OF demo_cohort_built]
  by (auto simp: test_relations_def relation_new_def row_origins_def)

lemma demo_disjoint: "validate_disjoint demo_external demo_cohort two_relations = Inr ()"
proof -
  have "relation_set_validate two_relations = Inr ()"
    by (simp add: relation_set_validate_ok two_relations_ok)
  then show ?thesis
    unfolding validate_disjoint_def
    by (simp add: demo_cohort_valid list_ex_iff, simp add: training_identities_def two_relations_def relation_new_def)
qed

lemma validate_disjoint_barrier_witness:
  "({Ident ''v''} \<union> set_option (cr_origin_sample_id (relation_new (Ident ''x'') (Ident ''v'')))) \<inter>
   ({Ident ''s''} \<union> set_option (cr_origin_sample_id (relation_new (Ident ''a'') (Ident ''s'')))) =
   ({} :: sample_id set)"
  using validate_disjoint_barrier [OF demo_disjoint demo_cohort_valid(3),
      of "relation_new (Ident ''x'') (Ident ''v'')" "relation_new (Ident ''a'') (Ident ''s'')"]
  by (simp add: demo_cohort_valid test_relations_def two_relations_def, simp add: relation_new_def)

definition demo_envelope :: envelope where
  "demo_envelope =
     \<lparr>en_schema_version = 2, en_schema_fingerprint = zero_fingerprint,
      en_plan_fingerprint = to_hex (sample_digest [1]), en_relation_fingerprint = None,
      en_data_content_fingerprint = None, en_target_content_fingerprint = None,
      en_plan = demo_plan 0, en_coordinator_relations = Some two_relations,
      en_predict_cohort = Some demo_cohort, en_metadata = []\<rparr>"

lemma demo_step_io [simp]:
  "plan_step_inputs demo_step = Inr []"
  "plan_step_output demo_step = Inr (Some ''src:nir'')"
  by (simp_all add: plan_step_inputs_def plan_step_output_def demo_step_def)

lemma demo_steps_fit: "steps_fit (replicate k demo_step)"
proof (induction k)
  case (Suc k)
  have "step_fits (replicate k demo_step) demo_step"
    by (simp add: step_fits_def step_wf_def step_reads_def is_ok_iff, simp add: demo_step_def)
  with Suc have "steps_fit (replicate k demo_step @ [demo_step])"
    by (simp only: steps_fit_snoc)
  then show ?case by (simp only: replicate_append_same replicate_Suc)
qed simp

lemma demo_plan_ok: "data_plan_ok (demo_plan n)"
proof -
  have "last (replicate (Suc n) demo_step) = demo_step"
    by (rule last_replicate) simp
  then show ?thesis
    using demo_steps_fit [of "Suc n"]
    unfolding data_plan_ok_def demo_plan_def
    by (simp add: is_blank_graphic is_ascii_graphic_def byte_of_def del: last.simps,
        simp add: demo_step_def compatible_def)
qed

lemma demo_plan_fingerprint:
  "data_plan_fingerprint demo_external (demo_plan n) = Inr (to_hex (sample_digest [of_nat (Suc n)]))"
proof -
  have "data_plan_validate (demo_plan n) = Inr ()" by (simp add: data_plan_validate_ok demo_plan_ok)
  moreover have "length (dp_steps (demo_plan n)) = Suc n" by (simp add: demo_plan_def)
  ultimately show ?thesis by (simp add: data_plan_fingerprint_def typed_fingerprint_def)
qed

lemma demo_envelope_ok: "envelope_ok demo_external demo_envelope"
proof -
  have "hex64 (to_hex (sample_digest [1]))"
    by (simp add: hex64_def length_to_hex to_hex_hexdigits)
  then show ?thesis
    using zero_fingerprint_hex demo_plan_ok [of 0] two_relations_ok demo_disjoint
      demo_cohort_valid demo_plan_fingerprint [of 0]
    by (simp add: envelope_ok_def cohort_admitted_def demo_envelope_def)
qed

lemma tampered_plan_rejected_witness:
  "envelope_validate demo_external (demo_envelope\<lparr>en_plan := demo_plan 1\<rparr>) =
     Inl (FingerprintMismatch ''plan'' (to_hex (sample_digest [1])) (to_hex (sample_digest [2])))"
proof -
  have "sample_digest [2] \<noteq> sample_digest [1]" by (simp add: sample_digest_def)
  then show ?thesis
    using tampered_plan_rejected [of demo_external demo_envelope "demo_plan 1" "[2]" "[1]"]
    by (simp add: envelope_validate_ok demo_envelope_ok data_plan_validate_ok demo_plan_ok,
        simp add: demo_envelope_def demo_plan_def)
qed

section \<open>The arena\<close>

definition demo_request :: materialization_request where
  "demo_request =
     \<lparr>mr_run_id = ''run'', mr_node_id = ''node'', mr_input_name = ''x'', mr_phase = ''fit_cv'',
      mr_variant_id = None, mr_fold_id = None, mr_request_id = ''req'',
      mr_schema_fingerprint = zero_fingerprint, mr_plan_fingerprint = to_hex (sample_digest [1]),
      mr_relation_fingerprint = None, mr_output_representation = Ident ''spectra'',
      mr_source_ids = [], mr_require_relations = False, mr_predict_cohort = None\<rparr>"

definition demo_arena0 :: handle_arena where
  "demo_arena0 =
     \<lparr>ha_owner_controller = ''w'', ha_next_handle = 1, ha_records = [], ha_data_relations = [],
      ha_view_records = [], ha_view_relations = []\<rparr>"

definition demo_data :: data_handle_record where
  "demo_data = minted_record demo_envelope demo_request demo_arena0 (Some two_relations)"

definition demo_arena1 :: handle_arena where
  "demo_arena1 = with_data demo_arena0 demo_data (Some two_relations)"

definition demo_view_record :: view_handle_record where
  "demo_view_record = minted_view demo_arena1 demo_data default_view (rs_records two_relations)"

definition demo_arena2 :: handle_arena where
  "demo_arena2 = with_view demo_arena1 demo_view_record (rs_records two_relations)"

lemmas demo_arena_defs =
  demo_arena0_def demo_arena1_def demo_arena2_def demo_data_def demo_view_record_def
  with_data_def with_view_def minted_record_def minted_view_def demo_request_def

lemma graphic_texts [simp]:
  "\<not> is_blank ''run''" "\<not> is_blank ''node''" "\<not> is_blank ''x''" "\<not> is_blank ''fit_cv''"
  "\<not> is_blank ''req''" "\<not> is_blank ''w''"
  by (simp_all add: is_blank_graphic is_ascii_graphic_def byte_of_def)

lemma demo_training_phase: "training_phase demo_request"
  by (simp add: training_phase_def phase_is_def demo_request_def eq_ignore_ascii_case_def)

lemma demo_authority: "authority demo_envelope demo_request = Some two_relations"
  using demo_training_phase by (simp add: authority_def, simp add: demo_envelope_def demo_request_def)

lemma demo_materialize:
  "materialize demo_external demo_envelope demo_request demo_arena0 = Inr (demo_data, demo_arena1)"
proof -
  have "hex64 (to_hex (sample_digest [1]))"
    by (simp add: hex64_def length_to_hex to_hex_hexdigits)
  then have "request_ok demo_request"
    using zero_fingerprint_hex by (simp add: request_ok_def demo_request_def)
  moreover have "request_matches demo_envelope demo_request"
    by (simp add: request_matches_def demo_request_def demo_envelope_def demo_plan_def)
  moreover have "cohort_granted demo_external demo_envelope demo_request" "scope demo_request rs = rs" for rs
    by (simp_all add: cohort_granted_def scope_def demo_request_def)
  ultimately show ?thesis
    using demo_envelope_ok two_relations_ok
    by (simp add: materialize_iff demo_authority demo_data_def demo_arena1_def)
qed

lemma default_view_selects [simp]:
  "view_matches ex default_view (relation_new obs s)"
  "view_order default_view xs = xs"
  "validate_view ex default_view = Inr ()"
  "resolved_view_labels default_view phase fold_label = Inr []"
  by (simp_all add: view_matches_def view_selects_def view_order_def default_view_def relation_new_def
      validate_view_def resolved_view_labels_def)

lemma demo_arena1_lookup:
  "map_of (ha_records demo_arena1) 1 = Some demo_data"
  "map_of (ha_data_relations demo_arena1) 1 = Some two_relations"
  "ha_next_handle demo_arena1 = 2"
  by (simp_all add: demo_arena1_def with_data_def map_of_bt_insert)
    (simp_all add: demo_arena0_def)

lemma demo_make_view:
  "make_view demo_external 1 default_view demo_arena1 = Inr (demo_view_record, demo_arena2)"
proof -
  have "selected_by_view demo_external default_view [] two_relations = rs_records two_relations"
    by (simp add: selected_by_view_def label_matches_def two_relations_def)
  moreover have "\<exists>x\<in>set (rs_records two_relations). label_matches [] x \<and> view_matches demo_external default_view x"
    by (simp add: two_relations_def label_matches_def)
  ultimately show ?thesis
    by (simp add: make_view_ok demo_arena1_lookup demo_view_record_def demo_arena2_def)
qed

lemma demo_reachable:
  "arena_reachable demo_external demo_arena0" "arena_reachable demo_external demo_arena1"
  "arena_reachable demo_external demo_arena2"
proof -
  have "arena_new ''w'' = Inr demo_arena0"
    by (simp add: arena_new_def demo_arena0_def validate_non_empty_def)
  then show r0: "arena_reachable demo_external demo_arena0" by (rule reach_new)
  have "ha_next_handle demo_arena0 \<noteq> - 1" by (simp add: demo_arena0_def)
  from step_materialize [OF this demo_materialize]
  show r1: "arena_reachable demo_external demo_arena1" by (rule reach_step [OF r0])
  have "ha_next_handle demo_arena1 \<noteq> - 1" by (simp add: demo_arena1_lookup)
  from step_view [OF this demo_make_view]
  show "arena_reachable demo_external demo_arena2" by (rule reach_step [OF r1])
qed

lemma demo_arena2_lookup:
  "handle_record demo_arena2 1 = Some demo_data" "view_record demo_arena2 2 = Some demo_view_record"
  "data_identity demo_arena2 1 = Inr two_relations" "view_identity demo_arena2 2 = Inr two_relations"
  "dh_handle demo_data = vh_parent_handle demo_view_record" "hr_handle (dh_handle demo_data) = 1"
  "hr_handle (vh_handle demo_view_record) = 2" "vh_view demo_view_record = default_view"
proof -
  have "ha_records demo_arena2 = ha_records demo_arena1"
      "ha_data_relations demo_arena2 = ha_data_relations demo_arena1"
      "map_of (ha_view_records demo_arena2) 2 = Some demo_view_record"
      "map_of (ha_view_relations demo_arena2) 2 = Some two_relations"
    by (simp_all add: demo_arena2_def with_view_def map_of_bt_insert demo_arena1_lookup)
  then show "handle_record demo_arena2 1 = Some demo_data" "view_record demo_arena2 2 = Some demo_view_record"
      "data_identity demo_arena2 1 = Inr two_relations" "view_identity demo_arena2 2 = Inr two_relations"
    by (simp_all add: handle_record_def view_record_def data_identity_def view_identity_def
        demo_arena1_lookup)
  show "dh_handle demo_data = vh_parent_handle demo_view_record"
    by (simp add: demo_view_record_def minted_view_def)
  show "hr_handle (dh_handle demo_data) = 1" "vh_view demo_view_record = default_view"
    by (simp_all add: demo_view_record_def minted_view_def demo_data_def minted_record_def demo_arena0_def)
  show "hr_handle (vh_handle demo_view_record) = 2"
    by (simp add: demo_view_record_def minted_view_def demo_arena1_lookup)
qed

section \<open>Witnesses\<close>

lemma filter_relations_spec_witness:
  "filter_relations demo_external (rs_records two_relations) default_view = Inr (rs_records two_relations)"
  by (subst filter_relations_spec) (simp_all add: two_relations_def)

lemma reachable_arena_wf_witness: "arena_wf demo_external demo_arena2"
  by (rule reachable_arena_wf [OF demo_reachable(3)])

lemma demo_release: "\<exists>b. release_handle 1 demo_arena2 = (True, b)"
  using demo_arena2_lookup(1) by (auto simp: release_handle_def handle_record_def Let_def split: option.split)

lemma released_forever_witness:
  "\<exists>b. release_handle 1 demo_arena2 = (True, b) \<and>
     data_identity b 1 = Inl (UnknownHandle ''data'' 1) \<and> release_handle 1 b = (False, b)"
  using demo_release released_forever [OF demo_reachable(3) _ rtranclp.rtrancl_refl] by blast

lemma make_view_spec_witness:
  "view_identity demo_arena2 2 = Inr two_relations \<and>
   data_identity demo_arena2 1 = data_identity demo_arena1 1"
proof -
  have parent: "handle_record demo_arena1 1 = Some demo_data"
      "data_identity demo_arena1 1 = Inr two_relations"
    by (simp_all add: handle_record_def data_identity_def demo_arena1_lookup)
  note spec = conjunct2 [OF make_view_spec [OF demo_reachable(2), of 1 default_view], rule_format,
      OF demo_make_view parent default_view_selects(4)]
  have "filter (\<lambda>x. label_matches [] x \<and> view_matches demo_external default_view x)
      (rs_records two_relations) = rs_records two_relations"
    by (simp add: two_relations_def label_matches_def)
  then show ?thesis using spec demo_arena2_lookup(7) by simp
qed

lemma view_within_parent_witness:
  "\<exists>v ps. view_record demo_arena2 2 = Some v \<and>
     data_identity demo_arena2 (hr_handle (vh_parent_handle v)) = Inr ps \<and>
     mset (rs_records two_relations) \<subseteq># mset (rs_records ps)"
  using view_within_parent [OF demo_reachable(3) demo_arena2_lookup(4)] by blast

lemma release_data_handle_exact_witness:
  "\<exists>b. release_handle 1 demo_arena2 = (True, b) \<and> handle_record b 1 = None \<and> view_record b 2 = None"
proof -
  obtain b where b: "release_handle 1 demo_arena2 = (True, b)" using demo_release by blast
  from release_data_handle_exact [OF demo_reachable(3) demo_arena2_lookup(1) b] show ?thesis
    using b demo_arena2_lookup(2,5) by auto
qed

lemma materialize_spec_witness:
  "is_ok (materialize demo_external demo_envelope demo_request demo_arena0) \<and>
   data_identity demo_arena1 1 = Inr two_relations"
proof -
  have "scope demo_request two_relations = two_relations" by (simp add: scope_def demo_request_def)
  then show ?thesis
    using materialize_spec [OF demo_reachable(1), of demo_envelope demo_request]
      demo_materialize demo_arena2_lookup(6)
    by (simp add: demo_authority)
qed

lemma training_handles_avoid_test_cohort_witness:
  "({Ident ''v''} \<union> set_option (cr_origin_sample_id (relation_new (Ident ''x'') (Ident ''v'')))) \<inter>
   ({Ident ''t''} \<union> set_option (cr_origin_sample_id (relation_new (Ident ''b'') (Ident ''t'')))) =
   ({} :: sample_id set)"
proof -
  have "ha_next_handle demo_arena0 \<noteq> - 1" by (simp add: demo_arena0_def)
  moreover have "arena_step demo_external demo_arena1 demo_arena2"
    using step_view [OF _ demo_make_view] by (simp add: demo_arena1_lookup)
  moreover have "en_predict_cohort demo_envelope = Some demo_cohort" "mr_predict_cohort demo_request = None"
    by (simp_all add: demo_envelope_def demo_request_def)
  moreover have "exposes demo_arena2 (dh_handle demo_data) two_relations"
    using demo_arena2_lookup by (auto simp: exposes_def)
  moreover have "relation_new (Ident ''b'') (Ident ''t'') \<in> set (rs_records two_relations)"
      "relation_new (Ident ''x'') (Ident ''v'') \<in> set (rs_records (pc_relations demo_cohort))"
    by (simp_all add: two_relations_def demo_cohort_valid test_relations_def)
  ultimately have "({cr_sample_id (relation_new (Ident ''x'') (Ident ''v''))} \<union>
        set_option (cr_origin_sample_id (relation_new (Ident ''x'') (Ident ''v'')))) \<inter>
      ({cr_sample_id (relation_new (Ident ''b'') (Ident ''t''))} \<union>
        set_option (cr_origin_sample_id (relation_new (Ident ''b'') (Ident ''t'')))) = {}"
    using training_handles_avoid_test_cohort [OF demo_reachable(1) _ demo_materialize]
      demo_training_phase demo_cohort_valid(3) by blast
  then show ?thesis by (simp add: relation_new_def)
qed

section \<open>Tables on the view\<close>

definition demo_targets :: "(string \<times> json) list \<Rightarrow> target_table" where
  "demo_targets entries =
     \<lparr>tt_target_id = Ident ''yield'',
      tt_values = map (\<lambda>(s, v). \<lparr>tv_sample_id = Ident s, tv_value = v\<rparr>) entries\<rparr>"

definition demo_features :: feature_table where
  "demo_features =
     \<lparr>ft_feature_set_id = ''x'', ft_representation_id = Ident ''spectra'',
      ft_feature_names = [''run'', ''req''],
      ft_rows = [\<lparr>fr_observation_id = Ident ''b'', fr_values = [JNumber ''3'', JNumber ''4'']\<rparr>,
        \<lparr>fr_observation_id = Ident ''a'', fr_values = [JNumber ''1'', JNumber ''2'']\<rparr>]\<rparr>"

lemma demo_target_block:
  "target_values demo_arena2 2 (demo_targets [(''t'', JNumber ''2''), (''s'', JNumber ''1'')]) =
    Inr \<lparr>tb_target_id = Ident ''yield'', tb_sample_ids = [Ident ''s'', Ident ''t''],
         tb_values = [JNumber ''1'', JNumber ''2'']\<rparr>"
  by (simp add: target_values_def demo_arena2_lookup validate_values_def target_table_validate_def
      target_shape_res_def target_shape_def each_unique_def values_by_sample_def demo_targets_def
      target_step_def two_relations_def relation_new_def bt_collect_def)

lemma multi_target_agrees_witness:
  "multi_target_values demo_arena2 2 [demo_targets [(''t'', JNumber ''2''), (''s'', JNumber ''1'')]] =
    Inr \<lparr>mb_target_ids = [Ident ''yield''], mb_sample_ids = [Ident ''s'', Ident ''t''],
         mb_values = [[JNumber ''1'', JNumber ''2'']], mb_validity_masks = [[True, True]]\<rparr>"
  using multi_target_agrees [OF demo_target_block] by simp

lemma demo_multi_block:
  "multi_target_values demo_arena2 2 [demo_targets [(''s'', JNumber ''1'')]] =
    Inr \<lparr>mb_target_ids = [Ident ''yield''], mb_sample_ids = [Ident ''s'', Ident ''t''],
         mb_values = [[JNumber ''1'', JNull]], mb_validity_masks = [[True, False]]\<rparr>"
  by (simp add: multi_target_values_def demo_arena2_lookup target_table_validate_def each_unique_def
      values_by_sample_def demo_targets_def masked_value_def two_relations_def relation_new_def
      bt_collect_def json_is_null_def)

lemma multi_target_masks_witness:
  "\<not> (\<exists>e\<in>set (tt_values (demo_targets [(''s'', JNumber ''1'')])).
      tv_sample_id e = Ident ''t'' \<and> tv_value e \<noteq> JNull)"
  using multi_target_masks [OF demo_multi_block, of 0 1] by simp

lemma demo_feature_block:
  "feature_values demo_arena2 2 demo_features =
    Inr \<lparr>fb_feature_set_id = ''x'', fb_representation_id = Ident ''spectra'',
         fb_feature_names = [''run'', ''req''], fb_observation_ids = [Ident ''a'', Ident ''b''],
         fb_sample_ids = [Ident ''s'', Ident ''t''],
         fb_values = [[JNumber ''1'', JNumber ''2''], [JNumber ''3'', JNumber ''4'']]\<rparr>"
proof -
  have lookup: "map_of (ha_view_records demo_arena2) 2 = Some demo_view_record"
      "map_of (ha_records demo_arena2) 1 = Some demo_data"
      "hr_handle (vh_parent_handle demo_view_record) = 1"
    using demo_arena2_lookup by (simp_all add: view_record_def handle_record_def)
  have "dh_output_representation demo_data = Ident ''spectra''"
    by (simp add: demo_data_def minted_record_def demo_request_def)
  then show ?thesis
    by (simp add: feature_values_def lookup demo_arena2_lookup demo_features_def
        feature_table_validate_def validate_non_empty_def selected_feature_indices_def
        default_view_def two_relations_def relation_new_def bt_collect_def upt_rec)
qed

lemma feature_values_cells_witness:
  "\<exists>row\<in>set (ft_rows demo_features). fr_observation_id row = Ident ''b'' \<and>
     (\<exists>k<length (fr_values row). ft_feature_names demo_features ! k = ''req'' \<and>
        JNumber ''4'' = fr_values row ! k)"
proof -
  have "1 < length (rs_records two_relations)"
      "cr_observation_id (rs_records two_relations ! 1) = Ident ''b''"
    by (simp_all add: two_relations_def relation_new_def)
  then show ?thesis
    using feature_values_cells [OF demo_feature_block demo_arena2_lookup(4,2), of 1 1] by simp
qed

end
