(* ===== verification/Planned_Envelope.thy ===== *)
theory Planned_Envelope
  imports Envelope_Assembly Planner_Soundness Sample_Campaign
begin

text \<open>
  From planning to coordination: a plan that the planner made for a schema is accepted by the assembly
  of the envelope, so the checks of \<open>from_parts\<close> on the plan never refuse what \<open>planner.rs\<close> produces.
  The last section instantiates the properties of the assembly.
\<close>

section \<open>Where planned steps read\<close>

definition step_sources :: "data_plan_step list \<Rightarrow> source_id set" where
  "step_sources steps = (\<Union>step\<in>set steps. set_option (ps_source_id step))"

lemma step_sources_simps [simp]:
  "step_sources [] = {}"
  "step_sources (xs @ ys) = step_sources xs \<union> step_sources ys"
  "step_sources [step] = set_option (ps_source_id step)"
  by (simp_all add: step_sources_def)

lemma push_adapters_sources:
  "fold (push_adapter i) adapters st = (pg', out, rep) \<Longrightarrow>
   step_sources (pg_steps pg') \<subseteq> insert i (step_sources (pg_steps (fst st)))"
proof (induction adapters arbitrary: st)
  case (Cons a adapters)
  obtain pg cur crep where st: "st = (pg, cur, crep)" by (cases st)
  have "step_sources (pg_steps (fst (push_adapter i a st))) \<subseteq> insert i (step_sources (pg_steps (fst st)))"
    by (simp add: st push_adapter_def Let_def adapt_step_def)
  with Cons.IH [of "push_adapter i a st"] Cons.prems show ?case by auto
qed auto

lemma push_source_sources:
  assumes "push_source rv (pg, inputs) = (pg', inputs')"
  shows "step_sources (pg_steps pg') \<subseteq> insert (sd_id (rv_source rv)) (step_sources (pg_steps pg))"
proof -
  let ?pg = "pg\<lparr>pg_issues := pg_issues pg @ rv_issues rv, pg_steps := pg_steps pg @ [materialize_step (rv_source rv)]\<rparr>"
  obtain out rep where "fold (push_adapter (sd_id (rv_source rv))) (pt_adapters (rv_path rv))
      (?pg, source_output_id (sd_id (rv_source rv)), rp_id (sd_native_representation (rv_source rv))) = (pg', out, rep)"
    using assms by (auto simp: push_source_def Let_def split: prod.splits)
  from push_adapters_sources [OF this] show ?thesis by (simp add: materialize_step_def)
qed

lemma push_sources_sources:
  "fold push_source rvs (pg, inputs) = (pg', inputs') \<Longrightarrow>
   step_sources (pg_steps pg') \<subseteq> step_sources (pg_steps pg) \<union> (sd_id \<circ> rv_source) ` set rvs"
proof (induction rvs arbitrary: pg inputs)
  case (Cons rv rvs)
  obtain pg1 inputs1 where step: "push_source rv (pg, inputs) = (pg1, inputs1)" by fastforce
  with Cons.prems have "fold push_source rvs (pg1, inputs1) = (pg', inputs')" by simp
  from Cons.IH [OF this] push_source_sources [OF step] show ?case by auto
qed simp

lemma plan_port_sources:
  assumes "plan_port reg pol fusion candidates pg port = Inr pg'" and "adapters_ok reg"
  shows "step_sources (pg_steps pg') \<subseteq> step_sources (pg_steps pg) \<union> sd_id ` set candidates"
proof -
  obtain rvs where rvs: "resolve_port reg pol candidates port = Inr rvs"
    using assms(1) by (auto simp: plan_port_def rbind_eq_Inr)
  obtain pg1 inputs where loop: "fold push_source rvs (pg, []) = (pg1, inputs)" by fastforce
  show ?thesis
  proof (cases "rvs = []")
    case True
    then have "pg' = pg" using assms(1) rvs by (auto simp: plan_port_def split: if_splits)
    then show ?thesis by simp
  next
    case False
    have "length rvs \<le> 1 \<or> ip_multi_source port"
      using assms(1) rvs False by (auto simp: plan_port_def not_le split: if_splits)
    from resolve_port_ok [OF assms(2) rvs order_refl False this]
    have "(sd_id \<circ> rv_source) ` set rvs \<subseteq> sd_id ` set candidates" by (auto simp: resolution_ok_def)
    moreover have "step_sources (pg_steps pg') = step_sources (pg_steps pg1)"
      using assms(1) rvs False loop
      by (auto simp: plan_port_def Let_def rbind_eq_Inr align_step_def join_step_def simp del: append.simps
          split: if_splits)
    ultimately show ?thesis using push_sources_sources [OF loop] by blast
  qed
qed

lemma plan_ports_sources:
  "fold_res (plan_port reg pol fusion candidates) pg ports = Inr pg' \<Longrightarrow> adapters_ok reg \<Longrightarrow>
   step_sources (pg_steps pg') \<subseteq> step_sources (pg_steps pg) \<union> sd_id ` set candidates"
proof (induction ports arbitrary: pg)
  case (Cons port ports)
  from Cons.prems(1) obtain pg1 where step: "plan_port reg pol fusion candidates pg port = Inr pg1"
    and rest: "fold_res (plan_port reg pol fusion candidates) pg1 ports = Inr pg'"
    by (auto simp: rbind_eq_Inr)
  from Cons.IH [OF rest Cons.prems(2)] plan_port_sources [OF step Cons.prems(2)] show ?case by auto
qed simp

lemma planned_plan_declared:
  assumes "adapters_ok reg" and "plan_model_input nf schema mi reg req = Inr plan"
  shows "plan_declared schema plan \<and> schema_ok nf schema"
proof -
  have built: "build_plan nf schema mi reg req = Inr plan" and valid: "data_plan_validate plan = Inr ()"
    using assms(2) by (auto simp: plan_model_input_def rbind_eq_Inr)
  obtain candidates pg where parts: "dataset_schema_validate nf schema = Inr ()"
      "candidate_sources schema req = Inr candidates"
      "fold_res (plan_port reg (dr_planning_policy req) (mi_default_fusion mi) candidates)
        planning_init (mi_ports mi) = Inr pg" "dp_steps plan = pg_steps pg"
    using built by (auto simp: build_plan_def rbind_eq_Inr)
  have "step_sources (dp_steps plan) \<subseteq> sd_id ` set candidates"
    using plan_ports_sources [OF parts(3) assms(1)] by (simp add: parts(4) planning_init_def)
  then have "step_sources (dp_steps plan) \<subseteq> source_ids_of schema"
    using candidate_sources_subset [OF parts(2)] by (auto simp: source_ids_of_def)
  then show ?thesis
    using valid parts(1)
    by (auto simp: plan_declared_def data_plan_validate_ok dataset_schema_validate_ok step_sources_def)
qed

section \<open>Planned envelopes\<close>

lemma assembled_exists:
  assumes "schema_ok (cd_number_f64 cd) d" and "data_plan_ok p"
    and "\<forall>t. relations = Some t \<longrightarrow> table_ok t"
  shows "(\<exists>e. assembled cd d p relations e) \<longleftrightarrow>
    is_ok (cd_encode_schema cd (canonical_schema d)) \<and> is_ok (ex_encode_plan (cd_external cd) p) \<and>
    (\<forall>t. relations = Some t \<longrightarrow> is_ok (table_fingerprint cd t))"
proof
  assume "\<exists>e. assembled cd d p relations e"
  then show "is_ok (cd_encode_schema cd (canonical_schema d)) \<and> is_ok (ex_encode_plan (cd_external cd) p) \<and>
      (\<forall>t. relations = Some t \<longrightarrow> is_ok (table_fingerprint cd t))"
    by (auto simp: assembled_def schema_fingerprint_def data_plan_fingerprint_def typed_fingerprint_def
        rbind_eq_Inr is_ok_iff)
next
  assume ok: "is_ok (cd_encode_schema cd (canonical_schema d)) \<and> is_ok (ex_encode_plan (cd_external cd) p) \<and>
      (\<forall>t. relations = Some t \<longrightarrow> is_ok (table_fingerprint cd t))"
  then obtain sf pf where fps: "schema_fingerprint cd d = Inr sf" "data_plan_fingerprint (cd_external cd) p = Inr pf"
    using assms(1,2)
    by (auto simp: schema_fingerprint_def data_plan_fingerprint_def typed_fingerprint_def is_ok_iff
        dataset_schema_validate_ok [THEN iffD2] data_plan_validate_ok [THEN iffD2])
  from ok obtain rf where rf: "case relations of None \<Rightarrow> rf = None
      | Some t \<Rightarrow> \<exists>fp. table_fingerprint cd t = Inr fp \<and> rf = Some fp"
    by (cases relations) (auto simp: is_ok_iff)
  let ?e = "\<lparr>en_schema_version = 1, en_schema_fingerprint = sf, en_plan_fingerprint = pf,
      en_relation_fingerprint = rf, en_data_content_fingerprint = None, en_target_content_fingerprint = None,
      en_plan = p, en_coordinator_relations = map_option converted_table relations, en_predict_cohort = None,
      en_metadata = []\<rparr>"
  have "assembled cd d p relations ?e" using fps rf by (simp add: assembled_def split: option.splits)
  then show "\<exists>e. assembled cd d p relations e" by blast
qed

text \<open>
  A planned envelope always assembles. For a plan that the planner returned for a schema, over a
  registry built by registration, assembling the envelope with that schema fails only if the relation
  table is not well-formed and declared or a part cannot be serialized: every source the plan reads is
  declared, and neither the plan check nor the final validation refuses.
\<close>

lemma planned_envelope_assembles:
  assumes "registry_from_spec adapters = Inr reg"
    and "plan_model_input (cd_number_f64 cd) schema mi reg req = Inr plan"
    and "\<And>bytes. length (ex_sha256 (cd_external cd) bytes) = 32"
    and "\<forall>t. relations = Some t \<longrightarrow> repetitions_valid t"
  shows "is_ok (envelope_from_parts cd schema plan relations) \<longleftrightarrow>
    is_ok (cd_encode_schema cd (canonical_schema schema)) \<and> is_ok (ex_encode_plan (cd_external cd) plan) \<and>
    (\<forall>t. relations = Some t \<longrightarrow> table_declared schema t \<and> is_ok (table_fingerprint cd t))"
proof -
  have parts: "plan_declared schema plan" "schema_ok (cd_number_f64 cd) schema"
    using planned_plan_declared [OF registry_from_spec_adapters_ok [OF assms(1)] assms(2)] by simp_all
  have "is_ok (envelope_from_parts cd schema plan relations) \<longleftrightarrow>
      (\<forall>t. relations = Some t \<longrightarrow> table_declared schema t) \<and> (\<exists>e. assembled cd schema plan relations e)"
    using parts by (auto simp: is_ok_iff from_parts_lemma [OF assms(3,4)])
  also have "\<dots> \<longleftrightarrow> is_ok (cd_encode_schema cd (canonical_schema schema)) \<and>
      is_ok (ex_encode_plan (cd_external cd) plan) \<and>
      (\<forall>t. relations = Some t \<longrightarrow> table_declared schema t \<and> is_ok (table_fingerprint cd t))"
    using assembled_exists [OF parts(2), of plan relations] parts(1)
    by (auto simp: plan_declared_def table_declared_def)
  finally show ?thesis .
qed

section \<open>A small envelope\<close>

text \<open>One measured row of the declared sample and one augmented from it.\<close>

definition declared_table :: sample_relation_table where
  "declared_table = \<lparr>rt_rows = [plain_row ''a'' ''s'', augmented_row ''b'' ''t'' ''a'']\<rparr>"

definition demo_codecs :: codecs where
  "demo_codecs =
     \<lparr>cd_external = demo_external, cd_encode_schema = (\<lambda>d. Inr [of_nat (length (ds_sources d))]),
      cd_encode_table = sample_encoder, cd_number_f64 = (\<lambda>_. None)\<rparr>"

lemma demo_codecs_simps [simp]:
  "cd_external demo_codecs = demo_external" "cd_number_f64 demo_codecs = (\<lambda>_. None)"
  "cd_encode_table demo_codecs = sample_encoder" "is_ok (cd_encode_schema demo_codecs d)"
  "is_ok (ex_encode_plan demo_external p)"
  by (simp_all add: demo_codecs_def is_ok_iff)

lemma declared_table_ok: "table_declared demo_schema declared_table" "repetitions_valid declared_table"
proof -
  have "table_ok declared_table"
    by (simp add: table_ok_def row_ok_def groups_agree_def same_group_def origins_present_def declared_table_def
        small_campaign_defs)
  moreover have "\<forall>row\<in>set (rt_rows declared_table). row_declared demo_schema (rt_rows declared_table) row"
    by (simp add: row_declared_def declared_table_def demo_schema_def small_campaign_defs conj_disj_distribR
        ex_disj_distrib)
  ultimately show "table_declared demo_schema declared_table" by (simp add: table_declared_def)
  show "repetitions_valid declared_table"
    by (simp add: repetitions_valid_def declared_table_def small_campaign_defs)
qed

lemma declared_table_fingerprint: "is_ok (table_fingerprint demo_codecs declared_table)"
  using declared_table_ok(1)
  by (auto simp: table_fingerprint_def sample_relation_fingerprint_def table_declared_def typed_fingerprint_def
      sample_encoder_def is_ok_iff rbind_eq_Inr table_validate_ok [THEN iffD2])

lemma demo_planned:
  "\<exists>plan. plan_model_input (\<lambda>_. None) demo_schema demo_input demo_registry Planner_Soundness.demo_request = Inr plan"
  using demo_built build_plan_valid [OF registry_from_spec_adapters_ok [OF demo_registered]]
  by (fastforce simp: plan_model_input_def)

lemma planned_envelope_assembles_witness:
  "\<exists>plan. plan_model_input (\<lambda>_. None) demo_schema demo_input demo_registry Planner_Soundness.demo_request = Inr plan \<and>
     is_ok (envelope_from_parts demo_codecs demo_schema plan (Some declared_table))"
proof -
  obtain plan where "plan_model_input (\<lambda>_. None) demo_schema demo_input demo_registry
      Planner_Soundness.demo_request = Inr plan"
    using demo_planned by blast
  with planned_envelope_assembles [OF demo_registered, of demo_codecs demo_schema demo_input
      Planner_Soundness.demo_request plan "Some declared_table"] show ?thesis
    using declared_table_ok declared_table_fingerprint by auto
qed

lemma demo_declared: "schema_ok nf demo_schema" "plan_declared demo_schema (demo_plan 0)"
  by (simp_all add: demo_problem_ok plan_declared_def demo_plan_ok)
    (simp add: demo_plan_def demo_step_def demo_schema_def demo_source_def source_ids_of_def)

lemma demo_assembles: "\<exists>e. assembled demo_codecs demo_schema (demo_plan 0) (Some declared_table) e"
  using assembled_exists [of demo_codecs demo_schema "demo_plan 0" "Some declared_table"]
    declared_table_ok(1) declared_table_fingerprint
  by (simp add: demo_declared demo_plan_ok table_declared_def)

lemma from_parts_spec_witness:
  "\<exists>e. envelope_from_parts demo_codecs demo_schema (demo_plan 0) (Some declared_table) = Inr e \<and>
     envelope_validate demo_external e = Inr ()"
proof -
  obtain e where "assembled demo_codecs demo_schema (demo_plan 0) (Some declared_table) e"
    using demo_assembles by blast
  with from_parts_spec [of demo_codecs "Some declared_table" demo_schema "demo_plan 0" e] show ?thesis
    using declared_table_ok demo_declared by auto
qed

lemma demo_from_parts: "\<exists>e. envelope_from_parts demo_codecs demo_schema (demo_plan 0) (Some declared_table) = Inr e"
  using demo_assembles from_parts_lemma [of demo_codecs "Some declared_table" demo_schema "demo_plan 0"]
    declared_table_ok demo_declared
  by auto

lemma assembly_order_independent_witness:
  "\<exists>e. envelope_from_parts demo_codecs demo_schema (demo_plan 0) (Some declared_table) = Inr e \<and>
     envelope_from_parts demo_codecs demo_schema (demo_plan 0)
       (Some \<lparr>rt_rows = rev (rt_rows declared_table)\<rparr>) = Inr e"
  using demo_from_parts assembly_order_independent [of demo_codecs demo_schema "demo_plan 0"
      "Some declared_table" _ demo_schema "Some \<lparr>rt_rows = rev (rt_rows declared_table)\<rparr>"]
  by (auto simp: same_schema_def same_rows_def)

lemma assembled_relations_declared_witness:
  "\<exists>e rs. envelope_from_parts demo_codecs demo_schema (demo_plan 0) (Some declared_table) = Inr e \<and>
     en_coordinator_relations e = Some rs \<and>
     (\<forall>r\<in>set (rs_records rs). cr_is_augmented r \<longrightarrow> cr_origin_sample_id r = Some (Ident ''s''))"
proof -
  obtain e where e: "envelope_from_parts demo_codecs demo_schema (demo_plan 0) (Some declared_table) = Inr e"
    using demo_from_parts by blast
  then obtain rs where rs: "en_coordinator_relations e = Some rs"
    using from_parts_lemma [of demo_codecs "Some declared_table" demo_schema "demo_plan 0" e] declared_table_ok
    by (auto simp: assembled_def)
  have "cr_is_augmented r \<longrightarrow> cr_origin_sample_id r = Some (Ident ''s'')" if "r \<in> set (rs_records rs)" for r
    using assembled_relations_declared [OF e rs that] by (auto simp: demo_schema_def)
  with e rs show ?thesis by blast
qed

end
