(* ===== verification/Search_Bound.thy ===== *)
theory Search_Bound
  imports Adapters
begin

text \<open>
  How long the adapter path search runs: a bound on the iterations of its outer loop that depends on
  the number of registered adapters only, from the weight that each iteration takes off the heap.
\<close>

text \<open>One iteration, as a relation between the search before and after it.\<close>

inductive iterates ::
  "adapter_registry \<Rightarrow> planning_policy \<Rightarrow> representation_node \<Rightarrow> nat \<Rightarrow> search \<Rightarrow> search \<Rightarrow> bool"
  for reg pol goal
where
  no_iteration: "iterates reg pol goal 0 se se"
| one_more: "search_step reg pol goal se = Some se' \<Longrightarrow> iterates reg pol goal n se' out \<Longrightarrow>
    iterates reg pol goal (Suc n) se out"

lemma iterates_weight:
  "iterates reg pol goal n se out \<Longrightarrow> n + heap_weight reg (se_heap out) \<le> heap_weight reg (se_heap se)"
  by (induction rule: iterates.induct) (auto dest!: search_step_weight)

lemma loop_iterates:
  "\<exists>n. iterates reg pol goal n se (search_loop reg pol goal se) \<and>
     search_step reg pol goal (search_loop reg pol goal se) = None"
proof (induction reg pol goal se rule: search_loop.induct)
  case (1 reg pol goal se)
  show ?case
  proof (cases "search_step reg pol goal se")
    case None
    then have "search_loop reg pol goal se = se" by (simp add: search_loop.simps)
    with None show ?thesis using no_iteration by fastforce
  next
    case (Some se')
    then have "search_loop reg pol goal se = search_loop reg pol goal se'"
      by (subst search_loop.simps) simp
    with 1 [OF Some] Some show ?thesis using one_more by fastforce
  qed
qed

lemma tree_bound_sum: "tree_bound E k = (\<Sum>i\<le>k. E ^ i)"
proof (induction k)
  case (Suc k)
  have "(\<Sum>i\<le>Suc k. E ^ i) = E ^ 0 + (\<Sum>i\<le>k. E ^ Suc i)" by (rule sum.atMost_Suc_shift)
  also have "\<dots> = 1 + E * (\<Sum>i\<le>k. E ^ i)" by (simp add: sum_distrib_left)
  finally show ?case using Suc.IH by simp
qed simp

lemma initial_weight: "heap_weight reg (se_heap (search_init start)) \<le> (\<Sum>i\<le>length reg. length reg ^ i)"
proof -
  let ?s = "\<lparr>st_score = 0, st_raw_cost = 0, st_hops = 0, st_node = start, st_adapter_ids = []\<rparr>"
  have "ids_left reg ?s \<le> length reg"
    unfolding ids_left_def using card_length [of "map ad_id (bt_values reg)"] by (simp add: image_image)
  then have "(\<Sum>i\<le>ids_left reg ?s. length reg ^ i) \<le> (\<Sum>i\<le>length reg. length reg ^ i)"
    by (intro sum_mono2) auto
  then show ?thesis
    unfolding search_init_def by (simp add: heap_weight_push tree_bound_sum) (simp add: heap_weight_def)
qed

text \<open>
  C19. The path search always ends. From any start, under any policy, whatever the costs and however many
  cycles the adapters form, the outer loop stops after at most \<open>1 + E + E^2 + ... + E^E\<close> iterations for
  \<open>E\<close> registered adapters, in the state that the model calls the result of the loop. So the hop budget
  is not needed for termination, and the zero-cost cycles that an adapter graph may have do no harm.
\<close>

theorem search_ends_within_bound:
  "\<exists>n \<le> (\<Sum>i\<le>length reg. length reg ^ i).
     iterates reg pol goal n (search_init start) (search_loop reg pol goal (search_init start)) \<and>
     search_step reg pol goal (search_loop reg pol goal (search_init start)) = None"
proof -
  obtain n where n: "iterates reg pol goal n (search_init start) (search_loop reg pol goal (search_init start))"
      "search_step reg pol goal (search_loop reg pol goal (search_init start)) = None"
    using loop_iterates by blast
  have "n \<le> (\<Sum>i\<le>length reg. length reg ^ i)"
    using iterates_weight [OF n(1)] initial_weight [of reg start] by linarith
  with n show ?thesis by blast
qed

end
