(* ===== verification/Provider.thy ===== *)
theory Provider
  imports Nd_Gather Coordinator_Tables Source_Layouts Collation
begin

text \<open>
  The in-memory provider (\<open>dag-ml-data-provider/src/lib.rs\<close>): one envelope with target tables, and the
  three arenas of handles, feature buffers and tensors behind one mutex. Each method locks the mutex
  once and so is one step on the locked arenas; a poisoned mutex (a thread panicked while it held the
  lock) is \<open>None\<close>. Fusion locks once per source and so reads the provider at several moments. The
  JSON number of a float is the parameter \<open>json_f64\<close>.
\<close>

section \<open>State\<close>

record provider_arenas =
  pa_handles :: handle_arena
  pa_features :: buffer_arena
  pa_nd_tensors :: nd_arena

record provider =
  pv_arenas :: "provider_arenas option"
  pv_envelope :: envelope
  pv_target_tables :: "(target_id, target_table) btree_map"

record fusion_source =
  fu_source_id :: source_id
  fu_feature_set_id :: string
  fu_columns :: "string list option"

record fusion_selector =
  fs_feature_set_id :: string
  fs_sources :: "fusion_source list"
  fs_alignment :: sample_alignment_plan
  fs_source_layout :: "source_layout option"
  fs_namespace_columns :: bool

record collation_request =
  co_feature_set_id :: "string option"
  co_fusion :: "fusion_selector option"
  co_policy :: collation_policy

definition default_owner_controller :: string where
  "default_owner_controller = ''controller:data.provider''"

definition lock_arenas :: "provider \<Rightarrow> provider_arenas res" where
  "lock_arenas p = ok_or (pv_arenas p) (Validation ''provider arena mutex is poisoned'')"

definition provider_new_with_tensors ::
  "external \<Rightarrow> envelope \<Rightarrow> (target_id, target_table) btree_map \<Rightarrow> buffer_store \<Rightarrow> nd_store \<Rightarrow> provider res"
where
  "provider_new_with_tensors ex e target_tables feature_store nd_tensor_store =
     rseq (envelope_validate ex e)
    (rseq (each_res validate_values (bt_values target_tables))
       (rbind (arena_new default_owner_controller) (\<lambda>handles.
          Inr \<lparr>pv_arenas = Some \<lparr>pa_handles = handles, pa_features = buffer_arena_new feature_store,
                                pa_nd_tensors = nd_arena_new nd_tensor_store\<rparr>,
               pv_envelope = e, pv_target_tables = target_tables\<rparr>)))"

definition provider_new ::
  "external \<Rightarrow> envelope \<Rightarrow> (target_id, target_table) btree_map \<Rightarrow> buffer_store \<Rightarrow> provider res"
where
  "provider_new ex e target_tables feature_store =
     provider_new_with_tensors ex e target_tables feature_store []"

section \<open>Operations that change the arenas\<close>

definition with_arenas :: "provider \<Rightarrow> provider_arenas \<Rightarrow> provider" where
  "with_arenas p s = p\<lparr>pv_arenas := Some s\<rparr>"

text \<open>
  The two bindings of a fresh handle. The first stays in place when the second fails, and the minted
  handle when either does: the result comes with the state it leaves behind.
\<close>

definition bind_materialized ::
  "(u8 list \<Rightarrow> u8 list) \<Rightarrow> u64 \<Rightarrow> relation_set \<Rightarrow> representation_id \<Rightarrow> provider_arenas \<Rightarrow>
   unit res \<times> provider_arenas"
where
  "bind_materialized sha256 h relations representation s =
     (case bind_data_handle sha256 (pa_features s) h relations representation of
        Inl err \<Rightarrow> (Inl err, s)
      | Inr (features, _) \<Rightarrow>
          (let s1 = s\<lparr>pa_features := features\<rparr> in
           case nd_bind_data_handle sha256 (pa_nd_tensors s1) h relations representation of
             Inl err \<Rightarrow> (Inl err, s1)
           | Inr (tensors, _) \<Rightarrow> (Inr (), s1\<lparr>pa_nd_tensors := tensors\<rparr>)))"

definition provider_materialize ::
  "external \<Rightarrow> materialization_request \<Rightarrow> provider \<Rightarrow> data_handle_record res \<times> provider"
where
  "provider_materialize ex q p =
     (case lock_arenas p of
        Inl err \<Rightarrow> (Inl err, p)
      | Inr s \<Rightarrow>
          (case materialize ex (pv_envelope p) q (pa_handles s) of
             Inl err \<Rightarrow> (Inl err, p)
           | Inr (r, handles) \<Rightarrow>
               (let s1 = s\<lparr>pa_handles := handles\<rparr>; h = hr_handle (dh_handle r) in
                case data_identity handles h of
                  Inl _ \<Rightarrow> (Inr r, with_arenas p s1)
                | Inr relations \<Rightarrow>
                    (let (bound, s2) =
                           bind_materialized (ex_sha256 ex) h relations (dh_output_representation r) s1
                     in (rseq bound (Inr r), with_arenas p s2)))))"

definition provider_make_view ::
  "external \<Rightarrow> u64 \<Rightarrow> data_view \<Rightarrow> provider \<Rightarrow> view_handle_record res \<times> provider"
where
  "provider_make_view ex h v p =
     (case lock_arenas p of
        Inl err \<Rightarrow> (Inl err, p)
      | Inr s \<Rightarrow>
          (case make_view ex h v (pa_handles s) of
             Inl err \<Rightarrow> (Inl err, p)
           | Inr (r, handles) \<Rightarrow> (Inr r, with_arenas p (s\<lparr>pa_handles := handles\<rparr>))))"

definition provider_release :: "u64 \<Rightarrow> provider \<Rightarrow> bool \<times> provider" where
  "provider_release h p =
     (case lock_arenas p of
        Inl _ \<Rightarrow> (False, p)
      | Inr s \<Rightarrow>
          (let (released_handle, handles) = release_handle h (pa_handles s);
               (features, released_buffers) = buffer_release_data_handle (pa_features s) h;
               (tensors, released_tensors) = nd_release_data_handle (pa_nd_tensors s) h
           in (released_handle \<or> released_buffers \<or> released_tensors,
               with_arenas p
                 \<lparr>pa_handles = handles, pa_features = features, pa_nd_tensors = tensors\<rparr>)))"

section \<open>Reading a view\<close>

definition provider_view_identity :: "provider \<Rightarrow> u64 \<Rightarrow> relation_set res" where
  "provider_view_identity p h = rbind (lock_arenas p) (\<lambda>s. view_identity (pa_handles s) h)"

text \<open>The three lookups that every projection starts with, under its lock.\<close>

definition view_context ::
  "provider_arenas \<Rightarrow> u64 \<Rightarrow> (view_handle_record \<times> data_handle_record \<times> relation_set) res"
where
  "view_context s view_handle =
     rbind (ok_or (view_record (pa_handles s) view_handle) (UnknownHandle ''view'' view_handle))
       (\<lambda>vr.
     rbind
       (ok_or (handle_record (pa_handles s) (hr_handle (vh_parent_handle vr)))
          (UnknownHandle ''data'' (hr_handle (vh_parent_handle vr))))
       (\<lambda>parent.
     rbind (view_identity (pa_handles s) view_handle) (\<lambda>relations. Inr (vr, parent, relations))))"

definition feature_block_filtered ::
  "(f64 \<Rightarrow> json) \<Rightarrow> provider \<Rightarrow> u64 \<Rightarrow> string \<Rightarrow> source_id option \<Rightarrow> string list option \<Rightarrow> feature_block res"
where
  "feature_block_filtered json_f64 p view_handle feature_set_id source_id columns =
     rbind (lock_arenas p) (\<lambda>s.
     rbind (view_context s view_handle) (\<lambda>(vr, parent, relations).
       (let selected_columns =
              (if source_id \<noteq> None then columns
               else case columns of Some cs \<Rightarrow> Some cs | None \<Rightarrow> dv_columns (vh_view vr))
        in project_bound_relations json_f64 (pa_features s) (hr_handle (dh_handle parent))
             feature_set_id relations source_id selected_columns)))"

definition provider_feature_block :: "(f64 \<Rightarrow> json) \<Rightarrow> provider \<Rightarrow> u64 \<Rightarrow> string \<Rightarrow> feature_block res" where
  "provider_feature_block json_f64 p view_handle feature_set_id =
     feature_block_filtered json_f64 p view_handle feature_set_id None None"

definition provider_feature_block_f64 :: "provider \<Rightarrow> u64 \<Rightarrow> string \<Rightarrow> feature_block_f64 res" where
  "provider_feature_block_f64 p view_handle feature_set_id =
     rbind (lock_arenas p) (\<lambda>s.
     rbind (view_context s view_handle) (\<lambda>(vr, parent, relations).
       project_bound_relations_f64 (pa_features s) (hr_handle (dh_handle parent))
         feature_set_id relations None (dv_columns (vh_view vr))))"

definition provider_nd_tensor_block ::
  "provider \<Rightarrow> u64 \<Rightarrow> string \<Rightarrow> source_id option \<Rightarrow> nd_block res"
where
  "provider_nd_tensor_block p view_handle tensor_id source_id =
     rbind (lock_arenas p) (\<lambda>s.
     rbind (view_context s view_handle) (\<lambda>(vr, parent, relations).
       nd_project_bound_relations (pa_nd_tensors s) (hr_handle (dh_handle parent))
         tensor_id relations source_id))"

definition provider_target_block :: "provider \<Rightarrow> u64 \<Rightarrow> target_id \<Rightarrow> target_block res" where
  "provider_target_block p view_handle target_id =
     rbind (ok_or (map_of (pv_target_tables p) target_id) (Validation ''unknown target id''))
       (\<lambda>table.
     rbind (lock_arenas p) (\<lambda>s. target_values (pa_handles s) view_handle table))"

section \<open>Fusion and collation\<close>

text \<open>The block of one source; \<open>reads i\<close> is the provider when the lock is taken for source \<open>i\<close>.\<close>

definition fusion_block_of_source ::
  "(f64 \<Rightarrow> json) \<Rightarrow> (nat \<Rightarrow> provider) \<Rightarrow> u64 \<Rightarrow> nat \<times> fusion_source \<Rightarrow> source_feature_block res"
where
  "fusion_block_of_source json_f64 reads view_handle numbered =
     (let (i, source) = numbered in
      rbind
        (feature_block_filtered json_f64 (reads i) view_handle (fu_feature_set_id source)
           (Some (fu_source_id source)) (fu_columns source))
        (\<lambda>block. Inr \<lparr>sb_source_id = fu_source_id source, sb_block = block\<rparr>))"

definition feature_fusion_block ::
  "(f64 \<Rightarrow> json) \<Rightarrow> (nat \<Rightarrow> provider) \<Rightarrow> u64 \<Rightarrow> fusion_selector \<Rightarrow> feature_block res"
where
  "feature_fusion_block json_f64 reads view_handle selector =
     (if fs_sources selector = [] then invalid ''feature fusion selector requires at least one source''
      else
        rbind
          (map_res (fusion_block_of_source json_f64 reads view_handle)
             (List.enumerate 0 (fs_sources selector)))
          (\<lambda>blocks.
        rseq
          (case fs_source_layout selector of
             None \<Rightarrow> Inr ()
           | Some l \<Rightarrow> validate_for_source_blocks l (fs_feature_set_id selector) blocks)
          (fuse_feature_blocks (fs_feature_set_id selector) blocks (fs_alignment selector)
             (fs_namespace_columns selector))))"

definition feature_collation_block ::
  "(f64 \<Rightarrow> json) \<Rightarrow> (nat \<Rightarrow> provider) \<Rightarrow> u64 \<Rightarrow> collation_request \<Rightarrow> feature_block res"
where
  "feature_collation_block json_f64 reads view_handle selector =
     (case (co_feature_set_id selector, co_fusion selector) of
        (Some feature_set_id, None) \<Rightarrow>
          if is_blank feature_set_id
          then invalid ''feature collation selector feature_set_id is empty''
          else provider_feature_block json_f64 (reads 0) view_handle feature_set_id
      | (None, Some fusion) \<Rightarrow> feature_fusion_block json_f64 reads view_handle fusion
      | (Some _, Some _) \<Rightarrow>
          invalid ''feature collation selector must not specify both feature_set_id and fusion''
      | (None, None) \<Rightarrow> invalid ''feature collation selector requires feature_set_id or fusion'')"

section \<open>Manifests and bindings\<close>

definition provider_buffer_manifests :: "(u8 list \<Rightarrow> u8 list) \<Rightarrow> provider \<Rightarrow> buffer_manifest list res" where
  "provider_buffer_manifests sha256 p =
     rbind (lock_arenas p) (\<lambda>s. store_manifests sha256 (ba_store (pa_features s)))"

definition provider_nd_manifests :: "(u8 list \<Rightarrow> u8 list) \<Rightarrow> provider \<Rightarrow> nd_manifest list res" where
  "provider_nd_manifests sha256 p =
     rbind (lock_arenas p) (\<lambda>s. Inr (nd_store_manifests sha256 (nda_store (pa_nd_tensors s))))"

definition data_feature_buffer_bindings :: "provider \<Rightarrow> u64 \<Rightarrow> buffer_binding list res" where
  "data_feature_buffer_bindings p h =
     rbind (lock_arenas p) (\<lambda>s.
       if handle_record (pa_handles s) h = None then Inl (UnknownHandle ''data'' h)
       else bindings_for_data_handle (pa_features s) h)"

definition data_nd_tensor_bindings :: "provider \<Rightarrow> u64 \<Rightarrow> nd_binding list res" where
  "data_nd_tensor_bindings p h =
     rbind (lock_arenas p) (\<lambda>s.
       if handle_record (pa_handles s) h = None then Inl (UnknownHandle ''data'' h)
       else nd_bindings_for_data_handle (pa_nd_tensors s) h)"

end
