(* ===== verification/Provider_Safety.thy ===== *)
theory Provider_Safety
  imports Provider Materialization
begin

text \<open>
  The life of a provider. The interface \<open>handle_bindings\<close> states what the feature buffer arena and the
  tensor arena both promise, and proves once that their bindings follow the handle arena; both arenas
  are interpreted as such tables. The invariant \<open>provider_wf\<close> joins the three arenas, and every step
  of a provider is a step of its handle arena or leaves it alone.
\<close>

section \<open>The interface of a table of bindings\<close>

text \<open>The relations and the representation that a live data handle was materialized with.\<close>

definition granted :: "handle_arena \<Rightarrow> u64 \<Rightarrow> (relation_set \<times> representation_id) option" where
  "granted a h =
     (case map_of (ha_records a) h of
        None \<Rightarrow> None
      | Some r \<Rightarrow> map_option (\<lambda>rs. (rs, dh_output_representation r)) (map_of (ha_data_relations a) h))"

locale handle_bindings =
  fixes lookup :: "'a \<Rightarrow> u64 \<Rightarrow> 'b option"
    and store :: "'a \<Rightarrow> 's"
    and store_wf :: "'s \<Rightarrow> bool"
    and expected :: "'s \<Rightarrow> relation_set \<Rightarrow> representation_id \<Rightarrow> 'b"
    and bind :: "'a \<Rightarrow> u64 \<Rightarrow> relation_set \<Rightarrow> representation_id \<Rightarrow> ('a \<times> 'l) res"
    and release :: "'a \<Rightarrow> u64 \<Rightarrow> 'a \<times> bool"
  assumes bind_law: "store_wf (store a) \<Longrightarrow> relation_set_ok rs \<Longrightarrow>
      \<exists>a' l. bind a h rs rep = Inr (a', l) \<and> store a' = store a \<and>
        lookup a' = (lookup a)(h \<mapsto> expected (store a) rs rep)"
    and release_law: "\<exists>a'. release a h = (a', lookup a h \<noteq> None) \<and> store a' = store a \<and>
        lookup a' = (lookup a)(h := None)"
begin

definition tracks :: "'a \<Rightarrow> handle_arena \<Rightarrow> bool" where
  "tracks a H \<longleftrightarrow> lookup a = (\<lambda>h. map_option (\<lambda>(rs, rep). expected (store a) rs rep) (granted H h))"

lemma bind_tracks:
  assumes "tracks a H" and "store_wf (store a)" and "relation_set_ok rs"
    and "granted H' = (granted H)(h \<mapsto> (rs, rep))"
  shows "\<exists>a' l. bind a h rs rep = Inr (a', l) \<and> store a' = store a \<and> tracks a' H'"
proof -
  obtain a' l where a': "bind a h rs rep = Inr (a', l)" "store a' = store a"
      "lookup a' = (lookup a)(h \<mapsto> expected (store a) rs rep)"
    using bind_law [OF assms(2,3)] by blast
  then have "tracks a' H'" using assms(1,4) by (auto simp: tracks_def)
  with a' show ?thesis by blast
qed

lemma release_tracks:
  assumes "tracks a H" and "granted H' = (granted H)(h := None)"
  shows "\<exists>a'. release a h = (a', granted H h \<noteq> None) \<and> store a' = store a \<and> tracks a' H'"
proof -
  obtain a' where a': "release a h = (a', lookup a h \<noteq> None)" "store a' = store a"
      "lookup a' = (lookup a)(h := None)"
    using release_law by blast
  moreover have "tracks a' H'" using a' assms by (auto simp: tracks_def)
  moreover have "lookup a h \<noteq> None \<longleftrightarrow> granted H h \<noteq> None" using assms(1) by (simp add: tracks_def)
  ultimately show ?thesis by auto
qed

end

text \<open>The bindings that a store yields for the relations and the representation of a handle.\<close>

definition buffer_bindings ::
  "(u8 list \<Rightarrow> u8 list) \<Rightarrow> buffer_store \<Rightarrow> relation_set \<Rightarrow> representation_id \<Rightarrow>
   (string, buffer_binding) btree_map"
where
  "buffer_bindings sha256 s rs rep =
     bt_collect (map (\<lambda>b. (nb_feature_set_id b, describe sha256 b (covered_sources b rs)))
       (filter (bound rs rep) (bt_values s)))"

definition tensor_bindings ::
  "(u8 list \<Rightarrow> u8 list) \<Rightarrow> nd_store \<Rightarrow> relation_set \<Rightarrow> representation_id \<Rightarrow> (string, nd_binding) btree_map"
where
  "tensor_bindings sha256 s rs rep =
     bt_collect (map (\<lambda>t. (nd_tensor_id t, nd_describe sha256 rs t)) (filter (nd_bound rs rep) (bt_values s)))"

interpretation buffers: handle_bindings
  "\<lambda>a. map_of (ba_data_bindings a)" ba_store store_ok "buffer_bindings sha256"
  "bind_data_handle sha256" buffer_release_data_handle for sha256
proof
  fix a :: buffer_arena and rs h rep
  assume "store_ok (ba_store a)" "relation_set_ok rs"
  then show "\<exists>a' l. bind_data_handle sha256 a h rs rep = Inr (a', l) \<and> ba_store a' = ba_store a \<and>
      map_of (ba_data_bindings a') = (map_of (ba_data_bindings a))(h \<mapsto> buffer_bindings sha256 (ba_store a) rs rep)"
    by (simp add: bind_data_handle_ok map_of_bt_insert buffer_bindings_def comp_def)
next
  fix a :: buffer_arena and h
  show "\<exists>a'. buffer_release_data_handle a h = (a', map_of (ba_data_bindings a) h \<noteq> None) \<and>
      ba_store a' = ba_store a \<and> map_of (ba_data_bindings a') = (map_of (ba_data_bindings a))(h := None)"
    by (simp add: buffer_release_data_handle_def map_of_bt_remove)
qed

interpretation tensors: handle_bindings
  "\<lambda>a. map_of (nda_data_bindings a)" nda_store nd_store_ok "tensor_bindings sha256"
  "nd_bind_data_handle sha256" nd_release_data_handle for sha256
proof
  fix a :: nd_arena and rs h rep
  assume "nd_store_ok (nda_store a)" "relation_set_ok rs"
  then have "nd_bindings_for_relations sha256 (nda_store a) rs rep =
      Inr (map (nd_describe sha256 rs) (filter (nd_bound rs rep) (bt_values (nda_store a))))"
    by (simp add: nd_bindings_ok)
  then show "\<exists>a' l. nd_bind_data_handle sha256 a h rs rep = Inr (a', l) \<and> nda_store a' = nda_store a \<and>
      map_of (nda_data_bindings a') = (map_of (nda_data_bindings a))(h \<mapsto> tensor_bindings sha256 (nda_store a) rs rep)"
    by (simp add: nd_bind_data_handle_def map_of_bt_insert tensor_bindings_def comp_def nd_describe_def
        nd_binding_for_sources_def)
next
  fix a :: nd_arena and h
  show "\<exists>a'. nd_release_data_handle a h = (a', map_of (nda_data_bindings a) h \<noteq> None) \<and>
      nda_store a' = nda_store a \<and> map_of (nda_data_bindings a') = (map_of (nda_data_bindings a))(h := None)"
    by (simp add: nd_release_data_handle_def map_of_bt_remove)
qed

section \<open>What the handle arena grants\<close>

lemma granted_identity:
  "granted a h = Some (rs, rep) \<longleftrightarrow>
     data_identity a h = Inr rs \<and> (\<exists>r. handle_record a h = Some r \<and> dh_output_representation r = rep)"
  by (auto simp: granted_def data_identity_def handle_record_def ok_or_eq_Inr split: option.splits)

lemma granted_data_identity:
  "data_identity a h = Inr rs \<Longrightarrow> handle_record a h = Some r \<Longrightarrow>
   granted a h = Some (rs, dh_output_representation r)"
  by (simp add: granted_identity)

lemma granted_valid: "arena_wf ex a \<Longrightarrow> granted a h = Some (rs, rep) \<Longrightarrow> relation_set_ok rs"
  by (auto simp: granted_def arena_wf_def data_entry_ok_def split: option.splits)

lemma materialize_granted:
  assumes "arena_wf ex a" and "materialize ex e q a = Inr (r, a')"
  shows "hr_handle (dh_handle r) = ha_next_handle a"
    and "handle_record a' (hr_handle (dh_handle r)) = Some r"
    and "data_identity a' (hr_handle (dh_handle r)) = Inr rs \<Longrightarrow>
      granted a' = (granted a)(hr_handle (dh_handle r) \<mapsto> (rs, dh_output_representation r)) \<and> relation_set_ok rs"
    and "data_identity a' (hr_handle (dh_handle r)) = Inl err \<Longrightarrow> granted a' = granted a"
proof -
  obtain scoped where scoped: "selected_relations ex e q = Inr scoped"
    and r: "r = minted_record e q a scoped" and a': "a' = with_data a r scoped"
    using assms(2) by (auto simp: materialize_ok)
  show h: "hr_handle (dh_handle r) = ha_next_handle a" by (simp add: r minted_record_def)
  show "handle_record a' (hr_handle (dh_handle r)) = Some r"
    by (simp add: h a' with_data_def handle_record_def map_of_bt_insert)
  have maps: "maps_ok a" using assms(1) by (simp add: arena_wf_def)
  note dead = maps_ok_next_dead [OF maps]
  have id: "data_identity a' (hr_handle (dh_handle r)) = ok_or scoped (Validation ''data handle has no coordinator relations'')"
    using dead by (cases scoped) (simp_all add: h a' with_data_def data_identity_def map_of_bt_insert)
  have grants: "granted a' = (granted a)(ha_next_handle a := map_option (\<lambda>rs. (rs, dh_output_representation r)) scoped)"
    using dead by (cases scoped) (auto simp: granted_def a' with_data_def map_of_bt_insert split: option.splits)
  show "data_identity a' (hr_handle (dh_handle r)) = Inr rs \<Longrightarrow>
      granted a' = (granted a)(hr_handle (dh_handle r) \<mapsto> (rs, dh_output_representation r)) \<and> relation_set_ok rs"
    using grants scoped selected_relations_valid by (simp add: id ok_or_eq_Inr) (simp add: h)
  have "granted a (ha_next_handle a) = None" using dead by (simp add: granted_def)
  then show "data_identity a' (hr_handle (dh_handle r)) = Inl err \<Longrightarrow> granted a' = granted a"
    using grants by (cases scoped) (simp_all add: id fun_upd_idem)
qed

lemma make_view_granted: "make_view ex h v a = Inr (r, a') \<Longrightarrow> granted a' = granted a"
  by (auto simp: make_view_ok with_view_def granted_def fun_eq_iff split: option.split)

lemma release_granted:
  assumes "arena_wf ex a" and "release_handle h a = (b, a')"
  shows "granted a' = (granted a)(h := None)"
proof -
  have "map_of (ha_records a) h = None" if "map_of (ha_view_records a) h = Some v" for v
    using assms(1) that by (auto simp: arena_wf_def maps_ok_def)
  then show ?thesis
    using assms(2) unfolding release_handle_def
    by (auto simp: Let_def granted_def remove_view_def map_of_bt_remove split: option.splits)
qed

lemma release_reports_live:
  assumes "arena_wf ex a"
  shows "fst (release_handle h a) \<longleftrightarrow> h \<in> live_handles a"
  by (auto simp: release_handle_def live_handles_def Let_def split: option.splits)

section \<open>The invariant of a provider\<close>

definition bindings_ok :: "external \<Rightarrow> buffer_store \<Rightarrow> nd_store \<Rightarrow> provider_arenas \<Rightarrow> bool" where
  "bindings_ok ex S T s \<longleftrightarrow>
     ba_store (pa_features s) = S \<and> nda_store (pa_nd_tensors s) = T \<and>
     buffers.tracks (ex_sha256 ex) (pa_features s) (pa_handles s) \<and>
     tensors.tracks (ex_sha256 ex) (pa_nd_tensors s) (pa_handles s)"

definition provider_wf :: "external \<Rightarrow> buffer_store \<Rightarrow> nd_store \<Rightarrow> provider \<Rightarrow> bool" where
  "provider_wf ex S T p \<longleftrightarrow>
     store_ok S \<and> nd_store_ok T \<and>
     (\<forall>s. pv_arenas p = Some s \<longrightarrow> arena_wf ex (pa_handles s) \<and> bindings_ok ex S T s)"

text \<open>
  One step of the clients of a provider: an operation, whatever it answers, or a panic under the lock.
  Handles are not minted past the last one, where a debug build panics.
\<close>

inductive provider_step :: "external \<Rightarrow> provider \<Rightarrow> provider \<Rightarrow> bool" for ex where
  provider_materializes:
    "(\<And>s. pv_arenas p = Some s \<Longrightarrow> ha_next_handle (pa_handles s) \<noteq> - 1) \<Longrightarrow>
     provider_materialize ex q p = (answer, p') \<Longrightarrow> provider_step ex p p'"
| provider_makes_view:
    "(\<And>s. pv_arenas p = Some s \<Longrightarrow> ha_next_handle (pa_handles s) \<noteq> - 1) \<Longrightarrow>
     provider_make_view ex h v p = (view_answer, p') \<Longrightarrow> provider_step ex p p'"
| provider_releases: "provider_release h p = (released, p') \<Longrightarrow> provider_step ex p p'"
| lock_poisoned: "provider_step ex p (p\<lparr>pv_arenas := None\<rparr>)"

inductive_cases provider_stepE: "provider_step ex p p'"

inductive provider_reachable :: "external \<Rightarrow> buffer_store \<Rightarrow> nd_store \<Rightarrow> provider \<Rightarrow> bool" for ex S T where
  provider_fresh: "provider_new_with_tensors ex e tables S T = Inr p \<Longrightarrow> provider_reachable ex S T p"
| provider_next: "provider_reachable ex S T p \<Longrightarrow> provider_step ex p p' \<Longrightarrow> provider_reachable ex S T p'"

lemma with_arenas_simps [simp]:
  "pv_arenas (with_arenas p s) = Some s" "pv_envelope (with_arenas p s) = pv_envelope p"
  "pv_target_tables (with_arenas p s) = pv_target_tables p"
  by (simp_all add: with_arenas_def)

lemma lock_arenas_simps [simp]:
  "pv_arenas p = Some s \<Longrightarrow> lock_arenas p = Inr s"
  "pv_arenas p = None \<Longrightarrow> lock_arenas p = invalid ''provider arena mutex is poisoned''"
  by (simp_all add: lock_arenas_def)

lemma lock_arenas_ok [simp]: "lock_arenas p = Inr s \<longleftrightarrow> pv_arenas p = Some s"
  by (simp add: lock_arenas_def ok_or_eq_Inr)

text \<open>Binding a fresh handle never fails on well-formed stores.\<close>

lemma bind_materialized_ok:
  assumes "bindings_ok ex S T s" and "store_ok S" and "nd_store_ok T" and "relation_set_ok rs"
    and "granted H = (granted (pa_handles s))(h \<mapsto> (rs, rep))"
  shows "\<exists>s'. bind_materialized (ex_sha256 ex) h rs rep (s\<lparr>pa_handles := H\<rparr>) = (Inr (), s') \<and>
    pa_handles s' = H \<and> bindings_ok ex S T s'"
proof -
  obtain F l where F: "bind_data_handle (ex_sha256 ex) (pa_features s) h rs rep = Inr (F, l)"
      "ba_store F = S" "buffers.tracks (ex_sha256 ex) F H"
    using buffers.bind_tracks [OF _ _ assms(4,5)] assms(1,2) unfolding bindings_ok_def by metis
  obtain N m where N: "nd_bind_data_handle (ex_sha256 ex) (pa_nd_tensors s) h rs rep = Inr (N, m)"
      "nda_store N = T" "tensors.tracks (ex_sha256 ex) N H"
    using tensors.bind_tracks [OF _ _ assms(4,5)] assms(1,3) unfolding bindings_ok_def by metis
  show ?thesis by (simp add: bind_materialized_def F N bindings_ok_def)
qed

lemma bindings_ok_granted:
  "bindings_ok ex S T s \<Longrightarrow> granted H = granted (pa_handles s) \<Longrightarrow> bindings_ok ex S T (s\<lparr>pa_handles := H\<rparr>)"
  by (simp add: bindings_ok_def buffers.tracks_def tensors.tracks_def)

lemma provider_materialize_eq:
  assumes "provider_wf ex S T p" and "pv_arenas p = Some s"
  shows "case materialize ex (pv_envelope p) q (pa_handles s) of
      Inl err \<Rightarrow> provider_materialize ex q p = (Inl err, p)
    | Inr (r, H) \<Rightarrow> (\<exists>s'. provider_materialize ex q p = (Inr r, with_arenas p s') \<and> pa_handles s' = H \<and>
        bindings_ok ex S T s')"
proof (cases "materialize ex (pv_envelope p) q (pa_handles s)")
  case (Inl err)
  then show ?thesis using assms(2) by (simp add: provider_materialize_def)
next
  case (Inr minted)
  then obtain r H where m: "materialize ex (pv_envelope p) q (pa_handles s) = Inr (r, H)" by (cases minted) simp
  have wf: "arena_wf ex (pa_handles s)" "bindings_ok ex S T s" "store_ok S" "nd_store_ok T"
    using assms by (simp_all add: provider_wf_def)
  show ?thesis
  proof (cases "data_identity H (hr_handle (dh_handle r))")
    case (Inl err)
    then show ?thesis
      using m assms(2) bindings_ok_granted [OF wf(2)] materialize_granted(4) [OF wf(1) m]
      by (simp add: provider_materialize_def exI [of _ "s\<lparr>pa_handles := H\<rparr>"])
  next
    case (Inr rs)
    with materialize_granted(3) [OF wf(1) m]
    show ?thesis
      using bind_materialized_ok [OF wf(2-4), of rs H "hr_handle (dh_handle r)" "dh_output_representation r"]
        m assms(2)
      by (auto simp: provider_materialize_def)
  qed
qed

lemma provider_release_eq:
  assumes "provider_wf ex S T p" and "pv_arenas p = Some s"
  shows "\<exists>s'. provider_release h p = (h \<in> live_handles (pa_handles s), with_arenas p s') \<and>
    pa_handles s' = snd (release_handle h (pa_handles s)) \<and> bindings_ok ex S T s'"
proof -
  obtain b H where H: "release_handle h (pa_handles s) = (b, H)" by fastforce
  have wf: "arena_wf ex (pa_handles s)" "bindings_ok ex S T s" using assms by (simp_all add: provider_wf_def)
  have grants: "granted H = (granted (pa_handles s))(h := None)" by (rule release_granted [OF wf(1) H])
  let ?g = "granted (pa_handles s) h \<noteq> None"
  obtain F where F: "buffer_release_data_handle (pa_features s) h = (F, ?g)"
      "ba_store F = S" "buffers.tracks (ex_sha256 ex) F H"
    using buffers.release_tracks [OF _ grants] wf(2) unfolding bindings_ok_def by metis
  obtain N where N: "nd_release_data_handle (pa_nd_tensors s) h = (N, ?g)"
      "nda_store N = T" "tensors.tracks (ex_sha256 ex) N H"
    using tensors.release_tracks [OF _ grants] wf(2) unfolding bindings_ok_def by metis
  have "b \<longleftrightarrow> h \<in> live_handles (pa_handles s)" using release_reports_live [OF wf(1), of h] H by simp
  moreover have "?g \<Longrightarrow> h \<in> live_handles (pa_handles s)"
    by (auto simp: granted_def live_handles_def split: option.splits)
  ultimately show ?thesis using F N H assms(2) by (auto simp: provider_release_def bindings_ok_def)
qed

lemma provider_make_view_eq:
  assumes "provider_wf ex S T p" and "pv_arenas p = Some s"
  shows "case make_view ex h v (pa_handles s) of
      Inl err \<Rightarrow> provider_make_view ex h v p = (Inl err, p)
    | Inr (r, H) \<Rightarrow> (\<exists>s'. provider_make_view ex h v p = (Inr r, with_arenas p s') \<and> pa_handles s' = H \<and>
        pa_features s' = pa_features s \<and> pa_nd_tensors s' = pa_nd_tensors s \<and> bindings_ok ex S T s')"
proof (cases "make_view ex h v (pa_handles s)")
  case (Inr minted)
  then obtain r H where m: "make_view ex h v (pa_handles s) = Inr (r, H)" by (cases minted) simp
  then show ?thesis
    using assms bindings_ok_granted [of ex S T s, OF _ make_view_granted [OF m]]
    by (simp add: provider_make_view_def provider_wf_def exI [of _ "s\<lparr>pa_handles := H\<rparr>"])
qed (simp add: provider_make_view_def assms(2))

lemma provider_new_wf:
  assumes "provider_new_with_tensors ex e tables S T = Inr p" and "store_ok S" and "nd_store_ok T"
  shows "provider_wf ex S T p"
proof -
  obtain H where H: "arena_new default_owner_controller = Inr H"
    and p: "p = \<lparr>pv_arenas = Some \<lparr>pa_handles = H, pa_features = buffer_arena_new S,
        pa_nd_tensors = nd_arena_new T\<rparr>, pv_envelope = e, pv_target_tables = tables\<rparr>"
    using assms(1) by (auto simp: provider_new_with_tensors_def rbind_eq_Inr)
  have "granted H = Map.empty" using H by (auto simp: arena_new_def rbind_eq_Inr granted_def)
  then show ?thesis
    using arena_new_wf [OF H] assms(2,3)
    by (simp add: provider_wf_def p bindings_ok_def buffers.tracks_def tensors.tracks_def
        buffer_arena_new_def nd_arena_new_def fun_eq_iff)
qed

text \<open>Every step keeps the invariant and is a step of the handle arena, or leaves that arena alone.\<close>

lemma provider_step_simulates:
  assumes "provider_wf ex S T p" and "provider_step ex p p'"
  shows "provider_wf ex S T p'" and "pv_envelope p' = pv_envelope p" and "pv_target_tables p' = pv_target_tables p"
    and "pv_arenas p' = Some s' \<Longrightarrow>
      \<exists>s. pv_arenas p = Some s \<and> (arena_step ex)\<^sup>*\<^sup>* (pa_handles s) (pa_handles s')"
proof -
  have stores: "store_ok S" "nd_store_ok T" using assms(1) by (simp_all add: provider_wf_def)
  have "p' = p \<or> pv_arenas p' = None \<and> pv_envelope p' = pv_envelope p \<and> pv_target_tables p' = pv_target_tables p \<or>
    (\<exists>s t. pv_arenas p = Some s \<and> p' = with_arenas p t \<and> arena_step ex (pa_handles s) (pa_handles t) \<and>
      bindings_ok ex S T t)"
    using assms(2)
  proof (cases rule: provider_step.cases)
    case (provider_materializes q answer)
    show ?thesis
    proof (cases "pv_arenas p")
      case None
      then show ?thesis using provider_materializes by (simp add: provider_materialize_def)
    next
      case (Some s)
      then show ?thesis
        using provider_materialize_eq [OF assms(1) Some, of q] provider_materializes
        by (cases "materialize ex (pv_envelope p) q (pa_handles s)") (auto intro: step_materialize)
    qed
  next
    case (provider_makes_view h v view_answer)
    show ?thesis
    proof (cases "pv_arenas p")
      case None
      then show ?thesis using provider_makes_view by (simp add: provider_make_view_def)
    next
      case (Some s)
      then show ?thesis
        using provider_make_view_eq [OF assms(1) Some, of h v] provider_makes_view
        by (cases "make_view ex h v (pa_handles s)") (auto intro: step_view)
    qed
  next
    case (provider_releases h released)
    show ?thesis
    proof (cases "pv_arenas p")
      case None
      then show ?thesis using provider_releases by (simp add: provider_release_def)
    next
      case (Some s)
      have "arena_step ex (pa_handles s) (snd (release_handle h (pa_handles s)))"
        by (rule step_release [where b = "fst (release_handle h (pa_handles s))" and h = h]) simp
      then show ?thesis using provider_release_eq [OF assms(1) Some, of h] provider_releases Some by fastforce
    qed
  next
    case lock_poisoned
    then show ?thesis by simp
  qed
  then consider "p' = p"
    | "pv_arenas p' = None" "pv_envelope p' = pv_envelope p" "pv_target_tables p' = pv_target_tables p"
    | s t where "pv_arenas p = Some s" "p' = with_arenas p t" "arena_step ex (pa_handles s) (pa_handles t)"
      "bindings_ok ex S T t"
    by metis
  note parts = this
  show "provider_wf ex S T p'"
    using parts by cases (use assms(1) arena_step_wf in \<open>auto simp: provider_wf_def\<close>)
  show "pv_envelope p' = pv_envelope p" "pv_target_tables p' = pv_target_tables p"
    using parts by (cases, simp_all)+
  show "\<exists>s. pv_arenas p = Some s \<and> (arena_step ex)\<^sup>*\<^sup>* (pa_handles s) (pa_handles s')" if "pv_arenas p' = Some s'"
    using parts by cases (use that in auto)
qed

lemma provider_steps_simulate:
  assumes "(provider_step ex)\<^sup>*\<^sup>* p p'" and "provider_wf ex S T p"
  shows "provider_wf ex S T p' \<and> pv_envelope p' = pv_envelope p \<and> pv_target_tables p' = pv_target_tables p \<and>
    (\<forall>s'. pv_arenas p' = Some s' \<longrightarrow>
      (\<exists>s. pv_arenas p = Some s \<and> (arena_step ex)\<^sup>*\<^sup>* (pa_handles s) (pa_handles s')))"
  using assms(1)
proof (induction rule: rtranclp_induct)
  case base
  then show ?case using assms(2) by simp
next
  case (step b c)
  then have wf: "provider_wf ex S T b" by simp
  show ?case
    using step.IH provider_step_simulates [OF wf step.hyps(2)] by (metis (no_types, lifting) rtranclp_trans)
qed

lemma provider_reachable_wf:
  assumes "provider_reachable ex S T p" and "store_ok S" and "nd_store_ok T"
  shows "provider_wf ex S T p"
  using assms(1)
  by (induction rule: provider_reachable.induct)
    (auto intro: provider_new_wf assms(2,3) provider_step_simulates(1))

end
