(* ===== verification/Provider_Service.thy ===== *)
theory Provider_Service
  imports Provider_Safety
begin

text \<open>
  What a provider serves: which bindings a handle has, when a block is served and what it holds, what
  a failed materialization and a release leave behind, and the test set barrier up to the blocks.
\<close>

section \<open>Bindings\<close>

lemma bt_collect_id: "sorted_wrt (<) (map fst kvs) \<Longrightarrow> bt_collect kvs = kvs"
  using bt_wf_ext [OF bt.wf_collect [of kvs]]
  by (simp add: bt.get_collect_distinct bt_wf_def strict_sorted_iff)

lemma sorted_selection:
  fixes s :: "('k::linorder, 'v) btree_map"
  assumes "bt_wf s" and "\<forall>(k, b)\<in>set s. key b = k"
  shows "sorted_wrt (<) (map key (filter P (bt_values s)))"
proof -
  have keys: "map key (bt_values s) = bt_keys s" using assms(2) by (auto simp: case_prod_unfold)
  have "sorted_wrt (<) (map key (bt_values s))" using assms(1) unfolding keys bt_wf_def .
  then show ?thesis by (simp add: sorted_wrt_map sorted_wrt_filter)
qed

lemma buffer_bindings_list:
  assumes "store_ok S"
  shows "bt_values (buffer_bindings sha256 S rs rep) =
    map (\<lambda>b. describe sha256 b (covered_sources b rs)) (filter (bound rs rep) (bt_values S))"
proof -
  have "sorted_wrt (<) (map nb_feature_set_id (filter (bound rs rep) (bt_values S)))"
    using assms by (intro sorted_selection) (auto simp: store_ok_def list_all_iff)
  then show ?thesis unfolding buffer_bindings_def by (subst bt_collect_id) (simp_all add: comp_def)
qed

lemma tensor_bindings_list:
  assumes "nd_store_ok T"
  shows "bt_values (tensor_bindings sha256 T rs rep) =
    map (nd_describe sha256 rs) (filter (nd_bound rs rep) (bt_values T))"
proof -
  have "sorted_wrt (<) (map nd_tensor_id (filter (nd_bound rs rep) (bt_values T)))"
    using assms by (intro sorted_selection) (auto simp: nd_store_ok_def nd_entry_ok_def)
  then show ?thesis unfolding tensor_bindings_def by (subst bt_collect_id) (simp_all add: comp_def)
qed

lemma bound_buffer_lookup:
  assumes "store_ok S"
  shows "map_of (buffer_bindings sha256 S rs rep) k = Some bd \<longleftrightarrow>
    (\<exists>b. map_of S k = Some b \<and> bound rs rep b \<and> bd = describe sha256 b (covered_sources b rs))"
  using binding_lookup [OF assms, of sha256 rs rep k bd] by (simp add: buffer_bindings_def comp_def)

lemma bound_tensor_lookup:
  assumes "nd_store_ok T"
  shows "map_of (tensor_bindings sha256 T rs rep) k = Some bd \<longleftrightarrow>
    (\<exists>t. map_of T k = Some t \<and> nd_bound rs rep t \<and> bd = nd_describe sha256 rs t)"
  using collect_selected [of T nd_tensor_id ndb_tensor_id "nd_describe sha256 rs" "nd_bound rs rep" k bd] assms
  by (simp add: tensor_bindings_def comp_def nd_store_ok_def nd_entry_ok_def nd_describe_def
      nd_binding_for_sources_def case_prod_unfold)

lemma provider_bindings:
  assumes "bindings_ok ex S T s"
  shows "map_of (ba_data_bindings (pa_features s)) h =
      map_option (\<lambda>(rs, rep). buffer_bindings (ex_sha256 ex) S rs rep) (granted (pa_handles s) h)"
    and "map_of (nda_data_bindings (pa_nd_tensors s)) h =
      map_option (\<lambda>(rs, rep). tensor_bindings (ex_sha256 ex) T rs rep) (granted (pa_handles s) h)"
  using assms unfolding bindings_ok_def buffers.tracks_def tensors.tracks_def by simp_all

text \<open>
  The bindings of a provider are a function of its live handles. Whatever a reachable provider has
  been through, a data handle lists a binding for exactly the stored buffers and the stored tensors of
  its representation that cover its relations, each with the sources it covers and the fingerprint of
  its content; a handle without relations lists none, and an unknown handle is reported as unknown.
\<close>

lemma bindings_follow_handles:
  assumes "provider_reachable ex S T p" and "store_ok S" and "nd_store_ok T" and "pv_arenas p = Some s"
  shows "data_feature_buffer_bindings p h =
      (case handle_record (pa_handles s) h of
         None \<Rightarrow> Inl (UnknownHandle ''data'' h)
       | Some r \<Rightarrow>
           (case data_identity (pa_handles s) h of
              Inl _ \<Rightarrow> invalid ''data handle has no feature buffer bindings''
            | Inr rs \<Rightarrow>
                Inr (map (\<lambda>b. describe (ex_sha256 ex) b (covered_sources b rs))
                  (filter (bound rs (dh_output_representation r)) (bt_values S))))) \<and>
    data_nd_tensor_bindings p h =
      (case handle_record (pa_handles s) h of
         None \<Rightarrow> Inl (UnknownHandle ''data'' h)
       | Some r \<Rightarrow>
           (case data_identity (pa_handles s) h of
              Inl _ \<Rightarrow> invalid ''data handle has no nd tensor bindings''
            | Inr rs \<Rightarrow>
                Inr (map (nd_describe (ex_sha256 ex) rs)
                  (filter (nd_bound rs (dh_output_representation r)) (bt_values T)))))"
proof -
  have "bindings_ok ex S T s" using provider_reachable_wf [OF assms(1-3)] assms(4) by (simp add: provider_wf_def)
  note bindings = provider_bindings [OF this, of h]
  have grants: "granted (pa_handles s) h = (case handle_record (pa_handles s) h of None \<Rightarrow> None
      | Some r \<Rightarrow> (case data_identity (pa_handles s) h of Inl _ \<Rightarrow> None
        | Inr rs \<Rightarrow> Some (rs, dh_output_representation r)))"
    by (auto simp: granted_def handle_record_def data_identity_def ok_or_def split: option.split)
  show ?thesis
    using bindings assms(4)
    by (simp add: data_feature_buffer_bindings_def bindings_for_data_handle_def data_nd_tensor_bindings_def
        nd_bindings_for_data_handle_def grants buffer_bindings_list [OF assms(2)]
        tensor_bindings_list [OF assms(3)] split: option.split sum.split)
qed

text \<open>
  C14. Materialization is all or nothing. In a reachable provider it fails exactly when the handle arena
  refuses the request, with the same error and without any change; binding the fresh handle to buffers
  and tensors never fails, so no handle is left behind half bound.
\<close>

theorem materialize_all_or_nothing:
  assumes "provider_reachable ex S T p" and "store_ok S" and "nd_store_ok T" and "pv_arenas p = Some s"
  shows "fst (provider_materialize ex q p) =
      (case materialize ex (pv_envelope p) q (pa_handles s) of Inl err \<Rightarrow> Inl err | Inr (r, _) \<Rightarrow> Inr r) \<and>
    (\<forall>err p'. provider_materialize ex q p = (Inl err, p') \<longrightarrow> p' = p)"
  using provider_materialize_eq [OF provider_reachable_wf [OF assms(1-3)] assms(4), of q]
  by (auto split: sum.splits)

section \<open>Serving a view\<close>

lemma view_context_live:
  assumes "arena_wf ex (pa_handles s)" and "view_record (pa_handles s) k = Some vr"
  shows "\<exists>parent view rs. view_context s k = Inr (vr, parent, view) \<and>
    handle_record (pa_handles s) (hr_handle (vh_parent_handle vr)) = Some parent \<and>
    dh_handle parent = vh_parent_handle vr \<and> view_identity (pa_handles s) k = Inr view \<and>
    data_identity (pa_handles s) (hr_handle (vh_parent_handle vr)) = Inr rs \<and>
    set (rs_records view) \<subseteq> set (rs_records rs)"
proof -
  have "view_entry_ok ex (pa_handles s) k vr"
    using assms by (simp add: arena_wf_def view_record_def)
  then obtain parent rs view where
      "map_of (ha_records (pa_handles s)) (hr_handle (vh_parent_handle vr)) = Some parent"
      "dh_handle parent = vh_parent_handle vr"
      "map_of (ha_data_relations (pa_handles s)) (hr_handle (vh_parent_handle vr)) = Some rs"
      "map_of (ha_view_relations (pa_handles s)) k = Some view"
      "mset (rs_records view) \<subseteq># mset (rs_records rs)"
    unfolding view_entry_ok_def by auto
  then show ?thesis
    using assms(2) set_mset_mono [of "mset (rs_records view)" "mset (rs_records rs)"]
    by (intro exI [of _ parent] exI [of _ view] exI [of _ rs])
      (simp add: view_context_def handle_record_def view_identity_def data_identity_def)
qed

lemma view_context_ok:
  "view_context s k = Inr (vr, parent, view) \<longleftrightarrow>
     view_record (pa_handles s) k = Some vr \<and>
     handle_record (pa_handles s) (hr_handle (vh_parent_handle vr)) = Some parent \<and>
     view_identity (pa_handles s) k = Inr view"
  by (auto simp: view_context_def rbind_eq_Inr ok_or_eq_Inr)

lemma view_context_dead:
  "view_record (pa_handles s) k = None \<Longrightarrow> view_context s k = Inl (UnknownHandle ''view'' k)"
  by (simp add: view_context_def)

lemma bound_sources_ok:
  assumes "bindings_ok ex S T s" and "store_ok S" and "granted (pa_handles s) h = Some (rs, rep)"
  shows "validate_bound_sources (pa_features s) h k view source_id = Inr () \<longleftrightarrow>
    relation_set_ok view \<and> (\<forall>x. source_id = Some x \<longrightarrow> x \<in> set (relation_sources view)) \<and>
    (\<exists>b. map_of S k = Some b \<and> bound rs rep b \<and>
      (case source_id of None \<Rightarrow> set (relation_sources view) | Some x \<Rightarrow> {x}) \<subseteq> set (covered_sources b rs))"
proof -
  have lookup: "Option.bind (map_of (ba_data_bindings (pa_features s)) h) (\<lambda>bs. map_of bs k) = Some bd \<longleftrightarrow>
      (\<exists>b. map_of S k = Some b \<and> bound rs rep b \<and> bd = describe (ex_sha256 ex) b (covered_sources b rs))" for bd
    by (simp add: provider_bindings [OF assms(1)] assms(3) bound_buffer_lookup [OF assms(2)])
  show ?thesis
    unfolding validate_bound_sources_def
    by (cases source_id)
      (auto simp: rbind_eq_Inr relation_set_validate_ok ok_or_eq_Inr lookup Let_def each_res_ok if_Inl_eq_Inr)
qed

text \<open>The columns that a projection of a view uses.\<close>

definition effective_columns ::
  "data_view \<Rightarrow> source_id option \<Rightarrow> string list option \<Rightarrow> string list option"
where
  "effective_columns v source_id columns =
     (if source_id = None \<and> columns = None then dv_columns v else columns)"

lemma feature_block_lemma:
  assumes "provider_wf ex S T p" and "pv_arenas p = Some s" and "view_record (pa_handles s) k = Some vr"
    and "handle_record (pa_handles s) (hr_handle (vh_parent_handle vr)) = Some parent"
    and "data_identity (pa_handles s) (hr_handle (vh_parent_handle vr)) = Inr rs"
    and "view_identity (pa_handles s) k = Inr view"
  shows "feature_block_filtered json_f64 p k feature_set_id source_id columns = Inr block \<longleftrightarrow>
    (\<forall>x. source_id = Some x \<longrightarrow> x \<in> set (relation_sources view)) \<and>
    (\<exists>b. map_of S feature_set_id = Some b \<and> bound rs (dh_output_representation parent) b \<and>
       (case source_id of None \<Rightarrow> set (relation_sources view) | Some x \<Rightarrow> {x}) \<subseteq> set (covered_sources b rs) \<and>
       projectable b view source_id (effective_columns (vh_view vr) source_id columns) \<and>
       block = projected_block json_f64 b view source_id (effective_columns (vh_view vr) source_id columns))"
proof -
  have wf: "arena_wf ex (pa_handles s)" "bindings_ok ex S T s" "store_ok S"
    using assms(1,2) by (simp_all add: provider_wf_def)
  have ctxt: "view_context s k = Inr (vr, parent, view)" using assms(3,4,6) by (simp add: view_context_ok)
  have "dh_handle parent = vh_parent_handle vr"
    using view_context_live [OF wf(1) assms(3)] ctxt by auto
  then have grants: "granted (pa_handles s) (hr_handle (dh_handle parent)) = Some (rs, dh_output_representation parent)"
    using granted_data_identity [OF assms(5,4)] by simp
  let ?cols = "effective_columns (vh_view vr) source_id columns"
  have "feature_block_filtered json_f64 p k feature_set_id source_id columns =
      project_bound_relations json_f64 (pa_features s) (hr_handle (dh_handle parent)) feature_set_id view source_id ?cols"
    using assms(2) ctxt
    by (cases columns; cases source_id) (simp_all add: feature_block_filtered_def effective_columns_def)
  moreover have "ba_store (pa_features s) = S" using wf(2) by (simp add: bindings_ok_def)
  moreover have "project_relations json_f64 b view source_id ?cols = Inr block \<longleftrightarrow>
      projectable b view source_id ?cols \<and> block = projected_block json_f64 b view source_id ?cols"
    if "map_of S feature_set_id = Some b" for b
    using store_ok_lookup [OF wf(3) that] by (intro project_relations_ok) simp
  ultimately show ?thesis
    by (auto simp: project_bound_relations_def rbind_eq_Inr bound_sources_ok [OF wf(2,3) grants]
        store_project_relations_def ok_or_eq_Inr projectable_def)
qed

text \<open>
  When a block is served and what it holds. In a reachable provider a live view projects a feature
  set exactly if it names a stored buffer of the parent's representation that covers the parent's
  relations, covers each source of the view (or the requested source, which the view must have) and
  holds every selected column and every selected observation of the view. The block then has the
  view's rows in order with the buffer's cells; without a source or columns of its own the request
  takes the columns of the view.
\<close>

lemma feature_block_served:
  assumes "provider_reachable ex S T p" and "store_ok S" and "nd_store_ok T" and "pv_arenas p = Some s"
    and "view_record (pa_handles s) k = Some vr"
    and "handle_record (pa_handles s) (hr_handle (vh_parent_handle vr)) = Some parent"
    and "data_identity (pa_handles s) (hr_handle (vh_parent_handle vr)) = Inr rs"
    and "view_identity (pa_handles s) k = Inr view"
  shows "feature_block_filtered json_f64 p k feature_set_id source_id columns = Inr block \<longleftrightarrow>
    (\<forall>x. source_id = Some x \<longrightarrow> x \<in> set (relation_sources view)) \<and>
    (\<exists>b. map_of S feature_set_id = Some b \<and> bound rs (dh_output_representation parent) b \<and>
       (case source_id of None \<Rightarrow> set (relation_sources view) | Some x \<Rightarrow> {x}) \<subseteq> set (covered_sources b rs) \<and>
       projectable b view source_id (effective_columns (vh_view vr) source_id columns) \<and>
       block = projected_block json_f64 b view source_id (effective_columns (vh_view vr) source_id columns))"
  by (rule feature_block_lemma [OF provider_reachable_wf [OF assms(1-3)] assms(4-)])

section \<open>The test set barrier\<close>

text \<open>The samples of all that a provider serves on a view.\<close>

inductive serves_sample :: "provider \<Rightarrow> u64 \<Rightarrow> sample_id \<Rightarrow> bool" for p k x where
  in_feature_block:
    "feature_block_filtered json_f64 p k feature_set_id source_id columns = Inr block \<Longrightarrow>
     x \<in> set (fb_sample_ids block) \<Longrightarrow> serves_sample p k x"
| in_typed_block:
    "provider_feature_block_f64 p k feature_set_id = Inr typed_block \<Longrightarrow>
     x \<in> set (ff_sample_ids typed_block) \<Longrightarrow> serves_sample p k x"
| in_tensor_block:
    "provider_nd_tensor_block p k tensor_id source_id = Inr tensor_block \<Longrightarrow>
     x \<in> set (ndk_sample_ids tensor_block) \<Longrightarrow> serves_sample p k x"
| in_target_block:
    "provider_target_block p k target_id = Inr target_block \<Longrightarrow>
     x \<in> set (tb_sample_ids target_block) \<Longrightarrow> serves_sample p k x"

lemma of_source_subset: "set (of_source source_id view) \<subseteq> set (rs_records view)"
  by (auto simp: of_source_def split: option.splits)

lemma served_from_view:
  assumes "serves_sample p k x" and "pv_arenas p = Some s"
  shows "\<exists>view r. view_identity (pa_handles s) k = Inr view \<and> r \<in> set (rs_records view) \<and> cr_sample_id r = x"
  using assms(1)
proof cases
  case (in_feature_block json_f64 feature_set_id source_id columns block)
  then show ?thesis
    using assms(2) of_source_subset
    by (fastforce simp: feature_block_filtered_def rbind_eq_Inr view_context_ok project_bound_relations_def
        store_project_relations_def project_relations_def)
next
  case (in_typed_block feature_set_id typed_block)
  then show ?thesis
    using assms(2) of_source_subset
    by (fastforce simp: provider_feature_block_f64_def rbind_eq_Inr view_context_ok project_bound_relations_f64_def
        store_project_relations_f64_def project_relations_f64_def)
next
  case (in_tensor_block tensor_id source_id tensor_block)
  then show ?thesis
    using assms(2) of_source_subset
    by (fastforce simp: provider_nd_tensor_block_def rbind_eq_Inr view_context_ok nd_project_bound_relations_def
        nd_store_project_relations_def nd_project_relations_def Let_def)
next
  case (in_target_block target_id target_block)
  then show ?thesis
    using assms(2)
    by (auto simp: provider_target_block_def rbind_eq_Inr target_values_lemma target_rows_def set_dedup_first)
qed

lemma served_samples_avoid_cohort:
  assumes "provider_wf ex S T p" and "pv_arenas p = Some s" and "ha_next_handle (pa_handles s) \<noteq> - 1"
    and "provider_materialize ex q p = (Inr r, p1)" and "(provider_step ex)\<^sup>*\<^sup>* p1 p2"
    and "pv_arenas p2 = Some s2" and "view_record (pa_handles s2) k = Some vr"
    and "vh_parent_handle vr = dh_handle r"
    and "en_predict_cohort (pv_envelope p) = Some c" and "pc_role c = ExternalTest"
    and "mr_predict_cohort q = None" and "training_phase q"
    and "serves_sample p2 k x" and "y \<in> set (rs_records (pc_relations c))"
  shows "x \<noteq> cr_sample_id y \<and> cr_origin_sample_id y \<noteq> Some x"
proof -
  have wf: "arena_wf ex (pa_handles s)" using assms(1,2) by (simp add: provider_wf_def)
  obtain s1 H where H: "materialize ex (pv_envelope p) q (pa_handles s) = Inr (r, H)"
    and s1: "pv_arenas p1 = Some s1" "pa_handles s1 = H"
    using provider_materialize_eq [OF assms(1,2), of q] assms(4) by (auto split: sum.splits)
  have "provider_step ex p p1"
    using provider_step.provider_materializes [of p ex q "Inr r" p1] assms(2-4) by simp
  then have wf1: "provider_wf ex S T p1" by (rule provider_step_simulates(1) [OF assms(1)])
  then have steps: "(arena_step ex)\<^sup>*\<^sup>* H (pa_handles s2)"
    using provider_steps_simulate [OF assms(5) wf1] assms(6) s1 by auto
  obtain view rec where view: "view_identity (pa_handles s2) k = Inr view" "rec \<in> set (rs_records view)"
      "cr_sample_id rec = x"
    using served_from_view [OF assms(13,6)] by blast
  have "exposes (pa_handles s2) (dh_handle r) view"
    using assms(7,8) view(1) by (auto simp: exposes_def)
  from training_barrier [OF wf assms(3) H steps assms(9-12) this view(2) assms(14)] view(3)
  show ?thesis by auto
qed

text \<open>
  C2. The test set barrier up to the data. Let a provider whose envelope carries an external test
  cohort materialize a handle in a training phase, without naming a cohort. Whatever its clients do
  afterwards, no feature block, typed block, tensor block or target block that it serves on a view of
  that handle contains a sample of the cohort or an origin of one.
\<close>

theorem served_blocks_avoid_test_cohort:
  assumes "provider_reachable ex S T p" and "store_ok S" and "nd_store_ok T" and "pv_arenas p = Some s"
    and "ha_next_handle (pa_handles s) \<noteq> - 1"
    and "provider_materialize ex q p = (Inr r, p1)" and "(provider_step ex)\<^sup>*\<^sup>* p1 p2"
    and "pv_arenas p2 = Some s2" and "view_record (pa_handles s2) k = Some vr"
    and "vh_parent_handle vr = dh_handle r"
    and "en_predict_cohort (pv_envelope p) = Some c" and "pc_role c = ExternalTest"
    and "mr_predict_cohort q = None" and "training_phase q"
    and "serves_sample p2 k x" and "y \<in> set (rs_records (pc_relations c))"
  shows "x \<noteq> cr_sample_id y \<and> cr_origin_sample_id y \<noteq> Some x"
  by (rule served_samples_avoid_cohort [OF provider_reachable_wf [OF assms(1-3)] assms(4-)])

section \<open>Release\<close>

lemma fusion_refused_at_once:
  assumes "\<And>feature_set_id source_id columns.
      feature_block_filtered json_f64 (reads 0) h feature_set_id source_id columns = Inl err"
  shows "feature_fusion_block json_f64 reads h fusion =
    (if fs_sources fusion = [] then invalid ''feature fusion selector requires at least one source'' else Inl err)"
  using assms by (cases "fs_sources fusion") (simp_all add: feature_fusion_block_def fusion_block_of_source_def)

lemma released_dead:
  assumes "provider_wf ex S T p" and "provider_release h p = (True, p1)"
    and "(provider_step ex)\<^sup>*\<^sup>* p1 p2" and "pv_arenas p2 = Some s2"
  shows "provider_wf ex S T p2" and "arena_wf ex (pa_handles s2)" and "h \<notin> live_handles (pa_handles s2)"
proof -
  have step: "provider_step ex p p1" using assms(2) by (rule provider_releases)
  have wf1: "provider_wf ex S T p1" by (rule provider_step_simulates(1) [OF assms(1) step])
  show wf2: "provider_wf ex S T p2" using provider_steps_simulate [OF assms(3) wf1] by simp
  obtain s1 where s1: "pv_arenas p1 = Some s1" "(arena_step ex)\<^sup>*\<^sup>* (pa_handles s1) (pa_handles s2)"
    using provider_steps_simulate [OF assms(3) wf1] assms(4) by blast
  obtain s where s: "pv_arenas p = Some s"
    using provider_step_simulates(4) [OF assms(1) step s1(1)] by blast
  have arena: "arena_wf ex (pa_handles s)" "arena_wf ex (pa_handles s1)"
    using assms(1) wf1 s s1(1) by (simp_all add: provider_wf_def)
  show "arena_wf ex (pa_handles s2)" using wf2 assms(4) by (simp add: provider_wf_def)
  have "release_handle h (pa_handles s) = (True, pa_handles s1)"
    using provider_release_eq [OF assms(1) s, of h] release_reports_live [OF arena(1), of h] assms(2) s1(1)
    by (cases "release_handle h (pa_handles s)") auto
  then have "h \<notin> live_handles (pa_handles s1)" "h < ha_next_handle (pa_handles s1)"
    using released_is_dead [OF arena(1)] release_live_mono arena.live_below [OF arena(1)] by fastforce+
  then show "h \<notin> live_handles (pa_handles s2)"
    using arena.dead_stays_dead [OF s1(2) arena(2)] by blast
qed

text \<open>
  C13. A released handle is gone from every table. Once a reachable provider has released a handle, in
  every later state whose lock is sound it has no bindings of either kind left, releasing it again
  releases nothing, and every operation that reads rows of it reports it as unknown: as a view, the
  identity rows, the feature block with its filters, the typed feature block, the tensor block, the target
  block, the fused block and the collated block; as a data handle, both lists of bindings. Only what is
  wrong with a request itself is reported first: a target id that is not known or a target table that is not
  valid, and a selector that names no source, or not exactly one kind of source. (A fusion takes the lock
  once per source; it is refused at its first reading, whatever happens to the provider meanwhile.)
\<close>

theorem released_handle_unknown_everywhere:
  assumes "provider_reachable ex S T p" and "store_ok S" and "nd_store_ok T"
    and "provider_release h p = (True, p1)" and "(provider_step ex)\<^sup>*\<^sup>* p1 p2" and "pv_arenas p2 = Some s2"
  shows "provider_view_identity p2 h = Inl (UnknownHandle ''view'' h) \<and>
    feature_block_filtered json_f64 p2 h feature_set_id source_id columns = Inl (UnknownHandle ''view'' h) \<and>
    provider_feature_block_f64 p2 h feature_set_id = Inl (UnknownHandle ''view'' h) \<and>
    provider_nd_tensor_block p2 h tensor_id source_id = Inl (UnknownHandle ''view'' h) \<and>
    provider_target_block p2 h target_id =
      (case map_of (pv_target_tables p2) target_id of
         None \<Rightarrow> invalid ''unknown target id''
       | Some table \<Rightarrow> rseq (validate_values table) (Inl (UnknownHandle ''view'' h))) \<and>
    feature_fusion_block json_f64 (later(0 := p2)) h fusion =
      (if fs_sources fusion = [] then invalid ''feature fusion selector requires at least one source''
       else Inl (UnknownHandle ''view'' h)) \<and>
    feature_collation_block json_f64 (later(0 := p2)) h request =
      (case (co_feature_set_id request, co_fusion request) of
         (Some i, None) \<Rightarrow>
           if is_blank i then invalid ''feature collation selector feature_set_id is empty''
           else Inl (UnknownHandle ''view'' h)
       | (None, Some f) \<Rightarrow>
           if fs_sources f = [] then invalid ''feature fusion selector requires at least one source''
           else Inl (UnknownHandle ''view'' h)
       | (Some _, Some _) \<Rightarrow>
           invalid ''feature collation selector must not specify both feature_set_id and fusion''
       | (None, None) \<Rightarrow> invalid ''feature collation selector requires feature_set_id or fusion'') \<and>
    data_feature_buffer_bindings p2 h = Inl (UnknownHandle ''data'' h) \<and>
    data_nd_tensor_bindings p2 h = Inl (UnknownHandle ''data'' h) \<and>
    map_of (ba_data_bindings (pa_features s2)) h = None \<and>
    map_of (nda_data_bindings (pa_nd_tensors s2)) h = None \<and>
    \<not> fst (provider_release h p2)"
proof -
  note dead = released_dead [OF provider_reachable_wf [OF assms(1-3)] assms(4-6)]
  then have gone: "handle_record (pa_handles s2) h = None" "view_record (pa_handles s2) h = None"
    by (auto simp: handle_record_def view_record_def live_handles_def domIff)
  then have granted: "granted (pa_handles s2) h = None" by (simp add: granted_def handle_record_def)
  have bindings: "bindings_ok ex S T s2" using dead(1) assms(6) by (simp add: provider_wf_def)
  note unknown = dead_handle_unknown [OF dead(2,3)]
  have block: "feature_block_filtered json_f64 p2 h i s c = Inl (UnknownHandle ''view'' h)" for i s c
    using assms(6) gone by (simp add: feature_block_filtered_def view_context_dead)
  have fused: "feature_fusion_block json_f64 (later(0 := p2)) h f =
      (if fs_sources f = [] then invalid ''feature fusion selector requires at least one source''
       else Inl (UnknownHandle ''view'' h))" for f
    by (rule fusion_refused_at_once) (simp add: block)
  have collated: "feature_collation_block json_f64 (later(0 := p2)) h request =
      (case (co_feature_set_id request, co_fusion request) of
         (Some i, None) \<Rightarrow>
           if is_blank i then invalid ''feature collation selector feature_set_id is empty''
           else Inl (UnknownHandle ''view'' h)
       | (None, Some f) \<Rightarrow>
           if fs_sources f = [] then invalid ''feature fusion selector requires at least one source''
           else Inl (UnknownHandle ''view'' h)
       | (Some _, Some _) \<Rightarrow>
           invalid ''feature collation selector must not specify both feature_set_id and fusion''
       | (None, None) \<Rightarrow> invalid ''feature collation selector requires feature_set_id or fusion'')"
    by (simp add: feature_collation_block_def fused provider_feature_block_def block split: option.split)
  have target: "provider_target_block p2 h target_id =
      (case map_of (pv_target_tables p2) target_id of
         None \<Rightarrow> invalid ''unknown target id''
       | Some table \<Rightarrow> rseq (validate_values table) (Inl (UnknownHandle ''view'' h)))"
    using assms(6) unknown(1) by (simp add: provider_target_block_def target_values_def split: option.split)
  show ?thesis
    using unknown provider_release_eq [OF dead(1) assms(6), of h] dead(3) assms(6) gone granted
    by (auto simp: block fused collated target provider_view_identity_def provider_feature_block_f64_def
        provider_nd_tensor_block_def data_feature_buffer_bindings_def data_nd_tensor_bindings_def
        view_context_dead provider_bindings [OF bindings])
qed

end
