(* ===== verification/Provider_Fusion.thy ===== *)
theory Provider_Fusion
  imports Provider_Service
begin

text \<open>
  Fusion takes the provider's lock once per source, so other clients may run between two of its reads.
  A handle that lives at two moments means the same at both; hence what fusion answers is what it
  would have answered under one lock, unless the view disappears on the way.
\<close>

section \<open>A live handle does not change its meaning\<close>

definition handle_facts ::
  "handle_arena \<Rightarrow> u64 \<Rightarrow>
   data_handle_record option \<times> relation_set option \<times> view_handle_record option \<times> relation_set option"
where
  "handle_facts a h =
     (map_of (ha_records a) h, map_of (ha_data_relations a) h,
      map_of (ha_view_records a) h, map_of (ha_view_relations a) h)"

lemma handle_facts_step:
  assumes "arena_wf ex a" and "arena_step ex a b" and "h \<in> live_handles a" and "h \<in> live_handles b"
  shows "handle_facts b h = handle_facts a h"
  using assms(2)
proof (cases rule: arena_step.cases)
  case (step_materialize e q r)
  have "h \<noteq> ha_next_handle a" using assms(1,3) by (auto simp: arena_wf_def maps_ok_def)
  then show ?thesis
    using step_materialize(2)
    by (auto simp: materialize_ok with_data_def handle_facts_def map_of_bt_insert split: option.split)
next
  case (step_view k v r)
  have "h \<noteq> ha_next_handle a" using assms(1,3) by (auto simp: arena_wf_def maps_ok_def)
  then show ?thesis
    using step_view(2) by (auto simp: make_view_ok with_view_def handle_facts_def map_of_bt_insert)
next
  case (step_release k released)
  have other: "k \<noteq> h"
  proof
    assume "k = h"
    moreover have released using step_release release_reports_live [OF assms(1), of k] assms(3) \<open>k = h\<close> by simp
    ultimately show False using step_release released_is_dead [OF assms(1), of k b] assms(4) by simp
  qed
  show ?thesis
  proof (cases "map_of (ha_view_records a) k")
    case (Some v)
    then show ?thesis
      using step_release other
      by (auto simp: release_handle_def remove_view_def handle_facts_def map_of_bt_remove)
  next
    case None
    show ?thesis
    proof (cases "map_of (ha_records a) k")
      case none: None
      then show ?thesis using step_release None by (simp add: release_handle_def)
    next
      case (Some r)
      have b: "b = (fold remove_view (child_views a r) a)
          \<lparr>ha_records := bt_remove k (ha_records a), ha_data_relations := bt_remove k (ha_data_relations a)\<rparr>"
        using release_data_eq [OF None Some] step_release by simp
      have maps: "maps_ok a" using assms(1) by (simp add: arena_wf_def)
      have "h \<notin> set (child_views a r)"
      proof
        assume child: "h \<in> set (child_views a r)"
        then have "map_of (ha_records a) h = None"
          using maps by (auto simp: set_child_views maps_ok_def)
        with child have "h \<notin> live_handles b"
          by (auto simp: b live_handles_def map_of_bt_remove map_of_removed_views)
        with assms(4) show False by simp
      qed
      with other show ?thesis
        by (simp add: b handle_facts_def map_of_bt_remove map_of_removed_views)
    qed
  qed
qed

lemma handle_facts_steps:
  assumes "(arena_step ex)\<^sup>*\<^sup>* a b" and "arena_wf ex a" and "h \<in> live_handles a" and "h \<in> live_handles b"
  shows "handle_facts b h = handle_facts a h"
  using assms(1,4)
proof (induction rule: rtranclp_induct)
  case (step b c)
  have wf: "arena_wf ex b" by (rule arena.steps_wf [OF step.hyps(1) assms(2)])
  have "h < ha_next_handle b"
    using arena.steps_mono [OF step.hyps(1) assms(2)] arena.live_below [OF assms(2,3)] by simp
  then have "h \<in> live_handles b"
    using arena.dead_stays_dead [OF r_into_rtranclp [of "arena_step ex", OF step.hyps(2)] wf] step.prems by blast
  then show ?case using step.IH handle_facts_step [OF wf step.hyps(2)] step.prems by simp
qed simp

section \<open>Reads of a view at two moments\<close>

text \<open>A projection reads the provider through the view's context, the store and the parent's bindings.\<close>

lemma block_from_context:
  assumes "pv_arenas p = Some s" and "pv_arenas p' = Some s'"
    and "view_context s' k = view_context s k" and "ba_store (pa_features s') = ba_store (pa_features s)"
    and "\<And>vr parent view. view_context s k = Inr (vr, parent, view) \<Longrightarrow>
      map_of (ba_data_bindings (pa_features s')) (hr_handle (dh_handle parent)) =
        map_of (ba_data_bindings (pa_features s)) (hr_handle (dh_handle parent))"
  shows "feature_block_filtered json_f64 p' k feature_set_id source_id columns =
    feature_block_filtered json_f64 p k feature_set_id source_id columns"
  using assms
  by (cases "view_context s k")
    (auto simp: feature_block_filtered_def project_bound_relations_def validate_bound_sources_def)

lemma live_view_context:
  assumes "arena_wf ex (pa_handles s)" and "arena_wf ex (pa_handles s')"
    and "(arena_step ex)\<^sup>*\<^sup>* (pa_handles s) (pa_handles s')"
    and "view_record (pa_handles s) k = Some vr" and "view_record (pa_handles s') k = Some vr'"
  shows "view_context s' k = view_context s k"
    and "view_context s k = Inr (vr, parent, view) \<Longrightarrow>
      granted (pa_handles s') (hr_handle (dh_handle parent)) = granted (pa_handles s) (hr_handle (dh_handle parent))"
proof -
  have live: "h \<in> live_handles a" if "view_record a h = Some v \<or> handle_record a h = Some r" for a h v r
    using that by (auto simp: live_handles_def view_record_def handle_record_def)
  have same: "handle_facts (pa_handles s') k = handle_facts (pa_handles s) k"
    using handle_facts_steps [OF assms(3,1)] live assms(4,5) by blast
  then have "vr' = vr" using assms(4,5) by (simp add: handle_facts_def view_record_def)
  obtain parent' view' where ctxt: "view_context s k = Inr (vr, parent', view')"
      "handle_record (pa_handles s) (hr_handle (vh_parent_handle vr)) = Some parent'"
      "dh_handle parent' = vh_parent_handle vr" "view_identity (pa_handles s) k = Inr view'"
    using view_context_live [OF assms(1,4)] by blast
  obtain parent'' where "handle_record (pa_handles s') (hr_handle (vh_parent_handle vr)) = Some parent''"
    using view_context_live [OF assms(2,5)] \<open>vr' = vr\<close> by blast
  then have parents: "handle_facts (pa_handles s') (hr_handle (vh_parent_handle vr)) =
      handle_facts (pa_handles s) (hr_handle (vh_parent_handle vr))"
    using handle_facts_steps [OF assms(3,1)] live ctxt(2) by blast
  have "handle_record (pa_handles s') (hr_handle (vh_parent_handle vr)) = Some parent'"
    using parents ctxt(2) by (simp add: handle_facts_def handle_record_def)
  moreover have "view_identity (pa_handles s') k = Inr view'"
    using same ctxt(4) by (simp add: handle_facts_def view_identity_def)
  ultimately have "view_context s' k = Inr (vr, parent', view')"
    using assms(5) \<open>vr' = vr\<close> by (simp add: view_context_ok)
  then show "view_context s' k = view_context s k" using ctxt(1) by simp
  show "granted (pa_handles s') (hr_handle (dh_handle parent)) = granted (pa_handles s) (hr_handle (dh_handle parent))"
    if "view_context s k = Inr (vr, parent, view)"
    using that ctxt(1,3) parents by (simp add: granted_def handle_facts_def split: option.split)
qed

text \<open>A later read answers as the earlier one, or finds the view gone, or finds the lock poisoned.\<close>

definition interrupted :: "u64 \<Rightarrow> data_error \<Rightarrow> bool" where
  "interrupted k err \<longleftrightarrow>
     err = UnknownHandle ''view'' k \<or> err = Validation ''provider arena mutex is poisoned''"

lemma later_read:
  assumes "provider_wf ex S T p" and "(provider_step ex)\<^sup>*\<^sup>* p p'"
    and "pv_arenas p = Some s" and "view_record (pa_handles s) k = Some vr"
  shows "feature_block_filtered json_f64 p' k feature_set_id source_id columns =
      feature_block_filtered json_f64 p k feature_set_id source_id columns \<or>
    (\<exists>err. interrupted k err \<and> feature_block_filtered json_f64 p' k feature_set_id source_id columns = Inl err)"
proof (cases "pv_arenas p'")
  case None
  then show ?thesis by (simp add: feature_block_filtered_def interrupted_def)
next
  case (Some s')
  have wf': "provider_wf ex S T p'" and steps: "(arena_step ex)\<^sup>*\<^sup>* (pa_handles s) (pa_handles s')"
    using provider_steps_simulate [OF assms(2,1)] Some assms(3) by auto
  have arenas: "arena_wf ex (pa_handles s)" "arena_wf ex (pa_handles s')"
      "bindings_ok ex S T s" "bindings_ok ex S T s'"
    using assms(1,3) wf' Some by (simp_all add: provider_wf_def)
  show ?thesis
  proof (cases "view_record (pa_handles s') k")
    case None
    then show ?thesis
      using Some by (simp add: feature_block_filtered_def view_context_dead interrupted_def)
  next
    case (Some vr')
    note live = live_view_context [OF arenas(1,2) steps assms(4) Some]
    have "ba_store (pa_features s') = ba_store (pa_features s)"
      using arenas(3,4) by (simp add: bindings_ok_def)
    moreover have "map_of (ba_data_bindings (pa_features s')) (hr_handle (dh_handle parent)) =
        map_of (ba_data_bindings (pa_features s)) (hr_handle (dh_handle parent))"
      if "view_context s k = Inr (v, parent, view)" for v parent view
    proof -
      have "v = vr" using that assms(4) by (simp add: view_context_ok)
      with live(2) that show ?thesis by (simp add: provider_bindings [OF arenas(3)] provider_bindings [OF arenas(4)])
    qed
    ultimately show ?thesis
      using block_from_context [OF assms(3) \<open>pv_arenas p' = Some s'\<close> live(1)] by blast
  qed
qed

section \<open>Fusion\<close>

lemma fusion_reads:
  assumes "\<And>i (source :: fusion_source). feature_block_filtered json_f64 (reads i) k (fu_feature_set_id source)
      (Some (fu_source_id source)) (fu_columns source) =
    feature_block_filtered json_f64 p k (fu_feature_set_id source) (Some (fu_source_id source)) (fu_columns source) \<or>
    (\<exists>err. interrupted k err \<and> feature_block_filtered json_f64 (reads i) k (fu_feature_set_id source)
      (Some (fu_source_id source)) (fu_columns source) = Inl err)"
  shows "map_res (fusion_block_of_source json_f64 reads k) numbered =
      map_res (fusion_block_of_source json_f64 (\<lambda>_. p) k) numbered \<or>
    (\<exists>err. interrupted k err \<and> map_res (fusion_block_of_source json_f64 reads k) numbered = Inl err)"
proof (induction numbered)
  case (Cons a numbered)
  obtain i source where a: "a = (i, source)" by (cases a)
  consider (same) "fusion_block_of_source json_f64 reads k a = fusion_block_of_source json_f64 (\<lambda>_. p) k a"
    | (stopped) err where "interrupted k err" "fusion_block_of_source json_f64 reads k a = Inl err"
    using assms [of i source] by (auto simp: a fusion_block_of_source_def)
  then show ?case
  proof cases
    case same
    then show ?thesis
      using Cons.IH by (cases "fusion_block_of_source json_f64 (\<lambda>_. p) k a") auto
  next
    case (stopped err)
    then show ?thesis by auto
  qed
qed simp

lemma fusion_first_read:
  assumes "feature_block_filtered json_f64 (reads 0) k = (\<lambda>_ _ _. Inl err)"
  shows "feature_fusion_block json_f64 reads k selector = feature_fusion_block json_f64 (\<lambda>_. reads 0) k selector"
  using assms by (cases "fs_sources selector") (simp_all add: feature_fusion_block_def fusion_block_of_source_def)

text \<open>
  C10. Fusion is as good as atomic. Although it takes the lock once per source and other clients may
  materialize, derive views and release between its reads, fusion answers what it would have answered
  had it read everything at its first moment, unless the view was released or the lock poisoned on the
  way, which it then reports. It never mixes data of two moments.
\<close>

theorem fusion_linearizes:
  assumes "provider_reachable ex S T (reads 0)" and "store_ok S" and "nd_store_ok T"
    and "\<forall>i. (provider_step ex)\<^sup>*\<^sup>* (reads i) (reads (Suc i))"
  shows "feature_fusion_block json_f64 reads k selector = feature_fusion_block json_f64 (\<lambda>_. reads 0) k selector \<or>
    (\<exists>err. interrupted k err \<and> feature_fusion_block json_f64 reads k selector = Inl err)"
proof -
  have wf: "provider_wf ex S T (reads 0)" by (rule provider_reachable_wf [OF assms(1-3)])
  have later: "(provider_step ex)\<^sup>*\<^sup>* (reads 0) (reads i)" for i
    by (induction i) (use assms(4) in \<open>auto intro: rtranclp_trans\<close>)
  show ?thesis
  proof (cases "pv_arenas (reads 0)")
    case None
    then show ?thesis by (intro disjI1 fusion_first_read) (simp add: feature_block_filtered_def fun_eq_iff)
  next
    case (Some s)
    show ?thesis
    proof (cases "view_record (pa_handles s) k")
      case None
      then show ?thesis
        using Some
        by (intro disjI1 fusion_first_read) (simp add: feature_block_filtered_def fun_eq_iff view_context_dead)
    next
      case view: (Some vr)
      from fusion_reads [of json_f64 reads k "reads 0" "List.enumerate 0 (fs_sources selector)",
          OF later_read [OF wf later Some view]]
      show ?thesis by (auto simp: feature_fusion_block_def)
    qed
  qed
qed

end
