(* ===== verification/Provider_Demo.thy ===== *)
theory Provider_Demo
  imports Provider_Fusion Sample_Campaign
begin

text \<open>
  The campaign of \<open>Sample_Campaign\<close> served by a provider: one buffer of spectra over the two training
  rows, a handle materialized for a fit, a view of it, and its release.
\<close>

section \<open>The provider\<close>

definition demo_spectra :: feature_buffer where
  "demo_spectra =
     \<lparr>nb_feature_set_id = ''x'', nb_representation_id = Ident ''spectra'', nb_feature_names = [''w''],
      nb_observation_ids = [Ident ''a'', Ident ''b''], nb_columns = [[Some f64_zero, None]],
      nb_row_index = row_index_of [Ident ''a'', Ident ''b'']\<rparr>"

definition demo_features :: buffer_store where
  "demo_features = [(''x'', demo_spectra)]"

definition demo_handles0 :: handle_arena where
  "demo_handles0 =
     \<lparr>ha_owner_controller = default_owner_controller, ha_next_handle = 1, ha_records = [],
      ha_data_relations = [], ha_view_records = [], ha_view_relations = []\<rparr>"

definition demo_provider0 :: provider where
  "demo_provider0 =
     \<lparr>pv_arenas = Some \<lparr>pa_handles = demo_handles0, pa_features = buffer_arena_new demo_features,
                      pa_nd_tensors = nd_arena_new []\<rparr>,
      pv_envelope = demo_envelope, pv_target_tables = []\<rparr>"

definition demo_record :: data_handle_record where
  "demo_record = minted_record demo_envelope demo_request demo_handles0 (Some two_relations)"

definition demo_handles1 :: handle_arena where
  "demo_handles1 = with_data demo_handles0 demo_record (Some two_relations)"

definition demo_view :: view_handle_record where
  "demo_view = minted_view demo_handles1 demo_record default_view (rs_records two_relations)"

definition demo_handles2 :: handle_arena where
  "demo_handles2 = with_view demo_handles1 demo_view (rs_records two_relations)"

definition demo_provider1 :: provider where
  "demo_provider1 = snd (provider_materialize demo_external demo_request demo_provider0)"

definition demo_provider2 :: provider where
  "demo_provider2 = snd (provider_make_view demo_external 1 default_view demo_provider1)"

definition demo_provider3 :: provider where
  "demo_provider3 = snd (provider_release 1 demo_provider2)"

lemma demo_features_ok: "store_ok demo_features" "nd_store_ok []"
proof -
  have "buffer_ok demo_spectra"
    by (simp add: demo_spectra_def buffer_ok_def is_blank_graphic is_ascii_graphic_def byte_of_def)
  then show "store_ok demo_features"
    by (simp add: store_ok_def demo_features_def bt_wf_def) (simp add: demo_spectra_def)
qed (simp add: nd_store_ok_def bt_wf_def)

lemma demo_handles1_lookup:
  "map_of (ha_records demo_handles1) 1 = Some demo_record"
  "map_of (ha_data_relations demo_handles1) 1 = Some two_relations"
  "ha_next_handle demo_handles1 = 2"
  by (simp_all add: demo_handles1_def with_data_def map_of_bt_insert)
    (simp_all add: demo_handles0_def)

lemma demo_minted:
  "materialize demo_external demo_envelope demo_request demo_handles0 = Inr (demo_record, demo_handles1)"
  using demo_materialize by (simp add: materialize_iff demo_authority scope_def demo_record_def demo_handles1_def)
    (simp add: demo_request_def)

lemma demo_viewed:
  "make_view demo_external 1 default_view demo_handles1 = Inr (demo_view, demo_handles2)"
proof -
  have "selected_by_view demo_external default_view [] two_relations = rs_records two_relations"
    by (simp add: selected_by_view_def label_matches_def two_relations_def)
  moreover have "\<exists>x\<in>set (rs_records two_relations). label_matches [] x \<and> view_matches demo_external default_view x"
    by (simp add: two_relations_def label_matches_def)
  ultimately show ?thesis
    by (simp add: make_view_ok demo_handles1_lookup demo_view_def demo_handles2_def)
qed

lemma demo_handles2_lookup:
  "handle_record demo_handles2 1 = Some demo_record" "view_record demo_handles2 2 = Some demo_view"
  "data_identity demo_handles2 1 = Inr two_relations" "view_identity demo_handles2 2 = Inr two_relations"
  "vh_parent_handle demo_view = dh_handle demo_record" "hr_handle (dh_handle demo_record) = 1"
  "dh_output_representation demo_record = Ident ''spectra''" "vh_view demo_view = default_view"
proof -
  have "ha_records demo_handles2 = ha_records demo_handles1"
      "ha_data_relations demo_handles2 = ha_data_relations demo_handles1"
      "map_of (ha_view_records demo_handles2) 2 = Some demo_view"
      "map_of (ha_view_relations demo_handles2) 2 = Some two_relations"
    by (simp_all add: demo_handles2_def with_view_def map_of_bt_insert demo_handles1_lookup)
  then show "handle_record demo_handles2 1 = Some demo_record" "view_record demo_handles2 2 = Some demo_view"
      "data_identity demo_handles2 1 = Inr two_relations" "view_identity demo_handles2 2 = Inr two_relations"
    by (simp_all add: handle_record_def view_record_def data_identity_def view_identity_def demo_handles1_lookup)
  show "vh_parent_handle demo_view = dh_handle demo_record" "vh_view demo_view = default_view"
    by (simp_all add: demo_view_def minted_view_def)
  show "hr_handle (dh_handle demo_record) = 1" "dh_output_representation demo_record = Ident ''spectra''"
    by (simp_all add: demo_record_def minted_record_def demo_handles0_def demo_request_def)
qed

lemma demo_provider0_reachable: "provider_reachable demo_external demo_features [] demo_provider0"
proof (rule provider_fresh)
  have "arena_new default_owner_controller = Inr demo_handles0"
    by (simp add: arena_new_def demo_handles0_def default_owner_controller_def validate_non_empty_def
        is_blank_graphic is_ascii_graphic_def byte_of_def)
  moreover have "envelope_validate demo_external demo_envelope = Inr ()"
    by (simp add: envelope_validate_ok demo_envelope_ok)
  ultimately show "provider_new_with_tensors demo_external demo_envelope [] demo_features [] = Inr demo_provider0"
    by (simp add: provider_new_with_tensors_def demo_provider0_def)
qed

lemmas demo_provider0_wf = provider_reachable_wf [OF demo_provider0_reachable demo_features_ok]

lemma demo_provider0_arenas:
  "pv_envelope demo_provider0 = demo_envelope" "pv_target_tables demo_provider0 = []"
  "\<exists>s. pv_arenas demo_provider0 = Some s \<and> pa_handles s = demo_handles0"
  by (simp_all add: demo_provider0_def)

lemma demo_provider1:
  "provider_materialize demo_external demo_request demo_provider0 = (Inr demo_record, demo_provider1)"
  "\<exists>s. pv_arenas demo_provider1 = Some s \<and> pa_handles s = demo_handles1"
  "provider_reachable demo_external demo_features [] demo_provider1"
proof -
  obtain s where s: "pv_arenas demo_provider0 = Some s" "pa_handles s = demo_handles0"
    using demo_provider0_arenas by blast
  show made: "provider_materialize demo_external demo_request demo_provider0 = (Inr demo_record, demo_provider1)"
      "\<exists>s. pv_arenas demo_provider1 = Some s \<and> pa_handles s = demo_handles1"
    using provider_materialize_eq [OF demo_provider0_wf s(1), of demo_request] demo_minted
    by (auto simp: s demo_provider0_arenas demo_provider1_def)
  show "provider_reachable demo_external demo_features [] demo_provider1"
    by (rule provider_next [OF demo_provider0_reachable], rule provider_materializes [OF _ made(1)])
      (use s in \<open>simp add: demo_handles0_def\<close>)
qed

lemmas demo_provider1_wf = provider_reachable_wf [OF demo_provider1(3) demo_features_ok]

lemma demo_provider2:
  "provider_step demo_external demo_provider1 demo_provider2"
  "\<exists>s. pv_arenas demo_provider2 = Some s \<and> pa_handles s = demo_handles2"
  "provider_reachable demo_external demo_features [] demo_provider2"
proof -
  obtain s where s: "pv_arenas demo_provider1 = Some s" "pa_handles s = demo_handles1"
    using demo_provider1(2) by blast
  have made: "provider_make_view demo_external 1 default_view demo_provider1 = (Inr demo_view, demo_provider2)"
      "\<exists>s. pv_arenas demo_provider2 = Some s \<and> pa_handles s = demo_handles2"
    using provider_make_view_eq [OF demo_provider1_wf s(1), of 1 default_view] demo_viewed
    by (auto simp: s demo_provider2_def)
  show "\<exists>s. pv_arenas demo_provider2 = Some s \<and> pa_handles s = demo_handles2" by (rule made(2))
  show step: "provider_step demo_external demo_provider1 demo_provider2"
    by (rule provider_makes_view [OF _ made(1)]) (use s in \<open>simp add: demo_handles1_lookup\<close>)
  show "provider_reachable demo_external demo_features [] demo_provider2"
    by (rule provider_next [OF demo_provider1(3) step])
qed

lemmas demo_provider2_wf = provider_reachable_wf [OF demo_provider2(3) demo_features_ok]

lemma demo_provider3:
  "provider_release 1 demo_provider2 = (True, demo_provider3)" "pv_arenas demo_provider3 \<noteq> None"
proof -
  obtain s where s: "pv_arenas demo_provider2 = Some s" "pa_handles s = demo_handles2"
    using demo_provider2(2) by blast
  moreover have "1 \<in> live_handles demo_handles2"
    using demo_handles2_lookup(1) by (auto simp: live_handles_def handle_record_def)
  ultimately show "provider_release 1 demo_provider2 = (True, demo_provider3)" "pv_arenas demo_provider3 \<noteq> None"
    using provider_release_eq [OF demo_provider2_wf s(1), of 1] by (auto simp: demo_provider3_def)
qed

section \<open>Witnesses\<close>

lemma demo_spectra_bound:
  "bound two_relations (Ident ''spectra'') demo_spectra" "relation_sources two_relations = []"
  "covered_sources demo_spectra two_relations = []"
proof -
  show sources: "relation_sources two_relations = []"
    by (simp add: relation_sources_def two_relations_def relation_new_def List.map_filter_def)
  then show "covered_sources demo_spectra two_relations = []" by (simp add: covered_sources_def)
  have "buffer_ok demo_spectra" using demo_features_ok(1) by (simp add: store_ok_def demo_features_def)
  then have "covers demo_spectra (rs_records two_relations)"
    by (simp add: covers_def contains_observation_ok)
      (simp add: two_relations_def relation_new_def demo_spectra_def)
  then show "bound two_relations (Ident ''spectra'') demo_spectra"
    by (simp add: bound_def sources) (simp add: demo_spectra_def)
qed

theorem bindings_follow_handles_witness:
  "data_feature_buffer_bindings demo_provider2 1 = Inr [describe sample_digest demo_spectra []] \<and>
   data_nd_tensor_bindings demo_provider2 1 = Inr []"
proof -
  obtain s where s: "pv_arenas demo_provider2 = Some s" "pa_handles s = demo_handles2"
    using demo_provider2(2) by blast
  show ?thesis
    using bindings_follow_handles [OF demo_provider2(3) demo_features_ok s(1), of 1]
    by (simp add: s(2) demo_handles2_lookup demo_features_def demo_spectra_bound)
qed

theorem materialize_all_or_nothing_witness:
  "fst (provider_materialize demo_external demo_request demo_provider0) = Inr demo_record"
proof -
  obtain s where s: "pv_arenas demo_provider0 = Some s" "pa_handles s = demo_handles0"
    using demo_provider0_arenas by blast
  show ?thesis
    using materialize_all_or_nothing [OF demo_provider0_reachable demo_features_ok s(1), of demo_request]
    by (simp add: s(2) demo_provider0_arenas demo_minted)
qed

lemma demo_projectable: "projectable demo_spectra two_relations None None"
  using two_relations_ok
  by (simp add: projectable_def chosen_columns_def of_source_def)
    (simp add: demo_spectra_def two_relations_def relation_new_def)

lemma demo_no_columns: "effective_columns default_view None None = None"
  by (simp add: effective_columns_def default_view_def)

theorem feature_block_served_witness:
  "feature_block_filtered (\<lambda>_. JNull) demo_provider2 2 ''x'' None None =
     Inr (projected_block (\<lambda>_. JNull) demo_spectra two_relations None None)"
proof -
  obtain s where s: "pv_arenas demo_provider2 = Some s" "pa_handles s = demo_handles2"
    using demo_provider2(2) by blast
  show ?thesis
    using feature_block_served [OF demo_provider2(3) demo_features_ok s(1), of 2 demo_view demo_record two_relations
        two_relations "\<lambda>_. JNull" "''x''" None None]
      demo_spectra_bound demo_projectable
    by (simp add: s(2) demo_handles2_lookup demo_no_columns demo_features_def)
qed

theorem served_blocks_avoid_test_cohort_witness:
  "serves_sample demo_provider2 2 (Ident ''s'') \<and>
   Ident ''s'' \<noteq> cr_sample_id (relation_new (Ident ''x'') (Ident ''v'')) \<and>
   cr_origin_sample_id (relation_new (Ident ''x'') (Ident ''v'')) \<noteq> Some (Ident ''s'')"
proof -
  obtain s0 where s0: "pv_arenas demo_provider0 = Some s0" "pa_handles s0 = demo_handles0"
    using demo_provider0_arenas by blast
  obtain s2 where s2: "pv_arenas demo_provider2 = Some s2" "pa_handles s2 = demo_handles2"
    using demo_provider2(2) by blast
  have block: "feature_block_filtered (\<lambda>_. JNull) demo_provider2 2 ''x'' None None =
      Inr (projected_block (\<lambda>_. JNull) demo_spectra two_relations None None)"
    using feature_block_lemma [OF demo_provider2_wf s2(1), of 2 demo_view demo_record two_relations
        two_relations "\<lambda>_. JNull" "''x''" None None]
      demo_spectra_bound demo_projectable
    by (simp add: s2(2) demo_handles2_lookup demo_no_columns demo_features_def)
  have served: "serves_sample demo_provider2 2 (Ident ''s'')"
    by (rule in_feature_block [OF block])
      (simp add: projected_block_def of_source_def two_relations_def relation_new_def)
  have "ha_next_handle (pa_handles s0) \<noteq> - 1" by (simp add: s0(2) demo_handles0_def)
  moreover have "view_record (pa_handles s2) 2 = Some demo_view" by (simp add: s2(2) demo_handles2_lookup)
  moreover have "en_predict_cohort (pv_envelope demo_provider0) = Some demo_cohort" "mr_predict_cohort demo_request = None"
    by (simp_all add: demo_provider0_arenas demo_envelope_def demo_request_def)
  moreover have "relation_new (Ident ''x'') (Ident ''v'') \<in> set (rs_records (pc_relations demo_cohort))"
    by (simp add: demo_cohort_valid test_relations_def)
  ultimately show ?thesis
    using served served_blocks_avoid_test_cohort [OF demo_provider0_reachable demo_features_ok s0(1) _ demo_provider1(1)
        r_into_rtranclp [of "provider_step demo_external", OF demo_provider2(1)] s2(1)]
      demo_handles2_lookup(5) demo_cohort_valid(3) demo_training_phase by blast
qed

text \<open>The provider after the first read of a fusion: the parent of the view has been released.\<close>

definition demo_reads :: "nat \<Rightarrow> provider" where
  "demo_reads i = (if i = 0 then demo_provider2 else demo_provider3)"

definition demo_selector :: fusion_selector where
  "demo_selector =
     \<lparr>fs_feature_set_id = ''fused'',
      fs_sources =
        [\<lparr>fu_source_id = Ident ''nir'', fu_feature_set_id = ''x'', fu_columns = None\<rparr>,
         \<lparr>fu_source_id = Ident ''raman'', fu_feature_set_id = ''x'', fu_columns = None\<rparr>],
      fs_alignment = \<lparr>ap_mode = AlignInner, ap_sample_ids = [], ap_masks = []\<rparr>,
      fs_source_layout = None, fs_namespace_columns = True\<rparr>"

theorem released_handle_unknown_everywhere_witness:
  "provider_view_identity demo_provider3 1 = Inl (UnknownHandle ''view'' 1) \<and>
   feature_fusion_block (\<lambda>_. JNull) ((\<lambda>_. demo_provider2)(0 := demo_provider3)) 1 demo_selector =
     Inl (UnknownHandle ''view'' 1) \<and>
   data_feature_buffer_bindings demo_provider3 1 = Inl (UnknownHandle ''data'' 1) \<and>
   \<not> fst (provider_release 1 demo_provider3)"
proof -
  obtain s where s: "pv_arenas demo_provider3 = Some s" using demo_provider3(2) by blast
  have "fs_sources demo_selector \<noteq> []" by (simp add: demo_selector_def)
  then show ?thesis
    using released_handle_unknown_everywhere [OF demo_provider2(3) demo_features_ok demo_provider3(1)
        rtranclp.rtrancl_refl s, where fusion = demo_selector and later = "\<lambda>_. demo_provider2"]
    by simp
qed

theorem fusion_linearizes_witness:
  "feature_fusion_block (\<lambda>_. JNull) demo_reads 2 demo_selector =
     feature_fusion_block (\<lambda>_. JNull) (\<lambda>_. demo_provider2) 2 demo_selector \<or>
   (\<exists>err. interrupted 2 err \<and> feature_fusion_block (\<lambda>_. JNull) demo_reads 2 demo_selector = Inl err)"
proof -
  have "provider_step demo_external demo_provider2 demo_provider3"
    using provider_releases [OF demo_provider3(1)] .
  then have "\<forall>i. (provider_step demo_external)\<^sup>*\<^sup>* (demo_reads i) (demo_reads (Suc i))"
    by (auto simp: demo_reads_def)
  moreover have "demo_reads 0 = demo_provider2" by (simp add: demo_reads_def)
  ultimately show ?thesis
    using fusion_linearizes [of demo_external demo_features "[]" demo_reads "\<lambda>_. JNull" 2 demo_selector]
      demo_provider2(3) demo_features_ok by simp
qed

end
