(* ===== verification/Json_Provider.thy ===== *)
theory Json_Provider
  imports Provider_Demo
begin

text \<open>
  The JSON facade of the provider (\<open>dag-ml-data-provider/src/json.rs\<close>): JSON text in, JSON text out, and
  handles as decimal strings. \<open>serde_json\<close> is the parameter \<open>codecs\<close>, one decoder per type that is read
  and one encoder per type that is written, each failing with its message.
\<close>

section \<open>Handles as decimal strings\<close>

text \<open>
  \<open>str::parse::<u64>\<close>: an optional plus sign, then at least one digit, accumulated with checked
  arithmetic.
\<close>

fun parse_digits :: "nat \<Rightarrow> string \<Rightarrow> nat option" where
  "parse_digits acc [] = Some acc"
| "parse_digits acc (c # cs) =
     (if \<not> is_ascii_digit c then None
      else if 2 ^ 64 \<le> acc * 10 then None
      else if 2 ^ 64 \<le> acc * 10 + (byte_of c - 48) then None
      else parse_digits (acc * 10 + (byte_of c - 48)) cs)"

definition parse_u64 :: "string \<Rightarrow> nat option" where
  "parse_u64 s =
     (case s of
        [] \<Rightarrow> None
      | c # cs \<Rightarrow> if c = CHR ''+'' then if cs = [] then None else parse_digits 0 cs
                else parse_digits 0 s)"

definition parse_handle :: "string \<Rightarrow> u64 res" where
  "parse_handle handle =
     (case parse_u64 handle of
        None \<Rightarrow> invalid ''handle is not a u64 decimal string''
      | Some n \<Rightarrow> Inr (word_of_nat n))"

definition handle_string :: "u64 \<Rightarrow> string" where
  "handle_string h = decimal (unat h)"

section \<open>Reading JSON\<close>

text \<open>\<open>str::trim\<close>, on the groups of bytes that make up the scalar values.\<close>

definition utf8_width :: "char \<Rightarrow> nat" where
  "utf8_width c =
     (if byte_of c < 128 then 1 else if byte_of c < 224 then 2 else if byte_of c < 240 then 3 else 4)"

function utf8_groups :: "string \<Rightarrow> string list" where
  "utf8_groups [] = []"
| "utf8_groups (c # s) =
     (c # take (utf8_width c - 1) s) # utf8_groups (drop (utf8_width c - 1) s)"
  by pat_completeness auto
termination by (relation "measure length") auto

definition trim :: "string \<Rightarrow> string" where
  "trim s = concat (rev (dropWhile is_blank (rev (dropWhile is_blank (utf8_groups s)))))"

type_synonym 'a decoder = "string \<Rightarrow> string + 'a"
type_synonym 'a encoder = "'a \<Rightarrow> string + string"

definition from_str :: "'a decoder \<Rightarrow> string \<Rightarrow> 'a res" where
  "from_str decode s = (case decode s of Inl msg \<Rightarrow> Inl (Serialization msg) | Inr v \<Rightarrow> Inr v)"

definition to_text :: "'a encoder \<Rightarrow> 'a \<Rightarrow> string res" where
  "to_text encode v = (case encode v of Inl msg \<Rightarrow> Inl (Serialization msg) | Inr s \<Rightarrow> Inr s)"

definition parse_json_array :: "'a list decoder \<Rightarrow> string option \<Rightarrow> 'a list res" where
  "parse_json_array decode json_text =
     (case json_text of
        None \<Rightarrow> Inr []
      | Some s \<Rightarrow> if trim s = [] then Inr [] else from_str decode (trim s))"

record matrix_meta =
  mm_feature_set_id :: string
  mm_representation_id :: representation_id
  mm_feature_names :: "string list"
  mm_observation_ids :: "observation_id list"

text \<open>The layout that travels beside the flat values.\<close>

record f64_layout =
  fl_feature_set_id :: string
  fl_representation_id :: representation_id
  fl_feature_names :: "string list"
  fl_sample_ids :: "sample_id list"
  fl_observation_ids :: "observation_id list"
  fl_n_rows :: usize
  fl_n_cols :: usize

record codecs =
  jc_envelope :: "envelope decoder"
  jc_target_tables :: "target_table list decoder"
  jc_feature_tables :: "feature_table list decoder"
  jc_f64_matrices :: "f64_matrix list decoder"
  jc_matrix_meta :: "matrix_meta decoder"
  jc_request :: "materialization_request decoder"
  jc_view :: "data_view decoder"
  jc_collation_request :: "collation_request decoder"
  je_relations :: "relation_set encoder"
  je_target_block :: "target_block encoder"
  je_feature_block :: "feature_block encoder"
  je_f64_layout :: "f64_layout encoder"
  je_tensor_block :: "numeric_tensor_block encoder"
  je_manifests :: "buffer_manifest list encoder"
  je_bindings :: "buffer_binding list encoder"
  jn_number_f64 :: "string \<Rightarrow> f64 option"
  jn_json_f64 :: "f64 \<Rightarrow> json"

definition parse_target_tables ::
  "codecs \<Rightarrow> string option \<Rightarrow> (target_id, target_table) btree_map res"
where
  "parse_target_tables c json_text =
     rbind (parse_json_array (jc_target_tables c) json_text)
       (fold_res
          (\<lambda>by_target table.
             rseq (target_table_validate table)
               (if map_of by_target (tt_target_id table) \<noteq> None then invalid ''duplicate target table''
                else Inr (bt_insert (tt_target_id table) table by_target)))
          [])"

definition parse_feature_store :: "codecs \<Rightarrow> string option \<Rightarrow> string option \<Rightarrow> buffer_store res" where
  "parse_feature_store c feature_tables_json f64_feature_matrices_json =
     rbind (parse_json_array (jc_feature_tables c) feature_tables_json) (\<lambda>tables.
     rbind (parse_json_array (jc_f64_matrices c) f64_feature_matrices_json) (\<lambda>matrices.
       if tables \<noteq> [] \<and> matrices \<noteq> []
       then invalid ''pass at most one of feature_tables or f64_feature_matrices''
       else if tables \<noteq> [] then store_from_feature_tables (jn_number_f64 c) tables
       else if matrices \<noteq> [] then store_from_f64_matrices matrices
       else Inr []))"

section \<open>Construction\<close>

definition from_json ::
  "external \<Rightarrow> codecs \<Rightarrow> string \<Rightarrow> string option \<Rightarrow> string option \<Rightarrow> string option \<Rightarrow> provider res"
where
  "from_json ex c envelope_json target_tables_json feature_tables_json f64_feature_matrices_json =
     rbind (from_str (jc_envelope c) envelope_json) (\<lambda>e.
     rbind (parse_target_tables c target_tables_json) (\<lambda>target_tables.
     rbind (parse_feature_store c feature_tables_json f64_feature_matrices_json) (\<lambda>feature_store.
       provider_new ex e target_tables feature_store)))"

definition from_json_with_f64_values ::
  "external \<Rightarrow> codecs \<Rightarrow> string \<Rightarrow> string option \<Rightarrow> string \<Rightarrow> f64 list \<Rightarrow> provider res"
where
  "from_json_with_f64_values ex c envelope_json target_tables_json feature_matrix_meta_json vals =
     rbind (from_str (jc_envelope c) envelope_json) (\<lambda>e.
     rbind (parse_target_tables c target_tables_json) (\<lambda>target_tables.
     rbind (from_str (jc_matrix_meta c) feature_matrix_meta_json) (\<lambda>m.
     rbind
       (store_from_f64_matrices
          [\<lparr>fm_feature_set_id = mm_feature_set_id m, fm_representation_id = mm_representation_id m,
            fm_feature_names = mm_feature_names m, fm_observation_ids = mm_observation_ids m,
            fm_values = vals, fm_validity_mask = None\<rparr>])
       (\<lambda>feature_store. provider_new ex e target_tables feature_store))))"

section \<open>Operations\<close>

definition json_materialize ::
  "external \<Rightarrow> codecs \<Rightarrow> string \<Rightarrow> provider \<Rightarrow> string res \<times> provider"
where
  "json_materialize ex c request_json p =
     (case from_str (jc_request c) request_json of
        Inl err \<Rightarrow> (Inl err, p)
      | Inr q \<Rightarrow>
          (let (r, p') = provider_materialize ex q p in
           (rbind r (\<lambda>dr. Inr (handle_string (hr_handle (dh_handle dr)))), p')))"

definition json_make_view ::
  "external \<Rightarrow> codecs \<Rightarrow> string \<Rightarrow> string \<Rightarrow> provider \<Rightarrow> string res \<times> provider"
where
  "json_make_view ex c data_handle view_json p =
     (case from_str (jc_view c) view_json of
        Inl err \<Rightarrow> (Inl err, p)
      | Inr v \<Rightarrow>
          (case parse_handle data_handle of
             Inl err \<Rightarrow> (Inl err, p)
           | Inr h \<Rightarrow>
               (let (r, p') = provider_make_view ex h v p in
                (rbind r (\<lambda>vr. Inr (handle_string (hr_handle (vh_handle vr)))), p'))))"

definition json_view_identity :: "codecs \<Rightarrow> string \<Rightarrow> provider \<Rightarrow> string res" where
  "json_view_identity c view_handle p =
     rbind (parse_handle view_handle) (\<lambda>h.
     rbind (provider_view_identity p h) (to_text (je_relations c)))"

definition json_target_block :: "codecs \<Rightarrow> string \<Rightarrow> string \<Rightarrow> provider \<Rightarrow> string res" where
  "json_target_block c view_handle target_id p =
     rbind (ident_new target_id) (\<lambda>i.
     rbind (parse_handle view_handle) (\<lambda>h.
     rbind (provider_target_block p h i) (to_text (je_target_block c))))"

definition json_feature_block :: "codecs \<Rightarrow> string \<Rightarrow> string \<Rightarrow> provider \<Rightarrow> string res" where
  "json_feature_block c view_handle feature_set_id p =
     rbind (parse_handle view_handle) (\<lambda>h.
     rbind (provider_feature_block (jn_json_f64 c) p h feature_set_id) (to_text (je_feature_block c)))"

definition f64_layout_of :: "feature_block_f64 \<Rightarrow> f64_layout" where
  "f64_layout_of b =
     \<lparr>fl_feature_set_id = ff_feature_set_id b, fl_representation_id = ff_representation_id b,
      fl_feature_names = ff_feature_names b, fl_sample_ids = ff_sample_ids b,
      fl_observation_ids = ff_observation_ids b, fl_n_rows = length (ff_observation_ids b),
      fl_n_cols = length (ff_feature_names b)\<rparr>"

definition json_feature_block_f64 :: "codecs \<Rightarrow> string \<Rightarrow> string \<Rightarrow> provider \<Rightarrow> (string \<times> f64 list) res" where
  "json_feature_block_f64 c view_handle feature_set_id p =
     rbind (parse_handle view_handle) (\<lambda>h.
     rbind (provider_feature_block_f64 p h feature_set_id) (\<lambda>b.
     rbind (to_text (je_f64_layout c) (f64_layout_of b)) (\<lambda>layout_json. Inr (layout_json, ff_values b))))"

text \<open>The collation of a fusion reads the provider once per source; \<open>reads i\<close> is its state then.\<close>

definition json_feature_collation ::
  "codecs \<Rightarrow> (nat \<Rightarrow> bool) \<Rightarrow> string \<Rightarrow> string \<Rightarrow> (nat \<Rightarrow> provider) \<Rightarrow> string res"
where
  "json_feature_collation c can_reserve view_handle selector_json reads =
     rbind (from_str (jc_collation_request c) selector_json) (\<lambda>selector.
     rbind (parse_handle view_handle) (\<lambda>h.
     rbind (feature_collation_block (jn_json_f64 c) reads h selector) (\<lambda>block.
     rbind (collate_feature_block (jn_number_f64 c) can_reserve block (co_policy selector))
       (to_text (je_tensor_block c)))))"

definition json_buffer_manifests :: "(u8 list \<Rightarrow> u8 list) \<Rightarrow> codecs \<Rightarrow> provider \<Rightarrow> string res" where
  "json_buffer_manifests sha256 c p = rbind (provider_buffer_manifests sha256 p) (to_text (je_manifests c))"

definition json_buffer_bindings :: "codecs \<Rightarrow> string \<Rightarrow> provider \<Rightarrow> string res" where
  "json_buffer_bindings c data_handle p =
     rbind (parse_handle data_handle) (\<lambda>h.
     rbind (data_feature_buffer_bindings p h) (to_text (je_bindings c)))"

definition json_release :: "string \<Rightarrow> provider \<Rightarrow> bool res \<times> provider" where
  "json_release handle p =
     (case parse_handle handle of
        Inl err \<Rightarrow> (Inl err, p)
      | Inr h \<Rightarrow> (let (released, p') = provider_release h p in (Inr released, p')))"

section \<open>Handles survive the text\<close>

definition numeral_text :: "string \<Rightarrow> bool" where
  "numeral_text s \<longleftrightarrow> s \<noteq> [] \<and> list_all is_ascii_digit s"

definition without_plus :: "string \<Rightarrow> string" where
  "without_plus s = (case s of c # cs \<Rightarrow> if c = CHR ''+'' then cs else s | [] \<Rightarrow> s)"

lemma decimal_value_from:
  "foldl (\<lambda>v c. 10 * v + (of_char c - 48)) acc s = acc * 10 ^ length s + decimal_value s"
proof (induction s arbitrary: acc)
  case (Cons c s)
  have "decimal_value (c # s) = (of_char c - 48) * 10 ^ length s + decimal_value s"
    using Cons [of "of_char c - 48"] by (simp add: decimal_value_def)
  then show ?case using Cons [of "10 * acc + (of_char c - 48)"] by (simp add: algebra_simps)
qed (simp add: decimal_value_def)

lemma decimal_value_Cons: "decimal_value (c # s) = (of_char c - 48) * 10 ^ length s + decimal_value s"
  using decimal_value_from [of "of_char c - 48" s] by (simp add: decimal_value_def)

lemma parse_digits_ok:
  "acc < 2 ^ 64 \<Longrightarrow> parse_digits acc s = Some n \<longleftrightarrow>
     list_all is_ascii_digit s \<and> n = acc * 10 ^ length s + decimal_value s \<and> n < 2 ^ 64"
proof (induction s arbitrary: acc)
  case Nil
  then show ?case by (auto simp: decimal_value_def)
next
  case (Cons c s)
  let ?acc = "acc * 10 + (byte_of c - 48)"
  have total: "acc * 10 ^ length (c # s) + decimal_value (c # s) = ?acc * 10 ^ length s + decimal_value s"
    by (simp add: decimal_value_Cons byte_of_def algebra_simps)
  have grows: "?acc \<le> ?acc * 10 ^ length s + decimal_value s" by (simp add: trans_le_add1)
  show ?case
  proof (cases "?acc < 2 ^ 64")
    case True
    then show ?thesis unfolding total using Cons.IH [OF True] by auto
  next
    case False
    then show ?thesis unfolding total using grows by auto
  qed
qed

lemma parse_u64_ok:
  "parse_u64 s = Some n \<longleftrightarrow>
     numeral_text (without_plus s) \<and> n = decimal_value (without_plus s) \<and> n < 2 ^ 64"
  using parse_digits_ok [of 0 "without_plus s" n]
  by (cases s) (auto simp: parse_u64_def numeral_text_def without_plus_def)

lemma parse_handle_ok:
  "parse_handle s = Inr h \<longleftrightarrow>
     numeral_text (without_plus s) \<and> decimal_value (without_plus s) = unat h"
proof -
  have "parse_handle s = Inr h \<longleftrightarrow> (\<exists>n. parse_u64 s = Some n \<and> word_of_nat n = h)"
    by (auto simp: parse_handle_def split: option.splits)
  also have "\<dots> \<longleftrightarrow> (\<exists>n. n < 2 ^ 64 \<and> word_of_nat n = h \<and> numeral_text (without_plus s) \<and>
      n = decimal_value (without_plus s))"
    unfolding parse_u64_ok by blast
  also have "\<dots> \<longleftrightarrow> (\<exists>n. n = unat h \<and> numeral_text (without_plus s) \<and> n = decimal_value (without_plus s))"
  proof -
    have "unat h < 2 ^ 64" using unsigned_less [of h, where 'a = nat] by simp
    moreover have "n < 2 ^ 64 \<Longrightarrow> unat (word_of_nat n :: u64) = n" for n
      by (simp add: unsigned_of_nat take_bit_nat_eq_self_iff)
    ultimately show ?thesis by (metis word_unat_eq_iff)
  qed
  finally show ?thesis by auto
qed

lemma decimal_numeral: "numeral_text (decimal n)"
proof (induction n rule: decimal.induct)
  case (1 n)
  have "is_ascii_digit (char_of (48 + n mod 10))"
    by (simp add: is_ascii_digit_def byte_of_def)
  then show ?case using 1 by (subst decimal.simps) (auto simp: numeral_text_def)
qed

lemma decimal_without_plus: "without_plus (decimal n) = decimal n"
proof (cases "decimal n")
  case (Cons c cs)
  then have "is_ascii_digit c" using decimal_numeral [of n] by (simp add: numeral_text_def)
  then have "c \<noteq> CHR ''+''" by (auto simp: is_ascii_digit_def byte_of_def)
  then show ?thesis using Cons by (simp add: without_plus_def)
qed (simp add: without_plus_def)

lemma parse_handle_string: "parse_handle (handle_string h) = Inr h"
  by (simp add: parse_handle_ok handle_string_def decimal_without_plus decimal_numeral)

text \<open>
  Handles survive the text. The string of a handle reads back as that handle, over the whole 64-bit
  range; and a string is accepted exactly if, after at most one plus sign, it is a non-empty run of
  decimal digits whose value fits 64 bits, so overflow, signs, blanks and separators are refused.
\<close>

lemma handle_text_round_trip:
  "parse_handle (handle_string h) = Inr h \<and>
   (parse_handle s = Inr h \<longleftrightarrow>
      numeral_text (without_plus s) \<and> decimal_value (without_plus s) = unat h)"
  using parse_handle_string parse_handle_ok by blast

section \<open>What a facade is built from\<close>

lemma feature_tables_store_ok:
  "store_from_feature_tables number_f64 tables = Inr s \<Longrightarrow> store_ok s"
  unfolding store_from_feature_tables_def
  by (erule store_from_ok [rotated])
    (auto simp: from_feature_table_ok table_buffer_ok, simp add: buffer_of_table_def)

lemma f64_matrices_store_ok: "store_from_f64_matrices matrices = Inr s \<Longrightarrow> store_ok s"
  unfolding store_from_f64_matrices_def
proof (erule store_from_ok [rotated])
  fix m b
  assume built: "from_f64_matrix m = Inr b"
  then have "b = buffer_of_columnar (columnar_of m)" by (simp add: from_f64_matrix_ok from_f64_column_matrix_ok)
  then show "buffer_ok b \<and> nb_feature_set_id b = fm_feature_set_id m"
    using constructed_buffer_ok(2) [OF built] by (simp add: buffer_of_columnar_def columnar_of_def Let_def)
qed

lemma parse_feature_store_ok:
  assumes "parse_feature_store c tables matrices = Inr s"
  shows "store_ok s"
  using assms store_ok_empty
  by (auto simp: parse_feature_store_def rbind_eq_Inr if_Inl_eq_Inr split: if_splits
      intro: feature_tables_store_ok f64_matrices_store_ok)

text \<open>
  Whatever JSON a facade is built from, it holds a well-formed store and a fresh reachable provider,
  so all that is proved of reachable providers holds of every run of the facade.
\<close>

lemma json_provider_reachable:
  assumes "from_json ex c envelope_json targets tables matrices = Inr p \<or>
    from_json_with_f64_values ex c envelope_json targets meta_json vals = Inr p"
  shows "\<exists>S. store_ok S \<and> provider_reachable ex S [] p"
proof -
  obtain e ts S where "store_ok S" "provider_new ex e ts S = Inr p"
    using assms parse_feature_store_ok f64_matrices_store_ok
    unfolding from_json_def from_json_with_f64_values_def rbind_eq_Inr by blast
  then show ?thesis using provider_fresh by (auto simp: provider_new_def)
qed

definition demo_codecs :: codecs where
  "demo_codecs =
     \<lparr>jc_envelope = (\<lambda>s. if s = ''e'' then Inr demo_envelope else Inl ''syntax''),
      jc_target_tables = (\<lambda>_. Inr []), jc_feature_tables = (\<lambda>_. Inr []),
      jc_f64_matrices =
        (\<lambda>_. Inr [\<lparr>fm_feature_set_id = ''x'', fm_representation_id = Ident ''spectra'',
                   fm_feature_names = [''w''], fm_observation_ids = [Ident ''a'', Ident ''b''],
                   fm_values = [f64_zero, f64_zero], fm_validity_mask = None\<rparr>]),
      jc_matrix_meta = (\<lambda>_. Inl ''syntax''), jc_request = (\<lambda>_. Inr demo_request),
      jc_view = (\<lambda>_. Inr default_view), jc_collation_request = (\<lambda>_. Inl ''syntax''),
      je_relations = (\<lambda>_. Inr []), je_target_block = (\<lambda>_. Inr []), je_feature_block = (\<lambda>_. Inr []),
      je_f64_layout = (\<lambda>_. Inr []), je_tensor_block = (\<lambda>_. Inr []), je_manifests = (\<lambda>_. Inr []),
      je_bindings = (\<lambda>_. Inr []), jn_number_f64 = (\<lambda>_. None), jn_json_f64 = (\<lambda>_. JNull)\<rparr>"

theorem json_provider_reachable_witness:
  "\<exists>p S. from_json demo_external demo_codecs ''e'' None (Some '' '') None = Inr p \<and>
     store_ok S \<and> provider_reachable demo_external S [] p"
proof -
  have arena: "arena_new default_owner_controller = Inr demo_handles0"
    by (simp add: arena_new_def demo_handles0_def default_owner_controller_def validate_non_empty_def
        is_blank_graphic is_ascii_graphic_def byte_of_def)
  have blank: "trim '' '' = []" by (simp add: trim_def utf8_width_def byte_of_def is_blank_def chars_def is_whitespace_def)
  have "\<exists>p. from_json demo_external demo_codecs ''e'' None (Some '' '') None = Inr p"
    using demo_envelope_ok
    by (simp add: from_json_def from_str_def demo_codecs_def parse_target_tables_def parse_feature_store_def
        parse_json_array_def provider_new_def provider_new_with_tensors_def envelope_validate_ok [THEN iffD2] blank arena)
  then show ?thesis using json_provider_reachable by blast
qed

end
