(* ===== verification/Borrowed_Views.thy ===== *)
theory Borrowed_Views
  imports Nd_Gather
begin

text \<open>
  What the C ABI reads from the memory of its host (\<open>dag-ml-data-capi/src/lib.rs\<close>): byte and number
  views, feature matrices in two layouts, and tensors with byte strides. A host pointer is null or gives
  the elements that the host has made readable behind it; \<open>slice::from_raw_parts\<close> past them would be
  undefined behaviour, so it is an error value of its own, shown not to occur for a host that keeps
  its side of the contract.
\<close>

section \<open>Host memory\<close>

type_synonym 'a host_ptr = "'a list option"

definition undefined_behaviour :: data_error where
  "undefined_behaviour = Validation ''undefined behaviour: read outside the memory of the host''"

definition raw_slice :: "'a host_ptr \<Rightarrow> usize \<Rightarrow> 'a list res" where
  "raw_slice p n =
     (case p of
        None \<Rightarrow> Inl undefined_behaviour
      | Some xs \<Rightarrow> if n \<le> length xs then Inr (take n xs) else Inl undefined_behaviour)"

record bytes_view =
  bv_ptr :: "u8 host_ptr"
  bv_len :: usize

record matrix_view =
  mv_feature_set_id :: bytes_view
  mv_representation_id :: bytes_view
  mv_feature_names :: "bytes_view host_ptr"
  mv_feature_names_len :: usize
  mv_observation_ids :: "bytes_view host_ptr"
  mv_observation_ids_len :: usize
  mv_values :: "f64 host_ptr"
  mv_values_len :: usize
  mv_validity_mask :: "u8 host_ptr"
  mv_validity_mask_len :: usize

record column_view =
  cv_values :: "f64 host_ptr"
  cv_values_len :: usize
  cv_validity_mask :: "u8 host_ptr"
  cv_validity_mask_len :: usize

record columnar_view =
  lv_feature_set_id :: bytes_view
  lv_representation_id :: bytes_view
  lv_feature_names :: "bytes_view host_ptr"
  lv_feature_names_len :: usize
  lv_observation_ids :: "bytes_view host_ptr"
  lv_observation_ids_len :: usize
  lv_columns :: "column_view host_ptr"
  lv_columns_len :: usize

record tensor_view =
  tw_abi_version :: u32
  tw_tensor_id :: bytes_view
  tw_representation_id :: bytes_view
  tw_container :: bytes_view
  tw_dtype :: u32
  tw_data :: "u8 host_ptr"
  tw_data_len :: usize
  tw_shape :: "usize host_ptr"
  tw_strides_bytes :: "int host_ptr"
  tw_rank :: usize
  tw_observation_ids :: "bytes_view host_ptr"
  tw_sample_ids :: "bytes_view host_ptr"
  tw_ids_len :: usize
  tw_row_presence_mask :: "u8 host_ptr"
  tw_row_presence_len :: usize

section \<open>Bytes, strings and numbers\<close>

definition bytes_view_to_string :: "bytes_view \<Rightarrow> string res" where
  "bytes_view_to_string v =
     (if bv_ptr v = None then invalid ''pointer is null''
      else
        rbind (raw_slice (bv_ptr v) (bv_len v)) (\<lambda>bytes.
          if utf8_valid bytes then Inr (string_of_bytes bytes) else invalid ''is not valid UTF-8''))"

definition bytes_view_array_to_strings :: "bytes_view host_ptr \<Rightarrow> usize \<Rightarrow> string list res" where
  "bytes_view_array_to_strings p len =
     (if p = None then (if len \<noteq> 0 then invalid ''pointer is null'' else Inr [])
      else rbind (raw_slice p len) (map_res bytes_view_to_string))"

definition f64_view_to_vec :: "f64 host_ptr \<Rightarrow> usize \<Rightarrow> f64 list res" where
  "f64_view_to_vec p len =
     (if p = None then (if len \<noteq> 0 then invalid ''pointer is null'' else Inr [])
      else raw_slice p len)"

definition mask_flag :: "u8 \<Rightarrow> bool res" where
  "mask_flag b = (if b = 0 then Inr False else if b = 1 then Inr True else invalid ''must be 0 or 1'')"

definition u8_validity_mask_to_vec :: "u8 host_ptr \<Rightarrow> usize \<Rightarrow> bool list option res" where
  "u8_validity_mask_to_vec p len =
     (if p = None then (if len \<noteq> 0 then invalid ''pointer is null'' else Inr None)
      else if len = 0 then Inr None
      else
        rbind (raw_slice p len) (\<lambda>bytes.
        rbind (map_res mask_flag bytes) (\<lambda>flags. Inr (Some flags))))"

section \<open>Feature matrices\<close>

definition f64_feature_matrix_view_to_core :: "matrix_view \<Rightarrow> f64_matrix res" where
  "f64_feature_matrix_view_to_core v =
     rbind (bytes_view_to_string (mv_feature_set_id v)) (\<lambda>feature_set_id.
     rbind (bytes_view_to_string (mv_representation_id v)) (\<lambda>representation.
     rbind (ident_new representation) (\<lambda>representation_id.
     rbind (bytes_view_array_to_strings (mv_feature_names v) (mv_feature_names_len v)) (\<lambda>feature_names.
     rbind
       (rbind (bytes_view_array_to_strings (mv_observation_ids v) (mv_observation_ids_len v))
          (map_res ident_new)) (\<lambda>observation_ids.
     rbind (f64_view_to_vec (mv_values v) (mv_values_len v)) (\<lambda>vals.
     rbind (u8_validity_mask_to_vec (mv_validity_mask v) (mv_validity_mask_len v)) (\<lambda>validity_mask.
       Inr \<lparr>fm_feature_set_id = feature_set_id, fm_representation_id = representation_id,
            fm_feature_names = feature_names, fm_observation_ids = observation_ids, fm_values = vals,
            fm_validity_mask = validity_mask\<rparr>)))))))"

definition parse_f64_feature_matrix_views :: "matrix_view host_ptr \<Rightarrow> usize \<Rightarrow> buffer_store res" where
  "parse_f64_feature_matrix_views p len =
     (if p = None
      then (if len \<noteq> 0 then invalid ''f64 feature matrix views pointer is null'' else Inr [])
      else if len = 0 then Inr []
      else
        rbind (raw_slice p len) (\<lambda>views.
        rbind (map_res f64_feature_matrix_view_to_core views) store_from_f64_matrices))"

text \<open>One column with its mask; a column without a mask has the empty one.\<close>

definition column_parts :: "column_view \<Rightarrow> (f64 list \<times> bool list option) res" where
  "column_parts c =
     rbind (f64_view_to_vec (cv_values c) (cv_values_len c)) (\<lambda>vals.
     rbind (u8_validity_mask_to_vec (cv_validity_mask c) (cv_validity_mask_len c)) (\<lambda>mask.
       Inr (vals, mask)))"

definition f64_column_views_to_vecs ::
  "column_view host_ptr \<Rightarrow> usize \<Rightarrow> (f64 list list \<times> bool list list option) res"
where
  "f64_column_views_to_vecs p len =
     (if p = None then (if len \<noteq> 0 then invalid ''columns pointer is null'' else Inr ([], None))
      else
        rbind (raw_slice p len) (\<lambda>column_views.
        rbind (map_res column_parts column_views) (\<lambda>parts.
          (let columns = map fst parts;
               masks = map (\<lambda>(_, mask). case mask of Some m \<Rightarrow> m | None \<Rightarrow> []) parts;
               any_mask = list_ex (\<lambda>(_, mask). mask \<noteq> None) parts
           in
           if any_mask
           then
             rseq
               (each_res
                  (\<lambda>(mask, column).
                     if mask = [] then invalid ''validity_mask is missing but other columns supply one''
                     else if length mask \<noteq> length column then invalid ''validity_mask rows'' else Inr ())
                  (zip masks columns))
               (Inr (columns, Some masks))
           else Inr (columns, None)))))"

definition f64_feature_matrix_columnar_view_to_core :: "columnar_view \<Rightarrow> f64_columnar res" where
  "f64_feature_matrix_columnar_view_to_core v =
     rbind (bytes_view_to_string (lv_feature_set_id v)) (\<lambda>feature_set_id.
     rbind (bytes_view_to_string (lv_representation_id v)) (\<lambda>representation.
     rbind (ident_new representation) (\<lambda>representation_id.
     rbind (bytes_view_array_to_strings (lv_feature_names v) (lv_feature_names_len v)) (\<lambda>feature_names.
     rbind
       (rbind (bytes_view_array_to_strings (lv_observation_ids v) (lv_observation_ids_len v))
          (map_res ident_new)) (\<lambda>observation_ids.
     rbind (f64_column_views_to_vecs (lv_columns v) (lv_columns_len v)) (\<lambda>(columns, validity_masks).
       Inr \<lparr>fc_feature_set_id = feature_set_id, fc_representation_id = representation_id,
            fc_feature_names = feature_names, fc_observation_ids = observation_ids,
            fc_columns = columns, fc_validity_masks = validity_masks\<rparr>))))))"

definition parse_f64_feature_matrix_columnar_views ::
  "columnar_view host_ptr \<Rightarrow> usize \<Rightarrow> buffer_store res"
where
  "parse_f64_feature_matrix_columnar_views p len =
     (if p = None
      then (if len \<noteq> 0 then invalid ''f64 columnar feature matrix views pointer is null'' else Inr [])
      else if len = 0 then Inr []
      else
        rbind (raw_slice p len) (\<lambda>views.
        rbind (map_res f64_feature_matrix_columnar_view_to_core views) store_from_f64_column_matrices))"

section \<open>Strided tensors\<close>

definition isize_max :: usize where
  "isize_max = 2 ^ 63 - 1"

definition dtype_from_code :: "u32 \<Rightarrow> nd_dtype res" where
  "dtype_from_code c =
     (if c = 0 then Inr DF64 else if c = 1 then Inr DF32 else if c = 2 then Inr DU8
      else if c = 3 then Inr DI32 else if c = 4 then Inr DBool
      else invalid ''unknown tensor dtype code'')"

definition borrowed_tensor_view_abi_version :: u32 where
  "borrowed_tensor_view_abi_version = 1"

definition checked_product :: "usize list \<Rightarrow> usize res" where
  "checked_product =
     fold_res
       (\<lambda>product dim. ok_or (checked_mul product dim) (Validation ''shape product overflows usize'')) 1"

definition ensure_addressable :: "usize \<Rightarrow> unit res" where
  "ensure_addressable len = (if isize_max < len then invalid ''byte length exceeds isize::MAX'' else Inr ())"

definition positive_stride :: "int \<Rightarrow> usize res" where
  "positive_stride stride = (if stride \<le> 0 then invalid ''non-positive byte stride'' else Inr (nat stride))"

text \<open>One axis of the loop that finds the highest offset.\<close>

definition span_step :: "usize \<Rightarrow> usize \<times> usize \<Rightarrow> usize res" where
  "span_step max_offset axis =
     (let (dim, stride) = axis in
      rbind (ok_or (checked_mul (dim - 1) stride) (Validation ''stride span overflows usize'')) (\<lambda>span.
        ok_or (checked_add max_offset span) (Validation ''stride offset overflows usize'')))"

text \<open>Unchecked arithmetic on \<open>usize\<close>, which wraps in a release build.\<close>

definition wrapping :: "nat \<Rightarrow> usize" where
  "wrapping n = n mod 2 ^ 64"

text \<open>
  The inner loop: the row-major position \<open>flat\<close> is taken apart from the last axis to the first, and the
  byte offset accumulated.
\<close>

definition offset_step :: "usize \<times> usize \<Rightarrow> usize \<times> usize \<Rightarrow> usize \<times> usize" where
  "offset_step axis st =
     (let (dim, stride) = axis; (remainder, offset) = st in
      (remainder div dim, wrapping (offset + wrapping (remainder mod dim * stride))))"

definition flat_offset :: "(usize \<times> usize) list \<Rightarrow> usize \<Rightarrow> usize" where
  "flat_offset axes flat = snd (fold offset_step (rev axes) (flat, 0))"

text \<open>\<open>Vec::with_capacity\<close> for bytes panics above \<open>isize::MAX\<close>; across the C boundary that ends the process.\<close>

definition capacity_overflow :: data_error where
  "capacity_overflow = Validation ''panic: capacity overflow''"

definition vec_with_capacity :: "usize \<Rightarrow> u8 list res" where
  "vec_with_capacity n = (if isize_max < n then Inl capacity_overflow else Inr [])"

definition gather_strided_tensor ::
  "tensor_view \<Rightarrow> usize list \<Rightarrow> usize \<Rightarrow> usize \<Rightarrow> usize \<Rightarrow> u8 list res"
where
  "gather_strided_tensor v shape es total_elements canonical_bytes =
     rbind (raw_slice (tw_strides_bytes v) (tw_rank v)) (\<lambda>strides.
     rbind (map_res positive_stride strides) (\<lambda>strides_usize.
     rbind (fold_res span_step 0 (zip shape strides_usize)) (\<lambda>max_offset.
     rbind (ok_or (checked_add max_offset es) (Validation ''addressed byte overflows usize'')) (\<lambda>max_byte.
       if tw_data_len v < max_byte then invalid ''strided data''
       else
         rseq (ensure_addressable max_byte)
           (rbind (raw_slice (tw_data v) max_byte) (\<lambda>data.
            rbind (vec_with_capacity canonical_bytes) (\<lambda>canonical.
            rbind
              (map_res
                 (\<lambda>flat.
                    (let offset = flat_offset (zip shape strides_usize) flat in
                     bytes_slice data offset (offset + es)))
                 [0..<total_elements])
              (\<lambda>chunks. Inr (canonical @ concat chunks)))))))))"

text \<open>The payload in canonical row-major order.\<close>

definition tensor_payload ::
  "tensor_view \<Rightarrow> usize list \<Rightarrow> usize \<Rightarrow> usize \<Rightarrow> usize \<Rightarrow> u8 list res"
where
  "tensor_payload v shape es total_elements canonical_bytes =
     (if tw_data v = None then invalid ''data pointer is null''
      else if tw_strides_bytes v = None
      then
        if tw_data_len v \<noteq> canonical_bytes then invalid ''contiguous data bytes''
        else rseq (ensure_addressable canonical_bytes) (raw_slice (tw_data v) canonical_bytes)
      else gather_strided_tensor v shape es total_elements canonical_bytes)"

definition presence_flag :: "u8 \<Rightarrow> bool res" where
  "presence_flag b = (if b > 1 then invalid ''row presence mask byte is not 0 or 1'' else Inr (b = 1))"

definition borrowed_tensor_view_to_input :: "tensor_view \<Rightarrow> nd_input res" where
  "borrowed_tensor_view_to_input v =
     (if tw_abi_version v \<noteq> borrowed_tensor_view_abi_version then invalid ''abi_version''
      else
     rbind (bytes_view_to_string (tw_tensor_id v)) (\<lambda>tensor_id.
     rbind (bytes_view_to_string (tw_representation_id v)) (\<lambda>representation.
     rbind (ident_new representation) (\<lambda>representation_id.
     rbind (bytes_view_to_string (tw_container v)) (\<lambda>container.
     rbind (dtype_from_code (tw_dtype v)) (\<lambda>dtype.
       if tw_rank v = 0 \<or> tw_rank v > nd_tensor_max_rank then invalid ''rank''
       else if tw_shape v = None then invalid ''shape pointer is null''
       else
     rbind (raw_slice (tw_shape v) (tw_rank v)) (\<lambda>shape.
       if 0 \<in> set shape then invalid ''zero dimension in shape''
       else if shape ! 0 \<noteq> tw_ids_len v then invalid ''axis-0 size does not match ids_len''
       else
     rbind
       (rbind (bytes_view_array_to_strings (tw_observation_ids v) (tw_ids_len v)) (map_res ident_new))
       (\<lambda>observation_ids.
     rbind
       (if tw_sample_ids v = None then Inr None
        else
          rbind
            (rbind (bytes_view_array_to_strings (tw_sample_ids v) (tw_ids_len v)) (map_res ident_new))
            (\<lambda>ids. Inr (Some ids)))
       (\<lambda>sample_ids.
     rbind (checked_product shape) (\<lambda>total_elements.
     rbind (ok_or (checked_mul total_elements (element_size dtype)) (Validation ''byte size overflows usize''))
       (\<lambda>canonical_bytes.
     rbind (tensor_payload v shape (element_size dtype) total_elements canonical_bytes) (\<lambda>data.
     rbind
       (if tw_row_presence_mask v = None
        then (if tw_row_presence_len v \<noteq> 0 then invalid ''row presence mask pointer is null''
              else Inr None)
        else if tw_row_presence_len v \<noteq> shape ! 0 then invalid ''row presence flags for axis-0 size''
        else
          rbind (raw_slice (tw_row_presence_mask v) (tw_row_presence_len v)) (\<lambda>bytes.
          rbind (map_res presence_flag bytes) (\<lambda>flags. Inr (Some flags))))
       (\<lambda>row_presence.
          Inr \<lparr>ndi_tensor_id = tensor_id, ndi_representation_id = representation_id,
               ndi_container = container, ndi_dtype = dtype, ndi_shape = shape,
               ndi_observation_ids = observation_ids, ndi_sample_ids = sample_ids, ndi_data = data,
               ndi_row_presence = row_presence\<rparr>)))))))))))))"

definition parse_borrowed_tensor_views :: "tensor_view host_ptr \<Rightarrow> usize \<Rightarrow> nd_store res" where
  "parse_borrowed_tensor_views p len =
     (if p = None then (if len \<noteq> 0 then invalid ''borrowed tensor views pointer is null'' else Inr [])
      else if len = 0 then Inr []
      else
        rbind (raw_slice p len) (\<lambda>views.
        rbind (map_res borrowed_tensor_view_to_input views) nd_store_from_inputs))"

end
