(* ===== verification/Strided_Gather.thy ===== *)
theory Strided_Gather
  imports Borrowed_Views
begin

text \<open>
  What reading borrowed memory guarantees: the strided gather addresses exactly the byte offsets of the
  coordinates, never wraps and never leaves the range it has checked; a host that keeps its contract
  never causes undefined behaviour; and strides do not change the tensor that is read.
\<close>

section \<open>Offsets\<close>

text \<open>The byte offset of a row-major position: the sum over the axes of coordinate times stride.\<close>

fun strided_offset :: "usize list \<Rightarrow> usize list \<Rightarrow> usize \<Rightarrow> usize" where
  "strided_offset (d # ds) (s # ss) flat =
     (flat div prod_list ds) mod d * s + strided_offset ds ss (flat mod prod_list ds)"
| "strided_offset _ _ _ = 0"

definition max_span :: "usize list \<Rightarrow> usize list \<Rightarrow> usize" where
  "max_span ds ss = (\<Sum>(d, s)\<leftarrow>zip ds ss. (d - 1) * s)"

lemma max_span_simps [simp]:
  "max_span [] ss = 0" "max_span ds [] = 0"
  "max_span (d # ds) (s # ss) = (d - 1) * s + max_span ds ss"
  by (simp_all add: max_span_def)

lemma strided_offset_le: "0 \<notin> set ds \<Longrightarrow> strided_offset ds ss flat \<le> max_span ds ss"
proof (induction ds ss flat rule: strided_offset.induct)
  case (1 d ds s ss flat)
  then have "(flat div prod_list ds) mod d < d" by simp
  then have "(flat div prod_list ds) mod d \<le> d - 1" by linarith
  then have "(flat div prod_list ds) mod d * s \<le> (d - 1) * s" by (rule mult_le_mono1)
  with 1 show ?case by (simp add: add_mono)
qed simp_all

lemma span_fold:
  "fold_res span_step m (zip ds ss) = Inr out \<longleftrightarrow> out = m + max_span ds ss \<and> m + max_span ds ss \<le> usize_max \<or>
     out = m \<and> zip ds ss = []"
proof (induction ds arbitrary: ss m)
  case (Cons d ds)
  show ?case
  proof (cases ss)
    case (Cons s rest)
    have "fold_res span_step m (zip (d # ds) (s # rest)) = Inr out \<longleftrightarrow>
        (d - 1) * s \<le> usize_max \<and> m + (d - 1) * s \<le> usize_max \<and>
        fold_res span_step (m + (d - 1) * s) (zip ds rest) = Inr out"
      by (auto simp: span_step_def rbind_eq_Inr ok_or_eq_Inr checked_mul_Some checked_add_Some)
    then show ?thesis
      using Cons.IH by (auto simp: Cons add.assoc zip_eq_Nil_iff)
  qed auto
qed auto

lemma wrapping_id: "n \<le> usize_max \<Longrightarrow> wrapping n = n"
  by (simp add: wrapping_def usize_max_def)

lemma flat_offset_fold:
  assumes "length ds = length ss" and "0 \<notin> set ds" and "max_span ds ss \<le> usize_max"
  shows "fold offset_step (rev (zip ds ss)) (flat, 0) =
    (flat div prod_list ds, strided_offset ds ss (flat mod prod_list ds))"
  using assms
proof (induction ds ss arbitrary: flat rule: list_induct2)
  case (Cons d ds s ss)
  let ?P = "prod_list ds"
  have bound: "(flat div ?P) mod d * s + strided_offset ds ss (flat mod ?P) \<le> max_span (d # ds) (s # ss)"
    using strided_offset_le [of "d # ds" "s # ss" flat] Cons.prems by simp
  have "(flat mod (d * ?P)) div ?P mod d = flat div ?P mod d" "flat mod (d * ?P) mod ?P = flat mod ?P"
    using prod_list_pos [of ds] Cons.prems(1) by (simp_all add: mult.commute [of d] mod_mult2_eq)
  then have offset: "strided_offset (d # ds) (s # ss) (flat mod (d * ?P)) =
      (flat div ?P) mod d * s + strided_offset ds ss (flat mod ?P)"
    by simp
  have "fold offset_step (rev (zip (d # ds) (s # ss))) (flat, 0) =
      offset_step (d, s) (flat div ?P, strided_offset ds ss (flat mod ?P))"
    using Cons.IH Cons.prems by simp
  also have "\<dots> = (flat div ?P div d, (flat div ?P) mod d * s + strided_offset ds ss (flat mod ?P))"
    using bound Cons.prems(2) by (simp add: offset_step_def wrapping_id add.commute)
  moreover have "flat div (d * ?P) = flat div ?P div d" by (simp add: mult.commute [of d] div_mult2_eq)
  ultimately show ?case by (simp only: prod_list.Cons offset)
qed simp

lemma flat_offset_exact:
  assumes "length ds = length ss" and "0 \<notin> set ds" and "max_span ds ss \<le> usize_max" and "flat < prod_list ds"
  shows "flat_offset (zip ds ss) flat = strided_offset ds ss flat"
  using flat_offset_fold [OF assms(1-3), of flat] assms(4) by (simp add: flat_offset_def)

text \<open>The strides of a contiguous row-major tensor.\<close>

fun row_major_strides :: "usize list \<Rightarrow> usize \<Rightarrow> usize list" where
  "row_major_strides [] es = []"
| "row_major_strides (d # ds) es = prod_list ds * es # row_major_strides ds es"

lemma length_row_major [simp]: "length (row_major_strides ds es) = length ds"
  by (induction ds) auto

lemma row_major_offset:
  "0 \<notin> set ds \<Longrightarrow> flat < prod_list ds \<Longrightarrow> strided_offset ds (row_major_strides ds es) flat = flat * es"
proof (induction ds arbitrary: flat)
  case (Cons d ds)
  let ?P = "prod_list ds"
  have pos: "?P > 0" using Cons.prems(1) by (simp add: prod_list_pos)
  then have "flat div ?P < d" using Cons.prems(2) by (simp add: less_mult_imp_div_less)
  moreover have "strided_offset ds (row_major_strides ds es) (flat mod ?P) = flat mod ?P * es"
    using Cons pos by simp
  ultimately show ?case
    by (simp add: mult.assoc [symmetric] distrib_right [symmetric])
qed simp

lemma row_major_span:
  "0 \<notin> set ds \<Longrightarrow> max_span ds (row_major_strides ds es) + es = prod_list ds * es"
proof (induction ds)
  case (Cons d ds)
  then have "max_span (d # ds) (row_major_strides (d # ds) es) + es = (d - 1) * (prod_list ds * es) + prod_list ds * es"
    by simp
  also have "\<dots> = ((d - 1) + 1) * (prod_list ds * es)" by (simp only: distrib_right mult_1)
  also have "\<dots> = d * prod_list ds * es" using Cons.prems by (simp add: mult.assoc)
  finally show ?case by simp
qed simp

section \<open>The gather\<close>

definition strided_cells :: "usize list \<Rightarrow> usize list \<Rightarrow> usize \<Rightarrow> u8 list \<Rightarrow> u8 list" where
  "strided_cells shape ss es bytes =
     concat (map (\<lambda>flat. take es (drop (strided_offset shape ss flat) bytes)) [0..<prod_list shape])"

text \<open>The strides that a view declares, one per axis.\<close>

definition view_strides :: "tensor_view \<Rightarrow> int list" where
  "view_strides v = (case tw_strides_bytes v of None \<Rightarrow> [] | Some xs \<Rightarrow> take (tw_rank v) xs)"

definition addressed_bytes :: "tensor_view \<Rightarrow> usize list \<Rightarrow> usize \<Rightarrow> usize" where
  "addressed_bytes v shape es = max_span shape (map nat (view_strides v)) + es"

definition gather_ok :: "tensor_view \<Rightarrow> usize list \<Rightarrow> usize \<Rightarrow> bool" where
  "gather_ok v shape es \<longleftrightarrow>
     (\<forall>s\<in>set (view_strides v). 0 < s) \<and> addressed_bytes v shape es \<le> tw_data_len v \<and>
     addressed_bytes v shape es \<le> isize_max \<and> prod_list shape * es \<le> isize_max"

lemma positive_strides_ok:
  "map_res positive_stride xs = Inr out \<longleftrightarrow> (\<forall>s\<in>set xs. 0 < s) \<and> out = map nat xs"
  by (rule map_res_map) (auto simp: positive_stride_def)

lemma isize_le_usize: "n \<le> isize_max \<Longrightarrow> n \<le> usize_max"
  by (simp add: isize_max_def usize_max_def)

lemma gather_lemma:
  assumes "tw_strides_bytes v = Some strides" and "tw_rank v \<le> length strides" and "length shape = tw_rank v"
    and "shape \<noteq> []" and "0 \<notin> set shape" and "tw_data v = Some bytes"
    and "min (tw_data_len v) (addressed_bytes v shape es) \<le> length bytes"
  shows "gather_strided_tensor v shape es (prod_list shape) (prod_list shape * es) =
      Inr out \<longleftrightarrow> gather_ok v shape es \<and> out = strided_cells shape (map nat (view_strides v)) es bytes"
proof -
  let ?ss = "map nat (view_strides v)" and ?max = "addressed_bytes v shape es"
  have len: "length shape = length ?ss" using assms(1-3) by (simp add: view_strides_def)
  have some_axes: "zip shape ?ss \<noteq> []" using assms(4) len by (cases shape; cases ?ss) auto
  have slice: "raw_slice (tw_strides_bytes v) (tw_rank v) = Inr (view_strides v)"
    using assms(1,2) by (simp add: raw_slice_def view_strides_def)
  have chunks: "map_res (\<lambda>flat. let offset = flat_offset (zip shape ?ss) flat in
        bytes_slice (take ?max bytes) offset (offset + es)) [0..<prod_list shape] = Inr cs \<longleftrightarrow>
      cs = map (\<lambda>flat. take es (drop (strided_offset shape ?ss flat) bytes)) [0..<prod_list shape]"
    if "?max \<le> isize_max" "?max \<le> length bytes" for cs
  proof -
    have span: "max_span shape ?ss \<le> usize_max"
      using isize_le_usize [OF that(1)] by (simp add: addressed_bytes_def)
    have "bytes_slice (take ?max bytes) (flat_offset (zip shape ?ss) flat) (flat_offset (zip shape ?ss) flat + es) =
        Inr (take es (drop (strided_offset shape ?ss flat) bytes))" if "flat < prod_list shape" for flat
    proof -
      have "strided_offset shape ?ss flat + es \<le> ?max"
        using strided_offset_le [OF assms(5), of ?ss flat] by (simp add: addressed_bytes_def)
      then show ?thesis
        using flat_offset_exact [OF len assms(5) span that] \<open>?max \<le> length bytes\<close>
        by (simp add: bytes_slice_def drop_take min_absorb1)
    qed
    then have "map_res (\<lambda>flat. let offset = flat_offset (zip shape ?ss) flat in
        bytes_slice (take ?max bytes) offset (offset + es)) [0..<prod_list shape] =
      Inr (map (\<lambda>flat. take es (drop (strided_offset shape ?ss flat) bytes)) [0..<prod_list shape])"
      by (intro map_res_pure) (simp add: Let_def)
    then show ?thesis by auto
  qed
  have span_eq: "fold_res span_step 0 (zip shape ?ss) = Inr m \<longleftrightarrow>
      m = max_span shape ?ss \<and> max_span shape ?ss \<le> usize_max" for m
    using some_axes by (simp add: span_fold)
  have data: "raw_slice (tw_data v) ?max = Inr d \<longleftrightarrow> ?max \<le> length bytes \<and> d = take ?max bytes" for d
    by (auto simp: raw_slice_def assms(6))
  have max: "max_span shape ?ss + es = ?max" by (simp add: addressed_bytes_def)
  have fits: "?max \<le> tw_data_len v \<Longrightarrow> ?max \<le> length bytes" using assms(7) by simp
  have "gather_strided_tensor v shape es (prod_list shape) (prod_list shape * es) = Inr out \<longleftrightarrow>
      (\<forall>s\<in>set (view_strides v). 0 < s) \<and> max_span shape ?ss \<le> usize_max \<and> ?max \<le> usize_max \<and>
      ?max \<le> tw_data_len v \<and> ?max \<le> isize_max \<and> ?max \<le> length bytes \<and>
      prod_list shape * es \<le> isize_max \<and> (\<exists>cs. map_res (\<lambda>flat. let offset = flat_offset (zip shape ?ss) flat in
          bytes_slice (take ?max bytes) offset (offset + es)) [0..<prod_list shape] = Inr cs \<and> out = concat cs)"
    unfolding gather_strided_tensor_def slice rbind_simps rbind_eq_Inr positive_strides_ok
    by (simp add: span_eq ok_or_eq_Inr checked_add_Some max data if_Inl_eq_Inr ensure_addressable_def
        rbind_eq_Inr not_less vec_with_capacity_def) blast
  also have "\<dots> \<longleftrightarrow> gather_ok v shape es \<and> out = strided_cells shape ?ss es bytes"
  proof (cases "?max \<le> isize_max \<and> ?max \<le> length bytes")
    case True
    then have "?max \<le> usize_max" "max_span shape ?ss \<le> usize_max"
      using isize_le_usize [of ?max] max by linarith+
    with True show ?thesis
      unfolding chunks [OF conjunct1 [OF True] conjunct2 [OF True]] gather_ok_def strided_cells_def by blast
  next
    case False
    then show ?thesis using fits by (auto simp: gather_ok_def)
  qed
  finally show ?thesis .
qed

section \<open>A host that keeps its contract\<close>

definition readable :: "'a host_ptr \<Rightarrow> usize \<Rightarrow> bool" where
  "readable p n \<longleftrightarrow> (case p of None \<Rightarrow> True | Some xs \<Rightarrow> n \<le> length xs)"

definition bytes_ok :: "bytes_view \<Rightarrow> bool" where
  "bytes_ok v \<longleftrightarrow> readable (bv_ptr v) (bv_len v)"

definition strings_ok :: "bytes_view host_ptr \<Rightarrow> usize \<Rightarrow> bool" where
  "strings_ok p n \<longleftrightarrow>
     readable p n \<and> (case p of None \<Rightarrow> True | Some vs \<Rightarrow> list_all bytes_ok (take n vs))"

definition tensor_host_ok :: "tensor_view \<Rightarrow> bool" where
  "tensor_host_ok v \<longleftrightarrow>
     bytes_ok (tw_tensor_id v) \<and> bytes_ok (tw_representation_id v) \<and> bytes_ok (tw_container v) \<and>
     readable (tw_data v) (tw_data_len v) \<and> readable (tw_shape v) (tw_rank v) \<and>
     readable (tw_strides_bytes v) (tw_rank v) \<and> strings_ok (tw_observation_ids v) (tw_ids_len v) \<and>
     strings_ok (tw_sample_ids v) (tw_ids_len v) \<and> readable (tw_row_presence_mask v) (tw_row_presence_len v)"

definition matrix_host_ok :: "matrix_view \<Rightarrow> bool" where
  "matrix_host_ok v \<longleftrightarrow>
     bytes_ok (mv_feature_set_id v) \<and> bytes_ok (mv_representation_id v) \<and>
     strings_ok (mv_feature_names v) (mv_feature_names_len v) \<and>
     strings_ok (mv_observation_ids v) (mv_observation_ids_len v) \<and>
     readable (mv_values v) (mv_values_len v) \<and> readable (mv_validity_mask v) (mv_validity_mask_len v)"

definition column_host_ok :: "column_view \<Rightarrow> bool" where
  "column_host_ok c \<longleftrightarrow>
     readable (cv_values c) (cv_values_len c) \<and> readable (cv_validity_mask c) (cv_validity_mask_len c)"

definition columnar_host_ok :: "columnar_view \<Rightarrow> bool" where
  "columnar_host_ok v \<longleftrightarrow>
     bytes_ok (lv_feature_set_id v) \<and> bytes_ok (lv_representation_id v) \<and>
     strings_ok (lv_feature_names v) (lv_feature_names_len v) \<and>
     strings_ok (lv_observation_ids v) (lv_observation_ids_len v) \<and>
     readable (lv_columns v) (lv_columns_len v) \<and>
     (case lv_columns v of None \<Rightarrow> True | Some cs \<Rightarrow> list_all column_host_ok (take (lv_columns_len v) cs))"

text \<open>Neither undefined behaviour nor a slice out of range.\<close>

definition well_defined :: "'a res \<Rightarrow> bool" where
  "well_defined r \<longleftrightarrow> r \<noteq> Inl undefined_behaviour \<and> r \<noteq> Inl slice_panic"

named_theorems defined_intros \<open>results that are well-defined\<close>

lemma well_defined_Inr [defined_intros, simp]: "well_defined (Inr x)"
  by (simp add: well_defined_def)

lemma well_defined_invalid [simp]:
  "well_defined (invalid msg) \<longleftrightarrow> invalid msg \<noteq> (Inl undefined_behaviour :: unit res) \<and>
     invalid msg \<noteq> (Inl slice_panic :: unit res)"
  by (simp add: well_defined_def undefined_behaviour_def slice_panic_def)

lemma well_defined_rbind [defined_intros]:
  "well_defined r \<Longrightarrow> (\<And>x. r = Inr x \<Longrightarrow> well_defined (f x)) \<Longrightarrow> well_defined (rbind r f)"
  by (cases r) (auto simp: well_defined_def)

lemma well_defined_map_res [defined_intros]:
  "(\<And>x. x \<in> set xs \<Longrightarrow> well_defined (f x)) \<Longrightarrow> well_defined (map_res f xs)"
proof (induction xs)
  case (Cons x xs)
  have "well_defined (map_res f xs)" using Cons by simp
  with Cons.prems [of x] show ?case by (auto intro!: well_defined_rbind)
qed simp

lemma well_defined_each_res [defined_intros]:
  "(\<And>x. x \<in> set xs \<Longrightarrow> well_defined (f x)) \<Longrightarrow> well_defined (each_res f xs)"
  by (induction xs) (auto intro!: well_defined_rbind)

lemma well_defined_fold_res [defined_intros]:
  "(\<And>s x. well_defined (f s x)) \<Longrightarrow> well_defined (fold_res f s xs)"
  by (induction xs arbitrary: s) (auto intro!: well_defined_rbind)

lemma well_defined_if [defined_intros]:
  "(b \<Longrightarrow> well_defined r) \<Longrightarrow> (\<not> b \<Longrightarrow> well_defined s) \<Longrightarrow> well_defined (if b then r else s)"
  by simp

lemma well_defined_ok_or [defined_intros]: "well_defined (invalid msg :: unit res) \<Longrightarrow> well_defined (ok_or x (Validation msg))"
  by (cases x) (simp_all add: well_defined_def)

lemma well_defined_ident [defined_intros]: "well_defined (ident_new s)"
  by (simp add: ident_new_def validate_identifier_def well_defined_def undefined_behaviour_def slice_panic_def rbind_eq_Inl)

lemma labels_defined:
  "undefined_behaviour \<noteq> slice_panic"
  by (simp add: undefined_behaviour_def slice_panic_def)

lemma well_defined_slice [defined_intros]: "readable p n \<Longrightarrow> p \<noteq> None \<Longrightarrow> well_defined (raw_slice p n)"
  by (auto simp: readable_def raw_slice_def)

lemma slice_elements: "raw_slice p n = Inr xs \<Longrightarrow> x \<in> set xs \<Longrightarrow> \<exists>ys. p = Some ys \<and> x \<in> set (take n ys)"
  by (auto simp: raw_slice_def split: option.splits if_splits)

lemma well_defined_bytes [defined_intros]: "bytes_ok v \<Longrightarrow> well_defined (bytes_view_to_string v)"
  unfolding bytes_view_to_string_def bytes_ok_def
  by (intro defined_intros) (auto simp: undefined_behaviour_def slice_panic_def)

lemma well_defined_strings [defined_intros]:
  "strings_ok p n \<Longrightarrow> well_defined (bytes_view_array_to_strings p n)"
  unfolding bytes_view_array_to_strings_def strings_ok_def
  by (intro defined_intros)
    (auto simp: undefined_behaviour_def slice_panic_def list_all_iff dest!: slice_elements)

lemma well_defined_f64s [defined_intros]: "readable p n \<Longrightarrow> well_defined (f64_view_to_vec p n)"
  unfolding f64_view_to_vec_def
  by (intro defined_intros) (auto simp: undefined_behaviour_def slice_panic_def)

lemma well_defined_mask [defined_intros]: "readable p n \<Longrightarrow> well_defined (u8_validity_mask_to_vec p n)"
  unfolding u8_validity_mask_to_vec_def mask_flag_def
  by (intro defined_intros) (auto simp: undefined_behaviour_def slice_panic_def)

lemma capacity_defined: "well_defined (vec_with_capacity n)"
  by (simp add: vec_with_capacity_def well_defined_def capacity_overflow_def undefined_behaviour_def slice_panic_def)

text \<open>Every chunk that the gather copies lies in the range that it has checked.\<close>

lemma gather_chunks:
  assumes "length shape = length ss" and "0 \<notin> set shape" and "max_span shape ss + es \<le> usize_max"
    and "max_span shape ss + es \<le> length data"
  shows "map_res (\<lambda>flat. let offset = flat_offset (zip shape ss) flat in bytes_slice data offset (offset + es))
      [0..<prod_list shape] = Inr (map (\<lambda>flat. take es (drop (strided_offset shape ss flat) data)) [0..<prod_list shape])"
proof (rule map_res_pure)
  fix flat
  assume "flat \<in> set [0..<prod_list shape]"
  then have "flat_offset (zip shape ss) flat = strided_offset shape ss flat"
    using flat_offset_exact [OF assms(1,2)] assms(3) by simp
  moreover have "strided_offset shape ss flat + es \<le> length data"
    using strided_offset_le [OF assms(2), of ss flat] assms(4) by linarith
  ultimately show "(let offset = flat_offset (zip shape ss) flat in bytes_slice data offset (offset + es)) =
      Inr (take es (drop (strided_offset shape ss flat) data))"
    by (simp add: bytes_slice_def)
qed

lemma gather_well_defined:
  assumes "readable (tw_strides_bytes v) (tw_rank v)" and "tw_strides_bytes v \<noteq> None"
    and "length shape = tw_rank v" and "shape \<noteq> []" and "0 \<notin> set shape"
    and "readable (tw_data v) (tw_data_len v)" and "tw_data v \<noteq> None"
  shows "well_defined (gather_strided_tensor v shape es (prod_list shape) canonical)"
proof -
  have span_ok: "well_defined (fold_res span_step m axes)" for m axes
    unfolding span_step_def
    by (intro defined_intros) (auto simp: undefined_behaviour_def slice_panic_def split: prod.split intro!: defined_intros)
  have strides_ok: "well_defined (map_res positive_stride xs)" for xs
    unfolding positive_stride_def
    by (intro defined_intros) (auto simp: undefined_behaviour_def slice_panic_def)
  have chunks: "well_defined (map_res (\<lambda>flat. let offset = flat_offset (zip shape ss) flat in
        bytes_slice data offset (offset + es)) [0..<prod_list shape])"
    if "raw_slice (tw_strides_bytes v) (tw_rank v) = Inr strides" "map_res positive_stride strides = Inr ss"
      "fold_res span_step 0 (zip shape ss) = Inr max_offset" "checked_add max_offset es = Some max_byte"
      "raw_slice (tw_data v) max_byte = Inr data" for strides ss max_offset max_byte data
  proof -
    have len: "length shape = length ss"
      using that(1,2) assms(3) map_res_length [OF that(2)] by (auto simp: raw_slice_def split: option.splits if_splits)
    then have "max_offset = max_span shape ss"
      using that(3) assms(4) by (auto simp: span_fold zip_eq_Nil_iff)
    moreover have "length data = max_byte"
      using that(5) by (auto simp: raw_slice_def split: option.splits if_splits)
    ultimately show ?thesis
      using gather_chunks [OF len assms(5), of es data] that(4) by (simp add: checked_add_Some)
  qed
  have data_ok: "well_defined (raw_slice (tw_data v) n)" if "\<not> tw_data_len v < n" for n
    using assms(6,7) that by (auto simp: raw_slice_def readable_def split: option.splits)
  show ?thesis
    unfolding gather_strided_tensor_def ensure_addressable_def
    by (intro well_defined_rbind well_defined_if well_defined_ok_or well_defined_Inr well_defined_slice
        assms(1,2) span_ok strides_ok data_ok)
      (auto simp: undefined_behaviour_def slice_panic_def ok_or_eq_Inr intro!: chunks capacity_defined)
qed

lemma checked_product_ok:
  "checked_product shape = Inr n \<longleftrightarrow> checked_shape_product shape = Inr n"
  by (simp add: checked_product_def checked_shape_product_def)

lemma tensor_view_well_defined:
  assumes "tensor_host_ok v"
  shows "well_defined (borrowed_tensor_view_to_input v)"
proof -
  have host: "bytes_ok (tw_tensor_id v)" "bytes_ok (tw_representation_id v)" "bytes_ok (tw_container v)"
      "readable (tw_data v) (tw_data_len v)" "readable (tw_shape v) (tw_rank v)"
      "readable (tw_strides_bytes v) (tw_rank v)" "strings_ok (tw_observation_ids v) (tw_ids_len v)"
      "strings_ok (tw_sample_ids v) (tw_ids_len v)" "readable (tw_row_presence_mask v) (tw_row_presence_len v)"
    using assms by (simp_all add: tensor_host_ok_def)
  have ready: "readable (Some ys) (tw_data_len v)" if "tw_data v = Some ys" for ys
    using host(4) that by simp
  have label: "well_defined (dtype_from_code c)" "well_defined (presence_flag b)" "well_defined (ensure_addressable n)" for c b n
    by (auto simp: dtype_from_code_def presence_flag_def ensure_addressable_def undefined_behaviour_def
        slice_panic_def)
  have prod: "well_defined (checked_product shape)" for shape
    unfolding checked_product_def by (intro defined_intros) (auto simp: undefined_behaviour_def slice_panic_def)
  have gathered: "well_defined (gather_strided_tensor v shape es n canonical)"
    if "raw_slice (tw_shape v) (tw_rank v) = Inr shape" "0 \<notin> set shape" "\<not> (tw_rank v = 0 \<or> tw_rank v > nd_tensor_max_rank)"
      "checked_product shape = Inr n" "tw_strides_bytes v \<noteq> None" "tw_data v \<noteq> None" for shape es n canonical
  proof -
    have "length shape = tw_rank v" using that(1) by (auto simp: raw_slice_def split: option.splits if_splits)
    moreover from this have "shape \<noteq> []" using that(3) by auto
    moreover have "n = prod_list shape"
      using that(2,4) by (simp add: checked_product_ok shape_product_ok)
    ultimately show ?thesis using gather_well_defined host(4,6) that(2,5,6) by simp
  qed
  show ?thesis
    unfolding borrowed_tensor_view_to_input_def tensor_payload_def
    by (intro defined_intros host label prod)
      (auto simp: undefined_behaviour_def slice_panic_def host simp del: not_None_eq intro: gathered ready)
qed

lemma matrix_view_well_defined:
  assumes "matrix_host_ok v"
  shows "well_defined (f64_feature_matrix_view_to_core v)"
  using assms unfolding matrix_host_ok_def f64_feature_matrix_view_to_core_def
  by (intro defined_intros) simp_all

lemma columns_well_defined:
  assumes "readable p n" and "case p of None \<Rightarrow> True | Some cs \<Rightarrow> list_all column_host_ok (take n cs)"
  shows "well_defined (f64_column_views_to_vecs p n)"
proof -
  have column: "well_defined (column_parts c)" if "column_host_ok c" for c
    using that unfolding column_host_ok_def column_parts_def by (intro defined_intros) simp_all
  have "well_defined (column_parts c)" if "raw_slice p n = Inr cs" "c \<in> set cs" for c cs
    using slice_elements [OF that] assms(2) column by (auto simp: list_all_iff)
  then show ?thesis
    unfolding f64_column_views_to_vecs_def Let_def
    by (intro defined_intros assms(1))
      (auto simp: undefined_behaviour_def slice_panic_def split: prod.split intro!: defined_intros)
qed

lemma columnar_view_well_defined:
  assumes "columnar_host_ok v"
  shows "well_defined (f64_feature_matrix_columnar_view_to_core v)"
  using assms unfolding columnar_host_ok_def f64_feature_matrix_columnar_view_to_core_def
  by (intro defined_intros columns_well_defined) (auto split: prod.split)

text \<open>
  C32. The contract with the host is enough. If every non-null pointer of a view gives at least the
  elements that the view declares, no reading of a tensor view, a matrix view or a columnar view is
  undefined behaviour or slices out of range, whatever ranks, shapes, strides, lengths, codes and bytes
  the host sends.
\<close>

theorem host_contract_suffices:
  assumes "tensor_host_ok t" and "matrix_host_ok m" and "columnar_host_ok c"
  shows "well_defined (borrowed_tensor_view_to_input t) \<and> well_defined (f64_feature_matrix_view_to_core m) \<and>
    well_defined (f64_feature_matrix_columnar_view_to_core c)"
  using tensor_view_well_defined matrix_view_well_defined columnar_view_well_defined assms by blast

text \<open>The checks before the reservation fail with errors of their own.\<close>

lemma checks_do_not_panic:
  "map_res positive_stride xs \<noteq> Inl capacity_overflow" "fold_res span_step m axes \<noteq> Inl capacity_overflow"
  "ok_or (checked_add a b) (Validation ''addressed byte overflows usize'') \<noteq> Inl capacity_overflow"
  "ensure_addressable n \<noteq> Inl capacity_overflow"
proof -
  show "map_res positive_stride xs \<noteq> Inl capacity_overflow"
    by (induction xs) (auto simp: rbind_eq_Inl positive_stride_def capacity_overflow_def)
  show "fold_res span_step m axes \<noteq> Inl capacity_overflow"
    by (induction axes arbitrary: m)
      (auto simp: rbind_eq_Inl span_step_def capacity_overflow_def ok_or_def split: prod.split option.split)
qed (auto simp: ok_or_def ensure_addressable_def capacity_overflow_def split: option.split)

lemma bytes_slice_panics: "bytes_slice data a b \<noteq> Inl capacity_overflow"
  by (simp add: bytes_slice_def slice_panic_def capacity_overflow_def)

lemma chunks_do_not_panic:
  "map_res (\<lambda>flat. let offset = f flat in bytes_slice data offset (offset + es)) flats \<noteq> Inl capacity_overflow"
  by (induction flats) (auto simp: rbind_eq_Inl bytes_slice_panics Let_def)

lemma reservation_panics:
  "vec_with_capacity n = Inl capacity_overflow \<longleftrightarrow> isize_max < n" "vec_with_capacity n = Inr c \<longleftrightarrow> n \<le> isize_max \<and> c = []"
  by (auto simp: vec_with_capacity_def)

lemma if_refused_panics: "(if b then invalid ''strided data'' else r) = Inl capacity_overflow \<longleftrightarrow> \<not> b \<and> r = Inl capacity_overflow"
  by (simp add: capacity_overflow_def)

lemma ensure_addressable_ok: "ensure_addressable n = Inr () \<longleftrightarrow> n \<le> isize_max"
  by (simp add: ensure_addressable_def)

lemma gather_aborts:
  assumes "tw_strides_bytes v = Some strides" and "tw_rank v \<le> length strides" and "length shape = tw_rank v"
    and "shape \<noteq> []" and "0 \<notin> set shape" and "tw_data v = Some bytes"
    and "min (tw_data_len v) (addressed_bytes v shape es) \<le> length bytes"
  shows "gather_strided_tensor v shape es (prod_list shape) (prod_list shape * es) = Inl capacity_overflow \<longleftrightarrow>
    (\<forall>s\<in>set (view_strides v). 0 < s) \<and> addressed_bytes v shape es \<le> tw_data_len v \<and>
    addressed_bytes v shape es \<le> isize_max \<and> isize_max < prod_list shape * es"
    (is "?gather = _ \<longleftrightarrow> ?passes \<and> _ \<and> _ \<and> ?large")
proof -
  let ?ss = "map nat (view_strides v)" and ?max = "addressed_bytes v shape es"
  have len: "length shape = length ?ss" using assms(1-3) by (simp add: view_strides_def)
  have some_axes: "zip shape ?ss \<noteq> []" using assms(4) len by (cases shape; cases ?ss) auto
  have slice: "raw_slice (tw_strides_bytes v) (tw_rank v) = Inr (view_strides v)"
    using assms(1,2) by (simp add: raw_slice_def view_strides_def)
  have span: "fold_res span_step 0 (zip shape ?ss) = Inr m \<longleftrightarrow> m = max_span shape ?ss \<and> max_span shape ?ss \<le> usize_max" for m
    using some_axes by (simp add: span_fold)
  have max: "max_span shape ?ss + es = ?max" by (simp add: addressed_bytes_def)
  have data: "raw_slice (tw_data v) ?max = Inr (take ?max bytes)" if "?max \<le> tw_data_len v"
    using that assms(6,7) by (simp add: raw_slice_def)
  have "?gather = Inl capacity_overflow \<longleftrightarrow>
      ?passes \<and> max_span shape ?ss \<le> usize_max \<and> ?max \<le> usize_max \<and> ?max \<le> tw_data_len v \<and> ?max \<le> isize_max \<and> ?large"
    unfolding gather_strided_tensor_def slice rbind_simps
    by (auto simp: rbind_eq_Inl checks_do_not_panic positive_strides_ok span ok_or_eq_Inr checked_add_Some max
        if_refused_panics data reservation_panics chunks_do_not_panic ensure_addressable_ok not_less)
  also have "\<dots> \<longleftrightarrow> ?passes \<and> ?max \<le> tw_data_len v \<and> ?max \<le> isize_max \<and> ?large"
    using isize_le_usize [of ?max] max by auto
  finally show ?thesis .
qed

text \<open>
  C33. The strided gather is exact. It succeeds exactly if all strides are positive, the last byte it
  addresses lies within the declared length and the addressable range, and the gathered tensor is not
  larger than that range; then it copies, for every
  position in row-major order, the element at the byte offset that its coordinates and the strides
  give. It needs only the bytes it addresses: a declared length beyond the host's memory does no harm.
\<close>

theorem strided_gather_exact:
  assumes "tw_strides_bytes v = Some strides" and "tw_rank v \<le> length strides" and "length shape = tw_rank v"
    and "shape \<noteq> []" and "0 \<notin> set shape" and "tw_data v = Some bytes"
    and "min (tw_data_len v) (addressed_bytes v shape es) \<le> length bytes"
  shows "gather_strided_tensor v shape es (prod_list shape) (prod_list shape * es) = Inr out \<longleftrightarrow>
    (\<forall>s\<in>set (view_strides v). 0 < s) \<and> addressed_bytes v shape es \<le> tw_data_len v \<and>
    addressed_bytes v shape es \<le> isize_max \<and> prod_list shape * es \<le> isize_max \<and>
    out = concat (map (\<lambda>flat. take es (drop (strided_offset shape (map nat (view_strides v)) flat) bytes))
      [0..<prod_list shape])"
  using gather_lemma [OF assms] by (auto simp: gather_ok_def strided_cells_def)

text \<open>
  C34. When the strided gather ends the process. Its reservation panics, which nothing at the C boundary
  catches, exactly if the view passes every check that the gather makes (positive strides, an addressed
  range within the declared length and below \<open>isize::MAX\<close>) and the gathered tensor is larger than
  \<open>isize::MAX\<close>: the size check of the contiguous branch is missing here, and positive strides that overlap
  make a large tensor out of little memory.
\<close>

theorem strided_gather_aborts_iff:
  assumes "tw_strides_bytes v = Some strides" and "tw_rank v \<le> length strides" and "length shape = tw_rank v"
    and "shape \<noteq> []" and "0 \<notin> set shape" and "tw_data v = Some bytes"
    and "min (tw_data_len v) (addressed_bytes v shape es) \<le> length bytes"
  shows "gather_strided_tensor v shape es (prod_list shape) (prod_list shape * es) = Inl capacity_overflow \<longleftrightarrow>
    (\<forall>s\<in>set (view_strides v). 0 < s) \<and> addressed_bytes v shape es \<le> tw_data_len v \<and>
    addressed_bytes v shape es \<le> isize_max \<and> isize_max < prod_list shape * es"
  by (rule gather_aborts [OF assms])

section \<open>Strides do not change the tensor\<close>

lemma rbind_InrE: "rbind r f = Inr y \<Longrightarrow> (\<And>x. r = Inr x \<Longrightarrow> f x = Inr y \<Longrightarrow> P) \<Longrightarrow> P"
  by (cases r) auto

lemma if_Inl_InrE: "(if b then Inl e else r) = Inr y \<Longrightarrow> (\<not> b \<Longrightarrow> r = Inr y \<Longrightarrow> P) \<Longrightarrow> P"
  by (auto split: if_splits)

lemma slice_length: "raw_slice p n = Inr xs \<Longrightarrow> length xs = n"
  by (auto simp: raw_slice_def split: option.splits if_splits)

lemma product_exact: "checked_product shape = Inr n \<Longrightarrow> 0 \<notin> set shape \<Longrightarrow> n = prod_list shape"
  by (simp add: checked_product_ok shape_product_ok)

lemma mul_exact: "ok_or (checked_mul a b) e = Inr c \<Longrightarrow> c = a * b \<and> a * b \<le> usize_max"
  by (simp add: ok_or_eq_Inr checked_mul_Some)

lemma rbind_InrI: "r = Inr x \<Longrightarrow> f x = Inr y \<Longrightarrow> rbind r f = Inr y"
  by simp

lemma if_Inl_InrI: "\<not> b \<Longrightarrow> r = Inr y \<Longrightarrow> (if b then Inl e else r) = Inr y"
  by simp

abbreviation with_payload :: "tensor_view \<Rightarrow> int host_ptr \<Rightarrow> u8 host_ptr \<Rightarrow> usize \<Rightarrow> tensor_view" where
  "with_payload v st dt n \<equiv> v\<lparr>tw_strides_bytes := st, tw_data := dt, tw_data_len := n\<rparr>"

lemma with_payload_fields:
  "tw_abi_version (with_payload v st dt n) = tw_abi_version v"
  "tw_tensor_id (with_payload v st dt n) = tw_tensor_id v"
  "tw_representation_id (with_payload v st dt n) = tw_representation_id v"
  "tw_container (with_payload v st dt n) = tw_container v"
  "tw_dtype (with_payload v st dt n) = tw_dtype v"
  "tw_shape (with_payload v st dt n) = tw_shape v"
  "tw_rank (with_payload v st dt n) = tw_rank v"
  "tw_observation_ids (with_payload v st dt n) = tw_observation_ids v"
  "tw_sample_ids (with_payload v st dt n) = tw_sample_ids v"
  "tw_ids_len (with_payload v st dt n) = tw_ids_len v"
  "tw_row_presence_mask (with_payload v st dt n) = tw_row_presence_mask v"
  "tw_row_presence_len (with_payload v st dt n) = tw_row_presence_len v"
  by simp_all

text \<open>A view that yields the same payload yields the same input.\<close>

lemma same_payload:
  assumes "borrowed_tensor_view_to_input v = Inr i"
  shows "tw_rank v = length (ndi_shape i) \<and> ndi_shape i \<noteq> [] \<and> 0 \<notin> set (ndi_shape i) \<and>
    prod_list (ndi_shape i) * element_size (ndi_dtype i) \<le> usize_max \<and>
    tensor_payload v (ndi_shape i) (element_size (ndi_dtype i)) (prod_list (ndi_shape i))
      (prod_list (ndi_shape i) * element_size (ndi_dtype i)) = Inr (ndi_data i) \<and>
    (tensor_payload (with_payload v st dt n)
      (ndi_shape i) (element_size (ndi_dtype i)) (prod_list (ndi_shape i))
      (prod_list (ndi_shape i) * element_size (ndi_dtype i)) = Inr (ndi_data i) \<longrightarrow>
     borrowed_tensor_view_to_input (with_payload v st dt n) = Inr i)"
  using assms unfolding borrowed_tensor_view_to_input_def [of v]
proof (elim rbind_InrE if_Inl_InrE, goal_cases)
  case (1 tid rs rid cont dt' shape obs strs sids total canonical data presence)
  have facts: "checked_product shape = Inr total" "0 \<notin> set shape"
      "ok_or (checked_mul total (element_size dt')) (Validation ''byte size overflows usize'') = Inr canonical"
      "raw_slice (tw_shape v) (tw_rank v) = Inr shape"
      "tensor_payload v shape (element_size dt') total canonical = Inr data"
    by (rule 1)+
  have total: "total = prod_list shape" by (rule product_exact [OF facts(1,2)])
  have canonical: "canonical = prod_list shape * element_size dt'" "prod_list shape * element_size dt' \<le> usize_max"
    using mul_exact [OF facts(3)] total by simp_all
  have rank: "length shape = tw_rank v" by (rule slice_length [OF facts(4)])
  have i: "i = \<lparr>ndi_tensor_id = tid, ndi_representation_id = rid,
      ndi_container = cont, ndi_dtype = dt', ndi_shape = shape, ndi_observation_ids = obs,
      ndi_sample_ids = sids, ndi_data = data, ndi_row_presence = presence\<rparr>"
    using 1 by simp
  have "shape \<noteq> []" using 1 rank by auto
  moreover have "borrowed_tensor_view_to_input (with_payload v st dt n) = Inr i"
    if "tensor_payload (with_payload v st dt n) shape (element_size dt')
      (prod_list shape) (prod_list shape * element_size dt') = Inr data"
    using that unfolding borrowed_tensor_view_to_input_def with_payload_fields
    by (intro rbind_InrI if_Inl_InrI) (rule 1 | simp only: total canonical(1))+
  ultimately show ?case
    using rank canonical facts(2,5) total by (simp add: i)
qed

lemma concat_length: "(\<And>x. x \<in> set xs \<Longrightarrow> length x = n) \<Longrightarrow> length (concat xs) = length xs * n"
  by (induction xs) auto

lemma slice_width: "(let i = f n in bytes_slice bytes i (i + es)) = Inr c \<Longrightarrow> length c = es"
  by (auto simp: bytes_slice_def Let_def split: if_splits)

lemma gathered_length:
  assumes "gather_strided_tensor v shape es te canonical = Inr out"
  shows "length out = te * es"
  using assms unfolding gather_strided_tensor_def
proof (elim rbind_InrE if_Inl_InrE, goal_cases)
  case (1 strides strides_usize max_offset max_byte)
  then obtain cs where chunks: "map_res (\<lambda>flat. let offset = flat_offset (zip shape strides_usize) flat in
      bytes_slice (take max_byte (the (tw_data v))) offset (offset + es)) [0..<te] = Inr cs" and out: "out = concat cs"
    by (auto simp: rbind_eq_Inr raw_slice_def vec_with_capacity_def split: option.splits if_splits)
  have "length c = es" if "c \<in> set cs" for c
    using that map_res_nth [OF chunks] map_res_length [OF chunks]
    by (fastforce simp: in_set_conv_nth dest!: slice_width)
  then show ?case
    using concat_length [of cs es] map_res_length [OF chunks] by (simp add: out)
qed

lemma payload_length:
  assumes "tensor_payload v shape es te (te * es) = Inr data"
  shows "length data = te * es"
  using assms gathered_length
  by (auto simp: tensor_payload_def rbind_eq_Inr dest: slice_length split: if_splits)

lemma contiguous_payload:
  assumes "length data = n" and "n \<le> isize_max"
  shows "tensor_payload (with_payload v None (Some data) n) shape es te n = Inr data"
  using assms by (simp add: tensor_payload_def ensure_addressable_def raw_slice_def)

lemma concat_chunks:
  "length bytes = n * es \<Longrightarrow> concat (map (\<lambda>k. take es (drop (k * es) bytes)) [0..<n]) = bytes"
proof (induction n arbitrary: bytes)
  case (Suc n)
  have whole: "concat (map (\<lambda>k. take es (drop (k * es) (take (n * es) bytes))) [0..<n]) = take (n * es) bytes"
    using Suc by simp
  have "take es (drop (k * es) (take (n * es) bytes)) = take es (drop (k * es) bytes)" if "k < n" for k
  proof -
    have "k * es + es \<le> n * es" using that by (metis Suc_leI add.commute mult_Suc mult_le_mono1)
    then show ?thesis by (simp add: drop_take min_absorb1)
  qed
  then have "map (\<lambda>k. take es (drop (k * es) (take (n * es) bytes))) [0..<n] =
      map (\<lambda>k. take es (drop (k * es) bytes)) [0..<n]"
    by (intro map_cong) simp_all
  then have front: "concat (map (\<lambda>k. take es (drop (k * es) bytes)) [0..<n]) = take (n * es) bytes"
    using whole by (simp only:)
  have "take es (drop (n * es) bytes) = drop (n * es) bytes" using Suc.prems by simp
  with front show ?case by simp
qed simp

lemma row_major_payload:
  assumes "tw_rank v = length shape" and "shape \<noteq> []" and "0 \<notin> set shape" and "0 < es"
    and "length data = prod_list shape * es" and "prod_list shape * es \<le> isize_max"
  shows "tensor_payload (with_payload v (Some (map int (row_major_strides shape es))) (Some data) (prod_list shape * es))
      shape es (prod_list shape) (prod_list shape * es) = Inr data"
proof -
  let ?w = "with_payload v (Some (map int (row_major_strides shape es))) (Some data) (prod_list shape * es)"
  have strides: "view_strides ?w = map int (row_major_strides shape es)"
    using assms(1) by (simp add: view_strides_def)
  have bytes: "addressed_bytes ?w shape es = prod_list shape * es"
    using row_major_span [OF assms(3), of es] by (simp add: addressed_bytes_def strides comp_def)
  have pos: "0 < s" if "s \<in> set (row_major_strides ds es)" "0 \<notin> set ds" for s ds
    using that assms(4) by (induction ds) (auto simp: prod_list_pos)
  have "map (\<lambda>flat. take es (drop (strided_offset shape (row_major_strides shape es) flat) data)) [0..<prod_list shape] =
      map (\<lambda>k. take es (drop (k * es) data)) [0..<prod_list shape]"
    using row_major_offset [OF assms(3)] by (intro map_cong) simp_all
  then have "strided_cells shape (row_major_strides shape es) es data = data"
    using concat_chunks [OF assms(5)] by (simp only: strided_cells_def)
  then have cells: "data = strided_cells shape (map nat (view_strides ?w)) es data"
    by (simp add: strides comp_def)
  have ok: "gather_ok ?w shape es"
    using pos assms(3,5,6) by (auto simp: gather_ok_def strides bytes)
  have fits: "min (tw_data_len ?w) (addressed_bytes ?w shape es) \<le> length data"
    using bytes assms(5) by simp
  have "gather_strided_tensor ?w shape es (prod_list shape) (prod_list shape * es) = Inr data"
    by (rule gather_lemma [of ?w "map int (row_major_strides shape es)", THEN iffD2, OF _ _ _ assms(2,3) _ fits
          conjI [OF ok cells]]) (simp_all add: assms(1))
  then show ?thesis by (simp add: tensor_payload_def)
qed

text \<open>
  Strides are transparent. Whatever strides a view had, the tensor that was read from it is read again
  from its contiguous copy, without strides and with the explicit row-major strides: the strides decide
  where the elements lie, never what the tensor is.
\<close>

lemma strides_transparent:
  assumes "borrowed_tensor_view_to_input v = Inr i" and "length (ndi_data i) \<le> isize_max"
  shows "borrowed_tensor_view_to_input
      (v\<lparr>tw_strides_bytes := None, tw_data := Some (ndi_data i), tw_data_len := length (ndi_data i)\<rparr>) = Inr i \<and>
    borrowed_tensor_view_to_input
      (v\<lparr>tw_strides_bytes := Some (map int (row_major_strides (ndi_shape i) (element_size (ndi_dtype i)))),
         tw_data := Some (ndi_data i), tw_data_len := length (ndi_data i)\<rparr>) = Inr i"
proof -
  note read = same_payload [OF assms(1)]
  have len: "length (ndi_data i) = prod_list (ndi_shape i) * element_size (ndi_dtype i)"
    using read payload_length by blast
  show ?thesis
    using read row_major_payload [of v "ndi_shape i"] contiguous_payload [OF len] assms(2) element_size_pos
    by (simp add: len)
qed

section \<open>A concrete host\<close>

text \<open>Two rows of one byte each, two bytes apart.\<close>

definition host_text :: "u8 list \<Rightarrow> bytes_view" where
  "host_text bytes = \<lparr>bv_ptr = Some bytes, bv_len = length bytes\<rparr>"

definition host_tensor :: tensor_view where
  "host_tensor =
     \<lparr>tw_abi_version = 1, tw_tensor_id = host_text [116], tw_representation_id = host_text [114],
      tw_container = host_text [99], tw_dtype = 2, tw_data = Some [7, 8, 9], tw_data_len = 3,
      tw_shape = Some [2], tw_strides_bytes = Some [2], tw_rank = 1,
      tw_observation_ids = Some [host_text [97], host_text [98]], tw_sample_ids = None, tw_ids_len = 2,
      tw_row_presence_mask = Some [1, 0], tw_row_presence_len = 2\<rparr>"

definition host_matrix :: matrix_view where
  "host_matrix =
     \<lparr>mv_feature_set_id = host_text [102], mv_representation_id = host_text [114],
      mv_feature_names = Some [host_text [120]], mv_feature_names_len = 1, mv_observation_ids = None,
      mv_observation_ids_len = 1, mv_values = None, mv_values_len = 0, mv_validity_mask = None,
      mv_validity_mask_len = 0\<rparr>"

definition host_columns :: columnar_view where
  "host_columns =
     \<lparr>lv_feature_set_id = host_text [102], lv_representation_id = host_text [114],
      lv_feature_names = None, lv_feature_names_len = 0, lv_observation_ids = None,
      lv_observation_ids_len = 0,
      lv_columns = Some [\<lparr>cv_values = None, cv_values_len = 0, cv_validity_mask = Some [2, 1],
        cv_validity_mask_len = 2\<rparr>], lv_columns_len = 1\<rparr>"

definition host_input :: nd_input where
  "host_input =
     \<lparr>ndi_tensor_id = ''t'', ndi_representation_id = Ident ''r'', ndi_container = ''c'', ndi_dtype = DU8,
      ndi_shape = [2], ndi_observation_ids = [Ident ''a'', Ident ''b''], ndi_sample_ids = None,
      ndi_data = [7, 9], ndi_row_presence = Some [True, False]\<rparr>"

lemma host_texts:
  "bytes_view_to_string (host_text [116]) = Inr ''t''" "bytes_view_to_string (host_text [114]) = Inr ''r''"
  "bytes_view_to_string (host_text [99]) = Inr ''c''" "bytes_view_to_string (host_text [97]) = Inr ''a''"
  "bytes_view_to_string (host_text [98]) = Inr ''b''"
  by code_simp+

lemma host_names:
  "ident_new ''r'' = Inr (Ident ''r'' :: representation_id)" "ident_new ''a'' = Inr (Ident ''a'' :: observation_id)"
  "ident_new ''b'' = Inr (Ident ''b'' :: observation_id)"
  by code_simp+

lemma host_gather: "gather_strided_tensor host_tensor [2] (Suc 0) 2 2 = Inr [7, 9]"
  by (simp add: gather_strided_tensor_def host_tensor_def raw_slice_def positive_stride_def span_step_def
      checked_mul_def checked_add_def usize_max_def ensure_addressable_def isize_max_def upt_rec flat_offset_def
      offset_step_def wrapping_def bytes_slice_def ok_or_def vec_with_capacity_def)

lemma host_tensor_read: "borrowed_tensor_view_to_input host_tensor = Inr host_input"
  using host_gather
  by (simp add: borrowed_tensor_view_to_input_def host_tensor_def host_texts host_names raw_slice_def
      borrowed_tensor_view_abi_version_def dtype_from_code_def nd_tensor_max_rank_def
      bytes_view_array_to_strings_def checked_product_def checked_mul_def usize_max_def tensor_payload_def
      presence_flag_def host_input_def ok_or_def)

lemma host_contract_suffices_witness:
  "well_defined (borrowed_tensor_view_to_input host_tensor) \<and>
   well_defined (f64_feature_matrix_view_to_core host_matrix) \<and>
   well_defined (f64_feature_matrix_columnar_view_to_core host_columns)"
  by (rule host_contract_suffices)
    (simp_all add: tensor_host_ok_def matrix_host_ok_def columnar_host_ok_def column_host_ok_def strings_ok_def
      bytes_ok_def readable_def host_text_def host_tensor_def host_matrix_def host_columns_def)

lemma strided_gather_exact_witness:
  "gather_strided_tensor host_tensor [2] 1 (prod_list [2]) (prod_list [2] * 1) = Inr [7, 9]"
  by (rule strided_gather_exact [of host_tensor "[2]" "[2]" "[7, 8, 9]" 1, THEN iffD2])
    (simp_all add: host_tensor_def addressed_bytes_def view_strides_def isize_max_def upt_rec)

lemma strides_transparent_witness:
  "borrowed_tensor_view_to_input
     (host_tensor\<lparr>tw_strides_bytes := None, tw_data := Some [7, 9], tw_data_len := length [7 :: u8, 9]\<rparr>) =
   Inr host_input"
  using strides_transparent [OF host_tensor_read] by (simp add: host_input_def isize_max_def)

text \<open>
  One observation of 65536 by 65536 by 65536 by 65535 bytes whose strides are all one: it addresses
  262142 bytes.
\<close>

definition overlapping_tensor :: tensor_view where
  "overlapping_tensor =
     \<lparr>tw_abi_version = 1, tw_tensor_id = host_text [116], tw_representation_id = host_text [114],
      tw_container = host_text [99], tw_dtype = 2, tw_data = Some (replicate 262142 0),
      tw_data_len = 262142, tw_shape = Some [1, 65536, 65536, 65536, 65535],
      tw_strides_bytes = Some [1, 1, 1, 1, 1], tw_rank = 5, tw_observation_ids = Some [host_text [97]],
      tw_sample_ids = None, tw_ids_len = 1, tw_row_presence_mask = None, tw_row_presence_len = 0\<rparr>"

text \<open>
  A host that keeps its contract can get there: out of a quarter of a megabyte it asks for a tensor of more
  than \<open>isize::MAX\<close> bytes, and the whole reading of the view ends in the panic.
\<close>

theorem strided_gather_aborts_iff_witness:
  "tensor_host_ok overlapping_tensor \<and> borrowed_tensor_view_to_input overlapping_tensor = Inl capacity_overflow"
proof -
  let ?shape = "[1, 65536, 65536, 65536, 65535] :: nat list"
  have "tensor_host_ok overlapping_tensor"
    by (simp add: tensor_host_ok_def strings_ok_def bytes_ok_def readable_def host_text_def
        overlapping_tensor_def)
  have gather: "gather_strided_tensor overlapping_tensor ?shape 1 (prod_list ?shape) (prod_list ?shape * 1) =
      Inl capacity_overflow"
    by (rule strided_gather_aborts_iff [of overlapping_tensor "[1, 1, 1, 1, 1]" ?shape "replicate 262142 0" 1, THEN iffD2])
      (simp_all add: overlapping_tensor_def addressed_bytes_def view_strides_def isize_max_def)
  have "borrowed_tensor_view_to_input overlapping_tensor = Inl capacity_overflow"
    using gather
    by (simp add: borrowed_tensor_view_to_input_def overlapping_tensor_def host_texts host_names raw_slice_def
      borrowed_tensor_view_abi_version_def dtype_from_code_def nd_tensor_max_rank_def
      bytes_view_array_to_strings_def checked_product_def checked_mul_def usize_max_def tensor_payload_def
      ok_or_def)
  with \<open>tensor_host_ok overlapping_tensor\<close> show ?thesis by blast
qed

end
