(* ===== verification/Boxed_Values.thy ===== *)
theory Boxed_Values
  imports Rust_Prelude
begin

text \<open>
  Values on the heap of the library that a host owns until it gives them back
  (\<open>Box::into_raw\<close>, \<open>Box::from_raw\<close>): objects that carry a release function, the private data they own,
  and the protocol that frees a tree of them. Reading or freeing what is not allocated would be
  undefined behaviour; it is the answer \<open>None\<close>.
\<close>

section \<open>Boxes\<close>

type_synonym addr = nat

text \<open>A freed address is not handed out again, so a dangling pointer stays recognisable.\<close>

record ('o, 'p) boxes =
  bx_next :: addr
  bx_objects :: "addr \<Rightarrow> 'o option"
  bx_privates :: "addr \<Rightarrow> 'p option"

definition no_boxes :: "('o, 'p) boxes" where
  "no_boxes = \<lparr>bx_next = 0, bx_objects = (\<lambda>_. None), bx_privates = (\<lambda>_. None)\<rparr>"

definition new_object :: "'o \<Rightarrow> ('o, 'p) boxes \<Rightarrow> addr \<times> ('o, 'p) boxes" where
  "new_object x h = (bx_next h, h\<lparr>bx_next := bx_next h + 1, bx_objects := (bx_objects h)(bx_next h := Some x)\<rparr>)"

definition new_private :: "'p \<Rightarrow> ('o, 'p) boxes \<Rightarrow> addr \<times> ('o, 'p) boxes" where
  "new_private x h =
     (bx_next h, h\<lparr>bx_next := bx_next h + 1, bx_privates := (bx_privates h)(bx_next h := Some x)\<rparr>)"

definition set_object :: "addr \<Rightarrow> 'o \<Rightarrow> ('o, 'p) boxes \<Rightarrow> ('o, 'p) boxes" where
  "set_object a x h = h\<lparr>bx_objects := (bx_objects h)(a := Some x)\<rparr>"

definition update_object :: "addr \<Rightarrow> ('o \<Rightarrow> 'o) \<Rightarrow> ('o, 'p) boxes \<Rightarrow> ('o, 'p) boxes option" where
  "update_object a f h = (case bx_objects h a of None \<Rightarrow> None | Some x \<Rightarrow> Some (set_object a (f x) h))"

definition drop_object :: "addr \<Rightarrow> ('o, 'p) boxes \<Rightarrow> ('o, 'p) boxes option" where
  "drop_object a h =
     (if bx_objects h a = None then None else Some (h\<lparr>bx_objects := (bx_objects h)(a := None)\<rparr>))"

definition drop_private :: "addr \<Rightarrow> ('o, 'p) boxes \<Rightarrow> ('o, 'p) boxes option" where
  "drop_private p h =
     (if bx_privates h p = None then None else Some (h\<lparr>bx_privates := (bx_privates h)(p := None)\<rparr>))"

text \<open>The loop over the children of a struct or a schema: release the child, then free its box.\<close>

fun release_kids ::
  "(addr \<Rightarrow> ('o, 'p) boxes \<Rightarrow> ('o, 'p) boxes option) \<Rightarrow> addr option list \<Rightarrow> ('o, 'p) boxes \<Rightarrow>
   ('o, 'p) boxes option"
where
  "release_kids rel [] h = Some h"
| "release_kids rel (None # cs) h = release_kids rel cs h"
| "release_kids rel (Some c # cs) h =
     Option.bind (rel c h) (\<lambda>h1. Option.bind (drop_object c h1) (release_kids rel cs))"

text \<open>Freeing a root: nothing for a null pointer, else release and drop the box.\<close>

definition free_object ::
  "(addr \<Rightarrow> ('o, 'p) boxes \<Rightarrow> ('o, 'p) boxes option) \<Rightarrow> addr option \<Rightarrow> ('o, 'p) boxes \<Rightarrow> ('o, 'p) boxes option"
where
  "free_object rel ptr h =
     (case ptr of None \<Rightarrow> Some h | Some a \<Rightarrow> Option.bind (rel a h) (drop_object a))"

section \<open>Growth\<close>

definition boxes_wf :: "('o, 'p) boxes \<Rightarrow> bool" where
  "boxes_wf h \<longleftrightarrow> (\<forall>a. bx_next h \<le> a \<longrightarrow> bx_objects h a = None \<and> bx_privates h a = None)"

lemma boxes_wf_fresh: "boxes_wf h \<Longrightarrow> bx_next h \<le> a \<Longrightarrow> bx_objects h a = None \<and> bx_privates h a = None"
  by (simp add: boxes_wf_def)

lemma no_boxes_wf [simp]: "boxes_wf no_boxes"
  by (simp add: boxes_wf_def no_boxes_def)

lemma new_address: "fst (new_object x h) = bx_next h" "fst (new_private y h) = bx_next h"
  by (simp_all add: new_object_def new_private_def)

lemma new_wf:
  "boxes_wf h \<Longrightarrow> boxes_wf (snd (new_object x h))" "boxes_wf h \<Longrightarrow> boxes_wf (snd (new_private y h))"
  by (simp_all add: boxes_wf_def new_object_def new_private_def)

text \<open>The same live boxes, whatever addresses come next.\<close>

definition same_boxes :: "('o, 'p) boxes \<Rightarrow> ('o, 'p) boxes \<Rightarrow> bool" where
  "same_boxes h h' \<longleftrightarrow> bx_objects h' = bx_objects h \<and> bx_privates h' = bx_privates h"

text \<open>Everything that was allocated stays as it was.\<close>

definition extends :: "('o, 'p) boxes \<Rightarrow> ('o, 'p) boxes \<Rightarrow> bool" where
  "extends h h' \<longleftrightarrow>
     bx_next h \<le> bx_next h' \<and>
     (\<forall>a. bx_objects h a \<noteq> None \<longrightarrow> bx_objects h' a = bx_objects h a) \<and>
     (\<forall>a. bx_privates h a \<noteq> None \<longrightarrow> bx_privates h' a = bx_privates h a)"

lemma extends_refl [simp]: "extends h h"
  by (simp add: extends_def)

lemma extends_trans: "extends h1 h2 \<Longrightarrow> extends h2 h3 \<Longrightarrow> extends h1 h3"
  by (auto simp: extends_def)

lemma extends_object: "extends h h' \<Longrightarrow> bx_objects h a = Some x \<Longrightarrow> bx_objects h' a = Some x"
  and extends_private: "extends h h' \<Longrightarrow> bx_privates h a = Some y \<Longrightarrow> bx_privates h' a = Some y"
  by (simp_all add: extends_def)

lemma extends_new:
  "boxes_wf h \<Longrightarrow> extends h (snd (new_object x h))" "boxes_wf h \<Longrightarrow> extends h (snd (new_private y h))"
  by (auto simp: extends_def new_object_def new_private_def boxes_wf_def)

section \<open>The release protocol\<close>

text \<open>
  What a provider of release functions promises: \<open>owner\<close> names the private data that an object with its
  release function set owns, \<open>fits\<close> says that the release function reads that data at its type, \<open>kids\<close> are
  the children that the data owns, and \<open>disarmed\<close> is the object after its release. Fuel counts the depth.
\<close>

locale release_protocol =
  fixes owner :: "'o \<Rightarrow> addr option"
    and fits :: "'o \<Rightarrow> 'p \<Rightarrow> bool"
    and kids :: "'p \<Rightarrow> addr option list"
    and marked :: "'o \<Rightarrow> 'o"
    and disarmed :: "'o \<Rightarrow> 'o"
    and release :: "nat \<Rightarrow> addr \<Rightarrow> ('o, 'p) boxes \<Rightarrow> ('o, 'p) boxes option"
  assumes release_owned:
      "bx_objects h a = Some x \<Longrightarrow> owner x = Some p \<Longrightarrow> bx_privates h p = Some q \<Longrightarrow> fits x q \<Longrightarrow>
       release_kids (release n) (kids q) (set_object a (marked x) h) = Some h2 \<Longrightarrow>
       bx_objects h2 a = Some (marked x) \<Longrightarrow> bx_privates h2 p = Some q \<Longrightarrow>
       release (Suc n) a h =
         Some (h2\<lparr>bx_objects := (bx_objects h2)(a := Some (disarmed x)), bx_privates := (bx_privates h2)(p := None)\<rparr>)"
    and release_again: "bx_objects h a = Some (disarmed x) \<Longrightarrow> release (Suc n) a h = Some h"
begin

text \<open>What a run of allocations has added: leaves, each an object and the private data it owns.\<close>

definition leaf :: "('o, 'p) boxes \<Rightarrow> addr \<times> addr \<Rightarrow> bool" where
  "leaf h cp \<longleftrightarrow> (\<exists>x q. bx_objects h (fst cp) = Some x \<and> owner x = Some (snd cp) \<and>
     bx_privates h (snd cp) = Some q \<and> fits x q \<and> kids q = [])"

definition grown :: "('o, 'p) boxes \<Rightarrow> ('o, 'p) boxes \<Rightarrow> (addr \<times> addr) list \<Rightarrow> bool" where
  "grown h h' cps \<longleftrightarrow>
     boxes_wf h \<and> boxes_wf h' \<and> extends h h' \<and> distinct (map fst cps) \<and> distinct (map snd cps) \<and>
     (\<forall>a. bx_objects h' a \<noteq> None \<longleftrightarrow> bx_objects h a \<noteq> None \<or> a \<in> fst ` set cps) \<and>
     (\<forall>a. bx_privates h' a \<noteq> None \<longleftrightarrow> bx_privates h a \<noteq> None \<or> a \<in> snd ` set cps) \<and>
     (\<forall>cp\<in>set cps. bx_next h \<le> fst cp \<and> bx_next h \<le> snd cp \<and> leaf h' cp)"

lemma grown_nil: "boxes_wf h \<Longrightarrow> grown h h []"
  by (simp add: grown_def)

lemma leaf_extends: "extends h h' \<Longrightarrow> leaf h cp \<Longrightarrow> leaf h' cp"
  unfolding leaf_def by (meson extends_object extends_private)

lemma grown_leaf:
  assumes "grown h h1 cps" and "new_private q h1 = (p, h2)" and "new_object x h2 = (c, h3)"
    and "owner x = Some p" and "fits x q" and "kids q = []"
  shows "grown h h3 (cps @ [(c, p)])"
proof -
  have g: "boxes_wf h1" "extends h h1" "distinct (map fst cps)" "distinct (map snd cps)"
      "\<And>a. bx_objects h1 a \<noteq> None \<longleftrightarrow> bx_objects h a \<noteq> None \<or> a \<in> fst ` set cps"
      "\<And>a. bx_privates h1 a \<noteq> None \<longleftrightarrow> bx_privates h a \<noteq> None \<or> a \<in> snd ` set cps"
      "\<And>cp. cp \<in> set cps \<Longrightarrow> bx_next h \<le> fst cp \<and> bx_next h \<le> snd cp \<and> leaf h1 cp"
    using assms(1) by (simp_all add: grown_def)
  have p: "p = bx_next h1" "h2 = snd (new_private q h1)" using new_address(2) [of q h1] by (simp_all add: assms(2))
  have c: "c = bx_next h2" "h3 = snd (new_object x h2)" using new_address(1) [of x h2] by (simp_all add: assms(3))
  have wf2: "boxes_wf h2" unfolding p(2) by (rule new_wf(2) [OF g(1)])
  have wf: "boxes_wf h3" unfolding c(2) by (rule new_wf(1) [OF wf2])
  have "extends h1 h2" unfolding p(2) by (rule extends_new(2) [OF g(1)])
  moreover have "extends h2 h3" unfolding c(2) by (rule extends_new(1) [OF wf2])
  ultimately have ext: "extends h1 h3" by (rule extends_trans)
  have h3: "bx_objects h3 = (bx_objects h1)(c := Some x)" "bx_privates h3 = (bx_privates h1)(p := Some q)"
    using p c by (simp_all add: new_private_def new_object_def)
  have fresh: "bx_objects h1 c = None" "bx_privates h1 p = None"
    using boxes_wf_fresh [OF g(1)] p c by (simp_all add: new_private_def)
  have low: "bx_next h \<le> p" "bx_next h \<le> c"
    using g(2) p c by (simp_all add: extends_def new_private_def)
  have "c \<notin> fst ` set cps" "p \<notin> snd ` set cps" using g(5) [of c] g(6) [of p] fresh by simp_all
  moreover have "leaf h3 (c, p)" using assms(4-6) by (simp add: leaf_def h3)
  moreover have "leaf h3 cp" if "cp \<in> set cps" for cp using g(7) [OF that] leaf_extends [OF ext] by simp
  ultimately show ?thesis
    using wf g low extends_trans [OF g(2) ext] assms(1) by (auto simp: grown_def h3)
qed

lemma release_leaf:
  assumes "leaf h (c, p)"
  shows "\<exists>x. release (Suc n) c h =
    Some (h\<lparr>bx_objects := (bx_objects h)(c := Some x), bx_privates := (bx_privates h)(p := None)\<rparr>)"
proof -
  obtain x q where x: "bx_objects h c = Some x" "owner x = Some p" "bx_privates h p = Some q" "fits x q" "kids q = []"
    using assms by (auto simp: leaf_def)
  have "release (Suc n) c h = Some ((set_object c (marked x) h)\<lparr>bx_objects :=
      (bx_objects (set_object c (marked x) h))(c := Some (disarmed x)),
      bx_privates := (bx_privates (set_object c (marked x) h))(p := None)\<rparr>)"
    using x by (intro release_owned) (simp_all add: set_object_def)
  then show ?thesis by (auto simp: set_object_def)
qed

lemma release_leaves:
  assumes "distinct (map fst cps)" and "distinct (map snd cps)" and "\<And>cp. cp \<in> set cps \<Longrightarrow> leaf h cp"
  shows "release_kids (release (Suc n)) (map (\<lambda>cp. Some (fst cp)) cps) h =
    Some (h\<lparr>bx_objects := (\<lambda>a. if a \<in> fst ` set cps then None else bx_objects h a),
      bx_privates := (\<lambda>a. if a \<in> snd ` set cps then None else bx_privates h a)\<rparr>)"
  using assms
proof (induction cps arbitrary: h)
  case (Cons cp cps)
  obtain c p where cp: "cp = (c, p)" by (cases cp)
  obtain x where rel: "release (Suc n) c h =
      Some (h\<lparr>bx_objects := (bx_objects h)(c := Some x), bx_privates := (bx_privates h)(p := None)\<rparr>)"
    using release_leaf [of h c p n] Cons.prems(3) cp by auto
  define h1 where "h1 = h\<lparr>bx_objects := (bx_objects h)(c := None), bx_privates := (bx_privates h)(p := None)\<rparr>"
  have "leaf h1 d" if "d \<in> set cps" for d
  proof -
    have "fst d \<noteq> c" "snd d \<noteq> p" using Cons.prems(1,2) that by (force simp: cp)+
    moreover have "leaf h d" using Cons.prems(3) that by simp
    ultimately show ?thesis by (simp add: leaf_def h1_def)
  qed
  then have "release_kids (release (Suc n)) (map (\<lambda>cp. Some (fst cp)) cps) h1 =
    Some (h1\<lparr>bx_objects := (\<lambda>a. if a \<in> fst ` set cps then None else bx_objects h1 a),
      bx_privates := (\<lambda>a. if a \<in> snd ` set cps then None else bx_privates h1 a)\<rparr>)"
    using Cons by simp
  moreover have "drop_object c (h\<lparr>bx_objects := (bx_objects h)(c := Some x), bx_privates := (bx_privates h)(p := None)\<rparr>) =
      Some h1"
    by (simp add: drop_object_def h1_def)
  ultimately show ?case
    using Cons.prems(1,2) by (auto simp: cp rel h1_def fun_eq_iff intro!: arg_cong [where f = Some] boxes.equality)
qed simp

text \<open>A root that owns the leaves is freed with them, and with nothing else.\<close>

lemma free_root:
  assumes "grown h h1 cps" and "new_private q h1 = (p, h2)" and "new_object x h2 = (r, h3)"
    and "owner x = Some p" and "fits x q" and "kids q = map (\<lambda>cp. Some (fst cp)) cps"
  shows "\<exists>h4. free_object (release (Suc (Suc n))) (Some r) h3 = Some h4 \<and> same_boxes h h4"
proof -
  have g: "boxes_wf h" "boxes_wf h1" "extends h h1" "distinct (map fst cps)" "distinct (map snd cps)"
      "\<And>a. bx_objects h1 a \<noteq> None \<longleftrightarrow> bx_objects h a \<noteq> None \<or> a \<in> fst ` set cps"
      "\<And>a. bx_privates h1 a \<noteq> None \<longleftrightarrow> bx_privates h a \<noteq> None \<or> a \<in> snd ` set cps"
      "\<And>cp. cp \<in> set cps \<Longrightarrow> bx_next h \<le> fst cp \<and> bx_next h \<le> snd cp \<and> leaf h1 cp"
    using assms(1) by (simp_all add: grown_def)
  have h3: "bx_objects h3 = (bx_objects h1)(r := Some x)" "bx_privates h3 = (bx_privates h1)(p := Some q)"
    and fresh: "bx_objects h1 r = None" "bx_privates h1 p = None"
    using assms(2,3) boxes_wf_fresh [OF g(2)] by (auto simp: new_private_def new_object_def)
  have apart: "r \<notin> fst ` set cps" "p \<notin> snd ` set cps" using g(6) [of r] g(7) [of p] fresh by simp_all
  let ?m = "set_object r (marked x) h3"
  have "leaf ?m cp" if "cp \<in> set cps" for cp
  proof -
    have "fst cp \<noteq> r" "snd cp \<noteq> p" using apart that by auto
    with g(8) [OF that] show ?thesis by (simp add: leaf_def set_object_def h3)
  qed
  note leaves = release_leaves [OF g(4,5) this]
  let ?h2 = "?m\<lparr>bx_objects := (\<lambda>a. if a \<in> fst ` set cps then None else bx_objects ?m a),
      bx_privates := (\<lambda>a. if a \<in> snd ` set cps then None else bx_privates ?m a)\<rparr>"
  have "release (Suc (Suc n)) r h3 =
      Some (?h2\<lparr>bx_objects := (bx_objects ?h2)(r := Some (disarmed x)), bx_privates := (bx_privates ?h2)(p := None)\<rparr>)"
    using assms(4,5) apart leaves [of n] by (intro release_owned [of _ _ x _ q]) (simp_all add: h3 set_object_def assms(6))
  then obtain h4 where h4: "free_object (release (Suc (Suc n))) (Some r) h3 = Some h4"
      "bx_objects h4 = (\<lambda>a. if a = r \<or> a \<in> fst ` set cps then None else bx_objects h1 a)"
      "bx_privates h4 = (\<lambda>a. if a = p \<or> a \<in> snd ` set cps then None else bx_privates h1 a)"
    by (simp add: free_object_def drop_object_def set_object_def h3 fun_eq_iff)
  have "bx_objects h4 a = bx_objects h a" for a
    using g(3) g(6) [of a] g(8) boxes_wf_fresh [OF g(1), of a] fresh(1)
    by (cases "bx_objects h a") (auto simp: h4(2) extends_def)
  moreover have "bx_privates h4 a = bx_privates h a" for a
    using g(3) g(7) [of a] g(8) boxes_wf_fresh [OF g(1), of a] fresh(2)
    by (cases "bx_privates h a") (auto simp: h4(3) extends_def)
  ultimately show ?thesis using h4(1) by (auto simp: same_boxes_def)
qed

text \<open>Releasing an object again does nothing.\<close>

lemma released_once:
  assumes "leaf h (c, p)" and "release (Suc n) c h = Some h1"
  shows "release (Suc m) c h1 = Some h1"
proof -
  obtain x q where x: "bx_objects h c = Some x" "owner x = Some p" "bx_privates h p = Some q" "fits x q" "kids q = []"
    using assms(1) by (auto simp: leaf_def)
  have "release (Suc n) c h = Some ((set_object c (marked x) h)\<lparr>bx_objects :=
      (bx_objects (set_object c (marked x) h))(c := Some (disarmed x)),
      bx_privates := (bx_privates (set_object c (marked x) h))(p := None)\<rparr>)"
    using x by (intro release_owned) (simp_all add: set_object_def)
  with assms(2) have "bx_objects h1 c = Some (disarmed x)" by auto
  then show ?thesis by (rule release_again)
qed

end

end
