(* ===== verification/C_Values.thy ===== *)
theory C_Values
  imports Boxed_Values Collation Nd_Tensor
begin

text \<open>
  Values that \<open>dag-ml-data-capi/src/lib.rs\<close> hands to its host: C strings, boxed slices, the 64 and 32 bit
  tensors, the owned N-D tensor, and the functions that free them. Strings live among the objects of a
  box heap and slices among its private data. Freeing what is not allocated, or a slice under another
  length, would be undefined behaviour; it is \<open>None\<close>.
\<close>

section \<open>Strings and slices\<close>

record c_str =
  cs_ptr :: "addr option"
  cs_len :: usize

record c_array =
  ca_ptr :: "addr option"
  ca_len :: usize

datatype c_slice =
    TextSlice "c_str list"
  | UsizeSlice "usize list"
  | F64Slice "f64 list"
  | F32Slice "u32 list"
  | ByteSlice "u8 list"

type_synonym c_heap = "(string, c_slice) boxes"

definition default_string :: c_str where
  "default_string = \<lparr>cs_ptr = None, cs_len = 0\<rparr>"

definition default_array :: c_array where
  "default_array = \<lparr>ca_ptr = None, ca_len = 0\<rparr>"

text \<open>\<open>replace('\0', "\\0")\<close>.\<close>

definition sanitize_nul :: "string \<Rightarrow> string" where
  "sanitize_nul s = concat (map (\<lambda>c. if c = CHR 0x00 then [CHR 0x5C, CHR ''0''] else [c]) s)"

definition owned_string :: "string \<Rightarrow> c_heap \<Rightarrow> c_str \<times> c_heap" where
  "owned_string s h =
     (let (a, h) = new_object (sanitize_nul s) h in
      (\<lparr>cs_ptr = Some a, cs_len = length (sanitize_nul s)\<rparr>, h))"

definition boxed_slice_parts :: "('a list \<Rightarrow> c_slice) \<Rightarrow> 'a list \<Rightarrow> c_heap \<Rightarrow> c_array \<times> c_heap" where
  "boxed_slice_parts mk vals h =
     (if vals = [] then (default_array, h)
      else (let (p, h) = new_private (mk vals) h in (\<lparr>ca_ptr = Some p, ca_len = length vals\<rparr>, h)))"

fun owned_strings :: "string list \<Rightarrow> c_heap \<Rightarrow> c_str list \<times> c_heap" where
  "owned_strings [] h = ([], h)"
| "owned_strings (s # ss) h =
     (let (v, h) = owned_string s h; (vs, h) = owned_strings ss h in (v # vs, h))"

definition owned_string_array :: "string list \<Rightarrow> c_heap \<Rightarrow> c_array \<times> c_heap" where
  "owned_string_array ss h = (let (vs, h) = owned_strings ss h in boxed_slice_parts TextSlice vs h)"

definition owned_usize_array :: "usize list \<Rightarrow> c_heap \<Rightarrow> c_array \<times> c_heap" where
  "owned_usize_array = boxed_slice_parts UsizeSlice"

definition owned_f64_array :: "f64 list \<Rightarrow> c_heap \<Rightarrow> c_array \<times> c_heap" where
  "owned_f64_array = boxed_slice_parts F64Slice"

definition owned_f32_array :: "u32 list \<Rightarrow> c_heap \<Rightarrow> c_array \<times> c_heap" where
  "owned_f32_array = boxed_slice_parts F32Slice"

definition owned_u8_array :: "u8 list \<Rightarrow> c_heap \<Rightarrow> c_array \<times> c_heap" where
  "owned_u8_array = boxed_slice_parts ByteSlice"

definition owned_bool_array :: "bool list option \<Rightarrow> c_heap \<Rightarrow> c_array \<times> c_heap" where
  "owned_bool_array vals h =
     (case vals of
        None \<Rightarrow> (default_array, h)
      | Some bs \<Rightarrow> boxed_slice_parts ByteSlice (map (\<lambda>b. if b then 1 else 0) bs) h)"

section \<open>Freeing\<close>

definition string_free :: "c_str \<Rightarrow> c_heap \<Rightarrow> c_heap option" where
  "string_free v h = (case cs_ptr v of None \<Rightarrow> Some h | Some a \<Rightarrow> drop_object a h)"

fun slice_length :: "c_slice \<Rightarrow> nat" where
  "slice_length (TextSlice xs) = length xs"
| "slice_length (UsizeSlice xs) = length xs"
| "slice_length (F64Slice xs) = length xs"
| "slice_length (F32Slice xs) = length xs"
| "slice_length (ByteSlice xs) = length xs"

definition free_boxed_slice :: "c_array \<Rightarrow> c_heap \<Rightarrow> c_heap option" where
  "free_boxed_slice a h =
     (case ca_ptr a of
        None \<Rightarrow> Some h
      | Some p \<Rightarrow>
          Option.bind (bx_privates h p) (\<lambda>s. if slice_length s = ca_len a then drop_private p h else None))"

fun free_strings :: "c_str list \<Rightarrow> c_heap \<Rightarrow> c_heap option" where
  "free_strings [] h = Some h"
| "free_strings (v # vs) h = Option.bind (string_free v h) (free_strings vs)"

definition free_string_array :: "c_array \<Rightarrow> c_heap \<Rightarrow> c_heap option" where
  "free_string_array a h =
     (case ca_ptr a of
        None \<Rightarrow> Some h
      | Some p \<Rightarrow>
          (case bx_privates h p of
             Some (TextSlice vs) \<Rightarrow>
               if length vs = ca_len a then Option.bind (free_strings vs h) (drop_private p) else None
           | _ \<Rightarrow> None))"

section \<open>Tensors\<close>

record c_tensor =
  ct_abi_version :: u32
  ct_block_id :: c_str
  ct_representation_id :: c_str
  ct_batch_container :: c_str
  ct_observation_ids :: c_array
  ct_sample_ids :: c_array
  ct_shape :: c_array
  ct_values :: c_array
  ct_presence_mask :: c_array
  ct_validity_mask :: c_array
  ct_feature_names :: c_array

definition default_tensor :: c_tensor where
  "default_tensor =
     \<lparr>ct_abi_version = 1, ct_block_id = default_string, ct_representation_id = default_string,
      ct_batch_container = default_string, ct_observation_ids = default_array, ct_sample_ids = default_array,
      ct_shape = default_array, ct_values = default_array, ct_presence_mask = default_array,
      ct_validity_mask = default_array, ct_feature_names = default_array\<rparr>"

definition optional_names :: "string list option \<Rightarrow> c_heap \<Rightarrow> c_array \<times> c_heap" where
  "optional_names names h = (case names of None \<Rightarrow> (default_array, h) | Some ns \<Rightarrow> owned_string_array ns h)"

text \<open>The two tensor types differ in their value slice only.\<close>

definition tensor_with ::
  "(c_heap \<Rightarrow> c_array \<times> c_heap) \<Rightarrow> numeric_tensor_block \<Rightarrow> c_heap \<Rightarrow> c_tensor \<times> c_heap"
where
  "tensor_with owned_values t h =
     (let (block_id, h) = owned_string (nt_block_id t) h;
          (representation_id, h) = owned_string (as_str (nt_representation_id t)) h;
          (batch_container, h) = owned_string (nt_batch_container t) h;
          (observation_ids, h) = owned_string_array (map as_str (nt_observation_ids t)) h;
          (sample_ids, h) = owned_string_array (map as_str (nt_sample_ids t)) h;
          (shape, h) = owned_usize_array (nt_shape t) h;
          (vals, h) = owned_values h;
          (presence_mask, h) = owned_bool_array (nt_presence_mask t) h;
          (validity_mask, h) = owned_bool_array (nt_validity_mask t) h;
          (feature_names, h) = optional_names (nt_feature_names t) h
      in
      (\<lparr>ct_abi_version = 1, ct_block_id = block_id, ct_representation_id = representation_id,
        ct_batch_container = batch_container, ct_observation_ids = observation_ids,
        ct_sample_ids = sample_ids, ct_shape = shape, ct_values = vals, ct_presence_mask = presence_mask,
        ct_validity_mask = validity_mask, ct_feature_names = feature_names\<rparr>, h))"

definition tensor_to_c :: "numeric_tensor_block \<Rightarrow> c_heap \<Rightarrow> c_tensor \<times> c_heap" where
  "tensor_to_c t = tensor_with (owned_f64_array (nt_values t)) t"

text \<open>
  \<open>value as f32\<close>: the nearest 32 bit float, ties to the even mantissa, on the bit patterns. A 64 bit
  number is its significand times a power of two; below the smallest exponent of a 32 bit float the
  significand loses more bits, and rounding may carry into the exponent, up to infinity.
\<close>

definition round_half_even :: "nat \<Rightarrow> nat \<Rightarrow> nat" where
  "round_half_even n s =
     (let q = n div 2 ^ s; r = n mod 2 ^ s in
      if 2 * r < 2 ^ s \<or> 2 * r = 2 ^ s \<and> even q then q else q + 1)"

definition f32_infinity :: nat where
  "f32_infinity = 2139095040"

definition f64_to_f32 :: "f64 \<Rightarrow> u32" where
  "f64_to_f32 x =
     (let magnitude = f64_magnitude x; e = magnitude div 2 ^ 52; m = magnitude mod 2 ^ 52;
          sign = (if f64_negative x then 2 ^ 31 else 0);
          bits =
            (if e = 2047 then (if m = 0 then f32_infinity else f32_infinity + 2 ^ 22)
             else if e = 0 then round_half_even m 925
             else
               min f32_infinity
                 ((e - 897) * 2 ^ 23 + round_half_even (2 ^ 52 + m) (max 29 (926 - e))))
      in of_nat (sign + bits))"

definition f32_is_finite :: "u32 \<Rightarrow> bool" where
  "f32_is_finite x \<longleftrightarrow> unat (x AND 2147483647) < f32_infinity"

definition finite_f32 :: "f64 \<Rightarrow> u32 res" where
  "finite_f32 v =
     (let cast = f64_to_f32 v in
      if f32_is_finite cast then Inr cast else invalid ''does not round-trip into a finite f32'')"

definition tensor_to_c_f32 :: "numeric_tensor_block \<Rightarrow> c_heap \<Rightarrow> c_tensor res \<times> c_heap" where
  "tensor_to_c_f32 t h =
     (case map_res finite_f32 (nt_values t) of
        Inl e \<Rightarrow> (Inl e, h)
      | Inr vals \<Rightarrow> (let (out, h) = tensor_with (owned_f32_array vals) t h in (Inr out, h)))"

text \<open>\<open>dagmldata_tensor_f64_free\<close> and \<open>dagmldata_tensor_f32_free\<close>.\<close>

definition tensor_free :: "c_tensor \<Rightarrow> c_heap \<Rightarrow> c_heap option" where
  "tensor_free t h =
     Option.bind (string_free (ct_block_id t) h) (\<lambda>h.
     Option.bind (string_free (ct_representation_id t) h) (\<lambda>h.
     Option.bind (string_free (ct_batch_container t) h) (\<lambda>h.
     Option.bind (free_string_array (ct_observation_ids t) h) (\<lambda>h.
     Option.bind (free_string_array (ct_sample_ids t) h) (\<lambda>h.
     Option.bind (free_boxed_slice (ct_shape t) h) (\<lambda>h.
     Option.bind (free_boxed_slice (ct_values t) h) (\<lambda>h.
     Option.bind (free_boxed_slice (ct_presence_mask t) h) (\<lambda>h.
     Option.bind (free_boxed_slice (ct_validity_mask t) h) (\<lambda>h.
       free_string_array (ct_feature_names t) h)))))))))"

record owned_tensor =
  ow_abi_version :: u32
  ow_tensor_id :: c_str
  ow_representation_id :: c_str
  ow_container :: c_str
  ow_dtype :: nd_dtype
  ow_observation_ids :: c_array
  ow_sample_ids :: c_array
  ow_shape :: c_array
  ow_data :: c_array
  ow_row_presence_mask :: c_array

definition default_owned_tensor :: owned_tensor where
  "default_owned_tensor =
     \<lparr>ow_abi_version = 1, ow_tensor_id = default_string, ow_representation_id = default_string,
      ow_container = default_string, ow_dtype = DF64, ow_observation_ids = default_array,
      ow_sample_ids = default_array, ow_shape = default_array, ow_data = default_array,
      ow_row_presence_mask = default_array\<rparr>"

definition owned_tensor_from_block :: "nd_block \<Rightarrow> c_heap \<Rightarrow> owned_tensor \<times> c_heap" where
  "owned_tensor_from_block b h =
     (let (tensor_id, h) = owned_string (ndk_tensor_id b) h;
          (representation_id, h) = owned_string (as_str (ndk_representation_id b)) h;
          (container, h) = owned_string (ndk_container b) h;
          (observation_ids, h) = owned_string_array (map as_str (ndk_observation_ids b)) h;
          (sample_ids, h) = owned_string_array (map as_str (ndk_sample_ids b)) h;
          (shape, h) = owned_usize_array (ndk_shape b) h;
          (data, h) = owned_u8_array (ndk_data b) h;
          (row_presence_mask, h) = owned_bool_array (ndk_row_presence b) h
      in
      (\<lparr>ow_abi_version = 1, ow_tensor_id = tensor_id, ow_representation_id = representation_id,
        ow_container = container, ow_dtype = ndk_dtype b, ow_observation_ids = observation_ids,
        ow_sample_ids = sample_ids, ow_shape = shape, ow_data = data,
        ow_row_presence_mask = row_presence_mask\<rparr>, h))"

definition nd_tensor_free :: "owned_tensor \<Rightarrow> c_heap \<Rightarrow> c_heap option" where
  "nd_tensor_free t h =
     Option.bind (string_free (ow_tensor_id t) h) (\<lambda>h.
     Option.bind (string_free (ow_representation_id t) h) (\<lambda>h.
     Option.bind (string_free (ow_container t) h) (\<lambda>h.
     Option.bind (free_string_array (ow_observation_ids t) h) (\<lambda>h.
     Option.bind (free_string_array (ow_sample_ids t) h) (\<lambda>h.
     Option.bind (free_boxed_slice (ow_shape t) h) (\<lambda>h.
     Option.bind (free_boxed_slice (ow_data t) h) (\<lambda>h.
       free_boxed_slice (ow_row_presence_mask t) h)))))))"

end
