(* ===== verification/C_Ownership.thy ===== *)
theory C_Ownership
  imports C_Values
begin

text \<open>
  What the host may rely on for the values of \<open>C_Values\<close>: it reads the block that was handed over, and
  the matching free function gives back every allocation exactly once.
\<close>

section \<open>Reading\<close>

definition text_at :: "c_heap \<Rightarrow> c_str \<Rightarrow> string option" where
  "text_at h v = Option.bind (cs_ptr v) (bx_objects h)"

definition slice_at :: "c_heap \<Rightarrow> c_array \<Rightarrow> c_slice option" where
  "slice_at h a = Option.bind (ca_ptr a) (bx_privates h)"

text \<open>An array of a given element type; the null array is empty.\<close>

definition reads_as :: "c_heap \<Rightarrow> c_array \<Rightarrow> ('a list \<Rightarrow> c_slice) \<Rightarrow> 'a list \<Rightarrow> bool" where
  "reads_as h a mk vals \<longleftrightarrow>
     ca_len a = length vals \<and> (if vals = [] then ca_ptr a = None else slice_at h a = Some (mk vals))"

definition reads_texts :: "c_heap \<Rightarrow> c_array \<Rightarrow> string list \<Rightarrow> bool" where
  "reads_texts h a ss \<longleftrightarrow> (\<exists>vs. reads_as h a TextSlice vs \<and> map (text_at h) vs = map Some ss)"

lemma text_at_extends: "extends h h' \<Longrightarrow> text_at h v = Some s \<Longrightarrow> text_at h' v = Some s"
  by (auto simp: text_at_def bind_eq_Some_conv dest: extends_object)

lemma reads_as_extends: "extends h h' \<Longrightarrow> reads_as h a mk vals \<Longrightarrow> reads_as h' a mk vals"
  by (auto simp: reads_as_def slice_at_def bind_eq_Some_conv extends_def)

lemma reads_texts_extends:
  assumes "extends h h'" and "reads_texts h a ss"
  shows "reads_texts h' a ss"
proof -
  obtain vs where vs: "reads_as h a TextSlice vs" "map (text_at h) vs = map Some ss"
    using assms(2) by (auto simp: reads_texts_def)
  have "length vs = length ss" using arg_cong [OF vs(2), of length] by simp
  moreover have "text_at h' (vs ! i) = Some (ss ! i)" if "i < length ss" for i
  proof (rule text_at_extends [OF assms(1)])
    have "map (text_at h) vs ! i = map Some ss ! i" by (simp only: vs(2))
    with that \<open>length vs = length ss\<close> show "text_at h (vs ! i) = Some (ss ! i)" by simp
  qed
  ultimately have "map (text_at h') vs = map Some ss" by (auto intro: nth_equalityI)
  with reads_as_extends [OF assms(1) vs(1)] show ?thesis by (auto simp: reads_texts_def)
qed

section \<open>Ownership\<close>

datatype c_item = TextItem c_str | TextsItem c_array | SliceItem c_array

fun free_item :: "c_item \<Rightarrow> c_heap \<Rightarrow> c_heap option" where
  "free_item (TextItem v) = string_free v"
| "free_item (TextsItem a) = free_string_array a"
| "free_item (SliceItem a) = free_boxed_slice a"

fun free_items :: "c_item list \<Rightarrow> c_heap \<Rightarrow> c_heap option" where
  "free_items [] h = Some h"
| "free_items (x # xs) h = Option.bind (free_item x h) (free_items xs)"

text \<open>The strings and slices that an item owns.\<close>

fun owns :: "c_heap \<Rightarrow> c_item \<Rightarrow> addr list \<Rightarrow> addr list \<Rightarrow> bool" where
  "owns h (TextItem v) os ps \<longleftrightarrow> ps = [] \<and> (case cs_ptr v of None \<Rightarrow> os = [] | Some a \<Rightarrow> os = [a])"
| "owns h (SliceItem a) os ps \<longleftrightarrow> os = [] \<and>
     (case ca_ptr a of
        None \<Rightarrow> ps = []
      | Some p \<Rightarrow> ps = [p] \<and> (\<exists>s. bx_privates h p = Some s \<and> slice_length s = ca_len a))"
| "owns h (TextsItem a) os ps \<longleftrightarrow>
     (case ca_ptr a of
        None \<Rightarrow> os = [] \<and> ps = []
      | Some p \<Rightarrow> ps = [p] \<and>
          (\<exists>vs. bx_privates h p = Some (TextSlice vs) \<and> length vs = ca_len a \<and> map cs_ptr vs = map Some os))"

type_synonym holdings = "(c_item \<times> addr list \<times> addr list) list"

abbreviation held_objects :: "holdings \<Rightarrow> addr list" where
  "held_objects xs \<equiv> concat (map (\<lambda>x. fst (snd x)) xs)"

abbreviation held_privates :: "holdings \<Rightarrow> addr list" where
  "held_privates xs \<equiv> concat (map (\<lambda>x. snd (snd x)) xs)"

text \<open>What has been allocated since \<open>h0\<close> is owned by the items, each part once.\<close>

definition holding :: "c_heap \<Rightarrow> c_heap \<Rightarrow> holdings \<Rightarrow> bool" where
  "holding h0 h xs \<longleftrightarrow>
     boxes_wf h \<and> distinct (held_objects xs) \<and> distinct (held_privates xs) \<and>
     (\<forall>a. bx_objects h a \<noteq> None \<longleftrightarrow> bx_objects h0 a \<noteq> None \<or> a \<in> set (held_objects xs)) \<and>
     (\<forall>a. bx_privates h a \<noteq> None \<longleftrightarrow> bx_privates h0 a \<noteq> None \<or> a \<in> set (held_privates xs)) \<and>
     (\<forall>a. bx_objects h0 a \<noteq> None \<longrightarrow> bx_objects h a = bx_objects h0 a \<and> a \<notin> set (held_objects xs)) \<and>
     (\<forall>a. bx_privates h0 a \<noteq> None \<longrightarrow> bx_privates h a = bx_privates h0 a \<and> a \<notin> set (held_privates xs)) \<and>
     (\<forall>(x, os, ps)\<in>set xs. owns h x os ps)"

lemma holding_nil: "boxes_wf h \<Longrightarrow> holding h h []"
  by (simp add: holding_def)

lemma holding_done: "holding h0 h [] \<Longrightarrow> same_boxes h0 h"
proof -
  assume held: "holding h0 h []"
  have "bx_objects h a = bx_objects h0 a" for a
  proof (cases "bx_objects h0 a = None")
    case True
    then have "\<not> bx_objects h a \<noteq> None" using held by (simp add: holding_def)
    with True show ?thesis by simp
  qed (use held in \<open>simp add: holding_def\<close>)
  moreover have "bx_privates h a = bx_privates h0 a" for a
  proof (cases "bx_privates h0 a = None")
    case True
    then have "\<not> bx_privates h a \<noteq> None" using held by (simp add: holding_def)
    with True show ?thesis by simp
  qed (use held in \<open>simp add: holding_def\<close>)
  ultimately show ?thesis by (auto simp: same_boxes_def)
qed

lemma owns_private_cong: "(\<And>p. p \<in> set ps \<Longrightarrow> bx_privates h' p = bx_privates h p) \<Longrightarrow> owns h' x os ps = owns h x os ps"
  by (cases x) (auto split: option.split, metis+)

section \<open>Allocation\<close>

lemma held_string:
  assumes "holding h0 h xs" and "owned_string s h = (v, h')"
  shows "\<exists>a. cs_ptr v = Some a \<and> holding h0 h' (xs @ [(TextItem v, [a], [])]) \<and> text_at h' v = Some (sanitize_nul s) \<and>
    extends h h'"
proof -
  have h': "h' = snd (new_object (sanitize_nul s) h)" and v: "v = \<lparr>cs_ptr = Some (bx_next h), cs_len = length (sanitize_nul s)\<rparr>"
    using assms(2) by (simp_all add: owned_string_def new_object_def)
  have wf: "boxes_wf h" using assms(1) by (simp add: holding_def)
  have fresh: "bx_objects h (bx_next h) = None" using boxes_wf_fresh [OF wf, of "bx_next h"] by simp
  then have new: "bx_next h \<notin> set (held_objects xs)" "bx_objects h0 (bx_next h) = None"
    using assms(1) unfolding holding_def by metis+
  have "boxes_wf h'" unfolding h' by (rule new_wf(1) [OF wf])
  moreover have "bx_objects h' = (bx_objects h)(bx_next h := Some (sanitize_nul s))" "bx_privates h' = bx_privates h"
    by (simp_all add: h' new_object_def)
  moreover have "owns h' x os ps = owns h x os ps" for x os ps
    by (rule owns_private_cong) (simp add: h' new_object_def)
  ultimately have "holding h0 h' (xs @ [(TextItem v, [bx_next h], [])])"
    using assms(1) new by (auto simp: holding_def v)
  moreover have "extends h h'" unfolding h' by (rule extends_new(1) [OF wf])
  ultimately show ?thesis by (simp add: v text_at_def h' new_object_def)
qed

text \<open>A new slice takes over what it lists: strings for an array of strings, nothing for other arrays.\<close>

lemma held_private:
  assumes "holding h0 h (xs @ ys)" and "new_private q h = (p, h')" and "held_privates ys = []"
    and "owns h' x (held_objects ys) [p]"
  shows "holding h0 h' (xs @ [(x, held_objects ys, [p])]) \<and> extends h h'"
proof -
  have h': "h' = snd (new_private q h)" and p: "p = bx_next h"
    using new_address(2) [of q h] by (simp_all add: assms(2))
  have wf: "boxes_wf h" using assms(1) by (simp add: holding_def)
  have fresh: "bx_privates h p = None" using boxes_wf_fresh [OF wf, of p] by (simp add: p)
  then have new: "p \<notin> set (held_privates xs)" "bx_privates h0 p = None"
    using assms(1,3) unfolding holding_def by (metis Un_iff concat_append map_append set_append)+
  have wf': "boxes_wf h'" unfolding h' by (rule new_wf(2) [OF wf])
  have parts: "bx_objects h' = bx_objects h" "bx_privates h' = (bx_privates h)(p := Some q)"
    by (simp_all add: h' p new_private_def)
  have others: "owns h' y os ps" if "(y, os, ps) \<in> set xs" for y os ps
  proof -
    have "p \<notin> set ps" using new(1) that by force
    then have "owns h' y os ps = owns h y os ps" by (intro owns_private_cong) (auto simp: parts)
    moreover have "\<forall>(y, os, ps)\<in>set (xs @ ys). owns h y os ps" using assms(1) unfolding holding_def by (elim conjE)
    then have "owns h y os ps" using that by fastforce
    ultimately show ?thesis by simp
  qed
  have "holding h0 h' (xs @ [(x, held_objects ys, [p])])"
    using assms(1,3,4) new wf' others by (auto simp: holding_def parts)
  moreover have "extends h h'" unfolding h' by (rule extends_new(2) [OF wf])
  ultimately show ?thesis by blast
qed

lemma holding_absent: "holding h0 h xs \<Longrightarrow> owns h x [] [] \<Longrightarrow> holding h0 h (xs @ [(x, [], [])])"
  by (auto simp: holding_def)

lemma holding_wf: "holding h0 h xs \<Longrightarrow> boxes_wf h"
  by (simp add: holding_def)

lemma held_slice:
  assumes "holding h0 h xs" and "boxed_slice_parts mk vals h = (a, h')" and "\<And>zs. slice_length (mk zs) = length zs"
  shows "\<exists>ps. holding h0 h' (xs @ [(SliceItem a, [], ps)]) \<and> reads_as h' a mk vals \<and> extends h h'"
proof (cases "vals = []")
  case True
  then have "a = default_array" "h' = h" using assms(2) by (simp_all add: boxed_slice_parts_def)
  with True assms(1) show ?thesis
    by (auto simp: reads_as_def default_array_def intro!: exI [of _ "[]"] holding_absent)
next
  case False
  then obtain p where p: "new_private (mk vals) h = (p, h')" and a: "a = \<lparr>ca_ptr = Some p, ca_len = length vals\<rparr>"
    using assms(2) by (auto simp: boxed_slice_parts_def split: prod.splits)
  have at: "bx_privates h' p = Some (mk vals)" using p by (auto simp: new_private_def)
  have "holding h0 h' (xs @ [(SliceItem a, [], [p])]) \<and> extends h h'"
    using held_private [of h0 h xs "[]" _ p h' "SliceItem a"] assms(1,3) p at a by simp
  moreover have "reads_as h' a mk vals" using False at by (simp add: reads_as_def slice_at_def a)
  ultimately show ?thesis by blast
qed

lemma held_strings:
  assumes "holding h0 h xs" and "owned_strings ss h = (vs, h')"
  shows "\<exists>as. holding h0 h' (xs @ map2 (\<lambda>v a. (TextItem v, [a], [])) vs as) \<and> map cs_ptr vs = map Some as \<and>
    map (text_at h') vs = map (\<lambda>s. Some (sanitize_nul s)) ss \<and> extends h h'"
  using assms
proof (induction ss arbitrary: h xs vs)
  case Nil
  then show ?case by simp
next
  case (Cons s ss)
  obtain v h1 vs1 where v: "owned_string s h = (v, h1)" and vs1: "owned_strings ss h1 = (vs1, h')" and vs: "vs = v # vs1"
    using Cons.prems(2) by (auto split: prod.splits)
  obtain a where a: "cs_ptr v = Some a" "holding h0 h1 (xs @ [(TextItem v, [a], [])])"
      "text_at h1 v = Some (sanitize_nul s)" "extends h h1"
    using held_string [OF Cons.prems(1) v] by blast
  obtain as where rest: "holding h0 h' ((xs @ [(TextItem v, [a], [])]) @ map2 (\<lambda>v a. (TextItem v, [a], [])) vs1 as)"
      "map cs_ptr vs1 = map Some as" "map (text_at h') vs1 = map (\<lambda>s. Some (sanitize_nul s)) ss" "extends h1 h'"
    using Cons.IH [OF a(2) vs1] by blast
  have "text_at h' v = Some (sanitize_nul s)" by (rule text_at_extends [OF rest(4) a(3)])
  with rest a extends_trans [OF a(4) rest(4)] show ?case
    by (intro exI [of _ "a # as"]) (simp add: vs)
qed

lemma held_texts:
  assumes "holding h0 h xs" and "owned_string_array ss h = (a, h')"
  shows "\<exists>os ps. holding h0 h' (xs @ [(TextsItem a, os, ps)]) \<and> reads_texts h' a (map sanitize_nul ss) \<and> extends h h'"
proof -
  obtain vs h1 where vs: "owned_strings ss h = (vs, h1)" and a: "boxed_slice_parts TextSlice vs h1 = (a, h')"
    using assms(2) by (auto simp: owned_string_array_def split: prod.splits)
  let ?items = "\<lambda>as. map2 (\<lambda>v a. (TextItem v, [a], [])) vs as"
  obtain as where as: "holding h0 h1 (xs @ ?items as)" "map cs_ptr vs = map Some as"
      "map (text_at h1) vs = map (\<lambda>s. Some (sanitize_nul s)) ss" "extends h h1"
    using held_strings [OF assms(1) vs] by blast
  have len: "length vs = length as" using arg_cong [OF as(2), of length] by simp
  have items: "held_objects (?items as) = as" "held_privates (?items as) = ([] :: addr list)"
    using len by (induction vs as rule: list_induct2) auto
  show ?thesis
  proof (cases "vs = []")
    case True
    then have "a = default_array" "h' = h1" using a by (simp_all add: boxed_slice_parts_def)
    with True as show ?thesis
      by (intro exI [of _ "[]"]) (auto simp: reads_texts_def reads_as_def default_array_def intro!: holding_absent)
  next
    case False
    then obtain p where p: "new_private (TextSlice vs) h1 = (p, h')" and at: "a = \<lparr>ca_ptr = Some p, ca_len = length vs\<rparr>"
      using a by (auto simp: boxed_slice_parts_def split: prod.splits)
    have priv: "bx_privates h' p = Some (TextSlice vs)" using p by (auto simp: new_private_def)
    have held: "holding h0 h' (xs @ [(TextsItem a, as, [p])]) \<and> extends h1 h'"
      using held_private [OF as(1) p items(2), of "TextsItem a", unfolded items(1)] priv as(2) by (simp add: at)
    have "map (text_at h') vs = map Some (map sanitize_nul ss)"
    proof -
      have "text_at h' v = text_at h1 v" if "v \<in> set vs" for v
      proof -
        have "text_at h1 v \<in> set (map (\<lambda>s. Some (sanitize_nul s)) ss)" using that by (simp flip: as(3))
        then obtain t where "text_at h1 v = Some t" by auto
        with text_at_extends [OF conjunct2 [OF held]] show ?thesis by metis
      qed
      then have "map (text_at h') vs = map (text_at h1) vs" by simp
      then show ?thesis by (simp add: as(3) comp_def)
    qed
    then have "reads_texts h' a (map sanitize_nul ss)"
      using priv False by (auto simp: reads_texts_def reads_as_def slice_at_def at)
    with held extends_trans [OF as(4)] show ?thesis by blast
  qed
qed


section \<open>Freeing\<close>

text \<open>Freeing the first item leaves the others owned.\<close>

lemma dropped_object:
  assumes "bx_objects h a \<noteq> None"
  shows "drop_object a h = Some (h\<lparr>bx_objects := (bx_objects h)(a := None)\<rparr>)"
  using assms by (simp add: drop_object_def)

lemma free_strings_all:
  assumes "map cs_ptr vs = map Some os" and "distinct os" and "\<And>a. a \<in> set os \<Longrightarrow> bx_objects h a \<noteq> None"
  shows "free_strings vs h = Some (h\<lparr>bx_objects := (\<lambda>a. if a \<in> set os then None else bx_objects h a)\<rparr>)"
  using assms
proof (induction vs arbitrary: os h)
  case (Cons v vs)
  then obtain a as where os: "os = a # as" "cs_ptr v = Some a" "map cs_ptr vs = map Some as" by (cases os) auto
  let ?h = "h\<lparr>bx_objects := (bx_objects h)(a := None)\<rparr>"
  have "free_strings vs ?h = Some (?h\<lparr>bx_objects := (\<lambda>b. if b \<in> set as then None else bx_objects ?h b)\<rparr>)"
    using Cons.prems os by (intro Cons.IH) auto
  moreover have "string_free v h = Some ?h" using Cons.prems(3) os by (simp add: string_free_def dropped_object)
  ultimately show ?case using os(1) by (auto simp: fun_eq_iff intro!: boxes.equality)
qed simp

lemma free_item_exact:
  assumes "owns h x os ps" and "distinct os" and "\<And>a. a \<in> set os \<Longrightarrow> bx_objects h a \<noteq> None"
  shows "free_item x h = Some (h\<lparr>bx_objects := (\<lambda>a. if a \<in> set os then None else bx_objects h a),
    bx_privates := (\<lambda>p. if p \<in> set ps then None else bx_privates h p)\<rparr>)"
proof (cases x)
  case (TextItem v)
  with assms show ?thesis
    by (cases "cs_ptr v") (auto simp: string_free_def dropped_object fun_eq_iff intro!: boxes.equality)
next
  case (SliceItem a)
  with assms(1) show ?thesis
    by (cases "ca_ptr a") (auto simp: free_boxed_slice_def drop_private_def fun_eq_iff intro!: boxes.equality)
next
  case (TextsItem a)
  show ?thesis
  proof (cases "ca_ptr a")
    case None
    with assms(1) TextsItem show ?thesis by (auto simp: free_string_array_def fun_eq_iff intro!: boxes.equality)
  next
    case (Some p)
    then obtain vs where vs: "ps = [p]" "bx_privates h p = Some (TextSlice vs)" "length vs = ca_len a"
        "map cs_ptr vs = map Some os"
      using assms(1) TextsItem by auto
    then show ?thesis
      using free_strings_all [OF vs(4) assms(2,3)] TextsItem Some
      by (auto simp: free_string_array_def drop_private_def fun_eq_iff intro!: boxes.equality)
  qed
qed

lemma free_first:
  assumes "holding h0 h ((x, os, ps) # xs)"
  shows "\<exists>h'. free_item x h = Some h' \<and> holding h0 h' xs"
proof -
  let ?h = "h\<lparr>bx_objects := (\<lambda>a. if a \<in> set os then None else bx_objects h a),
    bx_privates := (\<lambda>p. if p \<in> set ps then None else bx_privates h p)\<rparr>"
  have "bx_objects h a \<noteq> None" if "a \<in> set os" for a
    using assms that by (simp add: holding_def)
  moreover have "distinct os" using assms by (simp add: holding_def)
  moreover have "owns h x os ps" using assms by (simp add: holding_def)
  ultimately have "free_item x h = Some ?h" by (intro free_item_exact)
  moreover have "owns ?h y qs rs" if "(y, qs, rs) \<in> set xs" for y qs rs
  proof -
    have "set rs \<inter> set ps = {}" using assms that by (fastforce simp: holding_def)
    then have "owns ?h y qs rs = owns h y qs rs" by (intro owns_private_cong) auto
    with that assms show ?thesis by (auto simp: holding_def)
  qed
  moreover have "boxes_wf ?h" using assms by (simp add: holding_def boxes_wf_def)
  ultimately have "holding h0 ?h xs"
    using assms unfolding holding_def by (auto split: if_splits)
  with \<open>free_item x h = Some ?h\<close> show ?thesis by blast
qed

lemma free_all:
  "holding h0 h xs \<Longrightarrow> \<exists>h'. free_items (map fst xs) h = Some h' \<and> same_boxes h0 h'"
proof (induction xs arbitrary: h)
  case Nil
  then show ?case using holding_done by auto
next
  case (Cons x xs)
  obtain y os ps where x: "x = (y, os, ps)" by (cases x)
  from free_first [OF Cons.prems [unfolded x]] obtain h1 where "free_item y h = Some h1" "holding h0 h1 xs" by blast
  with Cons.IH show ?case by (simp add: x)
qed


section \<open>Tensors\<close>

definition flag_bytes :: "bool list \<Rightarrow> u8 list" where
  "flag_bytes bs = map (\<lambda>b. if b then 1 else 0) bs"

definition reads_flags :: "c_heap \<Rightarrow> c_array \<Rightarrow> bool list option \<Rightarrow> bool" where
  "reads_flags h a flags = reads_as h a ByteSlice (case flags of None \<Rightarrow> [] | Some bs \<Rightarrow> flag_bytes bs)"

definition reads_names :: "c_heap \<Rightarrow> c_array \<Rightarrow> string list option \<Rightarrow> bool" where
  "reads_names h a names = reads_texts h a (map sanitize_nul (case names of None \<Rightarrow> [] | Some ns \<Rightarrow> ns))"

text \<open>The items that have been handed out since \<open>h0\<close>.\<close>

definition handed :: "c_heap \<Rightarrow> c_heap \<Rightarrow> c_item list \<Rightarrow> bool" where
  "handed h0 h items \<longleftrightarrow> (\<exists>xs. holding h0 h xs \<and> map fst xs = items)"

text \<open>One step: the new item is owned, reads as its value now and later, and disturbs nothing.\<close>

definition step_ok :: "c_heap \<Rightarrow> c_heap \<Rightarrow> c_heap \<Rightarrow> c_item list \<Rightarrow> c_item \<Rightarrow> (c_heap \<Rightarrow> bool) \<Rightarrow> bool" where
  "step_ok h0 h h' items x reads \<longleftrightarrow>
     handed h0 h' (items @ [x]) \<and> extends h h' \<and> (\<forall>k. extends h' k \<longrightarrow> reads k)"

lemma handed_nil: "boxes_wf h \<Longrightarrow> handed h h []"
  using holding_nil by (auto simp: handed_def)

lemma handed_freed: "handed h0 h items \<Longrightarrow> \<exists>h'. free_items items h = Some h' \<and> same_boxes h0 h'"
  using free_all by (auto simp: handed_def)

lemma step_okI:
  "holding h0 h' (xs @ [(x, os, ps)]) \<Longrightarrow> map fst xs = items \<Longrightarrow> extends h h' \<Longrightarrow>
   (\<And>k. extends h' k \<Longrightarrow> reads k) \<Longrightarrow> step_ok h0 h h' items x reads"
  unfolding step_ok_def handed_def by (intro conjI exI [of _ "xs @ [(x, os, ps)]"]) simp_all

lemma string_step_ok:
  assumes "handed h0 h items" and "owned_string s h = (v, h')"
  shows "step_ok h0 h h' items (TextItem v) (\<lambda>k. text_at k v = Some (sanitize_nul s))"
proof -
  obtain xs where xs: "holding h0 h xs" "map fst xs = items" using assms(1) by (auto simp: handed_def)
  from held_string [OF xs(1) assms(2)] show ?thesis using xs(2) text_at_extends by (blast intro: step_okI)
qed

lemma texts_step_ok:
  assumes "handed h0 h items" and "owned_string_array ss h = (a, h')"
  shows "step_ok h0 h h' items (TextsItem a) (\<lambda>k. reads_texts k a (map sanitize_nul ss))"
proof -
  obtain xs where xs: "holding h0 h xs" "map fst xs = items" using assms(1) by (auto simp: handed_def)
  from held_texts [OF xs(1) assms(2)] show ?thesis using xs(2) reads_texts_extends by (blast intro: step_okI)
qed

lemma slice_step_ok:
  assumes "handed h0 h items" and "boxed_slice_parts mk vals h = (a, h')" and "\<And>zs. slice_length (mk zs) = length zs"
  shows "step_ok h0 h h' items (SliceItem a) (\<lambda>k. reads_as k a mk vals)"
proof -
  obtain xs where xs: "holding h0 h xs" "map fst xs = items" using assms(1) by (auto simp: handed_def)
  from held_slice [OF xs(1) assms(2,3)] show ?thesis using xs(2) reads_as_extends by (blast intro: step_okI)
qed

lemma flags_step_ok:
  assumes "handed h0 h items" and "owned_bool_array flags h = (a, h')"
  shows "step_ok h0 h h' items (SliceItem a) (\<lambda>k. reads_flags k a flags)"
proof -
  have "boxed_slice_parts ByteSlice (case flags of None \<Rightarrow> [] | Some bs \<Rightarrow> flag_bytes bs) h = (a, h')"
    using assms(2) by (cases flags) (simp_all add: owned_bool_array_def flag_bytes_def boxed_slice_parts_def)
  from slice_step_ok [OF assms(1) this] show ?thesis by (simp add: reads_flags_def)
qed

lemma names_step_ok:
  assumes "handed h0 h items" and "optional_names names h = (a, h')"
  shows "step_ok h0 h h' items (TextsItem a) (\<lambda>k. reads_names k a names)"
proof -
  have "owned_string_array (case names of None \<Rightarrow> [] | Some ns \<Rightarrow> ns) h = (a, h')"
    using assms(2) by (cases names) (simp_all add: optional_names_def owned_string_array_def boxed_slice_parts_def)
  from texts_step_ok [OF assms(1) this] show ?thesis by (simp add: reads_names_def)
qed

lemma step_handed: "step_ok h0 h h' items x reads \<Longrightarrow> handed h0 h' (items @ [x])"
  by (simp add: step_ok_def)

lemma step_extends: "step_ok h0 h h' items x reads \<Longrightarrow> extends h' k \<Longrightarrow> extends h k"
  unfolding step_ok_def by (blast intro: extends_trans)

lemma step_reads: "step_ok h0 h h' items x reads \<Longrightarrow> extends h' k \<Longrightarrow> reads k"
  by (simp add: step_ok_def)

text \<open>What the host reads behind a tensor: the block, its strings without NUL.\<close>

definition tensor_reads ::
  "c_heap \<Rightarrow> c_tensor \<Rightarrow> numeric_tensor_block \<Rightarrow> ('a list \<Rightarrow> c_slice) \<Rightarrow> 'a list \<Rightarrow> bool"
where
  "tensor_reads h c t mk vals \<longleftrightarrow>
     text_at h (ct_block_id c) = Some (sanitize_nul (nt_block_id t)) \<and>
     text_at h (ct_representation_id c) = Some (sanitize_nul (as_str (nt_representation_id t))) \<and>
     text_at h (ct_batch_container c) = Some (sanitize_nul (nt_batch_container t)) \<and>
     reads_texts h (ct_observation_ids c) (map sanitize_nul (map as_str (nt_observation_ids t))) \<and>
     reads_texts h (ct_sample_ids c) (map sanitize_nul (map as_str (nt_sample_ids t))) \<and>
     reads_as h (ct_shape c) UsizeSlice (nt_shape t) \<and> reads_as h (ct_values c) mk vals \<and>
     reads_flags h (ct_presence_mask c) (nt_presence_mask t) \<and>
     reads_flags h (ct_validity_mask c) (nt_validity_mask t) \<and> reads_names h (ct_feature_names c) (nt_feature_names t)"

definition tensor_items :: "c_tensor \<Rightarrow> c_item list" where
  "tensor_items c =
     [TextItem (ct_block_id c), TextItem (ct_representation_id c), TextItem (ct_batch_container c),
      TextsItem (ct_observation_ids c), TextsItem (ct_sample_ids c), SliceItem (ct_shape c), SliceItem (ct_values c),
      SliceItem (ct_presence_mask c), SliceItem (ct_validity_mask c), TextsItem (ct_feature_names c)]"

lemma free_items_Cons: "free_items (x # xs) = (\<lambda>h. Option.bind (free_item x h) (free_items xs))"
  and free_items_Nil: "free_items [] = Some"
  by (rule ext, simp)+

lemma tensor_free_items: "tensor_free c h = free_items (tensor_items c) h"
  by (simp add: tensor_free_def tensor_items_def free_items_Cons free_items_Nil del: free_items.simps)

lemma tensor_handed:
  assumes "handed h0 h held" and "tensor_with (boxed_slice_parts mk vals) t h = (c, h')"
    and "\<And>zs. slice_length (mk zs) = length zs"
  shows "tensor_reads h' c t mk vals \<and> handed h0 h' (held @ tensor_items c)"
proof -
  obtain c1 h1 c2 h2 c3 h3 c4 h4 c5 h5 c6 h6 c7 h7 c8 h8 c9 h9 c10 where
      run: "owned_string (nt_block_id t) h = (c1, h1)" "owned_string (as_str (nt_representation_id t)) h1 = (c2, h2)"
        "owned_string (nt_batch_container t) h2 = (c3, h3)"
        "owned_string_array (map as_str (nt_observation_ids t)) h3 = (c4, h4)"
        "owned_string_array (map as_str (nt_sample_ids t)) h4 = (c5, h5)"
        "boxed_slice_parts UsizeSlice (nt_shape t) h5 = (c6, h6)" "boxed_slice_parts mk vals h6 = (c7, h7)"
        "owned_bool_array (nt_presence_mask t) h7 = (c8, h8)" "owned_bool_array (nt_validity_mask t) h8 = (c9, h9)"
        "optional_names (nt_feature_names t) h9 = (c10, h')"
    and c: "c = \<lparr>ct_abi_version = 1, ct_block_id = c1, ct_representation_id = c2, ct_batch_container = c3,
      ct_observation_ids = c4, ct_sample_ids = c5, ct_shape = c6, ct_values = c7, ct_presence_mask = c8,
      ct_validity_mask = c9, ct_feature_names = c10\<rparr>"
    using assms(2) unfolding tensor_with_def owned_usize_array_def Let_def
    by (auto split: prod.splits)
  note s1 = string_step_ok [OF assms(1) run(1)]
  note s2 = string_step_ok [OF step_handed [OF s1] run(2)]
  note s3 = string_step_ok [OF step_handed [OF s2] run(3)]
  note s4 = texts_step_ok [OF step_handed [OF s3] run(4)]
  note s5 = texts_step_ok [OF step_handed [OF s4] run(5)]
  note s6 = slice_step_ok [OF step_handed [OF s5] run(6)]
  note s7 = slice_step_ok [OF step_handed [OF s6 [simplified]] run(7) assms(3)]
  note s8 = flags_step_ok [OF step_handed [OF s7] run(8)]
  note s9 = flags_step_ok [OF step_handed [OF s8] run(9)]
  note s10 = names_step_ok [OF step_handed [OF s9] run(10)]
  note e9 = step_extends [OF s10 extends_refl]
  note e8 = step_extends [OF s9 e9]
  note e7 = step_extends [OF s8 e8]
  note e6 = step_extends [OF s7 e7]
  note e5 = step_extends [OF s6 [simplified] e6]
  note e4 = step_extends [OF s5 e5]
  note e3 = step_extends [OF s4 e4]
  note e2 = step_extends [OF s3 e3]
  note e1 = step_extends [OF s2 e2]
  have "tensor_reads h' c t mk vals"
    using step_reads [OF s1 e1] step_reads [OF s2 e2] step_reads [OF s3 e3] step_reads [OF s4 e4] step_reads [OF s5 e5]
      step_reads [OF s6 [simplified] e6] step_reads [OF s7 e7] step_reads [OF s8 e8] step_reads [OF s9 e9]
      step_reads [OF s10 extends_refl]
    by (simp add: tensor_reads_def c)
  moreover have "handed h0 h' (held @ tensor_items c)"
    using step_handed [OF s10] by (simp add: tensor_items_def c)
  ultimately show ?thesis by simp
qed


text \<open>
  C38. Tensors are handed over whole and given back whole. The host reads the block behind the returned
  pointers, its strings with every NUL written as a backslash and a zero; freeing the tensor once frees
  each of its allocations exactly once, under the length it was allocated with, and nothing else.
\<close>

theorem tensor_handed_over:
  assumes "boxes_wf h" and "tensor_to_c t h = (c, h')"
  shows "tensor_reads h' c t F64Slice (nt_values t) \<and> (\<exists>h''. tensor_free c h' = Some h'' \<and> same_boxes h h'')"
  using tensor_handed [OF handed_nil [OF assms(1)] assms(2) [unfolded tensor_to_c_def owned_f64_array_def]] handed_freed
  by (simp add: tensor_free_items)

definition sample_tensor :: numeric_tensor_block where
  "sample_tensor =
     \<lparr>nt_block_id = ''x'', nt_representation_id = Ident ''r'', nt_batch_container = ''ndarray'',
      nt_observation_ids = [Ident ''o''], nt_sample_ids = [Ident ''s''], nt_shape = [1, 1],
      nt_values = [0], nt_presence_mask = None, nt_validity_mask = Some [True],
      nt_feature_names = Some [[CHR 0x00]]\<rparr>"

lemma tensor_handed_over_witness:
  "tensor_reads (snd (tensor_to_c sample_tensor no_boxes)) (fst (tensor_to_c sample_tensor no_boxes)) sample_tensor
     F64Slice [0] \<and>
   (\<exists>h. tensor_free (fst (tensor_to_c sample_tensor no_boxes)) (snd (tensor_to_c sample_tensor no_boxes)) = Some h \<and>
     same_boxes no_boxes h)"
  using tensor_handed_over [of no_boxes sample_tensor "fst (tensor_to_c sample_tensor no_boxes)"
      "snd (tensor_to_c sample_tensor no_boxes)"]
  by (simp add: sample_tensor_def)

lemma tensor_f32_handed:
  assumes "boxes_wf h" and "tensor_to_c_f32 t h = (Inr c, h')"
  shows "\<exists>vals. map_res finite_f32 (nt_values t) = Inr vals \<and> tensor_reads h' c t F32Slice vals \<and>
    (\<exists>h''. tensor_free c h' = Some h'' \<and> same_boxes h h'')"
proof -
  obtain vals where vals: "map_res finite_f32 (nt_values t) = Inr vals"
      "tensor_with (boxed_slice_parts F32Slice vals) t h = (c, h')"
    using assms(2) by (auto simp: tensor_to_c_f32_def owned_f32_array_def split: sum.splits prod.splits)
  from tensor_handed [OF handed_nil [OF assms(1)] vals(2)] handed_freed vals(1) show ?thesis by (simp add: tensor_free_items)
qed

text \<open>The owned N-D tensor.\<close>

definition owned_tensor_reads :: "c_heap \<Rightarrow> owned_tensor \<Rightarrow> nd_block \<Rightarrow> bool" where
  "owned_tensor_reads h c b \<longleftrightarrow>
     text_at h (ow_tensor_id c) = Some (sanitize_nul (ndk_tensor_id b)) \<and>
     text_at h (ow_representation_id c) = Some (sanitize_nul (as_str (ndk_representation_id b))) \<and>
     text_at h (ow_container c) = Some (sanitize_nul (ndk_container b)) \<and> ow_dtype c = ndk_dtype b \<and>
     reads_texts h (ow_observation_ids c) (map sanitize_nul (map as_str (ndk_observation_ids b))) \<and>
     reads_texts h (ow_sample_ids c) (map sanitize_nul (map as_str (ndk_sample_ids b))) \<and>
     reads_as h (ow_shape c) UsizeSlice (ndk_shape b) \<and> reads_as h (ow_data c) ByteSlice (ndk_data b) \<and>
     reads_flags h (ow_row_presence_mask c) (ndk_row_presence b)"

definition owned_tensor_items :: "owned_tensor \<Rightarrow> c_item list" where
  "owned_tensor_items c =
     [TextItem (ow_tensor_id c), TextItem (ow_representation_id c), TextItem (ow_container c),
      TextsItem (ow_observation_ids c), TextsItem (ow_sample_ids c), SliceItem (ow_shape c), SliceItem (ow_data c),
      SliceItem (ow_row_presence_mask c)]"

lemma owned_tensor_free_items: "nd_tensor_free c h = free_items (owned_tensor_items c) h"
  by (simp add: nd_tensor_free_def owned_tensor_items_def free_items_Cons free_items_Nil del: free_items.simps)

lemma owned_tensor_handed:
  assumes "handed h0 h held" and "owned_tensor_from_block b h = (c, h')"
  shows "owned_tensor_reads h' c b \<and> handed h0 h' (held @ owned_tensor_items c)"
proof -
  obtain c1 h1 c2 h2 c3 h3 c4 h4 c5 h5 c6 h6 c7 h7 c8 where
      run: "owned_string (ndk_tensor_id b) h = (c1, h1)" "owned_string (as_str (ndk_representation_id b)) h1 = (c2, h2)"
        "owned_string (ndk_container b) h2 = (c3, h3)"
        "owned_string_array (map as_str (ndk_observation_ids b)) h3 = (c4, h4)"
        "owned_string_array (map as_str (ndk_sample_ids b)) h4 = (c5, h5)"
        "boxed_slice_parts UsizeSlice (ndk_shape b) h5 = (c6, h6)"
        "boxed_slice_parts ByteSlice (ndk_data b) h6 = (c7, h7)" "owned_bool_array (ndk_row_presence b) h7 = (c8, h')"
    and c: "c = \<lparr>ow_abi_version = 1, ow_tensor_id = c1, ow_representation_id = c2, ow_container = c3,
      ow_dtype = ndk_dtype b, ow_observation_ids = c4, ow_sample_ids = c5, ow_shape = c6, ow_data = c7,
      ow_row_presence_mask = c8\<rparr>"
    using assms(2) unfolding owned_tensor_from_block_def owned_usize_array_def owned_u8_array_def Let_def
    by (auto split: prod.splits)
  note s1 = string_step_ok [OF assms(1) run(1)]
  note s2 = string_step_ok [OF step_handed [OF s1] run(2)]
  note s3 = string_step_ok [OF step_handed [OF s2] run(3)]
  note s4 = texts_step_ok [OF step_handed [OF s3] run(4)]
  note s5 = texts_step_ok [OF step_handed [OF s4] run(5)]
  note s6 = slice_step_ok [OF step_handed [OF s5] run(6)]
  note s7 = slice_step_ok [OF step_handed [OF s6 [simplified]] run(7)]
  note s8 = flags_step_ok [OF step_handed [OF s7 [simplified]] run(8)]
  note e7 = step_extends [OF s8 extends_refl]
  note e6 = step_extends [OF s7 [simplified] e7]
  note e5 = step_extends [OF s6 [simplified] e6]
  note e4 = step_extends [OF s5 e5]
  note e3 = step_extends [OF s4 e4]
  note e2 = step_extends [OF s3 e3]
  note e1 = step_extends [OF s2 e2]
  have "owned_tensor_reads h' c b"
    using step_reads [OF s1 e1] step_reads [OF s2 e2] step_reads [OF s3 e3] step_reads [OF s4 e4] step_reads [OF s5 e5]
      step_reads [OF s6 [simplified] e6] step_reads [OF s7 [simplified] e7] step_reads [OF s8 extends_refl]
    by (simp add: owned_tensor_reads_def c)
  moreover have "handed h0 h' (held @ owned_tensor_items c)"
    using step_handed [OF s8] by (simp add: owned_tensor_items_def c)
  ultimately show ?thesis by simp
qed

lemma owned_tensor_given_back:
  assumes "boxes_wf h" and "owned_tensor_from_block b h = (c, h')"
  shows "\<exists>h''. nd_tensor_free c h' = Some h'' \<and> same_boxes h h''"
  using owned_tensor_handed [OF handed_nil [OF assms(1)] assms(2)] handed_freed by (simp add: owned_tensor_free_items)

text \<open>A string without NUL is handed over as it is.\<close>

lemma sanitize_plain: "CHR 0x00 \<notin> set s \<Longrightarrow> sanitize_nul s = s"
  by (induction s) (auto simp: sanitize_nul_def)

text \<open>No sanitised string has a NUL, so \<open>CString::new\<close> never refuses one.\<close>

lemma sanitize_no_nul: "CHR 0x00 \<notin> set (sanitize_nul s)"
  by (induction s) (auto simp: sanitize_nul_def)

section \<open>32 bit floats\<close>

definition f32_overflow :: nat where
  "f32_overflow = 5183643170835005440"

lemma round_bounds: "n div 2 ^ s \<le> round_half_even n s" "round_half_even n s \<le> n div 2 ^ s + 1"
  by (simp_all add: round_half_even_def Let_def)

lemma round_top:
  assumes "n < 2 ^ 53"
  shows "round_half_even n 29 < 2 ^ 24 \<longleftrightarrow> n < 2 ^ 53 - 2 ^ 28"
proof -
  define q r where "q = n div 536870912" and "r = n mod 536870912"
  have n: "n = 536870912 * q + r" and r: "r < 536870912" by (simp_all add: q_def r_def)
  have q: "q < 16777216" using assms by (simp add: q_def)
  have round: "round_half_even n 29 = (if 2 * r < 536870912 \<or> 2 * r = 536870912 \<and> even q then q else q + 1)"
    by (simp add: round_half_even_def q_def r_def Let_def)
  have "round_half_even n 29 < 16777216 \<longleftrightarrow> q < 16777215 \<or> r < 268435456"
  proof (cases "q = 16777215")
    case True
    then have "odd q" by simp
    with True r show ?thesis by (auto simp: round)
  next
    case False
    with q r show ?thesis by (auto simp: round)
  qed
  also have "\<dots> \<longleftrightarrow> n < 9007198986305536" using q r unfolding n by linarith
  finally show ?thesis by simp
qed

lemma low_bits:
  assumes "k \<le> 1" and "n < 2 ^ 31"
  shows "unat ((of_nat (k * 2 ^ 31 + n) :: u32) AND 2147483647) = n"
proof -
  let ?w = "of_nat (k * 2 ^ 31 + n) :: u32"
  have "?w AND 2147483647 = take_bit 31 ?w" by (simp add: take_bit_eq_mask mask_eq_exp_minus_1)
  then have "unat (?w AND 2147483647) = take_bit 31 (unat ?w)" by (simp only: unsigned_take_bit_eq)
  also have "unat ?w = k * 2 ^ 31 + n"
    using assms by (simp only: unat_of_nat len_num1 len_bit0) simp
  also have "take_bit 31 \<dots> = n" using assms(2) by (simp add: take_bit_eq_mod)
  finally show ?thesis .
qed

definition f32_bits :: "nat \<Rightarrow> nat \<Rightarrow> nat" where
  "f32_bits e m =
     (if e = 2047 then (if m = 0 then f32_infinity else f32_infinity + 2 ^ 22)
      else if e = 0 then round_half_even m 925
      else min f32_infinity ((e - 897) * 2 ^ 23 + round_half_even (2 ^ 52 + m) (max 29 (926 - e))))"

lemma round_tiny: "m < 2 ^ 52 \<Longrightarrow> round_half_even m 925 \<le> 1"
proof -
  assume "m < 2 ^ 52"
  also have "(2 ^ 52 :: nat) \<le> 2 ^ 925" by (rule power_increasing) simp_all
  finally have "m div 2 ^ 925 = 0" by (rule div_less)
  with round_bounds(2) [of m 925] show ?thesis by simp
qed

lemma f32_bits_small: "m < 2 ^ 52 \<Longrightarrow> f32_bits e m < 2 ^ 31"
proof -
  assume m: "m < 2 ^ 52"
  have "min f32_infinity k < 2 ^ 31" for k by (rule le_less_trans [OF min.cobounded1]) (simp add: f32_infinity_def)
  then show ?thesis using round_tiny [OF m] by (simp add: f32_bits_def f32_infinity_def)
qed

lemma round_53: "n < 2 ^ 53 \<Longrightarrow> 29 \<le> s \<Longrightarrow> round_half_even n s \<le> 2 ^ 24"
proof -
  assume n: "n < 2 ^ 53" and s: "29 \<le> s"
  have "n div 2 ^ s \<le> n div 2 ^ 29" using s by (intro div_le_mono2 power_increasing) simp_all
  also have "\<dots> < 2 ^ 24" using n by (simp add: less_mult_imp_div_less)
  finally show ?thesis using round_bounds(2) [of n s] by simp
qed

lemma f32_bits_finite:
  assumes m: "m < 2 ^ 52" and e: "e \<le> 2047"
  shows "f32_bits e m < f32_infinity \<longleftrightarrow> e * 2 ^ 52 + m < f32_overflow"
proof -
  let ?r = "round_half_even (2 ^ 52 + m) (max 29 (926 - e))"
  have r: "?r \<le> 2 ^ 24" using m by (intro round_53) simp_all
  consider "e = 2047" | "e = 0" | "0 < e" "e \<le> 1149" | "e = 1150" | "1151 \<le> e" "e < 2047" using e by linarith
  then show ?thesis
  proof cases
    case 1
    then show ?thesis by (simp add: f32_bits_def f32_infinity_def f32_overflow_def)
  next
    case 2
    then show ?thesis using m round_tiny [OF m] by (simp add: f32_bits_def f32_infinity_def f32_overflow_def)
  next
    case 3
    then have "(e - 897) * 2 ^ 23 + ?r < f32_infinity" using r by (simp add: f32_infinity_def)
    moreover have "e * 2 ^ 52 + m < f32_overflow" using 3 m by (simp add: f32_overflow_def)
    ultimately show ?thesis using 3 by (simp add: f32_bits_def)
  next
    case 4
    have "(2 ^ 52 + m) < 2 ^ 53" using m by simp
    from round_top [OF this] 4 show ?thesis by (simp add: f32_bits_def f32_infinity_def f32_overflow_def min_less_iff_disj)
  next
    case 5
    have "1 * 2 ^ 23 \<le> ?r"
    proof -
      have "max 29 (926 - e) = 29" using 5 by simp
      moreover have "1 * 2 ^ 23 \<le> (2 ^ 52 + m) div 2 ^ 29" by (simp add: less_eq_div_iff_mult_less_eq)
      ultimately show ?thesis using round_bounds(1) [of "2 ^ 52 + m" 29] by simp
    qed
    then have "f32_infinity \<le> (e - 897) * 2 ^ 23 + ?r" using 5 by (simp add: f32_infinity_def)
    moreover have "f32_overflow \<le> e * 2 ^ 52 + m" using 5 by (simp add: f32_overflow_def)
    ultimately show ?thesis using 5 by (simp add: f32_bits_def)
  qed
qed

lemma f32_bits_of: "f64_to_f32 v = of_nat ((if f64_negative v then 1 else 0) * 2 ^ 31 +
    f32_bits (f64_magnitude v div 2 ^ 52) (f64_magnitude v mod 2 ^ 52))"
  by (simp add: f64_to_f32_def f32_bits_def Let_def)

lemma magnitude_bound: "f64_magnitude v < 2 ^ 63"
proof -
  have "v AND 9223372036854775807 = take_bit 63 v" by (simp add: take_bit_eq_mask mask_eq_exp_minus_1)
  then have "f64_magnitude v = take_bit 63 (unat v)" by (simp only: f64_magnitude_def unsigned_take_bit_eq)
  then show ?thesis by (simp only: take_bit_nat_less_exp)
qed

lemma cast_finite: "f32_is_finite (f64_to_f32 v) \<longleftrightarrow> f64_magnitude v < f32_overflow"
proof -
  let ?e = "f64_magnitude v div 2 ^ 52" and ?m = "f64_magnitude v mod 2 ^ 52"
  let ?s = "if f64_negative v then 1 else (0 :: nat)"
  have m: "?m < 2 ^ 52" by simp
  have s: "?s \<le> 1" by simp
  have "f64_magnitude v < 2 ^ 63" by (rule magnitude_bound)
  then have e: "?e \<le> 2047" by (simp add: less_mult_imp_div_less flip: less_Suc_eq_le)
  have "f32_is_finite (f64_to_f32 v) \<longleftrightarrow> f32_bits ?e ?m < f32_infinity"
    unfolding f32_is_finite_def f32_bits_of low_bits [OF s f32_bits_small [OF m]] ..
  also have "\<dots> \<longleftrightarrow> ?e * 2 ^ 52 + ?m < f32_overflow" by (rule f32_bits_finite [OF m e])
  finally show ?thesis by (simp only: div_mult_mod_eq)
qed

text \<open>
  C39. The 32 bit tensor refuses exactly the values that have no finite neighbour: a value is cast when its
  magnitude lies below the midpoint between the largest finite 32 bit float and the next power of two
  (the bit pattern \<open>f32_overflow\<close>), and is refused above it, as are the infinities and NaN.
\<close>

theorem f32_cast_boundary: "finite_f32 v = Inr y \<longleftrightarrow> f64_magnitude v < f32_overflow \<and> y = f64_to_f32 v"
  by (auto simp: finite_f32_def cast_finite Let_def)

end
