(* ===== verification/Arrow_Arrays.thy ===== *)
theory Arrow_Arrays
  imports Boxed_Values Buffer_File Content_Hash
begin

text \<open>
  The Arrow C data interface as \<open>dag-ml-data-capi/src/lib.rs\<close> exports it: the buffers of string, number,
  flag and struct arrays, the field schemas, and the release functions. A pointer into the private data
  of an array names the part of it that it points to.
\<close>

section \<open>Arrays and schemas\<close>

datatype buffer_part = ValidityPart | OffsetsPart | ValuesPart

type_synonym i32 = "32 word"

datatype array_private =
    StringPrivate (string_validity: "u8 list option") (string_offsets: "i32 list") (string_values: "u8 list")
      (string_buffers: "buffer_part option list")
  | BoolPrivate (bool_values: "u8 list") (bool_buffers: "buffer_part option list")
  | F64Private (f64_validity: "u8 list option") (f64_values: "f64 list") (f64_buffers: "buffer_part option list")
  | StructPrivate (struct_children: "addr option list") (struct_buffers: "buffer_part option list")

datatype array_release = ReleaseString | ReleaseBool | ReleaseF64 | ReleaseStruct

record arrow_array =
  aa_length :: int
  aa_null_count :: int
  aa_offset :: int
  aa_n_buffers :: int
  aa_n_children :: int
  aa_buffers :: "addr option"
  aa_children :: "addr option"
  aa_dictionary :: "addr option"
  aa_release :: "array_release option"
  aa_private_data :: "addr option"

record schema_private =
  sp_format :: string
  sp_name :: string
  sp_metadata :: "string option"
  sp_children :: "addr option list"

record arrow_schema =
  as_format :: "addr option"
  as_name :: "addr option"
  as_metadata :: "addr option"
  as_flags :: int
  as_n_children :: int
  as_children :: "addr option"
  as_dictionary :: "addr option"
  as_release :: bool
  as_private_data :: "addr option"

type_synonym array_boxes = "(arrow_array, array_private) boxes"
type_synonym schema_boxes = "(arrow_schema, schema_private) boxes"

record export_heap =
  eh_arrays :: array_boxes
  eh_schemas :: schema_boxes

text \<open>Steps that may fail; what they have allocated by then stays allocated.\<close>

type_synonym 'a io = "export_heap \<Rightarrow> 'a res \<times> export_heap"

definition io_return :: "'a \<Rightarrow> 'a io" where
  "io_return x h = (Inr x, h)"

definition io_lift :: "'a res \<Rightarrow> 'a io" where
  "io_lift r h = (r, h)"

definition io_bind :: "'a io \<Rightarrow> ('a \<Rightarrow> 'b io) \<Rightarrow> 'b io" where
  "io_bind m f h = (case m h of (Inl e, h1) \<Rightarrow> (Inl e, h1) | (Inr x, h1) \<Rightarrow> f x h1)"

fun io_map :: "('a \<Rightarrow> 'b io) \<Rightarrow> 'a list \<Rightarrow> 'b list io" where
  "io_map f [] = io_return []"
| "io_map f (x # xs) = io_bind (f x) (\<lambda>y. io_bind (io_map f xs) (\<lambda>ys. io_return (y # ys)))"

definition new_array_private :: "array_private \<Rightarrow> addr io" where
  "new_array_private q h =
     (let (a, b) = new_private q (eh_arrays h) in (Inr a, h\<lparr>eh_arrays := b\<rparr>))"

definition box_array :: "arrow_array \<Rightarrow> addr io" where
  "box_array x h = (let (a, b) = new_object x (eh_arrays h) in (Inr a, h\<lparr>eh_arrays := b\<rparr>))"

definition new_schema_private :: "schema_private \<Rightarrow> addr io" where
  "new_schema_private q h =
     (let (a, b) = new_private q (eh_schemas h) in (Inr a, h\<lparr>eh_schemas := b\<rparr>))"

definition box_schema :: "arrow_schema \<Rightarrow> addr io" where
  "box_schema x h = (let (a, b) = new_object x (eh_schemas h) in (Inr a, h\<lparr>eh_schemas := b\<rparr>))"

section \<open>Buffers\<close>

definition set_bitmap :: "u8 list \<Rightarrow> usize \<Rightarrow> bool \<Rightarrow> u8 list" where
  "set_bitmap bitmap idx v =
     (let byte_idx = idx div 8;
          grown = (if length bitmap \<le> byte_idx then bitmap @ replicate (byte_idx + 1 - length bitmap) 0 else bitmap)
      in if v then grown[byte_idx := grown ! byte_idx OR push_bit (idx mod 8) 1] else grown)"

definition i32_max :: nat where
  "i32_max = 2 ^ 31 - 1"

definition string_step ::
  "u8 list \<times> i32 list \<times> u8 list \<times> nat \<Rightarrow> nat \<times> string option \<Rightarrow> (u8 list \<times> i32 list \<times> u8 list \<times> nat) res"
where
  "string_step st entry =
     (let (validity, offsets, data, null_count) = st; (idx, v) = entry;
          (validity, data, null_count) =
            (case v of
               Some s \<Rightarrow> (set_bitmap validity idx True, data @ str_bytes s, null_count)
             | None \<Rightarrow> (set_bitmap validity idx False, data, null_count + 1))
      in if i32_max < length data then invalid ''identity Arrow UTF-8 payload exceeds i32 offsets''
         else Inr (validity, offsets @ [of_nat (length data)], data, null_count))"

definition string_array :: "string option list \<Rightarrow> arrow_array io" where
  "string_array vals =
     io_bind (io_lift (fold_res string_step ([], [0], [], 0) (List.enumerate 0 vals)))
       (\<lambda>(bitmap, offsets, data, null_count).
          (let validity = (if 0 < null_count then Some bitmap else None) in
           io_bind
             (new_array_private
                (StringPrivate validity offsets data
                   [map_option (\<lambda>_. ValidityPart) validity, Some OffsetsPart, Some ValuesPart]))
             (\<lambda>private.
                io_return
                  \<lparr>aa_length = int (length vals), aa_null_count = int null_count, aa_offset = 0, aa_n_buffers = 3,
                   aa_n_children = 0, aa_buffers = Some private, aa_children = None, aa_dictionary = None,
                   aa_release = Some ReleaseString, aa_private_data = Some private\<rparr>)))"

definition f64_step ::
  "nat \<times> f64 option \<Rightarrow> u8 list \<times> f64 list \<times> nat \<Rightarrow> u8 list \<times> f64 list \<times> nat"
where
  "f64_step entry st =
     (let (validity, data, null_count) = st; (idx, v) = entry in
      case v of
        Some x \<Rightarrow> (set_bitmap validity idx True, data @ [x], null_count)
      | None \<Rightarrow> (set_bitmap validity idx False, data @ [f64_zero], null_count + 1))"

definition f64_array :: "f64 option list \<Rightarrow> arrow_array io" where
  "f64_array vals =
     (let (bitmap, data, null_count) = fold f64_step (List.enumerate 0 vals) ([], [], 0);
          validity = (if 0 < null_count then Some bitmap else None)
      in
      io_bind
        (new_array_private (F64Private validity data [map_option (\<lambda>_. ValidityPart) validity, Some ValuesPart]))
        (\<lambda>private.
           io_return
             \<lparr>aa_length = int (length vals), aa_null_count = int null_count, aa_offset = 0, aa_n_buffers = 2,
              aa_n_children = 0, aa_buffers = Some private, aa_children = None, aa_dictionary = None,
              aa_release = Some ReleaseF64, aa_private_data = Some private\<rparr>))"

definition bool_array :: "bool list \<Rightarrow> arrow_array io" where
  "bool_array vals =
     (let bitmap = fold (\<lambda>(idx, v) bm. set_bitmap bm idx v) (List.enumerate 0 vals) [] in
      io_bind (new_array_private (BoolPrivate bitmap [None, Some ValuesPart]))
        (\<lambda>private.
           io_return
             \<lparr>aa_length = int (length vals), aa_null_count = 0, aa_offset = 0, aa_n_buffers = 2,
              aa_n_children = 0, aa_buffers = Some private, aa_children = None, aa_dictionary = None,
              aa_release = Some ReleaseBool, aa_private_data = Some private\<rparr>))"

definition struct_array :: "usize \<Rightarrow> addr list \<Rightarrow> arrow_array io" where
  "struct_array len children =
     io_bind (new_array_private (StructPrivate (map Some children) [None]))
       (\<lambda>private.
          io_return
            \<lparr>aa_length = int len, aa_null_count = 0, aa_offset = 0, aa_n_buffers = 1,
             aa_n_children = int (length children), aa_buffers = Some private, aa_children = Some private,
             aa_dictionary = None, aa_release = Some ReleaseStruct, aa_private_data = Some private\<rparr>)"

section \<open>Schemas\<close>

text \<open>\<open>CString::new\<close> refuses an interior NUL.\<close>

definition c_string :: "string \<Rightarrow> string \<Rightarrow> string res" where
  "c_string s message = (if CHR 0x00 \<in> set s then Inl (Validation message) else Inr s)"

definition schema :: "string \<Rightarrow> string \<Rightarrow> bool \<Rightarrow> addr list \<Rightarrow> arrow_schema io" where
  "schema name format nullable children =
     io_bind (io_lift (c_string format ''Arrow schema format contains nul'')) (\<lambda>format.
     io_bind (io_lift (c_string name ''Arrow schema name contains nul'')) (\<lambda>name.
     io_bind
       (new_schema_private
          \<lparr>sp_format = format, sp_name = name, sp_metadata = None, sp_children = map Some children\<rparr>)
       (\<lambda>private.
          io_return
            \<lparr>as_format = Some private, as_name = Some private, as_metadata = None,
             as_flags = (if nullable then 2 else 0), as_n_children = int (length children),
             as_children = Some private, as_dictionary = None, as_release = True,
             as_private_data = Some private\<rparr>)))"

definition field_schema :: "string \<Rightarrow> string \<Rightarrow> bool \<Rightarrow> arrow_schema io" where
  "field_schema name format nullable = schema name format nullable []"

definition struct_schema :: "string \<Rightarrow> addr list \<Rightarrow> arrow_schema io" where
  "struct_schema name children = schema name ''+s'' False children"

section \<open>Release\<close>

text \<open>The private data that a release function casts to.\<close>

fun casts_to :: "array_release \<Rightarrow> array_private \<Rightarrow> bool" where
  "casts_to ReleaseString (StringPrivate _ _ _ _) = True"
| "casts_to ReleaseBool (BoolPrivate _ _) = True"
| "casts_to ReleaseF64 (F64Private _ _ _) = True"
| "casts_to ReleaseStruct (StructPrivate _ _) = True"
| "casts_to _ _ = False"

definition take_private :: "array_release \<Rightarrow> addr \<Rightarrow> array_boxes \<Rightarrow> array_private option" where
  "take_private kind p h =
     (case bx_privates h p of None \<Rightarrow> None | Some q \<Rightarrow> if casts_to kind q then Some q else None)"

text \<open>\<open>release_string_array\<close>, \<open>release_bool_array\<close> and \<open>release_f64_array\<close> differ in the type they cast to.\<close>

definition release_leaf_array :: "array_release \<Rightarrow> addr \<Rightarrow> array_boxes \<Rightarrow> array_boxes option" where
  "release_leaf_array kind a h =
     Option.bind (bx_objects h a) (\<lambda>x.
       if aa_release x = None then Some h
       else
         (let h1 = set_object a (x\<lparr>aa_release := None\<rparr>) h in
          Option.bind
            (case aa_private_data x of
               None \<Rightarrow> Some h1
             | Some p \<Rightarrow> Option.bind (take_private kind p h1) (\<lambda>_. drop_private p h1))
            (update_object a (\<lambda>y. y\<lparr>aa_private_data := None, aa_buffers := None\<rparr>))))"

definition release_struct_array ::
  "(addr \<Rightarrow> array_boxes \<Rightarrow> array_boxes option) \<Rightarrow> addr \<Rightarrow> array_boxes \<Rightarrow> array_boxes option"
where
  "release_struct_array call a h =
     Option.bind (bx_objects h a) (\<lambda>x.
       if aa_release x = None then Some h
       else
         (let h1 = set_object a (x\<lparr>aa_release := None\<rparr>) h in
          Option.bind
            (case aa_private_data x of
               None \<Rightarrow> Some h1
             | Some p \<Rightarrow>
                 Option.bind (take_private ReleaseStruct p h1) (\<lambda>q.
                 Option.bind (release_kids call (struct_children q) h1) (drop_private p)))
            (update_object a (\<lambda>y. y\<lparr>aa_private_data := None, aa_buffers := None, aa_children := None\<rparr>))))"

text \<open>
  \<open>if let Some(release) = (*array).release { release(array) }\<close>: a call through the function pointer. The
  fuel is the depth of the tree; running out of it is \<open>None\<close> as well.
\<close>

fun call_array_release :: "nat \<Rightarrow> addr \<Rightarrow> array_boxes \<Rightarrow> array_boxes option" where
  "call_array_release 0 a h = None"
| "call_array_release (Suc n) a h =
     Option.bind (bx_objects h a) (\<lambda>x.
       case aa_release x of
         None \<Rightarrow> Some h
       | Some ReleaseStruct \<Rightarrow> release_struct_array (call_array_release n) a h
       | Some kind \<Rightarrow> release_leaf_array kind a h)"

definition release_schema ::
  "(addr \<Rightarrow> schema_boxes \<Rightarrow> schema_boxes option) \<Rightarrow> addr \<Rightarrow> schema_boxes \<Rightarrow> schema_boxes option"
where
  "release_schema call a h =
     Option.bind (bx_objects h a) (\<lambda>x.
       if \<not> as_release x then Some h
       else
         (let h1 = set_object a (x\<lparr>as_release := False\<rparr>) h in
          Option.bind
            (case as_private_data x of
               None \<Rightarrow> Some h1
             | Some p \<Rightarrow>
                 Option.bind (bx_privates h1 p) (\<lambda>q.
                 Option.bind (release_kids call (sp_children q) h1) (drop_private p)))
            (update_object a
               (\<lambda>y. y\<lparr>as_private_data := None, as_format := None, as_name := None, as_metadata := None,
                     as_children := None\<rparr>))))"

fun call_schema_release :: "nat \<Rightarrow> addr \<Rightarrow> schema_boxes \<Rightarrow> schema_boxes option" where
  "call_schema_release 0 a h = None"
| "call_schema_release (Suc n) a h =
     Option.bind (bx_objects h a) (\<lambda>x.
       if as_release x then release_schema (call_schema_release n) a h else Some h)"

definition arrow_array_free :: "nat \<Rightarrow> addr option \<Rightarrow> array_boxes \<Rightarrow> array_boxes option" where
  "arrow_array_free n = free_object (call_array_release n)"

definition arrow_schema_free :: "nat \<Rightarrow> addr option \<Rightarrow> schema_boxes \<Rightarrow> schema_boxes option" where
  "arrow_schema_free n = free_object (call_schema_release n)"

end
