(* ===== verification/Arrow_Export.thy ===== *)
theory Arrow_Export
  imports Arrow_Arrays Coordinator_Tables Axis_Coordinates Provider
begin

text \<open>
  The tables that \<open>dag-ml-data-capi/src/lib.rs\<close> exports as Arrow structs: the identity of relations, the
  values of one or several targets, and feature blocks; and the requests that build the block first.
  Encoding a relation as JSON and reading a JSON number as a 64 bit float are parameters.
\<close>

section \<open>Children of a struct\<close>

datatype column =
    Strings "string option list"
  | Floats "f64 option list"
  | Bools "bool list"

fun column_array :: "column \<Rightarrow> arrow_array io" where
  "column_array (Strings vals) = string_array vals"
| "column_array (Floats vals) = f64_array vals"
| "column_array (Bools vals) = bool_array vals"

definition boxed_column :: "column \<Rightarrow> addr io" where
  "boxed_column col = io_bind (column_array col) box_array"

definition boxed_field :: "string \<times> string \<times> bool \<Rightarrow> addr io" where
  "boxed_field field = (let (name, format, nullable) = field in io_bind (field_schema name format nullable) box_schema)"

definition texts :: "'k ident list \<Rightarrow> column" where
  "texts xs = Strings (map (\<lambda>x. Some (as_str x)) xs)"

definition optional_texts :: "'k ident option list \<Rightarrow> column" where
  "optional_texts xs = Strings (map (map_option as_str) xs)"

section \<open>Identity\<close>

definition rich_relation :: "coordinator_relation \<Rightarrow> bool" where
  "rich_relation r \<longleftrightarrow>
     cr_unit_level r \<noteq> UnitObservation \<or> cr_unit_id r \<noteq> None \<or> cr_rep_id r \<noteq> None \<or>
     cr_derived_unit_id r \<noteq> None \<or> cr_component_observation_ids r \<noteq> [] \<or>
     cr_sample_influence_weight r \<noteq> None \<or> cr_quality_flag r \<noteq> None \<or> cr_excluded r \<or>
     cr_metadata r \<noteq> [] \<or> cr_tags r \<noteq> []"

definition identity_columns :: "coordinator_relation list \<Rightarrow> column list" where
  "identity_columns records =
     [texts (map cr_observation_id records), texts (map cr_sample_id records),
      optional_texts (map cr_target_id records), optional_texts (map cr_group_id records),
      optional_texts (map cr_origin_sample_id records), optional_texts (map cr_source_id records),
      Bools (map cr_is_augmented records)]"

definition identity_fields :: "(string \<times> string \<times> bool) list" where
  "identity_fields =
     [(''observation_id'', ''u'', False), (''sample_id'', ''u'', False), (''target_id'', ''u'', True),
      (''group_id'', ''u'', True), (''origin_sample_id'', ''u'', True), (''source_id'', ''u'', True),
      (''is_augmented'', ''b'', False)]"

definition build_identity_relations_arrow ::
  "(coordinator_relation \<Rightarrow> string res) \<Rightarrow> relation_set \<Rightarrow> (arrow_array \<times> arrow_schema) io"
where
  "build_identity_relations_arrow to_json relations =
     io_bind (io_lift (relation_set_validate relations)) (\<lambda>_.
       (let records = rs_records relations; rich = list_ex rich_relation records in
        io_bind (io_lift (if rich then map_res to_json records else Inr [])) (\<lambda>relation_json.
        io_bind (io_map boxed_column (identity_columns records)) (\<lambda>child_arrays.
        io_bind (io_map boxed_field identity_fields) (\<lambda>child_schemas.
        io_bind (io_map boxed_column (if rich then [Strings (map Some relation_json)] else [])) (\<lambda>more_arrays.
        io_bind (io_map boxed_field (if rich then [(''relation_json'', ''u'', False)] else [])) (\<lambda>more_schemas.
        io_bind (struct_array (length records) (child_arrays @ more_arrays)) (\<lambda>arr.
        io_bind (struct_schema ''coordinator_identity'' (child_schemas @ more_schemas)) (\<lambda>sch.
          io_return (arr, sch))))))))))"

definition build_identity_arrow ::
  "external \<Rightarrow> (coordinator_relation \<Rightarrow> string res) \<Rightarrow> envelope \<Rightarrow> (arrow_array \<times> arrow_schema) io"
where
  "build_identity_arrow ex to_json e =
     io_bind (io_lift (envelope_validate ex e)) (\<lambda>_.
     io_bind
       (io_lift
          (ok_or (en_coordinator_relations e)
             (Validation ''coordinator identity export requires coordinator_relations'')))
       (build_identity_relations_arrow to_json))"

section \<open>Targets\<close>

definition numeric_target :: "(string \<Rightarrow> f64 option) \<Rightarrow> json \<Rightarrow> f64 option res" where
  "numeric_target number_f64 v =
     (case v of
        JNumber n \<Rightarrow> rbind (ok_or (number_f64 n) (Validation ''non-f64 numeric value'')) (\<lambda>x. Inr (Some x))
      | _ \<Rightarrow> invalid ''Arrow smoke only supports numeric values'')"

definition build_target_arrow ::
  "(string \<Rightarrow> f64 option) \<Rightarrow> target_block \<Rightarrow> (arrow_array \<times> arrow_schema) io"
where
  "build_target_arrow number_f64 t =
     io_bind (io_lift (map_res (numeric_target number_f64) (tb_values t))) (\<lambda>numeric_values.
     io_bind
       (io_map boxed_column
          [texts (tb_sample_ids t),
           Strings (replicate (length (tb_sample_ids t)) (Some (as_str (tb_target_id t)))),
           Floats numeric_values]) (\<lambda>child_arrays.
     io_bind
       (io_map boxed_field
          [(''sample_id'', ''u'', False), (''target_id'', ''u'', False), (''value'', ''g'', True)])
       (\<lambda>child_schemas.
     io_bind (struct_array (length (tb_sample_ids t)) child_arrays) (\<lambda>arr.
     io_bind (struct_schema ''coordinator_target'' child_schemas) (\<lambda>sch.
       io_return (arr, sch))))))"

definition numeric_or_null :: "(string \<Rightarrow> f64 option) \<Rightarrow> json \<Rightarrow> f64 option res" where
  "numeric_or_null number_f64 v =
     (case v of
        JNull \<Rightarrow> Inr None
      | JNumber n \<Rightarrow> rbind (ok_or (number_f64 n) (Validation ''non-f64 numeric value'')) (\<lambda>x. Inr (Some x))
      | _ \<Rightarrow> invalid ''Arrow smoke only supports numeric or null values'')"

definition masked_target :: "(string \<Rightarrow> f64 option) \<Rightarrow> json \<times> bool \<Rightarrow> f64 option res" where
  "masked_target number_f64 cell =
     (let (v, valid) = cell in if \<not> valid \<or> json_is_null v then Inr None else numeric_or_null number_f64 v)"

text \<open>One target of a multi-target block: its column, then its field.\<close>

definition multi_target_child ::
  "(string \<Rightarrow> f64 option) \<Rightarrow> multi_target_block \<Rightarrow> nat \<times> target_id \<Rightarrow> (addr \<times> addr) io"
where
  "multi_target_child number_f64 t entry =
     (let (idx, target_id) = entry in
      io_bind (io_lift (ok_or (nth_opt (mb_values t) idx) (Validation ''missing values''))) (\<lambda>vals.
      io_bind (io_lift (ok_or (nth_opt (mb_validity_masks t) idx) (Validation ''missing validity mask'')))
        (\<lambda>validity.
      io_bind
        (io_lift
           (if length vals \<noteq> length (mb_sample_ids t) \<or> length validity \<noteq> length (mb_sample_ids t)
            then invalid ''not aligned to sample_ids'' else Inr ())) (\<lambda>_.
      io_bind (io_lift (map_res (masked_target number_f64) (zip vals validity))) (\<lambda>numeric_values.
      io_bind (boxed_column (Floats numeric_values)) (\<lambda>a.
      io_bind (boxed_field (as_str target_id, ''g'', True)) (\<lambda>s.
        io_return (a, s))))))))"

definition build_multi_target_arrow ::
  "(string \<Rightarrow> f64 option) \<Rightarrow> multi_target_block \<Rightarrow> (arrow_array \<times> arrow_schema) io"
where
  "build_multi_target_arrow number_f64 t =
     io_bind
       (io_lift
          (if length (mb_values t) \<noteq> length (mb_target_ids t) \<or>
              length (mb_validity_masks t) \<noteq> length (mb_target_ids t)
           then invalid ''multi-target block target/value/mask lengths differ'' else Inr ())) (\<lambda>_.
     io_bind (io_map boxed_column [texts (mb_sample_ids t)]) (\<lambda>child_arrays.
     io_bind (io_map boxed_field [(''sample_id'', ''u'', False)]) (\<lambda>child_schemas.
     io_bind (io_map (multi_target_child number_f64 t) (List.enumerate 0 (mb_target_ids t))) (\<lambda>more.
     io_bind (struct_array (length (mb_sample_ids t)) (child_arrays @ map fst more)) (\<lambda>arr.
     io_bind (struct_schema ''coordinator_multi_target'' (child_schemas @ map snd more)) (\<lambda>sch.
       io_return (arr, sch)))))))"

section \<open>Features\<close>

definition feature_cell :: "(string \<Rightarrow> f64 option) \<Rightarrow> nat \<Rightarrow> json list \<Rightarrow> f64 option res" where
  "feature_cell number_f64 idx row =
     (if length row \<le> idx then Inl slice_panic else numeric_or_null number_f64 (row ! idx))"

definition feature_child ::
  "(string \<Rightarrow> f64 option) \<Rightarrow> feature_block \<Rightarrow> nat \<times> string \<Rightarrow> (addr \<times> addr) io"
where
  "feature_child number_f64 f entry =
     (let (idx, name) = entry in
      io_bind (io_lift (map_res (feature_cell number_f64 idx) (fb_values f))) (\<lambda>numeric_values.
      io_bind (boxed_column (Floats numeric_values)) (\<lambda>a.
      io_bind (boxed_field (name, ''g'', True)) (\<lambda>s.
        io_return (a, s)))))"

definition build_feature_arrow ::
  "(string \<Rightarrow> f64 option) \<Rightarrow> feature_block \<Rightarrow> (arrow_array \<times> arrow_schema) io"
where
  "build_feature_arrow number_f64 f =
     io_bind (io_map boxed_column [texts (fb_observation_ids f), texts (fb_sample_ids f)]) (\<lambda>child_arrays.
     io_bind (io_map boxed_field [(''observation_id'', ''u'', False), (''sample_id'', ''u'', False)])
       (\<lambda>child_schemas.
     io_bind (io_map (feature_child number_f64 f) (List.enumerate 0 (fb_feature_names f))) (\<lambda>more.
     io_bind (struct_array (length (fb_observation_ids f)) (child_arrays @ map fst more)) (\<lambda>arr.
     io_bind (struct_schema ''coordinator_features'' (child_schemas @ map snd more)) (\<lambda>sch.
       io_return (arr, sch))))))"

section \<open>Blocks of a request\<close>

record target_request =
  tq_envelope :: envelope
  tq_materialization_request :: materialization_request
  tq_view :: data_view
  tq_target_table :: target_table
  tq_owner_controller :: string

record multi_target_request =
  mq_envelope :: envelope
  mq_materialization_request :: materialization_request
  mq_view :: data_view
  mq_target_tables :: "target_table list"
  mq_owner_controller :: string

record feature_request =
  fq_envelope :: envelope
  fq_materialization_request :: materialization_request
  fq_view :: data_view
  fq_feature_table :: feature_table
  fq_owner_controller :: string

definition build_target_block :: "external \<Rightarrow> target_request \<Rightarrow> target_block res" where
  "build_target_block ex q =
     rbind (arena_new (tq_owner_controller q)) (\<lambda>arena.
     rbind (materialize ex (tq_envelope q) (tq_materialization_request q) arena) (\<lambda>(data, arena).
     rbind (make_view ex (hr_handle (dh_handle data)) (tq_view q) arena) (\<lambda>(view, arena).
       target_values arena (hr_handle (vh_handle view)) (tq_target_table q))))"

definition build_multi_target_block :: "external \<Rightarrow> multi_target_request \<Rightarrow> multi_target_block res" where
  "build_multi_target_block ex q =
     rbind (arena_new (mq_owner_controller q)) (\<lambda>arena.
     rbind (materialize ex (mq_envelope q) (mq_materialization_request q) arena) (\<lambda>(data, arena).
     rbind (make_view ex (hr_handle (dh_handle data)) (mq_view q) arena) (\<lambda>(view, arena).
       multi_target_values arena (hr_handle (vh_handle view)) (mq_target_tables q))))"

definition build_feature_block :: "external \<Rightarrow> feature_request \<Rightarrow> feature_block res" where
  "build_feature_block ex q =
     rbind (arena_new (fq_owner_controller q)) (\<lambda>arena.
     rbind (materialize ex (fq_envelope q) (fq_materialization_request q) arena) (\<lambda>(data, arena).
     rbind (make_view ex (hr_handle (dh_handle data)) (fq_view q) arena) (\<lambda>(view, arena).
       feature_values arena (hr_handle (vh_handle view)) (fq_feature_table q))))"

section \<open>Handing over\<close>

text \<open>\<open>*out_array = Box::into_raw(Box::new(array))\<close> and the same for the schema.\<close>

definition export_pair :: "(arrow_array \<times> arrow_schema) io \<Rightarrow> (addr \<times> addr) io" where
  "export_pair m =
     io_bind m (\<lambda>(arr, sch). io_bind (box_array arr) (\<lambda>a. io_bind (box_schema sch) (\<lambda>s. io_return (a, s))))"

end
