(* ===== verification/Arrow_Buffers.thy ===== *)
theory Arrow_Buffers
  imports Arrow_Export Buffer_File_Roundtrip
begin

text \<open>
  What a reader of the Arrow C data interface finds in the buffers: validity bitmaps with the least
  significant bit first, the 32 bit offsets of strings, and the values; and that the exporter has written
  exactly the columns it was given.
\<close>

section \<open>Reading\<close>

definition read_bit :: "u8 list \<Rightarrow> nat \<Rightarrow> bool" where
  "read_bit bitmap i = bit (bitmap ! (i div 8)) (i mod 8)"

text \<open>A missing validity buffer says that no value is null.\<close>

definition read_present :: "buffer_part option \<Rightarrow> u8 list option \<Rightarrow> nat \<Rightarrow> bool" where
  "read_present slot validity i = (slot = None \<or> read_bit (the validity) i)"

definition read_text :: "i32 list \<Rightarrow> u8 list \<Rightarrow> nat \<Rightarrow> string" where
  "read_text offsets data i =
     (let a = unat (offsets ! i); b = unat (offsets ! (i + 1)) in string_of_bytes (take (b - a) (drop a data)))"

definition read_arrow_column :: "string \<Rightarrow> nat \<Rightarrow> array_private \<Rightarrow> column option" where
  "read_arrow_column format len q =
     (case q of
        StringPrivate validity offsets data [slot, Some OffsetsPart, Some ValuesPart] \<Rightarrow>
          if format = ''u''
          then
            Some (Strings
              (map (\<lambda>i. if read_present slot validity i then Some (read_text offsets data i) else None) [0..<len]))
          else None
      | F64Private validity data [slot, Some ValuesPart] \<Rightarrow>
          if format = ''g''
          then Some (Floats (map (\<lambda>i. if read_present slot validity i then Some (data ! i) else None) [0..<len]))
          else None
      | BoolPrivate data [None, Some ValuesPart] \<Rightarrow>
          if format = ''b'' then Some (Bools (map (read_bit data) [0..<len])) else None
      | _ \<Rightarrow> None)"

section \<open>Bitmaps\<close>

definition bits_ok :: "u8 list \<Rightarrow> bool list \<Rightarrow> bool" where
  "bits_ok bitmap bs \<longleftrightarrow>
     length bitmap = (length bs + 7) div 8 \<and>
     (\<forall>i < 8 * length bitmap. read_bit bitmap i \<longleftrightarrow> i < length bs \<and> bs ! i)"

lemma bits_ok_nil [simp]: "bits_ok [] []"
  by (simp add: bits_ok_def)

lemma read_grown:
  "i < 8 * length bm \<Longrightarrow> read_bit (bm @ replicate n 0) i = read_bit bm i"
  "8 * length bm \<le> i \<Longrightarrow> i < 8 * (length bm + n) \<Longrightarrow> \<not> read_bit (bm @ replicate n 0) i"
  by (simp_all add: read_bit_def nth_append less_mult_imp_div_less div_less_iff_less_mult mult.commute)

lemma byte_position: "i div 8 = j div 8 \<Longrightarrow> i mod 8 = j mod 8 \<Longrightarrow> i = (j :: nat)"
  by (metis div_mult_mod_eq)

lemma read_set:
  assumes "j < 8 * length bm"
  shows "read_bit (bm[j div 8 := bm ! (j div 8) OR push_bit (j mod 8) 1]) i \<longleftrightarrow> read_bit bm i \<or> i = j"
proof -
  have "j div 8 < length bm" using assms by (simp add: less_mult_imp_div_less mult.commute)
  moreover have "i mod 8 < 8" "j mod 8 < 8" by simp_all
  ultimately show ?thesis
    using byte_position [of i j]
    by (auto simp: read_bit_def nth_list_update bit_simps)
qed

lemma set_bitmap_ok:
  assumes "bits_ok bm bs"
  shows "bits_ok (set_bitmap bm (length bs) v) (bs @ [v])"
proof -
  let ?n = "length bs"
  define grown where
    "grown = (if length bm \<le> ?n div 8 then bm @ replicate (?n div 8 + 1 - length bm) 0 else bm)"
  have len: "length bm = (?n + 7) div 8" and bits: "\<And>i. i < 8 * length bm \<Longrightarrow> read_bit bm i \<longleftrightarrow> i < ?n \<and> bs ! i"
    using assms by (simp_all add: bits_ok_def)
  have grow_size: "(?n + 8) div 8 = ?n div 8 + 1" by simp
  have length_grown: "length grown = (?n + 8) div 8"
    using len by (auto simp: grown_def)
  have "read_bit grown i \<longleftrightarrow> i < ?n \<and> bs ! i" if "i < 8 * length grown" for i
  proof (cases "i < 8 * length bm")
    case True
    then show ?thesis using bits by (simp add: grown_def read_grown)
  next
    case False
    then have grow: "length bm \<le> ?n div 8" using that by (auto simp: grown_def split: if_splits)
    then have "i < 8 * (length bm + (?n div 8 + 1 - length bm))" using that length_grown grow_size by simp
    with False have "\<not> read_bit (bm @ replicate (?n div 8 + 1 - length bm) 0) i"
      by (intro read_grown(2)) simp_all
    with grow have "\<not> read_bit grown i" by (simp add: grown_def)
    moreover have "?n \<le> i" using False len by linarith
    ultimately show ?thesis by simp
  qed
  moreover have "?n < 8 * length grown" using length_grown by linarith
  ultimately show ?thesis
    unfolding bits_ok_def set_bitmap_def grown_def [symmetric] Let_def
    using length_grown by (auto simp: read_set nth_append add.commute less_Suc_eq simp del: push_bit_of_1)
qed

lemma bits_ok_read: "bits_ok bm bs \<Longrightarrow> i < length bs \<Longrightarrow> read_bit bm i = bs ! i"
proof -
  assume ok: "bits_ok bm bs" and i: "i < length bs"
  then have "i < 8 * length bm" unfolding bits_ok_def by linarith
  with ok i show ?thesis by (simp add: bits_ok_def)
qed

lemma enumerate_snoc: "List.enumerate n (xs @ [x]) = List.enumerate n xs @ [(n + length xs, x)]"
  by (simp add: enumerate_append_eq)

lemma bool_bitmap: "bits_ok (fold (\<lambda>(idx, v) bm. set_bitmap bm idx v) (List.enumerate 0 vals) []) vals"
  by (induction vals rule: rev_induct) (simp_all add: enumerate_snoc set_bitmap_ok)

section \<open>Strings\<close>

primrec present :: "'a option \<Rightarrow> bool" where
  "present None = False"
| "present (Some v) = True"

primrec text_bytes :: "string option \<Rightarrow> u8 list" where
  "text_bytes None = []"
| "text_bytes (Some s) = str_bytes s"

definition text_data :: "string option list \<Rightarrow> u8 list" where
  "text_data vals = concat (map text_bytes vals)"

definition text_offset :: "string option list \<Rightarrow> nat \<Rightarrow> nat" where
  "text_offset vals k = length (text_data (take k vals))"

definition count_null :: "'a option list \<Rightarrow> nat" where
  "count_null vals = length (filter (\<lambda>v. v = None) vals)"

lemma count_null_simps [simp]:
  "count_null [] = 0" "count_null (vs @ [v]) = count_null vs + (if v = None then 1 else 0)"
  by (simp_all add: count_null_def)

lemma text_data_snoc [simp]: "text_data [] = []" "text_data (vs @ [v]) = text_data vs @ text_bytes v"
  by (simp_all add: text_data_def)

lemma string_fold:
  "fold_res string_step ([], [0], [], 0) (List.enumerate 0 vals) = Inr (bm, offsets, data, nulls) \<Longrightarrow>
   bits_ok bm (map present vals) \<and> offsets = map (\<lambda>k. of_nat (text_offset vals k)) [0..<length vals + 1] \<and>
   data = text_data vals \<and> nulls = count_null vals \<and> (vals \<noteq> [] \<longrightarrow> length (text_data vals) \<le> i32_max)"
proof (induction vals arbitrary: bm offsets data nulls rule: rev_induct)
  case Nil
  then show ?case by (simp add: text_offset_def)
next
  case (snoc v vals)
  then obtain bm' offsets' data' nulls' where
      run: "fold_res string_step ([], [0], [], 0) (List.enumerate 0 vals) = Inr (bm', offsets', data', nulls')"
    and last: "string_step (bm', offsets', data', nulls') (length vals, v) = Inr (bm, offsets, data, nulls)"
    by (auto simp: enumerate_snoc fold_res_append rbind_eq_Inr)
  note ih = snoc.IH [OF run]
  have bm: "bits_ok (set_bitmap bm' (length vals) (present v)) (map present (vals @ [v]))"
    using set_bitmap_ok [of bm' "map present vals" "present v"] ih by simp
  have old: "map (\<lambda>k. of_nat (text_offset (vals @ [v]) k)) [0..<length vals + 1] =
      (map (\<lambda>k. of_nat (text_offset vals k)) [0..<length vals + 1] :: i32 list)"
    by (simp add: text_offset_def)
  have "map (\<lambda>k. of_nat (text_offset (vals @ [v]) k)) [0..<length (vals @ [v]) + 1] =
      (map (\<lambda>k. of_nat (text_offset vals k)) [0..<length vals + 1] @ [of_nat (length (text_data (vals @ [v])))] :: i32 list)"
    using old by (simp add: text_offset_def)
  then show ?case
    using last ih bm by (cases v) (auto simp: string_step_def split: if_splits)
qed

lemma offset_exact:
  assumes "length (text_data vals) \<le> i32_max"
  shows "unat (of_nat (text_offset vals k) :: i32) = text_offset vals k"
proof -
  have "text_offset vals k \<le> length (text_data vals)"
  proof -
    have "text_data vals = text_data (take k vals) @ text_data (drop k vals)"
      by (simp add: text_data_def flip: concat_append map_append)
    then show ?thesis by (metis text_offset_def length_append le_add1)
  qed
  with assms have "text_offset vals k < 2 ^ LENGTH(32)" by (simp add: i32_max_def)
  then show ?thesis by (simp add: unat_of_nat take_bit_nat_eq_self)
qed

lemma read_text_ok:
  assumes "length (text_data vals) \<le> i32_max" and "i < length vals" and "vals ! i = Some s"
  shows "read_text (map (\<lambda>k. of_nat (text_offset vals k)) [0..<length vals + 1]) (text_data vals) i = s"
proof -
  have "text_data vals = text_data (take i vals) @ str_bytes s @ text_data (drop (Suc i) vals)"
    using assms(2,3) by (subst id_take_nth_drop [of i vals]) (simp_all add: text_data_def)
  moreover have "text_data (take (Suc i) vals) = text_data (take i vals) @ str_bytes s"
    using assms(2,3) by (simp add: take_Suc_conv_app_nth)
  ultimately have "take (text_offset vals (i + 1) - text_offset vals i) (drop (text_offset vals i) (text_data vals)) =
      str_bytes s"
    by (simp add: text_offset_def)
  then show ?thesis
    using assms(1,2) offset_exact by (simp add: read_text_def Let_def string_of_str_bytes del: upt_Suc)
qed

section \<open>Columns read back\<close>

lemma count_null_zero: "count_null vals = 0 \<longleftrightarrow> None \<notin> set vals"
  by (induction vals) (auto simp: count_null_def)

lemma present_iff: "present v \<longleftrightarrow> v \<noteq> None"
  by (cases v) simp_all

text \<open>The validity slot is null exactly if no value is.\<close>

lemma read_present_ok:
  assumes "bits_ok bm (map present vals)" and "i < length vals"
  shows "read_present
      (map_option (\<lambda>_. ValidityPart) (if 0 < count_null vals then Some bm else None))
      (if 0 < count_null vals then Some bm else None) i \<longleftrightarrow> vals ! i \<noteq> None"
proof -
  have "count_null vals = 0 \<Longrightarrow> vals ! i \<noteq> None" using count_null_zero nth_mem [OF assms(2)] by metis
  then show ?thesis
    using assms bits_ok_read [OF assms(1), of i] by (auto simp: read_present_def present_iff)
qed

lemma map_by_index:
  "(\<And>i. i < length vals \<Longrightarrow> f i = vals ! i) \<Longrightarrow> map f [0..<length vals] = vals"
  by (intro nth_equalityI) simp_all

lemma strings_read_back:
  assumes "fold_res string_step ([], [0], [], 0) (List.enumerate 0 vals) = Inr (bm, offsets, data, nulls)"
    and "validity = (if 0 < nulls then Some bm else None)"
  shows "read_arrow_column ''u'' (length vals)
      (StringPrivate validity offsets data [map_option (\<lambda>_. ValidityPart) validity, Some OffsetsPart, Some ValuesPart]) =
    Some (Strings vals)"
proof -
  note run = string_fold [OF assms(1)]
  have "(if read_present (map_option (\<lambda>_. ValidityPart) validity) validity i
      then Some (read_text offsets data i) else None) = vals ! i" if "i < length vals" for i
  proof (cases "vals ! i")
    case (Some s)
    have "read_text offsets data i = s"
      using read_text_ok [OF _ that Some] run that by (auto simp del: upt_Suc)
    then show ?thesis using read_present_ok [of bm vals i] run that Some by (simp add: assms(2))
  qed (use read_present_ok [of bm vals i] run that in \<open>simp add: assms(2)\<close>)
  then show ?thesis by (simp add: read_arrow_column_def map_by_index)
qed

definition filled :: "f64 option \<Rightarrow> f64" where
  "filled v = (case v of Some x \<Rightarrow> x | None \<Rightarrow> f64_zero)"

lemma f64_step_eq:
  "f64_step (idx, v) (bm, data, nulls) =
     (set_bitmap bm idx (present v), data @ [filled v], nulls + (if v = None then 1 else 0))"
  by (cases v) (simp_all add: f64_step_def filled_def)

lemma f64_fold:
  "fold f64_step (List.enumerate 0 vals) ([], [], 0) = (bm, data, nulls) \<Longrightarrow>
   bits_ok bm (map present vals) \<and> data = map filled vals \<and> nulls = count_null vals"
proof (induction vals arbitrary: bm data nulls rule: rev_induct)
  case (snoc v vals)
  obtain bm' data' nulls' where run: "fold f64_step (List.enumerate 0 vals) ([], [], 0) = (bm', data', nulls')"
    by (cases "fold f64_step (List.enumerate 0 vals) ([], [], 0)") auto
  have "bits_ok (set_bitmap bm' (length vals) (present v)) (map present (vals @ [v]))"
    using set_bitmap_ok [of bm' "map present vals" "present v"] snoc.IH [OF run] by simp
  then show ?case
    using snoc.prems snoc.IH [OF run] by (auto simp: enumerate_snoc run f64_step_eq)
qed simp

lemma floats_read_back:
  assumes "fold f64_step (List.enumerate 0 vals) ([], [], 0) = (bm, data, nulls)"
    and "validity = (if 0 < nulls then Some bm else None)"
  shows "read_arrow_column ''g'' (length vals)
      (F64Private validity data [map_option (\<lambda>_. ValidityPart) validity, Some ValuesPart]) = Some (Floats vals)"
proof -
  note run = f64_fold [OF assms(1)]
  have "(if read_present (map_option (\<lambda>_. ValidityPart) validity) validity i then Some (data ! i) else None) = vals ! i"
    if "i < length vals" for i
    using read_present_ok [of bm vals i] run that by (auto simp: assms(2) filled_def)
  then show ?thesis by (simp add: read_arrow_column_def map_by_index)
qed

lemma bools_read_back:
  "read_arrow_column ''b'' (length vals)
     (BoolPrivate (fold (\<lambda>(idx, v) bm. set_bitmap bm idx v) (List.enumerate 0 vals) []) [None, Some ValuesPart]) =
   Some (Bools vals)"
  using bits_ok_read [OF bool_bitmap [of vals]] by (simp add: read_arrow_column_def map_by_index)

section \<open>Arrays of a column\<close>

fun column_format :: "column \<Rightarrow> string" where
  "column_format (Strings _) = ''u''"
| "column_format (Floats _) = ''g''"
| "column_format (Bools _) = ''b''"

fun column_length :: "column \<Rightarrow> nat" where
  "column_length (Strings vals) = length vals"
| "column_length (Floats vals) = length vals"
| "column_length (Bools vals) = length vals"

text \<open>Building an array allocates its private data, which reads as the column, and changes nothing else.\<close>

lemma column_array_ok:
  assumes "column_array col h = (Inr x, h')"
  shows "\<exists>q p b. new_private q (eh_arrays h) = (p, b) \<and> h' = h\<lparr>eh_arrays := b\<rparr> \<and>
    read_arrow_column (column_format col) (column_length col) q = Some col \<and> aa_length x = int (column_length col) \<and>
    aa_buffers x = Some p \<and> aa_private_data x = Some p \<and> aa_children x = None \<and>
    (\<exists>k. aa_release x = Some k \<and> k \<noteq> ReleaseStruct \<and> casts_to k q)"
proof (cases col)
  case (Strings vals)
  then obtain bm offsets data nulls where
      run: "fold_res string_step ([], [0], [], 0) (List.enumerate 0 vals) = Inr (bm, offsets, data, nulls)"
    using assms by (auto simp: string_array_def io_bind_def io_lift_def split: sum.splits)
  obtain p b where "new_private (StringPrivate (if 0 < nulls then Some bm else None) offsets data
      [map_option (\<lambda>_. ValidityPart) (if 0 < nulls then Some bm else None), Some OffsetsPart, Some ValuesPart])
      (eh_arrays h) = (p, b)"
    by fastforce
  then show ?thesis
    using assms strings_read_back [OF run refl] Strings run
    by (force simp: string_array_def io_bind_def io_lift_def io_return_def new_array_private_def Let_def)
next
  case (Floats vals)
  obtain bm data nulls where run: "fold f64_step (List.enumerate 0 vals) ([], [], 0) = (bm, data, nulls)"
    by (cases "fold f64_step (List.enumerate 0 vals) ([], [], 0)") auto
  obtain p b where "new_private (F64Private (if 0 < nulls then Some bm else None) data
      [map_option (\<lambda>_. ValidityPart) (if 0 < nulls then Some bm else None), Some ValuesPart])
      (eh_arrays h) = (p, b)"
    by fastforce
  then show ?thesis
    using assms floats_read_back [OF run refl] Floats run
    by (force simp: f64_array_def io_bind_def io_return_def new_array_private_def Let_def)
next
  case (Bools vals)
  obtain p b where "new_private (BoolPrivate (fold (\<lambda>(idx, v) bm. set_bitmap bm idx v) (List.enumerate 0 vals) [])
      [None, Some ValuesPart]) (eh_arrays h) = (p, b)"
    by fastforce
  then show ?thesis
    using assms bools_read_back [of vals] Bools
    by (force simp: bool_array_def io_bind_def io_return_def new_array_private_def Let_def)
qed

end
