(* ===== verification/Arrow_Roundtrip.thy ===== *)
theory Arrow_Roundtrip
  imports Arrow_Buffers
begin

text \<open>
  Exported tables from the consumer's side: what the reader finds behind the two pointers, and what the
  release functions leave behind.
\<close>

section \<open>Release functions keep the protocol\<close>

definition array_owner :: "arrow_array \<Rightarrow> addr option" where
  "array_owner x = (if aa_release x = None then None else aa_private_data x)"

definition array_fits :: "arrow_array \<Rightarrow> array_private \<Rightarrow> bool" where
  "array_fits x q = (case aa_release x of None \<Rightarrow> False | Some k \<Rightarrow> casts_to k q)"

fun array_kids :: "array_private \<Rightarrow> addr option list" where
  "array_kids (StructPrivate children _) = children"
| "array_kids _ = []"

definition array_marked :: "arrow_array \<Rightarrow> arrow_array" where
  "array_marked x = x\<lparr>aa_release := None\<rparr>"

definition array_disarmed :: "arrow_array \<Rightarrow> arrow_array" where
  "array_disarmed x =
     x\<lparr>aa_release := None, aa_private_data := None, aa_buffers := None,
       aa_children := (if aa_release x = Some ReleaseStruct then None else aa_children x)\<rparr>"

definition schema_owner :: "arrow_schema \<Rightarrow> addr option" where
  "schema_owner x = (if as_release x then as_private_data x else None)"

definition schema_disarmed :: "arrow_schema \<Rightarrow> arrow_schema" where
  "schema_disarmed x =
     x\<lparr>as_release := False, as_private_data := None, as_format := None, as_name := None, as_metadata := None,
       as_children := None\<rparr>"

lemma casts_no_kids: "casts_to k q \<Longrightarrow> k \<noteq> ReleaseStruct \<Longrightarrow> array_kids q = []"
  by (cases k; cases q) simp_all

lemma casts_struct: "casts_to ReleaseStruct q \<Longrightarrow> array_kids q = struct_children q"
  by (cases q) simp_all

lemma bind_Some_eq: "Option.bind (Some x) f = f x"
  by simp

interpretation arrays: release_protocol array_owner array_fits array_kids array_marked array_disarmed call_array_release
proof
  fix h :: array_boxes and a x p q n h2
  assume x: "bx_objects h a = Some x" "array_owner x = Some p" "bx_privates h p = Some q" "array_fits x q"
    and kids: "release_kids (call_array_release n) (array_kids q) (set_object a (array_marked x) h) = Some h2"
    and still: "bx_objects h2 a = Some (array_marked x)" "bx_privates h2 p = Some q"
  obtain k where k: "aa_release x = Some k" "aa_private_data x = Some p" "casts_to k q"
    using x(2,4) by (auto simp: array_owner_def array_fits_def split: if_splits option.splits)
  have taken: "take_private k p (set_object a (x\<lparr>aa_release := None\<rparr>) h) = Some q"
    using x(3) k(3) by (simp add: take_private_def set_object_def)
  show "call_array_release (Suc n) a h = Some (h2\<lparr>bx_objects := (bx_objects h2)(a := Some (array_disarmed x)),
      bx_privates := (bx_privates h2)(p := None)\<rparr>)"
  proof (cases "k = ReleaseStruct")
    case True
    then show ?thesis
      using x(1) k kids still taken casts_struct [of q]
      by (simp add: release_struct_array_def array_marked_def drop_private_def update_object_def set_object_def
          array_disarmed_def)
  next
    case False
    then have h2: "h2 = set_object a (x\<lparr>aa_release := None\<rparr>) h"
      using kids casts_no_kids [OF k(3)] by (simp add: array_marked_def)
    have "call_array_release (Suc n) a h = release_leaf_array k a h"
      using x(1) k(1) False by (cases k) simp_all
    then show ?thesis
      using x k taken False
      by (simp add: release_leaf_array_def drop_private_def update_object_def set_object_def h2 array_disarmed_def)
  qed
next
  fix h :: array_boxes and a x n
  assume "bx_objects h a = Some (array_disarmed x)"
  then show "call_array_release (Suc n) a h = Some h" by (simp add: array_disarmed_def)
qed

interpretation schemas: release_protocol schema_owner "\<lambda>_ _. True" sp_children "\<lambda>x. x\<lparr>as_release := False\<rparr>"
    schema_disarmed call_schema_release
proof
  fix h :: schema_boxes and a x p q n h2
  assume x: "bx_objects h a = Some x" "schema_owner x = Some p" "bx_privates h p = Some q"
    and kids: "release_kids (call_schema_release n) (sp_children q) (set_object a (x\<lparr>as_release := False\<rparr>) h) = Some h2"
    and still: "bx_objects h2 a = Some (x\<lparr>as_release := False\<rparr>)" "bx_privates h2 p = Some q"
  have "as_release x" "as_private_data x = Some p" using x(2) by (auto simp: schema_owner_def split: if_splits)
  then show "call_schema_release (Suc n) a h = Some (h2\<lparr>bx_objects := (bx_objects h2)(a := Some (schema_disarmed x)),
      bx_privates := (bx_privates h2)(p := None)\<rparr>)"
    using x kids still
    by (simp add: release_schema_def set_object_def drop_private_def update_object_def schema_disarmed_def)
next
  fix h :: schema_boxes and a x n
  assume "bx_objects h a = Some (schema_disarmed x)"
  then show "call_schema_release (Suc n) a h = Some h" by (simp add: schema_disarmed_def)
qed

section \<open>The reader of a table\<close>

definition column_at :: "array_boxes \<Rightarrow> string \<Rightarrow> addr \<Rightarrow> column option" where
  "column_at b format c =
     Option.bind (bx_objects b c) (\<lambda>x.
     Option.bind (aa_buffers x) (\<lambda>p.
     Option.bind (bx_privates b p) (read_arrow_column format (nat (aa_length x)))))"

definition field_at :: "schema_boxes \<Rightarrow> addr \<Rightarrow> (string \<times> string \<times> bool) option" where
  "field_at b k =
     Option.bind (bx_objects b k) (\<lambda>x.
     Option.bind (as_format x) (\<lambda>p.
     Option.bind (bx_privates b p) (\<lambda>q. Some (sp_name q, sp_format q, as_flags x = 2))))"

definition import_child :: "export_heap \<Rightarrow> addr option \<times> addr option \<Rightarrow> (string \<times> bool \<times> column) option" where
  "import_child h ck =
     Option.bind (fst ck) (\<lambda>c. Option.bind (snd ck) (\<lambda>k.
     Option.bind (field_at (eh_schemas h) k) (\<lambda>(name, format, nullable).
     Option.bind (column_at (eh_arrays h) format c) (\<lambda>col. Some (name, nullable, col)))))"

definition children_at :: "export_heap \<Rightarrow> arrow_array \<Rightarrow> addr option list option" where
  "children_at h x =
     Option.bind (aa_children x) (\<lambda>p. Option.bind (bx_privates (eh_arrays h) p) (\<lambda>q.
       case q of StructPrivate cs _ \<Rightarrow> if aa_n_children x = int (length cs) then Some cs else None | _ \<Rightarrow> None))"

definition fields_at :: "export_heap \<Rightarrow> arrow_schema \<Rightarrow> addr option list option" where
  "fields_at h x =
     Option.bind (as_children x) (\<lambda>p. Option.bind (bx_privates (eh_schemas h) p) (\<lambda>q.
       if as_n_children x = int (length (sp_children q)) then Some (sp_children q) else None))"

text \<open>The name of the table, its number of rows, and its children: name, nullability and cells.\<close>

definition import_table ::
  "export_heap \<Rightarrow> addr \<Rightarrow> addr \<Rightarrow> (string \<times> nat \<times> (string \<times> bool \<times> column) list) option"
where
  "import_table h a s =
     Option.bind (bx_objects (eh_arrays h) a) (\<lambda>x.
     Option.bind (bx_objects (eh_schemas h) s) (\<lambda>y.
     Option.bind (field_at (eh_schemas h) s) (\<lambda>(name, format, _).
     Option.bind (children_at h x) (\<lambda>cs.
     Option.bind (fields_at h y) (\<lambda>ks.
       if format = ''+s'' \<and> length cs = length ks
       then map_option (\<lambda>fields. (name, nat (aa_length x), fields)) (those (map (import_child h) (zip cs ks)))
       else None)))))"

section \<open>Steps of an export\<close>

lemma io_bind_Inr:
  "io_bind m f h = (Inr y, h') \<longleftrightarrow> (\<exists>x h1. m h = (Inr x, h1) \<and> f x h1 = (Inr y, h'))"
  by (auto simp: io_bind_def split: prod.splits sum.splits)

lemma io_lift_Inr [simp]: "io_lift r h = (Inr x, h') \<longleftrightarrow> r = Inr x \<and> h' = h"
  by (auto simp: io_lift_def)

lemma io_return_Inr [simp]: "io_return x h = (Inr y, h') \<longleftrightarrow> y = x \<and> h' = h"
  by (auto simp: io_return_def)

lemma column_at_extends: "extends b b' \<Longrightarrow> column_at b fmt c = Some col \<Longrightarrow> column_at b' fmt c = Some col"
  by (auto simp: column_at_def bind_eq_Some_conv dest: extends_object extends_private)

lemma field_at_extends: "extends b b' \<Longrightarrow> field_at b k = Some fld \<Longrightarrow> field_at b' k = Some fld"
  by (auto simp: field_at_def bind_eq_Some_conv dest: extends_object extends_private)

text \<open>What has been built since \<open>h0\<close>: children that read as the columns and fields.\<close>

definition built ::
  "export_heap \<Rightarrow> export_heap \<Rightarrow> addr list \<Rightarrow> column list \<Rightarrow> addr list \<Rightarrow> (string \<times> string \<times> bool) list \<Rightarrow> bool"
where
  "built h0 h cs cols ks flds \<longleftrightarrow>
     (\<exists>cps. arrays.grown (eh_arrays h0) (eh_arrays h) cps \<and> cs = map fst cps) \<and>
     (\<exists>kps. schemas.grown (eh_schemas h0) (eh_schemas h) kps \<and> ks = map fst kps) \<and>
     list_all2 (\<lambda>c col. column_at (eh_arrays h) (column_format col) c = Some col) cs cols \<and>
     list_all2 (\<lambda>k fld. field_at (eh_schemas h) k = Some fld) ks flds"

definition heap_wf :: "export_heap \<Rightarrow> bool" where
  "heap_wf h \<longleftrightarrow> boxes_wf (eh_arrays h) \<and> boxes_wf (eh_schemas h)"

lemma built_start: "heap_wf h \<Longrightarrow> built h h [] [] [] []"
  by (simp add: built_def heap_wf_def arrays.grown_nil schemas.grown_nil)

lemma arrays_grown_extends: "new_private q b = (p, b1) \<Longrightarrow> new_object x b1 = (c, b2) \<Longrightarrow> boxes_wf b \<Longrightarrow> extends b b2"
proof -
  assume new: "new_private q b = (p, b1)" "new_object x b1 = (c, b2)" and wf: "boxes_wf b"
  have b1: "b1 = snd (new_private q b)" and b2: "b2 = snd (new_object x b1)" by (simp_all add: new)
  have "boxes_wf b1" unfolding b1 by (rule new_wf(2) [OF wf])
  then have "extends b1 b2" unfolding b2 by (rule extends_new(1))
  moreover have "extends b b1" unfolding b1 by (rule extends_new(2) [OF wf])
  ultimately show ?thesis by (blast intro: extends_trans)
qed

lemma built_column:
  assumes "built h0 h cs cols ks flds" and "boxed_column col h = (Inr c, h')"
  shows "built h0 h' (cs @ [c]) (cols @ [col]) ks flds"
proof -
  obtain x h1 where x: "column_array col h = (Inr x, h1)" and boxed: "box_array x h1 = (Inr c, h')"
    using assms(2) by (auto simp: boxed_column_def io_bind_Inr)
  obtain q p b where q: "new_private q (eh_arrays h) = (p, b)" "h1 = h\<lparr>eh_arrays := b\<rparr>"
      "read_arrow_column (column_format col) (column_length col) q = Some col" "aa_length x = int (column_length col)"
      "aa_buffers x = Some p" "aa_private_data x = Some p"
      "\<exists>k. aa_release x = Some k \<and> k \<noteq> ReleaseStruct \<and> casts_to k q"
    using column_array_ok [OF x] by blast
  obtain b2 where b2: "new_object x b = (c, b2)" "h' = h\<lparr>eh_arrays := b2\<rparr>"
    using boxed q(2) by (auto simp: box_array_def split: prod.splits)
  obtain cps where cps: "arrays.grown (eh_arrays h0) (eh_arrays h) cps" "cs = map fst cps"
    using assms(1) by (auto simp: built_def)
  have owner: "array_owner x = Some p" "array_fits x q" "array_kids q = []"
    using q(6,7) casts_no_kids by (auto simp: array_owner_def array_fits_def)
  have "boxes_wf (eh_arrays h)" using cps(1) by (simp add: arrays.grown_def)
  then have ext: "extends (eh_arrays h) (eh_arrays h')"
    using arrays_grown_extends [OF q(1) b2(1)] by (simp add: b2(2))
  have "column_at (eh_arrays h') (column_format col) c = Some col"
    using q(1,3-5) b2 by (auto simp: column_at_def new_object_def new_private_def)
  moreover have "arrays.grown (eh_arrays h0) (eh_arrays h') (cps @ [(c, p)])"
    using arrays.grown_leaf [OF cps(1) q(1) b2(1) owner] by (simp add: b2(2))
  ultimately show ?thesis
    using assms(1) cps(2) column_at_extends [OF ext]
    by (fastforce simp: built_def b2(2) intro!: list_all2_appendI elim!: list_all2_mono)
qed

lemma schema_ok:
  assumes "schema name format nullable children h = (Inr x, h')"
  shows "\<exists>q p b. new_private q (eh_schemas h) = (p, b) \<and> h' = h\<lparr>eh_schemas := b\<rparr> \<and> sp_name q = name \<and>
    sp_format q = format \<and> sp_children q = map Some children \<and> as_format x = Some p \<and>
    as_private_data x = Some p \<and> as_children x = Some p \<and> as_n_children x = int (length children) \<and>
    as_release x \<and> as_flags x = (if nullable then 2 else 0)"
  using assms
  by (fastforce simp: schema_def io_bind_Inr c_string_def new_schema_private_def split: if_splits prod.splits)

lemma built_field:
  assumes "built h0 h cs cols ks flds" and "boxed_field fld h = (Inr k, h')"
  shows "built h0 h' cs cols (ks @ [k]) (flds @ [fld])"
proof -
  obtain name format nullable where fld: "fld = (name, format, nullable)" by (cases fld)
  obtain x h1 where x: "schema name format nullable [] h = (Inr x, h1)" and boxed: "box_schema x h1 = (Inr k, h')"
    using assms(2) by (auto simp: boxed_field_def fld field_schema_def io_bind_Inr)
  obtain q p b where q: "new_private q (eh_schemas h) = (p, b)" "h1 = h\<lparr>eh_schemas := b\<rparr>" "sp_name q = name"
      "sp_format q = format" "sp_children q = []" "as_format x = Some p" "as_private_data x = Some p" "as_release x"
      "as_flags x = (if nullable then 2 else 0)"
    using schema_ok [OF x] by auto
  obtain b2 where b2: "new_object x b = (k, b2)" "h' = h\<lparr>eh_schemas := b2\<rparr>"
    using boxed q(2) by (auto simp: box_schema_def split: prod.splits)
  obtain kps where kps: "schemas.grown (eh_schemas h0) (eh_schemas h) kps" "ks = map fst kps"
    using assms(1) by (auto simp: built_def)
  have owner: "schema_owner x = Some p" using q(7,8) by (simp add: schema_owner_def)
  have "boxes_wf (eh_schemas h)" using kps(1) by (simp add: schemas.grown_def)
  then have ext: "extends (eh_schemas h) (eh_schemas h')"
    using arrays_grown_extends [OF q(1) b2(1)] by (simp add: b2(2))
  have "field_at (eh_schemas h') k = Some fld"
    using q(1,3,4,6,9) b2 by (auto simp: field_at_def new_object_def new_private_def fld)
  moreover have "schemas.grown (eh_schemas h0) (eh_schemas h') (kps @ [(k, p)])"
    using schemas.grown_leaf [OF kps(1) q(1) b2(1) owner _ q(5)] by (simp add: b2(2))
  ultimately show ?thesis
    using assms(1) kps(2) field_at_extends [OF ext]
    by (fastforce simp: built_def b2(2) intro!: list_all2_appendI elim!: list_all2_mono)
qed

lemma built_columns:
  "built h0 h cs cols ks flds \<Longrightarrow> io_map boxed_column news h = (Inr cs', h') \<Longrightarrow>
   built h0 h' (cs @ cs') (cols @ news) ks flds"
proof (induction news arbitrary: h cs cols cs')
  case (Cons col news)
  then obtain c h1 cs1 where "boxed_column col h = (Inr c, h1)" "io_map boxed_column news h1 = (Inr cs1, h')" "cs' = c # cs1"
    by (auto simp: io_bind_Inr)
  with Cons.IH [OF built_column [OF Cons.prems(1)]] show ?case by simp
qed simp

lemma built_fields:
  "built h0 h cs cols ks flds \<Longrightarrow> io_map boxed_field news h = (Inr ks', h') \<Longrightarrow>
   built h0 h' cs cols (ks @ ks') (flds @ news)"
proof (induction news arbitrary: h ks flds ks')
  case (Cons fld news)
  then obtain k h1 ks1 where "boxed_field fld h = (Inr k, h1)" "io_map boxed_field news h1 = (Inr ks1, h')" "ks' = k # ks1"
    by (auto simp: io_bind_Inr)
  with Cons.IH [OF built_field [OF Cons.prems(1)]] show ?case by simp
qed simp

text \<open>A loop whose body adds one column and one field.\<close>

lemma built_loop:
  assumes "\<And>x h h' y cs cols ks flds. x \<in> set xs \<Longrightarrow> built h0 h cs cols ks flds \<Longrightarrow> body x h = (Inr y, h') \<Longrightarrow>
      built h0 h' (cs @ [fst y]) (cols @ [col x]) (ks @ [snd y]) (flds @ [fld x])"
    and "built h0 h cs cols ks flds" and "io_map body xs h = (Inr ys, h')"
  shows "built h0 h' (cs @ map fst ys) (cols @ map col xs) (ks @ map snd ys) (flds @ map fld xs)"
  using assms
proof (induction xs arbitrary: h cs cols ks flds ys)
  case (Cons x xs)
  then obtain y h1 ys1 where run: "body x h = (Inr y, h1)" "io_map body xs h1 = (Inr ys1, h')" "ys = y # ys1"
    by (auto simp: io_bind_Inr)
  have "built h0 h1 (cs @ [fst y]) (cols @ [col x]) (ks @ [snd y]) (flds @ [fld x])"
    using Cons.prems(1,2) run(1) by simp
  with Cons.IH [OF _ this run(2)] Cons.prems(1) show ?case by (simp add: run(3))
qed simp

section \<open>Finished tables\<close>

definition fields_of :: "(string \<times> string \<times> bool) list \<Rightarrow> column list \<Rightarrow> (string \<times> bool \<times> column) list" where
  "fields_of flds cols = map (\<lambda>((name, _, nullable), col). (name, nullable, col)) (zip flds cols)"

text \<open>The table reads as given, and freeing both pointers leaves the boxes there were before.\<close>

definition table_exported ::
  "export_heap \<Rightarrow> export_heap \<Rightarrow> addr \<Rightarrow> addr \<Rightarrow> string \<Rightarrow> nat \<Rightarrow> (string \<times> bool \<times> column) list \<Rightarrow> bool"
where
  "table_exported h0 h a s name n children \<longleftrightarrow>
     import_table h a s = Some (name, n, children) \<and>
     (\<exists>b. arrow_array_free 2 (Some a) (eh_arrays h) = Some b \<and> same_boxes (eh_arrays h0) b) \<and>
     (\<exists>b. arrow_schema_free 2 (Some s) (eh_schemas h) = Some b \<and> same_boxes (eh_schemas h0) b)"

lemma struct_array_ok:
  assumes "struct_array n cs h = (Inr x, h')"
  shows "\<exists>p b. new_private (StructPrivate (map Some cs) [None]) (eh_arrays h) = (p, b) \<and> h' = h\<lparr>eh_arrays := b\<rparr> \<and>
    aa_length x = int n \<and> aa_n_children x = int (length cs) \<and> aa_children x = Some p \<and>
    aa_private_data x = Some p \<and> aa_release x = Some ReleaseStruct"
  using assms by (fastforce simp: struct_array_def io_bind_Inr new_array_private_def split: prod.splits)

lemma those_map_Some: "those (map (\<lambda>x. Some (f x)) xs) = Some (map f xs)"
  by (induction xs) simp_all

lemma import_children:
  assumes "list_all2 (\<lambda>c col. column_at (eh_arrays h) (column_format col) c = Some col) cs cols"
    and "list_all2 (\<lambda>k fld. field_at (eh_schemas h) k = Some fld) ks flds"
    and "map (fst \<circ> snd) flds = map column_format cols"
  shows "those (map (import_child h) (zip (map Some cs) (map Some ks))) = Some (fields_of flds cols)"
  using assms
proof (induction cs cols arbitrary: ks flds rule: list_all2_induct)
  case (Cons c cs col cols)
  then obtain k ks1 fld flds1 where "ks = k # ks1" "flds = fld # flds1"
      "field_at (eh_schemas h) k = Some fld" "list_all2 (\<lambda>k fld. field_at (eh_schemas h) k = Some fld) ks1 flds1"
    by (auto simp: list_all2_Cons2)
  then show ?case
    using Cons by (cases fld) (auto simp: import_child_def fields_of_def)
qed (simp add: fields_of_def)

lemma finished_table:
  assumes "built h0 h cs cols ks flds" and "map (fst \<circ> snd) flds = map column_format cols"
    and "struct_array n cs h = (Inr arr, h1)" and "struct_schema name ks h1 = (Inr sch, h2)"
    and "box_array arr h2 = (Inr a, h3)" and "box_schema sch h3 = (Inr s, h4)"
  shows "table_exported h0 h4 a s name n (fields_of flds cols)"
proof -
  obtain p b where arr: "new_private (StructPrivate (map Some cs) [None]) (eh_arrays h) = (p, b)" "h1 = h\<lparr>eh_arrays := b\<rparr>"
      "aa_length arr = int n" "aa_n_children arr = int (length cs)" "aa_children arr = Some p"
      "aa_private_data arr = Some p" "aa_release arr = Some ReleaseStruct"
    using struct_array_ok [OF assms(3)] by blast
  obtain q r d where sch: "new_private q (eh_schemas h1) = (r, d)" "h2 = h1\<lparr>eh_schemas := d\<rparr>" "sp_name q = name"
      "sp_format q = ''+s''" "sp_children q = map Some ks" "as_format sch = Some r" "as_private_data sch = Some r"
      "as_children sch = Some r" "as_n_children sch = int (length ks)" "as_release sch"
    using schema_ok [OF assms(4) [unfolded struct_schema_def]] by blast
  obtain b2 d2 where b2: "new_object arr b = (a, b2)" and d2: "new_object sch d = (s, d2)"
    and h4: "eh_arrays h4 = b2" "eh_schemas h4 = d2"
    using assms(5,6) arr(2) sch(2) by (auto simp: box_array_def box_schema_def split: prod.splits)
  have q: "new_private q (eh_schemas h) = (r, d)" using sch(1) arr(2) by simp
  obtain cps kps where cps: "arrays.grown (eh_arrays h0) (eh_arrays h) cps" "cs = map fst cps"
    and kps: "schemas.grown (eh_schemas h0) (eh_schemas h) kps" "ks = map fst kps"
    using assms(1) by (auto simp: built_def)
  have wf: "boxes_wf (eh_arrays h)" "boxes_wf (eh_schemas h)"
    using cps(1) kps(1) by (simp_all add: arrays.grown_def schemas.grown_def)
  have ext: "extends (eh_arrays h) b2" "extends (eh_schemas h) d2"
    by (rule arrays_grown_extends [OF arr(1) b2 wf(1)], rule arrays_grown_extends [OF q d2 wf(2)])
  have children: "those (map (import_child h4) (zip (map Some cs) (map Some ks))) = Some (fields_of flds cols)"
    using assms(1,2) column_at_extends [OF ext(1)] field_at_extends [OF ext(2)]
    by (intro import_children) (auto simp: built_def h4 elim!: list_all2_mono)
  have len: "length cs = length ks"
    using assms(1) arg_cong [OF assms(2), of length] by (simp add: built_def list_all2_conv_all_nth)
  have "import_table h4 a s = Some (name, n, fields_of flds cols)"
    using arr(1,3-5) b2 q sch(3-6,8,9) d2 children len
    by (auto simp: import_table_def children_at_def fields_at_def field_at_def new_object_def new_private_def h4)
  moreover have "\<exists>b. arrow_array_free 2 (Some a) (eh_arrays h4) = Some b \<and> same_boxes (eh_arrays h0) b"
    using arrays.free_root [OF cps(1) arr(1) b2, of 0] arr(6,7) cps(2)
    by (simp add: array_owner_def array_fits_def arrow_array_free_def h4 numeral_2_eq_2 comp_def)
  moreover have "\<exists>b. arrow_schema_free 2 (Some s) (eh_schemas h4) = Some b \<and> same_boxes (eh_schemas h0) b"
    using schemas.free_root [OF kps(1) q d2, of 0] sch(5,7,10) kps(2)
    by (simp add: schema_owner_def arrow_schema_free_def h4 numeral_2_eq_2 comp_def)
  ultimately show ?thesis by (simp add: table_exported_def)
qed

end
