(* ===== verification/Arrow_Tables.thy ===== *)
theory Arrow_Tables
  imports Arrow_Roundtrip
begin

text \<open>
  When the exports of \<open>Arrow_Export\<close> succeed, what the consumer reads then, that freeing both pointers
  gives back every box, and that a failing export does not.
\<close>

section \<open>Success\<close>

definition io_ok :: "'a io \<Rightarrow> export_heap \<Rightarrow> bool" where
  "io_ok m h \<longleftrightarrow> (\<exists>x h'. m h = (Inr x, h'))"

lemma io_ok_simps [simp]: "io_ok (io_return x) h" "io_ok (io_lift r) h \<longleftrightarrow> is_ok r"
  by (auto simp: io_ok_def io_return_def io_lift_def is_ok_iff)

lemma io_ok_bind:
  "io_ok (io_bind m f) h \<longleftrightarrow> (\<exists>x h1. m h = (Inr x, h1) \<and> io_ok (f x) h1)"
  by (auto simp: io_ok_def io_bind_Inr)

text \<open>The last step does not depend on what came before.\<close>

lemma io_ok_bind_const: "(\<And>x h1. io_ok (f x) h1 \<longleftrightarrow> Q) \<Longrightarrow> io_ok (io_bind m f) h \<longleftrightarrow> io_ok m h \<and> Q"
  unfolding io_ok_bind by (auto simp: io_ok_def)

lemma io_ok_map: "(\<And>x h. x \<in> set xs \<Longrightarrow> io_ok (f x) h \<longleftrightarrow> P x) \<Longrightarrow> io_ok (io_map f xs) h \<longleftrightarrow> (\<forall>x\<in>set xs. P x)"
proof (induction xs arbitrary: h)
  case (Cons x xs)
  have "io_ok (io_bind (io_map f xs) (\<lambda>ys. io_return (y # ys))) h1 \<longleftrightarrow> (\<forall>x\<in>set xs. P x)" for y h1
    using Cons by (subst io_ok_bind_const [where Q = True]) simp_all
  then show ?case using Cons.prems [of x] by (simp add: io_ok_bind_const)
qed simp

lemma allocations_ok [simp]:
  "io_ok (new_array_private q) h" "io_ok (box_array x) h" "io_ok (new_schema_private r) h" "io_ok (box_schema y) h"
  by (simp_all add: io_ok_def new_array_private_def box_array_def new_schema_private_def box_schema_def
      new_object_def new_private_def)

text \<open>UTF-8 payloads beyond 32 bit offsets are refused.\<close>

fun column_ok :: "column \<Rightarrow> bool" where
  "column_ok (Strings vals) \<longleftrightarrow> length (text_data vals) \<le> i32_max"
| "column_ok _ \<longleftrightarrow> True"

lemma text_data_prefix: "length (text_data vals) \<le> length (text_data (vals @ news))"
  by (simp add: text_data_def)

lemma string_step_eq:
  "string_step (bm, offsets, data, nulls) (idx, v) =
     (if i32_max < length (data @ text_bytes v) then invalid ''identity Arrow UTF-8 payload exceeds i32 offsets''
      else Inr (set_bitmap bm idx (present v), offsets @ [of_nat (length (data @ text_bytes v))],
        data @ text_bytes v, nulls + (if v = None then 1 else 0)))"
  by (cases v) (simp_all add: string_step_def)

lemma string_fold_ok:
  "is_ok (fold_res string_step ([], [0], [], 0) (List.enumerate 0 vals)) \<longleftrightarrow> length (text_data vals) \<le> i32_max"
proof (induction vals rule: rev_induct)
  case (snoc v vals)
  let ?run = "fold_res string_step ([], [0], [], 0) (List.enumerate 0 vals)"
  show ?case
  proof (cases ?run)
    case (Inl e)
    then have "\<not> length (text_data vals) \<le> i32_max" using snoc by (simp add: is_ok_iff)
    then show ?thesis using text_data_prefix [of vals "[v]"] Inl by (simp add: enumerate_snoc fold_res_append)
  next
    case (Inr st)
    obtain bm offsets data nulls where st: "st = (bm, offsets, data, nulls)" by (cases st)
    have "data = text_data vals" using string_fold Inr st by blast
    then show ?thesis
      using Inr by (simp add: enumerate_snoc fold_res_append st string_step_eq not_less)
  qed
qed (simp add: i32_max_def)

lemma boxed_column_ok: "io_ok (boxed_column col) h \<longleftrightarrow> column_ok col"
proof -
  have "io_ok (column_array col) h \<longleftrightarrow> column_ok col"
  proof (cases col)
    case (Strings vals)
    have "io_ok (string_array vals) h \<longleftrightarrow>
        io_ok (io_lift (fold_res string_step ([], [0], [], 0) (List.enumerate 0 vals))) h \<and> True"
      unfolding string_array_def by (rule io_ok_bind_const) (auto simp: Let_def io_ok_bind_const split: prod.split)
    then show ?thesis by (simp add: Strings string_fold_ok)
  qed (simp_all add: f64_array_def bool_array_def Let_def io_ok_bind_const split: prod.split)
  then show ?thesis by (simp add: boxed_column_def io_ok_bind_const)
qed

lemma schema_run_ok: "io_ok (schema name format nullable children) h \<longleftrightarrow> CHR 0x00 \<notin> set format \<and> CHR 0x00 \<notin> set name"
  by (simp add: schema_def io_ok_bind_const c_string_def)

lemma boxed_field_ok: "io_ok (boxed_field (name, format, nullable)) h \<longleftrightarrow> CHR 0x00 \<notin> set format \<and> CHR 0x00 \<notin> set name"
  by (simp add: boxed_field_def field_schema_def io_ok_bind_const schema_run_ok)

lemma struct_ok [simp]: "io_ok (struct_array n cs) h"
  by (simp add: struct_array_def io_ok_bind_const)

section \<open>Numbers\<close>

definition number_cell :: "(string \<Rightarrow> f64 option) \<Rightarrow> json \<Rightarrow> f64 option" where
  "number_cell number_f64 v = (case v of JNumber n \<Rightarrow> number_f64 n | _ \<Rightarrow> None)"

definition number_or_null :: "(string \<Rightarrow> f64 option) \<Rightarrow> json \<Rightarrow> bool" where
  "number_or_null number_f64 v \<longleftrightarrow> v = JNull \<or> number_cell number_f64 v \<noteq> None"

lemma numeric_or_null_Inr:
  "numeric_or_null nf v = Inr y \<longleftrightarrow> number_or_null nf v \<and> y = number_cell nf v"
  by (auto simp: numeric_or_null_def number_or_null_def number_cell_def rbind_eq_Inr ok_or_eq_Inr split: json.splits)

lemma numeric_target_Inr:
  "numeric_target nf v = Inr y \<longleftrightarrow> number_cell nf v \<noteq> None \<and> y = number_cell nf v"
  by (auto simp: numeric_target_def number_cell_def rbind_eq_Inr ok_or_eq_Inr split: json.splits)

section \<open>Features\<close>

definition feature_column :: "(string \<Rightarrow> f64 option) \<Rightarrow> feature_block \<Rightarrow> nat \<Rightarrow> column" where
  "feature_column nf f i = Floats (map (\<lambda>row. number_cell nf (row ! i)) (fb_values f))"

definition feature_exportable :: "(string \<Rightarrow> f64 option) \<Rightarrow> feature_block \<Rightarrow> bool" where
  "feature_exportable nf f \<longleftrightarrow>
     column_ok (texts (fb_observation_ids f)) \<and> column_ok (texts (fb_sample_ids f)) \<and>
     (\<forall>i<length (fb_feature_names f). CHR 0x00 \<notin> set (fb_feature_names f ! i) \<and>
        (\<forall>row\<in>set (fb_values f). i < length row \<and> number_or_null nf (row ! i)))"

lemma feature_cells_Inr:
  "map_res (feature_cell nf i) rows = Inr cells \<longleftrightarrow>
     (\<forall>row\<in>set rows. i < length row \<and> number_or_null nf (row ! i)) \<and>
     cells = map (\<lambda>row. number_cell nf (row ! i)) rows"
  by (rule map_res_map) (auto simp: feature_cell_def numeric_or_null_Inr)

lemma feature_child_ok:
  "io_ok (feature_child nf f (i, name)) h \<longleftrightarrow>
     CHR 0x00 \<notin> set name \<and> (\<forall>row\<in>set (fb_values f). i < length row \<and> number_or_null nf (row ! i))"
proof -
  have "io_ok (io_bind (boxed_column (Floats cells)) (\<lambda>a. io_bind (boxed_field (name, ''g'', True))
      (\<lambda>s. io_return (a, s)))) h1 \<longleftrightarrow> CHR 0x00 \<notin> set name" for cells h1
    by (simp add: io_ok_bind_const boxed_field_ok boxed_column_ok)
  then have "io_ok (feature_child nf f (i, name)) h \<longleftrightarrow>
      is_ok (map_res (feature_cell nf i) (fb_values f)) \<and> CHR 0x00 \<notin> set name"
    by (simp add: feature_child_def io_ok_bind_const)
  then show ?thesis by (auto simp: is_ok_iff feature_cells_Inr)
qed

lemma feature_child_built:
  assumes "built h0 h cs cols ks flds" and "feature_child nf f (i, name) h = (Inr y, h')"
  shows "built h0 h' (cs @ [fst y]) (cols @ [feature_column nf f i]) (ks @ [snd y]) (flds @ [(name, ''g'', True)])"
proof -
  obtain cells h1 where cells: "map_res (feature_cell nf i) (fb_values f) = Inr cells"
    and a: "boxed_column (Floats cells) h = (Inr (fst y), h1)"
    and s: "boxed_field (name, ''g'', True) h1 = (Inr (snd y), h')"
    using assms(2) by (auto simp: feature_child_def io_bind_Inr)
  have "Floats cells = feature_column nf f i" using cells by (simp add: feature_cells_Inr feature_column_def)
  with built_field [OF built_column [OF assms(1) a] s] show ?thesis by simp
qed

lemma columns_ok: "io_ok (io_map boxed_column cols) h \<longleftrightarrow> (\<forall>col\<in>set cols. column_ok col)"
  by (rule io_ok_map) (rule boxed_column_ok)

definition field_ok :: "string \<times> string \<times> bool \<Rightarrow> bool" where
  "field_ok fld \<longleftrightarrow> CHR 0x00 \<notin> set (fst fld) \<and> CHR 0x00 \<notin> set (fst (snd fld))"

lemma fields_ok: "io_ok (io_map boxed_field flds) h \<longleftrightarrow> (\<forall>fld\<in>set flds. field_ok fld)"
  by (rule io_ok_map) (auto simp: field_ok_def boxed_field_ok split: prod.split)

lemma finish_ok: "CHR 0x00 \<notin> set name \<Longrightarrow>
   io_ok (io_bind (struct_array n cs) (\<lambda>arr. io_bind (struct_schema name ks) (\<lambda>sch. io_return (arr, sch)))) h"
  by (simp add: io_ok_bind_const struct_schema_def schema_run_ok)

lemma feature_children_ok:
  "io_ok (io_map (feature_child nf f) (List.enumerate 0 names)) h \<longleftrightarrow>
     (\<forall>i<length names. CHR 0x00 \<notin> set (names ! i) \<and>
        (\<forall>row\<in>set (fb_values f). i < length row \<and> number_or_null nf (row ! i)))"
proof -
  have "io_ok (io_map (feature_child nf f) (List.enumerate 0 names)) h \<longleftrightarrow>
      (\<forall>x\<in>set (List.enumerate 0 names). CHR 0x00 \<notin> set (snd x) \<and>
        (\<forall>row\<in>set (fb_values f). fst x < length row \<and> number_or_null nf (row ! fst x)))"
    by (rule io_ok_map) (auto simp: feature_child_ok split: prod.split)
  then show ?thesis by (simp add: ball_enumerate)
qed

lemma feature_build_ok: "io_ok (build_feature_arrow nf f) h \<longleftrightarrow> feature_exportable nf f"
  by (simp add: build_feature_arrow_def io_ok_bind_const finish_ok feature_children_ok columns_ok fields_ok
      feature_exportable_def field_ok_def del: io_map.simps)

lemma export_pair_ok: "io_ok (export_pair m) h \<longleftrightarrow> io_ok m h"
  by (simp add: export_pair_def io_ok_bind_const split: prod.split)


text \<open>Reading the run of a builder down to the allocations that matter.\<close>

lemma export_pair_run:
  assumes "export_pair m h = (Inr (a, s), h')"
  obtains arr sch h1 h2 where "m h = (Inr (arr, sch), h1)" "box_array arr h1 = (Inr a, h2)" "box_schema sch h2 = (Inr s, h')"
  using assms by (auto simp: export_pair_def io_bind_Inr)

lemma feature_table_exported:
  assumes "heap_wf h" and "export_pair (build_feature_arrow nf f) h = (Inr (a, s), h')"
  shows "table_exported h h' a s ''coordinator_features'' (length (fb_observation_ids f))
    ((''observation_id'', False, texts (fb_observation_ids f)) # (''sample_id'', False, texts (fb_sample_ids f)) #
     map (\<lambda>(i, name). (name, True, feature_column nf f i)) (List.enumerate 0 (fb_feature_names f)))"
proof -
  let ?cols = "[texts (fb_observation_ids f), texts (fb_sample_ids f)]"
    and ?flds = "[(''observation_id'', ''u'', False), (''sample_id'', ''u'', False)]"
    and ?names = "List.enumerate 0 (fb_feature_names f)"
  obtain arr sch h1 h2 where built: "build_feature_arrow nf f h = (Inr (arr, sch), h1)"
    and boxes: "box_array arr h1 = (Inr a, h2)" "box_schema sch h2 = (Inr s, h')"
    using assms(2) by (rule export_pair_run)
  obtain cs ks pairs g1 g2 g3 g4 where
      steps: "io_map boxed_column ?cols h = (Inr cs, g1)" "io_map boxed_field ?flds g1 = (Inr ks, g2)"
        "io_map (feature_child nf f) ?names g2 = (Inr pairs, g3)"
    and finish: "struct_array (length (fb_observation_ids f)) (cs @ map fst pairs) g3 = (Inr arr, g4)"
      "struct_schema ''coordinator_features'' (ks @ map snd pairs) g4 = (Inr sch, h1)"
    using built unfolding build_feature_arrow_def io_bind_Inr io_return_Inr prod.inject by blast
  have "built h g2 cs ?cols ks ?flds"
    using built_fields [OF built_columns [OF built_start [OF assms(1)] steps(1)] steps(2)] by simp
  then have all: "built h g3 (cs @ map fst pairs) (?cols @ map (\<lambda>x. feature_column nf f (fst x)) ?names)
      (ks @ map snd pairs) (?flds @ map (\<lambda>x. (snd x, ''g'', True)) ?names)"
    by (rule built_loop [rotated, OF _ steps(3)]) (use feature_child_built in \<open>force\<close>)
  have "table_exported h h' a s ''coordinator_features'' (length (fb_observation_ids f))
      (fields_of (?flds @ map (\<lambda>x. (snd x, ''g'', True)) ?names) (?cols @ map (\<lambda>x. feature_column nf f (fst x)) ?names))"
    by (rule finished_table [OF all _ finish boxes]) (simp add: texts_def feature_column_def comp_def)
  then show ?thesis
    by (simp add: fields_of_def zip_map1 zip_map2 zip_same_conv_map comp_def case_prod_unfold)
qed


section \<open>A failing export\<close>

text \<open>No step frees or changes a box, whether it succeeds or not.\<close>

definition heap_extends :: "export_heap \<Rightarrow> export_heap \<Rightarrow> bool" where
  "heap_extends h h' \<longleftrightarrow> extends (eh_arrays h) (eh_arrays h') \<and> extends (eh_schemas h) (eh_schemas h')"

definition grows :: "'a io \<Rightarrow> bool" where
  "grows m \<longleftrightarrow> (\<forall>h. heap_wf h \<longrightarrow> heap_wf (snd (m h)) \<and> heap_extends h (snd (m h)))"

lemma heap_extends_trans: "heap_extends h1 h2 \<Longrightarrow> heap_extends h2 h3 \<Longrightarrow> heap_extends h1 h3"
  unfolding heap_extends_def by (blast intro: extends_trans)

lemma grows_simple [simp]: "grows (io_return x)" "grows (io_lift r)"
  by (simp_all add: grows_def io_return_def io_lift_def heap_extends_def)

lemma grows_alloc [simp]:
  "grows (new_array_private q)" "grows (box_array x)" "grows (new_schema_private r)" "grows (box_schema y)"
  by (simp_all add: grows_def new_array_private_def box_array_def new_schema_private_def box_schema_def heap_wf_def
      heap_extends_def new_wf extends_new split_beta)

lemma grows_bind:
  assumes "grows m" and "\<And>x. grows (f x)"
  shows "grows (io_bind m f)"
proof -
  have "heap_wf (snd (io_bind m f h)) \<and> heap_extends h (snd (io_bind m f h))" if "heap_wf h" for h
  proof (cases "m h")
    case (Pair r h1)
    then have first: "heap_wf h1" "heap_extends h h1"
      using assms(1) [unfolded grows_def, rule_format, OF that] by simp_all
    show ?thesis
    proof (cases r)
      case (Inr x)
      have "heap_wf (snd (f x h1))" "heap_extends h1 (snd (f x h1))"
        using assms(2) [of x, unfolded grows_def, rule_format, OF first(1)] by simp_all
      then show ?thesis using heap_extends_trans [OF first(2)] by (simp add: io_bind_def Pair Inr)
    qed (use first in \<open>simp add: io_bind_def Pair\<close>)
  qed
  then show ?thesis by (simp add: grows_def)
qed

lemma grows_map: "(\<And>x. grows (f x)) \<Longrightarrow> grows (io_map f xs)"
  by (induction xs) (simp_all add: grows_bind)

lemma grows_column: "grows (boxed_column col)"
  by (cases col) (simp_all add: boxed_column_def string_array_def f64_array_def bool_array_def Let_def grows_bind
      split: prod.split)

lemma grows_field: "grows (boxed_field fld)"
  by (cases fld) (simp add: boxed_field_def field_schema_def schema_def grows_bind)

lemma grows_struct: "grows (struct_array n cs)" "grows (struct_schema name ks)"
  by (simp_all add: struct_array_def struct_schema_def schema_def grows_bind)

lemma grows_feature_child: "grows (feature_child nf f entry)"
  by (cases entry) (simp add: feature_child_def grows_bind grows_column grows_field)

text \<open>After a first column is boxed its box stays, whatever happens next.\<close>

lemma first_column_stays:
  assumes "heap_wf h" and "column_ok col" and "\<And>y. grows (f y)"
  shows "\<not> same_boxes (eh_arrays h) (eh_arrays (snd (io_bind (boxed_column col) f h)))"
proof -
  obtain c h1 where c: "boxed_column col h = (Inr c, h1)"
    using assms(2) boxed_column_ok [of col h] by (auto simp: io_ok_def)
  have "built h h1 [c] [col] [] []" using built_column [OF built_start [OF assms(1)] c] by simp
  then obtain p where p: "arrays.grown (eh_arrays h) (eh_arrays h1) [(c, p)]"
    by (auto simp: built_def Cons_eq_map_conv)
  have "heap_wf h1" using grows_column [of col] assms(1) c unfolding grows_def by (metis snd_conv)
  then have later: "heap_extends h1 (snd (f c h1))" using assms(3) by (simp add: grows_def)
  have "bx_objects (eh_arrays h1) c \<noteq> None" "bx_objects (eh_arrays h) c = None"
    using p boxes_wf_fresh by (auto simp: arrays.grown_def)
  then have "bx_objects (eh_arrays (snd (f c h1))) c \<noteq> bx_objects (eh_arrays h) c"
    using later by (auto simp: heap_extends_def extends_def)
  then show ?thesis by (auto simp: same_boxes_def io_bind_def c)
qed

lemma io_bind_assoc: "io_bind (io_bind m f) g = io_bind m (\<lambda>x. io_bind (f x) g)"
  by (rule ext) (simp add: io_bind_def split: prod.split sum.split)

text \<open>What follows the first column of a feature export.\<close>

definition feature_rest ::
  "(string \<Rightarrow> f64 option) \<Rightarrow> feature_block \<Rightarrow> addr \<Rightarrow> (arrow_array \<times> arrow_schema) io"
where
  "feature_rest nf f c =
     io_bind (io_bind (io_map boxed_column [texts (fb_sample_ids f)]) (\<lambda>cs. io_return (c # cs))) (\<lambda>child_arrays.
     io_bind (io_map boxed_field [(''observation_id'', ''u'', False), (''sample_id'', ''u'', False)])
       (\<lambda>child_schemas.
     io_bind (io_map (feature_child nf f) (List.enumerate 0 (fb_feature_names f))) (\<lambda>more.
     io_bind (struct_array (length (fb_observation_ids f)) (child_arrays @ map fst more)) (\<lambda>arr.
     io_bind (struct_schema ''coordinator_features'' (child_schemas @ map snd more)) (\<lambda>sch.
       io_return (arr, sch))))))"

lemma feature_export_steps:
  "build_feature_arrow nf f = io_bind (boxed_column (texts (fb_observation_ids f))) (feature_rest nf f)"
  unfolding build_feature_arrow_def feature_rest_def io_map.simps(2) [of _ "texts (fb_observation_ids f)"] io_bind_assoc ..

lemma feature_rest_grows: "grows (feature_rest nf f c)"
  unfolding feature_rest_def
  by (intro grows_bind grows_map grows_column grows_field grows_struct grows_feature_child grows_simple)

text \<open>
  C35. Feature tables survive the Arrow boundary. The export succeeds exactly if the identifiers fit 32 bit
  offsets, no feature name has a NUL and every cell is null or a number that a 64 bit float can hold.
  Then the consumer reads one row per observation: the observation and sample identifiers, and per
  feature a nullable column with the cell values, null where the cell is. Freeing both pointers frees
  every box of the export exactly once and nothing else.
\<close>

theorem feature_table_round_trip:
  assumes "heap_wf h"
  shows "(io_ok (export_pair (build_feature_arrow nf f)) h \<longleftrightarrow> feature_exportable nf f) \<and>
    (export_pair (build_feature_arrow nf f) h = (Inr (a, s), h') \<longrightarrow>
     import_table h' a s = Some (''coordinator_features'', length (fb_observation_ids f),
       (''observation_id'', False, texts (fb_observation_ids f)) # (''sample_id'', False, texts (fb_sample_ids f)) #
       map (\<lambda>(i, name). (name, True, feature_column nf f i)) (List.enumerate 0 (fb_feature_names f))) \<and>
     (\<exists>b. arrow_array_free 2 (Some a) (eh_arrays h') = Some b \<and> same_boxes (eh_arrays h) b) \<and>
     (\<exists>b. arrow_schema_free 2 (Some s) (eh_schemas h') = Some b \<and> same_boxes (eh_schemas h) b))"
  using feature_table_exported [OF assms] by (auto simp: export_pair_ok feature_build_ok table_exported_def)

text \<open>
  C37. A failing feature export leaks. The children that were boxed before a cell or a feature name is
  refused are raw pointers in a vector: dropping the vector frees none of them, and nobody else knows
  them. Every export that is refused after its first column leaves boxes behind.
\<close>

theorem failed_feature_export_leaks:
  assumes "heap_wf h" and "column_ok (texts (fb_observation_ids f))" and "\<not> feature_exportable nf f"
  shows "\<exists>e h'. export_pair (build_feature_arrow nf f) h = (Inl e, h') \<and> \<not> same_boxes (eh_arrays h) (eh_arrays h')"
proof -
  let ?m = "build_feature_arrow nf f"
  have "\<not> io_ok ?m h" using assms(3) feature_build_ok by blast
  then obtain e h' where run: "?m h = (Inl e, h')" by (cases "?m h"; cases "fst (?m h)") (auto simp: io_ok_def)
  then have "export_pair ?m h = (Inl e, h')" by (simp add: export_pair_def io_bind_def)
  moreover have "\<not> same_boxes (eh_arrays h) (eh_arrays h')"
    using first_column_stays [OF assms(1,2), of "feature_rest nf f", OF feature_rest_grows] run
    by (simp only: feature_export_steps snd_conv) blast
  ultimately show ?thesis by blast
qed


section \<open>Identity\<close>

definition identity_texts_fit :: "coordinator_relation list \<Rightarrow> bool" where
  "identity_texts_fit records \<longleftrightarrow> (\<forall>col\<in>set (identity_columns records). column_ok col)"

lemma identity_formats: "map (fst \<circ> snd) identity_fields = map column_format (identity_columns records)"
  by (simp add: identity_fields_def identity_columns_def texts_def optional_texts_def)

lemma identity_table_exported:
  assumes "heap_wf h" and "export_pair (build_identity_relations_arrow to_json rs) h = (Inr (a, s), h')"
  shows "\<exists>json.
    (if list_ex rich_relation (rs_records rs) then map_res to_json (rs_records rs) = Inr json else json = []) \<and>
    table_exported h h' a s ''coordinator_identity'' (length (rs_records rs))
      (fields_of
        (identity_fields @ (if list_ex rich_relation (rs_records rs) then [(''relation_json'', ''u'', False)] else []))
        (identity_columns (rs_records rs) @
         (if list_ex rich_relation (rs_records rs) then [Strings (map Some json)] else [])))"
proof -
  let ?records = "rs_records rs" and ?rich = "list_ex rich_relation (rs_records rs)"
  let ?flds = "if ?rich then [(''relation_json'', ''u'', False)] else []"
  obtain arr sch h1 h2 where built: "build_identity_relations_arrow to_json rs h = (Inr (arr, sch), h1)"
    and boxes: "box_array arr h1 = (Inr a, h2)" "box_schema sch h2 = (Inr s, h')"
    using assms(2) by (rule export_pair_run)
  obtain json cs ks cs2 ks2 g1 g2 g3 g4 g5 where
      json: "(if ?rich then map_res to_json ?records else Inr []) = Inr json"
    and steps: "io_map boxed_column (identity_columns ?records) h = (Inr cs, g1)"
      "io_map boxed_field identity_fields g1 = (Inr ks, g2)"
      "io_map boxed_column (if ?rich then [Strings (map Some json)] else []) g2 = (Inr cs2, g3)"
      "io_map boxed_field ?flds g3 = (Inr ks2, g4)"
    and finish: "struct_array (length ?records) (cs @ cs2) g4 = (Inr arr, g5)"
      "struct_schema ''coordinator_identity'' (ks @ ks2) g5 = (Inr sch, h1)"
    using built unfolding build_identity_relations_arrow_def Let_def io_bind_Inr io_return_Inr io_lift_Inr prod.inject
    by blast
  have "built h g4 (cs @ cs2) (identity_columns ?records @ (if ?rich then [Strings (map Some json)] else []))
      (ks @ ks2) (identity_fields @ ?flds)"
    using built_fields [OF built_columns [OF built_fields [OF built_columns [OF built_start [OF assms(1)] steps(1)]
        steps(2)] steps(3)] steps(4)] by simp
  from finished_table [OF this _ finish boxes] json show ?thesis
    by (auto simp: identity_formats split: if_splits)
qed


definition identity_exportable :: "(coordinator_relation \<Rightarrow> string res) \<Rightarrow> relation_set \<Rightarrow> bool" where
  "identity_exportable to_json rs \<longleftrightarrow>
     is_ok (relation_set_validate rs) \<and> identity_texts_fit (rs_records rs) \<and>
     (list_ex rich_relation (rs_records rs) \<longrightarrow>
        (\<exists>json. map_res to_json (rs_records rs) = Inr json \<and> column_ok (Strings (map Some json))))"

lemma identity_build_ok:
  "io_ok (build_identity_relations_arrow to_json rs) h \<longleftrightarrow> identity_exportable to_json rs"
proof -
  let ?records = "rs_records rs" and ?rich = "list_ex rich_relation (rs_records rs)"
  let ?rest = "\<lambda>json. io_bind (io_map boxed_column (identity_columns ?records)) (\<lambda>child_arrays.
        io_bind (io_map boxed_field identity_fields) (\<lambda>child_schemas.
        io_bind (io_map boxed_column (if ?rich then [Strings (map Some json)] else [])) (\<lambda>more_arrays.
        io_bind (io_map boxed_field (if ?rich then [(''relation_json'', ''u'', False)] else [])) (\<lambda>more_schemas.
        io_bind (struct_array (length ?records) (child_arrays @ more_arrays)) (\<lambda>arr.
        io_bind (struct_schema ''coordinator_identity'' (child_schemas @ more_schemas)) (\<lambda>sch.
          io_return (arr, sch)))))))"
  have rest: "io_ok (?rest json) h1 \<longleftrightarrow> identity_texts_fit ?records \<and> (?rich \<longrightarrow> column_ok (Strings (map Some json)))"
    for json h1
    by (cases ?rich) (simp_all add: io_ok_bind_const finish_ok columns_ok fields_ok identity_texts_fit_def
        identity_fields_def field_ok_def boxed_column_ok boxed_field_ok del: io_map.simps)
  have "io_ok (build_identity_relations_arrow to_json rs) h \<longleftrightarrow>
      is_ok (relation_set_validate rs) \<and>
      (\<exists>json. (if ?rich then map_res to_json ?records else Inr []) = Inr json \<and> io_ok (?rest json) h)"
    unfolding build_identity_relations_arrow_def Let_def
    by (auto simp: io_ok_bind [of "io_lift _"] is_ok_iff)
  then show ?thesis unfolding rest by (auto simp: identity_exportable_def)
qed

text \<open>The children of an identity table: name, nullability and cells.\<close>

definition identity_children :: "coordinator_relation list \<Rightarrow> string list \<Rightarrow> (string \<times> bool \<times> column) list" where
  "identity_children records json =
     [(''observation_id'', False, texts (map cr_observation_id records)),
      (''sample_id'', False, texts (map cr_sample_id records)),
      (''target_id'', True, optional_texts (map cr_target_id records)),
      (''group_id'', True, optional_texts (map cr_group_id records)),
      (''origin_sample_id'', True, optional_texts (map cr_origin_sample_id records)),
      (''source_id'', True, optional_texts (map cr_source_id records)),
      (''is_augmented'', False, Bools (map cr_is_augmented records))] @
     (if list_ex rich_relation records then [(''relation_json'', False, Strings (map Some json))] else [])"

lemma identity_table_reads:
  assumes "heap_wf h" and "export_pair (build_identity_relations_arrow to_json rs) h = (Inr (a, s), h')"
  shows "\<exists>json.
    (list_ex rich_relation (rs_records rs) \<longrightarrow> map_res to_json (rs_records rs) = Inr json) \<and>
    import_table h' a s = Some (''coordinator_identity'', length (rs_records rs), identity_children (rs_records rs) json) \<and>
    (\<exists>b. arrow_array_free 2 (Some a) (eh_arrays h') = Some b \<and> same_boxes (eh_arrays h) b) \<and>
    (\<exists>b. arrow_schema_free 2 (Some s) (eh_schemas h') = Some b \<and> same_boxes (eh_schemas h) b)"
proof -
  from identity_table_exported [OF assms] obtain json where
    "if list_ex rich_relation (rs_records rs) then map_res to_json (rs_records rs) = Inr json else json = []"
    "table_exported h h' a s ''coordinator_identity'' (length (rs_records rs))
      (fields_of
        (identity_fields @ (if list_ex rich_relation (rs_records rs) then [(''relation_json'', ''u'', False)] else []))
        (identity_columns (rs_records rs) @
         (if list_ex rich_relation (rs_records rs) then [Strings (map Some json)] else [])))"
    by blast
  then show ?thesis
    by (intro exI [of _ json], cases "list_ex rich_relation (rs_records rs)")
      (simp_all add: table_exported_def fields_of_def identity_fields_def identity_columns_def identity_children_def)
qed

text \<open>
  C36. The identity table survives the Arrow boundary. The export succeeds exactly for a valid relation set
  whose texts fit 32 bit offsets. Then the consumer reads one row per relation, six text columns with null
  where an optional identifier is absent, the augmentation flag, and for sets with any richer identity
  the JSON of every relation as an additional column. Freeing both pointers frees exactly the export.
\<close>

theorem identity_table_round_trip:
  assumes "heap_wf h"
  shows "(io_ok (export_pair (build_identity_relations_arrow to_json rs)) h \<longleftrightarrow> identity_exportable to_json rs) \<and>
    (export_pair (build_identity_relations_arrow to_json rs) h = (Inr (a, s), h') \<longrightarrow>
     (\<exists>json.
       (list_ex rich_relation (rs_records rs) \<longrightarrow> map_res to_json (rs_records rs) = Inr json) \<and>
       import_table h' a s =
         Some (''coordinator_identity'', length (rs_records rs), identity_children (rs_records rs) json) \<and>
       (\<exists>b. arrow_array_free 2 (Some a) (eh_arrays h') = Some b \<and> same_boxes (eh_arrays h) b) \<and>
       (\<exists>b. arrow_schema_free 2 (Some s) (eh_schemas h') = Some b \<and> same_boxes (eh_schemas h) b)))"
  using identity_table_reads [OF assms] by (simp only: export_pair_ok identity_build_ok) blast

section \<open>Targets\<close>

lemma target_cells_Inr:
  "map_res (numeric_target nf) vals = Inr cells \<longleftrightarrow>
     (\<forall>v\<in>set vals. number_cell nf v \<noteq> None) \<and> cells = map (number_cell nf) vals"
  by (rule map_res_map) (rule numeric_target_Inr)

lemma target_table_exported:
  assumes "heap_wf h" and "export_pair (build_target_arrow nf t) h = (Inr (a, s), h')"
  shows "table_exported h h' a s ''coordinator_target'' (length (tb_sample_ids t))
    [(''sample_id'', False, texts (tb_sample_ids t)),
     (''target_id'', False, Strings (replicate (length (tb_sample_ids t)) (Some (as_str (tb_target_id t))))),
     (''value'', True, Floats (map (number_cell nf) (tb_values t)))]"
proof -
  let ?cols = "[texts (tb_sample_ids t), Strings (replicate (length (tb_sample_ids t)) (Some (as_str (tb_target_id t)))),
      Floats (map (number_cell nf) (tb_values t))]"
    and ?flds = "[(''sample_id'', ''u'', False), (''target_id'', ''u'', False), (''value'', ''g'', True)]"
  obtain arr sch h1 h2 where built: "build_target_arrow nf t h = (Inr (arr, sch), h1)"
    and boxes: "box_array arr h1 = (Inr a, h2)" "box_schema sch h2 = (Inr s, h')"
    using assms(2) by (rule export_pair_run)
  obtain cells cs ks g1 g2 g3 where cells: "map_res (numeric_target nf) (tb_values t) = Inr cells"
    and steps: "io_map boxed_column [texts (tb_sample_ids t),
        Strings (replicate (length (tb_sample_ids t)) (Some (as_str (tb_target_id t)))), Floats cells] h = (Inr cs, g1)"
      "io_map boxed_field ?flds g1 = (Inr ks, g2)"
    and finish: "struct_array (length (tb_sample_ids t)) cs g2 = (Inr arr, g3)"
      "struct_schema ''coordinator_target'' ks g3 = (Inr sch, h1)"
    using built unfolding build_target_arrow_def io_bind_Inr io_return_Inr io_lift_Inr prod.inject by blast
  have "built h g2 cs ?cols ks ?flds"
    using built_fields [OF built_columns [OF built_start [OF assms(1)] steps(1)] steps(2)] cells
    by (simp add: target_cells_Inr)
  from finished_table [OF this _ finish boxes] show ?thesis by (simp add: fields_of_def texts_def)
qed

definition masked_column :: "(string \<Rightarrow> f64 option) \<Rightarrow> multi_target_block \<Rightarrow> nat \<Rightarrow> column" where
  "masked_column nf t i =
     Floats (map (\<lambda>(v, valid). if valid then number_cell nf v else None) (zip (mb_values t ! i) (mb_validity_masks t ! i)))"

lemma masked_cells_Inr:
  "map_res (masked_target nf) cells = Inr out \<longleftrightarrow>
     (\<forall>(v, valid)\<in>set cells. valid \<longrightarrow> number_or_null nf v) \<and>
     out = map (\<lambda>(v, valid). if valid then number_cell nf v else None) cells"
proof -
  have "map_res (masked_target nf) cells = Inr out \<longleftrightarrow> (\<forall>x\<in>set cells. (snd x \<longrightarrow> number_or_null nf (fst x))) \<and>
      out = map (\<lambda>x. if snd x then number_cell nf (fst x) else None) cells"
    by (rule map_res_map)
      (auto simp: masked_target_def numeric_or_null_Inr json_is_null_def number_cell_def number_or_null_def split: prod.split)
  then show ?thesis by (simp add: case_prod_unfold)
qed

lemma multi_target_child_built:
  assumes "built h0 h cs cols ks flds" and "multi_target_child nf t (i, name) h = (Inr y, h')"
  shows "built h0 h' (cs @ [fst y]) (cols @ [masked_column nf t i]) (ks @ [snd y]) (flds @ [(as_str name, ''g'', True)])"
proof -
  obtain cells h1 where cells: "map_res (masked_target nf) (zip (mb_values t ! i) (mb_validity_masks t ! i)) = Inr cells"
    and a: "boxed_column (Floats cells) h = (Inr (fst y), h1)"
    and s: "boxed_field (as_str name, ''g'', True) h1 = (Inr (snd y), h')"
    using assms(2)
    by (auto simp: multi_target_child_def io_bind_Inr ok_or_eq_Inr nth_opt_eq_Some if_Inl_eq_Inr split: if_splits)
  have "Floats cells = masked_column nf t i" using cells by (simp add: masked_cells_Inr masked_column_def)
  with built_field [OF built_column [OF assms(1) a] s] show ?thesis by simp
qed

lemma multi_target_table_exported:
  assumes "heap_wf h" and "export_pair (build_multi_target_arrow nf t) h = (Inr (a, s), h')"
  shows "table_exported h h' a s ''coordinator_multi_target'' (length (mb_sample_ids t))
    ((''sample_id'', False, texts (mb_sample_ids t)) #
     map (\<lambda>(i, name). (as_str name, True, masked_column nf t i)) (List.enumerate 0 (mb_target_ids t)))"
proof -
  let ?names = "List.enumerate 0 (mb_target_ids t)"
  obtain arr sch h1 h2 where built: "build_multi_target_arrow nf t h = (Inr (arr, sch), h1)"
    and boxes: "box_array arr h1 = (Inr a, h2)" "box_schema sch h2 = (Inr s, h')"
    using assms(2) by (rule export_pair_run)
  obtain cs ks pairs g1 g2 g3 g4 where
      steps: "io_map boxed_column [texts (mb_sample_ids t)] h = (Inr cs, g1)"
        "io_map boxed_field [(''sample_id'', ''u'', False)] g1 = (Inr ks, g2)"
        "io_map (multi_target_child nf t) ?names g2 = (Inr pairs, g3)"
    and finish: "struct_array (length (mb_sample_ids t)) (cs @ map fst pairs) g3 = (Inr arr, g4)"
      "struct_schema ''coordinator_multi_target'' (ks @ map snd pairs) g4 = (Inr sch, h1)"
    using built unfolding build_multi_target_arrow_def io_bind_Inr io_return_Inr io_lift_Inr prod.inject by blast
  have "built h g2 cs [texts (mb_sample_ids t)] ks [(''sample_id'', ''u'', False)]"
    using built_fields [OF built_columns [OF built_start [OF assms(1)] steps(1)] steps(2)] by simp
  then have all: "built h g3 (cs @ map fst pairs) ([texts (mb_sample_ids t)] @ map (\<lambda>x. masked_column nf t (fst x)) ?names)
      (ks @ map snd pairs) ([(''sample_id'', ''u'', False)] @ map (\<lambda>x. (as_str (snd x), ''g'', True)) ?names)"
    by (rule built_loop [rotated, OF _ steps(3)]) (use multi_target_child_built in \<open>force\<close>)
  have "table_exported h h' a s ''coordinator_multi_target'' (length (mb_sample_ids t))
      (fields_of ([(''sample_id'', ''u'', False)] @ map (\<lambda>x. (as_str (snd x), ''g'', True)) ?names)
        ([texts (mb_sample_ids t)] @ map (\<lambda>x. masked_column nf t (fst x)) ?names))"
    by (rule finished_table [OF all _ finish boxes]) (simp add: texts_def masked_column_def comp_def)
  then show ?thesis
    by (simp add: fields_of_def zip_map1 zip_map2 zip_same_conv_map comp_def case_prod_unfold)
qed


section \<open>A small export\<close>

definition no_exports :: export_heap where
  "no_exports = \<lparr>eh_arrays = no_boxes, eh_schemas = no_boxes\<rparr>"

lemma no_exports_wf [simp]: "heap_wf no_exports"
  by (simp add: heap_wf_def no_exports_def)

definition small_number :: "string \<Rightarrow> f64 option" where
  "small_number s = (if s = ''1'' then Some f64_one else None)"

text \<open>Two observations and one feature, absent in the second.\<close>

definition small_features :: "string \<Rightarrow> feature_block" where
  "small_features name =
     \<lparr>fb_feature_set_id = ''f'', fb_representation_id = Ident ''r'', fb_feature_names = [name],
      fb_observation_ids = [Ident ''o1'', Ident ''o2''], fb_sample_ids = [Ident ''s1'', Ident ''s2''],
      fb_values = [[JNumber ''1''], [JNull]]\<rparr>"

lemma small_exportable: "feature_exportable small_number (small_features name) \<longleftrightarrow> CHR 0x00 \<notin> set name"
  by (simp add: feature_exportable_def small_features_def texts_def text_data_def str_bytes_def i32_max_def
      number_or_null_def number_cell_def small_number_def)

lemma feature_table_round_trip_witness:
  "\<exists>a s h'. export_pair (build_feature_arrow small_number (small_features ''x'')) no_exports = (Inr (a, s), h') \<and>
    import_table h' a s = Some (''coordinator_features'', 2,
      [(''observation_id'', False, Strings [Some ''o1'', Some ''o2'']),
       (''sample_id'', False, Strings [Some ''s1'', Some ''s2'']),
       (''x'', True, Floats [Some f64_one, None])])"
proof -
  note round_trip = feature_table_round_trip [OF no_exports_wf, of small_number "small_features ''x''"]
  have "io_ok (export_pair (build_feature_arrow small_number (small_features ''x''))) no_exports"
    using round_trip [THEN conjunct1] by (simp add: small_exportable)
  then obtain a s h' where "export_pair (build_feature_arrow small_number (small_features ''x'')) no_exports = (Inr (a, s), h')"
    by (auto simp: io_ok_def)
  moreover from this have "import_table h' a s = Some (''coordinator_features'', 2,
      [(''observation_id'', False, Strings [Some ''o1'', Some ''o2'']),
       (''sample_id'', False, Strings [Some ''s1'', Some ''s2'']),
       (''x'', True, Floats [Some f64_one, None])])"
    using round_trip [THEN conjunct2]
    by (auto simp: small_features_def texts_def feature_column_def number_cell_def small_number_def)
  ultimately show ?thesis by blast
qed

lemma failed_feature_export_leaks_witness:
  "\<exists>e h'. export_pair (build_feature_arrow small_number (small_features [CHR 0x00])) no_exports = (Inl e, h') \<and>
    \<not> same_boxes (eh_arrays no_exports) (eh_arrays h')"
  by (rule failed_feature_export_leaks)
    (simp_all add: small_exportable, simp add: small_features_def texts_def text_data_def str_bytes_def i32_max_def)


lemma two_relations_exportable: "identity_exportable to_json two_relations"
proof -
  have "\<not> list_ex rich_relation (rs_records two_relations)"
    by (simp add: two_relations_def relation_new_def rich_relation_def)
  moreover have "identity_texts_fit (rs_records two_relations)"
    by (simp add: identity_texts_fit_def identity_columns_def texts_def optional_texts_def text_data_def str_bytes_def
        i32_max_def two_relations_def relation_new_def)
  moreover have "relation_set_validate two_relations = Inr ()"
    by (simp add: relation_set_validate_ok two_relations_ok)
  ultimately show ?thesis by (simp add: identity_exportable_def)
qed

lemma identity_table_round_trip_witness:
  "\<exists>a s h' json. export_pair (build_identity_relations_arrow (\<lambda>_. Inr []) two_relations) no_exports = (Inr (a, s), h') \<and>
    import_table h' a s = Some (''coordinator_identity'', 2, identity_children (rs_records two_relations) json)"
proof -
  note round_trip = identity_table_round_trip [OF no_exports_wf, of "\<lambda>_. Inr []" two_relations]
  have "io_ok (export_pair (build_identity_relations_arrow (\<lambda>_. Inr []) two_relations)) no_exports"
    using round_trip [THEN conjunct1] two_relations_exportable by blast
  then obtain a s h' where "export_pair (build_identity_relations_arrow (\<lambda>_. Inr []) two_relations) no_exports = (Inr (a, s), h')"
    by (auto simp: io_ok_def)
  moreover from this obtain json where "import_table h' a s =
      Some (''coordinator_identity'', length (rs_records two_relations), identity_children (rs_records two_relations) json)"
    using round_trip [THEN conjunct2] by blast
  moreover have "length (rs_records two_relations) = 2" by (simp add: two_relations_def)
  ultimately show ?thesis by (metis (no_types))
qed

end
