(* ===== verification/C_Boundary.thy ===== *)
theory C_Boundary
  imports C_Ownership Arrow_Tables Fitted_Store Provider_Service Envelope_Assembly Strided_Gather
begin

text \<open>
  What every entry point of \<open>dag-ml-data-capi/src/lib.rs\<close> shares: the state behind the C ABI, the status
  codes, the last error of the calling thread, output pointers, and the way a refusal is reported. A
  panic cannot cross the boundary and undefined behaviour has no outcome: both are \<open>None\<close>. Descriptor
  texts are parameters, \<open>serde_json\<close> is one reader or writer per type.
\<close>

section \<open>State\<close>

text \<open>\<open>DagMlDataStatusCode\<close>.\<close>

datatype status = StatusOk | InvalidArgument | ValidationError | StatusPanic

fun status_number :: "status \<Rightarrow> nat" where
  "status_number StatusOk = 0"
| "status_number InvalidArgument = 1"
| "status_number ValidationError = 2"
| "status_number StatusPanic = 255"

record c_version =
  vn_major :: u32
  vn_minor :: u32
  vn_patch :: u32

definition dagmldata_version :: c_version where
  "dagmldata_version = \<lparr>vn_major = 0, vn_minor = 1, vn_patch = 0\<rparr>"

text \<open>The provider behind a vtable, with the store that is attached to it.\<close>

record provider_state =
  ps_provider :: provider
  ps_fitted_adapter_store :: "addr option"

text \<open>
  The boxes behind opaque handles: fitted-adapter stores (objects) and provider states (private data).
\<close>

type_synonym hosted = "(fitted_store, provider_state) boxes"

text \<open>Calls into callbacks of the host, in the order they were made.\<close>

datatype host_call = FetchCalled bytes_view bytes_view | DestroyCalled

record cabi =
  cb_last_error :: "(string \<times> u32) option"
  cb_heap :: c_heap
  cb_exports :: export_heap
  cb_hosted :: hosted
  cb_host_calls :: "host_call list"

definition cabi_start :: cabi where
  "cabi_start =
     \<lparr>cb_last_error = None, cb_heap = no_boxes, cb_exports = no_exports, cb_hosted = no_boxes,
      cb_host_calls = []\<rparr>"

text \<open>
  An output pointer is null or leads to a cell of the host; with the cell goes what it holds.
\<close>

type_synonym 'a slot = "'a option"

definition cleared :: "'a \<Rightarrow> 'a slot \<Rightarrow> 'a slot" where
  "cleared d = map_option (\<lambda>_. d)"

text \<open>\<open>descriptor_json\<close>, \<open>Display\<close> and the descriptor of a boundary message.\<close>

record messages =
  ms_descriptor :: "data_error \<Rightarrow> string option"
  ms_display :: "data_error \<Rightarrow> string"
  ms_argument :: "string \<Rightarrow> string"

section \<open>The last error\<close>

definition store_last_error :: "string \<Rightarrow> u32 \<Rightarrow> cabi \<Rightarrow> cabi" where
  "store_last_error payload number s = s\<lparr>cb_last_error := Some (payload, number)\<rparr>"

definition set_string :: "c_str slot \<Rightarrow> string \<Rightarrow> cabi \<Rightarrow> c_str slot \<times> cabi" where
  "set_string out v s =
     (if out = None then (None, s)
      else (let (c, h) = owned_string v (cb_heap s) in (Some c, s\<lparr>cb_heap := h\<rparr>)))"

definition dagmldata_last_error_json :: "c_str slot \<Rightarrow> cabi \<Rightarrow> status \<times> c_str slot \<times> cabi" where
  "dagmldata_last_error_json out s =
     (let out = cleared default_string out in
      case cb_last_error s of
        None \<Rightarrow> (StatusOk, out, s)
      | Some (payload, _) \<Rightarrow> (StatusOk, set_string out payload s))"

definition dagmldata_last_error_code :: "cabi \<Rightarrow> u32" where
  "dagmldata_last_error_code s = (case cb_last_error s of None \<Rightarrow> 0 | Some (_, number) \<Rightarrow> number)"

definition argument_error_code :: u32 where
  "argument_error_code = 0xFFFF"

definition set_error_message :: "messages \<Rightarrow> c_str slot \<Rightarrow> string \<Rightarrow> cabi \<Rightarrow> c_str slot \<times> cabi" where
  "set_error_message m out message s =
     set_string out message (store_last_error (ms_argument m message) argument_error_code s)"

definition record_arg_error :: "messages \<Rightarrow> string \<Rightarrow> cabi \<Rightarrow> cabi" where
  "record_arg_error m message = store_last_error (ms_argument m message) argument_error_code"

definition error_payload :: "messages \<Rightarrow> data_error \<Rightarrow> string" where
  "error_payload m e = (case ms_descriptor m e of Some json \<Rightarrow> json | None \<Rightarrow> ms_display m e)"

definition record_data_error :: "messages \<Rightarrow> data_error \<Rightarrow> cabi \<Rightarrow> cabi" where
  "record_data_error m e = store_last_error (error_payload m e) (error_code e)"

definition set_display_error :: "messages \<Rightarrow> c_str slot \<Rightarrow> data_error \<Rightarrow> cabi \<Rightarrow> c_str slot \<times> cabi" where
  "set_display_error m out e s =
     set_string out (error_payload m e) (store_last_error (error_payload m e) (error_code e) s)"

section \<open>Calls\<close>

text \<open>
  How an entry point gives up: a boundary message answered with \<open>InvalidArgument\<close>, one answered with
  \<open>ValidationError\<close>, or an error of the core.
\<close>

datatype refusal = BadArgument string | BadText string | BadData data_error

fun refusal_status :: "refusal \<Rightarrow> status" where
  "refusal_status (BadArgument _) = InvalidArgument"
| "refusal_status (BadText _) = ValidationError"
| "refusal_status (BadData _) = ValidationError"

fun report_refusal :: "messages \<Rightarrow> c_str slot \<Rightarrow> refusal \<Rightarrow> cabi \<Rightarrow> c_str slot \<times> cabi" where
  "report_refusal m out (BadArgument message) = set_error_message m out message"
| "report_refusal m out (BadText message) = set_error_message m out message"
| "report_refusal m out (BadData e) = set_display_error m out e"

fun record_refusal :: "messages \<Rightarrow> refusal \<Rightarrow> cabi \<Rightarrow> cabi" where
  "record_refusal m (BadArgument message) = record_arg_error m message"
| "record_refusal m (BadText message) = record_arg_error m message"
| "record_refusal m (BadData e) = record_data_error m e"

type_synonym 'a call = "cabi \<Rightarrow> ((refusal + 'a) \<times> cabi) option"

definition call_return :: "'a \<Rightarrow> 'a call" where
  "call_return x s = Some (Inr x, s)"

definition call_bind :: "'a call \<Rightarrow> ('a \<Rightarrow> 'b call) \<Rightarrow> 'b call" where
  "call_bind m f s =
     (case m s of None \<Rightarrow> None | Some (Inl r, s1) \<Rightarrow> Some (Inl r, s1) | Some (Inr x, s1) \<Rightarrow> f x s1)"

definition refuse :: "refusal \<Rightarrow> 'a call" where
  "refuse r s = Some (Inl r, s)"

definition crashes :: "data_error \<Rightarrow> bool" where
  "crashes e \<longleftrightarrow> e = undefined_behaviour \<or> e = slice_panic \<or> e = capacity_overflow"

definition answered :: "'a res \<times> cabi \<Rightarrow> ((refusal + 'a) \<times> cabi) option" where
  "answered rs =
     (case rs of
        (Inr x, s) \<Rightarrow> Some (Inr x, s)
      | (Inl e, s) \<Rightarrow> if crashes e then None else Some (Inl (BadData e), s))"

definition of_res :: "'a res \<Rightarrow> 'a call" where
  "of_res r s = answered (r, s)"

definition demand :: "bool \<Rightarrow> string \<Rightarrow> unit call" where
  "demand ok message = (if ok then call_return () else refuse (BadArgument message))"

definition read_json :: "(u8 list \<Rightarrow> string + 'a) \<Rightarrow> u8 host_ptr \<Rightarrow> usize \<Rightarrow> 'a call" where
  "read_json from_slice p len =
     call_bind (of_res (raw_slice p len)) (\<lambda>bytes.
       case from_slice bytes of Inl msg \<Rightarrow> refuse (BadData (Serialization msg)) | Inr x \<Rightarrow> call_return x)"

text \<open>\<open>serde_json::to_string(..).map_err(Into::into)\<close>.\<close>

definition write_json :: "('a \<Rightarrow> string + string) \<Rightarrow> 'a \<Rightarrow> string res" where
  "write_json to_string x = (case to_string x of Inl msg \<Rightarrow> Inl (Serialization msg) | Inr text \<Rightarrow> Inr text)"

definition publish_string :: "c_str slot \<Rightarrow> string \<Rightarrow> c_str slot call" where
  "publish_string out v s = (let (out, s) = set_string out v s in Some (Inr out, s))"

text \<open>Values that a call allocates for the host, and Arrow tables that it exports.\<close>

definition allocating :: "(c_heap \<Rightarrow> 'a \<times> c_heap) \<Rightarrow> 'a call" where
  "allocating f s = (let (x, h) = f (cb_heap s) in Some (Inr x, s\<lparr>cb_heap := h\<rparr>))"

definition exporting :: "(arrow_array \<times> arrow_schema) io \<Rightarrow> (addr \<times> addr) call" where
  "exporting m s = (let (r, h) = export_pair m (cb_exports s) in answered (r, s\<lparr>cb_exports := h\<rparr>))"

text \<open>
  The end of an entry point: its result, or the report of its refusal with the outputs as they were cleared.
\<close>

definition answer ::
  "messages \<Rightarrow> c_str slot \<Rightarrow> 'o \<Rightarrow> 'o call \<Rightarrow> cabi \<Rightarrow> (status \<times> 'o \<times> c_str slot \<times> cabi) option"
where
  "answer m error_out idle body s =
     (let error_out = cleared default_string error_out in
      case body s of
        None \<Rightarrow> None
      | Some (Inr out, s) \<Rightarrow> Some (StatusOk, out, error_out, s)
      | Some (Inl r, s) \<Rightarrow>
          (let (error_out, s) = report_refusal m error_out r s in
           Some (refusal_status r, idle, error_out, s)))"

text \<open>Entry points without an error output.\<close>

definition answer_silently :: "messages \<Rightarrow> 'o \<Rightarrow> 'o call \<Rightarrow> cabi \<Rightarrow> (status \<times> 'o \<times> cabi) option" where
  "answer_silently m idle body s =
     (case body s of
        None \<Rightarrow> None
      | Some (Inr out, s) \<Rightarrow> Some (StatusOk, out, s)
      | Some (Inl r, s) \<Rightarrow> Some (refusal_status r, idle, record_refusal m r s))"

end
