(* ===== verification/Arrow_Ipc.thy ===== *)
theory Arrow_Ipc
  imports Buffer_Content Buffer_Arena File_System
begin

text \<open>
  Feature buffers from Arrow IPC data (\<open>dag-ml-data-arrow/src/lib.rs\<close>). The \<open>arrow\<close> crates are third-party code:
  opening a stream or a file yields a list of record batches, each of which may be an error. A record batch
  is its schema metadata and its named columns, strings or 64 bit floats with nulls, or of another type.
\<close>

section \<open>Record batches\<close>

datatype arrow_column =
  Utf8Column "string option list"
| Float64Column "f64 option list"
| OtherColumn usize

record record_batch =
  rb_metadata :: "string \<rightharpoonup> string"
  rb_fields :: "(string \<times> arrow_column) list"

type_synonym batch_reader = "u8 list \<Rightarrow> string + (string + record_batch) list"

definition schema_metadata_feature_set_id :: string where
  "schema_metadata_feature_set_id = ''dag_ml_data.feature_set_id''"

definition schema_metadata_representation_id :: string where
  "schema_metadata_representation_id = ''dag_ml_data.representation_id''"

definition observation_id_column :: string where
  "observation_id_column = ''observation_id''"

text \<open>\<open>schema.index_of\<close>: the first field of that name.\<close>

definition index_of_field :: "string \<Rightarrow> (string \<times> arrow_column) list \<Rightarrow> usize option" where
  "index_of_field name columns =
     (let i = length (takeWhile (\<lambda>f. fst f \<noteq> name) columns) in if i < length columns then Some i else None)"

definition observation_of_cell :: "string option \<Rightarrow> observation_id res" where
  "observation_of_cell raw =
     rbind (ok_or raw (Validation ''observation_id column contains nulls'')) ident_new"

definition observation_ids_of :: "arrow_column \<Rightarrow> observation_id list res" where
  "observation_ids_of column =
     (case column of
        Utf8Column raws \<Rightarrow>
          if None \<in> set raws then invalid ''observation_id column contains nulls''
          else map_res observation_of_cell raws
      | _ \<Rightarrow> invalid ''observation_id column must be Utf8'')"

definition feature_column_of :: "string \<times> arrow_column \<Rightarrow> (string \<times> f64 list \<times> bool list) res" where
  "feature_column_of field =
     (case snd field of
        Float64Column cells \<Rightarrow>
          Inr (fst field, map (\<lambda>cell. case cell of None \<Rightarrow> f64_zero | Some v \<Rightarrow> v) cells,
            map (\<lambda>cell. cell \<noteq> None) cells)
      | _ \<Rightarrow> invalid ''column must be Float64'')"

definition other_fields :: "usize \<Rightarrow> (string \<times> arrow_column) list \<Rightarrow> (string \<times> arrow_column) list" where
  "other_fields observation_field_index columns =
     map snd (filter (\<lambda>(idx, _). idx \<noteq> observation_field_index) (List.enumerate 0 columns))"

definition record_batch_to_matrix :: "record_batch \<Rightarrow> f64_columnar res" where
  "record_batch_to_matrix batch =
     rbind (ok_or (rb_metadata batch schema_metadata_feature_set_id)
         (Validation ''missing schema metadata feature_set_id'')) (\<lambda>feature_set_id.
     rbind (ok_or (rb_metadata batch schema_metadata_representation_id)
         (Validation ''missing schema metadata representation_id'')) (\<lambda>representation_raw.
     rbind (ident_new representation_raw) (\<lambda>representation_id.
     rbind (ok_or (index_of_field observation_id_column (rb_fields batch))
         (Validation ''missing observation_id column'')) (\<lambda>observation_field_index.
     rbind (observation_ids_of (snd (rb_fields batch ! observation_field_index))) (\<lambda>observation_ids.
     rbind (map_res feature_column_of (other_fields observation_field_index (rb_fields batch))) (\<lambda>features.
       if features = [] then invalid ''no feature columns''
       else
         (let masks = map (\<lambda>(_, _, m). m) features; any_null = list_ex (list_ex Not) masks in
          Inr
            \<lparr>fc_feature_set_id = feature_set_id, fc_representation_id = representation_id,
             fc_feature_names = map fst features, fc_observation_ids = observation_ids,
             fc_columns = map (\<lambda>(_, values, _). values) features,
             fc_validity_masks = (if any_null then Some masks else None)\<rparr>)))))))"

section \<open>Reading batches\<close>

text \<open>The rows of \<open>next\<close> behind those of \<open>matrix\<close>; \<open>zip\<close> stops at the shorter list of columns.\<close>

definition append_rows :: "f64_columnar \<Rightarrow> f64_columnar \<Rightarrow> f64_columnar" where
  "append_rows matrix nxt =
     (let prior_rows = length (fc_observation_ids matrix); next_rows = length (fc_observation_ids nxt);
          masks =
            (if fc_validity_masks matrix = None \<and> fc_validity_masks nxt \<noteq> None
             then Some (replicate (length (fc_columns matrix)) (replicate prior_rows True))
             else fc_validity_masks matrix)
      in matrix
           \<lparr>fc_validity_masks :=
              map_option
                (\<lambda>ms. map (\<lambda>(idx, m). m @ (case fc_validity_masks nxt of
                    Some next_masks \<Rightarrow> next_masks ! idx | None \<Rightarrow> replicate next_rows True))
                  (List.enumerate 0 ms)) masks,
            fc_observation_ids := fc_observation_ids matrix @ fc_observation_ids nxt,
            fc_columns :=
              map (\<lambda>(idx, column). if idx < length (fc_columns nxt) then column @ fc_columns nxt ! idx else column)
                (List.enumerate 0 (fc_columns matrix))\<rparr>)"

definition merge_batch ::
  "(string, f64_columnar) btree_map \<Rightarrow> string + record_batch \<Rightarrow> (string, f64_columnar) btree_map res"
where
  "merge_batch matrices batch =
     rbind (case batch of Inl msg \<Rightarrow> invalid ''arrow IPC reader error'' | Inr b \<Rightarrow> record_batch_to_matrix b) (\<lambda>nxt.
       if fc_observation_ids nxt = [] then Inr matrices
       else
         (case map_of matrices (fc_feature_set_id nxt) of
            None \<Rightarrow> Inr (bt_insert (fc_feature_set_id nxt) nxt matrices)
          | Some matrix \<Rightarrow>
              if fc_representation_id matrix \<noteq> fc_representation_id nxt \<or>
                 fc_feature_names matrix \<noteq> fc_feature_names nxt
              then invalid ''incompatible feature schemas''
              else Inr (bt_insert (fc_feature_set_id nxt) (append_rows matrix nxt) matrices)))"

definition read_batches :: "(string + record_batch) list \<Rightarrow> buffer_store res" where
  "read_batches batches =
     rbind (fold_res merge_batch [] batches) (\<lambda>matrices. store_from_f64_column_matrices (bt_values matrices))"

definition read_buffers_from_ipc :: "batch_reader \<Rightarrow> u8 list \<Rightarrow> buffer_store res" where
  "read_buffers_from_ipc open_reader bytes =
     (case open_reader bytes of Inl msg \<Rightarrow> invalid ''arrow IPC reader error'' | Inr batches \<Rightarrow> read_batches batches)"

definition read_buffers_from_ipc_path :: "batch_reader \<Rightarrow> string \<Rightarrow> file_system \<Rightarrow> buffer_store res" where
  "read_buffers_from_ipc_path open_file path fs =
     rbind (ok_or (fs_read path fs) (Validation ''failed to open arrow IPC file''))
       (read_buffers_from_ipc open_file)"

end
