(* ===== verification/C_Entries.thy ===== *)
theory C_Entries
  imports C_Boundary Aggregation Arrow_Ipc
begin

text \<open>
  The entry points of \<open>dag-ml-data-capi/src/lib.rs\<close> that keep no state but the last error: they read a JSON
  argument, run one operation of the core crate, and hand over a string, a tensor, or an Arrow table.
\<close>

section \<open>What is read and written\<close>

type_synonym 'a slice_reader = "u8 list \<Rightarrow> string + 'a"
type_synonym 'a json_writer = "'a \<Rightarrow> string + string"

record fusion_arrow_request =
  xq_feature_set_id :: string
  xq_sources :: "source_feature_block list"
  xq_alignment :: sample_alignment_plan
  xq_source_layout :: "source_layout option"
  xq_namespace_columns :: bool

record collation_json_request =
  jq_feature_block :: feature_block
  jq_policy :: collation_policy

record nd_selector =
  ns_tensor_id :: string
  ns_source_id :: "string option"

text \<open>\<open>serde_json::from_slice\<close>, and \<open>from_str\<close> for the selector of a fusion.\<close>

record c_readers =
  rd_schema :: "dataset_schema slice_reader"
  rd_fold_set :: "fold_set slice_reader"
  rd_aggregation_policy :: "aggregation_policy slice_reader"
  rd_relation_table :: "sample_relation_table slice_reader"
  rd_fitted_ref :: "fitted_adapter_ref slice_reader"
  rd_fitted_manifest :: "fitted_manifest slice_reader"
  rd_fitted_request :: "materialization_key slice_reader"
  rd_envelope :: "envelope slice_reader"
  rd_target_request :: "target_request slice_reader"
  rd_multi_target_request :: "multi_target_request slice_reader"
  rd_feature_request :: "feature_request slice_reader"
  rd_fusion_request :: "fusion_arrow_request slice_reader"
  rd_collation_json_request :: "collation_json_request slice_reader"
  rd_target_tables :: "target_table list slice_reader"
  rd_feature_tables :: "feature_table list slice_reader"
  rd_f64_matrices :: "f64_matrix list slice_reader"
  rd_materialization :: "materialization_request slice_reader"
  rd_view :: "data_view slice_reader"
  rd_collation_request :: "collation_request slice_reader"
  rd_nd_selector :: "nd_selector slice_reader"
  rd_fusion_selector :: "string \<Rightarrow> string + fusion_selector"

record c_writers =
  wr_tensor_block :: "numeric_tensor_block json_writer"
  wr_manifests :: "buffer_manifest list json_writer"
  wr_bindings :: "buffer_binding list json_writer"
  wr_nd_manifests :: "nd_manifest list json_writer"
  wr_nd_bindings :: "nd_binding list json_writer"

text \<open>All parameters of the C ABI: \<open>serde_json\<close>, SHA-256, descriptor texts, number conversions, the allocator.\<close>

record c_env =
  ce_messages :: messages
  ce_codecs :: codecs
  ce_readers :: c_readers
  ce_writers :: c_writers
  ce_fold_set_value :: "fold_set \<Rightarrow> json res"
  ce_sort_objects :: "json \<Rightarrow> json"
  ce_value_bytes :: "json \<Rightarrow> u8 list res"
  ce_relation_json :: "coordinator_relation \<Rightarrow> string res"
  ce_json_f64 :: "f64 \<Rightarrow> json"
  ce_can_reserve :: "nat \<Rightarrow> bool"
  ce_ipc_file :: batch_reader

abbreviation ce_external :: "c_env \<Rightarrow> external" where
  "ce_external env \<equiv> cd_external (ce_codecs env)"

abbreviation ce_number_f64 :: "c_env \<Rightarrow> string \<Rightarrow> f64 option" where
  "ce_number_f64 env \<equiv> cd_number_f64 (ce_codecs env)"

section \<open>Validators and fingerprints\<close>

definition dagmldata_schema_fingerprint_json ::
  "c_env \<Rightarrow> u8 host_ptr \<Rightarrow> usize \<Rightarrow> c_str slot \<Rightarrow> c_str slot \<Rightarrow> cabi \<Rightarrow>
   (status \<times> c_str slot \<times> c_str slot \<times> cabi) option"
where
  "dagmldata_schema_fingerprint_json env json_ptr json_len fingerprint_out error_out =
     (let fingerprint_out = cleared default_string fingerprint_out in
      answer (ce_messages env) error_out fingerprint_out
       (call_bind (demand (json_ptr \<noteq> None) ''json pointer is null'') (\<lambda>_.
        call_bind (read_json (rd_schema (ce_readers env)) json_ptr json_len) (\<lambda>schema.
        call_bind (of_res (schema_fingerprint (ce_codecs env) schema)) (publish_string fingerprint_out)))))"

definition dagmldata_fold_set_validate_json ::
  "c_env \<Rightarrow> u8 host_ptr \<Rightarrow> usize \<Rightarrow> c_str slot \<Rightarrow> cabi \<Rightarrow> (status \<times> unit \<times> c_str slot \<times> cabi) option"
where
  "dagmldata_fold_set_validate_json env json_ptr json_len error_out =
     answer (ce_messages env) error_out ()
       (call_bind (demand (json_ptr \<noteq> None) ''json pointer is null'') (\<lambda>_.
        call_bind (read_json (rd_fold_set (ce_readers env)) json_ptr json_len) (\<lambda>fs.
          of_res (fold_set_validate fs))))"

definition dagmldata_aggregation_policy_validate_json ::
  "c_env \<Rightarrow> u8 host_ptr \<Rightarrow> usize \<Rightarrow> c_str slot \<Rightarrow> cabi \<Rightarrow> (status \<times> unit \<times> c_str slot \<times> cabi) option"
where
  "dagmldata_aggregation_policy_validate_json env json_ptr json_len error_out =
     answer (ce_messages env) error_out ()
       (call_bind (demand (json_ptr \<noteq> None) ''json pointer is null'') (\<lambda>_.
        call_bind (read_json (rd_aggregation_policy (ce_readers env)) json_ptr json_len) (\<lambda>policy.
          of_res (aggregation_validate policy))))"

definition dagmldata_fold_set_fingerprint_json ::
  "c_env \<Rightarrow> u8 host_ptr \<Rightarrow> usize \<Rightarrow> c_str slot \<Rightarrow> c_str slot \<Rightarrow> cabi \<Rightarrow>
   (status \<times> c_str slot \<times> c_str slot \<times> cabi) option"
where
  "dagmldata_fold_set_fingerprint_json env json_ptr json_len fingerprint_out error_out =
     (let fingerprint_out = cleared default_string fingerprint_out in
      answer (ce_messages env) error_out fingerprint_out
       (call_bind (demand (json_ptr \<noteq> None) ''json pointer is null'') (\<lambda>_.
        call_bind (read_json (rd_fold_set (ce_readers env)) json_ptr json_len) (\<lambda>fs.
        call_bind
          (of_res
             (fold_set_fingerprint (ce_fold_set_value env) (ce_sort_objects env) (ce_value_bytes env)
                (ex_sha256 (ce_external env)) fs))
          (publish_string fingerprint_out)))))"

definition dagmldata_fold_set_validate_against_relations_json ::
  "c_env \<Rightarrow> u8 host_ptr \<Rightarrow> usize \<Rightarrow> u8 host_ptr \<Rightarrow> usize \<Rightarrow> c_str slot \<Rightarrow> cabi \<Rightarrow>
   (status \<times> unit \<times> c_str slot \<times> cabi) option"
where
  "dagmldata_fold_set_validate_against_relations_json env fold_set_ptr fold_set_len relations_ptr relations_len
     error_out =
     answer (ce_messages env) error_out ()
       (call_bind (demand (fold_set_ptr \<noteq> None) ''fold set json pointer is null'') (\<lambda>_.
        call_bind (demand (relations_ptr \<noteq> None) ''sample relations json pointer is null'') (\<lambda>_.
        call_bind (read_json (rd_fold_set (ce_readers env)) fold_set_ptr fold_set_len) (\<lambda>fs.
        call_bind (read_json (rd_relation_table (ce_readers env)) relations_ptr relations_len) (\<lambda>relations.
          of_res (validate_fold_set relations fs))))))"

text \<open>Any non-zero flag asks for a portable reference.\<close>

definition dagmldata_fitted_adapter_ref_validate_json ::
  "c_env \<Rightarrow> u8 host_ptr \<Rightarrow> usize \<Rightarrow> u8 \<Rightarrow> c_str slot \<Rightarrow> cabi \<Rightarrow>
   (status \<times> unit \<times> c_str slot \<times> cabi) option"
where
  "dagmldata_fitted_adapter_ref_validate_json env json_ptr json_len require_portable error_out =
     answer (ce_messages env) error_out ()
       (call_bind (demand (json_ptr \<noteq> None) ''json pointer is null'') (\<lambda>_.
        call_bind (read_json (rd_fitted_ref (ce_readers env)) json_ptr json_len) (\<lambda>r.
          of_res (if require_portable \<noteq> 0 then fitted_ref_validate_portable r else fitted_ref_validate r))))"

definition dagmldata_fitted_adapter_manifest_validate_json ::
  "c_env \<Rightarrow> u8 host_ptr \<Rightarrow> usize \<Rightarrow> u8 \<Rightarrow> c_str slot \<Rightarrow> cabi \<Rightarrow>
   (status \<times> unit \<times> c_str slot \<times> cabi) option"
where
  "dagmldata_fitted_adapter_manifest_validate_json env json_ptr json_len require_portable error_out =
     answer (ce_messages env) error_out ()
       (call_bind (demand (json_ptr \<noteq> None) ''json pointer is null'') (\<lambda>_.
        call_bind (read_json (rd_fitted_manifest (ce_readers env)) json_ptr json_len) (\<lambda>manifest.
          of_res
            (if require_portable \<noteq> 0 then manifest_validate_portable manifest else manifest_validate manifest))))"

section \<open>Arrow tables\<close>

type_synonym arrow_out = "addr option slot \<times> addr option slot"

definition cleared_arrow :: "arrow_out \<Rightarrow> arrow_out" where
  "cleared_arrow out = map_prod (cleared None) (cleared None) out"

definition arrow_outputs_given :: "arrow_out \<Rightarrow> bool" where
  "arrow_outputs_given out \<longleftrightarrow> fst out \<noteq> None \<and> snd out \<noteq> None"

text \<open>\<open>*out_arrow_array = Box::into_raw(..)\<close> for both outputs, which are not null here.\<close>

definition publish_table :: "(arrow_array \<times> arrow_schema) io \<Rightarrow> arrow_out call" where
  "publish_table m = call_bind (exporting m) (\<lambda>(arr, sch). call_return (Some (Some arr), Some (Some sch)))"

definition arrow_entry ::
  "c_env \<Rightarrow> 'a slice_reader \<Rightarrow> ('a \<Rightarrow> (arrow_array \<times> arrow_schema) io) \<Rightarrow> u8 host_ptr \<Rightarrow> usize \<Rightarrow> arrow_out \<Rightarrow>
   c_str slot \<Rightarrow> cabi \<Rightarrow> (status \<times> arrow_out \<times> c_str slot \<times> cabi) option"
where
  "arrow_entry env from_slice build json_ptr json_len out error_out =
     answer (ce_messages env) error_out (cleared_arrow out)
       (call_bind (demand (json_ptr \<noteq> None) ''json pointer is null'') (\<lambda>_.
        call_bind (demand (arrow_outputs_given out) ''arrow output pointer is null'') (\<lambda>_.
        call_bind (read_json from_slice json_ptr json_len) (\<lambda>request. publish_table (build request)))))"

definition dagmldata_coordinator_identity_arrow_json ::
  "c_env \<Rightarrow> u8 host_ptr \<Rightarrow> usize \<Rightarrow> arrow_out \<Rightarrow> c_str slot \<Rightarrow> cabi \<Rightarrow>
   (status \<times> arrow_out \<times> c_str slot \<times> cabi) option"
where
  "dagmldata_coordinator_identity_arrow_json env =
     arrow_entry env (rd_envelope (ce_readers env)) (build_identity_arrow (ce_external env) (ce_relation_json env))"

definition dagmldata_coordinator_target_arrow_json ::
  "c_env \<Rightarrow> u8 host_ptr \<Rightarrow> usize \<Rightarrow> arrow_out \<Rightarrow> c_str slot \<Rightarrow> cabi \<Rightarrow>
   (status \<times> arrow_out \<times> c_str slot \<times> cabi) option"
where
  "dagmldata_coordinator_target_arrow_json env =
     arrow_entry env (rd_target_request (ce_readers env))
       (\<lambda>q. io_bind (io_lift (build_target_block (ce_external env) q)) (build_target_arrow (ce_number_f64 env)))"

definition dagmldata_coordinator_multi_target_arrow_json ::
  "c_env \<Rightarrow> u8 host_ptr \<Rightarrow> usize \<Rightarrow> arrow_out \<Rightarrow> c_str slot \<Rightarrow> cabi \<Rightarrow>
   (status \<times> arrow_out \<times> c_str slot \<times> cabi) option"
where
  "dagmldata_coordinator_multi_target_arrow_json env =
     arrow_entry env (rd_multi_target_request (ce_readers env))
       (\<lambda>q. io_bind (io_lift (build_multi_target_block (ce_external env) q))
          (build_multi_target_arrow (ce_number_f64 env)))"

definition dagmldata_coordinator_feature_arrow_json ::
  "c_env \<Rightarrow> u8 host_ptr \<Rightarrow> usize \<Rightarrow> arrow_out \<Rightarrow> c_str slot \<Rightarrow> cabi \<Rightarrow>
   (status \<times> arrow_out \<times> c_str slot \<times> cabi) option"
where
  "dagmldata_coordinator_feature_arrow_json env =
     arrow_entry env (rd_feature_request (ce_readers env))
       (\<lambda>q. io_bind (io_lift (build_feature_block (ce_external env) q)) (build_feature_arrow (ce_number_f64 env)))"

definition fuse_for_arrow :: "fusion_arrow_request \<Rightarrow> feature_block res" where
  "fuse_for_arrow q =
     rseq
       (case xq_source_layout q of
          None \<Rightarrow> Inr ()
        | Some l \<Rightarrow> validate_for_source_blocks l (xq_feature_set_id q) (xq_sources q))
       (fuse_feature_blocks (xq_feature_set_id q) (xq_sources q) (xq_alignment q) (xq_namespace_columns q))"

definition dagmldata_coordinator_feature_fusion_arrow_json ::
  "c_env \<Rightarrow> u8 host_ptr \<Rightarrow> usize \<Rightarrow> arrow_out \<Rightarrow> c_str slot \<Rightarrow> cabi \<Rightarrow>
   (status \<times> arrow_out \<times> c_str slot \<times> cabi) option"
where
  "dagmldata_coordinator_feature_fusion_arrow_json env =
     arrow_entry env (rd_fusion_request (ce_readers env))
       (\<lambda>q. io_bind (io_lift (fuse_for_arrow q)) (build_feature_arrow (ce_number_f64 env)))"

section \<open>Collation\<close>

definition collate_for_c :: "c_env \<Rightarrow> feature_block \<Rightarrow> collation_policy \<Rightarrow> numeric_tensor_block res" where
  "collate_for_c env = collate_feature_block (ce_number_f64 env) (ce_can_reserve env)"

definition dagmldata_coordinator_feature_collation_json ::
  "c_env \<Rightarrow> u8 host_ptr \<Rightarrow> usize \<Rightarrow> c_str slot \<Rightarrow> c_str slot \<Rightarrow> cabi \<Rightarrow>
   (status \<times> c_str slot \<times> c_str slot \<times> cabi) option"
where
  "dagmldata_coordinator_feature_collation_json env json_ptr json_len out_json error_out =
     (let out_json = cleared default_string out_json in
      answer (ce_messages env) error_out out_json
       (call_bind (demand (json_ptr \<noteq> None) ''json pointer is null'') (\<lambda>_.
        call_bind (read_json (rd_collation_json_request (ce_readers env)) json_ptr json_len) (\<lambda>q.
        call_bind
          (of_res
             (rbind (collate_for_c env (jq_feature_block q) (jq_policy q))
                (write_json (wr_tensor_block (ce_writers env)))))
          (publish_string out_json)))))"

text \<open>\<open>*out_tensor = tensor_to_c(tensor)\<close>, and the 32 bit tensor with its refusal.\<close>

definition publish_tensor :: "numeric_tensor_block \<Rightarrow> c_tensor slot call" where
  "publish_tensor t = call_bind (allocating (tensor_to_c t)) (\<lambda>c. call_return (Some c))"

definition publish_tensor_f32 :: "numeric_tensor_block \<Rightarrow> c_tensor slot call" where
  "publish_tensor_f32 t =
     call_bind (allocating (tensor_to_c_f32 t)) (\<lambda>r. call_bind (of_res r) (\<lambda>c. call_return (Some c)))"

definition dagmldata_coordinator_feature_collation_tensor_f64_json ::
  "c_env \<Rightarrow> u8 host_ptr \<Rightarrow> usize \<Rightarrow> c_tensor slot \<Rightarrow> c_str slot \<Rightarrow> cabi \<Rightarrow>
   (status \<times> c_tensor slot \<times> c_str slot \<times> cabi) option"
where
  "dagmldata_coordinator_feature_collation_tensor_f64_json env json_ptr json_len out_tensor error_out =
     answer (ce_messages env) error_out (cleared default_tensor out_tensor)
       (call_bind (demand (json_ptr \<noteq> None) ''json pointer is null'') (\<lambda>_.
        call_bind (demand (out_tensor \<noteq> None) ''tensor output pointer is null'') (\<lambda>_.
        call_bind (read_json (rd_collation_json_request (ce_readers env)) json_ptr json_len) (\<lambda>q.
        call_bind (of_res (collate_for_c env (jq_feature_block q) (jq_policy q))) publish_tensor))))"

definition dagmldata_coordinator_feature_collation_tensor_f32_json ::
  "c_env \<Rightarrow> u8 host_ptr \<Rightarrow> usize \<Rightarrow> c_tensor slot \<Rightarrow> c_str slot \<Rightarrow> cabi \<Rightarrow>
   (status \<times> c_tensor slot \<times> c_str slot \<times> cabi) option"
where
  "dagmldata_coordinator_feature_collation_tensor_f32_json env json_ptr json_len out_tensor error_out =
     answer (ce_messages env) error_out (cleared default_tensor out_tensor)
       (call_bind (demand (json_ptr \<noteq> None) ''json pointer is null'') (\<lambda>_.
        call_bind (demand (out_tensor \<noteq> None) ''tensor output pointer is null'') (\<lambda>_.
        call_bind (read_json (rd_collation_json_request (ce_readers env)) json_ptr json_len) (\<lambda>q.
        call_bind (of_res (collate_for_c env (jq_feature_block q) (jq_policy q))) publish_tensor_f32))))"

end
