(* ===== verification/C_Stores.thy ===== *)
theory C_Stores
  imports C_Entries
begin

text \<open>
  The entry points of \<open>dag-ml-data-capi/src/lib.rs\<close> for fitted-adapter stores behind opaque handles, and the
  attachment of such a store to a provider. Using a handle after its box was freed is undefined behaviour.
  A poisoned mutex is not observable here: a panic under it ends the process at the boundary.
\<close>

section \<open>Handles and vtables\<close>

datatype provider_callback =
  ProviderMaterialize | ProviderMakeView | ProviderViewIdentity | ProviderTargetArrow | ProviderFeatureArrow |
  ProviderRelease | ProviderDestroy

record vtable =
  vt_abi_version :: u32
  vt_user_data :: "addr option"
  vt_materialize :: "provider_callback option"
  vt_make_view :: "provider_callback option"
  vt_view_identity :: "provider_callback option"
  vt_target_arrow :: "provider_callback option"
  vt_feature_arrow :: "provider_callback option"
  vt_release :: "provider_callback option"
  vt_destroy :: "provider_callback option"

definition provider_vtable_abi_version :: u32 where
  "provider_vtable_abi_version = 2"

definition provider_vtable :: "addr \<Rightarrow> vtable" where
  "provider_vtable user_data =
     \<lparr>vt_abi_version = provider_vtable_abi_version, vt_user_data = Some user_data,
      vt_materialize = Some ProviderMaterialize, vt_make_view = Some ProviderMakeView,
      vt_view_identity = Some ProviderViewIdentity, vt_target_arrow = Some ProviderTargetArrow,
      vt_feature_arrow = Some ProviderFeatureArrow, vt_release = Some ProviderRelease,
      vt_destroy = Some ProviderDestroy\<rparr>"

definition empty_vtable :: vtable where
  "empty_vtable =
     \<lparr>vt_abi_version = provider_vtable_abi_version, vt_user_data = None, vt_materialize = None,
      vt_make_view = None, vt_view_identity = None, vt_target_arrow = None, vt_feature_arrow = None,
      vt_release = None, vt_destroy = None\<rparr>"

text \<open>The vtable pointer and the user data behind it, null when either is.\<close>

definition user_data_of :: "vtable option \<Rightarrow> addr option" where
  "user_data_of vtable = Option.bind vtable vt_user_data"

text \<open>\<open>&*store.ptr\<close> and \<open>&*user_data\<close>.\<close>

definition borrow_store :: "addr option \<Rightarrow> fitted_store call" where
  "borrow_store ptr s =
     map_option (\<lambda>store. (Inr store, s)) (Option.bind ptr (bx_objects (cb_hosted s)))"

definition borrow_state :: "addr option \<Rightarrow> provider_state call" where
  "borrow_state ptr s =
     map_option (\<lambda>state. (Inr state, s)) (Option.bind ptr (bx_privates (cb_hosted s)))"

definition keep_store :: "addr option \<Rightarrow> fitted_store \<Rightarrow> unit call" where
  "keep_store ptr store s =
     map_option (\<lambda>a. (Inr (), s\<lparr>cb_hosted := set_object a store (cb_hosted s)\<rparr>)) ptr"

definition keep_state :: "addr option \<Rightarrow> provider_state \<Rightarrow> unit call" where
  "keep_state ptr state s =
     map_option
       (\<lambda>a. (Inr (), s\<lparr>cb_hosted := (cb_hosted s)\<lparr>bx_privates := (bx_privates (cb_hosted s))(a := Some state)\<rparr>\<rparr>)) ptr"

text \<open>A value written through an output pointer that may be null; the cell keeps its content on failure.\<close>

definition written :: "'a \<Rightarrow> 'a slot \<Rightarrow> 'a slot" where
  "written x = map_option (\<lambda>_. x)"

section \<open>Stores\<close>

definition dagmldata_inmemory_fitted_adapter_store_new ::
  "c_env \<Rightarrow> addr option slot \<Rightarrow> cabi \<Rightarrow> (status \<times> addr option slot \<times> cabi) option"
where
  "dagmldata_inmemory_fitted_adapter_store_new env out_store =
     answer_silently (ce_messages env) out_store
       (call_bind (demand (out_store \<noteq> None) ''fitted-adapter store out pointer is null'') (\<lambda>_ s.
          (let (a, h) = new_object fitted_store_new (cb_hosted s) in
           Some (Inr (written (Some a) out_store), s\<lparr>cb_hosted := h\<rparr>))))"

definition dagmldata_inmemory_fitted_adapter_store_destroy :: "addr option \<Rightarrow> cabi \<Rightarrow> cabi option" where
  "dagmldata_inmemory_fitted_adapter_store_destroy store s =
     (case store of
        None \<Rightarrow> Some s
      | Some a \<Rightarrow> map_option (\<lambda>h. s\<lparr>cb_hosted := h\<rparr>) (drop_object a (cb_hosted s)))"

definition dagmldata_inmemory_fitted_adapter_store_register_json ::
  "c_env \<Rightarrow> addr option \<Rightarrow> u8 host_ptr \<Rightarrow> usize \<Rightarrow> u64 slot \<Rightarrow> c_str slot \<Rightarrow> cabi \<Rightarrow>
   (status \<times> u64 slot \<times> c_str slot \<times> cabi) option"
where
  "dagmldata_inmemory_fitted_adapter_store_register_json env store json_ptr json_len out_handle error_out =
     answer (ce_messages env) error_out out_handle
       (call_bind (demand (store \<noteq> None \<and> json_ptr \<noteq> None) ''store or json pointer is null'') (\<lambda>_.
        call_bind (borrow_store store) (\<lambda>st.
        call_bind (read_json (rd_fitted_ref (ce_readers env)) json_ptr json_len) (\<lambda>r.
          (let (st, result) = fitted_register r st in
           call_bind (keep_store store st) (\<lambda>_.
           call_bind (of_res result) (\<lambda>rec. call_return (written (fh_handle rec) out_handle))))))))"

definition dagmldata_inmemory_fitted_adapter_store_materialize_json ::
  "c_env \<Rightarrow> addr option \<Rightarrow> u8 host_ptr \<Rightarrow> usize \<Rightarrow> u64 slot \<Rightarrow> c_str slot \<Rightarrow> cabi \<Rightarrow>
   (status \<times> u64 slot \<times> c_str slot \<times> cabi) option"
where
  "dagmldata_inmemory_fitted_adapter_store_materialize_json env store json_ptr json_len out_handle error_out =
     answer (ce_messages env) error_out out_handle
       (call_bind (demand (store \<noteq> None \<and> json_ptr \<noteq> None) ''store or json pointer is null'') (\<lambda>_.
        call_bind (borrow_store store) (\<lambda>st.
        call_bind (read_json (rd_fitted_request (ce_readers env)) json_ptr json_len) (\<lambda>request.
        call_bind (of_res (fitted_materialize request st)) (\<lambda>handle.
          call_return (written handle out_handle))))))"

definition dagmldata_inmemory_fitted_adapter_store_release ::
  "c_env \<Rightarrow> addr option \<Rightarrow> u8 host_ptr \<Rightarrow> usize \<Rightarrow> u8 slot \<Rightarrow> cabi \<Rightarrow> (status \<times> u8 slot \<times> cabi) option"
where
  "dagmldata_inmemory_fitted_adapter_store_release env store adapter_id adapter_id_len out_released =
     answer_silently (ce_messages env) out_released
       (call_bind
          (demand (store \<noteq> None \<and> adapter_id \<noteq> None) ''fitted-adapter store or adapter_id pointer is null'') (\<lambda>_.
        call_bind (borrow_store store) (\<lambda>st.
        call_bind (of_res (raw_slice adapter_id adapter_id_len)) (\<lambda>bytes.
        call_bind (demand (utf8_valid bytes) ''adapter_id is not valid UTF-8'') (\<lambda>_.
          (let (st, released) = fitted_release (string_of_bytes bytes) st in
           call_bind (keep_store store st) (\<lambda>_.
             call_return (written (if released then 1 else 0) out_released))))))))"

section \<open>Attachment to a provider\<close>

definition dagmldata_inmemory_provider_attach_fitted_adapter_store ::
  "c_env \<Rightarrow> vtable option \<Rightarrow> addr option \<Rightarrow> c_str slot \<Rightarrow> cabi \<Rightarrow> (status \<times> unit \<times> c_str slot \<times> cabi) option"
where
  "dagmldata_inmemory_provider_attach_fitted_adapter_store env vtable store error_out =
     answer (ce_messages env) error_out ()
       (call_bind (demand (user_data_of vtable \<noteq> None) ''provider vtable or user_data is null'') (\<lambda>_.
        call_bind (borrow_state (user_data_of vtable)) (\<lambda>state.
          keep_state (user_data_of vtable) (state\<lparr>ps_fitted_adapter_store := store\<rparr>))))"

definition dagmldata_inmemory_provider_materialize_fitted_adapter_json ::
  "c_env \<Rightarrow> vtable option \<Rightarrow> u8 host_ptr \<Rightarrow> usize \<Rightarrow> u64 slot \<Rightarrow> c_str slot \<Rightarrow> cabi \<Rightarrow>
   (status \<times> u64 slot \<times> c_str slot \<times> cabi) option"
where
  "dagmldata_inmemory_provider_materialize_fitted_adapter_json env vtable json_ptr json_len out_handle error_out =
     answer (ce_messages env) error_out out_handle
       (call_bind
          (demand (user_data_of vtable \<noteq> None \<and> json_ptr \<noteq> None)
             ''provider vtable, user_data or json pointer is null'') (\<lambda>_.
        call_bind (borrow_state (user_data_of vtable)) (\<lambda>state.
        call_bind
          (demand (ps_fitted_adapter_store state \<noteq> None) ''provider has no fitted-adapter store attached'') (\<lambda>_.
        call_bind (borrow_store (ps_fitted_adapter_store state)) (\<lambda>st.
        call_bind (read_json (rd_fitted_request (ce_readers env)) json_ptr json_len) (\<lambda>request.
        call_bind (of_res (fitted_materialize request st)) (\<lambda>handle.
          call_return (written handle out_handle))))))))"

end
