(* ===== verification/C_Providers.thy ===== *)
theory C_Providers
  imports C_Stores Json_Provider
begin

text \<open>
  The constructors of in-memory providers in \<open>dag-ml-data-capi/src/lib.rs\<close>, the callbacks of their vtable, and
  the entry points that read a provider. Host callbacks of a buffer fetcher are a parameter.
\<close>

section \<open>Tables and matrices\<close>

definition target_tables_by_id :: "target_table list \<Rightarrow> (target_id, target_table) btree_map res" where
  "target_tables_by_id =
     fold_res
       (\<lambda>by_target table.
          rseq (target_table_validate table)
            (if map_of by_target (tt_target_id table) \<noteq> None then invalid ''duplicate target table''
             else Inr (bt_insert (tt_target_id table) table by_target)))
       []"

text \<open>A JSON array that may be absent: null with length zero, or any pointer with length zero.\<close>

definition optional_array ::
  "'a slice_reader \<Rightarrow> ('a \<Rightarrow> ('k \<times> 'v) list res) \<Rightarrow> string \<Rightarrow> u8 host_ptr \<Rightarrow> usize \<Rightarrow> ('k \<times> 'v) list call"
where
  "optional_array from_slice collect message p len =
     (if p = None then (if len \<noteq> 0 then refuse (BadArgument message) else call_return [])
      else if len = 0 then call_return []
      else call_bind (read_json from_slice p len) (\<lambda>xs. of_res (collect xs)))"

definition c_target_tables :: "c_env \<Rightarrow> u8 host_ptr \<Rightarrow> usize \<Rightarrow> (target_id, target_table) btree_map call" where
  "c_target_tables env =
     optional_array (rd_target_tables (ce_readers env)) target_tables_by_id
       ''target tables pointer is null but length is non-zero''"

definition c_feature_tables :: "c_env \<Rightarrow> u8 host_ptr \<Rightarrow> usize \<Rightarrow> buffer_store call" where
  "c_feature_tables env =
     optional_array (rd_feature_tables (ce_readers env)) (store_from_feature_tables (ce_number_f64 env))
       ''feature tables pointer is null but length is non-zero''"

definition c_f64_matrices :: "c_env \<Rightarrow> u8 host_ptr \<Rightarrow> usize \<Rightarrow> buffer_store call" where
  "c_f64_matrices env =
     optional_array (rd_f64_matrices (ce_readers env)) store_from_f64_matrices
       ''f64 feature matrices pointer is null but length is non-zero''"

section \<open>Construction\<close>

definition provider_state_new_with_tensors ::
  "external \<Rightarrow> envelope \<Rightarrow> (target_id, target_table) btree_map \<Rightarrow> buffer_store \<Rightarrow> nd_store \<Rightarrow> provider_state res"
where
  "provider_state_new_with_tensors ex e target_tables feature_store nd_tensor_store =
     rbind (provider_new_with_tensors ex e target_tables feature_store nd_tensor_store) (\<lambda>p.
       Inr \<lparr>ps_provider = p, ps_fitted_adapter_store = None\<rparr>)"

definition provider_state_new ::
  "external \<Rightarrow> envelope \<Rightarrow> (target_id, target_table) btree_map \<Rightarrow> buffer_store \<Rightarrow> provider_state res"
where
  "provider_state_new ex e target_tables feature_store =
     rbind (provider_new ex e target_tables feature_store) (\<lambda>p.
       Inr \<lparr>ps_provider = p, ps_fitted_adapter_store = None\<rparr>)"

definition publish_provider :: "provider_state \<Rightarrow> vtable slot call" where
  "publish_provider state s =
     (let (a, h) = new_private state (cb_hosted s) in
      Some (Inr (Some (provider_vtable a)), s\<lparr>cb_hosted := h\<rparr>))"

text \<open>
  What the constructors share: the checks of the pointers, of which \<open>more\<close> are the constructor's own, the
  envelope, the target tables, what the constructor reads besides, and the provider.
\<close>

definition new_provider_entry ::
  "c_env \<Rightarrow> u8 host_ptr \<Rightarrow> usize \<Rightarrow> u8 host_ptr \<Rightarrow> usize \<Rightarrow> unit call \<Rightarrow> 'f call \<Rightarrow>
   (envelope \<Rightarrow> (target_id, target_table) btree_map \<Rightarrow> 'f \<Rightarrow> provider_state res) \<Rightarrow> vtable slot \<Rightarrow> c_str slot \<Rightarrow>
   cabi \<Rightarrow> (status \<times> vtable slot \<times> c_str slot \<times> cabi) option"
where
  "new_provider_entry env envelope_ptr envelope_len target_tables_ptr target_tables_len own_checks own_data build
     out_vtable error_out =
     answer (ce_messages env) error_out (cleared empty_vtable out_vtable)
       (call_bind (demand (envelope_ptr \<noteq> None) ''envelope pointer is null'') (\<lambda>_.
        call_bind (demand (out_vtable \<noteq> None) ''vtable output pointer is null'') (\<lambda>_.
        call_bind own_checks (\<lambda>_.
        call_bind (read_json (rd_envelope (ce_readers env)) envelope_ptr envelope_len) (\<lambda>e.
        call_bind (c_target_tables env target_tables_ptr target_tables_len) (\<lambda>target_tables.
        call_bind own_data (\<lambda>d.
        call_bind (of_res (build e target_tables d)) publish_provider)))))))"

definition dagmldata_inmemory_provider_new_json ::
  "c_env \<Rightarrow> u8 host_ptr \<Rightarrow> usize \<Rightarrow> u8 host_ptr \<Rightarrow> usize \<Rightarrow> vtable slot \<Rightarrow> c_str slot \<Rightarrow> cabi \<Rightarrow>
   (status \<times> vtable slot \<times> c_str slot \<times> cabi) option"
where
  "dagmldata_inmemory_provider_new_json env envelope_ptr envelope_len target_tables_ptr target_tables_len =
     new_provider_entry env envelope_ptr envelope_len target_tables_ptr target_tables_len (call_return ())
       (call_return []) (provider_state_new (ce_external env))"

definition dagmldata_inmemory_provider_new_with_features_json ::
  "c_env \<Rightarrow> u8 host_ptr \<Rightarrow> usize \<Rightarrow> u8 host_ptr \<Rightarrow> usize \<Rightarrow> u8 host_ptr \<Rightarrow> usize \<Rightarrow> vtable slot \<Rightarrow> c_str slot \<Rightarrow>
   cabi \<Rightarrow> (status \<times> vtable slot \<times> c_str slot \<times> cabi) option"
where
  "dagmldata_inmemory_provider_new_with_features_json env envelope_ptr envelope_len target_tables_ptr
     target_tables_len feature_tables_ptr feature_tables_len =
     new_provider_entry env envelope_ptr envelope_len target_tables_ptr target_tables_len (call_return ())
       (c_feature_tables env feature_tables_ptr feature_tables_len) (provider_state_new (ce_external env))"

definition dagmldata_inmemory_provider_new_with_f64_features_json ::
  "c_env \<Rightarrow> u8 host_ptr \<Rightarrow> usize \<Rightarrow> u8 host_ptr \<Rightarrow> usize \<Rightarrow> u8 host_ptr \<Rightarrow> usize \<Rightarrow> vtable slot \<Rightarrow> c_str slot \<Rightarrow>
   cabi \<Rightarrow> (status \<times> vtable slot \<times> c_str slot \<times> cabi) option"
where
  "dagmldata_inmemory_provider_new_with_f64_features_json env envelope_ptr envelope_len target_tables_ptr
     target_tables_len feature_matrices_ptr feature_matrices_len =
     new_provider_entry env envelope_ptr envelope_len target_tables_ptr target_tables_len (call_return ())
       (c_f64_matrices env feature_matrices_ptr feature_matrices_len) (provider_state_new (ce_external env))"

definition dagmldata_inmemory_provider_new_with_tensor_views ::
  "c_env \<Rightarrow> u8 host_ptr \<Rightarrow> usize \<Rightarrow> u8 host_ptr \<Rightarrow> usize \<Rightarrow> tensor_view host_ptr \<Rightarrow> usize \<Rightarrow> vtable slot \<Rightarrow>
   c_str slot \<Rightarrow> cabi \<Rightarrow> (status \<times> vtable slot \<times> c_str slot \<times> cabi) option"
where
  "dagmldata_inmemory_provider_new_with_tensor_views env envelope_ptr envelope_len target_tables_ptr
     target_tables_len tensor_views_ptr tensor_views_len =
     new_provider_entry env envelope_ptr envelope_len target_tables_ptr target_tables_len (call_return ())
       (of_res (parse_borrowed_tensor_views tensor_views_ptr tensor_views_len))
       (\<lambda>e target_tables. provider_state_new_with_tensors (ce_external env) e target_tables [])"

definition dagmldata_inmemory_provider_new_with_f64_feature_views ::
  "c_env \<Rightarrow> u8 host_ptr \<Rightarrow> usize \<Rightarrow> u8 host_ptr \<Rightarrow> usize \<Rightarrow> matrix_view host_ptr \<Rightarrow> usize \<Rightarrow> vtable slot \<Rightarrow>
   c_str slot \<Rightarrow> cabi \<Rightarrow> (status \<times> vtable slot \<times> c_str slot \<times> cabi) option"
where
  "dagmldata_inmemory_provider_new_with_f64_feature_views env envelope_ptr envelope_len target_tables_ptr
     target_tables_len feature_matrices_ptr feature_matrices_len =
     new_provider_entry env envelope_ptr envelope_len target_tables_ptr target_tables_len (call_return ())
       (of_res (parse_f64_feature_matrix_views feature_matrices_ptr feature_matrices_len))
       (provider_state_new (ce_external env))"

definition dagmldata_inmemory_provider_new_with_f64_feature_columns ::
  "c_env \<Rightarrow> u8 host_ptr \<Rightarrow> usize \<Rightarrow> u8 host_ptr \<Rightarrow> usize \<Rightarrow> columnar_view host_ptr \<Rightarrow> usize \<Rightarrow> vtable slot \<Rightarrow>
   c_str slot \<Rightarrow> cabi \<Rightarrow> (status \<times> vtable slot \<times> c_str slot \<times> cabi) option"
where
  "dagmldata_inmemory_provider_new_with_f64_feature_columns env envelope_ptr envelope_len target_tables_ptr
     target_tables_len feature_matrices_ptr feature_matrices_len =
     new_provider_entry env envelope_ptr envelope_len target_tables_ptr target_tables_len (call_return ())
       (of_res (parse_f64_feature_matrix_columnar_views feature_matrices_ptr feature_matrices_len))
       (provider_state_new (ce_external env))"

text \<open>The file system is read, never written.\<close>

definition stored_features :: "c_env \<Rightarrow> file_system \<Rightarrow> u8 host_ptr \<Rightarrow> usize \<Rightarrow> buffer_store call" where
  "stored_features env fs path_ptr path_len =
     call_bind (of_res (raw_slice path_ptr path_len)) (\<lambda>path_bytes.
       if \<not> utf8_valid path_bytes then refuse (BadText ''buffer-store path is not valid utf-8'')
       else
         of_res
           (read_store_from_path (ce_can_reserve env) (ex_sha256 (ce_external env)) (string_of_bytes path_bytes) fs))"

definition dagmldata_inmemory_provider_new_from_file ::
  "c_env \<Rightarrow> file_system \<Rightarrow> u8 host_ptr \<Rightarrow> usize \<Rightarrow> u8 host_ptr \<Rightarrow> usize \<Rightarrow> u8 host_ptr \<Rightarrow> usize \<Rightarrow> vtable slot \<Rightarrow>
   c_str slot \<Rightarrow> cabi \<Rightarrow> (status \<times> vtable slot \<times> c_str slot \<times> cabi) option"
where
  "dagmldata_inmemory_provider_new_from_file env fs envelope_ptr envelope_len target_tables_ptr target_tables_len
     path_ptr path_len =
     new_provider_entry env envelope_ptr envelope_len target_tables_ptr target_tables_len
       (demand (path_ptr \<noteq> None) ''buffer-store path pointer is null'')
       (stored_features env fs path_ptr path_len) (provider_state_new (ce_external env))"

definition ipc_features :: "c_env \<Rightarrow> file_system \<Rightarrow> u8 host_ptr \<Rightarrow> usize \<Rightarrow> buffer_store call" where
  "ipc_features env fs path_ptr path_len =
     call_bind (of_res (raw_slice path_ptr path_len)) (\<lambda>path_bytes.
       if \<not> utf8_valid path_bytes then refuse (BadText ''arrow IPC path is not valid utf-8'')
       else of_res (read_buffers_from_ipc_path (ce_ipc_file env) (string_of_bytes path_bytes) fs))"

definition dagmldata_inmemory_provider_new_from_arrow_ipc ::
  "c_env \<Rightarrow> file_system \<Rightarrow> u8 host_ptr \<Rightarrow> usize \<Rightarrow> u8 host_ptr \<Rightarrow> usize \<Rightarrow> u8 host_ptr \<Rightarrow> usize \<Rightarrow> vtable slot \<Rightarrow>
   c_str slot \<Rightarrow> cabi \<Rightarrow> (status \<times> vtable slot \<times> c_str slot \<times> cabi) option"
where
  "dagmldata_inmemory_provider_new_from_arrow_ipc env fs envelope_ptr envelope_len target_tables_ptr
     target_tables_len path_ptr path_len =
     new_provider_entry env envelope_ptr envelope_len target_tables_ptr target_tables_len
       (demand (path_ptr \<noteq> None) ''arrow IPC path pointer is null'')
       (ipc_features env fs path_ptr path_len) (provider_state_new (ce_external env))"

section \<open>Buffer fetchers\<close>

record fetch_reply =
  fr_status :: status
  fr_view :: columnar_view
  fr_error :: c_str

text \<open>A callback may answer by what was called before.\<close>

record fetcher =
  fv_abi_version :: u32
  fv_fetch_columnar :: "(host_call list \<Rightarrow> bytes_view \<Rightarrow> bytes_view \<Rightarrow> fetch_reply) option"
  fv_destroy :: bool

record fetch_request =
  fq_feature_set_id :: bytes_view
  fq_content_fingerprint :: bytes_view

definition buffer_fetcher_abi_version :: u32 where
  "buffer_fetcher_abi_version = 1"

text \<open>
  The message of a callback is copied and its string freed, which is defined for a string of this library
  only; a non-null string of length zero is not freed.
\<close>

definition consume_string_message :: "c_str \<Rightarrow> string call" where
  "consume_string_message v s =
     (if cs_ptr v = None \<or> cs_len v = 0 then Some (Inr ''<empty>'', s)
      else
        Option.bind (Option.bind (cs_ptr v) (bx_objects (cb_heap s))) (\<lambda>text.
          if length text < cs_len v then None
          else map_option (\<lambda>h. (Inr (take (cs_len v) text), s\<lparr>cb_heap := h\<rparr>)) (string_free v (cb_heap s))))"

definition destroy_fetcher :: "fetcher \<Rightarrow> cabi \<Rightarrow> cabi" where
  "destroy_fetcher f s =
     (if fv_destroy f then s\<lparr>cb_host_calls := cb_host_calls s @ [DestroyCalled]\<rparr> else s)"

definition fetch_one ::
  "(host_call list \<Rightarrow> bytes_view \<Rightarrow> bytes_view \<Rightarrow> fetch_reply) \<Rightarrow> fetch_request \<Rightarrow> f64_columnar call"
where
  "fetch_one fetch q s =
     (let reply = fetch (cb_host_calls s) (fq_feature_set_id q) (fq_content_fingerprint q);
          called = FetchCalled (fq_feature_set_id q) (fq_content_fingerprint q) in
      call_bind (consume_string_message (fr_error reply)) (\<lambda>message.
        if fr_status reply \<noteq> StatusOk then refuse (BadText (''fetcher rejected request: '' @ message))
        else
          (case f64_feature_matrix_columnar_view_to_core (fr_view reply) of
             Inr matrix \<Rightarrow> call_return matrix
           | Inl e \<Rightarrow>
               if crashes e then (\<lambda>_. None)
               else refuse (BadText ''fetcher returned invalid matrix for request'')))
        (s\<lparr>cb_host_calls := cb_host_calls s @ [called]\<rparr>))"

fun fetch_all ::
  "(host_call list \<Rightarrow> bytes_view \<Rightarrow> bytes_view \<Rightarrow> fetch_reply) \<Rightarrow> fetch_request list \<Rightarrow> f64_columnar list call"
where
  "fetch_all fetch [] = call_return []"
| "fetch_all fetch (q # qs) =
     call_bind (fetch_one fetch q) (\<lambda>matrix.
     call_bind (fetch_all fetch qs) (\<lambda>matrices. call_return (matrix # matrices)))"

text \<open>Everything up to the loop, after which the fetcher is destroyed on every path.\<close>

definition fetch_phase ::
  "c_env \<Rightarrow> u8 host_ptr \<Rightarrow> usize \<Rightarrow> u8 host_ptr \<Rightarrow> usize \<Rightarrow> fetcher \<Rightarrow> fetch_request host_ptr \<Rightarrow> usize \<Rightarrow>
   vtable slot \<Rightarrow> (envelope \<times> (target_id, target_table) btree_map \<times> f64_columnar list) call"
where
  "fetch_phase env envelope_ptr envelope_len target_tables_ptr target_tables_len f requests_ptr requests_len
     out_vtable =
     call_bind (demand (out_vtable \<noteq> None) ''vtable output pointer is null'') (\<lambda>_.
     call_bind (demand (envelope_ptr \<noteq> None) ''envelope pointer is null'') (\<lambda>_.
     call_bind (demand (fv_abi_version f = buffer_fetcher_abi_version) ''fetcher vtable abi_version'') (\<lambda>_.
       (case fv_fetch_columnar f of
          None \<Rightarrow> refuse (BadArgument ''fetcher vtable fetch_columnar callback is null'')
        | Some fetch \<Rightarrow>
            call_bind
              (demand (\<not> (requests_ptr = None \<and> requests_len \<noteq> 0))
                 ''fetch requests pointer is null but length is non-zero'') (\<lambda>_.
            call_bind (read_json (rd_envelope (ce_readers env)) envelope_ptr envelope_len) (\<lambda>e.
            call_bind (c_target_tables env target_tables_ptr target_tables_len) (\<lambda>target_tables.
            call_bind (of_res (if requests_len = 0 then Inr [] else raw_slice requests_ptr requests_len)) (\<lambda>qs.
            call_bind (fetch_all fetch qs) (\<lambda>matrices. call_return (e, target_tables, matrices))))))))))"

definition and_destroy :: "fetcher \<Rightarrow> 'a call \<Rightarrow> 'a call" where
  "and_destroy f body s = map_option (map_prod id (destroy_fetcher f)) (body s)"

definition dagmldata_inmemory_provider_new_with_buffer_fetcher ::
  "c_env \<Rightarrow> u8 host_ptr \<Rightarrow> usize \<Rightarrow> u8 host_ptr \<Rightarrow> usize \<Rightarrow> fetcher \<Rightarrow> fetch_request host_ptr \<Rightarrow> usize \<Rightarrow>
   vtable slot \<Rightarrow> c_str slot \<Rightarrow> cabi \<Rightarrow> (status \<times> vtable slot \<times> c_str slot \<times> cabi) option"
where
  "dagmldata_inmemory_provider_new_with_buffer_fetcher env envelope_ptr envelope_len target_tables_ptr
     target_tables_len f requests_ptr requests_len out_vtable error_out =
     answer (ce_messages env) error_out (cleared empty_vtable out_vtable)
       (call_bind
          (and_destroy f
             (fetch_phase env envelope_ptr envelope_len target_tables_ptr target_tables_len f requests_ptr
                requests_len out_vtable)) (\<lambda>(e, target_tables, matrices).
        call_bind (of_res (store_from_f64_column_matrices matrices)) (\<lambda>feature_store.
        call_bind (of_res (provider_state_new (ce_external env) e target_tables feature_store)) publish_provider)))"

end
