(* ===== verification/C_Vtable.thy ===== *)
theory C_Vtable
  imports C_Providers
begin

text \<open>
  The callbacks behind a provider vtable, its destruction, and the entry points of
  \<open>dag-ml-data-capi/src/lib.rs\<close> that read a provider: manifests, bindings, tensors and collations.
\<close>

section \<open>Callbacks\<close>

text \<open>One operation on the provider behind a live pointer; what it leaves behind is kept.\<close>

definition on_provider :: "addr option \<Rightarrow> (provider \<Rightarrow> 'a res \<times> provider) \<Rightarrow> 'a call" where
  "on_provider user_data f =
     call_bind (borrow_state user_data) (\<lambda>state.
       (let (result, p) = f (ps_provider state) in
        call_bind (keep_state user_data (state\<lparr>ps_provider := p\<rparr>)) (\<lambda>_. of_res result)))"

definition read_provider :: "addr option \<Rightarrow> (provider \<Rightarrow> 'a res) \<Rightarrow> 'a call" where
  "read_provider user_data f = call_bind (borrow_state user_data) (\<lambda>state. of_res (f (ps_provider state)))"

definition provider_materialize_c ::
  "c_env \<Rightarrow> addr option \<Rightarrow> bytes_view \<Rightarrow> u64 slot \<Rightarrow> cabi \<Rightarrow> (status \<times> u64 slot \<times> cabi) option"
where
  "provider_materialize_c env user_data request_json out_handle =
     (if user_data = None \<or> out_handle = None \<or> bv_ptr request_json = None
      then answer_silently (ce_messages env) out_handle
        (refuse (BadArgument ''provider materialize: user_data, out_handle or request json is null''))
      else answer_silently (ce_messages env) (Some 0)
        (call_bind (borrow_state user_data) (\<lambda>_.
         call_bind (read_json (rd_materialization (ce_readers env)) (bv_ptr request_json) (bv_len request_json))
           (\<lambda>q.
         call_bind (on_provider user_data (provider_materialize (ce_external env) q)) (\<lambda>record.
           call_return (Some (hr_handle (dh_handle record))))))))"

definition provider_make_view_c ::
  "c_env \<Rightarrow> addr option \<Rightarrow> u64 \<Rightarrow> bytes_view \<Rightarrow> u64 slot \<Rightarrow> cabi \<Rightarrow> (status \<times> u64 slot \<times> cabi) option"
where
  "provider_make_view_c env user_data data selector_json out_view =
     (if user_data = None \<or> out_view = None \<or> bv_ptr selector_json = None
      then answer_silently (ce_messages env) out_view
        (refuse (BadArgument ''provider make_view: user_data, out_view or selector json is null''))
      else answer_silently (ce_messages env) (Some 0)
        (call_bind (borrow_state user_data) (\<lambda>_.
         call_bind (read_json (rd_view (ce_readers env)) (bv_ptr selector_json) (bv_len selector_json)) (\<lambda>v.
         call_bind (on_provider user_data (provider_make_view (ce_external env) data v)) (\<lambda>record.
           call_return (Some (hr_handle (vh_handle record))))))))"

definition provider_view_identity_c ::
  "c_env \<Rightarrow> addr option \<Rightarrow> u64 \<Rightarrow> arrow_out \<Rightarrow> cabi \<Rightarrow> (status \<times> arrow_out \<times> cabi) option"
where
  "provider_view_identity_c env user_data view out =
     answer_silently (ce_messages env) (cleared_arrow out)
       (call_bind
          (demand (user_data \<noteq> None \<and> arrow_outputs_given out)
             ''provider view_identity: user_data or arrow out pointers are null'') (\<lambda>_.
        call_bind (read_provider user_data (\<lambda>p. provider_view_identity p view)) (\<lambda>relations.
          publish_table (build_identity_relations_arrow (ce_relation_json env) relations))))"

definition provider_target_arrow_c ::
  "c_env \<Rightarrow> addr option \<Rightarrow> u64 \<Rightarrow> bytes_view \<Rightarrow> arrow_out \<Rightarrow> cabi \<Rightarrow> (status \<times> arrow_out \<times> cabi) option"
where
  "provider_target_arrow_c env user_data view target_name out =
     answer_silently (ce_messages env) (cleared_arrow out)
       (call_bind
          (demand (user_data \<noteq> None \<and> bv_ptr target_name \<noteq> None \<and> arrow_outputs_given out)
             ''provider target_arrow: user_data, target_name or arrow out pointers are null'') (\<lambda>_.
        call_bind (borrow_state user_data) (\<lambda>_.
        call_bind (of_res (raw_slice (bv_ptr target_name) (bv_len target_name))) (\<lambda>bytes.
          if \<not> utf8_valid bytes then refuse (BadText ''provider target_arrow: target_name is not valid UTF-8'')
          else
        call_bind (of_res (ident_new (string_of_bytes bytes))) (\<lambda>target_id.
        call_bind (read_provider user_data (\<lambda>p. provider_target_block p view target_id)) (\<lambda>target.
          publish_table (build_target_arrow (ce_number_f64 env) target)))))))"

text \<open>\<open>trim_start().starts_with('{')\<close>\<close>

definition starts_with_brace :: "string \<Rightarrow> bool" where
  "starts_with_brace s =
     (case dropWhile is_blank (utf8_groups s) of [] \<Rightarrow> False | g # _ \<Rightarrow> g = ''{'')"

definition fusion_selector_from_str :: "c_env \<Rightarrow> string \<Rightarrow> fusion_selector res" where
  "fusion_selector_from_str env s =
     (case rd_fusion_selector (ce_readers env) s of
        Inl msg \<Rightarrow> Inl (Serialization msg)
      | Inr selector \<Rightarrow> Inr selector)"

definition provider_feature_arrow_c ::
  "c_env \<Rightarrow> addr option \<Rightarrow> u64 \<Rightarrow> bytes_view \<Rightarrow> arrow_out \<Rightarrow> cabi \<Rightarrow> (status \<times> arrow_out \<times> cabi) option"
where
  "provider_feature_arrow_c env user_data view feature_set_name out =
     answer_silently (ce_messages env) (cleared_arrow out)
       (call_bind
          (demand (user_data \<noteq> None \<and> bv_ptr feature_set_name \<noteq> None \<and> arrow_outputs_given out)
             ''provider feature_arrow: user_data, feature_set_name or arrow out pointers are null'') (\<lambda>_.
        call_bind (borrow_state user_data) (\<lambda>_.
        call_bind (of_res (raw_slice (bv_ptr feature_set_name) (bv_len feature_set_name))) (\<lambda>bytes.
          if \<not> utf8_valid bytes
          then refuse (BadText ''provider feature_arrow: feature_set_name is not valid UTF-8'')
          else
            (let name = string_of_bytes bytes in
             if starts_with_brace name
             then
               call_bind (of_res (fusion_selector_from_str env name)) (\<lambda>selector.
               call_bind
                 (read_provider user_data (\<lambda>p. feature_fusion_block (ce_json_f64 env) (\<lambda>_. p) view selector))
                 (\<lambda>features. publish_table (build_feature_arrow (ce_number_f64 env) features)))
             else if is_blank name
             then refuse (BadText ''provider feature_arrow: feature_set_name is empty'')
             else
               call_bind (read_provider user_data (\<lambda>p. provider_feature_block (ce_json_f64 env) p view name))
                 (\<lambda>features. publish_table (build_feature_arrow (ce_number_f64 env) features)))))))"

definition provider_release_c :: "addr option \<Rightarrow> u64 \<Rightarrow> cabi \<Rightarrow> cabi option" where
  "provider_release_c user_data handle s =
     (if user_data = None then Some s
      else map_option snd
        (on_provider user_data (\<lambda>p. (let (_, p) = provider_release handle p in (Inr (), p))) s))"

definition provider_destroy_c :: "addr option \<Rightarrow> cabi \<Rightarrow> cabi option" where
  "provider_destroy_c user_data s =
     (case user_data of
        None \<Rightarrow> Some s
      | Some a \<Rightarrow> map_option (\<lambda>h. s\<lparr>cb_hosted := h\<rparr>) (drop_private a (cb_hosted s)))"

text \<open>\<open>vtable\<close> points to a cell of the host, which is emptied.\<close>

definition dagmldata_inmemory_provider_destroy :: "vtable slot \<Rightarrow> cabi \<Rightarrow> (vtable slot \<times> cabi) option" where
  "dagmldata_inmemory_provider_destroy vtable s =
     (case vtable of
        None \<Rightarrow> Some (None, s)
      | Some v \<Rightarrow>
          map_option (\<lambda>s. (Some empty_vtable, s))
            (if vt_destroy v = None then Some s else provider_destroy_c (vt_user_data v) s))"

section \<open>Reading a provider\<close>

text \<open>The four exports of manifests and bindings as JSON.\<close>

definition provider_json_entry ::
  "c_env \<Rightarrow> 'a json_writer \<Rightarrow> (provider \<Rightarrow> 'a res) \<Rightarrow> vtable option \<Rightarrow> c_str slot \<Rightarrow> c_str slot \<Rightarrow> cabi \<Rightarrow>
   (status \<times> c_str slot \<times> c_str slot \<times> cabi) option"
where
  "provider_json_entry env to_string f vtable out_json error_out =
     (let out_json = cleared default_string out_json in
      answer (ce_messages env) error_out out_json
       (call_bind (demand (user_data_of vtable \<noteq> None) ''provider vtable or user_data is null'') (\<lambda>_.
        call_bind (read_provider (user_data_of vtable) (\<lambda>p. rbind (f p) (write_json to_string)))
          (publish_string out_json))))"

definition dagmldata_inmemory_provider_feature_buffer_manifest_json ::
  "c_env \<Rightarrow> vtable option \<Rightarrow> c_str slot \<Rightarrow> c_str slot \<Rightarrow> cabi \<Rightarrow> (status \<times> c_str slot \<times> c_str slot \<times> cabi) option"
where
  "dagmldata_inmemory_provider_feature_buffer_manifest_json env =
     provider_json_entry env (wr_manifests (ce_writers env)) (provider_buffer_manifests (ex_sha256 (ce_external env)))"

definition dagmldata_inmemory_provider_data_feature_buffer_manifest_json ::
  "c_env \<Rightarrow> vtable option \<Rightarrow> u64 \<Rightarrow> c_str slot \<Rightarrow> c_str slot \<Rightarrow> cabi \<Rightarrow>
   (status \<times> c_str slot \<times> c_str slot \<times> cabi) option"
where
  "dagmldata_inmemory_provider_data_feature_buffer_manifest_json env vtable data_handle =
     provider_json_entry env (wr_bindings (ce_writers env)) (\<lambda>p. data_feature_buffer_bindings p data_handle) vtable"

definition dagmldata_inmemory_provider_nd_tensor_manifest_json ::
  "c_env \<Rightarrow> vtable option \<Rightarrow> c_str slot \<Rightarrow> c_str slot \<Rightarrow> cabi \<Rightarrow> (status \<times> c_str slot \<times> c_str slot \<times> cabi) option"
where
  "dagmldata_inmemory_provider_nd_tensor_manifest_json env =
     provider_json_entry env (wr_nd_manifests (ce_writers env)) (provider_nd_manifests (ex_sha256 (ce_external env)))"

definition dagmldata_inmemory_provider_data_nd_tensor_manifest_json ::
  "c_env \<Rightarrow> vtable option \<Rightarrow> u64 \<Rightarrow> c_str slot \<Rightarrow> c_str slot \<Rightarrow> cabi \<Rightarrow>
   (status \<times> c_str slot \<times> c_str slot \<times> cabi) option"
where
  "dagmldata_inmemory_provider_data_nd_tensor_manifest_json env vtable data_handle =
     provider_json_entry env (wr_nd_bindings (ce_writers env)) (\<lambda>p. data_nd_tensor_bindings p data_handle) vtable"

definition selected_source :: "nd_selector \<Rightarrow> source_id option res" where
  "selected_source selector =
     (case ns_source_id selector of None \<Rightarrow> Inr None | Some v \<Rightarrow> rbind (ident_new v) (\<lambda>i. Inr (Some i)))"

definition dagmldata_inmemory_provider_nd_tensor_export_json ::
  "c_env \<Rightarrow> vtable option \<Rightarrow> u64 \<Rightarrow> bytes_view \<Rightarrow> owned_tensor slot \<Rightarrow> c_str slot \<Rightarrow> cabi \<Rightarrow>
   (status \<times> owned_tensor slot \<times> c_str slot \<times> cabi) option"
where
  "dagmldata_inmemory_provider_nd_tensor_export_json env vtable view selector_json out_tensor error_out =
     answer (ce_messages env) error_out (cleared default_owned_tensor out_tensor)
       (call_bind
          (demand (user_data_of vtable \<noteq> None \<and> bv_ptr selector_json \<noteq> None \<and> out_tensor \<noteq> None)
             ''provider vtable, user_data, selector or out_tensor pointer is null'') (\<lambda>_.
        call_bind (borrow_state (user_data_of vtable)) (\<lambda>_.
        call_bind (read_json (rd_nd_selector (ce_readers env)) (bv_ptr selector_json) (bv_len selector_json))
          (\<lambda>selector.
        call_bind (of_res (selected_source selector)) (\<lambda>source_id.
        call_bind
          (read_provider (user_data_of vtable)
             (\<lambda>p. provider_nd_tensor_block p view (ns_tensor_id selector) source_id)) (\<lambda>block.
        call_bind (allocating (owned_tensor_from_block block)) (\<lambda>c. call_return (Some c))))))))"

text \<open>The three collations share the block and the tensor, and differ in how they hand the tensor over.\<close>

definition provider_collation_entry ::
  "c_env \<Rightarrow> string \<Rightarrow> bool \<Rightarrow> (numeric_tensor_block \<Rightarrow> 'o call) \<Rightarrow> vtable option \<Rightarrow> u64 \<Rightarrow> bytes_view \<Rightarrow> 'o \<Rightarrow>
   c_str slot \<Rightarrow> cabi \<Rightarrow> (status \<times> 'o \<times> c_str slot \<times> cabi) option"
where
  "provider_collation_entry env message out_given publish vtable view selector_json idle error_out =
     answer (ce_messages env) error_out idle
       (call_bind
          (demand (user_data_of vtable \<noteq> None \<and> bv_ptr selector_json \<noteq> None \<and> out_given) message) (\<lambda>_.
        call_bind (borrow_state (user_data_of vtable)) (\<lambda>_.
        call_bind (read_json (rd_collation_request (ce_readers env)) (bv_ptr selector_json) (bv_len selector_json))
          (\<lambda>request.
        call_bind
          (read_provider (user_data_of vtable)
             (\<lambda>p. rbind (feature_collation_block (ce_json_f64 env) (\<lambda>_. p) view request)
                (\<lambda>block. collate_for_c env block (co_policy request)))) publish))))"

definition dagmldata_inmemory_provider_feature_collation_json ::
  "c_env \<Rightarrow> vtable option \<Rightarrow> u64 \<Rightarrow> bytes_view \<Rightarrow> c_str slot \<Rightarrow> c_str slot \<Rightarrow> cabi \<Rightarrow>
   (status \<times> c_str slot \<times> c_str slot \<times> cabi) option"
where
  "dagmldata_inmemory_provider_feature_collation_json env vtable view selector_json out_json =
     provider_collation_entry env ''provider vtable, user_data or selector pointer is null'' True
       (\<lambda>t. call_bind (of_res (write_json (wr_tensor_block (ce_writers env)) t))
          (publish_string (cleared default_string out_json)))
       vtable view selector_json (cleared default_string out_json)"

definition dagmldata_inmemory_provider_feature_collation_tensor_f64_json ::
  "c_env \<Rightarrow> vtable option \<Rightarrow> u64 \<Rightarrow> bytes_view \<Rightarrow> c_tensor slot \<Rightarrow> c_str slot \<Rightarrow> cabi \<Rightarrow>
   (status \<times> c_tensor slot \<times> c_str slot \<times> cabi) option"
where
  "dagmldata_inmemory_provider_feature_collation_tensor_f64_json env vtable view selector_json out_tensor =
     provider_collation_entry env ''provider vtable, user_data, selector pointer or tensor output is null''
       (out_tensor \<noteq> None) publish_tensor vtable view selector_json (cleared default_tensor out_tensor)"

definition dagmldata_inmemory_provider_feature_collation_tensor_f32_json ::
  "c_env \<Rightarrow> vtable option \<Rightarrow> u64 \<Rightarrow> bytes_view \<Rightarrow> c_tensor slot \<Rightarrow> c_str slot \<Rightarrow> cabi \<Rightarrow>
   (status \<times> c_tensor slot \<times> c_str slot \<times> cabi) option"
where
  "dagmldata_inmemory_provider_feature_collation_tensor_f32_json env vtable view selector_json out_tensor =
     provider_collation_entry env ''provider vtable, user_data, selector pointer or tensor output is null''
       (out_tensor \<noteq> None) publish_tensor_f32 vtable view selector_json (cleared default_tensor out_tensor)"

end
