(* ===== verification/C_Contract.thy ===== *)
theory C_Contract
  imports C_Vtable
begin

text \<open>
  What every entry point keeps, proved once for the parts they are made of: the last error changes only
  with a refusal, and what is allocated for the host is handed over, nothing else.
\<close>

section \<open>Parts that leave something alone\<close>

definition preserves :: "(cabi \<Rightarrow> 'x) \<Rightarrow> 'a call \<Rightarrow> bool" where
  "preserves view body \<longleftrightarrow> (\<forall>s r s'. body s = Some (r, s') \<longrightarrow> view s' = view s)"

named_theorems call_rules \<open>what the parts of an entry point preserve\<close>

lemma preservesD: "preserves view body \<Longrightarrow> body s = Some (r, s') \<Longrightarrow> view s' = view s"
  by (simp add: preserves_def)

lemma answered_eq: "answered (r, s) = Some (r', s') \<longleftrightarrow>
    s' = s \<and> (case r of Inl e \<Rightarrow> \<not> crashes e \<and> r' = Inl (BadData e) | Inr x \<Rightarrow> r' = Inr x)"
  by (auto simp: answered_def split: sum.split)

lemma call_bind_eq:
  "call_bind m f s = Some (r, s') \<longleftrightarrow>
     (\<exists>e. m s = Some (Inl e, s') \<and> r = Inl e) \<or> (\<exists>x s1. m s = Some (Inr x, s1) \<and> f x s1 = Some (r, s'))"
  by (auto simp: call_bind_def split: option.split sum.split)

lemma preserves_return [call_rules]: "preserves view (call_return x)"
  by (simp add: preserves_def call_return_def)

lemma preserves_refuse [call_rules]: "preserves view (refuse r)"
  by (simp add: preserves_def refuse_def)

lemma preserves_demand [call_rules]: "preserves view (demand ok message)"
  by (simp add: demand_def call_rules)

lemma preserves_of_res [call_rules]: "preserves view (of_res r)"
  by (simp add: preserves_def of_res_def answered_eq)

lemma preserves_bind [call_rules]:
  "preserves view m \<Longrightarrow> (\<And>x. preserves view (f x)) \<Longrightarrow> preserves view (call_bind m f)"
  unfolding preserves_def call_bind_eq by metis

lemma preserves_cases [call_rules]:
  "preserves view b \<Longrightarrow> preserves view c \<Longrightarrow> preserves view (if p then b else c)"
  "(\<And>x. preserves view (f x)) \<Longrightarrow> (\<And>y. preserves view (g y)) \<Longrightarrow> preserves view (case_sum f g z)"
  "preserves view b \<Longrightarrow> (\<And>y. preserves view (g y)) \<Longrightarrow> preserves view (case_option b g o')"
  "(\<And>x y. preserves view (k x y)) \<Longrightarrow> preserves view (case_prod k xy)"
  by (simp_all split: sum.split option.split prod.split)

lemma preserves_read_json [call_rules]: "preserves view (read_json from_slice p len)"
  unfolding read_json_def by (intro call_rules)

lemma preserves_borrow [call_rules]: "preserves view (borrow_store ptr)" "preserves view (borrow_state ptr)"
  by (auto simp: preserves_def borrow_store_def borrow_state_def)

lemma preserves_read_provider [call_rules]: "preserves view (read_provider user_data f)"
  unfolding read_provider_def by (intro call_rules)

lemma preserves_optional_array [call_rules]: "preserves view (optional_array from_slice collect message p len)"
  unfolding optional_array_def by (intro call_rules)

lemma preserves_tables [call_rules]:
  "preserves view (c_target_tables env p len)" "preserves view (c_feature_tables env p len)"
  "preserves view (c_f64_matrices env p len)" "preserves view (stored_features env fs p len)"
  "preserves view (ipc_features env fs p len)"
  unfolding c_target_tables_def c_feature_tables_def c_f64_matrices_def stored_features_def ipc_features_def
  by (intro call_rules)+

text \<open>The last error and the values of the host are untouched by everything but allocation.\<close>

abbreviation host_view :: "cabi \<Rightarrow> (string \<times> u32) option \<times> c_heap" where
  "host_view s \<equiv> (cb_last_error s, cb_heap s)"

lemma preserves_exporting [call_rules]: "preserves host_view (exporting m)"
  by (auto simp: preserves_def exporting_def answered_eq split: prod.splits)

lemma preserves_publish_table [call_rules]: "preserves host_view (publish_table m)"
  unfolding publish_table_def by (intro call_rules)

lemma preserves_keep [call_rules]:
  "preserves host_view (keep_store ptr store)" "preserves host_view (keep_state ptr state)"
  by (auto simp: preserves_def keep_store_def keep_state_def)

lemma preserves_on_provider [call_rules]: "preserves host_view (on_provider user_data f)"
  unfolding on_provider_def Let_def by (intro call_rules)

lemma preserves_publish_provider [call_rules]: "preserves host_view (publish_provider state)"
  by (auto simp: preserves_def publish_provider_def split: prod.splits)

section \<open>What a call hands over\<close>

definition text_out :: "c_str slot \<Rightarrow> c_item list" where
  "text_out out = (case out of None \<Rightarrow> [] | Some v \<Rightarrow> [TextItem v])"

definition tensor_out :: "c_tensor slot \<Rightarrow> c_item list" where
  "tensor_out out = (case out of None \<Rightarrow> [] | Some c \<Rightarrow> tensor_items c)"

definition owned_tensor_out :: "owned_tensor slot \<Rightarrow> c_item list" where
  "owned_tensor_out out = (case out of None \<Rightarrow> [] | Some c \<Rightarrow> owned_tensor_items c)"

abbreviation nothing_out :: "'o \<Rightarrow> c_item list" where
  "nothing_out \<equiv> \<lambda>_. []"

text \<open>
  From any heap on which the host holds some items, a body that succeeds leaves it holding those of the
  result as well; one that refuses leaves the heap alone.
\<close>

definition hands_over :: "('o \<Rightarrow> c_item list) \<Rightarrow> 'o call \<Rightarrow> bool" where
  "hands_over items body \<longleftrightarrow>
     preserves cb_last_error body \<and>
     (\<forall>s r s' h0 held. body s = Some (r, s') \<longrightarrow> handed h0 (cb_heap s) held \<longrightarrow>
        (case r of Inl _ \<Rightarrow> cb_heap s' = cb_heap s | Inr out \<Rightarrow> handed h0 (cb_heap s') (held @ items out)))"

lemma preserves_parts: "preserves host_view body \<longleftrightarrow> preserves cb_last_error body \<and> preserves cb_heap body"
  unfolding preserves_def by auto

lemma hands_over_nothing: "preserves host_view body \<Longrightarrow> hands_over nothing_out body"
  by (auto simp: hands_over_def preserves_parts preserves_def split: sum.split)

lemma hands_over_bind:
  assumes "preserves host_view m" and "\<And>x. hands_over items (f x)"
  shows "hands_over items (call_bind m f)"
  unfolding hands_over_def
proof (intro conjI allI impI)
  show "preserves cb_last_error (call_bind m f)"
    using assms by (intro preserves_bind) (simp_all add: preserves_parts hands_over_def)
next
  fix s r s' h0 held
  assume run: "call_bind m f s = Some (r, s')" and held: "handed h0 (cb_heap s) held"
  have m: "cb_heap s1 = cb_heap s" if "m s = Some (r1, s1)" for r1 s1
    using assms(1) that by (simp add: preserves_parts preserves_def)
  from run [unfolded call_bind_eq]
  show "case r of Inl _ \<Rightarrow> cb_heap s' = cb_heap s | Inr out \<Rightarrow> handed h0 (cb_heap s') (held @ items out)"
  proof (elim disjE exE conjE)
    fix x s1 assume x: "m s = Some (Inr x, s1)" "f x s1 = Some (r, s')"
    have "handed h0 (cb_heap s1) held" using held m [OF x(1)] by simp
    with assms(2) [of x] x(2) show ?thesis unfolding hands_over_def m [OF x(1), symmetric] by blast
  qed (use m in auto)
qed

lemma hands_over_string: "hands_over text_out (publish_string out v)"
proof -
  have "case r of Inl _ \<Rightarrow> cb_heap s' = cb_heap s | Inr out' \<Rightarrow> handed h0 (cb_heap s') (held @ text_out out')"
    if run: "publish_string out v s = Some (r, s')" and held: "handed h0 (cb_heap s) held" for s r s' h0 held
  proof (cases out)
    case None
    with run held show ?thesis by (auto simp: publish_string_def set_string_def text_out_def)
  next
    case (Some d)
    obtain c h where c: "owned_string v (cb_heap s) = (c, h)" by (cases "owned_string v (cb_heap s)")
    with run Some have "r = Inr (Some c)" "cb_heap s' = h" by (auto simp: publish_string_def set_string_def)
    with step_handed [OF string_step_ok [OF held c]] show ?thesis by (simp add: text_out_def)
  qed
  moreover have "preserves cb_last_error (publish_string out v)"
    by (auto simp: preserves_def publish_string_def set_string_def split: prod.splits if_splits)
  ultimately show ?thesis unfolding hands_over_def by blast
qed

lemma hands_over_allocated:
  assumes "\<And>h0 h held c h'. handed h0 h held \<Longrightarrow> alloc h = (c, h') \<Longrightarrow> handed h0 h' (held @ items (Some c))"
  shows "hands_over items (call_bind (allocating alloc) (\<lambda>c. call_return (Some c)))"
  unfolding hands_over_def
proof (intro conjI allI impI)
  show "preserves cb_last_error (call_bind (allocating alloc) (\<lambda>c. call_return (Some c)))"
    by (auto simp: preserves_def call_bind_eq allocating_def call_return_def split: prod.splits)
next
  fix s r s' h0 held
  assume run: "call_bind (allocating alloc) (\<lambda>c. call_return (Some c)) s = Some (r, s')"
    and held: "handed h0 (cb_heap s) held"
  obtain c h where c: "alloc (cb_heap s) = (c, h)" by (cases "alloc (cb_heap s)")
  with run have "r = Inr (Some c)" "cb_heap s' = h"
    by (auto simp: call_bind_eq allocating_def call_return_def)
  with assms [OF held c] show "case r of Inl _ \<Rightarrow> cb_heap s' = cb_heap s | Inr out \<Rightarrow> handed h0 (cb_heap s') (held @ items out)"
    by simp
qed

lemma hands_over_tensor: "hands_over tensor_out (publish_tensor t)"
  unfolding publish_tensor_def
  by (rule hands_over_allocated)
    (simp add: tensor_out_def tensor_handed [THEN conjunct2] tensor_to_c_def owned_f64_array_def)

lemma hands_over_owned_tensor:
  "hands_over owned_tensor_out (call_bind (allocating (owned_tensor_from_block b)) (\<lambda>c. call_return (Some c)))"
  by (rule hands_over_allocated) (simp add: owned_tensor_out_def owned_tensor_handed [THEN conjunct2])

lemma hands_over_tensor_f32: "hands_over tensor_out (publish_tensor_f32 t)"
proof (cases "map_res finite_f32 (nt_values t)")
  case (Inl e)
  have "preserves host_view (publish_tensor_f32 t)"
    using Inl by (auto simp: preserves_def publish_tensor_f32_def call_bind_eq allocating_def tensor_to_c_f32_def
        of_res_def answered_eq call_return_def)
  moreover have "publish_tensor_f32 t s = Some (r, s') \<Longrightarrow> \<exists>e. r = Inl e" for s r s'
    using Inl by (auto simp: publish_tensor_f32_def call_bind_eq allocating_def tensor_to_c_f32_def of_res_def answered_eq)
  ultimately show ?thesis
    by (fastforce simp: hands_over_def preserves_parts preserves_def)
next
  case (Inr vals)
  have "publish_tensor_f32 t = call_bind (allocating (tensor_with (owned_f32_array vals) t)) (\<lambda>c. call_return (Some c))"
    using Inr
    by (auto simp: fun_eq_iff publish_tensor_f32_def call_bind_def allocating_def tensor_to_c_f32_def of_res_def
        answered_def call_return_def split: prod.split)
  then show ?thesis
    by (simp only:) (rule hands_over_allocated, simp add: tensor_out_def tensor_handed [THEN conjunct2] owned_f32_array_def)
qed

text \<open>Output cells that hold nothing.\<close>

lemma holding_null:
  assumes "holding h0 h xs" and "\<forall>x\<in>set items. owns h x [] []"
  shows "holding h0 h (xs @ map (\<lambda>x. (x, [], [])) items)"
  using assms by (induction items rule: rev_induct) (simp_all add: holding_absent flip: append_assoc)

lemma handed_null: "handed h0 h held \<Longrightarrow> \<forall>x\<in>set items. owns h x [] [] \<Longrightarrow> handed h0 h (held @ items)"
  unfolding handed_def using holding_null by (fastforce simp: comp_def)

lemma idle_owns_nothing:
  "\<forall>x\<in>set (text_out (cleared default_string out)). owns h x [] []"
  "\<forall>x\<in>set (tensor_out (cleared default_tensor out_tensor)). owns h x [] []"
  "\<forall>x\<in>set (owned_tensor_out (cleared default_owned_tensor out_owned)). owns h x [] []"
  by (auto simp: text_out_def tensor_out_def owned_tensor_out_def cleared_def default_string_def default_tensor_def
      default_owned_tensor_def default_array_def tensor_items_def owned_tensor_items_def split: option.splits)

end
