(* ===== verification/C_Fetcher.thy ===== *)
theory C_Fetcher
  imports C_Contract
begin

text \<open>
  The callbacks of a buffer fetcher: in which order a constructor makes them, and that it destroys the fetcher
  exactly once on every path.
\<close>

section \<open>Calls back into the host\<close>

definition requested :: "fetch_request \<Rightarrow> host_call" where
  "requested q = FetchCalled (fq_feature_set_id q) (fq_content_fingerprint q)"

definition requests_of :: "fetch_request host_ptr \<Rightarrow> usize \<Rightarrow> fetch_request list" where
  "requests_of ptr len = (case ptr of None \<Rightarrow> [] | Some qs \<Rightarrow> take len qs)"

lemma calls_preserved [call_rules]:
  "preserves cb_host_calls (consume_string_message v)" "preserves cb_host_calls (publish_provider state)"
  by (auto simp: preserves_def consume_string_message_def publish_provider_def bind_eq_Some_conv
      split: if_splits prod.splits)

lemma fetch_one_calls:
  assumes "fetch_one fetch q s = Some (r, s')"
  shows "cb_host_calls s' = cb_host_calls s @ [requested q]"
proof -
  have crash: "preserves cb_host_calls (\<lambda>_. None)" by (simp add: preserves_def)
  let ?body = "\<lambda>reply. call_bind (consume_string_message (fr_error reply)) (\<lambda>message.
      if fr_status reply \<noteq> StatusOk then refuse (BadText (''fetcher rejected request: '' @ message))
      else case f64_feature_matrix_columnar_view_to_core (fr_view reply) of
        Inl e \<Rightarrow> if crashes e then (\<lambda>_. None) else refuse (BadText ''fetcher returned invalid matrix for request'')
      | Inr matrix \<Rightarrow> call_return matrix)"
  have "preserves cb_host_calls (?body reply)" for reply by (intro call_rules crash)
  from preservesD [OF this assms [unfolded fetch_one_def Let_def]] show ?thesis by (simp add: requested_def)
qed

lemma fetch_all_calls:
  "fetch_all fetch qs s = Some (r, s') \<Longrightarrow>
   \<exists>n. n \<le> length qs \<and> cb_host_calls s' = cb_host_calls s @ map requested (take n qs) \<and> ((\<exists>x. r = Inr x) \<longrightarrow> n = length qs)"
proof (induction qs arbitrary: s r)
  case Nil
  then show ?case by (simp add: call_return_def)
next
  case (Cons q qs)
  from Cons.prems consider e where "fetch_one fetch q s = Some (Inl e, s')" "r = Inl e"
    | x t r' where "fetch_one fetch q s = Some (Inr x, t)" "fetch_all fetch qs t = Some (r', s')"
        "(\<exists>y. r = Inr y) \<longrightarrow> (\<exists>y. r' = Inr y)"
    by (auto simp: call_bind_eq call_return_def)
  then show ?case
  proof cases
    case 1
    then show ?thesis using fetch_one_calls [OF 1(1)] by (intro exI [of _ 1]) simp
  next
    case 2
    from Cons.IH [OF 2(2)] obtain n where "n \<le> length qs" "cb_host_calls s' = cb_host_calls t @ map requested (take n qs)"
        "(\<exists>y. r' = Inr y) \<longrightarrow> n = length qs" by blast
    then show ?thesis using fetch_one_calls [OF 2(1)] 2(3) by (intro exI [of _ "Suc n"]) auto
  qed
qed

lemma calls_before:
  assumes "preserves cb_host_calls m" and "call_bind m f s = Some (r, s')"
    and "\<And>x t. m s = Some (Inr x, t) \<Longrightarrow> f x t = Some (r, s') \<Longrightarrow> cb_host_calls t = cb_host_calls s \<Longrightarrow> P"
    and "\<And>e. r = Inl e \<Longrightarrow> cb_host_calls s' = cb_host_calls s \<Longrightarrow> P"
  shows P
  using assms(2) preservesD [OF assms(1)] assms(3,4) unfolding call_bind_eq by metis

definition made_calls :: "fetch_request list \<Rightarrow> host_call list \<Rightarrow> bool \<Rightarrow> host_call list \<Rightarrow> bool" where
  "made_calls qs before finished calls \<longleftrightarrow>
     (\<exists>n\<le>length qs. calls = before @ map requested (take n qs) \<and> (finished \<longrightarrow> n = length qs))"

definition fetches :: "fetch_request list \<Rightarrow> 'a call \<Rightarrow> bool" where
  "fetches qs m \<longleftrightarrow> (\<forall>s r s'. m s = Some (r, s') \<longrightarrow> made_calls qs (cb_host_calls s) (\<exists>x. r = Inr x) (cb_host_calls s'))"

lemma fetches_bind:
  assumes "preserves cb_host_calls m" and "\<And>x. (\<exists>s t. m s = Some (Inr x, t)) \<Longrightarrow> fetches qs (f x)"
  shows "fetches qs (call_bind m f)"
  unfolding fetches_def
proof (intro allI impI)
  fix s r s' assume "call_bind m f s = Some (r, s')"
  then show "made_calls qs (cb_host_calls s) (\<exists>x. r = Inr x) (cb_host_calls s')"
  proof (rule calls_before [OF assms(1)])
    fix x t assume "m s = Some (Inr x, t)" "f x t = Some (r, s')" "cb_host_calls t = cb_host_calls s"
    with assms(2) [of x] show ?thesis unfolding fetches_def by metis
  qed (auto simp: made_calls_def)
qed

lemma fetches_phase: "fetches (requests_of rp rn) (fetch_phase env p n q k f rp rn vcell)"
proof (cases "fv_fetch_columnar f")
  case None
  have "fetches (requests_of rp rn) (refuse (BadArgument message) :: 'a call)" for message
    by (auto simp: fetches_def refuse_def made_calls_def)
  then show ?thesis unfolding fetch_phase_def None option.case by (intro fetches_bind call_rules)
next
  case (Some fetch)
  have loop: "fetches qs (call_bind (fetch_all fetch qs) (\<lambda>ms. call_return (g ms)))" for qs g
    by (auto simp: fetches_def made_calls_def call_bind_eq call_return_def dest!: fetch_all_calls)
  have qs: "qs = requests_of rp rn"
    if "of_res (if rn = 0 then Inr [] else raw_slice rp rn) s = Some (Inr qs, t)" for qs s t
    using that by (auto simp: of_res_def answered_eq requests_of_def raw_slice_def split: option.splits sum.splits if_splits)
  show ?thesis
    unfolding fetch_phase_def Some option.case
    by (intro fetches_bind [OF preserves_demand] fetches_bind [OF preserves_read_json] fetches_bind [OF preserves_tables(1)]
        fetches_bind [OF preserves_of_res], elim exE, drule qs, simp only: loop)
qed

text \<open>
  C6. The fetcher is destroyed exactly once, after the last fetch. Whatever a constructor with a buffer
  fetcher answers, it has asked for a prefix of the requests in their order, for all of them when it
  succeeds, and then destroyed the fetcher, with no call back into the host in between or after.
\<close>

theorem fetcher_destroyed_once:
  assumes "dagmldata_inmemory_provider_new_with_buffer_fetcher env p n q k f rp rn vcell e s = Some (st, out, err, s')"
  shows "\<exists>m\<le>length (requests_of rp rn).
    cb_host_calls s' = cb_host_calls s @ map requested (take m (requests_of rp rn)) @
      (if fv_destroy f then [DestroyCalled] else []) \<and>
    (st = StatusOk \<longrightarrow> m = length (requests_of rp rn))"
proof -
  let ?phase = "fetch_phase env p n q k f rp rn vcell" and ?after = "if fv_destroy f then [DestroyCalled] else []"
  let ?rest = "\<lambda>(envelope, target_tables, matrices).
      call_bind (of_res (store_from_f64_column_matrices matrices)) (\<lambda>feature_store.
      call_bind (of_res (provider_state_new (ce_external env) envelope target_tables feature_store)) publish_provider)"
  obtain r t where body: "call_bind (and_destroy f ?phase) ?rest s = Some (r, t)"
    using assms by (cases "call_bind (and_destroy f ?phase) ?rest s")
      (auto simp: dagmldata_inmemory_provider_new_with_buffer_fetcher_def answer_def)
  have report: "cb_host_calls (snd (report_refusal m out refusal u)) = cb_host_calls u" for m out refusal u
    by (cases refusal) (simp_all add: set_error_message_def set_display_error_def set_string_def store_last_error_def
        split: prod.split)
  have "refusal_status x \<noteq> StatusOk" for x by (cases x) simp_all
  then have same: "cb_host_calls s' = cb_host_calls t \<and> (st = StatusOk \<longrightarrow> (\<exists>x. r = Inr x))"
    using assms body report [of "ce_messages env" "cleared default_string e"]
    by (cases r) (auto simp: dagmldata_inmemory_provider_new_with_buffer_fetcher_def answer_def split: prod.splits,
      metis snd_conv)
  obtain r1 t1 where phase: "?phase s = Some (r1, t1)"
    using body by (cases "?phase s") (auto simp: call_bind_def and_destroy_def)
  have rest: "preserves cb_host_calls (?rest x)" for x by (cases x) (simp, intro call_rules)
  have destroyed: "cb_host_calls (destroy_fetcher f u) = cb_host_calls u @ ?after" for u by (simp add: destroy_fetcher_def)
  have run: "and_destroy f ?phase s = Some (r1, destroy_fetcher f t1)" using phase by (simp add: and_destroy_def)
  have calls: "cb_host_calls t = cb_host_calls t1 @ ?after \<and> ((\<exists>x. r = Inr x) \<longrightarrow> (\<exists>x. r1 = Inr x))"
  proof (cases r1)
    case (Inl err)
    then show ?thesis using body run destroyed [of t1] by (auto simp: call_bind_eq)
  next
    case (Inr x)
    then have "?rest x (destroy_fetcher f t1) = Some (r, t)" using body run by (simp add: call_bind_def)
    from preservesD [OF rest this] show ?thesis by (simp add: destroyed Inr del: split_paired_Ex)
  qed
  from fetches_phase [of rp rn env p n q k f vcell] phase
  have "made_calls (requests_of rp rn) (cb_host_calls s) (\<exists>x. r1 = Inr x) (cb_host_calls t1)" unfolding fetches_def by blast
  then show ?thesis using same calls by (auto simp: made_calls_def)
qed

end
