(* ===== verification/C_Session.thy ===== *)
theory C_Session
  imports C_Contract
begin

text \<open>
  Sessions of a host thread with the C ABI: any sequence of calls and of frees. The last error is that of the last
  refusal, and at every moment the host holds exactly what is allocated for it.
\<close>

section \<open>The end of an entry point\<close>

definition records_status :: "status \<Rightarrow> (string \<times> u32) option \<Rightarrow> (string \<times> u32) option \<Rightarrow> bool" where
  "records_status st l l' \<longleftrightarrow>
     (case st of
        StatusOk \<Rightarrow> l' = l
      | StatusPanic \<Rightarrow> False
      | _ \<Rightarrow> \<exists>payload number. l' = Some (payload, number) \<and> number \<noteq> 0 \<and>
          (st = InvalidArgument \<longrightarrow> number = argument_error_code))"

lemma record_refusal_records: "records_status (refusal_status r) l (cb_last_error (record_refusal m r s))"
  by (cases r)
    (auto simp: records_status_def record_arg_error_def record_data_error_def store_last_error_def
      argument_error_code_def error_code_nonzero)

lemma set_string_last_error: "cb_last_error (snd (set_string out v s)) = cb_last_error s"
  by (simp add: set_string_def split: prod.split)

lemma report_refusal_records: "records_status (refusal_status r) l (cb_last_error (snd (report_refusal m out r s)))"
  by (cases r)
    (auto simp: records_status_def set_error_message_def set_display_error_def set_string_last_error store_last_error_def
      argument_error_code_def error_code_nonzero)

lemma set_string_handed:
  assumes "handed h0 (cb_heap s) held"
  shows "handed h0 (cb_heap (snd (set_string out v s))) (held @ text_out (fst (set_string out v s)))"
proof -
  have "publish_string out v s = Some (Inr (fst (set_string out v s)), snd (set_string out v s))"
    by (simp add: publish_string_def split: prod.split)
  with hands_over_string [of out v] assms show ?thesis unfolding hands_over_def by fastforce
qed

lemma report_refusal_handed:
  assumes "handed h0 (cb_heap s) held"
  shows "handed h0 (cb_heap (snd (report_refusal m out r s))) (held @ text_out (fst (report_refusal m out r s)))"
  using assms
  by (cases r) (simp_all add: set_error_message_def set_display_error_def set_string_handed store_last_error_def)

lemma answer_contract:
  assumes "hands_over items body" and "\<And>h. \<forall>x\<in>set (items idle). owns h x [] []"
    and "answer m error_out idle body s = Some (st, out, err, s')"
  shows "handed h0 (cb_heap s) held \<Longrightarrow> handed h0 (cb_heap s') (held @ items out @ text_out err)"
    and "records_status st (cb_last_error s) (cb_last_error s')"
proof -
  obtain r s1 where run: "body s = Some (r, s1)"
    using assms(3) by (cases "body s") (auto simp: answer_def)
  have last: "cb_last_error s1 = cb_last_error s"
    using assms(1) run by (auto simp: hands_over_def preserves_def)
  let ?err = "cleared default_string error_out"
  have both: "(handed h0 (cb_heap s) held \<longrightarrow> handed h0 (cb_heap s') (held @ items out @ text_out err)) \<and>
      records_status st (cb_last_error s) (cb_last_error s')"
  proof (cases r)
    case (Inl e)
    let ?rep = "report_refusal m ?err e s1"
    have res: "st = refusal_status e" "out = idle" "err = fst ?rep" "s' = snd ?rep"
      using assms(3) run Inl by (auto simp: answer_def split: prod.splits)
    have "handed h0 (cb_heap s') (held @ items out @ text_out err)" if held: "handed h0 (cb_heap s) held"
    proof -
      have "cb_heap s1 = cb_heap s" using assms(1) run Inl held unfolding hands_over_def by fastforce
      then have "handed h0 (cb_heap s1) (held @ items idle)" using handed_null [OF held assms(2)] by simp
      from report_refusal_handed [OF this] show ?thesis by (simp add: res)
    qed
    with report_refusal_records show ?thesis by (simp add: res)
  next
    case (Inr x)
    have res: "st = StatusOk" "out = x" "err = ?err" "s' = s1"
      using assms(3) run Inr by (auto simp: answer_def)
    have "handed h0 (cb_heap s') (held @ items out @ text_out err)" if held: "handed h0 (cb_heap s) held"
    proof -
      have "handed h0 (cb_heap s1) (held @ items x)" using assms(1) run Inr held unfolding hands_over_def by fastforce
      from handed_null [OF this idle_owns_nothing(1)] show ?thesis by (simp add: res)
    qed
    with last show ?thesis by (simp add: res records_status_def)
  qed
  from both show "records_status st (cb_last_error s) (cb_last_error s')" by simp
  from both show "handed h0 (cb_heap s) held \<Longrightarrow> handed h0 (cb_heap s') (held @ items out @ text_out err)" by simp
qed

lemma silent_contract:
  assumes "preserves host_view body" and "answer_silently m idle body s = Some (st, out, s')"
  shows "cb_heap s' = cb_heap s" and "records_status st (cb_last_error s) (cb_last_error s')"
proof -
  obtain r s1 where run: "body s = Some (r, s1)"
    using assms(2) by (cases "body s") (auto simp: answer_silently_def)
  have view: "cb_last_error s1 = cb_last_error s" "cb_heap s1 = cb_heap s"
    using assms(1) run by (simp_all add: preserves_parts preserves_def)
  have rec: "cb_heap (record_refusal m e s1) = cb_heap s1" for e
    by (cases e) (simp_all add: record_arg_error_def record_data_error_def store_last_error_def)
  show "cb_heap s' = cb_heap s"
    using assms(2) run view rec by (cases r) (auto simp: answer_silently_def)
  show "records_status st (cb_last_error s) (cb_last_error s')"
    using assms(2) run view record_refusal_records
    by (cases r) (auto simp: answer_silently_def records_status_def)
qed

section \<open>Every entry point\<close>

definition honours ::
  "(cabi \<Rightarrow> (status \<times> 'o \<times> c_str slot \<times> cabi) option) \<Rightarrow> ('o \<Rightarrow> c_item list) \<Rightarrow> bool"
where
  "honours entry items \<longleftrightarrow>
     (\<forall>s st out err s'. entry s = Some (st, out, err, s') \<longrightarrow>
        records_status st (cb_last_error s) (cb_last_error s') \<and>
        (\<forall>h0 held. handed h0 (cb_heap s) held \<longrightarrow> handed h0 (cb_heap s') (held @ items out @ text_out err)))"

definition honours_silently :: "(cabi \<Rightarrow> (status \<times> 'o \<times> cabi) option) \<Rightarrow> bool" where
  "honours_silently entry \<longleftrightarrow>
     (\<forall>s st out s'. entry s = Some (st, out, s') \<longrightarrow>
        records_status st (cb_last_error s) (cb_last_error s') \<and> cb_heap s' = cb_heap s)"

lemma honours_answer:
  "hands_over items body \<Longrightarrow> (\<And>h. \<forall>x\<in>set (items idle). owns h x [] []) \<Longrightarrow>
   honours (answer m error_out idle body) items"
  unfolding honours_def using answer_contract(1) [of items body idle m error_out] answer_contract(2) [of items body idle m error_out]
  by (intro allI impI conjI) simp_all

lemma honours_answer_plain: "preserves host_view body \<Longrightarrow> honours (answer m error_out idle body) nothing_out"
  by (rule honours_answer [OF hands_over_nothing]) simp_all

lemma honours_answer_silently:
  "preserves host_view body \<Longrightarrow> honours_silently (answer_silently m idle body)"
  unfolding honours_silently_def
  by (intro allI impI conjI, erule (1) silent_contract(2), erule (1) silent_contract(1))

lemma honours_outputs:
  "hands_over text_out body \<Longrightarrow> honours (answer m error_out (cleared default_string out) body) text_out"
  "hands_over tensor_out tensor_body \<Longrightarrow>
   honours (answer m error_out (cleared default_tensor out_tensor) tensor_body) tensor_out"
  "hands_over owned_tensor_out owned_body \<Longrightarrow>
   honours (answer m error_out (cleared default_owned_tensor out_owned) owned_body) owned_tensor_out"
  by (rule honours_answer, assumption, rule idle_owns_nothing)+

lemmas handover_rules =
  honours_outputs hands_over_bind hands_over_string hands_over_tensor hands_over_tensor_f32 hands_over_owned_tensor

lemma validators_honour:
  "honours (dagmldata_fold_set_validate_json env p n err) nothing_out"
  "honours (dagmldata_aggregation_policy_validate_json env p n err) nothing_out"
  "honours (dagmldata_fold_set_validate_against_relations_json env p n rp rn err) nothing_out"
  "honours (dagmldata_fitted_adapter_ref_validate_json env p n portable err) nothing_out"
  "honours (dagmldata_fitted_adapter_manifest_validate_json env p n portable err) nothing_out"
  unfolding dagmldata_fold_set_validate_json_def dagmldata_aggregation_policy_validate_json_def
    dagmldata_fold_set_validate_against_relations_json_def dagmldata_fitted_adapter_ref_validate_json_def
    dagmldata_fitted_adapter_manifest_validate_json_def
  by (intro honours_answer_plain call_rules)+

lemma fingerprints_honour:
  "honours (dagmldata_schema_fingerprint_json env p n out err) text_out"
  "honours (dagmldata_fold_set_fingerprint_json env p n out err) text_out"
  "honours (dagmldata_coordinator_feature_collation_json env p n out err) text_out"
  unfolding dagmldata_schema_fingerprint_json_def dagmldata_fold_set_fingerprint_json_def Let_def
    dagmldata_coordinator_feature_collation_json_def
  by (intro handover_rules call_rules)+

lemma tensors_honour:
  "honours (dagmldata_coordinator_feature_collation_tensor_f64_json env p n t err) tensor_out"
  "honours (dagmldata_coordinator_feature_collation_tensor_f32_json env p n t err) tensor_out"
  unfolding dagmldata_coordinator_feature_collation_tensor_f64_json_def
    dagmldata_coordinator_feature_collation_tensor_f32_json_def
  by (intro handover_rules call_rules)+

lemma arrow_entry_honours: "honours (arrow_entry env from_slice build p n out err) nothing_out"
  unfolding arrow_entry_def by (intro honours_answer_plain call_rules)

lemma arrow_tables_honour:
  "honours (dagmldata_coordinator_identity_arrow_json env p n arrow err) nothing_out"
  "honours (dagmldata_coordinator_target_arrow_json env p n arrow err) nothing_out"
  "honours (dagmldata_coordinator_multi_target_arrow_json env p n arrow err) nothing_out"
  "honours (dagmldata_coordinator_feature_arrow_json env p n arrow err) nothing_out"
  "honours (dagmldata_coordinator_feature_fusion_arrow_json env p n arrow err) nothing_out"
  unfolding dagmldata_coordinator_identity_arrow_json_def dagmldata_coordinator_target_arrow_json_def
    dagmldata_coordinator_multi_target_arrow_json_def dagmldata_coordinator_feature_arrow_json_def
    dagmldata_coordinator_feature_fusion_arrow_json_def
  by (rule arrow_entry_honours)+

lemma stores_honour:
  "honours (dagmldata_inmemory_fitted_adapter_store_register_json env store p n handle err) nothing_out"
  "honours (dagmldata_inmemory_fitted_adapter_store_materialize_json env store p n handle err) nothing_out"
  "honours (dagmldata_inmemory_provider_attach_fitted_adapter_store env vt store err) nothing_out"
  "honours (dagmldata_inmemory_provider_materialize_fitted_adapter_json env vt p n handle err) nothing_out"
  unfolding dagmldata_inmemory_fitted_adapter_store_register_json_def
    dagmldata_inmemory_fitted_adapter_store_materialize_json_def
    dagmldata_inmemory_provider_attach_fitted_adapter_store_def
    dagmldata_inmemory_provider_materialize_fitted_adapter_json_def Let_def
  by (intro honours_answer_plain call_rules)+

lemma stores_honour_silently:
  "honours_silently (dagmldata_inmemory_fitted_adapter_store_new env out_store)"
  "honours_silently (dagmldata_inmemory_fitted_adapter_store_release env store i n released)"
proof -
  have "preserves host_view (\<lambda>s. let (a, h) = new_object fitted_store_new (cb_hosted s) in
      Some (Inr (written (Some a) out_store), s\<lparr>cb_hosted := h\<rparr>))"
    by (auto simp: preserves_def split: prod.splits)
  then show "honours_silently (dagmldata_inmemory_fitted_adapter_store_new env out_store)"
    unfolding dagmldata_inmemory_fitted_adapter_store_new_def by (intro honours_answer_silently call_rules)
  show "honours_silently (dagmldata_inmemory_fitted_adapter_store_release env store i n released)"
    unfolding dagmldata_inmemory_fitted_adapter_store_release_def Let_def by (intro honours_answer_silently call_rules)
qed

lemma new_provider_honours:
  assumes "preserves host_view own_checks" and "preserves host_view own_data"
  shows "honours (new_provider_entry env p n tp tn own_checks own_data build vt err) nothing_out"
  unfolding new_provider_entry_def by (intro honours_answer_plain call_rules assms)

lemma providers_honour:
  "honours (dagmldata_inmemory_provider_new_json env p n tp tn vt err) nothing_out"
  "honours (dagmldata_inmemory_provider_new_with_features_json env p n tp tn fp fn vt err) nothing_out"
  "honours (dagmldata_inmemory_provider_new_with_f64_features_json env p n tp tn fp fn vt err) nothing_out"
  "honours (dagmldata_inmemory_provider_new_with_tensor_views env p n tp tn tensors tensors_n vt err) nothing_out"
  "honours (dagmldata_inmemory_provider_new_with_f64_feature_views env p n tp tn rows rows_n vt err) nothing_out"
  "honours (dagmldata_inmemory_provider_new_with_f64_feature_columns env p n tp tn cols cols_n vt err) nothing_out"
  "honours (dagmldata_inmemory_provider_new_from_file env fs p n tp tn path path_n vt err) nothing_out"
  "honours (dagmldata_inmemory_provider_new_from_arrow_ipc env fs p n tp tn path path_n vt err) nothing_out"
  unfolding dagmldata_inmemory_provider_new_json_def dagmldata_inmemory_provider_new_with_features_json_def
    dagmldata_inmemory_provider_new_with_f64_features_json_def dagmldata_inmemory_provider_new_with_tensor_views_def
    dagmldata_inmemory_provider_new_with_f64_feature_views_def
    dagmldata_inmemory_provider_new_with_f64_feature_columns_def dagmldata_inmemory_provider_new_from_file_def
    dagmldata_inmemory_provider_new_from_arrow_ipc_def
  by (intro new_provider_honours call_rules)+

lemma callbacks_honour:
  "honours_silently (provider_materialize_c env user_data json handle)"
  "honours_silently (provider_make_view_c env user_data data json handle)"
  "honours_silently (provider_view_identity_c env user_data view arrow)"
  "honours_silently (provider_target_arrow_c env user_data view name arrow)"
  "honours_silently (provider_feature_arrow_c env user_data view name arrow)"
proof -
  show "honours_silently (provider_materialize_c env user_data json handle)"
    unfolding provider_materialize_c_def by (cases "user_data = None \<or> handle = None \<or> bv_ptr json = None")
      (simp_all only: if_True if_False, (intro honours_answer_silently call_rules)+)
  show "honours_silently (provider_make_view_c env user_data data json handle)"
    unfolding provider_make_view_c_def by (cases "user_data = None \<or> handle = None \<or> bv_ptr json = None")
      (simp_all only: if_True if_False, (intro honours_answer_silently call_rules)+)
qed (unfold provider_view_identity_c_def provider_target_arrow_c_def provider_feature_arrow_c_def Let_def,
    (intro honours_answer_silently call_rules)+)

lemma provider_json_honours: "honours (provider_json_entry env to_string f vt out err) text_out"
  unfolding provider_json_entry_def Let_def by (intro handover_rules call_rules)

lemma exports_honour:
  "honours (dagmldata_inmemory_provider_feature_buffer_manifest_json env vt out err) text_out"
  "honours (dagmldata_inmemory_provider_data_feature_buffer_manifest_json env vt data out err) text_out"
  "honours (dagmldata_inmemory_provider_nd_tensor_manifest_json env vt out err) text_out"
  "honours (dagmldata_inmemory_provider_data_nd_tensor_manifest_json env vt data out err) text_out"
  "honours (dagmldata_inmemory_provider_nd_tensor_export_json env vt view json owned err) owned_tensor_out"
  unfolding dagmldata_inmemory_provider_feature_buffer_manifest_json_def
    dagmldata_inmemory_provider_data_feature_buffer_manifest_json_def
    dagmldata_inmemory_provider_nd_tensor_manifest_json_def
    dagmldata_inmemory_provider_data_nd_tensor_manifest_json_def
    dagmldata_inmemory_provider_nd_tensor_export_json_def
  by (intro provider_json_honours handover_rules call_rules)+

lemma collations_honour:
  "honours (dagmldata_inmemory_provider_feature_collation_json env vt view json out err) text_out"
  "honours (dagmldata_inmemory_provider_feature_collation_tensor_f64_json env vt view json t err) tensor_out"
  "honours (dagmldata_inmemory_provider_feature_collation_tensor_f32_json env vt view json t err) tensor_out"
  unfolding dagmldata_inmemory_provider_feature_collation_json_def
    dagmldata_inmemory_provider_feature_collation_tensor_f64_json_def
    dagmldata_inmemory_provider_feature_collation_tensor_f32_json_def provider_collation_entry_def
  by (intro handover_rules call_rules)+

section \<open>Calls and sessions\<close>

text \<open>
  A fetcher that gives away none of its strings: it reports a refusal by the status alone or with a string of
  length zero, which is read by nobody and, null or not, stays with the host. (A longer one is freed here and
  has to be one that this library allocated and the host gives up.)
\<close>

definition quiet_fetcher :: "fetcher \<Rightarrow> bool" where
  "quiet_fetcher f \<longleftrightarrow>
     (\<forall>fetch calls i v. fv_fetch_columnar f = Some fetch \<longrightarrow>
        cs_ptr (fr_error (fetch calls i v)) = None \<or> cs_len (fr_error (fetch calls i v)) = 0)"

text \<open>The 64 bit counter of handles has not run out; it would take 2 ^ 64 calls.\<close>

definition handles_left :: "addr option \<Rightarrow> cabi \<Rightarrow> bool" where
  "handles_left user_data s \<longleftrightarrow>
     (\<forall>state arenas. Option.bind user_data (bx_privates (cb_hosted s)) = Some state \<longrightarrow>
        pv_arenas (ps_provider state) = Some arenas \<longrightarrow> ha_next_handle (pa_handles arenas) \<noteq> - 1)"

text \<open>
  One call with its status and the items that the host holds after it, besides those it held before. A call
  that breaks its safety contract, or that would panic, is no step.
\<close>

inductive c_call :: "c_env \<Rightarrow> cabi \<Rightarrow> status \<Rightarrow> c_item list \<Rightarrow> cabi \<Rightarrow> bool" for env where
  c_schema_fingerprint:
    "dagmldata_schema_fingerprint_json env p n cell e s = Some (st, out, err, s') \<Longrightarrow>
     c_call env s st (text_out out @ text_out err) s'"
| c_fold_set_validate:
    "dagmldata_fold_set_validate_json env p n e s = Some (st, out, err, s') \<Longrightarrow>
     c_call env s st (text_out err) s'"
| c_aggregation_validate:
    "dagmldata_aggregation_policy_validate_json env p n e s = Some (st, out, err, s') \<Longrightarrow>
     c_call env s st (text_out err) s'"
| c_fold_set_fingerprint:
    "dagmldata_fold_set_fingerprint_json env p n cell e s = Some (st, out, err, s') \<Longrightarrow>
     c_call env s st (text_out out @ text_out err) s'"
| c_fold_set_audit:
    "dagmldata_fold_set_validate_against_relations_json env p n q k e s = Some (st, out, err, s') \<Longrightarrow>
     c_call env s st (text_out err) s'"
| c_fitted_ref:
    "dagmldata_fitted_adapter_ref_validate_json env p n portable e s = Some (st, out, err, s') \<Longrightarrow>
     c_call env s st (text_out err) s'"
| c_fitted_manifest:
    "dagmldata_fitted_adapter_manifest_validate_json env p n portable e s = Some (st, out, err, s') \<Longrightarrow>
     c_call env s st (text_out err) s'"
| c_identity_arrow:
    "dagmldata_coordinator_identity_arrow_json env p n arrow e s = Some (st, out, err, s') \<Longrightarrow>
     c_call env s st (text_out err) s'"
| c_target_arrow:
    "dagmldata_coordinator_target_arrow_json env p n arrow e s = Some (st, out, err, s') \<Longrightarrow>
     c_call env s st (text_out err) s'"
| c_multi_target_arrow:
    "dagmldata_coordinator_multi_target_arrow_json env p n arrow e s = Some (st, out, err, s') \<Longrightarrow>
     c_call env s st (text_out err) s'"
| c_feature_arrow:
    "dagmldata_coordinator_feature_arrow_json env p n arrow e s = Some (st, out, err, s') \<Longrightarrow>
     c_call env s st (text_out err) s'"
| c_fusion_arrow:
    "dagmldata_coordinator_feature_fusion_arrow_json env p n arrow e s = Some (st, out, err, s') \<Longrightarrow>
     c_call env s st (text_out err) s'"
| c_collation:
    "dagmldata_coordinator_feature_collation_json env p n cell e s = Some (st, out, err, s') \<Longrightarrow>
     c_call env s st (text_out out @ text_out err) s'"
| c_collation_f64:
    "dagmldata_coordinator_feature_collation_tensor_f64_json env p n tensor e s = Some (st, out, err, s') \<Longrightarrow>
     c_call env s st (tensor_out out @ text_out err) s'"
| c_collation_f32:
    "dagmldata_coordinator_feature_collation_tensor_f32_json env p n tensor e s = Some (st, out, err, s') \<Longrightarrow>
     c_call env s st (tensor_out out @ text_out err) s'"
| c_store_register:
    "dagmldata_inmemory_fitted_adapter_store_register_json env store p n number e s = Some (st, out, err, s') \<Longrightarrow>
     c_call env s st (text_out err) s'"
| c_store_materialize:
    "dagmldata_inmemory_fitted_adapter_store_materialize_json env store p n number e s = Some (st, out, err, s') \<Longrightarrow>
     c_call env s st (text_out err) s'"
| c_attach:
    "dagmldata_inmemory_provider_attach_fitted_adapter_store env vt store e s = Some (st, out, err, s') \<Longrightarrow>
     c_call env s st (text_out err) s'"
| c_fitted:
    "dagmldata_inmemory_provider_materialize_fitted_adapter_json env vt p n number e s = Some (st, out, err, s') \<Longrightarrow>
     c_call env s st (text_out err) s'"
| c_new:
    "dagmldata_inmemory_provider_new_json env p n q k vcell e s = Some (st, out, err, s') \<Longrightarrow>
     c_call env s st (text_out err) s'"
| c_new_features:
    "dagmldata_inmemory_provider_new_with_features_json env p n q k fp fn vcell e s = Some (st, out, err, s') \<Longrightarrow>
     c_call env s st (text_out err) s'"
| c_new_f64_features:
    "dagmldata_inmemory_provider_new_with_f64_features_json env p n q k fp fn vcell e s = Some (st, out, err, s') \<Longrightarrow>
     c_call env s st (text_out err) s'"
| c_new_tensors:
    "dagmldata_inmemory_provider_new_with_tensor_views env p n q k tensors tn vcell e s = Some (st, out, err, s') \<Longrightarrow>
     c_call env s st (text_out err) s'"
| c_new_rows:
    "dagmldata_inmemory_provider_new_with_f64_feature_views env p n q k rows rn vcell e s = Some (st, out, err, s') \<Longrightarrow>
     c_call env s st (text_out err) s'"
| c_new_columns:
    "dagmldata_inmemory_provider_new_with_f64_feature_columns env p n q k cols cn vcell e s = Some (st, out, err, s') \<Longrightarrow>
     c_call env s st (text_out err) s'"
| c_new_file:
    "dagmldata_inmemory_provider_new_from_file env fs p n q k path pn vcell e s = Some (st, out, err, s') \<Longrightarrow>
     c_call env s st (text_out err) s'"
| c_new_arrow_ipc:
    "dagmldata_inmemory_provider_new_from_arrow_ipc env fs p n q k path pn vcell e s = Some (st, out, err, s') \<Longrightarrow>
     c_call env s st (text_out err) s'"
| c_manifests:
    "dagmldata_inmemory_provider_feature_buffer_manifest_json env vt cell e s = Some (st, out, err, s') \<Longrightarrow>
     c_call env s st (text_out out @ text_out err) s'"
| c_bindings:
    "dagmldata_inmemory_provider_data_feature_buffer_manifest_json env vt h cell e s = Some (st, out, err, s') \<Longrightarrow>
     c_call env s st (text_out out @ text_out err) s'"
| c_nd_manifests:
    "dagmldata_inmemory_provider_nd_tensor_manifest_json env vt cell e s = Some (st, out, err, s') \<Longrightarrow>
     c_call env s st (text_out out @ text_out err) s'"
| c_nd_bindings:
    "dagmldata_inmemory_provider_data_nd_tensor_manifest_json env vt h cell e s = Some (st, out, err, s') \<Longrightarrow>
     c_call env s st (text_out out @ text_out err) s'"
| c_nd_export:
    "dagmldata_inmemory_provider_nd_tensor_export_json env vt h json owned e s = Some (st, out, err, s') \<Longrightarrow>
     c_call env s st (owned_tensor_out out @ text_out err) s'"
| c_provider_collation:
    "dagmldata_inmemory_provider_feature_collation_json env vt h json cell e s = Some (st, out, err, s') \<Longrightarrow>
     c_call env s st (text_out out @ text_out err) s'"
| c_provider_collation_f64:
    "dagmldata_inmemory_provider_feature_collation_tensor_f64_json env vt h json tensor e s = Some (st, out, err, s') \<Longrightarrow>
     c_call env s st (tensor_out out @ text_out err) s'"
| c_provider_collation_f32:
    "dagmldata_inmemory_provider_feature_collation_tensor_f32_json env vt h json tensor e s = Some (st, out, err, s') \<Longrightarrow>
     c_call env s st (tensor_out out @ text_out err) s'"
| c_new_fetcher:
    "quiet_fetcher f \<Longrightarrow>
     dagmldata_inmemory_provider_new_with_buffer_fetcher env p n q k f requests rn vcell e s = Some (st, out, err, s') \<Longrightarrow>
     c_call env s st (text_out err) s'"
| c_store_new:
    "dagmldata_inmemory_fitted_adapter_store_new env store_cell s = Some (st, out, s') \<Longrightarrow> c_call env s st [] s'"
| c_store_release:
    "dagmldata_inmemory_fitted_adapter_store_release env store i n flag s = Some (st, out, s') \<Longrightarrow> c_call env s st [] s'"
| c_materialize:
    "handles_left user_data s \<Longrightarrow>
     provider_materialize_c env user_data json number s = Some (st, out, s') \<Longrightarrow> c_call env s st [] s'"
| c_make_view:
    "handles_left user_data s \<Longrightarrow>
     provider_make_view_c env user_data h json number s = Some (st, out, s') \<Longrightarrow> c_call env s st [] s'"
| c_view_identity:
    "provider_view_identity_c env user_data h arrow s = Some (st, out, s') \<Longrightarrow> c_call env s st [] s'"
| c_view_targets:
    "provider_target_arrow_c env user_data h name arrow s = Some (st, out, s') \<Longrightarrow> c_call env s st [] s'"
| c_view_features:
    "provider_feature_arrow_c env user_data h name arrow s = Some (st, out, s') \<Longrightarrow> c_call env s st [] s'"
| c_release:
    "provider_release_c user_data h s = Some s' \<Longrightarrow> c_call env s StatusOk [] s'"
| c_store_destroy:
    "dagmldata_inmemory_fitted_adapter_store_destroy store s = Some s' \<Longrightarrow> c_call env s StatusOk [] s'"
| c_provider_destroy:
    "dagmldata_inmemory_provider_destroy vcell s = Some (out, s') \<Longrightarrow> c_call env s StatusOk [] s'"
| c_last_error:
    "dagmldata_last_error_json cell s = (st, out, s') \<Longrightarrow> c_call env s st (text_out out) s'"
| c_array_free:
    "arrow_array_free depth ptr (eh_arrays (cb_exports s)) = Some b \<Longrightarrow>
     c_call env s StatusOk [] (s\<lparr>cb_exports := (cb_exports s)\<lparr>eh_arrays := b\<rparr>\<rparr>)"
| c_schema_free:
    "arrow_schema_free depth ptr (eh_schemas (cb_exports s)) = Some b' \<Longrightarrow>
     c_call env s StatusOk [] (s\<lparr>cb_exports := (cb_exports s)\<lparr>eh_schemas := b'\<rparr>\<rparr>)"

text \<open>A session: calls, and frees of what the host holds, in any order.\<close>

inductive c_session :: "c_env \<Rightarrow> cabi \<Rightarrow> c_item list \<Rightarrow> bool" for env where
  session_start: "c_session env cabi_start []"
| session_call: "c_session env s held \<Longrightarrow> c_call env s st items s' \<Longrightarrow> c_session env s' (held @ items)"
| session_free:
    "c_session env s (xs @ x # ys) \<Longrightarrow> free_item x (cb_heap s) = Some h \<Longrightarrow>
     c_session env (s\<lparr>cb_heap := h\<rparr>) (xs @ ys)"

lemma honoursD:
  "honours entry items \<Longrightarrow> entry s = Some (st, out, err, s') \<Longrightarrow>
   records_status st (cb_last_error s) (cb_last_error s') \<and>
   (\<forall>h0 held. handed h0 (cb_heap s) held \<longrightarrow> handed h0 (cb_heap s') (held @ items out @ text_out err))"
  unfolding honours_def by blast

lemma honours_silentlyD:
  "honours_silently entry \<Longrightarrow> entry s = Some (st, out, s') \<Longrightarrow>
   records_status st (cb_last_error s) (cb_last_error s') \<and> cb_heap s' = cb_heap s"
  unfolding honours_silently_def by blast

lemma preserves_fetch_all:
  assumes "\<And>calls i v. cs_ptr (fr_error (fetch calls i v)) = None \<or> cs_len (fr_error (fetch calls i v)) = 0"
  shows "preserves host_view (fetch_all fetch qs)"
proof (induction qs)
  case Nil
  then show ?case by (simp add: call_rules)
next
  case (Cons q qs)
  have "preserves host_view (fetch_one fetch q)"
    using assms
    by (auto simp: preserves_def fetch_one_def Let_def call_bind_eq consume_string_message_def refuse_def
        call_return_def split: if_splits sum.splits)
  with Cons show ?case by (simp add: call_rules)
qed

lemma fetcher_honours:
  assumes "quiet_fetcher f"
  shows "honours (dagmldata_inmemory_provider_new_with_buffer_fetcher env p n q k f requests rn vcell e) nothing_out"
proof -
  have "preserves host_view (fetch_phase env p n q k f requests rn vcell)"
  proof (cases "fv_fetch_columnar f")
    case None
    then show ?thesis unfolding fetch_phase_def by (auto intro!: call_rules)
  next
    case (Some fetch)
    then have "preserves host_view (fetch_all fetch qs)" for qs
      using assms by (intro preserves_fetch_all) (simp add: quiet_fetcher_def)
    with Some show ?thesis unfolding fetch_phase_def by (auto intro!: call_rules)
  qed
  then have "preserves host_view (and_destroy f (fetch_phase env p n q k f requests rn vcell))"
    by (auto simp: preserves_def and_destroy_def destroy_fetcher_def)
  then show ?thesis
    unfolding dagmldata_inmemory_provider_new_with_buffer_fetcher_def
    by (intro honours_answer_plain call_rules)
qed

lemmas every_entry_honours =
  validators_honour fingerprints_honour tensors_honour arrow_tables_honour stores_honour providers_honour
  exports_honour collations_honour
lemmas every_callback_honours = stores_honour_silently callbacks_honour

lemma last_error_handed:
  assumes "dagmldata_last_error_json cell s = (st, out, s')"
  shows "st = StatusOk \<and> cb_last_error s' = cb_last_error s \<and>
    (handed h0 (cb_heap s) held \<longrightarrow> handed h0 (cb_heap s') (held @ text_out out))"
proof (cases "cb_last_error s")
  case None
  then show ?thesis
    using assms handed_null [OF _ idle_owns_nothing(1)] by (auto simp: dagmldata_last_error_json_def)
next
  case (Some l)
  then show ?thesis
    using assms set_string_handed [of h0 s held "cleared default_string cell"] set_string_last_error
    by (auto simp: dagmldata_last_error_json_def Let_def split: prod.splits) (metis fst_conv snd_conv)+
qed

lemma host_calls_alone:
  "provider_release_c user_data h s = Some s' \<Longrightarrow> host_view s' = host_view s"
  "dagmldata_inmemory_fitted_adapter_store_destroy store s = Some s' \<Longrightarrow> host_view s' = host_view s"
  "dagmldata_inmemory_provider_destroy vcell s = Some (out, s') \<Longrightarrow> host_view s' = host_view s"
proof -
  show "provider_release_c user_data h s = Some s' \<Longrightarrow> host_view s' = host_view s"
    by (auto simp: provider_release_c_def split: if_splits dest!: preservesD [OF preserves_on_provider])
  show "dagmldata_inmemory_fitted_adapter_store_destroy store s = Some s' \<Longrightarrow> host_view s' = host_view s"
    by (auto simp: dagmldata_inmemory_fitted_adapter_store_destroy_def split: option.splits)
  show "dagmldata_inmemory_provider_destroy vcell s = Some (out, s') \<Longrightarrow> host_view s' = host_view s"
    by (auto simp: dagmldata_inmemory_provider_destroy_def provider_destroy_c_def split: option.splits if_splits)
qed

lemma records_ok: "records_status StatusOk l l' \<longleftrightarrow> l' = l"
  by (simp add: records_status_def)

lemma c_call_contract:
  assumes "c_call env s st items s'"
  shows "records_status st (cb_last_error s) (cb_last_error s') \<and>
    (handed h0 (cb_heap s) held \<longrightarrow> handed h0 (cb_heap s') (held @ items))"
  using assms
proof (cases rule: c_call.cases)
  case (c_new_fetcher f p n q k requests rn vcell e out err)
  from honoursD [OF fetcher_honours [OF this(2)] this(3)] this(1) show ?thesis by simp
next
  case (c_last_error cell out)
  from last_error_handed [OF this(2)] this(1) show ?thesis by (simp add: records_ok)
qed (auto simp: records_ok dest!: every_entry_honours [THEN honoursD] every_callback_honours [THEN honours_silentlyD]
    host_calls_alone)

section \<open>What a session guarantees\<close>

lemma mset_map_concat: "mset (concat (map f xs)) = (\<Sum>x\<in>#mset xs. mset (f x))"
  by (induction xs) simp_all

lemma concat_perm:
  assumes "mset xs = mset ys"
  shows "distinct (concat (map f xs)) = distinct (concat (map f ys))" "set (concat (map f xs)) = set (concat (map f ys))"
proof -
  have "mset (concat (map f xs)) = mset (concat (map f ys))" by (simp only: mset_map_concat assms)
  then show "distinct (concat (map f xs)) = distinct (concat (map f ys))" "set (concat (map f xs)) = set (concat (map f ys))"
    by (rule mset_eq_imp_distinct_iff, rule mset_eq_setD)
qed

lemma holding_perm: "mset xs = mset ys \<Longrightarrow> holding h0 h xs = holding h0 h ys"
  unfolding holding_def by (simp only: concat_perm [of xs ys] mset_eq_setD [of xs ys])

lemma handed_free:
  assumes "handed h0 h (xs @ x # ys)"
  shows "\<exists>h'. free_item x h = Some h' \<and> handed h0 h' (xs @ ys)"
proof -
  obtain zs where zs: "holding h0 h zs" "map fst zs = xs @ x # ys" using assms by (auto simp: handed_def)
  then obtain as b bs where split: "zs = as @ b # bs" "map fst as = xs" "fst b = x" "map fst bs = ys"
    by (auto simp: map_eq_append_conv map_eq_Cons_conv)
  obtain os ps where b: "b = (x, os, ps)" using split(3) by (cases b) auto
  have "holding h0 h ((x, os, ps) # as @ bs)" using holding_perm [of zs "(x, os, ps) # as @ bs"] zs(1) by (simp add: split(1) b)
  from free_first [OF this] obtain h' where "free_item x h = Some h'" "holding h0 h' (as @ bs)" by blast
  moreover have "map fst (as @ bs) = xs @ ys" using split by simp
  ultimately show ?thesis unfolding handed_def by blast
qed

lemma session_handed: "c_session env s held \<Longrightarrow> handed no_boxes (cb_heap s) held"
proof (induction rule: c_session.induct)
  case session_start
  then show ?case by (simp add: cabi_start_def handed_nil)
next
  case (session_call s held st items s')
  with c_call_contract show ?case by blast
next
  case (session_free s xs x ys h)
  from handed_free [OF session_free.IH] session_free.hyps(2) show ?case by simp
qed

text \<open>
  C3. The strings, slices and tensors of the C ABI can always be given back. Whatever the host has called and
  freed, and in whatever order, each such item it still holds can be freed next, and freeing all of them
  leaves none allocated: no entry point leaks a string, slice or tensor, hands the same one over twice, or
  frees one that the host holds. The statement is about the heap of these items alone. It says nothing of
  the boxes of exported Arrow tables, which a refused export does leak (\<open>failed_feature_export_leaks\<close>), nor of
  hosted providers and stores; and the fetchers of a session give away none of their strings
  (\<open>quiet_fetcher\<close>), so that a string of length zero returned as an error is still the host's to free, though
  the contract of the fetcher says that the library frees it.
\<close>

theorem session_gives_back:
  assumes "c_session env s held"
  shows "(\<forall>x\<in>set held. free_item x (cb_heap s) \<noteq> None) \<and>
    (\<exists>h. free_items held (cb_heap s) = Some h \<and> same_boxes no_boxes h)"
proof
  show "\<forall>x\<in>set held. free_item x (cb_heap s) \<noteq> None"
  proof
    fix x assume "x \<in> set held"
    then obtain xs ys where "held = xs @ x # ys" by (meson split_list)
    with handed_free session_handed [OF assms] show "free_item x (cb_heap s) \<noteq> None" by blast
  qed
  show "\<exists>h. free_items held (cb_heap s) = Some h \<and> same_boxes no_boxes h"
    by (rule handed_freed [OF session_handed [OF assms]])
qed

section \<open>The last error\<close>

fun run_of :: "('s \<Rightarrow> status \<Rightarrow> 's \<Rightarrow> bool) \<Rightarrow> 's \<Rightarrow> status list \<Rightarrow> 's \<Rightarrow> bool" where
  "run_of step s [] s' \<longleftrightarrow> s' = s"
| "run_of step s (st # sts) s' \<longleftrightarrow> (\<exists>t. step s st t \<and> run_of step t sts s')"

definition refusals :: "status list \<Rightarrow> status list" where
  "refusals = filter (\<lambda>st. st \<noteq> StatusOk)"

text \<open>What any interface promises that reports by a status and keeps the last error.\<close>

locale last_error_protocol =
  fixes step :: "'s \<Rightarrow> status \<Rightarrow> 's \<Rightarrow> bool" and last_error :: "'s \<Rightarrow> (string \<times> u32) option"
  assumes step_records: "step s st s' \<Longrightarrow> records_status st (last_error s) (last_error s')"
begin

lemma ok_run: "run_of step s sts s' \<Longrightarrow> refusals sts = [] \<Longrightarrow> last_error s' = last_error s"
  by (induction sts arbitrary: s)
    (auto simp: refusals_def records_ok dest: step_records split: if_splits)

lemma refused_run:
  "run_of step s sts s' \<Longrightarrow> refusals sts \<noteq> [] \<Longrightarrow>
   \<exists>l. records_status (last (refusals sts)) l (last_error s')"
proof (induction sts arbitrary: s)
  case (Cons st sts)
  then obtain t where t: "step s st t" "run_of step t sts s'" by auto
  show ?case
  proof (cases "refusals sts = []")
    case True
    then have "st \<noteq> StatusOk" using Cons.prems(2) by (auto simp: refusals_def split: if_splits)
    then have "refusals (st # sts) = [st]" using True by (simp add: refusals_def)
    moreover have "records_status st (last_error s) (last_error s')"
      using step_records [OF t(1)] ok_run [OF t(2) True] by simp
    ultimately show ?thesis by auto
  next
    case False
    then have "last (refusals (st # sts)) = last (refusals sts)" by (auto simp: refusals_def)
    with Cons.IH [OF t(2) False] show ?thesis by simp
  qed
qed (simp add: refusals_def)

end

definition c_step :: "c_env \<Rightarrow> cabi \<Rightarrow> status \<Rightarrow> cabi \<Rightarrow> bool" where
  "c_step env s st s' \<longleftrightarrow> (\<exists>items. c_call env s st items s')"

interpretation calls: last_error_protocol "c_step env" cb_last_error for env
  by unfold_locales (use c_call_contract in \<open>auto simp: c_step_def\<close>)

lemma last_error_code_records:
  "records_status st l (cb_last_error s) \<Longrightarrow> st \<noteq> StatusOk \<Longrightarrow>
   dagmldata_last_error_code s \<noteq> 0 \<and> (st = InvalidArgument \<longrightarrow> dagmldata_last_error_code s = argument_error_code)"
  by (cases st) (auto simp: records_status_def dagmldata_last_error_code_def)

text \<open>
  C5. The last error belongs to the last refusal. After any sequence of calls of a thread that started without
  an error, the code is 0 exactly when no call was refused; if the last refused call answered
  \<open>InvalidArgument\<close>, the code is the one that is reserved for arguments.
\<close>

theorem last_error_of_last_refusal:
  assumes "run_of (c_step env) s sts s'" and "cb_last_error s = None"
  shows "(dagmldata_last_error_code s' = 0 \<longleftrightarrow> refusals sts = []) \<and>
    (refusals sts \<noteq> [] \<longrightarrow> last (refusals sts) = InvalidArgument \<longrightarrow>
       dagmldata_last_error_code s' = argument_error_code)"
proof (cases "refusals sts = []")
  case True
  with calls.ok_run [OF assms(1)] assms(2) show ?thesis by (simp add: dagmldata_last_error_code_def)
next
  case False
  from calls.refused_run [OF assms(1) False] obtain l where
    "records_status (last (refusals sts)) l (cb_last_error s')" by blast
  moreover have "last (refusals sts) \<noteq> StatusOk"
  proof -
    have "last (refusals sts) \<in> set (refusals sts)" using False by simp
    then show ?thesis by (simp add: refusals_def)
  qed
  ultimately show ?thesis using last_error_code_records False by blast
qed

end
