(* ===== verification/C_Hosting.thy ===== *)
theory C_Hosting
  imports C_Session
begin

text \<open>
  What lives behind the opaque pointers during a session: every provider stays one that \<open>Provider_Safety\<close> knows,
  it evolves by the steps of its own clients, and the exported Arrow tables stay well-formed boxes.
\<close>

section \<open>Freeing exported tables\<close>

text \<open>Releasing only frees and rewrites what is allocated.\<close>

definition shrinks :: "('o, 'p) boxes \<Rightarrow> ('o, 'p) boxes \<Rightarrow> bool" where
  "shrinks h h' \<longleftrightarrow>
     bx_next h' = bx_next h \<and> (\<forall>a. bx_objects h a = None \<longrightarrow> bx_objects h' a = None) \<and>
     (\<forall>a. bx_privates h a = None \<longrightarrow> bx_privates h' a = None)"

lemma shrinks_refl [simp]: "shrinks h h"
  by (simp add: shrinks_def)

lemma shrinks_trans: "shrinks h1 h2 \<Longrightarrow> shrinks h2 h3 \<Longrightarrow> shrinks h1 h3"
  by (simp add: shrinks_def)

lemma shrinks_wf: "boxes_wf h \<Longrightarrow> shrinks h h' \<Longrightarrow> boxes_wf h'"
  by (auto simp: boxes_wf_def shrinks_def)

lemma shrinks_step:
  "bx_objects h a \<noteq> None \<Longrightarrow> shrinks h (set_object a x h)"
  "drop_object a h = Some h' \<Longrightarrow> shrinks h h'"
  "drop_private p h = Some h' \<Longrightarrow> shrinks h h'"
  "update_object a f h = Some h' \<Longrightarrow> shrinks h h'"
  by (auto simp: shrinks_def set_object_def drop_object_def drop_private_def update_object_def split: if_splits option.splits)

lemma shrinks_kids:
  assumes "\<And>a h h'. call a h = Some h' \<Longrightarrow> shrinks h h'"
  shows "release_kids call cs h = Some h' \<Longrightarrow> shrinks h h'"
proof (induction cs arbitrary: h)
  case (Cons c cs)
  show ?case
  proof (cases c)
    case (Some a)
    with Cons.prems obtain h1 h2 where steps: "call a h = Some h1" "drop_object a h1 = Some h2"
        "release_kids call cs h2 = Some h'"
      by (auto simp: bind_eq_Some_conv)
    from shrinks_trans [OF assms [OF steps(1)] shrinks_trans [OF shrinks_step(2) [OF steps(2)] Cons.IH [OF steps(3)]]]
    show ?thesis .
  qed (use Cons in simp)
qed simp

text \<open>The shape of the release functions: disarm, free what is owned, clear the fields.\<close>

lemma shrinks_release:
  assumes "Option.bind (owned (set_object a y h)) (update_object a f) = Some h'" and "bx_objects h a \<noteq> None"
    and "\<And>g g'. owned g = Some g' \<Longrightarrow> shrinks g g'"
  shows "shrinks h h'"
proof -
  obtain g where g: "owned (set_object a y h) = Some g" "update_object a f g = Some h'"
    using assms(1) by (auto simp: bind_eq_Some_conv)
  show ?thesis
    by (rule shrinks_trans [OF shrinks_step(1) [OF assms(2), of y] shrinks_trans [OF assms(3) [OF g(1)] shrinks_step(4) [OF g(2)]]])
qed

lemma shrinks_leaf_array:
  assumes "release_leaf_array kind a h = Some h'"
  shows "shrinks h h'"
proof -
  obtain x where x: "bx_objects h a = Some x" using assms by (auto simp: release_leaf_array_def bind_eq_Some_conv)
  show ?thesis
  proof (cases "aa_release x = None")
    case False
    show ?thesis
    proof (rule shrinks_release)
      show "Option.bind ((\<lambda>h1. case aa_private_data x of None \<Rightarrow> Some h1 | Some p \<Rightarrow>
          Option.bind (take_private kind p h1) (\<lambda>_. drop_private p h1)) (set_object a (x\<lparr>aa_release := None\<rparr>) h))
          (update_object a (\<lambda>y. y\<lparr>aa_private_data := None, aa_buffers := None\<rparr>)) = Some h'"
        using assms x False by (simp add: release_leaf_array_def Let_def)
      show "bx_objects h a \<noteq> None" by (simp add: x)
    qed (auto simp: bind_eq_Some_conv split: option.splits intro: shrinks_step(3))
  qed (use assms x in \<open>simp add: release_leaf_array_def\<close>)
qed

lemma shrinks_struct_array:
  assumes "release_struct_array call a h = Some h'" and "\<And>a h h'. call a h = Some h' \<Longrightarrow> shrinks h h'"
  shows "shrinks h h'"
proof -
  obtain x where x: "bx_objects h a = Some x" using assms(1) by (auto simp: release_struct_array_def bind_eq_Some_conv)
  show ?thesis
  proof (cases "aa_release x = None")
    case False
    show ?thesis
    proof (rule shrinks_release)
      show "Option.bind ((\<lambda>h1. case aa_private_data x of None \<Rightarrow> Some h1 | Some p \<Rightarrow>
          Option.bind (take_private ReleaseStruct p h1) (\<lambda>q.
          Option.bind (release_kids call (struct_children q) h1) (drop_private p)))
          (set_object a (x\<lparr>aa_release := None\<rparr>) h))
          (update_object a (\<lambda>y. y\<lparr>aa_private_data := None, aa_buffers := None, aa_children := None\<rparr>)) = Some h'"
        using assms(1) x False by (simp add: release_struct_array_def Let_def)
      show "bx_objects h a \<noteq> None" by (simp add: x)
    qed (auto simp: bind_eq_Some_conv split: option.splits
        intro: shrinks_trans [OF shrinks_kids [OF assms(2)] shrinks_step(3)])
  qed (use assms(1) x in \<open>simp add: release_struct_array_def\<close>)
qed

lemma shrinks_schema:
  assumes "release_schema call a h = Some h'" and "\<And>a h h'. call a h = Some h' \<Longrightarrow> shrinks h h'"
  shows "shrinks h h'"
proof -
  obtain x where x: "bx_objects h a = Some x" using assms(1) by (auto simp: release_schema_def bind_eq_Some_conv)
  show ?thesis
  proof (cases "as_release x")
    case True
    show ?thesis
    proof (rule shrinks_release)
      show "Option.bind ((\<lambda>h1. case as_private_data x of None \<Rightarrow> Some h1 | Some p \<Rightarrow>
          Option.bind (bx_privates h1 p) (\<lambda>q.
          Option.bind (release_kids call (sp_children q) h1) (drop_private p)))
          (set_object a (x\<lparr>as_release := False\<rparr>) h))
          (update_object a (\<lambda>y. y\<lparr>as_private_data := None, as_format := None, as_name := None,
             as_metadata := None, as_children := None\<rparr>)) = Some h'"
        using assms(1) x True by (simp add: release_schema_def Let_def)
      show "bx_objects h a \<noteq> None" by (simp add: x)
    qed (auto simp: bind_eq_Some_conv split: option.splits
        intro: shrinks_trans [OF shrinks_kids [OF assms(2)] shrinks_step(3)])
  qed (use assms(1) x in \<open>simp add: release_schema_def\<close>)
qed

lemma shrinks_call_array: "call_array_release n a h = Some h' \<Longrightarrow> shrinks h h'"
proof (induction n arbitrary: a h h')
  case (Suc n)
  then obtain x where x: "bx_objects h a = Some x" by (auto simp: bind_eq_Some_conv)
  show ?case
  proof (cases "aa_release x")
    case (Some kind)
    show ?thesis
    proof (cases kind)
      case ReleaseStruct
      with Suc.prems x Some have "release_struct_array (call_array_release n) a h = Some h'" by simp
      from shrinks_struct_array [OF this Suc.IH] show ?thesis .
    qed (use Suc.prems x Some in \<open>auto intro: shrinks_leaf_array\<close>)
  qed (use Suc.prems x in simp)
qed simp

lemma shrinks_call_schema: "call_schema_release n a h = Some h' \<Longrightarrow> shrinks h h'"
proof (induction n arbitrary: a h h')
  case (Suc n)
  then obtain x where x: "bx_objects h a = Some x" by (auto simp: bind_eq_Some_conv)
  show ?case
  proof (cases "as_release x")
    case True
    with Suc.prems x have "release_schema (call_schema_release n) a h = Some h'" by simp
    from shrinks_schema [OF this Suc.IH] show ?thesis .
  qed (use Suc.prems x in simp)
qed simp

lemma freed_wf:
  "arrow_array_free n ptr h = Some h' \<Longrightarrow> boxes_wf h \<Longrightarrow> boxes_wf h'"
  "arrow_schema_free n ptr g = Some g' \<Longrightarrow> boxes_wf g \<Longrightarrow> boxes_wf g'"
  by (auto simp: arrow_array_free_def arrow_schema_free_def free_object_def bind_eq_Some_conv split: option.splits
      intro: shrinks_wf [OF _ shrinks_trans [OF shrinks_call_array shrinks_step(2)]]
        shrinks_wf [OF _ shrinks_trans [OF shrinks_call_schema shrinks_step(2)]])

text \<open>Building a table only allocates.\<close>

lemma grows_tables:
  "grows (build_identity_relations_arrow to_json relations)" "grows (build_identity_arrow ex to_json e)"
  "grows (build_target_arrow nf t)" "grows (build_multi_target_arrow nf m)" "grows (build_feature_arrow nf f)"
proof -
  have child: "grows (multi_target_child nf m entry)" for entry
    unfolding multi_target_child_def
    by (auto intro!: grows_bind grows_column grows_field split: prod.split)
  show relations: "grows (build_identity_relations_arrow to_json relations)" for relations
    unfolding build_identity_relations_arrow_def Let_def
    by (intro grows_bind grows_map grows_column grows_field grows_struct grows_simple)
  show "grows (build_identity_arrow ex to_json e)"
    unfolding build_identity_arrow_def by (intro grows_bind grows_simple relations)
  show "grows (build_target_arrow nf t)" "grows (build_multi_target_arrow nf m)"
    unfolding build_target_arrow_def build_multi_target_arrow_def
    by (intro grows_bind grows_map grows_column grows_field grows_struct grows_simple child)+
  show "grows (build_feature_arrow nf f)"
    unfolding build_feature_arrow_def
    by (intro grows_bind grows_map grows_column grows_field grows_struct grows_feature_child grows_simple)
qed

lemma grows_export: "grows m \<Longrightarrow> grows (export_pair m)"
  unfolding export_pair_def by (auto intro!: grows_bind split: prod.split)

section \<open>The invariant\<close>

definition hosted_ok :: "c_env \<Rightarrow> hosted \<Rightarrow> bool" where
  "hosted_ok env b \<longleftrightarrow>
     boxes_wf b \<and>
     (\<forall>a state. bx_privates b a = Some state \<longrightarrow>
        (\<exists>S T. store_ok S \<and> nd_store_ok T \<and> provider_reachable (ce_external env) S T (ps_provider state)))"

definition cabi_ok :: "c_env \<Rightarrow> cabi \<Rightarrow> bool" where
  "cabi_ok env s \<longleftrightarrow> hosted_ok env (cb_hosted s) \<and> heap_wf (cb_exports s)"

text \<open>An address leads to the same provider, at a later moment of its own history, or to nothing.\<close>

definition evolves :: "c_env \<Rightarrow> hosted \<Rightarrow> hosted \<Rightarrow> bool" where
  "evolves env b b' \<longleftrightarrow>
     bx_next b \<le> bx_next b' \<and>
     (\<forall>a state'. a < bx_next b \<longrightarrow> bx_privates b' a = Some state' \<longrightarrow>
        (\<exists>state. bx_privates b a = Some state \<and>
           (provider_step (ce_external env))\<^sup>*\<^sup>* (ps_provider state) (ps_provider state')))"

lemma evolves_refl [simp]: "evolves env b b"
  by (simp add: evolves_def)

lemma evolves_trans: "evolves env b1 b2 \<Longrightarrow> evolves env b2 b3 \<Longrightarrow> evolves env b1 b3"
  unfolding evolves_def by (meson order_less_le_trans order_trans rtranclp_trans)

abbreviation box_view :: "cabi \<Rightarrow> hosted \<times> export_heap" where
  "box_view s \<equiv> (cb_hosted s, cb_exports s)"

text \<open>From states where \<open>P\<close> holds of the hosted boxes, the body keeps the invariant and lets providers evolve.\<close>

definition keeps :: "c_env \<Rightarrow> (hosted \<Rightarrow> bool) \<Rightarrow> 'a call \<Rightarrow> bool" where
  "keeps env P body \<longleftrightarrow>
     (\<forall>s r s'. body s = Some (r, s') \<longrightarrow> P (cb_hosted s) \<longrightarrow> cabi_ok env s \<longrightarrow>
        cabi_ok env s' \<and> evolves env (cb_hosted s) (cb_hosted s'))"

lemma keepsD:
  "keeps env P body \<Longrightarrow> body s = Some (r, s') \<Longrightarrow> P (cb_hosted s) \<Longrightarrow> cabi_ok env s \<Longrightarrow>
   cabi_ok env s' \<and> evolves env (cb_hosted s) (cb_hosted s')"
  unfolding keeps_def by blast

lemma same_boxes_kept: "box_view s' = box_view s \<Longrightarrow> cabi_ok env s \<Longrightarrow> cabi_ok env s' \<and> evolves env (cb_hosted s) (cb_hosted s')"
  by (simp add: cabi_ok_def)

lemma keeps_preserves: "preserves box_view body \<Longrightarrow> keeps env P body"
  unfolding keeps_def by (intro allI impI same_boxes_kept) (auto dest: preservesD)

lemma keeps_seq:
  assumes "preserves box_view m"
    and "\<And>x s s'. m s = Some (Inr x, s') \<Longrightarrow> P (cb_hosted s) \<Longrightarrow> Q x (cb_hosted s)"
    and "\<And>x. keeps env (Q x) (f x)"
  shows "keeps env P (call_bind m f)"
  unfolding keeps_def
proof (intro allI impI)
  fix s r s'
  assume run: "call_bind m f s = Some (r, s')" and P: "P (cb_hosted s)" and ok: "cabi_ok env s"
  have m: "box_view s1 = box_view s" if "m s = Some (r1, s1)" for r1 s1
    using assms(1) that by (rule preservesD)
  from run [unfolded call_bind_eq] show "cabi_ok env s' \<and> evolves env (cb_hosted s) (cb_hosted s')"
  proof (elim disjE exE conjE)
    fix e assume "m s = Some (Inl e, s')"
    then show ?thesis by (intro same_boxes_kept ok) (rule m)
  next
    fix x s1 assume x: "m s = Some (Inr x, s1)" "f x s1 = Some (r, s')"
    have boxes: "cb_hosted s1 = cb_hosted s" "cb_exports s1 = cb_exports s" using m [OF x(1)] by simp_all
    have "Q x (cb_hosted s1)" using assms(2) [OF x(1) P] by (simp add: boxes)
    moreover have "cabi_ok env s1" using ok by (simp add: cabi_ok_def boxes)
    ultimately show ?thesis using keepsD [OF assms(3) x(2)] by (simp add: boxes)
  qed
qed

lemma keeps_bind: "preserves box_view m \<Longrightarrow> (\<And>x. keeps env P (f x)) \<Longrightarrow> keeps env P (call_bind m f)"
  by (rule keeps_seq [where Q = "\<lambda>_. P"])

lemma keeps_then: 
  assumes "keeps env P m" and "\<And>x. preserves box_view (f x)"
  shows "keeps env P (call_bind m f)"
  unfolding keeps_def
proof (intro allI impI)
  fix s r s'
  assume run: "call_bind m f s = Some (r, s')" and P: "P (cb_hosted s)" and ok: "cabi_ok env s"
  from run [unfolded call_bind_eq] show "cabi_ok env s' \<and> evolves env (cb_hosted s) (cb_hosted s')"
  proof (elim disjE exE conjE)
    fix e assume "m s = Some (Inl e, s')"
    from keepsD [OF assms(1) this P ok] show ?thesis .
  next
    fix x s1 assume x: "m s = Some (Inr x, s1)" "f x s1 = Some (r, s')"
    have "box_view s' = box_view s1" by (rule preservesD [OF assms(2) x(2)])
    with keepsD [OF assms(1) x(1) P ok] show ?thesis by (simp add: cabi_ok_def)
  qed
qed

lemma keeps_cases:
  "(p \<Longrightarrow> keeps env P b) \<Longrightarrow> (\<not> p \<Longrightarrow> keeps env P c) \<Longrightarrow> keeps env P (if p then b else c)"
  "(\<And>x y. keeps env P (k x y)) \<Longrightarrow> keeps env P (case_prod k xy)"
  by (simp_all split: prod.split)

lemma keeps_weaken: "keeps env Q body \<Longrightarrow> (\<And>b. P b \<Longrightarrow> Q b) \<Longrightarrow> keeps env P body"
  unfolding keeps_def by blast

lemma preserves_boxes [call_rules]:
  "preserves box_view (publish_string out v)" "preserves box_view (allocating f)"
  "preserves box_view (consume_string_message c)"
  by (auto simp: preserves_def publish_string_def set_string_def allocating_def consume_string_message_def
      bind_eq_Some_conv split: prod.splits if_splits)

lemma preserves_publish_tensors [call_rules]:
  "preserves box_view (publish_tensor t)" "preserves box_view (publish_tensor_f32 t)"
  unfolding publish_tensor_def publish_tensor_f32_def by (intro call_rules)+

lemma keeps_publish_table:
  assumes "grows m"
  shows "keeps env P (publish_table m)"
proof -
  have "keeps env P (exporting m)"
    unfolding keeps_def
  proof (intro allI impI)
    fix s r s' assume run: "exporting m s = Some (r, s')" and ok: "cabi_ok env s"
    have "cb_hosted s' = cb_hosted s" "cb_exports s' = snd (export_pair m (cb_exports s))"
      using run by (auto simp: exporting_def answered_eq split: prod.splits)
    with grows_export [OF assms] ok show "cabi_ok env s' \<and> evolves env (cb_hosted s) (cb_hosted s')"
      by (simp add: cabi_ok_def grows_def)
  qed
  then show ?thesis unfolding publish_table_def by (rule keeps_then) (auto intro: call_rules)
qed

section \<open>Stores and providers\<close>

lemma hosted_ok_object: "hosted_ok env b \<Longrightarrow> bx_objects b a \<noteq> None \<Longrightarrow> hosted_ok env (set_object a x b)"
  by (auto simp: hosted_ok_def set_object_def boxes_wf_def)

lemma evolves_object: "evolves env b (set_object a x b)"
  by (simp add: evolves_def set_object_def)

lemma keeps_keep_store: "keeps env (\<lambda>b. \<exists>a. ptr = Some a \<and> bx_objects b a \<noteq> None) (keep_store ptr store)"
  by (auto simp: keeps_def keep_store_def cabi_ok_def hosted_ok_object evolves_object)

text \<open>Replacing the state behind a live address by one whose provider has taken some steps.\<close>

lemma keeps_keep_state:
  "keeps env (\<lambda>b. \<exists>a state. ptr = Some a \<and> bx_privates b a = Some state \<and>
     (provider_step (ce_external env))\<^sup>*\<^sup>* (ps_provider state) (ps_provider state')) (keep_state ptr state')"
proof -
  have reach: "provider_reachable ex S T p'" if "provider_reachable ex S T p" "(provider_step ex)\<^sup>*\<^sup>* p p'" for ex S T p p'
    using that(2,1) by (induction rule: rtranclp_induct) (auto intro: provider_next)
  show ?thesis
    unfolding keeps_def
  proof (intro allI impI, elim exE conjE)
    fix s r s' a state
    assume run: "keep_state ptr state' s = Some (r, s')" and ok: "cabi_ok env s" and ptr: "ptr = Some a"
      and live: "bx_privates (cb_hosted s) a = Some state"
      and steps: "(provider_step (ce_external env))\<^sup>*\<^sup>* (ps_provider state) (ps_provider state')"
    have s': "cb_hosted s' = (cb_hosted s)\<lparr>bx_privates := (bx_privates (cb_hosted s))(a := Some state')\<rparr>"
        "cb_exports s' = cb_exports s"
      using run ptr by (auto simp: keep_state_def)
    have "boxes_wf (cb_hosted s')"
      using ok live by (auto simp: s' cabi_ok_def hosted_ok_def boxes_wf_def)
    moreover have "\<exists>S T. store_ok S \<and> nd_store_ok T \<and> provider_reachable (ce_external env) S T (ps_provider state')"
      using ok live reach [OF _ steps] by (fastforce simp: cabi_ok_def hosted_ok_def)
    ultimately have "cabi_ok env s'" using ok by (auto simp: cabi_ok_def hosted_ok_def s')
    moreover have "evolves env (cb_hosted s) (cb_hosted s')" using live steps by (auto simp: evolves_def s')
    ultimately show "cabi_ok env s' \<and> evolves env (cb_hosted s) (cb_hosted s')" ..
  qed
qed

text \<open>An operation that mints handles asks for a counter that has not run out.\<close>

definition counter_left :: "bool \<Rightarrow> provider_state \<Rightarrow> bool" where
  "counter_left minting state \<longleftrightarrow>
     (\<forall>arenas. minting \<longrightarrow> pv_arenas (ps_provider state) = Some arenas \<longrightarrow> ha_next_handle (pa_handles arenas) \<noteq> - 1)"

definition state_at :: "addr option \<Rightarrow> hosted \<Rightarrow> provider_state option" where
  "state_at user_data b = Option.bind user_data (bx_privates b)"

definition counters_left :: "bool \<Rightarrow> addr option \<Rightarrow> hosted \<Rightarrow> bool" where
  "counters_left minting user_data b \<longleftrightarrow> (\<forall>state. state_at user_data b = Some state \<longrightarrow> counter_left minting state)"

lemma keeps_on_provider:
  assumes "\<And>state result p'. counter_left minting state \<Longrightarrow> f (ps_provider state) = (result, p') \<Longrightarrow>
      (provider_step (ce_external env))\<^sup>*\<^sup>* (ps_provider state) p'"
  shows "keeps env (counters_left minting user_data) (on_provider user_data f)"
  unfolding on_provider_def Let_def
proof (rule keeps_seq [OF preserves_borrow(2), where Q = "\<lambda>state b. state_at user_data b = Some state \<and> counter_left minting state"])
  fix state s s'
  assume "borrow_state user_data s = Some (Inr state, s')" and "counters_left minting user_data (cb_hosted s)"
  then show "state_at user_data (cb_hosted s) = Some state \<and> counter_left minting state"
    by (auto simp: borrow_state_def counters_left_def state_at_def)
next
  fix state :: provider_state
  obtain result p' where f: "f (ps_provider state) = (result, p')" by (cases "f (ps_provider state)")
  have "keeps env (\<lambda>b. state_at user_data b = Some state \<and> counter_left minting state)
      (keep_state user_data (state\<lparr>ps_provider := p'\<rparr>))"
    by (rule keeps_weaken [OF keeps_keep_state]) (use assms f in \<open>fastforce simp: state_at_def bind_eq_Some_conv\<close>)
  then show "keeps env (\<lambda>b. state_at user_data b = Some state \<and> counter_left minting state)
      (case f (ps_provider state) of (result, p) \<Rightarrow>
         call_bind (keep_state user_data (state\<lparr>ps_provider := p\<rparr>)) (\<lambda>_. of_res result))"
    unfolding f prod.case by (rule keeps_then) (intro call_rules)
qed

lemma keeps_operations:
  "keeps env (counters_left True user_data) (on_provider user_data (provider_materialize (ce_external env) q))"
  "keeps env (counters_left True user_data) (on_provider user_data (provider_make_view (ce_external env) h v))"
  "keeps env P (on_provider user_data (\<lambda>p. let (_, p) = provider_release h p in (Inr (), p)))"
proof -
  show "keeps env (counters_left True user_data) (on_provider user_data (provider_materialize (ce_external env) q))"
    by (rule keeps_on_provider) (auto simp: counter_left_def intro!: r_into_rtranclp provider_materializes)
  show "keeps env (counters_left True user_data) (on_provider user_data (provider_make_view (ce_external env) h v))"
    by (rule keeps_on_provider) (auto simp: counter_left_def intro!: r_into_rtranclp provider_makes_view)
  have "keeps env (counters_left False user_data) (on_provider user_data (\<lambda>p. let (_, p) = provider_release h p in (Inr (), p)))"
    by (rule keeps_on_provider) (auto intro!: r_into_rtranclp provider_releases split: prod.splits)
  then show "keeps env P (on_provider user_data (\<lambda>p. let (_, p) = provider_release h p in (Inr (), p)))"
    by (rule keeps_weaken) (simp add: counters_left_def counter_left_def)
qed

text \<open>A new provider.\<close>

lemma keeps_publish_provider:
  assumes "store_ok S" and "nd_store_ok T" and "provider_reachable (ce_external env) S T (ps_provider state)"
  shows "keeps env P (publish_provider state)"
  unfolding keeps_def
proof (intro allI impI)
  fix s r s' assume run: "publish_provider state s = Some (r, s')" and ok: "cabi_ok env s"
  let ?b = "cb_hosted s"
  have s': "cb_hosted s' = snd (new_private state ?b)" "cb_exports s' = cb_exports s"
    using run by (auto simp: publish_provider_def split: prod.splits)
  have wf: "boxes_wf ?b" using ok by (simp add: cabi_ok_def hosted_ok_def)
  have "boxes_wf (cb_hosted s')" unfolding s' by (rule new_wf(2) [OF wf])
  then have "cabi_ok env s'"
    using ok assms by (auto simp: cabi_ok_def hosted_ok_def s' new_private_def)
  moreover have "evolves env ?b (cb_hosted s')" by (auto simp: evolves_def s' new_private_def)
  ultimately show "cabi_ok env s' \<and> evolves env ?b (cb_hosted s')" ..
qed

definition yields :: "('a \<Rightarrow> bool) \<Rightarrow> 'a call \<Rightarrow> bool" where
  "yields Q m \<longleftrightarrow> (\<forall>s x s'. m s = Some (Inr x, s') \<longrightarrow> Q x)"

lemma keeps_yields:
  assumes "preserves box_view m" and "yields Q m" and "\<And>x. Q x \<Longrightarrow> keeps env P (f x)"
  shows "keeps env P (call_bind m f)"
proof (rule keeps_seq [OF assms(1), where Q = "\<lambda>x b. Q x \<and> P b"])
  show "keeps env (\<lambda>b. Q x \<and> P b) (f x)" for x
    by (cases "Q x") (use assms(3) in \<open>simp_all add: keeps_def\<close>)
qed (use assms(2) in \<open>auto simp: yields_def\<close>)

lemma yields_of_res: "(\<And>x. r = Inr x \<Longrightarrow> Q x) \<Longrightarrow> yields Q (of_res r)"
  by (auto simp: yields_def of_res_def answered_eq split: sum.splits)

lemma yields_bind: "(\<And>x. yields Q (f x)) \<Longrightarrow> yields Q (call_bind m f)"
  unfolding yields_def call_bind_eq by blast

lemma yields_optional_array:
  "Q [] \<Longrightarrow> (\<And>xs m. collect xs = Inr m \<Longrightarrow> Q m) \<Longrightarrow> yields Q (optional_array from_slice collect message p len)"
  unfolding optional_array_def
  by (auto intro!: yields_bind yields_of_res) (simp_all add: yields_def refuse_def call_return_def)

lemma column_matrices_store_ok: "store_from_f64_column_matrices ms = Inr s \<Longrightarrow> store_ok s"
  unfolding store_from_f64_column_matrices_def
  by (erule store_from_ok [rotated])
    (auto simp: from_f64_column_matrix_ok columnar_buffer_ok, simp add: buffer_of_columnar_def)

lemma views_store_ok:
  "parse_f64_feature_matrix_views rows n = Inr s \<Longrightarrow> store_ok s"
  "parse_f64_feature_matrix_columnar_views cols n = Inr s \<Longrightarrow> store_ok s"
  "parse_borrowed_tensor_views views n = Inr t \<Longrightarrow> nd_store_ok t"
  by (auto simp: parse_f64_feature_matrix_views_def parse_f64_feature_matrix_columnar_views_def
      parse_borrowed_tensor_views_def rbind_eq_Inr if_Inl_eq_Inr store_ok_empty nd_store_ok_def bt.wf_empty
      split: if_splits intro: f64_matrices_store_ok column_matrices_store_ok)
    (auto dest: nd_store_from_inputs_ok simp: nd_store_ok_def)

lemma file_store_ok: "read_store_from_path can_reserve sha256 path fs = Inr s \<Longrightarrow> store_ok s"
  using accepted_file_certified by (auto simp: read_store_from_path_def rbind_eq_Inr)

lemma ipc_store_ok: "read_buffers_from_ipc_path open_file path fs = Inr s \<Longrightarrow> store_ok s"
proof -
  have "read_buffers_from_ipc open_file bytes = Inr s \<Longrightarrow> store_ok s" for bytes
    by (cases "open_file bytes")
      (auto simp: read_buffers_from_ipc_def read_batches_def rbind_eq_Inr intro: column_matrices_store_ok)
  then show "read_buffers_from_ipc_path open_file path fs = Inr s \<Longrightarrow> store_ok s"
    by (auto simp: read_buffers_from_ipc_path_def rbind_eq_Inr)
qed

lemma data_yields:
  "yields store_ok (c_feature_tables env p n)" "yields store_ok (c_f64_matrices env p n)"
  "yields store_ok (stored_features env fs path path_n)" "yields store_ok (ipc_features env fs path path_n)"
  unfolding c_feature_tables_def c_f64_matrices_def stored_features_def ipc_features_def
  by (auto intro!: yields_optional_array simp: store_ok_empty feature_tables_store_ok f64_matrices_store_ok)
    (auto intro!: yields_bind yields_of_res, (erule file_store_ok | erule ipc_store_ok | simp add: yields_def refuse_def)+)

definition builds :: "c_env \<Rightarrow> ('f \<Rightarrow> bool) \<Rightarrow> ('f \<Rightarrow> provider_state res) \<Rightarrow> bool" where
  "builds env good build \<longleftrightarrow>
     (\<forall>d state. good d \<longrightarrow> build d = Inr state \<longrightarrow>
        (\<exists>S T. store_ok S \<and> nd_store_ok T \<and> provider_reachable (ce_external env) S T (ps_provider state)))"

lemma builds_provider:
  "builds env store_ok (provider_state_new (ce_external env) e tables)"
  "builds env nd_store_ok (provider_state_new_with_tensors (ce_external env) e tables [])"
proof -
  have [simp]: "nd_store_ok []" by (simp add: nd_store_ok_def bt.wf_empty)
  show "builds env store_ok (provider_state_new (ce_external env) e tables)"
    by (auto simp: builds_def provider_state_new_def provider_new_def rbind_eq_Inr dest: provider_fresh)
      (metis \<open>nd_store_ok []\<close> provider_fresh)
  show "builds env nd_store_ok (provider_state_new_with_tensors (ce_external env) e tables [])"
    by (auto simp: builds_def provider_state_new_with_tensors_def rbind_eq_Inr)
      (metis store_ok_empty provider_fresh)
qed

lemma keeps_built:
  assumes "builds env good build" and "good d"
  shows "keeps env P (call_bind (of_res (build d)) publish_provider)"
  by (rule keeps_yields [OF _ yields_of_res [where Q = "\<lambda>state. \<exists>S T. store_ok S \<and> nd_store_ok T \<and>
      provider_reachable (ce_external env) S T (ps_provider state)"]])
    (use assms keeps_publish_provider in \<open>auto simp: builds_def intro: call_rules\<close>)

section \<open>Every entry point\<close>

definition hosts ::
  "c_env \<Rightarrow> (hosted \<Rightarrow> bool) \<Rightarrow> (cabi \<Rightarrow> (status \<times> 'o \<times> c_str slot \<times> cabi) option) \<Rightarrow> bool"
where
  "hosts env P entry \<longleftrightarrow>
     (\<forall>s st out err s'. entry s = Some (st, out, err, s') \<longrightarrow> P (cb_hosted s) \<longrightarrow> cabi_ok env s \<longrightarrow>
        cabi_ok env s' \<and> evolves env (cb_hosted s) (cb_hosted s'))"

definition hosts_silently :: "c_env \<Rightarrow> (hosted \<Rightarrow> bool) \<Rightarrow> (cabi \<Rightarrow> (status \<times> 'o \<times> cabi) option) \<Rightarrow> bool" where
  "hosts_silently env P entry \<longleftrightarrow>
     (\<forall>s st out s'. entry s = Some (st, out, s') \<longrightarrow> P (cb_hosted s) \<longrightarrow> cabi_ok env s \<longrightarrow>
        cabi_ok env s' \<and> evolves env (cb_hosted s) (cb_hosted s'))"

abbreviation always :: "hosted \<Rightarrow> bool" where
  "always \<equiv> \<lambda>_. True"

lemma box_view_reports:
  "box_view (snd (report_refusal m out r s)) = box_view s" "box_view (record_refusal m r s) = box_view s"
  by (cases r; simp add: set_error_message_def set_display_error_def set_string_def record_arg_error_def
      record_data_error_def store_last_error_def split: prod.split)+

lemma hosts_answer:
  assumes "keeps env P body"
  shows "hosts env P (answer m error_out idle body)"
  unfolding hosts_def
proof (intro allI impI)
  fix s st out err s'
  assume run: "answer m error_out idle body s = Some (st, out, err, s')" and P: "P (cb_hosted s)" and ok: "cabi_ok env s"
  obtain r s1 where body: "body s = Some (r, s1)" using run by (cases "body s") (auto simp: answer_def)
  have "box_view s' = box_view s1"
  proof (cases r)
    case (Inl f)
    then have "s' = snd (report_refusal m (cleared default_string error_out) f s1)"
      using run body by (auto simp: answer_def split: prod.splits)
    then show ?thesis by (simp only: box_view_reports)
  qed (use run body in \<open>auto simp: answer_def\<close>)
  with keepsD [OF assms body P ok] show "cabi_ok env s' \<and> evolves env (cb_hosted s) (cb_hosted s')"
    by (simp add: cabi_ok_def)
qed

lemma hosts_answer_silently:
  assumes "keeps env P body"
  shows "hosts_silently env P (answer_silently m idle body)"
  unfolding hosts_silently_def
proof (intro allI impI)
  fix s st out s'
  assume run: "answer_silently m idle body s = Some (st, out, s')" and P: "P (cb_hosted s)" and ok: "cabi_ok env s"
  obtain r s1 where body: "body s = Some (r, s1)" using run by (cases "body s") (auto simp: answer_silently_def)
  have "box_view s' = box_view s1"
    using run body box_view_reports(2) by (cases r) (auto simp: answer_silently_def)
  with keepsD [OF assms body P ok] show "cabi_ok env s' \<and> evolves env (cb_hosted s) (cb_hosted s')"
    by (simp add: cabi_ok_def)
qed

lemma hosts_plain: "preserves box_view body \<Longrightarrow> hosts env always (answer m error_out idle body)"
  by (rule hosts_answer [OF keeps_preserves])

lemma stateless_host:
  "hosts env always (dagmldata_schema_fingerprint_json env p n cell e)"
  "hosts env always (dagmldata_fold_set_validate_json env p n e)"
  "hosts env always (dagmldata_aggregation_policy_validate_json env p n e)"
  "hosts env always (dagmldata_fold_set_fingerprint_json env p n cell e)"
  "hosts env always (dagmldata_fold_set_validate_against_relations_json env p n q k e)"
  "hosts env always (dagmldata_fitted_adapter_ref_validate_json env p n portable e)"
  "hosts env always (dagmldata_fitted_adapter_manifest_validate_json env p n portable e)"
  "hosts env always (dagmldata_coordinator_feature_collation_json env p n cell e)"
  "hosts env always (dagmldata_coordinator_feature_collation_tensor_f64_json env p n tensor e)"
  "hosts env always (dagmldata_coordinator_feature_collation_tensor_f32_json env p n tensor e)"
  unfolding dagmldata_schema_fingerprint_json_def dagmldata_fold_set_validate_json_def
    dagmldata_aggregation_policy_validate_json_def dagmldata_fold_set_fingerprint_json_def
    dagmldata_fold_set_validate_against_relations_json_def dagmldata_fitted_adapter_ref_validate_json_def
    dagmldata_fitted_adapter_manifest_validate_json_def dagmldata_coordinator_feature_collation_json_def
    dagmldata_coordinator_feature_collation_tensor_f64_json_def
    dagmldata_coordinator_feature_collation_tensor_f32_json_def Let_def
  by (intro hosts_plain call_rules)+

lemma arrow_entry_hosts: "(\<And>q. grows (build q)) \<Longrightarrow> hosts env always (arrow_entry env from_slice build p n out e)"
  unfolding arrow_entry_def by (intro hosts_answer keeps_bind keeps_publish_table call_rules)

lemma arrow_tables_host:
  "hosts env always (dagmldata_coordinator_identity_arrow_json env p n arrow e)"
  "hosts env always (dagmldata_coordinator_target_arrow_json env p n arrow e)"
  "hosts env always (dagmldata_coordinator_multi_target_arrow_json env p n arrow e)"
  "hosts env always (dagmldata_coordinator_feature_arrow_json env p n arrow e)"
  "hosts env always (dagmldata_coordinator_feature_fusion_arrow_json env p n arrow e)"
  unfolding dagmldata_coordinator_identity_arrow_json_def dagmldata_coordinator_target_arrow_json_def
    dagmldata_coordinator_multi_target_arrow_json_def dagmldata_coordinator_feature_arrow_json_def
    dagmldata_coordinator_feature_fusion_arrow_json_def
  by (intro arrow_entry_hosts grows_bind grows_tables grows_simple)+

lemma borrowed_store:
  "borrow_store ptr s = Some (Inr st, s') \<Longrightarrow> \<exists>a. ptr = Some a \<and> bx_objects (cb_hosted s) a \<noteq> None"
  by (auto simp: borrow_store_def bind_eq_Some_conv)

lemma keeps_borrowed_store:
  assumes "\<And>st. keeps env (\<lambda>b. \<exists>a. ptr = Some a \<and> bx_objects b a \<noteq> None) (f st)"
  shows "keeps env P (call_bind (borrow_store ptr) f)"
  by (rule keeps_seq [OF preserves_borrow(1) _ assms]) (rule borrowed_store)

lemma stores_host:
  "hosts env always (dagmldata_inmemory_fitted_adapter_store_register_json env store p n number e)"
  "hosts env always (dagmldata_inmemory_fitted_adapter_store_materialize_json env store p n number e)"
  "hosts env always (dagmldata_inmemory_provider_materialize_fitted_adapter_json env vt p n number e)"
  "hosts_silently env always (dagmldata_inmemory_fitted_adapter_store_release env store i n flag)"
proof -
  show "hosts env always (dagmldata_inmemory_fitted_adapter_store_register_json env store p n number e)"
    unfolding dagmldata_inmemory_fitted_adapter_store_register_json_def Let_def
    by (intro hosts_answer keeps_bind [OF preserves_demand] keeps_borrowed_store keeps_bind [OF preserves_read_json]
        keeps_cases keeps_then [OF keeps_keep_store] call_rules)
  show "hosts_silently env always (dagmldata_inmemory_fitted_adapter_store_release env store i n flag)"
    unfolding dagmldata_inmemory_fitted_adapter_store_release_def Let_def
    by (intro hosts_answer_silently keeps_bind [OF preserves_demand] keeps_borrowed_store keeps_bind [OF preserves_of_res]
        keeps_cases keeps_then [OF keeps_keep_store] call_rules)
qed (unfold dagmldata_inmemory_fitted_adapter_store_materialize_json_def
    dagmldata_inmemory_provider_materialize_fitted_adapter_json_def, (intro hosts_plain call_rules)+)

lemma store_new_hosts: "hosts_silently env always (dagmldata_inmemory_fitted_adapter_store_new env out_store)"
proof -
  have "keeps env always (\<lambda>s. let (a, h) = new_object fitted_store_new (cb_hosted s) in
      Some (Inr (written (Some a) out_store), s\<lparr>cb_hosted := h\<rparr>))"
    by (auto simp: keeps_def cabi_ok_def hosted_ok_def evolves_def new_object_def boxes_wf_def)
  then show ?thesis
    unfolding dagmldata_inmemory_fitted_adapter_store_new_def
    by (intro hosts_answer_silently keeps_bind [OF preserves_demand])
qed

lemma attach_hosts: "hosts env always (dagmldata_inmemory_provider_attach_fitted_adapter_store env vt store e)"
proof -
  have "keeps env always (call_bind (borrow_state (user_data_of vt))
      (\<lambda>state. keep_state (user_data_of vt) (state\<lparr>ps_fitted_adapter_store := store\<rparr>)))"
  proof (rule keeps_seq [OF preserves_borrow(2), where Q = "\<lambda>state b. state_at (user_data_of vt) b = Some state"])
    show "keeps env (\<lambda>b. state_at (user_data_of vt) b = Some state)
        (keep_state (user_data_of vt) (state\<lparr>ps_fitted_adapter_store := store\<rparr>))" for state
      by (rule keeps_weaken [OF keeps_keep_state]) (auto simp: state_at_def bind_eq_Some_conv)
  qed (auto simp: borrow_state_def state_at_def)
  then show ?thesis
    unfolding dagmldata_inmemory_provider_attach_fitted_adapter_store_def
    by (intro hosts_answer keeps_bind [OF preserves_demand])
qed

lemma new_provider_hosts:
  assumes "preserves box_view own_checks" and "preserves box_view own_data" and "yields good own_data"
    and "\<And>e tables. builds env good (build e tables)"
  shows "hosts env always (new_provider_entry env p n q k own_checks own_data build vcell e)"
  unfolding new_provider_entry_def
  by (intro hosts_answer keeps_bind [OF preserves_demand] keeps_bind [OF assms(1)] keeps_bind [OF preserves_read_json]
      keeps_bind [OF preserves_tables(1)] keeps_yields [OF assms(2,3)] keeps_built [OF assms(4)])

lemma yields_views:
  "yields store_ok (of_res (parse_f64_feature_matrix_views rows n))"
  "yields store_ok (of_res (parse_f64_feature_matrix_columnar_views cols n))"
  "yields nd_store_ok (of_res (parse_borrowed_tensor_views views n))"
  "yields store_ok (call_return [])"
  by (rule yields_of_res, erule views_store_ok(1), rule yields_of_res, erule views_store_ok(2),
      rule yields_of_res, erule views_store_ok(3), simp add: yields_def call_return_def store_ok_empty)

lemma providers_host:
  "hosts env always (dagmldata_inmemory_provider_new_json env p n q k vcell e)"
  "hosts env always (dagmldata_inmemory_provider_new_with_features_json env p n q k fp fn vcell e)"
  "hosts env always (dagmldata_inmemory_provider_new_with_f64_features_json env p n q k fp fn vcell e)"
  "hosts env always (dagmldata_inmemory_provider_new_with_tensor_views env p n q k tensors tn vcell e)"
  "hosts env always (dagmldata_inmemory_provider_new_with_f64_feature_views env p n q k rows rn vcell e)"
  "hosts env always (dagmldata_inmemory_provider_new_with_f64_feature_columns env p n q k cols cn vcell e)"
  "hosts env always (dagmldata_inmemory_provider_new_from_file env fs p n q k path pn vcell e)"
  "hosts env always (dagmldata_inmemory_provider_new_from_arrow_ipc env fs p n q k path pn vcell e)"
  unfolding dagmldata_inmemory_provider_new_json_def dagmldata_inmemory_provider_new_with_features_json_def
    dagmldata_inmemory_provider_new_with_f64_features_json_def dagmldata_inmemory_provider_new_with_tensor_views_def
    dagmldata_inmemory_provider_new_with_f64_feature_views_def
    dagmldata_inmemory_provider_new_with_f64_feature_columns_def dagmldata_inmemory_provider_new_from_file_def
    dagmldata_inmemory_provider_new_from_arrow_ipc_def
  by (rule new_provider_hosts, (intro call_rules)?, (intro call_rules)?, (rule yields_views data_yields)?,
      rule builds_provider)+

lemma fetcher_hosts:
  "hosts env always (dagmldata_inmemory_provider_new_with_buffer_fetcher env p n q k f requests rn vcell e)"
proof -
  have one: "preserves box_view (fetch_one fetch r)" for fetch r
  proof -
    have none: "preserves box_view (\<lambda>_. None)" by (simp add: preserves_def)
    let ?body = "\<lambda>reply. call_bind (consume_string_message (fr_error reply)) (\<lambda>message.
        if fr_status reply \<noteq> StatusOk then refuse (BadText (''fetcher rejected request: '' @ message))
        else case f64_feature_matrix_columnar_view_to_core (fr_view reply) of
          Inl e \<Rightarrow> if crashes e then (\<lambda>_. None) else refuse (BadText ''fetcher returned invalid matrix for request'')
        | Inr matrix \<Rightarrow> call_return matrix)"
    have body: "preserves box_view (?body reply)" for reply by (intro call_rules none)
    show ?thesis
      unfolding preserves_def
    proof (intro allI impI)
      fix s x s' assume run: "fetch_one fetch r s = Some (x, s')"
      from preservesD [OF body run [unfolded fetch_one_def Let_def]] show "box_view s' = box_view s" by simp
    qed
  qed
  have all: "preserves box_view (fetch_all fetch rs)" for fetch rs
    by (induction rs) (simp_all add: call_rules one)
  have "preserves box_view (fetch_phase env p n q k f requests rn vcell)"
    unfolding fetch_phase_def by (intro call_rules all)
  then have phase: "preserves box_view (and_destroy f (fetch_phase env p n q k f requests rn vcell))"
    by (auto simp: preserves_def and_destroy_def destroy_fetcher_def)
  have store: "keeps env always (call_bind (of_res (store_from_f64_column_matrices ms))
      (\<lambda>features. call_bind (of_res (provider_state_new (ce_external env) x tables features)) publish_provider))"
    for ms x tables
    by (rule keeps_yields [OF preserves_of_res yields_of_res [where Q = store_ok]], erule column_matrices_store_ok)
      (rule keeps_built [OF builds_provider(1)])
  show ?thesis
    unfolding dagmldata_inmemory_provider_new_with_buffer_fetcher_def
    by (intro hosts_answer keeps_bind [OF phase] keeps_cases store)
qed

lemma callbacks_host:
  "hosts_silently env (counters_left True user_data) (provider_materialize_c env user_data json number)"
  "hosts_silently env (counters_left True user_data) (provider_make_view_c env user_data h json number)"
  "hosts_silently env always (provider_view_identity_c env user_data h arrow)"
  "hosts_silently env always (provider_target_arrow_c env user_data h name arrow)"
  "hosts_silently env always (provider_feature_arrow_c env user_data h name arrow)"
proof -
  show "hosts_silently env (counters_left True user_data) (provider_materialize_c env user_data json number)"
    unfolding provider_materialize_c_def
    by (cases "user_data = None \<or> number = None \<or> bv_ptr json = None")
      (simp_all only: if_True if_False, (intro hosts_answer_silently keeps_preserves call_rules,
        intro hosts_answer_silently keeps_bind [OF preserves_borrow(2)] keeps_bind [OF preserves_read_json]
          keeps_then [OF keeps_operations(1)] call_rules))
  show "hosts_silently env (counters_left True user_data) (provider_make_view_c env user_data h json number)"
    unfolding provider_make_view_c_def
    by (cases "user_data = None \<or> number = None \<or> bv_ptr json = None")
      (simp_all only: if_True if_False, (intro hosts_answer_silently keeps_preserves call_rules,
        intro hosts_answer_silently keeps_bind [OF preserves_borrow(2)] keeps_bind [OF preserves_read_json]
          keeps_then [OF keeps_operations(2)] call_rules))
  have refused: "keeps env always (refuse r :: arrow_out call)" for r
    by (rule keeps_preserves) (rule preserves_refuse)
  show "hosts_silently env always (provider_view_identity_c env user_data h arrow)"
    unfolding provider_view_identity_c_def
    by (intro hosts_answer_silently keeps_bind keeps_publish_table grows_tables call_rules)
  show "hosts_silently env always (provider_target_arrow_c env user_data h name arrow)"
    unfolding provider_target_arrow_c_def
    by (intro hosts_answer_silently keeps_bind keeps_cases refused keeps_publish_table grows_tables call_rules)
  show "hosts_silently env always (provider_feature_arrow_c env user_data h name arrow)"
    unfolding provider_feature_arrow_c_def Let_def
    by (intro hosts_answer_silently keeps_bind keeps_cases refused keeps_publish_table grows_tables call_rules)
qed

lemma provider_json_hosts: "hosts env always (provider_json_entry env to_string f vt cell e)"
  unfolding provider_json_entry_def Let_def by (intro hosts_plain call_rules)

lemma reads_host:
  "hosts env always (dagmldata_inmemory_provider_feature_buffer_manifest_json env vt cell e)"
  "hosts env always (dagmldata_inmemory_provider_data_feature_buffer_manifest_json env vt h cell e)"
  "hosts env always (dagmldata_inmemory_provider_nd_tensor_manifest_json env vt cell e)"
  "hosts env always (dagmldata_inmemory_provider_data_nd_tensor_manifest_json env vt h cell e)"
  "hosts env always (dagmldata_inmemory_provider_nd_tensor_export_json env vt h json owned e)"
  "hosts env always (dagmldata_inmemory_provider_feature_collation_json env vt h json cell e)"
  "hosts env always (dagmldata_inmemory_provider_feature_collation_tensor_f64_json env vt h json tensor e)"
  "hosts env always (dagmldata_inmemory_provider_feature_collation_tensor_f32_json env vt h json tensor e)"
  unfolding dagmldata_inmemory_provider_feature_buffer_manifest_json_def
    dagmldata_inmemory_provider_data_feature_buffer_manifest_json_def
    dagmldata_inmemory_provider_nd_tensor_manifest_json_def
    dagmldata_inmemory_provider_data_nd_tensor_manifest_json_def
    dagmldata_inmemory_provider_nd_tensor_export_json_def
    dagmldata_inmemory_provider_feature_collation_json_def
    dagmldata_inmemory_provider_feature_collation_tensor_f64_json_def
    dagmldata_inmemory_provider_feature_collation_tensor_f32_json_def provider_collation_entry_def
  by (intro provider_json_hosts hosts_plain call_rules)+

lemma hostsD:
  "hosts env P entry \<Longrightarrow> entry s = Some (st, out, err, s') \<Longrightarrow> P (cb_hosted s) \<Longrightarrow> cabi_ok env s \<Longrightarrow>
   cabi_ok env s' \<and> evolves env (cb_hosted s) (cb_hosted s')"
  unfolding hosts_def by blast

lemma hosts_silentlyD:
  "hosts_silently env P entry \<Longrightarrow> entry s = Some (st, out, s') \<Longrightarrow> P (cb_hosted s) \<Longrightarrow> cabi_ok env s \<Longrightarrow>
   cabi_ok env s' \<and> evolves env (cb_hosted s) (cb_hosted s')"
  unfolding hosts_silently_def by blast

lemma handles_left_counters: "handles_left user_data s = counters_left True user_data (cb_hosted s)"
  by (auto simp: handles_left_def counters_left_def counter_left_def state_at_def)

lemma destroyed_hosts:
  assumes "cabi_ok env s"
  shows "dagmldata_inmemory_fitted_adapter_store_destroy store s = Some s' \<Longrightarrow>
      cabi_ok env s' \<and> evolves env (cb_hosted s) (cb_hosted s')"
    and "provider_destroy_c user_data s = Some s' \<Longrightarrow> cabi_ok env s' \<and> evolves env (cb_hosted s) (cb_hosted s')"
    and "provider_release_c user_data h s = Some s' \<Longrightarrow> cabi_ok env s' \<and> evolves env (cb_hosted s) (cb_hosted s')"
proof -
  have wf: "boxes_wf (cb_hosted s)" using assms by (simp add: cabi_ok_def hosted_ok_def)
  show "dagmldata_inmemory_fitted_adapter_store_destroy store s = Some s' \<Longrightarrow>
      cabi_ok env s' \<and> evolves env (cb_hosted s) (cb_hosted s')"
    using assms wf
    by (auto simp: dagmldata_inmemory_fitted_adapter_store_destroy_def drop_object_def cabi_ok_def hosted_ok_def
        evolves_def boxes_wf_def split: option.splits if_splits)
  show "provider_destroy_c user_data s = Some s' \<Longrightarrow> cabi_ok env s' \<and> evolves env (cb_hosted s) (cb_hosted s')"
    using assms wf
    by (auto simp: provider_destroy_c_def drop_private_def cabi_ok_def hosted_ok_def
        evolves_def boxes_wf_def split: option.splits if_splits)
  show "provider_release_c user_data h s = Some s' \<Longrightarrow> cabi_ok env s' \<and> evolves env (cb_hosted s) (cb_hosted s')"
    using keepsD [OF keeps_operations(3) [where P = always], of user_data h s] assms
    by (auto simp: provider_release_c_def split: if_splits)
qed

section \<open>Sessions\<close>

lemmas every_entry_hosts =
  stateless_host arrow_tables_host stores_host(1-3) attach_hosts providers_host fetcher_hosts reads_host
lemmas every_callback_hosts = stores_host(4) store_new_hosts callbacks_host

lemma last_error_boxes: "dagmldata_last_error_json cell s = (st, out, s') \<Longrightarrow> box_view s' = box_view s"
  by (auto simp: dagmldata_last_error_json_def set_string_def Let_def split: option.splits prod.splits if_splits)

lemma destroyed_provider_hosts:
  assumes "dagmldata_inmemory_provider_destroy vcell s = Some (out, s')" and "cabi_ok env s"
  shows "cabi_ok env s' \<and> evolves env (cb_hosted s) (cb_hosted s')"
  using assms destroyed_hosts(2) [OF assms(2)]
  by (auto simp: dagmldata_inmemory_provider_destroy_def split: option.splits if_splits)

lemma freed_hosts:
  assumes "cabi_ok env s"
  shows "arrow_array_free depth ptr (eh_arrays (cb_exports s)) = Some b \<Longrightarrow>
      cabi_ok env (s\<lparr>cb_exports := (cb_exports s)\<lparr>eh_arrays := b\<rparr>\<rparr>)"
    and "arrow_schema_free depth ptr (eh_schemas (cb_exports s)) = Some b' \<Longrightarrow>
      cabi_ok env (s\<lparr>cb_exports := (cb_exports s)\<lparr>eh_schemas := b'\<rparr>\<rparr>)"
  using assms by (simp_all add: cabi_ok_def heap_wf_def freed_wf)

lemma c_call_hosts:
  assumes "c_call env s st items s'" and ok: "cabi_ok env s"
  shows "cabi_ok env s' \<and> evolves env (cb_hosted s) (cb_hosted s')"
  using assms(1)
proof (cases rule: c_call.cases)
  case (c_materialize user_data json number out)
  from hosts_silentlyD [OF callbacks_host(1) this(3) _ ok] this(2) show ?thesis by (simp add: handles_left_counters)
next
  case (c_make_view user_data h json number out)
  from hosts_silentlyD [OF callbacks_host(2) this(3) _ ok] this(2) show ?thesis by (simp add: handles_left_counters)
next
  case (c_last_error cell out)
  from same_boxes_kept [OF last_error_boxes [OF this(2)] ok] show ?thesis .
qed (use ok in \<open>auto dest: every_entry_hosts [THEN hostsD] every_callback_hosts [THEN hosts_silentlyD]
    destroyed_hosts [OF ok] destroyed_provider_hosts freed_hosts [OF ok]\<close>)

end
