(* ===== verification/C_Barrier.thy ===== *)
theory C_Barrier
  imports C_Hosting Provider_Fusion
begin

text \<open>
  What sessions guarantee of the providers behind their pointers: each is one that \<open>Provider_Safety\<close> knows, and
  the external test cohort stays out of every feature table that is exported on a view of a training handle.
\<close>

section \<open>Later moments of a session\<close>

inductive c_later :: "c_env \<Rightarrow> cabi \<Rightarrow> cabi \<Rightarrow> bool" for env where
  later_now: "c_later env s s"
| later_call: "c_later env s t \<Longrightarrow> c_call env t st items u \<Longrightarrow> c_later env s u"
| later_free: "c_later env s t \<Longrightarrow> free_item x (cb_heap t) = Some h \<Longrightarrow> c_later env s (t\<lparr>cb_heap := h\<rparr>)"

lemma cabi_ok_heap [simp]: "cabi_ok env (t\<lparr>cb_heap := h\<rparr>) \<longleftrightarrow> cabi_ok env t"
  by (simp add: cabi_ok_def)

lemma later_hosts:
  assumes "c_later env s t" and "cabi_ok env s"
  shows "cabi_ok env t \<and> evolves env (cb_hosted s) (cb_hosted t)"
  using assms
proof (induction rule: c_later.induct)
  case (later_call s t st items u)
  then have t: "cabi_ok env t" "evolves env (cb_hosted s) (cb_hosted t)" by simp_all
  from c_call_hosts [OF later_call.hyps(2) t(1)] t(2) show ?case using evolves_trans by blast
qed simp_all

lemma cabi_start_ok: "cabi_ok env cabi_start"
  by (simp add: cabi_ok_def hosted_ok_def cabi_start_def no_boxes_def no_exports_def boxes_wf_def heap_wf_def)

lemma session_cabi_ok: "c_session env s held \<Longrightarrow> cabi_ok env s"
proof (induction rule: c_session.induct)
  case session_start
  show ?case by (rule cabi_start_ok)
next
  case (session_call s held st items s')
  from c_call_hosts [OF session_call.hyps(2) session_call.IH] show ?case ..
qed simp

lemma session_provider:
  "c_session env s held \<Longrightarrow> bx_privates (cb_hosted s) a = Some state \<Longrightarrow>
   \<exists>S T. store_ok S \<and> nd_store_ok T \<and> provider_reachable (ce_external env) S T (ps_provider state)"
  using session_cabi_ok by (auto simp: cabi_ok_def hosted_ok_def)

section \<open>Fused samples come from the sources\<close>

lemma fused_samples_of_sources:
  assumes "fuse_feature_blocks feature_set_id blocks al ns = Inr out" and "x \<in> set (fb_sample_ids out)"
  shows "\<exists>sb\<in>set blocks. x \<in> set (fb_sample_ids (sb_block sb))"
proof -
  have fusable: "fusable feature_set_id blocks al ns" and out: "out = fused_block feature_set_id blocks al ns"
    using assms(1) by (simp_all add: fuse_feature_blocks_lemma)
  have "x \<in> set (ap_sample_ids al)"
    using assms(2) by (auto simp: out fused_block_def fused_rows_def Let_def split: if_splits)
  then obtain i where i: "i < length (ap_sample_ids al)" "ap_sample_ids al ! i = x" by (auto simp: in_set_conv_nth)
  then obtain m where m: "m \<in> set (ap_masks al)" "pm_present m ! i"
    using fusable by (auto simp: fusable_def alignment_plan_validate_ok)
  then have "pm_source_id m \<in> set (map sb_source_id blocks)"
    using fusable unfolding fusable_def by (metis (no_types, lifting) image_eqI set_map)
  then obtain sb where sb: "sb \<in> set blocks" "sb_source_id sb = pm_source_id m" by auto
  then have "pm_present m = map (\<lambda>s. s \<in> set (fb_sample_ids (sb_block sb))) (ap_sample_ids al)"
    using fusable m(1) by (simp add: fusable_def presence_ok_def)
  then show ?thesis using m(2) i sb(1) by auto
qed

lemma fusion_serves:
  assumes "feature_fusion_block json_f64 (\<lambda>_. p) k selector = Inr out" and "x \<in> set (fb_sample_ids out)"
  shows "serves_sample p k x"
proof -
  obtain blocks where blocks: "map_res (fusion_block_of_source json_f64 (\<lambda>_. p) k) (List.enumerate 0 (fs_sources selector)) =
        Inr blocks"
      "fuse_feature_blocks (fs_feature_set_id selector) blocks (fs_alignment selector) (fs_namespace_columns selector) = Inr out"
    using assms(1) by (auto simp: feature_fusion_block_def rbind_eq_Inr split: if_splits)
  from fused_samples_of_sources [OF blocks(2) assms(2)] obtain sb where
    sb: "sb \<in> set blocks" "x \<in> set (fb_sample_ids (sb_block sb))" by blast
  obtain i where i: "i < length blocks" "sb = blocks ! i" using sb(1) by (auto simp: in_set_conv_nth)
  let ?numbered = "List.enumerate 0 (fs_sources selector) ! i"
  have "fusion_block_of_source json_f64 (\<lambda>_. p) k ?numbered = Inr sb"
    unfolding i(2) by (rule map_res_nth [OF blocks(1)]) (use i(1) map_res_length [OF blocks(1)] in simp)
  then show ?thesis
    using sb(2) by (auto simp: fusion_block_of_source_def rbind_eq_Inr split: prod.splits intro: in_feature_block)
qed

section \<open>A view of a training handle\<close>

text \<open>A view made of a handle that has just been materialized belongs to its record, as long as both live.\<close>

lemma view_of_minted_handle:
  assumes "provider_wf ex S T p" and "pv_arenas p = Some s" and "ha_next_handle (pa_handles s) \<noteq> - 1"
    and "provider_materialize ex q p = (Inr r, p1)" and "(provider_step ex)\<^sup>*\<^sup>* p1 p2"
    and "pv_arenas p2 = Some s2" and "ha_next_handle (pa_handles s2) \<noteq> - 1"
    and "provider_make_view ex (hr_handle (dh_handle r)) v p2 = (Inr w, p3)" and "(provider_step ex)\<^sup>*\<^sup>* p3 p4"
    and "pv_arenas p4 = Some s4" and "view_record (pa_handles s4) (hr_handle (vh_handle w)) = Some vr"
  shows "vh_parent_handle vr = dh_handle r" and "(provider_step ex)\<^sup>*\<^sup>* p1 p4"
proof -
  let ?h = "hr_handle (dh_handle r)" and ?k = "hr_handle (vh_handle w)"
  have wf: "arena_wf ex (pa_handles s)" using assms(1,2) by (simp add: provider_wf_def)
  obtain s1 H where H: "materialize ex (pv_envelope p) q (pa_handles s) = Inr (r, H)"
    and s1: "pv_arenas p1 = Some s1" "pa_handles s1 = H"
    using provider_materialize_eq [OF assms(1,2), of q] assms(4) by (auto split: sum.splits)
  have "provider_step ex p p1"
    using provider_step.provider_materializes [of p ex q "Inr r" p1] assms(2-4) by simp
  then have wf1: "provider_wf ex S T p1" by (rule provider_step_simulates(1) [OF assms(1)])
  then have H_wf: "arena_wf ex H" using s1 by (simp add: provider_wf_def)
  from provider_steps_simulate [OF assms(5) wf1] assms(6) s1
  have wf2: "provider_wf ex S T p2" and steps: "(arena_step ex)\<^sup>*\<^sup>* H (pa_handles s2)" by auto
  obtain s3 G where made_view: "make_view ex ?h v (pa_handles s2) = Inr (w, G)" and s3: "pv_arenas p3 = Some s3" "pa_handles s3 = G"
    using provider_make_view_eq [OF wf2 assms(6), of ?h v] assms(8) by (auto split: sum.splits)
  have step3: "provider_step ex p2 p3"
    using provider_step.provider_makes_view [of p2 ex ?h v "Inr w" p3] assms(6-8) by simp
  then have wf3: "provider_wf ex S T p3" by (rule provider_step_simulates(1) [OF wf2])
  then have G_wf: "arena_wf ex G" using s3 by (simp add: provider_wf_def)
  show "(provider_step ex)\<^sup>*\<^sup>* p1 p4" using assms(5) step3 assms(9) by simp
  obtain parent relations selectors where parent: "map_of (ha_records (pa_handles s2)) ?h = Some parent"
      "w = minted_view (pa_handles s2) parent v (selected_by_view ex v selectors relations)"
      "G = with_view (pa_handles s2) w (selected_by_view ex v selectors relations)"
    using made_view by (auto simp: make_view_ok)
  have entry: "map_of (ha_records H) ?h = Some r"
    using materialize_granted(2) [OF wf H] by (simp add: handle_record_def)
  have "handle_facts (pa_handles s2) ?h = handle_facts H ?h"
    by (rule handle_facts_steps [OF steps H_wf]) (use parent(1) entry in \<open>auto simp: live_handles_def\<close>)
  then have "parent = r" using parent(1) entry by (simp add: handle_facts_def)
  then have "vh_parent_handle w = dh_handle r" unfolding parent(2) by (simp add: minted_view_def)
  moreover have "vr = w"
  proof -
    have made: "map_of (ha_view_records G) ?k = Some w"
      unfolding parent(3) by (simp add: with_view_def map_of_bt_insert parent(2) minted_view_def)
    have "(arena_step ex)\<^sup>*\<^sup>* G (pa_handles s4)" using provider_steps_simulate [OF assms(9) wf3] assms(10) s3 by auto
    then have "handle_facts (pa_handles s4) ?k = handle_facts G ?k"
      by (rule handle_facts_steps [OF _ G_wf])
        (use made assms(11) in \<open>auto simp: live_handles_def view_record_def\<close>)
    then show ?thesis using made assms(11) by (simp add: handle_facts_def view_record_def)
  qed
  ultimately show "vh_parent_handle vr = dh_handle r" by simp
qed

lemma minted_view_avoids_cohort:
  assumes "provider_wf ex S T p" and "pv_arenas p = Some s" and "ha_next_handle (pa_handles s) \<noteq> - 1"
    and "provider_materialize ex q p = (Inr r, p1)" and "(provider_step ex)\<^sup>*\<^sup>* p1 p2"
    and "\<And>s2. pv_arenas p2 = Some s2 \<Longrightarrow> ha_next_handle (pa_handles s2) \<noteq> - 1"
    and "provider_make_view ex (hr_handle (dh_handle r)) v p2 = (Inr w, p3)" and "(provider_step ex)\<^sup>*\<^sup>* p3 p4"
    and "en_predict_cohort (pv_envelope p) = Some c" and "pc_role c = ExternalTest"
    and "mr_predict_cohort q = None" and "training_phase q"
    and "serves_sample p4 (hr_handle (vh_handle w)) x" and "y \<in> set (rs_records (pc_relations c))"
  shows "x \<noteq> cr_sample_id y \<and> cr_origin_sample_id y \<noteq> Some x"
proof -
  obtain s2 where s2: "pv_arenas p2 = Some s2"
    using assms(7) by (cases "pv_arenas p2") (simp_all add: provider_make_view_def)
  have "provider_step ex p p1"
    using provider_step.provider_materializes [of p ex q "Inr r" p1] assms(2-4) by simp
  then have wf1: "provider_wf ex S T p1" by (rule provider_step_simulates(1) [OF assms(1)])
  obtain s4 where s4: "pv_arenas p4 = Some s4"
  proof (cases "pv_arenas p4")
    case None
    from assms(13) show ?thesis
      by cases (simp_all add: None feature_block_filtered_def provider_feature_block_f64_def
          provider_nd_tensor_block_def provider_target_block_def rbind_eq_Inr)
  qed
  have "(provider_step ex)\<^sup>*\<^sup>* p1 p4" 
    using assms(5,8) provider_step.provider_makes_view [OF assms(6,7)] by simp
  then have "arena_wf ex (pa_handles s4)" using provider_steps_simulate [OF _ wf1] s4 by (auto simp: provider_wf_def)
  moreover obtain view where "view_identity (pa_handles s4) (hr_handle (vh_handle w)) = Inr view"
    using served_from_view [OF assms(13) s4] by blast
  ultimately have "hr_handle (vh_handle w) \<in> dom (map_of (ha_view_records (pa_handles s4)))"
    unfolding arena_wf_def maps_ok_def by (metis domI ok_or_eq_Inr view_identity_def)
  then obtain vr where "view_record (pa_handles s4) (hr_handle (vh_handle w)) = Some vr"
    by (auto simp: view_record_def)
  note parent = view_of_minted_handle [OF assms(1-5) s2 assms(6) [OF s2] assms(7,8) s4 this]
  show ?thesis
    by (rule served_samples_avoid_cohort [OF assms(1-4) parent(2) s4 \<open>view_record _ _ = Some vr\<close> parent(1) assms(9-14)])
qed

section \<open>What the callbacks answer\<close>

lemma answered_silently_ok:
  "answer_silently m idle body s = Some (StatusOk, out, s') \<longleftrightarrow> body s = Some (Inr out, s')"
proof -
  have "refusal_status r \<noteq> StatusOk" for r by (cases r) simp_all
  then show ?thesis by (auto simp: answer_silently_def split: option.splits sum.splits)
qed

lemma call_bind_ok: "call_bind m f s = Some (Inr y, s') \<longleftrightarrow> (\<exists>x t. m s = Some (Inr x, t) \<and> f x t = Some (Inr y, s'))"
  by (auto simp: call_bind_eq)

lemma call_steps_ok:
  "call_return x s = Some (Inr y, s') \<longleftrightarrow> y = x \<and> s' = s"
  "refuse r s = Some (Inr y, s') \<longleftrightarrow> False"
  "of_res u s = Some (Inr y, s') \<longleftrightarrow> u = Inr y \<and> s' = s"
  "demand ok message s = Some (Inr v, s') \<longleftrightarrow> ok \<and> s' = s"
  "borrow_state ptr s = Some (Inr state, s') \<longleftrightarrow> (\<exists>a. ptr = Some a \<and> bx_privates (cb_hosted s) a = Some state) \<and> s' = s"
  by (auto simp: call_return_def refuse_def of_res_def answered_eq demand_def borrow_state_def bind_eq_Some_conv
      split: sum.splits)

lemma read_json_ok:
  "read_json from_slice ptr len s = Some (Inr x, s') \<longleftrightarrow>
     (\<exists>bytes. raw_slice ptr len = Inr bytes \<and> from_slice bytes = Inr x) \<and> s' = s"
proof -
  have "(case from_slice bytes of Inl msg \<Rightarrow> refuse (BadData (Serialization msg)) | Inr x \<Rightarrow> call_return x) t =
      Some (Inr x, s') \<longleftrightarrow> from_slice bytes = Inr x \<and> s' = t" for bytes t
    by (cases "from_slice bytes") (auto simp: call_steps_ok)
  then show ?thesis by (auto simp: read_json_def call_bind_ok call_steps_ok)
qed

lemma on_provider_ok:
  "on_provider ptr f s = Some (Inr x, s') \<longleftrightarrow>
     (\<exists>a state p. ptr = Some a \<and> bx_privates (cb_hosted s) a = Some state \<and> f (ps_provider state) = (Inr x, p) \<and>
        s' = s\<lparr>cb_hosted := (cb_hosted s)\<lparr>bx_privates :=
          (bx_privates (cb_hosted s))(a := Some (state\<lparr>ps_provider := p\<rparr>))\<rparr>\<rparr>)"
proof -
  have "(case f (ps_provider state) of (result, p) \<Rightarrow>
        call_bind (keep_state ptr (state\<lparr>ps_provider := p\<rparr>)) (\<lambda>_. of_res result)) t = Some (Inr x, s') \<longleftrightarrow>
      (\<exists>a p. ptr = Some a \<and> f (ps_provider state) = (Inr x, p) \<and>
         s' = t\<lparr>cb_hosted := (cb_hosted t)\<lparr>bx_privates :=
           (bx_privates (cb_hosted t))(a := Some (state\<lparr>ps_provider := p\<rparr>))\<rparr>\<rparr>)" for state t
    by (cases "f (ps_provider state)") (auto simp: call_bind_ok call_steps_ok keep_state_def)
  then show ?thesis by (auto simp: on_provider_def call_bind_ok call_steps_ok)
qed

lemmas callback_ok = answered_silently_ok call_bind_ok call_steps_ok read_json_ok on_provider_ok

lemma materialized_c:
  assumes "provider_materialize_c env (Some a) json out s = Some (StatusOk, Some h, s')"
    and "raw_slice (bv_ptr json) (bv_len json) = Inr bytes" and "rd_materialization (ce_readers env) bytes = Inr q"
  shows "\<exists>state r p. bx_privates (cb_hosted s) a = Some state \<and>
    provider_materialize (ce_external env) q (ps_provider state) = (Inr r, p) \<and> h = hr_handle (dh_handle r) \<and>
    bx_privates (cb_hosted s') a = Some (state\<lparr>ps_provider := p\<rparr>)"
  using assms by (auto simp: provider_materialize_c_def callback_ok split: if_splits)

lemma view_made_c:
  assumes "provider_make_view_c env (Some a) h json out s = Some (StatusOk, Some k, s')"
  shows "\<exists>state v w p. bx_privates (cb_hosted s) a = Some state \<and>
    provider_make_view (ce_external env) h v (ps_provider state) = (Inr w, p) \<and> k = hr_handle (vh_handle w) \<and>
    bx_privates (cb_hosted s') a = Some (state\<lparr>ps_provider := p\<rparr>)"
proof -
  obtain state v w p where "bx_privates (cb_hosted s) a = Some state" "k = hr_handle (vh_handle w)"
      "provider_make_view (ce_external env) h v (ps_provider state) = (Inr w, p)"
      "bx_privates (cb_hosted s') a = Some (state\<lparr>ps_provider := p\<rparr>)"
    using assms by (auto simp: provider_make_view_c_def callback_ok split: if_splits)
  then show ?thesis by blast
qed

lemma features_exported_c:
  assumes "provider_feature_arrow_c env (Some a) k name out s = Some (StatusOk, (Some (Some arr), Some (Some sch)), s')"
  shows "\<exists>state f. bx_privates (cb_hosted s) a = Some state \<and>
    export_pair (build_feature_arrow (ce_number_f64 env) f) (cb_exports s) = (Inr (arr, sch), cb_exports s') \<and>
    (\<forall>x\<in>set (fb_sample_ids f). serves_sample (ps_provider state) k x)"
proof -
  have table: "export_pair m (cb_exports t) = (Inr (arr, sch), cb_exports t')"
    if "publish_table m t = Some (Inr (Some (Some arr), Some (Some sch)), t')" for m t t'
    using that by (auto simp: publish_table_def callback_ok exporting_def answered_eq split: prod.splits sum.splits)
  have "serves_sample p k x"
    if "provider_feature_block jf p k set_id = Inr f" "x \<in> set (fb_sample_ids f)" for jf p set_id f x
    using that by (auto simp: provider_feature_block_def intro: in_feature_block)
  with assms show ?thesis
    by (auto simp: provider_feature_arrow_c_def read_provider_def callback_ok Let_def split: if_splits
        dest!: table intro: fusion_serves)
qed

section \<open>The guarantees\<close>

lemma evolved_provider:
  assumes "evolves env b b'" and "boxes_wf b" and "bx_privates b a = Some state" and "bx_privates b' a = Some state'"
  shows "(provider_step (ce_external env))\<^sup>*\<^sup>* (ps_provider state) (ps_provider state')"
proof -
  have "a < bx_next b" using assms(2,3) by (metis boxes_wf_fresh not_le option.distinct(1))
  with assms(1,3,4) show ?thesis by (auto simp: evolves_def)
qed

lemma handles_left_at:
  "handles_left (Some a) s \<Longrightarrow> bx_privates (cb_hosted s) a = Some state \<Longrightarrow>
   pv_arenas (ps_provider state) = Some arenas \<Longrightarrow> ha_next_handle (pa_handles arenas) \<noteq> - 1"
  by (simp add: handles_left_def)

text \<open>
  C4. Every live provider of a session is sound. Behind whatever pointer a provider lives at, at any moment of
  any session, it is one that was constructed over valid stores and has only taken the steps of its clients.
\<close>

theorem session_providers_sound:
  assumes "c_session env s held" and "bx_privates (cb_hosted s) a = Some state"
  shows "\<exists>S T. store_ok S \<and> nd_store_ok T \<and> provider_reachable (ce_external env) S T (ps_provider state)"
  by (rule session_provider [OF assms])

text \<open>
  C1. The test set barrier up to the host's memory. In any session with the C ABI, let a provider whose
  envelope carries an external test cohort materialize a handle in a training phase, without naming a cohort.
  Whatever the host calls and frees in between, every feature table, fused or not, that is later exported on
  a view of that handle shows a sample column without any sample of the cohort and any origin of one.
\<close>

theorem exported_tables_avoid_test_cohort:
  assumes "c_session env s0 held" and "bx_privates (cb_hosted s0) a = Some state"
    and "en_predict_cohort (pv_envelope (ps_provider state)) = Some c" and "pc_role c = ExternalTest"
    and "raw_slice (bv_ptr request) (bv_len request) = Inr bytes"
    and "rd_materialization (ce_readers env) bytes = Inr q" and "mr_predict_cohort q = None" and "training_phase q"
    and "handles_left (Some a) s0"
    and "provider_materialize_c env (Some a) request out s0 = Some (StatusOk, Some h, s1)"
    and "c_later env s1 s2" and "handles_left (Some a) s2"
    and "provider_make_view_c env (Some a) h selector out' s2 = Some (StatusOk, Some k, s3)"
    and "c_later env s3 s4"
    and "provider_feature_arrow_c env (Some a) k name tables s4 =
      Some (StatusOk, (Some (Some arr), Some (Some sch)), s5)"
  shows "\<exists>rows fields ids. import_table (cb_exports s5) arr sch = Some (''coordinator_features'', rows, fields) \<and>
    (''sample_id'', False, texts ids) \<in> set fields \<and>
    (\<forall>x\<in>set ids. \<forall>y\<in>set (rs_records (pc_relations c)). x \<noteq> cr_sample_id y \<and> cr_origin_sample_id y \<noteq> Some x)"
proof -
  let ?ex = "ce_external env" and ?p = "ps_provider state"
  have ok0: "cabi_ok env s0" by (rule session_cabi_ok [OF assms(1)])
  obtain r p1 where m: "provider_materialize ?ex q ?p = (Inr r, p1)" "h = hr_handle (dh_handle r)"
      "bx_privates (cb_hosted s1) a = Some (state\<lparr>ps_provider := p1\<rparr>)"
    using materialized_c [OF assms(10,5,6)] assms(2) by auto
  obtain st2 v w p3 where v: "bx_privates (cb_hosted s2) a = Some st2"
      "provider_make_view ?ex h v (ps_provider st2) = (Inr w, p3)" "k = hr_handle (vh_handle w)"
      "bx_privates (cb_hosted s3) a = Some (st2\<lparr>ps_provider := p3\<rparr>)"
    using view_made_c [OF assms(13)] by blast
  obtain st4 f where f: "bx_privates (cb_hosted s4) a = Some st4"
      "export_pair (build_feature_arrow (ce_number_f64 env) f) (cb_exports s4) = (Inr (arr, sch), cb_exports s5)"
      "\<forall>x\<in>set (fb_sample_ids f). serves_sample (ps_provider st4) k x"
    using features_exported_c [OF assms(15)] by blast
  have ok1: "cabi_ok env s1" using c_call_hosts [OF c_materialize [OF assms(9,10)] ok0] ..
  have ok2: "cabi_ok env s2" "evolves env (cb_hosted s1) (cb_hosted s2)" using later_hosts [OF assms(11) ok1] by simp_all
  have ok3: "cabi_ok env s3" using c_call_hosts [OF c_make_view [OF assms(12,13)] ok2(1)] ..
  have ok4: "cabi_ok env s4" "evolves env (cb_hosted s3) (cb_hosted s4)" using later_hosts [OF assms(14) ok3] by simp_all
  have wf: "boxes_wf (cb_hosted s1)" "boxes_wf (cb_hosted s3)" "heap_wf (cb_exports s4)"
    using ok1 ok3 ok4(1) by (simp_all add: cabi_ok_def hosted_ok_def)
  have steps: "(provider_step ?ex)\<^sup>*\<^sup>* p1 (ps_provider st2)" "(provider_step ?ex)\<^sup>*\<^sup>* p3 (ps_provider st4)"
    using evolved_provider [OF ok2(2) wf(1) m(3) v(1)] evolved_provider [OF ok4(2) wf(2) v(4) f(1)] by simp_all
  obtain S T where "provider_wf ?ex S T ?p"
    using session_provider [OF assms(1,2)] provider_reachable_wf by blast
  note provider = this
  obtain arenas where arenas: "pv_arenas ?p = Some arenas"
    using m(1) by (cases "pv_arenas ?p") (simp_all add: provider_materialize_def)
  have "x \<noteq> cr_sample_id y \<and> cr_origin_sample_id y \<noteq> Some x"
    if "x \<in> set (fb_sample_ids f)" "y \<in> set (rs_records (pc_relations c))" for x y
    by (rule minted_view_avoids_cohort [OF provider arenas handles_left_at [OF assms(9,2) arenas] m(1) steps(1)
        handles_left_at [OF assms(12) v(1)] v(2) [unfolded m(2)] steps(2) assms(3,4,7,8) _ that(2)])
      (use f(3) that(1) v(3) in simp_all)
  then show ?thesis using feature_table_exported [OF wf(3) f(2)] by (auto simp: table_exported_def)
qed

end
