(* ===== verification/C_Demo.thy ===== *)
theory C_Demo
  imports C_Barrier C_Fetcher Provider_Demo
begin

text \<open>
  A session with the C ABI: the campaign of \<open>Provider_Demo\<close>, driven through the entry points by a host that
  constructs the provider, materializes a handle for a fit, makes a view of it and exports its features.
\<close>

section \<open>The parameters\<close>

definition demo_matrix :: f64_matrix where
  "demo_matrix =
     \<lparr>fm_feature_set_id = ''x'', fm_representation_id = Ident ''spectra'', fm_feature_names = [''w''],
      fm_observation_ids = [Ident ''a'', Ident ''b''], fm_values = [f64_zero, f64_zero],
      fm_validity_mask = Some [True, False]\<rparr>"

definition demo_readers :: c_readers where
  "demo_readers =
     \<lparr>rd_schema = (\<lambda>_. Inl ''syntax''), rd_fold_set = (\<lambda>_. Inl ''syntax''),
      rd_aggregation_policy = (\<lambda>_. Inl ''syntax''), rd_relation_table = (\<lambda>_. Inl ''syntax''),
      rd_fitted_ref = (\<lambda>_. Inl ''syntax''), rd_fitted_manifest = (\<lambda>_. Inl ''syntax''),
      rd_fitted_request = (\<lambda>_. Inl ''syntax''), rd_envelope = (\<lambda>_. Inr demo_envelope),
      rd_target_request = (\<lambda>_. Inl ''syntax''), rd_multi_target_request = (\<lambda>_. Inl ''syntax''),
      rd_feature_request = (\<lambda>_. Inl ''syntax''), rd_fusion_request = (\<lambda>_. Inl ''syntax''),
      rd_collation_json_request = (\<lambda>_. Inl ''syntax''), rd_target_tables = (\<lambda>_. Inr []),
      rd_feature_tables = (\<lambda>_. Inr []), rd_f64_matrices = (\<lambda>_. Inr [demo_matrix]),
      rd_materialization = (\<lambda>_. Inr demo_request), rd_view = (\<lambda>_. Inr default_view),
      rd_collation_request = (\<lambda>_. Inl ''syntax''), rd_nd_selector = (\<lambda>_. Inl ''syntax''),
      rd_fusion_selector = (\<lambda>_. Inl ''syntax'')\<rparr>"

definition demo_env :: c_env where
  "demo_env =
     \<lparr>ce_messages = \<lparr>ms_descriptor = (\<lambda>_. None), ms_display = (\<lambda>_. ''error''), ms_argument = id\<rparr>,
      ce_codecs = \<lparr>cd_external = demo_external, cd_encode_schema = (\<lambda>_. Inr []), cd_encode_table = (\<lambda>_. Inr []),
        cd_number_f64 = (\<lambda>_. None)\<rparr>,
      ce_readers = demo_readers,
      ce_writers = \<lparr>wr_tensor_block = (\<lambda>_. Inr []), wr_manifests = (\<lambda>_. Inr []), wr_bindings = (\<lambda>_. Inr []),
        wr_nd_manifests = (\<lambda>_. Inr []), wr_nd_bindings = (\<lambda>_. Inr [])\<rparr>,
      ce_fold_set_value = (\<lambda>_. Inr JNull), ce_sort_objects = id, ce_value_bytes = (\<lambda>_. Inr []),
      ce_relation_json = (\<lambda>_. Inr []), ce_json_f64 = (\<lambda>_. JNull), ce_can_reserve = (\<lambda>_. True),
      ce_ipc_file = (\<lambda>_. Inl ''not an arrow IPC file'')\<rparr>"

lemma demo_env_simps [simp]:
  "ce_external demo_env = demo_external" "ce_number_f64 demo_env = (\<lambda>_. None)" "ce_json_f64 demo_env = (\<lambda>_. JNull)"
  "rd_envelope (ce_readers demo_env) = (\<lambda>_. Inr demo_envelope)"
  "rd_f64_matrices (ce_readers demo_env) = (\<lambda>_. Inr [demo_matrix])"
  "rd_materialization (ce_readers demo_env) = (\<lambda>_. Inr demo_request)"
  "rd_view (ce_readers demo_env) = (\<lambda>_. Inr default_view)"
  by (simp_all add: demo_env_def demo_readers_def)

text \<open>The state in which the provider is all there is, behind the first address.\<close>

definition demo_state :: "provider \<Rightarrow> provider_state" where
  "demo_state p = \<lparr>ps_provider = p, ps_fitted_adapter_store = None\<rparr>"

definition demo_hosting :: "provider \<Rightarrow> cabi" where
  "demo_hosting p = cabi_start\<lparr>cb_hosted := snd (new_private (demo_state p) no_boxes)\<rparr>"

definition no_json :: bytes_view where
  "no_json = \<lparr>bv_ptr = Some [], bv_len = 0\<rparr>"

section \<open>The calls\<close>

lemma demo_store: "store_from_f64_matrices [demo_matrix] = Inr demo_features"
proof -
  have "f64_is_finite f64_zero" by (simp add: f64_is_finite_def f64_exponent_def f64_zero_def)
  then have "f64_matrix_validate demo_matrix = Inr ()"
    by (simp add: f64_matrix_validate_def demo_matrix_def validate_feature_shape_def each_unique_ok mask_at_def
        is_blank_graphic is_ascii_graphic_def byte_of_def)
  then have "from_f64_matrix demo_matrix = Inr demo_spectra"
    by (simp add: from_f64_matrix_def) (simp add: demo_matrix_def demo_spectra_def mask_at_def)
  then show ?thesis
    using store_new_ok [OF demo_features_ok(1)]
    by (simp add: store_from_f64_matrices_def store_from_def demo_features_def) (simp add: demo_matrix_def)
qed

lemma demo_state_new: "provider_state_new demo_external demo_envelope [] demo_features = Inr (demo_state demo_provider0)"
proof -
  have "arena_new default_owner_controller = Inr demo_handles0"
    by (simp add: arena_new_def demo_handles0_def default_owner_controller_def validate_non_empty_def
        is_blank_graphic is_ascii_graphic_def byte_of_def)
  moreover have "envelope_validate demo_external demo_envelope = Inr ()"
    by (simp add: envelope_validate_ok demo_envelope_ok)
  ultimately show ?thesis
    by (simp add: provider_state_new_def provider_new_def provider_new_with_tensors_def demo_provider0_def demo_state_def)
qed

lemma demo_hosted [simp]:
  "bx_privates (cb_hosted (demo_hosting p)) 0 = Some (demo_state p)" "ps_provider (demo_state p) = p"
  "(demo_state p)\<lparr>ps_provider := p'\<rparr> = demo_state p'" "cb_exports (demo_hosting p) = no_exports"
  "demo_hosting p\<lparr>cb_hosted := (cb_hosted (demo_hosting p))
     \<lparr>bx_privates := (bx_privates (cb_hosted (demo_hosting p)))(0 \<mapsto> demo_state p')\<rparr>\<rparr> = demo_hosting p'"
  by (simp_all add: demo_hosting_def demo_state_def new_private_def no_boxes_def cabi_start_def)

lemma demo_constructed:
  "dagmldata_inmemory_provider_new_with_f64_features_json demo_env (Some []) 0 None 0 (Some [0]) 1
     (Some empty_vtable) None cabi_start =
   Some (StatusOk, Some (provider_vtable 0), None, demo_hosting demo_provider0)"
proof -
  have "publish_provider (demo_state demo_provider0) cabi_start =
      Some (Inr (Some (provider_vtable 0)), demo_hosting demo_provider0)"
    by (simp add: publish_provider_def demo_hosting_def new_private_def no_boxes_def cabi_start_def)
  then show ?thesis
    by (simp add: dagmldata_inmemory_provider_new_with_f64_features_json_def new_provider_entry_def answer_def
        call_bind_def demand_def call_return_def read_json_def of_res_def answered_def raw_slice_def
        c_target_tables_def c_f64_matrices_def optional_array_def demo_store demo_state_new cleared_def)
qed

lemma demo_materialized_c:
  "provider_materialize_c demo_env (Some 0) no_json (Some 0) (demo_hosting demo_provider0) =
   Some (StatusOk, Some 1, demo_hosting demo_provider1)"
  unfolding provider_materialize_c_def
  by (simp add: no_json_def answered_silently_ok call_bind_ok call_steps_ok read_json_ok on_provider_ok
      raw_slice_def demo_provider1(1) demo_handles2_lookup)

lemma demo_viewed_c:
  "provider_make_view_c demo_env (Some 0) 1 no_json (Some 0) (demo_hosting demo_provider1) =
   Some (StatusOk, Some 2, demo_hosting demo_provider2)"
proof -
  have "provider_make_view demo_external 1 default_view demo_provider1 = (Inr demo_view, demo_provider2)"
  proof -
    obtain s where "pv_arenas demo_provider1 = Some s" "pa_handles s = demo_handles1" using demo_provider1(2) by blast
    then show ?thesis
      using provider_make_view_eq [OF demo_provider1_wf, of s 1 default_view] demo_viewed
      by (auto simp: demo_provider2_def)
  qed
  moreover have "hr_handle (vh_handle demo_view) = 2"
    by (simp add: demo_view_def minted_view_def demo_handles1_lookup)
  ultimately show ?thesis
    unfolding provider_make_view_c_def
    by (simp add: no_json_def answered_silently_ok call_bind_ok call_steps_ok read_json_ok on_provider_ok raw_slice_def)
qed

definition demo_block :: feature_block where
  "demo_block = projected_block (\<lambda>_. JNull) demo_spectra two_relations None None"

definition demo_name :: bytes_view where
  "demo_name = \<lparr>bv_ptr = Some [120], bv_len = 1\<rparr>"

lemma demo_served: "provider_feature_block (\<lambda>_. JNull) demo_provider2 2 ''x'' = Inr demo_block"
proof -
  obtain s where s: "pv_arenas demo_provider2 = Some s" "pa_handles s = demo_handles2"
    using demo_provider2(2) by blast
  show ?thesis
    using feature_block_lemma [OF demo_provider2_wf s(1), of 2 demo_view demo_record two_relations
        two_relations "\<lambda>_. JNull" "''x''" None None]
      demo_spectra_bound demo_projectable
    by (simp add: s(2) demo_handles2_lookup demo_no_columns demo_features_def provider_feature_block_def demo_block_def)
qed

lemma demo_exportable: "feature_exportable (\<lambda>_. None) demo_block"
proof -
  have names: "nb_feature_names demo_spectra = [''w'']" by (simp add: demo_spectra_def)
  have "fb_feature_names demo_block = [''w'']" "fb_observation_ids demo_block = [Ident ''a'', Ident ''b'']"
      "fb_sample_ids demo_block = [Ident ''s'', Ident ''t'']" "fb_values demo_block = [[JNull], [JNull]]"
    by (simp_all add: demo_block_def projected_block_def projected_cells_def chosen_columns_def names of_source_def
        two_relations_def relation_new_def split: option.split)
  then show ?thesis
    by (simp add: feature_exportable_def texts_def text_data_def str_bytes_def i32_max_def number_or_null_def)
qed

lemma demo_exported:
  "\<exists>arr sch s. provider_feature_arrow_c demo_env (Some 0) 2 demo_name (Some None, Some None) (demo_hosting demo_provider2) =
     Some (StatusOk, (Some (Some arr), Some (Some sch)), s)"
proof -
  have "io_ok (export_pair (build_feature_arrow (\<lambda>_. None) demo_block)) no_exports"
    using demo_exportable by (simp add: export_pair_ok feature_build_ok)
  then obtain arr sch h where "export_pair (build_feature_arrow (\<lambda>_. None) demo_block) no_exports = (Inr (arr, sch), h)"
    by (auto simp: io_ok_def)
  then have "publish_table (build_feature_arrow (\<lambda>_. None) demo_block) (demo_hosting demo_provider2) =
      Some (Inr (Some (Some arr), Some (Some sch)), demo_hosting demo_provider2\<lparr>cb_exports := h\<rparr>)"
    by (simp add: publish_table_def call_bind_def exporting_def answered_def call_return_def)
  moreover have "string_of_bytes [120] = ''x''" by (simp add: string_of_bytes_def) code_simp
  moreover have "\<not> starts_with_brace ''x''" "\<not> is_blank ''x''"
    by (simp_all add: starts_with_brace_def is_blank_graphic is_ascii_graphic_def byte_of_def)
  ultimately show ?thesis
    unfolding provider_feature_arrow_c_def
    by (simp add: demo_name_def answered_silently_ok call_bind_ok call_steps_ok raw_slice_def arrow_outputs_given_def
        read_provider_def demo_served Let_def)
qed

section \<open>Witnesses\<close>

lemma demo_session: "c_session demo_env (demo_hosting demo_provider0) []"
  using session_call [OF session_start c_new_f64_features [OF demo_constructed]] by (simp add: text_out_def)

lemma demo_handles_left: "handles_left (Some 0) (demo_hosting demo_provider0)" "handles_left (Some 0) (demo_hosting demo_provider1)"
  using demo_provider0_arenas(3) demo_provider1(2)
  by (auto simp: handles_left_def demo_handles0_def demo_handles1_lookup)

theorem session_providers_sound_witness:
  "\<exists>S T. store_ok S \<and> nd_store_ok T \<and> provider_reachable demo_external S T demo_provider0"
  using session_providers_sound [OF demo_session, of 0] by simp

theorem exported_tables_avoid_test_cohort_witness:
  "\<exists>arr sch s rows fields ids.
     provider_feature_arrow_c demo_env (Some 0) 2 demo_name (Some None, Some None) (demo_hosting demo_provider2) =
       Some (StatusOk, (Some (Some arr), Some (Some sch)), s) \<and>
     import_table (cb_exports s) arr sch = Some (''coordinator_features'', rows, fields) \<and>
     (''sample_id'', False, texts ids) \<in> set fields \<and> (Ident ''v'' :: sample_id) \<notin> set ids"
proof -
  have cohort: "en_predict_cohort demo_envelope = Some demo_cohort" "mr_predict_cohort demo_request = None"
    by (simp_all add: demo_envelope_def demo_request_def)
  obtain arr sch s where exported:
    "provider_feature_arrow_c demo_env (Some 0) 2 demo_name (Some None, Some None) (demo_hosting demo_provider2) =
       Some (StatusOk, (Some (Some arr), Some (Some sch)), s)"
    using demo_exported by blast
  let ?avoids = "\<lambda>ids. \<forall>x\<in>set ids. \<forall>y\<in>set (rs_records (pc_relations demo_cohort)).
      x \<noteq> cr_sample_id y \<and> cr_origin_sample_id y \<noteq> Some x"
  have table: "\<exists>rows fields ids. import_table (cb_exports s) arr sch = Some (''coordinator_features'', rows, fields) \<and>
      (''sample_id'', False, texts ids) \<in> set fields \<and> ?avoids ids"
    by (rule exported_tables_avoid_test_cohort [where q = demo_request and bytes = "[]", OF demo_session demo_hosted(1)
          _ _ _ _ _ _ demo_handles_left(1) demo_materialized_c later_now demo_handles_left(2) demo_viewed_c later_now exported])
      (simp_all add: demo_provider0_arenas demo_cohort_valid(3) demo_training_phase no_json_def raw_slice_def cohort)
  have avoids: "Ident ''v'' \<notin> set ids" if "?avoids ids" for ids
  proof -
    have "relation_new (Ident ''x'') (Ident ''v'') \<in> set (rs_records (pc_relations demo_cohort))"
      by (simp add: demo_cohort_valid test_relations_def)
    with that have "\<forall>x\<in>set ids. x \<noteq> cr_sample_id (relation_new (Ident ''x'') (Ident ''v''))" by blast
    then show ?thesis by (auto simp: relation_new_def)
  qed
  from table obtain rows fields ids where
    read: "import_table (cb_exports s) arr sch = Some (''coordinator_features'', rows, fields)"
      "(''sample_id'', False, texts ids) \<in> set fields" "?avoids ids" by (elim exE conjE)
  show ?thesis
    by (rule exI [of _ arr], rule exI [of _ sch], rule exI [of _ s], rule exI [of _ rows], rule exI [of _ fields],
      rule exI [of _ ids], intro conjI exported read(1,2) avoids [OF read(3)])
qed

text \<open>A call without a JSON argument is refused and hands over a message.\<close>

lemma demo_refusal:
  "\<exists>err s. c_call demo_env cabi_start InvalidArgument [TextItem err] s \<and> cb_last_error cabi_start = None"
proof -
  let ?message = "''json pointer is null''"
  let ?stored = "store_last_error (ms_argument (ce_messages demo_env) ?message) argument_error_code cabi_start"
  obtain err h where "owned_string ?message (cb_heap ?stored) = (err, h)" by fastforce
  then obtain s where "dagmldata_fold_set_validate_json demo_env None 0 (Some default_string) cabi_start =
      Some (InvalidArgument, (), Some err, s)"
    by (simp add: dagmldata_fold_set_validate_json_def answer_def call_bind_def demand_def refuse_def cleared_def
        set_error_message_def set_string_def)
  from c_fold_set_validate [OF this] show ?thesis by (auto simp: text_out_def cabi_start_def)
qed

theorem session_gives_back_witness:
  "\<exists>err s. c_session demo_env s [TextItem err] \<and> free_item (TextItem err) (cb_heap s) \<noteq> None"
proof -
  obtain err s where "c_call demo_env cabi_start InvalidArgument [TextItem err] s" using demo_refusal by blast
  from session_call [OF session_start this] have "c_session demo_env s [TextItem err]" by simp
  with session_gives_back [OF this] show ?thesis by auto
qed

theorem last_error_of_last_refusal_witness:
  "\<exists>s. run_of (c_step demo_env) cabi_start [InvalidArgument] s \<and> dagmldata_last_error_code s = argument_error_code"
proof -
  obtain err s where "c_call demo_env cabi_start InvalidArgument [TextItem err] s" and start: "cb_last_error cabi_start = None"
    using demo_refusal by blast
  then have run: "run_of (c_step demo_env) cabi_start [InvalidArgument] s" by (auto simp: c_step_def)
  with last_error_of_last_refusal [OF run start] show ?thesis by (auto simp: refusals_def)
qed

text \<open>A fetcher that refuses its first request.\<close>

definition demo_reply :: fetch_reply where
  "demo_reply =
     \<lparr>fr_status = ValidationError,
      fr_view = \<lparr>lv_feature_set_id = no_json, lv_representation_id = no_json, lv_feature_names = None,
        lv_feature_names_len = 0, lv_observation_ids = None, lv_observation_ids_len = 0, lv_columns = None,
        lv_columns_len = 0\<rparr>,
      fr_error = default_string\<rparr>"

definition demo_fetcher :: fetcher where
  "demo_fetcher = \<lparr>fv_abi_version = 1, fv_fetch_columnar = Some (\<lambda>_ _ _. demo_reply), fv_destroy = True\<rparr>"

definition demo_fetch_request :: fetch_request where
  "demo_fetch_request = \<lparr>fq_feature_set_id = demo_name, fq_content_fingerprint = no_json\<rparr>"

theorem fetcher_destroyed_once_witness:
  "\<exists>out err s. dagmldata_inmemory_provider_new_with_buffer_fetcher demo_env (Some []) 0 None 0 demo_fetcher
      (Some [demo_fetch_request]) 1 (Some empty_vtable) None cabi_start = Some (ValidationError, out, err, s) \<and>
     last (cb_host_calls s) = DestroyCalled \<and> length (cb_host_calls s) \<le> 2"
proof -
  have "fetch_all (\<lambda>_ _ _. demo_reply) [demo_fetch_request] t =
      Some (Inl (BadText (''fetcher rejected request: '' @ ''<empty>'')),
        t\<lparr>cb_host_calls := cb_host_calls t @ [requested demo_fetch_request]\<rparr>)" for t
    by (simp add: fetch_one_def demo_reply_def consume_string_message_def default_string_def call_bind_def refuse_def
        requested_def)
  then have "\<exists>out err s. dagmldata_inmemory_provider_new_with_buffer_fetcher demo_env (Some []) 0 None 0 demo_fetcher
      (Some [demo_fetch_request]) 1 (Some empty_vtable) None cabi_start = Some (ValidationError, out, err, s)"
    by (simp add: dagmldata_inmemory_provider_new_with_buffer_fetcher_def answer_def and_destroy_def fetch_phase_def
        call_bind_def demand_def call_return_def demo_fetcher_def buffer_fetcher_abi_version_def read_json_def of_res_def
        answered_def raw_slice_def c_target_tables_def optional_array_def cleared_def set_error_message_def
        set_string_def del: fetch_all.simps)
  then obtain out err s where run: "dagmldata_inmemory_provider_new_with_buffer_fetcher demo_env (Some []) 0 None 0
      demo_fetcher (Some [demo_fetch_request]) 1 (Some empty_vtable) None cabi_start = Some (ValidationError, out, err, s)"
    by blast
  from fetcher_destroyed_once [OF run] have "last (cb_host_calls s) = DestroyCalled \<and> length (cb_host_calls s) \<le> 2"
    by (auto simp: requests_of_def demo_fetcher_def cabi_start_def)
  with run show ?thesis by blast
qed

end
