(* ===== verification/Arrow_Cuts.thy ===== *)
theory Arrow_Cuts
  imports Arrow_Ipc
begin

text \<open>
  How a writer cuts the rows of a feature set into record batches does not matter to the reader of
  \<open>Arrow_Ipc\<close>: replacing one batch by two that hold its rows in order reads as the same store.
\<close>

section \<open>Stacking batches\<close>

fun stack_column :: "arrow_column \<Rightarrow> arrow_column \<Rightarrow> arrow_column" where
  "stack_column (Utf8Column xs) (Utf8Column ys) = Utf8Column (xs @ ys)"
| "stack_column (Float64Column xs) (Float64Column ys) = Float64Column (xs @ ys)"
| "stack_column (OtherColumn m) (OtherColumn n) = OtherColumn (m + n)"
| "stack_column c d = c"

fun same_kind :: "arrow_column \<Rightarrow> arrow_column \<Rightarrow> bool" where
  "same_kind (Utf8Column _) (Utf8Column _) \<longleftrightarrow> True"
| "same_kind (Float64Column _) (Float64Column _) \<longleftrightarrow> True"
| "same_kind (OtherColumn _) (OtherColumn _) \<longleftrightarrow> True"
| "same_kind _ _ \<longleftrightarrow> False"

fun column_rows :: "arrow_column \<Rightarrow> usize" where
  "column_rows (Utf8Column xs) = length xs"
| "column_rows (Float64Column xs) = length xs"
| "column_rows (OtherColumn n) = n"

abbreviation stack_field :: "(string \<times> arrow_column) \<Rightarrow> (string \<times> arrow_column) \<Rightarrow> string \<times> arrow_column" where
  "stack_field f g \<equiv> (fst f, stack_column (snd f) (snd g))"

definition stack_batches :: "record_batch \<Rightarrow> record_batch \<Rightarrow> record_batch" where
  "stack_batches b b' = b\<lparr>rb_fields := map2 stack_field (rb_fields b) (rb_fields b')\<rparr>"

text \<open>The batches of one stream share its schema, and the columns of a batch have one length.\<close>

abbreviation same_field :: "(string \<times> arrow_column) \<Rightarrow> (string \<times> arrow_column) \<Rightarrow> bool" where
  "same_field f g \<equiv> fst f = fst g \<and> same_kind (snd f) (snd g)"

definition same_batch_schema :: "record_batch \<Rightarrow> record_batch \<Rightarrow> bool" where
  "same_batch_schema b b' \<longleftrightarrow> rb_metadata b = rb_metadata b' \<and> list_all2 same_field (rb_fields b) (rb_fields b')"

definition rectangular :: "record_batch \<Rightarrow> bool" where
  "rectangular b \<longleftrightarrow> (\<exists>n. \<forall>f\<in>set (rb_fields b). column_rows (snd f) = n)"

section \<open>Reading a stacked batch\<close>

lemma index_of_field_names:
  "map fst xs = map fst ys \<Longrightarrow> index_of_field name xs = index_of_field name ys"
proof -
  have names: "index_of_field name xs =
      (let i = length (takeWhile (\<lambda>n. n \<noteq> name) (map fst xs)) in if i < length (map fst xs) then Some i else None)" for xs
    by (simp add: index_of_field_def takeWhile_map comp_def)
  show "map fst xs = map fst ys \<Longrightarrow> ?thesis" unfolding names by simp
qed

lemma index_of_field_bound: "index_of_field name xs = Some i \<Longrightarrow> i < length xs"
  by (auto simp: index_of_field_def Let_def split: if_splits)

lemma other_fields_split: "other_fields i xs = take i xs @ drop (Suc i) xs"
proof -
  have "map snd (filter (\<lambda>(idx, _). idx \<noteq> i + k) (List.enumerate k xs)) = take i xs @ drop (Suc i) xs" for k
  proof (induction xs arbitrary: i k)
    case (Cons x xs)
    show ?case
    proof (cases i)
      case 0
      have "filter (\<lambda>(idx, _). idx \<noteq> k) (List.enumerate (Suc k) xs) = List.enumerate (Suc k) xs"
        by (rule filter_True) (auto simp: in_set_enumerate_eq)
      with 0 show ?thesis by simp
    next
      case (Suc j)
      with Cons.IH [of j "Suc k"] show ?thesis by simp
    qed
  qed simp
  from this [of 0] show ?thesis by (simp add: other_fields_def)
qed

fun join_features ::
  "string \<times> f64 list \<times> bool list \<Rightarrow> string \<times> f64 list \<times> bool list \<Rightarrow> string \<times> f64 list \<times> bool list"
where
  "join_features (n, v, m) (n', v', m') = (n, v @ v', m @ m')"

lemma feature_column_stacked:
  assumes "same_field f g"
  shows "feature_column_of (stack_field f g) = Inr z \<longleftrightarrow>
    (\<exists>x y. feature_column_of f = Inr x \<and> feature_column_of g = Inr y \<and> z = join_features x y)"
  using assms by (cases f; cases g; cases "snd f"; cases "snd g") (auto simp: feature_column_of_def)

lemma features_stacked:
  assumes "list_all2 same_field fs gs"
  shows "map_res feature_column_of (map2 stack_field fs gs) = Inr zs \<longleftrightarrow>
    (\<exists>xs ys. map_res feature_column_of fs = Inr xs \<and> map_res feature_column_of gs = Inr ys \<and> zs = map2 join_features xs ys)"
  using assms
proof (induction arbitrary: zs rule: list_all2_induct)
  case (Cons f fs g gs)
  have step: "feature_column_of (stack_field f g) = Inr z \<longleftrightarrow>
      (\<exists>x y. feature_column_of f = Inr x \<and> feature_column_of g = Inr y \<and> z = join_features x y)" for z
    by (rule feature_column_stacked) (use Cons.hyps(1) in simp)
  show ?case by (auto simp: rbind_eq_Inr step Cons.IH simp del: split_paired_Ex)
qed auto

lemma map_res_append: "map_res f (xs @ ys) = rbind (map_res f xs) (\<lambda>us. rbind (map_res f ys) (\<lambda>vs. Inr (us @ vs)))"
  by (induction xs) (auto simp: rbind_def split: sum.splits)

lemma observations_stacked:
  assumes "same_kind c d"
  shows "observation_ids_of (stack_column c d) = Inr os \<longleftrightarrow>
    (\<exists>xs ys. observation_ids_of c = Inr xs \<and> observation_ids_of d = Inr ys \<and> os = xs @ ys)"
  using assms
  by (cases c; cases d)
    (auto simp: observation_ids_of_def if_Inl_eq_Inr map_res_append rbind_eq_Inr)

section \<open>Matrices\<close>

definition matrix_shaped :: "f64_columnar \<Rightarrow> bool" where
  "matrix_shaped m \<longleftrightarrow>
     length (fc_columns m) = length (fc_feature_names m) \<and>
     (\<forall>ms. fc_validity_masks m = Some ms \<longrightarrow> length ms = length (fc_feature_names m))"

text \<open>The masks, written out where the matrix has none.\<close>

definition masks_of :: "f64_columnar \<Rightarrow> bool list list" where
  "masks_of m =
     (case fc_validity_masks m of
        Some ms \<Rightarrow> ms
      | None \<Rightarrow> replicate (length (fc_feature_names m)) (replicate (length (fc_observation_ids m)) True))"

lemma length_masks_of: "matrix_shaped m \<Longrightarrow> length (masks_of m) = length (fc_feature_names m)"
  by (simp add: matrix_shaped_def masks_of_def split: option.split)

lemma map_enumerate_map2: "length xs \<le> length ys \<Longrightarrow> map (\<lambda>(i, x). f x (ys ! i)) (List.enumerate 0 xs) = map2 f xs ys"
  by (rule nth_equalityI) (simp_all add: nth_enumerate_eq)

lemma append_rows_eq:
  assumes "matrix_shaped m" and "matrix_shaped n" and "fc_feature_names m = fc_feature_names n"
  shows "append_rows m n = m
    \<lparr>fc_validity_masks := (if fc_validity_masks m = None \<and> fc_validity_masks n = None then None
       else Some (map2 (@) (masks_of m) (masks_of n))),
     fc_observation_ids := fc_observation_ids m @ fc_observation_ids n,
     fc_columns := map2 (@) (fc_columns m) (fc_columns n)\<rparr>"
proof -
  have lens: "length (fc_columns m) = length (fc_columns n)" "length (masks_of m) = length (masks_of n)"
    using assms length_masks_of by (simp_all add: matrix_shaped_def)
  have "map (\<lambda>(idx, column). if idx < length (fc_columns n) then column @ fc_columns n ! idx else column)
      (List.enumerate 0 (fc_columns m)) = map2 (@) (fc_columns m) (fc_columns n)"
    by (rule nth_equalityI) (simp_all add: nth_enumerate_eq lens)
  moreover have "map (\<lambda>(idx, x). x @ (case fc_validity_masks n of Some ns \<Rightarrow> ns ! idx
      | None \<Rightarrow> replicate (length (fc_observation_ids n)) True)) (List.enumerate 0 (masks_of m)) =
      map2 (@) (masks_of m) (masks_of n)"
    by (rule nth_equalityI)
      (use lens length_masks_of [OF assms(2)] in \<open>auto simp: nth_enumerate_eq masks_of_def split: option.splits\<close>)
  moreover have "length (fc_columns m) = length (fc_feature_names m)" using assms(1) by (simp add: matrix_shaped_def)
  ultimately show ?thesis
    by (cases "fc_validity_masks m"; cases "fc_validity_masks n") (simp_all add: append_rows_def masks_of_def)
qed

lemma append_rows_parts:
  assumes "matrix_shaped m" and "matrix_shaped n" and "fc_feature_names m = fc_feature_names n"
  shows "matrix_shaped (append_rows m n)" and "masks_of (append_rows m n) = map2 (@) (masks_of m) (masks_of n)"
    and "fc_feature_names (append_rows m n) = fc_feature_names m"
    and "fc_representation_id (append_rows m n) = fc_representation_id m"
    and "fc_feature_set_id (append_rows m n) = fc_feature_set_id m"
    and "fc_observation_ids (append_rows m n) = fc_observation_ids m @ fc_observation_ids n"
proof -
  have cols: "length (fc_columns m) = length (fc_columns n)" using assms by (simp add: matrix_shaped_def)
  show "matrix_shaped (append_rows m n)" 
    using assms length_masks_of [OF assms(1)] length_masks_of [OF assms(2)]
    unfolding append_rows_eq [OF assms] by (auto simp: matrix_shaped_def)
  show "masks_of (append_rows m n) = map2 (@) (masks_of m) (masks_of n)"
    unfolding append_rows_eq [OF assms] using assms(3) by (simp add: masks_of_def replicate_add)
qed (simp_all add: append_rows_eq [OF assms])

lemma map2_append_assoc: "map2 (@) (map2 (@) xs ys) zs = map2 (@) xs (map2 (@) ys zs)"
  by (rule nth_equalityI) simp_all

lemma append_rows_assoc:
  assumes "matrix_shaped m" "matrix_shaped n" "matrix_shaped k"
    and "fc_feature_names m = fc_feature_names n" "fc_feature_names n = fc_feature_names k"
  shows "append_rows (append_rows m n) k = append_rows m (append_rows n k)"
proof -
  note mn = append_rows_parts [OF assms(1,2,4)] and nk = append_rows_parts [OF assms(2,3,5)]
  have left: "append_rows (append_rows m n) k = append_rows m n
    \<lparr>fc_validity_masks := (if fc_validity_masks (append_rows m n) = None \<and> fc_validity_masks k = None then None
       else Some (map2 (@) (masks_of (append_rows m n)) (masks_of k))),
     fc_observation_ids := fc_observation_ids (append_rows m n) @ fc_observation_ids k,
     fc_columns := map2 (@) (fc_columns (append_rows m n)) (fc_columns k)\<rparr>"
    by (rule append_rows_eq [OF mn(1) assms(3)]) (simp add: mn(3) assms)
  have right: "append_rows m (append_rows n k) = m
    \<lparr>fc_validity_masks := (if fc_validity_masks m = None \<and> fc_validity_masks (append_rows n k) = None then None
       else Some (map2 (@) (masks_of m) (masks_of (append_rows n k)))),
     fc_observation_ids := fc_observation_ids m @ fc_observation_ids (append_rows n k),
     fc_columns := map2 (@) (fc_columns m) (fc_columns (append_rows n k))\<rparr>"
    by (rule append_rows_eq [OF assms(1) nk(1)]) (simp add: nk(3) assms)
  show ?thesis
    unfolding left right mn(2) nk(2)
    by (simp add: append_rows_eq [OF assms(1,2,4)] append_rows_eq [OF assms(2,3,5)] map2_append_assoc)
qed

section \<open>Batches as matrices\<close>

abbreviation feature_mask :: "string \<times> f64 list \<times> bool list \<Rightarrow> bool list" where
  "feature_mask f \<equiv> snd (snd f)"

definition matrix_from ::
  "string \<Rightarrow> representation_id \<Rightarrow> observation_id list \<Rightarrow> (string \<times> f64 list \<times> bool list) list \<Rightarrow> f64_columnar"
where
  "matrix_from i rep os features =
     \<lparr>fc_feature_set_id = i, fc_representation_id = rep, fc_feature_names = map fst features, fc_observation_ids = os,
      fc_columns = map (\<lambda>f. fst (snd f)) features,
      fc_validity_masks =
        (if list_ex (list_ex Not) (map feature_mask features) then Some (map feature_mask features) else None)\<rparr>"

lemma record_batch_ok:
  "record_batch_to_matrix b = Inr m \<longleftrightarrow>
     (\<exists>i raw rep k os features.
        rb_metadata b schema_metadata_feature_set_id = Some i \<and>
        rb_metadata b schema_metadata_representation_id = Some raw \<and> ident_new raw = Inr rep \<and>
        index_of_field observation_id_column (rb_fields b) = Some k \<and>
        observation_ids_of (snd (rb_fields b ! k)) = Inr os \<and>
        map_res feature_column_of (other_fields k (rb_fields b)) = Inr features \<and> features \<noteq> [] \<and>
        m = matrix_from i rep os features)"
proof -
  have parts: "map (\<lambda>(_, _, m). m) fs = map feature_mask fs" "map (\<lambda>(_, values, _). values) fs = map (\<lambda>f. fst (snd f)) fs"
    for fs :: "(string \<times> f64 list \<times> bool list) list" by (simp_all add: case_prod_beta)
  show ?thesis
    by (simp only: record_batch_to_matrix_def rbind_eq_Inr ok_or_eq_Inr if_Inl_eq_Inr parts Let_def matrix_from_def
        sum.inject) blast
qed

lemma matrix_from_shaped: "matrix_shaped (matrix_from i rep os features)"
  by (simp add: matrix_from_def matrix_shaped_def)

lemma masks_of_matrix:
  assumes "\<And>f. f \<in> set features \<Longrightarrow> length (feature_mask f) = length os"
  shows "masks_of (matrix_from i rep os features) = map feature_mask features"
proof (cases "list_ex (list_ex Not) (map feature_mask features)")
  case False
  have "feature_mask f = replicate (length os) True" if "f \<in> set features" for f
    using False that assms by (intro replicate_eqI) (auto simp: list_ex_iff)
  then have "map feature_mask features = map (\<lambda>_. replicate (length os) True) features" by simp
  also have "\<dots> = replicate (length features) (replicate (length os) True)" by (simp add: map_replicate_const)
  finally show ?thesis using False by (simp add: masks_of_def matrix_from_def)
qed (simp add: masks_of_def matrix_from_def)

lemma matrix_from_joined:
  assumes "map fst xs = map fst ys" and "\<And>f. f \<in> set xs \<Longrightarrow> length (feature_mask f) = length os"
    and "\<And>f. f \<in> set ys \<Longrightarrow> length (feature_mask f) = length os'"
  shows "matrix_from i rep (os @ os') (map2 join_features xs ys) =
    append_rows (matrix_from i rep os xs) (matrix_from i rep os' ys)"
proof -
  have len: "length xs = length ys" using assms(1) by (metis length_map)
  have join: "fst (join_features f g) = fst f" "fst (snd (join_features f g)) = fst (snd f) @ fst (snd g)"
      "feature_mask (join_features f g) = feature_mask f @ feature_mask g" for f g
    by (cases f; cases g; simp)+
  have names: "map fst (map2 join_features xs ys) = map fst xs"
    and columns: "map (\<lambda>f. fst (snd f)) (map2 join_features xs ys) =
      map2 (@) (map (\<lambda>f. fst (snd f)) xs) (map (\<lambda>f. fst (snd f)) ys)"
    and masks: "map feature_mask (map2 join_features xs ys) = map2 (@) (map feature_mask xs) (map feature_mask ys)"
    by (rule nth_equalityI; simp add: len join)+
  have "list_ex (list_ex Not) (map2 (@) as bs) \<longleftrightarrow> list_ex (list_ex Not) as \<or> list_ex (list_ex Not) bs"
    if "length as = length bs" for as bs
    using that by (induction as bs rule: list_induct2) auto
  then have any: "list_ex (list_ex Not) (map2 (@) (map feature_mask xs) (map feature_mask ys)) \<longleftrightarrow>
      list_ex (list_ex Not) (map feature_mask xs) \<or> list_ex (list_ex Not) (map feature_mask ys)"
    by (simp add: len)
  have "append_rows (matrix_from i rep os xs) (matrix_from i rep os' ys) = matrix_from i rep os xs
    \<lparr>fc_validity_masks := (if fc_validity_masks (matrix_from i rep os xs) = None \<and>
         fc_validity_masks (matrix_from i rep os' ys) = None then None
       else Some (map2 (@) (map feature_mask xs) (map feature_mask ys))),
     fc_observation_ids := os @ os',
     fc_columns := map2 (@) (map (\<lambda>f. fst (snd f)) xs) (map (\<lambda>f. fst (snd f)) ys)\<rparr>"
    using append_rows_eq [OF matrix_from_shaped matrix_from_shaped, of i rep os xs i rep os' ys] assms(1)
      masks_of_matrix [of xs os i rep, OF assms(2)] masks_of_matrix [of ys os' i rep, OF assms(3)]
    by (simp add: matrix_from_def)
  then show ?thesis
    unfolding matrix_from_def [of i rep "os @ os'"] names columns masks any by (simp add: matrix_from_def)
qed

text \<open>The rows of a rectangular batch.\<close>

lemma batch_rows:
  "observation_ids_of c = Inr os \<Longrightarrow> length os = column_rows c"
  "feature_column_of f = Inr z \<Longrightarrow> length (feature_mask z) = column_rows (snd f) \<and> fst z = fst f"
  by (auto simp: observation_ids_of_def feature_column_of_def if_Inl_eq_Inr dest: map_res_length
      split: arrow_column.splits)

lemma features_rows:
  assumes "map_res feature_column_of fs = Inr xs"
  shows "map fst xs = map fst fs" and "(\<And>f. f \<in> set fs \<Longrightarrow> column_rows (snd f) = n) \<Longrightarrow> x \<in> set xs \<Longrightarrow> length (feature_mask x) = n"
proof -
  have len: "length xs = length fs" using map_res_length [OF assms] .
  have at: "i < length fs \<Longrightarrow> length (feature_mask (xs ! i)) = column_rows (snd (fs ! i)) \<and> fst (xs ! i) = fst (fs ! i)" for i
    using batch_rows(2) [OF map_res_nth [OF assms]] by blast
  show "map fst xs = map fst fs" by (rule nth_equalityI) (use len at in simp_all)
  show "length (feature_mask x) = n" if "\<And>f. f \<in> set fs \<Longrightarrow> column_rows (snd f) = n" "x \<in> set xs"
    using that(2) at that(1) len by (metis in_set_conv_nth nth_mem)
qed

lemma stacked_field_names:
  assumes "list_all2 same_field fs gs"
  shows "map fst (map2 stack_field fs gs) = map fst fs" and "map fst fs = map fst gs"
  using assms by (induction rule: list_all2_induct) auto

lemma stacked_other_fields:
  assumes "list_all2 same_field fs gs"
  shows "other_fields k (map2 stack_field fs gs) = map2 stack_field (other_fields k fs) (other_fields k gs)"
    and "list_all2 same_field (other_fields k fs) (other_fields k gs)"
proof -
  have len: "length fs = length gs" using assms by (rule list_all2_lengthD)
  show "list_all2 same_field (other_fields k fs) (other_fields k gs)"
    using assms by (simp add: other_fields_split list_all2_appendI list_all2_takeI list_all2_dropI)
  show "other_fields k (map2 stack_field fs gs) = map2 stack_field (other_fields k fs) (other_fields k gs)"
    by (simp add: other_fields_split take_map drop_map take_zip drop_zip zip_append len)
qed

lemma stacked_matrix:
  assumes "same_batch_schema b b'" and "rectangular b" and "rectangular b'"
  shows "record_batch_to_matrix (stack_batches b b') = Inr m \<longleftrightarrow>
    (\<exists>x y. record_batch_to_matrix b = Inr x \<and> record_batch_to_matrix b' = Inr y \<and> m = append_rows x y)"
proof -
  let ?fs = "rb_fields b" and ?gs = "rb_fields b'"
  have meta: "rb_metadata b' = rb_metadata b" and both: "list_all2 same_field ?fs ?gs"
    using assms(1) by (simp_all add: same_batch_schema_def)
  obtain n where rows1: "\<forall>f\<in>set ?fs. column_rows (snd f) = n" using assms(2) unfolding rectangular_def ..
  obtain n' where rows2: "\<forall>f\<in>set ?gs. column_rows (snd f) = n'" using assms(3) unfolding rectangular_def ..
  have index: "index_of_field name (map2 stack_field ?fs ?gs) = index_of_field name ?fs"
      "index_of_field name ?gs = index_of_field name ?fs" for name
    by (rule index_of_field_names [OF stacked_field_names(1) [OF both]])
      (rule index_of_field_names [OF stacked_field_names(2) [OF both, symmetric]])
  have others: "set (other_fields k xs) \<subseteq> set xs" for k xs
    by (simp add: other_fields_split set_take_subset set_drop_subset)
  have matrices: "matrix_from i rep (os @ os') (map2 join_features xs ys) =
      append_rows (matrix_from i rep os xs) (matrix_from i rep os' ys)"
    if "index_of_field observation_id_column ?fs = Some k" "observation_ids_of (snd (?fs ! k)) = Inr os"
      "observation_ids_of (snd (?gs ! k)) = Inr os'" "map_res feature_column_of (other_fields k ?fs) = Inr xs"
      "map_res feature_column_of (other_fields k ?gs) = Inr ys" for i rep k os os' xs ys
  proof (rule matrix_from_joined)
    have k: "k < length ?fs" "k < length ?gs" using index_of_field_bound [OF that(1)] list_all2_lengthD [OF both] by simp_all
    have os: "length os = n" "length os' = n'"
      using batch_rows(1) [OF that(2)] batch_rows(1) [OF that(3)] rows1 rows2 k by simp_all
    show "map fst xs = map fst ys"
      using features_rows(1) [OF that(4)] features_rows(1) [OF that(5)] stacked_field_names(2) [OF stacked_other_fields(2) [OF both]]
      by simp
    show "length (feature_mask f) = length os" if "f \<in> set xs" for f
    proof -
      have "length (feature_mask f) = n"
        by (rule features_rows(2) [OF \<open>map_res _ (other_fields k ?fs) = _\<close> _ that]) (use rows1 others in blast)
      then show ?thesis by (simp add: os)
    qed
    show "length (feature_mask f) = length os'" if "f \<in> set ys" for f
    proof -
      have "length (feature_mask f) = n'"
        by (rule features_rows(2) [OF \<open>map_res _ (other_fields k ?gs) = _\<close> _ that]) (use rows2 others in blast)
      then show ?thesis by (simp add: os)
    qed
  qed
  have nth: "snd (map2 stack_field ?fs ?gs ! k) = stack_column (snd (?fs ! k)) (snd (?gs ! k))"
      "same_kind (snd (?fs ! k)) (snd (?gs ! k))" if "index_of_field observation_id_column ?fs = Some k" for k
    using index_of_field_bound [OF that] list_all2_lengthD [OF both] list_all2_nthD [OF both] by simp_all
  show ?thesis (is "?l \<longleftrightarrow> ?r")
  proof
    assume ?l
    then obtain i raw rep k os zs where m: "rb_metadata b schema_metadata_feature_set_id = Some i"
        "rb_metadata b schema_metadata_representation_id = Some raw" "ident_new raw = Inr rep"
        "index_of_field observation_id_column ?fs = Some k" "zs \<noteq> []" "m = matrix_from i rep os zs"
        "observation_ids_of (snd (map2 stack_field ?fs ?gs ! k)) = Inr os"
        "map_res feature_column_of (other_fields k (map2 stack_field ?fs ?gs)) = Inr zs"
      by (auto simp: record_batch_ok stack_batches_def index)
    obtain os1 os2 where os: "observation_ids_of (snd (?fs ! k)) = Inr os1" "observation_ids_of (snd (?gs ! k)) = Inr os2"
        "os = os1 @ os2"
      using m(7) unfolding nth(1) [OF m(4)] observations_stacked [OF nth(2) [OF m(4)]] by blast
    obtain xs ys where zs: "map_res feature_column_of (other_fields k ?fs) = Inr xs"
        "map_res feature_column_of (other_fields k ?gs) = Inr ys" "zs = map2 join_features xs ys"
      using m(8) unfolding stacked_other_fields(1) [OF both] features_stacked [OF stacked_other_fields(2) [OF both]] by blast
    have "xs \<noteq> []" "ys \<noteq> []" using m(5) zs(3) by auto
    then have "record_batch_to_matrix b = Inr (matrix_from i rep os1 xs)" "record_batch_to_matrix b' = Inr (matrix_from i rep os2 ys)"
      using m(1-4) os(1,2) zs(1,2) by (auto simp: record_batch_ok meta index)
    moreover have "m = append_rows (matrix_from i rep os1 xs) (matrix_from i rep os2 ys)"
      using matrices [OF m(4) os(1,2) zs(1,2)] m(6) os(3) zs(3) by simp
    ultimately show ?r by blast
  next
    assume ?r
    then obtain i raw rep k os1 os2 xs ys where m: "rb_metadata b schema_metadata_feature_set_id = Some i"
        "rb_metadata b schema_metadata_representation_id = Some raw" "ident_new raw = Inr rep"
        "index_of_field observation_id_column ?fs = Some k" "xs \<noteq> []" "ys \<noteq> []"
        "m = append_rows (matrix_from i rep os1 xs) (matrix_from i rep os2 ys)"
        "observation_ids_of (snd (?fs ! k)) = Inr os1" "observation_ids_of (snd (?gs ! k)) = Inr os2"
        "map_res feature_column_of (other_fields k ?fs) = Inr xs"
        "map_res feature_column_of (other_fields k ?gs) = Inr ys"
      by (auto simp: record_batch_ok meta index)
    have "map2 join_features xs ys \<noteq> []" using m(5,6) by (cases xs; cases ys) auto
    moreover have "map_res feature_column_of (other_fields k (map2 stack_field ?fs ?gs)) = Inr (map2 join_features xs ys)"
      unfolding stacked_other_fields(1) [OF both] features_stacked [OF stacked_other_fields(2) [OF both]] using m(10,11) by blast
    moreover have "observation_ids_of (snd (map2 stack_field ?fs ?gs ! k)) = Inr (os1 @ os2)"
      unfolding nth(1) [OF m(4)] observations_stacked [OF nth(2) [OF m(4)]] using m(8,9) by blast
    ultimately show ?l
      using m(1-4) matrices [OF m(4) m(8-11)] m(7) by (auto simp: record_batch_ok stack_batches_def index)
  qed
qed

section \<open>Batches without rows\<close>

definition blank :: "f64_columnar \<Rightarrow> bool" where
  "blank m \<longleftrightarrow> fc_validity_masks m = None \<and> fc_columns m = replicate (length (fc_feature_names m)) []"

lemma batch_without_rows:
  assumes "record_batch_to_matrix b = Inr m" and "rectangular b" and "fc_observation_ids m = []"
  shows "blank m"
proof -
  let ?fs = "rb_fields b"
  obtain i raw rep k os xs where m: "index_of_field observation_id_column ?fs = Some k"
      "observation_ids_of (snd (?fs ! k)) = Inr os" "map_res feature_column_of (other_fields k ?fs) = Inr xs"
      "m = matrix_from i rep os xs"
    using assms(1) unfolding record_batch_ok by blast
  obtain n where rows: "\<forall>f\<in>set ?fs. column_rows (snd f) = n" using assms(2) unfolding rectangular_def ..
  have "n = 0"
    using rows batch_rows(1) [OF m(2)] index_of_field_bound [OF m(1)] assms(3) m(4) by (simp add: matrix_from_def)
  moreover have "set (other_fields k ?fs) \<subseteq> set ?fs"
    by (simp add: other_fields_split set_take_subset set_drop_subset)
  ultimately have none: "column_rows (snd f) = 0" if "f \<in> set (other_fields k ?fs)" for f using rows that by blast
  have masks: "feature_mask x = []" if "x \<in> set xs" for x
    using features_rows(2) [OF m(3) none that] by simp
  have vals: "fst (snd x) = []" if "x \<in> set xs" for x
  proof -
    obtain j where j: "j < length xs" "x = xs ! j" using \<open>x \<in> set xs\<close> unfolding in_set_conv_nth by blast
    have "j < length (other_fields k ?fs)" using j(1) map_res_length [OF m(3)] by simp
    from map_res_nth [OF m(3) this] none [OF nth_mem [OF this]] show ?thesis
      unfolding j(2) by (cases "xs ! j") (auto simp: feature_column_of_def split: arrow_column.splits)
  qed
  have "map (\<lambda>x. fst (snd x)) xs = replicate (length xs) []"
    by (rule replicate_eqI) (auto simp: vals)
  moreover have "\<not> list_ex (list_ex Not) (map feature_mask xs)" by (auto simp: list_ex_iff masks)
  ultimately show ?thesis by (simp add: m(4) matrix_from_def blank_def)
qed

lemma map2_append_blank:
  "length zs = n \<Longrightarrow> map2 (@) (replicate n []) zs = zs"
  "length zs = n \<Longrightarrow> map2 (@) zs (replicate n []) = zs"
  by (rule nth_equalityI; simp)+

lemma append_blank:
  assumes "matrix_shaped m" and "matrix_shaped n" and "fc_feature_names m = fc_feature_names n"
    and "fc_feature_set_id m = fc_feature_set_id n" and "fc_representation_id m = fc_representation_id n"
  shows "blank m \<Longrightarrow> fc_observation_ids m = [] \<Longrightarrow> append_rows m n = n"
    and "blank n \<Longrightarrow> fc_observation_ids n = [] \<Longrightarrow> append_rows m n = m"
proof -
  have lens: "length (masks_of m) = length (fc_feature_names n)" "length (masks_of n) = length (fc_feature_names n)"
      "length (fc_columns m) = length (fc_feature_names n)" "length (fc_columns n) = length (fc_feature_names n)"
    using assms(1-3) length_masks_of by (simp_all add: matrix_shaped_def)
  have empty: "masks_of k = replicate (length (fc_feature_names k)) []" if "blank k" "fc_observation_ids k = []" for k
    using that by (simp add: masks_of_def blank_def)
  have masks: "masks_of k = ms" if "fc_validity_masks k = Some ms" for k ms using that by (simp add: masks_of_def)
  show "append_rows m n = n" if "blank m" "fc_observation_ids m = []"
    unfolding append_rows_eq [OF assms(1-3)]
    by (cases n; cases m; cases "fc_validity_masks n")
      (use that empty [OF that] lens masks [of n] assms(3-5) in \<open>simp_all add: blank_def map2_append_blank\<close>)
  show "append_rows m n = m" if "blank n" "fc_observation_ids n = []"
    unfolding append_rows_eq [OF assms(1-3)]
    by (cases n; cases m; cases "fc_validity_masks m")
      (use that empty [OF that] lens masks [of m] assms(3-5) in \<open>simp_all add: blank_def map2_append_blank\<close>)
qed

section \<open>Merging\<close>

definition add_matrix ::
  "(string, f64_columnar) btree_map \<Rightarrow> f64_columnar \<Rightarrow> (string, f64_columnar) btree_map res"
where
  "add_matrix matrices nxt =
     (if fc_observation_ids nxt = [] then Inr matrices
      else
        (case map_of matrices (fc_feature_set_id nxt) of
           None \<Rightarrow> Inr (bt_insert (fc_feature_set_id nxt) nxt matrices)
         | Some matrix \<Rightarrow>
             if fc_representation_id matrix \<noteq> fc_representation_id nxt \<or>
                fc_feature_names matrix \<noteq> fc_feature_names nxt
             then invalid ''incompatible feature schemas''
             else Inr (bt_insert (fc_feature_set_id nxt) (append_rows matrix nxt) matrices)))"

lemma merge_batch_eq:
  "merge_batch matrices batch =
     rbind (case batch of Inl msg \<Rightarrow> invalid ''arrow IPC reader error'' | Inr b \<Rightarrow> record_batch_to_matrix b)
       (add_matrix matrices)"
  by (simp add: merge_batch_def add_matrix_def [abs_def])

lemma merge_batch_add:
  "merge_batch matrices batch = Inr out \<longleftrightarrow>
     (\<exists>b m. batch = Inr b \<and> record_batch_to_matrix b = Inr m \<and> add_matrix matrices m = Inr out)"
  by (cases batch) (simp_all add: merge_batch_eq rbind_eq_Inr)

definition matrices_shaped :: "(string, f64_columnar) btree_map \<Rightarrow> bool" where
  "matrices_shaped matrices \<longleftrightarrow> (\<forall>i m. map_of matrices i = Some m \<longrightarrow> matrix_shaped m)"

lemma bt_insert_over: "bt_insert k v (bt_insert k w m) = bt_insert k v m"
  by (induction k v m rule: bt_insert.induct) auto

lemma add_appended:
  assumes "matrices_shaped matrices" and "matrix_shaped m" and "matrix_shaped n"
    and "fc_feature_names m = fc_feature_names n" and "fc_feature_set_id m = fc_feature_set_id n"
    and "fc_representation_id m = fc_representation_id n"
    and "fc_observation_ids m = [] \<Longrightarrow> blank m" and "fc_observation_ids n = [] \<Longrightarrow> blank n"
  shows "add_matrix matrices (append_rows m n) = rbind (add_matrix matrices m) (\<lambda>matrices'. add_matrix matrices' n)"
proof -
  note parts = append_rows_parts [OF assms(2-4)] and blanks = append_blank [OF assms(2-6)]
  consider (left) "fc_observation_ids m = []" | (right) "fc_observation_ids n = []"
    | (both) "fc_observation_ids m \<noteq> []" "fc_observation_ids n \<noteq> []" by blast
  then show ?thesis
  proof cases
    case left
    then show ?thesis using blanks(1) [OF assms(7) [OF left] left] by (simp add: add_matrix_def)
  next
    case right
    have "rbind r Inr = r" for r :: "(string, f64_columnar) btree_map res" by (cases r) simp_all
    with right show ?thesis
      using blanks(2) [OF assms(8) [OF right] right] by (simp add: add_matrix_def [of _ n])
  next
    case both
    show ?thesis
    proof (cases "map_of matrices (fc_feature_set_id n)")
      case None
      then show ?thesis using both parts assms(4-6)
        by (simp add: add_matrix_def map_of_bt_insert bt_insert_over)
    next
      case (Some w)
      then have w: "matrix_shaped w" using assms(1) by (auto simp: matrices_shaped_def)
      show ?thesis
      proof (cases "fc_representation_id w = fc_representation_id n \<and> fc_feature_names w = fc_feature_names n")
        case True
        then have names: "fc_feature_names w = fc_feature_names m" using assms(4) by simp
        show ?thesis
          using Some True both parts append_rows_parts [OF w assms(2) names]
            append_rows_assoc [OF w assms(2,3) names assms(4)] assms(4-6)
          by (simp add: add_matrix_def map_of_bt_insert bt_insert_over)
      next
        case False
        then show ?thesis using Some both parts assms(4-6) by (auto simp: add_matrix_def)
      qed
    qed
  qed
qed

lemma record_batch_shaped: "record_batch_to_matrix b = Inr m \<Longrightarrow> matrix_shaped m"
  by (auto simp: record_batch_ok matrix_from_shaped)

lemma merge_batch_shaped:
  assumes "merge_batch matrices batch = Inr out" and "matrices_shaped matrices"
  shows "matrices_shaped out"
proof -
  obtain b m where m: "batch = Inr b" "record_batch_to_matrix b = Inr m" "add_matrix matrices m = Inr out"
    using assms(1) unfolding merge_batch_add by blast
  have "matrix_shaped (append_rows w m)" if "map_of matrices (fc_feature_set_id m) = Some w"
      "fc_feature_names w = fc_feature_names m" for w
    using that assms(2) append_rows_parts(1) record_batch_shaped [OF m(2)] by (auto simp: matrices_shaped_def)
  then show ?thesis
    using m(3) assms(2) record_batch_shaped [OF m(2)]
    by (auto simp: add_matrix_def matrices_shaped_def map_of_bt_insert split: if_splits option.splits)
qed

lemma same_batch_schema_matrices:
  assumes "same_batch_schema b b'" and "record_batch_to_matrix b = Inr m" and "record_batch_to_matrix b' = Inr n"
  shows "fc_feature_names m = fc_feature_names n" and "fc_feature_set_id m = fc_feature_set_id n"
    and "fc_representation_id m = fc_representation_id n"
proof -
  let ?fs = "rb_fields b" and ?gs = "rb_fields b'"
  have meta: "rb_metadata b' = rb_metadata b" and both: "list_all2 same_field ?fs ?gs"
    using assms(1) by (simp_all add: same_batch_schema_def)
  obtain i raw rep k os xs where m: "rb_metadata b schema_metadata_feature_set_id = Some i"
      "rb_metadata b schema_metadata_representation_id = Some raw" "ident_new raw = Inr rep"
      "index_of_field observation_id_column ?fs = Some k"
      "map_res feature_column_of (other_fields k ?fs) = Inr xs" "m = matrix_from i rep os xs"
    using assms(2) unfolding record_batch_ok by blast
  have index: "index_of_field observation_id_column ?gs = Some k"
    using index_of_field_names [OF stacked_field_names(2) [OF both], of observation_id_column] m(4) by simp
  obtain i' raw' rep' os' ys where n: "rb_metadata b schema_metadata_feature_set_id = Some i'"
      "rb_metadata b schema_metadata_representation_id = Some raw'" "ident_new raw' = Inr rep'"
      "map_res feature_column_of (other_fields k ?gs) = Inr ys" "n = matrix_from i' rep' os' ys"
    using assms(3) unfolding record_batch_ok index meta by blast
  show "fc_feature_names m = fc_feature_names n"
    using features_rows(1) [OF m(5)] features_rows(1) [OF n(4)]
      stacked_field_names(2) [OF stacked_other_fields(2) [OF both]]
    by (simp add: m(6) n(5) matrix_from_def)
  show "fc_feature_set_id m = fc_feature_set_id n" using m(1) n(1) by (simp add: m(6) n(5) matrix_from_def)
  show "fc_representation_id m = fc_representation_id n"
    using m(2,3) n(2,3) by (simp add: m(6) n(5) matrix_from_def)
qed

lemma merge_stacked:
  assumes "same_batch_schema b b'" and "rectangular b" and "rectangular b'" and "matrices_shaped matrices"
  shows "merge_batch matrices (Inr (stack_batches b b')) = Inr out \<longleftrightarrow>
    (\<exists>mid. merge_batch matrices (Inr b) = Inr mid \<and> merge_batch mid (Inr b') = Inr out)"
proof -
  have step: "add_matrix matrices (append_rows m n) = Inr out \<longleftrightarrow>
      (\<exists>mid. add_matrix matrices m = Inr mid \<and> add_matrix mid n = Inr out)"
    if "record_batch_to_matrix b = Inr m" "record_batch_to_matrix b' = Inr n" for m n
    using add_appended [OF assms(4) record_batch_shaped [OF that(1)] record_batch_shaped [OF that(2)]
        same_batch_schema_matrices [OF assms(1) that] batch_without_rows [OF that(1) assms(2)]
        batch_without_rows [OF that(2) assms(3)]]
    by (simp add: rbind_eq_Inr)
  show ?thesis unfolding merge_batch_add using step by (auto simp: stacked_matrix [OF assms(1-3)])
qed

text \<open>
  C40. Where a writer cuts the rows of a feature set into record batches does not matter: an Arrow IPC source
  with one batch reads as a store exactly when the source with two batches of the same schema that hold its
  rows in order does, and it is the same store. The batches around may be of any kind; a batch may have no
  rows, and nulls may be on either side of the cut.
\<close>

theorem ipc_cuts_do_not_matter:
  assumes "same_batch_schema b b'" and "rectangular b" and "rectangular b'"
  shows "read_batches (before @ Inr (stack_batches b b') # after) = Inr store \<longleftrightarrow>
    read_batches (before @ Inr b # Inr b' # after) = Inr store"
proof -
  have "fold_res merge_batch [] (before @ Inr (stack_batches b b') # after) = Inr out \<longleftrightarrow>
      fold_res merge_batch [] (before @ Inr b # Inr b' # after) = Inr out" for out
  proof (cases "fold_res merge_batch [] before")
    case (Inr matrices)
    have "matrices_shaped matrices"
      by (rule fold_res_invariant [OF Inr]) (auto simp: matrices_shaped_def intro: merge_batch_shaped [unfolded matrices_shaped_def, rule_format])
    note merge = merge_stacked [OF assms this]
    show ?thesis
      by (auto simp: fold_res_append Inr rbind_eq_Inr merge)
  qed (simp add: fold_res_append)
  then show ?thesis by (simp add: read_batches_def rbind_eq_Inr)
qed

section \<open>A feature set in two batches\<close>

definition nir_batch :: "f64 option list \<Rightarrow> string option list \<Rightarrow> record_batch" where
  "nir_batch cells rows =
     \<lparr>rb_metadata =
        [schema_metadata_feature_set_id \<mapsto> ''nir'', schema_metadata_representation_id \<mapsto> ''tabular_numeric''],
      rb_fields = [(''f0'', Float64Column cells), (''observation_id'', Utf8Column rows)]\<rparr>"

definition nir_matrix :: f64_columnar where
  "nir_matrix =
     \<lparr>fc_feature_set_id = ''nir'', fc_representation_id = Ident ''tabular_numeric'', fc_feature_names = [''f0''],
      fc_observation_ids = [Ident ''a'', Ident ''b'', Ident ''c''],
      fc_columns = [[f64_one, f64_half, f64_zero]], fc_validity_masks = Some [[True, True, False]]\<rparr>"

lemma nir_matrix_store: "store_from_f64_column_matrices [nir_matrix] = Inr [(''nir'', buffer_of_columnar nir_matrix)]"
proof -
  have "cells_finite (buffer_of_columnar nir_matrix)"
    by (simp add: nir_matrix_def cells_finite_def buffer_of_columnar_def columnar_cells_def masked_column_def mask_at_def
        column_mask_def f64_is_finite_def f64_exponent_def f64_one_def f64_half_def f64_zero_def)
  then have ok: "columnar_ok nir_matrix"
    by (simp add: columnar_ok_def)
      (simp add: nir_matrix_def validate_feature_shape_def each_unique_ok is_blank_graphic is_ascii_graphic_def byte_of_def)
  have ids: "fc_feature_set_id nir_matrix = ''nir''" by (simp add: nir_matrix_def)
  have "store_ok [(''nir'', buffer_of_columnar nir_matrix)]"
    using columnar_buffer_ok [OF ok] by (simp add: store_ok_def bt_wf_def buffer_of_columnar_def ids)
  then show ?thesis
    by (simp add: store_from_f64_column_matrices_def store_from_def from_f64_column_matrix_ok [THEN iffD2, OF conjI [OF ok refl]]
        ids store_new_ok)
qed

theorem ipc_cuts_do_not_matter_witness:
  "let head = nir_batch [Some f64_one, Some f64_half] [Some ''a'', Some ''b'']; tail = nir_batch [None] [Some ''c'']
   in read_batches [Inr head, Inr tail] = Inr [(''nir'', buffer_of_columnar nir_matrix)] \<and>
      read_batches [Inr (stack_batches head tail)] = Inr [(''nir'', buffer_of_columnar nir_matrix)]"
proof -
  let ?head = "nir_batch [Some f64_one, Some f64_half] [Some ''a'', Some ''b'']" and ?tail = "nir_batch [None] [Some ''c'']"
  have "fold_res merge_batch [] [Inr ?head, Inr ?tail] = Inr [(''nir'', nir_matrix)]" by code_simp
  then have cut: "read_batches [Inr ?head, Inr ?tail] = Inr [(''nir'', buffer_of_columnar nir_matrix)]"
    by (simp add: read_batches_def nir_matrix_store del: fold_res.simps)
  have "same_batch_schema ?head ?tail" "rectangular ?head" "rectangular ?tail"
    by (simp_all add: nir_batch_def same_batch_schema_def rectangular_def)
  from ipc_cuts_do_not_matter [OF this, of "[]" "[]"] cut show ?thesis by simp
qed

end
