(* ===== verification/Contract_Bindings.thy ===== *)
theory Contract_Bindings
  imports Planned_Envelope Representation_Registry
begin

text \<open>
  The JSON contract functions that the Python bindings (\<open>dag-ml-data-py/src/lib.rs\<close>) export, and the browser
  bindings (\<open>dag-ml-data-wasm/src/lib.rs\<close>) with the same bodies: JSON texts in, JSON texts out. The two differ
  in the conversion of errors, the argument \<open>raise\<close>: a Python exception or a JavaScript value. \<open>serde_json\<close> is
  the parameter \<open>contract_codecs\<close>; of the text of an envelope only the JSON values and the derived decoding of
  fields are its business, the members written and the checks on reading are those of \<open>coordinator.rs\<close>.
\<close>

section \<open>Errors\<close>

datatype py_exception_class =
  DagMlDataError | DagMlDataValidationError | DagMlDataContractError | DagMlDataCompatibilityError

definition data_error_type_for_category :: "string \<Rightarrow> py_exception_class" where
  "data_error_type_for_category c =
     (if c = ''validation'' then DagMlDataValidationError
      else if c = ''data'' then DagMlDataContractError
      else if c = ''compatibility'' then DagMlDataCompatibilityError
      else DagMlDataError)"

record py_attributes =
  pa_category :: string
  pa_code :: string
  pa_severity :: string
  pa_remediation_hint :: string
  pa_context_json :: string
  pa_descriptor_json :: string

record py_exception =
  pe_class :: py_exception_class
  pe_message :: string
  pe_attributes :: "py_attributes option"

text \<open>The texts of a descriptor, and whether the interpreter lets the exception be built.\<close>

record py_host =
  ph_display :: "data_error \<Rightarrow> string"
  ph_remediation_hint :: "data_error \<Rightarrow> string"
  ph_context_json :: "data_error \<Rightarrow> string option"
  ph_descriptor_json :: "data_error \<Rightarrow> string option"
  ph_builds :: "data_error \<Rightarrow> bool"

definition py_core_error :: "py_host \<Rightarrow> data_error \<Rightarrow> py_exception" where
  "py_core_error host e =
     (if ph_builds host e
      then
        \<lparr>pe_class = data_error_type_for_category (category e), pe_message = ph_display host e,
         pe_attributes =
           Some
             \<lparr>pa_category = category e, pa_code = code e, pa_severity = severity e,
              pa_remediation_hint = ph_remediation_hint host e,
              pa_context_json = (case ph_context_json host e of Some s \<Rightarrow> s | None \<Rightarrow> ''{}''),
              pa_descriptor_json =
                (case ph_descriptor_json host e of Some s \<Rightarrow> s | None \<Rightarrow> ph_display host e)\<rparr>\<rparr>
      else \<lparr>pe_class = DagMlDataError, pe_message = ph_display host e, pe_attributes = None\<rparr>)"

definition py_serde_error :: "py_host \<Rightarrow> string \<Rightarrow> py_exception" where
  "py_serde_error host msg = py_core_error host (Serialization msg)"

text \<open>Only a stale handle has a category without a subclass, and no contract function takes handles.\<close>

lemma refusals_raise_subclasses:
  "ph_builds host e \<Longrightarrow> pe_class (py_core_error host e) = DagMlDataError \<longleftrightarrow> (\<exists>kind h. e = UnknownHandle kind h)"
  by (cases e) (simp_all add: py_core_error_def data_error_type_for_category_def category_def)

section \<open>Texts\<close>

type_synonym 'a text_reader = "string \<Rightarrow> string + 'a"
type_synonym 'a text_writer = "'a \<Rightarrow> string + string"

text \<open>The fields of an envelope as JSON values.\<close>

record envelope_writers =
  kj_u32 :: "u32 \<Rightarrow> json"
  kj_plan :: "data_plan \<Rightarrow> json"
  kj_relations :: "relation_set \<Rightarrow> json"
  kj_cohort :: "predict_cohort \<Rightarrow> json"

record contract_codecs =
  kc_core :: codecs
  kc_fold_set_value :: "fold_set \<Rightarrow> json res"
  kc_sort_objects :: "json \<Rightarrow> json"
  kc_value_bytes :: "json \<Rightarrow> u8 list res"
  kd_schema :: "dataset_schema text_reader"
  kd_model_input :: "model_input_spec text_reader"
  kd_adapters :: "adapter_spec list text_reader"
  kd_request :: "data_plan_request text_reader"
  kd_plan :: "data_plan text_reader"
  kd_table :: "sample_relation_table text_reader"
  kd_fold_set :: "fold_set text_reader"
  kd_value :: "json text_reader"
  kd_as_u64 :: "json \<Rightarrow> u64 option"
  kd_wire :: "json \<Rightarrow> envelope res"
  kd_custom :: "data_error \<Rightarrow> string"
  ke_plan :: "data_plan text_writer"
  ke_members :: "(string \<times> json) list text_writer"
  kj_envelope :: envelope_writers
  ke_models :: "builtin_data_model_spec list text_writer"
  ke_representations :: "representation_spec list text_writer"
  ke_adapters :: "adapter_spec list text_writer"
  ke_model_input :: "model_input_spec text_writer"

text \<open>
  The derived \<open>Serialize\<close> of an envelope (\<open>coordinator.rs\<close>): its members in the order of the fields, the content
  fingerprints and the cohort only if they are present.
\<close>

definition optional_member :: "string \<Rightarrow> json option \<Rightarrow> (string \<times> json) list" where
  "optional_member key v = (case v of None \<Rightarrow> [] | Some j \<Rightarrow> [(key, j)])"

definition envelope_members :: "envelope_writers \<Rightarrow> envelope \<Rightarrow> (string \<times> json) list" where
  "envelope_members w e =
     [(''schema_version'', kj_u32 w (en_schema_version e)),
      (''schema_fingerprint'', JString (en_schema_fingerprint e)),
      (''plan_fingerprint'', JString (en_plan_fingerprint e)),
      (''relation_fingerprint'', (case en_relation_fingerprint e of None \<Rightarrow> JNull | Some fp \<Rightarrow> JString fp))] @
     optional_member ''data_content_fingerprint'' (map_option JString (en_data_content_fingerprint e)) @
     optional_member ''target_content_fingerprint'' (map_option JString (en_target_content_fingerprint e)) @
     [(''plan'', kj_plan w (en_plan e)),
      (''coordinator_relations'', (case en_coordinator_relations e of None \<Rightarrow> JNull | Some rs \<Rightarrow> kj_relations w rs))] @
     optional_member ''predict_cohort'' (map_option (kj_cohort w) (en_predict_cohort e)) @
     [(''metadata'', JObject (en_metadata e))]"

definition ke_envelope :: "contract_codecs \<Rightarrow> envelope text_writer" where
  "ke_envelope k e = ke_members k (envelope_members (kj_envelope k) e)"

text \<open>Its own \<open>Deserialize\<close>: the text as a JSON value, then the checks of the version and the fields.\<close>

definition kd_envelope :: "contract_codecs \<Rightarrow> envelope text_reader" where
  "kd_envelope k json =
     (case kd_value k json of
        Inl msg \<Rightarrow> Inl msg
      | Inr v \<Rightarrow>
          (case envelope_deserialize (kd_as_u64 k) (kd_wire k) v of
             Inl err \<Rightarrow> Inl (kd_custom k err)
           | Inr e \<Rightarrow> Inr e))"

definition core_result :: "(data_error \<Rightarrow> 'e) \<Rightarrow> 'a res \<Rightarrow> 'e + 'a" where
  "core_result raise r = (case r of Inl e \<Rightarrow> Inl (raise e) | Inr v \<Rightarrow> Inr v)"

definition serde_result :: "(data_error \<Rightarrow> 'e) \<Rightarrow> string + 'a \<Rightarrow> 'e + 'a" where
  "serde_result raise r = (case r of Inl msg \<Rightarrow> Inl (raise (Serialization msg)) | Inr v \<Rightarrow> Inr v)"

lemma core_result_ok [res_simps]: "core_result raise r = Inr v \<longleftrightarrow> r = Inr v"
  by (simp add: core_result_def split: sum.split)

lemma serde_result_ok [res_simps]: "serde_result raise r = Inr v \<longleftrightarrow> r = Inr v"
  by (simp add: serde_result_def split: sum.split)

lemma result_Inr [simp]: "core_result raise (Inr v) = Inr v" "serde_result raise (Inr v) = Inr v"
  by (simp_all add: core_result_ok serde_result_ok)

definition parse_and_validate ::
  "(data_error \<Rightarrow> 'e) \<Rightarrow> 'a text_reader \<Rightarrow> ('a \<Rightarrow> unit res) \<Rightarrow> string \<Rightarrow> 'e + 'a"
where
  "parse_and_validate raise decode validate json =
     rbind (serde_result raise (decode json)) (\<lambda>v. rseq (core_result raise (validate v)) (Inr v))"

definition validate_json ::
  "(data_error \<Rightarrow> 'e) \<Rightarrow> 'a text_reader \<Rightarrow> ('a \<Rightarrow> unit res) \<Rightarrow> string \<Rightarrow> 'e + unit"
where
  "validate_json raise decode validate json = rseq (parse_and_validate raise decode validate json) (Inr ())"

lemma parse_and_validate_ok [res_simps]:
  "parse_and_validate raise decode validate json = Inr v \<longleftrightarrow> decode json = Inr v \<and> validate v = Inr ()"
  by (auto simp: parse_and_validate_def rbind_eq_Inr res_simps)

lemma validate_json_ok:
  "validate_json raise decode validate json = Inr () \<longleftrightarrow> (\<exists>v. decode json = Inr v \<and> validate v = Inr ())"
  by (auto simp: validate_json_def rbind_eq_Inr res_simps)

abbreviation schema_check :: "contract_codecs \<Rightarrow> dataset_schema \<Rightarrow> unit res" where
  "schema_check k \<equiv> dataset_schema_validate (cd_number_f64 (kc_core k))"

section \<open>The catalogue\<close>

definition builtin_data_models_json :: "(data_error \<Rightarrow> 'e) \<Rightarrow> contract_codecs \<Rightarrow> 'e + string" where
  "builtin_data_models_json raise k = serde_result raise (ke_models k builtin_data_model_specs)"

definition builtin_representations_json :: "(data_error \<Rightarrow> 'e) \<Rightarrow> contract_codecs \<Rightarrow> 'e + string" where
  "builtin_representations_json raise k = serde_result raise (ke_representations k builtin_representations)"

definition builtin_adapter_registry_json :: "(data_error \<Rightarrow> 'e) \<Rightarrow> contract_codecs \<Rightarrow> 'e + string" where
  "builtin_adapter_registry_json raise k = serde_result raise (ke_adapters k builtin_adapters)"

definition tabular_numeric_model_input_spec_json :: "(data_error \<Rightarrow> 'e) \<Rightarrow> contract_codecs \<Rightarrow> 'e + string" where
  "tabular_numeric_model_input_spec_json raise k = serde_result raise (ke_model_input k tabular_numeric_model_input_spec)"

section \<open>Validation and fingerprints\<close>

definition validate_dataset_schema_json ::
  "(data_error \<Rightarrow> 'e) \<Rightarrow> contract_codecs \<Rightarrow> string \<Rightarrow> 'e + unit"
where
  "validate_dataset_schema_json raise k json = validate_json raise (kd_schema k) (schema_check k) json"

definition dataset_schema_fingerprint_json ::
  "(data_error \<Rightarrow> 'e) \<Rightarrow> contract_codecs \<Rightarrow> string \<Rightarrow> 'e + string"
where
  "dataset_schema_fingerprint_json raise k json =
     rbind (parse_and_validate raise (kd_schema k) (schema_check k) json) (\<lambda>schema.
       core_result raise (schema_fingerprint (kc_core k) schema))"

definition validate_model_input_spec_json ::
  "(data_error \<Rightarrow> 'e) \<Rightarrow> contract_codecs \<Rightarrow> string \<Rightarrow> 'e + unit"
where
  "validate_model_input_spec_json raise k json = validate_json raise (kd_model_input k) model_input_validate json"

definition adapter_registry_from_json ::
  "(data_error \<Rightarrow> 'e) \<Rightarrow> contract_codecs \<Rightarrow> string \<Rightarrow> 'e + adapter_registry"
where
  "adapter_registry_from_json raise k json =
     rbind (serde_result raise (kd_adapters k json)) (\<lambda>spec. core_result raise (registry_from_spec spec))"

definition validate_adapter_registry_json ::
  "(data_error \<Rightarrow> 'e) \<Rightarrow> contract_codecs \<Rightarrow> string \<Rightarrow> 'e + unit"
where
  "validate_adapter_registry_json raise k json = rseq (adapter_registry_from_json raise k json) (Inr ())"

definition validate_data_plan_json :: "(data_error \<Rightarrow> 'e) \<Rightarrow> contract_codecs \<Rightarrow> string \<Rightarrow> 'e + unit" where
  "validate_data_plan_json raise k json = validate_json raise (kd_plan k) data_plan_validate json"

definition data_plan_fingerprint_json :: "(data_error \<Rightarrow> 'e) \<Rightarrow> contract_codecs \<Rightarrow> string \<Rightarrow> 'e + string" where
  "data_plan_fingerprint_json raise k json =
     rbind (parse_and_validate raise (kd_plan k) data_plan_validate json) (\<lambda>plan.
       core_result raise (data_plan_fingerprint (cd_external (kc_core k)) plan))"

definition validate_sample_relation_table_json ::
  "(data_error \<Rightarrow> 'e) \<Rightarrow> contract_codecs \<Rightarrow> string \<Rightarrow> 'e + unit"
where
  "validate_sample_relation_table_json raise k json = validate_json raise (kd_table k) table_validate json"

definition sample_relation_table_fingerprint_json ::
  "(data_error \<Rightarrow> 'e) \<Rightarrow> contract_codecs \<Rightarrow> string \<Rightarrow> 'e + string"
where
  "sample_relation_table_fingerprint_json raise k json =
     rbind (parse_and_validate raise (kd_table k) table_validate json) (\<lambda>relations.
       core_result raise (table_fingerprint (kc_core k) relations))"

definition validate_fold_set_json :: "(data_error \<Rightarrow> 'e) \<Rightarrow> contract_codecs \<Rightarrow> string \<Rightarrow> 'e + unit" where
  "validate_fold_set_json raise k json = validate_json raise (kd_fold_set k) fold_set_validate json"

definition fold_set_fingerprint_json :: "(data_error \<Rightarrow> 'e) \<Rightarrow> contract_codecs \<Rightarrow> string \<Rightarrow> 'e + string" where
  "fold_set_fingerprint_json raise k json =
     rbind (parse_and_validate raise (kd_fold_set k) fold_set_validate json) (\<lambda>fs.
       core_result raise
         (fold_set_fingerprint (kc_fold_set_value k) (kc_sort_objects k) (kc_value_bytes k)
            (ex_sha256 (cd_external (kc_core k))) fs))"

definition validate_fold_set_against_sample_relations_json ::
  "(data_error \<Rightarrow> 'e) \<Rightarrow> contract_codecs \<Rightarrow> string \<Rightarrow> string \<Rightarrow> 'e + unit"
where
  "validate_fold_set_against_sample_relations_json raise k fold_set_json sample_relations_json =
     rbind (parse_and_validate raise (kd_fold_set k) fold_set_validate fold_set_json) (\<lambda>fs.
     rbind (parse_and_validate raise (kd_table k) table_validate sample_relations_json) (\<lambda>relations.
       core_result raise (validate_fold_set relations fs)))"

definition validate_coordinator_data_plan_envelope_json ::
  "(data_error \<Rightarrow> 'e) \<Rightarrow> contract_codecs \<Rightarrow> string \<Rightarrow> 'e + unit"
where
  "validate_coordinator_data_plan_envelope_json raise k json =
     validate_json raise (kd_envelope k) (envelope_validate (cd_external (kc_core k))) json"

section \<open>Planning and assembly\<close>

definition plan_model_input_json ::
  "(data_error \<Rightarrow> 'e) \<Rightarrow> contract_codecs \<Rightarrow> string \<Rightarrow> string \<Rightarrow> string \<Rightarrow> string \<Rightarrow> 'e + string"
where
  "plan_model_input_json raise k schema_json model_input_json adapter_registry_json request_json =
     rbind (parse_and_validate raise (kd_schema k) (schema_check k) schema_json) (\<lambda>schema.
     rbind (parse_and_validate raise (kd_model_input k) model_input_validate model_input_json) (\<lambda>model_input.
     rbind (adapter_registry_from_json raise k adapter_registry_json) (\<lambda>adapters.
     rbind (serde_result raise (kd_request k request_json)) (\<lambda>request.
     rbind
       (core_result raise (plan_model_input (cd_number_f64 (kc_core k)) schema model_input adapters request))
       (\<lambda>plan. serde_result raise (ke_plan k plan))))))"

definition build_coordinator_data_plan_envelope_json ::
  "(data_error \<Rightarrow> 'e) \<Rightarrow> contract_codecs \<Rightarrow> string \<Rightarrow> string \<Rightarrow> string option \<Rightarrow> 'e + string"
where
  "build_coordinator_data_plan_envelope_json raise k schema_json data_plan_json sample_relations_json =
     rbind (parse_and_validate raise (kd_schema k) (schema_check k) schema_json) (\<lambda>schema.
     rbind (parse_and_validate raise (kd_plan k) data_plan_validate data_plan_json) (\<lambda>plan.
     rbind
       (case sample_relations_json of
          None \<Rightarrow> Inr None
        | Some json \<Rightarrow>
            rbind (parse_and_validate raise (kd_table k) table_validate json) (\<lambda>t. Inr (Some t))) (\<lambda>relations.
     rbind (core_result raise (envelope_from_parts (kc_core k) schema plan relations)) (\<lambda>e.
       serde_result raise (ke_envelope k e)))))"

end
