(* ===== verification/Command_Line.thy ===== *)
theory Command_Line
  imports Contract_Bindings File_System Buffer_File
begin

text \<open>
  The command line (\<open>dag-ml-data-cli/src/main.rs\<close>): each command reads JSON files, runs one operation of the core
  crate and prints one line. The parsing of the arguments is \<open>clap\<close>'s and the chain of contexts \<open>anyhow\<close>'s; a
  context is abbreviated to what it says before the path. The compact texts and the readers are those of
  \<open>contract_codecs\<close>, and the indented texts are parameters of their own.
\<close>

datatype command =
    FingerprintSchema string
  | FingerprintPlan string
  | FingerprintRelations string
  | EnvelopePlan string string "string option"
  | ValidateEnvelope string
  | MaterializeEnvelope string string string
  | PlanModelInput string string string string "string list"
  | ValidateModelInput string
  | RepresentationRegistry

datatype cli_error =
    Context string cli_error
  | IoFailure
  | ParseFailure string
  | WriteFailure string
  | CoreFailure data_error

type_synonym 'a cli = "cli_error + 'a"

record cli_env =
  cl_contracts :: contract_codecs
  cl_materialization :: "materialization_request text_reader"
  cl_plan_pretty :: "data_plan text_writer"
  cl_envelope_pretty :: "envelope text_writer"
  cl_record_pretty :: "data_handle_record text_writer"
  cl_registry_pretty :: "representation_registry text_writer"

abbreviation cl_core :: "cli_env \<Rightarrow> codecs" where
  "cl_core env \<equiv> kc_core (cl_contracts env)"

definition with_context :: "string \<Rightarrow> 'a cli \<Rightarrow> 'a cli" where
  "with_context label r = (case r of Inl e \<Rightarrow> Inl (Context label e) | Inr v \<Rightarrow> Inr v)"

definition cli_core :: "'a res \<Rightarrow> 'a cli" where
  "cli_core r = (case r of Inl e \<Rightarrow> Inl (CoreFailure e) | Inr v \<Rightarrow> Inr v)"

definition cli_print :: "'a text_writer \<Rightarrow> 'a \<Rightarrow> string cli" where
  "cli_print write v = (case write v of Inl msg \<Rightarrow> Inl (WriteFailure msg) | Inr s \<Rightarrow> Inr s)"

definition cli_parse :: "'a text_reader \<Rightarrow> u8 list \<Rightarrow> 'a cli" where
  "cli_parse decode bytes =
     (case decode (string_of_bytes bytes) of Inl msg \<Rightarrow> Inl (ParseFailure msg) | Inr v \<Rightarrow> Inr v)"

definition cli_read_json :: "'a text_reader \<Rightarrow> string \<Rightarrow> string \<Rightarrow> file_system \<Rightarrow> 'a cli" where
  "cli_read_json decode label path fs =
     rbind (with_context (''failed to read '' @ label @ '' JSON'') (ok_or (fs_read path fs) IoFailure)) (\<lambda>data.
       with_context (''failed to parse '' @ label @ '' JSON'') (cli_parse decode data))"

section \<open>The commands\<close>

definition cli_fingerprint_schema :: "cli_env \<Rightarrow> string \<Rightarrow> file_system \<Rightarrow> string cli" where
  "cli_fingerprint_schema env path fs =
     rbind (with_context ''failed to read schema JSON'' (ok_or (fs_read path fs) IoFailure)) (\<lambda>data.
     rbind (with_context ''failed to parse schema JSON'' (cli_parse (kd_schema (cl_contracts env)) data)) (\<lambda>schema.
       with_context ''invalid schema'' (cli_core (schema_fingerprint (cl_core env) schema))))"

definition cli_fingerprint_plan :: "cli_env \<Rightarrow> string \<Rightarrow> file_system \<Rightarrow> string cli" where
  "cli_fingerprint_plan env path fs =
     rbind (cli_read_json (kd_plan (cl_contracts env)) ''data plan'' path fs) (\<lambda>plan.
       with_context ''invalid data plan'' (cli_core (data_plan_fingerprint (cd_external (cl_core env)) plan)))"

definition cli_fingerprint_relations :: "cli_env \<Rightarrow> string \<Rightarrow> file_system \<Rightarrow> string cli" where
  "cli_fingerprint_relations env path fs =
     rbind (cli_read_json (kd_table (cl_contracts env)) ''sample relations'' path fs) (\<lambda>relations.
       with_context ''invalid sample relations'' (cli_core (table_fingerprint (cl_core env) relations)))"

definition cli_envelope_plan ::
  "cli_env \<Rightarrow> string \<Rightarrow> string \<Rightarrow> string option \<Rightarrow> file_system \<Rightarrow> string cli"
where
  "cli_envelope_plan env schema_path plan_path relations_path fs =
     rbind (cli_read_json (kd_schema (cl_contracts env)) ''schema'' schema_path fs) (\<lambda>schema.
     rbind (cli_read_json (kd_plan (cl_contracts env)) ''data plan'' plan_path fs) (\<lambda>plan.
     rbind
       (case relations_path of
          None \<Rightarrow> Inr None
        | Some path \<Rightarrow>
            rbind (cli_read_json (kd_table (cl_contracts env)) ''sample relations'' path fs) (\<lambda>t. Inr (Some t)))
       (\<lambda>relations.
     rbind
       (with_context ''failed to build coordinator data-plan envelope''
         (cli_core (envelope_from_parts (cl_core env) schema plan relations)))
       (\<lambda>e. cli_print (cl_envelope_pretty env) e))))"

definition cli_validate_envelope :: "cli_env \<Rightarrow> string \<Rightarrow> file_system \<Rightarrow> string cli" where
  "cli_validate_envelope env path fs =
     rbind (cli_read_json (kd_envelope (cl_contracts env)) ''coordinator data-plan envelope'' path fs) (\<lambda>e.
     rseq
       (with_context ''invalid data-plan envelope'' (cli_core (envelope_validate (cd_external (cl_core env)) e)))
       (Inr
          (''valid data-plan envelope: plan_fingerprint='' @ en_plan_fingerprint e @ '', relations='' @
           decimal (case en_coordinator_relations e of Some rs \<Rightarrow> length (rs_records rs) | None \<Rightarrow> 0))))"

definition cli_materialize_envelope ::
  "cli_env \<Rightarrow> string \<Rightarrow> string \<Rightarrow> string \<Rightarrow> file_system \<Rightarrow> string cli"
where
  "cli_materialize_envelope env envelope_path request_path owner fs =
     rbind (cli_read_json (kd_envelope (cl_contracts env)) ''coordinator data-plan envelope'' envelope_path fs) (\<lambda>e.
     rbind (cli_read_json (cl_materialization env) ''coordinator data materialization request'' request_path fs)
       (\<lambda>request.
     rbind (cli_core (arena_new owner)) (\<lambda>arena.
     rbind
       (with_context ''failed to materialize coordinator data handle''
         (cli_core (materialize (cd_external (cl_core env)) e request arena)))
       (\<lambda>(handle_record, _). cli_print (cl_record_pretty env) handle_record))))"

definition cli_plan_model_input ::
  "cli_env \<Rightarrow> string \<Rightarrow> string \<Rightarrow> string \<Rightarrow> string \<Rightarrow> string list \<Rightarrow> file_system \<Rightarrow> string cli"
where
  "cli_plan_model_input env schema_path model_input_path adapters_path plan_id sources fs =
     rbind (cli_read_json (kd_schema (cl_contracts env)) ''schema'' schema_path fs) (\<lambda>schema.
     rbind (cli_read_json (kd_model_input (cl_contracts env)) ''model input'' model_input_path fs) (\<lambda>model_input.
     rbind (cli_read_json (kd_adapters (cl_contracts env)) ''adapter registry'' adapters_path fs) (\<lambda>spec.
     rbind (with_context ''invalid adapter registry'' (cli_core (registry_from_spec spec))) (\<lambda>registry.
     rbind
       (if sources = [] then Inr None
        else rbind (cli_core (map_res ident_new sources)) (\<lambda>ids. Inr (Some ids)))
       (\<lambda>source_ids.
     rbind
       (with_context ''failed to plan model input''
         (cli_core
           (plan_model_input (cd_number_f64 (cl_core env)) schema model_input registry
             \<lparr>dr_id = plan_id, dr_source_ids = source_ids, dr_planning_policy = default_policy\<rparr>)))
       (\<lambda>plan. cli_print (cl_plan_pretty env) plan))))))"

definition cli_validate_model_input :: "cli_env \<Rightarrow> string \<Rightarrow> file_system \<Rightarrow> string cli" where
  "cli_validate_model_input env path fs =
     rbind (cli_read_json (kd_model_input (cl_contracts env)) ''model input'' path fs) (\<lambda>model_input.
     rseq
       (with_context ''invalid model input against representation registry''
         (cli_core
           (validate_model_input_spec_against_registry (cd_number_f64 (cl_core env)) model_input published_registry)))
       (Inr
          (''valid model input: '' @ decimal (length (mi_ports model_input)) @ '' port(s), '' @
           decimal (sum_list (map (\<lambda>p. length (ip_accepted_representations p)) (mi_ports model_input))) @
           '' accepted representation(s)'')))"

fun run_command :: "cli_env \<Rightarrow> file_system \<Rightarrow> command \<Rightarrow> string cli" where
  "run_command env fs (FingerprintSchema path) = cli_fingerprint_schema env path fs"
| "run_command env fs (FingerprintPlan path) = cli_fingerprint_plan env path fs"
| "run_command env fs (FingerprintRelations path) = cli_fingerprint_relations env path fs"
| "run_command env fs (EnvelopePlan schema plan relations) = cli_envelope_plan env schema plan relations fs"
| "run_command env fs (ValidateEnvelope path) = cli_validate_envelope env path fs"
| "run_command env fs (MaterializeEnvelope envelope request owner) =
     cli_materialize_envelope env envelope request owner fs"
| "run_command env fs (PlanModelInput schema model_input adapters plan_id sources) =
     cli_plan_model_input env schema model_input adapters plan_id sources fs"
| "run_command env fs (ValidateModelInput path) = cli_validate_model_input env path fs"
| "run_command env fs RepresentationRegistry = cli_print (cl_registry_pretty env) published_registry"

end
