(* ===== verification/Contract_Pipeline.thy ===== *)
theory Contract_Pipeline
  imports Command_Line
begin

text \<open>
  Working through texts: what a host that plans and assembles through the JSON contract functions can rely on,
  and the agreement of these functions with the command line.
\<close>

section \<open>What the contract functions read\<close>

definition relations_read :: "contract_codecs \<Rightarrow> string option \<Rightarrow> sample_relation_table option \<Rightarrow> bool" where
  "relations_read k json relations \<longleftrightarrow>
     (case json of None \<Rightarrow> relations = None | Some s \<Rightarrow> \<exists>t. kd_table k s = Inr t \<and> relations = Some t)"

definition envelope_made ::
  "contract_codecs \<Rightarrow> string \<Rightarrow> string \<Rightarrow> string option \<Rightarrow> envelope \<Rightarrow> bool"
where
  "envelope_made k schema_json plan_json relations_json e \<longleftrightarrow>
     (\<exists>schema plan relations. kd_schema k schema_json = Inr schema \<and> kd_plan k plan_json = Inr plan \<and>
        relations_read k relations_json relations \<and> envelope_from_parts (kc_core k) schema plan relations = Inr e)"

lemma from_parts_valid_parts:
  assumes "envelope_from_parts cd schema plan relations = Inr e"
  shows "dataset_schema_validate (cd_number_f64 cd) schema = Inr ()" and "data_plan_validate plan = Inr ()"
    and "relations = Some t \<Longrightarrow> table_validate t = Inr ()"
  using assms
  by (auto simp: envelope_from_parts_def rbind_eq_Inr data_plan_fingerprint_def split: option.splits)

lemma relations_parsed:
  "(case json of None \<Rightarrow> Inr None
    | Some s \<Rightarrow> rbind (parse_and_validate raise (kd_table k) table_validate s) (\<lambda>t. Inr (Some t))) = Inr relations \<longleftrightarrow>
   relations_read k json relations \<and> (\<forall>t. relations = Some t \<longrightarrow> table_validate t = Inr ())"
  by (auto simp: relations_read_def rbind_eq_Inr res_simps split: option.split)

lemma build_envelope_made:
  "envelope_made k schema_json plan_json relations_json e \<Longrightarrow>
   build_coordinator_data_plan_envelope_json raise k schema_json plan_json relations_json =
     serde_result raise (ke_envelope k e)"
proof -
  assume "envelope_made k schema_json plan_json relations_json e"
  then obtain schema plan relations where parts: "kd_schema k schema_json = Inr schema" "kd_plan k plan_json = Inr plan"
      "relations_read k relations_json relations" "envelope_from_parts (kc_core k) schema plan relations = Inr e"
    by (auto simp: envelope_made_def)
  have "parse_and_validate raise (kd_schema k) (schema_check k) schema_json = Inr schema"
      "parse_and_validate raise (kd_plan k) data_plan_validate plan_json = Inr plan"
    using parts from_parts_valid_parts [OF parts(4)] by (simp_all add: parse_and_validate_ok)
  moreover have "(case relations_json of None \<Rightarrow> Inr None
      | Some s \<Rightarrow> rbind (parse_and_validate raise (kd_table k) table_validate s) (\<lambda>t. Inr (Some t))) = Inr relations"
    unfolding relations_parsed using parts(3) from_parts_valid_parts(3) [OF parts(4)] by blast
  ultimately show ?thesis
    using parts(4) by (simp add: build_coordinator_data_plan_envelope_json_def)
qed

lemma build_needs_envelope:
  "build_coordinator_data_plan_envelope_json raise k schema_json plan_json relations_json = Inr out \<Longrightarrow>
   \<exists>e. envelope_made k schema_json plan_json relations_json e \<and> ke_envelope k e = Inr out"
  unfolding build_coordinator_data_plan_envelope_json_def rbind_eq_Inr relations_parsed parse_and_validate_ok
    core_result_ok serde_result_ok envelope_made_def by blast

section \<open>Reading back\<close>

definition plan_made ::
  "contract_codecs \<Rightarrow> string \<Rightarrow> string \<Rightarrow> string \<Rightarrow> data_plan_request \<Rightarrow> data_plan \<Rightarrow> bool"
where
  "plan_made k schema_json model_input_json adapters_json request plan \<longleftrightarrow>
     (\<exists>schema model_input spec reg. kd_schema k schema_json = Inr schema \<and>
        kd_model_input k model_input_json = Inr model_input \<and> kd_adapters k adapters_json = Inr spec \<and>
        registry_from_spec spec = Inr reg \<and>
        plan_model_input (cd_number_f64 (kc_core k)) schema model_input reg request = Inr plan)"

text \<open>
  What is asked of \<open>serde_json\<close>, of one plan and of one envelope: the text of the plan reads back as the plan; the
  text of the envelope is read as an object with the members that were written, and the derived decoding finds
  the fields in it. Whether the text is then accepted is decided by the code, in \<open>kd_envelope\<close>: it refuses, of
  those that can be written, the envelope of version 1 with a cohort.
\<close>

definition plan_read_back :: "contract_codecs \<Rightarrow> data_plan \<Rightarrow> bool" where
  "plan_read_back k plan \<longleftrightarrow> (\<forall>t. ke_plan k plan = Inr t \<longrightarrow> kd_plan k t = Inr plan)"

definition envelope_read_back :: "contract_codecs \<Rightarrow> envelope \<Rightarrow> bool" where
  "envelope_read_back k e \<longleftrightarrow>
     (\<forall>t. ke_envelope k e = Inr t \<longrightarrow>
        (\<exists>m. kd_value k t = Inr (JObject m) \<and>
           fst ` set m = fst ` set (envelope_members (kj_envelope k) e) \<and> kd_wire k (JObject m) = Inr e))"

lemma member_names:
  "fst ` set (envelope_members w e) \<subseteq> set envelope_v2_fields"
  "''predict_cohort'' \<in> fst ` set (envelope_members w e) \<longleftrightarrow> en_predict_cohort e \<noteq> None"
  by (cases "en_data_content_fingerprint e"; cases "en_target_content_fingerprint e"; cases "en_predict_cohort e";
      simp add: envelope_members_def optional_member_def envelope_v2_fields_def)+

lemma envelope_text_accepted:
  assumes "envelope_read_back k e" and "ke_envelope k e = Inr t" and "en_predict_cohort e = None"
  shows "kd_envelope k t = Inr e"
proof -
  obtain m where m: "kd_value k t = Inr (JObject m)" "kd_wire k (JObject m) = Inr e"
      "fst ` set m = fst ` set (envelope_members (kj_envelope k) e)"
    using assms(1,2) by (auto simp: envelope_read_back_def)
  have "json_member ''predict_cohort'' (JObject m) = None"
    using member_names(2) [of "kj_envelope k" e] assms(3) m(3) by (simp add: json_member_def map_of_eq_None_iff)
  moreover have "\<not> list_ex (\<lambda>key. key \<notin> set envelope_v2_fields) (bt_keys m)"
    using member_names(1) [of "kj_envelope k" e] m(3) by (auto simp: list_ex_iff)
  ultimately show ?thesis using m(1,2) by (simp add: kd_envelope_def envelope_deserialize_def)
qed

text \<open>A cohort in an envelope of version 1 is written, and its text refused.\<close>

lemma cohort_text_refused:
  assumes "kd_value k t = Inr (JObject m)" and "fst ` set m = fst ` set (envelope_members (kj_envelope k) e)"
    and "en_predict_cohort e \<noteq> None"
    and "Option.bind (map_of m ''schema_version'') (kd_as_u64 k) = Some 1"
  shows "isl (kd_envelope k t)"
proof -
  have "map_of m ''predict_cohort'' \<noteq> None"
    using member_names(2) [of "kj_envelope k" e] assms(2,3) by (simp only: map_of_eq_None_iff simp_thms)
  then show ?thesis
    using assms(1,4) by (simp add: kd_envelope_def envelope_deserialize_def json_member_def)
qed

section \<open>From planning to a validated envelope, in texts\<close>

text \<open>
  C17. A plan planned through the contract functions assembles through them. Let a text be the answer of
  \<open>plan_model_input_json\<close>. Given to \<open>build_coordinator_data_plan_envelope_json\<close> with the text of the same schema, it
  is refused only if the relation table does not declare what it uses or a part cannot be written; and what is
  built passes the checks that the decoder of envelopes makes of versions and members, and is accepted by
  \<open>validate_coordinator_data_plan_envelope_json\<close>. Of \<open>serde_json\<close> this takes that the plan that was planned and the
  envelope that is assembled are read as they were written (\<open>plan_read_back\<close>, \<open>envelope_read_back\<close>), of no
  others; the repetition ids of the table are identifiers, and a digest has 32 bytes.
\<close>

theorem planned_texts_assemble:
  assumes "plan_model_input_json raise k schema_json model_input_json adapters_json request_json = Inr plan_json"
    and "kd_schema k schema_json = Inr schema" and "kd_plan k plan_json = Inr plan"
    and "relations_read k relations_json relations"
    and "\<And>request p. kd_request k request_json = Inr request \<Longrightarrow>
      plan_made k schema_json model_input_json adapters_json request p \<Longrightarrow> plan_read_back k p"
    and "\<And>e. assembled (kc_core k) schema plan relations e \<Longrightarrow> envelope_read_back k e"
    and "\<forall>t. relations = Some t \<longrightarrow> repetitions_valid t"
    and "\<And>bytes. length (ex_sha256 (cd_external (kc_core k)) bytes) = 32"
  shows "(build_coordinator_data_plan_envelope_json raise k schema_json plan_json relations_json = Inr out \<longleftrightarrow>
      (\<forall>t. relations = Some t \<longrightarrow> table_declared schema t) \<and>
      (\<exists>e. assembled (kc_core k) schema plan relations e \<and> ke_envelope k e = Inr out)) \<and>
    (build_coordinator_data_plan_envelope_json raise k schema_json plan_json relations_json = Inr out \<longrightarrow>
      validate_coordinator_data_plan_envelope_json raise k out = Inr ())"
proof -
  obtain model_input spec reg request p where planned: "registry_from_spec spec = Inr reg"
      "plan_model_input (cd_number_f64 (kc_core k)) schema model_input reg request = Inr p" "ke_plan k p = Inr plan_json"
      "kd_request k request_json = Inr request" "plan_made k schema_json model_input_json adapters_json request p"
    using assms(1,2)
    by (fastforce simp: plan_model_input_json_def adapter_registry_from_json_def rbind_eq_Inr res_simps plan_made_def)
  have "p = plan" using assms(5) [OF planned(4,5)] planned(3) assms(3) by (simp add: plan_read_back_def)
  then have sound: "plan_declared schema plan" "schema_ok (cd_number_f64 (kc_core k)) schema"
    using planned_plan_declared [OF registry_from_spec_adapters_ok [OF planned(1)] planned(2)] by simp_all
  have same: "relations_read k relations_json r \<Longrightarrow> r = relations" for r
    using assms(4) by (auto simp: relations_read_def split: option.splits)
  have made: "envelope_made k schema_json plan_json relations_json e \<longleftrightarrow>
      (\<forall>t. relations = Some t \<longrightarrow> table_declared schema t) \<and> assembled (kc_core k) schema plan relations e" for e
    using from_parts_lemma [OF assms(8,7), of schema plan e] sound assms(2,3)
    by (auto simp: envelope_made_def dest!: same intro!: exI [of _ relations] assms(4))
  have valid: "envelope_validate (cd_external (kc_core k)) e = Inr () \<and>
      (ke_envelope k e = Inr t \<longrightarrow> kd_envelope k t = Inr e)"
    if "envelope_made k schema_json plan_json relations_json e" for e t
    using that assms(7) assembled_valid [OF assms(8) sound(1), of relations e]
      envelope_text_accepted [OF assms(6), of e t]
    unfolding made by (auto simp: table_declared_def assembled_def)
  have built: "build_coordinator_data_plan_envelope_json raise k schema_json plan_json relations_json = Inr out \<longleftrightarrow>
      (\<exists>e. envelope_made k schema_json plan_json relations_json e \<and> ke_envelope k e = Inr out)"
    using build_needs_envelope [of raise k schema_json plan_json relations_json out]
      build_envelope_made [of k schema_json plan_json relations_json _ raise] by (auto simp: serde_result_ok)
  show ?thesis
    unfolding built validate_coordinator_data_plan_envelope_json_def validate_json_ok
    using valid made by blast
qed

section \<open>The command line\<close>

lemma with_context_ok: "with_context label r = Inr v \<longleftrightarrow> r = Inr v"
  by (simp add: with_context_def split: sum.split)

lemma cli_core_ok: "cli_core r = Inr v \<longleftrightarrow> r = Inr v"
  by (simp add: cli_core_def split: sum.split)

lemma cli_parse_ok: "cli_parse decode data = Inr v \<longleftrightarrow> decode (string_of_bytes data) = Inr v"
  by (simp add: cli_parse_def split: sum.split)

lemma cli_read_ok:
  "cli_read_json decode label path fs = Inr v \<longleftrightarrow>
     (\<exists>data. fs_read path fs = Some data \<and> decode (string_of_bytes data) = Inr v)"
  by (auto simp: cli_read_json_def rbind_eq_Inr with_context_ok res_simps cli_parse_ok)

definition file_text :: "file_system \<Rightarrow> string \<Rightarrow> string option" where
  "file_text fs path = map_option string_of_bytes (fs_read path fs)"

lemma cli_read_text: "file_text fs path = Some s \<Longrightarrow> cli_read_json decode label path fs = Inr v \<longleftrightarrow> decode s = Inr v"
  by (auto simp: cli_read_ok file_text_def)

text \<open>The request that the command line makes of its arguments.\<close>

definition request_of_args :: "string \<Rightarrow> string list \<Rightarrow> data_plan_request \<Rightarrow> bool" where
  "request_of_args plan_id sources request \<longleftrightarrow>
     dr_id request = plan_id \<and> dr_planning_policy request = default_policy \<and>
     (if sources = [] then dr_source_ids request = None
      else \<exists>ids. map_res ident_new sources = Inr ids \<and> dr_source_ids request = Some ids)"

lemma plan_valid_parts:
  assumes "plan_model_input nf schema model_input reg request = Inr plan"
  shows "dataset_schema_validate nf schema = Inr ()" and "model_input_validate model_input = Inr ()"
  using assms by (auto simp: plan_model_input_def build_plan_def rbind_eq_Inr)

lemma binding_plan_made:
  assumes "kd_request k request_json = Inr request"
  shows "plan_made k schema_json model_input_json adapters_json request plan \<Longrightarrow>
      plan_model_input_json raise k schema_json model_input_json adapters_json request_json =
        serde_result raise (ke_plan k plan)"
    and "plan_model_input_json raise k schema_json model_input_json adapters_json request_json = Inr out \<Longrightarrow>
      \<exists>plan. plan_made k schema_json model_input_json adapters_json request plan"
proof -
  show "plan_model_input_json raise k schema_json model_input_json adapters_json request_json =
        serde_result raise (ke_plan k plan)"
    if made: "plan_made k schema_json model_input_json adapters_json request plan"
  proof -
    obtain schema model_input spec reg where parts: "kd_schema k schema_json = Inr schema"
        "kd_model_input k model_input_json = Inr model_input" "kd_adapters k adapters_json = Inr spec"
        "registry_from_spec spec = Inr reg"
        "plan_model_input (cd_number_f64 (kc_core k)) schema model_input reg request = Inr plan"
      using made by (auto simp: plan_made_def)
    have "parse_and_validate raise (kd_schema k) (schema_check k) schema_json = Inr schema"
        "parse_and_validate raise (kd_model_input k) model_input_validate model_input_json = Inr model_input"
      using parts plan_valid_parts [OF parts(5)] by (simp_all add: parse_and_validate_ok)
    then show ?thesis
      using parts assms
      by (simp add: plan_model_input_json_def adapter_registry_from_json_def)
  qed
  show "\<exists>plan. plan_made k schema_json model_input_json adapters_json request plan"
    if "plan_model_input_json raise k schema_json model_input_json adapters_json request_json = Inr out"
    using that assms
    unfolding plan_model_input_json_def adapter_registry_from_json_def rbind_eq_Inr parse_and_validate_ok
      core_result_ok serde_result_ok plan_made_def by auto
qed

lemma cli_plan_made:
  assumes "file_text fs schema_path = Some schema_json" "file_text fs input_path = Some model_input_json"
    and "file_text fs adapters_path = Some adapters_json" and "request_of_args plan_id sources request"
  shows "plan_made (cl_contracts env) schema_json model_input_json adapters_json request plan \<Longrightarrow>
      run_command env fs (PlanModelInput schema_path input_path adapters_path plan_id sources) =
        cli_print (cl_plan_pretty env) plan"
    and "run_command env fs (PlanModelInput schema_path input_path adapters_path plan_id sources) = Inr out \<Longrightarrow>
      \<exists>plan. plan_made (cl_contracts env) schema_json model_input_json adapters_json request plan"
proof -
  note texts = cli_read_text [OF assms(1)] cli_read_text [OF assms(2)] cli_read_text [OF assms(3)]
  obtain ids where ids: "request = \<lparr>dr_id = plan_id, dr_source_ids = ids, dr_planning_policy = default_policy\<rparr>"
      "(if sources = [] then Inr None else rbind (cli_core (map_res ident_new sources)) (\<lambda>ids. Inr (Some ids))) = Inr ids"
    using assms(4) by (cases request) (auto simp: request_of_args_def cli_core_def split: if_splits)
  show "run_command env fs (PlanModelInput schema_path input_path adapters_path plan_id sources) =
      cli_print (cl_plan_pretty env) plan"
    if made: "plan_made (cl_contracts env) schema_json model_input_json adapters_json request plan"
  proof -
    obtain schema model_input spec reg where parts: "kd_schema (cl_contracts env) schema_json = Inr schema"
        "kd_model_input (cl_contracts env) model_input_json = Inr model_input"
        "kd_adapters (cl_contracts env) adapters_json = Inr spec" "registry_from_spec spec = Inr reg"
        "plan_model_input (cd_number_f64 (cl_core env)) schema model_input reg request = Inr plan"
      using made by (auto simp: plan_made_def)
    note read = parts(1-3) [folded texts(1) [of _ "''schema''"] texts(2) [of _ "''model input''"]
        texts(3) [of _ "''adapter registry''"]]
    show ?thesis
      using parts(4,5) ids by (simp add: read cli_plan_model_input_def with_context_def cli_core_def)
  qed
  show "\<exists>plan. plan_made (cl_contracts env) schema_json model_input_json adapters_json request plan"
    if "run_command env fs (PlanModelInput schema_path input_path adapters_path plan_id sources) = Inr out"
    using that ids
    unfolding run_command.simps cli_plan_model_input_def rbind_eq_Inr texts with_context_ok cli_core_ok plan_made_def
    by auto
qed

lemma cli_envelope_made:
  assumes "file_text fs schema_path = Some schema_json" "file_text fs plan_path = Some plan_json"
    and "\<forall>path\<in>set_option relations_path. file_text fs path \<noteq> None"
    and "relations_json = Option.bind relations_path (file_text fs)"
  shows "envelope_made (cl_contracts env) schema_json plan_json relations_json e \<Longrightarrow>
      run_command env fs (EnvelopePlan schema_path plan_path relations_path) = cli_print (cl_envelope_pretty env) e"
    and "run_command env fs (EnvelopePlan schema_path plan_path relations_path) = Inr out \<Longrightarrow>
      \<exists>e. envelope_made (cl_contracts env) schema_json plan_json relations_json e"
proof -
  let ?k = "cl_contracts env"
  note texts = cli_read_text [OF assms(1)] cli_read_text [OF assms(2)]
  have relations: "(case relations_path of None \<Rightarrow> Inr None
      | Some path \<Rightarrow> rbind (cli_read_json (kd_table ?k) ''sample relations'' path fs) (\<lambda>t. Inr (Some t))) = Inr r \<longleftrightarrow>
      relations_read ?k relations_json r" for r
    using assms(3,4) cli_read_text [of fs _ _ "kd_table ?k" "''sample relations''"]
    by (auto simp: relations_read_def rbind_eq_Inr split: option.split)
  show "run_command env fs (EnvelopePlan schema_path plan_path relations_path) = cli_print (cl_envelope_pretty env) e"
    if made: "envelope_made ?k schema_json plan_json relations_json e"
  proof -
    obtain schema plan r where parts: "kd_schema ?k schema_json = Inr schema" "kd_plan ?k plan_json = Inr plan"
        "relations_read ?k relations_json r" "envelope_from_parts (cl_core env) schema plan r = Inr e"
      using made by (auto simp: envelope_made_def)
    note read = parts(1-3) [folded texts(1) [of _ "''schema''"] texts(2) [of _ "''data plan''"] relations]
    show ?thesis using parts(4) by (simp add: read cli_envelope_plan_def with_context_def cli_core_def)
  qed
  show "\<exists>e. envelope_made ?k schema_json plan_json relations_json e"
    if "run_command env fs (EnvelopePlan schema_path plan_path relations_path) = Inr out"
    using that
    unfolding run_command.simps cli_envelope_plan_def rbind_eq_Inr texts relations with_context_ok cli_core_ok
      envelope_made_def by blast
qed

text \<open>Both make the same value, each in its own writing, or both refuse.\<close>

definition same_outcome ::
  "(data_error \<Rightarrow> 'e) \<Rightarrow> 'v text_writer \<Rightarrow> 'v text_writer \<Rightarrow> 'e + string \<Rightarrow> string cli \<Rightarrow> bool"
where
  "same_outcome raise write pretty binding printed \<longleftrightarrow>
     (\<exists>v. binding = serde_result raise (write v) \<and> printed = cli_print pretty v) \<or> isl binding \<and> isl printed"

lemma same_outcomeI:
  assumes "\<And>v. P v \<Longrightarrow> binding = serde_result raise (write v)" and "\<And>v. P v \<Longrightarrow> printed = cli_print pretty v"
    and "\<And>out. binding = Inr out \<Longrightarrow> \<exists>v. P v" and "\<And>out. printed = Inr out \<Longrightarrow> \<exists>v. P v"
  shows "same_outcome raise write pretty binding printed"
proof (cases "\<exists>v. P v")
  case True
  then show ?thesis using assms(1,2) unfolding same_outcome_def by blast
next
  case False
  then show ?thesis using assms(3,4) by (cases binding; cases printed) (auto simp: same_outcome_def)
qed

text \<open>
  C18. The command line and the bindings agree. On files that hold the texts a binding is given, the commands
  \<open>envelope-plan\<close> and \<open>plan-model-input\<close> make the envelope and the plan that the contract functions make, written
  in the indented form, or both refuse: although the bindings validate each text on its own first and the
  command line leaves that to the operation, neither accepts more than the other.
\<close>

theorem command_line_agrees:
  assumes "file_text fs schema_path = Some schema_json" "file_text fs plan_path = Some plan_json"
    and "file_text fs input_path = Some model_input_json" "file_text fs adapters_path = Some adapters_json"
    and "\<forall>path\<in>set_option relations_path. file_text fs path \<noteq> None"
    and "kd_request (cl_contracts env) request_json = Inr request" "request_of_args plan_id sources request"
  shows "same_outcome raise (ke_envelope (cl_contracts env)) (cl_envelope_pretty env)
      (build_coordinator_data_plan_envelope_json raise (cl_contracts env) schema_json plan_json
        (Option.bind relations_path (file_text fs)))
      (run_command env fs (EnvelopePlan schema_path plan_path relations_path)) \<and>
    same_outcome raise (ke_plan (cl_contracts env)) (cl_plan_pretty env)
      (plan_model_input_json raise (cl_contracts env) schema_json model_input_json adapters_json request_json)
      (run_command env fs (PlanModelInput schema_path input_path adapters_path plan_id sources))"
proof (intro conjI)
  note envelope = cli_envelope_made [OF assms(1,2,5) refl, where env = env]
  show "same_outcome raise (ke_envelope (cl_contracts env)) (cl_envelope_pretty env)
      (build_coordinator_data_plan_envelope_json raise (cl_contracts env) schema_json plan_json
        (Option.bind relations_path (file_text fs)))
      (run_command env fs (EnvelopePlan schema_path plan_path relations_path))"
    by (rule same_outcomeI [where P = "envelope_made (cl_contracts env) schema_json plan_json
          (Option.bind relations_path (file_text fs))"])
      (use build_envelope_made build_needs_envelope envelope in blast)+
  note plan = cli_plan_made [OF assms(1,3,4,7), where env = env]
  note binding = binding_plan_made [OF assms(6), where raise = raise]
  show "same_outcome raise (ke_plan (cl_contracts env)) (cl_plan_pretty env)
      (plan_model_input_json raise (cl_contracts env) schema_json model_input_json adapters_json request_json)
      (run_command env fs (PlanModelInput schema_path input_path adapters_path plan_id sources))"
    by (rule same_outcomeI [where P = "plan_made (cl_contracts env) schema_json model_input_json adapters_json request"])
      (use binding plan in blast)+
qed

section \<open>A plan and an envelope in texts\<close>

definition demo_writers :: envelope_writers where
  "demo_writers =
     \<lparr>kj_u32 = (\<lambda>n. JNumber (if n = 1 then ''1'' else ''2'')), kj_plan = (\<lambda>_. JObject []),
      kj_relations = (\<lambda>_. JArray []), kj_cohort = (\<lambda>_. JObject [])\<rparr>"

definition wire_reader :: "data_plan \<Rightarrow> relation_set option \<Rightarrow> json \<Rightarrow> envelope res" where
  "wire_reader plan relations v =
     (case map (\<lambda>key. Option.bind (json_member key v) json_as_str) [''schema_fingerprint'', ''plan_fingerprint''] of
        [Some schema_fp, Some plan_fp] \<Rightarrow>
          Inr \<lparr>en_schema_version = (if json_member ''schema_version'' v = Some (JNumber ''2'') then 2 else 1),
               en_schema_fingerprint = schema_fp, en_plan_fingerprint = plan_fp,
               en_relation_fingerprint = Option.bind (json_member ''relation_fingerprint'' v) json_as_str,
               en_data_content_fingerprint = Option.bind (json_member ''data_content_fingerprint'' v) json_as_str,
               en_target_content_fingerprint = Option.bind (json_member ''target_content_fingerprint'' v) json_as_str,
               en_plan = plan, en_coordinator_relations = relations, en_predict_cohort = None,
               en_metadata = (case json_member ''metadata'' v of Some (JObject m) \<Rightarrow> m | _ \<Rightarrow> [])\<rparr>
      | _ \<Rightarrow> Inl (Serialization ''missing field''))"

definition contracts_of :: "data_plan \<Rightarrow> envelope \<Rightarrow> contract_codecs" where
  "contracts_of plan e =
     \<lparr>kc_core = demo_codecs, kc_fold_set_value = (\<lambda>_. Inr JNull), kc_sort_objects = id,
      kc_value_bytes = (\<lambda>_. Inr []), kd_schema = (\<lambda>_. Inr demo_schema), kd_model_input = (\<lambda>_. Inr demo_input),
      kd_adapters = (\<lambda>_. Inr demo_adapters), kd_request = (\<lambda>_. Inr Planner_Soundness.demo_request),
      kd_plan = (\<lambda>_. Inr plan), kd_table = (\<lambda>_. Inr declared_table), kd_fold_set = (\<lambda>_. Inl ''syntax''),
      kd_value =
        (\<lambda>t. if t = ''envelope'' then Inr (JObject (bt_collect (envelope_members demo_writers e))) else Inl ''syntax''),
      kd_as_u64 = (\<lambda>v. if v = JNumber ''1'' then Some 1 else if v = JNumber ''2'' then Some 2 else None),
      kd_wire = wire_reader plan (en_coordinator_relations e), kd_custom = code,
      ke_plan = (\<lambda>p. if p = plan then Inr ''plan'' else Inl ''other plan''),
      ke_members =
        (\<lambda>ms. if ms = envelope_members demo_writers e then Inr ''envelope'' else Inl ''other envelope''),
      kj_envelope = demo_writers, ke_models = (\<lambda>_. Inr []),
      ke_representations = (\<lambda>_. Inr []), ke_adapters = (\<lambda>_. Inr []), ke_model_input = (\<lambda>_. Inr [])\<rparr>"

lemma contracts_of_fields:
  "kc_core (contracts_of plan e) = demo_codecs" "kd_schema (contracts_of plan e) t = Inr demo_schema"
  "kd_plan (contracts_of plan e) t = Inr plan" "kd_table (contracts_of plan e) t = Inr declared_table"
  "plan_read_back (contracts_of plan e) p"
  by (simp_all add: contracts_of_def plan_read_back_def)

lemma demo_members_written:
  "ke_envelope (contracts_of plan e) x = Inr t \<longleftrightarrow>
     envelope_members demo_writers x = envelope_members demo_writers e \<and> t = ''envelope''"
  by (auto simp: ke_envelope_def contracts_of_def)

lemma demo_read_back:
  assumes "assembled demo_codecs demo_schema plan relations e" and "assembled demo_codecs demo_schema plan relations x"
  shows "envelope_read_back (contracts_of plan e) x"
proof -
  have "x = e"
    using assms by (cases x; cases e) (auto simp: assembled_def split: option.splits)
  let ?ms = "envelope_members demo_writers e"
  have fresh: "distinct (map fst ?ms)" by (simp add: envelope_members_def optional_member_def split: option.split)
  have found: "map_of (bt_collect ?ms) key = map_of ?ms key" for key
    by (simp add: bt.get_collect_distinct [OF fresh])
  have "wire_reader plan (en_coordinator_relations e) (JObject (bt_collect ?ms)) = Inr e"
    using assms(1) unfolding wire_reader_def json_member_def json.case found
    by (cases e) (auto simp: envelope_members_def optional_member_def demo_writers_def assembled_def split: option.split)
  moreover have "fst ` set (bt_collect ?ms) = fst ` set ?ms"
    using found by (metis dom_map_of_conv_image_fst ext)
  ultimately show ?thesis
    unfolding envelope_read_back_def demo_members_written \<open>x = e\<close> by (simp add: contracts_of_def)
qed

definition shell_of :: "data_plan \<Rightarrow> envelope \<Rightarrow> cli_env" where
  "shell_of plan e =
     \<lparr>cl_contracts = contracts_of plan e, cl_materialization = (\<lambda>_. Inl ''syntax''),
      cl_plan_pretty = (\<lambda>_. Inr ''the plan''), cl_envelope_pretty = (\<lambda>_. Inr ''the envelope''),
      cl_record_pretty = (\<lambda>_. Inr []), cl_registry_pretty = (\<lambda>_. Inr [])\<rparr>"

definition empty_files :: file_system where
  "empty_files = \<lparr>fs_files = (\<lambda>_. Some []), fs_failing = (\<lambda>_. False)\<rparr>"

lemma demo_made:
  "\<exists>plan e. plan_model_input (\<lambda>_. None) demo_schema demo_input demo_registry Planner_Soundness.demo_request = Inr plan \<and>
     envelope_from_parts demo_codecs demo_schema plan (Some declared_table) = Inr e \<and>
     assembled demo_codecs demo_schema plan (Some declared_table) e"
proof -
  obtain plan where plan: "plan_model_input (\<lambda>_. None) demo_schema demo_input demo_registry
      Planner_Soundness.demo_request = Inr plan"
    using demo_planned by blast
  have sound: "plan_declared demo_schema plan" "schema_ok (\<lambda>_. None) demo_schema"
    using planned_plan_declared [OF registry_from_spec_adapters_ok [OF demo_registered] plan] by simp_all
  then obtain e where "assembled demo_codecs demo_schema plan (Some declared_table) e"
    using assembled_exists [of demo_codecs demo_schema plan "Some declared_table"]
      declared_table_ok(1) declared_table_fingerprint
    by (auto simp: plan_declared_def table_declared_def)
  then have "envelope_from_parts demo_codecs demo_schema plan (Some declared_table) = Inr e"
    using from_parts_lemma [of demo_codecs "Some declared_table" demo_schema plan e] sound declared_table_ok by simp
  with plan \<open>assembled _ _ _ _ e\<close> show ?thesis by blast
qed

lemma demo_plan_text:
  assumes "plan_model_input (\<lambda>_. None) demo_schema demo_input demo_registry Planner_Soundness.demo_request = Inr plan"
  shows "plan_model_input_json raise (contracts_of plan e) s m a r = Inr ''plan''"
proof -
  have "plan_made (contracts_of plan e) s m a Planner_Soundness.demo_request plan"
    using assms demo_registered by (simp add: plan_made_def contracts_of_def)
  from binding_plan_made(1) [OF _ this, of r raise] show ?thesis by (simp add: contracts_of_def)
qed

theorem planned_texts_assemble_witness:
  "\<exists>plan e. let k = contracts_of plan e in
     plan_model_input_json id k ''schema'' ''input'' ''adapters'' ''request'' = Inr ''plan'' \<and>
     build_coordinator_data_plan_envelope_json id k ''schema'' ''plan'' (Some ''rows'') = Inr ''envelope'' \<and>
     validate_coordinator_data_plan_envelope_json id k ''envelope'' = Inr ()"
proof -
  obtain plan e where made: "plan_model_input (\<lambda>_. None) demo_schema demo_input demo_registry
      Planner_Soundness.demo_request = Inr plan" "assembled demo_codecs demo_schema plan (Some declared_table) e"
    using demo_made by blast
  let ?k = "contracts_of plan e"
  have planned: "plan_model_input_json id ?k ''schema'' ''input'' ''adapters'' ''request'' = Inr ''plan''"
    by (rule demo_plan_text [OF made(1)])
  have "(build_coordinator_data_plan_envelope_json id ?k ''schema'' ''plan'' (Some ''rows'') = Inr ''envelope'' \<longleftrightarrow>
      (\<forall>t. Some declared_table = Some t \<longrightarrow> table_declared demo_schema t) \<and>
      (\<exists>x. assembled (kc_core ?k) demo_schema plan (Some declared_table) x \<and> ke_envelope ?k x = Inr ''envelope'')) \<and>
    (build_coordinator_data_plan_envelope_json id ?k ''schema'' ''plan'' (Some ''rows'') = Inr ''envelope'' \<longrightarrow>
      validate_coordinator_data_plan_envelope_json id ?k ''envelope'' = Inr ())"
    by (rule planned_texts_assemble [OF planned])
      (use demo_read_back [OF made(2)] declared_table_ok(2) in \<open>auto simp: contracts_of_fields relations_read_def\<close>)
  moreover have "ke_envelope ?k e = Inr ''envelope''" by (simp only: demo_members_written simp_thms)
  ultimately show ?thesis using planned made(2) declared_table_ok(1) contracts_of_fields(1) by (auto simp: Let_def)
qed

theorem command_line_agrees_witness:
  "\<exists>plan e. run_command (shell_of plan e) empty_files (PlanModelInput ''s'' ''m'' ''a'' ''plan'' []) = Inr ''the plan'' \<and>
     run_command (shell_of plan e) empty_files (EnvelopePlan ''s'' ''p'' (Some ''t'')) = Inr ''the envelope'' \<and>
     plan_model_input_json id (contracts_of plan e) [] [] [] ''request'' = Inr ''plan'' \<and>
     build_coordinator_data_plan_envelope_json id (contracts_of plan e) [] [] (Some []) = Inr ''envelope''"
proof -
  obtain plan e where made: "plan_model_input (\<lambda>_. None) demo_schema demo_input demo_registry
      Planner_Soundness.demo_request = Inr plan"
      "envelope_from_parts demo_codecs demo_schema plan (Some declared_table) = Inr e"
    using demo_made by blast
  let ?k = "contracts_of plan e" and ?sh = "shell_of plan e"
  have blank_file: "file_text empty_files path = Some []" for path
    by (simp add: file_text_def fs_read_def empty_files_def string_of_bytes_def)
  have k: "cl_contracts ?sh = ?k" by (simp add: shell_of_def)
  have request: "kd_request (cl_contracts ?sh) ''request'' = Inr Planner_Soundness.demo_request"
      "request_of_args ''plan'' [] Planner_Soundness.demo_request"
    by (simp_all add: k contracts_of_def request_of_args_def Planner_Soundness.demo_request_def data_plan_request_new_def)
  have "\<forall>path\<in>set_option (Some ''t''). file_text empty_files path \<noteq> None" by (simp add: blank_file)
  note agree = command_line_agrees [OF blank_file blank_file blank_file blank_file this request,
      where schema_path = "''s''" and plan_path = "''p''" and input_path = "''m''" and adapters_path = "''a''" and raise = id]
  have planned: "plan_model_input_json id ?k [] [] [] ''request'' = Inr ''plan''" by (rule demo_plan_text [OF made(1)])
  have "envelope_made ?k [] [] (Some []) e"
    using made(2) by (auto simp: envelope_made_def contracts_of_def relations_read_def)
  from build_envelope_made [OF this, of id]
  have built: "build_coordinator_data_plan_envelope_json id ?k [] [] (Some []) = Inr ''envelope''"
    by (simp only: demo_members_written serde_result_ok simp_thms)
  have pretty: "cli_print (cl_plan_pretty ?sh) p = Inr ''the plan''"
      "cli_print (cl_envelope_pretty ?sh) x = Inr ''the envelope''" for p x
    by (simp_all add: shell_of_def cli_print_def)
  have "run_command ?sh empty_files (PlanModelInput ''s'' ''m'' ''a'' ''plan'' []) = Inr ''the plan''"
      "run_command ?sh empty_files (EnvelopePlan ''s'' ''p'' (Some ''t'')) = Inr ''the envelope''"
    using agree unfolding k same_outcome_def pretty by (simp_all add: blank_file planned built)
  then show ?thesis using planned built by blast
qed

end
