(* ===== verification/R_Provider.thy ===== *)
theory R_Provider
  imports Json_Provider C_Boundary
begin

text \<open>
  The provider of the R bindings (\<open>dag-ml-data-r/src/rust/src/lib.rs\<close>): the facade of \<open>Json_Provider\<close> with absent
  arguments written as blank strings and errors thrown as the text of their descriptor.
\<close>

section \<open>Arguments and errors\<close>

definition r_optional :: "string \<Rightarrow> string option" where
  "r_optional v = (if trim v = [] then None else Some v)"

text \<open>The error of R, or the value: \<open>error_message\<close> is the payload that the C ABI stores as well.\<close>

definition unwrap_or_throw :: "messages \<Rightarrow> 'a res \<Rightarrow> string + 'a" where
  "unwrap_or_throw ms r = (case r of Inl e \<Rightarrow> Inl (error_payload ms e) | Inr v \<Rightarrow> Inr v)"

lemma unwrap_ok: "unwrap_or_throw ms r = Inr v \<longleftrightarrow> r = Inr v"
  by (simp add: unwrap_or_throw_def split: sum.split)

section \<open>The provider\<close>

definition r_new ::
  "messages \<Rightarrow> external \<Rightarrow> Json_Provider.codecs \<Rightarrow> string \<Rightarrow> string \<Rightarrow> string \<Rightarrow> string \<Rightarrow> string + provider"
where
  "r_new ms ex c envelope_json target_tables_json feature_tables_json f64_feature_matrices_json =
     unwrap_or_throw ms
       (from_json ex c envelope_json (r_optional target_tables_json) (r_optional feature_tables_json)
          (r_optional f64_feature_matrices_json))"

definition r_materialize ::
  "messages \<Rightarrow> external \<Rightarrow> Json_Provider.codecs \<Rightarrow> string \<Rightarrow> provider \<Rightarrow> (string + string) \<times> provider"
where
  "r_materialize ms ex c request_json p = map_prod (unwrap_or_throw ms) id (json_materialize ex c request_json p)"

definition r_make_view ::
  "messages \<Rightarrow> external \<Rightarrow> Json_Provider.codecs \<Rightarrow> string \<Rightarrow> string \<Rightarrow> provider \<Rightarrow> (string + string) \<times> provider"
where
  "r_make_view ms ex c data_handle view_json p =
     map_prod (unwrap_or_throw ms) id (json_make_view ex c data_handle view_json p)"

definition r_view_identity :: "messages \<Rightarrow> Json_Provider.codecs \<Rightarrow> string \<Rightarrow> provider \<Rightarrow> string + string" where
  "r_view_identity ms c view_handle p = unwrap_or_throw ms (json_view_identity c view_handle p)"

definition r_target_block :: "messages \<Rightarrow> Json_Provider.codecs \<Rightarrow> string \<Rightarrow> string \<Rightarrow> provider \<Rightarrow> string + string" where
  "r_target_block ms c view_handle target_id p = unwrap_or_throw ms (json_target_block c view_handle target_id p)"

definition r_feature_block :: "messages \<Rightarrow> Json_Provider.codecs \<Rightarrow> string \<Rightarrow> string \<Rightarrow> provider \<Rightarrow> string + string" where
  "r_feature_block ms c view_handle feature_set_id p =
     unwrap_or_throw ms (json_feature_block c view_handle feature_set_id p)"

definition r_feature_collation ::
  "messages \<Rightarrow> Json_Provider.codecs \<Rightarrow> (nat \<Rightarrow> bool) \<Rightarrow> string \<Rightarrow> string \<Rightarrow> (nat \<Rightarrow> provider) \<Rightarrow> string + string"
where
  "r_feature_collation ms c can_reserve view_handle selector_json states =
     unwrap_or_throw ms (json_feature_collation c can_reserve view_handle selector_json states)"

definition r_feature_buffer_manifests ::
  "messages \<Rightarrow> (u8 list \<Rightarrow> u8 list) \<Rightarrow> Json_Provider.codecs \<Rightarrow> provider \<Rightarrow> string + string"
where
  "r_feature_buffer_manifests ms sha256 c p = unwrap_or_throw ms (json_buffer_manifests sha256 c p)"

definition r_data_feature_buffer_bindings ::
  "messages \<Rightarrow> Json_Provider.codecs \<Rightarrow> string \<Rightarrow> provider \<Rightarrow> string + string"
where
  "r_data_feature_buffer_bindings ms c data_handle p = unwrap_or_throw ms (json_buffer_bindings c data_handle p)"

definition r_release :: "messages \<Rightarrow> string \<Rightarrow> provider \<Rightarrow> (string + bool) \<times> provider" where
  "r_release ms handle p = map_prod (unwrap_or_throw ms) id (json_release handle p)"

section \<open>Construction\<close>

text \<open>
  A blank argument reads as an absent one in the facade too, so \<open>r_optional\<close> changes nothing; and an R
  provider is one of the reachable providers of which \<open>Provider_Safety\<close> speaks.
\<close>

lemma r_optional_redundant: "parse_json_array decode (r_optional v) = parse_json_array decode (Some v)"
  by (simp add: parse_json_array_def r_optional_def)

lemma r_new_texts:
  "r_new ms ex c envelope_json targets tables matrices =
     unwrap_or_throw ms (from_json ex c envelope_json (Some targets) (Some tables) (Some matrices))"
  by (simp add: r_new_def from_json_def Json_Provider.parse_target_tables_def parse_feature_store_def
      r_optional_redundant)

lemma r_new_reachable:
  "r_new ms ex c envelope_json targets tables matrices = Inr p \<Longrightarrow>
   \<exists>S. store_ok S \<and> provider_reachable ex S [] p"
  unfolding r_new_texts unwrap_ok using json_provider_reachable by blast

end
