(* ===== verification/Spec2Isabelle.thy ===== *)
theory Spec2Isabelle
  imports
    Data_Error Alignment Relations Fingerprints Coordinator Data_Plan Predict_Cohort Envelope Data_View
    Axis_Coordinates Schema_Model Builtin_Models Representation_Registry Planner Planner_Soundness
    Aggregation Collation Fusion Fused_Blocks Source_Layouts
    Content_Hash Feature_Buffers Buffer_Content Buffer_Arena Buffer_File Buffer_File_Roundtrip
    File_System Fitted_Adapters Fitted_Store Nd_Tensor Nd_Gather
    Envelope_Assembly Planned_Envelope Search_Bound
    Provider Provider_Safety Provider_Service Provider_Fusion Provider_Demo Json_Provider
    Borrowed_Views Strided_Gather C_Values C_Ownership C_Boundary C_Entries C_Stores C_Providers C_Vtable
    C_Contract C_Fetcher C_Session C_Hosting C_Barrier C_Demo Arrow_Ipc Arrow_Cuts
    Contract_Bindings Command_Line Contract_Pipeline R_Provider
    Boxed_Values Arrow_Arrays Arrow_Export Arrow_Buffers Arrow_Roundtrip Arrow_Tables
    Handle_Arena Arena_Safety Materialization Coordinator_Tables Adapters Adapter_Search Sample_Campaign
begin

text \<open>
  A verification development for the core crate of dag-ml-data (\<open>src/crates/dag-ml-data-core/src\<close>), its
  in-memory provider (\<open>src/crates/dag-ml-data-provider/src\<close>), its C ABI
  (\<open>src/crates/dag-ml-data-capi/src/lib.rs\<close>), its Arrow IPC bridge
  (\<open>src/crates/dag-ml-data-arrow/src/lib.rs\<close>), its Python and R bindings and its command line
  (\<open>src/crates/dag-ml-data-py\<close>, \<open>dag-ml-data-r\<close>, \<open>dag-ml-data-cli\<close>).

  \<^bold>\<open>The program.\<close> The core crate decides which rows of a dataset a node of a training graph may see. A
  planner turns a dataset schema into a data plan, choosing adapters between representations
  (\<open>adapter.rs\<close>, \<open>plan.rs\<close>); an envelope carries the plan with the fingerprints of what it was made
  from, the relations between observations, samples, groups and augmentation origins, and possibly a
  prediction cohort (\<open>coordinator.rs\<close>, \<open>predict_cohort.rs\<close>, \<open>relation.rs\<close>, \<open>fingerprint.rs\<close>); a
  coordinator materializes data handles from the envelope in an arena, derives views from them and
  projects target and feature tables on the views (\<open>handle.rs\<close>). Numeric features and tensors live in
  stores of their own (\<open>buffer.rs\<close>, \<open>nd_tensor.rs\<close>) that a provider joins with the arena under one lock
  (provider \<open>lib.rs\<close>); the C ABI puts providers behind opaque pointers and hands their data to a host as
  strings, tensors and Arrow tables. The guarantees are about leakage: which rows a fold may train on,
  which a test cohort keeps apart, and what a handle can never reach; and about ownership: what the host
  is given, it can read and give back.

  \<^bold>\<open>The theories\<close>, in dependency order:
  \<^item> \<open>Rust_Prelude\<close>: results with early return, loops that stop at the first error, stable sorting;
    the collection \<open>res_simps\<close> says when each succeeds.
  \<^item> \<open>Rust_Collections\<close>: \<open>BTreeMap\<close> and \<open>BTreeSet\<close> as sorted association lists. The locale
    \<open>ordered_map\<close> states the contract of the map, and its interpretation \<open>bt\<close> discharges it for the
    list operations, so clients use \<open>bt.get_collect_distinct\<close> and \<open>bt.collect_order_irrelevant\<close>.
  \<^item> \<open>Rust_Text\<close>, \<open>Rust_Values\<close>: strings as their UTF-8 bytes with \<open>trim\<close>, \<open>is_control\<close> and the
    ASCII classes; fixed-width integers with their checked operations, \<open>f64\<close> as its bits, JSON.
  \<^item> \<open>Data_Error\<close> (\<open>error.rs\<close>, \<open>ids.rs\<close>): the errors with their ADR-11 taxonomy and packed code, and
    identifiers.
  \<^item> \<open>Alignment\<close> (\<open>alignment.rs\<close>): aligning the samples of several sources in three modes.
  \<^item> \<open>Relations\<close> (\<open>relation.rs\<close>): relation tables, fold sets and the leakage audit.
  \<^item> \<open>Fingerprints\<close> (\<open>fingerprint.rs\<close>): the canonical orders and the text of fingerprints.
  \<^item> \<open>Coordinator\<close> (\<open>coordinator.rs\<close>): coordinator relations, unit identities, relation sets, their
    conversion from a relation table, and branch views.
  \<^item> \<open>Data_Plan\<close> (\<open>plan.rs\<close>): plans and the validator of their data flow.
  \<^item> \<open>Predict_Cohort\<close> (\<open>predict_cohort.rs\<close>) and \<open>Envelope\<close> (\<open>coordinator.rs\<close>): self-certifying
    cohorts and the envelope validator.
  \<^item> \<open>Data_View\<close> (\<open>model.rs\<close>, \<open>handle.rs\<close>): view validation and filtering.
  \<^item> \<open>Handle_Arena\<close>, \<open>Arena_Safety\<close>, \<open>Materialization\<close>, \<open>Coordinator_Tables\<close> (\<open>handle.rs\<close>): the
    arena with its operations, its step relation \<open>arena_step\<close> and invariant, what materialization
    grants, and the projection of target and feature tables.
  \<^item> \<open>Adapters\<close>, \<open>Adapter_Search\<close> (\<open>adapter.rs\<close>): the adapter registry and the search for a path.
  \<^item> \<open>Axis_Coordinates\<close>, \<open>Schema_Model\<close> (\<open>model.rs\<close>): axes with typed coordinates, time stamps,
    representations, shape contracts, sources and dataset schemas.
  \<^item> \<open>Builtin_Models\<close> (\<open>builtin_models.rs\<close>), \<open>Representation_Registry\<close>
    (\<open>representation_registry.rs\<close>): the catalogue of representations and adapters, and the registry
    that says which of them may be emitted.
  \<^item> \<open>Planner\<close>, \<open>Planner_Soundness\<close> (\<open>planner.rs\<close>): from a schema and a model input to a data plan.
  \<^item> \<open>Aggregation\<close> (\<open>aggregation.rs\<close>), \<open>Collation\<close> (\<open>collation.rs\<close>): the ADR-07 reducers, and padding
    and truncation of ragged numeric rows.
  \<^item> \<open>Fusion\<close>, \<open>Fused_Blocks\<close>, \<open>Source_Layouts\<close> (\<open>fusion.rs\<close>): fusing the feature blocks of several
    sources along an alignment, what the result is, and the layouts that describe its columns.
  \<^item> \<open>Content_Hash\<close> (\<open>content_hash.rs\<close>), \<open>Feature_Buffers\<close>, \<open>Buffer_Content\<close>, \<open>Buffer_Arena\<close> (\<open>buffer.rs\<close>):
    feature buffers, their fingerprints, their store and the arena that binds them to data handles.
  \<^item> \<open>Buffer_File\<close>, \<open>Buffer_File_Roundtrip\<close> (\<open>buffer_file_store.rs\<close>), \<open>File_System\<close>: the binary file of a
    store; whole files read and written by path.
  \<^item> \<open>Nd_Tensor\<close>, \<open>Nd_Gather\<close> (\<open>nd_tensor.rs\<close>): dense tensors keyed by observation, their store and arena.
  \<^item> \<open>Fitted_Adapters\<close>, \<open>Fitted_Store\<close> (\<open>fitted_adapter.rs\<close>): references to fitted adapters, manifests,
    and the store of opaque handles with the log that specifies it.
  \<^item> \<open>Envelope_Assembly\<close>, \<open>Planned_Envelope\<close> (\<open>coordinator.rs\<close>, \<open>fingerprint.rs\<close>): envelopes made from
    their parts, and from a plan of the planner. \<open>Search_Bound\<close>: the steps of the adapter search.
  \<^item> \<open>Provider\<close>, \<open>Provider_Safety\<close>, \<open>Provider_Service\<close>, \<open>Provider_Fusion\<close> (provider \<open>lib.rs\<close>): the provider,
    its step relation \<open>provider_step\<close> and invariant, what it serves, and reads that interleave with other
    clients. The lock is the option around its arenas, \<open>None\<close> when poisoned. \<open>Json_Provider\<close> (\<open>json.rs\<close>):
    the facade with JSON texts and decimal handles.
  \<^item> \<open>Borrowed_Views\<close>, \<open>Strided_Gather\<close> (capi \<open>lib.rs\<close>): what is read from the memory of the host.
  \<^item> \<open>Boxed_Values\<close>, \<open>Arrow_Arrays\<close>, \<open>Arrow_Export\<close>, \<open>Arrow_Buffers\<close>, \<open>Arrow_Roundtrip\<close>, \<open>Arrow_Tables\<close>
    (capi \<open>lib.rs\<close>): boxes behind raw pointers, the Arrow C data interface with its release functions, the
    exported tables, and the consumer's side.
  \<^item> \<open>C_Values\<close>, \<open>C_Ownership\<close> (capi \<open>lib.rs\<close>): strings, slices and tensors that the host owns until it
    frees them.
  \<^item> \<open>C_Boundary\<close>, \<open>C_Entries\<close>, \<open>C_Stores\<close>, \<open>C_Providers\<close>, \<open>C_Vtable\<close> (capi \<open>lib.rs\<close>): the state of a host
    thread (last error, values handed over, exported tables, hosted stores and providers, calls back into
    the host), the monad of calls, and every entry point: validators, Arrow and collation requests, stores
    of fitted adapters, constructors of providers, the callbacks of their vtable, manifests and exports.
  \<^item> \<open>C_Contract\<close>, \<open>C_Fetcher\<close>, \<open>C_Session\<close>, \<open>C_Hosting\<close>, \<open>C_Barrier\<close>: what each entry point keeps, and
    what follows for sessions (\<open>c_session\<close>), any sequence of calls and frees. A call that breaks its
    safety contract, or would panic across the boundary, has no outcome (\<open>None\<close>) and is no step.
  \<^item> \<open>Arrow_Ipc\<close>, \<open>Arrow_Cuts\<close> (\<open>dag-ml-data-arrow/src/lib.rs\<close>): feature buffers read from Arrow record batches,
    and the irrelevance of where a feature set is cut into batches (\<open>ipc_cuts_do_not_matter\<close>).
  \<^item> \<open>Contract_Bindings\<close> (\<open>dag-ml-data-py/src/lib.rs\<close>): the JSON contract functions and their exceptions;
    \<open>Command_Line\<close> (\<open>dag-ml-data-cli/src/main.rs\<close>): the commands; \<open>Contract_Pipeline\<close>: working through texts;
    \<open>R_Provider\<close> (\<open>dag-ml-data-r/src/rust/src/lib.rs\<close>): the provider of the R bindings.
  \<^item> \<open>Sample_Campaign\<close>, \<open>Provider_Demo\<close>, \<open>C_Demo\<close>: a small concrete campaign, served by a provider and driven
    through the C ABI, on which the properties are instantiated.

  \<^bold>\<open>How the model reads.\<close> A struct is a record whose fields carry a prefix, an enum a datatype, a
  \<open>Result\<close> a sum with the error on the left; every early return of a function is a branch in the same
  order. Validation messages are abbreviated to labels. A handle is a \<open>64 word\<close> and its counter wraps;
  \<open>arena_step\<close> does not mint past the last handle, where a debug build panics. The \<open>RefCell\<close> fields of
  the arena are one record that each operation returns updated. Third-party code is a parameter: the
  serialization of each fingerprinted value, SHA-256, the decoding of a native filter and the
  equality of JSON values are the fields of the record \<open>external\<close>, with hypotheses only on the length
  of a digest; the readers and writers of \<open>serde_json\<close>, the texts of error descriptors, the allocator and
  the reader of Arrow IPC files are those of \<open>c_env\<close>. Addresses of boxes are never reused in the model, so a pointer to a freed box
  stays distinguishable from a live one.

  \<^bold>\<open>What is shown.\<close> For each validator a theorem says exactly what it accepts
  (\<open>fold_set_validate_iff\<close>, \<open>validate_fold_set_iff\<close>, \<open>relation_set_validate_iff\<close>,
  \<open>data_plan_validate_iff\<close>, \<open>envelope_validate_iff\<close>, \<open>validate_values_iff\<close>,
  \<open>dataset_schema_validate_iff\<close>, \<open>against_registry_iff\<close>, \<open>aggregation_validate_iff\<close>,
  \<open>layout_validate_iff\<close>); on top of them come the
  leakage theorems (\<open>validate_fold_set_no_leak\<close>, \<open>validate_disjoint_barrier\<close>). The arena invariant
  \<open>arena_wf\<close> is kept by every operation; the locale \<open>handle_store\<close> proves once that a dead handle
  stays dead, and its interpretations \<open>arena\<close> and \<open>fitted\<close> give it for both kinds of handles; the
  locale \<open>handle_bindings\<close> does the same for the bindings of buffers and tensors, \<open>release_protocol\<close> for
  Arrow arrays and schemas, \<open>byte_sink\<close> for the buffered hasher and \<open>last_error_protocol\<close> for the calls
  of the C ABI.
  \<open>training_handles_avoid_test_cohort\<close> joins envelope validation, materialization, views and release:
  no view of a training handle ever identifies a row of the external test cohort. The path search
  terminates by the weight of its heap (a tree bound on the states that can still be pushed), returns
  only admissible paths with exact totals, and loses no best path. Order independence of
  fingerprints, of the conversion and of registration is proved as equality of results on
  permutations of the input. \<open>origin_chain_accepted\<close> records a limit of the audit: it follows
  augmentation origins one step only.

  The planner always returns a plan that its own validator accepts (\<open>planner_output_valid\<close>) and
  succeeds exactly when every port resolves (\<open>planner_succeeds_iff\<close>); the built-in catalogue is
  well-formed and its adapters reach the numeric table (\<open>builtin_catalogue\<close>,
  \<open>builtin_models_reach_table\<close>). Collation and fusion are described cell by cell
  (\<open>collate_numeric_block_iff\<close>, \<open>fuse_feature_blocks_iff\<close>), and the components compose: an alignment
  built from the blocks always fuses (\<open>built_alignment_fuses\<close>), and a validated layout names the
  columns of the fused block (\<open>layout_describes_fusion\<close>).

  A stored file reads back as the store and no file makes the reader panic (\<open>file_round_trip\<close>,
  \<open>deserialize_never_panics\<close>); projecting a tensor and gathering a strided one copy exactly the cells they
  should, within range (\<open>nd_projection_gathers\<close>, \<open>strided_gather_exact\<close>), with one exception that ends
  the process: a gathered tensor beyond \<open>isize::MAX\<close> out of overlapping strides
  (\<open>strided_gather_aborts_iff\<close>). A provider keeps its arenas in step, serves no sample of the
  test cohort on a training view (\<open>served_blocks_avoid_test_cohort\<close>), forgets released handles in every table
  and refuses them in every operation that reads rows (\<open>released_handle_unknown_everywhere\<close>),
  and fusion answers as if it had taken the lock once (\<open>fusion_linearizes\<close>). Exported Arrow tables say
  what was exported and are freed exactly (\<open>feature_table_round_trip\<close>, \<open>identity_table_round_trip\<close>);
  an export that fails leaks (\<open>failed_feature_export_leaks\<close>).

  For sessions with the C ABI: every provider behind a live pointer is sound
  (\<open>session_providers_sound\<close>); the host can give back every string, slice and tensor it holds,
  and then none of these stays allocated (\<open>session_gives_back\<close>; the boxes of Arrow tables are not part of
  it, since a refused export leaks them); the last error is that of the last refusal
  (\<open>last_error_of_last_refusal\<close>); a fetcher is destroyed exactly once (\<open>fetcher_destroyed_once\<close>); and
  \<open>exported_tables_avoid_test_cohort\<close> carries the test set barrier from the envelope to the sample column
  that the host reads behind an exported pointer, fused tables included. Sessions that mint a handle ask
  for a 64-bit counter that has not run out (\<open>handles_left\<close>), and a fetcher in a session gives away none of
  its strings (\<open>quiet_fetcher\<close>): it reports refusals by the status alone, or with a string of length zero,
  which the library does not free although the contract of the fetcher says so.

  Through texts, what the planner returned assembles into an envelope whose text the code's own decoder
  takes and whose value validates (\<open>planned_texts_assemble\<close>, given that \<open>serde_json\<close> reads this plan and this
  envelope as they were written; an envelope of version 1 with a cohort is written but refused,
  \<open>cohort_text_refused\<close>), and the command line agrees with the bindings (\<open>command_line_agrees\<close>), though
  they validate at different places.

  \<^bold>\<open>Loops and bounds.\<close> The loops are structural recursions over lists, but for the adapter path search
  and the scan over UTF-8 groups, which are \<open>function\<close>s with a termination proof; the outer loop of the
  search ends within \<open>1 + E + ... + E ^ E\<close> iterations for \<open>E\<close> adapters (\<open>search_ends_within_bound\<close>). The
  release functions of the Arrow interface call each other through the objects; their recursion has the
  depth of the tree as fuel, where 2 is enough for every exported table, as the round trips show. Sums of
  scores are checked 64-bit additions; the completeness of the search assumes that the sum over the whole
  registry fits 64 bits. Sizes are natural numbers, with the checks against \<open>usize::MAX\<close>, \<open>isize::MAX\<close>
  and the 32-bit offsets of Arrow written out where the code has them.

  \<^bold>\<open>Not modelled.\<close> The browser bindings (\<open>dag-ml-data-wasm\<close>), whose contract functions repeat the bodies of
  the Python ones and whose provider forwards to the JSON facade; the constant manifests of the bindings and
  the registration of their functions; the facade crate, which re-exports. Host threads other than the
  caller enter as steps of \<open>provider_step\<close> in the provider's theories; a session of the C ABI is that of one thread. A panic under a mutex of the C ABI ends the
  process, so a poisoned lock is observable only in the provider itself.
\<close>

end
